(* ===== verification/Ntv2Prelude.thy ===== *)
theory Ntv2Prelude
  imports Main "HOL-Library.Word" "HOL-Library.Monad_Syntax"
begin

text \<open>
  Prelude of the development: names for the machine types of the C code, the fact
  collections its proofs use, and generic lemmas on words, lists and options.

  C integers: \<open>uint8_t\<close>, \<open>uint16_t\<close>, \<open>uint32_t\<close> (\<open>ULWord\<close>) and \<open>uint64_t\<close> are words;
  \<open>int32_t\<close> is an \<open>int\<close>, with \<open>s32\<close> and \<open>u32_of\<close> at the places where the code converts
  between the two; register numbers, array indices and enumeration codes that are only used
  as indices are \<open>nat\<close>.
\<close>

unbundle bit_operations_syntax

type_synonym u8 = "8 word"
type_synonym u16 = "16 word"
type_synonym u32 = "32 word"
type_synonym u64 = "64 word"

named_theorems reg_simps \<open>rewrite rules of the register bank\<close>
named_theorems ac_defs \<open>unfolding rules of the circulator's operations\<close>
named_theorems ring_simps \<open>rewrite rules of the frame ring\<close>

section \<open>Conversions between signed and unsigned 32-bit values\<close>

definition s32 :: "u32 \<Rightarrow> int" where
  "s32 w = sint w"

definition u32_of :: "int \<Rightarrow> u32" where
  "u32_of i = word_of_int i"

definition wrap32 :: "int \<Rightarrow> int" where
  "wrap32 i = s32 (u32_of i)"

lemma s32_u32_of [simp]: "- (2 ^ 31) \<le> i \<Longrightarrow> i < 2 ^ 31 \<Longrightarrow> s32 (u32_of i) = i"
  by (simp add: s32_def u32_of_def signed_of_int signed_take_bit_int_eq_self)

lemma u32_of_s32 [simp]: "u32_of (s32 w) = w"
  by (simp add: s32_def u32_of_def)

lemma wrap32_id [simp]: "- (2 ^ 31) \<le> i \<Longrightarrow> i < 2 ^ 31 \<Longrightarrow> wrap32 i = i"
  by (simp add: wrap32_def)

lemma uint_u32_of: "0 \<le> i \<Longrightarrow> i < 2 ^ 32 \<Longrightarrow> uint (u32_of i) = i"
  by (simp add: u32_of_def uint_word_of_int)

lemma unat_u32_of: "0 \<le> i \<Longrightarrow> i < 2 ^ 32 \<Longrightarrow> unat (u32_of i) = nat i"
  using uint_u32_of [of i] by (metis nat_uint_eq)

lemma s32_range: "- (2 ^ 31) \<le> s32 w \<and> s32 w < 2 ^ 31"
  using sint_lt [of w] sint_ge [of w] by (simp add: s32_def)

section \<open>Bit fields of words\<close>

text \<open>\<open>fld_mask w s\<close> is the mask of a field of \<open>w\<close> bits that starts at bit \<open>s\<close>.\<close>

definition fld_mask :: "nat \<Rightarrow> nat \<Rightarrow> u32" where
  "fld_mask w s = push_bit s (mask w)"

lemma bit_fld_mask: "bit (fld_mask w s) n \<longleftrightarrow> s \<le> n \<and> n < s + w \<and> n < 32"
  by (auto simp: fld_mask_def bit_simps)

lemma drop_bit_and_fld_mask: "drop_bit s (x AND fld_mask w s) = take_bit w (drop_bit s (x :: u32))"
  by (rule bit_word_eqI) (auto simp: bit_simps bit_fld_mask dest: bit_imp_le_length)

lemma take_bit_u32_less: "w < 32 \<Longrightarrow> unat (take_bit w (x :: u32)) < 2 ^ w"
  by (simp add: unsigned_take_bit_eq)

section \<open>Array accesses\<close>

text \<open>
  A read of a C array is \<open>arr_get\<close> and a write is \<open>arr_set\<close>: \<open>None\<close> is an access outside the
  array, which is undefined behaviour in C.
\<close>

definition arr_get :: "'a list \<Rightarrow> int \<Rightarrow> 'a option" where
  "arr_get xs i = (if 0 \<le> i \<and> i < int (length xs) then Some (xs ! nat i) else None)"

definition arr_set :: "'a list \<Rightarrow> int \<Rightarrow> 'a \<Rightarrow> 'a list option" where
  "arr_set xs i x = (if 0 \<le> i \<and> i < int (length xs) then Some (xs[nat i := x]) else None)"

lemma arr_get_Some: "0 \<le> i \<Longrightarrow> i < int (length xs) \<Longrightarrow> arr_get xs i = Some (xs ! nat i)"
  by (simp add: arr_get_def)

lemma arr_set_Some: "0 \<le> i \<Longrightarrow> i < int (length xs) \<Longrightarrow> arr_set xs i x = Some (xs[nat i := x])"
  by (simp add: arr_set_def)

lemma arr_get_eq_Some_iff:
  "arr_get xs i = Some x \<longleftrightarrow> 0 \<le> i \<and> i < int (length xs) \<and> x = xs ! nat i"
  by (auto simp: arr_get_def)

lemma arr_set_eq_Some_iff:
  "arr_set xs i x = Some ys \<longleftrightarrow> 0 \<le> i \<and> i < int (length xs) \<and> ys = xs[nat i := x]"
  by (auto simp: arr_set_def)

lemma arr_get_set: "arr_set xs i x = Some ys \<Longrightarrow> arr_get ys j = (if j = i then Some x else arr_get xs j)"
  by (auto simp: arr_set_eq_Some_iff arr_get_def nth_list_update)

lemma arr_set_length: "arr_set xs i x = Some ys \<Longrightarrow> length ys = length xs"
  by (auto simp: arr_set_eq_Some_iff)

text \<open>
  The constant tables of the driver are lists. A read beyond the end of a table is undefined
  behaviour in C; \<open>tbl\<close> leaves its value unspecified.
\<close>

definition tbl :: "'a list \<Rightarrow> nat \<Rightarrow> 'a" where
  "tbl xs i = (if i < length xs then xs ! i else undefined)"

lemma tbl_nth [simp]: "i < length xs \<Longrightarrow> tbl xs i = xs ! i"
  by (simp add: tbl_def)

end
