(* ===== verification/Ntv2Constants.thy ===== *)
theory Ntv2Constants
  imports Ntv2Prelude
begin

text \<open>
  The constants of the SDK headers that the model names: register numbers, masks and shifts
  (ajantv2/includes/ntv2publicinterface.h, ntv2virtualregisters.h, ntv2audiodefines.h) and enumeration values
  (ntv2enums.h). They are input abbreviations, so a proof sees the number.
\<close>

abbreviation (input) ANC_EXT_1_OFFSET :: u32 where "ANC_EXT_1_OFFSET \<equiv> 4096"
abbreviation (input) ANC_EXT_2_OFFSET :: u32 where "ANC_EXT_2_OFFSET \<equiv> 4160"
abbreviation (input) ANC_EXT_3_OFFSET :: u32 where "ANC_EXT_3_OFFSET \<equiv> 4224"
abbreviation (input) ANC_EXT_4_OFFSET :: u32 where "ANC_EXT_4_OFFSET \<equiv> 4288"
abbreviation (input) ANC_EXT_5_OFFSET :: u32 where "ANC_EXT_5_OFFSET \<equiv> 4352"
abbreviation (input) ANC_EXT_6_OFFSET :: u32 where "ANC_EXT_6_OFFSET \<equiv> 4416"
abbreviation (input) ANC_EXT_7_OFFSET :: u32 where "ANC_EXT_7_OFFSET \<equiv> 4480"
abbreviation (input) ANC_EXT_8_OFFSET :: u32 where "ANC_EXT_8_OFFSET \<equiv> 4544"
abbreviation (input) ANC_INS_1_OFFSET :: u32 where "ANC_INS_1_OFFSET \<equiv> 4608"
abbreviation (input) ANC_INS_2_OFFSET :: u32 where "ANC_INS_2_OFFSET \<equiv> 4672"
abbreviation (input) ANC_INS_3_OFFSET :: u32 where "ANC_INS_3_OFFSET \<equiv> 4736"
abbreviation (input) ANC_INS_4_OFFSET :: u32 where "ANC_INS_4_OFFSET \<equiv> 4800"
abbreviation (input) ANC_INS_5_OFFSET :: u32 where "ANC_INS_5_OFFSET \<equiv> 4864"
abbreviation (input) ANC_INS_6_OFFSET :: u32 where "ANC_INS_6_OFFSET \<equiv> 4928"
abbreviation (input) ANC_INS_7_OFFSET :: u32 where "ANC_INS_7_OFFSET \<equiv> 4992"
abbreviation (input) ANC_INS_8_OFFSET :: u32 where "ANC_INS_8_OFFSET \<equiv> 5056"
abbreviation (input) AUTOCIRCULATE_FRAME_FIELD0 :: u32 where "AUTOCIRCULATE_FRAME_FIELD0 \<equiv> 0x200000"
abbreviation (input) AUTOCIRCULATE_FRAME_FIELD1 :: u32 where "AUTOCIRCULATE_FRAME_FIELD1 \<equiv> 0x400000"
abbreviation (input) AUTOCIRCULATE_FRAME_FULL :: u32 where "AUTOCIRCULATE_FRAME_FULL \<equiv> 0x100000"
abbreviation (input) AUTOCIRCULATE_WITH_FIELDS :: u32 where "AUTOCIRCULATE_WITH_FIELDS \<equiv> 256"
abbreviation (input) AUTOCIRCULATE_WITH_HDMIAUX :: u32 where "AUTOCIRCULATE_WITH_HDMIAUX \<equiv> 512"
abbreviation (input) AUTOCIRCVIDPROCMODE_HORZWIPE :: u32 where "AUTOCIRCVIDPROCMODE_HORZWIPE \<equiv> 1"
abbreviation (input) AUTOCIRCVIDPROCMODE_KEY :: u32 where "AUTOCIRCVIDPROCMODE_KEY \<equiv> 3"
abbreviation (input) AUTOCIRCVIDPROCMODE_MIX :: u32 where "AUTOCIRCVIDPROCMODE_MIX \<equiv> 0"
abbreviation (input) AUTOCIRCVIDPROCMODE_VERTWIPE :: u32 where "AUTOCIRCVIDPROCMODE_VERTWIPE \<equiv> 2"
abbreviation (input) AUX_EXT_1_OFFSET :: u32 where "AUX_EXT_1_OFFSET \<equiv> 7616"
abbreviation (input) AUX_EXT_2_OFFSET :: u32 where "AUX_EXT_2_OFFSET \<equiv> 7680"
abbreviation (input) AUX_EXT_3_OFFSET :: u32 where "AUX_EXT_3_OFFSET \<equiv> 7744"
abbreviation (input) AUX_EXT_4_OFFSET :: u32 where "AUX_EXT_4_OFFSET \<equiv> 7808"
abbreviation (input) AUX_INS_1_OFFSET :: u32 where "AUX_INS_1_OFFSET \<equiv> 4608"
abbreviation (input) AUX_INS_2_OFFSET :: u32 where "AUX_INS_2_OFFSET \<equiv> 4672"
abbreviation (input) AUX_INS_3_OFFSET :: u32 where "AUX_INS_3_OFFSET \<equiv> 4736"
abbreviation (input) AUX_INS_4_OFFSET :: u32 where "AUX_INS_4_OFFSET \<equiv> 4800"
abbreviation (input) BGKCROSSPOINTMASK :: u32 where "BGKCROSSPOINTMASK \<equiv> 0xF000"
abbreviation (input) BGKCROSSPOINTSHIFT :: nat where "BGKCROSSPOINTSHIFT \<equiv> 12"
abbreviation (input) BGVCROSSPOINTMASK :: u32 where "BGVCROSSPOINTMASK \<equiv> 0xF0"
abbreviation (input) BGVCROSSPOINTSHIFT :: nat where "BGVCROSSPOINTSHIFT \<equiv> 4"
abbreviation (input) BIT_0 :: u32 where "BIT_0 \<equiv> 0x1"
abbreviation (input) BIT_1 :: u32 where "BIT_1 \<equiv> 0x2"
abbreviation (input) BIT_11 :: u32 where "BIT_11 \<equiv> 0x800"
abbreviation (input) BIT_12 :: u32 where "BIT_12 \<equiv> 0x1000"
abbreviation (input) BIT_13 :: u32 where "BIT_13 \<equiv> 0x2000"
abbreviation (input) BIT_14 :: u32 where "BIT_14 \<equiv> 0x4000"
abbreviation (input) BIT_15 :: u32 where "BIT_15 \<equiv> 0x8000"
abbreviation (input) BIT_16 :: u32 where "BIT_16 \<equiv> 0x10000"
abbreviation (input) BIT_17 :: u32 where "BIT_17 \<equiv> 0x20000"
abbreviation (input) BIT_18 :: u32 where "BIT_18 \<equiv> 0x40000"
abbreviation (input) BIT_19 :: u32 where "BIT_19 \<equiv> 0x80000"
abbreviation (input) BIT_2 :: u32 where "BIT_2 \<equiv> 0x4"
abbreviation (input) BIT_20 :: u32 where "BIT_20 \<equiv> 0x100000"
abbreviation (input) BIT_21 :: u32 where "BIT_21 \<equiv> 0x200000"
abbreviation (input) BIT_23 :: u32 where "BIT_23 \<equiv> 0x800000"
abbreviation (input) BIT_29 :: u32 where "BIT_29 \<equiv> 0x20000000"
abbreviation (input) BIT_3 :: u32 where "BIT_3 \<equiv> 0x8"
abbreviation (input) BIT_30 :: u32 where "BIT_30 \<equiv> 0x40000000"
abbreviation (input) BIT_5 :: u32 where "BIT_5 \<equiv> 0x20"
abbreviation (input) BIT_6 :: u32 where "BIT_6 \<equiv> 0x40"
abbreviation (input) BIT_7 :: u32 where "BIT_7 \<equiv> 0x80"
abbreviation (input) BIT_8 :: u32 where "BIT_8 \<equiv> 0x100"
abbreviation (input) BIT_9 :: u32 where "BIT_9 \<equiv> 0x200"
abbreviation (input) DEVICE_ID_CORVID24 :: u32 where "DEVICE_ID_CORVID24 \<equiv> 0x10402100"
abbreviation (input) DEVICE_ID_CORVID44 :: u32 where "DEVICE_ID_CORVID44 \<equiv> 0x10565400"
abbreviation (input) DEVICE_ID_CORVID44_2X4K :: u32 where "DEVICE_ID_CORVID44_2X4K \<equiv> 0x10832402"
abbreviation (input) DEVICE_ID_CORVID44_8K :: u32 where "DEVICE_ID_CORVID44_8K \<equiv> 0x10832401"
abbreviation (input) DEVICE_ID_CORVID44_8KMK :: u32 where "DEVICE_ID_CORVID44_8KMK \<equiv> 0x10832400"
abbreviation (input) DEVICE_ID_CORVID44_PLNR :: u32 where "DEVICE_ID_CORVID44_PLNR \<equiv> 0x10832403"
abbreviation (input) DEVICE_ID_CORVID88 :: u32 where "DEVICE_ID_CORVID88 \<equiv> 0x10538200"
abbreviation (input) DEVICE_ID_CORVIDHBR :: u32 where "DEVICE_ID_CORVIDHBR \<equiv> 0x10668200"
abbreviation (input) DEVICE_ID_CORVIDHEVC :: u32 where "DEVICE_ID_CORVIDHEVC \<equiv> 0x10634500"
abbreviation (input) DEVICE_ID_IO4K :: u32 where "DEVICE_ID_IO4K \<equiv> 0x10478300"
abbreviation (input) DEVICE_ID_IO4KPLUS :: u32 where "DEVICE_ID_IO4KPLUS \<equiv> 0x10710800"
abbreviation (input) DEVICE_ID_IO4KUFC :: u32 where "DEVICE_ID_IO4KUFC \<equiv> 0x10478350"
abbreviation (input) DEVICE_ID_IOIP_2022 :: u32 where "DEVICE_ID_IOIP_2022 \<equiv> 0x10710850"
abbreviation (input) DEVICE_ID_IOIP_2110 :: u32 where "DEVICE_ID_IOIP_2110 \<equiv> 0x10710851"
abbreviation (input) DEVICE_ID_IOIP_2110_RGB12 :: u32 where "DEVICE_ID_IOIP_2110_RGB12 \<equiv> 0x10710852"
abbreviation (input) DEVICE_ID_IOX3 :: u32 where "DEVICE_ID_IOX3 \<equiv> 0x10920600"
abbreviation (input) DEVICE_ID_KONA1 :: u32 where "DEVICE_ID_KONA1 \<equiv> 0x10756600"
abbreviation (input) DEVICE_ID_KONA3GQUAD :: u32 where "DEVICE_ID_KONA3GQUAD \<equiv> 0x10322950"
abbreviation (input) DEVICE_ID_KONA4 :: u32 where "DEVICE_ID_KONA4 \<equiv> 0x10518400"
abbreviation (input) DEVICE_ID_KONA4UFC :: u32 where "DEVICE_ID_KONA4UFC \<equiv> 0x10518450"
abbreviation (input) DEVICE_ID_KONA5 :: u32 where "DEVICE_ID_KONA5 \<equiv> 0x10798400"
abbreviation (input) DEVICE_ID_KONA5_2X4K :: u32 where "DEVICE_ID_KONA5_2X4K \<equiv> 0x10798403"
abbreviation (input) DEVICE_ID_KONA5_3DLUT :: u32 where "DEVICE_ID_KONA5_3DLUT \<equiv> 0x10798404"
abbreviation (input) DEVICE_ID_KONA5_8K :: u32 where "DEVICE_ID_KONA5_8K \<equiv> 0x10798402"
abbreviation (input) DEVICE_ID_KONA5_8KMK :: u32 where "DEVICE_ID_KONA5_8KMK \<equiv> 0x10798401"
abbreviation (input) DEVICE_ID_KONA5_8K_MV_TX :: u32 where "DEVICE_ID_KONA5_8K_MV_TX \<equiv> 0x10798420"
abbreviation (input) DEVICE_ID_KONA5_OE1 :: u32 where "DEVICE_ID_KONA5_OE1 \<equiv> 0x10798405"
abbreviation (input) DEVICE_ID_KONA5_OE10 :: u32 where "DEVICE_ID_KONA5_OE10 \<equiv> 0x1079840E"
abbreviation (input) DEVICE_ID_KONA5_OE11 :: u32 where "DEVICE_ID_KONA5_OE11 \<equiv> 0x1079840F"
abbreviation (input) DEVICE_ID_KONA5_OE12 :: u32 where "DEVICE_ID_KONA5_OE12 \<equiv> 0x10798410"
abbreviation (input) DEVICE_ID_KONA5_OE2 :: u32 where "DEVICE_ID_KONA5_OE2 \<equiv> 0x10798406"
abbreviation (input) DEVICE_ID_KONA5_OE3 :: u32 where "DEVICE_ID_KONA5_OE3 \<equiv> 0x10798407"
abbreviation (input) DEVICE_ID_KONA5_OE4 :: u32 where "DEVICE_ID_KONA5_OE4 \<equiv> 0x10798408"
abbreviation (input) DEVICE_ID_KONA5_OE5 :: u32 where "DEVICE_ID_KONA5_OE5 \<equiv> 0x10798409"
abbreviation (input) DEVICE_ID_KONA5_OE6 :: u32 where "DEVICE_ID_KONA5_OE6 \<equiv> 0x1079840A"
abbreviation (input) DEVICE_ID_KONA5_OE7 :: u32 where "DEVICE_ID_KONA5_OE7 \<equiv> 0x1079840B"
abbreviation (input) DEVICE_ID_KONA5_OE8 :: u32 where "DEVICE_ID_KONA5_OE8 \<equiv> 0x1079840C"
abbreviation (input) DEVICE_ID_KONA5_OE9 :: u32 where "DEVICE_ID_KONA5_OE9 \<equiv> 0x1079840D"
abbreviation (input) DEVICE_ID_KONAHDMI :: u32 where "DEVICE_ID_KONAHDMI \<equiv> 0x10767400"
abbreviation (input) DEVICE_ID_KONAIP_1RX_1TX_1SFP_J2K :: u32 where "DEVICE_ID_KONAIP_1RX_1TX_1SFP_J2K \<equiv> 0x10646702"
abbreviation (input) DEVICE_ID_KONAIP_1RX_1TX_2110 :: u32 where "DEVICE_ID_KONAIP_1RX_1TX_2110 \<equiv> 0x10646705"
abbreviation (input) DEVICE_ID_KONAIP_2022 :: u32 where "DEVICE_ID_KONAIP_2022 \<equiv> 0x10646700"
abbreviation (input) DEVICE_ID_KONAIP_2110 :: u32 where "DEVICE_ID_KONAIP_2110 \<equiv> 0x10646706"
abbreviation (input) DEVICE_ID_KONAIP_2110_RGB12 :: u32 where "DEVICE_ID_KONAIP_2110_RGB12 \<equiv> 0x10646707"
abbreviation (input) DEVICE_ID_KONAIP_25G :: u32 where "DEVICE_ID_KONAIP_25G \<equiv> 0x11001400"
abbreviation (input) DEVICE_ID_KONAIP_25G_8CH :: u32 where "DEVICE_ID_KONAIP_25G_8CH \<equiv> 0x11001401"
abbreviation (input) DEVICE_ID_KONAIP_2TX_1SFP_J2K :: u32 where "DEVICE_ID_KONAIP_2TX_1SFP_J2K \<equiv> 0x10646703"
abbreviation (input) DEVICE_ID_KONAIP_4CH_2SFP :: u32 where "DEVICE_ID_KONAIP_4CH_2SFP \<equiv> 0x10646701"
abbreviation (input) DEVICE_ID_KONALHI :: u32 where "DEVICE_ID_KONALHI \<equiv> 0x10266400"
abbreviation (input) DEVICE_ID_KONAX :: u32 where "DEVICE_ID_KONAX \<equiv> 0x10958501"
abbreviation (input) DEVICE_ID_KONAXM :: u32 where "DEVICE_ID_KONAXM \<equiv> 0x10958500"
abbreviation (input) DEVICE_ID_KONAX_4CH :: u32 where "DEVICE_ID_KONAX_4CH \<equiv> 0x10958511"
abbreviation (input) DEVICE_ID_SOFTWARE :: u32 where "DEVICE_ID_SOFTWARE \<equiv> 0x534F4654"
abbreviation (input) DEVICE_ID_SOJI_3DLUT :: u32 where "DEVICE_ID_SOJI_3DLUT \<equiv> 0x10922400"
abbreviation (input) DEVICE_ID_SOJI_DIAGS :: u32 where "DEVICE_ID_SOJI_DIAGS \<equiv> 0x10922499"
abbreviation (input) DEVICE_ID_SOJI_OE1 :: u32 where "DEVICE_ID_SOJI_OE1 \<equiv> 0x10922401"
abbreviation (input) DEVICE_ID_SOJI_OE2 :: u32 where "DEVICE_ID_SOJI_OE2 \<equiv> 0x10922402"
abbreviation (input) DEVICE_ID_SOJI_OE3 :: u32 where "DEVICE_ID_SOJI_OE3 \<equiv> 0x10922403"
abbreviation (input) DEVICE_ID_SOJI_OE4 :: u32 where "DEVICE_ID_SOJI_OE4 \<equiv> 0x10922404"
abbreviation (input) DEVICE_ID_SOJI_OE5 :: u32 where "DEVICE_ID_SOJI_OE5 \<equiv> 0x10922405"
abbreviation (input) DEVICE_ID_SOJI_OE6 :: u32 where "DEVICE_ID_SOJI_OE6 \<equiv> 0x10922406"
abbreviation (input) DEVICE_ID_SOJI_OE7 :: u32 where "DEVICE_ID_SOJI_OE7 \<equiv> 0x10922407"
abbreviation (input) DEVICE_ID_TTAP_PRO :: u32 where "DEVICE_ID_TTAP_PRO \<equiv> 0x10879000"
abbreviation (input) FGKCROSSPOINTMASK :: u32 where "FGKCROSSPOINTMASK \<equiv> 0xF00"
abbreviation (input) FGKCROSSPOINTSHIFT :: nat where "FGKCROSSPOINTSHIFT \<equiv> 8"
abbreviation (input) FGVCROSSPOINTMASK :: u32 where "FGVCROSSPOINTMASK \<equiv> 0xF"
abbreviation (input) FGVCROSSPOINTSHIFT :: nat where "FGVCROSSPOINTSHIFT \<equiv> 0"
abbreviation (input) NTV2CROSSPOINT_CHANNEL1 :: nat where "NTV2CROSSPOINT_CHANNEL1 \<equiv> 0"
abbreviation (input) NTV2CROSSPOINT_CHANNEL2 :: nat where "NTV2CROSSPOINT_CHANNEL2 \<equiv> 1"
abbreviation (input) NTV2CROSSPOINT_CHANNEL3 :: nat where "NTV2CROSSPOINT_CHANNEL3 \<equiv> 6"
abbreviation (input) NTV2CROSSPOINT_CHANNEL4 :: nat where "NTV2CROSSPOINT_CHANNEL4 \<equiv> 7"
abbreviation (input) NTV2CROSSPOINT_CHANNEL5 :: nat where "NTV2CROSSPOINT_CHANNEL5 \<equiv> 10"
abbreviation (input) NTV2CROSSPOINT_CHANNEL6 :: nat where "NTV2CROSSPOINT_CHANNEL6 \<equiv> 11"
abbreviation (input) NTV2CROSSPOINT_CHANNEL7 :: nat where "NTV2CROSSPOINT_CHANNEL7 \<equiv> 12"
abbreviation (input) NTV2CROSSPOINT_CHANNEL8 :: nat where "NTV2CROSSPOINT_CHANNEL8 \<equiv> 13"
abbreviation (input) NTV2CROSSPOINT_FGKEY :: nat where "NTV2CROSSPOINT_FGKEY \<equiv> 5"
abbreviation (input) NTV2CROSSPOINT_INPUT1 :: nat where "NTV2CROSSPOINT_INPUT1 \<equiv> 2"
abbreviation (input) NTV2CROSSPOINT_INPUT2 :: nat where "NTV2CROSSPOINT_INPUT2 \<equiv> 3"
abbreviation (input) NTV2CROSSPOINT_INPUT3 :: nat where "NTV2CROSSPOINT_INPUT3 \<equiv> 8"
abbreviation (input) NTV2CROSSPOINT_INPUT4 :: nat where "NTV2CROSSPOINT_INPUT4 \<equiv> 9"
abbreviation (input) NTV2CROSSPOINT_INPUT5 :: nat where "NTV2CROSSPOINT_INPUT5 \<equiv> 14"
abbreviation (input) NTV2CROSSPOINT_INPUT6 :: nat where "NTV2CROSSPOINT_INPUT6 \<equiv> 15"
abbreviation (input) NTV2CROSSPOINT_INPUT7 :: nat where "NTV2CROSSPOINT_INPUT7 \<equiv> 16"
abbreviation (input) NTV2CROSSPOINT_INPUT8 :: nat where "NTV2CROSSPOINT_INPUT8 \<equiv> 17"
abbreviation (input) NTV2CROSSPOINT_INVALID :: nat where "NTV2CROSSPOINT_INVALID \<equiv> 18"
abbreviation (input) NTV2CROSSPOINT_MATTE :: nat where "NTV2CROSSPOINT_MATTE \<equiv> 4"
abbreviation (input) NTV2REGWRITEMODEMASK :: u32 where "NTV2REGWRITEMODEMASK \<equiv> 0x300000"
abbreviation (input) NTV2REGWRITEMODESHIFT :: nat where "NTV2REGWRITEMODESHIFT \<equiv> 20"
abbreviation (input) NTV2_AUDIOPLAYBACK_1STAUTOCIRCULATEFRAME :: u32 where "NTV2_AUDIOPLAYBACK_1STAUTOCIRCULATEFRAME \<equiv> 3"
abbreviation (input) NTV2_AUDIOPLAYBACK_NEXTFRAME :: u32 where "NTV2_AUDIOPLAYBACK_NEXTFRAME \<equiv> 1"
abbreviation (input) NTV2_AUDIOPLAYBACK_NORMALAUTOCIRCULATE :: u32 where "NTV2_AUDIOPLAYBACK_NORMALAUTOCIRCULATE \<equiv> 2"
abbreviation (input) NTV2_AUDIOPLAYBACK_NOW :: u32 where "NTV2_AUDIOPLAYBACK_NOW \<equiv> 0"
abbreviation (input) NTV2_AUDIOSYSTEM_1 :: nat where "NTV2_AUDIOSYSTEM_1 \<equiv> 0"
abbreviation (input) NTV2_AUDIOSYSTEM_2 :: nat where "NTV2_AUDIOSYSTEM_2 \<equiv> 1"
abbreviation (input) NTV2_AUDIOSYSTEM_3 :: nat where "NTV2_AUDIOSYSTEM_3 \<equiv> 2"
abbreviation (input) NTV2_AUDIOSYSTEM_4 :: nat where "NTV2_AUDIOSYSTEM_4 \<equiv> 3"
abbreviation (input) NTV2_AUDIOSYSTEM_5 :: nat where "NTV2_AUDIOSYSTEM_5 \<equiv> 4"
abbreviation (input) NTV2_AUDIOSYSTEM_6 :: nat where "NTV2_AUDIOSYSTEM_6 \<equiv> 5"
abbreviation (input) NTV2_AUDIOSYSTEM_7 :: nat where "NTV2_AUDIOSYSTEM_7 \<equiv> 6"
abbreviation (input) NTV2_AUDIOSYSTEM_8 :: nat where "NTV2_AUDIOSYSTEM_8 \<equiv> 7"
abbreviation (input) NTV2_AUDIO_192K :: u32 where "NTV2_AUDIO_192K \<equiv> 2"
abbreviation (input) NTV2_AUDIO_48K :: u32 where "NTV2_AUDIO_48K \<equiv> 0"
abbreviation (input) NTV2_AUDIO_96K :: u32 where "NTV2_AUDIO_96K \<equiv> 1"
abbreviation (input) NTV2_AUDIO_BUFFER_BIG :: u32 where "NTV2_AUDIO_BUFFER_BIG \<equiv> 1"
abbreviation (input) NTV2_AUDIO_BUFFER_SIZE_4MB :: u32 where "NTV2_AUDIO_BUFFER_SIZE_4MB \<equiv> 1"
abbreviation (input) NTV2_AUDIO_READBUFFEROFFSET :: u32 where "NTV2_AUDIO_READBUFFEROFFSET \<equiv> 0x100000"
abbreviation (input) NTV2_AUDIO_READBUFFEROFFSET_BIG :: u32 where "NTV2_AUDIO_READBUFFEROFFSET_BIG \<equiv> 0x400000"
abbreviation (input) NTV2_AUDIO_WRAPADDRESS :: u32 where "NTV2_AUDIO_WRAPADDRESS \<equiv> 0xFF000"
abbreviation (input) NTV2_AUDIO_WRAPADDRESS_BIG :: u32 where "NTV2_AUDIO_WRAPADDRESS_BIG \<equiv> 0x3FC000"
abbreviation (input) NTV2_AUTOCIRCULATE_DISABLED :: u32 where "NTV2_AUTOCIRCULATE_DISABLED \<equiv> 0"
abbreviation (input) NTV2_AUTOCIRCULATE_INIT :: u32 where "NTV2_AUTOCIRCULATE_INIT \<equiv> 1"
abbreviation (input) NTV2_AUTOCIRCULATE_INVALID :: u32 where "NTV2_AUTOCIRCULATE_INVALID \<equiv> 7"
abbreviation (input) NTV2_AUTOCIRCULATE_PAUSED :: u32 where "NTV2_AUTOCIRCULATE_PAUSED \<equiv> 3"
abbreviation (input) NTV2_AUTOCIRCULATE_RUNNING :: u32 where "NTV2_AUTOCIRCULATE_RUNNING \<equiv> 5"
abbreviation (input) NTV2_AUTOCIRCULATE_STARTING :: u32 where "NTV2_AUTOCIRCULATE_STARTING \<equiv> 2"
abbreviation (input) NTV2_AUTOCIRCULATE_STARTING_AT_TIME :: u32 where "NTV2_AUTOCIRCULATE_STARTING_AT_TIME \<equiv> 6"
abbreviation (input) NTV2_AUTOCIRCULATE_STOPPING :: u32 where "NTV2_AUTOCIRCULATE_STOPPING \<equiv> 4"
abbreviation (input) NTV2_CCHOSTACCESS_CH1BANK0 :: u32 where "NTV2_CCHOSTACCESS_CH1BANK0 \<equiv> 0"
abbreviation (input) NTV2_CCHOSTACCESS_CH1BANK1 :: u32 where "NTV2_CCHOSTACCESS_CH1BANK1 \<equiv> 1"
abbreviation (input) NTV2_CCHOSTACCESS_CH2BANK0 :: u32 where "NTV2_CCHOSTACCESS_CH2BANK0 \<equiv> 2"
abbreviation (input) NTV2_CCHOSTACCESS_CH2BANK1 :: u32 where "NTV2_CCHOSTACCESS_CH2BANK1 \<equiv> 3"
abbreviation (input) NTV2_CCHOSTACCESS_CH3BANK0 :: u32 where "NTV2_CCHOSTACCESS_CH3BANK0 \<equiv> 4"
abbreviation (input) NTV2_CCHOSTACCESS_CH3BANK1 :: u32 where "NTV2_CCHOSTACCESS_CH3BANK1 \<equiv> 5"
abbreviation (input) NTV2_CCHOSTACCESS_CH4BANK0 :: u32 where "NTV2_CCHOSTACCESS_CH4BANK0 \<equiv> 6"
abbreviation (input) NTV2_CCHOSTACCESS_CH4BANK1 :: u32 where "NTV2_CCHOSTACCESS_CH4BANK1 \<equiv> 7"
abbreviation (input) NTV2_CCHOSTACCESS_CH5BANK0 :: u32 where "NTV2_CCHOSTACCESS_CH5BANK0 \<equiv> 8"
abbreviation (input) NTV2_CCHOSTACCESS_CH5BANK1 :: u32 where "NTV2_CCHOSTACCESS_CH5BANK1 \<equiv> 9"
abbreviation (input) NTV2_CCHOSTACCESS_CH6BANK0 :: u32 where "NTV2_CCHOSTACCESS_CH6BANK0 \<equiv> 10"
abbreviation (input) NTV2_CCHOSTACCESS_CH6BANK1 :: u32 where "NTV2_CCHOSTACCESS_CH6BANK1 \<equiv> 11"
abbreviation (input) NTV2_CCHOSTACCESS_CH7BANK0 :: u32 where "NTV2_CCHOSTACCESS_CH7BANK0 \<equiv> 12"
abbreviation (input) NTV2_CCHOSTACCESS_CH7BANK1 :: u32 where "NTV2_CCHOSTACCESS_CH7BANK1 \<equiv> 13"
abbreviation (input) NTV2_CCHOSTACCESS_CH8BANK0 :: u32 where "NTV2_CCHOSTACCESS_CH8BANK0 \<equiv> 14"
abbreviation (input) NTV2_CCHOSTACCESS_CH8BANK1 :: u32 where "NTV2_CCHOSTACCESS_CH8BANK1 \<equiv> 15"
abbreviation (input) NTV2_CHANNEL1 :: nat where "NTV2_CHANNEL1 \<equiv> 0"
abbreviation (input) NTV2_CHANNEL2 :: nat where "NTV2_CHANNEL2 \<equiv> 1"
abbreviation (input) NTV2_CHANNEL3 :: nat where "NTV2_CHANNEL3 \<equiv> 2"
abbreviation (input) NTV2_CHANNEL4 :: nat where "NTV2_CHANNEL4 \<equiv> 3"
abbreviation (input) NTV2_CHANNEL5 :: nat where "NTV2_CHANNEL5 \<equiv> 4"
abbreviation (input) NTV2_CHANNEL6 :: nat where "NTV2_CHANNEL6 \<equiv> 5"
abbreviation (input) NTV2_CHANNEL7 :: nat where "NTV2_CHANNEL7 \<equiv> 6"
abbreviation (input) NTV2_CHANNEL8 :: nat where "NTV2_CHANNEL8 \<equiv> 7"
abbreviation (input) NTV2_CHANNEL_INVALID :: nat where "NTV2_CHANNEL_INVALID \<equiv> 8"
abbreviation (input) NTV2_FG_1280x720 :: u32 where "NTV2_FG_1280x720 \<equiv> 1"
abbreviation (input) NTV2_FG_1920x1080 :: u32 where "NTV2_FG_1920x1080 \<equiv> 0"
abbreviation (input) NTV2_FG_2048x1080 :: u32 where "NTV2_FG_2048x1080 \<equiv> 10"
abbreviation (input) NTV2_FG_2048x1112 :: u32 where "NTV2_FG_2048x1112 \<equiv> 13"
abbreviation (input) NTV2_FG_2048x1114 :: u32 where "NTV2_FG_2048x1114 \<equiv> 5"
abbreviation (input) NTV2_FG_2048x1556 :: u32 where "NTV2_FG_2048x1556 \<equiv> 11"
abbreviation (input) NTV2_FG_4x1920x1080 :: u32 where "NTV2_FG_4x1920x1080 \<equiv> 16"
abbreviation (input) NTV2_FG_4x2048x1080 :: u32 where "NTV2_FG_4x2048x1080 \<equiv> 17"
abbreviation (input) NTV2_FG_720x486 :: u32 where "NTV2_FG_720x486 \<equiv> 2"
abbreviation (input) NTV2_FG_720x576 :: u32 where "NTV2_FG_720x576 \<equiv> 3"
abbreviation (input) NTV2_FG_INVALID :: u32 where "NTV2_FG_INVALID \<equiv> 20"
abbreviation (input) NTV2_FORMAT_1080i_5000 :: u32 where "NTV2_FORMAT_1080i_5000 \<equiv> 1"
abbreviation (input) NTV2_FORMAT_1080i_5994 :: u32 where "NTV2_FORMAT_1080i_5994 \<equiv> 2"
abbreviation (input) NTV2_FORMAT_1080i_6000 :: u32 where "NTV2_FORMAT_1080i_6000 \<equiv> 3"
abbreviation (input) NTV2_FORMAT_1080p_2398 :: u32 where "NTV2_FORMAT_1080p_2398 \<equiv> 11"
abbreviation (input) NTV2_FORMAT_1080p_2400 :: u32 where "NTV2_FORMAT_1080p_2400 \<equiv> 12"
abbreviation (input) NTV2_FORMAT_1080p_2500 :: u32 where "NTV2_FORMAT_1080p_2500 \<equiv> 10"
abbreviation (input) NTV2_FORMAT_1080p_2997 :: u32 where "NTV2_FORMAT_1080p_2997 \<equiv> 8"
abbreviation (input) NTV2_FORMAT_1080p_2K_2398 :: u32 where "NTV2_FORMAT_1080p_2K_2398 \<equiv> 13"
abbreviation (input) NTV2_FORMAT_1080p_2K_2400 :: u32 where "NTV2_FORMAT_1080p_2K_2400 \<equiv> 14"
abbreviation (input) NTV2_FORMAT_1080p_2K_2500 :: u32 where "NTV2_FORMAT_1080p_2K_2500 \<equiv> 26"
abbreviation (input) NTV2_FORMAT_1080p_2K_2997 :: u32 where "NTV2_FORMAT_1080p_2K_2997 \<equiv> 112"
abbreviation (input) NTV2_FORMAT_1080p_2K_3000 :: u32 where "NTV2_FORMAT_1080p_2K_3000 \<equiv> 113"
abbreviation (input) NTV2_FORMAT_1080p_2K_4795_A :: u32 where "NTV2_FORMAT_1080p_2K_4795_A \<equiv> 115"
abbreviation (input) NTV2_FORMAT_1080p_2K_4795_B :: u32 where "NTV2_FORMAT_1080p_2K_4795_B \<equiv> 117"
abbreviation (input) NTV2_FORMAT_1080p_2K_4800_A :: u32 where "NTV2_FORMAT_1080p_2K_4800_A \<equiv> 116"
abbreviation (input) NTV2_FORMAT_1080p_2K_4800_B :: u32 where "NTV2_FORMAT_1080p_2K_4800_B \<equiv> 118"
abbreviation (input) NTV2_FORMAT_1080p_2K_5000_A :: u32 where "NTV2_FORMAT_1080p_2K_5000_A \<equiv> 114"
abbreviation (input) NTV2_FORMAT_1080p_2K_5000_B :: u32 where "NTV2_FORMAT_1080p_2K_5000_B \<equiv> 119"
abbreviation (input) NTV2_FORMAT_1080p_2K_5994_A :: u32 where "NTV2_FORMAT_1080p_2K_5994_A \<equiv> 111"
abbreviation (input) NTV2_FORMAT_1080p_2K_5994_B :: u32 where "NTV2_FORMAT_1080p_2K_5994_B \<equiv> 120"
abbreviation (input) NTV2_FORMAT_1080p_2K_6000_A :: u32 where "NTV2_FORMAT_1080p_2K_6000_A \<equiv> 110"
abbreviation (input) NTV2_FORMAT_1080p_2K_6000_B :: u32 where "NTV2_FORMAT_1080p_2K_6000_B \<equiv> 121"
abbreviation (input) NTV2_FORMAT_1080p_3000 :: u32 where "NTV2_FORMAT_1080p_3000 \<equiv> 9"
abbreviation (input) NTV2_FORMAT_1080p_5000_A :: u32 where "NTV2_FORMAT_1080p_5000_A \<equiv> 23"
abbreviation (input) NTV2_FORMAT_1080p_5000_B :: u32 where "NTV2_FORMAT_1080p_5000_B \<equiv> 18"
abbreviation (input) NTV2_FORMAT_1080p_5994_A :: u32 where "NTV2_FORMAT_1080p_5994_A \<equiv> 24"
abbreviation (input) NTV2_FORMAT_1080p_5994_B :: u32 where "NTV2_FORMAT_1080p_5994_B \<equiv> 19"
abbreviation (input) NTV2_FORMAT_1080p_6000_A :: u32 where "NTV2_FORMAT_1080p_6000_A \<equiv> 25"
abbreviation (input) NTV2_FORMAT_1080p_6000_B :: u32 where "NTV2_FORMAT_1080p_6000_B \<equiv> 20"
abbreviation (input) NTV2_FORMAT_1080psf_2398 :: u32 where "NTV2_FORMAT_1080psf_2398 \<equiv> 6"
abbreviation (input) NTV2_FORMAT_1080psf_2400 :: u32 where "NTV2_FORMAT_1080psf_2400 \<equiv> 7"
abbreviation (input) NTV2_FORMAT_1080psf_2500_2 :: u32 where "NTV2_FORMAT_1080psf_2500_2 \<equiv> 28"
abbreviation (input) NTV2_FORMAT_1080psf_2997_2 :: u32 where "NTV2_FORMAT_1080psf_2997_2 \<equiv> 29"
abbreviation (input) NTV2_FORMAT_1080psf_2K_2398 :: u32 where "NTV2_FORMAT_1080psf_2K_2398 \<equiv> 15"
abbreviation (input) NTV2_FORMAT_1080psf_2K_2400 :: u32 where "NTV2_FORMAT_1080psf_2K_2400 \<equiv> 16"
abbreviation (input) NTV2_FORMAT_1080psf_2K_2500 :: u32 where "NTV2_FORMAT_1080psf_2K_2500 \<equiv> 27"
abbreviation (input) NTV2_FORMAT_1080psf_3000_2 :: u32 where "NTV2_FORMAT_1080psf_3000_2 \<equiv> 30"
abbreviation (input) NTV2_FORMAT_2K_1498 :: u32 where "NTV2_FORMAT_2K_1498 \<equiv> 64"
abbreviation (input) NTV2_FORMAT_2K_1500 :: u32 where "NTV2_FORMAT_2K_1500 \<equiv> 65"
abbreviation (input) NTV2_FORMAT_2K_2398 :: u32 where "NTV2_FORMAT_2K_2398 \<equiv> 66"
abbreviation (input) NTV2_FORMAT_2K_2400 :: u32 where "NTV2_FORMAT_2K_2400 \<equiv> 67"
abbreviation (input) NTV2_FORMAT_2K_2500 :: u32 where "NTV2_FORMAT_2K_2500 \<equiv> 68"
abbreviation (input) NTV2_FORMAT_3840x2160p_2398 :: u32 where "NTV2_FORMAT_3840x2160p_2398 \<equiv> 203"
abbreviation (input) NTV2_FORMAT_3840x2160p_2400 :: u32 where "NTV2_FORMAT_3840x2160p_2400 \<equiv> 204"
abbreviation (input) NTV2_FORMAT_3840x2160p_2500 :: u32 where "NTV2_FORMAT_3840x2160p_2500 \<equiv> 205"
abbreviation (input) NTV2_FORMAT_3840x2160p_2997 :: u32 where "NTV2_FORMAT_3840x2160p_2997 \<equiv> 206"
abbreviation (input) NTV2_FORMAT_3840x2160p_3000 :: u32 where "NTV2_FORMAT_3840x2160p_3000 \<equiv> 207"
abbreviation (input) NTV2_FORMAT_3840x2160p_5000 :: u32 where "NTV2_FORMAT_3840x2160p_5000 \<equiv> 210"
abbreviation (input) NTV2_FORMAT_3840x2160p_5000_B :: u32 where "NTV2_FORMAT_3840x2160p_5000_B \<equiv> 213"
abbreviation (input) NTV2_FORMAT_3840x2160p_5994 :: u32 where "NTV2_FORMAT_3840x2160p_5994 \<equiv> 211"
abbreviation (input) NTV2_FORMAT_3840x2160p_5994_B :: u32 where "NTV2_FORMAT_3840x2160p_5994_B \<equiv> 214"
abbreviation (input) NTV2_FORMAT_3840x2160p_6000 :: u32 where "NTV2_FORMAT_3840x2160p_6000 \<equiv> 212"
abbreviation (input) NTV2_FORMAT_3840x2160p_6000_B :: u32 where "NTV2_FORMAT_3840x2160p_6000_B \<equiv> 215"
abbreviation (input) NTV2_FORMAT_3840x2160psf_2398 :: u32 where "NTV2_FORMAT_3840x2160psf_2398 \<equiv> 200"
abbreviation (input) NTV2_FORMAT_3840x2160psf_2400 :: u32 where "NTV2_FORMAT_3840x2160psf_2400 \<equiv> 201"
abbreviation (input) NTV2_FORMAT_3840x2160psf_2500 :: u32 where "NTV2_FORMAT_3840x2160psf_2500 \<equiv> 202"
abbreviation (input) NTV2_FORMAT_3840x2160psf_2997 :: u32 where "NTV2_FORMAT_3840x2160psf_2997 \<equiv> 208"
abbreviation (input) NTV2_FORMAT_3840x2160psf_3000 :: u32 where "NTV2_FORMAT_3840x2160psf_3000 \<equiv> 209"
abbreviation (input) NTV2_FORMAT_4096x2160p_11988 :: u32 where "NTV2_FORMAT_4096x2160p_11988 \<equiv> 265"
abbreviation (input) NTV2_FORMAT_4096x2160p_12000 :: u32 where "NTV2_FORMAT_4096x2160p_12000 \<equiv> 266"
abbreviation (input) NTV2_FORMAT_4096x2160p_2398 :: u32 where "NTV2_FORMAT_4096x2160p_2398 \<equiv> 253"
abbreviation (input) NTV2_FORMAT_4096x2160p_2400 :: u32 where "NTV2_FORMAT_4096x2160p_2400 \<equiv> 254"
abbreviation (input) NTV2_FORMAT_4096x2160p_2500 :: u32 where "NTV2_FORMAT_4096x2160p_2500 \<equiv> 255"
abbreviation (input) NTV2_FORMAT_4096x2160p_2997 :: u32 where "NTV2_FORMAT_4096x2160p_2997 \<equiv> 256"
abbreviation (input) NTV2_FORMAT_4096x2160p_3000 :: u32 where "NTV2_FORMAT_4096x2160p_3000 \<equiv> 257"
abbreviation (input) NTV2_FORMAT_4096x2160p_4795 :: u32 where "NTV2_FORMAT_4096x2160p_4795 \<equiv> 260"
abbreviation (input) NTV2_FORMAT_4096x2160p_4795_B :: u32 where "NTV2_FORMAT_4096x2160p_4795_B \<equiv> 267"
abbreviation (input) NTV2_FORMAT_4096x2160p_4800 :: u32 where "NTV2_FORMAT_4096x2160p_4800 \<equiv> 261"
abbreviation (input) NTV2_FORMAT_4096x2160p_4800_B :: u32 where "NTV2_FORMAT_4096x2160p_4800_B \<equiv> 268"
abbreviation (input) NTV2_FORMAT_4096x2160p_5000 :: u32 where "NTV2_FORMAT_4096x2160p_5000 \<equiv> 262"
abbreviation (input) NTV2_FORMAT_4096x2160p_5000_B :: u32 where "NTV2_FORMAT_4096x2160p_5000_B \<equiv> 269"
abbreviation (input) NTV2_FORMAT_4096x2160p_5994 :: u32 where "NTV2_FORMAT_4096x2160p_5994 \<equiv> 263"
abbreviation (input) NTV2_FORMAT_4096x2160p_5994_B :: u32 where "NTV2_FORMAT_4096x2160p_5994_B \<equiv> 270"
abbreviation (input) NTV2_FORMAT_4096x2160p_6000 :: u32 where "NTV2_FORMAT_4096x2160p_6000 \<equiv> 264"
abbreviation (input) NTV2_FORMAT_4096x2160p_6000_B :: u32 where "NTV2_FORMAT_4096x2160p_6000_B \<equiv> 271"
abbreviation (input) NTV2_FORMAT_4096x2160psf_2398 :: u32 where "NTV2_FORMAT_4096x2160psf_2398 \<equiv> 250"
abbreviation (input) NTV2_FORMAT_4096x2160psf_2400 :: u32 where "NTV2_FORMAT_4096x2160psf_2400 \<equiv> 251"
abbreviation (input) NTV2_FORMAT_4096x2160psf_2500 :: u32 where "NTV2_FORMAT_4096x2160psf_2500 \<equiv> 252"
abbreviation (input) NTV2_FORMAT_4096x2160psf_2997 :: u32 where "NTV2_FORMAT_4096x2160psf_2997 \<equiv> 258"
abbreviation (input) NTV2_FORMAT_4096x2160psf_3000 :: u32 where "NTV2_FORMAT_4096x2160psf_3000 \<equiv> 259"
abbreviation (input) NTV2_FORMAT_4x1920x1080p_2398 :: u32 where "NTV2_FORMAT_4x1920x1080p_2398 \<equiv> 83"
abbreviation (input) NTV2_FORMAT_4x1920x1080p_2400 :: u32 where "NTV2_FORMAT_4x1920x1080p_2400 \<equiv> 84"
abbreviation (input) NTV2_FORMAT_4x1920x1080p_2500 :: u32 where "NTV2_FORMAT_4x1920x1080p_2500 \<equiv> 85"
abbreviation (input) NTV2_FORMAT_4x1920x1080p_2997 :: u32 where "NTV2_FORMAT_4x1920x1080p_2997 \<equiv> 92"
abbreviation (input) NTV2_FORMAT_4x1920x1080p_3000 :: u32 where "NTV2_FORMAT_4x1920x1080p_3000 \<equiv> 93"
abbreviation (input) NTV2_FORMAT_4x1920x1080p_5000 :: u32 where "NTV2_FORMAT_4x1920x1080p_5000 \<equiv> 100"
abbreviation (input) NTV2_FORMAT_4x1920x1080p_5000_B :: u32 where "NTV2_FORMAT_4x1920x1080p_5000_B \<equiv> 300"
abbreviation (input) NTV2_FORMAT_4x1920x1080p_5994 :: u32 where "NTV2_FORMAT_4x1920x1080p_5994 \<equiv> 101"
abbreviation (input) NTV2_FORMAT_4x1920x1080p_5994_B :: u32 where "NTV2_FORMAT_4x1920x1080p_5994_B \<equiv> 301"
abbreviation (input) NTV2_FORMAT_4x1920x1080p_6000 :: u32 where "NTV2_FORMAT_4x1920x1080p_6000 \<equiv> 102"
abbreviation (input) NTV2_FORMAT_4x1920x1080p_6000_B :: u32 where "NTV2_FORMAT_4x1920x1080p_6000_B \<equiv> 302"
abbreviation (input) NTV2_FORMAT_4x1920x1080psf_2398 :: u32 where "NTV2_FORMAT_4x1920x1080psf_2398 \<equiv> 80"
abbreviation (input) NTV2_FORMAT_4x1920x1080psf_2400 :: u32 where "NTV2_FORMAT_4x1920x1080psf_2400 \<equiv> 81"
abbreviation (input) NTV2_FORMAT_4x1920x1080psf_2500 :: u32 where "NTV2_FORMAT_4x1920x1080psf_2500 \<equiv> 82"
abbreviation (input) NTV2_FORMAT_4x1920x1080psf_2997 :: u32 where "NTV2_FORMAT_4x1920x1080psf_2997 \<equiv> 94"
abbreviation (input) NTV2_FORMAT_4x1920x1080psf_3000 :: u32 where "NTV2_FORMAT_4x1920x1080psf_3000 \<equiv> 95"
abbreviation (input) NTV2_FORMAT_4x2048x1080p_11988 :: u32 where "NTV2_FORMAT_4x2048x1080p_11988 \<equiv> 108"
abbreviation (input) NTV2_FORMAT_4x2048x1080p_12000 :: u32 where "NTV2_FORMAT_4x2048x1080p_12000 \<equiv> 109"
abbreviation (input) NTV2_FORMAT_4x2048x1080p_2398 :: u32 where "NTV2_FORMAT_4x2048x1080p_2398 \<equiv> 89"
abbreviation (input) NTV2_FORMAT_4x2048x1080p_2400 :: u32 where "NTV2_FORMAT_4x2048x1080p_2400 \<equiv> 90"
abbreviation (input) NTV2_FORMAT_4x2048x1080p_2500 :: u32 where "NTV2_FORMAT_4x2048x1080p_2500 \<equiv> 91"
abbreviation (input) NTV2_FORMAT_4x2048x1080p_2997 :: u32 where "NTV2_FORMAT_4x2048x1080p_2997 \<equiv> 96"
abbreviation (input) NTV2_FORMAT_4x2048x1080p_3000 :: u32 where "NTV2_FORMAT_4x2048x1080p_3000 \<equiv> 97"
abbreviation (input) NTV2_FORMAT_4x2048x1080p_4795 :: u32 where "NTV2_FORMAT_4x2048x1080p_4795 \<equiv> 106"
abbreviation (input) NTV2_FORMAT_4x2048x1080p_4795_B :: u32 where "NTV2_FORMAT_4x2048x1080p_4795_B \<equiv> 306"
abbreviation (input) NTV2_FORMAT_4x2048x1080p_4800 :: u32 where "NTV2_FORMAT_4x2048x1080p_4800 \<equiv> 107"
abbreviation (input) NTV2_FORMAT_4x2048x1080p_4800_B :: u32 where "NTV2_FORMAT_4x2048x1080p_4800_B \<equiv> 307"
abbreviation (input) NTV2_FORMAT_4x2048x1080p_5000 :: u32 where "NTV2_FORMAT_4x2048x1080p_5000 \<equiv> 103"
abbreviation (input) NTV2_FORMAT_4x2048x1080p_5000_B :: u32 where "NTV2_FORMAT_4x2048x1080p_5000_B \<equiv> 303"
abbreviation (input) NTV2_FORMAT_4x2048x1080p_5994 :: u32 where "NTV2_FORMAT_4x2048x1080p_5994 \<equiv> 104"
abbreviation (input) NTV2_FORMAT_4x2048x1080p_5994_B :: u32 where "NTV2_FORMAT_4x2048x1080p_5994_B \<equiv> 304"
abbreviation (input) NTV2_FORMAT_4x2048x1080p_6000 :: u32 where "NTV2_FORMAT_4x2048x1080p_6000 \<equiv> 105"
abbreviation (input) NTV2_FORMAT_4x2048x1080p_6000_B :: u32 where "NTV2_FORMAT_4x2048x1080p_6000_B \<equiv> 305"
abbreviation (input) NTV2_FORMAT_4x2048x1080psf_2398 :: u32 where "NTV2_FORMAT_4x2048x1080psf_2398 \<equiv> 86"
abbreviation (input) NTV2_FORMAT_4x2048x1080psf_2400 :: u32 where "NTV2_FORMAT_4x2048x1080psf_2400 \<equiv> 87"
abbreviation (input) NTV2_FORMAT_4x2048x1080psf_2500 :: u32 where "NTV2_FORMAT_4x2048x1080psf_2500 \<equiv> 88"
abbreviation (input) NTV2_FORMAT_4x2048x1080psf_2997 :: u32 where "NTV2_FORMAT_4x2048x1080psf_2997 \<equiv> 98"
abbreviation (input) NTV2_FORMAT_4x2048x1080psf_3000 :: u32 where "NTV2_FORMAT_4x2048x1080psf_3000 \<equiv> 99"
abbreviation (input) NTV2_FORMAT_4x3840x2160p_2398 :: u32 where "NTV2_FORMAT_4x3840x2160p_2398 \<equiv> 350"
abbreviation (input) NTV2_FORMAT_4x3840x2160p_2400 :: u32 where "NTV2_FORMAT_4x3840x2160p_2400 \<equiv> 351"
abbreviation (input) NTV2_FORMAT_4x3840x2160p_2500 :: u32 where "NTV2_FORMAT_4x3840x2160p_2500 \<equiv> 352"
abbreviation (input) NTV2_FORMAT_4x3840x2160p_2997 :: u32 where "NTV2_FORMAT_4x3840x2160p_2997 \<equiv> 353"
abbreviation (input) NTV2_FORMAT_4x3840x2160p_3000 :: u32 where "NTV2_FORMAT_4x3840x2160p_3000 \<equiv> 354"
abbreviation (input) NTV2_FORMAT_4x3840x2160p_5000 :: u32 where "NTV2_FORMAT_4x3840x2160p_5000 \<equiv> 355"
abbreviation (input) NTV2_FORMAT_4x3840x2160p_5000_B :: u32 where "NTV2_FORMAT_4x3840x2160p_5000_B \<equiv> 358"
abbreviation (input) NTV2_FORMAT_4x3840x2160p_5994 :: u32 where "NTV2_FORMAT_4x3840x2160p_5994 \<equiv> 356"
abbreviation (input) NTV2_FORMAT_4x3840x2160p_5994_B :: u32 where "NTV2_FORMAT_4x3840x2160p_5994_B \<equiv> 359"
abbreviation (input) NTV2_FORMAT_4x3840x2160p_6000 :: u32 where "NTV2_FORMAT_4x3840x2160p_6000 \<equiv> 357"
abbreviation (input) NTV2_FORMAT_4x3840x2160p_6000_B :: u32 where "NTV2_FORMAT_4x3840x2160p_6000_B \<equiv> 360"
abbreviation (input) NTV2_FORMAT_4x4096x2160p_2398 :: u32 where "NTV2_FORMAT_4x4096x2160p_2398 \<equiv> 400"
abbreviation (input) NTV2_FORMAT_4x4096x2160p_2400 :: u32 where "NTV2_FORMAT_4x4096x2160p_2400 \<equiv> 401"
abbreviation (input) NTV2_FORMAT_4x4096x2160p_2500 :: u32 where "NTV2_FORMAT_4x4096x2160p_2500 \<equiv> 402"
abbreviation (input) NTV2_FORMAT_4x4096x2160p_2997 :: u32 where "NTV2_FORMAT_4x4096x2160p_2997 \<equiv> 403"
abbreviation (input) NTV2_FORMAT_4x4096x2160p_3000 :: u32 where "NTV2_FORMAT_4x4096x2160p_3000 \<equiv> 404"
abbreviation (input) NTV2_FORMAT_4x4096x2160p_4795 :: u32 where "NTV2_FORMAT_4x4096x2160p_4795 \<equiv> 405"
abbreviation (input) NTV2_FORMAT_4x4096x2160p_4795_B :: u32 where "NTV2_FORMAT_4x4096x2160p_4795_B \<equiv> 410"
abbreviation (input) NTV2_FORMAT_4x4096x2160p_4800 :: u32 where "NTV2_FORMAT_4x4096x2160p_4800 \<equiv> 406"
abbreviation (input) NTV2_FORMAT_4x4096x2160p_4800_B :: u32 where "NTV2_FORMAT_4x4096x2160p_4800_B \<equiv> 411"
abbreviation (input) NTV2_FORMAT_4x4096x2160p_5000 :: u32 where "NTV2_FORMAT_4x4096x2160p_5000 \<equiv> 407"
abbreviation (input) NTV2_FORMAT_4x4096x2160p_5000_B :: u32 where "NTV2_FORMAT_4x4096x2160p_5000_B \<equiv> 412"
abbreviation (input) NTV2_FORMAT_4x4096x2160p_5994 :: u32 where "NTV2_FORMAT_4x4096x2160p_5994 \<equiv> 408"
abbreviation (input) NTV2_FORMAT_4x4096x2160p_5994_B :: u32 where "NTV2_FORMAT_4x4096x2160p_5994_B \<equiv> 413"
abbreviation (input) NTV2_FORMAT_4x4096x2160p_6000 :: u32 where "NTV2_FORMAT_4x4096x2160p_6000 \<equiv> 409"
abbreviation (input) NTV2_FORMAT_4x4096x2160p_6000_B :: u32 where "NTV2_FORMAT_4x4096x2160p_6000_B \<equiv> 414"
abbreviation (input) NTV2_FORMAT_525_2398 :: u32 where "NTV2_FORMAT_525_2398 \<equiv> 34"
abbreviation (input) NTV2_FORMAT_525_2400 :: u32 where "NTV2_FORMAT_525_2400 \<equiv> 35"
abbreviation (input) NTV2_FORMAT_525_5994 :: u32 where "NTV2_FORMAT_525_5994 \<equiv> 32"
abbreviation (input) NTV2_FORMAT_525psf_2997 :: u32 where "NTV2_FORMAT_525psf_2997 \<equiv> 36"
abbreviation (input) NTV2_FORMAT_625_5000 :: u32 where "NTV2_FORMAT_625_5000 \<equiv> 33"
abbreviation (input) NTV2_FORMAT_625psf_2500 :: u32 where "NTV2_FORMAT_625psf_2500 \<equiv> 37"
abbreviation (input) NTV2_FORMAT_720p_2398 :: u32 where "NTV2_FORMAT_720p_2398 \<equiv> 21"
abbreviation (input) NTV2_FORMAT_720p_2500 :: u32 where "NTV2_FORMAT_720p_2500 \<equiv> 22"
abbreviation (input) NTV2_FORMAT_720p_5000 :: u32 where "NTV2_FORMAT_720p_5000 \<equiv> 17"
abbreviation (input) NTV2_FORMAT_720p_5994 :: u32 where "NTV2_FORMAT_720p_5994 \<equiv> 4"
abbreviation (input) NTV2_FORMAT_720p_6000 :: u32 where "NTV2_FORMAT_720p_6000 \<equiv> 5"
abbreviation (input) NTV2_FORMAT_END_4K_DEF_FORMATS :: u32 where "NTV2_FORMAT_END_4K_DEF_FORMATS \<equiv> 110"
abbreviation (input) NTV2_FORMAT_END_4K_DEF_FORMATS2 :: u32 where "NTV2_FORMAT_END_4K_DEF_FORMATS2 \<equiv> 308"
abbreviation (input) NTV2_FORMAT_END_4K_TSI_DEF_FORMATS :: u32 where "NTV2_FORMAT_END_4K_TSI_DEF_FORMATS \<equiv> 272"
abbreviation (input) NTV2_FORMAT_END_STANDARD_DEF_FORMATS :: u32 where "NTV2_FORMAT_END_STANDARD_DEF_FORMATS \<equiv> 38"
abbreviation (input) NTV2_FORMAT_END_UHD2_FULL_DEF_FORMATS :: u32 where "NTV2_FORMAT_END_UHD2_FULL_DEF_FORMATS \<equiv> 415"
abbreviation (input) NTV2_FORMAT_FIRST_4K_DEF_FORMAT :: u32 where "NTV2_FORMAT_FIRST_4K_DEF_FORMAT \<equiv> 80"
abbreviation (input) NTV2_FORMAT_FIRST_4K_TSI_DEF_FORMAT :: u32 where "NTV2_FORMAT_FIRST_4K_TSI_DEF_FORMAT \<equiv> 250"
abbreviation (input) NTV2_FORMAT_FIRST_STANDARD_DEF_FORMAT :: u32 where "NTV2_FORMAT_FIRST_STANDARD_DEF_FORMAT \<equiv> 32"
abbreviation (input) NTV2_FORMAT_FIRST_UHD2_FULL_DEF_FORMAT :: u32 where "NTV2_FORMAT_FIRST_UHD2_FULL_DEF_FORMAT \<equiv> 400"
abbreviation (input) NTV2_FORMAT_FIRST_UHD_TSI_DEF_FORMAT :: u32 where "NTV2_FORMAT_FIRST_UHD_TSI_DEF_FORMAT \<equiv> 200"
abbreviation (input) NTV2_FORMAT_UNKNOWN :: u32 where "NTV2_FORMAT_UNKNOWN \<equiv> 0"
abbreviation (input) NTV2_FRAMERATE_11988 :: u32 where "NTV2_FRAMERATE_11988 \<equiv> 12"
abbreviation (input) NTV2_FRAMERATE_12000 :: u32 where "NTV2_FRAMERATE_12000 \<equiv> 11"
abbreviation (input) NTV2_FRAMERATE_1498 :: u32 where "NTV2_FRAMERATE_1498 \<equiv> 14"
abbreviation (input) NTV2_FRAMERATE_1500 :: u32 where "NTV2_FRAMERATE_1500 \<equiv> 13"
abbreviation (input) NTV2_FRAMERATE_2398 :: u32 where "NTV2_FRAMERATE_2398 \<equiv> 7"
abbreviation (input) NTV2_FRAMERATE_2400 :: u32 where "NTV2_FRAMERATE_2400 \<equiv> 6"
abbreviation (input) NTV2_FRAMERATE_2500 :: u32 where "NTV2_FRAMERATE_2500 \<equiv> 5"
abbreviation (input) NTV2_FRAMERATE_2997 :: u32 where "NTV2_FRAMERATE_2997 \<equiv> 4"
abbreviation (input) NTV2_FRAMERATE_3000 :: u32 where "NTV2_FRAMERATE_3000 \<equiv> 3"
abbreviation (input) NTV2_FRAMERATE_4795 :: u32 where "NTV2_FRAMERATE_4795 \<equiv> 10"
abbreviation (input) NTV2_FRAMERATE_4800 :: u32 where "NTV2_FRAMERATE_4800 \<equiv> 9"
abbreviation (input) NTV2_FRAMERATE_5000 :: u32 where "NTV2_FRAMERATE_5000 \<equiv> 8"
abbreviation (input) NTV2_FRAMERATE_5994 :: u32 where "NTV2_FRAMERATE_5994 \<equiv> 2"
abbreviation (input) NTV2_FRAMERATE_6000 :: u32 where "NTV2_FRAMERATE_6000 \<equiv> 1"
abbreviation (input) NTV2_FRAMERATE_UNKNOWN :: u32 where "NTV2_FRAMERATE_UNKNOWN \<equiv> 0"
abbreviation (input) NTV2_INPUTSOURCE_ANALOG1 :: u32 where "NTV2_INPUTSOURCE_ANALOG1 \<equiv> 0"
abbreviation (input) NTV2_INPUTSOURCE_HDMI1 :: u32 where "NTV2_INPUTSOURCE_HDMI1 \<equiv> 1"
abbreviation (input) NTV2_LUTCONTROL_1_2 :: u32 where "NTV2_LUTCONTROL_1_2 \<equiv> 0"
abbreviation (input) NTV2_LUTCONTROL_3_4 :: u32 where "NTV2_LUTCONTROL_3_4 \<equiv> 1"
abbreviation (input) NTV2_LUTUnknown :: u32 where "NTV2_LUTUnknown \<equiv> 0"
abbreviation (input) NTV2_MAX_NUM_CHANNELS :: nat where "NTV2_MAX_NUM_CHANNELS \<equiv> 8"
abbreviation (input) NTV2_MAX_NUM_TIMECODE_INDEXES :: u32 where "NTV2_MAX_NUM_TIMECODE_INDEXES \<equiv> 27"
abbreviation (input) NTV2_MODE_CAPTURE :: u32 where "NTV2_MODE_CAPTURE \<equiv> 1"
abbreviation (input) NTV2_MODE_DISPLAY :: u32 where "NTV2_MODE_DISPLAY \<equiv> 0"
abbreviation (input) NTV2_NUM_AUDIOSYSTEMS :: nat where "NTV2_NUM_AUDIOSYSTEMS \<equiv> 8"
abbreviation (input) NTV2_NUM_FRAMERATES :: u32 where "NTV2_NUM_FRAMERATES \<equiv> 15"
abbreviation (input) NTV2_NUM_STANDARDS :: u32 where "NTV2_NUM_STANDARDS \<equiv> 16"
abbreviation (input) NTV2_REGWRITE_SYNCTOFIELD :: u32 where "NTV2_REGWRITE_SYNCTOFIELD \<equiv> 0"
abbreviation (input) NTV2_REGWRITE_SYNCTOFRAME :: u32 where "NTV2_REGWRITE_SYNCTOFRAME \<equiv> 1"
abbreviation (input) NTV2_RP188_OUTPUT :: u32 where "NTV2_RP188_OUTPUT \<equiv> 1"
abbreviation (input) NTV2_SG_1125 :: u32 where "NTV2_SG_1125 \<equiv> 4"
abbreviation (input) NTV2_SG_2Kx1080 :: u32 where "NTV2_SG_2Kx1080 \<equiv> 8"
abbreviation (input) NTV2_SG_2Kx1556 :: u32 where "NTV2_SG_2Kx1556 \<equiv> 9"
abbreviation (input) NTV2_SG_525 :: u32 where "NTV2_SG_525 \<equiv> 1"
abbreviation (input) NTV2_SG_625 :: u32 where "NTV2_SG_625 \<equiv> 2"
abbreviation (input) NTV2_SG_750 :: u32 where "NTV2_SG_750 \<equiv> 3"
abbreviation (input) NTV2_STANDARD_1080 :: u32 where "NTV2_STANDARD_1080 \<equiv> 0"
abbreviation (input) NTV2_STANDARD_1080p :: u32 where "NTV2_STANDARD_1080p \<equiv> 4"
abbreviation (input) NTV2_STANDARD_2K :: u32 where "NTV2_STANDARD_2K \<equiv> 5"
abbreviation (input) NTV2_STANDARD_2Kx1080p :: u32 where "NTV2_STANDARD_2Kx1080p \<equiv> 6"
abbreviation (input) NTV2_STANDARD_3840HFR :: u32 where "NTV2_STANDARD_3840HFR \<equiv> 10"
abbreviation (input) NTV2_STANDARD_3840i :: u32 where "NTV2_STANDARD_3840i \<equiv> 14"
abbreviation (input) NTV2_STANDARD_3840x2160p :: u32 where "NTV2_STANDARD_3840x2160p \<equiv> 8"
abbreviation (input) NTV2_STANDARD_4096HFR :: u32 where "NTV2_STANDARD_4096HFR \<equiv> 11"
abbreviation (input) NTV2_STANDARD_4096i :: u32 where "NTV2_STANDARD_4096i \<equiv> 15"
abbreviation (input) NTV2_STANDARD_4096x2160p :: u32 where "NTV2_STANDARD_4096x2160p \<equiv> 9"
abbreviation (input) NTV2_STANDARD_525 :: u32 where "NTV2_STANDARD_525 \<equiv> 2"
abbreviation (input) NTV2_STANDARD_625 :: u32 where "NTV2_STANDARD_625 \<equiv> 3"
abbreviation (input) NTV2_STANDARD_720 :: u32 where "NTV2_STANDARD_720 \<equiv> 1"
abbreviation (input) NTV2_STANDARD_7680 :: u32 where "NTV2_STANDARD_7680 \<equiv> 12"
abbreviation (input) NTV2_STANDARD_8192 :: u32 where "NTV2_STANDARD_8192 \<equiv> 13"
abbreviation (input) NTV2_STANDARD_TASKS :: u32 where "NTV2_STANDARD_TASKS \<equiv> 1"
abbreviation (input) NTV2_STATUS_SUCCESS :: u32 where "NTV2_STATUS_SUCCESS \<equiv> 0"
abbreviation (input) NTV2_TCINDEX_LTC1 :: u32 where "NTV2_TCINDEX_LTC1 \<equiv> 7"
abbreviation (input) NTV2_TCINDEX_LTC2 :: u32 where "NTV2_TCINDEX_LTC2 \<equiv> 8"
abbreviation (input) NTV2_TCINDEX_SDI1 :: u32 where "NTV2_TCINDEX_SDI1 \<equiv> 1"
abbreviation (input) NTV2_TCINDEX_SDI1_2 :: u32 where "NTV2_TCINDEX_SDI1_2 \<equiv> 19"
abbreviation (input) NTV2_TCINDEX_SDI1_LTC :: u32 where "NTV2_TCINDEX_SDI1_LTC \<equiv> 5"
abbreviation (input) NTV2_TCINDEX_SDI2 :: u32 where "NTV2_TCINDEX_SDI2 \<equiv> 2"
abbreviation (input) NTV2_TCINDEX_SDI2_2 :: u32 where "NTV2_TCINDEX_SDI2_2 \<equiv> 20"
abbreviation (input) NTV2_TCINDEX_SDI2_LTC :: u32 where "NTV2_TCINDEX_SDI2_LTC \<equiv> 6"
abbreviation (input) NTV2_TCINDEX_SDI3 :: u32 where "NTV2_TCINDEX_SDI3 \<equiv> 3"
abbreviation (input) NTV2_TCINDEX_SDI3_2 :: u32 where "NTV2_TCINDEX_SDI3_2 \<equiv> 21"
abbreviation (input) NTV2_TCINDEX_SDI3_LTC :: u32 where "NTV2_TCINDEX_SDI3_LTC \<equiv> 13"
abbreviation (input) NTV2_TCINDEX_SDI4 :: u32 where "NTV2_TCINDEX_SDI4 \<equiv> 4"
abbreviation (input) NTV2_TCINDEX_SDI4_2 :: u32 where "NTV2_TCINDEX_SDI4_2 \<equiv> 22"
abbreviation (input) NTV2_TCINDEX_SDI4_LTC :: u32 where "NTV2_TCINDEX_SDI4_LTC \<equiv> 14"
abbreviation (input) NTV2_TCINDEX_SDI5 :: u32 where "NTV2_TCINDEX_SDI5 \<equiv> 9"
abbreviation (input) NTV2_TCINDEX_SDI5_2 :: u32 where "NTV2_TCINDEX_SDI5_2 \<equiv> 23"
abbreviation (input) NTV2_TCINDEX_SDI5_LTC :: u32 where "NTV2_TCINDEX_SDI5_LTC \<equiv> 15"
abbreviation (input) NTV2_TCINDEX_SDI6 :: u32 where "NTV2_TCINDEX_SDI6 \<equiv> 10"
abbreviation (input) NTV2_TCINDEX_SDI6_2 :: u32 where "NTV2_TCINDEX_SDI6_2 \<equiv> 24"
abbreviation (input) NTV2_TCINDEX_SDI6_LTC :: u32 where "NTV2_TCINDEX_SDI6_LTC \<equiv> 16"
abbreviation (input) NTV2_TCINDEX_SDI7 :: u32 where "NTV2_TCINDEX_SDI7 \<equiv> 11"
abbreviation (input) NTV2_TCINDEX_SDI7_2 :: u32 where "NTV2_TCINDEX_SDI7_2 \<equiv> 25"
abbreviation (input) NTV2_TCINDEX_SDI7_LTC :: u32 where "NTV2_TCINDEX_SDI7_LTC \<equiv> 17"
abbreviation (input) NTV2_TCINDEX_SDI8 :: u32 where "NTV2_TCINDEX_SDI8 \<equiv> 12"
abbreviation (input) NTV2_TCINDEX_SDI8_2 :: u32 where "NTV2_TCINDEX_SDI8_2 \<equiv> 26"
abbreviation (input) NTV2_TCINDEX_SDI8_LTC :: u32 where "NTV2_TCINDEX_SDI8_LTC \<equiv> 18"
abbreviation (input) NTV2_WgtSDIMonOut1 :: u32 where "NTV2_WgtSDIMonOut1 \<equiv> 60"
abbreviation (input) NTV2_Xpt4KDownConverterOut :: u32 where "NTV2_Xpt4KDownConverterOut \<equiv> 68"
abbreviation (input) NTV2_Xpt4KDownConverterOutRGB :: u32 where "NTV2_Xpt4KDownConverterOutRGB \<equiv> 196"
abbreviation (input) NTV2_XptAnalogIn :: u32 where "NTV2_XptAnalogIn \<equiv> 22"
abbreviation (input) NTV2_XptBlack :: u32 where "NTV2_XptBlack \<equiv> 0"
abbreviation (input) NTV2_XptConversionModule :: u32 where "NTV2_XptConversionModule \<equiv> 6"
abbreviation (input) NTV2_XptDuallinkIn1 :: u32 where "NTV2_XptDuallinkIn1 \<equiv> 131"
abbreviation (input) NTV2_XptDuallinkIn2 :: u32 where "NTV2_XptDuallinkIn2 \<equiv> 168"
abbreviation (input) NTV2_XptDuallinkIn3 :: u32 where "NTV2_XptDuallinkIn3 \<equiv> 180"
abbreviation (input) NTV2_XptDuallinkIn4 :: u32 where "NTV2_XptDuallinkIn4 \<equiv> 181"
abbreviation (input) NTV2_XptDuallinkIn5 :: u32 where "NTV2_XptDuallinkIn5 \<equiv> 205"
abbreviation (input) NTV2_XptDuallinkIn6 :: u32 where "NTV2_XptDuallinkIn6 \<equiv> 206"
abbreviation (input) NTV2_XptDuallinkIn7 :: u32 where "NTV2_XptDuallinkIn7 \<equiv> 207"
abbreviation (input) NTV2_XptDuallinkIn8 :: u32 where "NTV2_XptDuallinkIn8 \<equiv> 208"
abbreviation (input) NTV2_XptFrameBuffer1RGB :: u32 where "NTV2_XptFrameBuffer1RGB \<equiv> 136"
abbreviation (input) NTV2_XptFrameBuffer1YUV :: u32 where "NTV2_XptFrameBuffer1YUV \<equiv> 8"
abbreviation (input) NTV2_XptFrameBuffer1_DS2RGB :: u32 where "NTV2_XptFrameBuffer1_DS2RGB \<equiv> 240"
abbreviation (input) NTV2_XptFrameBuffer1_DS2YUV :: u32 where "NTV2_XptFrameBuffer1_DS2YUV \<equiv> 112"
abbreviation (input) NTV2_XptFrameBuffer2RGB :: u32 where "NTV2_XptFrameBuffer2RGB \<equiv> 143"
abbreviation (input) NTV2_XptFrameBuffer2YUV :: u32 where "NTV2_XptFrameBuffer2YUV \<equiv> 15"
abbreviation (input) NTV2_XptFrameBuffer2_DS2RGB :: u32 where "NTV2_XptFrameBuffer2_DS2RGB \<equiv> 241"
abbreviation (input) NTV2_XptFrameBuffer2_DS2YUV :: u32 where "NTV2_XptFrameBuffer2_DS2YUV \<equiv> 113"
abbreviation (input) NTV2_XptFrameBuffer3RGB :: u32 where "NTV2_XptFrameBuffer3RGB \<equiv> 164"
abbreviation (input) NTV2_XptFrameBuffer3YUV :: u32 where "NTV2_XptFrameBuffer3YUV \<equiv> 36"
abbreviation (input) NTV2_XptFrameBuffer3_DS2RGB :: u32 where "NTV2_XptFrameBuffer3_DS2RGB \<equiv> 242"
abbreviation (input) NTV2_XptFrameBuffer3_DS2YUV :: u32 where "NTV2_XptFrameBuffer3_DS2YUV \<equiv> 114"
abbreviation (input) NTV2_XptFrameBuffer4RGB :: u32 where "NTV2_XptFrameBuffer4RGB \<equiv> 165"
abbreviation (input) NTV2_XptFrameBuffer4YUV :: u32 where "NTV2_XptFrameBuffer4YUV \<equiv> 37"
abbreviation (input) NTV2_XptFrameBuffer4_DS2RGB :: u32 where "NTV2_XptFrameBuffer4_DS2RGB \<equiv> 243"
abbreviation (input) NTV2_XptFrameBuffer4_DS2YUV :: u32 where "NTV2_XptFrameBuffer4_DS2YUV \<equiv> 115"
abbreviation (input) NTV2_XptFrameBuffer5RGB :: u32 where "NTV2_XptFrameBuffer5RGB \<equiv> 209"
abbreviation (input) NTV2_XptFrameBuffer5YUV :: u32 where "NTV2_XptFrameBuffer5YUV \<equiv> 81"
abbreviation (input) NTV2_XptFrameBuffer5_DS2RGB :: u32 where "NTV2_XptFrameBuffer5_DS2RGB \<equiv> 244"
abbreviation (input) NTV2_XptFrameBuffer5_DS2YUV :: u32 where "NTV2_XptFrameBuffer5_DS2YUV \<equiv> 116"
abbreviation (input) NTV2_XptFrameBuffer6RGB :: u32 where "NTV2_XptFrameBuffer6RGB \<equiv> 210"
abbreviation (input) NTV2_XptFrameBuffer6YUV :: u32 where "NTV2_XptFrameBuffer6YUV \<equiv> 82"
abbreviation (input) NTV2_XptFrameBuffer6_DS2RGB :: u32 where "NTV2_XptFrameBuffer6_DS2RGB \<equiv> 245"
abbreviation (input) NTV2_XptFrameBuffer6_DS2YUV :: u32 where "NTV2_XptFrameBuffer6_DS2YUV \<equiv> 117"
abbreviation (input) NTV2_XptFrameBuffer7RGB :: u32 where "NTV2_XptFrameBuffer7RGB \<equiv> 211"
abbreviation (input) NTV2_XptFrameBuffer7YUV :: u32 where "NTV2_XptFrameBuffer7YUV \<equiv> 83"
abbreviation (input) NTV2_XptFrameBuffer7_DS2RGB :: u32 where "NTV2_XptFrameBuffer7_DS2RGB \<equiv> 246"
abbreviation (input) NTV2_XptFrameBuffer7_DS2YUV :: u32 where "NTV2_XptFrameBuffer7_DS2YUV \<equiv> 118"
abbreviation (input) NTV2_XptFrameBuffer8RGB :: u32 where "NTV2_XptFrameBuffer8RGB \<equiv> 212"
abbreviation (input) NTV2_XptFrameBuffer8YUV :: u32 where "NTV2_XptFrameBuffer8YUV \<equiv> 84"
abbreviation (input) NTV2_XptFrameBuffer8_DS2RGB :: u32 where "NTV2_XptFrameBuffer8_DS2RGB \<equiv> 247"
abbreviation (input) NTV2_XptFrameBuffer8_DS2YUV :: u32 where "NTV2_XptFrameBuffer8_DS2YUV \<equiv> 119"
abbreviation (input) NTV2_XptHDMIIn1 :: u32 where "NTV2_XptHDMIIn1 \<equiv> 23"
abbreviation (input) NTV2_XptHDMIIn1Q2 :: u32 where "NTV2_XptHDMIIn1Q2 \<equiv> 65"
abbreviation (input) NTV2_XptHDMIIn1Q2RGB :: u32 where "NTV2_XptHDMIIn1Q2RGB \<equiv> 193"
abbreviation (input) NTV2_XptHDMIIn1Q3 :: u32 where "NTV2_XptHDMIIn1Q3 \<equiv> 66"
abbreviation (input) NTV2_XptHDMIIn1Q3RGB :: u32 where "NTV2_XptHDMIIn1Q3RGB \<equiv> 194"
abbreviation (input) NTV2_XptHDMIIn1Q4 :: u32 where "NTV2_XptHDMIIn1Q4 \<equiv> 67"
abbreviation (input) NTV2_XptHDMIIn1Q4RGB :: u32 where "NTV2_XptHDMIIn1Q4RGB \<equiv> 195"
abbreviation (input) NTV2_XptHDMIIn1RGB :: u32 where "NTV2_XptHDMIIn1RGB \<equiv> 151"
abbreviation (input) NTV2_XptMultiLinkOut1DS1 :: u32 where "NTV2_XptMultiLinkOut1DS1 \<equiv> 20"
abbreviation (input) NTV2_XptMultiLinkOut1DS2 :: u32 where "NTV2_XptMultiLinkOut1DS2 \<equiv> 21"
abbreviation (input) NTV2_XptMultiLinkOut1DS3 :: u32 where "NTV2_XptMultiLinkOut1DS3 \<equiv> 24"
abbreviation (input) NTV2_XptMultiLinkOut1DS4 :: u32 where "NTV2_XptMultiLinkOut1DS4 \<equiv> 25"
abbreviation (input) NTV2_XptSDIIn1 :: u32 where "NTV2_XptSDIIn1 \<equiv> 1"
abbreviation (input) NTV2_XptSDIIn1DS2 :: u32 where "NTV2_XptSDIIn1DS2 \<equiv> 30"
abbreviation (input) NTV2_XptSDIIn2 :: u32 where "NTV2_XptSDIIn2 \<equiv> 2"
abbreviation (input) NTV2_XptSDIIn2DS2 :: u32 where "NTV2_XptSDIIn2DS2 \<equiv> 31"
abbreviation (input) NTV2_XptSDIIn3 :: u32 where "NTV2_XptSDIIn3 \<equiv> 48"
abbreviation (input) NTV2_XptSDIIn3DS2 :: u32 where "NTV2_XptSDIIn3DS2 \<equiv> 50"
abbreviation (input) NTV2_XptSDIIn4 :: u32 where "NTV2_XptSDIIn4 \<equiv> 49"
abbreviation (input) NTV2_XptSDIIn4DS2 :: u32 where "NTV2_XptSDIIn4DS2 \<equiv> 51"
abbreviation (input) NTV2_XptSDIIn5 :: u32 where "NTV2_XptSDIIn5 \<equiv> 69"
abbreviation (input) NTV2_XptSDIIn5DS2 :: u32 where "NTV2_XptSDIIn5DS2 \<equiv> 71"
abbreviation (input) NTV2_XptSDIIn6 :: u32 where "NTV2_XptSDIIn6 \<equiv> 70"
abbreviation (input) NTV2_XptSDIIn6DS2 :: u32 where "NTV2_XptSDIIn6DS2 \<equiv> 72"
abbreviation (input) NTV2_XptSDIIn7 :: u32 where "NTV2_XptSDIIn7 \<equiv> 73"
abbreviation (input) NTV2_XptSDIIn7DS2 :: u32 where "NTV2_XptSDIIn7DS2 \<equiv> 75"
abbreviation (input) NTV2_XptSDIIn8 :: u32 where "NTV2_XptSDIIn8 \<equiv> 74"
abbreviation (input) NTV2_XptSDIIn8DS2 :: u32 where "NTV2_XptSDIIn8DS2 \<equiv> 76"
abbreviation (input) VIDPROCMUX1MASK :: u32 where "VIDPROCMUX1MASK \<equiv> 0x3"
abbreviation (input) VIDPROCMUX2MASK :: u32 where "VIDPROCMUX2MASK \<equiv> 0xC"
abbreviation (input) VIDPROCMUX3MASK :: u32 where "VIDPROCMUX3MASK \<equiv> 0x30"
abbreviation (input) XPT_ANALOG_IN :: u32 where "XPT_ANALOG_IN \<equiv> 1024"
abbreviation (input) XPT_FB_425_RGB_1 :: u32 where "XPT_FB_425_RGB_1 \<equiv> 1560"
abbreviation (input) XPT_FB_425_RGB_2 :: u32 where "XPT_FB_425_RGB_2 \<equiv> 1561"
abbreviation (input) XPT_FB_425_RGB_3 :: u32 where "XPT_FB_425_RGB_3 \<equiv> 1562"
abbreviation (input) XPT_FB_425_RGB_4 :: u32 where "XPT_FB_425_RGB_4 \<equiv> 1563"
abbreviation (input) XPT_FB_425_RGB_5 :: u32 where "XPT_FB_425_RGB_5 \<equiv> 1564"
abbreviation (input) XPT_FB_425_RGB_6 :: u32 where "XPT_FB_425_RGB_6 \<equiv> 1565"
abbreviation (input) XPT_FB_425_RGB_7 :: u32 where "XPT_FB_425_RGB_7 \<equiv> 1566"
abbreviation (input) XPT_FB_425_RGB_8 :: u32 where "XPT_FB_425_RGB_8 \<equiv> 1567"
abbreviation (input) XPT_FB_425_YUV_1 :: u32 where "XPT_FB_425_YUV_1 \<equiv> 1552"
abbreviation (input) XPT_FB_425_YUV_2 :: u32 where "XPT_FB_425_YUV_2 \<equiv> 1553"
abbreviation (input) XPT_FB_425_YUV_3 :: u32 where "XPT_FB_425_YUV_3 \<equiv> 1554"
abbreviation (input) XPT_FB_425_YUV_4 :: u32 where "XPT_FB_425_YUV_4 \<equiv> 1555"
abbreviation (input) XPT_FB_425_YUV_5 :: u32 where "XPT_FB_425_YUV_5 \<equiv> 1556"
abbreviation (input) XPT_FB_425_YUV_6 :: u32 where "XPT_FB_425_YUV_6 \<equiv> 1557"
abbreviation (input) XPT_FB_425_YUV_7 :: u32 where "XPT_FB_425_YUV_7 \<equiv> 1558"
abbreviation (input) XPT_FB_425_YUV_8 :: u32 where "XPT_FB_425_YUV_8 \<equiv> 1559"
abbreviation (input) XPT_FB_RGB_1 :: u32 where "XPT_FB_RGB_1 \<equiv> 1544"
abbreviation (input) XPT_FB_RGB_2 :: u32 where "XPT_FB_RGB_2 \<equiv> 1545"
abbreviation (input) XPT_FB_RGB_3 :: u32 where "XPT_FB_RGB_3 \<equiv> 1546"
abbreviation (input) XPT_FB_RGB_4 :: u32 where "XPT_FB_RGB_4 \<equiv> 1547"
abbreviation (input) XPT_FB_RGB_5 :: u32 where "XPT_FB_RGB_5 \<equiv> 1548"
abbreviation (input) XPT_FB_RGB_6 :: u32 where "XPT_FB_RGB_6 \<equiv> 1549"
abbreviation (input) XPT_FB_RGB_7 :: u32 where "XPT_FB_RGB_7 \<equiv> 1550"
abbreviation (input) XPT_FB_RGB_8 :: u32 where "XPT_FB_RGB_8 \<equiv> 1551"
abbreviation (input) XPT_FB_YUV_1 :: u32 where "XPT_FB_YUV_1 \<equiv> 1536"
abbreviation (input) XPT_FB_YUV_2 :: u32 where "XPT_FB_YUV_2 \<equiv> 1537"
abbreviation (input) XPT_FB_YUV_3 :: u32 where "XPT_FB_YUV_3 \<equiv> 1538"
abbreviation (input) XPT_FB_YUV_4 :: u32 where "XPT_FB_YUV_4 \<equiv> 1539"
abbreviation (input) XPT_FB_YUV_5 :: u32 where "XPT_FB_YUV_5 \<equiv> 1540"
abbreviation (input) XPT_FB_YUV_6 :: u32 where "XPT_FB_YUV_6 \<equiv> 1541"
abbreviation (input) XPT_FB_YUV_7 :: u32 where "XPT_FB_YUV_7 \<equiv> 1542"
abbreviation (input) XPT_FB_YUV_8 :: u32 where "XPT_FB_YUV_8 \<equiv> 1543"
abbreviation (input) XPT_HDMI_IN :: u32 where "XPT_HDMI_IN \<equiv> 1280"
abbreviation (input) XPT_HDMI_IN_Q2 :: u32 where "XPT_HDMI_IN_Q2 \<equiv> 1281"
abbreviation (input) XPT_HDMI_IN_Q3 :: u32 where "XPT_HDMI_IN_Q3 \<equiv> 1282"
abbreviation (input) XPT_HDMI_IN_Q4 :: u32 where "XPT_HDMI_IN_Q4 \<equiv> 1283"
abbreviation (input) XPT_SDI_IN_1 :: u32 where "XPT_SDI_IN_1 \<equiv> 1792"
abbreviation (input) XPT_SDI_IN_1_DS2 :: u32 where "XPT_SDI_IN_1_DS2 \<equiv> 1800"
abbreviation (input) XPT_SDI_IN_2 :: u32 where "XPT_SDI_IN_2 \<equiv> 1793"
abbreviation (input) XPT_SDI_IN_2_DS2 :: u32 where "XPT_SDI_IN_2_DS2 \<equiv> 1801"
abbreviation (input) XPT_SDI_IN_3 :: u32 where "XPT_SDI_IN_3 \<equiv> 1794"
abbreviation (input) XPT_SDI_IN_3_DS2 :: u32 where "XPT_SDI_IN_3_DS2 \<equiv> 1802"
abbreviation (input) XPT_SDI_IN_4 :: u32 where "XPT_SDI_IN_4 \<equiv> 1795"
abbreviation (input) XPT_SDI_IN_4_DS2 :: u32 where "XPT_SDI_IN_4_DS2 \<equiv> 1803"
abbreviation (input) XPT_SDI_IN_5 :: u32 where "XPT_SDI_IN_5 \<equiv> 1796"
abbreviation (input) XPT_SDI_IN_5_DS2 :: u32 where "XPT_SDI_IN_5_DS2 \<equiv> 1804"
abbreviation (input) XPT_SDI_IN_6 :: u32 where "XPT_SDI_IN_6 \<equiv> 1797"
abbreviation (input) XPT_SDI_IN_6_DS2 :: u32 where "XPT_SDI_IN_6_DS2 \<equiv> 1805"
abbreviation (input) XPT_SDI_IN_7 :: u32 where "XPT_SDI_IN_7 \<equiv> 1798"
abbreviation (input) XPT_SDI_IN_7_DS2 :: u32 where "XPT_SDI_IN_7_DS2 \<equiv> 1806"
abbreviation (input) XPT_SDI_IN_8 :: u32 where "XPT_SDI_IN_8 \<equiv> 1799"
abbreviation (input) XPT_SDI_IN_8_DS2 :: u32 where "XPT_SDI_IN_8_DS2 \<equiv> 1807"
abbreviation (input) eAbortAutoCirc :: u32 where "eAbortAutoCirc \<equiv> 9"
abbreviation (input) eFlushAutoCirculate :: u32 where "eFlushAutoCirculate \<equiv> 6"
abbreviation (input) eInitAutoCirc :: u32 where "eInitAutoCirc \<equiv> 0"
abbreviation (input) ePauseAutoCirc :: u32 where "ePauseAutoCirc \<equiv> 3"
abbreviation (input) ePrerollAutoCirculate :: u32 where "ePrerollAutoCirculate \<equiv> 7"
abbreviation (input) eSetActiveFrame :: u32 where "eSetActiveFrame \<equiv> 15"
abbreviation (input) eStartAutoCirc :: u32 where "eStartAutoCirc \<equiv> 1"
abbreviation (input) eStartAutoCircAtTime :: u32 where "eStartAutoCircAtTime \<equiv> 10"
abbreviation (input) eStopAutoCirc :: u32 where "eStopAutoCirc \<equiv> 2"
abbreviation (input) kColorCorrectionLUTOffset_Blue :: u32 where "kColorCorrectionLUTOffset_Blue \<equiv> 6144"
abbreviation (input) kColorCorrectionLUTOffset_Green :: u32 where "kColorCorrectionLUTOffset_Green \<equiv> 4096"
abbreviation (input) kColorCorrectionLUTOffset_Red :: u32 where "kColorCorrectionLUTOffset_Red \<equiv> 2048"
abbreviation (input) kK2RegMask2piCSC1 :: u32 where "kK2RegMask2piCSC1 \<equiv> 0x10000000"
abbreviation (input) kK2RegMask2piCSC5 :: u32 where "kK2RegMask2piCSC5 \<equiv> 0x10000000"
abbreviation (input) kK2RegMask425Mux1AInputSelect :: u32 where "kK2RegMask425Mux1AInputSelect \<equiv> 0xFF"
abbreviation (input) kK2RegMask425Mux1BInputSelect :: u32 where "kK2RegMask425Mux1BInputSelect \<equiv> 0xFF00"
abbreviation (input) kK2RegMask425Mux2AInputSelect :: u32 where "kK2RegMask425Mux2AInputSelect \<equiv> 0xFF0000"
abbreviation (input) kK2RegMask425Mux2BInputSelect :: u32 where "kK2RegMask425Mux2BInputSelect \<equiv> 0xFF000000"
abbreviation (input) kK2RegMask425Mux3AInputSelect :: u32 where "kK2RegMask425Mux3AInputSelect \<equiv> 0xFF"
abbreviation (input) kK2RegMask425Mux3BInputSelect :: u32 where "kK2RegMask425Mux3BInputSelect \<equiv> 0xFF00"
abbreviation (input) kK2RegMask425Mux4AInputSelect :: u32 where "kK2RegMask425Mux4AInputSelect \<equiv> 0xFF0000"
abbreviation (input) kK2RegMask425Mux4BInputSelect :: u32 where "kK2RegMask425Mux4BInputSelect \<equiv> 0xFF000000"
abbreviation (input) kK2RegMask4KDCQ1InputSelect :: u32 where "kK2RegMask4KDCQ1InputSelect \<equiv> 0xFF"
abbreviation (input) kK2RegMaskAnalogOutInputSelect :: u32 where "kK2RegMaskAnalogOutInputSelect \<equiv> 0xFF"
abbreviation (input) kK2RegMaskAudioBufferSize :: u32 where "kK2RegMaskAudioBufferSize \<equiv> 0x80000000"
abbreviation (input) kK2RegMaskCSC2VidInputSelect :: u32 where "kK2RegMaskCSC2VidInputSelect \<equiv> 0xFF0000"
abbreviation (input) kK2RegMaskCSC3VidInputSelect :: u32 where "kK2RegMaskCSC3VidInputSelect \<equiv> 0xFF"
abbreviation (input) kK2RegMaskCSC4VidInputSelect :: u32 where "kK2RegMaskCSC4VidInputSelect \<equiv> 0xFF0000"
abbreviation (input) kK2RegMaskCSC5VidInputSelect :: u32 where "kK2RegMaskCSC5VidInputSelect \<equiv> 0xFF"
abbreviation (input) kK2RegMaskCSC6VidInputSelect :: u32 where "kK2RegMaskCSC6VidInputSelect \<equiv> 0xFF0000"
abbreviation (input) kK2RegMaskCSC7VidInputSelect :: u32 where "kK2RegMaskCSC7VidInputSelect \<equiv> 0xFF"
abbreviation (input) kK2RegMaskCSC8VidInputSelect :: u32 where "kK2RegMaskCSC8VidInputSelect \<equiv> 0xFF0000"
abbreviation (input) kK2RegMaskColorSpaceConverterInputSelect :: u32 where "kK2RegMaskColorSpaceConverterInputSelect \<equiv> 0xFF00"
abbreviation (input) kK2RegMaskCompressionModInputSelect :: u32 where "kK2RegMaskCompressionModInputSelect \<equiv> 0xFF000000"
abbreviation (input) kK2RegMaskConversionModInputSelect :: u32 where "kK2RegMaskConversionModInputSelect \<equiv> 0xFF0000"
abbreviation (input) kK2RegMaskDuallinkIn1DSInputSelect :: u32 where "kK2RegMaskDuallinkIn1DSInputSelect \<equiv> 0xFF00"
abbreviation (input) kK2RegMaskDuallinkIn1InputSelect :: u32 where "kK2RegMaskDuallinkIn1InputSelect \<equiv> 0xFF"
abbreviation (input) kK2RegMaskDuallinkIn2DSInputSelect :: u32 where "kK2RegMaskDuallinkIn2DSInputSelect \<equiv> 0xFF000000"
abbreviation (input) kK2RegMaskDuallinkIn2InputSelect :: u32 where "kK2RegMaskDuallinkIn2InputSelect \<equiv> 0xFF0000"
abbreviation (input) kK2RegMaskDuallinkIn3DSInputSelect :: u32 where "kK2RegMaskDuallinkIn3DSInputSelect \<equiv> 0xFF00"
abbreviation (input) kK2RegMaskDuallinkIn3InputSelect :: u32 where "kK2RegMaskDuallinkIn3InputSelect \<equiv> 0xFF"
abbreviation (input) kK2RegMaskDuallinkIn4DSInputSelect :: u32 where "kK2RegMaskDuallinkIn4DSInputSelect \<equiv> 0xFF000000"
abbreviation (input) kK2RegMaskDuallinkIn4InputSelect :: u32 where "kK2RegMaskDuallinkIn4InputSelect \<equiv> 0xFF0000"
abbreviation (input) kK2RegMaskDuallinkIn5DSInputSelect :: u32 where "kK2RegMaskDuallinkIn5DSInputSelect \<equiv> 0xFF00"
abbreviation (input) kK2RegMaskDuallinkIn5InputSelect :: u32 where "kK2RegMaskDuallinkIn5InputSelect \<equiv> 0xFF"
abbreviation (input) kK2RegMaskDuallinkIn6DSInputSelect :: u32 where "kK2RegMaskDuallinkIn6DSInputSelect \<equiv> 0xFF000000"
abbreviation (input) kK2RegMaskDuallinkIn6InputSelect :: u32 where "kK2RegMaskDuallinkIn6InputSelect \<equiv> 0xFF0000"
abbreviation (input) kK2RegMaskDuallinkIn7DSInputSelect :: u32 where "kK2RegMaskDuallinkIn7DSInputSelect \<equiv> 0xFF00"
abbreviation (input) kK2RegMaskDuallinkIn7InputSelect :: u32 where "kK2RegMaskDuallinkIn7InputSelect \<equiv> 0xFF"
abbreviation (input) kK2RegMaskDuallinkIn8DSInputSelect :: u32 where "kK2RegMaskDuallinkIn8DSInputSelect \<equiv> 0xFF000000"
abbreviation (input) kK2RegMaskDuallinkIn8InputSelect :: u32 where "kK2RegMaskDuallinkIn8InputSelect \<equiv> 0xFF0000"
abbreviation (input) kK2RegMaskDuallinkOut2InputSelect :: u32 where "kK2RegMaskDuallinkOut2InputSelect \<equiv> 0xFF0000"
abbreviation (input) kK2RegMaskDuallinkOut3InputSelect :: u32 where "kK2RegMaskDuallinkOut3InputSelect \<equiv> 0xFF"
abbreviation (input) kK2RegMaskDuallinkOut4InputSelect :: u32 where "kK2RegMaskDuallinkOut4InputSelect \<equiv> 0xFF00"
abbreviation (input) kK2RegMaskDuallinkOut5InputSelect :: u32 where "kK2RegMaskDuallinkOut5InputSelect \<equiv> 0xFF0000"
abbreviation (input) kK2RegMaskDuallinkOut6InputSelect :: u32 where "kK2RegMaskDuallinkOut6InputSelect \<equiv> 0xFF"
abbreviation (input) kK2RegMaskDuallinkOut7InputSelect :: u32 where "kK2RegMaskDuallinkOut7InputSelect \<equiv> 0xFF00"
abbreviation (input) kK2RegMaskDuallinkOut8InputSelect :: u32 where "kK2RegMaskDuallinkOut8InputSelect \<equiv> 0xFF0000"
abbreviation (input) kK2RegMaskDuallinkOutInputSelect :: u32 where "kK2RegMaskDuallinkOutInputSelect \<equiv> 0xFF000000"
abbreviation (input) kK2RegMaskFrameBuffer1InputSelect :: u32 where "kK2RegMaskFrameBuffer1InputSelect \<equiv> 0xFF"
abbreviation (input) kK2RegMaskFrameBuffer2InputSelect :: u32 where "kK2RegMaskFrameBuffer2InputSelect \<equiv> 0xFF"
abbreviation (input) kK2RegMaskFrameSync1InputSelect :: u32 where "kK2RegMaskFrameSync1InputSelect \<equiv> 0xFF00"
abbreviation (input) kK2RegMaskFrameSync2InputSelect :: u32 where "kK2RegMaskFrameSync2InputSelect \<equiv> 0xFF0000"
abbreviation (input) kK2RegMaskHDMIOutInputSelect :: u32 where "kK2RegMaskHDMIOutInputSelect \<equiv> 0xFF0000"
abbreviation (input) kK2RegMaskHDMIOutV2Q2InputSelect :: u32 where "kK2RegMaskHDMIOutV2Q2InputSelect \<equiv> 0xFF00"
abbreviation (input) kK2RegMaskHDMIOutV2Q3InputSelect :: u32 where "kK2RegMaskHDMIOutV2Q3InputSelect \<equiv> 0xFF0000"
abbreviation (input) kK2RegMaskHDMIOutV2Q4InputSelect :: u32 where "kK2RegMaskHDMIOutV2Q4InputSelect \<equiv> 0xFF000000"
abbreviation (input) kK2RegMaskMixer2FGKeyInputSelect :: u32 where "kK2RegMaskMixer2FGKeyInputSelect \<equiv> 0xFF00"
abbreviation (input) kK2RegMaskMixer2FGVidInputSelect :: u32 where "kK2RegMaskMixer2FGVidInputSelect \<equiv> 0xFF"
abbreviation (input) kK2RegMaskMixer3FGKeyInputSelect :: u32 where "kK2RegMaskMixer3FGKeyInputSelect \<equiv> 0xFF00"
abbreviation (input) kK2RegMaskMixer3FGVidInputSelect :: u32 where "kK2RegMaskMixer3FGVidInputSelect \<equiv> 0xFF"
abbreviation (input) kK2RegMaskMixer4FGKeyInputSelect :: u32 where "kK2RegMaskMixer4FGKeyInputSelect \<equiv> 0xFF00"
abbreviation (input) kK2RegMaskMixer4FGVidInputSelect :: u32 where "kK2RegMaskMixer4FGVidInputSelect \<equiv> 0xFF"
abbreviation (input) kK2RegMaskMixerFGKeyInputSelect :: u32 where "kK2RegMaskMixerFGKeyInputSelect \<equiv> 0xFF00"
abbreviation (input) kK2RegMaskMixerFGVidInputSelect :: u32 where "kK2RegMaskMixerFGVidInputSelect \<equiv> 0xFF"
abbreviation (input) kK2RegMaskMultiLinkOutInputSelect :: u32 where "kK2RegMaskMultiLinkOutInputSelect \<equiv> 0xFF"
abbreviation (input) kK2RegMaskSDI1Out_2Kx1080Mode :: u32 where "kK2RegMaskSDI1Out_2Kx1080Mode \<equiv> 0x8"
abbreviation (input) kK2RegMaskSDIOut1DS2InputSelect :: u32 where "kK2RegMaskSDIOut1DS2InputSelect \<equiv> 0xFF"
abbreviation (input) kK2RegMaskSDIOut1InputSelect :: u32 where "kK2RegMaskSDIOut1InputSelect \<equiv> 0xFF00"
abbreviation (input) kK2RegMaskSDIOut2DS2InputSelect :: u32 where "kK2RegMaskSDIOut2DS2InputSelect \<equiv> 0xFF00"
abbreviation (input) kK2RegMaskSDIOut2InputSelect :: u32 where "kK2RegMaskSDIOut2InputSelect \<equiv> 0xFF0000"
abbreviation (input) kK2RegMaskSDIOut3DS2InputSelect :: u32 where "kK2RegMaskSDIOut3DS2InputSelect \<equiv> 0xFF00"
abbreviation (input) kK2RegMaskSDIOut3InputSelect :: u32 where "kK2RegMaskSDIOut3InputSelect \<equiv> 0xFF"
abbreviation (input) kK2RegMaskSDIOut4DS2InputSelect :: u32 where "kK2RegMaskSDIOut4DS2InputSelect \<equiv> 0xFF000000"
abbreviation (input) kK2RegMaskSDIOut4InputSelect :: u32 where "kK2RegMaskSDIOut4InputSelect \<equiv> 0xFF00"
abbreviation (input) kK2RegMaskSDIOut5DS2InputSelect :: u32 where "kK2RegMaskSDIOut5DS2InputSelect \<equiv> 0xFF0000"
abbreviation (input) kK2RegMaskSDIOut5InputSelect :: u32 where "kK2RegMaskSDIOut5InputSelect \<equiv> 0xFF0000"
abbreviation (input) kK2RegMaskSDIOut6DS2InputSelect :: u32 where "kK2RegMaskSDIOut6DS2InputSelect \<equiv> 0xFF00"
abbreviation (input) kK2RegMaskSDIOut6InputSelect :: u32 where "kK2RegMaskSDIOut6InputSelect \<equiv> 0xFF"
abbreviation (input) kK2RegMaskSDIOut7DS2InputSelect :: u32 where "kK2RegMaskSDIOut7DS2InputSelect \<equiv> 0xFF000000"
abbreviation (input) kK2RegMaskSDIOut7InputSelect :: u32 where "kK2RegMaskSDIOut7InputSelect \<equiv> 0xFF0000"
abbreviation (input) kK2RegMaskSDIOut8DS2InputSelect :: u32 where "kK2RegMaskSDIOut8DS2InputSelect \<equiv> 0xFF00"
abbreviation (input) kK2RegMaskSDIOut8InputSelect :: u32 where "kK2RegMaskSDIOut8InputSelect \<equiv> 0xFF"
abbreviation (input) kK2RegMaskSDIOutStandard :: u32 where "kK2RegMaskSDIOutStandard \<equiv> 0x7"
abbreviation (input) kK2RegMaskXpt3DLUT1InputSelect :: u32 where "kK2RegMaskXpt3DLUT1InputSelect \<equiv> 0xFF000000"
abbreviation (input) kK2RegMaskXptLUT2InputSelect :: u32 where "kK2RegMaskXptLUT2InputSelect \<equiv> 0xFF00"
abbreviation (input) kK2RegMaskXptLUT3InputSelect :: u32 where "kK2RegMaskXptLUT3InputSelect \<equiv> 0xFF"
abbreviation (input) kK2RegMaskXptLUT4InputSelect :: u32 where "kK2RegMaskXptLUT4InputSelect \<equiv> 0xFF00"
abbreviation (input) kK2RegMaskXptLUT5InputSelect :: u32 where "kK2RegMaskXptLUT5InputSelect \<equiv> 0xFF0000"
abbreviation (input) kK2RegMaskXptLUT6InputSelect :: u32 where "kK2RegMaskXptLUT6InputSelect \<equiv> 0xFF"
abbreviation (input) kK2RegMaskXptLUT7InputSelect :: u32 where "kK2RegMaskXptLUT7InputSelect \<equiv> 0xFF00"
abbreviation (input) kK2RegMaskXptLUT8InputSelect :: u32 where "kK2RegMaskXptLUT8InputSelect \<equiv> 0xFF0000"
abbreviation (input) kK2RegMaskXptLUTInputSelect :: u32 where "kK2RegMaskXptLUTInputSelect \<equiv> 0xFF"
abbreviation (input) kK2RegShift2piCSC1 :: nat where "kK2RegShift2piCSC1 \<equiv> 28"
abbreviation (input) kK2RegShift2piCSC5 :: nat where "kK2RegShift2piCSC5 \<equiv> 28"
abbreviation (input) kK2RegShift425Mux1AInputSelect :: nat where "kK2RegShift425Mux1AInputSelect \<equiv> 0"
abbreviation (input) kK2RegShift425Mux1BInputSelect :: nat where "kK2RegShift425Mux1BInputSelect \<equiv> 8"
abbreviation (input) kK2RegShift425Mux2AInputSelect :: nat where "kK2RegShift425Mux2AInputSelect \<equiv> 16"
abbreviation (input) kK2RegShift425Mux2BInputSelect :: nat where "kK2RegShift425Mux2BInputSelect \<equiv> 24"
abbreviation (input) kK2RegShift425Mux3AInputSelect :: nat where "kK2RegShift425Mux3AInputSelect \<equiv> 0"
abbreviation (input) kK2RegShift425Mux3BInputSelect :: nat where "kK2RegShift425Mux3BInputSelect \<equiv> 8"
abbreviation (input) kK2RegShift425Mux4AInputSelect :: nat where "kK2RegShift425Mux4AInputSelect \<equiv> 16"
abbreviation (input) kK2RegShift425Mux4BInputSelect :: nat where "kK2RegShift425Mux4BInputSelect \<equiv> 24"
abbreviation (input) kK2RegShift4KDCQ1InputSelect :: nat where "kK2RegShift4KDCQ1InputSelect \<equiv> 0"
abbreviation (input) kK2RegShiftAnalogOutInputSelect :: nat where "kK2RegShiftAnalogOutInputSelect \<equiv> 0"
abbreviation (input) kK2RegShiftAudioBufferSize :: nat where "kK2RegShiftAudioBufferSize \<equiv> 31"
abbreviation (input) kK2RegShiftCSC2VidInputSelect :: nat where "kK2RegShiftCSC2VidInputSelect \<equiv> 16"
abbreviation (input) kK2RegShiftCSC3VidInputSelect :: nat where "kK2RegShiftCSC3VidInputSelect \<equiv> 0"
abbreviation (input) kK2RegShiftCSC4VidInputSelect :: nat where "kK2RegShiftCSC4VidInputSelect \<equiv> 16"
abbreviation (input) kK2RegShiftCSC5VidInputSelect :: nat where "kK2RegShiftCSC5VidInputSelect \<equiv> 0"
abbreviation (input) kK2RegShiftCSC6VidInputSelect :: nat where "kK2RegShiftCSC6VidInputSelect \<equiv> 16"
abbreviation (input) kK2RegShiftCSC7VidInputSelect :: nat where "kK2RegShiftCSC7VidInputSelect \<equiv> 0"
abbreviation (input) kK2RegShiftCSC8VidInputSelect :: nat where "kK2RegShiftCSC8VidInputSelect \<equiv> 16"
abbreviation (input) kK2RegShiftColorSpaceConverterInputSelect :: nat where "kK2RegShiftColorSpaceConverterInputSelect \<equiv> 8"
abbreviation (input) kK2RegShiftCompressionModInputSelect :: nat where "kK2RegShiftCompressionModInputSelect \<equiv> 24"
abbreviation (input) kK2RegShiftConversionModInputSelect :: nat where "kK2RegShiftConversionModInputSelect \<equiv> 16"
abbreviation (input) kK2RegShiftDuallinkIn1DSInputSelect :: nat where "kK2RegShiftDuallinkIn1DSInputSelect \<equiv> 8"
abbreviation (input) kK2RegShiftDuallinkIn1InputSelect :: nat where "kK2RegShiftDuallinkIn1InputSelect \<equiv> 0"
abbreviation (input) kK2RegShiftDuallinkIn2DSInputSelect :: nat where "kK2RegShiftDuallinkIn2DSInputSelect \<equiv> 24"
abbreviation (input) kK2RegShiftDuallinkIn2InputSelect :: nat where "kK2RegShiftDuallinkIn2InputSelect \<equiv> 16"
abbreviation (input) kK2RegShiftDuallinkIn3DSInputSelect :: nat where "kK2RegShiftDuallinkIn3DSInputSelect \<equiv> 8"
abbreviation (input) kK2RegShiftDuallinkIn3InputSelect :: nat where "kK2RegShiftDuallinkIn3InputSelect \<equiv> 0"
abbreviation (input) kK2RegShiftDuallinkIn4DSInputSelect :: nat where "kK2RegShiftDuallinkIn4DSInputSelect \<equiv> 24"
abbreviation (input) kK2RegShiftDuallinkIn4InputSelect :: nat where "kK2RegShiftDuallinkIn4InputSelect \<equiv> 16"
abbreviation (input) kK2RegShiftDuallinkIn5DSInputSelect :: nat where "kK2RegShiftDuallinkIn5DSInputSelect \<equiv> 8"
abbreviation (input) kK2RegShiftDuallinkIn5InputSelect :: nat where "kK2RegShiftDuallinkIn5InputSelect \<equiv> 0"
abbreviation (input) kK2RegShiftDuallinkIn6DSInputSelect :: nat where "kK2RegShiftDuallinkIn6DSInputSelect \<equiv> 24"
abbreviation (input) kK2RegShiftDuallinkIn6InputSelect :: nat where "kK2RegShiftDuallinkIn6InputSelect \<equiv> 16"
abbreviation (input) kK2RegShiftDuallinkIn7DSInputSelect :: nat where "kK2RegShiftDuallinkIn7DSInputSelect \<equiv> 8"
abbreviation (input) kK2RegShiftDuallinkIn7InputSelect :: nat where "kK2RegShiftDuallinkIn7InputSelect \<equiv> 0"
abbreviation (input) kK2RegShiftDuallinkIn8DSInputSelect :: nat where "kK2RegShiftDuallinkIn8DSInputSelect \<equiv> 24"
abbreviation (input) kK2RegShiftDuallinkIn8InputSelect :: nat where "kK2RegShiftDuallinkIn8InputSelect \<equiv> 16"
abbreviation (input) kK2RegShiftDuallinkOut2InputSelect :: nat where "kK2RegShiftDuallinkOut2InputSelect \<equiv> 16"
abbreviation (input) kK2RegShiftDuallinkOut3InputSelect :: nat where "kK2RegShiftDuallinkOut3InputSelect \<equiv> 0"
abbreviation (input) kK2RegShiftDuallinkOut4InputSelect :: nat where "kK2RegShiftDuallinkOut4InputSelect \<equiv> 8"
abbreviation (input) kK2RegShiftDuallinkOut5InputSelect :: nat where "kK2RegShiftDuallinkOut5InputSelect \<equiv> 16"
abbreviation (input) kK2RegShiftDuallinkOut6InputSelect :: nat where "kK2RegShiftDuallinkOut6InputSelect \<equiv> 0"
abbreviation (input) kK2RegShiftDuallinkOut7InputSelect :: nat where "kK2RegShiftDuallinkOut7InputSelect \<equiv> 8"
abbreviation (input) kK2RegShiftDuallinkOut8InputSelect :: nat where "kK2RegShiftDuallinkOut8InputSelect \<equiv> 16"
abbreviation (input) kK2RegShiftDuallinkOutInputSelect :: nat where "kK2RegShiftDuallinkOutInputSelect \<equiv> 24"
abbreviation (input) kK2RegShiftFrameBuffer1InputSelect :: nat where "kK2RegShiftFrameBuffer1InputSelect \<equiv> 0"
abbreviation (input) kK2RegShiftFrameBuffer2InputSelect :: nat where "kK2RegShiftFrameBuffer2InputSelect \<equiv> 0"
abbreviation (input) kK2RegShiftFrameSync1InputSelect :: nat where "kK2RegShiftFrameSync1InputSelect \<equiv> 8"
abbreviation (input) kK2RegShiftFrameSync2InputSelect :: nat where "kK2RegShiftFrameSync2InputSelect \<equiv> 16"
abbreviation (input) kK2RegShiftHDMIOutInputSelect :: nat where "kK2RegShiftHDMIOutInputSelect \<equiv> 16"
abbreviation (input) kK2RegShiftHDMIOutV2Q2InputSelect :: nat where "kK2RegShiftHDMIOutV2Q2InputSelect \<equiv> 8"
abbreviation (input) kK2RegShiftHDMIOutV2Q3InputSelect :: nat where "kK2RegShiftHDMIOutV2Q3InputSelect \<equiv> 16"
abbreviation (input) kK2RegShiftHDMIOutV2Q4InputSelect :: nat where "kK2RegShiftHDMIOutV2Q4InputSelect \<equiv> 24"
abbreviation (input) kK2RegShiftMixer2FGKeyInputSelect :: nat where "kK2RegShiftMixer2FGKeyInputSelect \<equiv> 8"
abbreviation (input) kK2RegShiftMixer2FGVidInputSelect :: nat where "kK2RegShiftMixer2FGVidInputSelect \<equiv> 0"
abbreviation (input) kK2RegShiftMixer3FGKeyInputSelect :: nat where "kK2RegShiftMixer3FGKeyInputSelect \<equiv> 8"
abbreviation (input) kK2RegShiftMixer3FGVidInputSelect :: nat where "kK2RegShiftMixer3FGVidInputSelect \<equiv> 0"
abbreviation (input) kK2RegShiftMixer4FGKeyInputSelect :: nat where "kK2RegShiftMixer4FGKeyInputSelect \<equiv> 8"
abbreviation (input) kK2RegShiftMixer4FGVidInputSelect :: nat where "kK2RegShiftMixer4FGVidInputSelect \<equiv> 0"
abbreviation (input) kK2RegShiftMixerFGKeyInputSelect :: nat where "kK2RegShiftMixerFGKeyInputSelect \<equiv> 8"
abbreviation (input) kK2RegShiftMixerFGVidInputSelect :: nat where "kK2RegShiftMixerFGVidInputSelect \<equiv> 0"
abbreviation (input) kK2RegShiftMultiLinkOutInputSelect :: nat where "kK2RegShiftMultiLinkOutInputSelect \<equiv> 0"
abbreviation (input) kK2RegShiftSDI1Out_2Kx1080Mode :: nat where "kK2RegShiftSDI1Out_2Kx1080Mode \<equiv> 3"
abbreviation (input) kK2RegShiftSDIOut1DS2InputSelect :: nat where "kK2RegShiftSDIOut1DS2InputSelect \<equiv> 0"
abbreviation (input) kK2RegShiftSDIOut1InputSelect :: nat where "kK2RegShiftSDIOut1InputSelect \<equiv> 8"
abbreviation (input) kK2RegShiftSDIOut2DS2InputSelect :: nat where "kK2RegShiftSDIOut2DS2InputSelect \<equiv> 8"
abbreviation (input) kK2RegShiftSDIOut2InputSelect :: nat where "kK2RegShiftSDIOut2InputSelect \<equiv> 16"
abbreviation (input) kK2RegShiftSDIOut3DS2InputSelect :: nat where "kK2RegShiftSDIOut3DS2InputSelect \<equiv> 8"
abbreviation (input) kK2RegShiftSDIOut3InputSelect :: nat where "kK2RegShiftSDIOut3InputSelect \<equiv> 0"
abbreviation (input) kK2RegShiftSDIOut4DS2InputSelect :: nat where "kK2RegShiftSDIOut4DS2InputSelect \<equiv> 24"
abbreviation (input) kK2RegShiftSDIOut4InputSelect :: nat where "kK2RegShiftSDIOut4InputSelect \<equiv> 8"
abbreviation (input) kK2RegShiftSDIOut5DS2InputSelect :: nat where "kK2RegShiftSDIOut5DS2InputSelect \<equiv> 16"
abbreviation (input) kK2RegShiftSDIOut5InputSelect :: nat where "kK2RegShiftSDIOut5InputSelect \<equiv> 16"
abbreviation (input) kK2RegShiftSDIOut6DS2InputSelect :: nat where "kK2RegShiftSDIOut6DS2InputSelect \<equiv> 8"
abbreviation (input) kK2RegShiftSDIOut6InputSelect :: nat where "kK2RegShiftSDIOut6InputSelect \<equiv> 0"
abbreviation (input) kK2RegShiftSDIOut7DS2InputSelect :: nat where "kK2RegShiftSDIOut7DS2InputSelect \<equiv> 24"
abbreviation (input) kK2RegShiftSDIOut7InputSelect :: nat where "kK2RegShiftSDIOut7InputSelect \<equiv> 16"
abbreviation (input) kK2RegShiftSDIOut8DS2InputSelect :: nat where "kK2RegShiftSDIOut8DS2InputSelect \<equiv> 8"
abbreviation (input) kK2RegShiftSDIOut8InputSelect :: nat where "kK2RegShiftSDIOut8InputSelect \<equiv> 0"
abbreviation (input) kK2RegShiftSDIOutStandard :: nat where "kK2RegShiftSDIOutStandard \<equiv> 0"
abbreviation (input) kK2RegShiftXpt3DLUT1InputSelect :: nat where "kK2RegShiftXpt3DLUT1InputSelect \<equiv> 24"
abbreviation (input) kK2RegShiftXptLUT2InputSelect :: nat where "kK2RegShiftXptLUT2InputSelect \<equiv> 8"
abbreviation (input) kK2RegShiftXptLUT3InputSelect :: nat where "kK2RegShiftXptLUT3InputSelect \<equiv> 0"
abbreviation (input) kK2RegShiftXptLUT4InputSelect :: nat where "kK2RegShiftXptLUT4InputSelect \<equiv> 8"
abbreviation (input) kK2RegShiftXptLUT5InputSelect :: nat where "kK2RegShiftXptLUT5InputSelect \<equiv> 16"
abbreviation (input) kK2RegShiftXptLUT6InputSelect :: nat where "kK2RegShiftXptLUT6InputSelect \<equiv> 0"
abbreviation (input) kK2RegShiftXptLUT7InputSelect :: nat where "kK2RegShiftXptLUT7InputSelect \<equiv> 8"
abbreviation (input) kK2RegShiftXptLUT8InputSelect :: nat where "kK2RegShiftXptLUT8InputSelect \<equiv> 16"
abbreviation (input) kK2RegShiftXptLUTInputSelect :: nat where "kK2RegShiftXptLUTInputSelect \<equiv> 0"
abbreviation (input) kLHIRegMaskSDIOut3GbpsMode :: u32 where "kLHIRegMaskSDIOut3GbpsMode \<equiv> 0x1000000"
abbreviation (input) kLHIRegMaskSDIOutSMPTELevelBMode :: u32 where "kLHIRegMaskSDIOutSMPTELevelBMode \<equiv> 0x2000000"
abbreviation (input) kLHIRegShiftSDIOut3GbpsMode :: nat where "kLHIRegShiftSDIOut3GbpsMode \<equiv> 24"
abbreviation (input) kLHIRegShiftSDIOutSMPTELevelBMode :: nat where "kLHIRegShiftSDIOutSMPTELevelBMode \<equiv> 25"
abbreviation (input) kRegAnalogInputStatus :: u32 where "kRegAnalogInputStatus \<equiv> 81"
abbreviation (input) kRegAud1Control :: u32 where "kRegAud1Control \<equiv> 24"
abbreviation (input) kRegAud1InputLastAddr :: u32 where "kRegAud1InputLastAddr \<equiv> 27"
abbreviation (input) kRegAud1OutputLastAddr :: u32 where "kRegAud1OutputLastAddr \<equiv> 26"
abbreviation (input) kRegAud1SourceSelect :: u32 where "kRegAud1SourceSelect \<equiv> 25"
abbreviation (input) kRegAud2Control :: u32 where "kRegAud2Control \<equiv> 240"
abbreviation (input) kRegAud2InputLastAddr :: u32 where "kRegAud2InputLastAddr \<equiv> 243"
abbreviation (input) kRegAud2OutputLastAddr :: u32 where "kRegAud2OutputLastAddr \<equiv> 242"
abbreviation (input) kRegAud2SourceSelect :: u32 where "kRegAud2SourceSelect \<equiv> 241"
abbreviation (input) kRegAud3Control :: u32 where "kRegAud3Control \<equiv> 278"
abbreviation (input) kRegAud3InputLastAddr :: u32 where "kRegAud3InputLastAddr \<equiv> 284"
abbreviation (input) kRegAud3OutputLastAddr :: u32 where "kRegAud3OutputLastAddr \<equiv> 283"
abbreviation (input) kRegAud3SourceSelect :: u32 where "kRegAud3SourceSelect \<equiv> 280"
abbreviation (input) kRegAud4Control :: u32 where "kRegAud4Control \<equiv> 279"
abbreviation (input) kRegAud4InputLastAddr :: u32 where "kRegAud4InputLastAddr \<equiv> 286"
abbreviation (input) kRegAud4OutputLastAddr :: u32 where "kRegAud4OutputLastAddr \<equiv> 285"
abbreviation (input) kRegAud4SourceSelect :: u32 where "kRegAud4SourceSelect \<equiv> 281"
abbreviation (input) kRegAud5Control :: u32 where "kRegAud5Control \<equiv> 440"
abbreviation (input) kRegAud5InputLastAddr :: u32 where "kRegAud5InputLastAddr \<equiv> 443"
abbreviation (input) kRegAud5OutputLastAddr :: u32 where "kRegAud5OutputLastAddr \<equiv> 442"
abbreviation (input) kRegAud5SourceSelect :: u32 where "kRegAud5SourceSelect \<equiv> 441"
abbreviation (input) kRegAud6Control :: u32 where "kRegAud6Control \<equiv> 444"
abbreviation (input) kRegAud6InputLastAddr :: u32 where "kRegAud6InputLastAddr \<equiv> 447"
abbreviation (input) kRegAud6OutputLastAddr :: u32 where "kRegAud6OutputLastAddr \<equiv> 446"
abbreviation (input) kRegAud6SourceSelect :: u32 where "kRegAud6SourceSelect \<equiv> 445"
abbreviation (input) kRegAud7Control :: u32 where "kRegAud7Control \<equiv> 448"
abbreviation (input) kRegAud7InputLastAddr :: u32 where "kRegAud7InputLastAddr \<equiv> 451"
abbreviation (input) kRegAud7OutputLastAddr :: u32 where "kRegAud7OutputLastAddr \<equiv> 450"
abbreviation (input) kRegAud7SourceSelect :: u32 where "kRegAud7SourceSelect \<equiv> 449"
abbreviation (input) kRegAud8Control :: u32 where "kRegAud8Control \<equiv> 452"
abbreviation (input) kRegAud8InputLastAddr :: u32 where "kRegAud8InputLastAddr \<equiv> 455"
abbreviation (input) kRegAud8OutputLastAddr :: u32 where "kRegAud8OutputLastAddr \<equiv> 454"
abbreviation (input) kRegAud8SourceSelect :: u32 where "kRegAud8SourceSelect \<equiv> 453"
abbreviation (input) kRegAudioControl2 :: u32 where "kRegAudioControl2 \<equiv> 115"
abbreviation (input) kRegBoardID :: u32 where "kRegBoardID \<equiv> 50"
abbreviation (input) kRegCS5Coefficients5_6 :: u32 where "kRegCS5Coefficients5_6 \<equiv> 349"
abbreviation (input) kRegCSCoefficients5_6 :: u32 where "kRegCSCoefficients5_6 \<equiv> 144"
abbreviation (input) kRegCh1ColorCorrectioncontrol :: u32 where "kRegCh1ColorCorrectioncontrol \<equiv> 68"
abbreviation (input) kRegCh1Control :: u32 where "kRegCh1Control \<equiv> 1"
abbreviation (input) kRegCh1InputFrame :: u32 where "kRegCh1InputFrame \<equiv> 4"
abbreviation (input) kRegCh1OutputFrame :: u32 where "kRegCh1OutputFrame \<equiv> 3"
abbreviation (input) kRegCh1PCIAccessFrame :: u32 where "kRegCh1PCIAccessFrame \<equiv> 2"
abbreviation (input) kRegCh2ColorCorrectioncontrol :: u32 where "kRegCh2ColorCorrectioncontrol \<equiv> 69"
abbreviation (input) kRegCh2Control :: u32 where "kRegCh2Control \<equiv> 5"
abbreviation (input) kRegCh2InputFrame :: u32 where "kRegCh2InputFrame \<equiv> 8"
abbreviation (input) kRegCh2OutputFrame :: u32 where "kRegCh2OutputFrame \<equiv> 7"
abbreviation (input) kRegCh2PCIAccessFrame :: u32 where "kRegCh2PCIAccessFrame \<equiv> 6"
abbreviation (input) kRegCh3Control :: u32 where "kRegCh3Control \<equiv> 257"
abbreviation (input) kRegCh3InputFrame :: u32 where "kRegCh3InputFrame \<equiv> 259"
abbreviation (input) kRegCh3OutputFrame :: u32 where "kRegCh3OutputFrame \<equiv> 258"
abbreviation (input) kRegCh3PCIAccessFrame :: u32 where "kRegCh3PCIAccessFrame \<equiv> 289"
abbreviation (input) kRegCh4Control :: u32 where "kRegCh4Control \<equiv> 260"
abbreviation (input) kRegCh4InputFrame :: u32 where "kRegCh4InputFrame \<equiv> 262"
abbreviation (input) kRegCh4OutputFrame :: u32 where "kRegCh4OutputFrame \<equiv> 261"
abbreviation (input) kRegCh4PCIAccessFrame :: u32 where "kRegCh4PCIAccessFrame \<equiv> 290"
abbreviation (input) kRegCh5Control :: u32 where "kRegCh5Control \<equiv> 384"
abbreviation (input) kRegCh5InputFrame :: u32 where "kRegCh5InputFrame \<equiv> 386"
abbreviation (input) kRegCh5OutputFrame :: u32 where "kRegCh5OutputFrame \<equiv> 385"
abbreviation (input) kRegCh5PCIAccessFrame :: u32 where "kRegCh5PCIAccessFrame \<equiv> 387"
abbreviation (input) kRegCh6Control :: u32 where "kRegCh6Control \<equiv> 388"
abbreviation (input) kRegCh6InputFrame :: u32 where "kRegCh6InputFrame \<equiv> 390"
abbreviation (input) kRegCh6OutputFrame :: u32 where "kRegCh6OutputFrame \<equiv> 389"
abbreviation (input) kRegCh6PCIAccessFrame :: u32 where "kRegCh6PCIAccessFrame \<equiv> 391"
abbreviation (input) kRegCh7Control :: u32 where "kRegCh7Control \<equiv> 392"
abbreviation (input) kRegCh7InputFrame :: u32 where "kRegCh7InputFrame \<equiv> 394"
abbreviation (input) kRegCh7OutputFrame :: u32 where "kRegCh7OutputFrame \<equiv> 393"
abbreviation (input) kRegCh7PCIAccessFrame :: u32 where "kRegCh7PCIAccessFrame \<equiv> 395"
abbreviation (input) kRegCh8Control :: u32 where "kRegCh8Control \<equiv> 396"
abbreviation (input) kRegCh8InputFrame :: u32 where "kRegCh8InputFrame \<equiv> 398"
abbreviation (input) kRegCh8OutputFrame :: u32 where "kRegCh8OutputFrame \<equiv> 397"
abbreviation (input) kRegCh8PCIAccessFrame :: u32 where "kRegCh8PCIAccessFrame \<equiv> 399"
abbreviation (input) kRegDC1 :: u32 where "kRegDC1 \<equiv> 354"
abbreviation (input) kRegDL5Control :: u32 where "kRegDL5Control \<equiv> 346"
abbreviation (input) kRegFS1ReferenceSelect :: u32 where "kRegFS1ReferenceSelect \<equiv> 95"
abbreviation (input) kRegGlobalControl :: u32 where "kRegGlobalControl \<equiv> 0"
abbreviation (input) kRegGlobalControl2 :: u32 where "kRegGlobalControl2 \<equiv> 267"
abbreviation (input) kRegGlobalControl3 :: u32 where "kRegGlobalControl3 \<equiv> 108"
abbreviation (input) kRegGlobalControlCh2 :: u32 where "kRegGlobalControlCh2 \<equiv> 377"
abbreviation (input) kRegGlobalControlCh3 :: u32 where "kRegGlobalControlCh3 \<equiv> 378"
abbreviation (input) kRegGlobalControlCh4 :: u32 where "kRegGlobalControlCh4 \<equiv> 379"
abbreviation (input) kRegGlobalControlCh5 :: u32 where "kRegGlobalControlCh5 \<equiv> 380"
abbreviation (input) kRegGlobalControlCh6 :: u32 where "kRegGlobalControlCh6 \<equiv> 381"
abbreviation (input) kRegGlobalControlCh7 :: u32 where "kRegGlobalControlCh7 \<equiv> 382"
abbreviation (input) kRegGlobalControlCh8 :: u32 where "kRegGlobalControlCh8 \<equiv> 383"
abbreviation (input) kRegHDMIInputStatus :: u32 where "kRegHDMIInputStatus \<equiv> 126"
abbreviation (input) kRegHDMIOutputAuxData :: u32 where "kRegHDMIOutputAuxData \<equiv> 2560"
abbreviation (input) kRegInput56Status :: u32 where "kRegInput56Status \<equiv> 458"
abbreviation (input) kRegInput78Status :: u32 where "kRegInput78Status \<equiv> 459"
abbreviation (input) kRegInputStatus :: u32 where "kRegInputStatus \<equiv> 22"
abbreviation (input) kRegInputStatus2 :: u32 where "kRegInputStatus2 \<equiv> 288"
abbreviation (input) kRegLTC2AnalogBits0_31 :: u32 where "kRegLTC2AnalogBits0_31 \<equiv> 254"
abbreviation (input) kRegLTC2AnalogBits32_63 :: u32 where "kRegLTC2AnalogBits32_63 \<equiv> 255"
abbreviation (input) kRegLTC2EmbeddedBits0_31 :: u32 where "kRegLTC2EmbeddedBits0_31 \<equiv> 252"
abbreviation (input) kRegLTC2EmbeddedBits32_63 :: u32 where "kRegLTC2EmbeddedBits32_63 \<equiv> 253"
abbreviation (input) kRegLTC3EmbeddedBits0_31 :: u32 where "kRegLTC3EmbeddedBits0_31 \<equiv> 316"
abbreviation (input) kRegLTC3EmbeddedBits32_63 :: u32 where "kRegLTC3EmbeddedBits32_63 \<equiv> 317"
abbreviation (input) kRegLTC4EmbeddedBits0_31 :: u32 where "kRegLTC4EmbeddedBits0_31 \<equiv> 318"
abbreviation (input) kRegLTC4EmbeddedBits32_63 :: u32 where "kRegLTC4EmbeddedBits32_63 \<equiv> 319"
abbreviation (input) kRegLTC5EmbeddedBits0_31 :: u32 where "kRegLTC5EmbeddedBits0_31 \<equiv> 344"
abbreviation (input) kRegLTC5EmbeddedBits32_63 :: u32 where "kRegLTC5EmbeddedBits32_63 \<equiv> 345"
abbreviation (input) kRegLTC6EmbeddedBits0_31 :: u32 where "kRegLTC6EmbeddedBits0_31 \<equiv> 419"
abbreviation (input) kRegLTC6EmbeddedBits32_63 :: u32 where "kRegLTC6EmbeddedBits32_63 \<equiv> 420"
abbreviation (input) kRegLTC7EmbeddedBits0_31 :: u32 where "kRegLTC7EmbeddedBits0_31 \<equiv> 428"
abbreviation (input) kRegLTC7EmbeddedBits32_63 :: u32 where "kRegLTC7EmbeddedBits32_63 \<equiv> 429"
abbreviation (input) kRegLTC8EmbeddedBits0_31 :: u32 where "kRegLTC8EmbeddedBits0_31 \<equiv> 437"
abbreviation (input) kRegLTC8EmbeddedBits32_63 :: u32 where "kRegLTC8EmbeddedBits32_63 \<equiv> 438"
abbreviation (input) kRegLTCAnalogBits0_31 :: u32 where "kRegLTCAnalogBits0_31 \<equiv> 112"
abbreviation (input) kRegLTCAnalogBits32_63 :: u32 where "kRegLTCAnalogBits32_63 \<equiv> 113"
abbreviation (input) kRegLTCEmbeddedBits0_31 :: u32 where "kRegLTCEmbeddedBits0_31 \<equiv> 110"
abbreviation (input) kRegLTCEmbeddedBits32_63 :: u32 where "kRegLTCEmbeddedBits32_63 \<equiv> 111"
abbreviation (input) kRegLTCStatusControl :: u32 where "kRegLTCStatusControl \<equiv> 233"
abbreviation (input) kRegLUTV2Control :: u32 where "kRegLUTV2Control \<equiv> 376"
abbreviation (input) kRegMask12BitLUTSupport :: u32 where "kRegMask12BitLUTSupport \<equiv> 0x10000000"
abbreviation (input) kRegMask425FB12 :: u32 where "kRegMask425FB12 \<equiv> 0x100000"
abbreviation (input) kRegMask425FB34 :: u32 where "kRegMask425FB34 \<equiv> 0x200000"
abbreviation (input) kRegMask425FB56 :: u32 where "kRegMask425FB56 \<equiv> 0x400000"
abbreviation (input) kRegMask425FB78 :: u32 where "kRegMask425FB78 \<equiv> 0x800000"
abbreviation (input) kRegMask4KDCPSFOutMode :: u32 where "kRegMask4KDCPSFOutMode \<equiv> 0x8"
abbreviation (input) kRegMaskAud1RateHigh :: u32 where "kRegMaskAud1RateHigh \<equiv> 0x1"
abbreviation (input) kRegMaskAud2RateHigh :: u32 where "kRegMaskAud2RateHigh \<equiv> 0x2"
abbreviation (input) kRegMaskAud3RateHigh :: u32 where "kRegMaskAud3RateHigh \<equiv> 0x4"
abbreviation (input) kRegMaskAud4RateHigh :: u32 where "kRegMaskAud4RateHigh \<equiv> 0x8"
abbreviation (input) kRegMaskAud5RateHigh :: u32 where "kRegMaskAud5RateHigh \<equiv> 0x10"
abbreviation (input) kRegMaskAud6RateHigh :: u32 where "kRegMaskAud6RateHigh \<equiv> 0x20"
abbreviation (input) kRegMaskAud7RateHigh :: u32 where "kRegMaskAud7RateHigh \<equiv> 0x40"
abbreviation (input) kRegMaskAud8RateHigh :: u32 where "kRegMaskAud8RateHigh \<equiv> 0x80"
abbreviation (input) kRegMaskAudioRate :: u32 where "kRegMaskAudioRate \<equiv> 0x40000"
abbreviation (input) kRegMaskCC3OutputBankSelect :: u32 where "kRegMaskCC3OutputBankSelect \<equiv> 0x40000000"
abbreviation (input) kRegMaskCC4OutputBankSelect :: u32 where "kRegMaskCC4OutputBankSelect \<equiv> 0x80000000"
abbreviation (input) kRegMaskCC5HostAccessBankSelect :: u32 where "kRegMaskCC5HostAccessBankSelect \<equiv> 0x100000"
abbreviation (input) kRegMaskCCHostBankSelect :: u32 where "kRegMaskCCHostBankSelect \<equiv> 0xC0000000"
abbreviation (input) kRegMaskCCMode :: u32 where "kRegMaskCCMode \<equiv> 0x60000"
abbreviation (input) kRegMaskCCOutputBankSelect :: u32 where "kRegMaskCCOutputBankSelect \<equiv> 0x10000"
abbreviation (input) kRegMaskFrameFormat :: u32 where "kRegMaskFrameFormat \<equiv> 0x1E"
abbreviation (input) kRegMaskFrameFormatHiBit :: u32 where "kRegMaskFrameFormatHiBit \<equiv> 0x40"
abbreviation (input) kRegMaskFrameOrientation :: u32 where "kRegMaskFrameOrientation \<equiv> 0x400"
abbreviation (input) kRegMaskFrameRate :: u32 where "kRegMaskFrameRate \<equiv> 0x7"
abbreviation (input) kRegMaskFrameRateHiBit :: u32 where "kRegMaskFrameRateHiBit \<equiv> 0x400000"
abbreviation (input) kRegMaskGeometry :: u32 where "kRegMaskGeometry \<equiv> 0x78"
abbreviation (input) kRegMaskHDMIInV2VideoStd :: u32 where "kRegMaskHDMIInV2VideoStd \<equiv> 0x3F0"
abbreviation (input) kRegMaskIndependentMode :: u32 where "kRegMaskIndependentMode \<equiv> 0x10000"
abbreviation (input) kRegMaskInput1FrameRate :: u32 where "kRegMaskInput1FrameRate \<equiv> 0x7"
abbreviation (input) kRegMaskInput1FrameRateHigh :: u32 where "kRegMaskInput1FrameRateHigh \<equiv> 0x10000000"
abbreviation (input) kRegMaskInput1Geometry :: u32 where "kRegMaskInput1Geometry \<equiv> 0x70"
abbreviation (input) kRegMaskInput1GeometryHigh :: u32 where "kRegMaskInput1GeometryHigh \<equiv> 0x40000000"
abbreviation (input) kRegMaskInput1Progressive :: u32 where "kRegMaskInput1Progressive \<equiv> 0x80"
abbreviation (input) kRegMaskInput2FrameRate :: u32 where "kRegMaskInput2FrameRate \<equiv> 0x700"
abbreviation (input) kRegMaskInput2FrameRateHigh :: u32 where "kRegMaskInput2FrameRateHigh \<equiv> 0x20000000"
abbreviation (input) kRegMaskInput2Geometry :: u32 where "kRegMaskInput2Geometry \<equiv> 0x7000"
abbreviation (input) kRegMaskInput2GeometryHigh :: u32 where "kRegMaskInput2GeometryHigh \<equiv> 0x80000000"
abbreviation (input) kRegMaskInput2Progressive :: u32 where "kRegMaskInput2Progressive \<equiv> 0x8000"
abbreviation (input) kRegMaskInputStatusFPS :: u32 where "kRegMaskInputStatusFPS \<equiv> 0xF0000000"
abbreviation (input) kRegMaskInputStatusLock :: u32 where "kRegMaskInputStatusLock \<equiv> 0x1"
abbreviation (input) kRegMaskInputStatusStd :: u32 where "kRegMaskInputStatusStd \<equiv> 0x7000000"
abbreviation (input) kRegMaskLUT1Enable :: u32 where "kRegMaskLUT1Enable \<equiv> 0x1"
abbreviation (input) kRegMaskLUT1HostAccessBankSelect :: u32 where "kRegMaskLUT1HostAccessBankSelect \<equiv> 0x100"
abbreviation (input) kRegMaskLUT1OutputBankSelect :: u32 where "kRegMaskLUT1OutputBankSelect \<equiv> 0x10000"
abbreviation (input) kRegMaskLUT2Enable :: u32 where "kRegMaskLUT2Enable \<equiv> 0x2"
abbreviation (input) kRegMaskLUT2HostAccessBankSelect :: u32 where "kRegMaskLUT2HostAccessBankSelect \<equiv> 0x200"
abbreviation (input) kRegMaskLUT2OutputBankSelect :: u32 where "kRegMaskLUT2OutputBankSelect \<equiv> 0x20000"
abbreviation (input) kRegMaskLUT3Enable :: u32 where "kRegMaskLUT3Enable \<equiv> 0x4"
abbreviation (input) kRegMaskLUT3HostAccessBankSelect :: u32 where "kRegMaskLUT3HostAccessBankSelect \<equiv> 0x400"
abbreviation (input) kRegMaskLUT3OutputBankSelect :: u32 where "kRegMaskLUT3OutputBankSelect \<equiv> 0x40000"
abbreviation (input) kRegMaskLUT4Enable :: u32 where "kRegMaskLUT4Enable \<equiv> 0x8"
abbreviation (input) kRegMaskLUT4HostAccessBankSelect :: u32 where "kRegMaskLUT4HostAccessBankSelect \<equiv> 0x800"
abbreviation (input) kRegMaskLUT4OutputBankSelect :: u32 where "kRegMaskLUT4OutputBankSelect \<equiv> 0x80000"
abbreviation (input) kRegMaskLUT5Enable :: u32 where "kRegMaskLUT5Enable \<equiv> 0x10"
abbreviation (input) kRegMaskLUT5HostAccessBankSelect :: u32 where "kRegMaskLUT5HostAccessBankSelect \<equiv> 0x1000"
abbreviation (input) kRegMaskLUT5OutputBankSelect :: u32 where "kRegMaskLUT5OutputBankSelect \<equiv> 0x100000"
abbreviation (input) kRegMaskLUT5Select :: u32 where "kRegMaskLUT5Select \<equiv> 0x10000000"
abbreviation (input) kRegMaskLUT6Enable :: u32 where "kRegMaskLUT6Enable \<equiv> 0x20"
abbreviation (input) kRegMaskLUT6HostAccessBankSelect :: u32 where "kRegMaskLUT6HostAccessBankSelect \<equiv> 0x2000"
abbreviation (input) kRegMaskLUT6OutputBankSelect :: u32 where "kRegMaskLUT6OutputBankSelect \<equiv> 0x200000"
abbreviation (input) kRegMaskLUT7Enable :: u32 where "kRegMaskLUT7Enable \<equiv> 0x40"
abbreviation (input) kRegMaskLUT7HostAccessBankSelect :: u32 where "kRegMaskLUT7HostAccessBankSelect \<equiv> 0x4000"
abbreviation (input) kRegMaskLUT7OutputBankSelect :: u32 where "kRegMaskLUT7OutputBankSelect \<equiv> 0x400000"
abbreviation (input) kRegMaskLUT8Enable :: u32 where "kRegMaskLUT8Enable \<equiv> 0x80"
abbreviation (input) kRegMaskLUT8HostAccessBankSelect :: u32 where "kRegMaskLUT8HostAccessBankSelect \<equiv> 0x8000"
abbreviation (input) kRegMaskLUT8OutputBankSelect :: u32 where "kRegMaskLUT8OutputBankSelect \<equiv> 0x800000"
abbreviation (input) kRegMaskLUTSelect :: u32 where "kRegMaskLUTSelect \<equiv> 0x20000000"
abbreviation (input) kRegMaskMode :: u32 where "kRegMaskMode \<equiv> 0x1"
abbreviation (input) kRegMaskQuadMode :: u32 where "kRegMaskQuadMode \<equiv> 0x8"
abbreviation (input) kRegMaskQuadMode2 :: u32 where "kRegMaskQuadMode2 \<equiv> 0x1000"
abbreviation (input) kRegMaskQuadQuadMode :: u32 where "kRegMaskQuadQuadMode \<equiv> 0x4"
abbreviation (input) kRegMaskQuadQuadSquaresMode :: u32 where "kRegMaskQuadQuadSquaresMode \<equiv> 0x10"
abbreviation (input) kRegMaskQuadTsiEnable :: u32 where "kRegMaskQuadTsiEnable \<equiv> 0x1000000"
abbreviation (input) kRegMaskRGBLevelA :: u32 where "kRegMaskRGBLevelA \<equiv> 0x400000"
abbreviation (input) kRegMaskRP188DBB :: u32 where "kRegMaskRP188DBB \<equiv> 0xFF"
abbreviation (input) kRegMaskRP188ModeCh1 :: u32 where "kRegMaskRP188ModeCh1 \<equiv> 0x10000000"
abbreviation (input) kRegMaskRP188ModeCh2 :: u32 where "kRegMaskRP188ModeCh2 \<equiv> 0x20000000"
abbreviation (input) kRegMaskRP188ModeCh3 :: u32 where "kRegMaskRP188ModeCh3 \<equiv> 0x10000000"
abbreviation (input) kRegMaskRP188ModeCh4 :: u32 where "kRegMaskRP188ModeCh4 \<equiv> 0x20000000"
abbreviation (input) kRegMaskRP188ModeCh5 :: u32 where "kRegMaskRP188ModeCh5 \<equiv> 0x40000000"
abbreviation (input) kRegMaskRP188ModeCh6 :: u32 where "kRegMaskRP188ModeCh6 \<equiv> 0x80000000"
abbreviation (input) kRegMaskRP188ModeCh7 :: u32 where "kRegMaskRP188ModeCh7 \<equiv> 0x4000000"
abbreviation (input) kRegMaskRP188ModeCh8 :: u32 where "kRegMaskRP188ModeCh8 \<equiv> 0x8000000"
abbreviation (input) kRegMaskRP188SourceSelect :: u32 where "kRegMaskRP188SourceSelect \<equiv> 0xFF000000"
abbreviation (input) kRegMaskResetAudioInput :: u32 where "kRegMaskResetAudioInput \<equiv> 0x100"
abbreviation (input) kRegMaskSDIIn112GbpsMode :: u32 where "kRegMaskSDIIn112GbpsMode \<equiv> 0x80"
abbreviation (input) kRegMaskSDIIn16GbpsMode :: u32 where "kRegMaskSDIIn16GbpsMode \<equiv> 0x40"
abbreviation (input) kRegMaskSDIIn1LevelBtoLevelA :: u32 where "kRegMaskSDIIn1LevelBtoLevelA \<equiv> 0x4"
abbreviation (input) kRegMaskSDIIn212GbpsMode :: u32 where "kRegMaskSDIIn212GbpsMode \<equiv> 0x8000"
abbreviation (input) kRegMaskSDIIn23GbpsSMPTELevelBMode :: u32 where "kRegMaskSDIIn23GbpsSMPTELevelBMode \<equiv> 0x200"
abbreviation (input) kRegMaskSDIIn26GbpsMode :: u32 where "kRegMaskSDIIn26GbpsMode \<equiv> 0x4000"
abbreviation (input) kRegMaskSDIIn2LevelBtoLevelA :: u32 where "kRegMaskSDIIn2LevelBtoLevelA \<equiv> 0x400"
abbreviation (input) kRegMaskSDIIn312GbpsMode :: u32 where "kRegMaskSDIIn312GbpsMode \<equiv> 0x80"
abbreviation (input) kRegMaskSDIIn36GbpsMode :: u32 where "kRegMaskSDIIn36GbpsMode \<equiv> 0x40"
abbreviation (input) kRegMaskSDIIn3GbpsSMPTELevelBMode :: u32 where "kRegMaskSDIIn3GbpsSMPTELevelBMode \<equiv> 0x2"
abbreviation (input) kRegMaskSDIIn3LevelBtoLevelA :: u32 where "kRegMaskSDIIn3LevelBtoLevelA \<equiv> 0x4"
abbreviation (input) kRegMaskSDIIn412GbpsMode :: u32 where "kRegMaskSDIIn412GbpsMode \<equiv> 0x8000"
abbreviation (input) kRegMaskSDIIn46GbpsMode :: u32 where "kRegMaskSDIIn46GbpsMode \<equiv> 0x4000"
abbreviation (input) kRegMaskSDIIn4LevelBtoLevelA :: u32 where "kRegMaskSDIIn4LevelBtoLevelA \<equiv> 0x400"
abbreviation (input) kRegMaskSDIIn512GbpsMode :: u32 where "kRegMaskSDIIn512GbpsMode \<equiv> 0x80"
abbreviation (input) kRegMaskSDIIn53GbpsSMPTELevelBMode :: u32 where "kRegMaskSDIIn53GbpsSMPTELevelBMode \<equiv> 0x2"
abbreviation (input) kRegMaskSDIIn56GbpsMode :: u32 where "kRegMaskSDIIn56GbpsMode \<equiv> 0x40"
abbreviation (input) kRegMaskSDIIn5LevelBtoLevelA :: u32 where "kRegMaskSDIIn5LevelBtoLevelA \<equiv> 0x4"
abbreviation (input) kRegMaskSDIIn612GbpsMode :: u32 where "kRegMaskSDIIn612GbpsMode \<equiv> 0x8000"
abbreviation (input) kRegMaskSDIIn63GbpsSMPTELevelBMode :: u32 where "kRegMaskSDIIn63GbpsSMPTELevelBMode \<equiv> 0x200"
abbreviation (input) kRegMaskSDIIn66GbpsMode :: u32 where "kRegMaskSDIIn66GbpsMode \<equiv> 0x4000"
abbreviation (input) kRegMaskSDIIn6LevelBtoLevelA :: u32 where "kRegMaskSDIIn6LevelBtoLevelA \<equiv> 0x400"
abbreviation (input) kRegMaskSDIIn712GbpsMode :: u32 where "kRegMaskSDIIn712GbpsMode \<equiv> 0x800000"
abbreviation (input) kRegMaskSDIIn73GbpsSMPTELevelBMode :: u32 where "kRegMaskSDIIn73GbpsSMPTELevelBMode \<equiv> 0x20000"
abbreviation (input) kRegMaskSDIIn76GbpsMode :: u32 where "kRegMaskSDIIn76GbpsMode \<equiv> 0x400000"
abbreviation (input) kRegMaskSDIIn7LevelBtoLevelA :: u32 where "kRegMaskSDIIn7LevelBtoLevelA \<equiv> 0x40000"
abbreviation (input) kRegMaskSDIIn812GbpsMode :: u32 where "kRegMaskSDIIn812GbpsMode \<equiv> 0x80000000"
abbreviation (input) kRegMaskSDIIn83GbpsSMPTELevelBMode :: u32 where "kRegMaskSDIIn83GbpsSMPTELevelBMode \<equiv> 0x2000000"
abbreviation (input) kRegMaskSDIIn86GbpsMode :: u32 where "kRegMaskSDIIn86GbpsMode \<equiv> 0x40000000"
abbreviation (input) kRegMaskSDIIn8LevelBtoLevelA :: u32 where "kRegMaskSDIIn8LevelBtoLevelA \<equiv> 0x4000000"
abbreviation (input) kRegMaskSDIInCRCErrorCountA :: u32 where "kRegMaskSDIInCRCErrorCountA \<equiv> 0xFFFF"
abbreviation (input) kRegMaskSDIInCRCErrorCountB :: u32 where "kRegMaskSDIInCRCErrorCountB \<equiv> 0xFFFF0000"
abbreviation (input) kRegMaskSDIInLocked :: u32 where "kRegMaskSDIInLocked \<equiv> 0x10000"
abbreviation (input) kRegMaskSDIInTRSError :: u32 where "kRegMaskSDIInTRSError \<equiv> 0x1000000"
abbreviation (input) kRegMaskSDIInUnlockCount :: u32 where "kRegMaskSDIInUnlockCount \<equiv> 0xFFFF"
abbreviation (input) kRegMaskSDIInVpidValidA :: u32 where "kRegMaskSDIInVpidValidA \<equiv> 0x100000"
abbreviation (input) kRegMaskSDIInVpidValidB :: u32 where "kRegMaskSDIInVpidValidB \<equiv> 0x200000"
abbreviation (input) kRegMaskSDIOut12GbpsMode :: u32 where "kRegMaskSDIOut12GbpsMode \<equiv> 0x20000"
abbreviation (input) kRegMaskSDIOut6GbpsMode :: u32 where "kRegMaskSDIOut6GbpsMode \<equiv> 0x10000"
abbreviation (input) kRegMaskSDIOutLevelAtoLevelB :: u32 where "kRegMaskSDIOutLevelAtoLevelB \<equiv> 0x800000"
abbreviation (input) kRegMaskSaturationValue :: u32 where "kRegMaskSaturationValue \<equiv> 0x3FF"
abbreviation (input) kRegMaskSmpte372Enable :: u32 where "kRegMaskSmpte372Enable \<equiv> 0x8000"
abbreviation (input) kRegMaskSmpte372Enable4 :: u32 where "kRegMaskSmpte372Enable4 \<equiv> 0x2000"
abbreviation (input) kRegMaskSmpte372Enable6 :: u32 where "kRegMaskSmpte372Enable6 \<equiv> 0x4000"
abbreviation (input) kRegMaskSmpte372Enable8 :: u32 where "kRegMaskSmpte372Enable8 \<equiv> 0x8000"
abbreviation (input) kRegMaskStandard :: u32 where "kRegMaskStandard \<equiv> 0x380"
abbreviation (input) kRegMixer1Coefficient :: u32 where "kRegMixer1Coefficient \<equiv> 11"
abbreviation (input) kRegRP188InOut1Bits0_31 :: u32 where "kRegRP188InOut1Bits0_31 \<equiv> 30"
abbreviation (input) kRegRP188InOut1Bits0_31_2 :: u32 where "kRegRP188InOut1Bits0_31_2 \<equiv> 202"
abbreviation (input) kRegRP188InOut1Bits32_63 :: u32 where "kRegRP188InOut1Bits32_63 \<equiv> 31"
abbreviation (input) kRegRP188InOut1Bits32_63_2 :: u32 where "kRegRP188InOut1Bits32_63_2 \<equiv> 203"
abbreviation (input) kRegRP188InOut1DBB :: u32 where "kRegRP188InOut1DBB \<equiv> 29"
abbreviation (input) kRegRP188InOut2Bits0_31 :: u32 where "kRegRP188InOut2Bits0_31 \<equiv> 65"
abbreviation (input) kRegRP188InOut2Bits0_31_2 :: u32 where "kRegRP188InOut2Bits0_31_2 \<equiv> 204"
abbreviation (input) kRegRP188InOut2Bits32_63 :: u32 where "kRegRP188InOut2Bits32_63 \<equiv> 66"
abbreviation (input) kRegRP188InOut2Bits32_63_2 :: u32 where "kRegRP188InOut2Bits32_63_2 \<equiv> 205"
abbreviation (input) kRegRP188InOut2DBB :: u32 where "kRegRP188InOut2DBB \<equiv> 64"
abbreviation (input) kRegRP188InOut3Bits0_31 :: u32 where "kRegRP188InOut3Bits0_31 \<equiv> 269"
abbreviation (input) kRegRP188InOut3Bits0_31_2 :: u32 where "kRegRP188InOut3Bits0_31_2 \<equiv> 206"
abbreviation (input) kRegRP188InOut3Bits32_63 :: u32 where "kRegRP188InOut3Bits32_63 \<equiv> 270"
abbreviation (input) kRegRP188InOut3Bits32_63_2 :: u32 where "kRegRP188InOut3Bits32_63_2 \<equiv> 207"
abbreviation (input) kRegRP188InOut3DBB :: u32 where "kRegRP188InOut3DBB \<equiv> 268"
abbreviation (input) kRegRP188InOut4Bits0_31 :: u32 where "kRegRP188InOut4Bits0_31 \<equiv> 274"
abbreviation (input) kRegRP188InOut4Bits0_31_2 :: u32 where "kRegRP188InOut4Bits0_31_2 \<equiv> 208"
abbreviation (input) kRegRP188InOut4Bits32_63 :: u32 where "kRegRP188InOut4Bits32_63 \<equiv> 275"
abbreviation (input) kRegRP188InOut4Bits32_63_2 :: u32 where "kRegRP188InOut4Bits32_63_2 \<equiv> 209"
abbreviation (input) kRegRP188InOut4DBB :: u32 where "kRegRP188InOut4DBB \<equiv> 273"
abbreviation (input) kRegRP188InOut5Bits0_31 :: u32 where "kRegRP188InOut5Bits0_31 \<equiv> 340"
abbreviation (input) kRegRP188InOut5Bits0_31_2 :: u32 where "kRegRP188InOut5Bits0_31_2 \<equiv> 210"
abbreviation (input) kRegRP188InOut5Bits32_63 :: u32 where "kRegRP188InOut5Bits32_63 \<equiv> 341"
abbreviation (input) kRegRP188InOut5Bits32_63_2 :: u32 where "kRegRP188InOut5Bits32_63_2 \<equiv> 211"
abbreviation (input) kRegRP188InOut5DBB :: u32 where "kRegRP188InOut5DBB \<equiv> 342"
abbreviation (input) kRegRP188InOut6Bits0_31 :: u32 where "kRegRP188InOut6Bits0_31 \<equiv> 416"
abbreviation (input) kRegRP188InOut6Bits0_31_2 :: u32 where "kRegRP188InOut6Bits0_31_2 \<equiv> 212"
abbreviation (input) kRegRP188InOut6Bits32_63 :: u32 where "kRegRP188InOut6Bits32_63 \<equiv> 417"
abbreviation (input) kRegRP188InOut6Bits32_63_2 :: u32 where "kRegRP188InOut6Bits32_63_2 \<equiv> 213"
abbreviation (input) kRegRP188InOut6DBB :: u32 where "kRegRP188InOut6DBB \<equiv> 418"
abbreviation (input) kRegRP188InOut7Bits0_31 :: u32 where "kRegRP188InOut7Bits0_31 \<equiv> 425"
abbreviation (input) kRegRP188InOut7Bits0_31_2 :: u32 where "kRegRP188InOut7Bits0_31_2 \<equiv> 214"
abbreviation (input) kRegRP188InOut7Bits32_63 :: u32 where "kRegRP188InOut7Bits32_63 \<equiv> 426"
abbreviation (input) kRegRP188InOut7Bits32_63_2 :: u32 where "kRegRP188InOut7Bits32_63_2 \<equiv> 215"
abbreviation (input) kRegRP188InOut7DBB :: u32 where "kRegRP188InOut7DBB \<equiv> 427"
abbreviation (input) kRegRP188InOut8Bits0_31 :: u32 where "kRegRP188InOut8Bits0_31 \<equiv> 434"
abbreviation (input) kRegRP188InOut8Bits0_31_2 :: u32 where "kRegRP188InOut8Bits0_31_2 \<equiv> 216"
abbreviation (input) kRegRP188InOut8Bits32_63 :: u32 where "kRegRP188InOut8Bits32_63 \<equiv> 435"
abbreviation (input) kRegRP188InOut8Bits32_63_2 :: u32 where "kRegRP188InOut8Bits32_63_2 \<equiv> 217"
abbreviation (input) kRegRP188InOut8DBB :: u32 where "kRegRP188InOut8DBB \<equiv> 436"
abbreviation (input) kRegRXSDI1CRCErrorCount :: u32 where "kRegRXSDI1CRCErrorCount \<equiv> 2049"
abbreviation (input) kRegRXSDI1FrameRefCountHigh :: u32 where "kRegRXSDI1FrameRefCountHigh \<equiv> 2053"
abbreviation (input) kRegRXSDI1FrameRefCountLow :: u32 where "kRegRXSDI1FrameRefCountLow \<equiv> 2052"
abbreviation (input) kRegRXSDI1Status :: u32 where "kRegRXSDI1Status \<equiv> 2048"
abbreviation (input) kRegRXSDI2CRCErrorCount :: u32 where "kRegRXSDI2CRCErrorCount \<equiv> 2057"
abbreviation (input) kRegRXSDI2FrameRefCountHigh :: u32 where "kRegRXSDI2FrameRefCountHigh \<equiv> 2061"
abbreviation (input) kRegRXSDI2FrameRefCountLow :: u32 where "kRegRXSDI2FrameRefCountLow \<equiv> 2060"
abbreviation (input) kRegRXSDI2Status :: u32 where "kRegRXSDI2Status \<equiv> 2056"
abbreviation (input) kRegRXSDI3CRCErrorCount :: u32 where "kRegRXSDI3CRCErrorCount \<equiv> 2065"
abbreviation (input) kRegRXSDI3FrameRefCountHigh :: u32 where "kRegRXSDI3FrameRefCountHigh \<equiv> 2069"
abbreviation (input) kRegRXSDI3FrameRefCountLow :: u32 where "kRegRXSDI3FrameRefCountLow \<equiv> 2068"
abbreviation (input) kRegRXSDI3Status :: u32 where "kRegRXSDI3Status \<equiv> 2064"
abbreviation (input) kRegRXSDI4CRCErrorCount :: u32 where "kRegRXSDI4CRCErrorCount \<equiv> 2073"
abbreviation (input) kRegRXSDI4FrameRefCountHigh :: u32 where "kRegRXSDI4FrameRefCountHigh \<equiv> 2077"
abbreviation (input) kRegRXSDI4FrameRefCountLow :: u32 where "kRegRXSDI4FrameRefCountLow \<equiv> 2076"
abbreviation (input) kRegRXSDI4Status :: u32 where "kRegRXSDI4Status \<equiv> 2072"
abbreviation (input) kRegRXSDI5CRCErrorCount :: u32 where "kRegRXSDI5CRCErrorCount \<equiv> 2081"
abbreviation (input) kRegRXSDI5FrameRefCountHigh :: u32 where "kRegRXSDI5FrameRefCountHigh \<equiv> 2085"
abbreviation (input) kRegRXSDI5FrameRefCountLow :: u32 where "kRegRXSDI5FrameRefCountLow \<equiv> 2084"
abbreviation (input) kRegRXSDI5Status :: u32 where "kRegRXSDI5Status \<equiv> 2080"
abbreviation (input) kRegRXSDI6CRCErrorCount :: u32 where "kRegRXSDI6CRCErrorCount \<equiv> 2089"
abbreviation (input) kRegRXSDI6FrameRefCountHigh :: u32 where "kRegRXSDI6FrameRefCountHigh \<equiv> 2093"
abbreviation (input) kRegRXSDI6FrameRefCountLow :: u32 where "kRegRXSDI6FrameRefCountLow \<equiv> 2092"
abbreviation (input) kRegRXSDI6Status :: u32 where "kRegRXSDI6Status \<equiv> 2088"
abbreviation (input) kRegRXSDI7CRCErrorCount :: u32 where "kRegRXSDI7CRCErrorCount \<equiv> 2097"
abbreviation (input) kRegRXSDI7FrameRefCountHigh :: u32 where "kRegRXSDI7FrameRefCountHigh \<equiv> 2101"
abbreviation (input) kRegRXSDI7FrameRefCountLow :: u32 where "kRegRXSDI7FrameRefCountLow \<equiv> 2100"
abbreviation (input) kRegRXSDI7Status :: u32 where "kRegRXSDI7Status \<equiv> 2096"
abbreviation (input) kRegRXSDI8CRCErrorCount :: u32 where "kRegRXSDI8CRCErrorCount \<equiv> 2105"
abbreviation (input) kRegRXSDI8FrameRefCountHigh :: u32 where "kRegRXSDI8FrameRefCountHigh \<equiv> 2109"
abbreviation (input) kRegRXSDI8FrameRefCountLow :: u32 where "kRegRXSDI8FrameRefCountLow \<equiv> 2108"
abbreviation (input) kRegRXSDI8Status :: u32 where "kRegRXSDI8Status \<equiv> 2104"
abbreviation (input) kRegSDI5678Input3GStatus :: u32 where "kRegSDI5678Input3GStatus \<equiv> 457"
abbreviation (input) kRegSDIInput3GStatus :: u32 where "kRegSDIInput3GStatus \<equiv> 232"
abbreviation (input) kRegSDIInput3GStatus2 :: u32 where "kRegSDIInput3GStatus2 \<equiv> 287"
abbreviation (input) kRegSDIOut1Control :: u32 where "kRegSDIOut1Control \<equiv> 129"
abbreviation (input) kRegSDIOut2Control :: u32 where "kRegSDIOut2Control \<equiv> 130"
abbreviation (input) kRegSDIOut3Control :: u32 where "kRegSDIOut3Control \<equiv> 169"
abbreviation (input) kRegSDIOut4Control :: u32 where "kRegSDIOut4Control \<equiv> 170"
abbreviation (input) kRegSDIOut5Control :: u32 where "kRegSDIOut5Control \<equiv> 337"
abbreviation (input) kRegSDIOut6Control :: u32 where "kRegSDIOut6Control \<equiv> 475"
abbreviation (input) kRegSDIOut7Control :: u32 where "kRegSDIOut7Control \<equiv> 476"
abbreviation (input) kRegSDIOut8Control :: u32 where "kRegSDIOut8Control \<equiv> 477"
abbreviation (input) kRegShift12BitLUTSupport :: nat where "kRegShift12BitLUTSupport \<equiv> 28"
abbreviation (input) kRegShift425FB12 :: nat where "kRegShift425FB12 \<equiv> 20"
abbreviation (input) kRegShift425FB34 :: nat where "kRegShift425FB34 \<equiv> 21"
abbreviation (input) kRegShift425FB56 :: nat where "kRegShift425FB56 \<equiv> 22"
abbreviation (input) kRegShift425FB78 :: nat where "kRegShift425FB78 \<equiv> 23"
abbreviation (input) kRegShift4KDCPSFOutMode :: nat where "kRegShift4KDCPSFOutMode \<equiv> 3"
abbreviation (input) kRegShiftAud1RateHigh :: nat where "kRegShiftAud1RateHigh \<equiv> 0"
abbreviation (input) kRegShiftAud2RateHigh :: nat where "kRegShiftAud2RateHigh \<equiv> 1"
abbreviation (input) kRegShiftAud3RateHigh :: nat where "kRegShiftAud3RateHigh \<equiv> 2"
abbreviation (input) kRegShiftAud4RateHigh :: nat where "kRegShiftAud4RateHigh \<equiv> 3"
abbreviation (input) kRegShiftAud5RateHigh :: nat where "kRegShiftAud5RateHigh \<equiv> 4"
abbreviation (input) kRegShiftAud6RateHigh :: nat where "kRegShiftAud6RateHigh \<equiv> 5"
abbreviation (input) kRegShiftAud7RateHigh :: nat where "kRegShiftAud7RateHigh \<equiv> 6"
abbreviation (input) kRegShiftAud8RateHigh :: nat where "kRegShiftAud8RateHigh \<equiv> 7"
abbreviation (input) kRegShiftAudioRate :: nat where "kRegShiftAudioRate \<equiv> 18"
abbreviation (input) kRegShiftCC3OutputBankSelect :: nat where "kRegShiftCC3OutputBankSelect \<equiv> 30"
abbreviation (input) kRegShiftCC4OutputBankSelect :: nat where "kRegShiftCC4OutputBankSelect \<equiv> 31"
abbreviation (input) kRegShiftCC5HostAccessBankSelect :: nat where "kRegShiftCC5HostAccessBankSelect \<equiv> 20"
abbreviation (input) kRegShiftCCHostAccessBankSelect :: nat where "kRegShiftCCHostAccessBankSelect \<equiv> 30"
abbreviation (input) kRegShiftCCMode :: nat where "kRegShiftCCMode \<equiv> 17"
abbreviation (input) kRegShiftCCOutputBankSelect :: nat where "kRegShiftCCOutputBankSelect \<equiv> 16"
abbreviation (input) kRegShiftFrameFormat :: nat where "kRegShiftFrameFormat \<equiv> 1"
abbreviation (input) kRegShiftFrameFormatHiBit :: nat where "kRegShiftFrameFormatHiBit \<equiv> 6"
abbreviation (input) kRegShiftFrameOrientation :: nat where "kRegShiftFrameOrientation \<equiv> 10"
abbreviation (input) kRegShiftFrameRate :: nat where "kRegShiftFrameRate \<equiv> 0"
abbreviation (input) kRegShiftFrameRateHiBit :: nat where "kRegShiftFrameRateHiBit \<equiv> 22"
abbreviation (input) kRegShiftGeometry :: nat where "kRegShiftGeometry \<equiv> 3"
abbreviation (input) kRegShiftHDMIInV2VideoStd :: nat where "kRegShiftHDMIInV2VideoStd \<equiv> 4"
abbreviation (input) kRegShiftIndependentMode :: nat where "kRegShiftIndependentMode \<equiv> 16"
abbreviation (input) kRegShiftInput1FrameRate :: nat where "kRegShiftInput1FrameRate \<equiv> 0"
abbreviation (input) kRegShiftInput1FrameRateHigh :: nat where "kRegShiftInput1FrameRateHigh \<equiv> 28"
abbreviation (input) kRegShiftInput1Geometry :: nat where "kRegShiftInput1Geometry \<equiv> 4"
abbreviation (input) kRegShiftInput1GeometryHigh :: nat where "kRegShiftInput1GeometryHigh \<equiv> 30"
abbreviation (input) kRegShiftInput1Progressive :: nat where "kRegShiftInput1Progressive \<equiv> 7"
abbreviation (input) kRegShiftInput2FrameRate :: nat where "kRegShiftInput2FrameRate \<equiv> 8"
abbreviation (input) kRegShiftInput2FrameRateHigh :: nat where "kRegShiftInput2FrameRateHigh \<equiv> 29"
abbreviation (input) kRegShiftInput2Geometry :: nat where "kRegShiftInput2Geometry \<equiv> 12"
abbreviation (input) kRegShiftInput2GeometryHigh :: nat where "kRegShiftInput2GeometryHigh \<equiv> 31"
abbreviation (input) kRegShiftInput2Progressive :: nat where "kRegShiftInput2Progressive \<equiv> 15"
abbreviation (input) kRegShiftInputStatusFPS :: nat where "kRegShiftInputStatusFPS \<equiv> 28"
abbreviation (input) kRegShiftInputStatusStd :: nat where "kRegShiftInputStatusStd \<equiv> 24"
abbreviation (input) kRegShiftLUT1Enable :: nat where "kRegShiftLUT1Enable \<equiv> 0"
abbreviation (input) kRegShiftLUT1HostAccessBankSelect :: nat where "kRegShiftLUT1HostAccessBankSelect \<equiv> 8"
abbreviation (input) kRegShiftLUT1OutputBankSelect :: nat where "kRegShiftLUT1OutputBankSelect \<equiv> 16"
abbreviation (input) kRegShiftLUT2Enable :: nat where "kRegShiftLUT2Enable \<equiv> 1"
abbreviation (input) kRegShiftLUT2HostAccessBankSelect :: nat where "kRegShiftLUT2HostAccessBankSelect \<equiv> 9"
abbreviation (input) kRegShiftLUT2OutputBankSelect :: nat where "kRegShiftLUT2OutputBankSelect \<equiv> 17"
abbreviation (input) kRegShiftLUT3Enable :: nat where "kRegShiftLUT3Enable \<equiv> 2"
abbreviation (input) kRegShiftLUT3HostAccessBankSelect :: nat where "kRegShiftLUT3HostAccessBankSelect \<equiv> 10"
abbreviation (input) kRegShiftLUT3OutputBankSelect :: nat where "kRegShiftLUT3OutputBankSelect \<equiv> 18"
abbreviation (input) kRegShiftLUT4Enable :: nat where "kRegShiftLUT4Enable \<equiv> 3"
abbreviation (input) kRegShiftLUT4HostAccessBankSelect :: nat where "kRegShiftLUT4HostAccessBankSelect \<equiv> 11"
abbreviation (input) kRegShiftLUT4OutputBankSelect :: nat where "kRegShiftLUT4OutputBankSelect \<equiv> 19"
abbreviation (input) kRegShiftLUT5Enable :: nat where "kRegShiftLUT5Enable \<equiv> 4"
abbreviation (input) kRegShiftLUT5HostAccessBankSelect :: nat where "kRegShiftLUT5HostAccessBankSelect \<equiv> 12"
abbreviation (input) kRegShiftLUT5OutputBankSelect :: nat where "kRegShiftLUT5OutputBankSelect \<equiv> 20"
abbreviation (input) kRegShiftLUT6Enable :: nat where "kRegShiftLUT6Enable \<equiv> 5"
abbreviation (input) kRegShiftLUT6HostAccessBankSelect :: nat where "kRegShiftLUT6HostAccessBankSelect \<equiv> 13"
abbreviation (input) kRegShiftLUT6OutputBankSelect :: nat where "kRegShiftLUT6OutputBankSelect \<equiv> 21"
abbreviation (input) kRegShiftLUT7Enable :: nat where "kRegShiftLUT7Enable \<equiv> 6"
abbreviation (input) kRegShiftLUT7HostAccessBankSelect :: nat where "kRegShiftLUT7HostAccessBankSelect \<equiv> 14"
abbreviation (input) kRegShiftLUT7OutputBankSelect :: nat where "kRegShiftLUT7OutputBankSelect \<equiv> 22"
abbreviation (input) kRegShiftLUT8Enable :: nat where "kRegShiftLUT8Enable \<equiv> 7"
abbreviation (input) kRegShiftLUT8HostAccessBankSelect :: nat where "kRegShiftLUT8HostAccessBankSelect \<equiv> 15"
abbreviation (input) kRegShiftLUT8OutputBankSelect :: nat where "kRegShiftLUT8OutputBankSelect \<equiv> 23"
abbreviation (input) kRegShiftLUTSelect :: nat where "kRegShiftLUTSelect \<equiv> 29"
abbreviation (input) kRegShiftMode :: nat where "kRegShiftMode \<equiv> 0"
abbreviation (input) kRegShiftQuadMode :: nat where "kRegShiftQuadMode \<equiv> 3"
abbreviation (input) kRegShiftQuadMode2 :: nat where "kRegShiftQuadMode2 \<equiv> 12"
abbreviation (input) kRegShiftQuadQuadMode :: nat where "kRegShiftQuadQuadMode \<equiv> 2"
abbreviation (input) kRegShiftQuadQuadSquaresMode :: nat where "kRegShiftQuadQuadSquaresMode \<equiv> 4"
abbreviation (input) kRegShiftQuadTsiEnable :: nat where "kRegShiftQuadTsiEnable \<equiv> 24"
abbreviation (input) kRegShiftRGBLevelA :: nat where "kRegShiftRGBLevelA \<equiv> 22"
abbreviation (input) kRegShiftRP188DBB :: nat where "kRegShiftRP188DBB \<equiv> 0"
abbreviation (input) kRegShiftRP188ModeCh1 :: nat where "kRegShiftRP188ModeCh1 \<equiv> 28"
abbreviation (input) kRegShiftRP188ModeCh2 :: nat where "kRegShiftRP188ModeCh2 \<equiv> 29"
abbreviation (input) kRegShiftRP188ModeCh3 :: nat where "kRegShiftRP188ModeCh3 \<equiv> 28"
abbreviation (input) kRegShiftRP188ModeCh4 :: nat where "kRegShiftRP188ModeCh4 \<equiv> 29"
abbreviation (input) kRegShiftRP188ModeCh5 :: nat where "kRegShiftRP188ModeCh5 \<equiv> 30"
abbreviation (input) kRegShiftRP188ModeCh6 :: nat where "kRegShiftRP188ModeCh6 \<equiv> 31"
abbreviation (input) kRegShiftRP188ModeCh7 :: nat where "kRegShiftRP188ModeCh7 \<equiv> 26"
abbreviation (input) kRegShiftRP188ModeCh8 :: nat where "kRegShiftRP188ModeCh8 \<equiv> 27"
abbreviation (input) kRegShiftRP188Source :: nat where "kRegShiftRP188Source \<equiv> 24"
abbreviation (input) kRegShiftResetAudioInput :: nat where "kRegShiftResetAudioInput \<equiv> 8"
abbreviation (input) kRegShiftSDIIn112GbpsMode :: nat where "kRegShiftSDIIn112GbpsMode \<equiv> 7"
abbreviation (input) kRegShiftSDIIn16GbpsMode :: nat where "kRegShiftSDIIn16GbpsMode \<equiv> 6"
abbreviation (input) kRegShiftSDIIn1LevelBtoLevelA :: nat where "kRegShiftSDIIn1LevelBtoLevelA \<equiv> 2"
abbreviation (input) kRegShiftSDIIn212GbpsMode :: nat where "kRegShiftSDIIn212GbpsMode \<equiv> 15"
abbreviation (input) kRegShiftSDIIn23GbpsSMPTELevelBMode :: nat where "kRegShiftSDIIn23GbpsSMPTELevelBMode \<equiv> 9"
abbreviation (input) kRegShiftSDIIn26GbpsMode :: nat where "kRegShiftSDIIn26GbpsMode \<equiv> 14"
abbreviation (input) kRegShiftSDIIn2LevelBtoLevelA :: nat where "kRegShiftSDIIn2LevelBtoLevelA \<equiv> 10"
abbreviation (input) kRegShiftSDIIn312GbpsMode :: nat where "kRegShiftSDIIn312GbpsMode \<equiv> 7"
abbreviation (input) kRegShiftSDIIn36GbpsMode :: nat where "kRegShiftSDIIn36GbpsMode \<equiv> 6"
abbreviation (input) kRegShiftSDIIn3GbpsSMPTELevelBMode :: nat where "kRegShiftSDIIn3GbpsSMPTELevelBMode \<equiv> 1"
abbreviation (input) kRegShiftSDIIn3LevelBtoLevelA :: nat where "kRegShiftSDIIn3LevelBtoLevelA \<equiv> 2"
abbreviation (input) kRegShiftSDIIn412GbpsMode :: nat where "kRegShiftSDIIn412GbpsMode \<equiv> 15"
abbreviation (input) kRegShiftSDIIn46GbpsMode :: nat where "kRegShiftSDIIn46GbpsMode \<equiv> 14"
abbreviation (input) kRegShiftSDIIn4LevelBtoLevelA :: nat where "kRegShiftSDIIn4LevelBtoLevelA \<equiv> 10"
abbreviation (input) kRegShiftSDIIn512GbpsMode :: nat where "kRegShiftSDIIn512GbpsMode \<equiv> 7"
abbreviation (input) kRegShiftSDIIn53GbpsSMPTELevelBMode :: nat where "kRegShiftSDIIn53GbpsSMPTELevelBMode \<equiv> 1"
abbreviation (input) kRegShiftSDIIn56GbpsMode :: nat where "kRegShiftSDIIn56GbpsMode \<equiv> 6"
abbreviation (input) kRegShiftSDIIn5LevelBtoLevelA :: nat where "kRegShiftSDIIn5LevelBtoLevelA \<equiv> 2"
abbreviation (input) kRegShiftSDIIn612GbpsMode :: nat where "kRegShiftSDIIn612GbpsMode \<equiv> 15"
abbreviation (input) kRegShiftSDIIn63GbpsSMPTELevelBMode :: nat where "kRegShiftSDIIn63GbpsSMPTELevelBMode \<equiv> 9"
abbreviation (input) kRegShiftSDIIn66GbpsMode :: nat where "kRegShiftSDIIn66GbpsMode \<equiv> 14"
abbreviation (input) kRegShiftSDIIn6LevelBtoLevelA :: nat where "kRegShiftSDIIn6LevelBtoLevelA \<equiv> 10"
abbreviation (input) kRegShiftSDIIn712GbpsMode :: nat where "kRegShiftSDIIn712GbpsMode \<equiv> 23"
abbreviation (input) kRegShiftSDIIn73GbpsSMPTELevelBMode :: nat where "kRegShiftSDIIn73GbpsSMPTELevelBMode \<equiv> 17"
abbreviation (input) kRegShiftSDIIn76GbpsMode :: nat where "kRegShiftSDIIn76GbpsMode \<equiv> 22"
abbreviation (input) kRegShiftSDIIn7LevelBtoLevelA :: nat where "kRegShiftSDIIn7LevelBtoLevelA \<equiv> 18"
abbreviation (input) kRegShiftSDIIn812GbpsMode :: nat where "kRegShiftSDIIn812GbpsMode \<equiv> 31"
abbreviation (input) kRegShiftSDIIn83GbpsSMPTELevelBMode :: nat where "kRegShiftSDIIn83GbpsSMPTELevelBMode \<equiv> 25"
abbreviation (input) kRegShiftSDIIn86GbpsMode :: nat where "kRegShiftSDIIn86GbpsMode \<equiv> 30"
abbreviation (input) kRegShiftSDIIn8LevelBtoLevelA :: nat where "kRegShiftSDIIn8LevelBtoLevelA \<equiv> 26"
abbreviation (input) kRegShiftSDIInCRCErrorCountA :: nat where "kRegShiftSDIInCRCErrorCountA \<equiv> 0"
abbreviation (input) kRegShiftSDIInCRCErrorCountB :: nat where "kRegShiftSDIInCRCErrorCountB \<equiv> 16"
abbreviation (input) kRegShiftSDIInLocked :: nat where "kRegShiftSDIInLocked \<equiv> 16"
abbreviation (input) kRegShiftSDIInTRSError :: nat where "kRegShiftSDIInTRSError \<equiv> 24"
abbreviation (input) kRegShiftSDIInUnlockCount :: nat where "kRegShiftSDIInUnlockCount \<equiv> 0"
abbreviation (input) kRegShiftSDIInVpidValidA :: nat where "kRegShiftSDIInVpidValidA \<equiv> 20"
abbreviation (input) kRegShiftSDIInVpidValidB :: nat where "kRegShiftSDIInVpidValidB \<equiv> 21"
abbreviation (input) kRegShiftSDIOut12GbpsMode :: nat where "kRegShiftSDIOut12GbpsMode \<equiv> 17"
abbreviation (input) kRegShiftSDIOut6GbpsMode :: nat where "kRegShiftSDIOut6GbpsMode \<equiv> 16"
abbreviation (input) kRegShiftSDIOutLevelAtoLevelB :: nat where "kRegShiftSDIOutLevelAtoLevelB \<equiv> 23"
abbreviation (input) kRegShiftSaturationValue :: nat where "kRegShiftSaturationValue \<equiv> 0"
abbreviation (input) kRegShiftSmpte372 :: nat where "kRegShiftSmpte372 \<equiv> 15"
abbreviation (input) kRegShiftSmpte372Enable4 :: nat where "kRegShiftSmpte372Enable4 \<equiv> 13"
abbreviation (input) kRegShiftSmpte372Enable6 :: nat where "kRegShiftSmpte372Enable6 \<equiv> 14"
abbreviation (input) kRegShiftSmpte372Enable8 :: nat where "kRegShiftSmpte372Enable8 \<equiv> 15"
abbreviation (input) kRegShiftStandard :: nat where "kRegShiftStandard \<equiv> 7"
abbreviation (input) kRegSplitControl :: u32 where "kRegSplitControl \<equiv> 12"
abbreviation (input) kRegStatus :: u32 where "kRegStatus \<equiv> 21"
abbreviation (input) kRegStatus2 :: u32 where "kRegStatus2 \<equiv> 265"
abbreviation (input) kRegVidProc1Control :: u32 where "kRegVidProc1Control \<equiv> 9"
abbreviation (input) kRegVidProcXptControl :: u32 where "kRegVidProcXptControl \<equiv> 10"
abbreviation (input) kRegXptSelectGroup1 :: u32 where "kRegXptSelectGroup1 \<equiv> 136"
abbreviation (input) kRegXptSelectGroup10 :: u32 where "kRegXptSelectGroup10 \<equiv> 251"
abbreviation (input) kRegXptSelectGroup11 :: u32 where "kRegXptSelectGroup11 \<equiv> 191"
abbreviation (input) kRegXptSelectGroup12 :: u32 where "kRegXptSelectGroup12 \<equiv> 193"
abbreviation (input) kRegXptSelectGroup14 :: u32 where "kRegXptSelectGroup14 \<equiv> 264"
abbreviation (input) kRegXptSelectGroup15 :: u32 where "kRegXptSelectGroup15 \<equiv> 302"
abbreviation (input) kRegXptSelectGroup16 :: u32 where "kRegXptSelectGroup16 \<equiv> 303"
abbreviation (input) kRegXptSelectGroup17 :: u32 where "kRegXptSelectGroup17 \<equiv> 301"
abbreviation (input) kRegXptSelectGroup18 :: u32 where "kRegXptSelectGroup18 \<equiv> 352"
abbreviation (input) kRegXptSelectGroup19 :: u32 where "kRegXptSelectGroup19 \<equiv> 356"
abbreviation (input) kRegXptSelectGroup2 :: u32 where "kRegXptSelectGroup2 \<equiv> 137"
abbreviation (input) kRegXptSelectGroup20 :: u32 where "kRegXptSelectGroup20 \<equiv> 357"
abbreviation (input) kRegXptSelectGroup22 :: u32 where "kRegXptSelectGroup22 \<equiv> 401"
abbreviation (input) kRegXptSelectGroup23 :: u32 where "kRegXptSelectGroup23 \<equiv> 403"
abbreviation (input) kRegXptSelectGroup24 :: u32 where "kRegXptSelectGroup24 \<equiv> 404"
abbreviation (input) kRegXptSelectGroup25 :: u32 where "kRegXptSelectGroup25 \<equiv> 405"
abbreviation (input) kRegXptSelectGroup26 :: u32 where "kRegXptSelectGroup26 \<equiv> 406"
abbreviation (input) kRegXptSelectGroup27 :: u32 where "kRegXptSelectGroup27 \<equiv> 407"
abbreviation (input) kRegXptSelectGroup28 :: u32 where "kRegXptSelectGroup28 \<equiv> 408"
abbreviation (input) kRegXptSelectGroup29 :: u32 where "kRegXptSelectGroup29 \<equiv> 409"
abbreviation (input) kRegXptSelectGroup3 :: u32 where "kRegXptSelectGroup3 \<equiv> 138"
abbreviation (input) kRegXptSelectGroup30 :: u32 where "kRegXptSelectGroup30 \<equiv> 402"
abbreviation (input) kRegXptSelectGroup32 :: u32 where "kRegXptSelectGroup32 \<equiv> 506"
abbreviation (input) kRegXptSelectGroup33 :: u32 where "kRegXptSelectGroup33 \<equiv> 507"
abbreviation (input) kRegXptSelectGroup36 :: u32 where "kRegXptSelectGroup36 \<equiv> 174"
abbreviation (input) kRegXptSelectGroup37 :: u32 where "kRegXptSelectGroup37 \<equiv> 175"
abbreviation (input) kRegXptSelectGroup4 :: u32 where "kRegXptSelectGroup4 \<equiv> 139"
abbreviation (input) kRegXptSelectGroup5 :: u32 where "kRegXptSelectGroup5 \<equiv> 140"
abbreviation (input) kRegXptSelectGroup6 :: u32 where "kRegXptSelectGroup6 \<equiv> 141"
abbreviation (input) kRegXptSelectGroup7 :: u32 where "kRegXptSelectGroup7 \<equiv> 163"
abbreviation (input) kRegXptSelectGroup8 :: u32 where "kRegXptSelectGroup8 \<equiv> 164"
abbreviation (input) kRegXptSelectGroup9 :: u32 where "kRegXptSelectGroup9 \<equiv> 250"
abbreviation (input) kVRegAncField1Offset :: u32 where "kVRegAncField1Offset \<equiv> 10392"
abbreviation (input) kVRegAncField2Offset :: u32 where "kVRegAncField2Offset \<equiv> 10393"
abbreviation (input) kVRegAudioSyncTolerance :: u32 where "kVRegAudioSyncTolerance \<equiv> 10079"
abbreviation (input) kVRegChannelCrosspointFirst :: u32 where "kVRegChannelCrosspointFirst \<equiv> 10380"
abbreviation (input) kVRegCustomAncInputSelect :: u32 where "kVRegCustomAncInputSelect \<equiv> 10397"
abbreviation (input) kVRegEveryFrameTaskFilter :: u32 where "kVRegEveryFrameTaskFilter \<equiv> 0x281E"
abbreviation (input) kVRegLUTType :: u32 where "kVRegLUTType \<equiv> 10044"
abbreviation (input) kVRegMonAncField1Offset :: u32 where "kVRegMonAncField1Offset \<equiv> 10389"
abbreviation (input) kVRegMonAncField2Offset :: u32 where "kVRegMonAncField2Offset \<equiv> 10390"
abbreviation (input) kVRegSyncChannels :: u32 where "kVRegSyncChannels \<equiv> 10081"
abbreviation (input) kVRegUserDefinedDBB :: u32 where "kVRegUserDefinedDBB \<equiv> 10502"
abbreviation (input) maskAuxDisableExtractor :: u32 where "maskAuxDisableExtractor \<equiv> 0x10000000"
abbreviation (input) maskAuxFIDHi :: u32 where "maskAuxFIDHi \<equiv> 0xFFF"
abbreviation (input) maskAuxFIDLow :: u32 where "maskAuxFIDLow \<equiv> 0xFFF0000"
abbreviation (input) maskAuxField1StartLine :: u32 where "maskAuxField1StartLine \<equiv> 0xFFF"
abbreviation (input) maskAuxField2StartLine :: u32 where "maskAuxField2StartLine \<equiv> 0xFFF0000"
abbreviation (input) maskAuxFieldBytesIn :: u32 where "maskAuxFieldBytesIn \<equiv> 0xFFFFFF"
abbreviation (input) maskAuxFieldOverrun :: u32 where "maskAuxFieldOverrun \<equiv> 0x10000000"
abbreviation (input) maskAuxSetProgressive :: u32 where "maskAuxSetProgressive \<equiv> 0x10000"
abbreviation (input) maskAuxSyncro :: u32 where "maskAuxSyncro \<equiv> 0x3000000"
abbreviation (input) maskAuxTotalFrameLines :: u32 where "maskAuxTotalFrameLines \<equiv> 0xFFF"
abbreviation (input) maskAuxTotalOverrun :: u32 where "maskAuxTotalOverrun \<equiv> 0x10000000"
abbreviation (input) maskDisableExtractor :: u32 where "maskDisableExtractor \<equiv> 0x10000000"
abbreviation (input) maskEnableHancC :: u32 where "maskEnableHancC \<equiv> 0x100"
abbreviation (input) maskEnableHancY :: u32 where "maskEnableHancY \<equiv> 0x1"
abbreviation (input) maskEnableSDMux :: u32 where "maskEnableSDMux \<equiv> 0x40000000"
abbreviation (input) maskEnableVancC :: u32 where "maskEnableVancC \<equiv> 0x1000"
abbreviation (input) maskEnableVancY :: u32 where "maskEnableVancY \<equiv> 0x10"
abbreviation (input) maskFIDHi :: u32 where "maskFIDHi \<equiv> 0x7FF"
abbreviation (input) maskFIDLow :: u32 where "maskFIDLow \<equiv> 0x7FF0000"
abbreviation (input) maskField1AnalogStartLine :: u32 where "maskField1AnalogStartLine \<equiv> 0x7FF"
abbreviation (input) maskField1BytesIn :: u32 where "maskField1BytesIn \<equiv> 0xFFFFFF"
abbreviation (input) maskField1CutoffLine :: u32 where "maskField1CutoffLine \<equiv> 0x7FF"
abbreviation (input) maskField1Overrun :: u32 where "maskField1Overrun \<equiv> 0x10000000"
abbreviation (input) maskField1StartLine :: u32 where "maskField1StartLine \<equiv> 0x7FF"
abbreviation (input) maskField2AnalogStartLine :: u32 where "maskField2AnalogStartLine \<equiv> 0x7FF0000"
abbreviation (input) maskField2BytesIn :: u32 where "maskField2BytesIn \<equiv> 0xFFFFFF"
abbreviation (input) maskField2CutoffLine :: u32 where "maskField2CutoffLine \<equiv> 0x7FF0000"
abbreviation (input) maskField2Overrun :: u32 where "maskField2Overrun \<equiv> 0x10000000"
abbreviation (input) maskField2StartLine :: u32 where "maskField2StartLine \<equiv> 0x7FF0000"
abbreviation (input) maskGrabLSBs :: u32 where "maskGrabLSBs \<equiv> 0x80000000"
abbreviation (input) maskInsActivePixelsInLine :: u32 where "maskInsActivePixelsInLine \<equiv> 0x7FF"
abbreviation (input) maskInsDisableInserter :: u32 where "maskInsDisableInserter \<equiv> 0x10000000"
abbreviation (input) maskInsEnableHancC :: u32 where "maskInsEnableHancC \<equiv> 0x100"
abbreviation (input) maskInsEnableHancY :: u32 where "maskInsEnableHancY \<equiv> 0x1"
abbreviation (input) maskInsEnablePktSplitSD :: u32 where "maskInsEnablePktSplitSD \<equiv> 0x80000000"
abbreviation (input) maskInsEnableVancC :: u32 where "maskInsEnableVancC \<equiv> 0x1000"
abbreviation (input) maskInsEnableVancY :: u32 where "maskInsEnableVancY \<equiv> 0x10"
abbreviation (input) maskInsExtendedMode :: u32 where "maskInsExtendedMode \<equiv> 0x20000000"
abbreviation (input) maskInsField1Bytes :: u32 where "maskInsField1Bytes \<equiv> 0xFFFF"
abbreviation (input) maskInsField1FirstActive :: u32 where "maskInsField1FirstActive \<equiv> 0x7FF"
abbreviation (input) maskInsField2Bytes :: u32 where "maskInsField2Bytes \<equiv> 0xFFFF0000"
abbreviation (input) maskInsField2FirstActive :: u32 where "maskInsField2FirstActive \<equiv> 0x7FF0000"
abbreviation (input) maskInsFieldIDHigh :: u32 where "maskInsFieldIDHigh \<equiv> 0x7FF"
abbreviation (input) maskInsFieldIDLow :: u32 where "maskInsFieldIDLow \<equiv> 0x7FF0000"
abbreviation (input) maskInsHancDelay :: u32 where "maskInsHancDelay \<equiv> 0x3FF"
abbreviation (input) maskInsSetProgressive :: u32 where "maskInsSetProgressive \<equiv> 0x1000000"
abbreviation (input) maskInsTotalLinesPerFrame :: u32 where "maskInsTotalLinesPerFrame \<equiv> 0x7FF"
abbreviation (input) maskInsTotalPixelsInLine :: u32 where "maskInsTotalPixelsInLine \<equiv> 0xFFF0000"
abbreviation (input) maskInsVancDelay :: u32 where "maskInsVancDelay \<equiv> 0x7FF0000"
abbreviation (input) maskSetProgressive :: u32 where "maskSetProgressive \<equiv> 0x10000"
abbreviation (input) maskSyncro :: u32 where "maskSyncro \<equiv> 0x3000000"
abbreviation (input) maskTotalFrameLines :: u32 where "maskTotalFrameLines \<equiv> 0x7FF"
abbreviation (input) maskTotalOverrun :: u32 where "maskTotalOverrun \<equiv> 0x10000000"
abbreviation (input) regAncExtAnalogStartLine :: u32 where "regAncExtAnalogStartLine \<equiv> 17"
abbreviation (input) regAncExtControl :: u32 where "regAncExtControl \<equiv> 0"
abbreviation (input) regAncExtFID :: u32 where "regAncExtFID \<equiv> 11"
abbreviation (input) regAncExtField1AnalogCFilter :: u32 where "regAncExtField1AnalogCFilter \<equiv> 20"
abbreviation (input) regAncExtField1AnalogYFilter :: u32 where "regAncExtField1AnalogYFilter \<equiv> 18"
abbreviation (input) regAncExtField1EndAddress :: u32 where "regAncExtField1EndAddress \<equiv> 2"
abbreviation (input) regAncExtField1StartAddress :: u32 where "regAncExtField1StartAddress \<equiv> 1"
abbreviation (input) regAncExtField1Status :: u32 where "regAncExtField1Status \<equiv> 7"
abbreviation (input) regAncExtField2AnalogCFilter :: u32 where "regAncExtField2AnalogCFilter \<equiv> 21"
abbreviation (input) regAncExtField2AnalogYFilter :: u32 where "regAncExtField2AnalogYFilter \<equiv> 19"
abbreviation (input) regAncExtField2EndAddress :: u32 where "regAncExtField2EndAddress \<equiv> 4"
abbreviation (input) regAncExtField2StartAddress :: u32 where "regAncExtField2StartAddress \<equiv> 3"
abbreviation (input) regAncExtField2Status :: u32 where "regAncExtField2Status \<equiv> 8"
abbreviation (input) regAncExtFieldCutoffLine :: u32 where "regAncExtFieldCutoffLine \<equiv> 5"
abbreviation (input) regAncExtFieldVBLStartLine :: u32 where "regAncExtFieldVBLStartLine \<equiv> 9"
abbreviation (input) regAncExtTotalFrameLines :: u32 where "regAncExtTotalFrameLines \<equiv> 10"
abbreviation (input) regAncExtTotalStatus :: u32 where "regAncExtTotalStatus \<equiv> 6"
abbreviation (input) regAncInsActiveStart :: u32 where "regAncInsActiveStart \<equiv> 5"
abbreviation (input) regAncInsBlankCStartLine :: u32 where "regAncInsBlankCStartLine \<equiv> 11"
abbreviation (input) regAncInsBlankField1CLines :: u32 where "regAncInsBlankField1CLines \<equiv> 12"
abbreviation (input) regAncInsBlankField2CLines :: u32 where "regAncInsBlankField2CLines \<equiv> 13"
abbreviation (input) regAncInsControl :: u32 where "regAncInsControl \<equiv> 1"
abbreviation (input) regAncInsField1StartAddr :: u32 where "regAncInsField1StartAddr \<equiv> 2"
abbreviation (input) regAncInsField2StartAddr :: u32 where "regAncInsField2StartAddr \<equiv> 3"
abbreviation (input) regAncInsFieldBytes :: u32 where "regAncInsFieldBytes \<equiv> 0"
abbreviation (input) regAncInsFieldIDLines :: u32 where "regAncInsFieldIDLines \<equiv> 8"
abbreviation (input) regAncInsFrameLines :: u32 where "regAncInsFrameLines \<equiv> 7"
abbreviation (input) regAncInsLinePixels :: u32 where "regAncInsLinePixels \<equiv> 6"
abbreviation (input) regAncInsPixelDelay :: u32 where "regAncInsPixelDelay \<equiv> 4"
abbreviation (input) regAuxExtControl :: u32 where "regAuxExtControl \<equiv> 0"
abbreviation (input) regAuxExtFID :: u32 where "regAuxExtFID \<equiv> 11"
abbreviation (input) regAuxExtField1EndAddress :: u32 where "regAuxExtField1EndAddress \<equiv> 2"
abbreviation (input) regAuxExtField1StartAddress :: u32 where "regAuxExtField1StartAddress \<equiv> 1"
abbreviation (input) regAuxExtField1Status :: u32 where "regAuxExtField1Status \<equiv> 7"
abbreviation (input) regAuxExtField2StartAddress :: u32 where "regAuxExtField2StartAddress \<equiv> 3"
abbreviation (input) regAuxExtField2Status :: u32 where "regAuxExtField2Status \<equiv> 8"
abbreviation (input) regAuxExtFieldVBLStartLine :: u32 where "regAuxExtFieldVBLStartLine \<equiv> 9"
abbreviation (input) regAuxExtTotalFrameLines :: u32 where "regAuxExtTotalFrameLines \<equiv> 10"
abbreviation (input) regAuxExtTotalStatus :: u32 where "regAuxExtTotalStatus \<equiv> 6"
abbreviation (input) shiftAuxDisableExtractor :: nat where "shiftAuxDisableExtractor \<equiv> 28"
abbreviation (input) shiftAuxFIDHi :: nat where "shiftAuxFIDHi \<equiv> 0"
abbreviation (input) shiftAuxFIDLow :: nat where "shiftAuxFIDLow \<equiv> 16"
abbreviation (input) shiftAuxField1StartLine :: nat where "shiftAuxField1StartLine \<equiv> 0"
abbreviation (input) shiftAuxField2StartLine :: nat where "shiftAuxField2StartLine \<equiv> 16"
abbreviation (input) shiftAuxFieldBytesIn :: nat where "shiftAuxFieldBytesIn \<equiv> 0"
abbreviation (input) shiftAuxFieldOverrun :: nat where "shiftAuxFieldOverrun \<equiv> 28"
abbreviation (input) shiftAuxSetProgressive :: nat where "shiftAuxSetProgressive \<equiv> 16"
abbreviation (input) shiftAuxSyncro :: nat where "shiftAuxSyncro \<equiv> 24"
abbreviation (input) shiftAuxTotalFrameLines :: nat where "shiftAuxTotalFrameLines \<equiv> 0"
abbreviation (input) shiftAuxTotalOverrun :: nat where "shiftAuxTotalOverrun \<equiv> 28"
abbreviation (input) shiftDisableExtractor :: nat where "shiftDisableExtractor \<equiv> 28"
abbreviation (input) shiftEnableHancC :: nat where "shiftEnableHancC \<equiv> 8"
abbreviation (input) shiftEnableHancY :: nat where "shiftEnableHancY \<equiv> 0"
abbreviation (input) shiftEnableSDMux :: nat where "shiftEnableSDMux \<equiv> 30"
abbreviation (input) shiftEnableVancC :: nat where "shiftEnableVancC \<equiv> 12"
abbreviation (input) shiftEnableVancY :: nat where "shiftEnableVancY \<equiv> 4"
abbreviation (input) shiftFIDHi :: nat where "shiftFIDHi \<equiv> 0"
abbreviation (input) shiftFIDLow :: nat where "shiftFIDLow \<equiv> 16"
abbreviation (input) shiftField1AnalogStartLine :: nat where "shiftField1AnalogStartLine \<equiv> 0"
abbreviation (input) shiftField1BytesIn :: nat where "shiftField1BytesIn \<equiv> 0"
abbreviation (input) shiftField1CutoffLine :: nat where "shiftField1CutoffLine \<equiv> 0"
abbreviation (input) shiftField1Overrun :: nat where "shiftField1Overrun \<equiv> 28"
abbreviation (input) shiftField1StartLine :: nat where "shiftField1StartLine \<equiv> 0"
abbreviation (input) shiftField2AnalogStartLine :: nat where "shiftField2AnalogStartLine \<equiv> 16"
abbreviation (input) shiftField2BytesIn :: nat where "shiftField2BytesIn \<equiv> 0"
abbreviation (input) shiftField2CutoffLine :: nat where "shiftField2CutoffLine \<equiv> 16"
abbreviation (input) shiftField2Overrun :: nat where "shiftField2Overrun \<equiv> 28"
abbreviation (input) shiftField2StartLine :: nat where "shiftField2StartLine \<equiv> 16"
abbreviation (input) shiftGrabLSBs :: nat where "shiftGrabLSBs \<equiv> 31"
abbreviation (input) shiftINsHancDelay :: nat where "shiftINsHancDelay \<equiv> 0"
abbreviation (input) shiftInsActivePixelsInLine :: nat where "shiftInsActivePixelsInLine \<equiv> 0"
abbreviation (input) shiftInsDisableInserter :: nat where "shiftInsDisableInserter \<equiv> 28"
abbreviation (input) shiftInsEnableHancY :: nat where "shiftInsEnableHancY \<equiv> 0"
abbreviation (input) shiftInsEnablePktSplitSD :: nat where "shiftInsEnablePktSplitSD \<equiv> 31"
abbreviation (input) shiftInsEnableVancC :: nat where "shiftInsEnableVancC \<equiv> 12"
abbreviation (input) shiftInsEnableVancY :: nat where "shiftInsEnableVancY \<equiv> 4"
abbreviation (input) shiftInsExtendedMode :: nat where "shiftInsExtendedMode \<equiv> 29"
abbreviation (input) shiftInsField1Bytes :: nat where "shiftInsField1Bytes \<equiv> 0"
abbreviation (input) shiftInsField1FirstActive :: nat where "shiftInsField1FirstActive \<equiv> 0"
abbreviation (input) shiftInsField2Bytes :: nat where "shiftInsField2Bytes \<equiv> 16"
abbreviation (input) shiftInsField2FirstActive :: nat where "shiftInsField2FirstActive \<equiv> 16"
abbreviation (input) shiftInsFieldIDHigh :: nat where "shiftInsFieldIDHigh \<equiv> 0"
abbreviation (input) shiftInsFieldIDLow :: nat where "shiftInsFieldIDLow \<equiv> 16"
abbreviation (input) shiftInsSetProgressive :: nat where "shiftInsSetProgressive \<equiv> 24"
abbreviation (input) shiftInsTotalLinesPerFrame :: nat where "shiftInsTotalLinesPerFrame \<equiv> 0"
abbreviation (input) shiftInsTotalPixelsInLine :: nat where "shiftInsTotalPixelsInLine \<equiv> 16"
abbreviation (input) shiftInsVancDelay :: nat where "shiftInsVancDelay \<equiv> 16"
abbreviation (input) shiftSetProgressive :: nat where "shiftSetProgressive \<equiv> 16"
abbreviation (input) shiftSyncro :: nat where "shiftSyncro \<equiv> 24"
abbreviation (input) shiftTotalFrameLines :: nat where "shiftTotalFrameLines \<equiv> 0"
abbreviation (input) shiftTotalOverrun :: nat where "shiftTotalOverrun \<equiv> 28"

end
