(* ===== verification/Ntv2Enums.thy ===== *)
theory Ntv2Enums
  imports Ntv2Constants
begin

text \<open>
  The classification macros of ajantv2/includes/ntv2enums.h that the driver's core uses, on
  crosspoints, standards, geometries and video formats.
\<close>

definition NTV2_IS_INPUT_CROSSPOINT :: "nat \<Rightarrow> bool" where
  "NTV2_IS_INPUT_CROSSPOINT x \<longleftrightarrow>
     x \<in> {NTV2CROSSPOINT_INPUT1, NTV2CROSSPOINT_INPUT2, NTV2CROSSPOINT_INPUT3,
           NTV2CROSSPOINT_INPUT4, NTV2CROSSPOINT_INPUT5, NTV2CROSSPOINT_INPUT6,
           NTV2CROSSPOINT_INPUT7, NTV2CROSSPOINT_INPUT8}"

definition NTV2_IS_OUTPUT_CROSSPOINT :: "nat \<Rightarrow> bool" where
  "NTV2_IS_OUTPUT_CROSSPOINT x \<longleftrightarrow>
     x \<in> {NTV2CROSSPOINT_CHANNEL1, NTV2CROSSPOINT_CHANNEL2, NTV2CROSSPOINT_CHANNEL3,
           NTV2CROSSPOINT_CHANNEL4, NTV2CROSSPOINT_CHANNEL5, NTV2CROSSPOINT_CHANNEL6,
           NTV2CROSSPOINT_CHANNEL7, NTV2CROSSPOINT_CHANNEL8}"

definition NTV2_IS_PROGRESSIVE_STANDARD :: "u32 \<Rightarrow> bool" where
  "NTV2_IS_PROGRESSIVE_STANDARD x \<longleftrightarrow>
     x \<in> {NTV2_STANDARD_1080p, NTV2_STANDARD_720, NTV2_STANDARD_2Kx1080p,
           NTV2_STANDARD_3840x2160p, NTV2_STANDARD_4096x2160p, NTV2_STANDARD_3840HFR,
           NTV2_STANDARD_4096HFR, NTV2_STANDARD_7680, NTV2_STANDARD_8192}"

definition NTV2_IS_SD_STANDARD :: "u32 \<Rightarrow> bool" where
  "NTV2_IS_SD_STANDARD x \<longleftrightarrow>
     (x = NTV2_STANDARD_525) \<or> (x = NTV2_STANDARD_625)"

definition NTV2_IS_UHD_STANDARD :: "u32 \<Rightarrow> bool" where
  "NTV2_IS_UHD_STANDARD x \<longleftrightarrow>
     x \<in> {NTV2_STANDARD_3840x2160p, NTV2_STANDARD_3840HFR, NTV2_STANDARD_3840i}"

definition NTV2_IS_4K_STANDARD :: "u32 \<Rightarrow> bool" where
  "NTV2_IS_4K_STANDARD x \<longleftrightarrow>
     x \<in> {NTV2_STANDARD_4096x2160p, NTV2_STANDARD_4096HFR, NTV2_STANDARD_4096i}"

definition NTV2_IS_QUAD_STANDARD :: "u32 \<Rightarrow> bool" where
  "NTV2_IS_QUAD_STANDARD x \<longleftrightarrow>
     NTV2_IS_UHD_STANDARD x \<or> NTV2_IS_4K_STANDARD x"

definition NTV2_IS_2K_1080_FRAME_GEOMETRY :: "u32 \<Rightarrow> bool" where
  "NTV2_IS_2K_1080_FRAME_GEOMETRY x \<longleftrightarrow>
     x \<in> {NTV2_FG_2048x1114, NTV2_FG_2048x1080, NTV2_FG_2048x1112}"

definition NTV2_VIDEO_FORMAT_IS_A :: "u32 \<Rightarrow> bool" where
  "NTV2_VIDEO_FORMAT_IS_A x \<longleftrightarrow>
     x \<in> {NTV2_FORMAT_1080p_5000_A, NTV2_FORMAT_1080p_5994_A, NTV2_FORMAT_1080p_6000_A,
           NTV2_FORMAT_1080p_2K_4795_A, NTV2_FORMAT_1080p_2K_4800_A, NTV2_FORMAT_1080p_2K_5000_A,
           NTV2_FORMAT_1080p_2K_5994_A, NTV2_FORMAT_1080p_2K_6000_A, NTV2_FORMAT_4x1920x1080p_5000,
           NTV2_FORMAT_4x1920x1080p_5994, NTV2_FORMAT_4x1920x1080p_6000,
           NTV2_FORMAT_4x2048x1080p_4795, NTV2_FORMAT_4x2048x1080p_4800,
           NTV2_FORMAT_4x2048x1080p_5000, NTV2_FORMAT_4x2048x1080p_5994,
           NTV2_FORMAT_4x2048x1080p_6000, NTV2_FORMAT_3840x2160p_5000, NTV2_FORMAT_3840x2160p_5994,
           NTV2_FORMAT_3840x2160p_6000, NTV2_FORMAT_4096x2160p_4795, NTV2_FORMAT_4096x2160p_4800,
           NTV2_FORMAT_4096x2160p_5000, NTV2_FORMAT_4096x2160p_5994, NTV2_FORMAT_4096x2160p_6000,
           NTV2_FORMAT_4x3840x2160p_5000, NTV2_FORMAT_4x3840x2160p_5994,
           NTV2_FORMAT_4x3840x2160p_6000, NTV2_FORMAT_4x4096x2160p_4795,
           NTV2_FORMAT_4x4096x2160p_4800, NTV2_FORMAT_4x4096x2160p_5000,
           NTV2_FORMAT_4x4096x2160p_5994, NTV2_FORMAT_4x4096x2160p_6000}"

definition NTV2_VIDEO_FORMAT_IS_B :: "u32 \<Rightarrow> bool" where
  "NTV2_VIDEO_FORMAT_IS_B x \<longleftrightarrow>
     x \<in> {NTV2_FORMAT_1080p_5000_B, NTV2_FORMAT_1080p_5994_B, NTV2_FORMAT_1080p_6000_B,
           NTV2_FORMAT_1080p_2K_4795_B, NTV2_FORMAT_1080p_2K_4800_B, NTV2_FORMAT_1080p_2K_5000_B,
           NTV2_FORMAT_1080p_2K_5994_B, NTV2_FORMAT_1080p_2K_6000_B, NTV2_FORMAT_3840x2160p_5000_B,
           NTV2_FORMAT_3840x2160p_5994_B, NTV2_FORMAT_3840x2160p_6000_B,
           NTV2_FORMAT_4096x2160p_4795_B, NTV2_FORMAT_4096x2160p_4800_B,
           NTV2_FORMAT_4096x2160p_5000_B, NTV2_FORMAT_4096x2160p_5994_B,
           NTV2_FORMAT_4096x2160p_6000_B, NTV2_FORMAT_4x1920x1080p_5000_B,
           NTV2_FORMAT_4x1920x1080p_5994_B, NTV2_FORMAT_4x1920x1080p_6000_B,
           NTV2_FORMAT_4x2048x1080p_5000_B, NTV2_FORMAT_4x2048x1080p_5994_B,
           NTV2_FORMAT_4x2048x1080p_6000_B, NTV2_FORMAT_4x2048x1080p_4795_B,
           NTV2_FORMAT_4x2048x1080p_4800_B, NTV2_FORMAT_4x3840x2160p_5000_B,
           NTV2_FORMAT_4x3840x2160p_5994_B, NTV2_FORMAT_4x3840x2160p_6000_B,
           NTV2_FORMAT_4x4096x2160p_4795_B, NTV2_FORMAT_4x4096x2160p_4800_B,
           NTV2_FORMAT_4x4096x2160p_5000_B, NTV2_FORMAT_4x4096x2160p_5994_B,
           NTV2_FORMAT_4x4096x2160p_6000_B}"

definition NTV2_IS_PSF_VIDEO_FORMAT :: "u32 \<Rightarrow> bool" where
  "NTV2_IS_PSF_VIDEO_FORMAT x \<longleftrightarrow>
     x \<in> {NTV2_FORMAT_1080psf_2398, NTV2_FORMAT_1080psf_2400, NTV2_FORMAT_1080psf_2K_2398,
           NTV2_FORMAT_1080psf_2K_2400, NTV2_FORMAT_1080psf_2K_2500, NTV2_FORMAT_1080psf_2500_2,
           NTV2_FORMAT_1080psf_2997_2, NTV2_FORMAT_1080psf_3000_2, NTV2_FORMAT_525psf_2997,
           NTV2_FORMAT_625psf_2500, NTV2_FORMAT_4x1920x1080psf_2398,
           NTV2_FORMAT_4x1920x1080psf_2400, NTV2_FORMAT_4x1920x1080psf_2500,
           NTV2_FORMAT_4x1920x1080psf_2997, NTV2_FORMAT_4x1920x1080psf_3000,
           NTV2_FORMAT_4x2048x1080psf_2398, NTV2_FORMAT_4x2048x1080psf_2400,
           NTV2_FORMAT_4x2048x1080psf_2500, NTV2_FORMAT_4x2048x1080psf_2997,
           NTV2_FORMAT_4x2048x1080psf_3000, NTV2_FORMAT_3840x2160psf_2398,
           NTV2_FORMAT_3840x2160psf_2400, NTV2_FORMAT_3840x2160psf_2500,
           NTV2_FORMAT_3840x2160psf_2997, NTV2_FORMAT_3840x2160psf_3000,
           NTV2_FORMAT_4096x2160psf_2398, NTV2_FORMAT_4096x2160psf_2400,
           NTV2_FORMAT_4096x2160psf_2500, NTV2_FORMAT_4096x2160psf_2997,
           NTV2_FORMAT_4096x2160psf_3000}"

definition NTV2_IS_2K_1080_VIDEO_FORMAT :: "u32 \<Rightarrow> bool" where
  "NTV2_IS_2K_1080_VIDEO_FORMAT x \<longleftrightarrow>
     x \<in> {NTV2_FORMAT_1080p_2K_2398, NTV2_FORMAT_1080psf_2K_2398, NTV2_FORMAT_1080p_2K_2400,
           NTV2_FORMAT_1080psf_2K_2400, NTV2_FORMAT_1080p_2K_2500, NTV2_FORMAT_1080psf_2K_2500,
           NTV2_FORMAT_1080p_2K_2997, NTV2_FORMAT_1080p_2K_3000, NTV2_FORMAT_1080p_2K_4795_A,
           NTV2_FORMAT_1080p_2K_4800_A, NTV2_FORMAT_1080p_2K_5000_A, NTV2_FORMAT_1080p_2K_5994_A,
           NTV2_FORMAT_1080p_2K_6000_A, NTV2_FORMAT_1080p_2K_6000_B, NTV2_FORMAT_1080p_2K_5994_B,
           NTV2_FORMAT_1080p_2K_5000_B, NTV2_FORMAT_1080p_2K_4800_B, NTV2_FORMAT_1080p_2K_4795_B}"

definition NTV2_IS_4K_4096_VIDEO_FORMAT :: "u32 \<Rightarrow> bool" where
  "NTV2_IS_4K_4096_VIDEO_FORMAT x \<longleftrightarrow>
     ((((((((((((((((((((((x = NTV2_FORMAT_4x2048x1080p_2398) \<or> (x = NTV2_FORMAT_4x2048x1080psf_2398)) \<or> (x = NTV2_FORMAT_4x2048x1080p_2400)) \<or> (x = NTV2_FORMAT_4x2048x1080psf_2400)) \<or> (x = NTV2_FORMAT_4x2048x1080p_2500)) \<or> (x = NTV2_FORMAT_4x2048x1080psf_2500)) \<or> (x = NTV2_FORMAT_4x2048x1080p_2997)) \<or> (x = NTV2_FORMAT_4x2048x1080psf_2997)) \<or> (x = NTV2_FORMAT_4x2048x1080p_3000)) \<or> (x = NTV2_FORMAT_4x2048x1080psf_3000)) \<or> (x = NTV2_FORMAT_4x2048x1080p_4795)) \<or> (x = NTV2_FORMAT_4x2048x1080p_4800)) \<or> (x = NTV2_FORMAT_4x2048x1080p_5000)) \<or> (x = NTV2_FORMAT_4x2048x1080p_5994)) \<or> (x = NTV2_FORMAT_4x2048x1080p_6000)) \<or> (x = NTV2_FORMAT_4x2048x1080p_11988)) \<or> (x = NTV2_FORMAT_4x2048x1080p_12000)) \<or> (x = NTV2_FORMAT_4x2048x1080p_4795_B)) \<or> (x = NTV2_FORMAT_4x2048x1080p_4800_B)) \<or> (x = NTV2_FORMAT_4x2048x1080p_5000_B)) \<or> (x = NTV2_FORMAT_4x2048x1080p_5994_B)) \<or> (x = NTV2_FORMAT_4x2048x1080p_6000_B)) \<or> ((x \<ge> NTV2_FORMAT_FIRST_4K_TSI_DEF_FORMAT) \<and> (x < NTV2_FORMAT_END_4K_TSI_DEF_FORMATS))"

definition NTV2_IS_UHD2_FULL_VIDEO_FORMAT :: "u32 \<Rightarrow> bool" where
  "NTV2_IS_UHD2_FULL_VIDEO_FORMAT x \<longleftrightarrow>
     (x \<ge> NTV2_FORMAT_FIRST_UHD2_FULL_DEF_FORMAT) \<and> (x < NTV2_FORMAT_END_UHD2_FULL_DEF_FORMATS)"

definition NTV2_IS_QUAD_FRAME_FORMAT :: "u32 \<Rightarrow> bool" where
  "NTV2_IS_QUAD_FRAME_FORMAT x \<longleftrightarrow>
     ((x \<ge> NTV2_FORMAT_FIRST_4K_DEF_FORMAT) \<and> (x < NTV2_FORMAT_END_4K_DEF_FORMATS)) \<or> ((x \<ge> NTV2_FORMAT_FIRST_UHD_TSI_DEF_FORMAT) \<and> (x < NTV2_FORMAT_END_4K_DEF_FORMATS2))"

definition NTV2_VIDEO_FORMAT_HAS_PROGRESSIVE_PICTURE :: "u32 \<Rightarrow> bool" where
  "NTV2_VIDEO_FORMAT_HAS_PROGRESSIVE_PICTURE x \<longleftrightarrow>
     ((((x \<noteq> NTV2_FORMAT_1080i_5000) \<and> (x \<noteq> NTV2_FORMAT_1080i_5994)) \<and> (x \<noteq> NTV2_FORMAT_1080i_6000)) \<and> (x \<noteq> NTV2_FORMAT_525_5994)) \<and> (x \<noteq> NTV2_FORMAT_625_5000)"

definition NTV2_IS_SD_VIDEO_FORMAT :: "u32 \<Rightarrow> bool" where
  "NTV2_IS_SD_VIDEO_FORMAT x \<longleftrightarrow>
     ((x \<noteq> NTV2_FORMAT_UNKNOWN) \<and> (x \<ge> NTV2_FORMAT_FIRST_STANDARD_DEF_FORMAT)) \<and> (x < NTV2_FORMAT_END_STANDARD_DEF_FORMATS)"

text \<open>A channel is a \<open>nat\<close>, so its lower bound \<open>NTV2_CHANNEL1\<close>, 0, holds by type.\<close>

definition NTV2_IS_VALID_CHANNEL :: "nat \<Rightarrow> bool" where
  "NTV2_IS_VALID_CHANNEL x \<longleftrightarrow> x < NTV2_MAX_NUM_CHANNELS"

end
