(* ===== verification/Ntv2Formats.thy ===== *)
theory Ntv2Formats
  imports Ntv2Enums
begin

text \<open>
  The pure maps of driver/ntv2kona.c: between crosspoints, indices and channels, and between
  video formats, standards, frame rates and geometries.
\<close>

definition IsScanGeometry2Kx1080 :: "u32 \<Rightarrow> u32" where
  "IsScanGeometry2Kx1080 scanGeometry = (if scanGeometry = NTV2_SG_2Kx1080 then 1 else 0)"

definition IsVideoFormat2Kx1080 :: "u32 \<Rightarrow> bool" where
  "IsVideoFormat2Kx1080 videoFormat =
     (if (NTV2_IS_2K_1080_VIDEO_FORMAT videoFormat \<or> NTV2_IS_4K_4096_VIDEO_FORMAT videoFormat) \<or> NTV2_IS_UHD2_FULL_VIDEO_FORMAT videoFormat
      then True
      else False)"

definition GetNTV2CrosspointChannelForIndex :: "u32 \<Rightarrow> nat" where
  "GetNTV2CrosspointChannelForIndex index =
     (if index = 1
      then NTV2CROSSPOINT_CHANNEL2
      else if index = 2
      then NTV2CROSSPOINT_CHANNEL3
      else if index = 3
      then NTV2CROSSPOINT_CHANNEL4
      else if index = 4
      then NTV2CROSSPOINT_CHANNEL5
      else if index = 5
      then NTV2CROSSPOINT_CHANNEL6
      else if index = 6
      then NTV2CROSSPOINT_CHANNEL7
      else if index = 7 then NTV2CROSSPOINT_CHANNEL8 else NTV2CROSSPOINT_CHANNEL1)"

definition GetIndexForNTV2CrosspointChannel :: "nat \<Rightarrow> u32" where
  "GetIndexForNTV2CrosspointChannel channel =
     (if channel = NTV2CROSSPOINT_CHANNEL2
      then 1
      else if channel = NTV2CROSSPOINT_CHANNEL3
      then 2
      else if channel = NTV2CROSSPOINT_CHANNEL4
      then 3
      else if channel = NTV2CROSSPOINT_CHANNEL5
      then 4
      else if channel = NTV2CROSSPOINT_CHANNEL6
      then 5
      else if channel = NTV2CROSSPOINT_CHANNEL7
      then 6
      else if channel = NTV2CROSSPOINT_CHANNEL8 then 7 else 0)"

definition GetNTV2CrosspointInputForIndex :: "u32 \<Rightarrow> nat" where
  "GetNTV2CrosspointInputForIndex index =
     (if index = 1
      then NTV2CROSSPOINT_INPUT2
      else if index = 2
      then NTV2CROSSPOINT_INPUT3
      else if index = 3
      then NTV2CROSSPOINT_INPUT4
      else if index = 4
      then NTV2CROSSPOINT_INPUT5
      else if index = 5
      then NTV2CROSSPOINT_INPUT6
      else if index = 6
      then NTV2CROSSPOINT_INPUT7
      else if index = 7 then NTV2CROSSPOINT_INPUT8 else NTV2CROSSPOINT_INPUT1)"

definition GetIndexForNTV2CrosspointInput :: "nat \<Rightarrow> u32" where
  "GetIndexForNTV2CrosspointInput channel =
     (if channel = NTV2CROSSPOINT_INPUT2
      then 1
      else if channel = NTV2CROSSPOINT_INPUT3
      then 2
      else if channel = NTV2CROSSPOINT_INPUT4
      then 3
      else if channel = NTV2CROSSPOINT_INPUT5
      then 4
      else if channel = NTV2CROSSPOINT_INPUT6
      then 5
      else if channel = NTV2CROSSPOINT_INPUT7
      then 6
      else if channel = NTV2CROSSPOINT_INPUT8 then 7 else 0)"

definition GetNTV2CrosspointForIndex :: "u32 \<Rightarrow> nat" where
  "GetNTV2CrosspointForIndex index =
     (if index = 1
      then NTV2CROSSPOINT_CHANNEL2
      else if index = 2
      then NTV2CROSSPOINT_CHANNEL3
      else if index = 3
      then NTV2CROSSPOINT_CHANNEL4
      else if index = 4
      then NTV2CROSSPOINT_INPUT1
      else if index = 5
      then NTV2CROSSPOINT_INPUT2
      else if index = 6
      then NTV2CROSSPOINT_INPUT3
      else if index = 7
      then NTV2CROSSPOINT_INPUT4
      else if index = 8
      then NTV2CROSSPOINT_CHANNEL5
      else if index = 9
      then NTV2CROSSPOINT_CHANNEL6
      else if index = 10
      then NTV2CROSSPOINT_CHANNEL7
      else if index = 11
      then NTV2CROSSPOINT_CHANNEL8
      else if index = 12
      then NTV2CROSSPOINT_INPUT5
      else if index = 13
      then NTV2CROSSPOINT_INPUT6
      else if index = 14
      then NTV2CROSSPOINT_INPUT7
      else if index = 15 then NTV2CROSSPOINT_INPUT8 else NTV2CROSSPOINT_CHANNEL1)"

definition GetIndexForNTV2Crosspoint :: "nat \<Rightarrow> u32" where
  "GetIndexForNTV2Crosspoint channel =
     (if channel = NTV2CROSSPOINT_CHANNEL2
      then 1
      else if channel = NTV2CROSSPOINT_CHANNEL3
      then 2
      else if channel = NTV2CROSSPOINT_CHANNEL4
      then 3
      else if channel = NTV2CROSSPOINT_INPUT1
      then 4
      else if channel = NTV2CROSSPOINT_INPUT2
      then 5
      else if channel = NTV2CROSSPOINT_INPUT3
      then 6
      else if channel = NTV2CROSSPOINT_INPUT4
      then 7
      else if channel = NTV2CROSSPOINT_CHANNEL5
      then 8
      else if channel = NTV2CROSSPOINT_CHANNEL6
      then 9
      else if channel = NTV2CROSSPOINT_CHANNEL7
      then 10
      else if channel = NTV2CROSSPOINT_CHANNEL8
      then 11
      else if channel = NTV2CROSSPOINT_INPUT5
      then 12
      else if channel = NTV2CROSSPOINT_INPUT6
      then 13
      else if channel = NTV2CROSSPOINT_INPUT7
      then 14
      else if channel = NTV2CROSSPOINT_INPUT8 then 15 else 0)"

definition GetNTV2ChannelForNTV2Crosspoint :: "nat \<Rightarrow> nat" where
  "GetNTV2ChannelForNTV2Crosspoint crosspoint =
     (if crosspoint \<in> {NTV2CROSSPOINT_CHANNEL2, NTV2CROSSPOINT_INPUT2}
      then NTV2_CHANNEL2
      else if crosspoint \<in> {NTV2CROSSPOINT_CHANNEL3, NTV2CROSSPOINT_INPUT3}
      then NTV2_CHANNEL3
      else if crosspoint \<in> {NTV2CROSSPOINT_CHANNEL4, NTV2CROSSPOINT_INPUT4}
      then NTV2_CHANNEL4
      else if crosspoint \<in> {NTV2CROSSPOINT_CHANNEL5, NTV2CROSSPOINT_INPUT5}
      then NTV2_CHANNEL5
      else if crosspoint \<in> {NTV2CROSSPOINT_CHANNEL6, NTV2CROSSPOINT_INPUT6}
      then NTV2_CHANNEL6
      else if crosspoint \<in> {NTV2CROSSPOINT_CHANNEL7, NTV2CROSSPOINT_INPUT7}
      then NTV2_CHANNEL7
      else if crosspoint \<in> {NTV2CROSSPOINT_CHANNEL8, NTV2CROSSPOINT_INPUT8}
      then NTV2_CHANNEL8
      else NTV2_CHANNEL1)"

definition GetVideoFormatFromState :: "u32 \<Rightarrow> u32 \<Rightarrow> u32 \<Rightarrow> u32 \<Rightarrow> u32" where
  "GetVideoFormatFromState standard frameRate is2Kx1080 smpte372Enabled =
     (let format = NTV2_FORMAT_UNKNOWN
      in if standard = NTV2_STANDARD_1080
         then (if frameRate = NTV2_FRAMERATE_3000
               then (if smpte372Enabled \<noteq> 0 then NTV2_FORMAT_1080p_6000_B else NTV2_FORMAT_1080i_6000)
               else if frameRate = NTV2_FRAMERATE_2997
               then (if smpte372Enabled \<noteq> 0 then NTV2_FORMAT_1080p_5994_B else NTV2_FORMAT_1080i_5994)
               else if frameRate = NTV2_FRAMERATE_2500
               then (if smpte372Enabled \<noteq> 0
                     then NTV2_FORMAT_1080p_5000_B
                     else if is2Kx1080 \<noteq> 0 then NTV2_FORMAT_1080psf_2K_2500 else NTV2_FORMAT_1080i_5000)
               else if frameRate = NTV2_FRAMERATE_2400
               then (if is2Kx1080 \<noteq> 0 then NTV2_FORMAT_1080psf_2K_2400 else NTV2_FORMAT_1080psf_2400)
               else if frameRate = NTV2_FRAMERATE_2398
               then (if is2Kx1080 \<noteq> 0 then NTV2_FORMAT_1080psf_2K_2398 else NTV2_FORMAT_1080psf_2398)
               else format)
         else if standard = NTV2_STANDARD_1080p
         then (if frameRate = NTV2_FRAMERATE_3000
               then (if is2Kx1080 \<noteq> 0 then NTV2_FORMAT_1080p_2K_3000 else NTV2_FORMAT_1080p_3000)
               else if frameRate = NTV2_FRAMERATE_2997
               then (if is2Kx1080 \<noteq> 0 then NTV2_FORMAT_1080p_2K_2997 else NTV2_FORMAT_1080p_2997)
               else if frameRate = NTV2_FRAMERATE_2500
               then (if is2Kx1080 \<noteq> 0 then NTV2_FORMAT_1080p_2K_2500 else NTV2_FORMAT_1080p_2500)
               else if frameRate = NTV2_FRAMERATE_2400
               then (if is2Kx1080 \<noteq> 0 then NTV2_FORMAT_1080p_2K_2400 else NTV2_FORMAT_1080p_2400)
               else if frameRate = NTV2_FRAMERATE_2398
               then (if is2Kx1080 \<noteq> 0 then NTV2_FORMAT_1080p_2K_2398 else NTV2_FORMAT_1080p_2398)
               else if frameRate = NTV2_FRAMERATE_4795
               then (if is2Kx1080 \<noteq> 0 then NTV2_FORMAT_1080p_2K_4795_A else NTV2_FORMAT_UNKNOWN)
               else if frameRate = NTV2_FRAMERATE_4800
               then (if is2Kx1080 \<noteq> 0 then NTV2_FORMAT_1080p_2K_4800_A else NTV2_FORMAT_UNKNOWN)
               else if frameRate = NTV2_FRAMERATE_5000
               then (if is2Kx1080 \<noteq> 0 then NTV2_FORMAT_1080p_2K_5000_A else NTV2_FORMAT_1080p_5000_A)
               else if frameRate = NTV2_FRAMERATE_5994
               then (if is2Kx1080 \<noteq> 0 then NTV2_FORMAT_1080p_2K_5994_A else NTV2_FORMAT_1080p_5994_A)
               else if frameRate = NTV2_FRAMERATE_6000
               then (if is2Kx1080 \<noteq> 0 then NTV2_FORMAT_1080p_2K_6000_A else NTV2_FORMAT_1080p_6000_A)
               else format)
         else if standard = NTV2_STANDARD_720
         then (if frameRate = NTV2_FRAMERATE_6000
               then NTV2_FORMAT_720p_6000
               else if frameRate = NTV2_FRAMERATE_5994
               then NTV2_FORMAT_720p_5994
               else if frameRate = NTV2_FRAMERATE_5000
               then NTV2_FORMAT_720p_5000
               else if frameRate = NTV2_FRAMERATE_2398 then NTV2_FORMAT_720p_2398 else format)
         else if standard = NTV2_STANDARD_525
         then (if frameRate = NTV2_FRAMERATE_2997
               then NTV2_FORMAT_525_5994
               else if frameRate = NTV2_FRAMERATE_2400
               then NTV2_FORMAT_525_2400
               else if frameRate = NTV2_FRAMERATE_2398 then NTV2_FORMAT_525_2398 else format)
         else if standard = NTV2_STANDARD_625
         then NTV2_FORMAT_625_5000
         else if standard = NTV2_STANDARD_2K
         then (if frameRate = NTV2_FRAMERATE_1498
               then NTV2_FORMAT_2K_1498
               else if frameRate = NTV2_FRAMERATE_1500
               then NTV2_FORMAT_2K_1500
               else if frameRate = NTV2_FRAMERATE_2398
               then NTV2_FORMAT_2K_2398
               else if frameRate = NTV2_FRAMERATE_2400 then NTV2_FORMAT_2K_2400 else format)
         else format)"

definition GetNTV2StandardFromVideoFormat :: "u32 \<Rightarrow> u32" where
  "GetNTV2StandardFromVideoFormat videoFormat =
     (let standard = NTV2_STANDARD_525
      in if videoFormat \<in> {NTV2_FORMAT_1080i_5000, NTV2_FORMAT_1080i_5994, NTV2_FORMAT_1080i_6000, NTV2_FORMAT_1080psf_2398, NTV2_FORMAT_1080psf_2400, NTV2_FORMAT_1080psf_2K_2398, NTV2_FORMAT_1080psf_2K_2400, NTV2_FORMAT_1080psf_2K_2500, NTV2_FORMAT_1080psf_2500_2, NTV2_FORMAT_1080psf_2997_2, NTV2_FORMAT_1080psf_3000_2, NTV2_FORMAT_1080p_5000_B, NTV2_FORMAT_1080p_5994_B, NTV2_FORMAT_1080p_6000_B, NTV2_FORMAT_1080p_2K_5000_B, NTV2_FORMAT_1080p_2K_5994_B, NTV2_FORMAT_1080p_2K_6000_B, NTV2_FORMAT_4x1920x1080psf_2398, NTV2_FORMAT_4x1920x1080psf_2400, NTV2_FORMAT_4x1920x1080psf_2500, NTV2_FORMAT_4x1920x1080psf_2997, NTV2_FORMAT_4x1920x1080psf_3000, NTV2_FORMAT_4x2048x1080psf_2398, NTV2_FORMAT_4x2048x1080psf_2400, NTV2_FORMAT_4x2048x1080psf_2500, NTV2_FORMAT_4x2048x1080psf_2997, NTV2_FORMAT_4x2048x1080psf_3000}
         then NTV2_STANDARD_1080
         else if videoFormat \<in> {NTV2_FORMAT_1080p_2500, NTV2_FORMAT_1080p_2997, NTV2_FORMAT_1080p_3000, NTV2_FORMAT_1080p_2398, NTV2_FORMAT_1080p_2400, NTV2_FORMAT_1080p_2K_2398, NTV2_FORMAT_1080p_2K_2400, NTV2_FORMAT_1080p_2K_2500, NTV2_FORMAT_1080p_2K_2997, NTV2_FORMAT_1080p_2K_3000, NTV2_FORMAT_1080p_2K_4795_A, NTV2_FORMAT_1080p_2K_4800_A, NTV2_FORMAT_1080p_2K_5000_A, NTV2_FORMAT_1080p_2K_5994_A, NTV2_FORMAT_1080p_2K_6000_A, NTV2_FORMAT_1080p_5000_A, NTV2_FORMAT_1080p_5994_A, NTV2_FORMAT_1080p_6000_A, NTV2_FORMAT_4x1920x1080p_2398, NTV2_FORMAT_4x1920x1080p_2400, NTV2_FORMAT_4x1920x1080p_2500, NTV2_FORMAT_4x1920x1080p_2997, NTV2_FORMAT_4x1920x1080p_3000, NTV2_FORMAT_4x2048x1080p_2398, NTV2_FORMAT_4x2048x1080p_2400, NTV2_FORMAT_4x2048x1080p_2500, NTV2_FORMAT_4x2048x1080p_2997, NTV2_FORMAT_4x2048x1080p_3000, NTV2_FORMAT_4x2048x1080p_4795, NTV2_FORMAT_4x2048x1080p_4800, NTV2_FORMAT_4x1920x1080p_5000, NTV2_FORMAT_4x1920x1080p_5994, NTV2_FORMAT_4x1920x1080p_6000, NTV2_FORMAT_4x2048x1080p_5000, NTV2_FORMAT_4x2048x1080p_5994, NTV2_FORMAT_4x2048x1080p_6000, NTV2_FORMAT_4x2048x1080p_11988, NTV2_FORMAT_4x2048x1080p_12000}
         then NTV2_STANDARD_1080p
         else if videoFormat \<in> {NTV2_FORMAT_720p_2398, NTV2_FORMAT_720p_2500, NTV2_FORMAT_720p_5000, NTV2_FORMAT_720p_5994, NTV2_FORMAT_720p_6000}
         then NTV2_STANDARD_720
         else if videoFormat \<in> {NTV2_FORMAT_525_2398, NTV2_FORMAT_525_2400, NTV2_FORMAT_525_5994, NTV2_FORMAT_525psf_2997}
         then NTV2_STANDARD_525
         else if videoFormat \<in> {NTV2_FORMAT_625_5000, NTV2_FORMAT_625psf_2500}
         then NTV2_STANDARD_625
         else if videoFormat \<in> {NTV2_FORMAT_2K_2500, NTV2_FORMAT_2K_2400, NTV2_FORMAT_2K_2398, NTV2_FORMAT_2K_1498, NTV2_FORMAT_2K_1500}
         then NTV2_STANDARD_2K
         else standard)"

definition GetNTV2FrameGeometryFromVideoFormat :: "u32 \<Rightarrow> u32" where
  "GetNTV2FrameGeometryFromVideoFormat videoFormat =
     (let geometry = NTV2_FG_INVALID
      in if videoFormat \<in> {NTV2_FORMAT_525_2398, NTV2_FORMAT_525_2400, NTV2_FORMAT_525_5994, NTV2_FORMAT_525psf_2997}
         then NTV2_FG_720x486
         else if videoFormat \<in> {NTV2_FORMAT_625_5000, NTV2_FORMAT_625psf_2500}
         then NTV2_FG_720x576
         else if videoFormat \<in> {NTV2_FORMAT_720p_2398, NTV2_FORMAT_720p_2500, NTV2_FORMAT_720p_5000, NTV2_FORMAT_720p_5994, NTV2_FORMAT_720p_6000}
         then NTV2_FG_1280x720
         else if videoFormat \<in> {NTV2_FORMAT_1080i_5000, NTV2_FORMAT_1080i_5994, NTV2_FORMAT_1080i_6000, NTV2_FORMAT_1080psf_2398, NTV2_FORMAT_1080psf_2400, NTV2_FORMAT_1080psf_2500_2, NTV2_FORMAT_1080psf_2997_2, NTV2_FORMAT_1080psf_3000_2, NTV2_FORMAT_1080p_2398, NTV2_FORMAT_1080p_2400, NTV2_FORMAT_1080p_2500, NTV2_FORMAT_1080p_2997, NTV2_FORMAT_1080p_3000, NTV2_FORMAT_1080p_5000_A, NTV2_FORMAT_1080p_5994_A, NTV2_FORMAT_1080p_6000_A, NTV2_FORMAT_1080p_5000_B, NTV2_FORMAT_1080p_5994_B, NTV2_FORMAT_1080p_6000_B, NTV2_FORMAT_4x1920x1080psf_2398, NTV2_FORMAT_4x1920x1080psf_2400, NTV2_FORMAT_4x1920x1080psf_2500, NTV2_FORMAT_4x1920x1080psf_2997, NTV2_FORMAT_4x1920x1080psf_3000, NTV2_FORMAT_4x2048x1080psf_2398, NTV2_FORMAT_4x2048x1080psf_2400, NTV2_FORMAT_4x2048x1080psf_2500, NTV2_FORMAT_4x2048x1080psf_2997, NTV2_FORMAT_4x2048x1080psf_3000, NTV2_FORMAT_4x1920x1080p_2398, NTV2_FORMAT_4x1920x1080p_2400, NTV2_FORMAT_4x1920x1080p_2500, NTV2_FORMAT_4x1920x1080p_2997, NTV2_FORMAT_4x1920x1080p_3000, NTV2_FORMAT_4x1920x1080p_5000, NTV2_FORMAT_4x1920x1080p_5994, NTV2_FORMAT_4x1920x1080p_6000}
         then NTV2_FG_1920x1080
         else if videoFormat \<in> {NTV2_FORMAT_1080psf_2K_2398, NTV2_FORMAT_1080psf_2K_2400, NTV2_FORMAT_1080psf_2K_2500, NTV2_FORMAT_1080p_2K_2398, NTV2_FORMAT_1080p_2K_2400, NTV2_FORMAT_1080p_2K_2500, NTV2_FORMAT_1080p_2K_2997, NTV2_FORMAT_1080p_2K_3000, NTV2_FORMAT_1080p_2K_4795_A, NTV2_FORMAT_1080p_2K_4800_A, NTV2_FORMAT_1080p_2K_5000_A, NTV2_FORMAT_1080p_2K_5994_A, NTV2_FORMAT_1080p_2K_6000_A, NTV2_FORMAT_1080p_2K_5000_B, NTV2_FORMAT_1080p_2K_5994_B, NTV2_FORMAT_1080p_2K_6000_B, NTV2_FORMAT_4x2048x1080p_2398, NTV2_FORMAT_4x2048x1080p_2400, NTV2_FORMAT_4x2048x1080p_2500, NTV2_FORMAT_4x2048x1080p_2997, NTV2_FORMAT_4x2048x1080p_3000, NTV2_FORMAT_4x2048x1080p_4795, NTV2_FORMAT_4x2048x1080p_4800, NTV2_FORMAT_4x2048x1080p_5000, NTV2_FORMAT_4x2048x1080p_5994, NTV2_FORMAT_4x2048x1080p_6000, NTV2_FORMAT_4x2048x1080p_11988, NTV2_FORMAT_4x2048x1080p_12000}
         then NTV2_FG_2048x1080
         else if videoFormat \<in> {NTV2_FORMAT_2K_2500, NTV2_FORMAT_2K_2400, NTV2_FORMAT_2K_2398, NTV2_FORMAT_2K_1498, NTV2_FORMAT_2K_1500}
         then NTV2_FG_2048x1556
         else geometry)"

definition GetNTV2FrameRateFromVideoFormat :: "u32 \<Rightarrow> u32" where
  "GetNTV2FrameRateFromVideoFormat videoFormat =
     (let frameRate = NTV2_FRAMERATE_UNKNOWN
      in if videoFormat = NTV2_FORMAT_2K_1498
         then NTV2_FRAMERATE_1498
         else if videoFormat = NTV2_FORMAT_2K_1500
         then NTV2_FRAMERATE_1500
         else if videoFormat \<in> {NTV2_FORMAT_525_2398, NTV2_FORMAT_720p_2398, NTV2_FORMAT_1080psf_2K_2398, NTV2_FORMAT_1080psf_2398, NTV2_FORMAT_1080p_2398, NTV2_FORMAT_1080p_2K_2398, NTV2_FORMAT_2K_2398, NTV2_FORMAT_4x1920x1080psf_2398, NTV2_FORMAT_4x1920x1080p_2398, NTV2_FORMAT_4x2048x1080psf_2398, NTV2_FORMAT_4x2048x1080p_2398, NTV2_FORMAT_4x2048x1080p_4795_B, NTV2_FORMAT_3840x2160p_2398, NTV2_FORMAT_3840x2160psf_2398, NTV2_FORMAT_4096x2160p_2398, NTV2_FORMAT_4096x2160psf_2398, NTV2_FORMAT_4096x2160p_4795_B, NTV2_FORMAT_4x3840x2160p_2398, NTV2_FORMAT_4x4096x2160p_2398, NTV2_FORMAT_4x4096x2160p_4795_B}
         then NTV2_FRAMERATE_2398
         else if videoFormat \<in> {NTV2_FORMAT_525_2400, NTV2_FORMAT_1080psf_2400, NTV2_FORMAT_1080psf_2K_2400, NTV2_FORMAT_1080p_2400, NTV2_FORMAT_1080p_2K_2400, NTV2_FORMAT_2K_2400, NTV2_FORMAT_4x1920x1080psf_2400, NTV2_FORMAT_4x1920x1080p_2400, NTV2_FORMAT_4x2048x1080psf_2400, NTV2_FORMAT_4x2048x1080p_2400, NTV2_FORMAT_4x2048x1080p_4800_B, NTV2_FORMAT_3840x2160p_2400, NTV2_FORMAT_3840x2160psf_2400, NTV2_FORMAT_4096x2160p_2400, NTV2_FORMAT_4096x2160psf_2400, NTV2_FORMAT_4096x2160p_4800_B, NTV2_FORMAT_4x3840x2160p_2400, NTV2_FORMAT_4x4096x2160p_2400, NTV2_FORMAT_4x4096x2160p_4800_B}
         then NTV2_FRAMERATE_2400
         else if videoFormat \<in> {NTV2_FORMAT_625_5000, NTV2_FORMAT_625psf_2500, NTV2_FORMAT_720p_2500, NTV2_FORMAT_1080i_5000, NTV2_FORMAT_1080psf_2500_2, NTV2_FORMAT_1080p_2500, NTV2_FORMAT_1080psf_2K_2500, NTV2_FORMAT_1080p_2K_2500, NTV2_FORMAT_2K_2500, NTV2_FORMAT_4x1920x1080psf_2500, NTV2_FORMAT_4x1920x1080p_2500, NTV2_FORMAT_4x1920x1080p_5000_B, NTV2_FORMAT_4x2048x1080psf_2500, NTV2_FORMAT_4x2048x1080p_2500, NTV2_FORMAT_4x2048x1080p_5000_B, NTV2_FORMAT_3840x2160psf_2500, NTV2_FORMAT_3840x2160p_2500, NTV2_FORMAT_3840x2160p_5000_B, NTV2_FORMAT_4096x2160psf_2500, NTV2_FORMAT_4096x2160p_2500, NTV2_FORMAT_4096x2160p_5000_B, NTV2_FORMAT_4x3840x2160p_2500, NTV2_FORMAT_4x3840x2160p_5000_B, NTV2_FORMAT_4x4096x2160p_2500, NTV2_FORMAT_4x4096x2160p_5000_B}
         then NTV2_FRAMERATE_2500
         else if videoFormat \<in> {NTV2_FORMAT_525_5994, NTV2_FORMAT_525psf_2997, NTV2_FORMAT_1080i_5994, NTV2_FORMAT_1080psf_2997_2, NTV2_FORMAT_1080p_2997, NTV2_FORMAT_1080p_2K_2997, NTV2_FORMAT_4x1920x1080p_2997, NTV2_FORMAT_4x1920x1080psf_2997, NTV2_FORMAT_4x1920x1080p_5994_B, NTV2_FORMAT_4x2048x1080p_2997, NTV2_FORMAT_4x2048x1080psf_2997, NTV2_FORMAT_4x2048x1080p_5994_B, NTV2_FORMAT_3840x2160p_2997, NTV2_FORMAT_3840x2160psf_2997, NTV2_FORMAT_3840x2160p_5994_B, NTV2_FORMAT_4096x2160p_2997, NTV2_FORMAT_4096x2160psf_2997, NTV2_FORMAT_4096x2160p_5994_B, NTV2_FORMAT_4x3840x2160p_2997, NTV2_FORMAT_4x3840x2160p_5994_B, NTV2_FORMAT_4x4096x2160p_2997, NTV2_FORMAT_4x4096x2160p_5994_B}
         then NTV2_FRAMERATE_2997
         else if videoFormat \<in> {NTV2_FORMAT_1080i_6000, NTV2_FORMAT_1080p_3000, NTV2_FORMAT_1080psf_3000_2, NTV2_FORMAT_1080p_2K_3000, NTV2_FORMAT_4x1920x1080p_3000, NTV2_FORMAT_4x1920x1080psf_3000, NTV2_FORMAT_4x1920x1080p_6000_B, NTV2_FORMAT_4x2048x1080p_3000, NTV2_FORMAT_4x2048x1080psf_3000, NTV2_FORMAT_4x2048x1080p_6000_B, NTV2_FORMAT_3840x2160p_3000, NTV2_FORMAT_3840x2160psf_3000, NTV2_FORMAT_3840x2160p_6000_B, NTV2_FORMAT_4096x2160p_3000, NTV2_FORMAT_4096x2160psf_3000, NTV2_FORMAT_4096x2160p_6000_B, NTV2_FORMAT_4x3840x2160p_3000, NTV2_FORMAT_4x3840x2160p_6000_B, NTV2_FORMAT_4x4096x2160p_3000, NTV2_FORMAT_4x4096x2160p_6000_B}
         then NTV2_FRAMERATE_3000
         else if videoFormat \<in> {NTV2_FORMAT_1080p_2K_4795_A, NTV2_FORMAT_4x2048x1080p_4795, NTV2_FORMAT_4096x2160p_4795, NTV2_FORMAT_4x4096x2160p_4795, NTV2_FORMAT_1080p_2K_4795_B}
         then NTV2_FRAMERATE_4795
         else if videoFormat \<in> {NTV2_FORMAT_1080p_2K_4800_A, NTV2_FORMAT_4x2048x1080p_4800, NTV2_FORMAT_4096x2160p_4800, NTV2_FORMAT_4x4096x2160p_4800, NTV2_FORMAT_1080p_2K_4800_B}
         then NTV2_FRAMERATE_4800
         else if videoFormat \<in> {NTV2_FORMAT_720p_5000, NTV2_FORMAT_1080p_5000_A, NTV2_FORMAT_1080p_2K_5000_A, NTV2_FORMAT_4x1920x1080p_5000, NTV2_FORMAT_4x2048x1080p_5000, NTV2_FORMAT_3840x2160p_5000, NTV2_FORMAT_4096x2160p_5000, NTV2_FORMAT_4x3840x2160p_5000, NTV2_FORMAT_4x4096x2160p_5000, NTV2_FORMAT_1080p_5000_B, NTV2_FORMAT_1080p_2K_5000_B}
         then NTV2_FRAMERATE_5000
         else if videoFormat \<in> {NTV2_FORMAT_720p_5994, NTV2_FORMAT_1080p_5994_A, NTV2_FORMAT_1080p_2K_5994_A, NTV2_FORMAT_4x1920x1080p_5994, NTV2_FORMAT_4x2048x1080p_5994, NTV2_FORMAT_3840x2160p_5994, NTV2_FORMAT_4096x2160p_5994, NTV2_FORMAT_4x3840x2160p_5994, NTV2_FORMAT_4x4096x2160p_5994, NTV2_FORMAT_1080p_5994_B, NTV2_FORMAT_1080p_2K_5994_B}
         then NTV2_FRAMERATE_5994
         else if videoFormat \<in> {NTV2_FORMAT_720p_6000, NTV2_FORMAT_1080p_6000_A, NTV2_FORMAT_1080p_2K_6000_A, NTV2_FORMAT_4x1920x1080p_6000, NTV2_FORMAT_4x2048x1080p_6000, NTV2_FORMAT_3840x2160p_6000, NTV2_FORMAT_4096x2160p_6000, NTV2_FORMAT_4x3840x2160p_6000, NTV2_FORMAT_4x4096x2160p_6000, NTV2_FORMAT_1080p_6000_B, NTV2_FORMAT_1080p_2K_6000_B}
         then NTV2_FRAMERATE_6000
         else if videoFormat \<in> {NTV2_FORMAT_4x2048x1080p_11988, NTV2_FORMAT_4096x2160p_11988}
         then NTV2_FRAMERATE_11988
         else if videoFormat \<in> {NTV2_FORMAT_4x2048x1080p_12000, NTV2_FORMAT_4096x2160p_12000}
         then NTV2_FRAMERATE_12000
         else frameRate)"

definition GetOutXptChannel :: "u32 \<Rightarrow> bool \<Rightarrow> nat" where
  "GetOutXptChannel inXpt multiFormatActive =
     (if inXpt \<in> {NTV2_XptSDIIn1, NTV2_XptSDIIn1DS2, NTV2_XptDuallinkIn1}
      then NTV2_CHANNEL1
      else if inXpt \<in> {NTV2_XptSDIIn2, NTV2_XptSDIIn2DS2, NTV2_XptDuallinkIn2}
      then NTV2_CHANNEL2
      else if inXpt \<in> {NTV2_XptSDIIn3, NTV2_XptSDIIn3DS2, NTV2_XptDuallinkIn3}
      then NTV2_CHANNEL3
      else if inXpt \<in> {NTV2_XptSDIIn4, NTV2_XptSDIIn4DS2, NTV2_XptDuallinkIn4}
      then NTV2_CHANNEL4
      else if inXpt \<in> {NTV2_XptSDIIn5, NTV2_XptSDIIn5DS2, NTV2_XptDuallinkIn5}
      then NTV2_CHANNEL5
      else if inXpt \<in> {NTV2_XptSDIIn6, NTV2_XptSDIIn6DS2, NTV2_XptDuallinkIn6}
      then NTV2_CHANNEL6
      else if inXpt \<in> {NTV2_XptSDIIn7, NTV2_XptSDIIn7DS2, NTV2_XptDuallinkIn7}
      then NTV2_CHANNEL7
      else if inXpt \<in> {NTV2_XptSDIIn8, NTV2_XptSDIIn8DS2, NTV2_XptDuallinkIn8}
      then NTV2_CHANNEL8
      else if inXpt \<in> {NTV2_XptFrameBuffer1YUV, NTV2_XptFrameBuffer1RGB, NTV2_XptFrameBuffer1_DS2YUV, NTV2_XptFrameBuffer1_DS2RGB}
      then NTV2_CHANNEL1
      else if inXpt \<in> {NTV2_XptFrameBuffer2YUV, NTV2_XptFrameBuffer2RGB, NTV2_XptFrameBuffer2_DS2YUV, NTV2_XptFrameBuffer2_DS2RGB}
      then if multiFormatActive then NTV2_CHANNEL2 else NTV2_CHANNEL1
      else if inXpt \<in> {NTV2_XptFrameBuffer3YUV, NTV2_XptFrameBuffer3RGB, NTV2_XptFrameBuffer3_DS2YUV, NTV2_XptFrameBuffer3_DS2RGB}
      then if multiFormatActive then NTV2_CHANNEL3 else NTV2_CHANNEL1
      else if inXpt \<in> {NTV2_XptFrameBuffer4YUV, NTV2_XptFrameBuffer4RGB, NTV2_XptFrameBuffer4_DS2YUV, NTV2_XptFrameBuffer4_DS2RGB}
      then if multiFormatActive then NTV2_CHANNEL4 else NTV2_CHANNEL1
      else if inXpt \<in> {NTV2_XptFrameBuffer5YUV, NTV2_XptFrameBuffer5RGB}
      then if multiFormatActive then NTV2_CHANNEL5 else NTV2_CHANNEL1
      else if inXpt \<in> {NTV2_XptFrameBuffer6YUV, NTV2_XptFrameBuffer6RGB, NTV2_XptFrameBuffer6_DS2YUV, NTV2_XptFrameBuffer6_DS2RGB}
      then if multiFormatActive then NTV2_CHANNEL6 else NTV2_CHANNEL1
      else if inXpt \<in> {NTV2_XptFrameBuffer7YUV, NTV2_XptFrameBuffer7RGB, NTV2_XptFrameBuffer7_DS2YUV, NTV2_XptFrameBuffer7_DS2RGB}
      then if multiFormatActive then NTV2_CHANNEL7 else NTV2_CHANNEL1
      else if inXpt \<in> {NTV2_XptFrameBuffer8YUV, NTV2_XptFrameBuffer8RGB, NTV2_XptFrameBuffer8_DS2YUV, NTV2_XptFrameBuffer8_DS2RGB}
      then if multiFormatActive then NTV2_CHANNEL8 else NTV2_CHANNEL1
      else NTV2_CHANNEL1)"

definition GetStandardFromScanGeometry :: "u32 \<Rightarrow> u32 \<Rightarrow> u32" where
  "GetStandardFromScanGeometry scanGeometry progressive =
     (let standard = NTV2_NUM_STANDARDS
      in if scanGeometry = NTV2_SG_525
         then NTV2_STANDARD_525
         else if scanGeometry = NTV2_SG_625
         then NTV2_STANDARD_625
         else if scanGeometry = NTV2_SG_750
         then NTV2_STANDARD_720
         else if scanGeometry \<in> {NTV2_SG_1125, NTV2_SG_2Kx1080}
         then (if progressive \<noteq> 0 then NTV2_STANDARD_1080p else NTV2_STANDARD_1080)
         else if scanGeometry = NTV2_SG_2Kx1556 then NTV2_STANDARD_2K else standard)"

definition GetQuadSizedVideoFormat :: "u32 \<Rightarrow> u32" where
  "GetQuadSizedVideoFormat videoFormat =
     (if videoFormat = NTV2_FORMAT_1080p_2398
      then NTV2_FORMAT_4x1920x1080p_2398
      else if videoFormat = NTV2_FORMAT_1080p_2400
      then NTV2_FORMAT_4x1920x1080p_2400
      else if videoFormat = NTV2_FORMAT_1080p_2500
      then NTV2_FORMAT_4x1920x1080p_2500
      else if videoFormat = NTV2_FORMAT_1080p_2997
      then NTV2_FORMAT_4x1920x1080p_2997
      else if videoFormat = NTV2_FORMAT_1080p_3000
      then NTV2_FORMAT_4x1920x1080p_3000
      else if videoFormat = NTV2_FORMAT_1080p_5000_A
      then NTV2_FORMAT_4x1920x1080p_5000
      else if videoFormat = NTV2_FORMAT_1080p_5994_A
      then NTV2_FORMAT_4x1920x1080p_5994
      else if videoFormat = NTV2_FORMAT_1080p_6000_A
      then NTV2_FORMAT_4x1920x1080p_6000
      else if videoFormat = NTV2_FORMAT_1080p_5000_B
      then NTV2_FORMAT_4x1920x1080p_5000
      else if videoFormat = NTV2_FORMAT_1080p_5994_B
      then NTV2_FORMAT_4x1920x1080p_5994
      else if videoFormat = NTV2_FORMAT_1080p_6000_B
      then NTV2_FORMAT_4x1920x1080p_6000
      else if videoFormat = NTV2_FORMAT_1080p_2K_2398
      then NTV2_FORMAT_4x2048x1080p_2398
      else if videoFormat = NTV2_FORMAT_1080p_2K_2400
      then NTV2_FORMAT_4x2048x1080p_2400
      else if videoFormat = NTV2_FORMAT_1080p_2K_2500
      then NTV2_FORMAT_4x2048x1080p_2500
      else if videoFormat = NTV2_FORMAT_1080p_2K_2997
      then NTV2_FORMAT_4x2048x1080p_2997
      else if videoFormat = NTV2_FORMAT_1080p_2K_3000
      then NTV2_FORMAT_4x2048x1080p_3000
      else if videoFormat = NTV2_FORMAT_1080p_2K_4795_A
      then NTV2_FORMAT_4x2048x1080p_4795
      else if videoFormat = NTV2_FORMAT_1080p_2K_4800_A
      then NTV2_FORMAT_4x2048x1080p_4800
      else if videoFormat = NTV2_FORMAT_1080p_2K_5000_A
      then NTV2_FORMAT_4x2048x1080p_5000
      else if videoFormat = NTV2_FORMAT_1080p_2K_5994_A
      then NTV2_FORMAT_4x2048x1080p_5994
      else if videoFormat = NTV2_FORMAT_1080p_2K_6000_A
      then NTV2_FORMAT_4x2048x1080p_6000
      else if videoFormat = NTV2_FORMAT_1080p_2K_4795_B
      then NTV2_FORMAT_4x2048x1080p_4795
      else if videoFormat = NTV2_FORMAT_1080p_2K_4800_B
      then NTV2_FORMAT_4x2048x1080p_4800
      else if videoFormat = NTV2_FORMAT_1080p_2K_5000_B
      then NTV2_FORMAT_4x2048x1080p_5000
      else if videoFormat = NTV2_FORMAT_1080p_2K_5994_B
      then NTV2_FORMAT_4x2048x1080p_5994
      else if videoFormat = NTV2_FORMAT_1080p_2K_6000_B
      then NTV2_FORMAT_4x2048x1080p_6000
      else if videoFormat = NTV2_FORMAT_1080psf_2398
      then NTV2_FORMAT_4x1920x1080psf_2398
      else if videoFormat = NTV2_FORMAT_1080psf_2400
      then NTV2_FORMAT_4x1920x1080psf_2400
      else if videoFormat = NTV2_FORMAT_1080i_5000
      then NTV2_FORMAT_4x1920x1080psf_2500
      else if videoFormat = NTV2_FORMAT_1080i_5994
      then NTV2_FORMAT_4x1920x1080psf_2997
      else if videoFormat = NTV2_FORMAT_1080i_6000
      then NTV2_FORMAT_4x1920x1080psf_3000
      else if videoFormat = NTV2_FORMAT_1080psf_2K_2398
      then NTV2_FORMAT_4x2048x1080psf_2398
      else if videoFormat = NTV2_FORMAT_1080psf_2K_2400
      then NTV2_FORMAT_4x2048x1080psf_2400
      else if videoFormat = NTV2_FORMAT_1080psf_2K_2500
      then NTV2_FORMAT_4x2048x1080psf_2500
      else videoFormat)"

definition Get12GVideoFormat :: "u32 \<Rightarrow> u32" where
  "Get12GVideoFormat videoFormat =
     (if videoFormat = NTV2_FORMAT_4x1920x1080p_2398
      then NTV2_FORMAT_3840x2160p_2398
      else if videoFormat = NTV2_FORMAT_4x1920x1080p_2400
      then NTV2_FORMAT_3840x2160p_2400
      else if videoFormat = NTV2_FORMAT_4x1920x1080p_2500
      then NTV2_FORMAT_3840x2160p_2500
      else if videoFormat = NTV2_FORMAT_4x1920x1080p_2997
      then NTV2_FORMAT_3840x2160p_2997
      else if videoFormat = NTV2_FORMAT_4x1920x1080p_3000
      then NTV2_FORMAT_3840x2160p_3000
      else if videoFormat = NTV2_FORMAT_4x1920x1080p_5000
      then NTV2_FORMAT_3840x2160p_5000
      else if videoFormat = NTV2_FORMAT_4x1920x1080p_5994
      then NTV2_FORMAT_3840x2160p_5994
      else if videoFormat = NTV2_FORMAT_4x1920x1080p_6000
      then NTV2_FORMAT_3840x2160p_6000
      else if videoFormat = NTV2_FORMAT_4x2048x1080p_2398
      then NTV2_FORMAT_4096x2160p_2398
      else if videoFormat = NTV2_FORMAT_4x2048x1080p_2400
      then NTV2_FORMAT_4096x2160p_2400
      else if videoFormat = NTV2_FORMAT_4x2048x1080p_2500
      then NTV2_FORMAT_4096x2160p_2500
      else if videoFormat = NTV2_FORMAT_4x2048x1080p_2997
      then NTV2_FORMAT_4096x2160p_2997
      else if videoFormat = NTV2_FORMAT_4x2048x1080p_3000
      then NTV2_FORMAT_4096x2160p_3000
      else if videoFormat = NTV2_FORMAT_4x2048x1080p_4795
      then NTV2_FORMAT_4096x2160p_4795
      else if videoFormat = NTV2_FORMAT_4x2048x1080p_4800
      then NTV2_FORMAT_4096x2160p_4800
      else if videoFormat = NTV2_FORMAT_4x2048x1080p_5000
      then NTV2_FORMAT_4096x2160p_5000
      else if videoFormat = NTV2_FORMAT_4x2048x1080p_5994
      then NTV2_FORMAT_4096x2160p_5994
      else if videoFormat = NTV2_FORMAT_4x2048x1080p_6000
      then NTV2_FORMAT_4096x2160p_6000
      else videoFormat)"

definition GetQuadQuadSizedVideoFormat :: "u32 \<Rightarrow> u32" where
  "GetQuadQuadSizedVideoFormat videoFormat =
     (if videoFormat \<in> {NTV2_FORMAT_4x1920x1080p_2398, NTV2_FORMAT_3840x2160p_2398}
      then NTV2_FORMAT_4x3840x2160p_2398
      else if videoFormat \<in> {NTV2_FORMAT_4x1920x1080p_2400, NTV2_FORMAT_3840x2160p_2400}
      then NTV2_FORMAT_4x3840x2160p_2400
      else if videoFormat \<in> {NTV2_FORMAT_4x1920x1080p_2500, NTV2_FORMAT_3840x2160p_2500}
      then NTV2_FORMAT_4x3840x2160p_2500
      else if videoFormat \<in> {NTV2_FORMAT_4x1920x1080p_2997, NTV2_FORMAT_3840x2160p_2997}
      then NTV2_FORMAT_4x3840x2160p_2997
      else if videoFormat \<in> {NTV2_FORMAT_4x1920x1080p_3000, NTV2_FORMAT_3840x2160p_3000}
      then NTV2_FORMAT_4x3840x2160p_3000
      else if videoFormat \<in> {NTV2_FORMAT_4x1920x1080p_5000, NTV2_FORMAT_3840x2160p_5000}
      then NTV2_FORMAT_4x3840x2160p_5000
      else if videoFormat \<in> {NTV2_FORMAT_4x1920x1080p_5994, NTV2_FORMAT_3840x2160p_5994}
      then NTV2_FORMAT_4x3840x2160p_5994
      else if videoFormat \<in> {NTV2_FORMAT_4x1920x1080p_6000, NTV2_FORMAT_3840x2160p_6000}
      then NTV2_FORMAT_4x3840x2160p_6000
      else if videoFormat \<in> {NTV2_FORMAT_4x2048x1080p_2398, NTV2_FORMAT_4096x2160p_2398}
      then NTV2_FORMAT_4x4096x2160p_2398
      else if videoFormat \<in> {NTV2_FORMAT_4x2048x1080p_2400, NTV2_FORMAT_4096x2160p_2400}
      then NTV2_FORMAT_4x4096x2160p_2400
      else if videoFormat \<in> {NTV2_FORMAT_4x2048x1080p_2500, NTV2_FORMAT_4096x2160p_2500}
      then NTV2_FORMAT_4x4096x2160p_2500
      else if videoFormat \<in> {NTV2_FORMAT_4x2048x1080p_2997, NTV2_FORMAT_4096x2160p_2997}
      then NTV2_FORMAT_4x4096x2160p_2997
      else if videoFormat \<in> {NTV2_FORMAT_4x2048x1080p_3000, NTV2_FORMAT_4096x2160p_3000}
      then NTV2_FORMAT_4x4096x2160p_3000
      else if videoFormat \<in> {NTV2_FORMAT_4x2048x1080p_4795, NTV2_FORMAT_4096x2160p_4795}
      then NTV2_FORMAT_4x4096x2160p_4795
      else if videoFormat \<in> {NTV2_FORMAT_4x2048x1080p_4800, NTV2_FORMAT_4096x2160p_4800}
      then NTV2_FORMAT_4x4096x2160p_4800
      else if videoFormat \<in> {NTV2_FORMAT_4x2048x1080p_5000, NTV2_FORMAT_4096x2160p_5000}
      then NTV2_FORMAT_4x4096x2160p_5000
      else if videoFormat \<in> {NTV2_FORMAT_4x2048x1080p_5994, NTV2_FORMAT_4096x2160p_5994}
      then NTV2_FORMAT_4x4096x2160p_5994
      else if videoFormat \<in> {NTV2_FORMAT_4x2048x1080p_6000, NTV2_FORMAT_4096x2160p_6000}
      then NTV2_FORMAT_4x4096x2160p_6000
      else videoFormat)"

definition GetHDSizedVideoFormat :: "u32 \<Rightarrow> u32" where
  "GetHDSizedVideoFormat videoFormat =
     (if videoFormat = NTV2_FORMAT_4x1920x1080p_2398
      then NTV2_FORMAT_1080p_2398
      else if videoFormat = NTV2_FORMAT_4x1920x1080p_2400
      then NTV2_FORMAT_1080p_2400
      else if videoFormat = NTV2_FORMAT_4x1920x1080p_2500
      then NTV2_FORMAT_1080p_2500
      else if videoFormat = NTV2_FORMAT_4x1920x1080p_2997
      then NTV2_FORMAT_1080p_2997
      else if videoFormat = NTV2_FORMAT_4x1920x1080p_3000
      then NTV2_FORMAT_1080p_3000
      else if videoFormat = NTV2_FORMAT_4x1920x1080p_5000
      then NTV2_FORMAT_1080p_5000_A
      else if videoFormat = NTV2_FORMAT_4x1920x1080p_5994
      then NTV2_FORMAT_1080p_5994_A
      else if videoFormat = NTV2_FORMAT_4x1920x1080p_6000
      then NTV2_FORMAT_1080p_6000_A
      else if videoFormat = NTV2_FORMAT_4x2048x1080p_2398
      then NTV2_FORMAT_1080p_2K_2398
      else if videoFormat = NTV2_FORMAT_4x2048x1080p_2400
      then NTV2_FORMAT_1080p_2K_2400
      else if videoFormat = NTV2_FORMAT_4x2048x1080p_2500
      then NTV2_FORMAT_1080p_2K_2500
      else if videoFormat = NTV2_FORMAT_4x2048x1080p_2997
      then NTV2_FORMAT_1080p_2K_2997
      else if videoFormat = NTV2_FORMAT_4x2048x1080p_3000
      then NTV2_FORMAT_1080p_2K_3000
      else if videoFormat = NTV2_FORMAT_4x2048x1080p_4795
      then NTV2_FORMAT_1080p_2K_4795_A
      else if videoFormat = NTV2_FORMAT_4x2048x1080p_4800
      then NTV2_FORMAT_1080p_2K_4800_A
      else if videoFormat = NTV2_FORMAT_4x2048x1080p_5000
      then NTV2_FORMAT_1080p_2K_5000_A
      else if videoFormat = NTV2_FORMAT_4x2048x1080p_5994
      then NTV2_FORMAT_1080p_2K_5994_A
      else if videoFormat = NTV2_FORMAT_4x2048x1080p_6000
      then NTV2_FORMAT_1080p_2K_6000_A
      else videoFormat)"

end
