(* ===== verification/Ntv2Features.thy ===== *)
theory Ntv2Features
  imports Ntv2Prelude
begin

text \<open>
  The capability table of the devices. \<open>ntv2devicefeatures.hpp\<close> is generated from AJA's device
  database, so the table is a parameter of the model: a record of functions of the device
  id, passed as the argument \<open>F\<close> to every operation that asks for a capability.
\<close>

record features =
  NTV2DeviceCanDoMultiFormat :: "u32 \<Rightarrow> bool"
  NTV2DeviceCanDo12gRouting :: "u32 \<Rightarrow> bool"
  NTV2DeviceCanDo8KVideo :: "u32 \<Rightarrow> bool"
  NTV2DeviceCanDo4KVideo :: "u32 \<Rightarrow> bool"
  NTV2DeviceCanDo425Mux :: "u32 \<Rightarrow> bool"
  NTV2DeviceCanReportFrameSize :: "u32 \<Rightarrow> bool"
  NTV2DeviceSoftwareCanChangeFrameBufferSize :: "u32 \<Rightarrow> bool"
  NTV2DeviceGetFrameBufferSize :: "u32 \<Rightarrow> u32 \<Rightarrow> u32 \<Rightarrow> u32"
  NTV2DeviceCanDo12GOut :: "u32 \<Rightarrow> nat \<Rightarrow> bool"
  NTV2DeviceCanDo12GIn :: "u32 \<Rightarrow> nat \<Rightarrow> bool"
  NTV2DeviceCanDo3GIn :: "u32 \<Rightarrow> nat \<Rightarrow> bool"
  NTV2DeviceCanDo3GOut :: "u32 \<Rightarrow> nat \<Rightarrow> bool"
  NTV2DeviceCanDo292Out :: "u32 \<Rightarrow> nat \<Rightarrow> bool"
  NTV2DeviceCanDoRGBLevelAConversion :: "u32 \<Rightarrow> bool"
  NTV2DeviceCanDo3GLevelConversion :: "u32 \<Rightarrow> bool"
  NTV2DeviceCanDoInputSource :: "u32 \<Rightarrow> u32 \<Rightarrow> bool"
  NTV2DeviceGetHDMIVersion :: "u32 \<Rightarrow> u32"
  NTV2DeviceCanDoColorCorrection :: "u32 \<Rightarrow> bool"
  NTV2DeviceGetNumLUTs :: "u32 \<Rightarrow> u32"
  NTV2DeviceGetLUTVersion :: "u32 \<Rightarrow> u32"
  NTV2DeviceGetNumVideoOutputs :: "u32 \<Rightarrow> nat"
  NTV2DeviceGetNumVideoInputs :: "u32 \<Rightarrow> nat"
  NTV2DeviceCanDoCustomAnc :: "u32 \<Rightarrow> bool"
  NTV2DeviceCanDoCustomAux :: "u32 \<Rightarrow> bool"
  NTV2DeviceCanDoSDIErrorChecks :: "u32 \<Rightarrow> bool"
  NTV2DeviceCanDoLTCEmbeddedN :: "u32 \<Rightarrow> nat \<Rightarrow> bool"
  NTV2DeviceCanDoLTCInN :: "u32 \<Rightarrow> nat \<Rightarrow> bool"
  NTV2DeviceCanDoLTCOutN :: "u32 \<Rightarrow> nat \<Rightarrow> bool"
  NTV2DeviceCanDoWidget :: "u32 \<Rightarrow> u32 \<Rightarrow> bool"
  NTV2DeviceGetNumHDMIVideoOutputs :: "u32 \<Rightarrow> nat"
  NTV2DeviceHasXilinxDMA :: "u32 \<Rightarrow> bool"
  NTV2DeviceCanDoVITC2 :: "u32 \<Rightarrow> bool"
  NTV2DeviceCanDo12GSDI :: "u32 \<Rightarrow> bool"
  NTV2DeviceGetNumVideoChannels :: "u32 \<Rightarrow> nat"
  NTV2DeviceNeedsRoutingSetup :: "u32 \<Rightarrow> bool"

end
