(* ===== verification/Ntv2RegisterIO.thy ===== *)
theory Ntv2RegisterIO
  imports Ntv2Prelude
begin

text \<open>
  The register bank, as the core driver sees it through \<open>ntv2ReadRegister\<close>,
  \<open>ntv2ReadRegisterMS\<close>, \<open>ntv2WriteRegister\<close> and \<open>ntv2WriteRegisterMS\<close>
  (driver/linux/ntv2kona2.c, driver/linux/registerio.c). Hardware registers and virtual
  registers share one number space: virtual registers start at \<open>VIRTUALREG_START\<close>.

  Modelled is the plain path of \<open>ReadReg\<close> and \<open>WriteReg\<close>: register access enabled, a valid
  register number, a register without a handler of its own. Two accesses are \<open>masked\<close>:
  a read masks and then shifts; a write shifts the value and merges it with the register's
  other bits, and does not mask the value.
\<close>

type_synonym regs = "u32 \<Rightarrow> u32"

abbreviation (input) NO_MASK :: u32 where "NO_MASK \<equiv> 0xFFFFFFFF"
abbreviation (input) NO_SHIFT :: nat where "NO_SHIFT \<equiv> 0"
abbreviation (input) VIRTUALREG_START :: u32 where "VIRTUALREG_START \<equiv> 10000"

definition ReadReg :: "regs \<Rightarrow> u32 \<Rightarrow> u32 \<Rightarrow> nat \<Rightarrow> u32" where
  "ReadReg r registerNumber registerMask registerShift =
     (let value = r registerNumber;
          value = value AND registerMask;
          value = drop_bit registerShift value
      in value)"

definition WriteReg :: "regs \<Rightarrow> u32 \<Rightarrow> u32 \<Rightarrow> u32 \<Rightarrow> nat \<Rightarrow> regs" where
  "WriteReg r registerNumber registerValue registerMask registerShift =
     (if registerMask \<noteq> NO_MASK
      then let oldValue = r registerNumber;
               oldValue = oldValue AND NOT registerMask;
               registerValue = push_bit registerShift registerValue;
               registerValue = registerValue OR oldValue
           in r(registerNumber := registerValue)
      else r(registerNumber := registerValue))"

definition ntv2ReadRegister :: "regs \<Rightarrow> u32 \<Rightarrow> u32" where
  "ntv2ReadRegister r regnum = ReadReg r regnum NO_MASK NO_SHIFT"

definition ntv2ReadRegisterMS :: "regs \<Rightarrow> u32 \<Rightarrow> u32 \<Rightarrow> nat \<Rightarrow> u32" where
  "ntv2ReadRegisterMS r regnum regMask regShift = ReadReg r regnum regMask regShift"

definition ntv2WriteRegister :: "regs \<Rightarrow> u32 \<Rightarrow> u32 \<Rightarrow> regs" where
  "ntv2WriteRegister r regnum data = WriteReg r regnum data NO_MASK NO_SHIFT"

definition ntv2WriteRegisterMS :: "regs \<Rightarrow> u32 \<Rightarrow> u32 \<Rightarrow> u32 \<Rightarrow> nat \<Rightarrow> regs" where
  "ntv2WriteRegisterMS r regnum data regMask regShift = WriteReg r regnum data regMask regShift"

definition ntv2ReadVirtualRegister :: "regs \<Rightarrow> u32 \<Rightarrow> u32" where
  "ntv2ReadVirtualRegister r regnum = ReadReg r regnum NO_MASK NO_SHIFT"

definition ntv2WriteVirtualRegister :: "regs \<Rightarrow> u32 \<Rightarrow> u32 \<Rightarrow> regs" where
  "ntv2WriteVirtualRegister r regnum data = WriteReg r regnum data NO_MASK NO_SHIFT"

section \<open>Plain reads and writes\<close>

lemma and_NO_MASK [simp]: "x AND NO_MASK = (x :: u32)"
proof -
  have "NO_MASK = - 1" by simp
  then show ?thesis by (simp only: word_and_max)
qed

lemma ntv2ReadRegister_eq [reg_simps]: "ntv2ReadRegister r n = r n"
  by (simp add: ntv2ReadRegister_def ReadReg_def)

lemma ntv2ReadVirtualRegister_eq [reg_simps]: "ntv2ReadVirtualRegister r n = r n"
  by (simp add: ntv2ReadVirtualRegister_def ReadReg_def)

lemma ntv2WriteRegister_eq [reg_simps]: "ntv2WriteRegister r n v = r(n := v)"
  by (simp add: ntv2WriteRegister_def WriteReg_def)

lemma ntv2WriteVirtualRegister_eq [reg_simps]: "ntv2WriteVirtualRegister r n v = r(n := v)"
  by (simp add: ntv2WriteVirtualRegister_def WriteReg_def)

lemma ntv2ReadRegisterMS_eq [reg_simps]: "ntv2ReadRegisterMS r n m s = drop_bit s (r n AND m)"
  by (simp add: ntv2ReadRegisterMS_def ReadReg_def)

lemma ntv2WriteRegisterMS_eq [reg_simps]:
  "m \<noteq> NO_MASK \<Longrightarrow> ntv2WriteRegisterMS r n v m s = r(n := push_bit s v OR (r n AND NOT m))"
  by (simp add: ntv2WriteRegisterMS_def WriteReg_def)

lemma ntv2WriteRegisterMS_other [simp]:
  "n' \<noteq> n \<Longrightarrow> ntv2WriteRegisterMS r n v m s n' = r n'"
  by (simp add: ntv2WriteRegisterMS_def WriteReg_def Let_def)

text \<open>The contract of a register bank: what a read returns after a write.\<close>

locale register_bank =
  fixes rd :: "'b \<Rightarrow> u32 \<Rightarrow> u32"
    and wr :: "'b \<Rightarrow> u32 \<Rightarrow> u32 \<Rightarrow> 'b"
  assumes rd_wr_same: "rd (wr b n v) n = v"
    and rd_wr_other: "m \<noteq> n \<Longrightarrow> rd (wr b n v) m = rd b m"
begin

lemma rd_wr: "rd (wr b n v) m = (if m = n then v else rd b m)"
  by (simp add: rd_wr_same rd_wr_other)

text \<open>
  A block write, as the driver's loops over the registers of a table do it: a register
  outside the block keeps its value, and a register of the block holds its own word.
\<close>

lemma rd_block_other:
  "m \<notin> g ` set is \<Longrightarrow> rd (fold (\<lambda>i b. wr b (g i) (v i)) is b) m = rd b m"
  by (induction "is" arbitrary: b) (auto simp: rd_wr)

lemma rd_block_write:
  assumes "distinct is" and "inj_on g (set is)" and "i \<in> set is"
  shows "rd (fold (\<lambda>i b. wr b (g i) (v i)) is b) (g i) = v i"
  using assms
proof (induction "is" arbitrary: b)
  case Nil
  then show ?case by simp
next
  case (Cons j js)
  show ?case
  proof (cases "i = j")
    case True
    with Cons.prems have "g i \<notin> g ` set js"
      by (auto simp: inj_on_def)
    with True show ?thesis by (simp add: rd_block_other rd_wr)
  next
    case False
    with Cons show ?thesis by (simp add: inj_on_insert)
  qed
qed

end

interpretation hwbank: register_bank ntv2ReadRegister ntv2WriteRegister
  by unfold_locales (simp_all add: reg_simps)

interpretation vbank: register_bank ntv2ReadVirtualRegister ntv2WriteVirtualRegister
  by unfold_locales (simp_all add: reg_simps)

section \<open>Fields of a register\<close>

text \<open>
  The contract of a masked access: the mask is the field's own mask, and the field does not
  fill the register.
\<close>

locale reg_field =
  fixes msk :: u32 and shift :: nat and width :: nat
  assumes mask_eq: "msk = fld_mask width shift"
    and fits: "shift + width \<le> 32"
    and proper: "width < 32"
begin

lemma bit_msk: "bit msk i \<longleftrightarrow> shift \<le> i \<and> i < shift + width \<and> i < 32"
  by (simp add: mask_eq bit_fld_mask)

lemma msk_not_full: "msk \<noteq> NO_MASK"
proof
  assume full: "msk = NO_MASK"
  define i where "i = (if shift = 0 then width else 0)"
  have "i < 32" and "\<not> bit msk i"
    using proper by (auto simp: i_def bit_msk)
  moreover have "NO_MASK = (mask 32 :: u32)"
    by (simp add: mask_eq_exp_minus_1)
  ultimately show False using full by (simp add: bit_mask_iff)
qed

lemma write_same:
  "(ntv2WriteRegisterMS r n v msk shift) n = push_bit shift v OR (r n AND NOT msk)"
  by (simp add: reg_simps msk_not_full)

lemma read_value: "ntv2ReadRegisterMS r n msk shift = take_bit width (drop_bit shift (r n))"
  unfolding ntv2ReadRegisterMS_eq mask_eq by (rule drop_bit_and_fld_mask)

lemma read_write: "ntv2ReadRegisterMS (ntv2WriteRegisterMS r n v msk shift) n msk shift = take_bit width v"
  unfolding read_value write_same
  using fits by (intro bit_word_eqI) (auto simp: bit_simps bit_msk)

lemma take_bit_fits: "unat v < 2 ^ width \<Longrightarrow> take_bit width v = (v :: u32)"
  by (metis take_bit_nat_eq_self_iff unsigned_take_bit_eq word_unat_eq_iff)

lemma read_write_fits:
  "unat v < 2 ^ width \<Longrightarrow> ntv2ReadRegisterMS (ntv2WriteRegisterMS r n v msk shift) n msk shift = v"
  by (simp add: read_write take_bit_fits)

text \<open>
  A value that fits its field leaves every other bit of the register alone. A value that
  does not fit is written over the bits above the field, as \<open>write_same\<close> shows.
\<close>

lemma write_outside:
  assumes "unat v < 2 ^ width" and "\<not> bit msk i"
  shows "bit ((ntv2WriteRegisterMS r n v msk shift) n) i = bit (r n) i"
proof -
  have "\<not> bit v (i - shift)" if "shift \<le> i" "i < 32"
  proof -
    have "bit v (i - shift) = bit (take_bit width v) (i - shift)"
      by (simp add: take_bit_fits assms(1))
    with that assms(2) show ?thesis by (auto simp: bit_take_bit_iff bit_msk)
  qed
  with assms(2) show ?thesis
    unfolding write_same by (auto simp: bit_simps dest: bit_imp_le_length)
qed

lemma write_other_field:
  assumes "unat v < 2 ^ width" and "m' AND msk = 0"
  shows "ntv2ReadRegisterMS (ntv2WriteRegisterMS r n v msk shift) k m' s' = ntv2ReadRegisterMS r k m' s'"
proof (cases "k = n")
  case True
  have "\<not> (bit m' i \<and> bit msk i)" for i
    using assms(2) by (metis bit_and_iff bit_0_eq bot_apply bot_bool_def)
  then have "(ntv2WriteRegisterMS r n v msk shift) n AND m' = r n AND m'"
    by (intro bit_word_eqI) (auto simp: bit_and_iff write_outside [OF assms(1)])
  with True show ?thesis by (simp add: ntv2ReadRegisterMS_eq)
next
  case False
  then show ?thesis by (simp add: ntv2ReadRegisterMS_eq)
qed

end

end
