(* ===== verification/Ntv2Kona.thy ===== *)
theory Ntv2Kona
  imports Ntv2Formats Ntv2Features Ntv2RegisterIO
begin

text \<open>
  The board state of driver/ntv2kona.c: the register tables indexed by channel, the getters
  and setters of a channel's mode, frame format, orientation and frame numbers, the frame
  buffer size, and the field flags.
\<close>

definition gChannelToGlobalControlRegNum :: "u32 list" where
  "gChannelToGlobalControlRegNum =
   [kRegGlobalControl, kRegGlobalControlCh2, kRegGlobalControlCh3, kRegGlobalControlCh4,
    kRegGlobalControlCh5, kRegGlobalControlCh6, kRegGlobalControlCh7, kRegGlobalControlCh8, 0]"

definition gChannelToSmpte372RegisterNum :: "u32 list" where
  "gChannelToSmpte372RegisterNum =
   [kRegGlobalControl, kRegGlobalControl, kRegGlobalControl2, kRegGlobalControl2,
    kRegGlobalControl2, kRegGlobalControl2, kRegGlobalControl2, kRegGlobalControl2, 0]"

definition gChannelToSmpte372Masks :: "u32 list" where
  "gChannelToSmpte372Masks =
   [kRegMaskSmpte372Enable, kRegMaskSmpte372Enable, kRegMaskSmpte372Enable4,
    kRegMaskSmpte372Enable4, kRegMaskSmpte372Enable6, kRegMaskSmpte372Enable6,
    kRegMaskSmpte372Enable8, kRegMaskSmpte372Enable8, 0]"

definition gChannelToSmpte372Shifts :: "nat list" where
  "gChannelToSmpte372Shifts =
   [kRegShiftSmpte372, kRegShiftSmpte372, kRegShiftSmpte372Enable4, kRegShiftSmpte372Enable4,
    kRegShiftSmpte372Enable6, kRegShiftSmpte372Enable6, kRegShiftSmpte372Enable8,
    kRegShiftSmpte372Enable8, 0]"

definition gChannelToControlRegNum :: "u32 list" where
  "gChannelToControlRegNum =
   [kRegCh1Control, kRegCh2Control, kRegCh3Control, kRegCh4Control, kRegCh5Control, kRegCh6Control,
    kRegCh7Control, kRegCh8Control, 0]"

definition gChannelToOutputFrameRegNum :: "u32 list" where
  "gChannelToOutputFrameRegNum =
   [kRegCh1OutputFrame, kRegCh2OutputFrame, kRegCh3OutputFrame, kRegCh4OutputFrame,
    kRegCh5OutputFrame, kRegCh6OutputFrame, kRegCh7OutputFrame, kRegCh8OutputFrame, 0]"

definition gChannelToInputFrameRegNum :: "u32 list" where
  "gChannelToInputFrameRegNum =
   [kRegCh1InputFrame, kRegCh2InputFrame, kRegCh3InputFrame, kRegCh4InputFrame, kRegCh5InputFrame,
    kRegCh6InputFrame, kRegCh7InputFrame, kRegCh8InputFrame, 0]"

definition gChannelToPCIAccessFrameRegNum :: "u32 list" where
  "gChannelToPCIAccessFrameRegNum =
   [kRegCh1PCIAccessFrame, kRegCh2PCIAccessFrame, kRegCh3PCIAccessFrame, kRegCh4PCIAccessFrame,
    kRegCh5PCIAccessFrame, kRegCh6PCIAccessFrame, kRegCh7PCIAccessFrame, kRegCh8PCIAccessFrame, 0]"

definition gChannelToSDIOutControlRegNum :: "u32 list" where
  "gChannelToSDIOutControlRegNum =
   [kRegSDIOut1Control, kRegSDIOut2Control, kRegSDIOut3Control, kRegSDIOut4Control,
    kRegSDIOut5Control, kRegSDIOut6Control, kRegSDIOut7Control, kRegSDIOut8Control, 0]"

definition gChannelToSDIInput3GStatusRegNum :: "u32 list" where
  "gChannelToSDIInput3GStatusRegNum =
   [kRegSDIInput3GStatus, kRegSDIInput3GStatus, kRegSDIInput3GStatus2, kRegSDIInput3GStatus2,
    kRegSDI5678Input3GStatus, kRegSDI5678Input3GStatus, kRegSDI5678Input3GStatus,
    kRegSDI5678Input3GStatus, 0]"

definition gChannelToLevelBMasks :: "u32 list" where
  "gChannelToLevelBMasks =
   [kRegMaskSDIIn3GbpsSMPTELevelBMode, kRegMaskSDIIn23GbpsSMPTELevelBMode,
    kRegMaskSDIIn3GbpsSMPTELevelBMode, kRegMaskSDIIn23GbpsSMPTELevelBMode,
    kRegMaskSDIIn53GbpsSMPTELevelBMode, kRegMaskSDIIn63GbpsSMPTELevelBMode,
    kRegMaskSDIIn73GbpsSMPTELevelBMode, kRegMaskSDIIn83GbpsSMPTELevelBMode]"

definition gChannelToLevelBShifts :: "nat list" where
  "gChannelToLevelBShifts =
   [kRegShiftSDIIn3GbpsSMPTELevelBMode, kRegShiftSDIIn23GbpsSMPTELevelBMode,
    kRegShiftSDIIn3GbpsSMPTELevelBMode, kRegShiftSDIIn23GbpsSMPTELevelBMode,
    kRegShiftSDIIn53GbpsSMPTELevelBMode, kRegShiftSDIIn63GbpsSMPTELevelBMode,
    kRegShiftSDIIn73GbpsSMPTELevelBMode, kRegShiftSDIIn83GbpsSMPTELevelBMode]"

definition gChannelToInputLevelConversionMasks :: "u32 list" where
  "gChannelToInputLevelConversionMasks =
   [kRegMaskSDIIn1LevelBtoLevelA, kRegMaskSDIIn2LevelBtoLevelA, kRegMaskSDIIn3LevelBtoLevelA,
    kRegMaskSDIIn4LevelBtoLevelA, kRegMaskSDIIn5LevelBtoLevelA, kRegMaskSDIIn6LevelBtoLevelA,
    kRegMaskSDIIn7LevelBtoLevelA, kRegMaskSDIIn8LevelBtoLevelA]"

definition gChannelToInputLevelConversionShifts :: "nat list" where
  "gChannelToInputLevelConversionShifts =
   [kRegShiftSDIIn1LevelBtoLevelA, kRegShiftSDIIn2LevelBtoLevelA, kRegShiftSDIIn3LevelBtoLevelA,
    kRegShiftSDIIn4LevelBtoLevelA, kRegShiftSDIIn5LevelBtoLevelA, kRegShiftSDIIn6LevelBtoLevelA,
    kRegShiftSDIIn7LevelBtoLevelA, kRegShiftSDIIn8LevelBtoLevelA]"

definition gChannelToInputStatesRegs :: "u32 list" where
  "gChannelToInputStatesRegs =
   [kRegInputStatus, kRegInputStatus, kRegInputStatus2, kRegInputStatus2, kRegInput56Status,
    kRegInput56Status, kRegInput78Status, kRegInput78Status]"

definition gChannelToInputStatusRateMasks :: "u32 list" where
  "gChannelToInputStatusRateMasks =
   [kRegMaskInput1FrameRate, kRegMaskInput2FrameRate, kRegMaskInput1FrameRate,
    kRegMaskInput2FrameRate, kRegMaskInput1FrameRate, kRegMaskInput2FrameRate,
    kRegMaskInput1FrameRate, kRegMaskInput2FrameRate]"

definition gChannelToInputStatusRateShifts :: "nat list" where
  "gChannelToInputStatusRateShifts =
   [kRegShiftInput1FrameRate, kRegShiftInput2FrameRate, kRegShiftInput1FrameRate,
    kRegShiftInput2FrameRate, kRegShiftInput1FrameRate, kRegShiftInput2FrameRate,
    kRegShiftInput1FrameRate, kRegShiftInput2FrameRate]"

definition gChannelToInputStatusRateHighMasks :: "u32 list" where
  "gChannelToInputStatusRateHighMasks =
   [kRegMaskInput1FrameRateHigh, kRegMaskInput2FrameRateHigh, kRegMaskInput1FrameRateHigh,
    kRegMaskInput2FrameRateHigh, kRegMaskInput1FrameRateHigh, kRegMaskInput2FrameRateHigh,
    kRegMaskInput1FrameRateHigh, kRegMaskInput2FrameRateHigh]"

definition gChannelToInputStatusRateHighShifts :: "nat list" where
  "gChannelToInputStatusRateHighShifts =
   [kRegShiftInput1FrameRateHigh, kRegShiftInput2FrameRateHigh, kRegShiftInput1FrameRateHigh,
    kRegShiftInput2FrameRateHigh, kRegShiftInput1FrameRateHigh, kRegShiftInput2FrameRateHigh,
    kRegShiftInput1FrameRateHigh, kRegShiftInput2FrameRateHigh]"

definition gChannelToScanMasks :: "u32 list" where
  "gChannelToScanMasks =
   [kRegMaskInput1Geometry, kRegMaskInput2Geometry, kRegMaskInput1Geometry, kRegMaskInput2Geometry,
    kRegMaskInput1Geometry, kRegMaskInput2Geometry, kRegMaskInput1Geometry, kRegMaskInput2Geometry]"

definition gChannelToScanShifts :: "nat list" where
  "gChannelToScanShifts =
   [kRegShiftInput1Geometry, kRegShiftInput2Geometry, kRegShiftInput1Geometry,
    kRegShiftInput2Geometry, kRegShiftInput1Geometry, kRegShiftInput2Geometry,
    kRegShiftInput1Geometry, kRegShiftInput2Geometry]"

definition gChannelToScanHighMasks :: "u32 list" where
  "gChannelToScanHighMasks =
   [kRegMaskInput1GeometryHigh, kRegMaskInput2GeometryHigh, kRegMaskInput1GeometryHigh,
    kRegMaskInput2GeometryHigh, kRegMaskInput1GeometryHigh, kRegMaskInput2GeometryHigh,
    kRegMaskInput1GeometryHigh, kRegMaskInput2GeometryHigh]"

definition gChannelToScanHighShifts :: "nat list" where
  "gChannelToScanHighShifts =
   [kRegShiftInput1GeometryHigh, kRegShiftInput2GeometryHigh, kRegShiftInput1GeometryHigh,
    kRegShiftInput2GeometryHigh, kRegShiftInput1GeometryHigh, kRegShiftInput2GeometryHigh,
    kRegShiftInput1GeometryHigh, kRegShiftInput2GeometryHigh]"

definition gChannelToProgressiveMasks :: "u32 list" where
  "gChannelToProgressiveMasks =
   [kRegMaskInput1Progressive, kRegMaskInput2Progressive, kRegMaskInput1Progressive,
    kRegMaskInput2Progressive, kRegMaskInput1Progressive, kRegMaskInput2Progressive,
    kRegMaskInput1Progressive, kRegMaskInput2Progressive]"

definition gChannelToProgressiveShifts :: "nat list" where
  "gChannelToProgressiveShifts =
   [kRegShiftInput1Progressive, kRegShiftInput2Progressive, kRegShiftInput1Progressive,
    kRegShiftInput2Progressive, kRegShiftInput1Progressive, kRegShiftInput2Progressive,
    kRegShiftInput1Progressive, kRegShiftInput2Progressive]"

definition gChannelToSDIIn6GModeMask :: "u32 list" where
  "gChannelToSDIIn6GModeMask =
   [kRegMaskSDIIn16GbpsMode, kRegMaskSDIIn26GbpsMode, kRegMaskSDIIn36GbpsMode,
    kRegMaskSDIIn46GbpsMode, kRegMaskSDIIn56GbpsMode, kRegMaskSDIIn66GbpsMode,
    kRegMaskSDIIn76GbpsMode, kRegMaskSDIIn86GbpsMode]"

definition gChannelToSDIIn6GModeShift :: "nat list" where
  "gChannelToSDIIn6GModeShift =
   [kRegShiftSDIIn16GbpsMode, kRegShiftSDIIn26GbpsMode, kRegShiftSDIIn36GbpsMode,
    kRegShiftSDIIn46GbpsMode, kRegShiftSDIIn56GbpsMode, kRegShiftSDIIn66GbpsMode,
    kRegShiftSDIIn76GbpsMode, kRegShiftSDIIn86GbpsMode]"

definition gChannelToSDIIn12GModeMask :: "u32 list" where
  "gChannelToSDIIn12GModeMask =
   [kRegMaskSDIIn112GbpsMode, kRegMaskSDIIn212GbpsMode, kRegMaskSDIIn312GbpsMode,
    kRegMaskSDIIn412GbpsMode, kRegMaskSDIIn512GbpsMode, kRegMaskSDIIn612GbpsMode,
    kRegMaskSDIIn712GbpsMode, kRegMaskSDIIn812GbpsMode]"

definition gChannelToSDIIn12GModeShift :: "nat list" where
  "gChannelToSDIIn12GModeShift =
   [kRegShiftSDIIn112GbpsMode, kRegShiftSDIIn212GbpsMode, kRegShiftSDIIn312GbpsMode,
    kRegShiftSDIIn412GbpsMode, kRegShiftSDIIn512GbpsMode, kRegShiftSDIIn612GbpsMode,
    kRegShiftSDIIn712GbpsMode, kRegShiftSDIIn812GbpsMode]"

definition IsMultiFormatActive :: "features \<Rightarrow> regs \<Rightarrow> bool" where
  "IsMultiFormatActive F r =
     (let deviceID = ntv2ReadRegister r kRegBoardID
      in if \<not> NTV2DeviceCanDoMultiFormat F deviceID
         then False
         else (let returnVal = ntv2ReadRegisterMS r kRegGlobalControl2 kRegMaskIndependentMode kRegShiftIndependentMode
               in returnVal \<noteq> 0))"

definition GetStandard :: "features \<Rightarrow> regs \<Rightarrow> nat \<Rightarrow> u32" where
  "GetStandard F r channel =
     (let channel = if \<not> IsMultiFormatActive F r then NTV2_CHANNEL1 else channel
      in ntv2ReadRegisterMS r (tbl gChannelToGlobalControlRegNum channel) kRegMaskStandard kRegShiftStandard)"

definition GetFrameGeometry :: "features \<Rightarrow> regs \<Rightarrow> nat \<Rightarrow> u32" where
  "GetFrameGeometry F r channel =
     (let channel = if \<not> IsMultiFormatActive F r then NTV2_CHANNEL1 else channel
      in ntv2ReadRegisterMS r (tbl gChannelToGlobalControlRegNum channel) kRegMaskGeometry kRegShiftGeometry)"

definition GetFrameRate :: "features \<Rightarrow> regs \<Rightarrow> nat \<Rightarrow> u32" where
  "GetFrameRate F r channel =
     (let channel = if \<not> IsMultiFormatActive F r then NTV2_CHANNEL1 else channel;
          regValue = ntv2ReadRegister r (tbl gChannelToGlobalControlRegNum channel);
          regLowBits = drop_bit kRegShiftFrameRate (regValue AND kRegMaskFrameRate);
          regHighBit = drop_bit kRegShiftFrameRateHiBit (regValue AND kRegMaskFrameRateHiBit)
      in (regLowBits AND 0x7) OR push_bit 3 (regHighBit AND 0x1))"

definition GetSmpte372 :: "features \<Rightarrow> regs \<Rightarrow> nat \<Rightarrow> bool" where
  "GetSmpte372 F r channel =
     (let channel = if \<not> IsMultiFormatActive F r then NTV2_CHANNEL1 else channel;
          returnVal = ntv2ReadRegisterMS r (tbl gChannelToSmpte372RegisterNum channel) (tbl gChannelToSmpte372Masks channel) (tbl gChannelToSmpte372Shifts channel)
      in returnVal \<noteq> 0)"

definition IsProgressiveStandard :: "features \<Rightarrow> regs \<Rightarrow> nat \<Rightarrow> bool" where
  "IsProgressiveStandard F r channel =
     (let channel = if \<not> IsMultiFormatActive F r then NTV2_CHANNEL1 else channel;
          smpte372Enabled = GetSmpte372 F r channel;
          standard = GetStandard F r channel
      in NTV2_IS_PROGRESSIVE_STANDARD standard \<or> smpte372Enabled)"

definition GetBoardVideoFormat :: "features \<Rightarrow> regs \<Rightarrow> nat \<Rightarrow> u32" where
  "GetBoardVideoFormat F r channel =
     (let standard = GetStandard F r channel;
          frameRate = GetFrameRate F r channel;
          is2Kx1080 = (of_bool (NTV2_IS_2K_1080_FRAME_GEOMETRY (GetFrameGeometry F r channel)) :: u32);
          smpte372Enabled = if GetSmpte372 F r channel then 1 else 0
      in GetVideoFormatFromState standard frameRate is2Kx1080 smpte372Enabled)"

definition GetQuadQuadFrameEnable :: "features \<Rightarrow> regs \<Rightarrow> nat \<Rightarrow> bool" where
  "GetQuadQuadFrameEnable F r channel =
     (let deviceID = ntv2ReadRegister r kRegBoardID
      in if NTV2DeviceCanDo8KVideo F deviceID
         then (let outValue = ntv2ReadRegisterMS r kRegGlobalControl3 kRegMaskQuadQuadMode kRegShiftQuadQuadMode
               in outValue \<noteq> 0)
         else False)"

definition Get4kSquaresEnable :: "features \<Rightarrow> regs \<Rightarrow> nat \<Rightarrow> bool" where
  "Get4kSquaresEnable F r channel =
     (let deviceID = ntv2ReadRegister r kRegBoardID
      in if \<not> NTV2DeviceCanDo4KVideo F deviceID
         then False
         else (let squaresEnabled =
                     (if channel < NTV2_CHANNEL5
                      then ntv2ReadRegisterMS r kRegGlobalControl2 kRegMaskQuadMode kRegShiftQuadMode
                      else ntv2ReadRegisterMS r kRegGlobalControl2 kRegMaskQuadMode2 kRegShiftQuadMode2)
               in squaresEnabled \<noteq> 0))"

definition Get425FrameEnable :: "features \<Rightarrow> regs \<Rightarrow> nat \<Rightarrow> bool" where
  "Get425FrameEnable F r channel =
     (let deviceID = ntv2ReadRegister r kRegBoardID
      in if (\<not> NTV2DeviceCanDo425Mux F deviceID) \<and> (\<not> NTV2DeviceCanDo12gRouting F deviceID)
         then False
         else (let returnVal =
                     (if NTV2DeviceCanDo12gRouting F deviceID
                      then ntv2ReadRegisterMS r (tbl gChannelToGlobalControlRegNum channel) kRegMaskQuadTsiEnable kRegShiftQuadTsiEnable
                      else if channel < NTV2_CHANNEL3
                      then ntv2ReadRegisterMS r kRegGlobalControl2 kRegMask425FB12 kRegShift425FB12
                      else if channel < NTV2_CHANNEL5
                      then ntv2ReadRegisterMS r kRegGlobalControl2 kRegMask425FB34 kRegShift425FB34
                      else if channel < NTV2_CHANNEL7
                      then ntv2ReadRegisterMS r kRegGlobalControl2 kRegMask425FB56 kRegShift425FB56
                      else ntv2ReadRegisterMS r kRegGlobalControl2 kRegMask425FB78 kRegShift425FB78)
               in returnVal \<noteq> 0))"

definition GetQuadFrameEnable :: "features \<Rightarrow> regs \<Rightarrow> nat \<Rightarrow> bool" where
  "GetQuadFrameEnable F r channel =
     (Get4kSquaresEnable F r channel \<or> Get425FrameEnable F r channel)"

definition Get12GTSIFrameEnable :: "features \<Rightarrow> regs \<Rightarrow> nat \<Rightarrow> bool" where
  "Get12GTSIFrameEnable F r channel =
     (let deviceID = ntv2ReadRegister r kRegBoardID
      in if \<not> NTV2DeviceCanDo12gRouting F deviceID
         then False
         else (let returnVal = ntv2ReadRegisterMS r (tbl gChannelToGlobalControlRegNum channel) kRegMaskQuadTsiEnable kRegShiftQuadTsiEnable
               in returnVal \<noteq> 0))"

definition GetQuadQuadSquaresEnable :: "features \<Rightarrow> regs \<Rightarrow> nat \<Rightarrow> bool" where
  "GetQuadQuadSquaresEnable F r channel =
     (let deviceID = ntv2ReadRegister r kRegBoardID
      in if \<not> NTV2DeviceCanDo8KVideo F deviceID
         then False
         else (let squaresEnabled = ntv2ReadRegisterMS r kRegGlobalControl3 kRegMaskQuadQuadSquaresMode kRegShiftQuadQuadSquaresMode
               in squaresEnabled \<noteq> 0))"

definition GetEnable4KDCPSFOutMode :: "regs \<Rightarrow> bool" where
  "GetEnable4KDCPSFOutMode r =
     (let regValue = ntv2ReadRegisterMS r kRegDC1 kRegMask4KDCPSFOutMode kRegShift4KDCPSFOutMode
      in \<not> (regValue = 0))"

definition GetFrameBufferFormat :: "regs \<Rightarrow> nat \<Rightarrow> u32" where
  "GetFrameBufferFormat r channel =
     (let regNum = tbl gChannelToControlRegNum channel;
          regValue = ntv2ReadRegister r regNum;
          loValue = drop_bit kRegShiftFrameFormat (regValue AND kRegMaskFrameFormat);
          hiValue = drop_bit kRegShiftFrameFormatHiBit (regValue AND kRegMaskFrameFormatHiBit)
      in loValue OR push_bit 4 hiValue)"

definition SetFrameBufferFormat :: "regs \<Rightarrow> nat \<Rightarrow> u32 \<Rightarrow> regs" where
  "SetFrameBufferFormat r channel value =
     (let regNum = tbl gChannelToControlRegNum channel;
          loValue = value AND 0x0F;
          hiValue = drop_bit 4 (value AND 0x10);
          r = ntv2WriteRegisterMS r regNum loValue kRegMaskFrameFormat kRegShiftFrameFormat
      in ntv2WriteRegisterMS r regNum hiValue kRegMaskFrameFormatHiBit kRegShiftFrameFormatHiBit)"

definition GetFrameBufferOrientation :: "regs \<Rightarrow> nat \<Rightarrow> u32" where
  "GetFrameBufferOrientation r channel =
     (let regNum = tbl gChannelToControlRegNum channel
      in ntv2ReadRegisterMS r regNum kRegMaskFrameOrientation kRegShiftFrameOrientation)"

definition SetFrameBufferOrientation :: "regs \<Rightarrow> nat \<Rightarrow> u32 \<Rightarrow> regs" where
  "SetFrameBufferOrientation r channel value =
     (let regNum = tbl gChannelToControlRegNum channel
      in ntv2WriteRegisterMS r regNum value kRegMaskFrameOrientation kRegShiftFrameOrientation)"

definition GetMode :: "regs \<Rightarrow> nat \<Rightarrow> u32" where
  "GetMode r channel =
     (let regNum = tbl gChannelToControlRegNum channel
      in ntv2ReadRegisterMS r regNum kRegMaskMode kRegShiftMode)"

definition SetMode :: "regs \<Rightarrow> nat \<Rightarrow> u32 \<Rightarrow> regs" where
  "SetMode r channel value =
     (let regNum = tbl gChannelToControlRegNum channel
      in ntv2WriteRegisterMS r regNum value kRegMaskMode kRegShiftMode)"

definition GetOutputFrame :: "regs \<Rightarrow> nat \<Rightarrow> u32" where
  "GetOutputFrame r channel =
     (let regNum = tbl gChannelToOutputFrameRegNum channel
      in ntv2ReadRegister r regNum)"

definition SetOutputFrame :: "regs \<Rightarrow> nat \<Rightarrow> u32 \<Rightarrow> regs" where
  "SetOutputFrame r channel value =
     (let regNum = tbl gChannelToOutputFrameRegNum channel
      in ntv2WriteRegister r regNum value)"

definition GetInputFrame :: "regs \<Rightarrow> nat \<Rightarrow> u32" where
  "GetInputFrame r channel =
     (let regNum = tbl gChannelToInputFrameRegNum channel
      in ntv2ReadRegister r regNum)"

definition SetInputFrame :: "regs \<Rightarrow> nat \<Rightarrow> u32 \<Rightarrow> regs" where
  "SetInputFrame r channel value =
     (let regNum = tbl gChannelToInputFrameRegNum channel
      in ntv2WriteRegister r regNum value)"

definition GetPCIAccessFrame :: "regs \<Rightarrow> nat \<Rightarrow> u32" where
  "GetPCIAccessFrame r channel =
     (let regNum = tbl gChannelToPCIAccessFrameRegNum channel
      in ntv2ReadRegister r regNum)"

definition SetPCIAccessFrame :: "regs \<Rightarrow> nat \<Rightarrow> u32 \<Rightarrow> regs" where
  "SetPCIAccessFrame r channel value =
     (let regNum = tbl gChannelToPCIAccessFrameRegNum channel
      in ntv2WriteRegister r regNum value)"

definition Get2piCSC :: "features \<Rightarrow> regs \<Rightarrow> nat \<Rightarrow> bool" where
  "Get2piCSC F r channel =
     (let returnVal = 0;
          deviceID = ntv2ReadRegister r kRegBoardID
      in if \<not> NTV2DeviceCanDo425Mux F deviceID
         then False
         else (let returnVal =
                     (if channel \<in> {NTV2_CHANNEL1, NTV2_CHANNEL2, NTV2_CHANNEL3, NTV2_CHANNEL4}
                      then ntv2ReadRegisterMS r kRegCSCoefficients5_6 kK2RegMask2piCSC1 (unat kK2RegMask2piCSC1)
                      else if channel \<in> {NTV2_CHANNEL5, NTV2_CHANNEL6, NTV2_CHANNEL7, NTV2_CHANNEL8}
                      then ntv2ReadRegisterMS r kRegCS5Coefficients5_6 kK2RegMask2piCSC5 kK2RegShift2piCSC5
                      else returnVal)
               in returnVal \<noteq> 0))"

definition Set2piCSC :: "features \<Rightarrow> regs \<Rightarrow> nat \<Rightarrow> bool \<Rightarrow> bool \<times> regs" where
  "Set2piCSC F r channel enable =
     (let deviceID = ntv2ReadRegister r kRegBoardID
      in if \<not> NTV2DeviceCanDo425Mux F deviceID
         then (False, r)
         else if channel \<in> {NTV2_CHANNEL1, NTV2_CHANNEL2, NTV2_CHANNEL3, NTV2_CHANNEL4}
         then (let r = ntv2WriteRegisterMS r kRegCSCoefficients5_6 (if enable then 1 else 0) kK2RegMask2piCSC1 kK2RegShift2piCSC1
               in (True, r))
         else if channel \<in> {NTV2_CHANNEL5, NTV2_CHANNEL6, NTV2_CHANNEL7, NTV2_CHANNEL8}
         then (let r = ntv2WriteRegisterMS r kRegCS5Coefficients5_6 (if enable then 1 else 0) kK2RegMask2piCSC5 kK2RegShift2piCSC5
               in (True, r))
         else (False, r))"

definition GetDualLink5PixelFormat :: "regs \<Rightarrow> u32" where
  "GetDualLink5PixelFormat r =
     (let regValue = ntv2ReadRegister r kRegDL5Control;
          loValue = drop_bit kRegShiftFrameFormat (regValue AND kRegMaskFrameFormat);
          hiValue = drop_bit kRegShiftFrameFormatHiBit (regValue AND kRegMaskFrameFormatHiBit)
      in loValue OR push_bit 4 hiValue)"

definition SetDualLink5PixelFormat :: "regs \<Rightarrow> u32 \<Rightarrow> regs" where
  "SetDualLink5PixelFormat r value =
     (let loValue = value AND 0x0F;
          hiValue = drop_bit 4 (value AND 0x10);
          r = ntv2WriteRegisterMS r kRegDL5Control loValue kRegMaskFrameFormat kRegShiftFrameFormat
      in ntv2WriteRegisterMS r kRegDL5Control hiValue kRegMaskFrameFormatHiBit kRegShiftFrameFormatHiBit)"

definition GetHWFrameBufferSize :: "features \<Rightarrow> regs \<Rightarrow> nat \<Rightarrow> u32" where
  "GetHWFrameBufferSize F r channel =
     (let deviceID = ntv2ReadRegister r kRegBoardID
      in if NTV2DeviceCanReportFrameSize F deviceID
         then (let quadMultiplier = 1;
                   quadMultiplier = if GetQuadFrameEnable F r channel then 4 else quadMultiplier;
                   quadMultiplier = if GetQuadQuadFrameEnable F r channel then 16 else quadMultiplier;
                   regValue = ntv2ReadRegister r kRegCh1Control;
                   regValue = regValue AND (BIT_20 OR BIT_21)
               in if regValue = BIT_20
                  then 4194304 * quadMultiplier
                  else if regValue = BIT_21
                  then 8388608 * quadMultiplier
                  else if regValue = BIT_20 OR BIT_21
                  then 16777216 * quadMultiplier
                  else 2097152 * quadMultiplier)
         else if \<not> NTV2DeviceSoftwareCanChangeFrameBufferSize F deviceID
         then 0
         else if GetQuadFrameEnable F r channel
         then 0
         else (let regValue = ntv2ReadRegister r kRegCh1Control
               in if \<not> ((regValue AND BIT_29) \<noteq> 0)
                  then 0
                  else (let regValue = regValue AND (BIT_20 OR BIT_21)
                        in if regValue = BIT_20
                           then 4194304
                           else if regValue = BIT_21
                           then 8388608
                           else if regValue = BIT_20 OR BIT_21 then 16777216 else 2097152)))"

definition GetFrameBufferSize :: "features \<Rightarrow> regs \<Rightarrow> nat \<Rightarrow> u32" where
  "GetFrameBufferSize F r channel =
     (let frameGeometry = GetFrameGeometry F r NTV2_CHANNEL1;
          frameBufferFormat1 = GetFrameBufferFormat r NTV2_CHANNEL1;
          frameBufferFormat2 = GetFrameBufferFormat r NTV2_CHANNEL2;
          deviceID = ntv2ReadRegister r kRegBoardID
      in if NTV2DeviceCanReportFrameSize F deviceID
         then GetHWFrameBufferSize F r channel
         else (let fbSize = GetHWFrameBufferSize F r NTV2_CHANNEL1
               in if fbSize \<noteq> 0
                  then fbSize
                  else if NTV2DeviceCanDo4KVideo F deviceID
                  then (let frameGeometry =
                              (if GetQuadFrameEnable F r channel
                               then (if frameGeometry = NTV2_FG_1920x1080
                                     then NTV2_FG_4x1920x1080
                                     else if frameGeometry = NTV2_FG_2048x1080 then NTV2_FG_4x2048x1080 else frameGeometry)
                               else frameGeometry);
                            frameBufferFormat3 = GetFrameBufferFormat r NTV2_CHANNEL3;
                            frameBufferFormat4 = GetFrameBufferFormat r NTV2_CHANNEL4;
                            frameSize1 = NTV2DeviceGetFrameBufferSize F deviceID frameGeometry frameBufferFormat1;
                            frameSize2 = NTV2DeviceGetFrameBufferSize F deviceID frameGeometry frameBufferFormat2;
                            frameSize3 = NTV2DeviceGetFrameBufferSize F deviceID frameGeometry frameBufferFormat3;
                            frameSize4 = NTV2DeviceGetFrameBufferSize F deviceID frameGeometry frameBufferFormat4;
                            tempSize1 = frameSize1;
                            tempSize2 = frameSize3;
                            tempSize1 = if frameSize2 > frameSize1 then frameSize2 else tempSize1;
                            tempSize2 = if frameSize4 > frameSize3 then frameSize4 else tempSize2
                        in if tempSize1 > tempSize2 then tempSize1 else tempSize2)
                  else (let frameSize1 = NTV2DeviceGetFrameBufferSize F deviceID frameGeometry frameBufferFormat1;
                            frameSize2 = NTV2DeviceGetFrameBufferSize F deviceID frameGeometry frameBufferFormat2;
                            frameBufferSize = frameSize1
                        in if frameSize2 > frameSize1 then frameSize2 else frameBufferSize)))"

definition IsFieldID0 :: "features \<Rightarrow> regs \<Rightarrow> nat \<Rightarrow> bool" where
  "IsFieldID0 F r xpt =
     (let outRegNum = [kRegStatus, kRegStatus, kRegStatus, kRegStatus, kRegStatus2, kRegStatus2, kRegStatus2, kRegStatus2, 0];
          outBit = [BIT_23, BIT_5, BIT_3, BIT_1, BIT_9, BIT_7, BIT_5, BIT_3, 0];
          inRegNum = [kRegStatus, kRegStatus, kRegStatus2, kRegStatus2, kRegStatus2, kRegStatus2, kRegStatus2, kRegStatus2, 0];
          inBit = [BIT_21, BIT_19, BIT_21, BIT_19, BIT_17, BIT_15, BIT_13, BIT_11, 0];
          xptChannel = GetNTV2ChannelForNTV2Crosspoint xpt
      in if NTV2_IS_OUTPUT_CROSSPOINT xpt
         then (let xptChannel = if IsMultiFormatActive F r then xptChannel else NTV2_CHANNEL1;
                   regValue = ntv2ReadRegister r (tbl outRegNum xptChannel)
               in \<not> ((regValue AND tbl outBit xptChannel) \<noteq> 0))
         else (let regValue = ntv2ReadRegister r (tbl inRegNum xptChannel)
               in \<not> ((regValue AND tbl inBit xptChannel) \<noteq> 0)))"

definition FieldDenotesStartOfFrame :: "features \<Rightarrow> regs \<Rightarrow> nat \<Rightarrow> bool" where
  "FieldDenotesStartOfFrame F r channelSpec =
     (let channel = NTV2_CHANNEL1;
          channel = if IsMultiFormatActive F r then GetNTV2ChannelForNTV2Crosspoint channelSpec else channel;
          standard = GetStandard F r channel
      in if NTV2_IS_PROGRESSIVE_STANDARD standard then True else IsFieldID0 F r channelSpec)"

end
