(* ===== verification/Ntv2Sdi.thy ===== *)
theory Ntv2Sdi
  imports Ntv2Kona
begin

text \<open>
  The SDI output controls and the input format detection of driver/ntv2kona.c.
\<close>

definition SetSDIOutStandard :: "regs \<Rightarrow> nat \<Rightarrow> u32 \<Rightarrow> regs" where
  "SetSDIOutStandard r channel value =
     (let regNum = tbl gChannelToSDIOutControlRegNum channel
      in ntv2WriteRegisterMS r regNum value kK2RegMaskSDIOutStandard kK2RegShiftSDIOutStandard)"

definition SetSDIOut_2Kx1080Enable :: "regs \<Rightarrow> nat \<Rightarrow> bool \<Rightarrow> regs" where
  "SetSDIOut_2Kx1080Enable r channel enable =
     (let regNum = tbl gChannelToSDIOutControlRegNum channel
      in ntv2WriteRegisterMS r regNum (if enable then 1 else 0) kK2RegMaskSDI1Out_2Kx1080Mode kK2RegShiftSDI1Out_2Kx1080Mode)"

definition GetSDIOut3GEnable :: "regs \<Rightarrow> nat \<Rightarrow> bool \<Rightarrow> bool \<times> bool" where
  "GetSDIOut3GEnable r channel enable =
     (let regNum = tbl gChannelToSDIOutControlRegNum channel;
          tempVal = ntv2ReadRegisterMS r regNum kLHIRegMaskSDIOut3GbpsMode kLHIRegShiftSDIOut3GbpsMode;
          retVal = True;
          enable = tempVal = 1
      in (retVal, enable))"

definition SetSDIOut3GEnable :: "regs \<Rightarrow> nat \<Rightarrow> bool \<Rightarrow> regs" where
  "SetSDIOut3GEnable r channel enable =
     (let regNum = tbl gChannelToSDIOutControlRegNum channel
      in ntv2WriteRegisterMS r regNum (if enable then 1 else 0) kLHIRegMaskSDIOut3GbpsMode kLHIRegShiftSDIOut3GbpsMode)"

definition GetSDIOut3GbEnable :: "regs \<Rightarrow> nat \<Rightarrow> bool \<Rightarrow> bool \<times> bool" where
  "GetSDIOut3GbEnable r channel enable =
     (let regNum = tbl gChannelToSDIOutControlRegNum channel;
          tempVal = ntv2ReadRegisterMS r regNum kLHIRegMaskSDIOutSMPTELevelBMode kLHIRegShiftSDIOutSMPTELevelBMode;
          retVal = True;
          enable = tempVal = 1
      in (retVal, enable))"

definition SetSDIOut3GbEnable :: "regs \<Rightarrow> nat \<Rightarrow> bool \<Rightarrow> regs" where
  "SetSDIOut3GbEnable r channel enable =
     (let regNum = tbl gChannelToSDIOutControlRegNum channel
      in ntv2WriteRegisterMS r regNum (if enable then 1 else 0) kLHIRegMaskSDIOutSMPTELevelBMode kLHIRegShiftSDIOutSMPTELevelBMode)"

definition GetSDIOut6GEnable :: "features \<Rightarrow> regs \<Rightarrow> nat \<Rightarrow> bool \<Rightarrow> bool \<times> bool" where
  "GetSDIOut6GEnable F r channel enable =
     (let regNum = tbl gChannelToSDIOutControlRegNum channel;
          deviceID = ntv2ReadRegister r kRegBoardID
      in if \<not> NTV2DeviceCanDo12GOut F deviceID channel
         then (False, enable)
         else (let is6G = ntv2ReadRegisterMS r regNum kRegMaskSDIOut6GbpsMode kRegShiftSDIOut6GbpsMode;
                   is12G = ntv2ReadRegisterMS r regNum kRegMaskSDIOut12GbpsMode kRegShiftSDIOut12GbpsMode;
                   retVal = True;
                   enable = (is6G = 1) \<and> (is12G = 0)
               in (retVal, enable)))"

definition SetSDIOut6GEnable :: "regs \<Rightarrow> nat \<Rightarrow> bool \<Rightarrow> regs" where
  "SetSDIOut6GEnable r channel enable =
     (let regNum = tbl gChannelToSDIOutControlRegNum channel
      in ntv2WriteRegisterMS r regNum (if enable then 1 else 0) kRegMaskSDIOut6GbpsMode kRegShiftSDIOut6GbpsMode)"

definition GetSDIOut12GEnable :: "features \<Rightarrow> regs \<Rightarrow> nat \<Rightarrow> bool \<Rightarrow> bool \<times> bool" where
  "GetSDIOut12GEnable F r channel enable =
     (let regNum = tbl gChannelToSDIOutControlRegNum channel;
          deviceID = ntv2ReadRegister r kRegBoardID
      in if \<not> NTV2DeviceCanDo12GOut F deviceID channel
         then (False, enable)
         else (let is12G = ntv2ReadRegisterMS r regNum kRegMaskSDIOut12GbpsMode kRegShiftSDIOut12GbpsMode;
                   retVal = True;
                   enable = is12G = 1
               in (retVal, enable)))"

definition SetSDIOut12GEnable :: "regs \<Rightarrow> nat \<Rightarrow> bool \<Rightarrow> regs" where
  "SetSDIOut12GEnable r channel enable =
     (let regNum = tbl gChannelToSDIOutControlRegNum channel
      in ntv2WriteRegisterMS r regNum (if enable then 1 else 0) kRegMaskSDIOut12GbpsMode kRegShiftSDIOut12GbpsMode)"

definition GetSDIOutRGBLevelAConversion :: "features \<Rightarrow> regs \<Rightarrow> nat \<Rightarrow> bool \<Rightarrow> bool \<times> bool" where
  "GetSDIOutRGBLevelAConversion F r channel enable =
     (let regNum = tbl gChannelToSDIOutControlRegNum channel;
          deviceID = ntv2ReadRegister r kRegBoardID
      in if \<not> NTV2DeviceCanDoRGBLevelAConversion F deviceID
         then (False, enable)
         else (let tempVal = ntv2ReadRegisterMS r regNum kRegMaskRGBLevelA kRegShiftRGBLevelA;
                   retVal = True;
                   enable = tempVal = 1
               in (retVal, enable)))"

definition GetSDIOutLevelAtoLevelBConversion :: "features \<Rightarrow> regs \<Rightarrow> nat \<Rightarrow> bool \<Rightarrow> bool \<times> bool" where
  "GetSDIOutLevelAtoLevelBConversion F r channel enable =
     (let regNum = tbl gChannelToSDIOutControlRegNum channel;
          deviceID = ntv2ReadRegister r kRegBoardID
      in if \<not> NTV2DeviceCanDo3GLevelConversion F deviceID
         then (False, enable)
         else (let tempVal = ntv2ReadRegisterMS r regNum kRegMaskSDIOutLevelAtoLevelB kRegShiftSDIOutLevelAtoLevelB;
                   retVal = True;
                   enable = tempVal = 1
               in (retVal, enable)))"

definition GetSDIInLevelBtoLevelAConversion :: "features \<Rightarrow> regs \<Rightarrow> nat \<Rightarrow> bool \<Rightarrow> bool \<times> bool" where
  "GetSDIInLevelBtoLevelAConversion F r channel enable =
     (let deviceID = ntv2ReadRegister r kRegBoardID
      in if \<not> NTV2DeviceCanDo3GLevelConversion F deviceID
         then (False, enable)
         else (let tempVal = ntv2ReadRegisterMS r (tbl gChannelToSDIInput3GStatusRegNum channel) (tbl gChannelToInputLevelConversionMasks channel) (tbl gChannelToInputLevelConversionShifts channel);
                   retVal = True;
                   enable = tempVal = 1
               in (retVal, enable)))"

definition GetSDIIn6GEnable :: "features \<Rightarrow> regs \<Rightarrow> nat \<Rightarrow> bool" where
  "GetSDIIn6GEnable F r channel =
     (let regNum = tbl gChannelToSDIInput3GStatusRegNum channel;
          deviceID = ntv2ReadRegister r kRegBoardID
      in if \<not> NTV2DeviceCanDo12GIn F deviceID channel
         then False
         else (let is6G = ntv2ReadRegisterMS r regNum (tbl gChannelToSDIIn6GModeMask channel) (tbl gChannelToSDIIn6GModeShift channel)
               in is6G = 1))"

definition GetSDIIn12GEnable :: "features \<Rightarrow> regs \<Rightarrow> nat \<Rightarrow> bool" where
  "GetSDIIn12GEnable F r channel =
     (let regNum = tbl gChannelToSDIInput3GStatusRegNum channel;
          deviceID = ntv2ReadRegister r kRegBoardID
      in if \<not> NTV2DeviceCanDo12GIn F deviceID channel
         then False
         else (let is12G = ntv2ReadRegisterMS r regNum (tbl gChannelToSDIIn12GModeMask channel) (tbl gChannelToSDIIn12GModeShift channel)
               in is12G = 1))"

definition GetInputVideoFormat :: "features \<Rightarrow> regs \<Rightarrow> nat \<Rightarrow> u32" where
  "GetInputVideoFormat F r channel =
     (let is3Gb = 0;
          regNum = tbl gChannelToInputStatesRegs channel;
          rateMask = tbl gChannelToInputStatusRateMasks channel;
          rateShift = tbl gChannelToInputStatusRateShifts channel;
          rateHighShift = tbl gChannelToInputStatusRateHighShifts channel;
          rateHighMask = tbl gChannelToInputStatusRateHighMasks channel;
          scanMask = tbl gChannelToScanMasks channel;
          scanShift = tbl gChannelToScanShifts channel;
          scanHighMask = tbl gChannelToScanHighMasks channel;
          scanHighShift = tbl gChannelToScanHighShifts channel;
          progressiveMask = tbl gChannelToProgressiveMasks channel;
          progressiveShift = tbl gChannelToProgressiveShifts channel;
          regNum3g = tbl gChannelToSDIInput3GStatusRegNum channel;
          mask3g = tbl gChannelToLevelBMasks channel;
          shift3g = tbl gChannelToLevelBShifts channel;
          deviceID = ntv2ReadRegister r kRegBoardID;
          inputStatus = ntv2ReadRegister r regNum;
          frameRate = drop_bit rateShift (inputStatus AND rateMask) OR push_bit 3 (drop_bit rateHighShift (inputStatus AND rateHighMask));
          scanGeometry = drop_bit scanShift (inputStatus AND scanMask) OR push_bit 3 (drop_bit scanHighShift (inputStatus AND scanHighMask));
          progressive = drop_bit progressiveShift (inputStatus AND progressiveMask);
          standard = GetStandardFromScanGeometry scanGeometry progressive;
          is2Kx1080 = IsScanGeometry2Kx1080 scanGeometry;
          (frameRate, standard, is3Gb) =
            (if NTV2DeviceCanDo3GIn F deviceID channel \<or> NTV2DeviceCanDo12GIn F deviceID channel
             then (let input3GStatus = ntv2ReadRegister r regNum3g
                   in if NTV2DeviceCanDo3GLevelConversion F deviceID
                      then (let bBToAEnabled = False;
                                (_, bBToAEnabled) = GetSDIInLevelBtoLevelAConversion F r channel bBToAEnabled;
                                is3Gb = if bBToAEnabled then of_bool False else drop_bit shift3g (input3GStatus AND mask3g);
                                standard = if bBToAEnabled then GetStandardFromScanGeometry scanGeometry (of_bool True) else standard;
                                frameRate =
                                  (if bBToAEnabled
                                   then (if frameRate = NTV2_FRAMERATE_3000
                                         then NTV2_FRAMERATE_6000
                                         else if frameRate = NTV2_FRAMERATE_2997
                                         then NTV2_FRAMERATE_5994
                                         else if frameRate = NTV2_FRAMERATE_2500
                                         then NTV2_FRAMERATE_5000
                                         else if frameRate = NTV2_FRAMERATE_2400
                                         then NTV2_FRAMERATE_4800
                                         else if frameRate = NTV2_FRAMERATE_2398 then NTV2_FRAMERATE_4795 else frameRate)
                                   else frameRate)
                            in (frameRate, standard, is3Gb))
                      else (let is3Gb = drop_bit shift3g (input3GStatus AND mask3g)
                            in (frameRate, standard, is3Gb)))
             else (frameRate, standard, is3Gb))
      in GetVideoFormatFromState standard frameRate is2Kx1080 is3Gb)"

definition GetHDMIInputVideoFormat :: "features \<Rightarrow> regs \<Rightarrow> u32" where
  "GetHDMIInputVideoFormat F r =
     (let deviceID = ntv2ReadRegister r kRegBoardID;
          is2kx1080 = 0
      in if NTV2DeviceCanDoInputSource F deviceID NTV2_INPUTSOURCE_HDMI1
         then (let hdmiVersion = NTV2DeviceGetHDMIVersion F deviceID;
                   status = ntv2ReadRegister r kRegHDMIInputStatus
               in if hdmiVersion = 1
                  then (if (status AND (BIT_0 OR BIT_1)) \<noteq> (BIT_0 OR BIT_1)
                        then NTV2_FORMAT_UNKNOWN
                        else (let standard = drop_bit kRegShiftInputStatusStd (status AND kRegMaskInputStatusStd);
                                  frameRate = drop_bit kRegShiftInputStatusFPS (status AND kRegMaskInputStatusFPS)
                              in GetVideoFormatFromState standard frameRate 0 0))
                  else if hdmiVersion \<ge> 2
                  then (if (status AND BIT_0) \<noteq> BIT_0
                        then NTV2_FORMAT_UNKNOWN
                        else (let frameRate = drop_bit kRegShiftInputStatusFPS (status AND kRegMaskInputStatusFPS);
                                  v2Standard = drop_bit kRegShiftHDMIInV2VideoStd (status AND kRegMaskHDMIInV2VideoStd)
                              in if v2Standard = NTV2_STANDARD_1080
                                 then (let standard = NTV2_STANDARD_1080;
                                           format = GetVideoFormatFromState standard frameRate is2kx1080 0
                                       in if NTV2_IS_QUAD_STANDARD v2Standard then GetQuadSizedVideoFormat format else format)
                                 else if v2Standard = NTV2_STANDARD_720
                                 then (let standard = NTV2_STANDARD_720;
                                           format = GetVideoFormatFromState standard frameRate is2kx1080 0
                                       in if NTV2_IS_QUAD_STANDARD v2Standard then GetQuadSizedVideoFormat format else format)
                                 else if v2Standard = NTV2_STANDARD_525
                                 then (let standard = NTV2_STANDARD_525;
                                           format = GetVideoFormatFromState standard frameRate is2kx1080 0
                                       in if NTV2_IS_QUAD_STANDARD v2Standard then GetQuadSizedVideoFormat format else format)
                                 else if v2Standard = NTV2_STANDARD_625
                                 then (let standard = NTV2_STANDARD_625;
                                           format = GetVideoFormatFromState standard frameRate is2kx1080 0
                                       in if NTV2_IS_QUAD_STANDARD v2Standard then GetQuadSizedVideoFormat format else format)
                                 else if v2Standard \<in> {NTV2_STANDARD_1080p, NTV2_STANDARD_3840x2160p}
                                 then (let standard = NTV2_STANDARD_1080p;
                                           format = GetVideoFormatFromState standard frameRate is2kx1080 0
                                       in if NTV2_IS_QUAD_STANDARD v2Standard then GetQuadSizedVideoFormat format else format)
                                 else if v2Standard \<in> {NTV2_STANDARD_2Kx1080p, NTV2_STANDARD_4096x2160p}
                                 then (let standard = NTV2_STANDARD_1080p;
                                           is2kx1080 = 1;
                                           format = GetVideoFormatFromState standard frameRate is2kx1080 0
                                       in if NTV2_IS_QUAD_STANDARD v2Standard then GetQuadSizedVideoFormat format else format)
                                 else NTV2_FORMAT_UNKNOWN))
                  else NTV2_FORMAT_UNKNOWN)
         else NTV2_FORMAT_UNKNOWN)"

definition GetAnalogInputVideoFormat :: "features \<Rightarrow> regs \<Rightarrow> u32" where
  "GetAnalogInputVideoFormat F r =
     (let deviceID = ntv2ReadRegister r kRegBoardID
      in if NTV2DeviceCanDoInputSource F deviceID NTV2_INPUTSOURCE_ANALOG1
         then (let status = ntv2ReadRegister r kRegAnalogInputStatus
               in if (status AND kRegMaskInputStatusLock) = 0
                  then NTV2_FORMAT_UNKNOWN
                  else (let standard = drop_bit kRegShiftInputStatusStd (status AND kRegMaskInputStatusStd);
                            frameRate = drop_bit kRegShiftInputStatusFPS (status AND kRegMaskInputStatusFPS)
                        in GetVideoFormatFromState standard frameRate 0 0))
         else NTV2_FORMAT_UNKNOWN)"

end
