(* ===== verification/Ntv2Rp188.thy ===== *)
theory Ntv2Rp188
  imports Ntv2Sdi
begin

text \<open>
  The timecodes of driver/ntv2rp188.c: the RP188 structures, the copy between the hardware
  registers, the frame stamp's structure and the user's array, and the SDI input status. A
  pointer to an entry of a structure that is only read is the entry's value; the copies are
  called with structures that exist, so their null checks are left out.
\<close>

record RP188_STRUCT =
  DBB :: u32
  Low :: u32
  High :: u32

record NTV2_RP188 =
  fDBB :: u32
  fLo :: u32
  fHi :: u32

record INTERNAL_TIMECODE_STRUCT =
  TCInOut1 :: RP188_STRUCT
  TCInOut2 :: RP188_STRUCT
  TCInOut3 :: RP188_STRUCT
  TCInOut4 :: RP188_STRUCT
  LTCEmbedded1 :: RP188_STRUCT
  LTCAnalog1 :: RP188_STRUCT
  LTCEmbedded2 :: RP188_STRUCT
  LTCAnalog2 :: RP188_STRUCT
  TCInOut5 :: RP188_STRUCT
  TCInOut6 :: RP188_STRUCT
  TCInOut7 :: RP188_STRUCT
  TCInOut8 :: RP188_STRUCT
  LTCEmbedded3 :: RP188_STRUCT
  LTCEmbedded4 :: RP188_STRUCT
  LTCEmbedded5 :: RP188_STRUCT
  LTCEmbedded6 :: RP188_STRUCT
  LTCEmbedded7 :: RP188_STRUCT
  LTCEmbedded8 :: RP188_STRUCT
  TCInOut1_2 :: RP188_STRUCT
  TCInOut2_2 :: RP188_STRUCT
  TCInOut3_2 :: RP188_STRUCT
  TCInOut4_2 :: RP188_STRUCT
  TCInOut5_2 :: RP188_STRUCT
  TCInOut6_2 :: RP188_STRUCT
  TCInOut7_2 :: RP188_STRUCT
  TCInOut8_2 :: RP188_STRUCT

record NTV2SDIInputStatus =
  mCRCTallyA :: u16
  mCRCTallyB :: u16
  mUnlockTally :: u32
  mFrameRefClockCount :: u64
  mGlobalClockCount :: u64
  mFrameTRSError :: bool
  mLocked :: bool
  mVPIDValidA :: bool
  mVPIDValidB :: bool

record INTERNAL_SDI_STATUS_STRUCT =
  SDIStatus1 :: NTV2SDIInputStatus
  SDIStatus2 :: NTV2SDIInputStatus
  SDIStatus3 :: NTV2SDIInputStatus
  SDIStatus4 :: NTV2SDIInputStatus
  SDIStatus5 :: NTV2SDIInputStatus
  SDIStatus6 :: NTV2SDIInputStatus
  SDIStatus7 :: NTV2SDIInputStatus
  SDIStatus8 :: NTV2SDIInputStatus

definition zero_RP188_STRUCT :: RP188_STRUCT where
  "zero_RP188_STRUCT = \<lparr>DBB = 0, Low = 0, High = 0\<rparr>"

definition ones_RP188_STRUCT :: RP188_STRUCT where
  "ones_RP188_STRUCT = \<lparr>DBB = 0xFFFFFFFF, Low = 0xFFFFFFFF, High = 0xFFFFFFFF\<rparr>"

text \<open>\<open>memset\<close> of the timecode structure to 0 and to \<open>0xFF\<close>.\<close>

definition zero_INTERNAL_TIMECODE_STRUCT :: INTERNAL_TIMECODE_STRUCT where
  "zero_INTERNAL_TIMECODE_STRUCT =
    \<lparr>TCInOut1 = zero_RP188_STRUCT,
     TCInOut2 = zero_RP188_STRUCT,
     TCInOut3 = zero_RP188_STRUCT,
     TCInOut4 = zero_RP188_STRUCT,
     LTCEmbedded1 = zero_RP188_STRUCT,
     LTCAnalog1 = zero_RP188_STRUCT,
     LTCEmbedded2 = zero_RP188_STRUCT,
     LTCAnalog2 = zero_RP188_STRUCT,
     TCInOut5 = zero_RP188_STRUCT,
     TCInOut6 = zero_RP188_STRUCT,
     TCInOut7 = zero_RP188_STRUCT,
     TCInOut8 = zero_RP188_STRUCT,
     LTCEmbedded3 = zero_RP188_STRUCT,
     LTCEmbedded4 = zero_RP188_STRUCT,
     LTCEmbedded5 = zero_RP188_STRUCT,
     LTCEmbedded6 = zero_RP188_STRUCT,
     LTCEmbedded7 = zero_RP188_STRUCT,
     LTCEmbedded8 = zero_RP188_STRUCT,
     TCInOut1_2 = zero_RP188_STRUCT,
     TCInOut2_2 = zero_RP188_STRUCT,
     TCInOut3_2 = zero_RP188_STRUCT,
     TCInOut4_2 = zero_RP188_STRUCT,
     TCInOut5_2 = zero_RP188_STRUCT,
     TCInOut6_2 = zero_RP188_STRUCT,
     TCInOut7_2 = zero_RP188_STRUCT,
     TCInOut8_2 = zero_RP188_STRUCT\<rparr>"

definition ones_INTERNAL_TIMECODE_STRUCT :: INTERNAL_TIMECODE_STRUCT where
  "ones_INTERNAL_TIMECODE_STRUCT =
    \<lparr>TCInOut1 = ones_RP188_STRUCT,
     TCInOut2 = ones_RP188_STRUCT,
     TCInOut3 = ones_RP188_STRUCT,
     TCInOut4 = ones_RP188_STRUCT,
     LTCEmbedded1 = ones_RP188_STRUCT,
     LTCAnalog1 = ones_RP188_STRUCT,
     LTCEmbedded2 = ones_RP188_STRUCT,
     LTCAnalog2 = ones_RP188_STRUCT,
     TCInOut5 = ones_RP188_STRUCT,
     TCInOut6 = ones_RP188_STRUCT,
     TCInOut7 = ones_RP188_STRUCT,
     TCInOut8 = ones_RP188_STRUCT,
     LTCEmbedded3 = ones_RP188_STRUCT,
     LTCEmbedded4 = ones_RP188_STRUCT,
     LTCEmbedded5 = ones_RP188_STRUCT,
     LTCEmbedded6 = ones_RP188_STRUCT,
     LTCEmbedded7 = ones_RP188_STRUCT,
     LTCEmbedded8 = ones_RP188_STRUCT,
     TCInOut1_2 = ones_RP188_STRUCT,
     TCInOut2_2 = ones_RP188_STRUCT,
     TCInOut3_2 = ones_RP188_STRUCT,
     TCInOut4_2 = ones_RP188_STRUCT,
     TCInOut5_2 = ones_RP188_STRUCT,
     TCInOut6_2 = ones_RP188_STRUCT,
     TCInOut7_2 = ones_RP188_STRUCT,
     TCInOut8_2 = ones_RP188_STRUCT\<rparr>"

definition RP188_IS_VALID :: "RP188_STRUCT \<Rightarrow> bool" where
  "RP188_IS_VALID n \<longleftrightarrow> DBB n \<noteq> 0xFFFFFFFF \<or> Low n \<noteq> 0xFFFFFFFF \<or> High n \<noteq> 0xFFFFFFFF"

definition NTV2_RP188_IS_VALID :: "NTV2_RP188 \<Rightarrow> bool" where
  "NTV2_RP188_IS_VALID n \<longleftrightarrow> fDBB n \<noteq> 0xFFFFFFFF \<or> fLo n \<noteq> 0xFFFFFFFF \<or> fHi n \<noteq> 0xFFFFFFFF"

definition RP188_STRUCT_from_NTV2_RP188 :: "NTV2_RP188 \<Rightarrow> RP188_STRUCT" where
  "RP188_STRUCT_from_NTV2_RP188 n = \<lparr>DBB = fDBB n, Low = fLo n, High = fHi n\<rparr>"

definition NTV2_RP188_from_RP188_STRUCT :: "RP188_STRUCT \<Rightarrow> NTV2_RP188" where
  "NTV2_RP188_from_RP188_STRUCT r = \<lparr>fDBB = DBB r, fLo = Low r, fHi = High r\<rparr>"

definition gChannelToRP188ModeMasks :: "u32 list" where
  "gChannelToRP188ModeMasks =
   [kRegMaskRP188ModeCh1, kRegMaskRP188ModeCh2, kRegMaskRP188ModeCh3, kRegMaskRP188ModeCh4,
    kRegMaskRP188ModeCh5, kRegMaskRP188ModeCh6, kRegMaskRP188ModeCh7, kRegMaskRP188ModeCh8, 0]"

definition gChannelToRP188ModeShifts :: "nat list" where
  "gChannelToRP188ModeShifts =
   [kRegShiftRP188ModeCh1, kRegShiftRP188ModeCh2, kRegShiftRP188ModeCh3, kRegShiftRP188ModeCh4,
    kRegShiftRP188ModeCh5, kRegShiftRP188ModeCh6, kRegShiftRP188ModeCh7, kRegShiftRP188ModeCh8, 0]"

definition gChannelToRP188DBBRegisterNum :: "u32 list" where
  "gChannelToRP188DBBRegisterNum =
   [kRegRP188InOut1DBB, kRegRP188InOut2DBB, kRegRP188InOut3DBB, kRegRP188InOut4DBB,
    kRegRP188InOut5DBB, kRegRP188InOut6DBB, kRegRP188InOut7DBB, kRegRP188InOut8DBB, 0]"

definition gChannelToRP188ModeGCRegisterNum :: "u32 list" where
  "gChannelToRP188ModeGCRegisterNum =
   [kRegGlobalControl, kRegGlobalControl, kRegGlobalControl2, kRegGlobalControl2,
    kRegGlobalControl2, kRegGlobalControl2, kRegGlobalControl2, kRegGlobalControl2, 0]"

definition gChannelToRP188Bits031RegisterNum :: "u32 list" where
  "gChannelToRP188Bits031RegisterNum =
   [kRegRP188InOut1Bits0_31, kRegRP188InOut2Bits0_31, kRegRP188InOut3Bits0_31,
    kRegRP188InOut4Bits0_31, kRegRP188InOut5Bits0_31, kRegRP188InOut6Bits0_31,
    kRegRP188InOut7Bits0_31, kRegRP188InOut8Bits0_31, 0]"

definition gChannelToRP188Bits3263RegisterNum :: "u32 list" where
  "gChannelToRP188Bits3263RegisterNum =
   [kRegRP188InOut1Bits32_63, kRegRP188InOut2Bits32_63, kRegRP188InOut3Bits32_63,
    kRegRP188InOut4Bits32_63, kRegRP188InOut5Bits32_63, kRegRP188InOut6Bits32_63,
    kRegRP188InOut7Bits32_63, kRegRP188InOut8Bits32_63, 0]"

definition gChannelToRP188Bits031_2RegisterNum :: "u32 list" where
  "gChannelToRP188Bits031_2RegisterNum =
   [kRegRP188InOut1Bits0_31_2, kRegRP188InOut2Bits0_31_2, kRegRP188InOut3Bits0_31_2,
    kRegRP188InOut4Bits0_31_2, kRegRP188InOut5Bits0_31_2, kRegRP188InOut6Bits0_31_2,
    kRegRP188InOut7Bits0_31_2, kRegRP188InOut8Bits0_31_2, 0]"

definition gChannelToRP188Bits3263_2RegisterNum :: "u32 list" where
  "gChannelToRP188Bits3263_2RegisterNum =
   [kRegRP188InOut1Bits32_63_2, kRegRP188InOut2Bits32_63_2, kRegRP188InOut3Bits32_63_2,
    kRegRP188InOut4Bits32_63_2, kRegRP188InOut5Bits32_63_2, kRegRP188InOut6Bits32_63_2,
    kRegRP188InOut7Bits32_63_2, kRegRP188InOut8Bits32_63_2, 0]"

definition gChannelToLTCEmbeddedBits031RegisterNum :: "u32 list" where
  "gChannelToLTCEmbeddedBits031RegisterNum =
   [kRegLTCEmbeddedBits0_31, kRegLTC2EmbeddedBits0_31, kRegLTC3EmbeddedBits0_31,
    kRegLTC4EmbeddedBits0_31, kRegLTC5EmbeddedBits0_31, kRegLTC6EmbeddedBits0_31,
    kRegLTC7EmbeddedBits0_31, kRegLTC8EmbeddedBits0_31, 0]"

definition gChannelToLTCEmbeddedBits3263RegisterNum :: "u32 list" where
  "gChannelToLTCEmbeddedBits3263RegisterNum =
   [kRegLTCEmbeddedBits32_63, kRegLTC2EmbeddedBits32_63, kRegLTC3EmbeddedBits32_63,
    kRegLTC4EmbeddedBits32_63, kRegLTC5EmbeddedBits32_63, kRegLTC6EmbeddedBits32_63,
    kRegLTC7EmbeddedBits32_63, kRegLTC8EmbeddedBits32_63, 0]"

definition gChannelToRXSDIStatusRegs :: "u32 list" where
  "gChannelToRXSDIStatusRegs =
   [kRegRXSDI1Status, kRegRXSDI2Status, kRegRXSDI3Status, kRegRXSDI4Status, kRegRXSDI5Status,
    kRegRXSDI6Status, kRegRXSDI7Status, kRegRXSDI8Status, 0]"

definition gChannelToRXSDICRCErrorCountRegs :: "u32 list" where
  "gChannelToRXSDICRCErrorCountRegs =
   [kRegRXSDI1CRCErrorCount, kRegRXSDI2CRCErrorCount, kRegRXSDI3CRCErrorCount,
    kRegRXSDI4CRCErrorCount, kRegRXSDI5CRCErrorCount, kRegRXSDI6CRCErrorCount,
    kRegRXSDI7CRCErrorCount, kRegRXSDI8CRCErrorCount, 0]"

definition gChannelToRXSDIFrameRefCountLoRegs :: "u32 list" where
  "gChannelToRXSDIFrameRefCountLoRegs =
   [kRegRXSDI1FrameRefCountLow, kRegRXSDI2FrameRefCountLow, kRegRXSDI3FrameRefCountLow,
    kRegRXSDI4FrameRefCountLow, kRegRXSDI5FrameRefCountLow, kRegRXSDI6FrameRefCountLow,
    kRegRXSDI7FrameRefCountLow, kRegRXSDI8FrameRefCountLow, 0]"

definition gChannelToRXSDIFrameRefCountHiRegs :: "u32 list" where
  "gChannelToRXSDIFrameRefCountHiRegs =
   [kRegRXSDI1FrameRefCountHigh, kRegRXSDI2FrameRefCountHigh, kRegRXSDI3FrameRefCountHigh,
    kRegRXSDI4FrameRefCountHigh, kRegRXSDI5FrameRefCountHigh, kRegRXSDI6FrameRefCountHigh,
    kRegRXSDI7FrameRefCountHigh, kRegRXSDI8FrameRefCountHigh, 0]"

definition ClearFrameStampTCArray :: "INTERNAL_TIMECODE_STRUCT" where
  "ClearFrameStampTCArray = ones_INTERNAL_TIMECODE_STRUCT"

definition CopyNTV2TimeCodeArrayToFrameStampTCArray :: "INTERNAL_TIMECODE_STRUCT \<Rightarrow> NTV2_RP188 list \<Rightarrow> u32 \<Rightarrow> bool \<times> INTERNAL_TIMECODE_STRUCT" where
  "CopyNTV2TimeCodeArrayToFrameStampTCArray internalTCArray pInTCArray inMaxBytes =
     (let maxNumElements = inMaxBytes div 12
      in if \<not> (pInTCArray \<noteq> [])
         then (False, internalTCArray)
         else if \<not> (maxNumElements \<noteq> 0)
         then (False, internalTCArray)
         else if maxNumElements < NTV2_MAX_NUM_TIMECODE_INDEXES
         then (False, internalTCArray)
         else (let internalTCArray = ClearFrameStampTCArray;
                   internalTCArray =
                     (if NTV2_RP188_IS_VALID (tbl pInTCArray (unat NTV2_TCINDEX_SDI1))
                      then internalTCArray\<lparr>TCInOut1 := RP188_STRUCT_from_NTV2_RP188 (tbl pInTCArray (unat NTV2_TCINDEX_SDI1))\<rparr>
                      else internalTCArray);
                   internalTCArray =
                     (if NTV2_RP188_IS_VALID (tbl pInTCArray (unat NTV2_TCINDEX_SDI1_2))
                      then internalTCArray\<lparr>TCInOut1_2 := RP188_STRUCT_from_NTV2_RP188 (tbl pInTCArray (unat NTV2_TCINDEX_SDI1_2))\<rparr>
                      else internalTCArray);
                   internalTCArray =
                     (if NTV2_RP188_IS_VALID (tbl pInTCArray (unat NTV2_TCINDEX_SDI1_LTC))
                      then internalTCArray\<lparr>LTCEmbedded1 := RP188_STRUCT_from_NTV2_RP188 (tbl pInTCArray (unat NTV2_TCINDEX_SDI1_LTC))\<rparr>
                      else internalTCArray);
                   internalTCArray =
                     (if NTV2_RP188_IS_VALID (tbl pInTCArray (unat NTV2_TCINDEX_SDI2))
                      then internalTCArray\<lparr>TCInOut2 := RP188_STRUCT_from_NTV2_RP188 (tbl pInTCArray (unat NTV2_TCINDEX_SDI2))\<rparr>
                      else internalTCArray);
                   internalTCArray =
                     (if NTV2_RP188_IS_VALID (tbl pInTCArray (unat NTV2_TCINDEX_SDI2_2))
                      then internalTCArray\<lparr>TCInOut2_2 := RP188_STRUCT_from_NTV2_RP188 (tbl pInTCArray (unat NTV2_TCINDEX_SDI2_2))\<rparr>
                      else internalTCArray);
                   internalTCArray =
                     (if NTV2_RP188_IS_VALID (tbl pInTCArray (unat NTV2_TCINDEX_SDI2_LTC))
                      then internalTCArray\<lparr>LTCEmbedded2 := RP188_STRUCT_from_NTV2_RP188 (tbl pInTCArray (unat NTV2_TCINDEX_SDI2_LTC))\<rparr>
                      else internalTCArray);
                   internalTCArray =
                     (if NTV2_RP188_IS_VALID (tbl pInTCArray (unat NTV2_TCINDEX_SDI3))
                      then internalTCArray\<lparr>TCInOut3 := RP188_STRUCT_from_NTV2_RP188 (tbl pInTCArray (unat NTV2_TCINDEX_SDI3))\<rparr>
                      else internalTCArray);
                   internalTCArray =
                     (if NTV2_RP188_IS_VALID (tbl pInTCArray (unat NTV2_TCINDEX_SDI3_2))
                      then internalTCArray\<lparr>TCInOut3_2 := RP188_STRUCT_from_NTV2_RP188 (tbl pInTCArray (unat NTV2_TCINDEX_SDI3_2))\<rparr>
                      else internalTCArray);
                   internalTCArray =
                     (if NTV2_RP188_IS_VALID (tbl pInTCArray (unat NTV2_TCINDEX_SDI3_LTC))
                      then internalTCArray\<lparr>LTCEmbedded3 := RP188_STRUCT_from_NTV2_RP188 (tbl pInTCArray (unat NTV2_TCINDEX_SDI3_LTC))\<rparr>
                      else internalTCArray);
                   internalTCArray =
                     (if NTV2_RP188_IS_VALID (tbl pInTCArray (unat NTV2_TCINDEX_SDI4))
                      then internalTCArray\<lparr>TCInOut4 := RP188_STRUCT_from_NTV2_RP188 (tbl pInTCArray (unat NTV2_TCINDEX_SDI4))\<rparr>
                      else internalTCArray);
                   internalTCArray =
                     (if NTV2_RP188_IS_VALID (tbl pInTCArray (unat NTV2_TCINDEX_SDI4_2))
                      then internalTCArray\<lparr>TCInOut4_2 := RP188_STRUCT_from_NTV2_RP188 (tbl pInTCArray (unat NTV2_TCINDEX_SDI4_2))\<rparr>
                      else internalTCArray);
                   internalTCArray =
                     (if NTV2_RP188_IS_VALID (tbl pInTCArray (unat NTV2_TCINDEX_SDI4_LTC))
                      then internalTCArray\<lparr>LTCEmbedded4 := RP188_STRUCT_from_NTV2_RP188 (tbl pInTCArray (unat NTV2_TCINDEX_SDI4_LTC))\<rparr>
                      else internalTCArray);
                   internalTCArray =
                     (if NTV2_RP188_IS_VALID (tbl pInTCArray (unat NTV2_TCINDEX_SDI5))
                      then internalTCArray\<lparr>TCInOut5 := RP188_STRUCT_from_NTV2_RP188 (tbl pInTCArray (unat NTV2_TCINDEX_SDI5))\<rparr>
                      else internalTCArray);
                   internalTCArray =
                     (if NTV2_RP188_IS_VALID (tbl pInTCArray (unat NTV2_TCINDEX_SDI5_2))
                      then internalTCArray\<lparr>TCInOut5_2 := RP188_STRUCT_from_NTV2_RP188 (tbl pInTCArray (unat NTV2_TCINDEX_SDI5_2))\<rparr>
                      else internalTCArray);
                   internalTCArray =
                     (if NTV2_RP188_IS_VALID (tbl pInTCArray (unat NTV2_TCINDEX_SDI5_LTC))
                      then internalTCArray\<lparr>LTCEmbedded5 := RP188_STRUCT_from_NTV2_RP188 (tbl pInTCArray (unat NTV2_TCINDEX_SDI5_LTC))\<rparr>
                      else internalTCArray);
                   internalTCArray =
                     (if NTV2_RP188_IS_VALID (tbl pInTCArray (unat NTV2_TCINDEX_SDI6))
                      then internalTCArray\<lparr>TCInOut6 := RP188_STRUCT_from_NTV2_RP188 (tbl pInTCArray (unat NTV2_TCINDEX_SDI6))\<rparr>
                      else internalTCArray);
                   internalTCArray =
                     (if NTV2_RP188_IS_VALID (tbl pInTCArray (unat NTV2_TCINDEX_SDI6_2))
                      then internalTCArray\<lparr>TCInOut6_2 := RP188_STRUCT_from_NTV2_RP188 (tbl pInTCArray (unat NTV2_TCINDEX_SDI6_2))\<rparr>
                      else internalTCArray);
                   internalTCArray =
                     (if NTV2_RP188_IS_VALID (tbl pInTCArray (unat NTV2_TCINDEX_SDI6_LTC))
                      then internalTCArray\<lparr>LTCEmbedded6 := RP188_STRUCT_from_NTV2_RP188 (tbl pInTCArray (unat NTV2_TCINDEX_SDI6_LTC))\<rparr>
                      else internalTCArray);
                   internalTCArray =
                     (if NTV2_RP188_IS_VALID (tbl pInTCArray (unat NTV2_TCINDEX_SDI7))
                      then internalTCArray\<lparr>TCInOut7 := RP188_STRUCT_from_NTV2_RP188 (tbl pInTCArray (unat NTV2_TCINDEX_SDI7))\<rparr>
                      else internalTCArray);
                   internalTCArray =
                     (if NTV2_RP188_IS_VALID (tbl pInTCArray (unat NTV2_TCINDEX_SDI7_2))
                      then internalTCArray\<lparr>TCInOut7_2 := RP188_STRUCT_from_NTV2_RP188 (tbl pInTCArray (unat NTV2_TCINDEX_SDI7_2))\<rparr>
                      else internalTCArray);
                   internalTCArray =
                     (if NTV2_RP188_IS_VALID (tbl pInTCArray (unat NTV2_TCINDEX_SDI7_LTC))
                      then internalTCArray\<lparr>LTCEmbedded7 := RP188_STRUCT_from_NTV2_RP188 (tbl pInTCArray (unat NTV2_TCINDEX_SDI7_LTC))\<rparr>
                      else internalTCArray);
                   internalTCArray =
                     (if NTV2_RP188_IS_VALID (tbl pInTCArray (unat NTV2_TCINDEX_SDI8))
                      then internalTCArray\<lparr>TCInOut8 := RP188_STRUCT_from_NTV2_RP188 (tbl pInTCArray (unat NTV2_TCINDEX_SDI8))\<rparr>
                      else internalTCArray);
                   internalTCArray =
                     (if NTV2_RP188_IS_VALID (tbl pInTCArray (unat NTV2_TCINDEX_SDI8_2))
                      then internalTCArray\<lparr>TCInOut8_2 := RP188_STRUCT_from_NTV2_RP188 (tbl pInTCArray (unat NTV2_TCINDEX_SDI8_2))\<rparr>
                      else internalTCArray);
                   internalTCArray =
                     (if NTV2_RP188_IS_VALID (tbl pInTCArray (unat NTV2_TCINDEX_SDI8_LTC))
                      then internalTCArray\<lparr>LTCEmbedded8 := RP188_STRUCT_from_NTV2_RP188 (tbl pInTCArray (unat NTV2_TCINDEX_SDI8_LTC))\<rparr>
                      else internalTCArray);
                   internalTCArray =
                     (if NTV2_RP188_IS_VALID (tbl pInTCArray (unat NTV2_TCINDEX_LTC1))
                      then internalTCArray\<lparr>LTCAnalog1 := RP188_STRUCT_from_NTV2_RP188 (tbl pInTCArray (unat NTV2_TCINDEX_LTC1))\<rparr>
                      else internalTCArray);
                   internalTCArray =
                     (if NTV2_RP188_IS_VALID (tbl pInTCArray (unat NTV2_TCINDEX_LTC2))
                      then internalTCArray\<lparr>LTCAnalog2 := RP188_STRUCT_from_NTV2_RP188 (tbl pInTCArray (unat NTV2_TCINDEX_LTC2))\<rparr>
                      else internalTCArray)
               in (True, internalTCArray)))"

definition CopyFrameStampTCArrayToNTV2TimeCodeArray :: "INTERNAL_TIMECODE_STRUCT \<Rightarrow> NTV2_RP188 list \<Rightarrow> u32 \<Rightarrow> bool \<times> NTV2_RP188 list" where
  "CopyFrameStampTCArrayToNTV2TimeCodeArray tcStruct pOutTCArray inMaxBytes =
     (let maxNumElements = inMaxBytes div 12
      in if \<not> (pOutTCArray \<noteq> [])
         then (False, pOutTCArray)
         else if \<not> (maxNumElements \<noteq> 0)
         then (False, pOutTCArray)
         else if maxNumElements < NTV2_MAX_NUM_TIMECODE_INDEXES
         then (False, pOutTCArray)
         else (let pOutTCArray = pOutTCArray[unat NTV2_TCINDEX_SDI1 := NTV2_RP188_from_RP188_STRUCT (TCInOut1 tcStruct)];
                   pOutTCArray = pOutTCArray[unat NTV2_TCINDEX_SDI1_2 := NTV2_RP188_from_RP188_STRUCT (TCInOut1_2 tcStruct)];
                   pOutTCArray = pOutTCArray[unat NTV2_TCINDEX_SDI1_LTC := NTV2_RP188_from_RP188_STRUCT (LTCEmbedded1 tcStruct)];
                   pOutTCArray = pOutTCArray[unat NTV2_TCINDEX_SDI2 := NTV2_RP188_from_RP188_STRUCT (TCInOut2 tcStruct)];
                   pOutTCArray = pOutTCArray[unat NTV2_TCINDEX_SDI2_2 := NTV2_RP188_from_RP188_STRUCT (TCInOut2_2 tcStruct)];
                   pOutTCArray = pOutTCArray[unat NTV2_TCINDEX_SDI2_LTC := NTV2_RP188_from_RP188_STRUCT (LTCEmbedded2 tcStruct)];
                   pOutTCArray = pOutTCArray[unat NTV2_TCINDEX_SDI3 := NTV2_RP188_from_RP188_STRUCT (TCInOut3 tcStruct)];
                   pOutTCArray = pOutTCArray[unat NTV2_TCINDEX_SDI3_2 := NTV2_RP188_from_RP188_STRUCT (TCInOut3_2 tcStruct)];
                   pOutTCArray = pOutTCArray[unat NTV2_TCINDEX_SDI3_LTC := NTV2_RP188_from_RP188_STRUCT (LTCEmbedded3 tcStruct)];
                   pOutTCArray = pOutTCArray[unat NTV2_TCINDEX_SDI4 := NTV2_RP188_from_RP188_STRUCT (TCInOut4 tcStruct)];
                   pOutTCArray = pOutTCArray[unat NTV2_TCINDEX_SDI4_2 := NTV2_RP188_from_RP188_STRUCT (TCInOut4_2 tcStruct)];
                   pOutTCArray = pOutTCArray[unat NTV2_TCINDEX_SDI4_LTC := NTV2_RP188_from_RP188_STRUCT (LTCEmbedded4 tcStruct)];
                   pOutTCArray = pOutTCArray[unat NTV2_TCINDEX_SDI5 := NTV2_RP188_from_RP188_STRUCT (TCInOut5 tcStruct)];
                   pOutTCArray = pOutTCArray[unat NTV2_TCINDEX_SDI5_2 := NTV2_RP188_from_RP188_STRUCT (TCInOut5_2 tcStruct)];
                   pOutTCArray = pOutTCArray[unat NTV2_TCINDEX_SDI5_LTC := NTV2_RP188_from_RP188_STRUCT (LTCEmbedded5 tcStruct)];
                   pOutTCArray = pOutTCArray[unat NTV2_TCINDEX_SDI6 := NTV2_RP188_from_RP188_STRUCT (TCInOut6 tcStruct)];
                   pOutTCArray = pOutTCArray[unat NTV2_TCINDEX_SDI6_2 := NTV2_RP188_from_RP188_STRUCT (TCInOut6_2 tcStruct)];
                   pOutTCArray = pOutTCArray[unat NTV2_TCINDEX_SDI6_LTC := NTV2_RP188_from_RP188_STRUCT (LTCEmbedded6 tcStruct)];
                   pOutTCArray = pOutTCArray[unat NTV2_TCINDEX_SDI7 := NTV2_RP188_from_RP188_STRUCT (TCInOut7 tcStruct)];
                   pOutTCArray = pOutTCArray[unat NTV2_TCINDEX_SDI7_2 := NTV2_RP188_from_RP188_STRUCT (TCInOut7_2 tcStruct)];
                   pOutTCArray = pOutTCArray[unat NTV2_TCINDEX_SDI7_LTC := NTV2_RP188_from_RP188_STRUCT (LTCEmbedded7 tcStruct)];
                   pOutTCArray = pOutTCArray[unat NTV2_TCINDEX_SDI8 := NTV2_RP188_from_RP188_STRUCT (TCInOut8 tcStruct)];
                   pOutTCArray = pOutTCArray[unat NTV2_TCINDEX_SDI8_2 := NTV2_RP188_from_RP188_STRUCT (TCInOut8_2 tcStruct)];
                   pOutTCArray = pOutTCArray[unat NTV2_TCINDEX_SDI8_LTC := NTV2_RP188_from_RP188_STRUCT (LTCEmbedded8 tcStruct)];
                   pOutTCArray = pOutTCArray[unat NTV2_TCINDEX_LTC1 := NTV2_RP188_from_RP188_STRUCT (LTCAnalog1 tcStruct)];
                   pOutTCArray = pOutTCArray[unat NTV2_TCINDEX_LTC2 := NTV2_RP188_from_RP188_STRUCT (LTCAnalog2 tcStruct)]
               in (True, pOutTCArray)))"

definition CopyFrameStampSDIStatusArrayToNTV2SDIStatusArray :: "INTERNAL_SDI_STATUS_STRUCT \<Rightarrow> NTV2SDIInputStatus list \<Rightarrow> u32 \<Rightarrow> bool \<times> NTV2SDIInputStatus list" where
  "CopyFrameStampSDIStatusArrayToNTV2SDIStatusArray sdiStruct pOutStatusArray inMaxBytes =
     (let maxNumElements = inMaxBytes div 28
      in if \<not> (pOutStatusArray \<noteq> [])
         then (False, pOutStatusArray)
         else if \<not> (maxNumElements \<noteq> 0)
         then (False, pOutStatusArray)
         else if maxNumElements < of_nat NTV2_MAX_NUM_CHANNELS
         then (False, pOutStatusArray)
         else (let pOutStatusArray = pOutStatusArray[NTV2_CHANNEL1 := SDIStatus1 sdiStruct];
                   pOutStatusArray = pOutStatusArray[NTV2_CHANNEL2 := SDIStatus2 sdiStruct];
                   pOutStatusArray = pOutStatusArray[NTV2_CHANNEL3 := SDIStatus3 sdiStruct];
                   pOutStatusArray = pOutStatusArray[NTV2_CHANNEL4 := SDIStatus4 sdiStruct];
                   pOutStatusArray = pOutStatusArray[NTV2_CHANNEL5 := SDIStatus5 sdiStruct];
                   pOutStatusArray = pOutStatusArray[NTV2_CHANNEL6 := SDIStatus6 sdiStruct];
                   pOutStatusArray = pOutStatusArray[NTV2_CHANNEL7 := SDIStatus7 sdiStruct];
                   pOutStatusArray = pOutStatusArray[NTV2_CHANNEL8 := SDIStatus8 sdiStruct]
               in (True, pOutStatusArray)))"

definition GetReceivedTCForChannel :: "features \<Rightarrow> regs \<Rightarrow> nat \<Rightarrow> RP188_STRUCT \<Rightarrow> RP188_STRUCT \<Rightarrow> RP188_STRUCT \<Rightarrow> bool \<times> RP188_STRUCT \<times> RP188_STRUCT \<times> RP188_STRUCT" where
  "GetReceivedTCForChannel F r channel LTCIn VITC1In VITC2In =
     (let channelFormat = GetBoardVideoFormat F r channel;
          receivedAnyRP188 = ntv2ReadRegisterMS r (tbl gChannelToRP188DBBRegisterNum channel) BIT_16 16
      in if receivedAnyRP188 = 0
         then (False, LTCIn, VITC1In, VITC2In)
         else (let inputFilter = ntv2ReadRegisterMS r (tbl gChannelToRP188DBBRegisterNum channel) kRegMaskRP188SourceSelect kRegShiftRP188Source;
                   (LTCIn, VITC1In, VITC2In) =
                     (if inputFilter = 0x0000
                      then (let receivedLTC = ntv2ReadRegisterMS r (tbl gChannelToRP188DBBRegisterNum channel) BIT_17 17;
                                LTCIn =
                                  (if receivedLTC = 1
                                   then (let LTCIn = LTCIn\<lparr>DBB := ntv2ReadRegister r (tbl gChannelToRP188DBBRegisterNum channel)\<rparr>;
                                             LTCIn = LTCIn\<lparr>Low := ntv2ReadRegister r (tbl gChannelToRP188Bits031RegisterNum channel)\<rparr>
                                         in LTCIn\<lparr>High := ntv2ReadRegister r (tbl gChannelToRP188Bits3263RegisterNum channel)\<rparr>)
                                   else LTCIn)
                            in (LTCIn, VITC1In, VITC2In))
                      else if inputFilter = 0x0001
                      then (let receivedLTC = ntv2ReadRegisterMS r (tbl gChannelToRP188DBBRegisterNum channel) BIT_18 18;
                                receivedLTC =
                                  (if (receivedLTC = 0) \<and> (channel = NTV2_CHANNEL1)
                                   then ntv2ReadRegisterMS r 95 BIT_9 9
                                   else receivedLTC);
                                LTCIn =
                                  (if receivedLTC = 1
                                   then (let LTCIn = LTCIn\<lparr>DBB := ntv2ReadRegister r (tbl gChannelToRP188DBBRegisterNum channel)\<rparr>;
                                             LTCIn = LTCIn\<lparr>DBB := DBB LTCIn OR BIT_18\<rparr>;
                                             LTCIn = LTCIn\<lparr>Low := ntv2ReadRegister r (tbl gChannelToLTCEmbeddedBits031RegisterNum channel)\<rparr>
                                         in LTCIn\<lparr>High := ntv2ReadRegister r (tbl gChannelToLTCEmbeddedBits3263RegisterNum channel)\<rparr>)
                                   else LTCIn);
                                receivedVITC1 = ntv2ReadRegisterMS r (tbl gChannelToRP188DBBRegisterNum channel) BIT_17 17;
                                VITC1In =
                                  (if receivedVITC1 = 1
                                   then (let VITC1In = VITC1In\<lparr>DBB := ntv2ReadRegister r (tbl gChannelToRP188DBBRegisterNum channel)\<rparr>;
                                             VITC1In = VITC1In\<lparr>Low := ntv2ReadRegister r (tbl gChannelToRP188Bits031RegisterNum channel)\<rparr>
                                         in VITC1In\<lparr>High := ntv2ReadRegister r (tbl gChannelToRP188Bits3263RegisterNum channel)\<rparr>)
                                   else VITC1In)
                            in (LTCIn, VITC1In, VITC2In))
                      else (let receivedLTC = ntv2ReadRegisterMS r (tbl gChannelToRP188DBBRegisterNum channel) BIT_18 18;
                                receivedLTC =
                                  (if (receivedLTC = 0) \<and> (channel = NTV2_CHANNEL1)
                                   then ntv2ReadRegisterMS r 95 BIT_9 9
                                   else receivedLTC);
                                LTCIn =
                                  (if receivedLTC = 1
                                   then (let LTCIn = LTCIn\<lparr>DBB := ntv2ReadRegister r (tbl gChannelToRP188DBBRegisterNum channel)\<rparr>;
                                             LTCIn = LTCIn\<lparr>DBB := DBB LTCIn OR BIT_18\<rparr>;
                                             LTCIn = LTCIn\<lparr>Low := ntv2ReadRegister r (tbl gChannelToLTCEmbeddedBits031RegisterNum channel)\<rparr>
                                         in LTCIn\<lparr>High := ntv2ReadRegister r (tbl gChannelToLTCEmbeddedBits3263RegisterNum channel)\<rparr>)
                                   else LTCIn);
                                receivedVITC1 = ntv2ReadRegisterMS r (tbl gChannelToRP188DBBRegisterNum channel) BIT_19 19;
                                receivedVITC2 = ntv2ReadRegisterMS r (tbl gChannelToRP188DBBRegisterNum channel) BIT_17 17;
                                (VITC1In, VITC2In) =
                                  (if (receivedVITC1 = 1) \<and> (receivedVITC2 = 1)
                                   then (let VITC1In = VITC1In\<lparr>DBB := ntv2ReadRegister r (tbl gChannelToRP188DBBRegisterNum channel)\<rparr>;
                                             VITC1In = VITC1In\<lparr>Low := ntv2ReadRegister r (tbl gChannelToRP188Bits031_2RegisterNum channel)\<rparr>;
                                             VITC1In = VITC1In\<lparr>High := ntv2ReadRegister r (tbl gChannelToRP188Bits3263_2RegisterNum channel)\<rparr>;
                                             VITC2In = VITC2In\<lparr>DBB := ntv2ReadRegister r (tbl gChannelToRP188DBBRegisterNum channel)\<rparr>;
                                             VITC2In = VITC2In\<lparr>Low := ntv2ReadRegister r (tbl gChannelToRP188Bits031RegisterNum channel)\<rparr>;
                                             VITC2In = VITC2In\<lparr>High := ntv2ReadRegister r (tbl gChannelToRP188Bits3263RegisterNum channel)\<rparr>
                                         in (VITC1In, VITC2In))
                                   else (let VITC1In =
                                               (if receivedVITC1 = 1
                                                then (let VITC1In = VITC1In\<lparr>DBB := ntv2ReadRegister r (tbl gChannelToRP188DBBRegisterNum channel)\<rparr>;
                                                          VITC1In = VITC1In\<lparr>Low := ntv2ReadRegister r (tbl gChannelToRP188Bits031_2RegisterNum channel)\<rparr>
                                                      in VITC1In\<lparr>High := ntv2ReadRegister r (tbl gChannelToRP188Bits3263_2RegisterNum channel)\<rparr>)
                                                else VITC1In)
                                         in if receivedVITC2 = 1
                                            then (if \<not> NTV2_VIDEO_FORMAT_HAS_PROGRESSIVE_PICTURE channelFormat
                                                  then (let VITC2In = VITC2In\<lparr>DBB := ntv2ReadRegister r (tbl gChannelToRP188DBBRegisterNum channel)\<rparr>;
                                                            VITC2In = VITC2In\<lparr>Low := ntv2ReadRegister r (tbl gChannelToRP188Bits031RegisterNum channel)\<rparr>;
                                                            VITC2In = VITC2In\<lparr>High := ntv2ReadRegister r (tbl gChannelToRP188Bits3263RegisterNum channel)\<rparr>
                                                        in (VITC1In, VITC2In))
                                                  else (let VITC1In = VITC1In\<lparr>DBB := ntv2ReadRegister r (tbl gChannelToRP188DBBRegisterNum channel)\<rparr>;
                                                            VITC1In = VITC1In\<lparr>Low := ntv2ReadRegister r (tbl gChannelToRP188Bits031RegisterNum channel)\<rparr>;
                                                            VITC1In = VITC1In\<lparr>High := ntv2ReadRegister r (tbl gChannelToRP188Bits3263RegisterNum channel)\<rparr>
                                                        in (VITC1In, VITC2In)))
                                            else (VITC1In, VITC2In)))
                            in (LTCIn, VITC1In, VITC2In)))
               in (True, LTCIn, VITC1In, VITC2In)))"

text \<open>
  The two results of \<open>GetReceivedAnalogLTC\<close> are pointers that may be null: an option, \<open>None\<close>
  the null pointer, which stays null.
\<close>

definition GetReceivedAnalogLTC :: "regs \<Rightarrow> RP188_STRUCT option \<Rightarrow> RP188_STRUCT option \<Rightarrow> RP188_STRUCT option \<times> RP188_STRUCT option" where
  "GetReceivedAnalogLTC r LTCAnalog1In LTCAnalog2In =
     (let receivedAnalogLTC1 = ntv2ReadRegisterMS r kRegLTCStatusControl BIT_0 0;
          receivedAnalogLTC1 =
            (if receivedAnalogLTC1 = 0
             then ntv2ReadRegisterMS r kRegStatus BIT_17 17
             else receivedAnalogLTC1);
          receivedAnalogLTC1 =
            (if receivedAnalogLTC1 = 0
             then ntv2ReadRegisterMS r kRegFS1ReferenceSelect BIT_6 6
             else receivedAnalogLTC1);
          LTCAnalog1In =
            (if receivedAnalogLTC1 = 1 \<and> LTCAnalog1In \<noteq> None
             then Some \<lparr>DBB = 0x0, Low = ntv2ReadRegister r kRegLTCAnalogBits0_31, High = ntv2ReadRegister r kRegLTCAnalogBits32_63\<rparr>
             else LTCAnalog1In);
          receivedAnalogLTC2 = ntv2ReadRegisterMS r kRegLTCStatusControl BIT_8 8;
          LTCAnalog2In =
            (if receivedAnalogLTC2 = 1 \<and> LTCAnalog2In \<noteq> None
             then Some \<lparr>DBB = 0x0, Low = ntv2ReadRegister r kRegLTC2AnalogBits0_31, High = ntv2ReadRegister r kRegLTC2AnalogBits32_63\<rparr>
             else LTCAnalog2In)
      in (LTCAnalog1In, LTCAnalog2In))"

text \<open>Its two calls, with one of the pointers null.\<close>

definition GetReceivedAnalogLTC1 :: "regs \<Rightarrow> RP188_STRUCT \<Rightarrow> RP188_STRUCT" where
  "GetReceivedAnalogLTC1 r LTCAnalog1In = the (fst (GetReceivedAnalogLTC r (Some LTCAnalog1In) None))"

definition GetReceivedAnalogLTC2 :: "regs \<Rightarrow> RP188_STRUCT \<Rightarrow> RP188_STRUCT" where
  "GetReceivedAnalogLTC2 r LTCAnalog2In = the (snd (GetReceivedAnalogLTC r None (Some LTCAnalog2In)))"

definition CopyRP188HardwareToFrameStampTCArray :: "features \<Rightarrow> regs \<Rightarrow> bool \<times> INTERNAL_TIMECODE_STRUCT" where
  "CopyRP188HardwareToFrameStampTCArray F r =
     (let deviceID = ntv2ReadRegister r kRegBoardID;
          tcStruct = ones_INTERNAL_TIMECODE_STRUCT;
          sel = NTV2DeviceGetNumVideoInputs F deviceID;
          tcStruct =
            (if sel = 8
             then (if GetInputVideoFormat F r NTV2_CHANNEL8 \<noteq> NTV2_FORMAT_UNKNOWN
                   then (let (_, out2, out3, out4) = GetReceivedTCForChannel F r NTV2_CHANNEL8 (LTCEmbedded8 tcStruct) (TCInOut8 tcStruct) (TCInOut8_2 tcStruct);
                             tcStruct = tcStruct\<lparr>LTCEmbedded8 := out2\<rparr>;
                             tcStruct = tcStruct\<lparr>TCInOut8 := out3\<rparr>
                         in tcStruct\<lparr>TCInOut8_2 := out4\<rparr>)
                   else tcStruct)
             else tcStruct);
          tcStruct =
            (if sel \<in> {8, 7}
             then (if GetInputVideoFormat F r NTV2_CHANNEL7 \<noteq> NTV2_FORMAT_UNKNOWN
                   then (let (_, out5, out6, out7) = GetReceivedTCForChannel F r NTV2_CHANNEL7 (LTCEmbedded7 tcStruct) (TCInOut7 tcStruct) (TCInOut7_2 tcStruct);
                             tcStruct = tcStruct\<lparr>LTCEmbedded7 := out5\<rparr>;
                             tcStruct = tcStruct\<lparr>TCInOut7 := out6\<rparr>
                         in tcStruct\<lparr>TCInOut7_2 := out7\<rparr>)
                   else tcStruct)
             else tcStruct);
          tcStruct =
            (if sel \<in> {8, 7, 6}
             then (if GetInputVideoFormat F r NTV2_CHANNEL6 \<noteq> NTV2_FORMAT_UNKNOWN
                   then (let (_, out8, out9, out10) = GetReceivedTCForChannel F r NTV2_CHANNEL6 (LTCEmbedded6 tcStruct) (TCInOut6 tcStruct) (TCInOut6_2 tcStruct);
                             tcStruct = tcStruct\<lparr>LTCEmbedded6 := out8\<rparr>;
                             tcStruct = tcStruct\<lparr>TCInOut6 := out9\<rparr>
                         in tcStruct\<lparr>TCInOut6_2 := out10\<rparr>)
                   else tcStruct)
             else tcStruct);
          tcStruct =
            (if sel \<in> {8, 7, 6, 5}
             then (if GetInputVideoFormat F r NTV2_CHANNEL5 \<noteq> NTV2_FORMAT_UNKNOWN
                   then (let (_, out11, out12, out13) = GetReceivedTCForChannel F r NTV2_CHANNEL5 (LTCEmbedded5 tcStruct) (TCInOut5 tcStruct) (TCInOut5_2 tcStruct);
                             tcStruct = tcStruct\<lparr>LTCEmbedded5 := out11\<rparr>;
                             tcStruct = tcStruct\<lparr>TCInOut5 := out12\<rparr>
                         in tcStruct\<lparr>TCInOut5_2 := out13\<rparr>)
                   else tcStruct)
             else tcStruct);
          tcStruct =
            (if sel \<in> {8, 7, 6, 5, 4}
             then (if GetInputVideoFormat F r NTV2_CHANNEL4 \<noteq> NTV2_FORMAT_UNKNOWN
                   then (let (_, out14, out15, out16) = GetReceivedTCForChannel F r NTV2_CHANNEL4 (LTCEmbedded4 tcStruct) (TCInOut4 tcStruct) (TCInOut4_2 tcStruct);
                             tcStruct = tcStruct\<lparr>LTCEmbedded4 := out14\<rparr>;
                             tcStruct = tcStruct\<lparr>TCInOut4 := out15\<rparr>
                         in tcStruct\<lparr>TCInOut4_2 := out16\<rparr>)
                   else tcStruct)
             else tcStruct);
          tcStruct =
            (if sel \<in> {8, 7, 6, 5, 4, 3}
             then (if GetInputVideoFormat F r NTV2_CHANNEL3 \<noteq> NTV2_FORMAT_UNKNOWN
                   then (let (_, out17, out18, out19) = GetReceivedTCForChannel F r NTV2_CHANNEL3 (LTCEmbedded3 tcStruct) (TCInOut3 tcStruct) (TCInOut3_2 tcStruct);
                             tcStruct = tcStruct\<lparr>LTCEmbedded3 := out17\<rparr>;
                             tcStruct = tcStruct\<lparr>TCInOut3 := out18\<rparr>
                         in tcStruct\<lparr>TCInOut3_2 := out19\<rparr>)
                   else tcStruct)
             else tcStruct);
          tcStruct =
            (if sel \<in> {8, 7, 6, 5, 4, 3, 2}
             then (if GetInputVideoFormat F r NTV2_CHANNEL2 \<noteq> NTV2_FORMAT_UNKNOWN
                   then (let (_, out20, out21, out22) = GetReceivedTCForChannel F r NTV2_CHANNEL2 (LTCEmbedded2 tcStruct) (TCInOut2 tcStruct) (TCInOut2_2 tcStruct);
                             tcStruct = tcStruct\<lparr>LTCEmbedded2 := out20\<rparr>;
                             tcStruct = tcStruct\<lparr>TCInOut2 := out21\<rparr>
                         in tcStruct\<lparr>TCInOut2_2 := out22\<rparr>)
                   else tcStruct)
             else tcStruct);
          tcStruct =
            (if sel \<in> {8, 7, 6, 5, 4, 3, 2, 1}
             then (if GetInputVideoFormat F r NTV2_CHANNEL1 \<noteq> NTV2_FORMAT_UNKNOWN
                   then (let (_, out23, out24, out25) = GetReceivedTCForChannel F r NTV2_CHANNEL1 (LTCEmbedded1 tcStruct) (TCInOut1 tcStruct) (TCInOut1_2 tcStruct);
                             tcStruct = tcStruct\<lparr>LTCEmbedded1 := out23\<rparr>;
                             tcStruct = tcStruct\<lparr>TCInOut1 := out24\<rparr>
                         in tcStruct\<lparr>TCInOut1_2 := out25\<rparr>)
                   else tcStruct)
             else tcStruct);
          tcStruct =
            (if NTV2DeviceCanDoLTCInN F deviceID NTV2_CHANNEL1
             then tcStruct\<lparr>LTCAnalog1 := GetReceivedAnalogLTC1 r (LTCAnalog1 tcStruct)\<rparr>
             else tcStruct);
          tcStruct =
            (if NTV2DeviceCanDoLTCInN F deviceID NTV2_CHANNEL2
             then tcStruct\<lparr>LTCAnalog2 := GetReceivedAnalogLTC2 r (LTCAnalog2 tcStruct)\<rparr>
             else tcStruct)
      in (True, tcStruct))"

text \<open>
  The code stores a CRC count through a \<open>ULWord*\<close> to the 16-bit field: the 32-bit store of
  the little-endian machine covers the field and the two bytes behind it. Behind
  \<open>mCRCTallyA\<close> lies \<open>mCRCTallyB\<close>, behind \<open>mCRCTallyB\<close> the low half of \<open>mUnlockTally\<close>.
\<close>

definition store_CRCTallyA :: "NTV2SDIInputStatus \<Rightarrow> u32 \<Rightarrow> NTV2SDIInputStatus" where
  "store_CRCTallyA s v = s\<lparr>mCRCTallyA := ucast v, mCRCTallyB := ucast (drop_bit 16 v)\<rparr>"

definition store_CRCTallyB :: "NTV2SDIInputStatus \<Rightarrow> u32 \<Rightarrow> NTV2SDIInputStatus" where
  "store_CRCTallyB s v =
     s\<lparr>mCRCTallyB := ucast v, mUnlockTally := (mUnlockTally s AND 0xFFFF0000) OR drop_bit 16 v\<rparr>"

definition CopySDIStatusHardwareToFrameStampSDIStatusArray :: "features \<Rightarrow> regs \<Rightarrow> INTERNAL_SDI_STATUS_STRUCT \<Rightarrow> bool \<times> INTERNAL_SDI_STATUS_STRUCT" where
  "CopySDIStatusHardwareToFrameStampSDIStatusArray F r sdiStruct =
     (let deviceID = ntv2ReadRegister r kRegBoardID;
          numSDIInputs = (of_nat (NTV2DeviceGetNumVideoInputs F deviceID) :: u32);
          sdiStruct =
            (if numSDIInputs = 8
             then (let sdiStruct = sdiStruct\<lparr>SDIStatus8 := (SDIStatus8 sdiStruct)\<lparr>mUnlockTally := ntv2ReadRegisterMS r (tbl gChannelToRXSDIStatusRegs NTV2_CHANNEL8) kRegMaskSDIInUnlockCount kRegShiftSDIInUnlockCount\<rparr>\<rparr>;
                       isLocked = ntv2ReadRegisterMS r (tbl gChannelToRXSDIStatusRegs NTV2_CHANNEL8) kRegMaskSDIInLocked kRegShiftSDIInLocked;
                       sdiStruct = sdiStruct\<lparr>SDIStatus8 := (SDIStatus8 sdiStruct)\<lparr>mLocked := isLocked \<noteq> 0\<rparr>\<rparr>;
                       VPIDValid = ntv2ReadRegisterMS r (tbl gChannelToRXSDIStatusRegs NTV2_CHANNEL8) kRegMaskSDIInVpidValidA kRegShiftSDIInVpidValidA;
                       sdiStruct = sdiStruct\<lparr>SDIStatus8 := (SDIStatus8 sdiStruct)\<lparr>mVPIDValidA := VPIDValid \<noteq> 0\<rparr>\<rparr>;
                       VPIDValid = ntv2ReadRegisterMS r (tbl gChannelToRXSDIStatusRegs NTV2_CHANNEL8) kRegMaskSDIInVpidValidB kRegShiftSDIInVpidValidB;
                       sdiStruct = sdiStruct\<lparr>SDIStatus8 := (SDIStatus8 sdiStruct)\<lparr>mVPIDValidB := VPIDValid \<noteq> 0\<rparr>\<rparr>;
                       trsError = ntv2ReadRegisterMS r (tbl gChannelToRXSDIStatusRegs NTV2_CHANNEL8) kRegMaskSDIInTRSError kRegShiftSDIInTRSError;
                       sdiStruct = sdiStruct\<lparr>SDIStatus8 := (SDIStatus8 sdiStruct)\<lparr>mFrameTRSError := trsError \<noteq> 0\<rparr>\<rparr>;
                       crcTally = ntv2ReadRegisterMS r (tbl gChannelToRXSDICRCErrorCountRegs NTV2_CHANNEL8) kRegMaskSDIInCRCErrorCountA kRegShiftSDIInCRCErrorCountA;
                       sdiStruct = sdiStruct\<lparr>SDIStatus8 := store_CRCTallyA (SDIStatus8 sdiStruct) crcTally\<rparr>;
                       crcTally = ntv2ReadRegisterMS r (tbl gChannelToRXSDICRCErrorCountRegs NTV2_CHANNEL8) kRegMaskSDIInCRCErrorCountB kRegShiftSDIInCRCErrorCountB;
                       sdiStruct = sdiStruct\<lparr>SDIStatus8 := store_CRCTallyB (SDIStatus8 sdiStruct) crcTally\<rparr>;
                       countHi = ntv2ReadRegister r (tbl gChannelToRXSDIFrameRefCountHiRegs NTV2_CHANNEL8);
                       countLo = ntv2ReadRegister r (tbl gChannelToRXSDIFrameRefCountLoRegs NTV2_CHANNEL8)
                   in sdiStruct\<lparr>SDIStatus8 := (SDIStatus8 sdiStruct)\<lparr>mGlobalClockCount := push_bit 32 (ucast countHi) OR ucast countLo\<rparr>\<rparr>)
             else sdiStruct);
          sdiStruct =
            (if numSDIInputs \<in> {8, 7}
             then (let sdiStruct = sdiStruct\<lparr>SDIStatus7 := (SDIStatus7 sdiStruct)\<lparr>mUnlockTally := ntv2ReadRegisterMS r (tbl gChannelToRXSDIStatusRegs NTV2_CHANNEL7) kRegMaskSDIInUnlockCount kRegShiftSDIInUnlockCount\<rparr>\<rparr>;
                       isLocked = ntv2ReadRegisterMS r (tbl gChannelToRXSDIStatusRegs NTV2_CHANNEL7) kRegMaskSDIInLocked kRegShiftSDIInLocked;
                       sdiStruct = sdiStruct\<lparr>SDIStatus7 := (SDIStatus7 sdiStruct)\<lparr>mLocked := isLocked \<noteq> 0\<rparr>\<rparr>;
                       VPIDValid = ntv2ReadRegisterMS r (tbl gChannelToRXSDIStatusRegs NTV2_CHANNEL7) kRegMaskSDIInVpidValidA kRegShiftSDIInVpidValidA;
                       sdiStruct = sdiStruct\<lparr>SDIStatus7 := (SDIStatus7 sdiStruct)\<lparr>mVPIDValidA := VPIDValid \<noteq> 0\<rparr>\<rparr>;
                       VPIDValid = ntv2ReadRegisterMS r (tbl gChannelToRXSDIStatusRegs NTV2_CHANNEL7) kRegMaskSDIInVpidValidB kRegShiftSDIInVpidValidB;
                       sdiStruct = sdiStruct\<lparr>SDIStatus7 := (SDIStatus7 sdiStruct)\<lparr>mVPIDValidB := VPIDValid \<noteq> 0\<rparr>\<rparr>;
                       trsError = ntv2ReadRegisterMS r (tbl gChannelToRXSDIStatusRegs NTV2_CHANNEL7) kRegMaskSDIInTRSError kRegShiftSDIInTRSError;
                       sdiStruct = sdiStruct\<lparr>SDIStatus7 := (SDIStatus7 sdiStruct)\<lparr>mFrameTRSError := trsError \<noteq> 0\<rparr>\<rparr>;
                       crcTally = ntv2ReadRegisterMS r (tbl gChannelToRXSDICRCErrorCountRegs NTV2_CHANNEL7) kRegMaskSDIInCRCErrorCountA kRegShiftSDIInCRCErrorCountA;
                       sdiStruct = sdiStruct\<lparr>SDIStatus7 := store_CRCTallyA (SDIStatus7 sdiStruct) crcTally\<rparr>;
                       crcTally = ntv2ReadRegisterMS r (tbl gChannelToRXSDICRCErrorCountRegs NTV2_CHANNEL7) kRegMaskSDIInCRCErrorCountB kRegShiftSDIInCRCErrorCountB;
                       sdiStruct = sdiStruct\<lparr>SDIStatus7 := store_CRCTallyB (SDIStatus7 sdiStruct) crcTally\<rparr>;
                       countHi = ntv2ReadRegister r (tbl gChannelToRXSDIFrameRefCountHiRegs NTV2_CHANNEL7);
                       countLo = ntv2ReadRegister r (tbl gChannelToRXSDIFrameRefCountLoRegs NTV2_CHANNEL7)
                   in sdiStruct\<lparr>SDIStatus7 := (SDIStatus7 sdiStruct)\<lparr>mGlobalClockCount := push_bit 32 (ucast countHi) OR ucast countLo\<rparr>\<rparr>)
             else sdiStruct);
          sdiStruct =
            (if numSDIInputs \<in> {8, 7, 6}
             then (let sdiStruct = sdiStruct\<lparr>SDIStatus6 := (SDIStatus6 sdiStruct)\<lparr>mUnlockTally := ntv2ReadRegisterMS r (tbl gChannelToRXSDIStatusRegs NTV2_CHANNEL6) kRegMaskSDIInUnlockCount kRegShiftSDIInUnlockCount\<rparr>\<rparr>;
                       isLocked = ntv2ReadRegisterMS r (tbl gChannelToRXSDIStatusRegs NTV2_CHANNEL6) kRegMaskSDIInLocked kRegShiftSDIInLocked;
                       sdiStruct = sdiStruct\<lparr>SDIStatus6 := (SDIStatus6 sdiStruct)\<lparr>mLocked := isLocked \<noteq> 0\<rparr>\<rparr>;
                       VPIDValid = ntv2ReadRegisterMS r (tbl gChannelToRXSDIStatusRegs NTV2_CHANNEL6) kRegMaskSDIInVpidValidA kRegShiftSDIInVpidValidA;
                       sdiStruct = sdiStruct\<lparr>SDIStatus6 := (SDIStatus6 sdiStruct)\<lparr>mVPIDValidA := VPIDValid \<noteq> 0\<rparr>\<rparr>;
                       VPIDValid = ntv2ReadRegisterMS r (tbl gChannelToRXSDIStatusRegs NTV2_CHANNEL6) kRegMaskSDIInVpidValidB kRegShiftSDIInVpidValidB;
                       sdiStruct = sdiStruct\<lparr>SDIStatus6 := (SDIStatus6 sdiStruct)\<lparr>mVPIDValidB := VPIDValid \<noteq> 0\<rparr>\<rparr>;
                       trsError = ntv2ReadRegisterMS r (tbl gChannelToRXSDIStatusRegs NTV2_CHANNEL6) kRegMaskSDIInTRSError kRegShiftSDIInTRSError;
                       sdiStruct = sdiStruct\<lparr>SDIStatus6 := (SDIStatus6 sdiStruct)\<lparr>mFrameTRSError := trsError \<noteq> 0\<rparr>\<rparr>;
                       crcTally = ntv2ReadRegisterMS r (tbl gChannelToRXSDICRCErrorCountRegs NTV2_CHANNEL6) kRegMaskSDIInCRCErrorCountA kRegShiftSDIInCRCErrorCountA;
                       sdiStruct = sdiStruct\<lparr>SDIStatus6 := store_CRCTallyA (SDIStatus6 sdiStruct) crcTally\<rparr>;
                       crcTally = ntv2ReadRegisterMS r (tbl gChannelToRXSDICRCErrorCountRegs NTV2_CHANNEL6) kRegMaskSDIInCRCErrorCountB kRegShiftSDIInCRCErrorCountB;
                       sdiStruct = sdiStruct\<lparr>SDIStatus6 := store_CRCTallyB (SDIStatus6 sdiStruct) crcTally\<rparr>;
                       countHi = ntv2ReadRegister r (tbl gChannelToRXSDIFrameRefCountHiRegs NTV2_CHANNEL6);
                       countLo = ntv2ReadRegister r (tbl gChannelToRXSDIFrameRefCountLoRegs NTV2_CHANNEL6)
                   in sdiStruct\<lparr>SDIStatus6 := (SDIStatus6 sdiStruct)\<lparr>mGlobalClockCount := push_bit 32 (ucast countHi) OR ucast countLo\<rparr>\<rparr>)
             else sdiStruct);
          sdiStruct =
            (if numSDIInputs \<in> {8, 7, 6, 5}
             then (let sdiStruct = sdiStruct\<lparr>SDIStatus5 := (SDIStatus5 sdiStruct)\<lparr>mUnlockTally := ntv2ReadRegisterMS r (tbl gChannelToRXSDIStatusRegs NTV2_CHANNEL5) kRegMaskSDIInUnlockCount kRegShiftSDIInUnlockCount\<rparr>\<rparr>;
                       isLocked = ntv2ReadRegisterMS r (tbl gChannelToRXSDIStatusRegs NTV2_CHANNEL5) kRegMaskSDIInLocked kRegShiftSDIInLocked;
                       sdiStruct = sdiStruct\<lparr>SDIStatus5 := (SDIStatus5 sdiStruct)\<lparr>mLocked := isLocked \<noteq> 0\<rparr>\<rparr>;
                       VPIDValid = ntv2ReadRegisterMS r (tbl gChannelToRXSDIStatusRegs NTV2_CHANNEL5) kRegMaskSDIInVpidValidA kRegShiftSDIInVpidValidA;
                       sdiStruct = sdiStruct\<lparr>SDIStatus5 := (SDIStatus5 sdiStruct)\<lparr>mVPIDValidA := VPIDValid \<noteq> 0\<rparr>\<rparr>;
                       VPIDValid = ntv2ReadRegisterMS r (tbl gChannelToRXSDIStatusRegs NTV2_CHANNEL5) kRegMaskSDIInVpidValidB kRegShiftSDIInVpidValidB;
                       sdiStruct = sdiStruct\<lparr>SDIStatus5 := (SDIStatus5 sdiStruct)\<lparr>mVPIDValidB := VPIDValid \<noteq> 0\<rparr>\<rparr>;
                       trsError = ntv2ReadRegisterMS r (tbl gChannelToRXSDIStatusRegs NTV2_CHANNEL5) kRegMaskSDIInTRSError kRegShiftSDIInTRSError;
                       sdiStruct = sdiStruct\<lparr>SDIStatus5 := (SDIStatus5 sdiStruct)\<lparr>mFrameTRSError := trsError \<noteq> 0\<rparr>\<rparr>;
                       crcTally = ntv2ReadRegisterMS r (tbl gChannelToRXSDICRCErrorCountRegs NTV2_CHANNEL5) kRegMaskSDIInCRCErrorCountA kRegShiftSDIInCRCErrorCountA;
                       sdiStruct = sdiStruct\<lparr>SDIStatus5 := store_CRCTallyA (SDIStatus5 sdiStruct) crcTally\<rparr>;
                       crcTally = ntv2ReadRegisterMS r (tbl gChannelToRXSDICRCErrorCountRegs NTV2_CHANNEL5) kRegMaskSDIInCRCErrorCountB kRegShiftSDIInCRCErrorCountB;
                       sdiStruct = sdiStruct\<lparr>SDIStatus5 := store_CRCTallyB (SDIStatus5 sdiStruct) crcTally\<rparr>;
                       countHi = ntv2ReadRegister r (tbl gChannelToRXSDIFrameRefCountHiRegs NTV2_CHANNEL5);
                       countLo = ntv2ReadRegister r (tbl gChannelToRXSDIFrameRefCountLoRegs NTV2_CHANNEL5)
                   in sdiStruct\<lparr>SDIStatus5 := (SDIStatus5 sdiStruct)\<lparr>mGlobalClockCount := push_bit 32 (ucast countHi) OR ucast countLo\<rparr>\<rparr>)
             else sdiStruct);
          sdiStruct =
            (if numSDIInputs \<in> {8, 7, 6, 5, 4}
             then (let sdiStruct = sdiStruct\<lparr>SDIStatus4 := (SDIStatus4 sdiStruct)\<lparr>mUnlockTally := ntv2ReadRegisterMS r (tbl gChannelToRXSDIStatusRegs NTV2_CHANNEL4) kRegMaskSDIInUnlockCount kRegShiftSDIInUnlockCount\<rparr>\<rparr>;
                       isLocked = ntv2ReadRegisterMS r (tbl gChannelToRXSDIStatusRegs NTV2_CHANNEL4) kRegMaskSDIInLocked kRegShiftSDIInLocked;
                       sdiStruct = sdiStruct\<lparr>SDIStatus4 := (SDIStatus4 sdiStruct)\<lparr>mLocked := isLocked \<noteq> 0\<rparr>\<rparr>;
                       VPIDValid = ntv2ReadRegisterMS r (tbl gChannelToRXSDIStatusRegs NTV2_CHANNEL4) kRegMaskSDIInVpidValidA kRegShiftSDIInVpidValidA;
                       sdiStruct = sdiStruct\<lparr>SDIStatus4 := (SDIStatus4 sdiStruct)\<lparr>mVPIDValidA := VPIDValid \<noteq> 0\<rparr>\<rparr>;
                       VPIDValid = ntv2ReadRegisterMS r (tbl gChannelToRXSDIStatusRegs NTV2_CHANNEL4) kRegMaskSDIInVpidValidB kRegShiftSDIInVpidValidB;
                       sdiStruct = sdiStruct\<lparr>SDIStatus4 := (SDIStatus4 sdiStruct)\<lparr>mVPIDValidB := VPIDValid \<noteq> 0\<rparr>\<rparr>;
                       trsError = ntv2ReadRegisterMS r (tbl gChannelToRXSDIStatusRegs NTV2_CHANNEL4) kRegMaskSDIInTRSError kRegShiftSDIInTRSError;
                       sdiStruct = sdiStruct\<lparr>SDIStatus4 := (SDIStatus4 sdiStruct)\<lparr>mFrameTRSError := trsError \<noteq> 0\<rparr>\<rparr>;
                       crcTally = ntv2ReadRegisterMS r (tbl gChannelToRXSDICRCErrorCountRegs NTV2_CHANNEL4) kRegMaskSDIInCRCErrorCountA kRegShiftSDIInCRCErrorCountA;
                       sdiStruct = sdiStruct\<lparr>SDIStatus4 := store_CRCTallyA (SDIStatus4 sdiStruct) crcTally\<rparr>;
                       crcTally = ntv2ReadRegisterMS r (tbl gChannelToRXSDICRCErrorCountRegs NTV2_CHANNEL4) kRegMaskSDIInCRCErrorCountB kRegShiftSDIInCRCErrorCountB;
                       sdiStruct = sdiStruct\<lparr>SDIStatus4 := store_CRCTallyB (SDIStatus4 sdiStruct) crcTally\<rparr>;
                       countHi = ntv2ReadRegister r (tbl gChannelToRXSDIFrameRefCountHiRegs NTV2_CHANNEL4);
                       countLo = ntv2ReadRegister r (tbl gChannelToRXSDIFrameRefCountLoRegs NTV2_CHANNEL4)
                   in sdiStruct\<lparr>SDIStatus4 := (SDIStatus4 sdiStruct)\<lparr>mGlobalClockCount := push_bit 32 (ucast countHi) OR ucast countLo\<rparr>\<rparr>)
             else sdiStruct);
          sdiStruct =
            (if numSDIInputs \<in> {8, 7, 6, 5, 4, 3}
             then (let sdiStruct = sdiStruct\<lparr>SDIStatus3 := (SDIStatus3 sdiStruct)\<lparr>mUnlockTally := ntv2ReadRegisterMS r (tbl gChannelToRXSDIStatusRegs NTV2_CHANNEL3) kRegMaskSDIInUnlockCount kRegShiftSDIInUnlockCount\<rparr>\<rparr>;
                       isLocked = ntv2ReadRegisterMS r (tbl gChannelToRXSDIStatusRegs NTV2_CHANNEL3) kRegMaskSDIInLocked kRegShiftSDIInLocked;
                       sdiStruct = sdiStruct\<lparr>SDIStatus3 := (SDIStatus3 sdiStruct)\<lparr>mLocked := isLocked \<noteq> 0\<rparr>\<rparr>;
                       VPIDValid = ntv2ReadRegisterMS r (tbl gChannelToRXSDIStatusRegs NTV2_CHANNEL3) kRegMaskSDIInVpidValidA kRegShiftSDIInVpidValidA;
                       sdiStruct = sdiStruct\<lparr>SDIStatus3 := (SDIStatus3 sdiStruct)\<lparr>mVPIDValidA := VPIDValid \<noteq> 0\<rparr>\<rparr>;
                       VPIDValid = ntv2ReadRegisterMS r (tbl gChannelToRXSDIStatusRegs NTV2_CHANNEL3) kRegMaskSDIInVpidValidB kRegShiftSDIInVpidValidB;
                       sdiStruct = sdiStruct\<lparr>SDIStatus3 := (SDIStatus3 sdiStruct)\<lparr>mVPIDValidB := VPIDValid \<noteq> 0\<rparr>\<rparr>;
                       trsError = ntv2ReadRegisterMS r (tbl gChannelToRXSDIStatusRegs NTV2_CHANNEL3) kRegMaskSDIInTRSError kRegShiftSDIInTRSError;
                       sdiStruct = sdiStruct\<lparr>SDIStatus3 := (SDIStatus3 sdiStruct)\<lparr>mFrameTRSError := trsError \<noteq> 0\<rparr>\<rparr>;
                       crcTally = ntv2ReadRegisterMS r (tbl gChannelToRXSDICRCErrorCountRegs NTV2_CHANNEL3) kRegMaskSDIInCRCErrorCountA kRegShiftSDIInCRCErrorCountA;
                       sdiStruct = sdiStruct\<lparr>SDIStatus3 := store_CRCTallyA (SDIStatus3 sdiStruct) crcTally\<rparr>;
                       crcTally = ntv2ReadRegisterMS r (tbl gChannelToRXSDICRCErrorCountRegs NTV2_CHANNEL3) kRegMaskSDIInCRCErrorCountB kRegShiftSDIInCRCErrorCountB;
                       sdiStruct = sdiStruct\<lparr>SDIStatus3 := store_CRCTallyB (SDIStatus3 sdiStruct) crcTally\<rparr>;
                       countHi = ntv2ReadRegister r (tbl gChannelToRXSDIFrameRefCountHiRegs NTV2_CHANNEL3);
                       countLo = ntv2ReadRegister r (tbl gChannelToRXSDIFrameRefCountLoRegs NTV2_CHANNEL3)
                   in sdiStruct\<lparr>SDIStatus3 := (SDIStatus3 sdiStruct)\<lparr>mGlobalClockCount := push_bit 32 (ucast countHi) OR ucast countLo\<rparr>\<rparr>)
             else sdiStruct);
          sdiStruct =
            (if numSDIInputs \<in> {8, 7, 6, 5, 4, 3, 2}
             then (let sdiStruct = sdiStruct\<lparr>SDIStatus2 := (SDIStatus2 sdiStruct)\<lparr>mUnlockTally := ntv2ReadRegisterMS r (tbl gChannelToRXSDIStatusRegs NTV2_CHANNEL2) kRegMaskSDIInUnlockCount kRegShiftSDIInUnlockCount\<rparr>\<rparr>;
                       isLocked = ntv2ReadRegisterMS r (tbl gChannelToRXSDIStatusRegs NTV2_CHANNEL2) kRegMaskSDIInLocked kRegShiftSDIInLocked;
                       sdiStruct = sdiStruct\<lparr>SDIStatus2 := (SDIStatus2 sdiStruct)\<lparr>mLocked := isLocked \<noteq> 0\<rparr>\<rparr>;
                       VPIDValid = ntv2ReadRegisterMS r (tbl gChannelToRXSDIStatusRegs NTV2_CHANNEL2) kRegMaskSDIInVpidValidA kRegShiftSDIInVpidValidA;
                       sdiStruct = sdiStruct\<lparr>SDIStatus2 := (SDIStatus2 sdiStruct)\<lparr>mVPIDValidA := VPIDValid \<noteq> 0\<rparr>\<rparr>;
                       VPIDValid = ntv2ReadRegisterMS r (tbl gChannelToRXSDIStatusRegs NTV2_CHANNEL2) kRegMaskSDIInVpidValidB kRegShiftSDIInVpidValidB;
                       sdiStruct = sdiStruct\<lparr>SDIStatus2 := (SDIStatus2 sdiStruct)\<lparr>mVPIDValidB := VPIDValid \<noteq> 0\<rparr>\<rparr>;
                       trsError = ntv2ReadRegisterMS r (tbl gChannelToRXSDIStatusRegs NTV2_CHANNEL2) kRegMaskSDIInTRSError kRegShiftSDIInTRSError;
                       sdiStruct = sdiStruct\<lparr>SDIStatus2 := (SDIStatus2 sdiStruct)\<lparr>mFrameTRSError := trsError \<noteq> 0\<rparr>\<rparr>;
                       crcTally = ntv2ReadRegisterMS r (tbl gChannelToRXSDICRCErrorCountRegs NTV2_CHANNEL2) kRegMaskSDIInCRCErrorCountA kRegShiftSDIInCRCErrorCountA;
                       sdiStruct = sdiStruct\<lparr>SDIStatus2 := store_CRCTallyA (SDIStatus2 sdiStruct) crcTally\<rparr>;
                       crcTally = ntv2ReadRegisterMS r (tbl gChannelToRXSDICRCErrorCountRegs NTV2_CHANNEL2) kRegMaskSDIInCRCErrorCountB kRegShiftSDIInCRCErrorCountB;
                       sdiStruct = sdiStruct\<lparr>SDIStatus2 := store_CRCTallyB (SDIStatus2 sdiStruct) crcTally\<rparr>;
                       countHi = ntv2ReadRegister r (tbl gChannelToRXSDIFrameRefCountHiRegs NTV2_CHANNEL2);
                       countLo = ntv2ReadRegister r (tbl gChannelToRXSDIFrameRefCountLoRegs NTV2_CHANNEL2)
                   in sdiStruct\<lparr>SDIStatus2 := (SDIStatus2 sdiStruct)\<lparr>mGlobalClockCount := push_bit 32 (ucast countHi) OR ucast countLo\<rparr>\<rparr>)
             else sdiStruct);
          sdiStruct =
            (if numSDIInputs \<in> {8, 7, 6, 5, 4, 3, 2, 1}
             then (let sdiStruct = sdiStruct\<lparr>SDIStatus1 := (SDIStatus1 sdiStruct)\<lparr>mUnlockTally := ntv2ReadRegisterMS r (tbl gChannelToRXSDIStatusRegs NTV2_CHANNEL1) kRegMaskSDIInUnlockCount kRegShiftSDIInUnlockCount\<rparr>\<rparr>;
                       isLocked = ntv2ReadRegisterMS r (tbl gChannelToRXSDIStatusRegs NTV2_CHANNEL1) kRegMaskSDIInLocked kRegShiftSDIInLocked;
                       sdiStruct = sdiStruct\<lparr>SDIStatus1 := (SDIStatus1 sdiStruct)\<lparr>mLocked := isLocked \<noteq> 0\<rparr>\<rparr>;
                       VPIDValid = ntv2ReadRegisterMS r (tbl gChannelToRXSDIStatusRegs NTV2_CHANNEL1) kRegMaskSDIInVpidValidA kRegShiftSDIInVpidValidA;
                       sdiStruct = sdiStruct\<lparr>SDIStatus1 := (SDIStatus1 sdiStruct)\<lparr>mVPIDValidA := VPIDValid \<noteq> 0\<rparr>\<rparr>;
                       VPIDValid = ntv2ReadRegisterMS r (tbl gChannelToRXSDIStatusRegs NTV2_CHANNEL1) kRegMaskSDIInVpidValidB kRegShiftSDIInVpidValidB;
                       sdiStruct = sdiStruct\<lparr>SDIStatus1 := (SDIStatus1 sdiStruct)\<lparr>mVPIDValidB := VPIDValid \<noteq> 0\<rparr>\<rparr>;
                       trsError = ntv2ReadRegisterMS r (tbl gChannelToRXSDIStatusRegs NTV2_CHANNEL1) kRegMaskSDIInTRSError kRegShiftSDIInTRSError;
                       sdiStruct = sdiStruct\<lparr>SDIStatus1 := (SDIStatus1 sdiStruct)\<lparr>mFrameTRSError := trsError \<noteq> 0\<rparr>\<rparr>;
                       crcTally = ntv2ReadRegisterMS r (tbl gChannelToRXSDICRCErrorCountRegs NTV2_CHANNEL1) kRegMaskSDIInCRCErrorCountA kRegShiftSDIInCRCErrorCountA;
                       sdiStruct = sdiStruct\<lparr>SDIStatus1 := store_CRCTallyA (SDIStatus1 sdiStruct) crcTally\<rparr>;
                       crcTally = ntv2ReadRegisterMS r (tbl gChannelToRXSDICRCErrorCountRegs NTV2_CHANNEL1) kRegMaskSDIInCRCErrorCountB kRegShiftSDIInCRCErrorCountB;
                       sdiStruct = sdiStruct\<lparr>SDIStatus1 := store_CRCTallyB (SDIStatus1 sdiStruct) crcTally\<rparr>;
                       countHi = ntv2ReadRegister r (tbl gChannelToRXSDIFrameRefCountHiRegs NTV2_CHANNEL1);
                       countLo = ntv2ReadRegister r (tbl gChannelToRXSDIFrameRefCountLoRegs NTV2_CHANNEL1)
                   in sdiStruct\<lparr>SDIStatus1 := (SDIStatus1 sdiStruct)\<lparr>mGlobalClockCount := push_bit 32 (ucast countHi) OR ucast countLo\<rparr>\<rparr>)
             else sdiStruct)
      in (True, sdiStruct))"

definition SetRP188Mode :: "regs \<Rightarrow> nat \<Rightarrow> u32 \<Rightarrow> regs" where
  "SetRP188Mode r channel value =
     ntv2WriteRegisterMS r (tbl gChannelToRP188ModeGCRegisterNum channel) value (tbl gChannelToRP188ModeMasks channel) (tbl gChannelToRP188ModeShifts channel)"

definition CopyFrameStampTCArrayToHardware :: "features \<Rightarrow> regs \<Rightarrow> INTERNAL_TIMECODE_STRUCT \<Rightarrow> regs" where
  "CopyFrameStampTCArrayToHardware F r acFrameStampTCArray =
     (let deviceID = ntv2ReadRegister r kRegBoardID;
          (pTCInOutEntry, pTCLTCEmbedEntry, r) =
            fold (\<lambda>chan (pTCInOutEntry, pTCLTCEmbedEntry, r).
              let (pTCInOutEntry, pTCLTCEmbedEntry) =
                    (if chan = 0
                     then (let pTCInOutEntry = TCInOut1 acFrameStampTCArray;
                               pTCLTCEmbedEntry = LTCEmbedded1 acFrameStampTCArray
                           in (pTCInOutEntry, pTCLTCEmbedEntry))
                     else if chan = 1
                     then (let pTCInOutEntry = TCInOut2 acFrameStampTCArray;
                               pTCLTCEmbedEntry = LTCEmbedded2 acFrameStampTCArray
                           in (pTCInOutEntry, pTCLTCEmbedEntry))
                     else if chan = 2
                     then (let pTCInOutEntry = TCInOut3 acFrameStampTCArray;
                               pTCLTCEmbedEntry = LTCEmbedded3 acFrameStampTCArray
                           in (pTCInOutEntry, pTCLTCEmbedEntry))
                     else if chan = 3
                     then (let pTCInOutEntry = TCInOut4 acFrameStampTCArray;
                               pTCLTCEmbedEntry = LTCEmbedded4 acFrameStampTCArray
                           in (pTCInOutEntry, pTCLTCEmbedEntry))
                     else if chan = 4
                     then (let pTCInOutEntry = TCInOut5 acFrameStampTCArray;
                               pTCLTCEmbedEntry = LTCEmbedded5 acFrameStampTCArray
                           in (pTCInOutEntry, pTCLTCEmbedEntry))
                     else if chan = 5
                     then (let pTCInOutEntry = TCInOut6 acFrameStampTCArray;
                               pTCLTCEmbedEntry = LTCEmbedded6 acFrameStampTCArray
                           in (pTCInOutEntry, pTCLTCEmbedEntry))
                     else if chan = 6
                     then (let pTCInOutEntry = TCInOut7 acFrameStampTCArray;
                               pTCLTCEmbedEntry = LTCEmbedded7 acFrameStampTCArray
                           in (pTCInOutEntry, pTCLTCEmbedEntry))
                     else if chan = 7
                     then (let pTCInOutEntry = TCInOut8 acFrameStampTCArray;
                               pTCLTCEmbedEntry = LTCEmbedded8 acFrameStampTCArray
                           in (pTCInOutEntry, pTCLTCEmbedEntry))
                     else (pTCInOutEntry, pTCLTCEmbedEntry));
                  r =
                    (if RP188_IS_VALID pTCInOutEntry
                     then (let r =
                                 (if ntv2ReadVirtualRegister r kVRegUserDefinedDBB = 0
                                  then (if NTV2_IS_SD_VIDEO_FORMAT (GetBoardVideoFormat F r chan) \<or> (deviceID = DEVICE_ID_KONALHI)
                                        then ntv2WriteRegisterMS r (tbl gChannelToRP188DBBRegisterNum chan) 0x00 kRegMaskRP188DBB kRegShiftRP188DBB
                                        else ntv2WriteRegisterMS r (tbl gChannelToRP188DBBRegisterNum chan) 0xFF kRegMaskRP188DBB kRegShiftRP188DBB)
                                  else ntv2WriteRegisterMS r (tbl gChannelToRP188DBBRegisterNum chan) (DBB pTCInOutEntry) kRegMaskRP188DBB kRegShiftRP188DBB);
                               r = ntv2WriteRegister r (tbl gChannelToRP188Bits031RegisterNum chan) (Low pTCInOutEntry)
                           in ntv2WriteRegister r (tbl gChannelToRP188Bits3263RegisterNum chan) (High pTCInOutEntry))
                     else r);
                  r =
                    (if NTV2DeviceCanDoLTCEmbeddedN F deviceID chan \<and> RP188_IS_VALID pTCLTCEmbedEntry
                     then (let r = ntv2WriteRegister r (tbl gChannelToLTCEmbeddedBits031RegisterNum chan) (Low pTCLTCEmbedEntry)
                           in ntv2WriteRegister r (tbl gChannelToLTCEmbeddedBits3263RegisterNum chan) (High pTCLTCEmbedEntry))
                     else r)
              in (pTCInOutEntry, pTCLTCEmbedEntry, r)) [0 ..< NTV2DeviceGetNumVideoOutputs F deviceID] (undefined, undefined, r);
          r =
            (if NTV2DeviceCanDoWidget F deviceID NTV2_WgtSDIMonOut1
             then (let r =
                         (if RP188_IS_VALID pTCInOutEntry
                          then (let r =
                                      (if ntv2ReadVirtualRegister r kVRegUserDefinedDBB = 0
                                       then (if NTV2_IS_SD_VIDEO_FORMAT (GetBoardVideoFormat F r NTV2_CHANNEL5)
                                             then ntv2WriteRegisterMS r (tbl gChannelToRP188DBBRegisterNum NTV2_CHANNEL5) 0x00 kRegMaskRP188DBB kRegShiftRP188DBB
                                             else ntv2WriteRegisterMS r (tbl gChannelToRP188DBBRegisterNum NTV2_CHANNEL5) 0xFF kRegMaskRP188DBB kRegShiftRP188DBB)
                                       else ntv2WriteRegisterMS r (tbl gChannelToRP188DBBRegisterNum NTV2_CHANNEL5) (DBB (TCInOut5 acFrameStampTCArray)) kRegMaskRP188DBB kRegShiftRP188DBB);
                                    r = ntv2WriteRegister r (tbl gChannelToRP188Bits031RegisterNum NTV2_CHANNEL5) (Low (TCInOut5 acFrameStampTCArray))
                                in ntv2WriteRegister r (tbl gChannelToRP188Bits3263RegisterNum NTV2_CHANNEL5) (High (TCInOut5 acFrameStampTCArray)))
                          else r);
                       r = ntv2WriteRegister r (tbl gChannelToLTCEmbeddedBits031RegisterNum NTV2_CHANNEL5) (Low (LTCEmbedded5 acFrameStampTCArray))
                   in ntv2WriteRegister r (tbl gChannelToLTCEmbeddedBits3263RegisterNum NTV2_CHANNEL5) (High (LTCEmbedded5 acFrameStampTCArray)))
             else r);
          r =
            (if NTV2DeviceCanDoLTCOutN F deviceID NTV2_CHANNEL1 \<and> RP188_IS_VALID (LTCAnalog1 acFrameStampTCArray)
             then (let r = ntv2WriteRegister r kRegLTCAnalogBits0_31 (Low (LTCAnalog1 acFrameStampTCArray))
                   in ntv2WriteRegister r kRegLTCAnalogBits32_63 (High (LTCAnalog1 acFrameStampTCArray)))
             else r)
      in if NTV2DeviceCanDoLTCOutN F deviceID NTV2_CHANNEL2 \<and> RP188_IS_VALID (LTCAnalog2 acFrameStampTCArray)
         then (let r = ntv2WriteRegister r kRegLTC2AnalogBits0_31 (Low (LTCAnalog2 acFrameStampTCArray))
               in ntv2WriteRegister r kRegLTC2AnalogBits32_63 (High (LTCAnalog2 acFrameStampTCArray)))
         else r)"

definition CopyFrameRP188ToHardware :: "features \<Rightarrow> regs \<Rightarrow> RP188_STRUCT \<Rightarrow> regs" where
  "CopyFrameRP188ToHardware F r rp188 =
     (let deviceID = ntv2ReadRegister r kRegBoardID
      in if \<not> (RP188_IS_VALID rp188)
         then r
         else (let r =
                     fold (\<lambda>chan r.
                       let r = SetRP188Mode r chan NTV2_RP188_OUTPUT;
                           r =
                             (if ntv2ReadVirtualRegister r kVRegUserDefinedDBB = 0
                              then (if NTV2_IS_SD_VIDEO_FORMAT (GetBoardVideoFormat F r chan) \<or> (deviceID = DEVICE_ID_KONALHI)
                                    then ntv2WriteRegisterMS r (tbl gChannelToRP188DBBRegisterNum chan) 0x00 kRegMaskRP188DBB kRegShiftRP188DBB
                                    else ntv2WriteRegisterMS r (tbl gChannelToRP188DBBRegisterNum chan) 0xFF kRegMaskRP188DBB kRegShiftRP188DBB)
                              else ntv2WriteRegisterMS r (tbl gChannelToRP188DBBRegisterNum chan) (DBB rp188) kRegMaskRP188DBB kRegShiftRP188DBB);
                           r = ntv2WriteRegister r (tbl gChannelToRP188Bits031RegisterNum chan) (Low rp188);
                           r = ntv2WriteRegister r (tbl gChannelToRP188Bits3263RegisterNum chan) (High rp188)
                       in if NTV2DeviceCanDoLTCEmbeddedN F deviceID chan
                          then (let r = ntv2WriteRegister r (tbl gChannelToLTCEmbeddedBits031RegisterNum chan) (Low rp188)
                                in ntv2WriteRegister r (tbl gChannelToLTCEmbeddedBits3263RegisterNum chan) (High rp188))
                          else r) [0 ..< NTV2DeviceGetNumVideoOutputs F deviceID] r;
                   chan = max 0 (NTV2DeviceGetNumVideoOutputs F deviceID);
                   r =
                     (if NTV2DeviceCanDoWidget F deviceID NTV2_WgtSDIMonOut1
                      then (let r = SetRP188Mode r NTV2_CHANNEL5 NTV2_RP188_OUTPUT;
                                r =
                                  (if ntv2ReadVirtualRegister r kVRegUserDefinedDBB = 0
                                   then (if NTV2_IS_SD_VIDEO_FORMAT (GetBoardVideoFormat F r chan)
                                         then ntv2WriteRegisterMS r (tbl gChannelToRP188DBBRegisterNum NTV2_CHANNEL5) 0x00 kRegMaskRP188DBB kRegShiftRP188DBB
                                         else ntv2WriteRegisterMS r (tbl gChannelToRP188DBBRegisterNum NTV2_CHANNEL5) 0xFF kRegMaskRP188DBB kRegShiftRP188DBB)
                                   else ntv2WriteRegisterMS r (tbl gChannelToRP188DBBRegisterNum NTV2_CHANNEL5) (DBB rp188) kRegMaskRP188DBB kRegShiftRP188DBB);
                                r = ntv2WriteRegister r (tbl gChannelToRP188Bits031RegisterNum NTV2_CHANNEL5) (Low rp188);
                                r = ntv2WriteRegister r (tbl gChannelToRP188Bits3263RegisterNum NTV2_CHANNEL5) (High rp188);
                                r = ntv2WriteRegister r (tbl gChannelToLTCEmbeddedBits031RegisterNum NTV2_CHANNEL5) (Low rp188)
                            in ntv2WriteRegister r (tbl gChannelToLTCEmbeddedBits3263RegisterNum NTV2_CHANNEL5) (High rp188))
                      else r);
                   r =
                     (if NTV2DeviceCanDoLTCOutN F deviceID NTV2_CHANNEL1
                      then (let r = ntv2WriteRegister r kRegLTCAnalogBits0_31 (Low rp188)
                            in ntv2WriteRegister r kRegLTCAnalogBits32_63 (High rp188))
                      else r)
               in if NTV2DeviceCanDoLTCOutN F deviceID NTV2_CHANNEL2
                  then (let r = ntv2WriteRegister r kRegLTC2AnalogBits0_31 (Low rp188)
                        in ntv2WriteRegister r kRegLTC2AnalogBits32_63 (High rp188))
                  else r))"

definition InitRP188 :: "features \<Rightarrow> regs \<Rightarrow> regs" where
  "InitRP188 F r =
     (let deviceID = ntv2ReadRegister r kRegBoardID;
          r =
            fold (\<lambda>i r.
              let r = SetRP188Mode r i NTV2_RP188_OUTPUT
              in if ntv2ReadVirtualRegister r kVRegUserDefinedDBB = 0
                 then (let inputFilter = 0x00;
                           inputFilter =
                             (if NTV2DeviceCanDoVITC2 F deviceID
                              then 0x02
                              else if deviceID \<noteq> DEVICE_ID_KONALHI then 0x01 else inputFilter);
                           r = ntv2WriteRegisterMS r (tbl gChannelToRP188DBBRegisterNum i) inputFilter kRegMaskRP188SourceSelect kRegShiftRP188Source
                       in ntv2WriteRegisterMS r (tbl gChannelToRP188DBBRegisterNum i) (if deviceID = DEVICE_ID_KONALHI then 0x00 else 0xFF) kRegMaskRP188DBB kRegShiftRP188DBB)
                 else r) [0 ..< NTV2DeviceGetNumVideoOutputs F deviceID] r;
          r =
            (if NTV2DeviceCanDoWidget F deviceID NTV2_WgtSDIMonOut1
             then (let r = SetRP188Mode r NTV2_CHANNEL5 NTV2_RP188_OUTPUT
                   in if ntv2ReadVirtualRegister r kVRegUserDefinedDBB = 0
                      then ntv2WriteRegisterMS r (tbl gChannelToRP188DBBRegisterNum NTV2_CHANNEL5) 0xFF kRegMaskRP188DBB kRegShiftRP188DBB
                      else r)
             else r);
          frameStampTCArray = zero_INTERNAL_TIMECODE_STRUCT
      in CopyFrameStampTCArrayToHardware F r frameStampTCArray)"

end
