(* ===== verification/Ntv2Audio.thy ===== *)
theory Ntv2Audio
  imports Ntv2Kona
begin

text \<open>
  The audio systems of driver/ntv2audio.c: the control register of each system (playback and
  capture run, stop and pause bits, the number of channels), the sample rate, the number of
  samples of a frame, and the position arithmetic of the circular audio buffer.
\<close>

definition gAudioRateHighMask :: "u32 list" where
  "gAudioRateHighMask =
   [kRegMaskAud1RateHigh, kRegMaskAud2RateHigh, kRegMaskAud3RateHigh, kRegMaskAud4RateHigh,
    kRegMaskAud5RateHigh, kRegMaskAud6RateHigh, kRegMaskAud7RateHigh, kRegMaskAud8RateHigh]"

definition gAudioRateHighShift :: "nat list" where
  "gAudioRateHighShift =
   [kRegShiftAud1RateHigh, kRegShiftAud2RateHigh, kRegShiftAud3RateHigh, kRegShiftAud4RateHigh,
    kRegShiftAud5RateHigh, kRegShiftAud6RateHigh, kRegShiftAud7RateHigh, kRegShiftAud8RateHigh]"

definition gAudioControlReg :: "u32 list" where
  "gAudioControlReg =
   [kRegAud1Control, kRegAud2Control, kRegAud3Control, kRegAud4Control, kRegAud5Control,
    kRegAud6Control, kRegAud7Control, kRegAud8Control, 0]"

definition gAudioSystemToAudioSrcSelRegNum :: "u32 list" where
  "gAudioSystemToAudioSrcSelRegNum =
   [kRegAud1SourceSelect, kRegAud2SourceSelect, kRegAud3SourceSelect, kRegAud4SourceSelect,
    kRegAud5SourceSelect, kRegAud6SourceSelect, kRegAud7SourceSelect, kRegAud8SourceSelect, 0]"

definition GetAudioSourceSelectRegister :: "regs \<Rightarrow> nat \<Rightarrow> u32" where
  "GetAudioSourceSelectRegister r audioSystem = tbl gAudioSystemToAudioSrcSelRegNum audioSystem"

definition GetAudioControlRegister :: "regs \<Rightarrow> nat \<Rightarrow> u32" where
  "GetAudioControlRegister r audioSystem = tbl gAudioControlReg audioSystem"

definition AudioUpdateRegister :: "regs \<Rightarrow> u32 \<Rightarrow> u32 \<Rightarrow> u32 \<Rightarrow> regs" where
  "AudioUpdateRegister r reg preOr postAnd =
     (let data = ntv2ReadRegister r reg;
          data = data OR preOr;
          data = data AND postAnd
      in ntv2WriteRegister r reg data)"

definition StartAudioPlayback :: "regs \<Rightarrow> nat \<Rightarrow> regs" where
  "StartAudioPlayback r audioSystem =
     (let control = GetAudioControlRegister r audioSystem
      in AudioUpdateRegister r control BIT_12 (NOT ((BIT_9 OR BIT_11) OR BIT_14)))"

definition StopAudioPlayback :: "regs \<Rightarrow> nat \<Rightarrow> regs" where
  "StopAudioPlayback r audioSystem =
     (let control = GetAudioControlRegister r audioSystem
      in AudioUpdateRegister r control BIT_9 (u32_of (- 1)))"

definition IsAudioPlaybackStopped :: "regs \<Rightarrow> nat \<Rightarrow> bool" where
  "IsAudioPlaybackStopped r audioSystem =
     (let control = GetAudioControlRegister r audioSystem;
          regValue = ntv2ReadRegister r control
      in if (regValue AND BIT_9) \<noteq> 0 then True else False)"

definition IsAudioPlaying :: "regs \<Rightarrow> nat \<Rightarrow> bool" where
  "IsAudioPlaying r audioSystem =
     (let control = GetAudioControlRegister r audioSystem
      in if (ntv2ReadRegister r control AND BIT_9) = 0 then True else False)"

definition IsAudioRecording :: "regs \<Rightarrow> nat \<Rightarrow> bool" where
  "IsAudioRecording r audioSystem =
     (let control = GetAudioControlRegister r audioSystem
      in if (ntv2ReadRegister r control AND BIT_8) = 0 then True else False)"

definition IsAudioPlaybackPaused :: "regs \<Rightarrow> nat \<Rightarrow> bool" where
  "IsAudioPlaybackPaused r audioSystem =
     (let control = GetAudioControlRegister r audioSystem;
          regValue = ntv2ReadRegister r control
      in if (regValue AND BIT_11) \<noteq> 0 then True else False)"

definition PauseAudioPlayback :: "regs \<Rightarrow> nat \<Rightarrow> regs" where
  "PauseAudioPlayback r audioSystem =
     (let control = GetAudioControlRegister r audioSystem
      in if \<not> IsAudioPlaybackPaused r audioSystem
         then AudioUpdateRegister r control BIT_11 (u32_of (- 1))
         else r)"

definition UnPauseAudioPlayback :: "regs \<Rightarrow> nat \<Rightarrow> regs" where
  "UnPauseAudioPlayback r audioSystem =
     (let control = GetAudioControlRegister r audioSystem
      in if IsAudioPlaybackPaused r audioSystem
         then AudioUpdateRegister r control BIT_11 (NOT BIT_11)
         else r)"

definition StartAudioCapture :: "regs \<Rightarrow> nat \<Rightarrow> regs" where
  "StartAudioCapture r audioSystem =
     (let control = GetAudioControlRegister r audioSystem;
          r = AudioUpdateRegister r control BIT_8 (NOT (BIT_0 OR BIT_14))
      in AudioUpdateRegister r control BIT_0 (NOT BIT_8))"

definition StopAudioCapture :: "regs \<Rightarrow> nat \<Rightarrow> regs" where
  "StopAudioCapture r audioSystem =
     (let control = GetAudioControlRegister r audioSystem
      in AudioUpdateRegister r control BIT_8 (NOT BIT_0))"

definition IsAudioCaptureStopped :: "regs \<Rightarrow> nat \<Rightarrow> bool" where
  "IsAudioCaptureStopped r audioSystem =
     (let control = GetAudioControlRegister r audioSystem;
          regValue = ntv2ReadRegister r control
      in if ((regValue AND BIT_8) \<noteq> 0) \<or> (\<not> ((regValue AND BIT_0) \<noteq> 0))
         then True
         else False)"

definition GetNumAudioChannels :: "regs \<Rightarrow> nat \<Rightarrow> u32" where
  "GetNumAudioChannels r audioSystem =
     (let control = GetAudioControlRegister r audioSystem;
          regValue = ntv2ReadRegister r control
      in if (regValue AND BIT_20) \<noteq> 0
         then 16
         else if (regValue AND BIT_16) \<noteq> 0 then 8 else 6)"

definition SetNumAudioChannels :: "regs \<Rightarrow> nat \<Rightarrow> u32 \<Rightarrow> regs" where
  "SetNumAudioChannels r audioSystem numChannels =
     (let control = GetAudioControlRegister r audioSystem
      in if numChannels = 16
         then AudioUpdateRegister r control BIT_20 0xFFFFFFFF
         else if numChannels = 8
         then AudioUpdateRegister r control BIT_16 (NOT BIT_20)
         else AudioUpdateRegister r control BIT_20 (NOT (BIT_20 OR BIT_16)))"

definition IsAudioInputRunning :: "regs \<Rightarrow> nat \<Rightarrow> bool" where
  "IsAudioInputRunning r audioSystem =
     (if audioSystem \<ge> NTV2_NUM_AUDIOSYSTEMS
      then False
      else (let control = GetAudioControlRegister r audioSystem;
                stopped = ntv2ReadRegisterMS r control kRegMaskResetAudioInput kRegShiftResetAudioInput
            in stopped = 0))"

definition oemAudioSampleAlign :: "regs \<Rightarrow> nat \<Rightarrow> u32 \<Rightarrow> u32" where
  "oemAudioSampleAlign r audioSystem ulReadSample =
     (let numBytesPerAudioSample = GetNumAudioChannels r audioSystem * 4
      in (ulReadSample div numBytesPerAudioSample) * numBytesPerAudioSample)"

definition GetAudioLastOut :: "regs \<Rightarrow> nat \<Rightarrow> u32" where
  "GetAudioLastOut r audioSystem =
     (let regNum =
            (if audioSystem = NTV2_AUDIOSYSTEM_2
             then kRegAud2OutputLastAddr
             else if audioSystem = NTV2_AUDIOSYSTEM_3
             then kRegAud3OutputLastAddr
             else if audioSystem = NTV2_AUDIOSYSTEM_4
             then kRegAud4OutputLastAddr
             else if audioSystem = NTV2_AUDIOSYSTEM_5
             then kRegAud5OutputLastAddr
             else if audioSystem = NTV2_AUDIOSYSTEM_6
             then kRegAud6OutputLastAddr
             else if audioSystem = NTV2_AUDIOSYSTEM_7
             then kRegAud7OutputLastAddr
             else if audioSystem = NTV2_AUDIOSYSTEM_8
             then kRegAud8OutputLastAddr
             else kRegAud1OutputLastAddr)
      in ntv2ReadRegister r regNum)"

definition GetAudioLastIn :: "regs \<Rightarrow> nat \<Rightarrow> u32" where
  "GetAudioLastIn r audioSystem =
     (let regNum =
            (if audioSystem = NTV2_AUDIOSYSTEM_2
             then kRegAud2InputLastAddr
             else if audioSystem = NTV2_AUDIOSYSTEM_3
             then kRegAud3InputLastAddr
             else if audioSystem = NTV2_AUDIOSYSTEM_4
             then kRegAud4InputLastAddr
             else if audioSystem = NTV2_AUDIOSYSTEM_5
             then kRegAud5InputLastAddr
             else if audioSystem = NTV2_AUDIOSYSTEM_6
             then kRegAud6InputLastAddr
             else if audioSystem = NTV2_AUDIOSYSTEM_7
             then kRegAud7InputLastAddr
             else if audioSystem = NTV2_AUDIOSYSTEM_8 then kRegAud8InputLastAddr else kRegAud1InputLastAddr)
      in ntv2ReadRegister r regNum)"

definition GetAudioRate :: "regs \<Rightarrow> nat \<Rightarrow> u32" where
  "GetAudioRate r audioSystem =
     (let outRate = NTV2_AUDIO_48K;
          control = GetAudioControlRegister r audioSystem;
          rateLow = ntv2ReadRegisterMS r control kRegMaskAudioRate kRegShiftAudioRate;
          outRate = if rateLow = 1 then NTV2_AUDIO_96K else outRate;
          rateHigh = ntv2ReadRegisterMS r kRegAudioControl2 (tbl gAudioRateHighMask audioSystem) (tbl gAudioRateHighShift audioSystem)
      in if rateHigh = 1 then NTV2_AUDIO_192K else outRate)"

definition GetAudioSamplesPerFrame :: "features \<Rightarrow> regs \<Rightarrow> nat \<Rightarrow> u32 \<Rightarrow> bool \<Rightarrow> u32" where
  "GetAudioSamplesPerFrame F r audioSystem cadenceFrame fieldMode =
     (let channel = NTV2_CHANNEL1;
          channel =
            (if IsMultiFormatActive F r
             then (if audioSystem = NTV2_AUDIOSYSTEM_1
                   then NTV2_CHANNEL1
                   else if audioSystem = NTV2_AUDIOSYSTEM_2
                   then NTV2_CHANNEL2
                   else if audioSystem = NTV2_AUDIOSYSTEM_3
                   then NTV2_CHANNEL3
                   else if audioSystem = NTV2_AUDIOSYSTEM_4
                   then NTV2_CHANNEL4
                   else if audioSystem = NTV2_AUDIOSYSTEM_5
                   then NTV2_CHANNEL5
                   else if audioSystem = NTV2_AUDIOSYSTEM_6
                   then NTV2_CHANNEL6
                   else if audioSystem = NTV2_AUDIOSYSTEM_7
                   then NTV2_CHANNEL7
                   else if audioSystem = NTV2_AUDIOSYSTEM_8 then NTV2_CHANNEL8 else channel)
             else channel);
          frameRate = GetFrameRate F r channel;
          audioRate = GetAudioRate r audioSystem;
          smpte372Enabled = GetSmpte372 F r channel;
          audioSamplesPerFrame = 0;
          cadenceFrame = cadenceFrame mod 5;
          frameRate =
            (if smpte372Enabled \<or> fieldMode
             then (if frameRate = NTV2_FRAMERATE_3000
                   then NTV2_FRAMERATE_6000
                   else if frameRate = NTV2_FRAMERATE_2997
                   then NTV2_FRAMERATE_5994
                   else if frameRate = NTV2_FRAMERATE_2500
                   then NTV2_FRAMERATE_5000
                   else if frameRate = NTV2_FRAMERATE_2400
                   then NTV2_FRAMERATE_4800
                   else if frameRate = NTV2_FRAMERATE_2398 then NTV2_FRAMERATE_4795 else frameRate)
             else frameRate)
      in if audioRate = NTV2_AUDIO_48K
         then (if frameRate = NTV2_FRAMERATE_12000
               then 400
               else if frameRate = NTV2_FRAMERATE_11988
               then (if cadenceFrame \<in> {0, 2, 4}
                     then 400
                     else if cadenceFrame \<in> {1, 3} then 401 else audioSamplesPerFrame)
               else if frameRate = NTV2_FRAMERATE_6000
               then 800
               else if frameRate = NTV2_FRAMERATE_5994
               then (if cadenceFrame = 0
                     then 800
                     else if cadenceFrame = 1
                     then 801
                     else if cadenceFrame = 2
                     then 801
                     else if cadenceFrame = 3
                     then 801
                     else if cadenceFrame = 4 then 801 else audioSamplesPerFrame)
               else if frameRate = NTV2_FRAMERATE_5000
               then 960
               else if frameRate = NTV2_FRAMERATE_4800
               then 1000
               else if frameRate = NTV2_FRAMERATE_4795
               then 1001
               else if frameRate = NTV2_FRAMERATE_3000
               then 1600
               else if frameRate = NTV2_FRAMERATE_2997
               then (if cadenceFrame = 0
                     then 1602
                     else if cadenceFrame = 1
                     then 1601
                     else if cadenceFrame = 2
                     then 1602
                     else if cadenceFrame = 3
                     then 1601
                     else if cadenceFrame = 4 then 1602 else audioSamplesPerFrame)
               else if frameRate = NTV2_FRAMERATE_2500
               then 1920
               else if frameRate = NTV2_FRAMERATE_2400
               then 2000
               else if frameRate = NTV2_FRAMERATE_2398
               then 2002
               else if frameRate = NTV2_FRAMERATE_1500
               then 3200
               else if frameRate = NTV2_FRAMERATE_1498
               then (if cadenceFrame = 0
                     then 3204
                     else if cadenceFrame \<in> {1, 2, 3, 4} then 3203 else audioSamplesPerFrame)
               else if frameRate = NTV2_FRAMERATE_UNKNOWN then 0 else audioSamplesPerFrame)
         else if audioRate = NTV2_AUDIO_96K
         then (if frameRate = NTV2_FRAMERATE_6000
               then 1600
               else if frameRate = NTV2_FRAMERATE_5000
               then 1920
               else if frameRate = NTV2_FRAMERATE_5994
               then (if cadenceFrame = 0
                     then 1602
                     else if cadenceFrame = 1
                     then 1601
                     else if cadenceFrame = 2
                     then 1602
                     else if cadenceFrame = 3
                     then 1601
                     else if cadenceFrame = 4 then 1602 else audioSamplesPerFrame)
               else if frameRate = NTV2_FRAMERATE_3000
               then 3200
               else if frameRate = NTV2_FRAMERATE_2997
               then (if cadenceFrame = 0
                     then 3204
                     else if cadenceFrame = 1
                     then 3203
                     else if cadenceFrame = 2
                     then 3203
                     else if cadenceFrame = 3
                     then 3203
                     else if cadenceFrame = 4 then 3203 else audioSamplesPerFrame)
               else if frameRate = NTV2_FRAMERATE_2500
               then 3840
               else if frameRate = NTV2_FRAMERATE_2400
               then 4000
               else if frameRate = NTV2_FRAMERATE_2398
               then 4004
               else if frameRate = NTV2_FRAMERATE_1500
               then 6400
               else if frameRate = NTV2_FRAMERATE_1498
               then (if cadenceFrame = 0
                     then 6408
                     else if cadenceFrame \<in> {1, 2, 3, 4} then 6406 else audioSamplesPerFrame)
               else if frameRate = NTV2_FRAMERATE_UNKNOWN then 0 else audioSamplesPerFrame)
         else if audioRate = NTV2_AUDIO_192K
         then (if frameRate = NTV2_FRAMERATE_12000
               then 1600
               else if frameRate = NTV2_FRAMERATE_11988
               then (if cadenceFrame \<in> {0, 2, 4}
                     then 1602
                     else if cadenceFrame \<in> {1, 3} then 1601 else audioSamplesPerFrame)
               else if frameRate = NTV2_FRAMERATE_6000
               then 3200
               else if frameRate = NTV2_FRAMERATE_5994
               then (if cadenceFrame = 0
                     then 3204
                     else if cadenceFrame \<in> {1, 2, 3, 4} then 3203 else audioSamplesPerFrame)
               else if frameRate = NTV2_FRAMERATE_5000
               then 3840
               else if frameRate = NTV2_FRAMERATE_4800
               then 4000
               else if frameRate = NTV2_FRAMERATE_4795
               then 4004
               else if frameRate = NTV2_FRAMERATE_3000
               then 6400
               else if frameRate = NTV2_FRAMERATE_2997
               then (if cadenceFrame \<in> {0, 1}
                     then 6407
                     else if cadenceFrame \<in> {2, 3, 4} then 6406 else audioSamplesPerFrame)
               else if frameRate = NTV2_FRAMERATE_2500
               then 7680
               else if frameRate = NTV2_FRAMERATE_2400
               then 8000
               else if frameRate = NTV2_FRAMERATE_2398
               then 8008
               else if frameRate = NTV2_FRAMERATE_1500
               then 12800
               else if frameRate = NTV2_FRAMERATE_1498
               then (if cadenceFrame \<in> {0, 1, 2, 3}
                     then 12813
                     else if cadenceFrame = 4 then 12812 else audioSamplesPerFrame)
               else if frameRate \<in> {NTV2_FRAMERATE_UNKNOWN, NTV2_NUM_FRAMERATES}
               then 0
               else audioSamplesPerFrame)
         else audioSamplesPerFrame)"

definition GetAudioSamplesPerSecond :: "regs \<Rightarrow> nat \<Rightarrow> u32" where
  "GetAudioSamplesPerSecond r audioSystem =
     (let sps = 48000;
          rate = GetAudioRate r audioSystem;
          sps = if rate = NTV2_AUDIO_96K then 96000 else sps
      in if rate = NTV2_AUDIO_192K then 192000 else sps)"

definition SupportStackedAudio :: "regs \<Rightarrow> bool" where
  "SupportStackedAudio r =
     (let deviceID = ntv2ReadRegister r kRegBoardID
      in if deviceID \<in> {DEVICE_ID_CORVID24, DEVICE_ID_CORVID44, DEVICE_ID_CORVID44_2X4K, DEVICE_ID_CORVID44_8K, DEVICE_ID_CORVID44_8KMK, DEVICE_ID_CORVID44_PLNR, DEVICE_ID_CORVID88, DEVICE_ID_CORVIDHBR, DEVICE_ID_CORVIDHEVC, DEVICE_ID_IO4K, DEVICE_ID_IO4KPLUS, DEVICE_ID_IO4KUFC, DEVICE_ID_IOIP_2022, DEVICE_ID_IOIP_2110, DEVICE_ID_IOIP_2110_RGB12, DEVICE_ID_IOX3, DEVICE_ID_KONA1, DEVICE_ID_KONA3GQUAD, DEVICE_ID_KONA4, DEVICE_ID_KONA4UFC, DEVICE_ID_KONA5, DEVICE_ID_KONA5_2X4K, DEVICE_ID_KONA5_3DLUT, DEVICE_ID_KONA5_8K, DEVICE_ID_KONA5_8KMK, DEVICE_ID_KONA5_8K_MV_TX, DEVICE_ID_KONA5_OE1, DEVICE_ID_KONA5_OE10, DEVICE_ID_KONA5_OE11, DEVICE_ID_KONA5_OE12, DEVICE_ID_KONA5_OE2, DEVICE_ID_KONA5_OE3, DEVICE_ID_KONA5_OE4, DEVICE_ID_KONA5_OE5, DEVICE_ID_KONA5_OE6, DEVICE_ID_KONA5_OE7, DEVICE_ID_KONA5_OE8, DEVICE_ID_KONA5_OE9, DEVICE_ID_KONAHDMI, DEVICE_ID_KONAIP_1RX_1TX_1SFP_J2K, DEVICE_ID_KONAIP_1RX_1TX_2110, DEVICE_ID_KONAIP_2022, DEVICE_ID_KONAIP_2110, DEVICE_ID_KONAIP_2110_RGB12, DEVICE_ID_KONAIP_25G, DEVICE_ID_KONAIP_25G_8CH, DEVICE_ID_KONAIP_2TX_1SFP_J2K, DEVICE_ID_KONAIP_4CH_2SFP, DEVICE_ID_KONAX, DEVICE_ID_KONAX_4CH, DEVICE_ID_KONAXM, DEVICE_ID_SOFTWARE, DEVICE_ID_SOJI_3DLUT, DEVICE_ID_SOJI_DIAGS, DEVICE_ID_SOJI_OE1, DEVICE_ID_SOJI_OE2, DEVICE_ID_SOJI_OE3, DEVICE_ID_SOJI_OE4, DEVICE_ID_SOJI_OE5, DEVICE_ID_SOJI_OE6, DEVICE_ID_SOJI_OE7, DEVICE_ID_TTAP_PRO}
         then True
         else False)"

definition GetAudioBufferSize :: "regs \<Rightarrow> nat \<Rightarrow> bool \<times> u32" where
  "GetAudioBufferSize r audioSystem =
     (if SupportStackedAudio r
      then (let value = NTV2_AUDIO_BUFFER_SIZE_4MB
            in (True, value))
      else (let control = GetAudioControlRegister r audioSystem;
                value = ntv2ReadRegisterMS r control kK2RegMaskAudioBufferSize kK2RegShiftAudioBufferSize
            in (True, value)))"

definition GetAudioWrapAddress :: "regs \<Rightarrow> nat \<Rightarrow> u32" where
  "GetAudioWrapAddress r audioSystem =
     (let (_, bufferSize) = GetAudioBufferSize r audioSystem
      in if bufferSize = NTV2_AUDIO_BUFFER_BIG
         then NTV2_AUDIO_WRAPADDRESS_BIG
         else NTV2_AUDIO_WRAPADDRESS)"

definition GetAudioReadOffset :: "regs \<Rightarrow> nat \<Rightarrow> u32" where
  "GetAudioReadOffset r audioSystem =
     (let (_, bufferSize) = GetAudioBufferSize r audioSystem
      in if bufferSize = NTV2_AUDIO_BUFFER_BIG
         then NTV2_AUDIO_READBUFFEROFFSET_BIG
         else NTV2_AUDIO_READBUFFEROFFSET)"

definition GetAudioTransferInfo :: "regs \<Rightarrow> nat \<Rightarrow> u32 \<Rightarrow> u32 \<Rightarrow> u32 \<times> u32 \<times> u32" where
  "GetAudioTransferInfo r audioSystem currentOffset numBytesToTransfer =
     (let nextOffset = currentOffset + numBytesToTransfer;
          wrapAddress = GetAudioWrapAddress r audioSystem;
          (preWrapBytes, postWrapBytes, nextOffset) =
            (if nextOffset \<ge> wrapAddress
             then (let preWrapBytes = wrapAddress - currentOffset;
                       postWrapBytes = nextOffset - wrapAddress;
                       nextOffset = postWrapBytes
                   in (preWrapBytes, postWrapBytes, nextOffset))
             else (let preWrapBytes = nextOffset - currentOffset;
                       postWrapBytes = 0
                   in (preWrapBytes, postWrapBytes, nextOffset)))
      in (nextOffset, preWrapBytes, postWrapBytes))"

end
