(* ===== verification/Ntv2Anc.thy ===== *)
theory Ntv2Anc
  imports Ntv2Kona
begin

text \<open>
  The ancillary data extractors and inserters of driver/ntv2anc.c: one block of registers per
  channel, its field setters, the set-up for a video standard and the addresses of the data
  inside a frame buffer. A function whose C result is always \<open>true\<close> returns the register
  bank only.
\<close>

definition gChannelToAncExtOffset :: "u32 list" where
  "gChannelToAncExtOffset =
   [ANC_EXT_1_OFFSET, ANC_EXT_2_OFFSET, ANC_EXT_3_OFFSET, ANC_EXT_4_OFFSET, ANC_EXT_5_OFFSET,
    ANC_EXT_6_OFFSET, ANC_EXT_7_OFFSET, ANC_EXT_8_OFFSET, 0]"

definition gChannelToAncInsOffset :: "u32 list" where
  "gChannelToAncInsOffset =
   [ANC_INS_1_OFFSET, ANC_INS_2_OFFSET, ANC_INS_3_OFFSET, ANC_INS_4_OFFSET, ANC_INS_5_OFFSET,
    ANC_INS_6_OFFSET, ANC_INS_7_OFFSET, ANC_INS_8_OFFSET, 0]"

definition EnableAncExtractor :: "regs \<Rightarrow> nat \<Rightarrow> bool \<Rightarrow> regs" where
  "EnableAncExtractor r channel bEnable =
     ntv2WriteRegisterMS r (tbl gChannelToAncExtOffset channel + regAncExtControl) (if bEnable then 0 else 1) maskDisableExtractor shiftDisableExtractor"

definition EnableAncExtHancY :: "regs \<Rightarrow> nat \<Rightarrow> bool \<Rightarrow> regs" where
  "EnableAncExtHancY r channel bEnable =
     ntv2WriteRegisterMS r (tbl gChannelToAncExtOffset channel + regAncExtControl) (if bEnable then 1 else 0) maskEnableHancY shiftEnableHancY"

definition EnableAncExtHancC :: "regs \<Rightarrow> nat \<Rightarrow> bool \<Rightarrow> regs" where
  "EnableAncExtHancC r channel bEnable =
     ntv2WriteRegisterMS r (tbl gChannelToAncExtOffset channel + regAncExtControl) (if bEnable then 1 else 0) maskEnableHancC shiftEnableHancC"

definition EnableAncExtVancY :: "regs \<Rightarrow> nat \<Rightarrow> bool \<Rightarrow> regs" where
  "EnableAncExtVancY r channel bEnable =
     ntv2WriteRegisterMS r (tbl gChannelToAncExtOffset channel + regAncExtControl) (if bEnable then 1 else 0) maskEnableVancY shiftEnableVancY"

definition EnableAncExtVancC :: "regs \<Rightarrow> nat \<Rightarrow> bool \<Rightarrow> regs" where
  "EnableAncExtVancC r channel bEnable =
     ntv2WriteRegisterMS r (tbl gChannelToAncExtOffset channel + regAncExtControl) (if bEnable then 1 else 0) maskEnableVancC shiftEnableVancC"

definition SetAncExtSDDemux :: "regs \<Rightarrow> nat \<Rightarrow> bool \<Rightarrow> regs" where
  "SetAncExtSDDemux r channel bEnable =
     ntv2WriteRegisterMS r (tbl gChannelToAncExtOffset channel + regAncExtControl) (if bEnable then 1 else 0) maskEnableSDMux shiftEnableSDMux"

definition SetAncExtProgressive :: "regs \<Rightarrow> nat \<Rightarrow> bool \<Rightarrow> regs" where
  "SetAncExtProgressive r channel bEnable =
     ntv2WriteRegisterMS r (tbl gChannelToAncExtOffset channel + regAncExtControl) (if bEnable then 1 else 0) maskSetProgressive shiftSetProgressive"

definition SetAncExtSynchro :: "regs \<Rightarrow> nat \<Rightarrow> regs" where
  "SetAncExtSynchro r channel =
     ntv2WriteRegisterMS r (tbl gChannelToAncExtOffset channel + regAncExtControl) 0x1 maskSyncro shiftSyncro"

definition SetAncExtLSBEnable :: "regs \<Rightarrow> nat \<Rightarrow> bool \<Rightarrow> regs" where
  "SetAncExtLSBEnable r channel bEnable =
     ntv2WriteRegisterMS r (tbl gChannelToAncExtOffset channel + regAncExtControl) (if bEnable then 1 else 0) maskGrabLSBs shiftGrabLSBs"

definition SetAncExtField1StartAddr :: "regs \<Rightarrow> nat \<Rightarrow> u32 \<Rightarrow> regs" where
  "SetAncExtField1StartAddr r channel addr =
     ntv2WriteRegister r (tbl gChannelToAncExtOffset channel + regAncExtField1StartAddress) addr"

definition SetAncExtField1EndAddr :: "regs \<Rightarrow> nat \<Rightarrow> u32 \<Rightarrow> regs" where
  "SetAncExtField1EndAddr r channel addr =
     ntv2WriteRegister r (tbl gChannelToAncExtOffset channel + regAncExtField1EndAddress) addr"

definition SetAncExtWriteParams :: "features \<Rightarrow> regs \<Rightarrow> nat \<Rightarrow> u32 \<Rightarrow> regs" where
  "SetAncExtWriteParams F r channel frameNumber =
     (let nextFrame = frameNumber + 1;
          endOfFrameLocation = GetFrameBufferSize F r (if channel < NTV2_CHANNEL5 then NTV2_CHANNEL1 else NTV2_CHANNEL5) * nextFrame;
          ANCStartMemory = endOfFrameLocation - ntv2ReadVirtualRegister r kVRegAncField1Offset;
          ANCStopMemory = endOfFrameLocation - ntv2ReadVirtualRegister r kVRegAncField2Offset;
          ANCStopMemory = ANCStopMemory - 1;
          r = SetAncExtField1StartAddr r channel ANCStartMemory
      in SetAncExtField1EndAddr r channel ANCStopMemory)"

definition SetAncExtField2StartAddr :: "regs \<Rightarrow> nat \<Rightarrow> u32 \<Rightarrow> regs" where
  "SetAncExtField2StartAddr r channel addr =
     ntv2WriteRegister r (tbl gChannelToAncExtOffset channel + regAncExtField2StartAddress) addr"

definition SetAncExtField2EndAddr :: "regs \<Rightarrow> nat \<Rightarrow> u32 \<Rightarrow> regs" where
  "SetAncExtField2EndAddr r channel addr =
     ntv2WriteRegister r (tbl gChannelToAncExtOffset channel + regAncExtField2EndAddress) addr"

definition SetAncExtField2WriteParams :: "features \<Rightarrow> regs \<Rightarrow> nat \<Rightarrow> u32 \<Rightarrow> regs" where
  "SetAncExtField2WriteParams F r channel frameNumber =
     (let nextFrame = frameNumber + 1;
          endOfFrameLocation = GetFrameBufferSize F r (if channel < NTV2_CHANNEL5 then NTV2_CHANNEL1 else NTV2_CHANNEL5) * nextFrame;
          ANCStartMemory = endOfFrameLocation - ntv2ReadVirtualRegister r kVRegAncField2Offset;
          ANCStopMemory = endOfFrameLocation - 1;
          r = SetAncExtField2StartAddr r channel ANCStartMemory
      in SetAncExtField2EndAddr r channel ANCStopMemory)"

definition SetAncExtField1CutoffLine :: "regs \<Rightarrow> nat \<Rightarrow> u32 \<Rightarrow> regs" where
  "SetAncExtField1CutoffLine r channel lineNumber =
     ntv2WriteRegisterMS r (tbl gChannelToAncExtOffset channel + regAncExtFieldCutoffLine) lineNumber maskField1CutoffLine shiftField1CutoffLine"

definition SetAncExtField2CutoffLine :: "regs \<Rightarrow> nat \<Rightarrow> u32 \<Rightarrow> regs" where
  "SetAncExtField2CutoffLine r channel lineNumber =
     ntv2WriteRegisterMS r (tbl gChannelToAncExtOffset channel + regAncExtFieldCutoffLine) lineNumber maskField2CutoffLine shiftField2CutoffLine"

definition IsAncExtOverrun :: "regs \<Rightarrow> nat \<Rightarrow> bool" where
  "IsAncExtOverrun r channel =
     (let value = ntv2ReadRegisterMS r (tbl gChannelToAncExtOffset channel + regAncExtTotalStatus) maskTotalOverrun shiftTotalOverrun
      in value = 1)"

definition GetAncExtField1Bytes :: "regs \<Rightarrow> nat \<Rightarrow> u32" where
  "GetAncExtField1Bytes r channel =
     ntv2ReadRegisterMS r (tbl gChannelToAncExtOffset channel + regAncExtField1Status) maskField1BytesIn shiftField1BytesIn"

definition IsAncExtField1Overrun :: "regs \<Rightarrow> nat \<Rightarrow> bool" where
  "IsAncExtField1Overrun r channel =
     (let value = ntv2ReadRegisterMS r (tbl gChannelToAncExtOffset channel + regAncExtField1Status) maskField1Overrun shiftField1Overrun
      in value = 1)"

definition GetAncExtField2Bytes :: "regs \<Rightarrow> nat \<Rightarrow> u32" where
  "GetAncExtField2Bytes r channel =
     ntv2ReadRegisterMS r (tbl gChannelToAncExtOffset channel + regAncExtField2Status) maskField2BytesIn shiftField2BytesIn"

definition IsAncExtField2Overrun :: "regs \<Rightarrow> nat \<Rightarrow> bool" where
  "IsAncExtField2Overrun r channel =
     (let value = ntv2ReadRegisterMS r (tbl gChannelToAncExtOffset channel + regAncExtField2Status) maskField2Overrun shiftField2Overrun
      in value = 1)"

definition SetAncExtField1StartLine :: "regs \<Rightarrow> nat \<Rightarrow> u32 \<Rightarrow> regs" where
  "SetAncExtField1StartLine r channel lineNumber =
     ntv2WriteRegisterMS r (tbl gChannelToAncExtOffset channel + regAncExtFieldVBLStartLine) lineNumber maskField1StartLine shiftField1StartLine"

definition SetAncExtField2StartLine :: "regs \<Rightarrow> nat \<Rightarrow> u32 \<Rightarrow> regs" where
  "SetAncExtField2StartLine r channel lineNumber =
     ntv2WriteRegisterMS r (tbl gChannelToAncExtOffset channel + regAncExtFieldVBLStartLine) lineNumber maskField2StartLine shiftField2StartLine"

definition SetAncExtTotalFrameLines :: "regs \<Rightarrow> nat \<Rightarrow> u32 \<Rightarrow> regs" where
  "SetAncExtTotalFrameLines r channel totalFrameLines =
     ntv2WriteRegisterMS r (tbl gChannelToAncExtOffset channel + regAncExtTotalFrameLines) totalFrameLines maskTotalFrameLines shiftTotalFrameLines"

definition SetAncExtFidLow :: "regs \<Rightarrow> nat \<Rightarrow> u32 \<Rightarrow> regs" where
  "SetAncExtFidLow r channel lineNumber =
     ntv2WriteRegisterMS r (tbl gChannelToAncExtOffset channel + regAncExtFID) lineNumber maskFIDLow shiftFIDLow"

definition SetAncExtFidHi :: "regs \<Rightarrow> nat \<Rightarrow> u32 \<Rightarrow> regs" where
  "SetAncExtFidHi r channel lineNumber =
     ntv2WriteRegisterMS r (tbl gChannelToAncExtOffset channel + regAncExtFID) lineNumber maskFIDHi shiftFIDHi"

definition SetAncExtField1AnalogStartLine :: "regs \<Rightarrow> nat \<Rightarrow> u32 \<Rightarrow> regs" where
  "SetAncExtField1AnalogStartLine r channel lineNumber =
     ntv2WriteRegisterMS r (tbl gChannelToAncExtOffset channel + regAncExtAnalogStartLine) lineNumber maskField1AnalogStartLine shiftField1AnalogStartLine"

definition SetAncExtField2AnalogStartLine :: "regs \<Rightarrow> nat \<Rightarrow> u32 \<Rightarrow> regs" where
  "SetAncExtField2AnalogStartLine r channel lineNumber =
     ntv2WriteRegisterMS r (tbl gChannelToAncExtOffset channel + regAncExtAnalogStartLine) lineNumber maskField2AnalogStartLine shiftField2AnalogStartLine"

definition SetAncExtField1AnalogYFilter :: "regs \<Rightarrow> nat \<Rightarrow> u32 \<Rightarrow> regs" where
  "SetAncExtField1AnalogYFilter r channel lineFilter =
     ntv2WriteRegister r (tbl gChannelToAncExtOffset channel + regAncExtField1AnalogYFilter) lineFilter"

definition SetAncExtField2AnalogYFilter :: "regs \<Rightarrow> nat \<Rightarrow> u32 \<Rightarrow> regs" where
  "SetAncExtField2AnalogYFilter r channel lineFilter =
     ntv2WriteRegister r (tbl gChannelToAncExtOffset channel + regAncExtField2AnalogYFilter) lineFilter"

definition SetAncExtField1AnalogCFilter :: "regs \<Rightarrow> nat \<Rightarrow> u32 \<Rightarrow> regs" where
  "SetAncExtField1AnalogCFilter r channel lineFilter =
     ntv2WriteRegister r (tbl gChannelToAncExtOffset channel + regAncExtField1AnalogCFilter) lineFilter"

definition SetAncExtField2AnalogCFilter :: "regs \<Rightarrow> nat \<Rightarrow> u32 \<Rightarrow> regs" where
  "SetAncExtField2AnalogCFilter r channel lineFilter =
     ntv2WriteRegister r (tbl gChannelToAncExtOffset channel + regAncExtField2AnalogCFilter) lineFilter"

definition EnableAncInserter :: "regs \<Rightarrow> nat \<Rightarrow> bool \<Rightarrow> regs" where
  "EnableAncInserter r channel bEnable =
     (let r = ntv2WriteRegister r (tbl gChannelToAncInsOffset channel + regAncInsBlankCStartLine) 0;
          r = ntv2WriteRegister r (tbl gChannelToAncInsOffset channel + regAncInsBlankField1CLines) 0;
          r = ntv2WriteRegister r (tbl gChannelToAncInsOffset channel + regAncInsBlankField2CLines) 0
      in ntv2WriteRegisterMS r (tbl gChannelToAncInsOffset channel + regAncInsControl) (if bEnable then 0 else 1) maskInsDisableInserter shiftInsDisableInserter)"

definition SetAncInsField1Bytes :: "regs \<Rightarrow> nat \<Rightarrow> u32 \<Rightarrow> regs" where
  "SetAncInsField1Bytes r channel numberOfBytes =
     ntv2WriteRegisterMS r (tbl gChannelToAncInsOffset channel + regAncInsFieldBytes) numberOfBytes maskInsField1Bytes shiftInsField1Bytes"

definition SetAncInsField2Bytes :: "regs \<Rightarrow> nat \<Rightarrow> u32 \<Rightarrow> regs" where
  "SetAncInsField2Bytes r channel numberOfBytes =
     ntv2WriteRegisterMS r (tbl gChannelToAncInsOffset channel + regAncInsFieldBytes) numberOfBytes maskInsField2Bytes shiftInsField2Bytes"

definition EnableAncInsHancY :: "regs \<Rightarrow> nat \<Rightarrow> bool \<Rightarrow> regs" where
  "EnableAncInsHancY r channel bEnable =
     ntv2WriteRegisterMS r (tbl gChannelToAncInsOffset channel + regAncInsControl) (if bEnable then 1 else 0) maskInsEnableHancY shiftInsEnableHancY"

definition EnableAncInsHancC :: "regs \<Rightarrow> nat \<Rightarrow> bool \<Rightarrow> regs" where
  "EnableAncInsHancC r channel bEnable =
     ntv2WriteRegisterMS r (tbl gChannelToAncInsOffset channel + regAncInsControl) (if bEnable then 1 else 0) maskInsEnableHancC shiftInsEnableHancY"

definition EnableAncInsVancY :: "regs \<Rightarrow> nat \<Rightarrow> bool \<Rightarrow> regs" where
  "EnableAncInsVancY r channel bEnable =
     ntv2WriteRegisterMS r (tbl gChannelToAncInsOffset channel + regAncInsControl) (if bEnable then 1 else 0) maskInsEnableVancY shiftInsEnableVancY"

definition EnableAncInsVancC :: "regs \<Rightarrow> nat \<Rightarrow> bool \<Rightarrow> regs" where
  "EnableAncInsVancC r channel bEnable =
     ntv2WriteRegisterMS r (tbl gChannelToAncInsOffset channel + regAncInsControl) (if bEnable then 1 else 0) maskInsEnableVancC shiftInsEnableVancC"

definition SetAncInsProgressive :: "regs \<Rightarrow> nat \<Rightarrow> bool \<Rightarrow> regs" where
  "SetAncInsProgressive r channel isProgressive =
     ntv2WriteRegisterMS r (tbl gChannelToAncInsOffset channel + regAncInsControl) (if isProgressive then 1 else 0) maskInsSetProgressive shiftInsSetProgressive"

definition SetAncInsSDPacketSplit :: "regs \<Rightarrow> nat \<Rightarrow> bool \<Rightarrow> regs" where
  "SetAncInsSDPacketSplit r channel inEnable =
     ntv2WriteRegisterMS r (tbl gChannelToAncInsOffset channel + regAncInsControl) (if inEnable then 1 else 0) maskInsEnablePktSplitSD shiftInsEnablePktSplitSD"

definition SetAncInsField1StartAddr :: "regs \<Rightarrow> nat \<Rightarrow> u32 \<Rightarrow> regs" where
  "SetAncInsField1StartAddr r channel startAddr =
     ntv2WriteRegister r (tbl gChannelToAncInsOffset channel + regAncInsField1StartAddr) startAddr"

definition SetAncInsReadParams :: "features \<Rightarrow> regs \<Rightarrow> nat \<Rightarrow> u32 \<Rightarrow> u32 \<Rightarrow> regs" where
  "SetAncInsReadParams F r channel frameNumber field1Size =
     (let nextFrame = frameNumber + 1;
          frameLocation = GetFrameBufferSize F r (if channel < NTV2_CHANNEL5 then NTV2_CHANNEL1 else NTV2_CHANNEL5) * nextFrame;
          ANCStartMemory = frameLocation - ntv2ReadVirtualRegister r kVRegAncField1Offset;
          ancField1Size = field1Size;
          deviceID = ntv2ReadRegister r kRegBoardID;
          r = SetAncInsField1StartAddr r channel ANCStartMemory;
          r = SetAncInsField1Bytes r channel ancField1Size
      in if ntv2ReadVirtualRegister r kVRegEveryFrameTaskFilter = NTV2_STANDARD_TASKS
         then (let (ANCStartMemory, r) =
                     fold (\<lambda>i (ANCStartMemory, r).
                       let (ANCStartMemory, ancField1Size) =
                             (if ((deviceID = DEVICE_ID_IOIP_2110) \<or> (deviceID = DEVICE_ID_IOIP_2110_RGB12)) \<and> (i = NTV2_CHANNEL5)
                              then (let ANCStartMemory = frameLocation - ntv2ReadVirtualRegister r kVRegMonAncField1Offset;
                                        ancField1Size = ntv2ReadVirtualRegister r kVRegMonAncField1Offset - ntv2ReadVirtualRegister r kVRegAncField2Offset
                                    in (ANCStartMemory, ancField1Size))
                              else (ANCStartMemory, ancField1Size));
                           r = SetAncInsField1StartAddr r i ANCStartMemory;
                           r = SetAncInsField1Bytes r i field1Size
                       in (ANCStartMemory, r)) [0 ..< NTV2DeviceGetNumVideoOutputs F deviceID] (ANCStartMemory, r)
               in r)
         else r)"

definition SetAncInsField2StartAddr :: "regs \<Rightarrow> nat \<Rightarrow> u32 \<Rightarrow> regs" where
  "SetAncInsField2StartAddr r channel startAddr =
     ntv2WriteRegister r (tbl gChannelToAncInsOffset channel + regAncInsField2StartAddr) startAddr"

definition SetAncInsReadField2Params :: "features \<Rightarrow> regs \<Rightarrow> nat \<Rightarrow> u32 \<Rightarrow> u32 \<Rightarrow> regs" where
  "SetAncInsReadField2Params F r channel frameNumber field2Size =
     (let nextFrame = frameNumber + 1;
          frameLocation = GetFrameBufferSize F r (if channel < NTV2_CHANNEL5 then NTV2_CHANNEL1 else NTV2_CHANNEL5) * nextFrame;
          ANCStartMemory = frameLocation - ntv2ReadVirtualRegister r kVRegAncField2Offset;
          deviceID = ntv2ReadRegister r kRegBoardID;
          r = SetAncInsField2StartAddr r channel ANCStartMemory;
          r = SetAncInsField2Bytes r channel field2Size
      in if ntv2ReadVirtualRegister r kVRegEveryFrameTaskFilter = NTV2_STANDARD_TASKS
         then (let (ANCStartMemory, r) =
                     fold (\<lambda>i (ANCStartMemory, r).
                       let ANCStartMemory =
                             (if ((deviceID = DEVICE_ID_IOIP_2110) \<or> (deviceID = DEVICE_ID_IOIP_2110_RGB12)) \<and> (i = NTV2_CHANNEL5)
                              then frameLocation - ntv2ReadVirtualRegister r kVRegMonAncField2Offset
                              else ANCStartMemory);
                           r = SetAncInsField2StartAddr r i ANCStartMemory;
                           r = SetAncInsField2Bytes r i field2Size
                       in (ANCStartMemory, r)) [0 ..< NTV2DeviceGetNumVideoOutputs F deviceID] (ANCStartMemory, r)
               in r)
         else r)"

definition SetAncInsHancPixelDelay :: "regs \<Rightarrow> nat \<Rightarrow> u32 \<Rightarrow> regs" where
  "SetAncInsHancPixelDelay r channel numberOfPixels =
     ntv2WriteRegisterMS r (tbl gChannelToAncInsOffset channel + regAncInsPixelDelay) numberOfPixels maskInsHancDelay shiftINsHancDelay"

definition SetAncInsVancPixelDelay :: "regs \<Rightarrow> nat \<Rightarrow> u32 \<Rightarrow> regs" where
  "SetAncInsVancPixelDelay r channel numberOfPixels =
     ntv2WriteRegisterMS r (tbl gChannelToAncInsOffset channel + regAncInsPixelDelay) numberOfPixels maskInsVancDelay shiftInsVancDelay"

definition SetAncInsField1ActiveLine :: "regs \<Rightarrow> nat \<Rightarrow> u32 \<Rightarrow> regs" where
  "SetAncInsField1ActiveLine r channel activeLineNumber =
     ntv2WriteRegisterMS r (tbl gChannelToAncInsOffset channel + regAncInsActiveStart) activeLineNumber maskInsField1FirstActive shiftInsField1FirstActive"

definition SetAncInsField2ActiveLine :: "regs \<Rightarrow> nat \<Rightarrow> u32 \<Rightarrow> regs" where
  "SetAncInsField2ActiveLine r channel activeLineNumber =
     ntv2WriteRegisterMS r (tbl gChannelToAncInsOffset channel + regAncInsActiveStart) activeLineNumber maskInsField2FirstActive shiftInsField2FirstActive"

definition SetAncInsHActivePixels :: "regs \<Rightarrow> nat \<Rightarrow> u32 \<Rightarrow> regs" where
  "SetAncInsHActivePixels r channel numberOfActiveLinePixels =
     ntv2WriteRegisterMS r (tbl gChannelToAncInsOffset channel + regAncInsLinePixels) numberOfActiveLinePixels maskInsActivePixelsInLine shiftInsActivePixelsInLine"

definition SetAncInsHTotalPixels :: "regs \<Rightarrow> nat \<Rightarrow> u32 \<Rightarrow> regs" where
  "SetAncInsHTotalPixels r channel numberOfLinePixels =
     ntv2WriteRegisterMS r (tbl gChannelToAncInsOffset channel + regAncInsLinePixels) numberOfLinePixels maskInsTotalPixelsInLine shiftInsTotalPixelsInLine"

definition SetAncInsTotalLines :: "regs \<Rightarrow> nat \<Rightarrow> u32 \<Rightarrow> regs" where
  "SetAncInsTotalLines r channel numberOfLines =
     ntv2WriteRegisterMS r (tbl gChannelToAncInsOffset channel + regAncInsFrameLines) numberOfLines maskInsTotalLinesPerFrame shiftInsTotalLinesPerFrame"

definition SetAncInsFidHi :: "regs \<Rightarrow> nat \<Rightarrow> u32 \<Rightarrow> regs" where
  "SetAncInsFidHi r channel lineNumber =
     ntv2WriteRegisterMS r (tbl gChannelToAncInsOffset channel + regAncInsFieldIDLines) lineNumber maskInsFieldIDHigh shiftInsFieldIDHigh"

definition SetAncInsFidLow :: "regs \<Rightarrow> nat \<Rightarrow> u32 \<Rightarrow> regs" where
  "SetAncInsFidLow r channel lineNumber =
     ntv2WriteRegisterMS r (tbl gChannelToAncInsOffset channel + regAncInsFieldIDLines) lineNumber maskInsFieldIDLow shiftInsFieldIDLow"

definition SetupAncExtractor :: "features \<Rightarrow> regs \<Rightarrow> nat \<Rightarrow> bool \<times> regs" where
  "SetupAncExtractor F r channel =
     (let theStandard = GetStandard F r channel;
          r = ntv2WriteRegisterMS r (tbl gChannelToAncInsOffset channel + regAncInsControl) 0 maskInsExtendedMode shiftInsExtendedMode
      in if theStandard = NTV2_STANDARD_1080p
         then (let r = SetAncExtProgressive r channel True;
                   r = SetAncExtField1StartLine r channel 1122;
                   r = SetAncExtField1CutoffLine r channel 1125;
                   r = SetAncExtField2StartLine r channel 0;
                   r = SetAncExtField2CutoffLine r channel 0;
                   r = SetAncExtTotalFrameLines r channel 1125;
                   r = SetAncExtFidLow r channel 0;
                   r = SetAncExtFidHi r channel 0;
                   r = SetAncExtField1AnalogStartLine r channel 0;
                   r = SetAncExtField2AnalogStartLine r channel 0;
                   r = SetAncExtField1AnalogYFilter r channel 0x00;
                   r = SetAncExtField2AnalogYFilter r channel 0x00;
                   r = SetAncExtField1AnalogCFilter r channel 0x00;
                   r = SetAncExtField2AnalogCFilter r channel 0x00;
                   r = ntv2WriteRegister r (tbl gChannelToAncExtOffset channel + 12) 0xE4E5E6E7;
                   r = ntv2WriteRegister r (tbl gChannelToAncExtOffset channel + 13) 0xE0E1E2E3;
                   r = ntv2WriteRegister r (tbl gChannelToAncExtOffset channel + 14) 0xA4A5A6A7;
                   r = ntv2WriteRegister r (tbl gChannelToAncExtOffset channel + 15) 0xA0A1A2A3;
                   r = ntv2WriteRegister r (tbl gChannelToAncExtOffset channel + 16) 0x0;
                   r = ntv2WriteRegister r (tbl gChannelToAncExtOffset channel + 27) 0x07800000;
                   r = SetAncExtSDDemux r channel (NTV2_IS_SD_STANDARD theStandard);
                   r = EnableAncExtHancC r channel True;
                   r = EnableAncExtHancY r channel True;
                   r = EnableAncExtVancC r channel True;
                   r = EnableAncExtVancY r channel True;
                   r = SetAncExtSynchro r channel;
                   r = SetAncExtField1StartAddr r channel 0;
                   r = SetAncExtField1EndAddr r channel 0;
                   r = SetAncExtField2StartAddr r channel 0;
                   r = SetAncExtField2EndAddr r channel 0
               in (True, r))
         else if theStandard = NTV2_STANDARD_1080
         then (let r = SetAncExtProgressive r channel False;
                   r = SetAncExtField1StartLine r channel 561;
                   r = SetAncExtField1CutoffLine r channel 563;
                   r = SetAncExtField2StartLine r channel 1124;
                   r = SetAncExtField2CutoffLine r channel 1123;
                   r = SetAncExtTotalFrameLines r channel 1125;
                   r = SetAncExtFidLow r channel 1125;
                   r = SetAncExtFidHi r channel 563;
                   r = SetAncExtField1AnalogStartLine r channel 0;
                   r = SetAncExtField2AnalogStartLine r channel 0;
                   r = SetAncExtField1AnalogYFilter r channel 0x00;
                   r = SetAncExtField2AnalogYFilter r channel 0x00;
                   r = SetAncExtField1AnalogCFilter r channel 0x00;
                   r = SetAncExtField2AnalogCFilter r channel 0x00;
                   r = ntv2WriteRegister r (tbl gChannelToAncExtOffset channel + 12) 0xE4E5E6E7;
                   r = ntv2WriteRegister r (tbl gChannelToAncExtOffset channel + 13) 0xE0E1E2E3;
                   r = ntv2WriteRegister r (tbl gChannelToAncExtOffset channel + 14) 0xA4A5A6A7;
                   r = ntv2WriteRegister r (tbl gChannelToAncExtOffset channel + 15) 0xA0A1A2A3;
                   r = ntv2WriteRegister r (tbl gChannelToAncExtOffset channel + 16) 0x0;
                   r = ntv2WriteRegister r (tbl gChannelToAncExtOffset channel + 27) 0x07800000;
                   r = SetAncExtSDDemux r channel (NTV2_IS_SD_STANDARD theStandard);
                   r = EnableAncExtHancC r channel True;
                   r = EnableAncExtHancY r channel True;
                   r = EnableAncExtVancC r channel True;
                   r = EnableAncExtVancY r channel True;
                   r = SetAncExtSynchro r channel;
                   r = SetAncExtField1StartAddr r channel 0;
                   r = SetAncExtField1EndAddr r channel 0;
                   r = SetAncExtField2StartAddr r channel 0;
                   r = SetAncExtField2EndAddr r channel 0
               in (True, r))
         else if theStandard = NTV2_STANDARD_720
         then (let r = SetAncExtProgressive r channel True;
                   r = SetAncExtField1StartLine r channel 746;
                   r = SetAncExtField1CutoffLine r channel 745;
                   r = SetAncExtField2StartLine r channel 0;
                   r = SetAncExtField2CutoffLine r channel 0;
                   r = SetAncExtTotalFrameLines r channel 750;
                   r = SetAncExtFidLow r channel 0;
                   r = SetAncExtFidHi r channel 0;
                   r = SetAncExtField1AnalogStartLine r channel 0;
                   r = SetAncExtField2AnalogStartLine r channel 0;
                   r = SetAncExtField1AnalogYFilter r channel 0x00;
                   r = SetAncExtField2AnalogYFilter r channel 0x00;
                   r = SetAncExtField1AnalogCFilter r channel 0x00;
                   r = SetAncExtField2AnalogCFilter r channel 0x00;
                   r = ntv2WriteRegister r (tbl gChannelToAncExtOffset channel + 12) 0xE4E5E6E7;
                   r = ntv2WriteRegister r (tbl gChannelToAncExtOffset channel + 13) 0xE0E1E2E3;
                   r = ntv2WriteRegister r (tbl gChannelToAncExtOffset channel + 14) 0xA4A5A6A7;
                   r = ntv2WriteRegister r (tbl gChannelToAncExtOffset channel + 15) 0xA0A1A2A3;
                   r = ntv2WriteRegister r (tbl gChannelToAncExtOffset channel + 16) 0x0;
                   r = ntv2WriteRegister r (tbl gChannelToAncExtOffset channel + 27) 0x05000000;
                   r = SetAncExtSDDemux r channel (NTV2_IS_SD_STANDARD theStandard);
                   r = EnableAncExtHancC r channel True;
                   r = EnableAncExtHancY r channel True;
                   r = EnableAncExtVancC r channel True;
                   r = EnableAncExtVancY r channel True;
                   r = SetAncExtSynchro r channel;
                   r = SetAncExtField1StartAddr r channel 0;
                   r = SetAncExtField1EndAddr r channel 0;
                   r = SetAncExtField2StartAddr r channel 0;
                   r = SetAncExtField2EndAddr r channel 0
               in (True, r))
         else if theStandard = NTV2_STANDARD_625
         then (let r = SetAncExtProgressive r channel False;
                   r = SetAncExtField1StartLine r channel 311;
                   r = SetAncExtField1CutoffLine r channel 33;
                   r = SetAncExtField2StartLine r channel 1;
                   r = SetAncExtField2CutoffLine r channel 346;
                   r = SetAncExtTotalFrameLines r channel 625;
                   r = SetAncExtFidLow r channel 625;
                   r = SetAncExtFidHi r channel 312;
                   r = SetAncExtField1AnalogStartLine r channel 5;
                   r = SetAncExtField2AnalogStartLine r channel 318;
                   r = SetAncExtField1AnalogYFilter r channel 0x10000;
                   r = SetAncExtField2AnalogYFilter r channel 0x10000;
                   r = SetAncExtField1AnalogCFilter r channel 0x0;
                   r = SetAncExtField2AnalogCFilter r channel 0x0;
                   r = ntv2WriteRegister r (tbl gChannelToAncExtOffset channel + 12) 0xF9FBFDFF;
                   r = ntv2WriteRegister r (tbl gChannelToAncExtOffset channel + 13) 0xF8FAFCFE;
                   r = ntv2WriteRegister r (tbl gChannelToAncExtOffset channel + 14) 0xECEDEEEF;
                   r = ntv2WriteRegister r (tbl gChannelToAncExtOffset channel + 15) 0x0;
                   r = ntv2WriteRegister r (tbl gChannelToAncExtOffset channel + 16) 0x0;
                   r = ntv2WriteRegister r (tbl gChannelToAncExtOffset channel + 27) 0x02D00000;
                   r = SetAncExtSDDemux r channel (NTV2_IS_SD_STANDARD theStandard);
                   r = EnableAncExtHancC r channel True;
                   r = EnableAncExtHancY r channel True;
                   r = EnableAncExtVancC r channel True;
                   r = EnableAncExtVancY r channel True;
                   r = SetAncExtSynchro r channel;
                   r = SetAncExtField1StartAddr r channel 0;
                   r = SetAncExtField1EndAddr r channel 0;
                   r = SetAncExtField2StartAddr r channel 0;
                   r = SetAncExtField2EndAddr r channel 0
               in (True, r))
         else if theStandard = NTV2_STANDARD_525
         then (let r = SetAncExtProgressive r channel False;
                   r = SetAncExtField1StartLine r channel 264;
                   r = SetAncExtField1CutoffLine r channel 30;
                   r = SetAncExtField2StartLine r channel 1;
                   r = SetAncExtField2CutoffLine r channel 293;
                   r = SetAncExtTotalFrameLines r channel 525;
                   r = SetAncExtFidLow r channel 3;
                   r = SetAncExtFidHi r channel 265;
                   r = SetAncExtField1AnalogStartLine r channel 4;
                   r = SetAncExtField2AnalogStartLine r channel 266;
                   r = SetAncExtField1AnalogYFilter r channel 0x20000;
                   r = SetAncExtField2AnalogYFilter r channel 0x40000;
                   r = SetAncExtField1AnalogCFilter r channel 0x0;
                   r = SetAncExtField2AnalogCFilter r channel 0x0;
                   r = ntv2WriteRegister r (tbl gChannelToAncExtOffset channel + 12) 0xF9FBFDFF;
                   r = ntv2WriteRegister r (tbl gChannelToAncExtOffset channel + 13) 0xF8FAFCFE;
                   r = ntv2WriteRegister r (tbl gChannelToAncExtOffset channel + 14) 0xECEDEEEF;
                   r = ntv2WriteRegister r (tbl gChannelToAncExtOffset channel + 15) 0x0;
                   r = ntv2WriteRegister r (tbl gChannelToAncExtOffset channel + 16) 0x0;
                   r = ntv2WriteRegister r (tbl gChannelToAncExtOffset channel + 27) 0x02D00000;
                   r = SetAncExtSDDemux r channel (NTV2_IS_SD_STANDARD theStandard);
                   r = EnableAncExtHancC r channel True;
                   r = EnableAncExtHancY r channel True;
                   r = EnableAncExtVancC r channel True;
                   r = EnableAncExtVancY r channel True;
                   r = SetAncExtSynchro r channel;
                   r = SetAncExtField1StartAddr r channel 0;
                   r = SetAncExtField1EndAddr r channel 0;
                   r = SetAncExtField2StartAddr r channel 0;
                   r = SetAncExtField2EndAddr r channel 0
               in (True, r))
         else (False, r))"

definition SetupAncInserter :: "features \<Rightarrow> regs \<Rightarrow> nat \<Rightarrow> bool \<times> regs" where
  "SetupAncInserter F r channel =
     (let theStandard = GetStandard F r channel;
          is2Kx1080 = (of_bool (NTV2_IS_2K_1080_FRAME_GEOMETRY (GetFrameGeometry F r channel)) :: u32);
          r = ntv2WriteRegisterMS r (tbl gChannelToAncInsOffset channel + regAncInsControl) 0 maskInsExtendedMode shiftInsExtendedMode
      in if theStandard = NTV2_STANDARD_1080p
         then (let r = SetAncInsField1ActiveLine r channel 42;
                   r = SetAncInsHActivePixels r channel (if is2Kx1080 = 0 then 1920 else 2048);
                   r = SetAncInsHTotalPixels r channel 2640;
                   r = SetAncInsTotalLines r channel 1125;
                   r = SetAncInsFidLow r channel 0;
                   r = SetAncInsFidHi r channel 0;
                   r = SetAncInsProgressive r channel (NTV2_IS_PROGRESSIVE_STANDARD theStandard);
                   r = SetAncInsSDPacketSplit r channel (NTV2_IS_SD_STANDARD theStandard);
                   r = EnableAncInsHancC r channel False;
                   r = EnableAncInsHancY r channel False;
                   r = EnableAncInsVancC r channel True;
                   r = EnableAncInsVancY r channel True;
                   r = SetAncInsHancPixelDelay r channel 0;
                   r = SetAncInsVancPixelDelay r channel 0;
                   r = ntv2WriteRegister r (tbl gChannelToAncInsOffset channel + regAncInsBlankCStartLine) 0;
                   r = ntv2WriteRegister r (tbl gChannelToAncInsOffset channel + regAncInsBlankField1CLines) 0;
                   r = ntv2WriteRegister r (tbl gChannelToAncInsOffset channel + regAncInsBlankField2CLines) 0
               in (True, r))
         else if theStandard = NTV2_STANDARD_1080
         then (let r = SetAncInsField1ActiveLine r channel 21;
                   r = SetAncInsField2ActiveLine r channel 564;
                   r = SetAncInsHActivePixels r channel 1920;
                   r = SetAncInsHTotalPixels r channel 2200;
                   r = SetAncInsTotalLines r channel 1125;
                   r = SetAncInsFidLow r channel 1125;
                   r = SetAncInsFidHi r channel 563;
                   r = SetAncInsProgressive r channel (NTV2_IS_PROGRESSIVE_STANDARD theStandard);
                   r = SetAncInsSDPacketSplit r channel (NTV2_IS_SD_STANDARD theStandard);
                   r = EnableAncInsHancC r channel False;
                   r = EnableAncInsHancY r channel False;
                   r = EnableAncInsVancC r channel True;
                   r = EnableAncInsVancY r channel True;
                   r = SetAncInsHancPixelDelay r channel 0;
                   r = SetAncInsVancPixelDelay r channel 0;
                   r = ntv2WriteRegister r (tbl gChannelToAncInsOffset channel + regAncInsBlankCStartLine) 0;
                   r = ntv2WriteRegister r (tbl gChannelToAncInsOffset channel + regAncInsBlankField1CLines) 0;
                   r = ntv2WriteRegister r (tbl gChannelToAncInsOffset channel + regAncInsBlankField2CLines) 0
               in (True, r))
         else if theStandard = NTV2_STANDARD_720
         then (let r = SetAncInsField1ActiveLine r channel 26;
                   r = SetAncInsHActivePixels r channel 1280;
                   r = SetAncInsHTotalPixels r channel 1280;
                   r = SetAncInsTotalLines r channel 750;
                   r = SetAncInsFidLow r channel 0;
                   r = SetAncInsFidHi r channel 0;
                   r = SetAncInsProgressive r channel (NTV2_IS_PROGRESSIVE_STANDARD theStandard);
                   r = SetAncInsSDPacketSplit r channel (NTV2_IS_SD_STANDARD theStandard);
                   r = EnableAncInsHancC r channel False;
                   r = EnableAncInsHancY r channel False;
                   r = EnableAncInsVancC r channel True;
                   r = EnableAncInsVancY r channel True;
                   r = SetAncInsHancPixelDelay r channel 0;
                   r = SetAncInsVancPixelDelay r channel 0;
                   r = ntv2WriteRegister r (tbl gChannelToAncInsOffset channel + regAncInsBlankCStartLine) 0;
                   r = ntv2WriteRegister r (tbl gChannelToAncInsOffset channel + regAncInsBlankField1CLines) 0;
                   r = ntv2WriteRegister r (tbl gChannelToAncInsOffset channel + regAncInsBlankField2CLines) 0
               in (True, r))
         else if theStandard = NTV2_STANDARD_625
         then (let r = SetAncInsField1ActiveLine r channel 23;
                   r = SetAncInsField2ActiveLine r channel 336;
                   r = SetAncInsHActivePixels r channel 720;
                   r = SetAncInsHTotalPixels r channel 864;
                   r = SetAncInsTotalLines r channel 625;
                   r = SetAncInsFidLow r channel 625;
                   r = SetAncInsFidHi r channel 312;
                   r = SetAncInsProgressive r channel (NTV2_IS_PROGRESSIVE_STANDARD theStandard);
                   r = SetAncInsSDPacketSplit r channel (NTV2_IS_SD_STANDARD theStandard);
                   r = EnableAncInsHancC r channel False;
                   r = EnableAncInsHancY r channel False;
                   r = EnableAncInsVancC r channel True;
                   r = EnableAncInsVancY r channel True;
                   r = SetAncInsHancPixelDelay r channel 0;
                   r = SetAncInsVancPixelDelay r channel 0;
                   r = ntv2WriteRegister r (tbl gChannelToAncInsOffset channel + regAncInsBlankCStartLine) 0;
                   r = ntv2WriteRegister r (tbl gChannelToAncInsOffset channel + regAncInsBlankField1CLines) 0;
                   r = ntv2WriteRegister r (tbl gChannelToAncInsOffset channel + regAncInsBlankField2CLines) 0
               in (True, r))
         else if theStandard = NTV2_STANDARD_525
         then (let r = SetAncInsField1ActiveLine r channel 21;
                   r = SetAncInsField2ActiveLine r channel 283;
                   r = SetAncInsHActivePixels r channel 720;
                   r = SetAncInsHTotalPixels r channel 720;
                   r = SetAncInsTotalLines r channel 525;
                   r = SetAncInsFidLow r channel 3;
                   r = SetAncInsFidHi r channel 265;
                   r = SetAncInsProgressive r channel (NTV2_IS_PROGRESSIVE_STANDARD theStandard);
                   r = SetAncInsSDPacketSplit r channel (NTV2_IS_SD_STANDARD theStandard);
                   r = EnableAncInsHancC r channel False;
                   r = EnableAncInsHancY r channel False;
                   r = EnableAncInsVancC r channel True;
                   r = EnableAncInsVancY r channel True;
                   r = SetAncInsHancPixelDelay r channel 0;
                   r = SetAncInsVancPixelDelay r channel 0;
                   r = ntv2WriteRegister r (tbl gChannelToAncInsOffset channel + regAncInsBlankCStartLine) 0;
                   r = ntv2WriteRegister r (tbl gChannelToAncInsOffset channel + regAncInsBlankField1CLines) 0;
                   r = ntv2WriteRegister r (tbl gChannelToAncInsOffset channel + regAncInsBlankField2CLines) 0
               in (True, r))
         else (False, r))"

end
