(* ===== verification/Ntv2Aux.thy ===== *)
theory Ntv2Aux
  imports Ntv2Kona
begin

text \<open>
  The HDMI auxiliary data extractor of driver/ntv2aux.c.
\<close>

definition gChannelToAuxExtOffset :: "u32 list" where
  "gChannelToAuxExtOffset =
   [AUX_EXT_1_OFFSET, AUX_EXT_2_OFFSET, AUX_EXT_3_OFFSET, AUX_EXT_4_OFFSET, 0]"

definition gChannelToAuxInsOffset :: "u32 list" where
  "gChannelToAuxInsOffset =
   [AUX_INS_1_OFFSET, AUX_INS_2_OFFSET, AUX_INS_3_OFFSET, AUX_INS_4_OFFSET, 0]"

definition EnableAuxExtractor :: "regs \<Rightarrow> nat \<Rightarrow> bool \<Rightarrow> regs" where
  "EnableAuxExtractor r channel bEnable =
     ntv2WriteRegisterMS r (tbl gChannelToAuxExtOffset channel + regAuxExtControl) (if bEnable then 0 else 1) maskAuxDisableExtractor shiftAuxDisableExtractor"

definition SetAuxExtProgressive :: "regs \<Rightarrow> nat \<Rightarrow> bool \<Rightarrow> regs" where
  "SetAuxExtProgressive r channel bEnable =
     ntv2WriteRegisterMS r (tbl gChannelToAuxExtOffset channel + regAuxExtControl) (if bEnable then 1 else 0) maskAuxSetProgressive shiftAuxSetProgressive"

definition SetAuxExtSynchro :: "regs \<Rightarrow> nat \<Rightarrow> regs" where
  "SetAuxExtSynchro r channel =
     ntv2WriteRegisterMS r (tbl gChannelToAuxExtOffset channel + regAuxExtControl) 0x1 maskAuxSyncro shiftAuxSyncro"

definition SetAuxExtField1StartAddr :: "regs \<Rightarrow> nat \<Rightarrow> u32 \<Rightarrow> regs" where
  "SetAuxExtField1StartAddr r channel addr =
     ntv2WriteRegister r (tbl gChannelToAuxExtOffset channel + regAuxExtField1StartAddress) addr"

definition SetAuxExtField1EndAddr :: "regs \<Rightarrow> nat \<Rightarrow> u32 \<Rightarrow> regs" where
  "SetAuxExtField1EndAddr r channel addr =
     ntv2WriteRegister r (tbl gChannelToAuxExtOffset channel + regAuxExtField1EndAddress) addr"

definition SetAuxExtWriteParams :: "features \<Rightarrow> regs \<Rightarrow> nat \<Rightarrow> u32 \<Rightarrow> regs" where
  "SetAuxExtWriteParams F r channel frameNumber =
     (let nextFrame = frameNumber + 1;
          endOfFrameLocation = GetFrameBufferSize F r (if channel < NTV2_CHANNEL5 then NTV2_CHANNEL1 else NTV2_CHANNEL5) * nextFrame;
          AUXStartMemory = endOfFrameLocation - ntv2ReadVirtualRegister r kVRegAncField1Offset;
          AUXStopMemory = endOfFrameLocation - ntv2ReadVirtualRegister r kVRegAncField2Offset;
          AUXStopMemory = AUXStopMemory - 1;
          r = SetAuxExtField1StartAddr r channel AUXStartMemory
      in SetAuxExtField1EndAddr r channel AUXStopMemory)"

definition SetAuxExtField2StartAddr :: "regs \<Rightarrow> nat \<Rightarrow> u32 \<Rightarrow> regs" where
  "SetAuxExtField2StartAddr r channel addr =
     ntv2WriteRegister r (tbl gChannelToAuxExtOffset channel + regAuxExtField2StartAddress) addr"

definition SetAuxExtField2EndAddr :: "regs \<Rightarrow> nat \<Rightarrow> u32 \<Rightarrow> bool" where
  "SetAuxExtField2EndAddr r channel addr = True"

definition SetAuxExtField2WriteParams :: "features \<Rightarrow> regs \<Rightarrow> nat \<Rightarrow> u32 \<Rightarrow> regs" where
  "SetAuxExtField2WriteParams F r channel frameNumber =
     (let nextFrame = frameNumber + 1;
          endOfFrameLocation = GetFrameBufferSize F r (if channel < NTV2_CHANNEL5 then NTV2_CHANNEL1 else NTV2_CHANNEL5) * nextFrame;
          AUXStartMemory = endOfFrameLocation - ntv2ReadVirtualRegister r kVRegAncField2Offset
      in SetAuxExtField2StartAddr r channel AUXStartMemory)"

definition IsAuxExtOverrun :: "regs \<Rightarrow> nat \<Rightarrow> bool" where
  "IsAuxExtOverrun r channel =
     (let value = ntv2ReadRegisterMS r (tbl gChannelToAuxExtOffset channel + regAuxExtTotalStatus) maskAuxTotalOverrun shiftAuxTotalOverrun
      in value = 1)"

definition GetAuxExtField1Bytes :: "regs \<Rightarrow> nat \<Rightarrow> u32" where
  "GetAuxExtField1Bytes r channel =
     ntv2ReadRegisterMS r (tbl gChannelToAuxExtOffset channel + regAuxExtField1Status) maskAuxFieldBytesIn shiftAuxFieldBytesIn"

definition IsAuxExtField1Overrun :: "regs \<Rightarrow> nat \<Rightarrow> bool" where
  "IsAuxExtField1Overrun r channel =
     (let value = ntv2ReadRegisterMS r (tbl gChannelToAuxExtOffset channel + regAuxExtField1Status) maskAuxFieldOverrun shiftAuxFieldOverrun
      in value = 1)"

definition GetAuxExtField2Bytes :: "regs \<Rightarrow> nat \<Rightarrow> u32" where
  "GetAuxExtField2Bytes r channel =
     ntv2ReadRegisterMS r (tbl gChannelToAuxExtOffset channel + regAuxExtField2Status) maskAuxFieldBytesIn shiftAuxFieldBytesIn"

definition IsAuxExtField2Overrun :: "regs \<Rightarrow> nat \<Rightarrow> bool" where
  "IsAuxExtField2Overrun r channel =
     (let value = ntv2ReadRegisterMS r (tbl gChannelToAuxExtOffset channel + regAuxExtField2Status) maskAuxFieldOverrun shiftAuxFieldOverrun
      in value = 1)"

definition SetAuxExtField1StartLine :: "regs \<Rightarrow> nat \<Rightarrow> u32 \<Rightarrow> regs" where
  "SetAuxExtField1StartLine r channel lineNumber =
     ntv2WriteRegisterMS r (tbl gChannelToAuxExtOffset channel + regAuxExtFieldVBLStartLine) lineNumber maskAuxField1StartLine shiftAuxField1StartLine"

definition SetAuxExtField2StartLine :: "regs \<Rightarrow> nat \<Rightarrow> u32 \<Rightarrow> regs" where
  "SetAuxExtField2StartLine r channel lineNumber =
     ntv2WriteRegisterMS r (tbl gChannelToAuxExtOffset channel + regAuxExtFieldVBLStartLine) lineNumber maskAuxField2StartLine shiftAuxField2StartLine"

definition SetAuxExtTotalFrameLines :: "regs \<Rightarrow> nat \<Rightarrow> u32 \<Rightarrow> regs" where
  "SetAuxExtTotalFrameLines r channel totalFrameLines =
     ntv2WriteRegisterMS r (tbl gChannelToAuxExtOffset channel + regAuxExtTotalFrameLines) totalFrameLines maskAuxTotalFrameLines shiftAuxTotalFrameLines"

definition SetAuxExtFidLow :: "regs \<Rightarrow> nat \<Rightarrow> u32 \<Rightarrow> regs" where
  "SetAuxExtFidLow r channel lineNumber =
     ntv2WriteRegisterMS r (tbl gChannelToAuxExtOffset channel + regAuxExtFID) lineNumber maskAuxFIDLow shiftAuxFIDLow"

definition SetAuxExtFidHi :: "regs \<Rightarrow> nat \<Rightarrow> u32 \<Rightarrow> regs" where
  "SetAuxExtFidHi r channel lineNumber =
     ntv2WriteRegisterMS r (tbl gChannelToAuxExtOffset channel + regAuxExtFID) lineNumber maskAuxFIDHi shiftAuxFIDHi"

definition SetupAuxExtractor :: "features \<Rightarrow> regs \<Rightarrow> nat \<Rightarrow> bool \<times> regs" where
  "SetupAuxExtractor F r channel =
     (let theStandard = GetStandard F r channel
      in if theStandard = NTV2_STANDARD_1080p
         then (let r =
                     (if GetQuadFrameEnable F r channel
                      then (let r = SetAuxExtProgressive r channel True;
                                r = SetAuxExtField1StartLine r channel 2244;
                                r = SetAuxExtField2StartLine r channel 0;
                                r = SetAuxExtTotalFrameLines r channel 2250;
                                r = SetAuxExtFidLow r channel 0
                            in SetAuxExtFidHi r channel 0)
                      else (let r = SetAuxExtProgressive r channel True;
                                r = SetAuxExtField1StartLine r channel 1122;
                                r = SetAuxExtField2StartLine r channel 0;
                                r = SetAuxExtTotalFrameLines r channel 1125;
                                r = SetAuxExtFidLow r channel 0
                            in SetAuxExtFidHi r channel 0));
                   r = ntv2WriteRegister r (tbl gChannelToAuxExtOffset channel + 12) 0x0;
                   r = ntv2WriteRegister r (tbl gChannelToAuxExtOffset channel + 13) 0x0;
                   r = ntv2WriteRegister r (tbl gChannelToAuxExtOffset channel + 14) 0x0;
                   r = ntv2WriteRegister r (tbl gChannelToAuxExtOffset channel + 15) 0x0;
                   r = SetAuxExtSynchro r channel;
                   r = SetAuxExtField1StartAddr r channel 0;
                   r = SetAuxExtField1EndAddr r channel 0;
                   r = SetAuxExtField2StartAddr r channel 0
               in (True, r))
         else if theStandard = NTV2_STANDARD_1080
         then (let r = SetAuxExtProgressive r channel False;
                   r = SetAuxExtField1StartLine r channel 561;
                   r = SetAuxExtField2StartLine r channel 1124;
                   r = SetAuxExtTotalFrameLines r channel 1125;
                   r = SetAuxExtFidLow r channel 1125;
                   r = SetAuxExtFidHi r channel 563;
                   r = ntv2WriteRegister r (tbl gChannelToAuxExtOffset channel + 12) 0x0;
                   r = ntv2WriteRegister r (tbl gChannelToAuxExtOffset channel + 13) 0x0;
                   r = ntv2WriteRegister r (tbl gChannelToAuxExtOffset channel + 14) 0x0;
                   r = ntv2WriteRegister r (tbl gChannelToAuxExtOffset channel + 15) 0x0;
                   r = SetAuxExtSynchro r channel;
                   r = SetAuxExtField1StartAddr r channel 0;
                   r = SetAuxExtField1EndAddr r channel 0;
                   r = SetAuxExtField2StartAddr r channel 0
               in (True, r))
         else if theStandard = NTV2_STANDARD_720
         then (let r = SetAuxExtProgressive r channel True;
                   r = SetAuxExtField1StartLine r channel 746;
                   r = SetAuxExtField2StartLine r channel 0;
                   r = SetAuxExtTotalFrameLines r channel 750;
                   r = SetAuxExtFidLow r channel 0;
                   r = SetAuxExtFidHi r channel 0;
                   r = ntv2WriteRegister r (tbl gChannelToAuxExtOffset channel + 12) 0x0;
                   r = ntv2WriteRegister r (tbl gChannelToAuxExtOffset channel + 13) 0x0;
                   r = ntv2WriteRegister r (tbl gChannelToAuxExtOffset channel + 14) 0x0;
                   r = ntv2WriteRegister r (tbl gChannelToAuxExtOffset channel + 15) 0x0;
                   r = SetAuxExtSynchro r channel;
                   r = SetAuxExtField1StartAddr r channel 0;
                   r = SetAuxExtField1EndAddr r channel 0;
                   r = SetAuxExtField2StartAddr r channel 0
               in (True, r))
         else if theStandard = NTV2_STANDARD_625
         then (let r = SetAuxExtProgressive r channel False;
                   r = SetAuxExtField1StartLine r channel 311;
                   r = SetAuxExtField2StartLine r channel 1;
                   r = SetAuxExtTotalFrameLines r channel 625;
                   r = SetAuxExtFidLow r channel 625;
                   r = SetAuxExtFidHi r channel 312;
                   r = ntv2WriteRegister r (tbl gChannelToAuxExtOffset channel + 12) 0x0;
                   r = ntv2WriteRegister r (tbl gChannelToAuxExtOffset channel + 13) 0x0;
                   r = ntv2WriteRegister r (tbl gChannelToAuxExtOffset channel + 14) 0x0;
                   r = ntv2WriteRegister r (tbl gChannelToAuxExtOffset channel + 15) 0x0;
                   r = SetAuxExtSynchro r channel;
                   r = SetAuxExtField1StartAddr r channel 0;
                   r = SetAuxExtField1EndAddr r channel 0;
                   r = SetAuxExtField2StartAddr r channel 0
               in (True, r))
         else if theStandard = NTV2_STANDARD_525
         then (let r = SetAuxExtProgressive r channel False;
                   r = SetAuxExtField1StartLine r channel 264;
                   r = SetAuxExtField2StartLine r channel 1;
                   r = SetAuxExtTotalFrameLines r channel 525;
                   r = SetAuxExtFidLow r channel 3;
                   r = SetAuxExtFidHi r channel 265;
                   r = ntv2WriteRegister r (tbl gChannelToAuxExtOffset channel + 12) 0x0;
                   r = ntv2WriteRegister r (tbl gChannelToAuxExtOffset channel + 13) 0x0;
                   r = ntv2WriteRegister r (tbl gChannelToAuxExtOffset channel + 14) 0x0;
                   r = ntv2WriteRegister r (tbl gChannelToAuxExtOffset channel + 15) 0x0;
                   r = SetAuxExtSynchro r channel;
                   r = SetAuxExtField1StartAddr r channel 0;
                   r = SetAuxExtField1EndAddr r channel 0;
                   r = SetAuxExtField2StartAddr r channel 0
               in (True, r))
         else (False, r))"

end
