(* ===== verification/Ntv2Video.thy ===== *)
theory Ntv2Video
  imports Ntv2Kona
begin

text \<open>
  The video processing registers of driver/ntv2video.c: the register write mode, the frame
  period, the colour correction look-up tables and the mixer crosspoints. A loop of the C
  code that counts up is a \<open>fold\<close> over its index values.
\<close>

definition SetRegisterWritemode :: "features \<Rightarrow> regs \<Rightarrow> u32 \<Rightarrow> nat \<Rightarrow> regs" where
  "SetRegisterWritemode F r value channel =
     (let channel = if \<not> IsMultiFormatActive F r then NTV2_CHANNEL1 else channel;
          regNum = tbl gChannelToGlobalControlRegNum channel
      in ntv2WriteRegisterMS r regNum value NTV2REGWRITEMODEMASK NTV2REGWRITEMODESHIFT)"

definition GetFramePeriod :: "features \<Rightarrow> regs \<Rightarrow> nat \<Rightarrow> int" where
  "GetFramePeriod F r channel =
     (let frameRate = GetFrameRate F r channel
      in if frameRate = NTV2_FRAMERATE_12000
         then 83333
         else if frameRate = NTV2_FRAMERATE_11988
         then 83416
         else if frameRate = NTV2_FRAMERATE_6000
         then 166666
         else if frameRate = NTV2_FRAMERATE_5994
         then 166833
         else if frameRate = NTV2_FRAMERATE_4800
         then 208333
         else if frameRate = NTV2_FRAMERATE_4795
         then 208541
         else if frameRate = NTV2_FRAMERATE_3000
         then 333333
         else if frameRate = NTV2_FRAMERATE_2997
         then 333666
         else if frameRate = NTV2_FRAMERATE_2500
         then 400000
         else if frameRate = NTV2_FRAMERATE_2400
         then 416666
         else if frameRate = NTV2_FRAMERATE_2398
         then 417083
         else if frameRate = NTV2_FRAMERATE_5000 then 200000 else 10000000)"

definition Has12BitLUTSupport :: "regs \<Rightarrow> bool" where
  "Has12BitLUTSupport r =
     (let has12BitLUTSupport = ntv2ReadRegisterMS r kRegLUTV2Control kRegMask12BitLUTSupport kRegShift12BitLUTSupport
      in has12BitLUTSupport \<noteq> 0)"

definition LoadLUTValues :: "regs \<Rightarrow> regs" where
  "LoadLUTValues r =
     (fold (\<lambda>i r.
        let lutValue = push_bit 22 (of_nat (i + 1)) + push_bit 6 (of_nat i);
            r = ntv2WriteRegister r ((kColorCorrectionLUTOffset_Red div 4) + of_nat (i div 2)) lutValue;
            r = ntv2WriteRegister r ((kColorCorrectionLUTOffset_Green div 4) + of_nat (i div 2)) lutValue
        in ntv2WriteRegister r ((kColorCorrectionLUTOffset_Blue div 4) + of_nat (i div 2)) lutValue) (map ((*) 2) [0 ..< 512]) r)"

definition SetLUTEnable :: "features \<Rightarrow> regs \<Rightarrow> bool \<Rightarrow> nat \<Rightarrow> regs" where
  "SetLUTEnable F r inEnable inChannel =
     (let deviceID = ntv2ReadRegister r kRegBoardID
      in if NTV2DeviceGetLUTVersion F deviceID = 2
         then (if inChannel = NTV2_CHANNEL1
               then ntv2WriteRegisterMS r kRegLUTV2Control (of_bool inEnable) kRegMaskLUT1Enable kRegShiftLUT1Enable
               else if inChannel = NTV2_CHANNEL2
               then ntv2WriteRegisterMS r kRegLUTV2Control (of_bool inEnable) kRegMaskLUT2Enable kRegShiftLUT2Enable
               else if inChannel = NTV2_CHANNEL3
               then ntv2WriteRegisterMS r kRegLUTV2Control (of_bool inEnable) kRegMaskLUT3Enable kRegShiftLUT3Enable
               else if inChannel = NTV2_CHANNEL4
               then ntv2WriteRegisterMS r kRegLUTV2Control (of_bool inEnable) kRegMaskLUT4Enable kRegShiftLUT4Enable
               else if inChannel = NTV2_CHANNEL5
               then ntv2WriteRegisterMS r kRegLUTV2Control (of_bool inEnable) kRegMaskLUT5Enable kRegShiftLUT5Enable
               else if inChannel = NTV2_CHANNEL6
               then ntv2WriteRegisterMS r kRegLUTV2Control (of_bool inEnable) kRegMaskLUT6Enable kRegShiftLUT6Enable
               else if inChannel = NTV2_CHANNEL7
               then ntv2WriteRegisterMS r kRegLUTV2Control (of_bool inEnable) kRegMaskLUT7Enable kRegShiftLUT7Enable
               else if inChannel = NTV2_CHANNEL8
               then ntv2WriteRegisterMS r kRegLUTV2Control (of_bool inEnable) kRegMaskLUT8Enable kRegShiftLUT8Enable
               else r)
         else r)"

definition GetColorCorrectionHostAccessBank :: "features \<Rightarrow> regs \<Rightarrow> nat \<Rightarrow> u32" where
  "GetColorCorrectionHostAccessBank F r channel =
     (let deviceID = ntv2ReadRegister r kRegBoardID;
          value = NTV2_CCHOSTACCESS_CH1BANK0
      in if NTV2DeviceGetLUTVersion F deviceID = 1
         then (if channel \<in> {NTV2_CHANNEL3, NTV2_CHANNEL4}
               then (let regValue = ntv2ReadRegister r kRegCh1ColorCorrectioncontrol;
                         regValue = regValue AND kRegMaskCCHostBankSelect
                     in drop_bit kRegShiftCCHostAccessBankSelect (regValue + NTV2_CCHOSTACCESS_CH3BANK0))
               else if channel = NTV2_CHANNEL5
               then (let regValue = ntv2ReadRegister r kRegCh1ColorCorrectioncontrol;
                         regValue = regValue AND kRegMaskCC5HostAccessBankSelect
                     in drop_bit kRegShiftCC5HostAccessBankSelect (regValue + NTV2_CCHOSTACCESS_CH5BANK0))
               else (let regValue = ntv2ReadRegister r kRegGlobalControl;
                         regValue = regValue AND kRegMaskCCHostBankSelect
                     in drop_bit kRegShiftCCHostAccessBankSelect regValue))
         else (let regValue = ntv2ReadRegister r kRegLUTV2Control
               in if channel = NTV2_CHANNEL1
                  then (let regValue = regValue AND kRegMaskLUT1HostAccessBankSelect
                        in drop_bit kRegShiftLUT1HostAccessBankSelect regValue)
                  else if channel = NTV2_CHANNEL2
                  then (let regValue = regValue AND kRegMaskLUT2HostAccessBankSelect
                        in drop_bit kRegShiftLUT2HostAccessBankSelect (regValue + NTV2_CCHOSTACCESS_CH2BANK0))
                  else if channel = NTV2_CHANNEL3
                  then (let regValue = regValue AND kRegMaskLUT3HostAccessBankSelect
                        in drop_bit kRegShiftLUT3HostAccessBankSelect (regValue + NTV2_CCHOSTACCESS_CH3BANK0))
                  else if channel = NTV2_CHANNEL4
                  then (let regValue = regValue AND kRegMaskLUT4HostAccessBankSelect
                        in drop_bit kRegShiftLUT4HostAccessBankSelect (regValue + NTV2_CCHOSTACCESS_CH4BANK0))
                  else if channel = NTV2_CHANNEL5
                  then (let regValue = regValue AND kRegMaskLUT5HostAccessBankSelect
                        in drop_bit kRegShiftLUT5HostAccessBankSelect (regValue + NTV2_CCHOSTACCESS_CH5BANK0))
                  else if channel = NTV2_CHANNEL6
                  then (let regValue = regValue AND kRegMaskLUT6HostAccessBankSelect
                        in drop_bit kRegShiftLUT6HostAccessBankSelect (regValue + NTV2_CCHOSTACCESS_CH6BANK0))
                  else if channel = NTV2_CHANNEL7
                  then (let regValue = regValue AND kRegMaskLUT7HostAccessBankSelect
                        in drop_bit kRegShiftLUT7HostAccessBankSelect (regValue + NTV2_CCHOSTACCESS_CH7BANK0))
                  else if channel = NTV2_CHANNEL8
                  then (let regValue = regValue AND kRegMaskLUT8HostAccessBankSelect
                        in drop_bit kRegShiftLUT8HostAccessBankSelect (regValue + NTV2_CCHOSTACCESS_CH8BANK0))
                  else value))"

definition SetColorCorrectionSaturation :: "regs \<Rightarrow> nat \<Rightarrow> u32 \<Rightarrow> regs" where
  "SetColorCorrectionSaturation r channel value =
     (if channel = NTV2_CHANNEL1
      then ntv2WriteRegisterMS r kRegCh1ColorCorrectioncontrol value kRegMaskSaturationValue kRegShiftSaturationValue
      else ntv2WriteRegisterMS r kRegCh2ColorCorrectioncontrol value kRegMaskSaturationValue kRegShiftSaturationValue)"

definition GetColorCorrectionSaturation :: "regs \<Rightarrow> nat \<Rightarrow> u32" where
  "GetColorCorrectionSaturation r channel =
     (let regValue =
            (if channel = NTV2_CHANNEL1
             then ntv2ReadRegister r kRegCh1ColorCorrectioncontrol
             else ntv2ReadRegister r kRegCh2ColorCorrectioncontrol);
          regValue = regValue AND kRegMaskSaturationValue
      in drop_bit kRegShiftSaturationValue regValue)"

definition SetLUTV2HostAccessBank :: "features \<Rightarrow> regs \<Rightarrow> u32 \<Rightarrow> regs" where
  "SetLUTV2HostAccessBank F r value =
     (let deviceID = ntv2ReadRegister r kRegBoardID;
          numLUT = NTV2DeviceGetNumLUTs F deviceID
      in if value \<in> {NTV2_CCHOSTACCESS_CH2BANK0, NTV2_CCHOSTACCESS_CH2BANK1}
         then (if numLUT > 1
               then ntv2WriteRegisterMS r kRegLUTV2Control (value - NTV2_CCHOSTACCESS_CH2BANK0) kRegMaskLUT2HostAccessBankSelect kRegShiftLUT2HostAccessBankSelect
               else r)
         else if value \<in> {NTV2_CCHOSTACCESS_CH3BANK0, NTV2_CCHOSTACCESS_CH3BANK1}
         then (if numLUT > 2
               then ntv2WriteRegisterMS r kRegLUTV2Control (value - NTV2_CCHOSTACCESS_CH3BANK0) kRegMaskLUT3HostAccessBankSelect kRegShiftLUT3HostAccessBankSelect
               else r)
         else if value \<in> {NTV2_CCHOSTACCESS_CH4BANK0, NTV2_CCHOSTACCESS_CH4BANK1}
         then (if numLUT > 3
               then ntv2WriteRegisterMS r kRegLUTV2Control (value - NTV2_CCHOSTACCESS_CH4BANK0) kRegMaskLUT4HostAccessBankSelect kRegShiftLUT4HostAccessBankSelect
               else r)
         else if value \<in> {NTV2_CCHOSTACCESS_CH5BANK0, NTV2_CCHOSTACCESS_CH5BANK1}
         then (if numLUT > 4
               then ntv2WriteRegisterMS r kRegLUTV2Control (value - NTV2_CCHOSTACCESS_CH5BANK0) kRegMaskLUT5HostAccessBankSelect kRegShiftLUT5HostAccessBankSelect
               else r)
         else if value \<in> {NTV2_CCHOSTACCESS_CH6BANK0, NTV2_CCHOSTACCESS_CH6BANK1}
         then (if numLUT > 5
               then ntv2WriteRegisterMS r kRegLUTV2Control (value - NTV2_CCHOSTACCESS_CH6BANK0) kRegMaskLUT6HostAccessBankSelect kRegShiftLUT6HostAccessBankSelect
               else r)
         else if value \<in> {NTV2_CCHOSTACCESS_CH7BANK0, NTV2_CCHOSTACCESS_CH7BANK1}
         then (if numLUT > 6
               then ntv2WriteRegisterMS r kRegLUTV2Control (value - NTV2_CCHOSTACCESS_CH7BANK0) kRegMaskLUT7HostAccessBankSelect kRegShiftLUT7HostAccessBankSelect
               else r)
         else if value \<in> {NTV2_CCHOSTACCESS_CH8BANK0, NTV2_CCHOSTACCESS_CH8BANK1}
         then (if numLUT > 7
               then ntv2WriteRegisterMS r kRegLUTV2Control (value - NTV2_CCHOSTACCESS_CH8BANK0) kRegMaskLUT8HostAccessBankSelect kRegShiftLUT8HostAccessBankSelect
               else r)
         else if numLUT > 0
         then ntv2WriteRegisterMS r kRegLUTV2Control (value - NTV2_CCHOSTACCESS_CH1BANK0) kRegMaskLUT1HostAccessBankSelect kRegShiftLUT1HostAccessBankSelect
         else r)"

definition SetColorCorrectionHostAccessBank :: "features \<Rightarrow> regs \<Rightarrow> u32 \<Rightarrow> regs" where
  "SetColorCorrectionHostAccessBank F r value =
     (let deviceID = ntv2ReadRegister r kRegBoardID
      in if NTV2DeviceGetLUTVersion F deviceID = 2
         then SetLUTV2HostAccessBank F r value
         else if value \<in> {NTV2_CCHOSTACCESS_CH1BANK0, NTV2_CCHOSTACCESS_CH1BANK1, NTV2_CCHOSTACCESS_CH2BANK0, NTV2_CCHOSTACCESS_CH2BANK1}
         then (let r =
                     (if NTV2DeviceGetNumLUTs F deviceID > 4
                      then ntv2WriteRegisterMS r kRegCh1ColorCorrectioncontrol 0 kRegMaskLUT5Select (unat kRegMaskLUT5Select)
                      else r);
                   r = ntv2WriteRegisterMS r kRegCh1ColorCorrectioncontrol NTV2_LUTCONTROL_1_2 kRegMaskLUTSelect kRegShiftLUTSelect
               in ntv2WriteRegisterMS r kRegGlobalControl value kRegMaskCCHostBankSelect kRegShiftCCHostAccessBankSelect)
         else if value \<in> {NTV2_CCHOSTACCESS_CH3BANK0, NTV2_CCHOSTACCESS_CH3BANK1, NTV2_CCHOSTACCESS_CH4BANK0, NTV2_CCHOSTACCESS_CH4BANK1}
         then (let r =
                     (if NTV2DeviceGetNumLUTs F deviceID > 4
                      then ntv2WriteRegisterMS r kRegCh1ColorCorrectioncontrol 0 kRegMaskLUT5Select (unat kRegMaskLUT5Select)
                      else r);
                   r = ntv2WriteRegisterMS r kRegCh1ColorCorrectioncontrol NTV2_LUTCONTROL_3_4 kRegMaskLUTSelect kRegShiftLUTSelect
               in ntv2WriteRegisterMS r kRegCh1ColorCorrectioncontrol (value - NTV2_CCHOSTACCESS_CH3BANK0) kRegMaskCCHostBankSelect kRegShiftCCHostAccessBankSelect)
         else if value \<in> {NTV2_CCHOSTACCESS_CH5BANK0, NTV2_CCHOSTACCESS_CH5BANK1}
         then (let r = ntv2WriteRegisterMS r kRegCh1ColorCorrectioncontrol 0 kRegMaskLUTSelect kRegShiftLUTSelect;
                   r = ntv2WriteRegisterMS r kRegGlobalControl 0 kRegMaskCCHostBankSelect kRegShiftCCHostAccessBankSelect;
                   r = ntv2WriteRegisterMS r kRegCh1ColorCorrectioncontrol 0x1 kRegMaskLUT5Select (unat kRegMaskLUT5Select)
               in ntv2WriteRegisterMS r kRegCh1ColorCorrectioncontrol (value - NTV2_CCHOSTACCESS_CH5BANK0) kRegMaskCC5HostAccessBankSelect kRegShiftCC5HostAccessBankSelect)
         else r)"

definition GetLUTV2HostAccessBank :: "regs \<Rightarrow> nat \<Rightarrow> u32" where
  "GetLUTV2HostAccessBank r inChannel =
     (let outValue = NTV2_CCHOSTACCESS_CH1BANK0
      in if inChannel = NTV2_CHANNEL1
         then ntv2ReadRegisterMS r kRegLUTV2Control kRegMaskLUT1HostAccessBankSelect kRegShiftLUT1HostAccessBankSelect
         else if inChannel = NTV2_CHANNEL2
         then (let tempVal = ntv2ReadRegisterMS r kRegLUTV2Control kRegMaskLUT2HostAccessBankSelect kRegShiftLUT2HostAccessBankSelect
               in tempVal + NTV2_CCHOSTACCESS_CH2BANK0)
         else if inChannel = NTV2_CHANNEL3
         then (let tempVal = ntv2ReadRegisterMS r kRegLUTV2Control kRegMaskLUT3HostAccessBankSelect kRegShiftLUT3HostAccessBankSelect
               in tempVal + NTV2_CCHOSTACCESS_CH3BANK0)
         else if inChannel = NTV2_CHANNEL4
         then (let tempVal = ntv2ReadRegisterMS r kRegLUTV2Control kRegMaskLUT4HostAccessBankSelect kRegShiftLUT4HostAccessBankSelect
               in tempVal + NTV2_CCHOSTACCESS_CH4BANK0)
         else if inChannel = NTV2_CHANNEL5
         then (let tempVal = ntv2ReadRegisterMS r kRegLUTV2Control kRegMaskLUT5HostAccessBankSelect kRegShiftLUT5HostAccessBankSelect
               in tempVal + NTV2_CCHOSTACCESS_CH5BANK0)
         else if inChannel = NTV2_CHANNEL6
         then (let tempVal = ntv2ReadRegisterMS r kRegLUTV2Control kRegMaskLUT6HostAccessBankSelect kRegShiftLUT6HostAccessBankSelect
               in tempVal + NTV2_CCHOSTACCESS_CH6BANK0)
         else if inChannel = NTV2_CHANNEL7
         then (let tempVal = ntv2ReadRegisterMS r kRegLUTV2Control kRegMaskLUT7HostAccessBankSelect kRegShiftLUT7HostAccessBankSelect
               in tempVal + NTV2_CCHOSTACCESS_CH7BANK0)
         else if inChannel = NTV2_CHANNEL8
         then (let tempVal = ntv2ReadRegisterMS r kRegLUTV2Control kRegMaskLUT8HostAccessBankSelect kRegShiftLUT8HostAccessBankSelect
               in tempVal + NTV2_CCHOSTACCESS_CH8BANK0)
         else outValue)"

definition SetLUTV2OutputBank :: "features \<Rightarrow> regs \<Rightarrow> nat \<Rightarrow> u32 \<Rightarrow> regs" where
  "SetLUTV2OutputBank F r channel bank =
     (let deviceID = ntv2ReadRegister r kRegBoardID;
          numLUT = NTV2DeviceGetNumLUTs F deviceID
      in if channel = NTV2_CHANNEL1
         then (if numLUT > 0
               then ntv2WriteRegisterMS r kRegLUTV2Control bank kRegMaskLUT1OutputBankSelect kRegShiftLUT1OutputBankSelect
               else r)
         else if channel = NTV2_CHANNEL2
         then (if numLUT > 1
               then ntv2WriteRegisterMS r kRegLUTV2Control bank kRegMaskLUT2OutputBankSelect kRegShiftLUT2OutputBankSelect
               else r)
         else if channel = NTV2_CHANNEL3
         then (if numLUT > 2
               then ntv2WriteRegisterMS r kRegLUTV2Control bank kRegMaskLUT3OutputBankSelect kRegShiftLUT3OutputBankSelect
               else r)
         else if channel = NTV2_CHANNEL4
         then (if numLUT > 3
               then ntv2WriteRegisterMS r kRegLUTV2Control bank kRegMaskLUT4OutputBankSelect kRegShiftLUT4OutputBankSelect
               else r)
         else if channel = NTV2_CHANNEL5
         then (if numLUT > 4
               then ntv2WriteRegisterMS r kRegLUTV2Control bank kRegMaskLUT5OutputBankSelect kRegShiftLUT5OutputBankSelect
               else r)
         else if channel = NTV2_CHANNEL6
         then (if numLUT > 5
               then ntv2WriteRegisterMS r kRegLUTV2Control bank kRegMaskLUT6OutputBankSelect kRegShiftLUT6OutputBankSelect
               else r)
         else if channel = NTV2_CHANNEL7
         then (if numLUT > 6
               then ntv2WriteRegisterMS r kRegLUTV2Control bank kRegMaskLUT7OutputBankSelect kRegShiftLUT7OutputBankSelect
               else r)
         else if channel = NTV2_CHANNEL8
         then (if numLUT > 7
               then ntv2WriteRegisterMS r kRegLUTV2Control bank kRegMaskLUT8OutputBankSelect kRegShiftLUT8OutputBankSelect
               else r)
         else r)"

definition SetColorCorrectionOutputBank :: "features \<Rightarrow> regs \<Rightarrow> nat \<Rightarrow> u32 \<Rightarrow> regs" where
  "SetColorCorrectionOutputBank F r channel bank =
     (let deviceID = ntv2ReadRegister r kRegBoardID
      in if NTV2DeviceGetLUTVersion F deviceID = 2
         then SetLUTV2OutputBank F r channel bank
         else if channel = NTV2_CHANNEL2
         then ntv2WriteRegisterMS r kRegCh2ColorCorrectioncontrol bank kRegMaskCCOutputBankSelect kRegShiftCCOutputBankSelect
         else if channel = NTV2_CHANNEL3
         then ntv2WriteRegisterMS r kRegCh2ColorCorrectioncontrol bank kRegMaskCC3OutputBankSelect kRegShiftCC3OutputBankSelect
         else if channel = NTV2_CHANNEL4
         then ntv2WriteRegisterMS r kRegCh2ColorCorrectioncontrol bank kRegMaskCC4OutputBankSelect kRegShiftCC4OutputBankSelect
         else ntv2WriteRegisterMS r kRegCh1ColorCorrectioncontrol bank kRegMaskCCOutputBankSelect kRegShiftCCOutputBankSelect)"

definition GetLUTV2OutputBank :: "features \<Rightarrow> regs \<Rightarrow> nat \<Rightarrow> u32" where
  "GetLUTV2OutputBank F r channel =
     (let deviceID = ntv2ReadRegister r kRegBoardID;
          numLUT = NTV2DeviceGetNumLUTs F deviceID;
          bank = 0
      in if channel = NTV2_CHANNEL2
         then (if numLUT > 1
               then ntv2ReadRegisterMS r kRegLUTV2Control kRegMaskLUT2OutputBankSelect kRegShiftLUT2OutputBankSelect
               else bank)
         else if channel = NTV2_CHANNEL3
         then (if numLUT > 2
               then ntv2ReadRegisterMS r kRegLUTV2Control kRegMaskLUT3OutputBankSelect kRegShiftLUT3OutputBankSelect
               else bank)
         else if channel = NTV2_CHANNEL4
         then (if numLUT > 3
               then ntv2ReadRegisterMS r kRegLUTV2Control kRegMaskLUT4OutputBankSelect kRegShiftLUT4OutputBankSelect
               else bank)
         else if channel = NTV2_CHANNEL5
         then (if numLUT > 4
               then ntv2ReadRegisterMS r kRegLUTV2Control kRegMaskLUT5OutputBankSelect kRegShiftLUT5OutputBankSelect
               else bank)
         else if channel = NTV2_CHANNEL6
         then (if numLUT > 5
               then ntv2ReadRegisterMS r kRegLUTV2Control kRegMaskLUT6OutputBankSelect kRegShiftLUT6OutputBankSelect
               else bank)
         else if channel = NTV2_CHANNEL7
         then (if numLUT > 6
               then ntv2ReadRegisterMS r kRegLUTV2Control kRegMaskLUT7OutputBankSelect kRegShiftLUT7OutputBankSelect
               else bank)
         else if channel = NTV2_CHANNEL8
         then (if numLUT > 7
               then ntv2ReadRegisterMS r kRegLUTV2Control kRegMaskLUT8OutputBankSelect kRegShiftLUT8OutputBankSelect
               else bank)
         else if numLUT > 0
         then ntv2ReadRegisterMS r kRegLUTV2Control kRegMaskLUT1OutputBankSelect kRegShiftLUT1OutputBankSelect
         else bank)"

definition GetColorCorrectionOutputBank :: "features \<Rightarrow> regs \<Rightarrow> nat \<Rightarrow> u32" where
  "GetColorCorrectionOutputBank F r channel =
     (let deviceID = ntv2ReadRegister r kRegBoardID
      in if NTV2DeviceGetLUTVersion F deviceID = 2
         then GetLUTV2OutputBank F r channel
         else if channel = NTV2_CHANNEL2
         then ntv2ReadRegisterMS r kRegCh2ColorCorrectioncontrol kRegMaskCCOutputBankSelect kRegShiftCCOutputBankSelect
         else if channel = NTV2_CHANNEL3
         then ntv2ReadRegisterMS r kRegCh2ColorCorrectioncontrol kRegMaskCC3OutputBankSelect kRegShiftCC3OutputBankSelect
         else if channel = NTV2_CHANNEL4
         then ntv2ReadRegisterMS r kRegCh2ColorCorrectioncontrol kRegMaskCC4OutputBankSelect kRegShiftCC4OutputBankSelect
         else ntv2ReadRegisterMS r kRegCh1ColorCorrectioncontrol kRegMaskCCOutputBankSelect kRegShiftCCOutputBankSelect)"

definition SetColorCorrectionMode :: "regs \<Rightarrow> nat \<Rightarrow> u32 \<Rightarrow> regs" where
  "SetColorCorrectionMode r channel mode =
     (if channel = NTV2_CHANNEL1
      then ntv2WriteRegisterMS r kRegCh1ColorCorrectioncontrol mode kRegMaskCCMode kRegShiftCCMode
      else ntv2WriteRegisterMS r kRegCh2ColorCorrectioncontrol mode kRegMaskCCMode kRegShiftCCMode)"

definition GetColorCorrectionMode :: "regs \<Rightarrow> nat \<Rightarrow> u32" where
  "GetColorCorrectionMode r channel =
     (let regValue =
            (if channel = NTV2_CHANNEL1
             then ntv2ReadRegister r kRegCh1ColorCorrectioncontrol
             else ntv2ReadRegister r kRegCh2ColorCorrectioncontrol);
          regValue = regValue AND kRegMaskCCMode
      in drop_bit kRegShiftCCMode regValue)"

definition DownloadLinearLUTToHW :: "features \<Rightarrow> regs \<Rightarrow> nat \<Rightarrow> int \<Rightarrow> regs" where
  "DownloadLinearLUTToHW F r inChannel inBank =
     (let deviceID = ntv2ReadRegister r kRegBoardID
      in if NTV2DeviceCanDoColorCorrection F deviceID
         then (let savedBank = GetColorCorrectionHostAccessBank F r inChannel;
                   r = SetLUTEnable F r True inChannel;
                   r =
                     (if inChannel = NTV2_CHANNEL1
                      then (let r = SetColorCorrectionHostAccessBank F r (NTV2_CCHOSTACCESS_CH1BANK0 + u32_of inBank)
                            in LoadLUTValues r)
                      else if inChannel = NTV2_CHANNEL2
                      then (let r = SetColorCorrectionHostAccessBank F r (NTV2_CCHOSTACCESS_CH2BANK0 + u32_of inBank)
                            in LoadLUTValues r)
                      else if inChannel = NTV2_CHANNEL3
                      then (let r = SetColorCorrectionHostAccessBank F r (NTV2_CCHOSTACCESS_CH3BANK0 + u32_of inBank)
                            in LoadLUTValues r)
                      else if inChannel = NTV2_CHANNEL4
                      then (let r = SetColorCorrectionHostAccessBank F r (NTV2_CCHOSTACCESS_CH4BANK0 + u32_of inBank)
                            in LoadLUTValues r)
                      else if inChannel = NTV2_CHANNEL5
                      then (let r = SetColorCorrectionHostAccessBank F r (NTV2_CCHOSTACCESS_CH5BANK0 + u32_of inBank)
                            in LoadLUTValues r)
                      else if inChannel = NTV2_CHANNEL6
                      then (let r = SetColorCorrectionHostAccessBank F r (NTV2_CCHOSTACCESS_CH6BANK0 + u32_of inBank)
                            in LoadLUTValues r)
                      else if inChannel = NTV2_CHANNEL7
                      then (let r = SetColorCorrectionHostAccessBank F r (NTV2_CCHOSTACCESS_CH7BANK0 + u32_of inBank)
                            in LoadLUTValues r)
                      else if inChannel = NTV2_CHANNEL8
                      then (let r = SetColorCorrectionHostAccessBank F r (NTV2_CCHOSTACCESS_CH8BANK0 + u32_of inBank)
                            in LoadLUTValues r)
                      else r);
                   r = SetLUTEnable F r False inChannel
               in SetColorCorrectionHostAccessBank F r savedBank)
         else r)"

definition InitLUTRegs :: "features \<Rightarrow> regs \<Rightarrow> regs" where
  "InitLUTRegs F r =
     (let deviceID = ntv2ReadRegister r kRegBoardID
      in if Has12BitLUTSupport r
         then r
         else (let r =
                     (if NTV2DeviceCanDoColorCorrection F deviceID
                      then (let sel = NTV2DeviceGetNumLUTs F deviceID;
                                r =
                                  (if sel = 8
                                   then (let r = DownloadLinearLUTToHW F r NTV2_CHANNEL8 0
                                         in DownloadLinearLUTToHW F r NTV2_CHANNEL8 1)
                                   else r);
                                r =
                                  (if sel \<in> {8, 7}
                                   then (let r = DownloadLinearLUTToHW F r NTV2_CHANNEL7 0
                                         in DownloadLinearLUTToHW F r NTV2_CHANNEL7 1)
                                   else r);
                                r =
                                  (if sel \<in> {8, 7, 6}
                                   then (let r = DownloadLinearLUTToHW F r NTV2_CHANNEL6 0
                                         in DownloadLinearLUTToHW F r NTV2_CHANNEL6 1)
                                   else r);
                                r =
                                  (if sel \<in> {8, 7, 6, 5}
                                   then (let r = DownloadLinearLUTToHW F r NTV2_CHANNEL5 0
                                         in DownloadLinearLUTToHW F r NTV2_CHANNEL5 1)
                                   else r);
                                r =
                                  (if sel \<in> {8, 7, 6, 5, 4}
                                   then (let r = DownloadLinearLUTToHW F r NTV2_CHANNEL4 0
                                         in DownloadLinearLUTToHW F r NTV2_CHANNEL4 1)
                                   else r);
                                r =
                                  (if sel \<in> {8, 7, 6, 5, 4, 3}
                                   then (let r = DownloadLinearLUTToHW F r NTV2_CHANNEL3 0
                                         in DownloadLinearLUTToHW F r NTV2_CHANNEL3 1)
                                   else r);
                                r =
                                  (if sel \<in> {8, 7, 6, 5, 4, 3, 2}
                                   then (let r = DownloadLinearLUTToHW F r NTV2_CHANNEL2 0
                                         in DownloadLinearLUTToHW F r NTV2_CHANNEL2 1)
                                   else r)
                            in if sel \<in> {8, 7, 6, 5, 4, 3, 2, 1}
                               then (let r = DownloadLinearLUTToHW F r NTV2_CHANNEL1 0
                                     in DownloadLinearLUTToHW F r NTV2_CHANNEL1 1)
                               else r)
                      else r)
               in ntv2WriteRegister r kVRegLUTType NTV2_LUTUnknown))"

definition SetForegroundVideoCrosspoint :: "regs \<Rightarrow> nat \<Rightarrow> regs" where
  "SetForegroundVideoCrosspoint r crosspoint =
     ntv2WriteRegisterMS r kRegVidProcXptControl (of_nat crosspoint) FGVCROSSPOINTMASK FGVCROSSPOINTSHIFT"

definition SetForegroundKeyCrosspoint :: "regs \<Rightarrow> nat \<Rightarrow> regs" where
  "SetForegroundKeyCrosspoint r crosspoint =
     ntv2WriteRegisterMS r kRegVidProcXptControl (of_nat crosspoint) FGKCROSSPOINTMASK FGKCROSSPOINTSHIFT"

definition SetBackgroundVideoCrosspoint :: "regs \<Rightarrow> nat \<Rightarrow> regs" where
  "SetBackgroundVideoCrosspoint r crosspoint =
     ntv2WriteRegisterMS r kRegVidProcXptControl (of_nat crosspoint) BGVCROSSPOINTMASK BGVCROSSPOINTSHIFT"

definition SetBackgroundKeyCrosspoint :: "regs \<Rightarrow> nat \<Rightarrow> regs" where
  "SetBackgroundKeyCrosspoint r crosspoint =
     ntv2WriteRegisterMS r kRegVidProcXptControl (of_nat crosspoint) BGKCROSSPOINTMASK BGKCROSSPOINTSHIFT"

end
