(* ===== verification/Ntv2AutoTypes.thy ===== *)
theory Ntv2AutoTypes
  imports Ntv2Rp188 Ntv2Audio Ntv2Anc Ntv2Aux Ntv2Video
begin

text \<open>
  The state of the circulator, driver/ntv2autocirc.h: the stamp of a frame, the state of one
  channel, and the circulator with its 18 channels. The register bank, the device id and the
  channels form one record; a pointer to a channel is the index of the channel, a pointer to
  a frame stamp is the frame number.

  Not in the model: the \<open>pSysCon\<close> and \<open>DMAEngine\<close> handles and \<open>customAncInfo\<close>, which no
  modelled operation reads. \<open>ntv2Time100ns\<close> and \<open>AutoGetAudioClock\<close>, which a device driver
  must implement, are the fields of \<open>platform\<close>: what the clock and the audio counter show to
  the operation at hand.
\<close>

section \<open>Enumerations\<close>

datatype NTV2AutoCirculateState =
  NTV2_AUTOCIRCULATE_DISABLED | NTV2_AUTOCIRCULATE_INIT | NTV2_AUTOCIRCULATE_STARTING
| NTV2_AUTOCIRCULATE_PAUSED | NTV2_AUTOCIRCULATE_STOPPING | NTV2_AUTOCIRCULATE_RUNNING
| NTV2_AUTOCIRCULATE_STARTING_AT_TIME | NTV2_AUTOCIRCULATE_INVALID

datatype Ntv2Status =
  NTV2_STATUS_SUCCESS | NTV2_STATUS_FAIL | NTV2_STATUS_BAD_PARAMETER | NTV2_STATUS_BUSY

abbreviation (input) NUM_CIRCULATORS :: nat where "NUM_CIRCULATORS \<equiv> 18"
abbreviation (input) MAX_FRAMEBUFFERS :: int where "MAX_FRAMEBUFFERS \<equiv> 512"
abbreviation (input) MAX_ROUTING_ENTRIES :: u32 where "MAX_ROUTING_ENTRIES \<equiv> 32"
abbreviation (input) NTV2_COLORCORRECTOR_TABLESIZE :: u32 where "NTV2_COLORCORRECTOR_TABLESIZE \<equiv> 6144"
abbreviation (input) NTV2_HDMIAuxMaxFrames :: nat where "NTV2_HDMIAuxMaxFrames \<equiv> 8"
abbreviation (input) NTV2_HDMIAuxDataSize :: nat where "NTV2_HDMIAuxDataSize \<equiv> 32"

definition ILLEGAL_CHANNELSPEC :: "nat \<Rightarrow> bool" where
  "ILLEGAL_CHANNELSPEC spec \<longleftrightarrow>
     spec > NTV2CROSSPOINT_INPUT8 \<or> spec = NTV2CROSSPOINT_MATTE \<or> spec = NTV2CROSSPOINT_FGKEY"

section \<open>The frame stamp\<close>

record INTERNAL_COLOR_CORRECTION_STRUCT =
  ccMode :: u32
  saturationValue :: u32
  ccLookupTables :: "u32 list"

record AutoCircVidProcInfo =
  vpMode :: u32
  foregroundVideoCrosspoint :: nat
  backgroundVideoCrosspoint :: nat
  foregroundKeyCrosspoint :: nat
  backgroundKeyCrosspoint :: nat
  transitionCoefficient :: int
  transitionSoftness :: int

record NTV2RoutingEntry =
  reRegisterNum :: u32
  reMask :: u32
  reShift :: u32
  reValue :: u32

record NTV2RoutingTable =
  numEntries :: u32
  routingEntry :: "NTV2RoutingEntry list"

record INTERNAL_FRAME_STAMP_STRUCT =
  frameTime :: int
  audioClockTimeStamp :: u64
  audioExpectedAddress :: u32
  audioInStartAddress :: u32
  audioInStopAddress :: u32
  audioOutStopAddress :: u32
  audioOutStartAddress :: u32
  audioPreWrapBytes :: u32
  audioPostWrapBytes :: u32
  bytesRead :: u32
  startSample :: u32
  rp188 :: RP188_STRUCT
  validCount :: int
  repeatCount :: int
  hUser :: u64
  videoTransferPending :: bool
  frameFlags :: u32
  frameBufferFormat :: u32
  frameBufferOrientation :: u32
  colorCorrectionInfo :: INTERNAL_COLOR_CORRECTION_STRUCT
  vidProcInfo :: AutoCircVidProcInfo
  routingTable :: NTV2RoutingTable
  internalTCArray :: INTERNAL_TIMECODE_STRUCT
  internalSDIStatusArray :: INTERNAL_SDI_STATUS_STRUCT
  ancTransferSize :: u32
  ancField2TransferSize :: u32
  auxData :: "u32 list"
  auxDataSize :: u32

section \<open>The channel and the circulator\<close>

text \<open>
  The fields \<open>videoTransferPending\<close>, \<open>ancTransferSize\<close> and \<open>ancField2TransferSize\<close> of the
  channel carry the prefix \<open>ac\<close>, since the frame stamp has fields of these names; the
  circulator's \<open>startAudioNextFrame\<close> and \<open>stopAudioNextFrame\<close> carry the prefix \<open>g\<close>.
\<close>

record INTERNAL_AUTOCIRCULATE_STRUCT =
  state :: NTV2AutoCirculateState
  channelSpec :: nat
  recording :: bool
  currentFrame :: int
  startFrame :: int
  endFrame :: int
  activeFrame :: int
  activeFrameRegister :: u32
  nextFrame :: int
  circulateWithAudio :: bool
  circulateWithRP188 :: bool
  circulateWithColorCorrection :: bool
  circulateWithVidProc :: bool
  circulateWithCustomAncData :: bool
  enableFbfChange :: bool
  enableFboChange :: bool
  startTimeStamp :: u64
  startAudioClockTimeStamp :: u64
  framesProcessed :: u32
  droppedFrames :: u32
  nextTransferFrame :: u32
  frameStamp :: "INTERNAL_FRAME_STAMP_STRUCT list"
  nextAudioOutputAddress :: u32
  audioStartSample :: u32
  audioDropsRequired :: u32
  audioDropsCompleted :: u32
  lastInterruptTime :: u64
  prevInterruptTime :: u64
  lastAudioClockTimeStamp :: u64
  startTime :: u64
  circulateWithLTC :: bool
  audioSystem :: nat
  channelCount :: int
  acVideoTransferPending :: bool
  startAudioNextFrame :: bool
  stopAudioNextFrame :: bool
  VBIRDTSC :: u64
  VBILastRDTSC :: u64
  VBIAudioOut :: u32
  transferFrame :: u32
  audioTransferOffset :: u32
  audioTransferSize :: u32
  ancTransferOffset :: u32
  ancField2TransferOffset :: u32
  acAncTransferSize :: u32
  acAncField2TransferSize :: u32
  circulateWithHDMIAux :: bool
  circulateWithFields :: bool

record NTV2AutoCirc =
  hw :: regs
  acDeviceID :: u32
  autoCirculate :: "INTERNAL_AUTOCIRCULATE_STRUCT list"
  ancInputChannel :: "nat list"
  globalAudioPlaybackMode :: u32
  syncChannel1 :: nat
  syncChannel2 :: nat
  gStartAudioNextFrame :: bool
  gStopAudioNextFrame :: bool
  bMultiChannel :: bool

record platform =
  ntv2Time100ns :: int
  AutoGetAudioClock :: u64

section \<open>Cleared structures\<close>

text \<open>The values that \<open>memset\<close> to 0 leaves in a structure.\<close>

definition zero_SDIInputStatus :: NTV2SDIInputStatus where
  "zero_SDIInputStatus = \<lparr>mCRCTallyA = 0, mCRCTallyB = 0, mUnlockTally = 0, mFrameRefClockCount = 0,
     mGlobalClockCount = 0, mFrameTRSError = False, mLocked = False, mVPIDValidA = False, mVPIDValidB = False\<rparr>"

definition zero_INTERNAL_SDI_STATUS_STRUCT :: INTERNAL_SDI_STATUS_STRUCT where
  "zero_INTERNAL_SDI_STATUS_STRUCT =
     \<lparr>SDIStatus1 = zero_SDIInputStatus, SDIStatus2 = zero_SDIInputStatus, SDIStatus3 = zero_SDIInputStatus,
      SDIStatus4 = zero_SDIInputStatus, SDIStatus5 = zero_SDIInputStatus, SDIStatus6 = zero_SDIInputStatus,
      SDIStatus7 = zero_SDIInputStatus, SDIStatus8 = zero_SDIInputStatus\<rparr>"

definition zero_frameStamp :: INTERNAL_FRAME_STAMP_STRUCT where
  "zero_frameStamp =
     \<lparr>frameTime = 0, audioClockTimeStamp = 0, audioExpectedAddress = 0, audioInStartAddress = 0,
      audioInStopAddress = 0, audioOutStopAddress = 0, audioOutStartAddress = 0, audioPreWrapBytes = 0,
      audioPostWrapBytes = 0, bytesRead = 0, startSample = 0, rp188 = zero_RP188_STRUCT, validCount = 0,
      repeatCount = 0, hUser = 0, videoTransferPending = False, frameFlags = 0, frameBufferFormat = 0,
      frameBufferOrientation = 0,
      colorCorrectionInfo =
        \<lparr>ccMode = 0, saturationValue = 0, ccLookupTables = replicate (unat (NTV2_COLORCORRECTOR_TABLESIZE div 4)) 0\<rparr>,
      vidProcInfo =
        \<lparr>vpMode = 0, foregroundVideoCrosspoint = 0, backgroundVideoCrosspoint = 0, foregroundKeyCrosspoint = 0,
         backgroundKeyCrosspoint = 0, transitionCoefficient = 0, transitionSoftness = 0\<rparr>,
      routingTable =
        \<lparr>numEntries = 0,
         routingEntry = replicate 32 \<lparr>reRegisterNum = 0, reMask = 0, reShift = 0, reValue = 0\<rparr>\<rparr>,
      internalTCArray = zero_INTERNAL_TIMECODE_STRUCT, internalSDIStatusArray = zero_INTERNAL_SDI_STATUS_STRUCT,
      ancTransferSize = 0, ancField2TransferSize = 0,
      auxData = replicate (NTV2_HDMIAuxMaxFrames * NTV2_HDMIAuxDataSize div 4) 0, auxDataSize = 0\<rparr>"

definition zero_autoCirculate :: INTERNAL_AUTOCIRCULATE_STRUCT where
  "zero_autoCirculate =
     \<lparr>state = NTV2_AUTOCIRCULATE_DISABLED, channelSpec = 0, recording = False, currentFrame = 0, startFrame = 0,
      endFrame = 0, activeFrame = 0, activeFrameRegister = 0, nextFrame = 0, circulateWithAudio = False,
      circulateWithRP188 = False, circulateWithColorCorrection = False, circulateWithVidProc = False,
      circulateWithCustomAncData = False, enableFbfChange = False, enableFboChange = False, startTimeStamp = 0,
      startAudioClockTimeStamp = 0, framesProcessed = 0, droppedFrames = 0, nextTransferFrame = 0,
      frameStamp = replicate (nat MAX_FRAMEBUFFERS) zero_frameStamp, nextAudioOutputAddress = 0,
      audioStartSample = 0, audioDropsRequired = 0, audioDropsCompleted = 0, lastInterruptTime = 0,
      prevInterruptTime = 0, lastAudioClockTimeStamp = 0, startTime = 0, circulateWithLTC = False,
      audioSystem = 0, channelCount = 0, acVideoTransferPending = False, startAudioNextFrame = False,
      stopAudioNextFrame = False, VBIRDTSC = 0, VBILastRDTSC = 0, VBIAudioOut = 0, transferFrame = 0,
      audioTransferOffset = 0, audioTransferSize = 0, ancTransferOffset = 0, ancField2TransferOffset = 0,
      acAncTransferSize = 0, acAncField2TransferSize = 0, circulateWithHDMIAux = False,
      circulateWithFields = False\<rparr>"

section \<open>Access to channels and frame stamps\<close>

text \<open>
  \<open>fs_get a i\<close> reads \<open>frameStamp[i]\<close> of the channel \<open>a\<close>, \<open>fs_upd f i a\<close> changes it; an index
  outside the array is \<open>None\<close>. \<open>ac_get\<close> and \<open>ac_put\<close> do the same for the channel array of the
  circulator, and \<open>upd_hw\<close> runs a register operation.
\<close>

definition fs_get :: "INTERNAL_AUTOCIRCULATE_STRUCT \<Rightarrow> int \<Rightarrow> INTERNAL_FRAME_STAMP_STRUCT option" where
  "fs_get a i = arr_get (frameStamp a) i"

definition fs_upd :: "(INTERNAL_FRAME_STAMP_STRUCT \<Rightarrow> INTERNAL_FRAME_STAMP_STRUCT) \<Rightarrow> int \<Rightarrow>
    INTERNAL_AUTOCIRCULATE_STRUCT \<Rightarrow> INTERNAL_AUTOCIRCULATE_STRUCT option" where
  "fs_upd f i a =
     do { x \<leftarrow> arr_get (frameStamp a) i;
          xs \<leftarrow> arr_set (frameStamp a) i (f x);
          Some (a\<lparr>frameStamp := xs\<rparr>) }"

definition ac_get :: "NTV2AutoCirc \<Rightarrow> nat \<Rightarrow> INTERNAL_AUTOCIRCULATE_STRUCT option" where
  "ac_get s c = arr_get (autoCirculate s) (int c)"

definition ac_put :: "nat \<Rightarrow> INTERNAL_AUTOCIRCULATE_STRUCT \<Rightarrow> NTV2AutoCirc \<Rightarrow> NTV2AutoCirc option" where
  "ac_put c a s =
     do { xs \<leftarrow> arr_set (autoCirculate s) (int c) a;
          Some (s\<lparr>autoCirculate := xs\<rparr>) }"

definition upd_hw :: "(regs \<Rightarrow> regs) \<Rightarrow> NTV2AutoCirc \<Rightarrow> NTV2AutoCirc" where
  "upd_hw f s = s\<lparr>hw := f (hw s)\<rparr>"

end
