(* ===== verification/Ntv2AutoSetup.thy ===== *)
theory Ntv2AutoSetup
  imports Ntv2AutoTypes
begin

text \<open>
  The register set-up of the circulator for one frame, driver/ntv2autocirc.c: the colour
  corrector, the mixer, the routing table and the HDMI auxiliary data of a frame stamp, and
  the tests on fields and interrupts.
\<close>

section \<open>Fixed-point mixing\<close>

text \<open>
  \<open>Word\<close> is \<open>int16_t\<close>, \<open>Fixed_\<close> is \<open>int32_t\<close> with 16 fractional bits
  (ajantv2/includes/ntv2fixed.h). The product is kept at 32 bits by \<open>wrap32\<close>.
\<close>

definition s16 :: "int \<Rightarrow> int" where
  "s16 i = sint (word_of_int i :: u16)"

definition Word_of :: "u32 \<Rightarrow> int" where
  "Word_of x = s16 (uint x)"

definition FixedRound :: "int \<Rightarrow> int" where
  "FixedRound inFix =
     (if inFix < 0 then s16 (- ((- inFix + 0x8000) div 2 ^ 16)) else s16 ((inFix + 0x8000) div 2 ^ 16))"

definition FixedMix :: "int \<Rightarrow> int \<Rightarrow> int \<Rightarrow> int" where
  "FixedMix mn mx mixer = (let result = wrap32 ((mx - mn) * mixer + mn) in FixedRound result)"

section \<open>Set-up of the hardware for a frame\<close>

definition AutoCircSetupColorCorrector :: "features \<Rightarrow> regs \<Rightarrow> u32 \<Rightarrow> nat \<Rightarrow> INTERNAL_COLOR_CORRECTION_STRUCT \<Rightarrow> regs" where
  "AutoCircSetupColorCorrector F r deviceID spec ccInfo =
     (if \<not> NTV2DeviceCanDoColorCorrection F deviceID
      then r
      else (let r =
                  (if spec = NTV2CROSSPOINT_CHANNEL1
                   then (let r =
                               (if GetColorCorrectionOutputBank F r NTV2_CHANNEL1 = 1
                                then (let r = SetColorCorrectionHostAccessBank F r NTV2_CCHOSTACCESS_CH1BANK0
                                      in SetColorCorrectionOutputBank F r NTV2_CHANNEL1 0)
                                else (let r = SetColorCorrectionHostAccessBank F r NTV2_CCHOSTACCESS_CH1BANK1
                                      in SetColorCorrectionOutputBank F r NTV2_CHANNEL1 1));
                             r = SetColorCorrectionSaturation r NTV2_CHANNEL1 (saturationValue ccInfo)
                         in SetColorCorrectionMode r NTV2_CHANNEL1 (ccMode ccInfo))
                   else if spec = NTV2CROSSPOINT_CHANNEL2
                   then (let r =
                               (if GetColorCorrectionOutputBank F r NTV2_CHANNEL2 = 1
                                then (let r = SetColorCorrectionHostAccessBank F r NTV2_CCHOSTACCESS_CH2BANK0
                                      in SetColorCorrectionOutputBank F r NTV2_CHANNEL2 0)
                                else (let r = SetColorCorrectionHostAccessBank F r NTV2_CCHOSTACCESS_CH2BANK1
                                      in SetColorCorrectionOutputBank F r NTV2_CHANNEL2 1));
                             r = SetColorCorrectionSaturation r NTV2_CHANNEL2 (saturationValue ccInfo)
                         in SetColorCorrectionMode r NTV2_CHANNEL2 (ccMode ccInfo))
                   else if spec = NTV2CROSSPOINT_CHANNEL3
                   then (if GetColorCorrectionOutputBank F r NTV2_CHANNEL3 = 1
                         then (let r = SetColorCorrectionHostAccessBank F r NTV2_CCHOSTACCESS_CH3BANK0
                               in SetColorCorrectionOutputBank F r NTV2_CHANNEL3 0)
                         else (let r = SetColorCorrectionHostAccessBank F r NTV2_CCHOSTACCESS_CH3BANK1
                               in SetColorCorrectionOutputBank F r NTV2_CHANNEL3 1))
                   else if spec = NTV2CROSSPOINT_CHANNEL4
                   then (if GetColorCorrectionOutputBank F r NTV2_CHANNEL4 = 1
                         then (let r = SetColorCorrectionHostAccessBank F r NTV2_CCHOSTACCESS_CH4BANK0
                               in SetColorCorrectionOutputBank F r NTV2_CHANNEL4 0)
                         else (let r = SetColorCorrectionHostAccessBank F r NTV2_CCHOSTACCESS_CH4BANK1
                               in SetColorCorrectionOutputBank F r NTV2_CHANNEL4 1))
                   else if spec = NTV2CROSSPOINT_CHANNEL5
                   then (if GetColorCorrectionOutputBank F r NTV2_CHANNEL5 = 1
                         then (let r = SetColorCorrectionHostAccessBank F r NTV2_CCHOSTACCESS_CH5BANK0
                               in SetColorCorrectionOutputBank F r NTV2_CHANNEL5 0)
                         else (let r = SetColorCorrectionHostAccessBank F r NTV2_CCHOSTACCESS_CH5BANK1
                               in SetColorCorrectionOutputBank F r NTV2_CHANNEL5 1))
                   else if spec = NTV2CROSSPOINT_CHANNEL6
                   then (if GetColorCorrectionOutputBank F r NTV2_CHANNEL6 = 1
                         then (let r = SetColorCorrectionHostAccessBank F r NTV2_CCHOSTACCESS_CH6BANK0
                               in SetColorCorrectionOutputBank F r NTV2_CHANNEL6 0)
                         else (let r = SetColorCorrectionHostAccessBank F r NTV2_CCHOSTACCESS_CH6BANK1
                               in SetColorCorrectionOutputBank F r NTV2_CHANNEL6 1))
                   else if spec = NTV2CROSSPOINT_CHANNEL7
                   then (if GetColorCorrectionOutputBank F r NTV2_CHANNEL7 = 1
                         then (let r = SetColorCorrectionHostAccessBank F r NTV2_CCHOSTACCESS_CH7BANK0
                               in SetColorCorrectionOutputBank F r NTV2_CHANNEL7 0)
                         else (let r = SetColorCorrectionHostAccessBank F r NTV2_CCHOSTACCESS_CH7BANK1
                               in SetColorCorrectionOutputBank F r NTV2_CHANNEL7 1))
                   else if spec = NTV2CROSSPOINT_CHANNEL8
                   then (if GetColorCorrectionOutputBank F r NTV2_CHANNEL8 = 1
                         then (let r = SetColorCorrectionHostAccessBank F r NTV2_CCHOSTACCESS_CH8BANK0
                               in SetColorCorrectionOutputBank F r NTV2_CHANNEL8 0)
                         else (let r = SetColorCorrectionHostAccessBank F r NTV2_CCHOSTACCESS_CH8BANK1
                               in SetColorCorrectionOutputBank F r NTV2_CHANNEL8 1))
                   else r)
            in fold (\<lambda>regIndex r. ntv2WriteRegister r (of_nat (512 + regIndex)) (tbl (ccLookupTables ccInfo) regIndex)) [0 ..< unat (NTV2_COLORCORRECTOR_TABLESIZE div 4)] r))"

text \<open>
  The size and the offset of a wipe. \<open>None\<close> is the early return for a geometry that is not
  supported. In the vertical wipe the case 1920x1080 has no \<open>break\<close>, so the assignments of
  the case 1280x720 replace its own.
\<close>

definition AutoCircSetupVidProc_wipe :: "u32 \<Rightarrow> u32 \<Rightarrow> (u32 \<times> u32) option" where
  "AutoCircSetupVidProc_wipe m frameGeometry =
     (if m = AUTOCIRCVIDPROCMODE_HORZWIPE
      then (if frameGeometry = NTV2_FG_1920x1080 then Some (1920, 8)
            else if frameGeometry = NTV2_FG_1280x720 then Some (1280, 8)
            else if frameGeometry \<in> {NTV2_FG_720x486, NTV2_FG_720x576} then Some (720 * 2, 8)
            else None)
      else if m = AUTOCIRCVIDPROCMODE_VERTWIPE
      then (if frameGeometry = NTV2_FG_1920x1080
            then (let offset = (19 :: u32); mx = (1080 + 1 :: u32); offset = 7; mx = 720 + 1 in Some (mx, offset))
            else if frameGeometry = NTV2_FG_1280x720 then Some (720 + 1, 7)
            else if frameGeometry = NTV2_FG_720x486 then Some (486 div 2 + 1, 8)
            else if frameGeometry = NTV2_FG_720x576 then Some (576 div 2 + 1, 8)
            else None)
      else Some (0, 0))"

text \<open>The split position and softness of a wipe, from the transition of the frame.\<close>

definition AutoCircSetupVidProc_split :: "AutoCircVidProcInfo \<Rightarrow> u32 \<Rightarrow> u32 \<Rightarrow> u32 \<Rightarrow> u32" where
  "AutoCircSetupVidProc_split info mx offset splitModeValue =
     (let positionValue = u32_of (FixedMix 0 (Word_of mx) (transitionCoefficient info));
          softnessPixels =
            (if transitionSoftness info = 0
             then 1
             else (let maxSoftness = (if positionValue > mx div 2 then mx - positionValue else positionValue);
                       maxSoftness = (if maxSoftness > mx div 4 then mx div 4 else maxSoftness)
                   in if maxSoftness = 0
                      then 1
                      else u32_of (FixedMix 1 (Word_of maxSoftness) (transitionSoftness info))));
          softnessPixels = (if softnessPixels = 0 then 1 else softnessPixels);
          softnessSlope = 0x1FFF div softnessPixels;
          positionValue = positionValue - softnessPixels div 2
      in splitModeValue OR push_bit 16 softnessSlope OR push_bit 2 (positionValue + offset))"

definition AutoCircSetupVidProc :: "features \<Rightarrow> u32 \<Rightarrow> regs \<Rightarrow> AutoCircVidProcInfo \<Rightarrow> regs" where
  "AutoCircSetupVidProc F deviceID r info =
     (let r = SetForegroundVideoCrosspoint r (foregroundVideoCrosspoint info);
          r = SetForegroundKeyCrosspoint r (foregroundKeyCrosspoint info);
          r = SetBackgroundVideoCrosspoint r (backgroundVideoCrosspoint info);
          r = SetBackgroundKeyCrosspoint r (backgroundKeyCrosspoint info);
          regValue = ntv2ReadRegister r kRegVidProc1Control;
          regValue = regValue AND NOT (VIDPROCMUX1MASK + VIDPROCMUX2MASK + VIDPROCMUX3MASK);
          frameGeometry = GetFrameGeometry F r NTV2_CHANNEL1;
          (regValue, r) =
            (if vpMode info = AUTOCIRCVIDPROCMODE_MIX
             then (regValue OR (BIT_0 + BIT_2),
                   ntv2WriteRegister r kRegMixer1Coefficient (u32_of (transitionCoefficient info)))
             else if vpMode info \<in> {AUTOCIRCVIDPROCMODE_HORZWIPE, AUTOCIRCVIDPROCMODE_VERTWIPE}
             then (regValue OR (BIT_0 + BIT_3), r)
             else if vpMode info = AUTOCIRCVIDPROCMODE_KEY
             then (regValue OR BIT_0, r)
             else (regValue, r));
          splitModeValue = (if vpMode info = AUTOCIRCVIDPROCMODE_VERTWIPE then BIT_30 else 0)
      in case AutoCircSetupVidProc_wipe (vpMode info) frameGeometry of
           None \<Rightarrow> r
         | Some (mx, offset) \<Rightarrow>
             (let r = ntv2WriteRegister r kRegVidProc1Control regValue
              in if vpMode info = AUTOCIRCVIDPROCMODE_MIX \<or> vpMode info = AUTOCIRCVIDPROCMODE_KEY
                 then r
                 else ntv2WriteRegister r kRegSplitControl
                        (AutoCircSetupVidProc_split info mx offset splitModeValue)))"

definition AutoCircSetupRouting :: "regs \<Rightarrow> NTV2RoutingTable \<Rightarrow> regs" where
  "AutoCircSetupRouting r pRoutingTable =
     (let n = numEntries pRoutingTable
      in if n = 0 \<or> n \<ge> MAX_ROUTING_ENTRIES
         then r
         else fold (\<lambda>i r.
                let entry = tbl (routingEntry pRoutingTable) i
                in ntv2WriteRegisterMS r (reRegisterNum entry) (reValue entry) (reMask entry) (unat (reShift entry)))
                [0 ..< unat n] r)"

definition AutoCircWriteHDMIAux :: "features \<Rightarrow> u32 \<Rightarrow> regs \<Rightarrow> u32 list \<Rightarrow> u32 \<Rightarrow> regs" where
  "AutoCircWriteHDMIAux F deviceID r pAuxData dataSize =
     (let numData = NTV2_HDMIAuxDataSize;
          numAux = unat dataSize div numData;
          channel = NTV2_CHANNEL1
      in if channel \<ge> NTV2DeviceGetNumHDMIVideoOutputs F deviceID
         then r
         else if numAux = 0
         then r
         else fold (\<lambda>iAux r.
                if NTV2DeviceGetHDMIVersion F deviceID = 2
                then fold (\<lambda>iData r.
                       ntv2WriteRegister r (kRegHDMIOutputAuxData + of_nat iData)
                         (tbl pAuxData (iAux * (numData div 4) + iData)))
                       [0 ..< numData div 4] r
                else r) [0 ..< numAux] r)"

section \<open>Field mode and interrupts\<close>

definition AutoCircCanDoFieldMode :: "features \<Rightarrow> regs \<Rightarrow> INTERNAL_AUTOCIRCULATE_STRUCT \<Rightarrow> bool" where
  "AutoCircCanDoFieldMode F r pAuto =
     (let syncChannel = (if IsMultiFormatActive F r then GetNTV2ChannelForNTV2Crosspoint (channelSpec pAuto) else NTV2_CHANNEL1);
          vidFormat = GetBoardVideoFormat F r syncChannel
      in vidFormat \<in> {NTV2_FORMAT_525_5994, NTV2_FORMAT_625_5000, NTV2_FORMAT_1080i_5000, NTV2_FORMAT_1080i_5994, NTV2_FORMAT_1080i_6000})"

definition IsAutoCircInterrupt :: "features \<Rightarrow> regs \<Rightarrow> nat \<Rightarrow> bool" where
  "IsAutoCircInterrupt F r spec =
     (let channel = (if IsMultiFormatActive F r then GetNTV2ChannelForNTV2Crosspoint spec else NTV2_CHANNEL1)
      in if IsProgressiveStandard F r channel
         then True
         else IsFieldID0 F r spec)"

end
