(* ===== verification/Ntv2AutoRing.thy ===== *)
theory Ntv2AutoRing
  imports Ntv2AutoSetup
begin

text \<open>
  The ring of frames of a channel, driver/ntv2autocirc.c: the step to the next and the
  previous frame, the buffer level and the search for a frame to transfer, with the contract
  of a frame ring and the specifications of the two searches.
\<close>

section \<open>The contract of a frame ring\<close>

locale frame_ring =
  fixes nxt prv :: "int \<Rightarrow> 'a \<Rightarrow> int"
    and lo hi :: "'a \<Rightarrow> int"
  assumes nxt_inner: "c < hi a \<Longrightarrow> nxt c a = c + 1"
    and nxt_wrap: "hi a \<le> c \<Longrightarrow> nxt c a = lo a"
    and prv_inner: "lo a < c \<Longrightarrow> prv c a = c - 1"
    and prv_wrap: "c \<le> lo a \<Longrightarrow> prv c a = hi a"
begin

lemma nxt_in: "lo a \<le> hi a \<Longrightarrow> lo a - 1 \<le> c \<Longrightarrow> lo a \<le> nxt c a \<and> nxt c a \<le> hi a"
  by (cases "c < hi a") (auto simp: nxt_inner nxt_wrap)

lemma prv_in: "lo a \<le> hi a \<Longrightarrow> c \<le> hi a \<Longrightarrow> lo a \<le> prv c a \<and> prv c a \<le> hi a"
  by (cases "lo a < c") (auto simp: prv_inner prv_wrap)

lemma prv_nxt: "lo a \<le> c \<Longrightarrow> c \<le> hi a \<Longrightarrow> prv (nxt c a) a = c"
  by (cases "c < hi a") (auto simp: nxt_inner nxt_wrap prv_inner prv_wrap)

lemma nxt_prv: "lo a \<le> c \<Longrightarrow> c \<le> hi a \<Longrightarrow> nxt (prv c a) a = c"
  by (cases "lo a < c") (auto simp: nxt_inner nxt_wrap prv_inner prv_wrap)

text \<open>The frame that \<open>k\<close> steps forward, or backward, lead to.\<close>

lemma nxt_mod:
  assumes "lo a \<le> c" and "c \<le> hi a"
  shows "nxt c a = lo a + (c - lo a + 1) mod (hi a - lo a + 1)"
  using assms by (cases "c < hi a") (auto simp: nxt_inner nxt_wrap)

lemma prv_mod:
  assumes "lo a \<le> c" and "c \<le> hi a"
  shows "prv c a = lo a + (c - lo a - 1) mod (hi a - lo a + 1)"
proof (cases "lo a < c")
  case True
  with assms show ?thesis by (simp add: prv_inner)
next
  case False
  with assms have "c = lo a" by simp
  moreover have "(- 1) mod (hi a - lo a + 1) = hi a - lo a"
    using assms by (cases "hi a = lo a") (auto simp: zmod_minus1)
  ultimately show ?thesis by (simp add: prv_wrap)
qed

lemma nxt_pow:
  assumes "lo a \<le> c" and "c \<le> hi a"
  shows "((\<lambda>x. nxt x a) ^^ k) c = lo a + (c - lo a + int k) mod (hi a - lo a + 1)"
proof (induction k)
  case 0
  then show ?case using assms by simp
next
  case (Suc k)
  let ?n = "hi a - lo a + 1"
  let ?d = "((\<lambda>x. nxt x a) ^^ k) c"
  have "lo a \<le> ?d \<and> ?d \<le> hi a"
    using assms pos_mod_bound [of ?n "c - lo a + int k"] by (simp add: Suc.IH)
  then have "nxt ?d a = lo a + ((c - lo a + int k) mod ?n + 1) mod ?n"
    by (subst nxt_mod) (auto simp: Suc.IH)
  also have "((c - lo a + int k) mod ?n + 1) mod ?n = (c - lo a + int k + 1) mod ?n"
    by (simp only: mod_add_left_eq)
  finally show ?case by (simp add: ac_simps)
qed

lemma prv_pow:
  assumes "lo a \<le> c" and "c \<le> hi a"
  shows "((\<lambda>x. prv x a) ^^ k) c = lo a + (c - lo a - int k) mod (hi a - lo a + 1)"
proof (induction k)
  case 0
  then show ?case using assms by simp
next
  case (Suc k)
  let ?n = "hi a - lo a + 1"
  let ?d = "((\<lambda>x. prv x a) ^^ k) c"
  have "lo a \<le> ?d \<and> ?d \<le> hi a"
    using assms pos_mod_bound [of ?n "c - lo a - int k"] by (simp add: Suc.IH)
  then have "prv ?d a = lo a + ((c - lo a - int k) mod ?n - 1) mod ?n"
    by (subst prv_mod) (auto simp: Suc.IH)
  also have "((c - lo a - int k) mod ?n - 1) mod ?n = (c - lo a - int k - 1) mod ?n"
    by (simp only: mod_diff_left_eq)
  finally show ?case by (simp add: diff_diff_eq ac_simps)
qed

lemma nxt_pow_in:
  assumes "lo a \<le> c" and "c \<le> hi a"
  shows "lo a \<le> ((\<lambda>x. nxt x a) ^^ k) c \<and> ((\<lambda>x. nxt x a) ^^ k) c \<le> hi a"
  using assms pos_mod_bound [of "hi a - lo a + 1" "c - lo a + int k"] by (simp add: nxt_pow)

lemma prv_pow_in:
  assumes "lo a \<le> c" and "c \<le> hi a"
  shows "lo a \<le> ((\<lambda>x. prv x a) ^^ k) c \<and> ((\<lambda>x. prv x a) ^^ k) c \<le> hi a"
  using assms pos_mod_bound [of "hi a - lo a + 1" "c - lo a - int k"] by (simp add: prv_pow)

lemma shift_mod_id:
  assumes "0 < (n :: int)" and "0 \<le> c" and "c < n" and "0 < k" and "k < n"
  shows "(c + k) mod n \<noteq> c" and "(c - k) mod n \<noteq> c"
proof -
  have nd: "\<not> n dvd k"
    using assms zdvd_imp_le [of n k] by auto
  have "c mod n = c" using assms by simp
  then show "(c + k) mod n \<noteq> c"
    using nd mod_eq_dvd_iff [of "c + k" n c] by auto
  show "(c - k) mod n \<noteq> c"
    using nd \<open>c mod n = c\<close> mod_eq_dvd_iff [of "c - k" n c] by auto
qed

end

section \<open>The ring of a channel\<close>

definition KAUTO_NEXTFRAME :: "int \<Rightarrow> INTERNAL_AUTOCIRCULATE_STRUCT \<Rightarrow> int" where
  "KAUTO_NEXTFRAME curFrame pAuto =
     (if curFrame < endFrame pAuto then curFrame + 1 else startFrame pAuto)"

definition KAUTO_PREVFRAME :: "int \<Rightarrow> INTERNAL_AUTOCIRCULATE_STRUCT \<Rightarrow> int" where
  "KAUTO_PREVFRAME curFrame pAuto =
     (if curFrame > startFrame pAuto then curFrame - 1 else endFrame pAuto)"

interpretation kauto: frame_ring KAUTO_NEXTFRAME KAUTO_PREVFRAME startFrame endFrame
  by unfold_locales (simp_all add: KAUTO_NEXTFRAME_def KAUTO_PREVFRAME_def)

text \<open>
  The frame range of a channel that is in use lies inside the stamp array. \<open>in_ring a c\<close>:
  \<open>c\<close> is a frame of the channel. \<open>frames_after a c\<close> are the other frames of the ring in the
  order of play, \<open>frames_before a c\<close> in the reverse order.
\<close>

definition ring_ok :: "INTERNAL_AUTOCIRCULATE_STRUCT \<Rightarrow> bool" where
  "ring_ok a \<longleftrightarrow> 0 \<le> startFrame a \<and> startFrame a \<le> endFrame a \<and> endFrame a < MAX_FRAMEBUFFERS \<and>
     int (length (frameStamp a)) = MAX_FRAMEBUFFERS"

definition in_ring :: "INTERNAL_AUTOCIRCULATE_STRUCT \<Rightarrow> int \<Rightarrow> bool" where
  "in_ring a c \<longleftrightarrow> startFrame a \<le> c \<and> c \<le> endFrame a"

definition ring_size :: "INTERNAL_AUTOCIRCULATE_STRUCT \<Rightarrow> int" where
  "ring_size a = endFrame a - startFrame a + 1"

definition stamp :: "INTERNAL_AUTOCIRCULATE_STRUCT \<Rightarrow> int \<Rightarrow> INTERNAL_FRAME_STAMP_STRUCT" where
  "stamp a i = frameStamp a ! nat i"

definition frames_after :: "INTERNAL_AUTOCIRCULATE_STRUCT \<Rightarrow> int \<Rightarrow> int list" where
  "frames_after a c = [c + 1..endFrame a] @ [startFrame a..c - 1]"

definition frames_before :: "INTERNAL_AUTOCIRCULATE_STRUCT \<Rightarrow> int \<Rightarrow> int list" where
  "frames_before a c = rev (frames_after a c)"

lemma fs_get_ring [ring_simps]: "ring_ok a \<Longrightarrow> in_ring a c \<Longrightarrow> fs_get a c = Some (stamp a c)"
  by (simp add: fs_get_def ring_ok_def in_ring_def stamp_def arr_get_Some)

lemma fs_get_Some_iff:
  "fs_get a c = Some x \<longleftrightarrow> 0 \<le> c \<and> c < int (length (frameStamp a)) \<and> x = stamp a c"
  by (simp add: fs_get_def arr_get_eq_Some_iff stamp_def)

lemma fs_upd_ring [ring_simps]:
  "ring_ok a \<Longrightarrow> in_ring a c \<Longrightarrow>
   fs_upd f c a = Some (a\<lparr>frameStamp := (frameStamp a)[nat c := f (stamp a c)]\<rparr>)"
  by (simp add: fs_upd_def ring_ok_def in_ring_def stamp_def arr_get_Some arr_set_Some)

lemma in_ring_next [ring_simps]: "ring_ok a \<Longrightarrow> in_ring a c \<Longrightarrow> in_ring a (KAUTO_NEXTFRAME c a)"
  using kauto.nxt_in [of a c] by (simp add: ring_ok_def in_ring_def)

lemma in_ring_prev [ring_simps]: "ring_ok a \<Longrightarrow> in_ring a c \<Longrightarrow> in_ring a (KAUTO_PREVFRAME c a)"
  using kauto.prv_in [of a c] by (simp add: ring_ok_def in_ring_def)

lemma in_ring_start [ring_simps]: "ring_ok a \<Longrightarrow> in_ring a (startFrame a)"
  by (simp add: ring_ok_def in_ring_def)

lemma in_ring_bounds: "ring_ok a \<Longrightarrow> in_ring a c \<Longrightarrow> 0 \<le> c \<and> c < MAX_FRAMEBUFFERS"
  by (auto simp: ring_ok_def in_ring_def)

lemma next_end [simp]: "KAUTO_NEXTFRAME (endFrame a) a = startFrame a"
  by (simp add: KAUTO_NEXTFRAME_def)

lemma prev_start [simp]: "KAUTO_PREVFRAME (startFrame a) a = endFrame a"
  by (simp add: KAUTO_PREVFRAME_def)

text \<open>A walk of \<open>n\<close> steps in one direction visits these frames.\<close>

fun walk :: "(int \<Rightarrow> int) \<Rightarrow> nat \<Rightarrow> int \<Rightarrow> int list" where
  "walk f 0 c = []"
| "walk f (Suc n) c = f c # walk f n (f c)"

lemma walk_up:
  "c + int n \<le> endFrame a \<Longrightarrow> walk (\<lambda>x. KAUTO_NEXTFRAME x a) n c = [c + 1..c + int n]"
proof (induction n arbitrary: c)
  case 0
  then show ?case by simp
next
  case (Suc n)
  then have "KAUTO_NEXTFRAME c a = c + 1" by (simp add: KAUTO_NEXTFRAME_def)
  with Suc show ?case by (simp add: upto_rec1 add.assoc)
qed

lemma walk_append: "walk f (m + n) c = walk f m c @ walk f n ((f ^^ m) c)"
  by (induction m arbitrary: c) (simp_all add: funpow_swap1)

lemma walk_next:
  assumes "ring_ok a" and "in_ring a c"
  shows "walk (\<lambda>x. KAUTO_NEXTFRAME x a) (nat (ring_size a - 1)) c = frames_after a c"
proof -
  define k where "k = nat (endFrame a - c)"
  have k: "c + int k = endFrame a"
    using assms(2) by (simp add: k_def in_ring_def)
  have up: "walk (\<lambda>x. KAUTO_NEXTFRAME x a) k c = [c + 1..endFrame a]"
    using walk_up [of c k a] k by simp
  show ?thesis
  proof (cases "c = startFrame a")
    case True
    with up show ?thesis by (simp add: frames_after_def ring_size_def k_def)
  next
    case False
    define m where "m = nat (c - 1 - startFrame a)"
    have n: "nat (ring_size a - 1) = k + Suc m" and m: "startFrame a + int m = c - 1"
      using False assms(2) by (auto simp: k_def m_def in_ring_def ring_size_def)
    have "((\<lambda>x. KAUTO_NEXTFRAME x a) ^^ k) c = endFrame a"
      using assms kauto.nxt_pow [of a c k] k by (auto simp: in_ring_def)
    then have "walk (\<lambda>x. KAUTO_NEXTFRAME x a) (nat (ring_size a - 1)) c =
        [c + 1..endFrame a] @ startFrame a # walk (\<lambda>x. KAUTO_NEXTFRAME x a) m (startFrame a)"
      unfolding n walk_append by (simp add: up)
    also have "walk (\<lambda>x. KAUTO_NEXTFRAME x a) m (startFrame a) = [startFrame a + 1..c - 1]"
      using walk_up [of "startFrame a" m a] assms(2) m by (simp add: in_ring_def)
    also have "startFrame a # [startFrame a + 1..c - 1] = [startFrame a..c - 1]"
      using m by (simp add: upto_rec1)
    finally show ?thesis by (simp add: frames_after_def)
  qed
qed

lemma walk_down:
  "startFrame a \<le> c - int n \<Longrightarrow> walk (\<lambda>x. KAUTO_PREVFRAME x a) n c = rev [c - int n..c - 1]"
proof (induction n arbitrary: c)
  case 0
  then show ?case by simp
next
  case (Suc n)
  then have "KAUTO_PREVFRAME c a = c - 1" by (simp add: KAUTO_PREVFRAME_def)
  with Suc show ?case by (simp add: upto_rec2 [of "c - (1 + int n)" "c - 1"] diff_diff_eq)
qed

lemma walk_prev:
  assumes "ring_ok a" and "in_ring a c"
  shows "walk (\<lambda>x. KAUTO_PREVFRAME x a) (nat (ring_size a - 1)) c = frames_before a c"
proof -
  define k where "k = nat (c - startFrame a)"
  have k: "c - int k = startFrame a"
    using assms(2) by (simp add: k_def in_ring_def)
  have down: "walk (\<lambda>x. KAUTO_PREVFRAME x a) k c = rev [startFrame a..c - 1]"
    using walk_down [of a c k] k by simp
  show ?thesis
  proof (cases "c = endFrame a")
    case True
    with down show ?thesis by (simp add: frames_before_def frames_after_def ring_size_def k_def)
  next
    case False
    define m where "m = nat (endFrame a - 1 - c)"
    have n: "nat (ring_size a - 1) = k + Suc m" and m: "endFrame a - int m = c + 1"
      using False assms(2) by (auto simp: k_def m_def in_ring_def ring_size_def)
    have "((\<lambda>x. KAUTO_PREVFRAME x a) ^^ k) c = startFrame a"
      using assms kauto.prv_pow [of a c k] k by (auto simp: in_ring_def)
    then have "walk (\<lambda>x. KAUTO_PREVFRAME x a) (nat (ring_size a - 1)) c =
        rev [startFrame a..c - 1] @ endFrame a # walk (\<lambda>x. KAUTO_PREVFRAME x a) m (endFrame a)"
      unfolding n walk_append by (simp add: down)
    also have "walk (\<lambda>x. KAUTO_PREVFRAME x a) m (endFrame a) = rev [c + 1..endFrame a - 1]"
      using walk_down [of a "endFrame a" m] assms(2) m by (simp add: in_ring_def)
    also have "endFrame a # rev [c + 1..endFrame a - 1] = rev [c + 1..endFrame a]"
      using m by (simp add: upto_rec2)
    finally show ?thesis by (simp add: frames_before_def frames_after_def)
  qed
qed

lemma walk_all:
  assumes "ring_ok a"
  shows "walk (\<lambda>x. KAUTO_NEXTFRAME x a) (nat (ring_size a)) (startFrame a - 1) = [startFrame a..endFrame a]"
  using walk_up [of "startFrame a - 1" "nat (ring_size a)" a] assms by (simp add: ring_ok_def ring_size_def)

lemma set_frames_after:
  "in_ring a c \<Longrightarrow> set (frames_after a c) = {startFrame a..endFrame a} - {c}"
  by (auto simp: frames_after_def in_ring_def)

lemma distinct_frames_after: "distinct (frames_after a c)"
  by (auto simp: frames_after_def)

lemma length_frames_after: "in_ring a c \<Longrightarrow> int (length (frames_after a c)) = ring_size a - 1"
  by (auto simp: frames_after_def in_ring_def ring_size_def)

section \<open>The buffer level\<close>

text \<open>
  The two loops of \<open>AutoCircGetBufferLevel\<close>; \<open>n\<close> is the number of iterations left. The
  playback loop keeps the code's second exit, \<open>i \<ge> lRange\<close>.
\<close>

fun AutoCircGetBufferLevel_record :: "INTERNAL_AUTOCIRCULATE_STRUCT \<Rightarrow> nat \<Rightarrow> int \<Rightarrow> u32 \<Rightarrow> u32 option" where
  "AutoCircGetBufferLevel_record pAuto 0 lCurFrame dwBufferLevel = Some dwBufferLevel"
| "AutoCircGetBufferLevel_record pAuto (Suc n) lCurFrame dwBufferLevel =
     (let lCurFrame = KAUTO_PREVFRAME lCurFrame pAuto
      in do { f \<leftarrow> fs_get pAuto lCurFrame;
              if validCount f = 0
              then Some dwBufferLevel
              else AutoCircGetBufferLevel_record pAuto n lCurFrame (dwBufferLevel + 1) })"

fun AutoCircGetBufferLevel_play :: "INTERNAL_AUTOCIRCULATE_STRUCT \<Rightarrow> int \<Rightarrow> nat \<Rightarrow> int \<Rightarrow> int \<Rightarrow> u32 \<Rightarrow> u32 option" where
  "AutoCircGetBufferLevel_play pAuto lRange 0 i lCurFrame dwBufferLevel = Some dwBufferLevel"
| "AutoCircGetBufferLevel_play pAuto lRange (Suc n) i lCurFrame dwBufferLevel =
     (let lCurFrame = KAUTO_NEXTFRAME lCurFrame pAuto
      in do { f \<leftarrow> fs_get pAuto lCurFrame;
              if validCount f = 0 \<or> i \<ge> lRange
              then Some dwBufferLevel
              else AutoCircGetBufferLevel_play pAuto lRange n (i + 1) lCurFrame (dwBufferLevel + u32_of (validCount f)) })"

definition AutoCircGetBufferLevel :: "INTERNAL_AUTOCIRCULATE_STRUCT \<Rightarrow> u32 option" where
  "AutoCircGetBufferLevel pAuto =
     (let lRange = endFrame pAuto - startFrame pAuto + 1;
          lCurFrame = (if state pAuto = NTV2_AUTOCIRCULATE_INIT then startFrame pAuto else activeFrame pAuto)
      in if state pAuto \<noteq> NTV2_AUTOCIRCULATE_INIT \<and>
            (activeFrame pAuto < startFrame pAuto \<or> activeFrame pAuto > endFrame pAuto)
         then Some 0
         else if recording pAuto
         then (if state pAuto \<noteq> NTV2_AUTOCIRCULATE_RUNNING
               then Some 0
               else do { f \<leftarrow> fs_get pAuto lCurFrame;
                         AutoCircGetBufferLevel_record pAuto (nat (lRange - 1)) lCurFrame
                           (if validCount f \<noteq> 0 then 1 else 0) })
         else do { f \<leftarrow> fs_get pAuto lCurFrame;
                   AutoCircGetBufferLevel_play pAuto lRange (nat (lRange - 1)) 1 lCurFrame (u32_of (validCount f)) })"

lemma u32_of_add: "u32_of (x + y) = u32_of x + u32_of y"
  by (simp add: u32_of_def)

lemma u32_of_0 [simp]: "u32_of 0 = 0"
  by (simp add: u32_of_def)

lemma buffer_level_record_loop:
  "ring_ok a \<Longrightarrow> in_ring a c \<Longrightarrow>
   AutoCircGetBufferLevel_record a n c b =
     Some (b + of_nat (length (takeWhile (\<lambda>i. validCount (stamp a i) \<noteq> 0) (walk (\<lambda>x. KAUTO_PREVFRAME x a) n c))))"
  by (induction n arbitrary: c b) (simp_all add: ring_simps ac_simps Let_def)

lemma buffer_level_play_loop:
  "ring_ok a \<Longrightarrow> in_ring a c \<Longrightarrow> i + int n \<le> m \<Longrightarrow>
   AutoCircGetBufferLevel_play a m n i c b =
     Some (b + u32_of (\<Sum>j\<leftarrow>takeWhile (\<lambda>j. validCount (stamp a j) \<noteq> 0) (walk (\<lambda>x. KAUTO_NEXTFRAME x a) n c).
                          validCount (stamp a j)))"
  by (induction n arbitrary: c b i) (simp_all add: ring_simps u32_of_add ac_simps Let_def)

text \<open>
  The specification of the level: the counts of the current frame and of the unbroken run
  of queued frames behind it in play; the number of captured frames in record.
\<close>

definition queued_play :: "INTERNAL_AUTOCIRCULATE_STRUCT \<Rightarrow> int \<Rightarrow> int" where
  "queued_play a c = validCount (stamp a c) +
     (\<Sum>j\<leftarrow>takeWhile (\<lambda>j. validCount (stamp a j) \<noteq> 0) (frames_after a c). validCount (stamp a j))"

definition captured_record :: "INTERNAL_AUTOCIRCULATE_STRUCT \<Rightarrow> int \<Rightarrow> nat" where
  "captured_record a c = of_bool (validCount (stamp a c) \<noteq> 0) +
     length (takeWhile (\<lambda>j. validCount (stamp a j) \<noteq> 0) (frames_before a c))"

lemma buffer_level_play:
  assumes "ring_ok a" and "\<not> recording a"
    and "c = (if state a = NTV2_AUTOCIRCULATE_INIT then startFrame a else activeFrame a)" and "in_ring a c"
  shows "AutoCircGetBufferLevel a = Some (u32_of (queued_play a c))"
proof -
  have n: "1 + int (nat (ring_size a - 1)) \<le> ring_size a"
    using assms(1) by (simp add: ring_size_def ring_ok_def)
  have "AutoCircGetBufferLevel a = AutoCircGetBufferLevel_play a (ring_size a) (nat (ring_size a - 1)) 1 c
      (u32_of (validCount (stamp a c)))"
    using assms by (auto simp: AutoCircGetBufferLevel_def Let_def ring_simps ring_size_def in_ring_def)
  also have "\<dots> = Some (u32_of (queued_play a c))"
    using buffer_level_play_loop [OF assms(1,4) n]
    by (simp add: walk_next [OF assms(1,4)] queued_play_def u32_of_add)
  finally show ?thesis .
qed

lemma buffer_level_record:
  assumes "ring_ok a" and "recording a" and "state a = NTV2_AUTOCIRCULATE_RUNNING" and "in_ring a (activeFrame a)"
  shows "AutoCircGetBufferLevel a = Some (of_nat (captured_record a (activeFrame a)))"
proof -
  have "AutoCircGetBufferLevel a = AutoCircGetBufferLevel_record a (nat (ring_size a - 1)) (activeFrame a)
      (if validCount (stamp a (activeFrame a)) \<noteq> 0 then 1 else 0)"
    using assms by (auto simp: AutoCircGetBufferLevel_def Let_def ring_simps ring_size_def in_ring_def)
  also have "\<dots> = Some (of_nat (captured_record a (activeFrame a)))"
    using assms by (simp add: buffer_level_record_loop walk_prev captured_record_def)
  finally show ?thesis .
qed

lemma captured_record_le:
  assumes "in_ring a c"
  shows "int (captured_record a c) \<le> ring_size a"
proof -
  have "length (takeWhile (\<lambda>j. validCount (stamp a j) \<noteq> 0) (frames_before a c)) \<le> length (frames_before a c)"
    by (rule length_takeWhile_le)
  then show ?thesis
    using length_frames_after [OF assms] by (simp add: captured_record_def frames_before_def)
qed

section \<open>The search for a frame to transfer\<close>

fun AutoCircFindNextAvailFrame_loop :: "(int \<Rightarrow> bool) \<Rightarrow> INTERNAL_AUTOCIRCULATE_STRUCT \<Rightarrow> nat \<Rightarrow> int \<Rightarrow>
    (bool \<times> INTERNAL_AUTOCIRCULATE_STRUCT) option" where
  "AutoCircFindNextAvailFrame_loop found pAuto 0 lCurFrame = Some (False, pAuto)"
| "AutoCircFindNextAvailFrame_loop found pAuto (Suc n) lCurFrame =
     (let lCurFrame = KAUTO_NEXTFRAME lCurFrame pAuto
      in do { f \<leftarrow> fs_get pAuto lCurFrame;
              if found (validCount f)
              then Some (True, pAuto\<lparr>nextTransferFrame := u32_of lCurFrame\<rparr>)
              else AutoCircFindNextAvailFrame_loop found pAuto n lCurFrame })"

definition AutoCircFindNextAvailFrame :: "INTERNAL_AUTOCIRCULATE_STRUCT \<Rightarrow>
    (bool \<times> INTERNAL_AUTOCIRCULATE_STRUCT) option" where
  "AutoCircFindNextAvailFrame pAuto =
     (let lRange = endFrame pAuto - startFrame pAuto + 1;
          (lCurFrame, lStart, valid) =
            (if state pAuto = NTV2_AUTOCIRCULATE_INIT
             then (startFrame pAuto - 1, 0, True)
             else (activeFrame pAuto, 1,
                   \<not> (activeFrame pAuto < startFrame pAuto \<or> activeFrame pAuto > endFrame pAuto)))
      in if \<not> valid
         then Some (False, pAuto)
         else if recording pAuto
         then (if state pAuto \<noteq> NTV2_AUTOCIRCULATE_RUNNING
               then Some (False, pAuto)
               else AutoCircFindNextAvailFrame_loop (\<lambda>v. v > 0) pAuto (nat lRange) lCurFrame)
         else (if state pAuto = NTV2_AUTOCIRCULATE_DISABLED
               then Some (False, pAuto)
               else AutoCircFindNextAvailFrame_loop (\<lambda>v. v = 0) pAuto (nat (lRange - lStart)) lCurFrame))"

definition find_result :: "INTERNAL_AUTOCIRCULATE_STRUCT \<Rightarrow> int option \<Rightarrow> bool \<times> INTERNAL_AUTOCIRCULATE_STRUCT" where
  "find_result a r = (case r of None \<Rightarrow> (False, a) | Some i \<Rightarrow> (True, a\<lparr>nextTransferFrame := u32_of i\<rparr>))"

lemma find_loop:
  assumes "ring_ok a" and "startFrame a - 1 \<le> c" and "c \<le> endFrame a"
  shows "AutoCircFindNextAvailFrame_loop P a n c =
     Some (find_result a (find (\<lambda>i. P (validCount (stamp a i))) (walk (\<lambda>x. KAUTO_NEXTFRAME x a) n c)))"
  using assms(2,3)
proof (induction n arbitrary: c)
  case 0
  then show ?case by (simp add: find_result_def)
next
  case (Suc n)
  have r: "in_ring a (KAUTO_NEXTFRAME c a)"
    using Suc.prems assms(1) kauto.nxt_in [of a c] by (simp add: ring_ok_def in_ring_def)
  then have "startFrame a - 1 \<le> KAUTO_NEXTFRAME c a \<and> KAUTO_NEXTFRAME c a \<le> endFrame a"
    by (simp add: in_ring_def)
  with Suc.IH show ?case
    using r assms(1) by (simp add: ring_simps find_result_def)
qed

lemma find_next_play:
  assumes "ring_ok a" and "\<not> recording a" and "state a \<noteq> NTV2_AUTOCIRCULATE_DISABLED"
    and "state a = NTV2_AUTOCIRCULATE_INIT \<or> in_ring a (activeFrame a)"
  shows "AutoCircFindNextAvailFrame a =
    Some (find_result a (find (\<lambda>i. validCount (stamp a i) = 0)
      (if state a = NTV2_AUTOCIRCULATE_INIT then [startFrame a..endFrame a] else frames_after a (activeFrame a))))"
proof (cases "state a = NTV2_AUTOCIRCULATE_INIT")
  case True
  then show ?thesis
    using assms find_loop [of a "startFrame a - 1"] walk_all [of a]
    by (simp add: AutoCircFindNextAvailFrame_def ring_ok_def ring_size_def)
next
  case False
  then have r: "in_ring a (activeFrame a)" using assms(4) by simp
  then have "startFrame a - 1 \<le> activeFrame a \<and> activeFrame a \<le> endFrame a"
    by (simp add: in_ring_def)
  then show ?thesis
    using False r assms find_loop [of a "activeFrame a"] walk_next [of a "activeFrame a"]
    by (auto simp: AutoCircFindNextAvailFrame_def ring_size_def in_ring_def)
qed

lemma find_next_record:
  assumes "ring_ok a" and "recording a" and "state a = NTV2_AUTOCIRCULATE_RUNNING" and "in_ring a (activeFrame a)"
  shows "AutoCircFindNextAvailFrame a =
    Some (find_result a (find (\<lambda>i. validCount (stamp a i) > 0) (frames_after a (activeFrame a) @ [activeFrame a])))"
proof -
  let ?c = "activeFrame a"
  have n: "nat (ring_size a) = nat (ring_size a - 1) + 1"
    using assms(1) by (auto simp: ring_size_def ring_ok_def)
  have b: "startFrame a - 1 \<le> ?c \<and> ?c \<le> endFrame a"
    using assms(4) by (simp add: in_ring_def)
  have size: "int (Suc (nat (ring_size a - 1))) = ring_size a" and "endFrame a - startFrame a + 1 = ring_size a"
    using assms(1) by (auto simp: ring_size_def ring_ok_def)
  then have "((\<lambda>x. KAUTO_NEXTFRAME x a) ^^ Suc (nat (ring_size a - 1))) ?c
      = startFrame a + (?c - startFrame a + ring_size a) mod ring_size a"
    using assms(4) kauto.nxt_pow [of a ?c "Suc (nat (ring_size a - 1))"] by (simp only: in_ring_def size)
  also have "\<dots> = startFrame a + (?c - startFrame a)"
    unfolding mod_add_self2 using assms(4) by (simp add: in_ring_def ring_size_def)
  also have "\<dots> = ?c" by simp
  finally have "walk (\<lambda>x. KAUTO_NEXTFRAME x a) (nat (ring_size a)) ?c = frames_after a ?c @ [?c]"
    unfolding n walk_append using assms(1,4) by (simp add: walk_next)
  then show ?thesis
    using assms b find_loop [of a ?c]
    by (auto simp: AutoCircFindNextAvailFrame_def ring_size_def in_ring_def)
qed

end
