(* ===== verification/Ntv2AutoInit.thy ===== *)
theory Ntv2AutoInit
  imports Ntv2AutoRing
begin

text \<open>
  The initialisation of the circulator's channels, \<open>AutoCircReset\<close> and \<open>AutoCircInit\<close> of
  driver/ntv2autocirc.c, and the loop over the channels of a gang, which every operation on
  a channel shares.

  An operation is a function of the circulator's state. \<open>None\<close> is an access outside an array
  (undefined behaviour); otherwise the result is the status and the new state. A channel's
  structure is read at the start of a loop body and written back at its end: no call of the
  body reads it through the circulator in between. Messages to the log are not modelled.
\<close>

type_synonym 's outcome = "(Ntv2Status \<times> 's) option"

section \<open>The loop over a gang of channels\<close>

text \<open>
  The operations act on \<open>channelCount\<close> channels of consecutive crosspoint indices. A body that
  returns another status than success ends the loop, as its \<open>return\<close> does.
\<close>

fun gang :: "(nat \<Rightarrow> nat \<Rightarrow> 's \<Rightarrow> 's outcome) \<Rightarrow> nat \<Rightarrow> nat \<Rightarrow> u32 \<Rightarrow> 's \<Rightarrow> 's outcome" where
  "gang body 0 loopCount csIndex s = Some (NTV2_STATUS_SUCCESS, s)"
| "gang body (Suc n) loopCount csIndex s =
     (let channelSpecAtIndex = GetNTV2CrosspointForIndex csIndex
      in do { (status, s) \<leftarrow> body loopCount channelSpecAtIndex s;
              if status \<noteq> NTV2_STATUS_SUCCESS
              then Some (status, s)
              else gang body n (loopCount + 1) (csIndex + 1) s })"

lemma gang_inv:
  assumes step: "\<And>k c s st s'. P s \<Longrightarrow> body k c s = Some (st, s') \<Longrightarrow> P s'"
    and "P s" and "gang body n k i s = Some (st, s')"
  shows "P s'"
  using assms(2,3)
proof (induction n arbitrary: k i s)
  case 0
  then show ?case by simp
next
  case (Suc n)
  then show ?case
    by (auto simp: Let_def split: bind_split_asm if_split_asm dest: step)
qed

lemma gang_one:
  "gang body (Suc 0) k i s = body k (GetNTV2CrosspointForIndex i) s"
  by (auto simp: Let_def split: bind_split)

section \<open>Reset\<close>

definition gChannelToOutputFrameReg :: "u32 list" where
  "gChannelToOutputFrameReg =
     [kRegCh1OutputFrame, kRegCh2OutputFrame, kRegCh3OutputFrame, kRegCh4OutputFrame,
      kRegCh5OutputFrame, kRegCh6OutputFrame, kRegCh7OutputFrame, kRegCh8OutputFrame, 0]"

definition gChannelToInputFrameReg :: "u32 list" where
  "gChannelToInputFrameReg =
     [kRegCh1InputFrame, kRegCh2InputFrame, kRegCh3InputFrame, kRegCh4InputFrame,
      kRegCh5InputFrame, kRegCh6InputFrame, kRegCh7InputFrame, kRegCh8InputFrame, 0]"

definition gNTV2InputSourceToANCChannel :: "nat list" where
  "gNTV2InputSourceToANCChannel =
     [NTV2_CHANNEL_INVALID, NTV2_CHANNEL_INVALID, NTV2_CHANNEL_INVALID, NTV2_CHANNEL_INVALID, NTV2_CHANNEL_INVALID,
      NTV2_CHANNEL1, NTV2_CHANNEL2, NTV2_CHANNEL3, NTV2_CHANNEL4,
      NTV2_CHANNEL5, NTV2_CHANNEL6, NTV2_CHANNEL7, NTV2_CHANNEL8, NTV2_CHANNEL_INVALID]"

text \<open>\<open>NTV2_INVALID_FRAME\<close> is \<open>0xFFFFFFFF\<close>; the frame fields are signed, where it is -1.\<close>

abbreviation (input) INVALID_FRAME :: int where "INVALID_FRAME \<equiv> - 1"

definition reset_channel :: "nat \<Rightarrow> INTERNAL_AUTOCIRCULATE_STRUCT" where
  "reset_channel spec =
     (let ACChannel = GetNTV2ChannelForNTV2Crosspoint spec
      in zero_autoCirculate
           \<lparr>channelSpec := spec,
            recording := NTV2_IS_INPUT_CROSSPOINT spec,
            activeFrameRegister :=
              (if NTV2_IS_INPUT_CROSSPOINT spec
               then tbl gChannelToInputFrameReg ACChannel
               else tbl gChannelToOutputFrameReg ACChannel),
            frameStamp :=
              replicate (nat MAX_FRAMEBUFFERS) (zero_frameStamp\<lparr>internalTCArray := ones_INTERNAL_TIMECODE_STRUCT\<rparr>),
            state := NTV2_AUTOCIRCULATE_DISABLED\<rparr>)"

definition AutoCircReset :: "nat \<Rightarrow> NTV2AutoCirc \<Rightarrow> NTV2AutoCirc option" where
  "AutoCircReset spec s =
     (if ILLEGAL_CHANNELSPEC spec
      then Some s
      else do { _ \<leftarrow> ac_get s spec;
                s \<leftarrow> ac_put spec (reset_channel spec) s;
                Some (upd_hw (\<lambda>r. ntv2WriteVirtualRegister r
                        (kVRegChannelCrosspointFirst + of_nat (GetNTV2ChannelForNTV2Crosspoint spec))
                        (of_nat NTV2CROSSPOINT_INVALID)) s) })"

section \<open>Init\<close>

text \<open>The arguments of \<open>AutoCircInit\<close>.\<close>

record init_args =
  lStartFrameNum :: int
  lEndFrameNum :: int
  lAudioSystem :: nat
  lChannelCount :: int
  bWithAudio :: bool
  bWithRP188 :: bool
  bFbfChange :: bool
  bFboChange :: bool
  bWithColorCorrection :: bool
  bWithVidProc :: bool
  bWithCustomAncData :: bool
  bWithLTC :: bool
  bWithFields :: bool
  bWithHDMIAux :: bool

text \<open>
  The channel's structure. The multiples of the range are unsigned: the sum is taken in
  \<open>uint32_t\<close> and converted to the signed field.
\<close>

definition AutoCircInit_frame :: "int \<Rightarrow> nat \<Rightarrow> u32 \<Rightarrow> int" where
  "AutoCircInit_frame base loopCount channelRange = s32 (u32_of base + of_nat loopCount * channelRange)"

definition AutoCircInit_record :: "init_args \<Rightarrow> u32 \<Rightarrow> nat \<Rightarrow> nat \<Rightarrow> INTERNAL_AUTOCIRCULATE_STRUCT \<Rightarrow>
    INTERNAL_AUTOCIRCULATE_STRUCT" where
  "AutoCircInit_record p channelRange loopCount spec pAuto =
     pAuto\<lparr>channelSpec := spec,
           startFrame := AutoCircInit_frame (lStartFrameNum p) loopCount channelRange,
           endFrame := AutoCircInit_frame (lEndFrameNum p) loopCount channelRange,
           channelCount := (if loopCount = 0 then lChannelCount p else 0),
           currentFrame := AutoCircInit_frame (lStartFrameNum p) loopCount channelRange,
           circulateWithAudio := (if loopCount = 0 then bWithAudio p else False),
           circulateWithRP188 := (if loopCount = 0 then bWithRP188 p else False),
           enableFbfChange := (if loopCount = 0 then bFbfChange p else False),
           enableFboChange := (if loopCount = 0 then bFboChange p else False),
           circulateWithColorCorrection := (if loopCount = 0 then bWithColorCorrection p else False),
           circulateWithVidProc := (if loopCount = 0 then bWithVidProc p else False),
           circulateWithCustomAncData := (if loopCount = 0 then bWithCustomAncData p else False),
           circulateWithLTC := (if loopCount = 0 then bWithLTC p else False),
           circulateWithFields := bWithFields p,
           circulateWithHDMIAux := (if loopCount = 0 then bWithHDMIAux p else False),
           audioSystem := lAudioSystem p\<rparr>"

text \<open>The frame store modes of the channel and of the channels that a quad format drives.\<close>

definition AutoCircInit_modes :: "features \<Rightarrow> u32 \<Rightarrow> nat \<Rightarrow> regs \<Rightarrow> regs" where
  "AutoCircInit_modes F deviceID spec r =
     (let m = (if NTV2_IS_INPUT_CROSSPOINT spec then NTV2_MODE_CAPTURE else NTV2_MODE_DISPLAY);
          r = SetMode r (GetNTV2ChannelForNTV2Crosspoint spec) m;
          r = (if \<not> NTV2DeviceCanDo12gRouting F deviceID
               then (if Get425FrameEnable F r NTV2_CHANNEL1 \<and> spec \<in> {NTV2CROSSPOINT_CHANNEL1, NTV2CROSSPOINT_INPUT1}
                     then SetMode r NTV2_CHANNEL2 m
                     else if Get425FrameEnable F r NTV2_CHANNEL3 \<and> spec \<in> {NTV2CROSSPOINT_CHANNEL3, NTV2CROSSPOINT_INPUT3}
                     then SetMode r NTV2_CHANNEL4 m
                     else if Get425FrameEnable F r NTV2_CHANNEL5 \<and> spec \<in> {NTV2CROSSPOINT_CHANNEL5, NTV2CROSSPOINT_INPUT5}
                     then SetMode r NTV2_CHANNEL6 m
                     else if Get425FrameEnable F r NTV2_CHANNEL7 \<and> spec \<in> {NTV2CROSSPOINT_CHANNEL7, NTV2CROSSPOINT_INPUT7}
                     then SetMode r NTV2_CHANNEL8 m
                     else r)
               else if GetQuadQuadFrameEnable F r NTV2_CHANNEL1
               then (let r = SetMode r NTV2_CHANNEL2 m;
                         r = SetMode r NTV2_CHANNEL3 m
                     in SetMode r NTV2_CHANNEL4 m)
               else r)
      in if Get4kSquaresEnable F r NTV2_CHANNEL1 \<and> spec \<in> {NTV2CROSSPOINT_CHANNEL1, NTV2CROSSPOINT_INPUT1}
         then (let r = SetMode r NTV2_CHANNEL2 m;
                   r = SetMode r NTV2_CHANNEL3 m
               in SetMode r NTV2_CHANNEL4 m)
         else if Get4kSquaresEnable F r NTV2_CHANNEL5 \<and> spec \<in> {NTV2CROSSPOINT_CHANNEL5, NTV2CROSSPOINT_INPUT5}
         then (let r = SetMode r NTV2_CHANNEL6 m;
                   r = SetMode r NTV2_CHANNEL7 m
               in SetMode r NTV2_CHANNEL8 m)
         else r)"

text \<open>The audio engine of the channel.\<close>

definition AutoCircInit_audio :: "INTERNAL_AUTOCIRCULATE_STRUCT \<Rightarrow> regs \<Rightarrow> INTERNAL_AUTOCIRCULATE_STRUCT \<times> regs" where
  "AutoCircInit_audio pAuto r =
     (if circulateWithAudio pAuto
      then (if NTV2_IS_INPUT_CROSSPOINT (channelSpec pAuto)
            then (pAuto, StartAudioCapture (StopAudioCapture r (audioSystem pAuto)) (audioSystem pAuto))
            else (pAuto\<lparr>nextAudioOutputAddress := 0, audioDropsRequired := 0, audioDropsCompleted := 0\<rparr>,
                  StopAudioPlayback r (audioSystem pAuto)))
      else (pAuto, r))"

text \<open>Retail mode.\<close>

definition standard_tasks :: "regs \<Rightarrow> bool" where
  "standard_tasks r \<longleftrightarrow> ntv2ReadVirtualRegister r kVRegEveryFrameTaskFilter = NTV2_STANDARD_TASKS"

text \<open>The channel that the ancillary extractor reads from.\<close>

definition AutoCircInit_ancInput :: "nat \<Rightarrow> regs \<Rightarrow> nat option" where
  "AutoCircInit_ancInput ACChannel r =
     (if standard_tasks r
      then (let sourceSelect = ntv2ReadVirtualRegister r kVRegCustomAncInputSelect
            in arr_get gNTV2InputSourceToANCChannel (uint sourceSelect))
      else Some ACChannel)"

definition AncInserter_on :: "features \<Rightarrow> nat \<Rightarrow> regs \<Rightarrow> regs" where
  "AncInserter_on F ch r =
     (let r = EnableAncExtractor r ch False;
          r = EnableAncInserter r ch False;
          r = snd (SetupAncInserter F r ch)
      in EnableAncInserter r ch True)"

definition AncInserter_off :: "nat \<Rightarrow> regs \<Rightarrow> regs" where
  "AncInserter_off ch r = EnableAncInserter (EnableAncExtractor r ch False) ch False"

text \<open>
  The ancillary data units, switched on or off: \<open>anc\<close> is \<open>ancInputChannel[ACChannel]\<close>. In
  retail mode all inserters are set up alike.
\<close>

definition AutoCircInit_anc_on :: "features \<Rightarrow> u32 \<Rightarrow> nat \<Rightarrow> nat \<Rightarrow> INTERNAL_AUTOCIRCULATE_STRUCT \<Rightarrow> regs \<Rightarrow>
    INTERNAL_AUTOCIRCULATE_STRUCT \<times> regs" where
  "AutoCircInit_anc_on F deviceID ACChannel anc pAuto r =
     (if NTV2_IS_INPUT_CROSSPOINT (channelSpec pAuto)
      then (if NTV2_IS_VALID_CHANNEL anc
            then (if circulateWithHDMIAux pAuto
                  then (if NTV2DeviceCanDoCustomAux F deviceID
                        then (pAuto, let r = EnableAuxExtractor r anc False;
                                         r = snd (SetupAuxExtractor F r anc)
                                     in EnableAuxExtractor r anc True)
                        else (pAuto\<lparr>circulateWithHDMIAux := False, circulateWithCustomAncData := False\<rparr>, r))
                  else (pAuto, let r = EnableAncInserter r anc False;
                                   r = EnableAncExtractor r anc False;
                                   r = snd (SetupAncExtractor F r anc)
                               in EnableAncExtractor r anc True))
            else (pAuto, r))
      else (pAuto, let r = AncInserter_on F ACChannel r
                   in if standard_tasks r
                      then fold (AncInserter_on F) [0 ..< NTV2DeviceGetNumVideoOutputs F deviceID] r
                      else r))"

definition AutoCircInit_anc_off :: "features \<Rightarrow> u32 \<Rightarrow> nat \<Rightarrow> nat \<Rightarrow> INTERNAL_AUTOCIRCULATE_STRUCT \<Rightarrow> regs \<Rightarrow> regs" where
  "AutoCircInit_anc_off F deviceID ACChannel anc pAuto r =
     (if NTV2_IS_INPUT_CROSSPOINT (channelSpec pAuto)
      then (if NTV2_IS_VALID_CHANNEL anc
            then EnableAncExtractor (EnableAncInserter r anc False) anc False
            else r)
      else (let r = AncInserter_off ACChannel r
            in if standard_tasks r
               then fold AncInserter_off [0 ..< NTV2DeviceGetNumVideoOutputs F deviceID] r
               else r))"

definition AutoCircInit_anc :: "features \<Rightarrow> u32 \<Rightarrow> nat \<Rightarrow> nat \<Rightarrow> INTERNAL_AUTOCIRCULATE_STRUCT \<Rightarrow> regs \<Rightarrow>
    INTERNAL_AUTOCIRCULATE_STRUCT \<times> regs" where
  "AutoCircInit_anc F deviceID ACChannel anc pAuto r =
     (let (pAuto, r) = (if circulateWithCustomAncData pAuto
                        then AutoCircInit_anc_on F deviceID ACChannel anc pAuto r
                        else if NTV2DeviceCanDoCustomAnc F deviceID
                        then (pAuto, AutoCircInit_anc_off F deviceID ACChannel anc pAuto r)
                        else (pAuto, r))
      in if \<not> circulateWithHDMIAux pAuto \<and> NTV2_IS_INPUT_CROSSPOINT (channelSpec pAuto) \<and>
            NTV2DeviceCanDoCustomAux F deviceID
         then (pAuto, EnableAncExtractor r anc False)
         else (pAuto, r))"

text \<open>The timecode inserters.\<close>

definition RP188_output :: "nat \<Rightarrow> regs \<Rightarrow> regs" where
  "RP188_output ch r = SetRP188Mode r ch NTV2_RP188_OUTPUT"

definition AutoCircInit_rp188 :: "features \<Rightarrow> u32 \<Rightarrow> nat \<Rightarrow> INTERNAL_AUTOCIRCULATE_STRUCT \<Rightarrow> regs \<Rightarrow> regs" where
  "AutoCircInit_rp188 F deviceID ACChannel pAuto r =
     (if circulateWithRP188 pAuto \<or> circulateWithLTC pAuto
      then (let r = RP188_output ACChannel r;
                r = (if (GetQuadFrameEnable F r NTV2_CHANNEL1 \<or> GetQuadQuadFrameEnable F r NTV2_CHANNEL1) \<and>
                        channelSpec pAuto \<in> {NTV2CROSSPOINT_CHANNEL1, NTV2CROSSPOINT_INPUT1}
                     then fold RP188_output [NTV2_CHANNEL2, NTV2_CHANNEL3, NTV2_CHANNEL4] r
                     else r);
                r = (if GetQuadFrameEnable F r NTV2_CHANNEL5 \<and>
                        channelSpec pAuto \<in> {NTV2CROSSPOINT_CHANNEL5, NTV2CROSSPOINT_INPUT5}
                     then fold RP188_output [NTV2_CHANNEL6, NTV2_CHANNEL7, NTV2_CHANNEL8] r
                     else r)
            in if standard_tasks r
               then fold RP188_output [0 ..< NTV2DeviceGetNumVideoOutputs F deviceID] r
               else r)
      else r)"

text \<open>The body of the loop.\<close>

definition AutoCircInit_channel :: "features \<Rightarrow> init_args \<Rightarrow> u32 \<Rightarrow> nat \<Rightarrow> nat \<Rightarrow> NTV2AutoCirc \<Rightarrow> NTV2AutoCirc outcome" where
  "AutoCircInit_channel F p channelRange loopCount spec s =
     do { pAuto \<leftarrow> ac_get s spec;
          if state pAuto \<noteq> NTV2_AUTOCIRCULATE_DISABLED
          then Some (NTV2_STATUS_BUSY, s)
          else do {
            s \<leftarrow> AutoCircReset spec s;
            pAuto \<leftarrow> ac_get s spec;
            let deviceID = acDeviceID s;
            let ACChannel = GetNTV2ChannelForNTV2Crosspoint spec;
            let pAuto = AutoCircInit_record p channelRange loopCount spec pAuto;
            let r = AutoCircInit_modes F deviceID spec (hw s);
            let (pAuto, r) = AutoCircInit_audio pAuto r;
            anc \<leftarrow> AutoCircInit_ancInput ACChannel r;
            ancs \<leftarrow> arr_set (ancInputChannel s) (int ACChannel) anc;
            let (pAuto, r) = AutoCircInit_anc F deviceID ACChannel anc pAuto r;
            let r = AutoCircInit_rp188 F deviceID ACChannel pAuto r;
            let pAuto = pAuto\<lparr>activeFrame := INVALID_FRAME, state := NTV2_AUTOCIRCULATE_INIT\<rparr>;
            let r = ntv2WriteVirtualRegister r (kVRegChannelCrosspointFirst + of_nat ACChannel) (of_nat spec);
            s \<leftarrow> ac_put spec pAuto (s\<lparr>hw := r, ancInputChannel := ancs\<rparr>);
            Some (NTV2_STATUS_SUCCESS, s) } }"

definition AutoCircInit :: "features \<Rightarrow> nat \<Rightarrow> init_args \<Rightarrow> NTV2AutoCirc \<Rightarrow> NTV2AutoCirc outcome" where
  "AutoCircInit F lChannelSpec p s =
     (if ILLEGAL_CHANNELSPEC lChannelSpec
      then Some (NTV2_STATUS_BAD_PARAMETER, s)
      else if lStartFrameNum p \<ge> MAX_FRAMEBUFFERS
      then Some (NTV2_STATUS_BAD_PARAMETER, s)
      else if lEndFrameNum p \<ge> MAX_FRAMEBUFFERS
      then Some (NTV2_STATUS_BAD_PARAMETER, s)
      else (let channelRange = u32_of (lEndFrameNum p - lStartFrameNum p + 1)
            in if channelRange \<ge> u32_of MAX_FRAMEBUFFERS
               then Some (NTV2_STATUS_BAD_PARAMETER, s)
               else (let csIndex = GetIndexForNTV2Crosspoint lChannelSpec;
                         s = s\<lparr>bMultiChannel := (lChannelCount p > 1)\<rparr>;
                         p = (if \<not> NTV2DeviceCanDoCustomAnc F (acDeviceID s)
                              then p\<lparr>bWithCustomAncData := False\<rparr>
                              else p)
                     in gang (AutoCircInit_channel F p channelRange) (nat (lChannelCount p)) 0 csIndex s)))"

end
