(* ===== verification/Ntv2AutoControl.thy ===== *)
theory Ntv2AutoControl
  imports Ntv2AutoInit
begin

text \<open>
  The operations that an application runs on a channel, driver/ntv2autocirc.c: start, stop,
  abort, pause, flush, preroll, the choice of the active frame, the audio playback mode, and
  \<open>AutoCircControl\<close>, which dispatches them and repeats them on a synchronised channel.
\<close>

section \<open>Start\<close>

text \<open>The set-up of a channel that records from its start frame; \<open>anc\<close> is \<open>ancInputChannel[ACChannel]\<close>.\<close>

definition AutoCircStart_input :: "features \<Rightarrow> u32 \<Rightarrow> nat \<Rightarrow> nat \<Rightarrow> INTERNAL_AUTOCIRCULATE_STRUCT \<Rightarrow> regs \<Rightarrow>
    (INTERNAL_AUTOCIRCULATE_STRUCT \<times> regs) option" where
  "AutoCircStart_input F deviceID ACChannel anc pAuto r =
     do { let r = SetInputFrame r ACChannel (u32_of (startFrame pAuto));
          pAuto \<leftarrow> fs_upd (\<lambda>f.
            let f = (if circulateWithRP188 pAuto \<or> circulateWithLTC pAuto
                     then f\<lparr>internalTCArray := snd (CopyRP188HardwareToFrameStampTCArray F r)\<rparr>
                     else f)
            in if NTV2DeviceCanDoSDIErrorChecks F deviceID
               then f\<lparr>internalSDIStatusArray :=
                      snd (CopySDIStatusHardwareToFrameStampSDIStatusArray F r (internalSDIStatusArray f))\<rparr>
               else f) (startFrame pAuto) pAuto;
          Some (pAuto,
                if circulateWithCustomAncData pAuto \<and> NTV2_IS_VALID_CHANNEL anc
                then (if circulateWithHDMIAux pAuto
                      then SetAuxExtWriteParams F r anc (u32_of (startFrame pAuto))
                      else SetAncExtWriteParams F r anc (u32_of (startFrame pAuto)))
                else r) }"

text \<open>The set-up of a channel that plays from its start frame, whose stamp is \<open>f\<close>.\<close>

definition AutoCircStart_output :: "features \<Rightarrow> u32 \<Rightarrow> nat \<Rightarrow> INTERNAL_AUTOCIRCULATE_STRUCT \<Rightarrow>
    INTERNAL_FRAME_STAMP_STRUCT \<Rightarrow> regs \<Rightarrow> regs" where
  "AutoCircStart_output F deviceID ACChannel pAuto f r =
     (let r = SetOutputFrame r ACChannel (u32_of (startFrame pAuto));
          r = (if circulateWithRP188 pAuto \<or> circulateWithLTC pAuto
               then CopyFrameStampTCArrayToHardware F r (internalTCArray f)
               else r);
          r = (if circulateWithCustomAncData pAuto
               then SetAncInsReadParams F r ACChannel (u32_of (startFrame pAuto)) (ancTransferSize f)
               else r);
          r = (if circulateWithHDMIAux pAuto
               then AutoCircWriteHDMIAux F deviceID r (auxData f) (auxDataSize f)
               else r);
          r = (if circulateWithColorCorrection pAuto
               then AutoCircSetupColorCorrector F r deviceID (channelSpec pAuto) (colorCorrectionInfo f)
               else r);
          r = (if circulateWithVidProc pAuto
               then AutoCircSetupVidProc F deviceID r (vidProcInfo f)
               else r)
      in if numEntries (routingTable f) > 0 then AutoCircSetupRouting r (routingTable f) else r)"

definition AutoCircStart_channel :: "features \<Rightarrow> u64 \<Rightarrow> nat \<Rightarrow> nat \<Rightarrow> NTV2AutoCirc \<Rightarrow> NTV2AutoCirc outcome" where
  "AutoCircStart_channel F time loopCount spec s =
     do { pAuto \<leftarrow> ac_get s spec;
          f \<leftarrow> fs_get pAuto (startFrame pAuto);
          let r = hw s;
          let deviceID = acDeviceID s;
          let channel = (if IsMultiFormatActive F r
                         then GetNTV2ChannelForNTV2Crosspoint (channelSpec pAuto)
                         else NTV2_CHANNEL1);
          let r = (if IsProgressiveStandard F r channel \<or> circulateWithFields pAuto
                   then SetRegisterWritemode F r NTV2_REGWRITE_SYNCTOFIELD channel
                   else SetRegisterWritemode F r NTV2_REGWRITE_SYNCTOFRAME channel);
          let ACChannel = GetNTV2ChannelForNTV2Crosspoint (channelSpec pAuto);
          anc \<leftarrow> arr_get (ancInputChannel s) (int ACChannel);
          (pAuto, r) \<leftarrow> (if NTV2_IS_INPUT_CROSSPOINT (channelSpec pAuto)
                         then AutoCircStart_input F deviceID ACChannel anc pAuto r
                         else Some (pAuto, AutoCircStart_output F deviceID ACChannel pAuto f r));
          let pAuto = pAuto\<lparr>activeFrame := startFrame pAuto, nextFrame := startFrame pAuto,
                            startTime := time, state := NTV2_AUTOCIRCULATE_STARTING\<rparr>;
          s \<leftarrow> ac_put spec pAuto (s\<lparr>hw := r\<rparr>);
          Some (NTV2_STATUS_SUCCESS, s) }"

definition AutoCircStart :: "features \<Rightarrow> nat \<Rightarrow> u64 \<Rightarrow> NTV2AutoCirc \<Rightarrow> NTV2AutoCirc outcome" where
  "AutoCircStart F spec time s =
     (if ILLEGAL_CHANNELSPEC spec
      then Some (NTV2_STATUS_BAD_PARAMETER, s)
      else do { pAutoPrimary \<leftarrow> ac_get s spec;
                if state pAutoPrimary \<noteq> NTV2_AUTOCIRCULATE_INIT
                then Some (NTV2_STATUS_BAD_PARAMETER, s)
                else gang (AutoCircStart_channel F time) (nat (channelCount pAutoPrimary)) 0
                       (GetIndexForNTV2Crosspoint spec) s })"

section \<open>Stop, abort and pause\<close>

definition AutoCircStop_channel :: "nat \<Rightarrow> nat \<Rightarrow> NTV2AutoCirc \<Rightarrow> NTV2AutoCirc outcome" where
  "AutoCircStop_channel loopCount spec s =
     do { pAuto \<leftarrow> ac_get s spec;
          let pAuto = (if state pAuto \<in> {NTV2_AUTOCIRCULATE_STARTING, NTV2_AUTOCIRCULATE_INIT,
                                         NTV2_AUTOCIRCULATE_PAUSED, NTV2_AUTOCIRCULATE_RUNNING}
                       then pAuto\<lparr>state := NTV2_AUTOCIRCULATE_STOPPING\<rparr>
                       else pAuto);
          s \<leftarrow> ac_put spec pAuto s;
          Some (NTV2_STATUS_SUCCESS, s) }"

definition AutoCircStop :: "nat \<Rightarrow> NTV2AutoCirc \<Rightarrow> NTV2AutoCirc outcome" where
  "AutoCircStop spec s =
     (if ILLEGAL_CHANNELSPEC spec
      then Some (NTV2_STATUS_BAD_PARAMETER, s)
      else do { pAutoPrimary \<leftarrow> ac_get s spec;
                gang AutoCircStop_channel (nat (channelCount pAutoPrimary)) 0 (GetIndexForNTV2Crosspoint spec) s })"

text \<open>The hardware of an aborted channel; \<open>spec\<close> is the crosspoint of the call, not of the channel.\<close>

definition AutoCircAbort_hw :: "features \<Rightarrow> NTV2AutoCirc \<Rightarrow> nat \<Rightarrow> INTERNAL_AUTOCIRCULATE_STRUCT \<Rightarrow> nat \<Rightarrow> regs" where
  "AutoCircAbort_hw F s spec pAuto anc =
     (let r = hw s
      in if recording pAuto
         then (let r = (if circulateWithAudio pAuto then StopAudioCapture r (audioSystem pAuto) else r)
               in if circulateWithCustomAncData pAuto \<and> NTV2_IS_VALID_CHANNEL anc
                  then (if circulateWithHDMIAux pAuto
                        then EnableAuxExtractor r anc False
                        else EnableAncExtractor r anc False)
                  else r)
         else (let r = (if circulateWithAudio pAuto \<or>
                           NTV2_IS_OUTPUT_CROSSPOINT spec \<and>
                           globalAudioPlaybackMode s = NTV2_AUDIOPLAYBACK_1STAUTOCIRCULATEFRAME
                        then StopAudioPlayback r (audioSystem pAuto)
                        else r)
               in if circulateWithCustomAncData pAuto
                  then (let r = EnableAncInserter r (GetNTV2ChannelForNTV2Crosspoint (channelSpec pAuto)) False
                        in if ntv2ReadVirtualRegister r kVRegEveryFrameTaskFilter = NTV2_STANDARD_TASKS
                           then fold (\<lambda>i r. EnableAncInserter r i False)
                                  [0 ..< NTV2DeviceGetNumVideoOutputs F (acDeviceID s)] r
                           else r)
                  else r))"

definition AutoCircAbort_channel :: "features \<Rightarrow> nat \<Rightarrow> nat \<Rightarrow> nat \<Rightarrow> NTV2AutoCirc \<Rightarrow> NTV2AutoCirc outcome" where
  "AutoCircAbort_channel F spec loopCount channelSpecAtIndex s =
     do { pAuto \<leftarrow> ac_get s channelSpecAtIndex;
          if state pAuto = NTV2_AUTOCIRCULATE_DISABLED
          then Some (NTV2_STATUS_SUCCESS, s)
          else do {
            anc \<leftarrow> arr_get (ancInputChannel s) (int (GetNTV2ChannelForNTV2Crosspoint (channelSpec pAuto)));
            let r = AutoCircAbort_hw F s spec pAuto anc;
            let r = ntv2WriteVirtualRegister r
                      (kVRegChannelCrosspointFirst + of_nat (GetNTV2ChannelForNTV2Crosspoint channelSpecAtIndex))
                      (of_nat NTV2CROSSPOINT_INVALID);
            s \<leftarrow> ac_put channelSpecAtIndex (pAuto\<lparr>state := NTV2_AUTOCIRCULATE_DISABLED\<rparr>) (s\<lparr>hw := r\<rparr>);
            Some (NTV2_STATUS_SUCCESS, s) } }"

definition AutoCircAbort :: "features \<Rightarrow> nat \<Rightarrow> NTV2AutoCirc \<Rightarrow> NTV2AutoCirc outcome" where
  "AutoCircAbort F spec s =
     (if ILLEGAL_CHANNELSPEC spec
      then Some (NTV2_STATUS_BAD_PARAMETER, s)
      else do { pAutoPrimary \<leftarrow> ac_get s spec;
                gang (AutoCircAbort_channel F spec) (nat (channelCount pAutoPrimary)) 0 (GetIndexForNTV2Crosspoint spec) s })"

definition AutoCircPause_channel :: "bool \<Rightarrow> bool \<Rightarrow> nat \<Rightarrow> nat \<Rightarrow> NTV2AutoCirc \<Rightarrow> NTV2AutoCirc outcome" where
  "AutoCircPause_channel bPlay bClearDF loopCount spec s =
     do { pAuto \<leftarrow> ac_get s spec;
          let pAuto = (if \<not> bPlay \<and> state pAuto = NTV2_AUTOCIRCULATE_RUNNING
                       then pAuto\<lparr>state := NTV2_AUTOCIRCULATE_PAUSED\<rparr>
                       else if bPlay \<and> state pAuto = NTV2_AUTOCIRCULATE_PAUSED
                       then (let pAuto = pAuto\<lparr>state := NTV2_AUTOCIRCULATE_RUNNING\<rparr>
                             in if bClearDF then pAuto\<lparr>droppedFrames := 0\<rparr> else pAuto)
                       else pAuto);
          s \<leftarrow> ac_put spec pAuto s;
          Some (NTV2_STATUS_SUCCESS, s) }"

definition AutoCircPause :: "nat \<Rightarrow> bool \<Rightarrow> bool \<Rightarrow> NTV2AutoCirc \<Rightarrow> NTV2AutoCirc outcome" where
  "AutoCircPause spec bPlay bClearDF s =
     (if ILLEGAL_CHANNELSPEC spec
      then Some (NTV2_STATUS_BAD_PARAMETER, s)
      else do { pAutoPrimary \<leftarrow> ac_get s spec;
                gang (AutoCircPause_channel bPlay bClearDF) (nat (channelCount pAutoPrimary)) 0
                  (GetIndexForNTV2Crosspoint spec) s })"

section \<open>Flush\<close>

text \<open>
  The two loops of \<open>AutoCircFlush\<close>. The code bounds neither by a counter: a walk that never
  came back to \<open>lStartFrame\<close> would not end, and \<open>partial_function\<close> makes it \<open>None\<close>.
\<close>

definition flush_record :: "INTERNAL_FRAME_STAMP_STRUCT \<Rightarrow> INTERNAL_FRAME_STAMP_STRUCT" where
  "flush_record f = f\<lparr>validCount := 0, videoTransferPending := False\<rparr>"

definition flush_play :: "INTERNAL_FRAME_STAMP_STRUCT \<Rightarrow> INTERNAL_FRAME_STAMP_STRUCT" where
  "flush_play f = f\<lparr>validCount := 0, videoTransferPending := False, audioExpectedAddress := 1\<rparr>"

partial_function (option) AutoCircFlush_record :: "u32 \<Rightarrow> u32 \<Rightarrow> INTERNAL_AUTOCIRCULATE_STRUCT \<Rightarrow>
    INTERNAL_AUTOCIRCULATE_STRUCT option" where
  "AutoCircFlush_record lStartFrame lCurFrame pAuto =
     (if lCurFrame = lStartFrame
      then Some pAuto
      else do { f \<leftarrow> fs_get pAuto (uint lCurFrame);
                if validCount f = 0
                then Some pAuto
                else do { pAuto \<leftarrow> fs_upd flush_record (uint lCurFrame) pAuto;
                          AutoCircFlush_record lStartFrame (u32_of (KAUTO_PREVFRAME (s32 lCurFrame) pAuto)) pAuto } })"

partial_function (option) AutoCircFlush_play :: "u32 \<Rightarrow> u32 \<Rightarrow> INTERNAL_AUTOCIRCULATE_STRUCT \<Rightarrow>
    INTERNAL_AUTOCIRCULATE_STRUCT option" where
  "AutoCircFlush_play lStartFrame lCurFrame pAuto =
     (if lCurFrame = lStartFrame
      then Some pAuto
      else do { pAuto \<leftarrow> fs_upd flush_play (uint lCurFrame) pAuto;
                AutoCircFlush_play lStartFrame (u32_of (KAUTO_NEXTFRAME (s32 lCurFrame) pAuto)) pAuto })"

text \<open>The frames of one channel; \<open>autoState\<close> is the state that the channel had before the flush.\<close>

definition AutoCircFlush_frames :: "NTV2AutoCirculateState \<Rightarrow> regs \<Rightarrow> INTERNAL_AUTOCIRCULATE_STRUCT \<Rightarrow>
    (INTERNAL_AUTOCIRCULATE_STRUCT \<times> regs) option" where
  "AutoCircFlush_frames autoState r pAuto =
     do { let lCurFrame = ntv2ReadRegister r (activeFrameRegister pAuto);
          let lCurFrame = (if lCurFrame < u32_of (startFrame pAuto) \<or> lCurFrame > u32_of (endFrame pAuto)
                           then u32_of (startFrame pAuto)
                           else lCurFrame);
          let lStartFrame = lCurFrame;
          if recording pAuto
          then do { pAuto \<leftarrow> AutoCircFlush_record lStartFrame (u32_of (KAUTO_PREVFRAME (s32 lCurFrame) pAuto)) pAuto;
                    Some (pAuto, r) }
          else do { pAuto \<leftarrow> AutoCircFlush_play lStartFrame (u32_of (KAUTO_NEXTFRAME (s32 lCurFrame) pAuto)) pAuto;
                    pAuto \<leftarrow> fs_upd (\<lambda>f. f\<lparr>audioExpectedAddress := 1\<rparr>) (uint lStartFrame) pAuto;
                    pAuto \<leftarrow> (if autoState = NTV2_AUTOCIRCULATE_INIT
                              then fs_upd (\<lambda>f. f\<lparr>validCount := 0, videoTransferPending := False\<rparr>)
                                     (uint lStartFrame) pAuto
                              else Some pAuto);
                    Some (if circulateWithAudio pAuto
                          then (pAuto\<lparr>nextAudioOutputAddress := 0\<rparr>, StopAudioPlayback r (audioSystem pAuto))
                          else (pAuto, r)) } }"

definition AutoCircFlush_channel :: "bool \<Rightarrow> nat \<Rightarrow> nat \<Rightarrow> NTV2AutoCirc \<Rightarrow> NTV2AutoCirc outcome" where
  "AutoCircFlush_channel bClearDF loopCount spec s =
     do { pAuto \<leftarrow> ac_get s spec;
          let autoState = state pAuto;
          let pAuto = pAuto\<lparr>state := NTV2_AUTOCIRCULATE_PAUSED\<rparr>;
          let pAuto = (if bClearDF then pAuto\<lparr>droppedFrames := 0\<rparr> else pAuto);
          (pAuto, r) \<leftarrow> AutoCircFlush_frames autoState (hw s) pAuto;
          s \<leftarrow> ac_put spec (pAuto\<lparr>state := autoState\<rparr>) (s\<lparr>hw := r\<rparr>);
          Some (NTV2_STATUS_SUCCESS, s) }"

definition AutoCircFlush :: "nat \<Rightarrow> bool \<Rightarrow> NTV2AutoCirc \<Rightarrow> NTV2AutoCirc outcome" where
  "AutoCircFlush spec bClearDF s =
     (if ILLEGAL_CHANNELSPEC spec
      then Some (NTV2_STATUS_BAD_PARAMETER, s)
      else do { pAutoPrimary \<leftarrow> ac_get s spec;
                if state pAutoPrimary \<notin> {NTV2_AUTOCIRCULATE_INIT, NTV2_AUTOCIRCULATE_RUNNING, NTV2_AUTOCIRCULATE_PAUSED}
                then Some (NTV2_STATUS_SUCCESS, s)
                else gang (AutoCircFlush_channel bClearDF) (nat (channelCount pAutoPrimary)) 0
                       (GetIndexForNTV2Crosspoint spec) s })"

section \<open>Preroll and active frame\<close>

definition AutoCircPreroll_channel :: "int \<Rightarrow> nat \<Rightarrow> nat \<Rightarrow> NTV2AutoCirc \<Rightarrow> NTV2AutoCirc outcome" where
  "AutoCircPreroll_channel lPrerollFrames loopCount spec s =
     do { pAuto \<leftarrow> ac_get s spec;
          if recording pAuto
          then Some (NTV2_STATUS_SUCCESS, s)
          else do {
            (bRet, pAuto) \<leftarrow> AutoCircFindNextAvailFrame pAuto;
            if \<not> bRet
            then do { s \<leftarrow> ac_put spec pAuto s; Some (NTV2_STATUS_BAD_PARAMETER, s) }
            else do {
              let lCurFrame = nextTransferFrame pAuto;
              let lCurFrame = (if lCurFrame \<noteq> u32_of (activeFrame pAuto)
                               then u32_of (KAUTO_PREVFRAME (s32 lCurFrame) pAuto)
                               else lCurFrame);
              let (pAuto, r) =
                (if lCurFrame = u32_of (activeFrame pAuto)
                 then (pAuto\<lparr>state := NTV2_AUTOCIRCULATE_STARTING, nextAudioOutputAddress := 0\<rparr>,
                       if IsAudioPlaying (hw s) (audioSystem pAuto)
                       then StopAudioPlayback (hw s) (audioSystem pAuto)
                       else hw s)
                 else (pAuto, hw s));
              pAuto \<leftarrow> fs_upd (\<lambda>f. f\<lparr>validCount := wrap32 (validCount f + lPrerollFrames)\<rparr>) (uint lCurFrame) pAuto;
              s \<leftarrow> ac_put spec pAuto (s\<lparr>hw := r\<rparr>);
              Some (NTV2_STATUS_SUCCESS, s) } } }"

definition AutoCircPreroll :: "nat \<Rightarrow> int \<Rightarrow> NTV2AutoCirc \<Rightarrow> NTV2AutoCirc outcome" where
  "AutoCircPreroll spec lPrerollFrames s =
     (if ILLEGAL_CHANNELSPEC spec
      then Some (NTV2_STATUS_BAD_PARAMETER, s)
      else do { pAutoPrimary \<leftarrow> ac_get s spec;
                if state pAutoPrimary \<notin> {NTV2_AUTOCIRCULATE_RUNNING, NTV2_AUTOCIRCULATE_STARTING, NTV2_AUTOCIRCULATE_PAUSED}
                then Some (NTV2_STATUS_SUCCESS, s)
                else if activeFrame pAutoPrimary < startFrame pAutoPrimary \<or> activeFrame pAutoPrimary > endFrame pAutoPrimary
                then Some (NTV2_STATUS_BAD_PARAMETER, s)
                else gang (AutoCircPreroll_channel lPrerollFrames) (nat (channelCount pAutoPrimary)) 0
                       (GetIndexForNTV2Crosspoint spec) s })"

text \<open>The active frame of the \<open>loopCount\<close>-th channel is \<open>loopCount\<close> ranges above the primary's.\<close>

definition AutoCircSetActiveFrame_channel :: "features \<Rightarrow> int \<Rightarrow> u32 \<Rightarrow> nat \<Rightarrow> nat \<Rightarrow> NTV2AutoCirc \<Rightarrow> NTV2AutoCirc outcome" where
  "AutoCircSetActiveFrame_channel F lActiveFrame channelRange loopCount spec s =
     (let frame = u32_of lActiveFrame + of_nat loopCount * channelRange
      in do { pAuto \<leftarrow> ac_get s spec;
              let pAuto = pAuto\<lparr>activeFrame := s32 frame\<rparr>;
              let r = ntv2WriteRegister (hw s) (activeFrameRegister pAuto) frame;
              f \<leftarrow> fs_get pAuto (uint frame);
              let r = CopyFrameStampTCArrayToHardware F r (internalTCArray f);
              s \<leftarrow> ac_put spec pAuto (s\<lparr>hw := r\<rparr>);
              Some (NTV2_STATUS_SUCCESS, s) })"

definition AutoCircSetActiveFrame :: "features \<Rightarrow> nat \<Rightarrow> int \<Rightarrow> NTV2AutoCirc \<Rightarrow> NTV2AutoCirc outcome" where
  "AutoCircSetActiveFrame F spec lActiveFrame s =
     (if ILLEGAL_CHANNELSPEC spec
      then Some (NTV2_STATUS_BAD_PARAMETER, s)
      else do { pAutoPrimary \<leftarrow> ac_get s spec;
                if state pAutoPrimary \<notin> {NTV2_AUTOCIRCULATE_RUNNING, NTV2_AUTOCIRCULATE_STARTING, NTV2_AUTOCIRCULATE_PAUSED}
                then Some (NTV2_STATUS_SUCCESS, s)
                else if activeFrame pAutoPrimary < startFrame pAutoPrimary \<or> activeFrame pAutoPrimary > endFrame pAutoPrimary
                then Some (NTV2_STATUS_BAD_PARAMETER, s)
                else if lActiveFrame < startFrame pAutoPrimary \<or> lActiveFrame > endFrame pAutoPrimary
                then Some (NTV2_STATUS_BAD_PARAMETER, s)
                else (let channelRange = u32_of (endFrame pAutoPrimary - startFrame pAutoPrimary + 1)
                      in gang (AutoCircSetActiveFrame_channel F lActiveFrame channelRange)
                           (unat (u32_of (channelCount pAutoPrimary))) 0 (GetIndexForNTV2Crosspoint spec) s) })"

section \<open>The audio playback mode\<close>

definition AutoCircAudioPlaybackMode :: "nat \<Rightarrow> u32 \<Rightarrow> NTV2AutoCirc \<Rightarrow> Ntv2Status \<times> NTV2AutoCirc" where
  "AutoCircAudioPlaybackMode sys md s =
     (let s = s\<lparr>globalAudioPlaybackMode := md\<rparr>
      in if md = NTV2_AUDIOPLAYBACK_NOW
         then (NTV2_STATUS_SUCCESS, upd_hw (\<lambda>r. StartAudioPlayback r sys) s)
         else if md = NTV2_AUDIOPLAYBACK_NEXTFRAME
         then (NTV2_STATUS_SUCCESS, s\<lparr>gStartAudioNextFrame := True\<rparr>)
         else if md = NTV2_AUDIOPLAYBACK_NORMALAUTOCIRCULATE
         then (NTV2_STATUS_SUCCESS, s)
         else if md = NTV2_AUDIOPLAYBACK_1STAUTOCIRCULATEFRAME
         then (NTV2_STATUS_SUCCESS, s)
         else (NTV2_STATUS_BAD_PARAMETER, s))"

section \<open>Control\<close>

text \<open>The message of an application, \<open>AUTOCIRCULATE_DATA_64\<close>; the pointers are not used.\<close>

record AUTOCIRCULATE_DATA_64 =
  eCommand :: u32
  acdChannelSpec :: nat
  lVal1 :: int
  lVal2 :: int
  lVal3 :: int
  lVal4 :: int
  lVal5 :: int
  lVal6 :: int
  bVal1 :: bool
  bVal2 :: bool
  bVal3 :: bool
  bVal4 :: bool
  bVal5 :: bool
  bVal6 :: bool
  bVal7 :: bool
  bVal8 :: bool

definition control_init_args :: "AUTOCIRCULATE_DATA_64 \<Rightarrow> init_args" where
  "control_init_args psControl =
     \<lparr>lStartFrameNum = lVal1 psControl, lEndFrameNum = lVal2 psControl,
      lAudioSystem = unat (u32_of (lVal3 psControl)), lChannelCount = lVal4 psControl,
      bWithAudio = bVal1 psControl, bWithRP188 = bVal2 psControl, bFbfChange = bVal3 psControl,
      bFboChange = bVal4 psControl, bWithColorCorrection = bVal5 psControl, bWithVidProc = bVal6 psControl,
      bWithCustomAncData = bVal7 psControl, bWithLTC = bVal8 psControl,
      bWithFields = (u32_of (lVal6 psControl) AND AUTOCIRCULATE_WITH_FIELDS \<noteq> 0),
      bWithHDMIAux = (u32_of (lVal6 psControl) AND AUTOCIRCULATE_WITH_HDMIAUX \<noteq> 0)\<rparr>"

definition control_start_time :: "AUTOCIRCULATE_DATA_64 \<Rightarrow> u64" where
  "control_start_time psControl =
     (let ulHigh = (ucast (u32_of (lVal1 psControl)) :: u64);
          ulLow = (ucast (u32_of (lVal2 psControl)) :: u64)
      in push_bit 32 ulHigh OR ulLow)"

text \<open>The two switches on the command: on the channel of the message, and on the synchronised channel.\<close>

definition AutoCircControl_command :: "features \<Rightarrow> AUTOCIRCULATE_DATA_64 \<Rightarrow> NTV2AutoCirc \<Rightarrow> NTV2AutoCirc outcome" where
  "AutoCircControl_command F psControl s =
     (let spec = acdChannelSpec psControl; cmd = eCommand psControl
      in if cmd = eInitAutoCirc then AutoCircInit F spec (control_init_args psControl) s
         else if cmd = eStartAutoCirc then AutoCircStart F spec 0 s
         else if cmd = eStartAutoCircAtTime then AutoCircStart F spec (control_start_time psControl) s
         else if cmd = eStopAutoCirc then AutoCircStop spec s
         else if cmd = eAbortAutoCirc then AutoCircAbort F spec s
         else if cmd = ePauseAutoCirc then AutoCircPause spec (bVal1 psControl) (bVal2 psControl) s
         else if cmd = eFlushAutoCirculate then AutoCircFlush spec (bVal1 psControl) s
         else if cmd = ePrerollAutoCirculate then AutoCircPreroll spec (lVal1 psControl) s
         else if cmd = eSetActiveFrame then AutoCircSetActiveFrame F spec (lVal1 psControl) s
         else Some (NTV2_STATUS_BAD_PARAMETER, s))"

text \<open>The second switch has no \<open>break\<close> after \<open>eSetActiveFrame\<close>: it falls into the default.\<close>

definition AutoCircControl_sync :: "features \<Rightarrow> AUTOCIRCULATE_DATA_64 \<Rightarrow> nat \<Rightarrow> NTV2AutoCirc \<Rightarrow> NTV2AutoCirc outcome" where
  "AutoCircControl_sync F psControl channel s =
     (let cmd = eCommand psControl
      in if cmd = eStartAutoCirc then AutoCircStart F channel 0 s
         else if cmd = eStartAutoCircAtTime then AutoCircStart F channel (control_start_time psControl) s
         else if cmd = eStopAutoCirc then AutoCircStop channel s
         else if cmd = eAbortAutoCirc then AutoCircAbort F channel s
         else if cmd = ePauseAutoCirc then AutoCircPause channel (bVal1 psControl) (bVal2 psControl) s
         else if cmd = eFlushAutoCirculate then AutoCircFlush channel (bVal1 psControl) s
         else if cmd = ePrerollAutoCirculate then AutoCircPreroll channel (lVal1 psControl) s
         else if cmd = eSetActiveFrame
         then do { (_, s) \<leftarrow> AutoCircSetActiveFrame F channel (lVal1 psControl) s;
                   Some (NTV2_STATUS_BAD_PARAMETER, s) }
         else Some (NTV2_STATUS_BAD_PARAMETER, s))"

text \<open>
  The search for a channel to synchronise: the code indexes the channel array, which is
  ordered by crosspoint, with the crosspoint's index.
\<close>

fun find_sync_channel :: "NTV2AutoCirc \<Rightarrow> nat \<Rightarrow> nat list \<Rightarrow> nat option option" where
  "find_sync_channel s spec [] = Some None"
| "find_sync_channel s spec (iChannel # is) =
     (if of_nat iChannel = GetIndexForNTV2Crosspoint spec
      then find_sync_channel s spec is
      else do { pAuto \<leftarrow> ac_get s iChannel;
                if state pAuto \<notin> {NTV2_AUTOCIRCULATE_DISABLED, NTV2_AUTOCIRCULATE_STOPPING}
                then Some (Some (GetNTV2CrosspointForIndex (of_nat iChannel)))
                else find_sync_channel s spec is })"

definition AutoCircControl :: "features \<Rightarrow> AUTOCIRCULATE_DATA_64 \<Rightarrow> NTV2AutoCirc \<Rightarrow> NTV2AutoCirc outcome" where
  "AutoCircControl F psControl s =
     do { (status, s) \<leftarrow> AutoCircControl_command F psControl s;
          sync \<leftarrow> (if ntv2ReadVirtualRegister (hw s) kVRegSyncChannels \<noteq> 0
                   then find_sync_channel s (acdChannelSpec psControl)
                          [unat (GetIndexForNTV2Crosspoint NTV2CROSSPOINT_CHANNEL1) ..<
                           Suc (unat (GetIndexForNTV2Crosspoint NTV2CROSSPOINT_INPUT8))]
                   else Some None);
          case sync of
            None \<Rightarrow> Some (status, s\<lparr>syncChannel1 := NTV2CROSSPOINT_FGKEY, syncChannel2 := NTV2CROSSPOINT_FGKEY\<rparr>)
          | Some channel \<Rightarrow>
              AutoCircControl_sync F psControl channel
                (s\<lparr>syncChannel1 := acdChannelSpec psControl, syncChannel2 := channel\<rparr>) }"

end
