(* ===== verification/Ntv2AutoIsr.thy ===== *)
theory Ntv2AutoIsr
  imports Ntv2AutoControl
begin

text \<open>
  The interrupt handler of a channel, \<open>AutoCirculate\<close> of driver/ntv2autocirc.c, and the test
  that keeps two synchronised channels in step, \<open>AutoCircDropSyncFrame\<close>.

  The handler is cut into its parts in the order of the code: the audio start and stop that
  an earlier interrupt asked for, the clocks and the active frame, one definition per state
  of the channel and direction, and the second field. A part takes the channel \<open>pAuto\<close> and
  the register bank \<open>r\<close> and returns both; \<open>pActiveFrameStamp\<close> is the frame number
  \<open>activeFrame pAuto\<close>, so two pointers to one stamp are one frame number. The function's
  static variable \<open>bDropped\<close> is written and never read, and is left out, as are the log
  messages and the code under \<open>OEM_DROP_FRAME\<close> and \<open>OEM_AUDIO_TIMING\<close>.
\<close>

section \<open>Synchronised channels\<close>

text \<open>The test for one of the two channels, \<open>mine\<close>, against the \<open>other\<close>.\<close>

definition DropSync_channel :: "INTERNAL_AUTOCIRCULATE_STRUCT \<Rightarrow> INTERNAL_AUTOCIRCULATE_STRUCT \<Rightarrow> bool option" where
  "DropSync_channel mine other =
     (if droppedFrames mine < droppedFrames other
      then Some True
      else if framesProcessed mine > framesProcessed other
      then Some True
      else if framesProcessed mine = framesProcessed other
      then do { let nxtFrame = KAUTO_NEXTFRAME (nextFrame other) other;
                f \<leftarrow> fs_get other nxtFrame;
                Some (validCount f = 0) }
      else Some False)"

definition AutoCircDropSyncFrame :: "NTV2AutoCirc \<Rightarrow> nat \<Rightarrow> bool option" where
  "AutoCircDropSyncFrame s spec =
     do { pAuto \<leftarrow> ac_get s spec;
          pAutoChannel1 \<leftarrow> ac_get s (syncChannel1 s);
          pAutoChannel2 \<leftarrow> ac_get s (syncChannel2 s);
          if syncChannel1 s = NTV2CROSSPOINT_FGKEY \<or> syncChannel2 s = NTV2CROSSPOINT_FGKEY
          then Some False
          else if channelSpec pAuto = syncChannel1 s
          then DropSync_channel pAutoChannel1 pAutoChannel2
          else if channelSpec pAuto = syncChannel2 s
          then DropSync_channel pAutoChannel2 pAutoChannel1
          else Some False }"

section \<open>Before the state machine\<close>

text \<open>The audio start and stop, out of band (the circulator's flags) and in band (the channel's).\<close>

definition AutoCirculate_audio_flags :: "NTV2AutoCirc \<Rightarrow> INTERNAL_AUTOCIRCULATE_STRUCT \<Rightarrow>
    NTV2AutoCirc \<times> INTERNAL_AUTOCIRCULATE_STRUCT" where
  "AutoCirculate_audio_flags s pAuto =
     (let sys = audioSystem pAuto;
          out = NTV2_IS_OUTPUT_CROSSPOINT (channelSpec pAuto);
          s = (if gStartAudioNextFrame s \<and> out
               then (upd_hw (\<lambda>r. StartAudioPlayback (UnPauseAudioPlayback r sys) sys) s)\<lparr>gStartAudioNextFrame := False\<rparr>
               else s);
          s = (if gStopAudioNextFrame s \<and> out
               then (upd_hw (\<lambda>r. StopAudioPlayback r sys) s)\<lparr>gStopAudioNextFrame := False\<rparr>
               else s);
          (s, pAuto) = (if startAudioNextFrame pAuto \<and> out
                        then (upd_hw (\<lambda>r. StartAudioPlayback (UnPauseAudioPlayback r sys) sys) s,
                              pAuto\<lparr>startAudioNextFrame := False\<rparr>)
                        else (s, pAuto))
      in if stopAudioNextFrame pAuto \<and> out
         then (upd_hw (\<lambda>r. StopAudioPlayback r sys) s, pAuto\<lparr>stopAudioNextFrame := False\<rparr>)
         else (s, pAuto))"

text \<open>The clocks; the active frame is the one that the hardware shows now.\<close>

definition AutoCirculate_active :: "regs \<Rightarrow> INTERNAL_AUTOCIRCULATE_STRUCT \<Rightarrow> int" where
  "AutoCirculate_active r pAuto =
     (let active = s32 (ntv2ReadRegister r (activeFrameRegister pAuto))
      in if active < startFrame pAuto \<or> active > endFrame pAuto then startFrame pAuto else active)"

definition AutoCirculate_clocks :: "u64 \<Rightarrow> u64 \<Rightarrow> regs \<Rightarrow> INTERNAL_AUTOCIRCULATE_STRUCT \<Rightarrow> INTERNAL_AUTOCIRCULATE_STRUCT" where
  "AutoCirculate_clocks isrTimeStamp audioCounter r pAuto =
     (let pAuto = (if state pAuto \<in> {NTV2_AUTOCIRCULATE_RUNNING, NTV2_AUTOCIRCULATE_PAUSED,
                                     NTV2_AUTOCIRCULATE_INIT, NTV2_AUTOCIRCULATE_STARTING}
                   then pAuto\<lparr>VBILastRDTSC := VBIRDTSC pAuto, VBIRDTSC := isrTimeStamp\<rparr>
                   else pAuto)
      in if state pAuto \<in> {NTV2_AUTOCIRCULATE_RUNNING, NTV2_AUTOCIRCULATE_PAUSED, NTV2_AUTOCIRCULATE_STARTING}
         then pAuto\<lparr>VBIAudioOut := oemAudioSampleAlign r (audioSystem pAuto) (GetAudioLastOut r (audioSystem pAuto)),
                    activeFrame := AutoCirculate_active r pAuto,
                    prevInterruptTime := lastInterruptTime pAuto,
                    lastInterruptTime := VBIRDTSC pAuto,
                    lastAudioClockTimeStamp := audioCounter\<rparr>
         else pAuto)"

section \<open>Parts that the states share\<close>

definition frame_flags :: "bool \<Rightarrow> bool \<Rightarrow> u32" where
  "frame_flags fieldMode syncField0 =
     (if fieldMode
      then (if syncField0 then AUTOCIRCULATE_FRAME_FIELD0 else AUTOCIRCULATE_FRAME_FIELD1)
      else AUTOCIRCULATE_FRAME_FULL)"

text \<open>The end of the audio of the captured frame \<open>f\<close>; \<open>cadence\<close> counts the frames.\<close>

definition audio_in_stop :: "features \<Rightarrow> regs \<Rightarrow> nat \<Rightarrow> u32 \<Rightarrow> bool \<Rightarrow> INTERNAL_FRAME_STAMP_STRUCT \<Rightarrow> INTERNAL_FRAME_STAMP_STRUCT" where
  "audio_in_stop F r sys cadence fieldMode f =
     (let numSamplesPerFrame = GetAudioSamplesPerFrame F r sys cadence fieldMode;
          (stop, preWrap, postWrap) =
            GetAudioTransferInfo r sys (audioInStartAddress f - GetAudioReadOffset r sys)
              (numSamplesPerFrame * GetNumAudioChannels r sys * 4)
      in f\<lparr>audioInStopAddress := stop + GetAudioReadOffset r sys,
           audioPreWrapBytes := preWrap, audioPostWrapBytes := postWrap\<rparr>)"

text \<open>The timecode and the SDI status of the frame \<open>lastFrame\<close> that was captured.\<close>

definition capture_status :: "features \<Rightarrow> u32 \<Rightarrow> regs \<Rightarrow> int \<Rightarrow> INTERNAL_AUTOCIRCULATE_STRUCT \<Rightarrow> INTERNAL_AUTOCIRCULATE_STRUCT option" where
  "capture_status F deviceID r lastFrame pAuto =
     do { pAuto \<leftarrow> (if circulateWithRP188 pAuto \<or> circulateWithLTC pAuto
                    then fs_upd (\<lambda>f. f\<lparr>internalTCArray := snd (CopyRP188HardwareToFrameStampTCArray F r)\<rparr>) lastFrame pAuto
                    else Some pAuto);
          if NTV2DeviceCanDoSDIErrorChecks F deviceID
          then fs_upd (\<lambda>f. f\<lparr>internalSDIStatusArray :=
                  snd (CopySDIStatusHardwareToFrameStampSDIStatusArray F r (internalSDIStatusArray f))\<rparr>) lastFrame pAuto
          else Some pAuto }"

definition ext_write_params :: "features \<Rightarrow> nat \<Rightarrow> int \<Rightarrow> INTERNAL_AUTOCIRCULATE_STRUCT \<Rightarrow> regs \<Rightarrow> regs" where
  "ext_write_params F anc frame pAuto r =
     (if circulateWithHDMIAux pAuto
      then SetAuxExtWriteParams F r anc (u32_of frame)
      else SetAncExtWriteParams F r anc (u32_of frame))"

text \<open>The frame buffer format and orientation of the next frame to play.\<close>

definition play_format :: "nat \<Rightarrow> INTERNAL_AUTOCIRCULATE_STRUCT \<Rightarrow> INTERNAL_FRAME_STAMP_STRUCT \<Rightarrow> regs \<Rightarrow> regs" where
  "play_format acChannel pAuto f r =
     (let r = (if enableFbfChange pAuto \<and> GetFrameBufferFormat r acChannel \<noteq> frameBufferFormat f
               then SetFrameBufferFormat r acChannel (frameBufferFormat f)
               else r)
      in if enableFboChange pAuto \<and> GetFrameBufferOrientation r acChannel \<noteq> frameBufferOrientation f
         then SetFrameBufferOrientation r acChannel (frameBufferOrientation f)
         else r)"

text \<open>The rest of the hardware set-up for the frame \<open>frame\<close> to play, whose stamp is \<open>f\<close>.\<close>

definition play_setup :: "features \<Rightarrow> u32 \<Rightarrow> nat \<Rightarrow> int \<Rightarrow> INTERNAL_AUTOCIRCULATE_STRUCT \<Rightarrow> INTERNAL_FRAME_STAMP_STRUCT \<Rightarrow> regs \<Rightarrow> regs" where
  "play_setup F deviceID acChannel frame pAuto f r =
     (let r = (if circulateWithRP188 pAuto \<or> circulateWithLTC pAuto
               then CopyFrameStampTCArrayToHardware F r (internalTCArray f)
               else r);
          r = (if circulateWithColorCorrection pAuto
               then AutoCircSetupColorCorrector F r deviceID (channelSpec pAuto) (colorCorrectionInfo f)
               else r);
          r = (if circulateWithVidProc pAuto
               then AutoCircSetupVidProc F deviceID r (vidProcInfo f)
               else r);
          r = (if circulateWithCustomAncData pAuto
               then SetAncInsReadParams F r acChannel (u32_of frame) (ancTransferSize f)
               else r);
          r = (if circulateWithHDMIAux pAuto
               then AutoCircWriteHDMIAux F deviceID r (auxData f) (auxDataSize f)
               else r)
      in AutoCircSetupRouting r (routingTable f))"

text \<open>
  The error of the audio position, as a time in units of 0.1 microseconds: the distance
  between the expected and the actual address, taken around the ring, over the byte rate.
\<close>

definition audio_delta :: "u32 \<Rightarrow> u32 \<Rightarrow> u32 \<Rightarrow> u64" where
  "audio_delta wrap startAddress actual =
     (let delta = (if actual < startAddress
                   then ucast ((wrap - startAddress) + 1 + actual)
                   else ucast (actual - startAddress))
      in if delta > ucast (wrap div 2) then ucast wrap - delta else delta)"

definition audio_sync_time :: "regs \<Rightarrow> nat \<Rightarrow> u32 \<Rightarrow> u32 \<Rightarrow> u64" where
  "audio_sync_time r sys startAddress actual =
     audio_delta (GetAudioWrapAddress r sys) startAddress actual * 10000
       div ucast (GetAudioSamplesPerSecond r sys div 1000)
       div ucast (GetNumAudioChannels r sys * 4)"

text \<open>The audio is checked when the interrupt period is right to 30 percent of the tolerance.\<close>

definition check_audio_sync :: "regs \<Rightarrow> int \<Rightarrow> int \<Rightarrow> bool" where
  "check_audio_sync r timeDiff framePeriod =
     (let discontinuityTime = (if timeDiff > 0 \<and> timeDiff < 10000000 then timeDiff - framePeriod else 10000000)
      in \<bar>discontinuityTime\<bar> < s32 (ntv2ReadVirtualRegister r kVRegAudioSyncTolerance * 3))"

definition audio_out_of_sync :: "regs \<Rightarrow> u64 \<Rightarrow> bool" where
  "audio_out_of_sync r time = (time > ucast (ntv2ReadVirtualRegister r kVRegAudioSyncTolerance * 10))"

definition frame_period :: "features \<Rightarrow> regs \<Rightarrow> nat \<Rightarrow> bool \<Rightarrow> int" where
  "frame_period F r channel fieldMode =
     (if GetSmpte372 F r channel \<or> fieldMode then GetFramePeriod F r channel div 2 else GetFramePeriod F r channel)"

section \<open>Starting\<close>

definition AutoCirculate_start_record :: "features \<Rightarrow> u32 \<Rightarrow> nat \<Rightarrow> bool \<Rightarrow> bool \<Rightarrow> u64 \<Rightarrow> int \<Rightarrow>
    INTERNAL_AUTOCIRCULATE_STRUCT \<Rightarrow> regs \<Rightarrow> (INTERNAL_AUTOCIRCULATE_STRUCT \<times> regs) option" where
  "AutoCirculate_start_record F deviceID anc fieldMode syncField0 audioCounter lastActiveFrame pAuto r =
     do { let sys = audioSystem pAuto;
          let active = activeFrame pAuto;
          let nxtFrame = KAUTO_NEXTFRAME active pAuto;
          pAuto \<leftarrow> fs_upd (\<lambda>f. f\<lparr>validCount := 0\<rparr>) active pAuto;
          pAuto \<leftarrow> capture_status F deviceID r lastActiveFrame pAuto;
          let audioLastInAddress = oemAudioSampleAlign r sys (GetAudioLastIn r sys) + GetAudioReadOffset r sys;
          pAuto \<leftarrow> fs_upd (\<lambda>f. f\<lparr>frameTime := sint (VBIRDTSC pAuto), audioInStartAddress := audioLastInAddress,
                                  audioClockTimeStamp := audioCounter, ancTransferSize := 0, ancField2TransferSize := 0,
                                  frameFlags := frame_flags fieldMode syncField0\<rparr>) active pAuto;
          let pAuto = pAuto\<lparr>startAudioClockTimeStamp := audioCounter, startTimeStamp := VBIRDTSC pAuto\<rparr>;
          pAuto \<leftarrow> (if circulateWithAudio pAuto
                    then fs_upd (audio_in_stop F r sys (framesProcessed pAuto) fieldMode) active pAuto
                    else Some pAuto);
          let r = (if circulateWithCustomAncData pAuto \<and> NTV2_IS_VALID_CHANNEL anc
                   then ext_write_params F anc nxtFrame pAuto r
                   else r);
          Some (if syncField0
                then (pAuto\<lparr>nextFrame := nxtFrame, state := NTV2_AUTOCIRCULATE_RUNNING\<rparr>,
                      ntv2WriteRegister r (activeFrameRegister pAuto) (u32_of nxtFrame))
                else (pAuto, r)) }"

text \<open>
  Whether the frame to play next is to be dropped: it is empty or in transfer, or the other
  synchronised channel is behind, or it holds the same field again. The synchronised channels
  are looked up in the circulator, into which the channel is put back.
\<close>

definition play_drop :: "NTV2AutoCirc \<Rightarrow> nat \<Rightarrow> bool \<Rightarrow> bool \<Rightarrow> int \<Rightarrow> INTERNAL_AUTOCIRCULATE_STRUCT \<Rightarrow> regs \<Rightarrow> bool option" where
  "play_drop s spec fieldMode syncField0 nxtFrame pAuto r =
     do { f \<leftarrow> fs_get pAuto nxtFrame;
          let bDropFrame = (validCount f = 0 \<or> videoTransferPending f);
          bDropFrame \<leftarrow> (if \<not> bDropFrame \<and> ntv2ReadVirtualRegister r kVRegSyncChannels \<noteq> 0
                         then do { s \<leftarrow> ac_put spec pAuto s; AutoCircDropSyncFrame s (channelSpec pAuto) }
                         else Some bDropFrame);
          Some (if fieldMode \<and> syncField0 = (frameFlags f AND AUTOCIRCULATE_FRAME_FIELD0 \<noteq> 0)
                then True
                else bDropFrame) }"

text \<open>The change from the first frame to the frame \<open>nxtFrame\<close>.\<close>

definition AutoCirculate_start_advance :: "features \<Rightarrow> NTV2AutoCirc \<Rightarrow> nat \<Rightarrow> u64 \<Rightarrow> bool \<Rightarrow> int \<Rightarrow>
    INTERNAL_AUTOCIRCULATE_STRUCT \<Rightarrow> regs \<Rightarrow> (INTERNAL_AUTOCIRCULATE_STRUCT \<times> regs) option" where
  "AutoCirculate_start_advance F s acChannel audioCounter bValidFrame nxtFrame pAuto r =
     do { let sys = audioSystem pAuto;
          pAuto \<leftarrow> fs_upd (\<lambda>f. f\<lparr>frameTime := sint (VBIRDTSC pAuto), audioClockTimeStamp := audioCounter\<rparr>) nxtFrame pAuto;
          let pAuto = pAuto\<lparr>startAudioClockTimeStamp := audioCounter, startTimeStamp := VBIRDTSC pAuto\<rparr>;
          let r = ntv2WriteRegister r (activeFrameRegister pAuto) (u32_of nxtFrame);
          let pAuto = pAuto\<lparr>nextFrame := nxtFrame, framesProcessed := framesProcessed pAuto + 1\<rparr>;
          f \<leftarrow> fs_get pAuto nxtFrame;
          let r = play_format acChannel pAuto f r;
          (pAuto, r) \<leftarrow>
            (if circulateWithAudio pAuto
             then (if bValidFrame
                   then do { let r = (if IsAudioPlaybackPaused r sys then UnPauseAudioPlayback r sys else r);
                             let r = StartAudioPlayback r sys;
                             pAuto \<leftarrow> fs_upd (\<lambda>f. f\<lparr>audioOutStartAddress := VBIAudioOut pAuto\<rparr>) nxtFrame pAuto;
                             pAuto \<leftarrow> fs_upd (\<lambda>f. f\<lparr>audioOutStopAddress := VBIAudioOut pAuto\<rparr>) (activeFrame pAuto) pAuto;
                             Some (pAuto, r) }
                   else Some (pAuto\<lparr>audioDropsRequired := 2\<rparr>, r))
             else Some (pAuto,
                        if NTV2_IS_OUTPUT_CROSSPOINT (channelSpec pAuto) \<and>
                           globalAudioPlaybackMode s = NTV2_AUDIOPLAYBACK_1STAUTOCIRCULATEFRAME
                        then StartAudioPlayback r sys
                        else r));
          f \<leftarrow> fs_get pAuto nxtFrame;
          let r = play_setup F (acDeviceID s) acChannel nxtFrame pAuto f r;
          Some (pAuto\<lparr>state := NTV2_AUTOCIRCULATE_RUNNING\<rparr>, r) }"

definition AutoCirculate_start_play :: "features \<Rightarrow> NTV2AutoCirc \<Rightarrow> nat \<Rightarrow> nat \<Rightarrow> bool \<Rightarrow> bool \<Rightarrow> u64 \<Rightarrow>
    INTERNAL_AUTOCIRCULATE_STRUCT \<Rightarrow> regs \<Rightarrow> (INTERNAL_AUTOCIRCULATE_STRUCT \<times> regs) option" where
  "AutoCirculate_start_play F s spec acChannel fieldMode syncField0 audioCounter pAuto r =
     do { let active = activeFrame pAuto;
          let nxtFrame = KAUTO_NEXTFRAME active pAuto;
          pAuto \<leftarrow> fs_upd (\<lambda>f. f\<lparr>frameTime := sint (VBIRDTSC pAuto)\<rparr>) active pAuto;
          f \<leftarrow> fs_get pAuto active;
          let bValidFrame = (validCount f > 0 \<and> \<not> videoTransferPending f);
          pAuto \<leftarrow> (if bValidFrame then fs_upd (\<lambda>f. f\<lparr>validCount := validCount f - 1\<rparr>) active pAuto else Some pAuto);
          f \<leftarrow> fs_get pAuto active;
          if validCount f = 0
          then do { bDropFrame \<leftarrow> play_drop s spec fieldMode syncField0 nxtFrame pAuto r;
                    if \<not> bDropFrame
                    then AutoCirculate_start_advance F s acChannel audioCounter bValidFrame nxtFrame pAuto r
                    else Some (if ntv2ReadVirtualRegister r kVRegSyncChannels \<noteq> 0
                               then pAuto\<lparr>droppedFrames := droppedFrames pAuto + 1\<rparr>
                               else pAuto, r) }
          else Some (pAuto, r) }"

section \<open>Running\<close>

text \<open>Whether a synchronised channel that captures has to wait for the other one.\<close>

definition record_drop_sync :: "NTV2AutoCirc \<Rightarrow> nat \<Rightarrow> INTERNAL_AUTOCIRCULATE_STRUCT \<Rightarrow> regs \<Rightarrow> bool option" where
  "record_drop_sync s spec pAuto r =
     (if ntv2ReadVirtualRegister r kVRegSyncChannels = 0
      then Some False
      else do { s \<leftarrow> ac_put spec pAuto s;
                b1 \<leftarrow> (if channelSpec pAuto = syncChannel1 s
                       then do { a1 \<leftarrow> ac_get s (syncChannel1 s); a2 \<leftarrow> ac_get s (syncChannel2 s);
                                 Some (droppedFrames a1 < droppedFrames a2) }
                       else Some False);
                b2 \<leftarrow> (if channelSpec pAuto = syncChannel2 s
                       then do { a1 \<leftarrow> ac_get s (syncChannel1 s); a2 \<leftarrow> ac_get s (syncChannel2 s);
                                 Some (droppedFrames a2 < droppedFrames a1) }
                       else Some False);
                Some (b1 \<or> b2) })"

text \<open>
  Where the audio of the frame starts: at the end of the last frame's audio, or at the
  hardware's address when the two differ by more than the tolerance.
\<close>

definition record_audio_start :: "regs \<Rightarrow> INTERNAL_AUTOCIRCULATE_STRUCT \<Rightarrow> int \<Rightarrow> int \<Rightarrow> u32 \<Rightarrow> u32" where
  "record_audio_start r pAuto timeDiff framePeriod newStartAddress =
     (let sys = audioSystem pAuto
      in if circulateWithAudio pAuto \<and> check_audio_sync r timeDiff framePeriod
         then (let actualLastIn = GetAudioLastIn r sys;
                   startAddress = newStartAddress - GetAudioReadOffset r sys
               in if audio_out_of_sync r (audio_sync_time r sys startAddress actualLastIn)
                  then oemAudioSampleAlign r sys actualLastIn + GetAudioReadOffset r sys
                  else newStartAddress)
         else newStartAddress)"

text \<open>The ancillary data of the frame \<open>lastFrame\<close>, and the extractor's next buffer.\<close>

definition record_anc :: "features \<Rightarrow> nat \<Rightarrow> int \<Rightarrow> int \<Rightarrow> INTERNAL_AUTOCIRCULATE_STRUCT \<Rightarrow> regs \<Rightarrow>
    (INTERNAL_AUTOCIRCULATE_STRUCT \<times> regs) option" where
  "record_anc F anc lastFrame nxtFrame pAuto r =
     (if circulateWithCustomAncData pAuto
      then (if NTV2_IS_VALID_CHANNEL anc
            then do { pAuto \<leftarrow> fs_upd (\<lambda>f.
                        if circulateWithHDMIAux pAuto
                        then f\<lparr>ancTransferSize := GetAuxExtField1Bytes r anc,
                               ancField2TransferSize := GetAuxExtField2Bytes r anc\<rparr>
                        else f\<lparr>ancTransferSize := GetAncExtField1Bytes r anc,
                               ancField2TransferSize := GetAncExtField2Bytes r anc\<rparr>) lastFrame pAuto;
                      Some (pAuto, ext_write_params F anc nxtFrame pAuto r) }
            else do { pAuto \<leftarrow> fs_upd (\<lambda>f. f\<lparr>ancTransferSize := 0, ancField2TransferSize := 0\<rparr>) lastFrame pAuto;
                      Some (pAuto, r) })
      else Some (pAuto, r))"

text \<open>The end of a capture: the next frame must be empty, or the frame is captured again.\<close>

definition record_advance :: "bool \<Rightarrow> int \<Rightarrow> INTERNAL_AUTOCIRCULATE_STRUCT \<Rightarrow> regs \<Rightarrow>
    (INTERNAL_AUTOCIRCULATE_STRUCT \<times> regs) option" where
  "record_advance bDropSync nxtFrame pAuto r =
     do { f \<leftarrow> fs_get pAuto nxtFrame;
          if validCount f = 0 \<and> \<not> bDropSync
          then Some (pAuto\<lparr>nextFrame := nxtFrame, framesProcessed := framesProcessed pAuto + 1\<rparr>,
                     ntv2WriteRegister r (activeFrameRegister pAuto) (u32_of nxtFrame))
          else do { pAuto \<leftarrow> fs_upd (\<lambda>f. f\<lparr>validCount := wrap32 (validCount f + 1)\<rparr>) (activeFrame pAuto)
                               (pAuto\<lparr>droppedFrames := droppedFrames pAuto + 1\<rparr>);
                    Some (pAuto, r) } }"

definition record_finish :: "features \<Rightarrow> u32 \<Rightarrow> nat \<Rightarrow> int \<Rightarrow> bool \<Rightarrow> INTERNAL_AUTOCIRCULATE_STRUCT \<Rightarrow> regs \<Rightarrow>
    (INTERNAL_AUTOCIRCULATE_STRUCT \<times> regs) option" where
  "record_finish F deviceID anc lastFrame bDropSync pAuto r =
     do { let nxtFrame = KAUTO_NEXTFRAME (activeFrame pAuto) pAuto;
          pAuto \<leftarrow> capture_status F deviceID r lastFrame pAuto;
          (pAuto, r) \<leftarrow> record_anc F anc lastFrame nxtFrame pAuto r;
          record_advance bDropSync nxtFrame pAuto r }"

text \<open>The result's first component is false when the interrupt came too early.\<close>

definition AutoCirculate_run_record :: "features \<Rightarrow> NTV2AutoCirc \<Rightarrow> nat \<Rightarrow> nat \<Rightarrow> nat \<Rightarrow> bool \<Rightarrow> bool \<Rightarrow> u64 \<Rightarrow> int \<Rightarrow>
    INTERNAL_AUTOCIRCULATE_STRUCT \<Rightarrow> regs \<Rightarrow> (bool \<times> INTERNAL_AUTOCIRCULATE_STRUCT \<times> regs) option" where
  "AutoCirculate_run_record F s spec acChannel anc fieldMode syncField0 audioCounter lastActiveFrame pAuto r =
     do { let sys = audioSystem pAuto;
          let active = activeFrame pAuto;
          pAuto \<leftarrow> fs_upd (\<lambda>f. if validCount f = 0 then f\<lparr>validCount := 1\<rparr> else f) lastActiveFrame pAuto;
          let timeDiff = sint (lastInterruptTime pAuto - prevInterruptTime pAuto);
          let framePeriod = frame_period F r acChannel fieldMode;
          if timeDiff < framePeriod div 5
          then Some (False, pAuto, r)
          else do {
            lastStamp \<leftarrow> fs_get pAuto lastActiveFrame;
            let newStartAddress = record_audio_start r pAuto timeDiff framePeriod (audioInStopAddress lastStamp);
            pAuto \<leftarrow> fs_upd (\<lambda>f. f\<lparr>audioInStartAddress := newStartAddress, audioClockTimeStamp := audioCounter,
                                    frameTime := sint (VBIRDTSC pAuto)\<rparr>) active pAuto;
            let cadence = (if lastActiveFrame \<noteq> active then framesProcessed pAuto else droppedFrames pAuto);
            pAuto \<leftarrow> fs_upd (\<lambda>f. (audio_in_stop F r sys cadence fieldMode f)\<lparr>frameFlags := frame_flags fieldMode syncField0\<rparr>)
                      active pAuto;
            bDropSync \<leftarrow> record_drop_sync s spec pAuto r;
            prevStamp \<leftarrow> fs_get pAuto (KAUTO_PREVFRAME active pAuto);
            activeStamp \<leftarrow> fs_get pAuto active;
            let fieldFlags = AUTOCIRCULATE_FRAME_FIELD0 OR AUTOCIRCULATE_FRAME_FIELD1;
            let bDropSync = (bDropSync \<or> fieldMode \<and> frameFlags prevStamp AND fieldFlags = frameFlags activeStamp AND fieldFlags);
            (pAuto, r) \<leftarrow> record_finish F (acDeviceID s) anc lastActiveFrame bDropSync pAuto r;
            Some (True, pAuto, r) } }"

text \<open>Audio that is stopped and whose data starts at the beginning of the ring is started.\<close>

definition play_audio_start :: "INTERNAL_AUTOCIRCULATE_STRUCT \<Rightarrow> INTERNAL_FRAME_STAMP_STRUCT \<Rightarrow> regs \<Rightarrow> regs" where
  "play_audio_start pAuto activeStamp r =
     (let sys = audioSystem pAuto
      in if circulateWithAudio pAuto \<and> IsAudioPlaybackStopped r sys \<and> audioExpectedAddress activeStamp = 0 \<and>
            audioDropsRequired pAuto = audioDropsCompleted pAuto
         then StartAudioPlayback (UnPauseAudioPlayback r sys) sys
         else r)"

text \<open>The audio of the frame that is about to play, started or checked against the hardware.\<close>

definition play_audio :: "features \<Rightarrow> nat \<Rightarrow> bool \<Rightarrow> int \<Rightarrow> INTERNAL_AUTOCIRCULATE_STRUCT \<Rightarrow> regs \<Rightarrow>
    (INTERNAL_AUTOCIRCULATE_STRUCT \<times> regs) option" where
  "play_audio F syncChannel fieldMode nxtFrame pAuto r =
     (if circulateWithAudio pAuto
      then do { let sys = audioSystem pAuto;
                pAuto \<leftarrow> fs_upd (\<lambda>f. f\<lparr>audioOutStartAddress := VBIAudioOut pAuto\<rparr>) nxtFrame pAuto;
                let r = (if IsAudioPlaybackPaused r sys then UnPauseAudioPlayback r sys else r);
                activeStamp \<leftarrow> fs_get pAuto (activeFrame pAuto);
                Some (if IsAudioPlaybackStopped r sys
                      then (if audioExpectedAddress activeStamp = 0 \<and>
                               audioDropsRequired pAuto \<ge> audioDropsCompleted pAuto
                            then (pAuto\<lparr>startAudioNextFrame := True\<rparr>, r)
                            else (pAuto, r))
                      else (let framePeriod = frame_period F r syncChannel fieldMode;
                                timeDiff = sint (lastInterruptTime pAuto - prevInterruptTime pAuto)
                            in if check_audio_sync r timeDiff framePeriod \<and>
                                  audio_out_of_sync r (audio_sync_time r sys (audioExpectedAddress activeStamp) (VBIAudioOut pAuto))
                               then (pAuto\<lparr>stopAudioNextFrame := True, audioDropsRequired := audioDropsRequired pAuto + 1\<rparr>, r)
                               else (pAuto, r))) }
      else Some (pAuto, r))"

definition AutoCirculate_run_advance :: "features \<Rightarrow> u32 \<Rightarrow> nat \<Rightarrow> nat \<Rightarrow> bool \<Rightarrow> int \<Rightarrow>
    INTERNAL_AUTOCIRCULATE_STRUCT \<Rightarrow> regs \<Rightarrow> (INTERNAL_AUTOCIRCULATE_STRUCT \<times> regs) option" where
  "AutoCirculate_run_advance F deviceID acChannel syncChannel fieldMode nxtFrame pAuto r =
     do { let r = ntv2WriteRegister r (activeFrameRegister pAuto) (u32_of nxtFrame);
          let pAuto = pAuto\<lparr>nextFrame := nxtFrame, framesProcessed := framesProcessed pAuto + 1\<rparr>;
          f \<leftarrow> fs_get pAuto nxtFrame;
          let r = play_format acChannel pAuto f r;
          (pAuto, r) \<leftarrow> play_audio F syncChannel fieldMode nxtFrame pAuto r;
          f \<leftarrow> fs_get pAuto nxtFrame;
          Some (pAuto, play_setup F deviceID acChannel nxtFrame pAuto f r) }"

definition AutoCirculate_run_drop :: "INTERNAL_FRAME_STAMP_STRUCT \<Rightarrow> INTERNAL_AUTOCIRCULATE_STRUCT \<Rightarrow> regs \<Rightarrow>
    INTERNAL_AUTOCIRCULATE_STRUCT" where
  "AutoCirculate_run_drop activeStamp pAuto r =
     (let pAuto = pAuto\<lparr>droppedFrames := droppedFrames pAuto + 1\<rparr>
      in if circulateWithAudio pAuto
         then (if \<not> IsAudioPlaybackStopped r (audioSystem pAuto)
               then pAuto\<lparr>stopAudioNextFrame := True, audioDropsRequired := audioDropsRequired pAuto + 1\<rparr>
               else if audioExpectedAddress activeStamp = 0 \<and> audioDropsRequired pAuto = audioDropsCompleted pAuto
               then pAuto\<lparr>audioDropsRequired := audioDropsRequired pAuto + 1\<rparr>
               else pAuto)
         else pAuto)"

text \<open>The count of the frame that is on air goes down by one.\<close>

definition play_tick :: "u64 \<Rightarrow> INTERNAL_AUTOCIRCULATE_STRUCT \<Rightarrow> INTERNAL_FRAME_STAMP_STRUCT \<Rightarrow> INTERNAL_FRAME_STAMP_STRUCT" where
  "play_tick audioCounter pAuto f =
     (if validCount f > 0
      then (let f = f\<lparr>validCount := validCount f - 1\<rparr>;
                f = (if validCount f = 0 then f\<lparr>audioOutStopAddress := VBIAudioOut pAuto\<rparr> else f)
            in f\<lparr>frameTime := sint (VBIRDTSC pAuto), audioClockTimeStamp := audioCounter\<rparr>)
      else f)"

definition AutoCirculate_run_play :: "features \<Rightarrow> NTV2AutoCirc \<Rightarrow> nat \<Rightarrow> nat \<Rightarrow> nat \<Rightarrow> bool \<Rightarrow> bool \<Rightarrow> u64 \<Rightarrow>
    INTERNAL_AUTOCIRCULATE_STRUCT \<Rightarrow> regs \<Rightarrow> (INTERNAL_AUTOCIRCULATE_STRUCT \<times> regs) option" where
  "AutoCirculate_run_play F s spec acChannel syncChannel fieldMode syncField0 audioCounter pAuto r =
     do { let active = activeFrame pAuto;
          pAuto \<leftarrow> fs_upd (play_tick audioCounter pAuto) active pAuto;
          f \<leftarrow> fs_get pAuto active;
          if validCount f = 0
          then do { let nxtFrame = KAUTO_NEXTFRAME active pAuto;
                    bDropFrame \<leftarrow> play_drop s spec fieldMode syncField0 nxtFrame pAuto r;
                    let r = play_audio_start pAuto f r;
                    if \<not> bDropFrame
                    then AutoCirculate_run_advance F (acDeviceID s) acChannel syncChannel fieldMode nxtFrame pAuto r
                    else Some (AutoCirculate_run_drop f pAuto r, r) }
          else Some (pAuto, r) }"

section \<open>Stopping, paused and the second field\<close>

definition AutoCirculate_stopping :: "features \<Rightarrow> NTV2AutoCirc \<Rightarrow> nat \<Rightarrow> nat \<Rightarrow> INTERNAL_AUTOCIRCULATE_STRUCT \<Rightarrow> regs \<Rightarrow>
    INTERNAL_AUTOCIRCULATE_STRUCT \<times> regs" where
  "AutoCirculate_stopping F s acChannel anc pAuto r =
     (let sys = audioSystem pAuto;
          r = (if recording pAuto
               then (let r = (if circulateWithAudio pAuto then StopAudioCapture r sys else r)
                     in if circulateWithCustomAncData pAuto \<and> NTV2_IS_VALID_CHANNEL anc
                        then (if circulateWithHDMIAux pAuto
                              then EnableAuxExtractor r anc False
                              else EnableAncExtractor r anc False)
                        else r)
               else (let r = (if circulateWithAudio pAuto \<or>
                                 NTV2_IS_OUTPUT_CROSSPOINT (channelSpec pAuto) \<and>
                                 globalAudioPlaybackMode s = NTV2_AUDIOPLAYBACK_1STAUTOCIRCULATEFRAME
                              then StopAudioPlayback r sys
                              else r)
                     in if circulateWithCustomAncData pAuto
                        then (let r = EnableAncInserter r acChannel False
                              in if ntv2ReadVirtualRegister r kVRegEveryFrameTaskFilter = NTV2_STANDARD_TASKS
                                 then fold (\<lambda>i r. EnableAncInserter r i False)
                                        [0 ..< NTV2DeviceGetNumVideoOutputs F (acDeviceID s)] r
                                 else r)
                        else r))
      in (pAuto\<lparr>state := NTV2_AUTOCIRCULATE_DISABLED\<rparr>,
          ntv2WriteVirtualRegister r
            (kVRegChannelCrosspointFirst + of_nat (GetNTV2ChannelForNTV2Crosspoint (channelSpec pAuto)))
            (of_nat NTV2CROSSPOINT_INVALID)))"

definition AutoCirculate_paused :: "INTERNAL_AUTOCIRCULATE_STRUCT \<Rightarrow> regs \<Rightarrow> regs" where
  "AutoCirculate_paused pAuto r =
     (if circulateWithAudio pAuto \<and> \<not> recording pAuto \<and> \<not> IsAudioPlaybackPaused r (audioSystem pAuto)
      then PauseAudioPlayback r (audioSystem pAuto)
      else r)"

definition AutoCirculate_field2 :: "features \<Rightarrow> nat \<Rightarrow> INTERNAL_AUTOCIRCULATE_STRUCT \<Rightarrow> regs \<Rightarrow> regs option" where
  "AutoCirculate_field2 F acChannel pAuto r =
     (if recording pAuto
      then Some (if circulateWithHDMIAux pAuto
                 then SetAuxExtField2WriteParams F r acChannel (u32_of (nextFrame pAuto))
                 else SetAncExtField2WriteParams F r acChannel (u32_of (nextFrame pAuto)))
      else do { f \<leftarrow> fs_get pAuto (nextFrame pAuto);
                Some (SetAncInsReadField2Params F r acChannel (u32_of (nextFrame pAuto)) (ancField2TransferSize f)) })"

section \<open>The state machine\<close>

text \<open>
  The switch on the state. In \<open>STARTING_AT_TIME\<close>, a state that no operation sets, the code
  falls into the case \<open>STARTING\<close> with a null \<open>pActiveFrameStamp\<close>.
\<close>

definition AutoCirculate_states :: "features \<Rightarrow> NTV2AutoCirc \<Rightarrow> nat \<Rightarrow> nat \<Rightarrow> nat \<Rightarrow> nat \<Rightarrow> bool \<Rightarrow> bool \<Rightarrow> u64 \<Rightarrow> int \<Rightarrow>
    INTERNAL_AUTOCIRCULATE_STRUCT \<Rightarrow> regs \<Rightarrow> (bool \<times> INTERNAL_AUTOCIRCULATE_STRUCT \<times> regs) option" where
  "AutoCirculate_states F s spec acChannel syncChannel anc fieldMode syncField0 audioCounter lastActiveFrame pAuto r =
     (case state pAuto of
        NTV2_AUTOCIRCULATE_INIT \<Rightarrow> Some (False, pAuto\<lparr>startTimeStamp := VBIRDTSC pAuto\<rparr>, r)
      | NTV2_AUTOCIRCULATE_STARTING_AT_TIME \<Rightarrow>
          (if startTime pAuto > VBIRDTSC pAuto then Some (False, pAuto, r) else None)
      | NTV2_AUTOCIRCULATE_STARTING \<Rightarrow>
          (if startTime pAuto > VBIRDTSC pAuto
           then Some (False, pAuto, r)
           else do { (pAuto, r) \<leftarrow>
                       (if recording pAuto
                        then AutoCirculate_start_record F (acDeviceID s) anc fieldMode syncField0 audioCounter
                               lastActiveFrame pAuto r
                        else AutoCirculate_start_play F s spec acChannel fieldMode syncField0 audioCounter pAuto r);
                     Some (True, pAuto, r) })
      | NTV2_AUTOCIRCULATE_RUNNING \<Rightarrow>
          (if recording pAuto
           then AutoCirculate_run_record F s spec acChannel anc fieldMode syncField0 audioCounter lastActiveFrame pAuto r
           else do { (pAuto, r) \<leftarrow> AutoCirculate_run_play F s spec acChannel syncChannel fieldMode syncField0
                                    audioCounter pAuto r;
                     Some (True, pAuto, r) })
      | NTV2_AUTOCIRCULATE_STOPPING \<Rightarrow>
          (let (pAuto, r) = AutoCirculate_stopping F s acChannel anc pAuto r in Some (False, pAuto, r))
      | NTV2_AUTOCIRCULATE_PAUSED \<Rightarrow> Some (False, pAuto, AutoCirculate_paused pAuto r)
      | _ \<Rightarrow> Some (False, pAuto, r))"

definition AutoCirculate :: "features \<Rightarrow> platform \<Rightarrow> nat \<Rightarrow> u64 \<Rightarrow> NTV2AutoCirc \<Rightarrow> (bool \<times> NTV2AutoCirc) option" where
  "AutoCirculate F P spec isrTimeStamp s =
     (if ILLEGAL_CHANNELSPEC spec
      then Some (False, s)
      else do {
        pAuto \<leftarrow> ac_get s spec;
        let r = hw s;
        let acChannel = GetNTV2ChannelForNTV2Crosspoint (channelSpec pAuto);
        let syncChannel = (if IsMultiFormatActive F r
                           then GetNTV2ChannelForNTV2Crosspoint (channelSpec pAuto)
                           else NTV2_CHANNEL1);
        let syncProgressive = IsProgressiveStandard F r syncChannel;
        let syncField0 = (syncProgressive \<or> IsFieldID0 F r (channelSpec pAuto));
        let fieldMode = (\<not> syncProgressive \<and> circulateWithFields pAuto \<and> AutoCircCanDoFieldMode F r pAuto);
        if syncField0 \<or> fieldMode
        then do {
          anc \<leftarrow> arr_get (ancInputChannel s) (int acChannel);
          let (s, pAuto) = AutoCirculate_audio_flags s pAuto;
          let audioCounter = (if state pAuto \<in> {NTV2_AUTOCIRCULATE_RUNNING, NTV2_AUTOCIRCULATE_PAUSED,
                                                NTV2_AUTOCIRCULATE_INIT, NTV2_AUTOCIRCULATE_STARTING}
                              then AutoGetAudioClock P
                              else 0);
          let lastActiveFrame = activeFrame pAuto;
          let pAuto = AutoCirculate_clocks isrTimeStamp audioCounter (hw s) pAuto;
          (changeEvent, pAuto, r) \<leftarrow>
            AutoCirculate_states F s spec acChannel syncChannel anc fieldMode syncField0 audioCounter lastActiveFrame
              pAuto (hw s);
          s \<leftarrow> ac_put spec pAuto (s\<lparr>hw := r\<rparr>);
          Some (changeEvent, s) }
        else if state pAuto \<in> {NTV2_AUTOCIRCULATE_STARTING, NTV2_AUTOCIRCULATE_RUNNING} \<and> circulateWithCustomAncData pAuto
        then do { r \<leftarrow> AutoCirculate_field2 F acChannel pAuto r;
                  Some (False, s\<lparr>hw := r\<rparr>) }
        else Some (False, s) })"

end
