(* ===== verification/Ntv2AutoInvariant.thy ===== *)
theory Ntv2AutoInvariant
  imports Ntv2AutoIsr
begin

text \<open>
  The invariant of the circulator and its preservation by every operation and by the
  interrupt handler: the frames that a channel uses stay inside its ring, so that no access
  leaves an array. The operations on a gang of channels share one contract, the locale
  \<open>gang_op\<close>.
\<close>

section \<open>Total results\<close>

text \<open>\<open>wp m Q\<close>: the operation \<open>m\<close> has a result, and the result satisfies \<open>Q\<close>.\<close>

definition wp :: "'a option \<Rightarrow> ('a \<Rightarrow> bool) \<Rightarrow> bool" where
  "wp m Q = (case m of None \<Rightarrow> False | Some x \<Rightarrow> Q x)"

lemma wp_Some [simp]: "wp (Some x) Q = Q x"
  by (simp add: wp_def)

lemma wp_None [simp]: "\<not> wp None Q"
  by (simp add: wp_def)

lemma wp_bind [simp]: "wp (m \<bind> f) Q = wp m (\<lambda>x. wp (f x) Q)"
  by (cases m) simp_all

lemma wp_mono: "wp m Q \<Longrightarrow> (\<And>x. Q x \<Longrightarrow> R x) \<Longrightarrow> wp m R"
  by (cases m) simp_all

lemma wp_if: "wp (if b then m else m') Q = (if b then wp m Q else wp m' Q)"
  by simp

lemma wp_iff: "wp m Q \<longleftrightarrow> (\<exists>x. m = Some x \<and> Q x)"
  by (cases m) simp_all

lemma wp_fs_get [simp]: "ring_ok a \<Longrightarrow> in_ring a i \<Longrightarrow> wp (fs_get a i) Q = Q (stamp a i)"
  by (simp add: ring_simps)

lemma wp_fs_upd [simp]:
  "ring_ok a \<Longrightarrow> in_ring a i \<Longrightarrow>
   wp (fs_upd f i a) Q = Q (a\<lparr>frameStamp := (frameStamp a)[nat i := f (stamp a i)]\<rparr>)"
  by (simp add: ring_simps)

text \<open>A change outside the ring fields keeps the ring.\<close>

lemma ring_ok_cong:
  "startFrame b = startFrame a \<Longrightarrow> endFrame b = endFrame a \<Longrightarrow>
   length (frameStamp b) = length (frameStamp a) \<Longrightarrow> ring_ok b = ring_ok a"
  by (simp add: ring_ok_def)

section \<open>The invariant\<close>

abbreviation chan :: "NTV2AutoCirc \<Rightarrow> nat \<Rightarrow> INTERNAL_AUTOCIRCULATE_STRUCT" where
  "chan s c \<equiv> autoCirculate s ! c"

text \<open>
  The fields that \<open>AutoCircReset\<close> fixes for the crosspoint \<open>c\<close>; the gang that starts at \<open>c\<close>
  ends before the last of the 16 indices.
\<close>

definition identity_ok :: "nat \<Rightarrow> INTERNAL_AUTOCIRCULATE_STRUCT \<Rightarrow> bool" where
  "identity_ok c a \<longleftrightarrow>
     channelSpec a = c \<and> recording a = NTV2_IS_INPUT_CROSSPOINT c \<and>
     activeFrameRegister a = activeFrameRegister (reset_channel c) \<and>
     0 \<le> channelCount a \<and> unat (GetIndexForNTV2Crosspoint c) + nat (channelCount a) \<le> 16"

text \<open>
  The position of a channel: an idle channel has no active frame before it starts; once
  it has started, the active frame and the next frame are frames of the ring.
\<close>

definition position_ok :: "INTERNAL_AUTOCIRCULATE_STRUCT \<Rightarrow> bool" where
  "position_ok a \<longleftrightarrow>
     (case state a of
        NTV2_AUTOCIRCULATE_DISABLED \<Rightarrow> True
      | NTV2_AUTOCIRCULATE_INIT \<Rightarrow> activeFrame a = INVALID_FRAME
      | NTV2_AUTOCIRCULATE_STOPPING \<Rightarrow>
          activeFrame a = INVALID_FRAME \<or> in_ring a (activeFrame a) \<and> in_ring a (nextFrame a)
      | NTV2_AUTOCIRCULATE_STARTING_AT_TIME \<Rightarrow> False
      | NTV2_AUTOCIRCULATE_INVALID \<Rightarrow> False
      | _ \<Rightarrow> in_ring a (activeFrame a) \<and> in_ring a (nextFrame a))"

definition chan_ok :: "nat \<Rightarrow> INTERNAL_AUTOCIRCULATE_STRUCT \<Rightarrow> bool" where
  "chan_ok c a \<longleftrightarrow>
     ring_ok a \<and> INVALID_FRAME \<le> nextFrame a \<and> uint (transferFrame a) < MAX_FRAMEBUFFERS \<and> position_ok a \<and> (\<not> ILLEGAL_CHANNELSPEC c \<longrightarrow> identity_ok c a)"

definition circ_ok :: "NTV2AutoCirc \<Rightarrow> bool" where
  "circ_ok s \<longleftrightarrow>
     length (autoCirculate s) = NUM_CIRCULATORS \<and> length (ancInputChannel s) = NTV2_MAX_NUM_CHANNELS \<and>
     syncChannel1 s < NUM_CIRCULATORS \<and> syncChannel2 s < NUM_CIRCULATORS \<and>
     (\<forall>c<NUM_CIRCULATORS. chan_ok c (chan s c))"

lemma circ_ok_chan: "circ_ok s \<Longrightarrow> c < NUM_CIRCULATORS \<Longrightarrow> chan_ok c (chan s c)"
  by (simp add: circ_ok_def)

lemma chan_ok_ring: "chan_ok c a \<Longrightarrow> ring_ok a"
  by (simp add: chan_ok_def)

lemma legal_less: "\<not> ILLEGAL_CHANNELSPEC c \<Longrightarrow> c < NUM_CIRCULATORS"
  by (simp add: ILLEGAL_CHANNELSPEC_def)

lemma wp_ac_get [simp]: "circ_ok s \<Longrightarrow> c < NUM_CIRCULATORS \<Longrightarrow> wp (ac_get s c) Q = Q (chan s c)"
  by (simp add: circ_ok_def ac_get_def arr_get_Some)

lemma ac_get_chan: "circ_ok s \<Longrightarrow> c < NUM_CIRCULATORS \<Longrightarrow> ac_get s c = Some (chan s c)"
  by (simp add: circ_ok_def ac_get_def arr_get_Some)

lemma wp_ac_put [simp]:
  "length (autoCirculate s) = NUM_CIRCULATORS \<Longrightarrow> c < NUM_CIRCULATORS \<Longrightarrow>
   wp (ac_put c a s) Q = Q (s\<lparr>autoCirculate := (autoCirculate s)[c := a]\<rparr>)"
  by (simp add: ac_put_def arr_set_Some)

lemma circ_ok_length [simp]: "circ_ok s \<Longrightarrow> length (autoCirculate s) = NUM_CIRCULATORS"
  by (simp add: circ_ok_def)

lemma circ_ok_ancs [simp]: "circ_ok s \<Longrightarrow> length (ancInputChannel s) = NTV2_MAX_NUM_CHANNELS"
  by (simp add: circ_ok_def)

lemma circ_ok_put:
  assumes "circ_ok s" and "chan_ok c a"
    and "autoCirculate s' = (autoCirculate s)[c := a]"
    and "length (ancInputChannel s') = length (ancInputChannel s)"
    and "syncChannel1 s' = syncChannel1 s" and "syncChannel2 s' = syncChannel2 s"
  shows "circ_ok s'"
proof -
  have "chan_ok d (chan s' d)" if "d < NUM_CIRCULATORS" for d
    using that assms(2,3) circ_ok_chan [OF assms(1) that] circ_ok_length [OF assms(1)]
    by (cases "d = c") simp_all
  then show ?thesis
    using assms(1,3-) unfolding circ_ok_def by simp
qed

lemma channel_less [simp]: "GetNTV2ChannelForNTV2Crosspoint c < NTV2_MAX_NUM_CHANNELS"
  by (simp add: GetNTV2ChannelForNTV2Crosspoint_def)

lemma wp_anc_get [simp]:
  "circ_ok s \<Longrightarrow> wp (arr_get (ancInputChannel s) (int (GetNTV2ChannelForNTV2Crosspoint c))) Q =
     Q (ancInputChannel s ! GetNTV2ChannelForNTV2Crosspoint c)"
  using channel_less [of c] by (simp add: arr_get_Some)

text \<open>The circulator after the reset of every channel.\<close>

lemma index_less: "unat (GetIndexForNTV2Crosspoint c) < 16"
  by (simp add: GetIndexForNTV2Crosspoint_def)

lemma reset_channel_ok: "chan_ok c (reset_channel c)"
  using index_less [of c]
  by (simp add: chan_ok_def reset_channel_def identity_ok_def position_ok_def ring_ok_def Let_def zero_autoCirculate_def)

lemma zero_channel_ok: "ILLEGAL_CHANNELSPEC c \<Longrightarrow> chan_ok c zero_autoCirculate"
  by (simp add: chan_ok_def position_ok_def ring_ok_def zero_autoCirculate_def)

section \<open>The indices of a gang\<close>

text \<open>\<open>nth_crosspoint i\<close> is the crosspoint of the index \<open>i\<close>.\<close>

definition nth_crosspoint :: "nat \<Rightarrow> nat" where
  "nth_crosspoint i = GetNTV2CrosspointForIndex (of_nat i)"

definition gang_specs :: "nat \<Rightarrow> nat \<Rightarrow> nat set" where
  "gang_specs i n = nth_crosspoint ` {i ..< i + n}"

lemma less_16_cases:
  fixes i :: nat
  assumes "i < 16"
  shows "i = 0 \<or> i = 1 \<or> i = 2 \<or> i = 3 \<or> i = 4 \<or> i = 5 \<or> i = 6 \<or> i = 7 \<or>
         i = 8 \<or> i = 9 \<or> i = 10 \<or> i = 11 \<or> i = 12 \<or> i = 13 \<or> i = 14 \<or> i = 15"
  using assms by presburger

lemma nth_crosspoint_legal:
  assumes "i < 16"
  shows "\<not> ILLEGAL_CHANNELSPEC (nth_crosspoint i)"
  using less_16_cases [OF assms]
  by (elim disjE; simp add: nth_crosspoint_def GetNTV2CrosspointForIndex_def ILLEGAL_CHANNELSPEC_def)

lemma index_nth_crosspoint:
  assumes "i < 16"
  shows "GetIndexForNTV2Crosspoint (nth_crosspoint i) = of_nat i"
  using less_16_cases [OF assms]
  by (elim disjE; simp add: nth_crosspoint_def GetNTV2CrosspointForIndex_def GetIndexForNTV2Crosspoint_def)

lemma nth_crosspoint_inj:
  assumes "i < 16" and "j < 16" and "nth_crosspoint i = nth_crosspoint j"
  shows "i = j"
proof -
  have "(of_nat i :: u32) = of_nat j"
    using assms by (metis index_nth_crosspoint)
  then have "unat (of_nat i :: u32) = unat (of_nat j :: u32)" by simp
  with assms show ?thesis by (simp add: unsigned_of_nat take_bit_nat_eq_self)
qed

lemma nth_crosspoint_index:
  assumes "\<not> ILLEGAL_CHANNELSPEC c"
  shows "nth_crosspoint (unat (GetIndexForNTV2Crosspoint c)) = c \<and> unat (GetIndexForNTV2Crosspoint c) < 16"
proof -
  have "c = 0 \<or> c = 1 \<or> c = 2 \<or> c = 3 \<or> c = 6 \<or> c = 7 \<or> c = 8 \<or> c = 9 \<or> c = 10 \<or>
        c = 11 \<or> c = 12 \<or> c = 13 \<or> c = 14 \<or> c = 15 \<or> c = 16 \<or> c = 17"
    using assms unfolding ILLEGAL_CHANNELSPEC_def by presburger
  then show ?thesis
    by (elim disjE; simp add: nth_crosspoint_def GetNTV2CrosspointForIndex_def GetIndexForNTV2Crosspoint_def)
qed

section \<open>The contract of an operation on a gang\<close>

text \<open>
  \<open>body\<close> is the loop body, \<open>pre\<close> what the \<open>k\<close>-th channel must satisfy, \<open>env\<close> what the
  circulator must satisfy besides its channels and the body keeps, and \<open>post\<close> relates the
  channel before and after. A body changes no other channel.
\<close>

locale gang_op =
  fixes body :: "nat \<Rightarrow> nat \<Rightarrow> NTV2AutoCirc \<Rightarrow> NTV2AutoCirc outcome"
    and env :: "NTV2AutoCirc \<Rightarrow> bool"
    and pre :: "nat \<Rightarrow> INTERNAL_AUTOCIRCULATE_STRUCT \<Rightarrow> bool"
    and post :: "nat \<Rightarrow> INTERNAL_AUTOCIRCULATE_STRUCT \<Rightarrow> INTERNAL_AUTOCIRCULATE_STRUCT \<Rightarrow> bool"
  assumes step: "circ_ok s \<Longrightarrow> env s \<Longrightarrow> \<not> ILLEGAL_CHANNELSPEC c \<Longrightarrow> pre k (chan s c) \<Longrightarrow>
    wp (body k c s) (\<lambda>(st, s'). st = NTV2_STATUS_SUCCESS \<and> circ_ok s' \<and> env s' \<and>
      post k (chan s c) (chan s' c) \<and> (\<forall>d. d \<noteq> c \<longrightarrow> chan s' d = chan s d))"
begin

theorem run:
  assumes "circ_ok s" and "env s" and "i + n \<le> 16"
    and "\<And>j. j < n \<Longrightarrow> pre (k + j) (chan s (nth_crosspoint (i + j)))"
  shows "wp (gang body n k (of_nat i) s) (\<lambda>(st, s'). st = NTV2_STATUS_SUCCESS \<and> circ_ok s' \<and> env s' \<and>
     (\<forall>j<n. post (k + j) (chan s (nth_crosspoint (i + j))) (chan s' (nth_crosspoint (i + j)))) \<and>
     (\<forall>d. d \<notin> gang_specs i n \<longrightarrow> chan s' d = chan s d))"
  using assms
proof (induction n arbitrary: i k s)
  case 0
  then show ?case by simp
next
  case (Suc n)
  let ?c = "nth_crosspoint i"
  have "wp (body k ?c s) (\<lambda>(st, s'). st = NTV2_STATUS_SUCCESS \<and> circ_ok s' \<and> env s' \<and>
      post k (chan s ?c) (chan s' ?c) \<and> (\<forall>d. d \<noteq> ?c \<longrightarrow> chan s' d = chan s d))"
    using Suc.prems(3) Suc.prems(4) [of 0] by (intro step Suc.prems nth_crosspoint_legal) auto
  then obtain s1 where s1: "body k ?c s = Some (NTV2_STATUS_SUCCESS, s1)" "circ_ok s1" "env s1"
      "post k (chan s ?c) (chan s1 ?c)" "\<And>d. d \<noteq> ?c \<Longrightarrow> chan s1 d = chan s d"
    by (auto simp: wp_iff)
  have other: "nth_crosspoint (Suc i + j) \<noteq> ?c" if "j < n" for j
    using nth_crosspoint_inj [of "Suc i + j" i] Suc.prems(3) that by auto
  have "wp (gang body n (Suc k) (of_nat (Suc i)) s1) (\<lambda>(st, s'). st = NTV2_STATUS_SUCCESS \<and> circ_ok s' \<and> env s' \<and>
     (\<forall>j<n. post (Suc k + j) (chan s1 (nth_crosspoint (Suc i + j))) (chan s' (nth_crosspoint (Suc i + j)))) \<and>
     (\<forall>d. d \<notin> gang_specs (Suc i) n \<longrightarrow> chan s' d = chan s1 d))"
  proof (rule Suc.IH)
    show "pre (Suc k + j) (chan s1 (nth_crosspoint (Suc i + j)))" if "j < n" for j
      using Suc.prems(4) [of "Suc j"] that other [OF that] s1(5) by simp
  qed (use s1 Suc.prems in auto)
  then obtain s2 where s2: "gang body n (Suc k) (of_nat (Suc i)) s1 = Some (NTV2_STATUS_SUCCESS, s2)"
      "circ_ok s2" "env s2"
      "\<And>j. j < n \<Longrightarrow> post (Suc k + j) (chan s1 (nth_crosspoint (Suc i + j))) (chan s2 (nth_crosspoint (Suc i + j)))"
      "\<And>d. d \<notin> gang_specs (Suc i) n \<Longrightarrow> chan s2 d = chan s1 d"
    by (auto simp: wp_iff)
  have run: "gang body (Suc n) k (of_nat i) s = Some (NTV2_STATUS_SUCCESS, s2)"
    using s1(1) s2(1) by (simp add: nth_crosspoint_def Let_def add.commute)
  have "?c \<notin> gang_specs (Suc i) n"
    using other by (auto simp: gang_specs_def image_iff)
      (metis add_Suc le_add_diff_inverse less_diff_conv2 add.commute)
  then have first: "chan s2 ?c = chan s1 ?c" by (rule s2(5))
  have "post (k + j) (chan s (nth_crosspoint (i + j))) (chan s2 (nth_crosspoint (i + j)))" if "j < Suc n" for j
  proof (cases j)
    case 0
    with first s1(4) show ?thesis by simp
  next
    case (Suc j')
    with that s2(4) [of j'] other [of j'] s1(5) show ?thesis by simp
  qed
  moreover have "chan s2 d = chan s d" if "d \<notin> gang_specs i (Suc n)" for d
  proof -
    have "d \<noteq> ?c" and "d \<notin> gang_specs (Suc i) n"
      using that by (auto simp: gang_specs_def)
    then show ?thesis using s2(5) s1(5) by simp
  qed
  ultimately show ?case
    using run s2 by (simp add: wp_def)
qed

end

end
