(* ===== verification/Ntv2AutoGang.thy ===== *)
theory Ntv2AutoGang
  imports Ntv2AutoInvariant
begin

text \<open>
  The operations on a gang as instances of the contract \<open>gang_op\<close>: what each does to a
  channel, and that it keeps the invariant.
\<close>

lemma wp_split: "wp m (\<lambda>x. case x of (a, b) \<Rightarrow> Q a b) = wp m (\<lambda>x. Q (fst x) (snd x))"
  by (simp add: case_prod_unfold)

lemma legal_identity: "circ_ok s \<Longrightarrow> \<not> ILLEGAL_CHANNELSPEC c \<Longrightarrow> identity_ok c (chan s c)"
  using circ_ok_chan [of s c] legal_less [of c] by (simp add: chan_ok_def)

text \<open>
  A change that keeps the identity, the ring and the bound of the next frame keeps the
  channel if the new position is right.
\<close>

definition same_ring :: "INTERNAL_AUTOCIRCULATE_STRUCT \<Rightarrow> INTERNAL_AUTOCIRCULATE_STRUCT \<Rightarrow> bool" where
  "same_ring a b \<longleftrightarrow>
     startFrame b = startFrame a \<and> endFrame b = endFrame a \<and> length (frameStamp b) = length (frameStamp a) \<and>
     channelSpec b = channelSpec a \<and> recording b = recording a \<and> activeFrameRegister b = activeFrameRegister a \<and>
     channelCount b = channelCount a \<and> transferFrame b = transferFrame a"

lemma same_ring_refl [simp]: "same_ring a a"
  by (simp add: same_ring_def)

lemma same_ring_trans: "same_ring a b \<Longrightarrow> same_ring b c \<Longrightarrow> same_ring a c"
  by (simp add: same_ring_def)

lemma same_ring_ok: "same_ring a b \<Longrightarrow> ring_ok b = ring_ok a"
  by (simp add: same_ring_def ring_ok_def)

lemma same_ring_in: "same_ring a b \<Longrightarrow> in_ring b i = in_ring a i"
  by (simp add: same_ring_def in_ring_def)

lemma same_ring_next: "same_ring a b \<Longrightarrow> KAUTO_NEXTFRAME i b = KAUTO_NEXTFRAME i a"
  by (simp add: same_ring_def KAUTO_NEXTFRAME_def)

lemma same_ring_prev: "same_ring a b \<Longrightarrow> KAUTO_PREVFRAME i b = KAUTO_PREVFRAME i a"
  by (simp add: same_ring_def KAUTO_PREVFRAME_def)

lemma chan_ok_same_ring:
  "chan_ok c a \<Longrightarrow> same_ring a b \<Longrightarrow> INVALID_FRAME \<le> nextFrame b \<Longrightarrow> position_ok b \<Longrightarrow> chan_ok c b"
  by (auto simp: chan_ok_def same_ring_ok identity_ok_def) (auto simp: same_ring_def)

section \<open>Stop\<close>

definition stop_effect :: "INTERNAL_AUTOCIRCULATE_STRUCT \<Rightarrow> INTERNAL_AUTOCIRCULATE_STRUCT" where
  "stop_effect a = (if state a = NTV2_AUTOCIRCULATE_DISABLED then a else a\<lparr>state := NTV2_AUTOCIRCULATE_STOPPING\<rparr>)"

lemma stop_chan_ok:
  assumes "chan_ok c a"
  shows "chan_ok c (stop_effect a)"
    and "stop_effect a =
      (if state a \<in> {NTV2_AUTOCIRCULATE_STARTING, NTV2_AUTOCIRCULATE_INIT,
                     NTV2_AUTOCIRCULATE_PAUSED, NTV2_AUTOCIRCULATE_RUNNING}
       then a\<lparr>state := NTV2_AUTOCIRCULATE_STOPPING\<rparr> else a)"
proof -
  show "chan_ok c (stop_effect a)"
    using assms by (cases "state a")
      (auto simp: stop_effect_def chan_ok_def position_ok_def ring_ok_def in_ring_def identity_ok_def)
  show "stop_effect a =
      (if state a \<in> {NTV2_AUTOCIRCULATE_STARTING, NTV2_AUTOCIRCULATE_INIT,
                     NTV2_AUTOCIRCULATE_PAUSED, NTV2_AUTOCIRCULATE_RUNNING}
       then a\<lparr>state := NTV2_AUTOCIRCULATE_STOPPING\<rparr> else a)"
    using assms by (cases "state a") (auto simp: stop_effect_def chan_ok_def position_ok_def)
qed

interpretation stop: gang_op AutoCircStop_channel "\<lambda>_. True" "\<lambda>_ _. True" "\<lambda>_ a a'. a' = stop_effect a"
proof (unfold_locales, goal_cases)
  case (1 s c k)
  note ok = circ_ok_chan [OF 1(1) legal_less [OF 1(3)]]
  have "circ_ok (s\<lparr>autoCirculate := (autoCirculate s)[c := stop_effect (chan s c)]\<rparr>)"
    by (rule circ_ok_put [OF 1(1) stop_chan_ok(1) [OF ok]]) simp_all
  then show ?case
    using 1 legal_less [OF 1(3)] stop_chan_ok(2) [OF ok] by (simp add: AutoCircStop_channel_def Let_def)
qed

section \<open>Pause\<close>

definition pause_effect :: "bool \<Rightarrow> bool \<Rightarrow> INTERNAL_AUTOCIRCULATE_STRUCT \<Rightarrow> INTERNAL_AUTOCIRCULATE_STRUCT" where
  "pause_effect bPlay bClearDF a =
     (if \<not> bPlay \<and> state a = NTV2_AUTOCIRCULATE_RUNNING
      then a\<lparr>state := NTV2_AUTOCIRCULATE_PAUSED\<rparr>
      else if bPlay \<and> state a = NTV2_AUTOCIRCULATE_PAUSED
      then a\<lparr>state := NTV2_AUTOCIRCULATE_RUNNING, droppedFrames := (if bClearDF then 0 else droppedFrames a)\<rparr>
      else a)"

lemma pause_chan_ok: "chan_ok c a \<Longrightarrow> chan_ok c (pause_effect p d a)"
  by (auto simp: pause_effect_def chan_ok_def position_ok_def ring_ok_def in_ring_def identity_ok_def)

interpretation pause: gang_op "AutoCircPause_channel p d" "\<lambda>_. True" "\<lambda>_ _. True" "\<lambda>_ a a'. a' = pause_effect p d a"
proof (unfold_locales, goal_cases)
  case (1 s c k)
  note ok = circ_ok_chan [OF 1(1) legal_less [OF 1(3)]]
  have "circ_ok (s\<lparr>autoCirculate := (autoCirculate s)[c := pause_effect p d (chan s c)]\<rparr>)"
    by (rule circ_ok_put [OF 1(1) pause_chan_ok [OF ok]]) simp_all
  moreover have "(if \<not> p \<and> state a = NTV2_AUTOCIRCULATE_RUNNING
      then a\<lparr>state := NTV2_AUTOCIRCULATE_PAUSED\<rparr>
      else if p \<and> state a = NTV2_AUTOCIRCULATE_PAUSED
      then (let pAuto = a\<lparr>state := NTV2_AUTOCIRCULATE_RUNNING\<rparr>
            in if d then pAuto\<lparr>droppedFrames := 0\<rparr> else pAuto)
      else a) = pause_effect p d a" for a
    by (simp add: pause_effect_def Let_def)
  ultimately show ?case
    using 1 legal_less [OF 1(3)] by (simp add: AutoCircPause_channel_def)
qed

section \<open>Abort\<close>

definition abort_effect :: "INTERNAL_AUTOCIRCULATE_STRUCT \<Rightarrow> INTERNAL_AUTOCIRCULATE_STRUCT" where
  "abort_effect a = a\<lparr>state := NTV2_AUTOCIRCULATE_DISABLED\<rparr>"

lemma abort_chan_ok: "chan_ok c a \<Longrightarrow> chan_ok c (abort_effect a)"
  by (auto simp: abort_effect_def chan_ok_def position_ok_def ring_ok_def identity_ok_def)

interpretation abort: gang_op "AutoCircAbort_channel F spec" "\<lambda>_. True" "\<lambda>_ _. True" "\<lambda>_ a a'. a' = abort_effect a"
proof (unfold_locales, goal_cases)
  case (1 s c k)
  note ok = circ_ok_chan [OF 1(1) legal_less [OF 1(3)]]
  have put: "circ_ok (s\<lparr>hw := r, autoCirculate := (autoCirculate s)[c := abort_effect (chan s c)]\<rparr>)" for r
    by (rule circ_ok_put [OF 1(1) abort_chan_ok [OF ok]]) simp_all
  show ?case
  proof (cases "state (chan s c) = NTV2_AUTOCIRCULATE_DISABLED")
    case True
    then have "abort_effect (chan s c) = chan s c"
      by (simp add: abort_effect_def)
    with True show ?thesis
      using 1 legal_less [OF 1(3)] by (simp add: AutoCircAbort_channel_def)
  next
    case False
    then show ?thesis
      using 1 legal_less [OF 1(3)] put by (simp add: AutoCircAbort_channel_def Let_def abort_effect_def)
  qed
qed

section \<open>Start\<close>

text \<open>
  A started channel waits on its start frame. Only the stamp of the start frame may change,
  and its count does not.
\<close>

definition start_post :: "u64 \<Rightarrow> INTERNAL_AUTOCIRCULATE_STRUCT \<Rightarrow> INTERNAL_AUTOCIRCULATE_STRUCT \<Rightarrow> bool" where
  "start_post time a a' \<longleftrightarrow>
     same_ring a a' \<and> state a' = NTV2_AUTOCIRCULATE_STARTING \<and> startTime a' = time \<and>
     activeFrame a' = startFrame a \<and> nextFrame a' = startFrame a \<and>
     framesProcessed a' = framesProcessed a \<and> droppedFrames a' = droppedFrames a \<and>
     (\<forall>i. in_ring a i \<longrightarrow> i \<noteq> startFrame a \<longrightarrow> stamp a' i = stamp a i) \<and>
     (\<forall>i. in_ring a i \<longrightarrow> validCount (stamp a' i) = validCount (stamp a i))"

lemma stamp_upd:
  assumes "ring_ok a" and "in_ring a i" and "in_ring a j"
  shows "stamp (a\<lparr>frameStamp := (frameStamp a)[nat i := x]\<rparr>) j = (if j = i then x else stamp a j)"
  using assms by (auto simp: stamp_def nth_list_update ring_ok_def in_ring_def nat_eq_iff2)

lemma start_input:
  assumes "ring_ok a"
  shows "wp (AutoCircStart_input F deviceID ACChannel anc a r) (\<lambda>(a', r').
     \<exists>x. validCount x = validCount (stamp a (startFrame a)) \<and>
         a' = a\<lparr>frameStamp := (frameStamp a)[nat (startFrame a) := x]\<rparr>)"
  using assms in_ring_start [OF assms]
  by (simp add: AutoCircStart_input_def Let_def)
    (intro conjI impI; (rule exI, rule conjI [rotated], rule refl, simp))

lemma start_post_intro:
  assumes "ring_ok a" and "a' = a \<or> (\<exists>x. validCount x = validCount (stamp a (startFrame a)) \<and>
         a' = a\<lparr>frameStamp := (frameStamp a)[nat (startFrame a) := x]\<rparr>)"
  shows "start_post time a (a'\<lparr>activeFrame := startFrame a', nextFrame := startFrame a',
                               startTime := time, state := NTV2_AUTOCIRCULATE_STARTING\<rparr>)"
proof -
  have "stamp (a\<lparr>frameStamp := fs, activeFrame := u, nextFrame := v, startTime := w, state := y\<rparr>) i
      = stamp (a\<lparr>frameStamp := fs\<rparr>) i" for fs u v w y i
    by (simp add: stamp_def)
  moreover have "stamp (a\<lparr>activeFrame := u, nextFrame := v, startTime := w, state := y\<rparr>) i = stamp a i" for u v w y i
    by (simp add: stamp_def)
  ultimately show ?thesis
    using assms in_ring_start [OF assms(1)] by (auto simp: start_post_def same_ring_def stamp_upd)
qed

lemma start_chan_ok:
  assumes "chan_ok c a" and "start_post time a a'"
  shows "chan_ok c a'"
proof (rule chan_ok_same_ring [OF assms(1)])
  show "same_ring a a'" using assms(2) by (simp add: start_post_def)
  show "INVALID_FRAME \<le> nextFrame a'" and "position_ok a'"
    using assms by (auto simp: start_post_def position_ok_def ring_ok_def in_ring_def same_ring_def chan_ok_def)
qed

interpretation start: gang_op "AutoCircStart_channel F time" "\<lambda>_. True" "\<lambda>_ _. True" "\<lambda>_ a a'. start_post time a a'"
proof (unfold_locales, goal_cases)
  case (1 s c k)
  note ok = circ_ok_chan [OF 1(1) legal_less [OF 1(3)]]
  let ?a = "chan s c"
  let ?fin = "\<lambda>a'. a'\<lparr>activeFrame := startFrame a', nextFrame := startFrame a',
                      startTime := time, state := NTV2_AUTOCIRCULATE_STARTING\<rparr>"
  have ring: "ring_ok ?a" and start: "in_ring ?a (startFrame ?a)"
    using chan_ok_ring [OF ok] in_ring_start by auto
  let ?Q = "\<lambda>(st, s'). st = NTV2_STATUS_SUCCESS \<and> circ_ok s' \<and> True \<and>
              start_post time ?a (chan s' c) \<and> (\<forall>d. d \<noteq> c \<longrightarrow> chan s' d = chan s d)"
  have fin: "wp (do { s \<leftarrow> ac_put c (?fin a') (s\<lparr>hw := r\<rparr>); Some (NTV2_STATUS_SUCCESS, s) }) ?Q"
    if "a' = ?a \<or> (\<exists>x. validCount x = validCount (stamp ?a (startFrame ?a)) \<and>
         a' = ?a\<lparr>frameStamp := (frameStamp ?a)[nat (startFrame ?a) := x]\<rparr>)" for a' r
  proof -
    have post: "start_post time ?a (?fin a')"
      by (rule start_post_intro [OF ring that])
    have "circ_ok (s\<lparr>hw := r, autoCirculate := (autoCirculate s)[c := ?fin a']\<rparr>)"
      by (rule circ_ok_put [OF 1(1) start_chan_ok [OF ok post]]) simp_all
    then show ?thesis
      using 1(1) legal_less [OF 1(3)] post by simp
  qed
  have "wp (if inp then AutoCircStart_input F d ch anc ?a r else Some (?a, r'))
          (\<lambda>(a', r). wp (do { s \<leftarrow> ac_put c (?fin a') (s\<lparr>hw := r\<rparr>); Some (NTV2_STATUS_SUCCESS, s) }) ?Q)"
    for inp d ch anc r r'
  proof (cases inp)
    case True
    have "wp (AutoCircStart_input F d ch anc ?a r)
          (\<lambda>(a', r). wp (do { s \<leftarrow> ac_put c (?fin a') (s\<lparr>hw := r\<rparr>); Some (NTV2_STATUS_SUCCESS, s) }) ?Q)"
      by (rule wp_mono [OF start_input [OF ring]], clarify, rule fin, blast)
    with True show ?thesis by (simp only: if_True)
  next
    case False
    have "wp (do { s \<leftarrow> ac_put c (?fin ?a) (s\<lparr>hw := r'\<rparr>); Some (NTV2_STATUS_SUCCESS, s) }) ?Q"
      by (rule fin) simp
    with False show ?thesis by (simp only: if_False wp_Some prod.case)
  qed
  then show ?case
    using 1(1) legal_less [OF 1(3)] ring start
    by (simp add: AutoCircStart_channel_def Let_def case_prod_unfold del: wp_ac_put)
qed

end
