(* ===== verification/Ntv2AutoFlush.thy ===== *)
theory Ntv2AutoFlush
  imports Ntv2AutoGang
begin

text \<open>
  \<open>AutoCircFlush\<close> and \<open>AutoCircSetActiveFrame\<close> of driver/ntv2autocirc.c: the flush loops
  end and clear exactly the queued frames; both operations keep the invariant.
\<close>

section \<open>Changing a set of stamps\<close>

definition upd_stamps :: "(INTERNAL_FRAME_STAMP_STRUCT \<Rightarrow> INTERNAL_FRAME_STAMP_STRUCT) \<Rightarrow> int set \<Rightarrow>
    INTERNAL_AUTOCIRCULATE_STRUCT \<Rightarrow> INTERNAL_AUTOCIRCULATE_STRUCT" where
  "upd_stamps f A a =
     a\<lparr>frameStamp := map (\<lambda>i. if int i \<in> A then f (frameStamp a ! i) else frameStamp a ! i) [0 ..< length (frameStamp a)]\<rparr>"

lemma upd_stamps_empty [simp]: "upd_stamps f {} a = a"
  by (simp add: upd_stamps_def map_nth)

lemma same_ring_upd_stamps [simp]: "same_ring a (upd_stamps f A a)"
  by (simp add: upd_stamps_def same_ring_def)

lemma state_upd_stamps [simp]: "state (upd_stamps f A a) = state a" "activeFrame (upd_stamps f A a) = activeFrame a"
  "nextFrame (upd_stamps f A a) = nextFrame a" "droppedFrames (upd_stamps f A a) = droppedFrames a"
  "framesProcessed (upd_stamps f A a) = framesProcessed a" "circulateWithAudio (upd_stamps f A a) = circulateWithAudio a"
  "audioSystem (upd_stamps f A a) = audioSystem a" "recording (upd_stamps f A a) = recording a"
  by (simp_all add: upd_stamps_def)

lemma stamp_upd_stamps:
  "ring_ok a \<Longrightarrow> in_ring a i \<Longrightarrow> stamp (upd_stamps f A a) i = (if i \<in> A then f (stamp a i) else stamp a i)"
  by (auto simp: stamp_def upd_stamps_def ring_ok_def in_ring_def)

lemma upd_stamps_insert:
  assumes "ring_ok a" and "in_ring a i" and "i \<notin> A"
  shows "upd_stamps f A (a\<lparr>frameStamp := (frameStamp a)[nat i := f (stamp a i)]\<rparr>) = upd_stamps f (insert i A) a"
proof -
  have "nat i < length (frameStamp a)" and "int (nat i) = i"
    using assms by (auto simp: ring_ok_def in_ring_def)
  with assms(3) show ?thesis
    by (auto simp: upd_stamps_def stamp_def nth_list_update intro!: map_cong)
qed

lemma upd_stamps_single:
  assumes "ring_ok a" and "in_ring a i"
  shows "a\<lparr>frameStamp := (frameStamp a)[nat i := f (stamp a i)]\<rparr> = upd_stamps f {i} a"
  using upd_stamps_insert [OF assms, of "{}" f] by simp

section \<open>The flush loops\<close>

lemma in_ring_word:
  assumes "ring_ok a" and "in_ring a c"
  shows "s32 (u32_of c) = c" and "uint (u32_of c) = c"
proof -
  have "0 \<le> c" and "c < 512" using in_ring_bounds [OF assms] by simp_all
  then show "s32 (u32_of c) = c" and "uint (u32_of c) = c"
    by (simp_all add: uint_u32_of)
qed

lemma in_ring_word_eq:
  "ring_ok a \<Longrightarrow> in_ring a c \<Longrightarrow> in_ring a d \<Longrightarrow> u32_of c = u32_of d \<longleftrightarrow> c = d"
  by (metis in_ring_word(2))

text \<open>A walk of \<open>n\<close> more steps from \<open>d\<close> that then comes back to the start \<open>c\<close>.\<close>

lemma flush_play_walk:
  assumes "ring_ok a" and "in_ring a d" and "in_ring a c"
    and "((\<lambda>x. KAUTO_NEXTFRAME x a) ^^ Suc n) d = c"
    and "c \<notin> set (walk (\<lambda>x. KAUTO_NEXTFRAME x a) n d)" and "distinct (walk (\<lambda>x. KAUTO_NEXTFRAME x a) n d)"
  shows "AutoCircFlush_play (u32_of c) (u32_of (KAUTO_NEXTFRAME d a)) a =
         Some (upd_stamps flush_play (set (walk (\<lambda>x. KAUTO_NEXTFRAME x a) n d)) a)"
  using assms
proof (induction n arbitrary: d a)
  case 0
  then show ?case by (subst AutoCircFlush_play.simps) simp
next
  case (Suc n)
  let ?d = "KAUTO_NEXTFRAME d a"
  let ?b = "a\<lparr>frameStamp := (frameStamp a)[nat ?d := flush_play (stamp a ?d)]\<rparr>"
  have pow: "((\<lambda>x. KAUTO_NEXTFRAME x a) ^^ Suc n) ?d = c"
    using Suc.prems(4) by (simp only: funpow_Suc_right o_apply)
  have d: "in_ring a ?d" using Suc.prems by (simp add: ring_simps)
  have same: "same_ring a ?b" by (simp add: same_ring_def)
  have step: "(\<lambda>x. KAUTO_NEXTFRAME x ?b) = (\<lambda>x. KAUTO_NEXTFRAME x a)"
    using same_ring_next [OF same] by auto
  have ne: "?d \<noteq> c" and "?d \<notin> set (walk (\<lambda>x. KAUTO_NEXTFRAME x a) n ?d)"
    using Suc.prems(5,6) by auto
  have "AutoCircFlush_play (u32_of c) (u32_of (KAUTO_NEXTFRAME ?d ?b)) ?b =
         Some (upd_stamps flush_play (set (walk (\<lambda>x. KAUTO_NEXTFRAME x ?b) n ?d)) ?b)"
  proof (rule Suc.IH)
    show "ring_ok ?b" and "in_ring ?b ?d" and "in_ring ?b c"
      using Suc.prems d by (simp_all add: same_ring_ok [OF same] same_ring_in [OF same])
  qed (use Suc.prems pow in \<open>simp_all only: step walk.simps list.set distinct.simps insert_iff de_Morgan_disj not_False_eq_True\<close>)
  then show ?case
    using Suc.prems d ne \<open>?d \<notin> _\<close>
    by (subst AutoCircFlush_play.simps)
      (simp add: step in_ring_word in_ring_word_eq fs_upd_ring upd_stamps_insert)
qed

lemma flush_record_walk:
  assumes "ring_ok a" and "in_ring a d" and "in_ring a c"
    and "((\<lambda>x. KAUTO_PREVFRAME x a) ^^ Suc n) d = c"
    and "c \<notin> set (walk (\<lambda>x. KAUTO_PREVFRAME x a) n d)" and "distinct (walk (\<lambda>x. KAUTO_PREVFRAME x a) n d)"
  shows "AutoCircFlush_record (u32_of c) (u32_of (KAUTO_PREVFRAME d a)) a =
         Some (upd_stamps flush_record
           (set (takeWhile (\<lambda>i. validCount (stamp a i) \<noteq> 0) (walk (\<lambda>x. KAUTO_PREVFRAME x a) n d))) a)"
  using assms
proof (induction n arbitrary: d a)
  case 0
  then show ?case by (subst AutoCircFlush_record.simps) simp
next
  case (Suc n)
  let ?d = "KAUTO_PREVFRAME d a"
  let ?b = "a\<lparr>frameStamp := (frameStamp a)[nat ?d := flush_record (stamp a ?d)]\<rparr>"
  let ?w = "walk (\<lambda>x. KAUTO_PREVFRAME x a) n ?d"
  note ring = Suc.prems(1)
  have pow: "((\<lambda>x. KAUTO_PREVFRAME x a) ^^ Suc n) ?d = c"
    using Suc.prems(4) by (simp only: funpow_Suc_right o_apply)
  have d: "in_ring a ?d" using Suc.prems by (simp add: ring_simps)
  have same: "same_ring a ?b" by (simp add: same_ring_def)
  have step: "(\<lambda>x. KAUTO_PREVFRAME x ?b) = (\<lambda>x. KAUTO_PREVFRAME x a)"
    using same_ring_prev [OF same] by auto
  have ne: "?d \<noteq> c" and nw: "?d \<notin> set ?w"
    using Suc.prems(5,6) by auto
  have walk_in: "in_ring a i" if "in_ring a e" "i \<in> set (walk (\<lambda>x. KAUTO_PREVFRAME x a) m e)" for i e m
    using that
  proof (induction m arbitrary: e)
    case (Suc m)
    then show ?case using in_ring_prev [OF ring] Suc.IH by auto
  qed simp
  have stamps: "takeWhile (\<lambda>i. validCount (stamp ?b i) \<noteq> 0) ?w = takeWhile (\<lambda>i. validCount (stamp a i) \<noteq> 0) ?w"
    using nw walk_in [OF d] Suc.prems(1) d by (intro takeWhile_cong) (auto simp: stamp_upd)
  have "AutoCircFlush_record (u32_of c) (u32_of (KAUTO_PREVFRAME ?d ?b)) ?b =
         Some (upd_stamps flush_record
           (set (takeWhile (\<lambda>i. validCount (stamp ?b i) \<noteq> 0) (walk (\<lambda>x. KAUTO_PREVFRAME x ?b) n ?d))) ?b)"
  proof (rule Suc.IH)
    show "ring_ok ?b" and "in_ring ?b ?d" and "in_ring ?b c"
      using Suc.prems d by (simp_all add: same_ring_ok [OF same] same_ring_in [OF same])
  qed (use Suc.prems pow in \<open>simp_all only: step walk.simps list.set distinct.simps insert_iff de_Morgan_disj not_False_eq_True\<close>)
  moreover have "?d \<notin> set (takeWhile (\<lambda>i. validCount (stamp a i) \<noteq> 0) ?w)"
    using nw set_takeWhileD by metis
  ultimately show ?case
    using Suc.prems d ne
    by (subst AutoCircFlush_record.simps)
      (simp add: step stamps in_ring_word in_ring_word_eq fs_upd_ring fs_get_ring upd_stamps_insert insert_compr)
qed

lemma next_cycle:
  assumes "ring_ok a" and "in_ring a c"
  shows "((\<lambda>x. KAUTO_NEXTFRAME x a) ^^ Suc (nat (ring_size a - 1))) c = c"
    and "((\<lambda>x. KAUTO_PREVFRAME x a) ^^ Suc (nat (ring_size a - 1))) c = c"
proof -
  let ?n = "nat (ring_size a - 1)"
  have size: "int (Suc ?n) = ring_size a" and n: "endFrame a - startFrame a + 1 = ring_size a"
    using assms(1) by (auto simp: ring_size_def ring_ok_def)
  have c: "startFrame a \<le> c" "c \<le> endFrame a" using assms(2) by (auto simp: in_ring_def)
  have m: "(c - startFrame a) mod ring_size a = c - startFrame a"
    using c by (simp add: ring_size_def)
  have "((\<lambda>x. KAUTO_NEXTFRAME x a) ^^ Suc ?n) c = startFrame a + (c - startFrame a + ring_size a) mod ring_size a"
    using kauto.nxt_pow [OF c, of "Suc ?n"] by (simp only: size n)
  then show "((\<lambda>x. KAUTO_NEXTFRAME x a) ^^ Suc ?n) c = c"
    by (simp add: m)
  have "((\<lambda>x. KAUTO_PREVFRAME x a) ^^ Suc ?n) c = startFrame a + (c - startFrame a - ring_size a) mod ring_size a"
    using kauto.prv_pow [OF c, of "Suc ?n"] by (simp only: size n)
  then show "((\<lambda>x. KAUTO_PREVFRAME x a) ^^ Suc ?n) c = c"
    by (simp add: m)
qed

lemma flush_play_loop:
  assumes "ring_ok a" and "in_ring a c"
  shows "AutoCircFlush_play (u32_of c) (u32_of (KAUTO_NEXTFRAME c a)) a =
    Some (upd_stamps flush_play ({startFrame a..endFrame a} - {c}) a)"
  using flush_play_walk [OF assms(1,2,2) next_cycle(1) [OF assms]] set_frames_after [OF assms(2)]
    distinct_frames_after [of a c] by (simp add: walk_next [OF assms])

lemma flush_record_loop:
  assumes "ring_ok a" and "in_ring a c"
  shows "AutoCircFlush_record (u32_of c) (u32_of (KAUTO_PREVFRAME c a)) a =
    Some (upd_stamps flush_record (set (takeWhile (\<lambda>i. validCount (stamp a i) \<noteq> 0) (frames_before a c))) a)"
proof -
  have "set (frames_before a c) = {startFrame a..endFrame a} - {c}" and "distinct (frames_before a c)"
    using set_frames_after [OF assms(2)] distinct_frames_after [of a c] by (simp_all add: frames_before_def)
  then show ?thesis
    using flush_record_walk [OF assms(1,2,2) next_cycle(2) [OF assms]] by (simp add: walk_prev [OF assms])
qed

section \<open>Flush\<close>

text \<open>The frame that the flush takes for the one on air.\<close>

definition flush_frame :: "regs \<Rightarrow> INTERNAL_AUTOCIRCULATE_STRUCT \<Rightarrow> int" where
  "flush_frame r a =
     (let v = uint (r (activeFrameRegister a)) in if v < startFrame a \<or> v > endFrame a then startFrame a else v)"

lemma flush_frame_in: "ring_ok a \<Longrightarrow> in_ring a (flush_frame r a)"
  by (auto simp: flush_frame_def in_ring_def ring_ok_def Let_def)

lemma flush_frame_word:
  assumes "ring_ok a"
  shows "(if v < u32_of (startFrame a) \<or> v > u32_of (endFrame a) then u32_of (startFrame a) else v) =
    u32_of (if uint v < startFrame a \<or> uint v > endFrame a then startFrame a else uint v)"
proof -
  have "uint (u32_of (startFrame a)) = startFrame a" and "uint (u32_of (endFrame a)) = endFrame a"
    using assms by (auto simp: ring_ok_def uint_u32_of)
  then show ?thesis
    by (simp add: word_less_def) (simp add: u32_of_def)
qed

text \<open>
  What a flush does to the frames of a channel whose frame on air is \<open>c\<close>: in record it drops
  the captured frames before \<open>c\<close>, in play all frames but \<open>c\<close>, and \<open>c\<close> too before the start.
\<close>

definition flush_frames :: "NTV2AutoCirculateState \<Rightarrow> int \<Rightarrow> INTERNAL_AUTOCIRCULATE_STRUCT \<Rightarrow>
    INTERNAL_AUTOCIRCULATE_STRUCT" where
  "flush_frames autoState c a =
     (if recording a
      then upd_stamps flush_record (set (takeWhile (\<lambda>i. validCount (stamp a i) \<noteq> 0) (frames_before a c))) a
      else (let a = upd_stamps flush_play ({startFrame a..endFrame a} - {c}) a;
                a = upd_stamps (\<lambda>f. f\<lparr>audioExpectedAddress := 1\<rparr>) {c} a;
                a = (if autoState = NTV2_AUTOCIRCULATE_INIT
                     then upd_stamps (\<lambda>f. f\<lparr>validCount := 0, videoTransferPending := False\<rparr>) {c} a
                     else a)
            in if circulateWithAudio a then a\<lparr>nextAudioOutputAddress := 0\<rparr> else a))"

lemma flush_frames_same: "same_ring a (flush_frames st c a)"
  by (auto simp: flush_frames_def same_ring_def Let_def upd_stamps_def)

lemma flush_frames_fields:
  "state (flush_frames st c a) = state a" "activeFrame (flush_frames st c a) = activeFrame a"
  "nextFrame (flush_frames st c a) = nextFrame a" "droppedFrames (flush_frames st c a) = droppedFrames a"
  "framesProcessed (flush_frames st c a) = framesProcessed a"
  by (auto simp: flush_frames_def Let_def)

lemma flush_frames_run:
  assumes "ring_ok b"
  shows "\<exists>r'. AutoCircFlush_frames st r b = Some (flush_frames st (flush_frame r b) b, r')"
proof -
  define x where "x = flush_frame r b"
  have x: "in_ring b x" using flush_frame_in [OF assms] by (simp add: x_def)
  have cur: "(if r (activeFrameRegister b) < u32_of (startFrame b) \<or> r (activeFrameRegister b) > u32_of (endFrame b)
              then u32_of (startFrame b) else r (activeFrameRegister b)) = u32_of x"
    unfolding flush_frame_word [OF assms] by (simp add: x_def flush_frame_def Let_def)
  have upd: "fs_upd f x b' = Some (upd_stamps f {x} b')" if "same_ring b b'" for f b'
    using assms x that by (simp add: fs_upd_ring same_ring_ok same_ring_in upd_stamps_single)
  have same: "same_ring b (upd_stamps f A (upd_stamps g B b))" for f A g B
    using same_ring_trans [OF same_ring_upd_stamps same_ring_upd_stamps] .
  show ?thesis
    using flush_record_loop [OF assms x] flush_play_loop [OF assms x]
    unfolding AutoCircFlush_frames_def ntv2ReadRegister_eq Let_def cur in_ring_word [OF assms x] x_def [symmetric]
    by (simp add: flush_frames_def upd same Let_def)
qed

text \<open>The flush of one channel.\<close>

definition flush_effect :: "bool \<Rightarrow> int \<Rightarrow> INTERNAL_AUTOCIRCULATE_STRUCT \<Rightarrow> INTERNAL_AUTOCIRCULATE_STRUCT" where
  "flush_effect bClearDF c a = flush_frames (state a) c (if bClearDF then a\<lparr>droppedFrames := 0\<rparr> else a)"

lemma flush_effect_same: "same_ring a (flush_effect d c a)"
proof -
  have "same_ring a (if d then a\<lparr>droppedFrames := 0\<rparr> else a)" by (simp add: same_ring_def)
  then show ?thesis unfolding flush_effect_def by (rule same_ring_trans [OF _ flush_frames_same])
qed

lemma flush_effect_fields:
  "state (flush_effect d c a) = state a" "activeFrame (flush_effect d c a) = activeFrame a"
  "nextFrame (flush_effect d c a) = nextFrame a"
  by (simp_all add: flush_effect_def flush_frames_fields)

lemma flush_chan_ok:
  assumes "chan_ok k a"
  shows "chan_ok k (flush_effect d c a)"
proof (rule chan_ok_same_ring [OF assms flush_effect_same])
  show "INVALID_FRAME \<le> nextFrame (flush_effect d c a)"
    using assms by (simp add: flush_effect_fields chan_ok_def)
  show "position_ok (flush_effect d c a)"
    using assms same_ring_in [OF flush_effect_same]
    by (simp add: position_ok_def flush_effect_fields chan_ok_def cong: NTV2AutoCirculateState.case_cong)
qed

text \<open>The state of the channel during the flush is of no consequence.\<close>

lemma upd_stamps_state: "upd_stamps f A (a\<lparr>state := v\<rparr>) = (upd_stamps f A a)\<lparr>state := v\<rparr>"
  by (simp add: upd_stamps_def)

lemma flush_frames_state: "flush_frames st c (a\<lparr>state := v\<rparr>) = (flush_frames st c a)\<lparr>state := v\<rparr>"
proof -
  have "stamp (a\<lparr>state := v\<rparr>) i = stamp a i" for i
    by (simp add: stamp_def)
  then show ?thesis
    by (simp add: flush_frames_def upd_stamps_state frames_before_def frames_after_def Let_def)
qed

lemma flush_channel:
  assumes "circ_ok s" and "\<not> ILLEGAL_CHANNELSPEC c"
  shows "\<exists>r. AutoCircFlush_channel d k c s = Some (NTV2_STATUS_SUCCESS,
    s\<lparr>hw := r, autoCirculate := (autoCirculate s)[c := flush_effect d (flush_frame (hw s) (chan s c)) (chan s c)]\<rparr>)"
proof -
  note less = legal_less [OF assms(2)]
  define a where "a = chan s c"
  define b where "b = (if d then a\<lparr>droppedFrames := 0\<rparr> else a)"
  have ring: "ring_ok (b\<lparr>state := v\<rparr>)" and frame: "flush_frame (hw s) (b\<lparr>state := v\<rparr>) = flush_frame (hw s) a" for v
    using chan_ok_ring [OF circ_ok_chan [OF assms(1) less]] by (simp_all add: a_def b_def ring_ok_def flush_frame_def Let_def)
  have paused: "(if d then a\<lparr>state := v, droppedFrames := 0\<rparr> else a\<lparr>state := v\<rparr>) = b\<lparr>state := v\<rparr>" for v
    by (simp add: b_def)
  obtain r where "AutoCircFlush_frames (state a) (hw s) (b\<lparr>state := NTV2_AUTOCIRCULATE_PAUSED\<rparr>) =
      Some ((flush_frames (state a) (flush_frame (hw s) a) b)\<lparr>state := NTV2_AUTOCIRCULATE_PAUSED\<rparr>, r)"
    using flush_frames_run [OF ring] by (metis frame flush_frames_state)
  moreover have "(flush_frames (state a) (flush_frame (hw s) a) b)\<lparr>state := v, state := state a\<rparr> = flush_effect d (flush_frame (hw s) a) a" for v
    using flush_frames_fields(1) [of "state a" "flush_frame (hw s) a" b] by (simp add: flush_effect_def b_def)
  ultimately show ?thesis
    using assms(1) less
    by (intro exI [of _ r]) (simp add: AutoCircFlush_channel_def ac_get_chan a_def [symmetric] paused ac_put_def arr_set_Some)
qed

interpretation flush: gang_op "AutoCircFlush_channel d" "\<lambda>_. True" "\<lambda>_ _. True"
  "\<lambda>_ a a'. \<exists>c. in_ring a c \<and> a' = flush_effect d c a"
proof (unfold_locales, goal_cases)
  case (1 s c k)
  note less = legal_less [OF 1(3)] and ok = circ_ok_chan [OF 1(1) legal_less [OF 1(3)]]
  let ?x = "flush_frame (hw s) (chan s c)"
  obtain r where r: "AutoCircFlush_channel d k c s = Some (NTV2_STATUS_SUCCESS,
      s\<lparr>hw := r, autoCirculate := (autoCirculate s)[c := flush_effect d ?x (chan s c)]\<rparr>)"
    using flush_channel [OF 1(1,3)] by blast
  have "circ_ok (s\<lparr>hw := r, autoCirculate := (autoCirculate s)[c := flush_effect d ?x (chan s c)]\<rparr>)"
    by (rule circ_ok_put [OF 1(1) flush_chan_ok [OF ok]]) simp_all
  then show ?case
    using 1(1) less r flush_frame_in [OF chan_ok_ring [OF ok]] by auto
qed

text \<open>The counts of the frames after a flush in play.\<close>

lemma flush_play_count:
  assumes "ring_ok a" and "\<not> recording a" and "in_ring a c" and "in_ring a i"
  shows "validCount (stamp (flush_effect d c a) i) =
     (if i = c \<and> state a \<noteq> NTV2_AUTOCIRCULATE_INIT then validCount (stamp a i) else 0)"
proof -
  define b where "b = (if d then a\<lparr>droppedFrames := 0\<rparr> else a)"
  have same: "same_ring a b" and st: "\<And>j. stamp b j = stamp a j"
    by (auto simp: b_def same_ring_def stamp_def)
  have ring: "ring_ok b" and "\<not> recording b" and b: "startFrame b = startFrame a" "endFrame b = endFrame a"
    and c: "in_ring b c" and i: "in_ring b i"
    using assms same by (auto simp: same_ring_ok same_ring_in) (auto simp: same_ring_def)
  have u: "ring_ok (upd_stamps f A x) = ring_ok x" "in_ring (upd_stamps f A x) j = in_ring x j" for f A x j
    using same_ring_ok [OF same_ring_upd_stamps] same_ring_in [OF same_ring_upd_stamps] by blast+
  have na: "stamp (x\<lparr>nextAudioOutputAddress := v\<rparr>) j = stamp x j" for x v j
    by (simp add: stamp_def)
  show ?thesis
    using ring c i \<open>\<not> recording b\<close> c [unfolded in_ring_def] i [unfolded in_ring_def]
    by (auto simp: flush_effect_def flush_frames_def b_def [symmetric] Let_def stamp_upd_stamps u na st flush_play_def)
qed

text \<open>After a flush in play at most the frame on air is queued.\<close>

lemma flush_play_level:
  assumes "ring_ok a" and "\<not> recording a" and "in_ring a c"
  shows "queued_play (flush_effect d c a) c =
    (if state a = NTV2_AUTOCIRCULATE_INIT then 0 else validCount (stamp a c))"
proof -
  let ?b = "flush_effect d c a"
  have frames: "frames_after ?b c = frames_after a c"
    using flush_effect_same [of a d c] by (simp add: frames_after_def same_ring_def)
  have "validCount (stamp ?b i) = 0" if "i \<in> set (frames_after a c)" for i
    using that set_frames_after [OF assms(3)] flush_play_count [OF assms, of i d] by (auto simp: in_ring_def)
  then have "takeWhile (\<lambda>j. validCount (stamp ?b j) \<noteq> 0) (frames_after a c) = []"
    by (cases "frames_after a c") auto
  then show ?thesis
    using flush_play_count [OF assms assms(3), of d] by (simp add: queued_play_def frames)
qed

section \<open>The choice of the active frame\<close>

definition gang_frame :: "int \<Rightarrow> u32 \<Rightarrow> nat \<Rightarrow> int" where
  "gang_frame lActiveFrame channelRange k = uint (u32_of lActiveFrame + of_nat k * channelRange)"

interpretation active: gang_op "AutoCircSetActiveFrame_channel F lActiveFrame channelRange" "\<lambda>_. True"
  "\<lambda>k a. position_ok a \<and> state a \<in> {NTV2_AUTOCIRCULATE_RUNNING, NTV2_AUTOCIRCULATE_STARTING, NTV2_AUTOCIRCULATE_PAUSED} \<and>
     in_ring a (gang_frame lActiveFrame channelRange k)"
  "\<lambda>k a a'. a' = a\<lparr>activeFrame := gang_frame lActiveFrame channelRange k\<rparr>"
proof (unfold_locales, goal_cases)
  case (1 s c k)
  note less = legal_less [OF 1(3)] and ok = circ_ok_chan [OF 1(1) legal_less [OF 1(3)]]
  let ?x = "gang_frame lActiveFrame channelRange k" and ?a = "chan s c"
  have ring: "ring_ok ?a" and x: "in_ring ?a ?x"
    using chan_ok_ring [OF ok] 1(4) by auto
  have w: "u32_of lActiveFrame + of_nat k * channelRange = u32_of ?x"
    by (simp add: gang_frame_def u32_of_def)
  have same: "same_ring ?a (?a\<lparr>activeFrame := ?x\<rparr>)" by (simp add: same_ring_def)
  have "chan_ok c (?a\<lparr>activeFrame := ?x\<rparr>)"
  proof (rule chan_ok_same_ring [OF ok same])
    show "position_ok (?a\<lparr>activeFrame := ?x\<rparr>)"
      using 1(4) same_ring_in [OF same] by (auto simp: position_ok_def)
  qed (use ok in \<open>simp add: chan_ok_def\<close>)
  then have put: "circ_ok (s\<lparr>hw := r, autoCirculate := (autoCirculate s)[c := ?a\<lparr>activeFrame := ?x\<rparr>]\<rparr>)" for r
    by (rule circ_ok_put [OF 1(1)]) simp_all
  show ?case
    unfolding AutoCircSetActiveFrame_channel_def w Let_def in_ring_word [OF ring x]
    using 1(1) less put ring x
    by (simp add: same_ring_ok [OF same] same_ring_in [OF same])
qed

end
