(* ===== verification/Ntv2AutoPreroll.thy ===== *)
theory Ntv2AutoPreroll
  imports Ntv2AutoFlush
begin

text \<open>
  \<open>AutoCircPreroll\<close> of driver/ntv2autocirc.c, and the contract of the operations that may
  end a gang early.
\<close>

section \<open>Operations that may fail on a channel\<close>

locale gang_keep =
  fixes body :: "nat \<Rightarrow> nat \<Rightarrow> 's \<Rightarrow> 's outcome"
    and pre :: "nat \<Rightarrow> nat \<Rightarrow> bool"
    and keep :: "'s \<Rightarrow> bool"
  assumes step: "keep s \<Longrightarrow> \<not> ILLEGAL_CHANNELSPEC c \<Longrightarrow> pre k c \<Longrightarrow> wp (body k c s) (\<lambda>(_, s'). keep s')"
begin

theorem run:
  assumes "keep s" and "i + n \<le> 16" and "\<And>j. j < n \<Longrightarrow> pre (k + j) (nth_crosspoint (i + j))"
  shows "wp (gang body n k (of_nat i) s) (\<lambda>(_, s'). keep s')"
  using assms
proof (induction n arbitrary: i k s)
  case 0
  then show ?case by simp
next
  case (Suc n)
  have "\<not> ILLEGAL_CHANNELSPEC (nth_crosspoint i)" and "pre k (nth_crosspoint i)"
    using Suc.prems(2) Suc.prems(3) [of 0] nth_crosspoint_legal [of i] by auto
  then obtain st s1 where s1: "body k (nth_crosspoint i) s = Some (st, s1)" "keep s1"
    using step [OF Suc.prems(1), of "nth_crosspoint i" k] by (auto simp: wp_iff)
  have "wp (gang body n (Suc k) (of_nat (Suc i)) s1) (\<lambda>(_, s'). keep s')"
    using Suc.prems(2) Suc.prems(3) [of "Suc _"] s1(2) by (intro Suc.IH) auto
  with s1 show ?case
    by (simp add: nth_crosspoint_def Let_def add.commute)
qed

end

section \<open>Preroll\<close>

text \<open>The search for a frame gives a frame of the ring, in a state where it can be used.\<close>

lemma find_next_cases:
  assumes "chan_ok c a" and "\<not> recording a"
  shows "\<exists>x. AutoCircFindNextAvailFrame a = Some (find_result a x) \<and>
    (\<forall>i. x = Some i \<longrightarrow> in_ring a i \<and> validCount (stamp a i) = 0 \<and>
       (state a = NTV2_AUTOCIRCULATE_INIT \<or> state a \<noteq> NTV2_AUTOCIRCULATE_DISABLED \<and> in_ring a (activeFrame a) \<and>
          in_ring a (nextFrame a) \<and> i \<noteq> activeFrame a))"
proof -
  note ring = chan_ok_ring [OF assms(1)]
  have pos: "position_ok a" using assms(1) by (simp add: chan_ok_def)
  show ?thesis
  proof (cases "state a \<noteq> NTV2_AUTOCIRCULATE_DISABLED \<and> (state a = NTV2_AUTOCIRCULATE_INIT \<or> in_ring a (activeFrame a))")
    case True
    define l where "l = (if state a = NTV2_AUTOCIRCULATE_INIT then [startFrame a..endFrame a] else frames_after a (activeFrame a))"
    define x where "x = find (\<lambda>i. validCount (stamp a i) = 0) l"
    have "AutoCircFindNextAvailFrame a = Some (find_result a x)"
      using find_next_play [OF ring assms(2)] True by (simp add: x_def l_def)
    moreover have "in_ring a i \<and> validCount (stamp a i) = 0 \<and> (state a \<noteq> NTV2_AUTOCIRCULATE_INIT \<longrightarrow> i \<noteq> activeFrame a)"
      if "x = Some i" for i
    proof -
      have "i \<in> set l" and "validCount (stamp a i) = 0"
        using that by (auto simp: x_def find_Some_iff)
      then show ?thesis
        using True set_frames_after [of a "activeFrame a"] by (auto simp: l_def in_ring_def split: if_splits)
    qed
    moreover have "state a = NTV2_AUTOCIRCULATE_INIT \<or> in_ring a (nextFrame a)"
    proof -
      have "activeFrame a \<noteq> INVALID_FRAME" if "state a \<noteq> NTV2_AUTOCIRCULATE_INIT"
        using that True ring by (auto simp: in_ring_def ring_ok_def)
      then show ?thesis
        using True pos by (auto simp: position_ok_def split: NTV2AutoCirculateState.splits)
    qed
    ultimately show ?thesis using True by blast
  next
    case False
    then have "AutoCircFindNextAvailFrame a = Some (find_result a None)"
      using assms(2) by (auto simp: AutoCircFindNextAvailFrame_def find_result_def in_ring_def Let_def)
    then show ?thesis by blast
  qed
qed

text \<open>
  A preroll adds to the count of the last queued frame, the one before the available frame
  \<open>i\<close>; when that is the active frame, the channel starts again.
\<close>

definition preroll_effect :: "int \<Rightarrow> int \<Rightarrow> INTERNAL_AUTOCIRCULATE_STRUCT \<Rightarrow> INTERNAL_AUTOCIRCULATE_STRUCT" where
  "preroll_effect n i a =
     (let j = KAUTO_PREVFRAME i a;
          a = a\<lparr>nextTransferFrame := u32_of i\<rparr>;
          a = (if j = activeFrame a
               then a\<lparr>state := NTV2_AUTOCIRCULATE_STARTING, nextAudioOutputAddress := 0\<rparr>
               else a)
      in upd_stamps (\<lambda>f. f\<lparr>validCount := wrap32 (validCount f + n)\<rparr>) {j} a)"

lemma preroll_channel:
  assumes "circ_ok s" and "\<not> ILLEGAL_CHANNELSPEC c" and "\<not> recording (chan s c)"
    and "AutoCircFindNextAvailFrame (chan s c) = Some (find_result (chan s c) (Some i))"
    and "in_ring (chan s c) i" and "in_ring (chan s c) (activeFrame (chan s c)) \<or> activeFrame (chan s c) = INVALID_FRAME"
    and "i \<noteq> activeFrame (chan s c)"
  shows "\<exists>r. AutoCircPreroll_channel n k c s = Some (NTV2_STATUS_SUCCESS,
    s\<lparr>hw := r, autoCirculate := (autoCirculate s)[c := preroll_effect n i (chan s c)]\<rparr>)"
proof -
  define a where "a = chan s c"
  define b where "b = a\<lparr>nextTransferFrame := u32_of i\<rparr>"
  define j where "j = KAUTO_PREVFRAME i a"
  have ring: "ring_ok a"
    using chan_ok_ring [OF circ_ok_chan [OF assms(1) legal_less [OF assms(2)]]] by (simp add: a_def)
  have i: "in_ring a i" and j: "in_ring a j"
    using assms(5) in_ring_prev [OF ring] by (simp_all add: a_def j_def)
  have act: "u32_of x = u32_of (activeFrame a) \<longleftrightarrow> x = activeFrame a" if "in_ring a x" for x
  proof (cases "in_ring a (activeFrame a)")
    case True
    with that show ?thesis by (simp add: in_ring_word_eq [OF ring])
  next
    case False
    then have "activeFrame a = INVALID_FRAME" using assms(6) by (simp add: a_def)
    moreover have "uint (u32_of x) = x" and "x < 512"
      using in_ring_word(2) [OF ring that] in_ring_bounds [OF ring that] by simp_all
    moreover have "uint (u32_of INVALID_FRAME) = 4294967295"
      unfolding u32_of_def uint_word_of_int by simp
    ultimately show ?thesis
      using in_ring_bounds [OF ring that] by auto
  qed
  have prev: "KAUTO_PREVFRAME x b = KAUTO_PREVFRAME x a" for x
    by (simp add: KAUTO_PREVFRAME_def b_def)
  have upd: "fs_upd f j b' = Some (upd_stamps f {j} b')" if "same_ring a b'" for f b'
    using ring j that by (simp add: fs_upd_ring same_ring_ok same_ring_in upd_stamps_single)
  have same: "same_ring a b" "same_ring a (b\<lparr>state := v, nextAudioOutputAddress := w\<rparr>)" for v w
    by (simp_all add: b_def same_ring_def)
  have ne: "i \<noteq> activeFrame a" using assms(7) by (simp add: a_def)
  have s32: "s32 (u32_of i) = i" and uj: "uint (u32_of j) = j"
    using in_ring_word(1) [OF ring i] in_ring_word(2) [OF ring j] by simp_all
  have find: "AutoCircFindNextAvailFrame a = Some (True, b)" and rec: "\<not> recording a"
    using assms(3,4) by (simp_all add: a_def b_def find_result_def)
  have ntf: "nextTransferFrame b = u32_of i" and actb: "activeFrame b = activeFrame a"
    by (simp_all add: b_def)
  define r where "r = (if j = activeFrame a \<and> IsAudioPlaying (hw s) (audioSystem b)
                       then StopAudioPlayback (hw s) (audioSystem b) else hw s)"
  have get: "ac_get s c = Some a" and len: "c < length (autoCirculate s)"
    using assms(1) legal_less [OF assms(2)] by (simp_all add: ac_get_chan a_def)
  note facts = AutoCircPreroll_channel_def get ac_put_def arr_set_Some Let_def ntf actb prev s32 j_def [symmetric]
    preroll_effect_def b_def [symmetric] r_def
  show ?thesis
  proof (cases "j = activeFrame a")
    case True
    show ?thesis
      using len rec find ne act [OF i] uj [unfolded True] upd [unfolded True] same True
      by (intro exI [of _ r]) (simp add: facts a_def [symmetric])
  next
    case False
    show ?thesis
      using len rec find ne act [OF i] act [OF j] uj upd same False
      by (intro exI [of _ r]) (simp add: facts a_def [symmetric])
  qed
qed

lemma preroll_chan_ok:
  assumes "chan_ok c a" and "in_ring a i" and "i \<noteq> activeFrame a"
    and "state a = NTV2_AUTOCIRCULATE_INIT \<or> state a \<noteq> NTV2_AUTOCIRCULATE_DISABLED \<and> in_ring a (activeFrame a) \<and>
          in_ring a (nextFrame a)"
  shows "chan_ok c (preroll_effect n i a)"
proof (rule chan_ok_same_ring [OF assms(1)])
  have ring: "ring_ok a" by (rule chan_ok_ring [OF assms(1)])
  show same: "same_ring a (preroll_effect n i a)"
    by (simp add: preroll_effect_def same_ring_def upd_stamps_def Let_def)
  show "INVALID_FRAME \<le> nextFrame (preroll_effect n i a)"
    using assms(1) by (simp add: preroll_effect_def Let_def chan_ok_def)
  have "KAUTO_PREVFRAME i a \<noteq> activeFrame a" if "state a = NTV2_AUTOCIRCULATE_INIT"
    using that assms(1) in_ring_prev [OF ring assms(2)] in_ring_bounds [OF ring, of "KAUTO_PREVFRAME i a"]
    by (auto simp: chan_ok_def position_ok_def)
  then show "position_ok (preroll_effect n i a)"
    unfolding position_ok_def same_ring_in [OF same] using assms(1,4)
    by (auto simp: preroll_effect_def Let_def chan_ok_def position_ok_def
        split: NTV2AutoCirculateState.splits if_splits)
qed

interpretation preroll: gang_keep "AutoCircPreroll_channel n" "\<lambda>_ _. True" circ_ok
proof (unfold_locales, goal_cases)
  case (1 s c k)
  note less = legal_less [OF 1(2)] and ok = circ_ok_chan [OF 1(1) legal_less [OF 1(2)]]
  let ?a = "chan s c"
  show ?case
  proof (cases "recording ?a")
    case True
    then show ?thesis using 1 less by (simp add: AutoCircPreroll_channel_def)
  next
    case False
    obtain x where x: "AutoCircFindNextAvailFrame ?a = Some (find_result ?a x)"
      "\<And>i. x = Some i \<Longrightarrow> in_ring ?a i \<and> (state ?a = NTV2_AUTOCIRCULATE_INIT \<or>
         state ?a \<noteq> NTV2_AUTOCIRCULATE_DISABLED \<and> in_ring ?a (activeFrame ?a) \<and> in_ring ?a (nextFrame ?a) \<and> i \<noteq> activeFrame ?a)"
      using find_next_cases [OF ok False] by blast
    show ?thesis
    proof (cases x)
      case None
      have "circ_ok (s\<lparr>autoCirculate := (autoCirculate s)[c := ?a]\<rparr>)"
        by (rule circ_ok_put [OF 1(1) ok]) simp_all
      then show ?thesis
        using 1(1) less False x(1) None by (simp add: AutoCircPreroll_channel_def find_result_def)
    next
      case (Some i)
      have pos: "position_ok ?a" and ring: "ring_ok ?a"
        using ok by (simp_all add: chan_ok_def)
      have ne: "i \<noteq> activeFrame ?a" and act: "in_ring ?a (activeFrame ?a) \<or> activeFrame ?a = INVALID_FRAME"
        using x(2) [OF Some] pos in_ring_bounds [OF ring, of i] by (auto simp: position_ok_def)
      obtain r where r: "AutoCircPreroll_channel n k c s = Some (NTV2_STATUS_SUCCESS,
          s\<lparr>hw := r, autoCirculate := (autoCirculate s)[c := preroll_effect n i ?a]\<rparr>)"
        using preroll_channel [OF 1(1,2) False x(1) [unfolded Some] _ act ne] x(2) [OF Some] by blast
      have "chan_ok c (preroll_effect n i ?a)"
        using preroll_chan_ok [OF ok _ ne] x(2) [OF Some] by blast
      then have "circ_ok (s\<lparr>hw := r, autoCirculate := (autoCirculate s)[c := preroll_effect n i ?a]\<rparr>)"
        by (rule circ_ok_put [OF 1(1)]) simp_all
      with r show ?thesis by simp
    qed
  qed
qed

end
