(* ===== verification/Ntv2Virtual.thy ===== *)
theory Ntv2Virtual
  imports Ntv2AutoSetup
begin

text \<open>
  The virtual registers hold the driver's own state, in the same number space as the
  hardware. The operations on the hardware leave them alone: \<open>virt_same r0 r\<close> says that the
  virtual registers of \<open>r\<close> are those of \<open>r0\<close>, and the rules of \<open>virt_simps\<close> drop the operations
  from \<open>r\<close>.
\<close>

named_theorems virt_simps \<open>operations that keep the virtual registers\<close>

definition virt_same :: "regs \<Rightarrow> regs \<Rightarrow> bool" where
  "virt_same r0 r \<longleftrightarrow> (\<forall>n. VIRTUALREG_START \<le> n \<longrightarrow> r n = r0 n)"

lemma virt_same_refl [simp]: "virt_same r r"
  by (simp add: virt_same_def)

lemma virt_same_read: "virt_same r0 r \<Longrightarrow> VIRTUALREG_START \<le> n \<Longrightarrow> r n = r0 n"
  by (simp add: virt_same_def)

lemma virt_same_trans: "virt_same r0 r1 \<Longrightarrow> virt_same r1 r2 \<Longrightarrow> virt_same r0 r2"
  by (simp add: virt_same_def)

lemma virt_write [virt_simps]:
  "m < VIRTUALREG_START \<Longrightarrow> virt_same r0 (ntv2WriteRegister r m v) = virt_same r0 r"
  "m < VIRTUALREG_START \<Longrightarrow> virt_same r0 (ntv2WriteRegisterMS r m v k s) = virt_same r0 r"
proof -
  have ne: "VIRTUALREG_START \<le> n \<Longrightarrow> n \<noteq> m" if "m < VIRTUALREG_START" for n
    using that by auto
  show "m < VIRTUALREG_START \<Longrightarrow> virt_same r0 (ntv2WriteRegister r m v) = virt_same r0 r"
    using ne by (auto simp: virt_same_def reg_simps)
  show "m < VIRTUALREG_START \<Longrightarrow> virt_same r0 (ntv2WriteRegisterMS r m v k s) = virt_same r0 r"
    using ne by (auto simp: virt_same_def)
qed

text \<open>The same for a block of code, backwards.\<close>

lemma virt_let: "virt_same r0 e \<Longrightarrow> (\<And>r. virt_same r0 r \<Longrightarrow> virt_same r0 (f r)) \<Longrightarrow> virt_same r0 (let r = e in f r)"
  by simp

lemma virt_ifI: "(b \<Longrightarrow> virt_same r0 r1) \<Longrightarrow> (\<not> b \<Longrightarrow> virt_same r0 r2) \<Longrightarrow> virt_same r0 (if b then r1 else r2)"
  by simp

lemma virt_case_prod:
  "virt_same r0 (snd e) \<Longrightarrow> (\<And>a r. virt_same r0 r \<Longrightarrow> virt_same r0 (snd (f a r))) \<Longrightarrow>
   virt_same r0 (snd (let (a, r) = e in f a r))"
  by (cases e) simp

lemma virt_foldI:
  assumes "virt_same r0 r" and "\<And>x r. x \<in> set xs \<Longrightarrow> virt_same r0 r \<Longrightarrow> virt_same r0 (f x r)"
  shows "virt_same r0 (fold f xs r)"
  using assms by (induction xs arbitrary: r) simp_all

lemma virt_if [virt_simps]:
  "virt_same r0 (if b then r1 else r2) = (if b then virt_same r0 r1 else virt_same r0 r2)"
  by simp

lemma snd_if [virt_simps]: "snd (if b then x else y) = (if b then snd x else snd y)"
  by simp

section \<open>Register numbers from a table\<close>

lemma tbl_less:
  assumes "\<forall>x\<in>set xs. x \<le> (9000 :: u32)" and "i < length xs" and "k \<le> 900"
  shows "tbl xs i + k < VIRTUALREG_START"
proof -
  have "tbl xs i \<le> 9000" using assms(1,2) by simp
  then have "unat (tbl xs i) \<le> 9000" "unat k \<le> 900"
    using assms(3) by (simp_all add: word_le_nat_alt)
  then have "unat (tbl xs i + k) = unat (tbl xs i) + unat k"
    by (intro unat_add_lem [THEN iffD1]) simp
  with \<open>unat (tbl xs i) \<le> 9000\<close> \<open>unat k \<le> 900\<close> show ?thesis
    by (simp add: word_less_nat_alt)
qed

lemma tbl_less_0:
  assumes "\<forall>x\<in>set xs. x \<le> (9000 :: u32)" and "i < length xs"
  shows "tbl xs i < VIRTUALREG_START"
  using tbl_less [OF assms, of 0] by simp

lemma anc_tables [virt_simps]:
  "ch < 9 \<Longrightarrow> k \<le> 900 \<Longrightarrow> tbl gChannelToAncExtOffset ch + k < VIRTUALREG_START"
  "ch < 9 \<Longrightarrow> k \<le> 900 \<Longrightarrow> tbl gChannelToAncInsOffset ch + k < VIRTUALREG_START"
  "ch < 5 \<Longrightarrow> k \<le> 900 \<Longrightarrow> tbl gChannelToAuxExtOffset ch + k < VIRTUALREG_START"
  by (intro tbl_less; simp add: gChannelToAncExtOffset_def gChannelToAncInsOffset_def gChannelToAuxExtOffset_def)+

lemma anc_tables_0 [virt_simps]:
  "ch < 9 \<Longrightarrow> tbl gChannelToAncExtOffset ch < VIRTUALREG_START"
  "ch < 9 \<Longrightarrow> tbl gChannelToAncInsOffset ch < VIRTUALREG_START"
  "ch < 5 \<Longrightarrow> tbl gChannelToAuxExtOffset ch < VIRTUALREG_START"
  by (intro tbl_less_0; simp add: gChannelToAncExtOffset_def gChannelToAncInsOffset_def gChannelToAuxExtOffset_def)+

lemma control_tables [virt_simps]:
  "ch < 8 \<Longrightarrow> tbl gChannelToControlRegNum ch < VIRTUALREG_START"
  "ch < 8 \<Longrightarrow> tbl gChannelToRP188ModeGCRegisterNum ch < VIRTUALREG_START"
  "ch < 8 \<Longrightarrow> tbl gAudioControlReg ch < VIRTUALREG_START"
  by (intro tbl_less_0; simp add: gChannelToControlRegNum_def gChannelToRP188ModeGCRegisterNum_def gAudioControlReg_def)+

section \<open>The operations\<close>

lemma virt_control [virt_simps]:
  "ch < 8 \<Longrightarrow> virt_same r0 (SetMode r ch v) = virt_same r0 r"
  "ch < 8 \<Longrightarrow> virt_same r0 (SetRP188Mode r ch v) = virt_same r0 r"
  by (simp_all add: virt_simps SetMode_def SetRP188Mode_def Let_def)

lemma virt_audio_update [virt_simps]:
  "m < VIRTUALREG_START \<Longrightarrow> virt_same r0 (AudioUpdateRegister r m v w) = virt_same r0 r"
  by (simp add: virt_simps AudioUpdateRegister_def Let_def)

lemma virt_audio [virt_simps]:
  "sys < 8 \<Longrightarrow> virt_same r0 (StartAudioPlayback r sys) = virt_same r0 r"
  "sys < 8 \<Longrightarrow> virt_same r0 (StopAudioPlayback r sys) = virt_same r0 r"
  "sys < 8 \<Longrightarrow> virt_same r0 (PauseAudioPlayback r sys) = virt_same r0 r"
  "sys < 8 \<Longrightarrow> virt_same r0 (UnPauseAudioPlayback r sys) = virt_same r0 r"
  "sys < 8 \<Longrightarrow> virt_same r0 (StartAudioCapture r sys) = virt_same r0 r"
  "sys < 8 \<Longrightarrow> virt_same r0 (StopAudioCapture r sys) = virt_same r0 r"
  by (simp_all add: virt_simps Let_def GetAudioControlRegister_def StartAudioPlayback_def StopAudioPlayback_def
      PauseAudioPlayback_def UnPauseAudioPlayback_def StartAudioCapture_def StopAudioCapture_def)

lemma virt_anc_extractor [virt_simps]:
  "ch < 9 \<Longrightarrow> virt_same r0 (EnableAncExtractor r ch b) = virt_same r0 r"
  "ch < 9 \<Longrightarrow> virt_same r0 (EnableAncExtHancY r ch b) = virt_same r0 r"
  "ch < 9 \<Longrightarrow> virt_same r0 (EnableAncExtHancC r ch b) = virt_same r0 r"
  "ch < 9 \<Longrightarrow> virt_same r0 (EnableAncExtVancY r ch b) = virt_same r0 r"
  "ch < 9 \<Longrightarrow> virt_same r0 (EnableAncExtVancC r ch b) = virt_same r0 r"
  "ch < 9 \<Longrightarrow> virt_same r0 (SetAncExtSDDemux r ch b) = virt_same r0 r"
  "ch < 9 \<Longrightarrow> virt_same r0 (SetAncExtProgressive r ch b) = virt_same r0 r"
  "ch < 9 \<Longrightarrow> virt_same r0 (SetAncExtSynchro r ch) = virt_same r0 r"
  "ch < 9 \<Longrightarrow> virt_same r0 (SetAncExtLSBEnable r ch b) = virt_same r0 r"
  "ch < 9 \<Longrightarrow> virt_same r0 (SetAncExtField1StartAddr r ch v) = virt_same r0 r"
  "ch < 9 \<Longrightarrow> virt_same r0 (SetAncExtField1EndAddr r ch v) = virt_same r0 r"
  "ch < 9 \<Longrightarrow> virt_same r0 (SetAncExtField2StartAddr r ch v) = virt_same r0 r"
  "ch < 9 \<Longrightarrow> virt_same r0 (SetAncExtField2EndAddr r ch v) = virt_same r0 r"
  "ch < 9 \<Longrightarrow> virt_same r0 (SetAncExtField1CutoffLine r ch v) = virt_same r0 r"
  "ch < 9 \<Longrightarrow> virt_same r0 (SetAncExtField2CutoffLine r ch v) = virt_same r0 r"
  "ch < 9 \<Longrightarrow> virt_same r0 (SetAncExtField1StartLine r ch v) = virt_same r0 r"
  "ch < 9 \<Longrightarrow> virt_same r0 (SetAncExtField2StartLine r ch v) = virt_same r0 r"
  "ch < 9 \<Longrightarrow> virt_same r0 (SetAncExtTotalFrameLines r ch v) = virt_same r0 r"
  "ch < 9 \<Longrightarrow> virt_same r0 (SetAncExtFidLow r ch v) = virt_same r0 r"
  "ch < 9 \<Longrightarrow> virt_same r0 (SetAncExtFidHi r ch v) = virt_same r0 r"
  "ch < 9 \<Longrightarrow> virt_same r0 (SetAncExtField1AnalogStartLine r ch v) = virt_same r0 r"
  "ch < 9 \<Longrightarrow> virt_same r0 (SetAncExtField2AnalogStartLine r ch v) = virt_same r0 r"
  "ch < 9 \<Longrightarrow> virt_same r0 (SetAncExtField1AnalogYFilter r ch v) = virt_same r0 r"
  "ch < 9 \<Longrightarrow> virt_same r0 (SetAncExtField2AnalogYFilter r ch v) = virt_same r0 r"
  "ch < 9 \<Longrightarrow> virt_same r0 (SetAncExtField1AnalogCFilter r ch v) = virt_same r0 r"
  "ch < 9 \<Longrightarrow> virt_same r0 (SetAncExtField2AnalogCFilter r ch v) = virt_same r0 r"
  by (simp_all add: virt_simps Let_def 
      EnableAncExtractor_def EnableAncExtHancY_def EnableAncExtHancC_def EnableAncExtVancY_def
      EnableAncExtVancC_def SetAncExtSDDemux_def SetAncExtProgressive_def SetAncExtSynchro_def
      SetAncExtLSBEnable_def SetAncExtField1StartAddr_def SetAncExtField1EndAddr_def
      SetAncExtField2StartAddr_def SetAncExtField2EndAddr_def SetAncExtField1CutoffLine_def
      SetAncExtField2CutoffLine_def SetAncExtField1StartLine_def SetAncExtField2StartLine_def
      SetAncExtTotalFrameLines_def SetAncExtFidLow_def SetAncExtFidHi_def
      SetAncExtField1AnalogStartLine_def SetAncExtField2AnalogStartLine_def
      SetAncExtField1AnalogYFilter_def SetAncExtField2AnalogYFilter_def
      SetAncExtField1AnalogCFilter_def SetAncExtField2AnalogCFilter_def)

lemma virt_anc_inserter [virt_simps]:
  "ch < 9 \<Longrightarrow> virt_same r0 (EnableAncInserter r ch b) = virt_same r0 r"
  "ch < 9 \<Longrightarrow> virt_same r0 (SetAncInsField1Bytes r ch v) = virt_same r0 r"
  "ch < 9 \<Longrightarrow> virt_same r0 (SetAncInsField2Bytes r ch v) = virt_same r0 r"
  "ch < 9 \<Longrightarrow> virt_same r0 (EnableAncInsHancY r ch b) = virt_same r0 r"
  "ch < 9 \<Longrightarrow> virt_same r0 (EnableAncInsHancC r ch b) = virt_same r0 r"
  "ch < 9 \<Longrightarrow> virt_same r0 (EnableAncInsVancY r ch b) = virt_same r0 r"
  "ch < 9 \<Longrightarrow> virt_same r0 (EnableAncInsVancC r ch b) = virt_same r0 r"
  "ch < 9 \<Longrightarrow> virt_same r0 (SetAncInsProgressive r ch b) = virt_same r0 r"
  "ch < 9 \<Longrightarrow> virt_same r0 (SetAncInsSDPacketSplit r ch b) = virt_same r0 r"
  "ch < 9 \<Longrightarrow> virt_same r0 (SetAncInsField1StartAddr r ch v) = virt_same r0 r"
  "ch < 9 \<Longrightarrow> virt_same r0 (SetAncInsField2StartAddr r ch v) = virt_same r0 r"
  "ch < 9 \<Longrightarrow> virt_same r0 (SetAncInsHancPixelDelay r ch v) = virt_same r0 r"
  "ch < 9 \<Longrightarrow> virt_same r0 (SetAncInsVancPixelDelay r ch v) = virt_same r0 r"
  "ch < 9 \<Longrightarrow> virt_same r0 (SetAncInsField1ActiveLine r ch v) = virt_same r0 r"
  "ch < 9 \<Longrightarrow> virt_same r0 (SetAncInsField2ActiveLine r ch v) = virt_same r0 r"
  "ch < 9 \<Longrightarrow> virt_same r0 (SetAncInsHActivePixels r ch v) = virt_same r0 r"
  "ch < 9 \<Longrightarrow> virt_same r0 (SetAncInsHTotalPixels r ch v) = virt_same r0 r"
  "ch < 9 \<Longrightarrow> virt_same r0 (SetAncInsTotalLines r ch v) = virt_same r0 r"
  "ch < 9 \<Longrightarrow> virt_same r0 (SetAncInsFidHi r ch v) = virt_same r0 r"
  "ch < 9 \<Longrightarrow> virt_same r0 (SetAncInsFidLow r ch v) = virt_same r0 r"
  by (simp_all add: virt_simps Let_def 
      EnableAncInserter_def SetAncInsField1Bytes_def SetAncInsField2Bytes_def EnableAncInsHancY_def
      EnableAncInsHancC_def EnableAncInsVancY_def EnableAncInsVancC_def SetAncInsProgressive_def
      SetAncInsSDPacketSplit_def SetAncInsField1StartAddr_def SetAncInsField2StartAddr_def
      SetAncInsHancPixelDelay_def SetAncInsVancPixelDelay_def SetAncInsField1ActiveLine_def
      SetAncInsField2ActiveLine_def SetAncInsHActivePixels_def SetAncInsHTotalPixels_def
      SetAncInsTotalLines_def SetAncInsFidHi_def SetAncInsFidLow_def)

lemma virt_aux [virt_simps]:
  "ch < 5 \<Longrightarrow> virt_same r0 (EnableAuxExtractor r ch b) = virt_same r0 r"
  "ch < 5 \<Longrightarrow> virt_same r0 (SetAuxExtProgressive r ch b) = virt_same r0 r"
  "ch < 5 \<Longrightarrow> virt_same r0 (SetAuxExtSynchro r ch) = virt_same r0 r"
  "ch < 5 \<Longrightarrow> virt_same r0 (SetAuxExtField1StartAddr r ch v) = virt_same r0 r"
  "ch < 5 \<Longrightarrow> virt_same r0 (SetAuxExtField1EndAddr r ch v) = virt_same r0 r"
  "ch < 5 \<Longrightarrow> virt_same r0 (SetAuxExtField2StartAddr r ch v) = virt_same r0 r"
  "ch < 5 \<Longrightarrow> virt_same r0 (SetAuxExtField1StartLine r ch v) = virt_same r0 r"
  "ch < 5 \<Longrightarrow> virt_same r0 (SetAuxExtField2StartLine r ch v) = virt_same r0 r"
  "ch < 5 \<Longrightarrow> virt_same r0 (SetAuxExtTotalFrameLines r ch v) = virt_same r0 r"
  "ch < 5 \<Longrightarrow> virt_same r0 (SetAuxExtFidLow r ch v) = virt_same r0 r"
  "ch < 5 \<Longrightarrow> virt_same r0 (SetAuxExtFidHi r ch v) = virt_same r0 r"
  by (simp_all add: virt_simps Let_def 
      EnableAuxExtractor_def SetAuxExtProgressive_def SetAuxExtSynchro_def
      SetAuxExtField1StartAddr_def SetAuxExtField1EndAddr_def SetAuxExtField2StartAddr_def
      SetAuxExtField1StartLine_def SetAuxExtField2StartLine_def SetAuxExtTotalFrameLines_def
      SetAuxExtFidLow_def SetAuxExtFidHi_def)

lemma virt_setup [virt_simps]:
  "ch < 9 \<Longrightarrow> virt_same r0 (snd (SetupAncExtractor F r ch)) = virt_same r0 r"
  "ch < 9 \<Longrightarrow> virt_same r0 (snd (SetupAncInserter F r ch)) = virt_same r0 r"
  "ch < 5 \<Longrightarrow> virt_same r0 (snd (SetupAuxExtractor F r ch)) = virt_same r0 r"
  by (simp_all add: virt_simps Let_def 
      SetupAncExtractor_def SetupAncInserter_def SetupAuxExtractor_def)

end
