(* ===== verification/Ntv2AutoInitInv.thy ===== *)
theory Ntv2AutoInitInv
  imports Ntv2AutoPreroll Ntv2Virtual
begin

text \<open>
  \<open>AutoCircInit\<close> of driver/ntv2autocirc.c: under which conditions it succeeds, and the
  channels it leaves. The virtual registers that the code reads while it writes hardware
  registers are unchanged by those writes (theory Ntv2Virtual).
\<close>

lemma virt_modes:
  assumes "virt_same r0 r"
  shows "virt_same r0 (AutoCircInit_modes F d c r)"
proof -
  have "virt_same r0 (SetMode r' ch m)" if "virt_same r0 r'" "ch < 8" for r' ch m
    using that by (simp add: virt_simps)
  then show ?thesis
    using assms channel_less [of c]
    unfolding AutoCircInit_modes_def Let_def [of "if NTV2_IS_INPUT_CROSSPOINT c then _ else _"]
    by (intro virt_let virt_ifI) simp_all
qed

lemma virt_init_audio:
  "audioSystem a < 8 \<Longrightarrow> virt_same r0 r \<Longrightarrow> virt_same r0 (snd (AutoCircInit_audio a r))"
  by (simp add: AutoCircInit_audio_def virt_simps)

lemma virt_rp188:
  assumes "NTV2DeviceGetNumVideoOutputs F d \<le> 8" and "ch < 8" and "virt_same r0 r"
  shows "virt_same r0 (AutoCircInit_rp188 F d ch a r)"
  unfolding AutoCircInit_rp188_def
  using assms by (intro virt_ifI virt_let virt_foldI) (auto simp: virt_simps RP188_output_def)

lemma virt_inserters:
  assumes "ch < 8" and "virt_same r0 r"
  shows "virt_same r0 (AncInserter_on F ch r)" and "virt_same r0 (AncInserter_off ch r)"
  using assms by (simp_all add: AncInserter_on_def AncInserter_off_def Let_def virt_simps)

lemma virt_init_anc:
  assumes "NTV2DeviceGetNumVideoOutputs F d \<le> 8" and "ch < 8" and "anc \<le> 8"
    and "circulateWithHDMIAux a \<Longrightarrow> anc < 5 \<or> anc = 8" and "virt_same r0 r"
  shows "virt_same r0 (snd (AutoCircInit_anc F d ch anc a r))"
proof -
  have on: "virt_same r0 (snd (AutoCircInit_anc_on F d ch anc a r))"
    unfolding AutoCircInit_anc_on_def if_distrib [of snd] snd_conv
    using assms virt_inserters
    by (intro virt_ifI virt_let virt_foldI) (auto simp: virt_simps NTV2_IS_VALID_CHANNEL_def)
  have off: "virt_same r0 (AutoCircInit_anc_off F d ch anc a r)"
    unfolding AutoCircInit_anc_off_def
    using assms virt_inserters
    by (intro virt_ifI virt_let virt_foldI) (auto simp: virt_simps NTV2_IS_VALID_CHANNEL_def)
  show ?thesis
    unfolding AutoCircInit_anc_def
    using on off assms(3,5) by (intro virt_case_prod) (auto simp: virt_simps)
qed

section \<open>The channel\<close>

text \<open>A change outside the ring, the frame stamps and the counters.\<close>

definition same_core :: "INTERNAL_AUTOCIRCULATE_STRUCT \<Rightarrow> INTERNAL_AUTOCIRCULATE_STRUCT \<Rightarrow> bool" where
  "same_core a b \<longleftrightarrow> same_ring a b \<and> frameStamp b = frameStamp a \<and> nextFrame b = nextFrame a \<and>
     framesProcessed b = framesProcessed a \<and> droppedFrames b = droppedFrames a"

lemma same_core_trans: "same_core a b \<Longrightarrow> same_core b c \<Longrightarrow> same_core a c"
  by (auto simp: same_core_def dest: same_ring_trans)

lemma audio_core: "same_core a (fst (AutoCircInit_audio a r))"
  by (simp add: AutoCircInit_audio_def same_core_def) (simp add: same_ring_def)

lemma audio_aux: "circulateWithHDMIAux (fst (AutoCircInit_audio a r)) = circulateWithHDMIAux a"
  by (simp add: AutoCircInit_audio_def)

lemma anc_core: "same_core a (fst (AutoCircInit_anc F d ch anc a r))"
  by (auto simp: AutoCircInit_anc_def AutoCircInit_anc_on_def same_core_def same_ring_def Let_def)

text \<open>What the virtual registers and the arguments must satisfy.\<close>

definition init_env :: "features \<Rightarrow> init_args \<Rightarrow> NTV2AutoCirc \<Rightarrow> bool" where
  "init_env F p s \<longleftrightarrow>
     NTV2DeviceGetNumVideoOutputs F (acDeviceID s) \<le> 8 \<and> lAudioSystem p < 8 \<and>
     (standard_tasks (hw s) \<longrightarrow>
        uint (hw s kVRegCustomAncInputSelect) < 14 \<and>
        (bWithHDMIAux p \<longrightarrow> (let anc = gNTV2InputSourceToANCChannel ! unat (hw s kVRegCustomAncInputSelect)
                            in anc < 5 \<or> anc = NTV2_CHANNEL_INVALID)))"

definition init_pre :: "init_args \<Rightarrow> u32 \<Rightarrow> nat \<Rightarrow> INTERNAL_AUTOCIRCULATE_STRUCT \<Rightarrow> bool" where
  "init_pre p channelRange k a \<longleftrightarrow>
     state a = NTV2_AUTOCIRCULATE_DISABLED \<and>
     0 \<le> AutoCircInit_frame (lStartFrameNum p) k channelRange \<and>
     AutoCircInit_frame (lStartFrameNum p) k channelRange \<le> AutoCircInit_frame (lEndFrameNum p) k channelRange \<and>
     AutoCircInit_frame (lEndFrameNum p) k channelRange < MAX_FRAMEBUFFERS \<and>
     (k = 0 \<longrightarrow> 0 \<le> lChannelCount p \<and> unat (GetIndexForNTV2Crosspoint (channelSpec a)) + nat (lChannelCount p) \<le> 16 \<and>
        (bWithHDMIAux p \<longrightarrow> GetNTV2ChannelForNTV2Crosspoint (channelSpec a) < 5))"

definition init_post :: "init_args \<Rightarrow> u32 \<Rightarrow> nat \<Rightarrow> INTERNAL_AUTOCIRCULATE_STRUCT \<Rightarrow> INTERNAL_AUTOCIRCULATE_STRUCT \<Rightarrow> bool" where
  "init_post p channelRange k a a' \<longleftrightarrow>
     state a' = NTV2_AUTOCIRCULATE_INIT \<and> activeFrame a' = INVALID_FRAME \<and>
     channelSpec a' = channelSpec a \<and> recording a' = recording a \<and>
     startFrame a' = AutoCircInit_frame (lStartFrameNum p) k channelRange \<and>
     endFrame a' = AutoCircInit_frame (lEndFrameNum p) k channelRange \<and>
     channelCount a' = (if k = 0 then lChannelCount p else 0) \<and>
     framesProcessed a' = 0 \<and> droppedFrames a' = 0 \<and>
     (\<forall>i. in_ring a' i \<longrightarrow> validCount (stamp a' i) = 0)"

lemma reset_run:
  assumes "circ_ok s" and "\<not> ILLEGAL_CHANNELSPEC c"
  shows "AutoCircReset c s = Some (s\<lparr>autoCirculate := (autoCirculate s)[c := reset_channel c],
    hw := (hw s)(kVRegChannelCrosspointFirst + of_nat (GetNTV2ChannelForNTV2Crosspoint c) := of_nat NTV2CROSSPOINT_INVALID)\<rparr>)"
  using assms legal_less [OF assms(2)]
  by (simp add: AutoCircReset_def ac_get_chan ac_put_def arr_set_Some upd_hw_def reg_simps)

lemma init_record_core:
  fixes p k channelRange c
  defines "a \<equiv> AutoCircInit_record p channelRange k c (reset_channel c)"
  shows "startFrame a = AutoCircInit_frame (lStartFrameNum p) k channelRange"
    and "endFrame a = AutoCircInit_frame (lEndFrameNum p) k channelRange"
    and "channelCount a = (if k = 0 then lChannelCount p else 0)" and "channelSpec a = c"
    and "recording a = NTV2_IS_INPUT_CROSSPOINT c" and "activeFrameRegister a = activeFrameRegister (reset_channel c)"
    and "nextFrame a = 0" and "framesProcessed a = 0" and "droppedFrames a = 0"
    and "audioSystem a = lAudioSystem p" and "circulateWithHDMIAux a = (k = 0 \<and> bWithHDMIAux p)"
    and "frameStamp a = replicate 512 (zero_frameStamp\<lparr>internalTCArray := ones_INTERNAL_TIMECODE_STRUCT\<rparr>)"
    and "transferFrame a = 0"
  by (simp_all add: a_def AutoCircInit_record_def reset_channel_def Let_def zero_autoCirculate_def)

lemma init_chan:
  assumes "init_pre p channelRange k a0" and "identity_ok c a0"
    and "same_core (AutoCircInit_record p channelRange k c (reset_channel c)) a"
  shows "chan_ok c (a\<lparr>activeFrame := INVALID_FRAME, state := NTV2_AUTOCIRCULATE_INIT\<rparr>)" (is "chan_ok c ?a")
    and "init_post p channelRange k a0 (a\<lparr>activeFrame := INVALID_FRAME, state := NTV2_AUTOCIRCULATE_INIT\<rparr>)"
proof -
  have a: "startFrame a = AutoCircInit_frame (lStartFrameNum p) k channelRange"
    "endFrame a = AutoCircInit_frame (lEndFrameNum p) k channelRange"
    "channelCount a = (if k = 0 then lChannelCount p else 0)" "channelSpec a = c"
    "recording a = NTV2_IS_INPUT_CROSSPOINT c" "activeFrameRegister a = activeFrameRegister (reset_channel c)"
    "nextFrame a = 0" "framesProcessed a = 0" "droppedFrames a = 0" "transferFrame a = 0"
    using assms(3) init_record_core [where p = p and k = k and channelRange = channelRange and c = c]
    by (simp_all add: same_core_def same_ring_def)
  have fs: "frameStamp a = replicate 512 (zero_frameStamp\<lparr>internalTCArray := ones_INTERNAL_TIMECODE_STRUCT\<rparr>)"
    using assms(3) unfolding same_core_def init_record_core(12) by blast
  have len: "length (frameStamp a) = 512"
    unfolding fs by simp
  have frames: "0 \<le> startFrame a" "startFrame a \<le> endFrame a" "endFrame a < 512"
    using assms(1) unfolding init_pre_def a by simp_all
  have zero: "validCount (stamp ?a i) = 0" if "in_ring ?a i" for i
  proof -
    have "nat i < 512"
      using that frames by (auto simp: in_ring_def nat_less_iff)
    then have "frameStamp a ! nat i = zero_frameStamp\<lparr>internalTCArray := ones_INTERNAL_TIMECODE_STRUCT\<rparr>"
      unfolding fs by (rule nth_replicate)
    then show ?thesis by (simp add: stamp_def zero_frameStamp_def)
  qed
  have spec: "channelSpec a0 = c" "recording a0 = NTV2_IS_INPUT_CROSSPOINT c"
    using assms(2) by (simp_all add: identity_ok_def)
  have count: "0 \<le> channelCount a" "unat (GetIndexForNTV2Crosspoint c) + nat (channelCount a) \<le> 16"
    using assms(1) spec index_less [of c] by (simp_all add: init_pre_def a)
  have ring: "ring_ok ?a"
    using frames len by (simp add: ring_ok_def)
  show "chan_ok c ?a"
    using ring count by (simp add: chan_ok_def identity_ok_def position_ok_def a)
  show "init_post p channelRange k a0 ?a"
    unfolding init_post_def using zero by (simp add: a spec)
qed

lemma anc_source:
  assumes "init_env F p s" and "virt_same (hw s) r" and "ch < 8"
  shows "\<exists>anc. AutoCircInit_ancInput ch r = Some anc \<and> anc \<le> 8 \<and>
    (bWithHDMIAux p \<longrightarrow> ch < 5 \<longrightarrow> anc < 5 \<or> anc = 8)"
proof (cases "standard_tasks (hw s)")
  case True
  define n where "n = unat (hw s kVRegCustomAncInputSelect)"
  define anc where "anc = gNTV2InputSourceToANCChannel ! n"
  have r: "standard_tasks r = standard_tasks (hw s)" "ntv2ReadVirtualRegister r kVRegCustomAncInputSelect = hw s kVRegCustomAncInputSelect"
    using virt_same_read [OF assms(2)] by (simp_all add: standard_tasks_def reg_simps)
  have u: "uint (hw s kVRegCustomAncInputSelect) = int n"
    by (simp add: n_def)
  have e: "int n < 14" "bWithHDMIAux p \<Longrightarrow> anc < 5 \<or> anc = NTV2_CHANNEL_INVALID"
    using assms(1) True unfolding init_env_def u Let_def anc_def n_def [symmetric] by blast+
  have n: "n < 14" using e(1) by simp
  have len: "length gNTV2InputSourceToANCChannel = 14" and small: "\<forall>x\<in>set gNTV2InputSourceToANCChannel. x \<le> 8"
    by (simp_all add: gNTV2InputSourceToANCChannel_def)
  have anc: "anc \<le> 8"
    using small n len by (simp add: anc_def)
  have "AutoCircInit_ancInput ch r = arr_get gNTV2InputSourceToANCChannel (int n)"
    unfolding AutoCircInit_ancInput_def r u Let_def using True by simp
  also have "\<dots> = Some anc"
    using n len by (simp add: arr_get_Some anc_def)
  finally show ?thesis
    using anc e(2) by auto
next
  case False
  have r: "standard_tasks r = standard_tasks (hw s)"
    using virt_same_read [OF assms(2)] by (simp add: standard_tasks_def reg_simps)
  then show ?thesis
    using assms(3) False by (simp add: AutoCircInit_ancInput_def)
qed

section \<open>The loop body\<close>

text \<open>The crosspoint registers of the channels are neither of the two registers of \<open>init_env\<close>.\<close>

lemma init_env_cong:
  assumes "init_env F p s" and "acDeviceID s' = acDeviceID s"
    and "hw s' kVRegEveryFrameTaskFilter = hw s kVRegEveryFrameTaskFilter"
    and "hw s' kVRegCustomAncInputSelect = hw s kVRegCustomAncInputSelect"
  shows "init_env F p s'"
  using assms unfolding init_env_def standard_tasks_def by (simp add: reg_simps)

lemma crosspoint_register:
  assumes "ch < 8"
  shows "kVRegChannelCrosspointFirst + of_nat ch \<noteq> kVRegEveryFrameTaskFilter"
    and "kVRegChannelCrosspointFirst + of_nat ch \<noteq> kVRegCustomAncInputSelect"
proof -
  have "ch = 0 \<or> ch = 1 \<or> ch = 2 \<or> ch = 3 \<or> ch = 4 \<or> ch = 5 \<or> ch = 6 \<or> ch = 7"
    using assms by presburger
  then show "kVRegChannelCrosspointFirst + of_nat ch \<noteq> kVRegEveryFrameTaskFilter"
    and "kVRegChannelCrosspointFirst + of_nat ch \<noteq> kVRegCustomAncInputSelect"
    by (elim disjE; simp)+
qed

interpretation init: gang_op "AutoCircInit_channel F p channelRange" "init_env F p" "init_pre p channelRange"
  "init_post p channelRange"
proof (unfold_locales, goal_cases)
  case (1 s c k)
  note less = legal_less [OF 1(3)] and id = legal_identity [OF 1(1,3)]
  define ch where "ch = GetNTV2ChannelForNTV2Crosspoint c"
  define a0 where "a0 = AutoCircInit_record p channelRange k c (reset_channel c)"
  define r0 where "r0 = (hw s)(kVRegChannelCrosspointFirst + of_nat ch := of_nat NTV2CROSSPOINT_INVALID)"
  define s0 where "s0 = s\<lparr>autoCirculate := (autoCirculate s)[c := reset_channel c], hw := r0\<rparr>"
  define d where "d = acDeviceID s"
  have ch: "ch < 8" using channel_less [of c] by (simp add: ch_def)
  have env0: "init_env F p s0"
    by (rule init_env_cong [OF 1(2)]) (use crosspoint_register [OF ch] in \<open>simp_all add: s0_def r0_def\<close>)
  have outs: "NTV2DeviceGetNumVideoOutputs F d \<le> 8" and sys: "lAudioSystem p < 8"
    using 1(2) by (simp_all add: init_env_def d_def)
  have a0: "audioSystem a0 = lAudioSystem p" "circulateWithHDMIAux a0 = (k = 0 \<and> bWithHDMIAux p)"
    unfolding a0_def by (rule init_record_core)+
  define r1 where "r1 = AutoCircInit_modes F d c r0"
  obtain a2 r2 where au: "AutoCircInit_audio a0 r1 = (a2, r2)" by (cases "AutoCircInit_audio a0 r1")
  have v1: "virt_same r0 r1" unfolding r1_def by (rule virt_modes) simp
  have v2: "virt_same r0 r2" using virt_init_audio [OF _ v1, of a0] a0(1) sys by (simp add: au)
  have hw0: "hw s0 = r0" by (simp add: s0_def)
  obtain anc where anc: "AutoCircInit_ancInput ch r2 = Some anc" "anc \<le> 8"
      "bWithHDMIAux p \<Longrightarrow> ch < 5 \<Longrightarrow> anc < 5 \<or> anc = 8"
    using anc_source [OF env0 _ ch, of r2] v2 by (auto simp: hw0)
  obtain a3 r3 where an: "AutoCircInit_anc F d ch anc a2 r2 = (a3, r3)" by (cases "AutoCircInit_anc F d ch anc a2 r2")
  have aux: "anc < 5 \<or> anc = 8" if "circulateWithHDMIAux a2"
  proof -
    have "k = 0" and "bWithHDMIAux p"
      using that audio_aux [of a0 r1] a0(2) by (simp_all add: au)
    moreover have "ch < 5"
      using 1(4) calculation id by (simp add: init_pre_def identity_ok_def ch_def)
    ultimately show ?thesis by (intro anc(3))
  qed
  have v3: "virt_same r0 r3"
    using virt_init_anc [OF outs ch anc(2) _ v2, of a2] aux by (simp add: an)
  define r4 where "r4 = AutoCircInit_rp188 F d ch a3 r3"
  have v4: "virt_same r0 r4" unfolding r4_def by (rule virt_rp188 [OF outs ch v3])
  define r5 where "r5 = r4(kVRegChannelCrosspointFirst + of_nat ch := of_nat c)"
  define a4 where "a4 = a3\<lparr>activeFrame := INVALID_FRAME, state := NTV2_AUTOCIRCULATE_INIT\<rparr>"
  define s4 where "s4 = s0\<lparr>hw := r5, ancInputChannel := (ancInputChannel s)[ch := anc],
                           autoCirculate := (autoCirculate s)[c := a4]\<rparr>"
  have core: "same_core (AutoCircInit_record p channelRange k c (reset_channel c)) a3"
    by (rule same_core_trans [of _ a2])
      (use audio_core [of a0 r1] anc_core [of a2 F d ch anc r2] in \<open>simp_all add: au an a0_def [symmetric]\<close>)
  have ok: "chan_ok c a4" and post: "init_post p channelRange k (chan s c) a4"
    unfolding a4_def by (rule init_chan [OF 1(4) id core])+
  have run: "AutoCircInit_channel F p channelRange k c s = Some (NTV2_STATUS_SUCCESS, s4)"
  proof -
    have "state (chan s c) = NTV2_AUTOCIRCULATE_DISABLED"
      using 1(4) by (simp add: init_pre_def)
    moreover have "AutoCircReset c s = Some s0"
      using reset_run [OF 1(1,3)] by (simp add: s0_def r0_def ch_def)
    moreover have "ac_get s0 c = Some (reset_channel c)"
      using less circ_ok_length [OF 1(1)] by (simp add: s0_def ac_get_def arr_get_Some)
    moreover have "arr_set (ancInputChannel s0) (int ch) anc = Some ((ancInputChannel s)[ch := anc])"
      using ch circ_ok_ancs [OF 1(1)] by (simp add: s0_def arr_set_Some)
    moreover have "ac_put c a4 (s0\<lparr>hw := r5, ancInputChannel := (ancInputChannel s)[ch := anc]\<rparr>) = Some s4"
      using less circ_ok_length [OF 1(1)] by (simp add: s0_def s4_def ac_put_def arr_set_Some)
    moreover have "acDeviceID s0 = d" by (simp add: s0_def d_def)
    ultimately show ?thesis
      using ac_get_chan [OF 1(1) less] anc(1)
      by (simp add: AutoCircInit_channel_def Let_def ch_def [symmetric] a0_def [symmetric] hw0 r1_def [symmetric]
          au an r4_def [symmetric] a4_def [symmetric] r5_def [symmetric] reg_simps)
  qed
  have "circ_ok s4"
    by (rule circ_ok_put [OF 1(1) ok]) (simp_all add: s4_def s0_def)
  moreover have "init_env F p s4"
  proof (rule init_env_cong [OF env0])
    have "r5 n = r0 n" if "n = kVRegEveryFrameTaskFilter \<or> n = kVRegCustomAncInputSelect" for n
      using that crosspoint_register [OF ch] virt_same_read [OF v4, of n] by (auto simp: r5_def)
    then show "hw s4 kVRegEveryFrameTaskFilter = hw s0 kVRegEveryFrameTaskFilter"
      and "hw s4 kVRegCustomAncInputSelect = hw s0 kVRegCustomAncInputSelect"
      by (simp_all add: s4_def hw0)
  qed (simp add: s4_def)
  moreover have "chan s4 c = a4" and "\<forall>d. d \<noteq> c \<longrightarrow> chan s4 d = chan s d"
    using less circ_ok_length [OF 1(1)] by (simp_all add: s4_def)
  ultimately show ?case
    using post by (simp add: run)
qed

text \<open>
  Whatever the states of the channels: a channel in use stops the loop, and the invariant is
  kept.
\<close>

definition init_frames_ok :: "init_args \<Rightarrow> u32 \<Rightarrow> nat \<Rightarrow> nat \<Rightarrow> bool" where
  "init_frames_ok p channelRange k c \<longleftrightarrow>
     0 \<le> AutoCircInit_frame (lStartFrameNum p) k channelRange \<and>
     AutoCircInit_frame (lStartFrameNum p) k channelRange \<le> AutoCircInit_frame (lEndFrameNum p) k channelRange \<and>
     AutoCircInit_frame (lEndFrameNum p) k channelRange < MAX_FRAMEBUFFERS \<and>
     (k = 0 \<longrightarrow> 0 \<le> lChannelCount p \<and> unat (GetIndexForNTV2Crosspoint c) + nat (lChannelCount p) \<le> 16 \<and>
        (bWithHDMIAux p \<longrightarrow> GetNTV2ChannelForNTV2Crosspoint c < 5))"

lemma init_pre_frames:
  "identity_ok c a \<Longrightarrow> init_pre p channelRange k a \<longleftrightarrow>
     state a = NTV2_AUTOCIRCULATE_DISABLED \<and> init_frames_ok p channelRange k c"
  by (auto simp: init_pre_def init_frames_ok_def identity_ok_def)

interpretation init_keep: gang_keep "AutoCircInit_channel F p channelRange" "init_frames_ok p channelRange"
  "\<lambda>s. circ_ok s \<and> init_env F p s"
proof (unfold_locales, goal_cases)
  case (1 s c k)
  show ?case
  proof (cases "state (chan s c) = NTV2_AUTOCIRCULATE_DISABLED")
    case True
    then have "init_pre p channelRange k (chan s c)"
      using 1 init_pre_frames legal_identity by blast
    then show ?thesis
      using 1 init.step [of s F p c channelRange k] by (auto elim!: wp_mono)
  next
    case False
    then show ?thesis
      using 1 ac_get_chan [OF _ legal_less, of s c] by (simp add: AutoCircInit_channel_def)
  qed
qed

text \<open>The ranges of a gang follow one another, without wrapping.\<close>

lemma init_frame_eq:
  assumes "0 \<le> start" and "start \<le> stop" and "0 \<le> base" and "base + int k * (stop - start + 1) < 2 ^ 31"
  shows "AutoCircInit_frame base k (u32_of (stop - start + 1)) = base + int k * (stop - start + 1)"
proof -
  have "u32_of base + of_nat k * u32_of (stop - start + 1) = u32_of (base + int k * (stop - start + 1))"
    by (simp add: u32_of_def)
  moreover have "0 \<le> int k * (stop - start + 1)" using assms by simp
  then have "0 \<le> base + int k * (stop - start + 1)" using assms(3) by linarith
  then have "- (2 ^ 31) \<le> base + int k * (stop - start + 1)" by (rule order_trans [rotated]) simp
  ultimately show ?thesis
    using assms(4) unfolding AutoCircInit_frame_def by (simp only: s32_u32_of)
qed

end
