(* ===== verification/Ntv2AutoIsrInv.thy ===== *)
theory Ntv2AutoIsrInv
  imports Ntv2AutoPreroll
begin

text \<open>
  The interrupt handler keeps the invariant, never leaves an array, and accounts for every
  frame: a channel either moves to its next frame, which was free (record) or filled (play),
  or counts a dropped frame.
\<close>

section \<open>Rules for the fields that the handler changes\<close>

named_theorems chan_simps \<open>ring functions after an update of a channel\<close>

lemma ring_upd_stamps [chan_simps]:
  "ring_ok (upd_stamps f A a) = ring_ok a" "in_ring (upd_stamps f A a) i = in_ring a i"
  "KAUTO_NEXTFRAME i (upd_stamps f A a) = KAUTO_NEXTFRAME i a"
  "KAUTO_PREVFRAME i (upd_stamps f A a) = KAUTO_PREVFRAME i a"
  using same_ring_upd_stamps [of a f A]
  by (simp_all only: same_ring_ok same_ring_in same_ring_next same_ring_prev)

lemma fields_upd_stamps [chan_simps]:
  "startFrame (upd_stamps f A a) = startFrame a" "endFrame (upd_stamps f A a) = endFrame a"
  "channelSpec (upd_stamps f A a) = channelSpec a" "activeFrameRegister (upd_stamps f A a) = activeFrameRegister a"
  "channelCount (upd_stamps f A a) = channelCount a" "length (frameStamp (upd_stamps f A a)) = length (frameStamp a)"
  "circulateWithRP188 (upd_stamps f A a) = circulateWithRP188 a" "circulateWithLTC (upd_stamps f A a) = circulateWithLTC a"
  "circulateWithCustomAncData (upd_stamps f A a) = circulateWithCustomAncData a"
  "circulateWithHDMIAux (upd_stamps f A a) = circulateWithHDMIAux a"
  "VBIRDTSC (upd_stamps f A a) = VBIRDTSC a" "VBIAudioOut (upd_stamps f A a) = VBIAudioOut a"
  "lastInterruptTime (upd_stamps f A a) = lastInterruptTime a"
  "prevInterruptTime (upd_stamps f A a) = prevInterruptTime a"
  "audioDropsRequired (upd_stamps f A a) = audioDropsRequired a"
  "audioDropsCompleted (upd_stamps f A a) = audioDropsCompleted a"
  by (simp_all add: upd_stamps_def)

lemma ring_ok_fields [chan_simps]:
  "ring_ok (a\<lparr>activeFrame := x1\<rparr>) = ring_ok a" "ring_ok (a\<lparr>nextFrame := x1\<rparr>) = ring_ok a"
  "ring_ok (a\<lparr>framesProcessed := x2\<rparr>) = ring_ok a" "ring_ok (a\<lparr>droppedFrames := x2\<rparr>) = ring_ok a"
  "ring_ok (a\<lparr>state := x3\<rparr>) = ring_ok a" "ring_ok (a\<lparr>startTimeStamp := x4\<rparr>) = ring_ok a"
  "ring_ok (a\<lparr>startAudioClockTimeStamp := x4\<rparr>) = ring_ok a" "ring_ok (a\<lparr>audioDropsRequired := x2\<rparr>) = ring_ok a"
  "ring_ok (a\<lparr>startAudioNextFrame := x5\<rparr>) = ring_ok a" "ring_ok (a\<lparr>stopAudioNextFrame := x5\<rparr>) = ring_ok a"
  by (simp_all add: ring_ok_def)

lemma in_ring_fields [chan_simps]:
  "in_ring (a\<lparr>activeFrame := x1\<rparr>) i = in_ring a i" "in_ring (a\<lparr>nextFrame := x1\<rparr>) i = in_ring a i"
  "in_ring (a\<lparr>framesProcessed := x2\<rparr>) i = in_ring a i" "in_ring (a\<lparr>droppedFrames := x2\<rparr>) i = in_ring a i"
  "in_ring (a\<lparr>state := x3\<rparr>) i = in_ring a i" "in_ring (a\<lparr>startTimeStamp := x4\<rparr>) i = in_ring a i"
  "in_ring (a\<lparr>startAudioClockTimeStamp := x4\<rparr>) i = in_ring a i" "in_ring (a\<lparr>audioDropsRequired := x2\<rparr>) i = in_ring a i"
  "in_ring (a\<lparr>startAudioNextFrame := x5\<rparr>) i = in_ring a i" "in_ring (a\<lparr>stopAudioNextFrame := x5\<rparr>) i = in_ring a i"
  by (simp_all add: in_ring_def)

lemma stamp_fields [chan_simps]:
  "stamp (a\<lparr>activeFrame := x1\<rparr>) i = stamp a i" "stamp (a\<lparr>nextFrame := x1\<rparr>) i = stamp a i"
  "stamp (a\<lparr>framesProcessed := x2\<rparr>) i = stamp a i" "stamp (a\<lparr>droppedFrames := x2\<rparr>) i = stamp a i"
  "stamp (a\<lparr>state := x3\<rparr>) i = stamp a i" "stamp (a\<lparr>startTimeStamp := x4\<rparr>) i = stamp a i"
  "stamp (a\<lparr>startAudioClockTimeStamp := x4\<rparr>) i = stamp a i" "stamp (a\<lparr>audioDropsRequired := x2\<rparr>) i = stamp a i"
  "stamp (a\<lparr>startAudioNextFrame := x5\<rparr>) i = stamp a i" "stamp (a\<lparr>stopAudioNextFrame := x5\<rparr>) i = stamp a i"
  by (simp_all add: stamp_def)

lemma same_ring_fields [chan_simps]:
  "same_ring a (b\<lparr>activeFrame := x1\<rparr>) = same_ring a b" "same_ring a (b\<lparr>nextFrame := x1\<rparr>) = same_ring a b"
  "same_ring a (b\<lparr>framesProcessed := x2\<rparr>) = same_ring a b" "same_ring a (b\<lparr>droppedFrames := x2\<rparr>) = same_ring a b"
  "same_ring a (b\<lparr>state := x3\<rparr>) = same_ring a b" "same_ring a (b\<lparr>startTimeStamp := x4\<rparr>) = same_ring a b"
  "same_ring a (b\<lparr>startAudioClockTimeStamp := x4\<rparr>) = same_ring a b" "same_ring a (b\<lparr>audioDropsRequired := x2\<rparr>) = same_ring a b"
  "same_ring a (b\<lparr>startAudioNextFrame := x5\<rparr>) = same_ring a b" "same_ring a (b\<lparr>stopAudioNextFrame := x5\<rparr>) = same_ring a b"
  "same_ring a (upd_stamps f A b) = same_ring a b"
  by (simp_all add: same_ring_def upd_stamps_def)

lemma fs_upd_stamps: "ring_ok a \<Longrightarrow> in_ring a i \<Longrightarrow> fs_upd f i a = Some (upd_stamps f {i} a)"
  by (simp add: fs_upd_ring upd_stamps_single)

lemma wp_upd_stamps:
  "ring_ok a \<Longrightarrow> in_ring a i \<Longrightarrow> wp (fs_upd f i a) Q = Q (upd_stamps f {i} a)"
  by (simp add: upd_stamps_single)

declare wp_fs_upd [simp del]

lemmas isr_simps = wp_upd_stamps chan_simps stamp_upd_stamps in_ring_next in_ring_prev

text \<open>A step of the handler that leaves the position alone and changes stamps and flags only.\<close>

definition kept :: "INTERNAL_AUTOCIRCULATE_STRUCT \<Rightarrow> INTERNAL_AUTOCIRCULATE_STRUCT \<Rightarrow> bool" where
  "kept a b \<longleftrightarrow> same_ring a b \<and> activeFrame b = activeFrame a \<and> nextFrame b = nextFrame a \<and> state b = state a \<and>
     framesProcessed b = framesProcessed a \<and> droppedFrames b = droppedFrames a"

lemma kept_refl [simp]: "kept a a"
  by (simp add: kept_def)

lemma kept_trans: "kept a b \<Longrightarrow> kept b c \<Longrightarrow> kept a c"
  by (auto simp: kept_def dest: same_ring_trans)

lemma kept_upd_stamps [simp]: "kept a (upd_stamps f A a)"
  by (simp add: kept_def)

lemma kept_upd: "kept a b \<Longrightarrow> kept a (upd_stamps f A b)"
  by (rule kept_trans [OF _ kept_upd_stamps])

text \<open>Steps that do not touch the counts of the frames.\<close>

definition counts_kept :: "INTERNAL_AUTOCIRCULATE_STRUCT \<Rightarrow> INTERNAL_AUTOCIRCULATE_STRUCT \<Rightarrow> bool" where
  "counts_kept a b \<longleftrightarrow> kept a b \<and> (\<forall>i. in_ring a i \<longrightarrow> validCount (stamp b i) = validCount (stamp a i))"

lemma counts_kept_refl [simp]: "counts_kept a a"
  by (simp add: counts_kept_def)

lemma counts_kept_trans:
  assumes "counts_kept a b" and "counts_kept b c"
  shows "counts_kept a c"
proof -
  have "in_ring b i = in_ring a i" for i
    using assms(1) by (simp add: counts_kept_def kept_def same_ring_in)
  then show ?thesis
    using assms by (auto simp: counts_kept_def intro: kept_trans)
qed

lemma counts_kept_upd:
  assumes "ring_ok a" and "\<And>x. validCount (f x) = validCount x"
  shows "counts_kept a (upd_stamps f A a)"
  using assms by (simp add: counts_kept_def stamp_upd_stamps)

lemma counts_kept_ring:
  assumes "counts_kept a b"
  shows "ring_ok b = ring_ok a" and "in_ring b i = in_ring a i"
    and "KAUTO_NEXTFRAME i b = KAUTO_NEXTFRAME i a" and "KAUTO_PREVFRAME i b = KAUTO_PREVFRAME i a"
  using assms by (simp_all add: counts_kept_def kept_def same_ring_ok same_ring_in same_ring_next same_ring_prev)

section \<open>Record\<close>

lemma capture_status_wp:
  assumes "ring_ok a" and "in_ring a i"
  shows "wp (capture_status F deviceID r i a) (counts_kept a)"
proof -
  let ?f = "\<lambda>f. f\<lparr>internalTCArray := snd (CopyRP188HardwareToFrameStampTCArray F r)\<rparr>"
  let ?g = "\<lambda>f. f\<lparr>internalSDIStatusArray :=
                  snd (CopySDIStatusHardwareToFrameStampSDIStatusArray F r (internalSDIStatusArray f))\<rparr>"
  have 1: "counts_kept b (upd_stamps ?f {i} b)" "counts_kept b (upd_stamps ?g {i} b)" if "ring_ok b" for b
    using that by (simp_all add: counts_kept_upd)
  have 2: "counts_kept a (upd_stamps ?g {i} (upd_stamps ?f {i} a))"
    using assms 1 by (intro counts_kept_trans [OF 1(1) 1(2)]) (simp_all add: chan_simps)
  show ?thesis
    using assms 1 [OF assms(1)] 2 by (simp add: capture_status_def isr_simps)
qed

lemma record_anc_wp:
  assumes "ring_ok a" and "in_ring a i"
  shows "wp (record_anc F anc i nxt a r) (\<lambda>(b, r'). counts_kept a b)"
  using assms by (auto simp: record_anc_def isr_simps intro!: counts_kept_upd)

text \<open>The end of a capture.\<close>

definition captured :: "INTERNAL_AUTOCIRCULATE_STRUCT \<Rightarrow> INTERNAL_AUTOCIRCULATE_STRUCT \<Rightarrow> regs \<Rightarrow> bool" where
  "captured a b r \<longleftrightarrow>
     (let nxt = KAUTO_NEXTFRAME (activeFrame a) a
      in same_ring a b \<and> activeFrame b = activeFrame a \<and> state b = state a \<and>
         (nextFrame b = nxt \<and> framesProcessed b = framesProcessed a + 1 \<and> droppedFrames b = droppedFrames a \<and>
            validCount (stamp b nxt) = 0 \<and> r (activeFrameRegister a) = u32_of nxt
          \<or> nextFrame b = nextFrame a \<and> framesProcessed b = framesProcessed a \<and> droppedFrames b = droppedFrames a + 1))"

lemma record_advance_wp:
  assumes "ring_ok a" and "in_ring a (activeFrame a)"
  shows "wp (record_advance ds (KAUTO_NEXTFRAME (activeFrame a) a) a r) (\<lambda>(b, r'). captured a b r')"
  using assms
  by (simp add: record_advance_def isr_simps captured_def Let_def reg_simps)

lemma captured_counts_kept: "counts_kept a b \<Longrightarrow> captured b c r \<Longrightarrow> captured a c r"
  by (auto simp: captured_def Let_def counts_kept_ring) (auto simp: counts_kept_def kept_def same_ring_def)

lemma circ_ok_sync: "circ_ok s \<Longrightarrow> syncChannel1 s < NUM_CIRCULATORS" "circ_ok s \<Longrightarrow> syncChannel2 s < NUM_CIRCULATORS"
  by (simp_all only: circ_ok_def)

lemma wp_ac_get_len: "c < length (autoCirculate s) \<Longrightarrow> wp (ac_get s c) Q = Q (chan s c)"
  by (simp add: ac_get_def arr_get_Some)

lemma record_drop_sync_wp:
  assumes "circ_ok s" and "c < NUM_CIRCULATORS"
  shows "wp (record_drop_sync s c a r) (\<lambda>_. True)"
  using assms circ_ok_sync [OF assms(1)] by (simp add: record_drop_sync_def wp_ac_get_len)

text \<open>A timely interrupt in record.\<close>

lemma kept_captured:
  assumes "kept a b" and "captured b c r"
  shows "captured a c r"
  using assms by (auto simp: captured_def kept_def Let_def same_ring_next) (auto simp: same_ring_def)

lemma counts_kept_kept: "counts_kept a b \<Longrightarrow> kept a b"
  by (simp add: counts_kept_def)

lemma kept_ring:
  assumes "kept a b"
  shows "ring_ok b = ring_ok a" and "in_ring b i = in_ring a i" and "activeFrame b = activeFrame a"
    and "KAUTO_NEXTFRAME i b = KAUTO_NEXTFRAME i a" and "KAUTO_PREVFRAME i b = KAUTO_PREVFRAME i a"
  using assms by (simp_all add: kept_def same_ring_ok same_ring_in same_ring_next same_ring_prev)

lemma record_finish_wp:
  assumes "ring_ok a" and "in_ring a (activeFrame a)" and "in_ring a i"
  shows "wp (record_finish F dev anc i ds a r) (\<lambda>(b, r'). captured a b r')"
proof -
  let ?nxt = "KAUTO_NEXTFRAME (activeFrame a) a"
  have adv: "wp (record_advance ds ?nxt b2 r2) (\<lambda>(b', r'). captured a b' r')"
    if "counts_kept a b1" and "counts_kept b1 b2" for b1 b2 r2
  proof -
    have k: "kept a b2" using counts_kept_kept [OF counts_kept_trans [OF that]] .
    show ?thesis
      using record_advance_wp [of b2 ds r2] assms k kept_captured [OF k]
      by (auto simp: kept_ring elim: wp_mono)
  qed
  have anc: "wp (record_anc F anc i ?nxt b r) (\<lambda>(b2, r2). wp (record_advance ds ?nxt b2 r2) (\<lambda>(b', r'). captured a b' r'))"
    if "counts_kept a b" for b
    using that assms adv [OF that] record_anc_wp [of b i F anc ?nxt r]
    by (auto simp: kept_ring [OF counts_kept_kept] elim!: wp_mono)
  show ?thesis
    using anc wp_mono [OF capture_status_wp [OF assms(1,3)]]
    by (simp add: record_finish_def Let_def case_prod_unfold)
qed

lemma run_record_wp:
  assumes "circ_ok s" and "c < NUM_CIRCULATORS" and "ring_ok a" and "in_ring a (activeFrame a)" and "in_ring a i"
  shows "wp (AutoCirculate_run_record F s c ch anc fm f0 au i a r)
    (\<lambda>(ok, b, r'). if ok then captured a b r' else kept a b \<and> r' = r)"
proof -
  let ?act = "activeFrame a"
  have fin: "wp (record_finish F dev anc i ds b r) (\<lambda>(b', r'). captured a b' r')" if "kept a b" for ds b r dev
    using record_finish_wp [of b i F dev anc ds r] assms that kept_captured [OF that]
    by (auto simp: kept_ring [OF that] elim!: wp_mono)
  have "wp (record_drop_sync s c b r) (\<lambda>x. wp (record_finish F dev anc i (g x) b' r) (\<lambda>(b', r'). captured a b' r'))"
    if "kept a b'" for b b' g dev
    by (rule wp_mono [OF record_drop_sync_wp [OF assms(1,2)]], rule fin [OF that])
  then show ?thesis
    using assms(3-)
    by (simp add: AutoCirculate_run_record_def Let_def isr_simps kept_upd)
qed

text \<open>The start of a record.\<close>

definition started_record :: "bool \<Rightarrow> INTERNAL_AUTOCIRCULATE_STRUCT \<Rightarrow> INTERNAL_AUTOCIRCULATE_STRUCT \<Rightarrow> regs \<Rightarrow> bool" where
  "started_record field0 a b r \<longleftrightarrow>
     (let nxt = KAUTO_NEXTFRAME (activeFrame a) a
      in same_ring a b \<and> activeFrame b = activeFrame a \<and> framesProcessed b = framesProcessed a \<and>
         droppedFrames b = droppedFrames a \<and> validCount (stamp b (activeFrame a)) = 0 \<and>
         (if field0
          then state b = NTV2_AUTOCIRCULATE_RUNNING \<and> nextFrame b = nxt \<and> r (activeFrameRegister a) = u32_of nxt
          else state b = state a \<and> nextFrame b = nextFrame a))"

lemma audio_in_stop_count [simp]: "validCount (audio_in_stop F r sys n fm f) = validCount f"
  by (simp add: audio_in_stop_def Let_def case_prod_unfold)

lemma start_record_wp:
  assumes "ring_ok a" and "in_ring a (activeFrame a)" and "in_ring a i"
  shows "wp (AutoCirculate_start_record F dev anc fm f0 au i a r) (\<lambda>(b, r'). started_record f0 a b r')"
proof -
  let ?act = "activeFrame a"
  define a1 where "a1 = upd_stamps (\<lambda>f. f\<lparr>validCount := 0\<rparr>) {?act} a"
  have a1: "kept a a1" "ring_ok a1" "in_ring a1 i" "in_ring a1 ?act" "validCount (stamp a1 ?act) = 0"
    using assms by (simp_all add: a1_def chan_simps stamp_upd_stamps)
  have cap: "wp (capture_status F dev r i a1) (\<lambda>b. validCount (stamp b ?act) = 0 \<and> kept a1 b)"
    using a1 by (intro wp_mono [OF capture_status_wp]) (auto simp: counts_kept_def)
  have rest: "ring_ok b" "in_ring b ?act" "same_ring a b" "activeFrame b = ?act" "state b = state a"
      "nextFrame b = nextFrame a" "framesProcessed b = framesProcessed a" "droppedFrames b = droppedFrames a"
      "activeFrameRegister b = activeFrameRegister a"
    if "kept a1 b" for b
  proof -
    have k: "kept a b" using kept_trans [OF a1(1) that] .
    then show "ring_ok b" "in_ring b ?act" "same_ring a b" "activeFrame b = ?act" "state b = state a"
      "nextFrame b = nextFrame a" "framesProcessed b = framesProcessed a" "droppedFrames b = droppedFrames a"
      using assms by (simp_all add: kept_ring) (simp_all add: kept_def)
    then show "activeFrameRegister b = activeFrameRegister a" by (simp add: same_ring_def)
  qed
  show ?thesis
    using assms a1
    by (simp add: AutoCirculate_start_record_def Let_def wp_upd_stamps a1_def [symmetric])
      (rule wp_mono [OF cap], simp add: rest isr_simps started_record_def Let_def reg_simps)
qed

section \<open>Play\<close>

text \<open>The test against the other channel reads inside the arrays.\<close>

lemma drop_sync_channel_wp:
  assumes "ring_ok a" and "INVALID_FRAME \<le> nextFrame a"
  shows "wp (DropSync_channel m a) (\<lambda>_. True)"
proof -
  have "0 \<le> KAUTO_NEXTFRAME (nextFrame a) a \<and> KAUTO_NEXTFRAME (nextFrame a) a < 512"
    using assms by (auto simp: KAUTO_NEXTFRAME_def ring_ok_def)
  then have "fs_get a (KAUTO_NEXTFRAME (nextFrame a) a) = Some (stamp a (KAUTO_NEXTFRAME (nextFrame a) a))"
    using assms(1) by (simp add: fs_get_Some_iff ring_ok_def)
  then show ?thesis by (simp add: DropSync_channel_def Let_def)
qed

lemma drop_sync_wp:
  assumes "circ_ok s" and "c < NUM_CIRCULATORS" and "ring_ok a" and "INVALID_FRAME \<le> nextFrame a"
    and "d < NUM_CIRCULATORS"
  shows "wp (ac_put c a s) (\<lambda>s. wp (AutoCircDropSyncFrame s d) (\<lambda>_. True))"
proof -
  define t where "t = s\<lparr>autoCirculate := (autoCirculate s)[c := a]\<rparr>"
  have len: "length (autoCirculate t) = NUM_CIRCULATORS" and
    sync: "syncChannel1 t < NUM_CIRCULATORS" "syncChannel2 t < NUM_CIRCULATORS"
    using assms(1) circ_ok_sync by (simp_all add: t_def)
  have "ring_ok (chan t e) \<and> INVALID_FRAME \<le> nextFrame (chan t e)" if "e < NUM_CIRCULATORS" for e
    using circ_ok_chan [OF assms(1) that] assms that
    by (cases "e = c") (simp_all add: t_def chan_ok_def)
  then have "wp (DropSync_channel m (chan t e)) (\<lambda>_. True)" if "e < NUM_CIRCULATORS" for m e
    using that drop_sync_channel_wp by blast
  then show ?thesis
    using assms(1,2,5) len sync
    by (simp add: t_def [symmetric] AutoCircDropSyncFrame_def wp_ac_get_len)
qed

lemma play_drop_wp:
  assumes "circ_ok s" and "c < NUM_CIRCULATORS" and "ring_ok a" and "in_ring a i" and "INVALID_FRAME \<le> nextFrame a"
    and "channelSpec a < NUM_CIRCULATORS"
  shows "wp (play_drop s c fm f0 i a r)
    (\<lambda>d. \<not> d \<longrightarrow> validCount (stamp a i) \<noteq> 0 \<and> \<not> videoTransferPending (stamp a i))"
  using assms drop_sync_wp [OF assms(1,2,3,5,6)]
  by (auto simp: play_drop_def Let_def elim!: wp_mono)

text \<open>The end of a frame in play.\<close>

definition played :: "INTERNAL_AUTOCIRCULATE_STRUCT \<Rightarrow> INTERNAL_AUTOCIRCULATE_STRUCT \<Rightarrow> bool" where
  "played a b \<longleftrightarrow>
     (let nxt = KAUTO_NEXTFRAME (activeFrame a) a; v = validCount (stamp b (activeFrame a))
      in same_ring a b \<and> activeFrame b = activeFrame a \<and> state b = state a \<and>
         v = (if validCount (stamp a (activeFrame a)) > 0 then validCount (stamp a (activeFrame a)) - 1
              else validCount (stamp a (activeFrame a))) \<and>
         (if v \<noteq> 0
          then nextFrame b = nextFrame a \<and> framesProcessed b = framesProcessed a \<and> droppedFrames b = droppedFrames a
          else nextFrame b = nxt \<and> framesProcessed b = framesProcessed a + 1 \<and> droppedFrames b = droppedFrames a \<and>
                 validCount (stamp b nxt) \<noteq> 0 \<and> \<not> videoTransferPending (stamp b nxt)
               \<or> nextFrame b = nextFrame a \<and> framesProcessed b = framesProcessed a \<and>
                 droppedFrames b = droppedFrames a + 1))"


lemma play_format_etc: "kept a (a\<lparr>startTimeStamp := x\<rparr>)" "kept a (a\<lparr>startAudioClockTimeStamp := x\<rparr>)"
  "kept a (a\<lparr>audioDropsRequired := y\<rparr>)" "kept a (a\<lparr>startAudioNextFrame := z\<rparr>)" "kept a (a\<lparr>stopAudioNextFrame := z\<rparr>)"
  by (simp_all add: kept_def same_ring_def)

text \<open>A step that keeps the counts and the transfer marks of all frames.\<close>

definition queue_kept :: "INTERNAL_AUTOCIRCULATE_STRUCT \<Rightarrow> INTERNAL_AUTOCIRCULATE_STRUCT \<Rightarrow> bool" where
  "queue_kept a b \<longleftrightarrow> (\<forall>i. in_ring a i \<longrightarrow>
     validCount (stamp b i) = validCount (stamp a i) \<and> videoTransferPending (stamp b i) = videoTransferPending (stamp a i))"

text \<open>The channel \<open>b\<close> has moved on from \<open>a\<close> to the frame \<open>nxt\<close>.\<close>

definition advanced :: "int \<Rightarrow> INTERNAL_AUTOCIRCULATE_STRUCT \<Rightarrow> INTERNAL_AUTOCIRCULATE_STRUCT \<Rightarrow> bool" where
  "advanced nxt a b \<longleftrightarrow> same_ring a b \<and> activeFrame b = activeFrame a \<and> nextFrame b = nxt \<and>
     framesProcessed b = framesProcessed a + 1 \<and> droppedFrames b = droppedFrames a \<and> queue_kept a b"

lemma run_advance_wp:
  assumes "ring_ok a" and "in_ring a (activeFrame a)" and "in_ring a nxt"
  shows "wp (AutoCirculate_run_advance F dev ch sch fm nxt a r)
    (\<lambda>(b, r'). advanced nxt a b \<and> state b = state a)"
  using assms
  by (simp add: AutoCirculate_run_advance_def play_audio_def Let_def isr_simps advanced_def queue_kept_def)

lemma start_advance_wp:
  assumes "ring_ok a" and "in_ring a (activeFrame a)" and "in_ring a nxt"
  shows "wp (AutoCirculate_start_advance F s ch au ok nxt a r)
    (\<lambda>(b, r'). advanced nxt a b \<and> state b = NTV2_AUTOCIRCULATE_RUNNING)"
  using assms
  by (simp add: AutoCirculate_start_advance_def Let_def isr_simps advanced_def queue_kept_def)

lemma run_drop_fields:
  "same_ring a (AutoCirculate_run_drop f a r)" "activeFrame (AutoCirculate_run_drop f a r) = activeFrame a"
  "nextFrame (AutoCirculate_run_drop f a r) = nextFrame a" "state (AutoCirculate_run_drop f a r) = state a"
  "framesProcessed (AutoCirculate_run_drop f a r) = framesProcessed a"
  "droppedFrames (AutoCirculate_run_drop f a r) = droppedFrames a + 1"
  "stamp (AutoCirculate_run_drop f a r) i = stamp a i"
  by (simp_all add: AutoCirculate_run_drop_def Let_def chan_simps)

lemma play_tick_count:
  "validCount (play_tick au b f) = (if validCount f > 0 then validCount f - 1 else validCount f)"
  "videoTransferPending (play_tick au b f) = videoTransferPending f"
  by (simp_all add: play_tick_def Let_def)

lemma run_play_wp:
  assumes "circ_ok s" and "c < NUM_CIRCULATORS" and "ring_ok a" and "in_ring a (activeFrame a)"
    and "INVALID_FRAME \<le> nextFrame a" and "channelSpec a < NUM_CIRCULATORS"
  shows "wp (AutoCirculate_run_play F s c ch sch fm f0 au a r) (\<lambda>(b, r'). played a b)"
proof -
  let ?act = "activeFrame a"
  let ?nxt = "KAUTO_NEXTFRAME ?act a"
  define a1 where "a1 = upd_stamps (play_tick au a) {?act} a"
  have a1: "kept a a1" "ring_ok a1" "in_ring a1 ?act" "in_ring a1 ?nxt" "channelSpec a1 = channelSpec a"
      "nextFrame a1 = nextFrame a" "same_ring a a1" "activeFrame a1 = ?act" "state a1 = state a"
      "framesProcessed a1 = framesProcessed a" "droppedFrames a1 = droppedFrames a" "KAUTO_NEXTFRAME i a1 = KAUTO_NEXTFRAME i a" for i
    using assms by (simp_all add: a1_def chan_simps in_ring_next)
  have v: "validCount (stamp a1 ?act) =
      (if validCount (stamp a ?act) > 0 then validCount (stamp a ?act) - 1 else validCount (stamp a ?act))"
    using assms by (simp add: a1_def stamp_upd_stamps play_tick_count)
  have adv: "wp (AutoCirculate_run_advance F (acDeviceID s) ch sch fm ?nxt a1 r1) (\<lambda>(b, r'). played a b)"
    if "validCount (stamp a1 ?act) = 0" "validCount (stamp a1 ?nxt) \<noteq> 0" "\<not> videoTransferPending (stamp a1 ?nxt)" for r1
  proof (rule wp_mono [OF run_advance_wp])
    fix x :: "INTERNAL_AUTOCIRCULATE_STRUCT \<times> regs"
    assume x: "case x of (b, r') \<Rightarrow> advanced ?nxt a1 b \<and> state b = state a1"
    obtain b r' where b: "x = (b, r')" by (cases x)
    have "queue_kept a1 b" "same_ring a1 b" "activeFrame b = ?act" "nextFrame b = ?nxt" "state b = state a"
      "framesProcessed b = framesProcessed a + 1" "droppedFrames b = droppedFrames a"
      using x a1 by (simp_all add: b advanced_def)
    then show "case x of (b, r') \<Rightarrow> played a b"
      using that v a1 by (auto simp: b played_def Let_def queue_kept_def intro: same_ring_trans)
  qed (use a1 in auto)
  have drop: "played a (AutoCirculate_run_drop f a1 r1)" if "validCount (stamp a1 ?act) = 0" for f r1
    using that v a1 same_ring_trans [OF a1(7) run_drop_fields(1)]
    by (simp add: played_def Let_def run_drop_fields)
  have stay: "played a a1" if "validCount (stamp a1 ?act) \<noteq> 0"
    using that v a1 by (simp add: played_def Let_def)
  have "wp (play_drop s c fm f0 ?nxt a1 r)
      (\<lambda>d. \<not> d \<longrightarrow> validCount (stamp a1 ?nxt) \<noteq> 0 \<and> \<not> videoTransferPending (stamp a1 ?nxt))"
    using assms a1 by (intro play_drop_wp) auto
  then have "wp (play_drop s c fm f0 ?nxt a1 r) (\<lambda>d. if d then True else
       validCount (stamp a1 ?nxt) \<noteq> 0 \<and> \<not> videoTransferPending (stamp a1 ?nxt))"
    by (rule wp_mono) simp
  then show ?thesis
    using assms adv drop stay a1
    by (auto simp: AutoCirculate_run_play_def Let_def wp_upd_stamps a1_def [symmetric] elim!: wp_mono)
qed

text \<open>The start of a play: the channel waits, or moves to a frame that is filled.\<close>

definition started_play :: "INTERNAL_AUTOCIRCULATE_STRUCT \<Rightarrow> INTERNAL_AUTOCIRCULATE_STRUCT \<Rightarrow> bool" where
  "started_play a b \<longleftrightarrow>
     (let nxt = KAUTO_NEXTFRAME (activeFrame a) a
      in same_ring a b \<and> activeFrame b = activeFrame a \<and>
         (state b = NTV2_AUTOCIRCULATE_RUNNING \<and> nextFrame b = nxt \<and> framesProcessed b = framesProcessed a + 1 \<and>
            droppedFrames b = droppedFrames a \<and> validCount (stamp b nxt) \<noteq> 0 \<and> \<not> videoTransferPending (stamp b nxt)
          \<or> state b = state a \<and> nextFrame b = nextFrame a \<and> framesProcessed b = framesProcessed a))"

lemma start_play_wp:
  assumes "circ_ok s" and "c < NUM_CIRCULATORS" and "ring_ok a" and "in_ring a (activeFrame a)"
    and "INVALID_FRAME \<le> nextFrame a" and "channelSpec a < NUM_CIRCULATORS"
  shows "wp (AutoCirculate_start_play F s c ch fm f0 au a r) (\<lambda>(b, r'). started_play a b)"
proof -
  let ?act = "activeFrame a"
  let ?nxt = "KAUTO_NEXTFRAME ?act a"
  have main: "wp (if validCount (stamp a1 ?act) = 0
          then do { d \<leftarrow> play_drop s c fm f0 ?nxt a1 r;
                    if \<not> d
                    then AutoCirculate_start_advance F s ch au ok ?nxt a1 r
                    else Some (if ntv2ReadVirtualRegister r kVRegSyncChannels \<noteq> 0
                               then a1\<lparr>droppedFrames := droppedFrames a1 + 1\<rparr>
                               else a1, r) }
          else Some (a1, r)) (\<lambda>(b, r'). started_play a b)"
    if k: "kept a a1" for a1 ok
  proof -
    have a1: "ring_ok a1" "in_ring a1 ?act" "in_ring a1 ?nxt" "activeFrame a1 = ?act" "channelSpec a1 = channelSpec a"
        "nextFrame a1 = nextFrame a" "same_ring a a1" "state a1 = state a" "framesProcessed a1 = framesProcessed a"
        "droppedFrames a1 = droppedFrames a"
      using assms k in_ring_next [of a ?act] by (simp_all add: kept_ring) (simp_all add: kept_def same_ring_def)
    have adv: "wp (AutoCirculate_start_advance F s ch au ok ?nxt a1 r) (\<lambda>(b, r'). started_play a b)"
      if "validCount (stamp a1 ?nxt) \<noteq> 0" "\<not> videoTransferPending (stamp a1 ?nxt)"
    proof (rule wp_mono [OF start_advance_wp])
      fix x :: "INTERNAL_AUTOCIRCULATE_STRUCT \<times> regs"
      assume x: "case x of (b, r') \<Rightarrow> advanced ?nxt a1 b \<and> state b = NTV2_AUTOCIRCULATE_RUNNING"
      obtain b r' where b: "x = (b, r')" by (cases x)
      have "queue_kept a1 b" "same_ring a1 b" "activeFrame b = ?act" "nextFrame b = ?nxt"
        "state b = NTV2_AUTOCIRCULATE_RUNNING" "framesProcessed b = framesProcessed a + 1" "droppedFrames b = droppedFrames a"
        using x a1 by (simp_all add: b advanced_def)
      then show "case x of (b, r') \<Rightarrow> started_play a b"
        using that a1 by (auto simp: b started_play_def Let_def queue_kept_def intro: same_ring_trans)
    qed (use a1 in auto)
    have stay: "started_play a a1" "started_play a (a1\<lparr>droppedFrames := x\<rparr>)" for x
      using a1 by (simp_all add: started_play_def Let_def chan_simps)
    have "wp (play_drop s c fm f0 ?nxt a1 r)
        (\<lambda>d. \<not> d \<longrightarrow> validCount (stamp a1 ?nxt) \<noteq> 0 \<and> \<not> videoTransferPending (stamp a1 ?nxt))"
      using assms a1 by (intro play_drop_wp) auto
    then show ?thesis
      using adv stay by (auto elim!: wp_mono)
  qed
  define a0 where "a0 = upd_stamps (\<lambda>f. f\<lparr>frameTime := sint (VBIRDTSC a)\<rparr>) {?act} a"
  have a0: "kept a a0" "ring_ok a0" "in_ring a0 ?act" and
    a1: "kept a (upd_stamps (\<lambda>f. f\<lparr>validCount := validCount f - 1\<rparr>) {?act} a0)"
        "ring_ok (upd_stamps (\<lambda>f. f\<lparr>validCount := validCount f - 1\<rparr>) {?act} a0)"
        "in_ring (upd_stamps (\<lambda>f. f\<lparr>validCount := validCount f - 1\<rparr>) {?act} a0) ?act"
    using assms by (simp_all add: a0_def chan_simps kept_upd)
  let ?ok = "validCount (stamp a0 ?act) > 0 \<and> \<not> videoTransferPending (stamp a0 ?act)"
  show ?thesis
  proof (cases ?ok)
    case True
    show ?thesis
      using main [OF a1(1), of ?ok] True assms a0 a1
      by (simp add: AutoCirculate_start_play_def Let_def fs_upd_stamps fs_get_ring a0_def [symmetric]
          split del: if_split)
  next
    case False
    show ?thesis
      using main [OF a0(1), of ?ok] assms a0
      by (simp add: if_not_P [OF False] AutoCirculate_start_play_def Let_def fs_upd_stamps fs_get_ring a0_def [symmetric]
          split del: if_split)
  qed
qed

end
