(* ===== verification/Ntv2AutoInterrupt.thy ===== *)
theory Ntv2AutoInterrupt
  imports Ntv2AutoIsrInv
begin

text \<open>
  The whole interrupt handler: its result in every state, and the invariant.
\<close>

section \<open>Before the state machine\<close>

lemma audio_flags:
  assumes "AutoCirculate_audio_flags s a = (s', b)"
  shows "kept a b" and "\<And>i. stamp b i = stamp a i" and "autoCirculate s' = autoCirculate s"
    and "ancInputChannel s' = ancInputChannel s" and "syncChannel1 s' = syncChannel1 s"
    and "syncChannel2 s' = syncChannel2 s" and "circulateWithFields b = circulateWithFields a"
    and "startTime b = startTime a" and "VBIRDTSC b = VBIRDTSC a"
  using assms
  by (auto simp: AutoCirculate_audio_flags_def Let_def kept_def same_ring_def stamp_def upd_hw_def split: if_splits)

lemma clocks_kept:
  "same_ring a (AutoCirculate_clocks t au r a)" "state (AutoCirculate_clocks t au r a) = state a"
  "nextFrame (AutoCirculate_clocks t au r a) = nextFrame a"
  "framesProcessed (AutoCirculate_clocks t au r a) = framesProcessed a"
  "droppedFrames (AutoCirculate_clocks t au r a) = droppedFrames a"
  "stamp (AutoCirculate_clocks t au r a) i = stamp a i"
  "startTime (AutoCirculate_clocks t au r a) = startTime a"
  "state a \<in> {NTV2_AUTOCIRCULATE_RUNNING, NTV2_AUTOCIRCULATE_PAUSED, NTV2_AUTOCIRCULATE_STARTING} \<Longrightarrow>
   VBIRDTSC (AutoCirculate_clocks t au r a) = t"
  by (simp_all add: AutoCirculate_clocks_def Let_def same_ring_def stamp_def) auto

lemma active_in_ring: "ring_ok a \<Longrightarrow> in_ring a (AutoCirculate_active r a)"
  by (auto simp: AutoCirculate_active_def Let_def in_ring_def ring_ok_def)

lemma clocks_active:
  "activeFrame (AutoCirculate_clocks t au r a) =
    (if state a \<in> {NTV2_AUTOCIRCULATE_RUNNING, NTV2_AUTOCIRCULATE_PAUSED, NTV2_AUTOCIRCULATE_STARTING}
     then AutoCirculate_active r a else activeFrame a)"
  by (simp add: AutoCirculate_clocks_def Let_def AutoCirculate_active_def)

lemma clocks_chan_ok:
  assumes "chan_ok c a"
  shows "chan_ok c (AutoCirculate_clocks t au r a)"
proof (rule chan_ok_same_ring [OF assms clocks_kept(1)])
  show "INVALID_FRAME \<le> nextFrame (AutoCirculate_clocks t au r a)"
    using assms by (simp add: clocks_kept chan_ok_def)
  show "position_ok (AutoCirculate_clocks t au r a)"
    unfolding position_ok_def clocks_kept(2,3) clocks_active same_ring_in [OF clocks_kept(1)]
    using assms active_in_ring [OF chan_ok_ring [OF assms]]
    by (auto simp: chan_ok_def position_ok_def split: NTV2AutoCirculateState.splits)
qed

section \<open>The state machine keeps the channel\<close>

definition busy :: "INTERNAL_AUTOCIRCULATE_STRUCT \<Rightarrow> bool" where
  "busy a \<longleftrightarrow> state a \<in> {NTV2_AUTOCIRCULATE_RUNNING, NTV2_AUTOCIRCULATE_PAUSED, NTV2_AUTOCIRCULATE_STARTING}"

lemma busy_position:
  assumes "chan_ok c a" and "busy a"
  shows "in_ring a (activeFrame a)" and "in_ring a (nextFrame a)"
  using assms by (auto simp: chan_ok_def position_ok_def busy_def)

lemma captured_chan_ok:
  assumes "chan_ok c a" and "busy a" and "captured a b r"
  shows "chan_ok c b"
proof -
  note ring = chan_ok_ring [OF assms(1)] and pos = busy_position [OF assms(1,2)]
  have same: "same_ring a b" and st: "state b = state a" "activeFrame b = activeFrame a"
    and nxt: "nextFrame b = KAUTO_NEXTFRAME (activeFrame a) a \<or> nextFrame b = nextFrame a"
    using assms(3) by (auto simp: captured_def Let_def)
  have "in_ring a (nextFrame b)"
    using nxt in_ring_next [OF ring pos(1)] pos(2) by auto
  moreover from this have "INVALID_FRAME \<le> nextFrame b"
    using in_ring_bounds [OF ring] by force
  ultimately show ?thesis
    using assms(2) pos st
    by (intro chan_ok_same_ring [OF assms(1) same]) (auto simp: position_ok_def same_ring_in [OF same] busy_def)
qed

lemma moved_chan_ok:
  assumes "chan_ok c a" and "busy a" and "same_ring a b" and "activeFrame b = activeFrame a"
    and "nextFrame b = KAUTO_NEXTFRAME (activeFrame a) a \<or> nextFrame b = nextFrame a"
    and "state b = state a \<or> state b = NTV2_AUTOCIRCULATE_RUNNING"
  shows "chan_ok c b"
proof -
  note ring = chan_ok_ring [OF assms(1)] and pos = busy_position [OF assms(1,2)]
  have nxt: "in_ring a (nextFrame b)"
    using assms(5) in_ring_next [OF ring pos(1)] pos(2) by auto
  then have "INVALID_FRAME \<le> nextFrame b"
    using in_ring_bounds [OF ring] by force
  with nxt show ?thesis
    using assms(2,4,6) pos
    by (intro chan_ok_same_ring [OF assms(1,3)]) (auto simp: position_ok_def same_ring_in [OF assms(3)] busy_def)
qed

lemma states_wp:
  assumes "circ_ok s" and "\<not> ILLEGAL_CHANNELSPEC c" and "chan_ok c a" and "busy a \<Longrightarrow> in_ring a i"
  shows "wp (AutoCirculate_states F s c ch sch anc fm f0 au i a r) (\<lambda>(ev, b, r'). chan_ok c b)"
proof -
  note less = legal_less [OF assms(2)] and ring = chan_ok_ring [OF assms(3)]
  have spec: "channelSpec a < NUM_CIRCULATORS" and nxt: "INVALID_FRAME \<le> nextFrame a"
    using assms(2,3) less by (auto simp: chan_ok_def identity_ok_def)
  show ?thesis
  proof (cases "state a")
    case NTV2_AUTOCIRCULATE_STARTING
    then have b: "busy a" by (simp add: busy_def)
    note pos = busy_position [OF assms(3) b]
    have 1: "wp (AutoCirculate_start_record F dev anc fm f0 au i a r) (\<lambda>(b, r'). chan_ok c b)" for dev
      by (rule wp_mono [OF start_record_wp [OF ring pos(1) assms(4) [OF b]]])
        (auto simp: started_record_def Let_def split: if_splits intro: moved_chan_ok [OF assms(3) b])
    have 2: "wp (AutoCirculate_start_play F s c ch fm f0 au a r) (\<lambda>(b, r'). chan_ok c b)"
      by (rule wp_mono [OF start_play_wp [OF assms(1) less ring pos(1) nxt spec]])
        (auto simp: started_play_def Let_def intro: moved_chan_ok [OF assms(3) b])
    show ?thesis
      using 1 2 assms(3) NTV2_AUTOCIRCULATE_STARTING
      by (auto simp: AutoCirculate_states_def elim!: wp_mono)
  next
    case NTV2_AUTOCIRCULATE_RUNNING
    then have b: "busy a" by (simp add: busy_def)
    note pos = busy_position [OF assms(3) b]
    have 1: "wp (AutoCirculate_run_record F s c ch anc fm f0 au i a r) (\<lambda>(ev, b, r'). chan_ok c b)"
      by (rule wp_mono [OF run_record_wp [OF assms(1) less ring pos(1) assms(4) [OF b]]])
        (auto simp: kept_def split: if_splits intro: captured_chan_ok [OF assms(3) b] moved_chan_ok [OF assms(3) b])
    have 2: "wp (AutoCirculate_run_play F s c ch sch fm f0 au a r) (\<lambda>(b, r'). chan_ok c b)"
      by (rule wp_mono [OF run_play_wp [OF assms(1) less ring pos(1) nxt spec]])
        (auto simp: played_def Let_def split: if_splits intro: moved_chan_ok [OF assms(3) b])
    show ?thesis
      using 1 2 NTV2_AUTOCIRCULATE_RUNNING
      by (auto simp: AutoCirculate_states_def elim!: wp_mono)
  next
    case NTV2_AUTOCIRCULATE_INIT
    have "chan_ok c (a\<lparr>startTimeStamp := x\<rparr>)" for x
      using assms(3) NTV2_AUTOCIRCULATE_INIT
      by (intro chan_ok_same_ring [OF assms(3)]) (auto simp: same_ring_def chan_ok_def position_ok_def)
    then show ?thesis using NTV2_AUTOCIRCULATE_INIT by (simp add: AutoCirculate_states_def)
  next
    case NTV2_AUTOCIRCULATE_STOPPING
    have "chan_ok c (a\<lparr>state := NTV2_AUTOCIRCULATE_DISABLED\<rparr>)"
      using abort_chan_ok [OF assms(3)] by (simp add: abort_effect_def)
    then show ?thesis
      using NTV2_AUTOCIRCULATE_STOPPING
      by (simp add: AutoCirculate_states_def AutoCirculate_stopping_def Let_def)
  qed (use assms(3) in \<open>auto simp: AutoCirculate_states_def chan_ok_def position_ok_def\<close>)
qed

section \<open>The whole handler\<close>

text \<open>
  The handler acts on a channel at the start of a frame, and at every field when the channel
  works in fields.
\<close>

definition isr_sync_channel :: "features \<Rightarrow> regs \<Rightarrow> INTERNAL_AUTOCIRCULATE_STRUCT \<Rightarrow> nat" where
  "isr_sync_channel F r a =
     (if IsMultiFormatActive F r then GetNTV2ChannelForNTV2Crosspoint (channelSpec a) else NTV2_CHANNEL1)"

definition isr_field0 :: "features \<Rightarrow> regs \<Rightarrow> INTERNAL_AUTOCIRCULATE_STRUCT \<Rightarrow> bool" where
  "isr_field0 F r a \<longleftrightarrow> IsProgressiveStandard F r (isr_sync_channel F r a) \<or> IsFieldID0 F r (channelSpec a)"

definition isr_field_mode :: "features \<Rightarrow> regs \<Rightarrow> INTERNAL_AUTOCIRCULATE_STRUCT \<Rightarrow> bool" where
  "isr_field_mode F r a \<longleftrightarrow>
     \<not> IsProgressiveStandard F r (isr_sync_channel F r a) \<and> circulateWithFields a \<and> AutoCircCanDoFieldMode F r a"

definition isr_due :: "features \<Rightarrow> regs \<Rightarrow> INTERNAL_AUTOCIRCULATE_STRUCT \<Rightarrow> bool" where
  "isr_due F r a \<longleftrightarrow> isr_field0 F r a \<or> isr_field_mode F r a"

text \<open>What the state machine does to a channel, in every state; \<open>ev\<close> is the result of the handler.\<close>

definition isr_post :: "bool \<Rightarrow> u64 \<Rightarrow> INTERNAL_AUTOCIRCULATE_STRUCT \<Rightarrow> bool \<Rightarrow> INTERNAL_AUTOCIRCULATE_STRUCT \<Rightarrow> regs \<Rightarrow> bool" where
  "isr_post field0 t a ev b r \<longleftrightarrow>
     (case state a of
        NTV2_AUTOCIRCULATE_RUNNING \<Rightarrow>
          (if recording a then (if ev then captured a b r else kept a b) else ev \<and> played a b)
      | NTV2_AUTOCIRCULATE_STARTING \<Rightarrow>
          (if startTime a > t then \<not> ev \<and> kept a b
           else ev \<and> (if recording a then started_record field0 a b r else started_play a b))
      | NTV2_AUTOCIRCULATE_STOPPING \<Rightarrow> \<not> ev \<and> b = a\<lparr>state := NTV2_AUTOCIRCULATE_DISABLED\<rparr>
      | _ \<Rightarrow> \<not> ev \<and> kept a b)"

lemma wp_case_prod: "wp m (\<lambda>(x, y). Q x y) = wp m (\<lambda>p. Q (fst p) (snd p))"
  by (simp add: case_prod_unfold)

lemma wp_conj: "wp m Q \<Longrightarrow> wp m R \<Longrightarrow> wp m (\<lambda>x. Q x \<and> R x)"
  by (cases m) simp_all

lemma kept_chan_ok:
  assumes "chan_ok c a" and "kept a b"
  shows "chan_ok c b"
proof (rule chan_ok_same_ring [OF assms(1)])
  show same: "same_ring a b" using assms(2) by (simp add: kept_def)
  show "INVALID_FRAME \<le> nextFrame b" and "position_ok b"
    using assms same_ring_in [OF same]
    by (auto simp: kept_def chan_ok_def position_ok_def split: NTV2AutoCirculateState.splits)
qed

lemma circ_ok_cong:
  assumes "circ_ok s" and "autoCirculate s' = autoCirculate s" and "ancInputChannel s' = ancInputChannel s"
    and "syncChannel1 s' = syncChannel1 s" and "syncChannel2 s' = syncChannel2 s"
  shows "circ_ok s'"
  using assms unfolding circ_ok_def by simp

lemma states_post_wp:
  assumes "circ_ok s" and "\<not> ILLEGAL_CHANNELSPEC c" and "chan_ok c a" and "busy a \<Longrightarrow> in_ring a i"
  shows "wp (AutoCirculate_states F s c ch sch anc fm f0 au i a r) (\<lambda>(ev, b, r'). isr_post f0 (VBIRDTSC a) a ev b r')"
proof -
  note less = legal_less [OF assms(2)] and ring = chan_ok_ring [OF assms(3)]
  have spec: "channelSpec a < NUM_CIRCULATORS" and nxt: "INVALID_FRAME \<le> nextFrame a"
    using assms(2,3) less by (auto simp: chan_ok_def identity_ok_def)
  show ?thesis
  proof (cases "state a")
    case NTV2_AUTOCIRCULATE_STARTING
    then have b: "busy a" by (simp add: busy_def)
    note pos = busy_position [OF assms(3) b]
    show ?thesis
      using start_record_wp [OF ring pos(1) assms(4) [OF b]] start_play_wp [OF assms(1) less ring pos(1) nxt spec]
        NTV2_AUTOCIRCULATE_STARTING
      by (auto simp: AutoCirculate_states_def isr_post_def elim!: wp_mono)
  next
    case NTV2_AUTOCIRCULATE_RUNNING
    then have b: "busy a" by (simp add: busy_def)
    note pos = busy_position [OF assms(3) b]
    have 1: "wp (AutoCirculate_run_record F s c ch anc fm f0 au i a r)
        (\<lambda>(ev, b, r'). (ev \<longrightarrow> captured a b r') \<and> (\<not> ev \<longrightarrow> kept a b))"
      by (rule wp_mono [OF run_record_wp [OF assms(1) less ring pos(1) assms(4) [OF b]]]) (auto split: if_splits)
    show ?thesis
      using 1 run_play_wp [OF assms(1) less ring pos(1) nxt spec] NTV2_AUTOCIRCULATE_RUNNING
      by (auto simp: AutoCirculate_states_def isr_post_def elim!: wp_mono)
  next
    case NTV2_AUTOCIRCULATE_INIT
    then show ?thesis
      by (simp add: AutoCirculate_states_def isr_post_def kept_def same_ring_def)
  qed (use assms(3) in \<open>auto simp: AutoCirculate_states_def AutoCirculate_stopping_def isr_post_def Let_def
         chan_ok_def position_ok_def\<close>)
qed

text \<open>
  The handler: it has a result, it changes no other channel, and on the channel of the
  interrupt it does what \<open>isr_post\<close> says to the channel \<open>a\<close> after the clocks.
\<close>

lemma isr_wp:
  assumes "circ_ok s" and "\<not> ILLEGAL_CHANNELSPEC c"
  shows "wp (AutoCirculate F P c t s) (\<lambda>(ev, s'). circ_ok s' \<and> (\<forall>d. d \<noteq> c \<longrightarrow> chan s' d = chan s d) \<and>
    (if isr_due F (hw s) (chan s c)
     then (\<exists>a. same_ring (chan s c) a \<and> state a = state (chan s c) \<and> nextFrame a = nextFrame (chan s c) \<and>
             framesProcessed a = framesProcessed (chan s c) \<and> droppedFrames a = droppedFrames (chan s c) \<and>
             startTime a = startTime (chan s c) \<and>
             (\<forall>i. stamp a i = stamp (chan s c) i) \<and> (busy a \<longrightarrow> in_ring a (activeFrame a) \<and> VBIRDTSC a = t) \<and>
             isr_post (isr_field0 F (hw s) (chan s c)) (VBIRDTSC a) a ev (chan s' c) (hw s'))
     else \<not> ev \<and> chan s' c = chan s c))" (is "wp _ ?Q")
proof -
  note less = legal_less [OF assms(2)] and ok = circ_ok_chan [OF assms(1) legal_less [OF assms(2)]]
  let ?a = "chan s c"
  have get: "ac_get s c = Some ?a" by (rule ac_get_chan [OF assms(1) less])
  show ?thesis
  proof (cases "isr_due F (hw s) ?a")
    case False
    have "in_ring ?a (nextFrame ?a)" if "state ?a \<in> {NTV2_AUTOCIRCULATE_STARTING, NTV2_AUTOCIRCULATE_RUNNING}"
      using busy_position(2) [OF ok] that by (auto simp: busy_def)
    then have f2: "wp (AutoCirculate_field2 F ch ?a r) (\<lambda>_. True)"
      if "state ?a \<in> {NTV2_AUTOCIRCULATE_STARTING, NTV2_AUTOCIRCULATE_RUNNING}" for ch r
      using that chan_ok_ring [OF ok] by (auto simp: AutoCirculate_field2_def)
    have hw: "circ_ok (s\<lparr>hw := r\<rparr>)" for r
      by (rule circ_ok_cong [OF assms(1)]) simp_all
    have "\<not> (isr_field0 F (hw s) ?a \<or> isr_field_mode F (hw s) ?a)"
      using False by (simp add: isr_due_def)
    then show ?thesis
      using False f2 hw assms(1,2)
      by (auto simp: AutoCirculate_def get Let_def isr_field0_def isr_field_mode_def isr_sync_channel_def
          elim!: wp_mono split del: if_split)
        (auto split: if_splits elim!: wp_mono)
  next
    case True
    define ch where "ch = GetNTV2ChannelForNTV2Crosspoint (channelSpec ?a)"
    define fm f0 sch where "fm = isr_field_mode F (hw s) ?a" and "f0 = isr_field0 F (hw s) ?a"
      and "sch = isr_sync_channel F (hw s) ?a"
    obtain s1 a1 where flags: "AutoCirculate_audio_flags s ?a = (s1, a1)" by (cases "AutoCirculate_audio_flags s ?a")
    note fl = audio_flags [OF flags]
    define au where "au = (if state a1 \<in> {NTV2_AUTOCIRCULATE_RUNNING, NTV2_AUTOCIRCULATE_PAUSED,
        NTV2_AUTOCIRCULATE_INIT, NTV2_AUTOCIRCULATE_STARTING} then AutoGetAudioClock P else 0)"
    define a2 where "a2 = AutoCirculate_clocks t au (hw s1) a1"
    define anc where "anc = ancInputChannel s ! ch"
    have s1: "circ_ok s1" by (rule circ_ok_cong [OF assms(1) fl(3-6)])
    have a1: "chan_ok c a1" by (rule kept_chan_ok [OF ok fl(1)])
    have a2: "chan_ok c a2" unfolding a2_def by (rule clocks_chan_ok [OF a1])
    have last: "busy a2 \<Longrightarrow> in_ring a2 (activeFrame a1)"
      using busy_position(1) [OF a1] same_ring_in [OF clocks_kept(1)] by (simp add: a2_def busy_def clocks_kept)
    have due: "f0 \<or> fm" using True by (simp add: f0_def fm_def isr_due_def)
    have anc: "arr_get (ancInputChannel s) (int ch) = Some anc"
      using assms(1) channel_less [of "channelSpec ?a"] by (simp add: arr_get_Some ch_def anc_def)
    have run: "AutoCirculate F P c t s = do {
        (ev, b, r) \<leftarrow> AutoCirculate_states F s1 c ch sch anc fm f0 au (activeFrame a1) a2 (hw s1);
        s \<leftarrow> ac_put c b (s1\<lparr>hw := r\<rparr>); Some (ev, s) }"
      using due assms(2) anc
      by (simp add: AutoCirculate_def get Let_def flags f0_def fm_def sch_def ch_def isr_field0_def
          isr_field_mode_def isr_sync_channel_def au_def a2_def)
    note post = wp_conj [OF states_wp [OF s1 assms(2) a2 last] states_post_wp [OF s1 assms(2) a2 last]]
    have same: "same_ring ?a a2" "state a2 = state ?a" "nextFrame a2 = nextFrame ?a"
        "framesProcessed a2 = framesProcessed ?a" "droppedFrames a2 = droppedFrames ?a" "stamp a2 i = stamp ?a i"
        "startTime a2 = startTime ?a" for i
      using fl(1,2,8) same_ring_trans [OF _ clocks_kept(1)] by (auto simp: a2_def kept_def clocks_kept)
    have pos: "busy a2 \<longrightarrow> in_ring a2 (activeFrame a2) \<and> VBIRDTSC a2 = t"
      using busy_position(1) [OF a2] clocks_kept(8) [of a1 t au "hw s1"] by (simp add: a2_def busy_def clocks_kept)
    show ?thesis
      unfolding run wp_bind
    proof (rule wp_mono [OF post])
      fix p
      assume p: "(case p of (ev, b, r) \<Rightarrow> chan_ok c b) \<and> (case p of (ev, b, r) \<Rightarrow> isr_post f0 (VBIRDTSC a2) a2 ev b r)"
      obtain ev b r where split: "p = (ev, b, r)" by (cases p)
      have b: "chan_ok c b" "isr_post f0 (VBIRDTSC a2) a2 ev b r" using p by (simp_all add: split)
      have put: "circ_ok (s1\<lparr>hw := r, autoCirculate := (autoCirculate s1)[c := b]\<rparr>)"
        by (rule circ_ok_put [OF s1 b(1)]) simp_all
      show "wp (case p of (ev, b, r) \<Rightarrow> do { s \<leftarrow> ac_put c b (s1\<lparr>hw := r\<rparr>); Some (ev, s) }) ?Q"
        unfolding split prod.case
        using put s1 less same pos b(2) True fl(3) circ_ok_length [OF assms(1)] by (auto simp: f0_def intro!: exI [of _ a2])
    qed
  qed
qed

end
