(* ===== verification/Ntv2AutoTransfer.thy ===== *)
theory Ntv2AutoTransfer
  imports Ntv2AutoControl
begin

text \<open>
  The transfers between the application and the frames of a channel, driver/ntv2autocirc.c:
  the choice of the frame, the set-up of the audio and ancillary transfers, the DMA requests,
  and the completion that hands a frame over and reports the state of the channel.

  The DMA and the peer-to-peer aperture belong to a device driver, which must implement the
  functions of driver/ntv2autofunc.h: they are the fields of \<open>dma_env\<close>. While a DMA runs, the
  interrupts of the channels go on, so it takes the circulator and returns the circulator that
  it leaves. The memory that the buffers of a transfer point to is part of the transfer.
\<close>

section \<open>Constants\<close>

abbreviation (input) NTV2_INVALID_FRAME :: u32 where "NTV2_INVALID_FRAME \<equiv> 0xFFFFFFFF"
abbreviation (input) AUTOCIRCULATE_P2P_PREPARE :: u32 where "AUTOCIRCULATE_P2P_PREPARE \<equiv> 0x10000000"
abbreviation (input) AUTOCIRCULATE_P2P_COMPLETE :: u32 where "AUTOCIRCULATE_P2P_COMPLETE \<equiv> 0x20000000"
abbreviation (input) AUTOCIRCULATE_P2P_TARGET :: u32 where "AUTOCIRCULATE_P2P_TARGET \<equiv> 0x40000000"
abbreviation (input) AUTOCIRCULATE_P2P_TRANSFER :: u32 where "AUTOCIRCULATE_P2P_TRANSFER \<equiv> 0x80000000"
abbreviation (input) kVRegAdvancedIndexing :: u32 where "kVRegAdvancedIndexing \<equiv> 10340"
abbreviation (input) NTV2_FG_720x514 :: u32 where "NTV2_FG_720x514 \<equiv> 14"
abbreviation (input) NTV2_FG_720x612 :: u32 where "NTV2_FG_720x612 \<equiv> 15"
abbreviation (input) NTV2_FG_1920x1112 :: u32 where "NTV2_FG_1920x1112 \<equiv> 8"
abbreviation (input) NTV2_FG_1920x1114 :: u32 where "NTV2_FG_1920x1114 \<equiv> 4"
abbreviation (input) NTV2_FBF_10BIT_YCBCR :: u32 where "NTV2_FBF_10BIT_YCBCR \<equiv> 0"
abbreviation (input) NTV2_FBF_8BIT_YCBCR :: u32 where "NTV2_FBF_8BIT_YCBCR \<equiv> 1"
abbreviation (input) NTV2_FBF_ARGB :: u32 where "NTV2_FBF_ARGB \<equiv> 2"
abbreviation (input) NTV2_FBF_RGBA :: u32 where "NTV2_FBF_RGBA \<equiv> 3"
abbreviation (input) NTV2_FBF_10BIT_RGB :: u32 where "NTV2_FBF_10BIT_RGB \<equiv> 4"
abbreviation (input) NTV2_FBF_8BIT_YCBCR_YUY2 :: u32 where "NTV2_FBF_8BIT_YCBCR_YUY2 \<equiv> 5"
abbreviation (input) NTV2_FBF_ABGR :: u32 where "NTV2_FBF_ABGR \<equiv> 6"
abbreviation (input) NTV2_FBF_10BIT_DPX :: u32 where "NTV2_FBF_10BIT_DPX \<equiv> 7"
abbreviation (input) NTV2_FBF_10BIT_YCBCR_DPX :: u32 where "NTV2_FBF_10BIT_YCBCR_DPX \<equiv> 8"
abbreviation (input) NTV2_FBF_24BIT_RGB :: u32 where "NTV2_FBF_24BIT_RGB \<equiv> 12"
abbreviation (input) NTV2_FBF_24BIT_BGR :: u32 where "NTV2_FBF_24BIT_BGR \<equiv> 13"
abbreviation (input) NTV2_FBF_10BIT_YCBCRA :: u32 where "NTV2_FBF_10BIT_YCBCRA \<equiv> 14"
abbreviation (input) NTV2_FBF_10BIT_DPX_LE :: u32 where "NTV2_FBF_10BIT_DPX_LE \<equiv> 15"
abbreviation (input) NTV2_FBF_48BIT_RGB :: u32 where "NTV2_FBF_48BIT_RGB \<equiv> 16"

abbreviation (input) NTV2_TCINDEX_DEFAULT :: u32 where "NTV2_TCINDEX_DEFAULT \<equiv> 0"

datatype NTV2DMAEngine =
    NTV2_PIO
  | NTV2_DMA1
  | NTV2_DMA2
  | NTV2_DMA3
  | NTV2_DMA4
  | NTV2_AUTODMA2
  | NTV2_AUTODMA3
  | NTV2_DMA_FIRST_AVAILABLE

section \<open>The messages of the application\<close>

record NTV2Buffer =
  fUserSpacePtr :: u64
  fByteCount :: u32
  fKernelTimeCodes :: "NTV2_RP188 list"
  fIOMemoryDesc :: u64
  fIOMemoryMap :: u64

record AUTOCIRCULATE_P2P_STRUCT =
  p2pSize :: u32
  p2pflags :: u32
  p2pVideoBusAddress :: u64
  p2pMessageBusAddress :: u64
  p2pVideoBusSize :: u32
  p2pMessageData :: u32

record FRAME_STAMP =
  acFrameTime :: int
  acRequestedFrame :: u32
  acAudioClockTimeStamp :: u64
  acAudioExpectedAddress :: u32
  acAudioInStartAddress :: u32
  acAudioInStopAddress :: u32
  acAudioOutStopAddress :: u32
  acAudioOutStartAddress :: u32
  acTotalBytesTransferred :: u32
  acStartSample :: u32
  acTimeCodes :: NTV2Buffer
  acCurrentTime :: int
  acCurrentFrame :: u32
  acCurrentFrameTime :: int
  acAudioClockCurrentTime :: u64
  acCurrentAudioExpectedAddress :: u32
  acCurrentAudioStartAddress :: u32
  acCurrentFieldCount :: u32
  acCurrentLineCount :: u32
  acCurrentReps :: u32
  acCurrentUserCookie :: u64
  acFrame :: u32
  acStampRP188 :: NTV2_RP188

record AUTOCIRCULATE_TRANSFER_STATUS =
  acState :: NTV2AutoCirculateState
  acTransferFrame :: int
  acBufferLevel :: u32
  acFramesProcessed :: u32
  acFramesDropped :: u32
  acFrameStamp :: FRAME_STAMP
  acAudioTransferSize :: u32
  acAudioStartSample :: u32
  acStatusAncTransferSize :: u32
  acStatusAncField2TransferSize :: u32

record NTV2SegmentedDMAInfo =
  acNumSegments :: u32
  acNumActiveBytesPerRow :: u32
  acSegmentHostPitch :: u32
  acSegmentDevicePitch :: u32

text \<open>
  \<open>userP2P\<close> is the structure at the address of the video buffer, and \<open>userAuxData\<close> are the words
  at the address of the auxiliary data buffer.
\<close>

record AUTOCIRCULATE_TRANSFER =
  acVideoBuffer :: NTV2Buffer
  acAudioBuffer :: NTV2Buffer
  acANCBuffer :: NTV2Buffer
  acANCField2Buffer :: NTV2Buffer
  acOutputTimeCodes :: NTV2Buffer
  acTransferStatus :: AUTOCIRCULATE_TRANSFER_STATUS
  acInUserCookie :: u64
  acInVideoDMAOffset :: u32
  acInSegmentedDMAInfo :: NTV2SegmentedDMAInfo
  acFrameBufferFormat :: u32
  acFrameBufferOrientation :: u32
  acHDMIAuxData :: NTV2Buffer
  acPeerToPeerFlags :: u32
  acFrameRepeatCount :: u32
  acDesiredFrame :: int
  acRP188 :: NTV2_RP188
  acCrosspoint :: nat
  userP2P :: AUTOCIRCULATE_P2P_STRUCT
  userAuxData :: "nat \<Rightarrow> u32"

section \<open>The interface to the DMA\<close>

record AUTO_DMA_PARAMS =
  toHost :: bool
  dmaEngine :: NTV2DMAEngine
  videoChannel :: nat
  pVidUserVa :: u64
  pVidDesc :: u64
  pVidMap :: u64
  videoBusAddress :: u64
  videoBusSize :: u32
  messageBusAddress :: u64
  messageData :: u32
  videoFrame :: u32
  vidNumBytes :: u32
  frameOffset :: u32
  vidUserPitch :: u32
  vidFramePitch :: u32
  numSegments :: u32
  pAudUserVa :: u64
  pAudDesc :: u64
  pAudMap :: u64
  dmaAudioSystem :: nat
  audNumBytes :: u32
  audOffset :: u32
  pAncF1UserVa :: u64
  pAncF1Desc :: u64
  pAncF1Map :: u64
  ancF1Frame :: u32
  ancF1NumBytes :: u32
  ancF1Offset :: u32
  pAncF2UserVa :: u64
  pAncF2Desc :: u64
  pAncF2Map :: u64
  ancF2Frame :: u32
  ancF2NumBytes :: u32
  ancF2Offset :: u32

record dma_env =
  AutoDmaTransfer :: "AUTO_DMA_PARAMS \<Rightarrow> NTV2AutoCirc \<Rightarrow> Ntv2Status \<times> NTV2AutoCirc"
  AutoBoardCanDoP2P :: bool
  AutoGetFrameAperturePhysicalAddress :: u64
  AutoGetFrameApertureBaseSize :: u32
  AutoWriteFrameApertureOffset :: "u32 \<Rightarrow> regs \<Rightarrow> regs"
  AutoGetMessageAddress :: "nat \<Rightarrow> u64"
  ntv2UserBufferPrepare :: "u64 \<Rightarrow> u32 \<Rightarrow> bool \<Rightarrow> bool"

definition zero_AUTO_DMA_PARAMS :: AUTO_DMA_PARAMS where
  "zero_AUTO_DMA_PARAMS =
     \<lparr>toHost = False, dmaEngine = NTV2_PIO, videoChannel = 0, pVidUserVa = 0, pVidDesc = 0, pVidMap = 0,
      videoBusAddress = 0, videoBusSize = 0, messageBusAddress = 0, messageData = 0, videoFrame = 0,
      vidNumBytes = 0, frameOffset = 0, vidUserPitch = 0, vidFramePitch = 0, numSegments = 0,
      pAudUserVa = 0, pAudDesc = 0, pAudMap = 0, dmaAudioSystem = 0, audNumBytes = 0, audOffset = 0,
      pAncF1UserVa = 0, pAncF1Desc = 0, pAncF1Map = 0, ancF1Frame = 0, ancF1NumBytes = 0, ancF1Offset = 0,
      pAncF2UserVa = 0, pAncF2Desc = 0, pAncF2Map = 0, ancF2Frame = 0, ancF2NumBytes = 0, ancF2Offset = 0\<rparr>"

definition zero_P2P_STRUCT :: AUTOCIRCULATE_P2P_STRUCT where
  "zero_P2P_STRUCT =
     \<lparr>p2pSize = 0, p2pflags = 0, p2pVideoBusAddress = 0, p2pMessageBusAddress = 0, p2pVideoBusSize = 0,
      p2pMessageData = 0\<rparr>"

section \<open>The start of a transfer\<close>

text \<open>
  \<open>copy_aux n src\<close>: the words of a cleared \<open>auxData\<close> after the copy of \<open>n\<close> bytes; a word that the
  copy ends in keeps its cleared upper bytes.
\<close>

definition copy_aux :: "nat \<Rightarrow> (nat \<Rightarrow> u32) \<Rightarrow> u32 list" where
  "copy_aux n src = map (\<lambda>i. take_bit (8 * (n - 4 * i)) (src i)) [0 ..< NTV2_HDMIAuxMaxFrames * NTV2_HDMIAuxDataSize div 4]"

definition BeginAutoCircTransfer_stamp :: "AUTOCIRCULATE_TRANSFER \<Rightarrow> INTERNAL_AUTOCIRCULATE_STRUCT \<Rightarrow>
    INTERNAL_FRAME_STAMP_STRUCT \<Rightarrow> INTERNAL_FRAME_STAMP_STRUCT" where
  "BeginAutoCircTransfer_stamp t pAuto f =
     (let pInTCArray = fKernelTimeCodes (acOutputTimeCodes t);
          byteCount = fByteCount (acOutputTimeCodes t);
          (_, tcArray) = CopyNTV2TimeCodeArrayToFrameStampTCArray (internalTCArray f) pInTCArray byteCount;
          f = f\<lparr>internalTCArray := tcArray,
                rp188 := (if pInTCArray \<noteq> [] \<and> byteCount \<noteq> 0 \<and> NTV2_RP188_IS_VALID (tbl pInTCArray (unat NTV2_TCINDEX_DEFAULT))
                          then RP188_STRUCT_from_NTV2_RP188 (tbl pInTCArray (unat NTV2_TCINDEX_DEFAULT))
                          else if NTV2_RP188_IS_VALID (acRP188 t)
                          then RP188_STRUCT_from_NTV2_RP188 (acRP188 t)
                          else rp188 f),
                repeatCount := s32 (acFrameRepeatCount t),
                hUser := acInUserCookie t,
                frameBufferFormat := acFrameBufferFormat t,
                frameBufferOrientation := acFrameBufferOrientation t,
                ancTransferSize := acAncTransferSize pAuto,
                ancField2TransferSize := acAncField2TransferSize pAuto\<rparr>
      in if circulateWithHDMIAux pAuto
         then if fUserSpacePtr (acHDMIAuxData t) \<noteq> 0
              then (let byteCount = min (fByteCount (acHDMIAuxData t)) 256
                    in f\<lparr>auxData := copy_aux (unat byteCount) (userAuxData t), auxDataSize := byteCount\<rparr>)
              else f\<lparr>auxData := replicate (NTV2_HDMIAuxMaxFrames * NTV2_HDMIAuxDataSize div 4) 0\<rparr>
         else f)"

definition BeginAutoCircTransfer :: "features \<Rightarrow> regs \<Rightarrow> u32 \<Rightarrow> AUTOCIRCULATE_TRANSFER \<Rightarrow>
    INTERNAL_AUTOCIRCULATE_STRUCT \<Rightarrow> INTERNAL_AUTOCIRCULATE_STRUCT option" where
  "BeginAutoCircTransfer F r frameNumber t pAuto =
     (let pAuto = pAuto\<lparr>transferFrame := frameNumber, audioTransferOffset := 0, audioTransferSize := 0,
                        ancTransferOffset := 0, ancField2TransferOffset := 0,
                        acAncTransferSize := 0, acAncField2TransferSize := 0\<rparr>;
          channel = GetNTV2ChannelForNTV2Crosspoint (channelSpec pAuto);
          frameSize = GetFrameBufferSize F r (if channel < NTV2_CHANNEL5 then NTV2_CHANNEL1 else NTV2_CHANNEL5);
          pAuto = (if circulateWithCustomAncData pAuto
                   then pAuto\<lparr>ancTransferOffset := frameSize - ntv2ReadVirtualRegister r kVRegAncField1Offset,
                              ancField2TransferOffset := frameSize - ntv2ReadVirtualRegister r kVRegAncField2Offset\<rparr>
                   else pAuto)
      in if recording pAuto
         then Some (if circulateWithCustomAncData pAuto
                    then pAuto\<lparr>acAncTransferSize := fByteCount (acANCBuffer t),
                               acAncField2TransferSize := fByteCount (acANCField2Buffer t)\<rparr>
                    else pAuto)
         else (let pAuto = (if circulateWithAudio pAuto \<and> fUserSpacePtr (acAudioBuffer t) \<noteq> 0
                            then pAuto\<lparr>audioTransferSize := fByteCount (acAudioBuffer t)\<rparr> else pAuto);
                   pAuto = (if circulateWithCustomAncData pAuto
                            then pAuto\<lparr>acAncTransferSize :=
                                         (if fUserSpacePtr (acANCBuffer t) \<noteq> 0 then fByteCount (acANCBuffer t) else 0),
                                       acAncField2TransferSize :=
                                         (if fUserSpacePtr (acANCField2Buffer t) \<noteq> 0 then fByteCount (acANCField2Buffer t) else 0)\<rparr>
                            else pAuto)
               in fs_upd (BeginAutoCircTransfer_stamp t pAuto) (uint frameNumber) pAuto))"

section \<open>The end of a transfer\<close>

definition CompleteAutoCircTransfer_frame :: "u32 \<Rightarrow> bool \<Rightarrow> bool \<Rightarrow> INTERNAL_AUTOCIRCULATE_STRUCT \<Rightarrow>
    AUTOCIRCULATE_TRANSFER_STATUS \<Rightarrow> (AUTOCIRCULATE_TRANSFER_STATUS \<times> INTERNAL_AUTOCIRCULATE_STRUCT) option" where
  "CompleteAutoCircTransfer_frame frameNumber updateValid transferPending pAuto out =
     (if frameNumber \<ge> u32_of (startFrame pAuto) \<and> frameNumber \<le> u32_of (endFrame pAuto)
      then do {
        f \<leftarrow> fs_get pAuto (uint frameNumber);
        let out = out\<lparr>acTransferFrame := s32 frameNumber,
                      acFrameStamp := (acFrameStamp out)\<lparr>acAudioClockTimeStamp := audioClockTimeStamp f,
                        acCurrentFieldCount := 0, acCurrentLineCount := 0, acCurrentUserCookie := hUser f\<rparr>\<rparr>;
        if recording pAuto
        then do {
          pAuto \<leftarrow> (if updateValid then fs_upd (\<lambda>f. f\<lparr>validCount := 0\<rparr>) (uint frameNumber) pAuto else Some pAuto);
          f \<leftarrow> fs_get pAuto (uint frameNumber);
          let st = (acFrameStamp out)\<lparr>acFrame := frameNumber,
                     acFrameTime := frameTime f,
                     acAudioInStartAddress := audioInStartAddress f,
                     acAudioInStopAddress := audioInStopAddress f,
                     acStartSample := audioInStartAddress f,
                     acCurrentReps := u32_of (validCount f),
                     acStampRP188 := NTV2_RP188_from_RP188_STRUCT (rp188 f)\<rparr>;
          let (_, tcs) = CopyFrameStampTCArrayToNTV2TimeCodeArray (internalTCArray f)
                           (fKernelTimeCodes (acTimeCodes st)) (fByteCount (acTimeCodes st));
          let st = st\<lparr>acTimeCodes := (acTimeCodes st)\<lparr>fKernelTimeCodes := tcs\<rparr>\<rparr>;
          Some (out\<lparr>acFrameStamp := st,
                    acAudioTransferSize := audioTransferSize pAuto,
                    acAudioStartSample := audioStartSample pAuto,
                    acStatusAncTransferSize := ancTransferSize f,
                    acStatusAncField2TransferSize := ancField2TransferSize f\<rparr>, pAuto) }
        else do {
          pAuto \<leftarrow> fs_upd (\<lambda>f. f\<lparr>videoTransferPending := transferPending,
                               validCount := (if updateValid then repeatCount f else validCount f)\<rparr>)
                     (uint frameNumber) pAuto;
          Some (out\<lparr>acFrameStamp := (acFrameStamp out)\<lparr>acCurrentReps := u32_of (repeatCount f)\<rparr>\<rparr>, pAuto) } }
      else Some (out\<lparr>acTransferFrame := s32 NTV2_INVALID_FRAME\<rparr>, pAuto))"

definition CompleteAutoCircTransfer_current :: "platform \<Rightarrow> INTERNAL_AUTOCIRCULATE_STRUCT \<Rightarrow>
    FRAME_STAMP \<Rightarrow> FRAME_STAMP option" where
  "CompleteAutoCircTransfer_current P pAuto st =
     (let ulCurrentFrame = u32_of (activeFrame pAuto);
          st = st\<lparr>acCurrentFrame := ulCurrentFrame\<rparr>
      in if ulCurrentFrame \<ge> u32_of (startFrame pAuto) \<and> ulCurrentFrame \<le> u32_of (endFrame pAuto)
         then do {
           f \<leftarrow> fs_get pAuto (uint ulCurrentFrame);
           let st = st\<lparr>acCurrentFrameTime := frameTime f, acAudioClockCurrentTime := AutoGetAudioClock P\<rparr>;
           Some (if \<not> recording pAuto
                 then st\<lparr>acFrame := ulCurrentFrame, acFrameTime := frameTime f,
                         acAudioOutStartAddress := audioOutStartAddress f,
                         acAudioOutStopAddress := audioOutStopAddress f,
                         acStartSample := audioInStartAddress f,
                         acAudioExpectedAddress := audioExpectedAddress f\<rparr>
                 else st) }
         else (let st = st\<lparr>acCurrentFrameTime := 0, acAudioClockCurrentTime := AutoGetAudioClock P\<rparr>
               in Some (if \<not> recording pAuto
                        then st\<lparr>acFrame := ulCurrentFrame, acFrameTime := 0, acAudioOutStartAddress := 0,
                                acAudioOutStopAddress := 0, acStartSample := 0, acAudioExpectedAddress := 0\<rparr>
                        else st)))"

definition CompleteAutoCircTransfer :: "platform \<Rightarrow> u32 \<Rightarrow> bool \<Rightarrow> bool \<Rightarrow> AUTOCIRCULATE_TRANSFER_STATUS \<Rightarrow>
    INTERNAL_AUTOCIRCULATE_STRUCT \<Rightarrow> (AUTOCIRCULATE_TRANSFER_STATUS \<times> INTERNAL_AUTOCIRCULATE_STRUCT) option" where
  "CompleteAutoCircTransfer P frameNumber updateValid transferPending out pAuto =
     do { (out, pAuto) \<leftarrow> CompleteAutoCircTransfer_frame frameNumber updateValid transferPending pAuto out;
          level \<leftarrow> AutoCircGetBufferLevel pAuto;
          let st = acFrameStamp out;
          st \<leftarrow> CompleteAutoCircTransfer_current P pAuto
                 (st\<lparr>acCurrentTime := ntv2Time100ns P, acCurrentAudioExpectedAddress := acAudioExpectedAddress st\<rparr>);
          Some (out\<lparr>acFrameStamp := st,
                    acBufferLevel := level,
                    acState := state pAuto,
                    acFramesDropped := droppedFrames pAuto,
                    acFramesProcessed := framesProcessed pAuto\<rparr>, pAuto) }"

section \<open>Fields\<close>

text \<open>The size of the frame, and whether the frame starts with the top field when field 0 is due.\<close>

definition AutoCircTransferFields_size :: "u32 \<Rightarrow> (u32 \<times> u32 \<times> bool) option" where
  "AutoCircTransferFields_size fbGeometry =
     (if fbGeometry = NTV2_FG_720x486 then Some (720, 486, False)
      else if fbGeometry = NTV2_FG_720x514 then Some (720, 514, False)
      else if fbGeometry = NTV2_FG_720x576 then Some (720, 576, True)
      else if fbGeometry = NTV2_FG_720x612 then Some (720, 612, True)
      else if fbGeometry = NTV2_FG_1920x1080 then Some (1920, 1080, True)
      else if fbGeometry = NTV2_FG_1920x1112 then Some (1920, 1112, True)
      else if fbGeometry = NTV2_FG_1920x1114 then Some (1920, 1114, True)
      else None)"

definition AutoCircTransferFields_pitch :: "u32 \<Rightarrow> u32 \<Rightarrow> u32 option" where
  "AutoCircTransferFields_pitch fbFormat pixels =
     (if fbFormat \<in> {NTV2_FBF_10BIT_YCBCR, NTV2_FBF_10BIT_YCBCR_DPX} then Some (pixels * 16 div 6)
      else if fbFormat \<in> {NTV2_FBF_8BIT_YCBCR, NTV2_FBF_8BIT_YCBCR_YUY2} then Some (pixels * 2)
      else if fbFormat \<in> {NTV2_FBF_ARGB, NTV2_FBF_RGBA, NTV2_FBF_10BIT_RGB, NTV2_FBF_ABGR, NTV2_FBF_10BIT_DPX,
                          NTV2_FBF_10BIT_YCBCRA, NTV2_FBF_10BIT_DPX_LE} then Some (pixels * 4)
      else if fbFormat \<in> {NTV2_FBF_24BIT_RGB, NTV2_FBF_24BIT_BGR} then Some (pixels * 3 div 2)
      else if fbFormat = NTV2_FBF_48BIT_RGB then Some (pixels * 6)
      else None)"

definition AutoCircTransferFields :: "features \<Rightarrow> regs \<Rightarrow> INTERNAL_AUTOCIRCULATE_STRUCT \<Rightarrow> u32 \<Rightarrow> bool \<Rightarrow>
    AUTOCIRCULATE_TRANSFER \<Rightarrow> AUTOCIRCULATE_TRANSFER option" where
  "AutoCircTransferFields F r pAuto frameNumber dropField t =
     (if acInVideoDMAOffset t \<noteq> 0 \<or> acNumSegments (acInSegmentedDMAInfo t) > 1
      then Some t
      else if \<not> AutoCircCanDoFieldMode F r pAuto
      then Some t
      else do {
        f \<leftarrow> fs_get pAuto (uint frameNumber);
        let syncChannel = (if IsMultiFormatActive F r
                           then GetNTV2ChannelForNTV2Crosspoint (channelSpec pAuto) else NTV2_CHANNEL1);
        let syncField0 = (frameFlags f AND AUTOCIRCULATE_FRAME_FIELD0 \<noteq> 0);
        let syncField0 = (if dropField then \<not> syncField0 else syncField0);
        Some (case AutoCircTransferFields_size (GetFrameGeometry F r syncChannel) of
                None \<Rightarrow> t
              | Some (pixels, lines, topFirst) \<Rightarrow>
                  (case AutoCircTransferFields_pitch (GetFrameBufferFormat r syncChannel) pixels of
                     None \<Rightarrow> t
                   | Some pitch \<Rightarrow>
                       t\<lparr>acInVideoDMAOffset := (if syncField0 = topFirst then 0 else pitch),
                         acVideoBuffer := (acVideoBuffer t)\<lparr>fByteCount := pitch\<rparr>,
                         acInSegmentedDMAInfo :=
                           \<lparr>acNumSegments = lines div 2, acNumActiveBytesPerRow = pitch,
                            acSegmentHostPitch = pitch, acSegmentDevicePitch = pitch * 2\<rparr>\<rparr>)) })"

section \<open>Audio\<close>

text \<open>
  A playing channel writes behind the data of the last transfer, or at the start of the audio
  buffer after a drop of the audio output.
\<close>

definition AutoCircDmaAudioSetup_play :: "regs \<Rightarrow> INTERNAL_AUTOCIRCULATE_STRUCT \<Rightarrow> INTERNAL_AUTOCIRCULATE_STRUCT option" where
  "AutoCircDmaAudioSetup_play r pAuto =
     (let ulAudioWrapAddress = GetAudioWrapAddress r (audioSystem pAuto);
          ulAudioBytes = audioTransferSize pAuto;
          pAuto = (if audioDropsRequired pAuto > audioDropsCompleted pAuto
                   then pAuto\<lparr>nextAudioOutputAddress := 0, audioDropsCompleted := audioDropsCompleted pAuto + 1\<rparr>
                   else pAuto);
          next = nextAudioOutputAddress pAuto;
          pAuto = pAuto\<lparr>audioTransferOffset := next,
                        nextAudioOutputAddress := (if next + ulAudioBytes < ulAudioWrapAddress
                                                   then next + ulAudioBytes
                                                   else ulAudioBytes - (ulAudioWrapAddress - next))\<rparr>
      in fs_upd (\<lambda>f. f\<lparr>audioExpectedAddress := next\<rparr>) (uint (transferFrame pAuto)) pAuto)"

definition AutoCircDmaAudioSetup_record :: "regs \<Rightarrow> INTERNAL_AUTOCIRCULATE_STRUCT \<Rightarrow> INTERNAL_AUTOCIRCULATE_STRUCT option" where
  "AutoCircDmaAudioSetup_record r pAuto =
     do { f \<leftarrow> fs_get pAuto (uint (transferFrame pAuto));
          let ulAudioWrapAddress = GetAudioWrapAddress r (audioSystem pAuto);
          let ulAudioReadOffset = GetAudioReadOffset r (audioSystem pAuto);
          let ulAudioEnd = audioInStopAddress f;
          let ulAudioStart = audioInStartAddress f;
          let (ulPreWrapSize, ulPostWrapSize) =
            (if ulAudioEnd < ulAudioStart
             then (ulAudioWrapAddress - (ulAudioStart - ulAudioReadOffset), ulAudioEnd - ulAudioReadOffset)
             else (ulAudioEnd - ulAudioStart, 0));
          Some (pAuto\<lparr>audioTransferOffset := ulAudioStart - ulAudioReadOffset,
                      audioTransferSize := ulPreWrapSize + ulPostWrapSize,
                      audioStartSample := 0\<rparr>) }"

definition AutoCircDmaAudioSetup :: "regs \<Rightarrow> INTERNAL_AUTOCIRCULATE_STRUCT \<Rightarrow>
    (bool \<times> INTERNAL_AUTOCIRCULATE_STRUCT) option" where
  "AutoCircDmaAudioSetup r pAuto =
     (if \<not> circulateWithAudio pAuto
      then Some (False, pAuto)
      else do {
        pAuto \<leftarrow> (if recording pAuto then AutoCircDmaAudioSetup_record r pAuto else AutoCircDmaAudioSetup_play r pAuto);
        Some (True, pAuto) })"

section \<open>Peer-to-peer\<close>

text \<open>
  \<open>AutoCircP2PCopy\<close> copies between a structure of the driver and the structure at a user
  address; the result is both structures after the copy.
\<close>

definition AutoCircP2PCopy :: "dma_env \<Rightarrow> AUTOCIRCULATE_P2P_STRUCT \<Rightarrow> u64 \<Rightarrow> AUTOCIRCULATE_P2P_STRUCT \<Rightarrow> bool \<Rightarrow>
    bool \<times> AUTOCIRCULATE_P2P_STRUCT \<times> AUTOCIRCULATE_P2P_STRUCT" where
  "AutoCircP2PCopy E driver pUserBuffer user bToDriver =
     (if pUserBuffer = 0
      then (False, driver, user)
      else if \<not> bToDriver \<and> p2pSize driver \<noteq> 32
      then (False, driver, user)
      else if bToDriver \<and> p2pSize user \<noteq> 32
      then (False, driver, user)
      else if \<not> ntv2UserBufferPrepare E pUserBuffer 32 (\<not> bToDriver)
      then (False, driver, user)
      else if bToDriver
      then (True, user, user)
      else (True, driver, driver))"

section \<open>The transfer\<close>

text \<open>The locals of \<open>AutoCircTransfer\<close> that its phases share.\<close>

record transfer_locals =
  xStatus :: Ntv2Status
  updateValid :: bool
  transferPending :: bool
  audioTransferDone :: bool
  ancTransferDone :: bool
  xTransfer :: AUTOCIRCULATE_TRANSFER
  xCirc :: NTV2AutoCirc

text \<open>A phase either returns from the function (\<open>Inl\<close>) or goes on with the locals (\<open>Inr\<close>).\<close>

type_synonym transfer_result = "Ntv2Status \<times> AUTOCIRCULATE_TRANSFER \<times> NTV2AutoCirc"
type_synonym transfer_phase = "(transfer_result + transfer_locals) option"

definition xdma :: "dma_env \<Rightarrow> AUTO_DMA_PARAMS \<Rightarrow> transfer_locals \<Rightarrow> transfer_locals" where
  "xdma E params x = (let (st, s) = AutoDmaTransfer E params (xCirc x) in x\<lparr>xStatus := st, xCirc := s\<rparr>)"

definition AutoCircTransfer_frame :: "int \<Rightarrow> INTERNAL_AUTOCIRCULATE_STRUCT \<Rightarrow>
    (u32 \<times> INTERNAL_AUTOCIRCULATE_STRUCT) option" where
  "AutoCircTransfer_frame desired pAuto =
     do { (frameNumber, pAuto) \<leftarrow>
            (if u32_of desired = NTV2_INVALID_FRAME
             then do { (bRet, pAuto) \<leftarrow> AutoCircFindNextAvailFrame pAuto;
                       Some (if bRet then nextTransferFrame pAuto else NTV2_INVALID_FRAME, pAuto) }
             else Some (u32_of desired, pAuto));
          Some (if frameNumber = NTV2_INVALID_FRAME \<and> recording pAuto then u32_of (startFrame pAuto) else frameNumber,
                pAuto) }"

definition AutoCircTransfer_begin :: "features \<Rightarrow> AUTOCIRCULATE_TRANSFER \<Rightarrow> u32 \<Rightarrow> u32 \<Rightarrow> nat \<Rightarrow> nat \<Rightarrow>
    NTV2AutoCirc \<Rightarrow> NTV2AutoCirc outcome" where
  "AutoCircTransfer_begin F t frameNumber stride loopCount spec s =
     do { pAuto \<leftarrow> ac_get s spec;
          pAuto \<leftarrow> BeginAutoCircTransfer F (hw s) (stride * of_nat loopCount + frameNumber) t pAuto;
          s \<leftarrow> ac_put spec pAuto s;
          Some (NTV2_STATUS_SUCCESS, s) }"

text \<open>The peer-to-peer structure of a target, or the failure to build it.\<close>

definition AutoCircTransfer_target :: "features \<Rightarrow> dma_env \<Rightarrow> regs \<Rightarrow> nat \<Rightarrow> u32 \<Rightarrow> AUTOCIRCULATE_TRANSFER \<Rightarrow>
    Ntv2Status \<times> AUTOCIRCULATE_P2P_STRUCT" where
  "AutoCircTransfer_target F E r channel frameNumber t =
     (let dmaData = zero_P2P_STRUCT\<lparr>p2pSize := 32\<rparr>;
          ulVideoOffset = frameNumber * GetFrameBufferSize F r channel + acInVideoDMAOffset t;
          ulVideoSize = GetFrameBufferSize F r channel - acInVideoDMAOffset t;
          paFrameBuffer = AutoGetFrameAperturePhysicalAddress E
      in if paFrameBuffer \<noteq> 0 \<and> ulVideoOffset + ulVideoSize \<le> AutoGetFrameApertureBaseSize E
         then (let dmaData = dmaData\<lparr>p2pVideoBusAddress := paFrameBuffer + ucast ulVideoOffset,
                                     p2pVideoBusSize := ulVideoSize\<rparr>
               in if acPeerToPeerFlags t AND AUTOCIRCULATE_P2P_TARGET = AUTOCIRCULATE_P2P_TARGET
                  then (let dmaData = dmaData\<lparr>p2pMessageBusAddress := AutoGetMessageAddress E channel\<rparr>
                        in if p2pMessageBusAddress dmaData \<noteq> 0
                           then (NTV2_STATUS_SUCCESS, dmaData\<lparr>p2pMessageData := frameNumber\<rparr>)
                           else (NTV2_STATUS_BAD_PARAMETER, dmaData))
                  else (NTV2_STATUS_SUCCESS, dmaData))
         else (NTV2_STATUS_BAD_PARAMETER, dmaData))"

definition AutoCircTransfer_p2p_prepare :: "features \<Rightarrow> dma_env \<Rightarrow> nat \<Rightarrow> u32 \<Rightarrow> transfer_locals \<Rightarrow> transfer_phase" where
  "AutoCircTransfer_p2p_prepare F E spec frameNumber x =
     do { pAuto \<leftarrow> ac_get (xCirc x) spec;
          if channelCount pAuto \<noteq> 1
          then Some (Inl (NTV2_STATUS_BAD_PARAMETER, xTransfer x, xCirc x))
          else do {
            pAuto \<leftarrow> BeginAutoCircTransfer F (hw (xCirc x)) frameNumber (xTransfer x) pAuto;
            s \<leftarrow> ac_put spec pAuto (xCirc x);
            let x = x\<lparr>xCirc := s, updateValid := True\<rparr>;
            if recording pAuto
            then Some (Inr (x\<lparr>xStatus := NTV2_STATUS_BAD_PARAMETER\<rparr>))
            else if \<not> AutoBoardCanDoP2P E
            then Some (Inr (x\<lparr>xStatus := NTV2_STATUS_BAD_PARAMETER\<rparr>))
            else do {
              let (st, dmaData) = AutoCircTransfer_target F E (hw s) (GetNTV2ChannelForNTV2Crosspoint spec) frameNumber (xTransfer x);
              let x = (if st = NTV2_STATUS_SUCCESS then x else x\<lparr>xStatus := st\<rparr>);
              let (copied, _, user) = AutoCircP2PCopy E dmaData (fUserSpacePtr (acVideoBuffer (xTransfer x))) (userP2P (xTransfer x)) False;
              let x = x\<lparr>xTransfer := (xTransfer x)\<lparr>userP2P := user\<rparr>\<rparr>;
              Some (Inr (if copied
                         then x\<lparr>xCirc := upd_hw (AutoWriteFrameApertureOffset E 0) (xCirc x), transferPending := True\<rparr>
                         else x\<lparr>xStatus := NTV2_STATUS_BAD_PARAMETER\<rparr>)) } } }"

definition AutoCircTransfer_p2p_complete :: "features \<Rightarrow> dma_env \<Rightarrow> nat \<Rightarrow> u32 \<Rightarrow> transfer_locals \<Rightarrow> transfer_phase" where
  "AutoCircTransfer_p2p_complete F E spec frameNumber x =
     do { pAuto \<leftarrow> ac_get (xCirc x) spec;
          let x = (if recording pAuto \<or> \<not> AutoBoardCanDoP2P E then x\<lparr>xStatus := NTV2_STATUS_BAD_PARAMETER\<rparr> else x);
          pAuto \<leftarrow> BeginAutoCircTransfer F (hw (xCirc x)) frameNumber (xTransfer x) pAuto;
          s \<leftarrow> ac_put spec pAuto (xCirc x);
          Some (Inr (x\<lparr>xCirc := s\<rparr>)) }"

definition AutoCircTransfer_p2p_transfer :: "features \<Rightarrow> dma_env \<Rightarrow> nat \<Rightarrow> u32 \<Rightarrow> transfer_locals \<Rightarrow> transfer_phase" where
  "AutoCircTransfer_p2p_transfer F E spec frameNumber x =
     do { pAuto \<leftarrow> ac_get (xCirc x) spec;
          if channelCount pAuto \<noteq> 1
          then Some (Inl (NTV2_STATUS_BAD_PARAMETER, xTransfer x, xCirc x))
          else do {
            pAuto \<leftarrow> BeginAutoCircTransfer F (hw (xCirc x)) frameNumber (xTransfer x) pAuto;
            s \<leftarrow> ac_put spec pAuto (xCirc x);
            let x = x\<lparr>xCirc := s, updateValid := True\<rparr>;
            let t = xTransfer x;
            if \<not> recording pAuto
            then Some (Inr (x\<lparr>xStatus := NTV2_STATUS_BAD_PARAMETER\<rparr>))
            else if \<not> AutoBoardCanDoP2P E
            then Some (Inr (x\<lparr>xStatus := NTV2_STATUS_BAD_PARAMETER\<rparr>))
            else (let (copied, dmaData, _) = AutoCircP2PCopy E zero_P2P_STRUCT (fUserSpacePtr (acVideoBuffer t)) (userP2P t) True
                  in Some (Inr (if copied
                       then xdma E
                         (zero_AUTO_DMA_PARAMS\<lparr>
                            toHost := recording pAuto, dmaEngine := NTV2_DMA1,
                            videoChannel := GetNTV2ChannelForNTV2Crosspoint spec,
                            videoBusAddress := p2pVideoBusAddress dmaData, videoBusSize := p2pVideoBusSize dmaData,
                            messageBusAddress := p2pMessageBusAddress dmaData, messageData := p2pMessageData dmaData,
                            videoFrame := frameNumber, vidNumBytes := fByteCount (acVideoBuffer t),
                            frameOffset := acInVideoDMAOffset t,
                            vidUserPitch := acSegmentHostPitch (acInSegmentedDMAInfo t),
                            vidFramePitch := acSegmentDevicePitch (acInSegmentedDMAInfo t),
                            numSegments := acNumSegments (acInSegmentedDMAInfo t)\<rparr>) x
                       else x\<lparr>xStatus := NTV2_STATUS_BAD_PARAMETER\<rparr>))) } }"

text \<open>The DMA request for the video of a frame, and for its audio and ancillary data as well.\<close>

definition video_dma :: "NTV2DMAEngine \<Rightarrow> nat \<Rightarrow> u32 \<Rightarrow> INTERNAL_AUTOCIRCULATE_STRUCT \<Rightarrow> AUTOCIRCULATE_TRANSFER \<Rightarrow> AUTO_DMA_PARAMS" where
  "video_dma engine channel frameNumber pAuto t =
     zero_AUTO_DMA_PARAMS\<lparr>
       toHost := recording pAuto, dmaEngine := engine, videoChannel := channel,
       pVidUserVa := fUserSpacePtr (acVideoBuffer t), pVidDesc := fIOMemoryDesc (acVideoBuffer t),
       pVidMap := fIOMemoryMap (acVideoBuffer t), videoFrame := frameNumber,
       vidNumBytes := fByteCount (acVideoBuffer t), frameOffset := acInVideoDMAOffset t,
       vidUserPitch := acSegmentHostPitch (acInSegmentedDMAInfo t),
       vidFramePitch := acSegmentDevicePitch (acInSegmentedDMAInfo t),
       numSegments := acNumSegments (acInSegmentedDMAInfo t)\<rparr>"

definition frame_dma :: "NTV2DMAEngine \<Rightarrow> nat \<Rightarrow> u32 \<Rightarrow> INTERNAL_AUTOCIRCULATE_STRUCT \<Rightarrow> AUTOCIRCULATE_TRANSFER \<Rightarrow>
    bool \<Rightarrow> bool \<Rightarrow> AUTO_DMA_PARAMS" where
  "frame_dma engine channel frameNumber pAuto t withAudio withAnc =
     (video_dma engine channel frameNumber pAuto t)\<lparr>
       pAudUserVa := (if withAudio then fUserSpacePtr (acAudioBuffer t) else 0),
       pAudDesc := (if withAudio then fIOMemoryDesc (acAudioBuffer t) else 0),
       pAudMap := (if withAudio then fIOMemoryMap (acAudioBuffer t) else 0),
       dmaAudioSystem := audioSystem pAuto,
       audNumBytes := (if withAudio then audioTransferSize pAuto else 0),
       audOffset := (if withAudio then audioTransferOffset pAuto else 0),
       pAncF1UserVa := (if withAnc then fUserSpacePtr (acANCBuffer t) else 0),
       pAncF1Desc := (if withAnc then fIOMemoryDesc (acANCBuffer t) else 0),
       pAncF1Map := (if withAnc then fIOMemoryMap (acANCBuffer t) else 0),
       ancF1Frame := frameNumber,
       ancF1NumBytes := (if withAnc then acAncTransferSize pAuto else 0),
       ancF1Offset := (if withAnc then ancTransferOffset pAuto else 0),
       pAncF2UserVa := (if withAnc then fUserSpacePtr (acANCField2Buffer t) else 0),
       pAncF2Desc := (if withAnc then fIOMemoryDesc (acANCField2Buffer t) else 0),
       pAncF2Map := (if withAnc then fIOMemoryMap (acANCField2Buffer t) else 0),
       ancF2Frame := frameNumber,
       ancF2NumBytes := (if withAnc then acAncField2TransferSize pAuto else 0),
       ancF2Offset := (if withAnc then ancField2TransferOffset pAuto else 0)\<rparr>"

definition AutoCircTransfer_engine :: "features \<Rightarrow> u32 \<Rightarrow> nat \<Rightarrow> NTV2DMAEngine" where
  "AutoCircTransfer_engine F deviceID channel =
     (if NTV2DeviceHasXilinxDMA F deviceID
      then NTV2_DMA1
      else if channel \<in> {NTV2_CHANNEL3, NTV2_CHANNEL4, NTV2_CHANNEL5, NTV2_CHANNEL6}
      then NTV2_DMA2
      else NTV2_DMA1)"

text \<open>
  With fields, the active field goes first; the other field follows, except after a capture
  that succeeded. The status of the second request is not looked at.
\<close>

definition AutoCircTransfer_fields :: "features \<Rightarrow> dma_env \<Rightarrow> nat \<Rightarrow> NTV2DMAEngine \<Rightarrow> u32 \<Rightarrow> bool \<Rightarrow> bool \<Rightarrow>
    transfer_locals \<Rightarrow> transfer_locals option" where
  "AutoCircTransfer_fields F E spec engine frameNumber withAudio withAnc x =
     do { let channel = GetNTV2ChannelForNTV2Crosspoint spec;
          pAuto \<leftarrow> ac_get (xCirc x) spec;
          pAuto \<leftarrow> (if \<not> recording pAuto
                   then fs_upd (\<lambda>f. f\<lparr>frameFlags := acPeerToPeerFlags (xTransfer x)\<rparr>) (uint frameNumber) pAuto
                   else Some pAuto);
          s \<leftarrow> ac_put spec pAuto (xCirc x);
          transfer \<leftarrow> AutoCircTransferFields F (hw s) pAuto frameNumber False (xTransfer x);
          let x = xdma E (frame_dma engine channel frameNumber pAuto transfer withAudio withAnc) (x\<lparr>xCirc := s\<rparr>);
          pAuto \<leftarrow> ac_get (xCirc x) spec;
          if recording pAuto \<and> xStatus x = NTV2_STATUS_SUCCESS
          then do { f \<leftarrow> fs_get pAuto (uint frameNumber);
                    Some (x\<lparr>xTransfer := (xTransfer x)\<lparr>acPeerToPeerFlags := frameFlags f\<rparr>\<rparr>) }
          else do { transfer \<leftarrow> AutoCircTransferFields F (hw (xCirc x)) pAuto frameNumber True (xTransfer x);
                    Some ((xdma E (video_dma engine channel frameNumber pAuto transfer) x)\<lparr>xStatus := xStatus x\<rparr>) } }"

text \<open>The set-up of the audio transfer and the DMA of the whole frame.\<close>

definition AutoCircTransfer_dma :: "features \<Rightarrow> dma_env \<Rightarrow> nat \<Rightarrow> u32 \<Rightarrow> transfer_locals \<Rightarrow> transfer_phase" where
  "AutoCircTransfer_dma F E spec frameNumber x =
     do { let channel = GetNTV2ChannelForNTV2Crosspoint spec;
          pAuto \<leftarrow> ac_get (xCirc x) spec;
          let withAnc = circulateWithCustomAncData pAuto;
          let withAudio = circulateWithAudio pAuto;
          (bRet, pAuto) \<leftarrow> (if withAudio then AutoCircDmaAudioSetup (hw (xCirc x)) pAuto else Some (True, pAuto));
          s \<leftarrow> ac_put spec pAuto (xCirc x);
          let x = x\<lparr>xCirc := s\<rparr>;
          if \<not> bRet
          then Some (Inl (NTV2_STATUS_FAIL, xTransfer x, s))
          else do {
            let engine = AutoCircTransfer_engine F (acDeviceID s) channel;
            x \<leftarrow> (if circulateWithFields pAuto
                 then AutoCircTransfer_fields F E spec engine frameNumber withAudio withAnc x
                 else Some (xdma E (frame_dma engine channel frameNumber pAuto (xTransfer x) withAudio withAnc) x));
            Some (Inr (x\<lparr>audioTransferDone := withAudio, ancTransferDone := withAnc\<rparr>)) } }"

definition AutoCircTransfer_normal :: "features \<Rightarrow> dma_env \<Rightarrow> nat \<Rightarrow> u32 \<Rightarrow> u32 \<Rightarrow> transfer_locals \<Rightarrow> transfer_phase" where
  "AutoCircTransfer_normal F E spec frameNumber stride x =
     do { pAuto \<leftarrow> ac_get (xCirc x) spec;
          (_, s) \<leftarrow> gang (AutoCircTransfer_begin F (xTransfer x) frameNumber stride) (nat (channelCount pAuto)) 0
                      (GetIndexForNTV2Crosspoint spec) (xCirc x);
          AutoCircTransfer_dma F E spec frameNumber (x\<lparr>xCirc := s, updateValid := True\<rparr>) }"

text \<open>The audio, and then the ancillary data, that the video request did not carry.\<close>

definition AutoCircTransfer_audio :: "dma_env \<Rightarrow> nat \<Rightarrow> transfer_locals \<Rightarrow> transfer_phase" where
  "AutoCircTransfer_audio E spec x =
     do { pAuto \<leftarrow> ac_get (xCirc x) spec;
          if circulateWithAudio pAuto \<and> \<not> audioTransferDone x
          then do {
            (bRet, pAuto) \<leftarrow> AutoCircDmaAudioSetup (hw (xCirc x)) pAuto;
            s \<leftarrow> ac_put spec pAuto (xCirc x);
            let x = x\<lparr>xCirc := s\<rparr>;
            let t = xTransfer x;
            if \<not> bRet
            then Some (Inl (NTV2_STATUS_FAIL, t, s))
            else do {
              let x = xdma E (zero_AUTO_DMA_PARAMS\<lparr>
                        toHost := recording pAuto, dmaEngine := NTV2_DMA1,
                        videoChannel := GetNTV2ChannelForNTV2Crosspoint spec,
                        pAudUserVa := fUserSpacePtr (acAudioBuffer t), pAudDesc := fIOMemoryDesc (acAudioBuffer t),
                        pAudMap := fIOMemoryMap (acAudioBuffer t), dmaAudioSystem := audioSystem pAuto,
                        audNumBytes := audioTransferSize pAuto, audOffset := audioTransferOffset pAuto\<rparr>) x;
              Some (if xStatus x \<noteq> NTV2_STATUS_SUCCESS then Inl (xStatus x, xTransfer x, xCirc x) else Inr x) } }
          else Some (Inr x) }"

definition AutoCircTransfer_anc :: "dma_env \<Rightarrow> nat \<Rightarrow> u32 \<Rightarrow> transfer_locals \<Rightarrow> transfer_phase" where
  "AutoCircTransfer_anc E spec frameNumber x =
     do { pAuto \<leftarrow> ac_get (xCirc x) spec;
          if circulateWithCustomAncData pAuto \<and> \<not> ancTransferDone x
          then (let t = xTransfer x;
                    x = xdma E (zero_AUTO_DMA_PARAMS\<lparr>
                          toHost := recording pAuto, dmaEngine := NTV2_DMA1,
                          videoChannel := GetNTV2ChannelForNTV2Crosspoint spec,
                          pAncF1UserVa := fUserSpacePtr (acANCBuffer t), ancF1Frame := frameNumber,
                          ancF1NumBytes := acAncTransferSize pAuto, ancF1Offset := ancTransferOffset pAuto,
                          pAncF2UserVa := fUserSpacePtr (acANCField2Buffer t), ancF2Frame := frameNumber,
                          ancF2NumBytes := acAncField2TransferSize pAuto,
                          ancF2Offset := ancField2TransferOffset pAuto\<rparr>) x
                in Some (if xStatus x \<noteq> NTV2_STATUS_SUCCESS then Inl (xStatus x, xTransfer x, xCirc x) else Inr x))
          else Some (Inr x) }"

text \<open>The completion of every channel of the gang, which writes the one status of the transfer.\<close>

fun AutoCircTransfer_complete :: "platform \<Rightarrow> u32 \<Rightarrow> u32 \<Rightarrow> nat \<Rightarrow> nat \<Rightarrow> u32 \<Rightarrow> transfer_locals \<Rightarrow> transfer_locals option" where
  "AutoCircTransfer_complete P frameNumber stride 0 loopCount csIndex x = Some x"
| "AutoCircTransfer_complete P frameNumber stride (Suc n) loopCount csIndex x =
     (let spec = GetNTV2CrosspointForIndex csIndex
      in do { pAuto \<leftarrow> ac_get (xCirc x) spec;
              (out, pAuto) \<leftarrow> CompleteAutoCircTransfer P (stride * of_nat loopCount + frameNumber)
                                (updateValid x) (transferPending x) (acTransferStatus (xTransfer x)) pAuto;
              s \<leftarrow> ac_put spec pAuto (xCirc x);
              AutoCircTransfer_complete P frameNumber stride n (loopCount + 1) (csIndex + 1)
                (x\<lparr>xCirc := s, xTransfer := (xTransfer x)\<lparr>acTransferStatus := out\<rparr>\<rparr>) })"

definition no_transfer_frame :: "AUTOCIRCULATE_TRANSFER \<Rightarrow> AUTOCIRCULATE_TRANSFER" where
  "no_transfer_frame t = t\<lparr>acTransferStatus := (acTransferStatus t)\<lparr>acTransferFrame := s32 NTV2_INVALID_FRAME\<rparr>\<rparr>"

definition AutoCircTransfer_run :: "features \<Rightarrow> platform \<Rightarrow> dma_env \<Rightarrow> nat \<Rightarrow> u32 \<Rightarrow> AUTOCIRCULATE_TRANSFER \<Rightarrow>
    NTV2AutoCirc \<Rightarrow> transfer_result option" where
  "AutoCircTransfer_run F P E spec frameNumber t s =
     do { pAuto \<leftarrow> ac_get s spec;
          let flags = acPeerToPeerFlags t;
          let stride = u32_of (endFrame pAuto - startFrame pAuto + 1);
          let x = \<lparr>xStatus = NTV2_STATUS_SUCCESS, updateValid = False, transferPending = False,
                   audioTransferDone = False, ancTransferDone = False, xTransfer = t, xCirc = s\<rparr>;
          phase \<leftarrow>
            (if flags AND AUTOCIRCULATE_P2P_PREPARE = AUTOCIRCULATE_P2P_PREPARE \<or>
                flags AND AUTOCIRCULATE_P2P_TARGET = AUTOCIRCULATE_P2P_TARGET
             then AutoCircTransfer_p2p_prepare F E spec frameNumber x
             else if flags AND AUTOCIRCULATE_P2P_COMPLETE = AUTOCIRCULATE_P2P_COMPLETE
             then AutoCircTransfer_p2p_complete F E spec frameNumber x
             else if flags AND AUTOCIRCULATE_P2P_TRANSFER = AUTOCIRCULATE_P2P_TRANSFER
             then AutoCircTransfer_p2p_transfer F E spec frameNumber x
             else AutoCircTransfer_normal F E spec frameNumber stride x);
          case phase of
            Inl result \<Rightarrow> Some result
          | Inr x \<Rightarrow>
              if xStatus x \<noteq> NTV2_STATUS_SUCCESS
              then Some (xStatus x, xTransfer x, xCirc x)
              else do {
                phase \<leftarrow> AutoCircTransfer_audio E spec x;
                case phase of
                  Inl result \<Rightarrow> Some result
                | Inr x \<Rightarrow> do {
                    phase \<leftarrow> AutoCircTransfer_anc E spec frameNumber x;
                    case phase of
                      Inl result \<Rightarrow> Some result
                    | Inr x \<Rightarrow> do {
                        pAuto \<leftarrow> ac_get (xCirc x) spec;
                        x \<leftarrow> AutoCircTransfer_complete P frameNumber stride (nat (channelCount pAuto)) 0
                               (GetIndexForNTV2Crosspoint spec) x;
                        Some (xStatus x, xTransfer x, xCirc x) } } } }"

text \<open>A transfer to a part of a frame must end inside the frame.\<close>

definition AutoCircTransfer_checked :: "features \<Rightarrow> platform \<Rightarrow> dma_env \<Rightarrow> nat \<Rightarrow> u32 \<Rightarrow> AUTOCIRCULATE_TRANSFER \<Rightarrow>
    NTV2AutoCirc \<Rightarrow> transfer_result option" where
  "AutoCircTransfer_checked F P E spec frameNumber t s =
     (let channel = GetNTV2ChannelForNTV2Crosspoint spec;
          ulFrameOffset = acInVideoDMAOffset t
      in if ulFrameOffset \<noteq> 0 \<and>
            ulFrameOffset + fByteCount (acVideoBuffer t) \<ge> GetFrameBufferSize F (hw s) channel \<and>
            ntv2ReadVirtualRegister (hw s) kVRegAdvancedIndexing = 0
         then Some (NTV2_STATUS_FAIL, no_transfer_frame t, s)
         else if frameNumber \<noteq> NTV2_INVALID_FRAME
         then AutoCircTransfer_run F P E spec frameNumber t s
         else Some (NTV2_STATUS_FAIL, no_transfer_frame t, s))"

definition AutoCircTransfer :: "features \<Rightarrow> platform \<Rightarrow> dma_env \<Rightarrow> AUTOCIRCULATE_TRANSFER \<Rightarrow> NTV2AutoCirc \<Rightarrow>
    transfer_result option" where
  "AutoCircTransfer F P E t s =
     (let spec = acCrosspoint t
      in if ILLEGAL_CHANNELSPEC spec
         then Some (NTV2_STATUS_BAD_PARAMETER, t, s)
         else do {
           pAuto \<leftarrow> ac_get s spec;
           if recording pAuto \<and> state pAuto \<noteq> NTV2_AUTOCIRCULATE_RUNNING \<and> state pAuto \<noteq> NTV2_AUTOCIRCULATE_STARTING
           then Some (NTV2_STATUS_SUCCESS, no_transfer_frame t, s)
           else if \<not> recording pAuto \<and> state pAuto = NTV2_AUTOCIRCULATE_DISABLED
           then Some (NTV2_STATUS_SUCCESS, no_transfer_frame t, s)
           else do {
             (frameNumber, pAuto) \<leftarrow> AutoCircTransfer_frame (acDesiredFrame t) pAuto;
             s \<leftarrow> ac_put spec pAuto s;
             AutoCircTransfer_checked F P E spec frameNumber t s } })"

end
