(* ===== verification/Ntv2AutoTransferInv.thy ===== *)
theory Ntv2AutoTransferInv
  imports Ntv2AutoInterrupt Ntv2AutoTransfer
begin

text \<open>
  Transfers keep the invariant and never leave an array, while the interrupts of the channels
  go on during each DMA.
\<close>

lemma wp_bindI: "wp m R \<Longrightarrow> (\<And>x. R x \<Longrightarrow> wp (f x) Q) \<Longrightarrow> wp (m \<bind> f) Q"
  by (cases m) simp_all

section \<open>What a transfer may change of a channel\<close>

text \<open>
  A transfer leaves the ring, the state, the position and the counters of a channel alone.
  \<open>same_place\<close> says so; the last transferred frame and the stamps are free.
\<close>

definition same_place :: "INTERNAL_AUTOCIRCULATE_STRUCT \<Rightarrow> INTERNAL_AUTOCIRCULATE_STRUCT \<Rightarrow> bool" where
  "same_place a b \<longleftrightarrow>
     startFrame b = startFrame a \<and> endFrame b = endFrame a \<and> length (frameStamp b) = length (frameStamp a) \<and>
     channelSpec b = channelSpec a \<and> recording b = recording a \<and> activeFrameRegister b = activeFrameRegister a \<and>
     channelCount b = channelCount a \<and> state b = state a \<and> activeFrame b = activeFrame a \<and>
     nextFrame b = nextFrame a \<and> framesProcessed b = framesProcessed a \<and> droppedFrames b = droppedFrames a \<and>
     circulateWithAudio b = circulateWithAudio a \<and> circulateWithCustomAncData b = circulateWithCustomAncData a \<and>
     circulateWithFields b = circulateWithFields a"

lemma same_place_refl [simp]: "same_place a a"
  by (simp add: same_place_def)

lemma same_place_trans: "same_place a b \<Longrightarrow> same_place b c \<Longrightarrow> same_place a c"
  by (simp add: same_place_def)

lemma same_place_ring: "same_place a b \<Longrightarrow> ring_ok b = ring_ok a"
  by (simp add: same_place_def ring_ok_def)

lemma same_place_in: "same_place a b \<Longrightarrow> in_ring b i = in_ring a i"
  by (simp add: same_place_def in_ring_def)

lemma same_place_ok:
  assumes "chan_ok c a" and "same_place a b" and "uint (transferFrame b) < MAX_FRAMEBUFFERS"
  shows "chan_ok c b"
proof -
  have "position_ok b = position_ok a"
    using assms(2) same_place_in [OF assms(2)]
    by (simp add: position_ok_def same_place_def split: NTV2AutoCirculateState.splits)
  moreover have "identity_ok c b = identity_ok c a"
    using assms(2) by (simp add: identity_ok_def same_place_def)
  ultimately show ?thesis
    using assms same_place_ring [OF assms(2)] by (simp add: chan_ok_def same_place_def)
qed

text \<open>Every index below the number of stamps is an access inside the array.\<close>

lemma wp_fs_get_less [simp]:
  "ring_ok a \<Longrightarrow> uint f < MAX_FRAMEBUFFERS \<Longrightarrow> wp (fs_get a (uint (f :: u32))) Q = Q (stamp a (uint f))"
  by (simp add: fs_get_def ring_ok_def stamp_def arr_get_Some)

lemma wp_fs_upd_less [simp]:
  "ring_ok a \<Longrightarrow> uint f < MAX_FRAMEBUFFERS \<Longrightarrow>
   wp (fs_upd g (uint (f :: u32)) a) Q = Q (a\<lparr>frameStamp := (frameStamp a)[unat f := g (stamp a (uint f))]\<rparr>)"
  by (simp add: fs_upd_def ring_ok_def stamp_def arr_get_Some arr_set_Some)

lemma stamp_upd_less:
  assumes "ring_ok a" and "uint (f :: u32) < MAX_FRAMEBUFFERS" and "0 \<le> i"
  shows "stamp (a\<lparr>frameStamp := (frameStamp a)[unat f := x]\<rparr>) i = (if i = uint f then x else stamp a i)"
proof -
  have len: "length (frameStamp a) = 512" using assms(1) by (simp add: ring_ok_def)
  have f: "int (unat f) = uint f" by simp
  then have "unat f < 512" using assms(2) by linarith
  moreover have "nat i = unat f \<longleftrightarrow> i = uint f"
    using assms(3) f by linarith
  ultimately show ?thesis
    by (simp add: stamp_def len nth_list_update eq_commute [of "unat f"])
qed

text \<open>Two channels with the same counts and pending transfers outside \<open>A\<close>.\<close>

definition same_counts :: "int set \<Rightarrow> INTERNAL_AUTOCIRCULATE_STRUCT \<Rightarrow> INTERNAL_AUTOCIRCULATE_STRUCT \<Rightarrow> bool" where
  "same_counts A a b \<longleftrightarrow>
     (\<forall>i. 0 \<le> i \<longrightarrow> i \<notin> A \<longrightarrow> validCount (stamp b i) = validCount (stamp a i) \<and>
        videoTransferPending (stamp b i) = videoTransferPending (stamp a i))"

lemma same_counts_refl [simp]: "same_counts A a a"
  by (simp add: same_counts_def)

lemma same_counts_trans: "same_counts A a b \<Longrightarrow> same_counts B b c \<Longrightarrow> same_counts (A \<union> B) a c"
  by (simp add: same_counts_def)

section \<open>The parts of a transfer\<close>

lemma begin_stamp_counts [simp]:
  "validCount (BeginAutoCircTransfer_stamp t a f) = validCount f"
  "videoTransferPending (BeginAutoCircTransfer_stamp t a f) = videoTransferPending f"
  "repeatCount (BeginAutoCircTransfer_stamp t a f) = s32 (acFrameRepeatCount t)"
  "hUser (BeginAutoCircTransfer_stamp t a f) = acInUserCookie t"
  by (simp_all add: BeginAutoCircTransfer_stamp_def Let_def case_prod_unfold)

lemma begin_wp:
  assumes "ring_ok a" and "uint f < MAX_FRAMEBUFFERS"
  shows "wp (BeginAutoCircTransfer F r f t a) (\<lambda>b. same_place a b \<and> transferFrame b = f \<and> same_counts {} a b \<and>
    (if recording a then frameStamp b = frameStamp a
     else (\<forall>i\<ge>0. i \<noteq> uint f \<longrightarrow> stamp b i = stamp a i) \<and> repeatCount (stamp b (uint f)) = s32 (acFrameRepeatCount t) \<and>
       hUser (stamp b (uint f)) = acInUserCookie t))"
proof -
  have ring: "ring_ok b = ring_ok a" if "same_place a b" for b using same_place_ring [OF that] .
  have st: "stamp b i = stamp a i" if "frameStamp b = frameStamp a" for b i
    using that by (simp add: stamp_def)
  define b where "b = (let pAuto = a\<lparr>transferFrame := f, audioTransferOffset := 0, audioTransferSize := 0,
                        ancTransferOffset := 0, ancField2TransferOffset := 0,
                        acAncTransferSize := 0, acAncField2TransferSize := 0\<rparr>;
          channel = GetNTV2ChannelForNTV2Crosspoint (channelSpec pAuto);
          frameSize = GetFrameBufferSize F r (if channel < NTV2_CHANNEL5 then NTV2_CHANNEL1 else NTV2_CHANNEL5)
      in if circulateWithCustomAncData pAuto
                   then pAuto\<lparr>ancTransferOffset := frameSize - ntv2ReadVirtualRegister r kVRegAncField1Offset,
                              ancField2TransferOffset := frameSize - ntv2ReadVirtualRegister r kVRegAncField2Offset\<rparr>
                   else pAuto)"
  have b: "same_place a b" "transferFrame b = f" "frameStamp b = frameStamp a" "recording b = recording a"
    by (simp_all add: b_def Let_def same_place_def)
  define c where "c = (let pAuto = (if circulateWithAudio b \<and> fUserSpacePtr (acAudioBuffer t) \<noteq> 0
                            then b\<lparr>audioTransferSize := fByteCount (acAudioBuffer t)\<rparr> else b)
               in if circulateWithCustomAncData pAuto
                            then pAuto\<lparr>acAncTransferSize :=
                                         (if fUserSpacePtr (acANCBuffer t) \<noteq> 0 then fByteCount (acANCBuffer t) else 0),
                                       acAncField2TransferSize :=
                                         (if fUserSpacePtr (acANCField2Buffer t) \<noteq> 0 then fByteCount (acANCField2Buffer t) else 0)\<rparr>
                            else pAuto)"
  have c: "same_place a c" "transferFrame c = f" "frameStamp c = frameStamp a"
    using b by (simp_all add: c_def Let_def same_place_def)
  have run: "BeginAutoCircTransfer F r f t a =
      (if recording a
       then Some (if circulateWithCustomAncData b
                    then b\<lparr>acAncTransferSize := fByteCount (acANCBuffer t),
                               acAncField2TransferSize := fByteCount (acANCField2Buffer t)\<rparr>
                    else b)
       else fs_upd (BeginAutoCircTransfer_stamp t c) (uint f) c)"
    unfolding BeginAutoCircTransfer_def b(4) [symmetric] by (simp add: Let_def b_def c_def)
  show ?thesis
  proof (cases "recording a")
    case True
    then show ?thesis
      using b unfolding run by (auto simp: same_place_def same_counts_def stamp_def)
  next
    case False
    let ?d = "c\<lparr>frameStamp := (frameStamp c)[unat f := BeginAutoCircTransfer_stamp t c (stamp c (uint f))]\<rparr>"
    have rc: "ring_ok c" using ring [OF c(1)] assms(1) by simp
    have "same_place a ?d" using c(1) by (simp add: same_place_def)
    moreover have "same_counts {} a ?d"
      using stamp_upd_less [OF rc assms(2)] st [OF c(3)] by (simp add: same_counts_def)
    ultimately show ?thesis
      using False assms(2) rc c(2) stamp_upd_less [OF rc assms(2)] st [OF c(3)] unfolding run by simp
  qed
qed

lemma audio_wp:
  assumes "ring_ok a" and "uint (transferFrame a) < MAX_FRAMEBUFFERS"
  shows "wp (AutoCircDmaAudioSetup r a) (\<lambda>(ok, b). ok = circulateWithAudio a \<and> same_place a b \<and>
    transferFrame b = transferFrame a \<and> same_counts {} a b \<and>
    (\<forall>i\<ge>0. repeatCount (stamp b i) = repeatCount (stamp a i) \<and> hUser (stamp b i) = hUser (stamp a i)))"
    (is "wp _ (\<lambda>(ok, b). ok = circulateWithAudio a \<and> ?R b)")
proof -
  have "wp (AutoCircDmaAudioSetup_record r a) ?R"
    using assms by (simp add: AutoCircDmaAudioSetup_record_def Let_def case_prod_unfold same_place_def same_counts_def stamp_def)
  moreover have "wp (AutoCircDmaAudioSetup_play r a) ?R"
  proof -
    have upd: "wp (fs_upd (\<lambda>f. f\<lparr>audioExpectedAddress := x\<rparr>) (uint (transferFrame b)) b) ?R"
      if b: "same_place a b" "transferFrame b = transferFrame a" "frameStamp b = frameStamp a" for b x
    proof -
      have rb: "ring_ok b" using same_place_ring [OF b(1)] assms(1) by simp
      have "stamp b i = stamp a i" for i using b(3) by (simp add: stamp_def)
      then show ?thesis
        using b(1,2) rb assms(2) stamp_upd_less [OF rb assms(2)] by (simp add: same_counts_def same_place_def)
    qed
    show ?thesis
      unfolding AutoCircDmaAudioSetup_play_def Let_def by (rule upd) (simp_all add: same_place_def)
  qed
  ultimately show ?thesis
    by (simp add: AutoCircDmaAudioSetup_def)
qed

lemma level_total:
  assumes "chan_ok c a"
  shows "wp (AutoCircGetBufferLevel a) (\<lambda>_. True)"
proof -
  note ring = chan_ok_ring [OF assms]
  show ?thesis
  proof (cases "state a = NTV2_AUTOCIRCULATE_INIT")
    case True
    then show ?thesis
      using ring buffer_level_play [OF ring _ refl] in_ring_start [OF ring]
      by (cases "recording a") (auto simp: AutoCircGetBufferLevel_def Let_def)
  next
    case False
    then show ?thesis
      using buffer_level_play [OF ring _ refl] buffer_level_record [OF ring]
      by (cases "in_ring a (activeFrame a)"; cases "recording a"; cases "state a = NTV2_AUTOCIRCULATE_RUNNING")
        (auto simp: AutoCircGetBufferLevel_def Let_def in_ring_def)
  qed
qed

text \<open>An index in the range of the ring, compared as unsigned words, is an access inside the array.\<close>

lemma ring_word_less:
  assumes "ring_ok a" and "f \<le> u32_of (endFrame a)"
  shows "uint f < MAX_FRAMEBUFFERS"
proof -
  have "uint (u32_of (endFrame a)) < 512"
    using assms(1) by (simp add: ring_ok_def uint_u32_of)
  then show ?thesis using assms(2) by (simp add: word_le_def)
qed

lemma current_total: "ring_ok a \<Longrightarrow> wp (CompleteAutoCircTransfer_current P a st) (\<lambda>_. True)"
  using ring_word_less [of a "u32_of (activeFrame a)"]
  by (auto simp: CompleteAutoCircTransfer_current_def Let_def)

lemma current_record:
  assumes "CompleteAutoCircTransfer_current P a st = Some st'" and "recording a"
  shows "acFrameTime st' = acFrameTime st" and "acAudioInStartAddress st' = acAudioInStartAddress st"
    and "acAudioInStopAddress st' = acAudioInStopAddress st" and "acStampRP188 st' = acStampRP188 st"
  using assms by (auto simp: CompleteAutoCircTransfer_current_def Let_def split: if_splits bind_splits)

text \<open>
  The completion touches the frame that was transferred: it frees a captured frame, and fills
  a frame to play.
\<close>

definition completed :: "bool \<Rightarrow> bool \<Rightarrow> u32 \<Rightarrow> INTERNAL_AUTOCIRCULATE_STRUCT \<Rightarrow> INTERNAL_AUTOCIRCULATE_STRUCT \<Rightarrow> bool" where
  "completed valid pending f a b \<longleftrightarrow>
     same_place a b \<and> transferFrame b = transferFrame a \<and> same_counts {uint f} a b \<and>
     (if in_ring a (uint f)
      then let x = stamp a (uint f); y = stamp b (uint f)
           in validCount y = (if valid then (if recording a then 0 else repeatCount x) else validCount x) \<and>
              videoTransferPending y = (if recording a then videoTransferPending x else pending)
      else same_counts {} a b)"

lemma ring_word_iff:
  assumes "ring_ok a"
  shows "u32_of (startFrame a) \<le> f \<and> f \<le> u32_of (endFrame a) \<longleftrightarrow> in_ring a (uint f)"
  using assms by (simp add: ring_ok_def in_ring_def word_le_def uint_u32_of)

lemma s32_less: "uint f < 512 \<Longrightarrow> s32 f = uint f"
  using s32_u32_of [of "uint f"] uint_ge_0 [of f] by (simp add: u32_of_def del: uint_ge_0)

lemma complete_frame_wp:
  assumes "ring_ok a"
  shows "wp (CompleteAutoCircTransfer_frame f uv tp a out) (\<lambda>(out', b). completed uv tp f a b \<and>
    acTransferFrame out' = (if in_ring a (uint f) then uint f else -1) \<and>
    (in_ring a (uint f) \<longrightarrow> acCurrentUserCookie (acFrameStamp out') = hUser (stamp a (uint f)) \<and>
       (recording a \<longrightarrow> acFrameTime (acFrameStamp out') = frameTime (stamp a (uint f)) \<and>
          acAudioInStartAddress (acFrameStamp out') = audioInStartAddress (stamp a (uint f)) \<and>
          acAudioInStopAddress (acFrameStamp out') = audioInStopAddress (stamp a (uint f)) \<and>
          acStampRP188 (acFrameStamp out') = NTV2_RP188_from_RP188_STRUCT (rp188 (stamp a (uint f))) \<and>
          acAudioTransferSize out' = audioTransferSize a)))"
proof (cases "in_ring a (uint f)")
  case False
  then show ?thesis
    unfolding CompleteAutoCircTransfer_frame_def ring_word_iff [OF assms]
    by (simp add: completed_def same_counts_def s32_def)
next
  case True
  then have cond: "u32_of (startFrame a) \<le> f \<and> f \<le> u32_of (endFrame a)"
    using ring_word_iff [OF assms] by simp
  then have less: "uint f < 512" by (auto intro: ring_word_less [OF assms])
  then have s: "s32 f = uint f" by (simp add: s32_less)
  have ring: "ring_ok (a\<lparr>frameStamp := (frameStamp a)[unat f := x]\<rparr>)" for x
    using assms by (simp add: ring_ok_def)
  show ?thesis
    unfolding CompleteAutoCircTransfer_frame_def ring_word_iff [OF assms]
    using True less assms ring s stamp_upd_less [OF assms less]
    by (simp add: completed_def same_counts_def same_place_def Let_def case_prod_unfold)
qed

lemma complete_wp:
  assumes "chan_ok c a"
  shows "wp (CompleteAutoCircTransfer P f uv tp out a) (\<lambda>(out', b). completed uv tp f a b \<and> chan_ok c b \<and>
    acTransferFrame out' = (if in_ring a (uint f) then uint f else -1) \<and>
    acState out' = state a \<and> acFramesProcessed out' = framesProcessed a \<and> acFramesDropped out' = droppedFrames a \<and>
    AutoCircGetBufferLevel b = Some (acBufferLevel out') \<and>
    (in_ring a (uint f) \<and> recording a \<longrightarrow>
       acFrameTime (acFrameStamp out') = frameTime (stamp a (uint f)) \<and>
       acAudioInStartAddress (acFrameStamp out') = audioInStartAddress (stamp a (uint f)) \<and>
       acAudioInStopAddress (acFrameStamp out') = audioInStopAddress (stamp a (uint f)) \<and>
       acStampRP188 (acFrameStamp out') = NTV2_RP188_from_RP188_STRUCT (rp188 (stamp a (uint f)))))"
proof -
  note ring = chan_ok_ring [OF assms]
  have ok: "chan_ok c b" if "completed uv tp f a b" for b
    using that assms by (intro same_place_ok [OF assms]) (simp_all add: completed_def chan_ok_def)
  show ?thesis
    unfolding CompleteAutoCircTransfer_def wp_bind
  proof (rule wp_mono [OF complete_frame_wp [OF ring]], clarify, goal_cases)
    case (1 out' b)
    note b = ok [OF 1(1)]
    obtain l where l: "AutoCircGetBufferLevel b = Some l"
      using level_total [OF b] by (auto simp: wp_iff)
    define st where "st = acFrameStamp out'"
    obtain st' where st': "CompleteAutoCircTransfer_current P b
        (st\<lparr>acCurrentTime := ntv2Time100ns P, acCurrentAudioExpectedAddress := acAudioExpectedAddress st\<rparr>) = Some st'"
      using current_total [OF chan_ok_ring [OF b], of P] by (auto simp: wp_iff)
    have rec: "acFrameTime st' = acFrameTime st" "acAudioInStartAddress st' = acAudioInStartAddress st"
      "acAudioInStopAddress st' = acAudioInStopAddress st" "acStampRP188 st' = acStampRP188 st" if "recording b"
      using current_record [OF st' that] by simp_all
    have "recording b = recording a" "state b = state a" "framesProcessed b = framesProcessed a" "droppedFrames b = droppedFrames a"
      using 1(1) by (simp_all add: completed_def same_place_def)
    then show ?case
      using 1 b rec by (simp add: l Let_def st_def [symmetric] st')
  qed
qed

section \<open>Interrupts during a DMA\<close>

text \<open>While a DMA runs, any number of interrupts of any channels may happen, and any change of registers.\<close>

inductive interrupts :: "features \<Rightarrow> platform \<Rightarrow> NTV2AutoCirc \<Rightarrow> NTV2AutoCirc \<Rightarrow> bool" for F P where
  none: "interrupts F P s s"
| interrupt: "interrupts F P s s' \<Longrightarrow> \<not> ILLEGAL_CHANNELSPEC c \<Longrightarrow> AutoCirculate F P c t s' = Some (ev, s'') \<Longrightarrow>
    interrupts F P s s''"
| registers: "interrupts F P s s' \<Longrightarrow> interrupts F P s (s'\<lparr>hw := r\<rparr>)"

lemma isr_post_ring: "isr_post f0 t a ev b r \<Longrightarrow> same_ring a b"
  by (auto simp: isr_post_def captured_def played_def started_record_def started_play_def kept_def Let_def
      split: NTV2AutoCirculateState.splits if_splits) (simp add: same_ring_def)

lemma interrupts_keep:
  "interrupts F P s s' \<Longrightarrow> circ_ok s \<Longrightarrow> circ_ok s' \<and> (\<forall>c. same_ring (chan s c) (chan s' c))"
proof (induction rule: interrupts.induct)
  case (none s)
  then show ?case by simp
next
  case (interrupt s s' c t ev s'')
  then have ok: "circ_ok s'" and same: "\<And>d. same_ring (chan s d) (chan s' d)" by simp_all
  note isr = isr_wp [OF ok interrupt.hyps(2), of F P t, unfolded interrupt.hyps(3) wp_Some prod.case]
  have "same_ring (chan s' c) (chan s'' c)"
  proof (cases "isr_due F (hw s') (chan s' c)")
    case True
    note ex = isr [THEN conjunct2, THEN conjunct2, unfolded if_P [OF True]]
    show ?thesis
      by (rule exE [OF ex], elim conjE) (rule same_ring_trans, assumption, erule isr_post_ring)
  next
    case False
    from isr [THEN conjunct2, THEN conjunct2, unfolded if_not_P [OF False]] show ?thesis by simp
  qed
  then have "same_ring (chan s' d) (chan s'' d)" for d
    using isr [THEN conjunct2, THEN conjunct1, rule_format, of d] by (cases "d = c") simp_all
  from same_ring_trans [OF same this] show ?case
    by (intro conjI allI isr [THEN conjunct1])
next
  case (registers s s' r)
  note ih = registers.IH [OF registers.prems]
  have "circ_ok (s'\<lparr>hw := r\<rparr>)" by (rule circ_ok_cong [OF ih [THEN conjunct1]]) simp_all
  moreover have "autoCirculate (s'\<lparr>hw := r\<rparr>) = autoCirculate s'" by simp
  ultimately show ?case using ih [THEN conjunct2] by (simp only: simp_thms)
qed

text \<open>What a device driver's DMA does to the circulator: nothing but let interrupts happen.\<close>

definition dma_interrupts :: "features \<Rightarrow> platform \<Rightarrow> dma_env \<Rightarrow> bool" where
  "dma_interrupts F P E \<longleftrightarrow> (\<forall>p s. interrupts F P s (snd (AutoDmaTransfer E p s)))"

lemma xdma_keeps:
  assumes "dma_interrupts F P E" and "circ_ok (xCirc x)"
  shows "circ_ok (xCirc (xdma E p x))" and "same_ring (chan (xCirc x) c) (chan (xCirc (xdma E p x)) c)"
proof -
  have "interrupts F P (xCirc x) (snd (AutoDmaTransfer E p (xCirc x)))"
    using assms(1) by (simp add: dma_interrupts_def)
  from interrupts_keep [OF this assms(2)]
  show "circ_ok (xCirc (xdma E p x))" and "same_ring (chan (xCirc x) c) (chan (xCirc (xdma E p x)) c)"
    by (simp_all add: xdma_def case_prod_unfold Let_def)
qed

lemma xdma_fields [simp]:
  "xTransfer (xdma E p x) = xTransfer x" "updateValid (xdma E p x) = updateValid x"
  "transferPending (xdma E p x) = transferPending x" "audioTransferDone (xdma E p x) = audioTransferDone x"
  "ancTransferDone (xdma E p x) = ancTransferDone x"
  by (simp_all add: xdma_def case_prod_unfold Let_def)

section \<open>The phases keep the invariant\<close>

definition phase_ok :: "transfer_result + transfer_locals \<Rightarrow> bool" where
  "phase_ok r = (case r of Inl (_, _, s) \<Rightarrow> circ_ok s | Inr x \<Rightarrow> circ_ok (xCirc x))"

lemma phase_ok_simps [simp]: "phase_ok (Inl (st, t, s)) = circ_ok s" "phase_ok (Inr x) = circ_ok (xCirc x)"
  by (simp_all add: phase_ok_def)

text \<open>The channel of the transfer, changed and stored back.\<close>

lemma chan_put [simp]: "circ_ok s \<Longrightarrow> c < NUM_CIRCULATORS \<Longrightarrow> chan_ok c b \<Longrightarrow>
    circ_ok (s\<lparr>autoCirculate := (autoCirculate s)[c := b]\<rparr>)"
  by (rule circ_ok_put) simp_all

lemma begin_keeps:
  assumes "chan_ok c a" and "uint f < MAX_FRAMEBUFFERS"
  shows "wp (BeginAutoCircTransfer F r f t a) (chan_ok c)"
  by (rule wp_mono [OF begin_wp [OF chan_ok_ring [OF assms(1)] assms(2)]])
    (use assms(2) in \<open>auto intro: same_place_ok [OF assms(1)]\<close>)

lemma audio_keeps:
  assumes "chan_ok c a"
  shows "wp (AutoCircDmaAudioSetup r a) (\<lambda>(_, b). chan_ok c b)"
proof -
  have less: "uint (transferFrame a) < MAX_FRAMEBUFFERS" using assms by (simp add: chan_ok_def)
  show ?thesis
    by (rule wp_mono [OF audio_wp [OF chan_ok_ring [OF assms] less]])
      (use less in \<open>auto intro: same_place_ok [OF assms]\<close>)
qed

lemma upd_hw_ok: "circ_ok s \<Longrightarrow> circ_ok (upd_hw g s)"
  by (rule circ_ok_cong [of s]) (simp_all add: upd_hw_def)

text \<open>One channel of the gang, as an instance of the contract of the other gang operations.\<close>

interpretation begin_gang: gang_keep "AutoCircTransfer_begin F t f R" "\<lambda>k c. uint (R * of_nat k + f) < MAX_FRAMEBUFFERS"
  circ_ok
proof (unfold_locales, goal_cases)
  case (1 s c k)
  note less = legal_less [OF 1(2)]
  show ?case
    using 1 less begin_keeps [OF circ_ok_chan [OF 1(1) less] 1(3), of F "hw s" t]
    by (simp add: AutoCircTransfer_begin_def) (auto intro: chan_put elim!: wp_mono)
qed

lemma prepare_keeps:
  assumes "circ_ok (xCirc x)" and "c < NUM_CIRCULATORS" and "uint f < MAX_FRAMEBUFFERS"
  shows "wp (AutoCircTransfer_p2p_prepare F E c f x) phase_ok"
  using assms begin_keeps [OF circ_ok_chan [OF assms(1,2)] assms(3), of F "hw (xCirc x)" "xTransfer x"]
  by (simp add: AutoCircTransfer_p2p_prepare_def Let_def case_prod_unfold)
    (auto intro!: chan_put upd_hw_ok elim!: wp_mono)

lemma p2p_complete_keeps:
  assumes "circ_ok (xCirc x)" and "c < NUM_CIRCULATORS" and "uint f < MAX_FRAMEBUFFERS"
  shows "wp (AutoCircTransfer_p2p_complete F E c f x) phase_ok"
  using assms begin_keeps [OF circ_ok_chan [OF assms(1,2)] assms(3), of F "hw (xCirc x)" "xTransfer x"]
  by (simp add: AutoCircTransfer_p2p_complete_def Let_def) (auto intro!: chan_put elim!: wp_mono)

lemma p2p_transfer_keeps:
  assumes "dma_interrupts F P E" and "circ_ok (xCirc x)" and "c < NUM_CIRCULATORS" and "uint f < MAX_FRAMEBUFFERS"
  shows "wp (AutoCircTransfer_p2p_transfer F E c f x) phase_ok"
  using assms(2-) begin_keeps [OF circ_ok_chan [OF assms(2,3)] assms(4), of F "hw (xCirc x)" "xTransfer x"]
  by (simp add: AutoCircTransfer_p2p_transfer_def Let_def case_prod_unfold)
    (auto intro!: chan_put xdma_keeps(1) [OF assms(1)] elim!: wp_mono)

lemma transfer_fields_total:
  "ring_ok a \<Longrightarrow> uint f < MAX_FRAMEBUFFERS \<Longrightarrow> wp (AutoCircTransferFields F r a f d t) (\<lambda>_. True)"
  by (simp add: AutoCircTransferFields_def Let_def)

lemma flags_upd_ok: "chan_ok c a \<Longrightarrow> chan_ok c (a\<lparr>frameStamp := (frameStamp a)[i := x]\<rparr>)"
  by (rule same_place_ok) (simp_all add: same_place_def chan_ok_def)

lemma fields_keeps:
  assumes "dma_interrupts F P E" and "circ_ok (xCirc x)" and "c < NUM_CIRCULATORS" and "uint f < MAX_FRAMEBUFFERS"
  shows "wp (AutoCircTransfer_fields F E c g f au an x) (\<lambda>y. circ_ok (xCirc y))"
proof -
  note ok = circ_ok_chan [OF assms(2,3)]
  have sec: "wp (do { pAuto \<leftarrow> ac_get (xCirc y) c;
          if recording pAuto \<and> xStatus y = NTV2_STATUS_SUCCESS
          then do { fs \<leftarrow> fs_get pAuto (uint f);
                    Some (y\<lparr>xTransfer := (xTransfer y)\<lparr>acPeerToPeerFlags := frameFlags fs\<rparr>\<rparr>) }
          else do { transfer \<leftarrow> AutoCircTransferFields F (hw (xCirc y)) pAuto f True (xTransfer y);
                    Some ((xdma E (video_dma g (GetNTV2ChannelForNTV2Crosspoint c) f pAuto transfer) y)\<lparr>xStatus := xStatus y\<rparr>) } })
      (\<lambda>y. circ_ok (xCirc y))" if y: "circ_ok (xCirc y)" for y
    using y assms(3,4) chan_ok_ring [OF circ_ok_chan [OF y assms(3)]]
      transfer_fields_total [OF chan_ok_ring [OF circ_ok_chan [OF y assms(3)]] assms(4), of F "hw (xCirc y)" True "xTransfer y"]
      xdma_keeps(1) [OF assms(1) y]
    by (auto elim!: wp_mono)
  have flags: "wp (if \<not> recording a
       then fs_upd (\<lambda>f. f\<lparr>frameFlags := acPeerToPeerFlags (xTransfer x)\<rparr>) (uint f) a else Some a) (chan_ok c)"
    if "a = chan (xCirc x) c" for a
    using that chan_ok_ring [OF ok] ok flags_upd_ok [OF ok] assms(4) by simp
  have put: "wp (ac_put c b (xCirc x)) circ_ok" if "chan_ok c b" for b
    using that assms(2,3) by simp
  have upd: "circ_ok (xCirc (xdma E p (x\<lparr>xCirc := s\<rparr>)))" if "circ_ok s" for s p
    using that by (intro xdma_keeps(1) [OF assms(1)]) simp
  have get: "wp (ac_get (xCirc x) c) (\<lambda>a. a = chan (xCirc x) c)"
    using assms(2,3) by simp
  show ?thesis
    unfolding AutoCircTransfer_fields_def Let_def
    by (rule wp_bindI [OF get], rule wp_bindI [OF flags], assumption, rule wp_bindI [OF put], assumption,
        rule wp_bindI [OF transfer_fields_total], erule chan_ok_ring, rule assms(4), rule sec, erule upd)
qed

lemma dma_keeps:
  assumes "dma_interrupts F P E" and "circ_ok (xCirc x)" and "c < NUM_CIRCULATORS" and "uint f < MAX_FRAMEBUFFERS"
  shows "wp (AutoCircTransfer_dma F E c f x) phase_ok"
proof -
  note ok = circ_ok_chan [OF assms(2,3)]
  have get: "wp (ac_get (xCirc x) c) (\<lambda>a. a = chan (xCirc x) c)"
    using assms(2,3) by simp
  have audio: "wp (if circulateWithAudio a then AutoCircDmaAudioSetup (hw (xCirc x)) a else Some (True, a))
      (\<lambda>p. chan_ok c (snd p))" if "a = chan (xCirc x) c" for a
    using ok audio_keeps [OF ok, of "hw (xCirc x)"] that by (simp add: case_prod_unfold)
  have put: "wp (ac_put c b (xCirc x)) circ_ok" if "chan_ok c b" for b
    using that assms(2,3) by simp
  show ?thesis
    unfolding AutoCircTransfer_dma_def Let_def case_prod_unfold
    by (rule wp_bindI [OF get], rule wp_bindI [OF audio], assumption, rule wp_bindI [OF put], assumption)
      (auto simp: xdma_keeps(1) [OF assms(1)] intro: fields_keeps [OF assms(1) _ assms(3,4)])
qed

lemma normal_keeps:
  assumes "dma_interrupts F P E" and "circ_ok (xCirc x)" and "\<not> ILLEGAL_CHANNELSPEC c" and "uint f < MAX_FRAMEBUFFERS"
    and "\<And>j. j < nat (channelCount (chan (xCirc x) c)) \<Longrightarrow> uint (R * of_nat j + f) < MAX_FRAMEBUFFERS"
  shows "wp (AutoCircTransfer_normal F E c f R x) phase_ok"
proof -
  have less: "c < NUM_CIRCULATORS" using assms(3) by (rule legal_less)
  let ?i = "unat (GetIndexForNTV2Crosspoint c)" and ?n = "nat (channelCount (chan (xCirc x) c))"
  have id: "identity_ok c (chan (xCirc x) c)" by (rule legal_identity [OF assms(2,3)])
  have started: "wp (gang (AutoCircTransfer_begin F (xTransfer x) f R) ?n 0 (GetIndexForNTV2Crosspoint c) (xCirc x))
      (\<lambda>p. circ_ok (snd p))"
    using begin_gang.run [OF assms(2), of ?i ?n R 0 f F "xTransfer x"] assms(5) id
    by (simp add: identity_ok_def case_prod_unfold)
  show ?thesis
    unfolding AutoCircTransfer_normal_def wp_bind wp_ac_get [OF assms(2) less] case_prod_unfold
    by (rule wp_mono [OF started]) (rule dma_keeps [OF assms(1) _ less assms(4)], simp)
qed

lemma audio_phase_keeps:
  assumes "dma_interrupts F P E" and "circ_ok (xCirc x)" and "c < NUM_CIRCULATORS"
  shows "wp (AutoCircTransfer_audio E c x) phase_ok"
proof -
  show ?thesis
    unfolding AutoCircTransfer_audio_def wp_bind wp_ac_get [OF assms(2,3)]
    using assms(2,3) audio_keeps [OF circ_ok_chan [OF assms(2,3)], of "hw (xCirc x)"]
    by (auto simp: Let_def xdma_keeps(1) [OF assms(1)] elim!: wp_mono)
qed

lemma anc_phase_keeps:
  assumes "dma_interrupts F P E" and "circ_ok (xCirc x)" and "c < NUM_CIRCULATORS"
  shows "wp (AutoCircTransfer_anc E c f x) phase_ok"
  using assms(2,3) xdma_keeps(1) [OF assms(1,2)] by (simp add: AutoCircTransfer_anc_def Let_def)

lemma complete_keeps:
  assumes "circ_ok (xCirc x)" and "i + n \<le> 16"
  shows "wp (AutoCircTransfer_complete P f R n k (of_nat i) x) (\<lambda>y. circ_ok (xCirc y) \<and> xStatus y = xStatus x)"
  using assms
proof (induction n arbitrary: k i x)
  case 0
  then show ?case by simp
next
  case (Suc n)
  let ?c = "nth_crosspoint i"
  have less: "?c < NUM_CIRCULATORS" using Suc.prems(2) by (intro legal_less nth_crosspoint_legal) simp
  note compl = complete_wp [OF circ_ok_chan [OF Suc.prems(1) less], of P "R * of_nat k + f" "updateValid x"
      "transferPending x" "acTransferStatus (xTransfer x)"]
  have next_ix: "of_nat i + (1 :: u32) = of_nat (Suc i)" by simp
  show ?case
    unfolding AutoCircTransfer_complete.simps Let_def nth_crosspoint_def [symmetric] wp_bind wp_ac_get [OF Suc.prems(1) less]
      next_ix
    by (rule wp_mono [OF compl], clarify)
      (use Suc.prems less Suc.IH [of "_\<lparr>xCirc := _, xTransfer := _\<rparr>" "Suc i"] chan_put [OF Suc.prems(1) less] in \<open>auto elim!: wp_mono\<close>)
qed

section \<open>The whole transfer\<close>

text \<open>
  The frames that a transfer may use must lie below the end of the stamps, for each channel of
  the gang: the frame that the application names is not checked by the code, nor are the
  frames of the further channels of a gang.
\<close>

definition transfer_ok :: "NTV2AutoCirc \<Rightarrow> AUTOCIRCULATE_TRANSFER \<Rightarrow> bool" where
  "transfer_ok s t \<longleftrightarrow>
     (let a = chan s (acCrosspoint t); R = u32_of (endFrame a - startFrame a + 1)
      in \<forall>f j. (if u32_of (acDesiredFrame t) = NTV2_INVALID_FRAME then in_ring a (uint f)
                else f = u32_of (acDesiredFrame t)) \<longrightarrow>
           j = 0 \<or> j < nat (channelCount a) \<longrightarrow> uint (R * of_nat j + f) < MAX_FRAMEBUFFERS)"

lemma transfer_okD:
  assumes "transfer_ok s t"
    and "if u32_of (acDesiredFrame t) = NTV2_INVALID_FRAME then in_ring (chan s (acCrosspoint t)) (uint f)
         else f = u32_of (acDesiredFrame t)"
    and "j = 0 \<or> j < nat (channelCount (chan s (acCrosspoint t)))"
  shows "uint (u32_of (endFrame (chan s (acCrosspoint t)) - startFrame (chan s (acCrosspoint t)) + 1) * of_nat j + f) < 512"
  using assms unfolding transfer_ok_def Let_def by blast

text \<open>The search for a frame, in any state of the channel.\<close>

lemma find_SomeD: "find P xs = Some i \<Longrightarrow> i \<in> set xs \<and> P i"
  by (auto simp: find_Some_iff)

lemma find_cases:
  assumes "chan_ok c a"
  shows "\<exists>x. AutoCircFindNextAvailFrame a = Some (find_result a x) \<and>
    (\<forall>i. x = Some i \<longrightarrow> in_ring a i \<and>
       (if recording a then validCount (stamp a i) > 0 else validCount (stamp a i) = 0))"
proof (cases "recording a")
  case False
  then show ?thesis using find_next_cases [OF assms False] by (elim exE conjE) (rule exI, auto)
next
  case True
  note ring = chan_ok_ring [OF assms]
  show ?thesis
  proof (cases "state a = NTV2_AUTOCIRCULATE_RUNNING \<and> in_ring a (activeFrame a)")
    case run: True
    define x where "x = find (\<lambda>i. validCount (stamp a i) > 0) (frames_after a (activeFrame a) @ [activeFrame a])"
    have "in_ring a i \<and> validCount (stamp a i) > 0" if "x = Some i" for i
      using find_SomeD [OF that [unfolded x_def]] run set_frames_after [of a "activeFrame a"] by (auto simp: in_ring_def)
    then show ?thesis
      using find_next_record [OF ring True] run True by (intro exI [of _ x]) (simp add: x_def)
  next
    case False
    then have "AutoCircFindNextAvailFrame a = Some (find_result a None)"
      using True by (auto simp: AutoCircFindNextAvailFrame_def find_result_def in_ring_def Let_def)
    then show ?thesis by (intro exI [of _ None]) simp
  qed
qed

lemma transfer_frame_cases:
  assumes "chan_ok c a"
  shows "\<exists>f x. AutoCircTransfer_frame d a = Some (f, a\<lparr>nextTransferFrame := x\<rparr>) \<and>
    (f \<noteq> NTV2_INVALID_FRAME \<longrightarrow> (if u32_of d = NTV2_INVALID_FRAME then in_ring a (uint f) else f = u32_of d))"
    (is "\<exists>f x. ?P f x")
proof -
  note ring = chan_ok_ring [OF assms]
  have start: "in_ring a (uint (u32_of (startFrame a)))"
    using ring by (simp add: ring_ok_def in_ring_def uint_u32_of)
  show ?thesis
  proof (cases "u32_of d = NTV2_INVALID_FRAME")
    case False
    then have "?P (u32_of d) (nextTransferFrame a)" by (simp add: AutoCircTransfer_frame_def)
    then show ?thesis by blast
  next
    case True
    obtain x where x: "AutoCircFindNextAvailFrame a = Some (find_result a x)" "\<And>i. x = Some i \<Longrightarrow> in_ring a i"
      using find_cases [OF assms] by auto
    show ?thesis
    proof (cases x)
      case None
      have "?P (if recording a then u32_of (startFrame a) else NTV2_INVALID_FRAME) (nextTransferFrame a)"
        using True x(1) start None by (simp add: AutoCircTransfer_frame_def find_result_def)
      then show ?thesis by blast
    next
      case (Some i)
      then have "in_ring a (uint (u32_of i))" and "u32_of i \<noteq> NTV2_INVALID_FRAME"
        using x(2) [OF Some] in_ring_bounds [OF ring x(2) [OF Some]] uint_u32_of [of i] by auto
      then have "?P (u32_of i) (u32_of i)"
        using True x(1) Some by (simp add: AutoCircTransfer_frame_def find_result_def)
      then show ?thesis by blast
    qed
  qed
qed

lemma run_keeps:
  assumes "dma_interrupts F P E" and "circ_ok s" and "\<not> ILLEGAL_CHANNELSPEC c" and "uint f < MAX_FRAMEBUFFERS"
    and "\<And>j. j < nat (channelCount (chan s c)) \<Longrightarrow>
           uint (u32_of (endFrame (chan s c) - startFrame (chan s c) + 1) * of_nat j + f) < MAX_FRAMEBUFFERS"
  shows "wp (AutoCircTransfer_run F P E c f t s) (\<lambda>(_, _, s'). circ_ok s')"
proof -
  have less: "c < NUM_CIRCULATORS" using assms(3) by (rule legal_less)
  define R where "R = u32_of (endFrame (chan s c) - startFrame (chan s c) + 1)"
  define x where "x = \<lparr>xStatus = NTV2_STATUS_SUCCESS, updateValid = False, transferPending = False,
                   audioTransferDone = False, ancTransferDone = False, xTransfer = t, xCirc = s\<rparr>"
  have x: "circ_ok (xCirc x)" "xCirc x = s" using assms(2) by (simp_all add: x_def)
  define fl where "fl = acPeerToPeerFlags t"
  have first: "wp (if fl AND AUTOCIRCULATE_P2P_PREPARE = AUTOCIRCULATE_P2P_PREPARE \<or>
                fl AND AUTOCIRCULATE_P2P_TARGET = AUTOCIRCULATE_P2P_TARGET
             then AutoCircTransfer_p2p_prepare F E c f x
             else if fl AND AUTOCIRCULATE_P2P_COMPLETE = AUTOCIRCULATE_P2P_COMPLETE
             then AutoCircTransfer_p2p_complete F E c f x
             else if fl AND AUTOCIRCULATE_P2P_TRANSFER = AUTOCIRCULATE_P2P_TRANSFER
             then AutoCircTransfer_p2p_transfer F E c f x
             else AutoCircTransfer_normal F E c f R x) phase_ok"
    using prepare_keeps [OF x(1) less assms(4)] p2p_complete_keeps [OF x(1) less assms(4)]
      p2p_transfer_keeps [OF assms(1) x(1) less assms(4)] normal_keeps [OF assms(1) x(1) assms(3,4), of R] assms(5) x(2)
    by (simp add: R_def)
  have last: "wp (do { pAuto \<leftarrow> ac_get (xCirc y) c;
        y \<leftarrow> AutoCircTransfer_complete P f R (nat (channelCount pAuto)) 0 (GetIndexForNTV2Crosspoint c) y;
        Some (xStatus y, xTransfer y, xCirc y) }) (\<lambda>(_, _, s'). circ_ok s')" if y: "circ_ok (xCirc y)" for y
  proof -
    have id: "identity_ok c (chan (xCirc y) c)" by (rule legal_identity [OF y assms(3)])
    have "wp (AutoCircTransfer_complete P f R (nat (channelCount (chan (xCirc y) c))) 0 (GetIndexForNTV2Crosspoint c) y)
        (\<lambda>y'. circ_ok (xCirc y') \<and> xStatus y' = xStatus y)"
      using complete_keeps [OF y, of "unat (GetIndexForNTV2Crosspoint c)" "nat (channelCount (chan (xCirc y) c))" P f R 0] id
      by (simp add: identity_ok_def)
    then show ?thesis using y less by (auto elim!: wp_mono)
  qed
  have anc: "wp (do { phase \<leftarrow> AutoCircTransfer_anc E c f y;
        case phase of Inl result \<Rightarrow> Some result
        | Inr y \<Rightarrow> do { pAuto \<leftarrow> ac_get (xCirc y) c;
            y \<leftarrow> AutoCircTransfer_complete P f R (nat (channelCount pAuto)) 0 (GetIndexForNTV2Crosspoint c) y;
            Some (xStatus y, xTransfer y, xCirc y) } }) (\<lambda>(_, _, s'). circ_ok s')" if y: "circ_ok (xCirc y)" for y
    by (rule wp_bindI [OF anc_phase_keeps [OF assms(1) y less]])
      (auto simp: phase_ok_def simp del: wp_bind intro: last split: sum.split)
  have audio: "wp (do { phase \<leftarrow> AutoCircTransfer_audio E c y;
        case phase of Inl result \<Rightarrow> Some result
        | Inr y \<Rightarrow> do { phase \<leftarrow> AutoCircTransfer_anc E c f y;
            case phase of Inl result \<Rightarrow> Some result
            | Inr y \<Rightarrow> do { pAuto \<leftarrow> ac_get (xCirc y) c;
                y \<leftarrow> AutoCircTransfer_complete P f R (nat (channelCount pAuto)) 0 (GetIndexForNTV2Crosspoint c) y;
                Some (xStatus y, xTransfer y, xCirc y) } } }) (\<lambda>(_, _, s'). circ_ok s')" if y: "circ_ok (xCirc y)" for y
    by (rule wp_bindI [OF audio_phase_keeps [OF assms(1) y less]]) (auto simp: phase_ok_def simp del: wp_bind intro: anc split: sum.split)
  show ?thesis
    unfolding AutoCircTransfer_run_def Let_def ac_get_chan [OF assms(2) less] bind.bind_lunit R_def [symmetric]
      x_def [symmetric] fl_def [symmetric]
    by (rule wp_bindI [OF first]) (auto simp: phase_ok_def simp del: wp_bind intro: audio split: sum.split)
qed

theorem transfer_keeps:
  assumes "dma_interrupts F P E" and "circ_ok s" and "transfer_ok s t"
  shows "wp (AutoCircTransfer F P E t s) (\<lambda>(_, _, s'). circ_ok s')"
proof (cases "ILLEGAL_CHANNELSPEC (acCrosspoint t)")
  case True
  then show ?thesis using assms(2) by (simp add: AutoCircTransfer_def)
next
  case False
  let ?c = "acCrosspoint t" and ?a = "chan s (acCrosspoint t)"
  note less = legal_less [OF False]
  note ok = circ_ok_chan [OF assms(2) less]
  obtain f x where frame: "AutoCircTransfer_frame (acDesiredFrame t) ?a = Some (f, ?a\<lparr>nextTransferFrame := x\<rparr>)"
    and f: "f \<noteq> NTV2_INVALID_FRAME \<Longrightarrow> if u32_of (acDesiredFrame t) = NTV2_INVALID_FRAME
        then in_ring ?a (uint f) else f = u32_of (acDesiredFrame t)"
    using transfer_frame_cases [OF ok, of "acDesiredFrame t"] by blast
  define b where "b = ?a\<lparr>nextTransferFrame := x\<rparr>"
  define s1 where "s1 = s\<lparr>autoCirculate := (autoCirculate s)[?c := b]\<rparr>"
  have b: "chan_ok ?c b"
    unfolding b_def using ok by (intro same_place_ok [OF ok]) (simp_all add: same_place_def chan_ok_def)
  have s1: "circ_ok s1" unfolding s1_def by (rule chan_put [OF assms(2) less b])
  have ch: "chan s1 ?c = b" using assms(2) less by (simp add: s1_def)
  have "wp (AutoCircTransfer_run F P E ?c f t s1) (\<lambda>(_, _, s'). circ_ok s')" if "f \<noteq> NTV2_INVALID_FRAME"
  proof (rule run_keeps [OF assms(1) s1 False])
    note fj = transfer_okD [OF assms(3) f [OF that]]
    show "uint f < MAX_FRAMEBUFFERS" using fj [of 0] by simp
    show "uint (u32_of (endFrame (chan s1 ?c) - startFrame (chan s1 ?c) + 1) * of_nat j + f) < MAX_FRAMEBUFFERS"
      if "j < nat (channelCount (chan s1 ?c))" for j
      using fj [of j] that unfolding ch b_def by simp
  qed
  then have checked: "wp (AutoCircTransfer_checked F P E ?c f t s1) (\<lambda>(_, _, s'). circ_ok s')"
    using s1 by (simp add: AutoCircTransfer_checked_def Let_def)
  have put: "ac_put ?c b s = Some s1"
    using assms(2) less by (simp add: ac_put_def arr_set_Some s1_def)
  show ?thesis
    using False assms(2) checked
    by (simp add: AutoCircTransfer_def Let_def ac_get_chan [OF assms(2) less] frame b_def [symmetric] put)
qed

end
