(* ===== verification/Ntv2AutoMachine.thy ===== *)
theory Ntv2AutoMachine
  imports Ntv2AutoInitInv Ntv2AutoTransferInv
begin

text \<open>
  The circulator as a state machine. Its steps are the messages of an application
  (\<open>AutoCircControl\<close>), its transfers (\<open>AutoCircTransfer\<close>, with interrupts during the DMA), the
  interrupts of the channels (\<open>AutoCirculate\<close>), the audio playback mode and any change of the
  registers, by the hardware or by another program. Every state that it reaches satisfies the invariant, so that no operation accesses memory outside an array.
\<close>

section \<open>The operations on a legal channel\<close>

lemma gang_index:
  assumes "circ_ok s" and "\<not> ILLEGAL_CHANNELSPEC c"
  shows "GetIndexForNTV2Crosspoint c = of_nat (unat (GetIndexForNTV2Crosspoint c))"
    and "unat (GetIndexForNTV2Crosspoint c) + nat (channelCount (chan s c)) \<le> 16"
    and "0 \<le> channelCount (chan s c)"
  using legal_identity [OF assms] by (simp_all add: identity_ok_def)

lemmas legal_get = ac_get_chan [OF _ legal_less]

text \<open>An operation of a \<open>gang_op\<close> keeps the invariant.\<close>

lemma gang_op_keeps:
  assumes "gang_op body (\<lambda>_. True) (\<lambda>_ _. True) post" and "circ_ok s" and "\<not> ILLEGAL_CHANNELSPEC c"
  shows "wp (gang body (nat (channelCount (chan s c))) 0 (GetIndexForNTV2Crosspoint c) s) (\<lambda>(_, s'). circ_ok s')"
  using gang_op.run [OF assms(1,2) TrueI gang_index(2) [OF assms(2,3)], of 0]
  by (subst gang_index(1) [OF assms(2,3)]) (auto elim: wp_mono)

lemma stop_keeps: "circ_ok s \<Longrightarrow> wp (AutoCircStop c s) (\<lambda>(_, s'). circ_ok s')"
  using gang_op_keeps [OF stop.gang_op_axioms] by (simp add: AutoCircStop_def legal_get)

lemma pause_keeps: "circ_ok s \<Longrightarrow> wp (AutoCircPause c p d s) (\<lambda>(_, s'). circ_ok s')"
  using gang_op_keeps [OF pause.gang_op_axioms] by (simp add: AutoCircPause_def legal_get)

lemma abort_keeps: "circ_ok s \<Longrightarrow> wp (AutoCircAbort F c s) (\<lambda>(_, s'). circ_ok s')"
  using gang_op_keeps [OF abort.gang_op_axioms] by (simp add: AutoCircAbort_def legal_get)

lemma start_keeps: "circ_ok s \<Longrightarrow> wp (AutoCircStart F c t s) (\<lambda>(_, s'). circ_ok s')"
  using gang_op_keeps [OF start.gang_op_axioms] by (simp add: AutoCircStart_def legal_get)

lemma flush_keeps: "circ_ok s \<Longrightarrow> wp (AutoCircFlush c d s) (\<lambda>(_, s'). circ_ok s')"
  using gang_op_keeps [OF flush.gang_op_axioms] by (simp add: AutoCircFlush_def legal_get)

lemma preroll_keeps:
  assumes "circ_ok s"
  shows "wp (AutoCircPreroll c n s) (\<lambda>(_, s'). circ_ok s')"
proof (cases "ILLEGAL_CHANNELSPEC c")
  case False
  have "wp (gang (AutoCircPreroll_channel n) (nat (channelCount (chan s c))) 0 (GetIndexForNTV2Crosspoint c) s)
      (\<lambda>(_, s'). circ_ok s')"
    by (subst gang_index(1) [OF assms False]) (rule preroll.run [OF assms gang_index(2) [OF assms False]], simp)
  then show ?thesis using False assms by (simp add: AutoCircPreroll_def legal_get)
qed (use assms in \<open>simp add: AutoCircPreroll_def\<close>)

text \<open>
  The choice of the active frame checks the frame against the ring of the primary channel
  only. The channels of the gang must follow it.
\<close>

definition active_pre :: "NTV2AutoCirc \<Rightarrow> nat \<Rightarrow> int \<Rightarrow> bool" where
  "active_pre s c lActiveFrame \<longleftrightarrow>
     (\<forall>j<nat (channelCount (chan s c)).
        let a = chan s (nth_crosspoint (unat (GetIndexForNTV2Crosspoint c) + j))
        in state a \<in> {NTV2_AUTOCIRCULATE_RUNNING, NTV2_AUTOCIRCULATE_STARTING, NTV2_AUTOCIRCULATE_PAUSED} \<and>
           in_ring a (gang_frame lActiveFrame (u32_of (endFrame (chan s c) - startFrame (chan s c) + 1)) j))"

lemma active_run:
  assumes "circ_ok s" and "\<not> ILLEGAL_CHANNELSPEC c" and "active_pre s c x"
  defines "i \<equiv> unat (GetIndexForNTV2Crosspoint c)" and "n \<equiv> nat (channelCount (chan s c))"
    and "R \<equiv> u32_of (endFrame (chan s c) - startFrame (chan s c) + 1)"
  shows "wp (gang (AutoCircSetActiveFrame_channel F x R) n 0 (of_nat i) s)
    (\<lambda>(st, s'). st = NTV2_STATUS_SUCCESS \<and> circ_ok s' \<and> True \<and>
     (\<forall>j<n. chan s' (nth_crosspoint (i + j)) = (chan s (nth_crosspoint (i + j)))\<lparr>activeFrame := gang_frame x R (0 + j)\<rparr>) \<and>
     (\<forall>d. d \<notin> gang_specs i n \<longrightarrow> chan s' d = chan s d))"
proof (rule active.run [OF assms(1) TrueI])
  show "i + n \<le> 16" unfolding i_def n_def by (rule gang_index(2) [OF assms(1,2)])
  show "position_ok (chan s (nth_crosspoint (i + j))) \<and>
      state (chan s (nth_crosspoint (i + j))) \<in> {NTV2_AUTOCIRCULATE_RUNNING, NTV2_AUTOCIRCULATE_STARTING, NTV2_AUTOCIRCULATE_PAUSED} \<and>
      in_ring (chan s (nth_crosspoint (i + j))) (gang_frame x R (0 + j))" if "j < n" for j
  proof -
    have "nth_crosspoint (i + j) < NUM_CIRCULATORS"
      using that gang_index(2) [OF assms(1,2)] legal_less [OF nth_crosspoint_legal [of "i + j"]]
      by (simp add: i_def n_def)
    then have "position_ok (chan s (nth_crosspoint (i + j)))"
      using circ_ok_chan [OF assms(1)] by (simp add: chan_ok_def)
    moreover have "state (chan s (nth_crosspoint (i + j))) \<in>
        {NTV2_AUTOCIRCULATE_RUNNING, NTV2_AUTOCIRCULATE_STARTING, NTV2_AUTOCIRCULATE_PAUSED} \<and>
      in_ring (chan s (nth_crosspoint (i + j))) (gang_frame x R (0 + j))"
      using assms(3) that unfolding active_pre_def Let_def i_def n_def R_def add_0 by blast
    ultimately show ?thesis by blast
  qed
qed

lemma active_count:
  assumes "circ_ok s" and "\<not> ILLEGAL_CHANNELSPEC c"
  shows "unat (u32_of (channelCount (chan s c))) = nat (channelCount (chan s c))"
proof -
  have n: "0 \<le> channelCount (chan s c)" "channelCount (chan s c) \<le> 16"
    using gang_index(2,3) [OF assms] by simp_all
  then have "uint (u32_of (channelCount (chan s c))) = channelCount (chan s c)"
    by (simp add: uint_u32_of)
  then show ?thesis by (metis nat_uint_eq)
qed

lemma active_keeps:
  assumes "circ_ok s" and "\<not> ILLEGAL_CHANNELSPEC c \<Longrightarrow> active_pre s c x"
  shows "wp (AutoCircSetActiveFrame F c x s) (\<lambda>(_, s'). circ_ok s')"
proof (cases "ILLEGAL_CHANNELSPEC c")
  case False
  let ?R = "u32_of (endFrame (chan s c) - startFrame (chan s c) + 1)"
  have "wp (gang (AutoCircSetActiveFrame_channel F x ?R) (nat (channelCount (chan s c))) 0
      (GetIndexForNTV2Crosspoint c) s) (\<lambda>(_, s'). circ_ok s')"
    by (subst gang_index(1) [OF assms(1) False])
      (rule wp_mono [OF active_run [OF assms(1) False assms(2) [OF False]]], auto)
  then show ?thesis
    using False assms(1) by (simp add: AutoCircSetActiveFrame_def legal_get active_count Let_def)
qed (use assms in \<open>simp add: AutoCircSetActiveFrame_def\<close>)

text \<open>
  The initialisation checks only the first and the last frame. The frames of the whole gang
  must lie in the range of the frame stamps, and the gang must end before the last index.
\<close>

definition init_args_ok :: "features \<Rightarrow> init_args \<Rightarrow> nat \<Rightarrow> NTV2AutoCirc \<Rightarrow> bool" where
  "init_args_ok F p c s \<longleftrightarrow>
     init_env F p s \<and> 0 \<le> lStartFrameNum p \<and> lStartFrameNum p \<le> lEndFrameNum p \<and> 0 < lChannelCount p \<and>
     lEndFrameNum p + (lChannelCount p - 1) * (lEndFrameNum p - lStartFrameNum p + 1) < MAX_FRAMEBUFFERS \<and>
     unat (GetIndexForNTV2Crosspoint c) + nat (lChannelCount p) \<le> 16 \<and>
     (bWithHDMIAux p \<longrightarrow> GetNTV2ChannelForNTV2Crosspoint c < 5)"

lemma init_args_frames:
  assumes "init_args_ok F p c s" and "j < nat (lChannelCount p)"
  defines "R \<equiv> u32_of (lEndFrameNum p - lStartFrameNum p + 1)"
  shows "AutoCircInit_frame (lStartFrameNum p) j R = lStartFrameNum p + int j * (lEndFrameNum p - lStartFrameNum p + 1)"
    and "AutoCircInit_frame (lEndFrameNum p) j R = lEndFrameNum p + int j * (lEndFrameNum p - lStartFrameNum p + 1)"
    and "lEndFrameNum p + int j * (lEndFrameNum p - lStartFrameNum p + 1) < MAX_FRAMEBUFFERS"
proof -
  have p: "0 \<le> lStartFrameNum p" "lStartFrameNum p \<le> lEndFrameNum p"
    "lEndFrameNum p + (lChannelCount p - 1) * (lEndFrameNum p - lStartFrameNum p + 1) < 512"
    using assms(1) by (simp_all add: init_args_ok_def)
  have "int j * (lEndFrameNum p - lStartFrameNum p + 1) \<le> (lChannelCount p - 1) * (lEndFrameNum p - lStartFrameNum p + 1)"
    using assms(2) p(2) by (intro mult_right_mono) simp_all
  then have le: "lEndFrameNum p + int j * (lEndFrameNum p - lStartFrameNum p + 1) < 512"
    using p(3) by linarith
  then show "lEndFrameNum p + int j * (lEndFrameNum p - lStartFrameNum p + 1) < MAX_FRAMEBUFFERS" by simp
  show "AutoCircInit_frame (lStartFrameNum p) j R = lStartFrameNum p + int j * (lEndFrameNum p - lStartFrameNum p + 1)"
    unfolding R_def by (rule init_frame_eq) (use p le in \<open>simp_all\<close>)
  show "AutoCircInit_frame (lEndFrameNum p) j R = lEndFrameNum p + int j * (lEndFrameNum p - lStartFrameNum p + 1)"
    unfolding R_def by (rule init_frame_eq) (use p le in \<open>simp_all\<close>)
qed

lemma init_args_frames_ok:
  assumes "init_args_ok F p c s" and "j < nat (lChannelCount p)" and "j = 0 \<Longrightarrow> d = c"
  shows "init_frames_ok p (u32_of (lEndFrameNum p - lStartFrameNum p + 1)) j d"
proof -
  have p: "0 \<le> lStartFrameNum p" "lStartFrameNum p \<le> lEndFrameNum p" "0 < lChannelCount p"
    "unat (GetIndexForNTV2Crosspoint c) + nat (lChannelCount p) \<le> 16"
    "bWithHDMIAux p \<longrightarrow> GetNTV2ChannelForNTV2Crosspoint c < 5"
    using assms(1) by (simp_all add: init_args_ok_def)
  have "0 \<le> int j * (lEndFrameNum p - lStartFrameNum p + 1)" using p by simp
  then show ?thesis
    using p init_args_frames [OF assms(1,2)] assms(3) by (auto simp: init_frames_ok_def)
qed

text \<open>The code drops the ancillary data when the device has none.\<close>

lemma init_args_anc:
  "init_args_ok F (p\<lparr>bWithCustomAncData := b\<rparr>) c s = init_args_ok F p c s"
  by (simp add: init_args_ok_def init_env_def)

lemma init_env_multi: "init_env F p (s\<lparr>bMultiChannel := b\<rparr>) = init_env F p s"
  by (simp add: init_env_def)

definition init_effective :: "features \<Rightarrow> NTV2AutoCirc \<Rightarrow> init_args \<Rightarrow> init_args" where
  "init_effective F s p = (if NTV2DeviceCanDoCustomAnc F (acDeviceID s) then p else p\<lparr>bWithCustomAncData := False\<rparr>)"

lemma init_effective_ok: "init_args_ok F (init_effective F s p) c s' = init_args_ok F p c s'"
  by (simp add: init_effective_def init_args_anc)

lemma init_effective_fields [simp]:
  "lStartFrameNum (init_effective F s p) = lStartFrameNum p" "lEndFrameNum (init_effective F s p) = lEndFrameNum p"
  "lChannelCount (init_effective F s p) = lChannelCount p"
  by (simp_all add: init_effective_def)

text \<open>The checks of the code pass, except that it refuses a range of all 512 frames.\<close>

lemma AutoCircInit_run:
  assumes "init_args_ok F p c s" and "\<not> ILLEGAL_CHANNELSPEC c"
  shows "AutoCircInit F c p s =
    (if lEndFrameNum p - lStartFrameNum p + 1 = 512 then Some (NTV2_STATUS_BAD_PARAMETER, s)
     else gang (AutoCircInit_channel F (init_effective F s p) (u32_of (lEndFrameNum p - lStartFrameNum p + 1)))
            (nat (lChannelCount p)) 0 (GetIndexForNTV2Crosspoint c) (s\<lparr>bMultiChannel := (lChannelCount p > 1)\<rparr>))"
proof -
  have p: "0 \<le> lStartFrameNum p" "lStartFrameNum p \<le> lEndFrameNum p" "0 < lChannelCount p"
    using assms(1) by (simp_all add: init_args_ok_def)
  have stop: "lEndFrameNum p < 512"
    using init_args_frames(3) [OF assms(1), of 0] p by simp
  define n where "n = lEndFrameNum p - lStartFrameNum p + 1"
  have n: "0 \<le> n" "n \<le> 512" using p stop by (simp_all add: n_def)
  have u: "uint (u32_of n) = n" using n by (simp add: uint_u32_of)
  have "u32_of n \<ge> u32_of MAX_FRAMEBUFFERS \<longleftrightarrow> n = 512"
    using n unfolding word_le_def u by (auto simp: uint_u32_of)
  then show ?thesis
    using assms(2) p stop unfolding AutoCircInit_def n_def [symmetric] init_effective_def Let_def by simp
qed

lemma init_keeps:
  assumes "circ_ok s" and "\<not> ILLEGAL_CHANNELSPEC c \<Longrightarrow> init_args_ok F p c s"
  shows "wp (AutoCircInit F c p s) (\<lambda>(_, s'). circ_ok s')"
proof (cases "ILLEGAL_CHANNELSPEC c")
  case False
  let ?q = "init_effective F s p" and ?t = "s\<lparr>bMultiChannel := (lChannelCount p > 1)\<rparr>"
  have args: "init_args_ok F ?q c s" using assms(2) [OF False] by (simp add: init_effective_ok)
  have t: "circ_ok ?t" by (rule circ_ok_cong [OF assms(1)]) simp_all
  have "wp (gang (AutoCircInit_channel F ?q (u32_of (lEndFrameNum p - lStartFrameNum p + 1))) (nat (lChannelCount p)) 0
      (GetIndexForNTV2Crosspoint c) ?t) (\<lambda>(_, s'). circ_ok s' \<and> init_env F ?q s')"
  proof (subst gang_index(1) [OF assms(1) False], rule init_keep.run)
    show "circ_ok ?t \<and> init_env F ?q ?t" using t args by (simp add: init_env_multi init_args_ok_def)
    show "unat (GetIndexForNTV2Crosspoint c) + nat (lChannelCount p) \<le> 16" using args by (simp add: init_args_ok_def)
    show "init_frames_ok ?q (u32_of (lEndFrameNum p - lStartFrameNum p + 1)) (0 + j)
        (nth_crosspoint (unat (GetIndexForNTV2Crosspoint c) + j))" if "j < nat (lChannelCount p)" for j
      using init_args_frames_ok [OF args, of j] that nth_crosspoint_index [OF False] by simp
  qed
  then have "wp (gang (AutoCircInit_channel F ?q (u32_of (lEndFrameNum p - lStartFrameNum p + 1))) (nat (lChannelCount p)) 0
      (GetIndexForNTV2Crosspoint c) ?t) (\<lambda>(_, s'). circ_ok s')"
    by (rule wp_mono) auto
  then show ?thesis
    using assms(1) by (simp add: AutoCircInit_run [OF assms(2) [OF False] False])
qed (use assms in \<open>simp add: AutoCircInit_def\<close>)

text \<open>The channels of the gang after an initialisation that finds them all disabled.\<close>

lemma init_result:
  assumes "circ_ok s" and "\<not> ILLEGAL_CHANNELSPEC c" and "init_args_ok F p c s"
    and "lEndFrameNum p - lStartFrameNum p + 1 \<noteq> 512"
    and "\<And>j. j < nat (lChannelCount p) \<Longrightarrow>
           state (chan s (nth_crosspoint (unat (GetIndexForNTV2Crosspoint c) + j))) = NTV2_AUTOCIRCULATE_DISABLED"
  defines "i \<equiv> unat (GetIndexForNTV2Crosspoint c)" and "n \<equiv> nat (lChannelCount p)"
    and "len \<equiv> lEndFrameNum p - lStartFrameNum p + 1"
  shows "wp (AutoCircInit F c p s) (\<lambda>(st, s'). st = NTV2_STATUS_SUCCESS \<and> circ_ok s' \<and>
    (\<forall>j<n. let a = chan s' (nth_crosspoint (i + j))
           in state a = NTV2_AUTOCIRCULATE_INIT \<and> activeFrame a = INVALID_FRAME \<and>
              startFrame a = lStartFrameNum p + int j * len \<and> endFrame a = lEndFrameNum p + int j * len \<and>
              channelCount a = (if j = 0 then lChannelCount p else 0) \<and>
              framesProcessed a = 0 \<and> droppedFrames a = 0 \<and>
              (\<forall>x. in_ring a x \<longrightarrow> validCount (stamp a x) = 0)) \<and>
    (\<forall>d. d \<notin> gang_specs i n \<longrightarrow> chan s' d = chan s d))"
proof -
  let ?q = "init_effective F s p" and ?t = "s\<lparr>bMultiChannel := (lChannelCount p > 1)\<rparr>"
  have args: "init_args_ok F ?q c s" using assms(3) by (simp add: init_effective_ok)
  have t: "circ_ok ?t" by (rule circ_ok_cong [OF assms(1)]) simp_all
  have bound: "i + n \<le> 16" using args by (simp add: init_args_ok_def i_def n_def)
  have env: "init_env F ?q ?t" using args by (simp add: init_env_multi init_args_ok_def)
  have pre: "init_pre ?q (u32_of len) (0 + j) (chan ?t (nth_crosspoint (i + j)))" if "j < n" for j
  proof -
    have "\<not> ILLEGAL_CHANNELSPEC (nth_crosspoint (i + j))"
      using that bound by (intro nth_crosspoint_legal) simp
    then have id: "identity_ok (nth_crosspoint (i + j)) (chan s (nth_crosspoint (i + j)))"
      by (rule legal_identity [OF assms(1)])
    moreover have "init_frames_ok ?q (u32_of len) j (nth_crosspoint (i + j))"
      using init_args_frames_ok [OF args, of j] that nth_crosspoint_index [OF assms(2)]
      by (simp add: n_def i_def len_def)
    ultimately show ?thesis
      using assms(5) [of j] that by (simp add: init_pre_frames n_def i_def)
  qed
  have frames: "AutoCircInit_frame (lStartFrameNum p) j (u32_of len) = lStartFrameNum p + int j * len"
    "AutoCircInit_frame (lEndFrameNum p) j (u32_of len) = lEndFrameNum p + int j * len" if "j < n" for j
    using init_args_frames [OF assms(3), of j] that by (simp_all add: n_def len_def)
  have run: "AutoCircInit F c p s = gang (AutoCircInit_channel F ?q (u32_of len)) n 0 (of_nat i) ?t"
    unfolding AutoCircInit_run [OF assms(3,2)] i_def using assms(4) gang_index(1) [OF assms(1,2)]
    by (simp add: len_def n_def)
  show ?thesis
    unfolding run
    by (rule wp_mono [OF init.run [OF t env bound pre]]) (auto simp: init_post_def frames Let_def)
qed

section \<open>Messages\<close>

text \<open>
  What a message must satisfy beyond the checks of the code. With synchronised channels the
  code stores the channel of the message even when it is not a channel, and it repeats the
  choice of the active frame on a channel that has another ring.
\<close>

definition command_ok :: "features \<Rightarrow> NTV2AutoCirc \<Rightarrow> AUTOCIRCULATE_DATA_64 \<Rightarrow> bool" where
  "command_ok F s m \<longleftrightarrow>
     \<not> ILLEGAL_CHANNELSPEC (acdChannelSpec m) \<longrightarrow>
       (eCommand m = eInitAutoCirc \<longrightarrow> init_args_ok F (control_init_args m) (acdChannelSpec m) s) \<and>
       (eCommand m = eSetActiveFrame \<longrightarrow> active_pre s (acdChannelSpec m) (lVal1 m))"

definition message_ok :: "features \<Rightarrow> NTV2AutoCirc \<Rightarrow> AUTOCIRCULATE_DATA_64 \<Rightarrow> bool" where
  "message_ok F s m \<longleftrightarrow>
     command_ok F s m \<and> acdChannelSpec m < NUM_CIRCULATORS \<and>
     (case AutoCircControl_command F m s of
        None \<Rightarrow> True
      | Some (_, s') \<Rightarrow> eCommand m = eSetActiveFrame \<longrightarrow> hw s' kVRegSyncChannels = 0)"

lemma command_keeps:
  assumes "circ_ok s" and "command_ok F s m"
  shows "wp (AutoCircControl_command F m s) (\<lambda>(_, s'). circ_ok s')"
proof -
  have 1: "wp (AutoCircInit F (acdChannelSpec m) (control_init_args m) s) (\<lambda>(_, s'). circ_ok s')" if "eCommand m = eInitAutoCirc"
    using assms that by (intro init_keeps) (simp_all add: command_ok_def)
  have 2: "wp (AutoCircSetActiveFrame F (acdChannelSpec m) (lVal1 m) s) (\<lambda>(_, s'). circ_ok s')" if "eCommand m = eSetActiveFrame"
    using assms that by (intro active_keeps) (simp_all add: command_ok_def)
  show ?thesis
    using assms(1) 1 2
    by (simp add: AutoCircControl_command_def Let_def start_keeps stop_keeps abort_keeps pause_keeps
        flush_keeps preroll_keeps)
qed

lemma sync_keeps:
  assumes "circ_ok s" and "eCommand m \<noteq> eSetActiveFrame"
  shows "wp (AutoCircControl_sync F m c s) (\<lambda>(_, s'). circ_ok s')"
  using assms
  by (simp add: AutoCircControl_sync_def Let_def start_keeps stop_keeps abort_keeps pause_keeps flush_keeps preroll_keeps)

text \<open>The search for a synchronised channel.\<close>

lemma find_sync:
  assumes "circ_ok s" and "\<And>i. i \<in> set xs \<Longrightarrow> i < 16"
  shows "\<exists>x. find_sync_channel s c xs = Some x \<and> (\<forall>d. x = Some d \<longrightarrow> \<not> ILLEGAL_CHANNELSPEC d)"
  using assms(2)
proof (induction xs)
  case (Cons i xs)
  have i: "i < 16" and ih: "\<exists>x. find_sync_channel s c xs = Some x \<and> (\<forall>d. x = Some d \<longrightarrow> \<not> ILLEGAL_CHANNELSPEC d)"
    using Cons by simp_all
  have legal: "\<not> ILLEGAL_CHANNELSPEC (GetNTV2CrosspointForIndex (of_nat i))"
    using nth_crosspoint_legal [OF i] by (simp add: nth_crosspoint_def)
  have get: "ac_get s i = Some (chan s i)"
    using ac_get_chan [OF assms(1), of i] i by simp
  show ?case
    using ih legal by (simp add: get)
qed simp

lemma sync_stored:
  assumes "circ_ok s" and "a < NUM_CIRCULATORS" and "b < NUM_CIRCULATORS"
  shows "circ_ok (s\<lparr>syncChannel1 := a, syncChannel2 := b\<rparr>)"
proof -
  let ?t = "s\<lparr>syncChannel1 := a, syncChannel2 := b\<rparr>"
  have "autoCirculate ?t = autoCirculate s" and "ancInputChannel ?t = ancInputChannel s"
    and "syncChannel1 ?t = a" and "syncChannel2 ?t = b" by simp_all
  then show ?thesis
    using assms unfolding circ_ok_def by (simp only:) blast
qed

lemma control_keeps:
  assumes "circ_ok s" and "message_ok F s m"
  shows "wp (AutoCircControl F m s) (\<lambda>(_, s'). circ_ok s')"
proof -
  have cmd: "command_ok F s m" and spec: "acdChannelSpec m < NUM_CIRCULATORS"
    using assms(2) by (simp_all add: message_ok_def)
  obtain st s1 where s1: "AutoCircControl_command F m s = Some (st, s1)" "circ_ok s1"
    using command_keeps [OF assms(1) cmd] by (auto simp: wp_iff)
  have off: "eCommand m = eSetActiveFrame \<Longrightarrow> hw s1 kVRegSyncChannels = 0"
    using assms(2) s1(1) by (simp add: message_ok_def)
  define channels where "channels = [unat (GetIndexForNTV2Crosspoint NTV2CROSSPOINT_CHANNEL1) ..<
      Suc (unat (GetIndexForNTV2Crosspoint NTV2CROSSPOINT_INPUT8))]"
  have "i < 16" if "i \<in> set channels" for i
  proof -
    have "i < Suc (unat (GetIndexForNTV2Crosspoint NTV2CROSSPOINT_INPUT8))"
      using that unfolding channels_def set_upt by (rule atLeastLessThan_iff [THEN iffD1, THEN conjunct2])
    then show ?thesis using index_less [of NTV2CROSSPOINT_INPUT8] by linarith
  qed
  then obtain x where x: "find_sync_channel s1 (acdChannelSpec m) channels = Some x"
      "\<And>d. x = Some d \<Longrightarrow> \<not> ILLEGAL_CHANNELSPEC d"
    using find_sync [OF s1(2), of channels] by blast
  define y where "y = (if hw s1 kVRegSyncChannels \<noteq> 0 then x else None)"
  have sync: "(if ntv2ReadVirtualRegister (hw s1) kVRegSyncChannels \<noteq> 0
      then find_sync_channel s1 (acdChannelSpec m) channels else Some None) = Some y"
    unfolding y_def x(1) by (simp add: reg_simps)
  have run: "AutoCircControl F m s = (case y of
      None \<Rightarrow> Some (st, s1\<lparr>syncChannel1 := NTV2CROSSPOINT_FGKEY, syncChannel2 := NTV2CROSSPOINT_FGKEY\<rparr>)
    | Some d \<Rightarrow> AutoCircControl_sync F m d (s1\<lparr>syncChannel1 := acdChannelSpec m, syncChannel2 := d\<rparr>))"
    unfolding AutoCircControl_def s1(1) bind.bind_lunit prod.case channels_def [symmetric] sync by (rule refl)
  show ?thesis
  proof (cases y)
    case None
    then show ?thesis
      unfolding run using sync_stored [OF s1(2)] by simp
  next
    case (Some d)
    have "eCommand m \<noteq> eSetActiveFrame" and "d < NUM_CIRCULATORS"
      using Some off x(2) [of d] legal_less [of d] by (auto simp: y_def split: if_splits)
    then show ?thesis
      unfolding run Some option.case using sync_stored [OF s1(2) spec] by (intro sync_keeps) auto
  qed
qed

section \<open>The machine\<close>

text \<open>The circulator after the reset of every channel, as the driver leaves it when it loads.\<close>

definition reset_circ :: "regs \<Rightarrow> u32 \<Rightarrow> NTV2AutoCirc" where
  "reset_circ r dev =
     \<lparr>hw = r, acDeviceID = dev,
      autoCirculate = map (\<lambda>c. if ILLEGAL_CHANNELSPEC c then zero_autoCirculate else reset_channel c) [0 ..< NUM_CIRCULATORS],
      ancInputChannel = replicate NTV2_MAX_NUM_CHANNELS 0, globalAudioPlaybackMode = 0,
      syncChannel1 = 0, syncChannel2 = 0, gStartAudioNextFrame = False, gStopAudioNextFrame = False,
      bMultiChannel = False\<rparr>"

lemma reset_circ_ok: "circ_ok (reset_circ r dev)"
proof -
  have "chan_ok c (chan (reset_circ r dev) c)" if "c < NUM_CIRCULATORS" for c
    using that zero_channel_ok [of c] reset_channel_ok [of c]
    by (simp add: reset_circ_def del: upt_rec_numeral)
  then show ?thesis
    unfolding circ_ok_def by (simp add: reset_circ_def del: upt_rec_numeral)
qed

inductive circ_step :: "features \<Rightarrow> platform \<Rightarrow> NTV2AutoCirc \<Rightarrow> NTV2AutoCirc \<Rightarrow> bool" for F P where
  message: "message_ok F s m \<Longrightarrow> AutoCircControl F m s = Some (st, s') \<Longrightarrow> circ_step F P s s'"
| interrupt: "\<not> ILLEGAL_CHANNELSPEC c \<Longrightarrow> AutoCirculate F P c t s = Some (ev, s') \<Longrightarrow> circ_step F P s s'"
| transfer: "dma_interrupts F P E \<Longrightarrow> transfer_ok s m \<Longrightarrow> AutoCircTransfer F P E m s = Some (st, m', s') \<Longrightarrow>
    circ_step F P s s'"
| playback_mode: "circ_step F P s (snd (AutoCircAudioPlaybackMode sys md s))"
| registers: "circ_step F P s (s\<lparr>hw := r\<rparr>)"

inductive circ_reachable :: "features \<Rightarrow> platform \<Rightarrow> NTV2AutoCirc \<Rightarrow> bool" for F P where
  load: "circ_reachable F P (reset_circ r dev)"
| step: "circ_reachable F P s \<Longrightarrow> circ_step F P s s' \<Longrightarrow> circ_reachable F P s'"

lemma playback_mode_keeps: "circ_ok s \<Longrightarrow> circ_ok (snd (AutoCircAudioPlaybackMode sys md s))"
  by (erule circ_ok_cong) (simp_all add: AutoCircAudioPlaybackMode_def upd_hw_def Let_def)

lemma step_keeps: "circ_step F P s s' \<Longrightarrow> circ_ok s \<Longrightarrow> circ_ok s'"
proof (induction rule: circ_step.induct)
  case (message s m st s')
  then show ?case using control_keeps [of s F m] by simp
next
  case (interrupt c t s ev s')
  then show ?case using isr_wp [of s c F P t] by simp
next
  case (transfer E s m st m' s')
  then show ?case using transfer_keeps [of F P E s m] by simp
next
  case (playback_mode s sys md)
  then show ?case by (rule playback_mode_keeps)
next
  case (registers s r)
  then show ?case by (rule circ_ok_cong) simp_all
qed

lemma reachable_ok: "circ_reachable F P s \<Longrightarrow> circ_ok s"
  by (induction rule: circ_reachable.induct) (blast intro: reset_circ_ok step_keeps)+

end
