(* ===== verification/Ntv2Example.thy ===== *)
theory Ntv2Example
  imports Ntv2Features
begin

text \<open>A device without any of the capabilities, for the examples of the theorems.\<close>

definition example_features :: features where
  "example_features =
     \<lparr>NTV2DeviceCanDoMultiFormat = (\<lambda>_. False),
      NTV2DeviceCanDo12gRouting = (\<lambda>_. False),
      NTV2DeviceCanDo8KVideo = (\<lambda>_. False),
      NTV2DeviceCanDo4KVideo = (\<lambda>_. False),
      NTV2DeviceCanDo425Mux = (\<lambda>_. False),
      NTV2DeviceCanReportFrameSize = (\<lambda>_. False),
      NTV2DeviceSoftwareCanChangeFrameBufferSize = (\<lambda>_. False),
      NTV2DeviceGetFrameBufferSize = (\<lambda>_ _ _. 0),
      NTV2DeviceCanDo12GOut = (\<lambda>_ _. False),
      NTV2DeviceCanDo12GIn = (\<lambda>_ _. False),
      NTV2DeviceCanDo3GIn = (\<lambda>_ _. False),
      NTV2DeviceCanDo3GOut = (\<lambda>_ _. False),
      NTV2DeviceCanDo292Out = (\<lambda>_ _. False),
      NTV2DeviceCanDoRGBLevelAConversion = (\<lambda>_. False),
      NTV2DeviceCanDo3GLevelConversion = (\<lambda>_. False),
      NTV2DeviceCanDoInputSource = (\<lambda>_ _. False),
      NTV2DeviceGetHDMIVersion = (\<lambda>_. 0),
      NTV2DeviceCanDoColorCorrection = (\<lambda>_. False),
      NTV2DeviceGetNumLUTs = (\<lambda>_. 0),
      NTV2DeviceGetLUTVersion = (\<lambda>_. 0),
      NTV2DeviceGetNumVideoOutputs = (\<lambda>_. 0),
      NTV2DeviceGetNumVideoInputs = (\<lambda>_. 0),
      NTV2DeviceCanDoCustomAnc = (\<lambda>_. False),
      NTV2DeviceCanDoCustomAux = (\<lambda>_. False),
      NTV2DeviceCanDoSDIErrorChecks = (\<lambda>_. False),
      NTV2DeviceCanDoLTCEmbeddedN = (\<lambda>_ _. False),
      NTV2DeviceCanDoLTCInN = (\<lambda>_ _. False),
      NTV2DeviceCanDoLTCOutN = (\<lambda>_ _. False),
      NTV2DeviceCanDoWidget = (\<lambda>_ _. False),
      NTV2DeviceGetNumHDMIVideoOutputs = (\<lambda>_. 0),
      NTV2DeviceHasXilinxDMA = (\<lambda>_. False),
      NTV2DeviceCanDoVITC2 = (\<lambda>_. False),
      NTV2DeviceCanDo12GSDI = (\<lambda>_. False),
      NTV2DeviceGetNumVideoChannels = (\<lambda>_. 0),
      NTV2DeviceNeedsRoutingSetup = (\<lambda>_. False)\<rparr>"

end
