(* ===== verification/Ntv2AutoExample.thy ===== *)
theory Ntv2AutoExample
  imports Ntv2AutoMachine Ntv2Example
begin

text \<open>
  Concrete circulators, on which the theorems about the circulator are applied: one channel
  with a ring of four frames, all other channels reset, all registers zero.
\<close>

definition example_chan :: "nat \<Rightarrow> NTV2AutoCirculateState \<Rightarrow> int \<Rightarrow> INTERNAL_AUTOCIRCULATE_STRUCT" where
  "example_chan c st active =
     (reset_channel c)\<lparr>startFrame := 4, endFrame := 7, channelCount := 1, state := st,
                       activeFrame := active, nextFrame := (if active = INVALID_FRAME then 0 else active)\<rparr>"

definition example_circ :: "nat \<Rightarrow> INTERNAL_AUTOCIRCULATE_STRUCT \<Rightarrow> NTV2AutoCirc" where
  "example_circ c a =
     (reset_circ (\<lambda>_. 0) 0)\<lparr>autoCirculate := (autoCirculate (reset_circ (\<lambda>_. 0) 0))[c := a]\<rparr>"

lemma example_ring:
  "length (frameStamp (example_chan c st active)) = 512" "startFrame (example_chan c st active) = 4"
  "endFrame (example_chan c st active) = 7" "channelCount (example_chan c st active) = 1"
  "state (example_chan c st active) = st" "activeFrame (example_chan c st active) = active"
  "channelSpec (example_chan c st active) = c" "recording (example_chan c st active) = NTV2_IS_INPUT_CROSSPOINT c"
  "nextFrame (example_chan c st active) = (if active = INVALID_FRAME then 0 else active)"
  "activeFrameRegister (example_chan c st active) = activeFrameRegister (reset_channel c)"
  "startTime (example_chan c st active) = 0" "circulateWithFields (example_chan c st active) = False"
  "transferFrame (example_chan c st active) = 0"
  by (simp_all add: example_chan_def reset_channel_def Let_def zero_autoCirculate_def)

lemma example_ring_ok: "ring_ok (example_chan c st active)"
  by (simp add: ring_ok_def example_ring)

lemma example_stamp:
  assumes "0 \<le> i" and "i < 512"
  shows "stamp (example_chan c st active) i = (zero_frameStamp\<lparr>internalTCArray := ones_INTERNAL_TIMECODE_STRUCT\<rparr>)"
proof -
  have "frameStamp (example_chan c st active) = replicate 512 (zero_frameStamp\<lparr>internalTCArray := ones_INTERNAL_TIMECODE_STRUCT\<rparr>)"
    by (simp add: example_chan_def reset_channel_def Let_def zero_autoCirculate_def)
  then have "stamp (example_chan c st active) i = replicate 512 (zero_frameStamp\<lparr>internalTCArray := ones_INTERNAL_TIMECODE_STRUCT\<rparr>) ! nat i"
    by (simp only: stamp_def)
  also have "\<dots> = (zero_frameStamp\<lparr>internalTCArray := ones_INTERNAL_TIMECODE_STRUCT\<rparr>)"
    using assms by (intro nth_replicate) (simp add: nat_less_iff)
  finally show ?thesis .
qed

lemma example_chan_ok:
  assumes "unat (GetIndexForNTV2Crosspoint c) < 16"
    and "st \<in> {NTV2_AUTOCIRCULATE_RUNNING, NTV2_AUTOCIRCULATE_PAUSED, NTV2_AUTOCIRCULATE_STARTING,
                NTV2_AUTOCIRCULATE_STOPPING} \<and> 4 \<le> active \<and> active \<le> 7
         \<or> st \<in> {NTV2_AUTOCIRCULATE_INIT, NTV2_AUTOCIRCULATE_STOPPING} \<and> active = INVALID_FRAME
         \<or> st = NTV2_AUTOCIRCULATE_DISABLED \<and> active = 0"
  shows "chan_ok c (example_chan c st active)"
  using assms example_ring_ok
  by (auto simp: chan_ok_def position_ok_def in_ring_def identity_ok_def example_ring)

lemma example_chan_eq: "c < NUM_CIRCULATORS \<Longrightarrow> chan (example_circ c a) c = a"
  using circ_ok_length [OF reset_circ_ok] by (simp add: example_circ_def)

lemma example_circ_ok: "chan_ok c a \<Longrightarrow> circ_ok (example_circ c a)"
  by (rule circ_ok_put [OF reset_circ_ok]) (simp_all add: example_circ_def)

lemma example_hw: "hw (example_circ c a) = (\<lambda>_. 0)"
  by (simp add: example_circ_def reset_circ_def)

text \<open>With all status bits zero every interrupt is the one of the first field.\<close>

lemma example_due: "isr_due F (\<lambda>_. 0) a"
  by (simp add: isr_due_def isr_field0_def IsFieldID0_def Let_def reg_simps)

lemma example_field0: "isr_field0 F (\<lambda>_. 0) a"
  by (simp add: isr_field0_def IsFieldID0_def Let_def reg_simps)

lemmas example_facts = example_ring example_chan_eq example_hw example_due example_field0

section \<open>A run\<close>

text \<open>Two messages for the first channel of a device without any of the capabilities.\<close>

definition example_message :: "u32 \<Rightarrow> int \<Rightarrow> int \<Rightarrow> int \<Rightarrow> AUTOCIRCULATE_DATA_64" where
  "example_message cmd v1 v2 v4 =
     \<lparr>eCommand = cmd, acdChannelSpec = NTV2CROSSPOINT_CHANNEL1, lVal1 = v1, lVal2 = v2, lVal3 = 0, lVal4 = v4,
      lVal5 = 0, lVal6 = 0, bVal1 = False, bVal2 = False, bVal3 = False, bVal4 = False, bVal5 = False,
      bVal6 = False, bVal7 = False, bVal8 = False\<rparr>"

text \<open>Without another active channel a message has only its own effect.\<close>

lemma find_sync_none:
  assumes "circ_ok s" and "\<And>d. d < 16 \<Longrightarrow> d \<noteq> 0 \<Longrightarrow> state (chan s d) = NTV2_AUTOCIRCULATE_DISABLED"
    and "\<And>i. i \<in> set xs \<Longrightarrow> i < 16"
  shows "find_sync_channel s NTV2CROSSPOINT_CHANNEL1 xs = Some None"
  using assms(3)
proof (induction xs)
  case (Cons i xs)
  have "i < 16" and ih: "find_sync_channel s NTV2CROSSPOINT_CHANNEL1 xs = Some None"
    using Cons by simp_all
  moreover have "ac_get s i = Some (chan s i)"
    using ac_get_chan [OF assms(1), of i] \<open>i < 16\<close> by simp
  moreover have "i \<noteq> 0 \<Longrightarrow> state (chan s i) = NTV2_AUTOCIRCULATE_DISABLED"
    using assms(2) \<open>i < 16\<close> by simp
  ultimately show ?case
    by (cases "i = 0") (simp_all add: GetIndexForNTV2Crosspoint_def)
qed simp

lemma control_alone:
  assumes "AutoCircControl_command F m s = Some (st, s1)" and "circ_ok s1" and "acdChannelSpec m = NTV2CROSSPOINT_CHANNEL1"
    and "\<And>d. d < 16 \<Longrightarrow> d \<noteq> 0 \<Longrightarrow> state (chan s1 d) = NTV2_AUTOCIRCULATE_DISABLED"
  shows "AutoCircControl F m s = Some (st, s1\<lparr>syncChannel1 := NTV2CROSSPOINT_FGKEY, syncChannel2 := NTV2CROSSPOINT_FGKEY\<rparr>)"
proof -
  define channels where "channels = [unat (GetIndexForNTV2Crosspoint NTV2CROSSPOINT_CHANNEL1) ..<
      Suc (unat (GetIndexForNTV2Crosspoint NTV2CROSSPOINT_INPUT8))]"
  have less: "i < 16" if "i \<in> set channels" for i
  proof -
    have "i < Suc (unat (GetIndexForNTV2Crosspoint NTV2CROSSPOINT_INPUT8))"
      using that unfolding channels_def set_upt by (rule atLeastLessThan_iff [THEN iffD1, THEN conjunct2])
    then show ?thesis using index_less [of NTV2CROSSPOINT_INPUT8] by linarith
  qed
  have none: "find_sync_channel s1 (acdChannelSpec m) channels = Some None"
    unfolding assms(3) by (rule find_sync_none [OF assms(2)]) (use assms(4) less in auto)
  have sync: "(if ntv2ReadVirtualRegister (hw s1) kVRegSyncChannels \<noteq> 0
      then find_sync_channel s1 (acdChannelSpec m) channels else Some None) = Some None"
    unfolding none by simp
  show ?thesis
    unfolding AutoCircControl_def assms(1) bind.bind_lunit prod.case channels_def [symmetric] sync by simp
qed

lemma reset_state: "d < NUM_CIRCULATORS \<Longrightarrow> state (chan (reset_circ r dev) d) = NTV2_AUTOCIRCULATE_DISABLED"
  by (simp add: reset_circ_def reset_channel_def zero_autoCirculate_def Let_def del: upt_rec_numeral)

lemma example_args: "init_args_ok example_features (control_init_args (example_message eInitAutoCirc 4 7 1)) NTV2CROSSPOINT_CHANNEL1
    (reset_circ (\<lambda>_. 0) 0)"
  by (simp add: init_args_ok_def init_env_def control_init_args_def example_message_def example_features_def
      reset_circ_def standard_tasks_def reg_simps GetIndexForNTV2Crosspoint_def gNTV2InputSourceToANCChannel_def u32_of_def)

text \<open>The channel that a run of the two messages leaves.\<close>

abbreviation alone :: "NTV2AutoCirc \<Rightarrow> bool" where
  "alone s \<equiv> \<forall>d. d \<noteq> 0 \<longrightarrow> chan s d = chan (reset_circ (\<lambda>_. 0) 0) d"

lemma alone_disabled: "alone s \<Longrightarrow> d < 16 \<Longrightarrow> d \<noteq> 0 \<Longrightarrow> state (chan s d) = NTV2_AUTOCIRCULATE_DISABLED"
  by (simp add: reset_state)

lemma index_channel1: "GetIndexForNTV2Crosspoint NTV2CROSSPOINT_CHANNEL1 = 0" "nth_crosspoint 0 = 0" "gang_specs 0 (Suc 0) = {0}"
  by (simp_all add: GetIndexForNTV2Crosspoint_def nth_crosspoint_def GetNTV2CrosspointForIndex_def gang_specs_def)

lemma example_init:
  "\<exists>s. circ_reachable example_features P s \<and> alone s \<and> circ_ok s \<and>
     state (chan s 0) = NTV2_AUTOCIRCULATE_INIT \<and> startFrame (chan s 0) = 4 \<and> endFrame (chan s 0) = 7 \<and>
     channelCount (chan s 0) = 1"
proof -
  let ?F = example_features and ?s0 = "reset_circ (\<lambda>_. 0) 0" and ?m = "example_message eInitAutoCirc 4 7 1"
  let ?p = "control_init_args ?m"
  have p: "lStartFrameNum ?p = 4" "lEndFrameNum ?p = 7" "lChannelCount ?p = 1"
    by (simp_all add: control_init_args_def example_message_def)
  have cmd: "AutoCircControl_command ?F ?m ?s0 = AutoCircInit ?F NTV2CROSSPOINT_CHANNEL1 ?p ?s0"
    by (simp add: AutoCircControl_command_def example_message_def)
  have "wp (AutoCircInit ?F NTV2CROSSPOINT_CHANNEL1 ?p ?s0) (\<lambda>(st, s'). circ_ok s' \<and> alone s' \<and>
      state (chan s' 0) = NTV2_AUTOCIRCULATE_INIT \<and> startFrame (chan s' 0) = 4 \<and> endFrame (chan s' 0) = 7 \<and>
      channelCount (chan s' 0) = 1)"
    by (rule wp_mono [OF init_result [OF reset_circ_ok _ example_args]])
      (auto simp: p index_channel1 ILLEGAL_CHANNELSPEC_def reset_state Let_def)
  then obtain st s1 where s1: "AutoCircControl_command ?F ?m ?s0 = Some (st, s1)" "circ_ok s1" "alone s1"
      "state (chan s1 0) = NTV2_AUTOCIRCULATE_INIT" "startFrame (chan s1 0) = 4" "endFrame (chan s1 0) = 7"
      "channelCount (chan s1 0) = 1"
    unfolding cmd by (auto simp: wp_iff)
  let ?s2 = "s1\<lparr>syncChannel1 := NTV2CROSSPOINT_FGKEY, syncChannel2 := NTV2CROSSPOINT_FGKEY\<rparr>"
  have "message_ok ?F ?s0 ?m"
    unfolding message_ok_def command_ok_def s1(1) using example_args by (simp add: example_message_def)
  moreover have "AutoCircControl ?F ?m ?s0 = Some (st, ?s2)"
    using alone_disabled [OF s1(3)] by (intro control_alone s1) (simp add: example_message_def)
  ultimately have "circ_reachable ?F P ?s2"
    using circ_reachable.load circ_reachable.step circ_step.message by metis
  moreover have "circ_ok ?s2"
    by (rule sync_stored [OF s1(2)]) simp_all
  ultimately show ?thesis
    using s1(3-) by (intro exI [of _ ?s2]) simp
qed

lemma example_start:
  "\<exists>s. circ_reachable example_features P s \<and> state (chan s 0) = NTV2_AUTOCIRCULATE_STARTING \<and>
     startFrame (chan s 0) = 4 \<and> endFrame (chan s 0) = 7"
proof -
  let ?F = example_features and ?m = "example_message eStartAutoCirc 0 0 0"
  obtain s where s: "circ_reachable ?F P s" "alone s" "circ_ok s"
      "state (chan s 0) = NTV2_AUTOCIRCULATE_INIT" "startFrame (chan s 0) = 4" "endFrame (chan s 0) = 7"
      "channelCount (chan s 0) = 1"
    using example_init by blast
  have cmd: "AutoCircControl_command ?F ?m s = gang (AutoCircStart_channel ?F 0) 1 0 (of_nat 0) s"
    using s(4,7) ac_get_chan [OF s(3), of 0]
    by (simp add: AutoCircControl_command_def example_message_def AutoCircStart_def ILLEGAL_CHANNELSPEC_def index_channel1
        del: gang.simps)
  have "wp (gang (AutoCircStart_channel ?F 0) 1 0 (of_nat 0) s) (\<lambda>(st, s'). circ_ok s' \<and> alone s' \<and>
      state (chan s' 0) = NTV2_AUTOCIRCULATE_STARTING \<and> startFrame (chan s' 0) = 4 \<and> endFrame (chan s' 0) = 7)"
    by (rule wp_mono [OF start.run [OF s(3) TrueI, of 0 1]])
      (use s in \<open>simp_all add: case_prod_unfold start_post_def same_ring_def index_channel1\<close>)
  then obtain st s1 where s1: "AutoCircControl_command ?F ?m s = Some (st, s1)" "circ_ok s1" "alone s1"
      "state (chan s1 0) = NTV2_AUTOCIRCULATE_STARTING" "startFrame (chan s1 0) = 4" "endFrame (chan s1 0) = 7"
    unfolding cmd by (auto simp: wp_iff)
  have "message_ok ?F s ?m"
    unfolding message_ok_def command_ok_def s1(1) by (simp add: example_message_def)
  moreover have "AutoCircControl ?F ?m s = Some (st, s1\<lparr>syncChannel1 := NTV2CROSSPOINT_FGKEY, syncChannel2 := NTV2CROSSPOINT_FGKEY\<rparr>)"
    using alone_disabled [OF s1(3)] by (intro control_alone s1) (simp add: example_message_def)
  ultimately have "circ_reachable ?F P (s1\<lparr>syncChannel1 := NTV2CROSSPOINT_FGKEY, syncChannel2 := NTV2CROSSPOINT_FGKEY\<rparr>)"
    using s(1) circ_reachable.step circ_step.message by metis
  then show ?thesis using s1(4-) by (intro exI) auto
qed

end
