(* ===== verification/Ntv2AutoStatus.thy ===== *)
theory Ntv2AutoStatus
  imports Ntv2AutoTransfer
begin

text \<open>
  What an application can ask of a channel, driver/ntv2autocirc.c: the status of the channel and
  the stamp of a frame, in the old structure (\<open>FRAME_STAMP_STRUCT\<close>, whose fields carry the suffix
  \<open>_o\<close> here) and in the new one. These operations leave the circulator as it is.
\<close>

abbreviation (input) kRegLineCount :: u32 where "kRegLineCount \<equiv> 18"
abbreviation (input) NTV2_AUDIOSYSTEM_INVALID :: nat where "NTV2_AUDIOSYSTEM_INVALID \<equiv> 8"
abbreviation (input) AUTOCIRCULATE_WITH_RP188 :: u32 where "AUTOCIRCULATE_WITH_RP188 \<equiv> 0x01"
abbreviation (input) AUTOCIRCULATE_WITH_LTC :: u32 where "AUTOCIRCULATE_WITH_LTC \<equiv> 0x02"
abbreviation (input) AUTOCIRCULATE_WITH_FBFCHANGE :: u32 where "AUTOCIRCULATE_WITH_FBFCHANGE \<equiv> 0x04"
abbreviation (input) AUTOCIRCULATE_WITH_FBOCHANGE :: u32 where "AUTOCIRCULATE_WITH_FBOCHANGE \<equiv> 0x08"
abbreviation (input) AUTOCIRCULATE_WITH_COLORCORRECT :: u32 where "AUTOCIRCULATE_WITH_COLORCORRECT \<equiv> 0x10"
abbreviation (input) AUTOCIRCULATE_WITH_VIDPROC :: u32 where "AUTOCIRCULATE_WITH_VIDPROC \<equiv> 0x20"
abbreviation (input) AUTOCIRCULATE_WITH_ANC :: u32 where "AUTOCIRCULATE_WITH_ANC \<equiv> 0x40"

section \<open>The status of a channel\<close>

record AUTOCIRCULATE_STATUS =
  acsCrosspoint :: nat
  acsState :: NTV2AutoCirculateState
  acsStartFrame :: int
  acsEndFrame :: int
  acsActiveFrame :: int
  acsRDTSCStartTime :: u64
  acsAudioClockStartTime :: u64
  acsRDTSCCurrentTime :: u64
  acsAudioClockCurrentTime :: u64
  acsFramesProcessed :: u32
  acsFramesDropped :: u32
  acsBufferLevel :: u32
  acsOptionFlags :: u32
  acsAudioSystem :: nat

definition AutoCircGetStatus_options :: "INTERNAL_AUTOCIRCULATE_STRUCT \<Rightarrow> u32" where
  "AutoCircGetStatus_options pAuto =
     (if circulateWithRP188 pAuto then AUTOCIRCULATE_WITH_RP188 else 0) OR
     (if circulateWithLTC pAuto then AUTOCIRCULATE_WITH_LTC else 0) OR
     (if enableFbfChange pAuto then AUTOCIRCULATE_WITH_FBFCHANGE else 0) OR
     (if enableFboChange pAuto then AUTOCIRCULATE_WITH_FBOCHANGE else 0) OR
     (if circulateWithColorCorrection pAuto then AUTOCIRCULATE_WITH_COLORCORRECT else 0) OR
     (if circulateWithVidProc pAuto then AUTOCIRCULATE_WITH_VIDPROC else 0) OR
     (if circulateWithCustomAncData pAuto then AUTOCIRCULATE_WITH_ANC else 0) OR
     (if circulateWithFields pAuto then AUTOCIRCULATE_WITH_FIELDS else 0)"

definition AutoCircGetStatus :: "platform \<Rightarrow> NTV2AutoCirc \<Rightarrow> AUTOCIRCULATE_STATUS \<Rightarrow>
    (Ntv2Status \<times> AUTOCIRCULATE_STATUS) option" where
  "AutoCircGetStatus P s out =
     (if ILLEGAL_CHANNELSPEC (acsCrosspoint out)
      then Some (NTV2_STATUS_BAD_PARAMETER, out)
      else do {
        pAuto \<leftarrow> ac_get s (acsCrosspoint out);
        level \<leftarrow> AutoCircGetBufferLevel pAuto;
        Some (NTV2_STATUS_SUCCESS,
          out\<lparr>acsState := state pAuto,
              acsStartFrame := startFrame pAuto,
              acsEndFrame := endFrame pAuto,
              acsActiveFrame := activeFrame pAuto,
              acsRDTSCStartTime := startTimeStamp pAuto,
              acsAudioClockStartTime := startAudioClockTimeStamp pAuto,
              acsRDTSCCurrentTime := word_of_int (ntv2Time100ns P),
              acsAudioClockCurrentTime := AutoGetAudioClock P,
              acsFramesProcessed := framesProcessed pAuto,
              acsFramesDropped := droppedFrames pAuto,
              acsBufferLevel := level,
              acsAudioSystem := (if circulateWithAudio pAuto then audioSystem pAuto else NTV2_AUDIOSYSTEM_INVALID),
              acsOptionFlags := AutoCircGetStatus_options pAuto\<rparr>) })"

section \<open>The stamp of a frame\<close>

record FRAME_STAMP_STRUCT =
  channelSpec_o :: nat
  frameTime_o :: int
  frame_o :: u32
  audioClockTimeStamp_o :: u64
  audioExpectedAddress_o :: u32
  audioInStartAddress_o :: u32
  audioInStopAddress_o :: u32
  audioOutStopAddress_o :: u32
  audioOutStartAddress_o :: u32
  bytesRead_o :: u32
  startSample_o :: u32
  currentTime_o :: int
  currentFrame_o :: u32
  currentRP188_o :: RP188_STRUCT
  currentFrameTime_o :: int
  audioClockCurrentTime_o :: u64
  currentAudioExpectedAddress_o :: u32
  currentAudioStartAddress_o :: u32
  currentFieldCount_o :: u32
  currentLineCount_o :: u32
  currentReps_o :: u32
  currenthUser_o :: u32

definition zero_FRAME_STAMP_STRUCT :: FRAME_STAMP_STRUCT where
  "zero_FRAME_STAMP_STRUCT =
     \<lparr>channelSpec_o = 0, frameTime_o = 0, frame_o = 0, audioClockTimeStamp_o = 0, audioExpectedAddress_o = 0,
      audioInStartAddress_o = 0, audioInStopAddress_o = 0, audioOutStopAddress_o = 0, audioOutStartAddress_o = 0,
      bytesRead_o = 0, startSample_o = 0, currentTime_o = 0, currentFrame_o = 0, currentRP188_o = zero_RP188_STRUCT,
      currentFrameTime_o = 0, audioClockCurrentTime_o = 0, currentAudioExpectedAddress_o = 0,
      currentAudioStartAddress_o = 0, currentFieldCount_o = 0, currentLineCount_o = 0, currentReps_o = 0,
      currenthUser_o = 0\<rparr>"

text \<open>The part of the stamp about the requested frame.\<close>

definition AutoCircGetFrameStamp_requested :: "INTERNAL_AUTOCIRCULATE_STRUCT \<Rightarrow> int \<Rightarrow> FRAME_STAMP_STRUCT \<Rightarrow>
    FRAME_STAMP_STRUCT option" where
  "AutoCircGetFrameStamp_requested pAuto ulFrameNum st =
     (let ulFrameNum = (if ulFrameNum < startFrame pAuto \<and> ulFrameNum > endFrame pAuto
                        then s32 NTV2_INVALID_FRAME else ulFrameNum)
      in if u32_of ulFrameNum \<noteq> NTV2_INVALID_FRAME
         then do { f \<leftarrow> fs_get pAuto ulFrameNum;
                   Some (st\<lparr>frame_o := u32_of ulFrameNum,
                            frameTime_o := frameTime f,
                            audioClockTimeStamp_o := audioClockTimeStamp f,
                            audioExpectedAddress_o := audioExpectedAddress f,
                            audioInStartAddress_o := audioInStartAddress f,
                            audioInStopAddress_o := audioInStopAddress f,
                            audioOutStartAddress_o := audioOutStartAddress f,
                            audioOutStopAddress_o := audioOutStopAddress f\<rparr>) }
         else Some (st\<lparr>frame_o := NTV2_INVALID_FRAME,
                       frameTime_o := 0, audioClockTimeStamp_o := 0, audioExpectedAddress_o := 0,
                       audioInStartAddress_o := 0, audioInStopAddress_o := 0,
                       audioOutStartAddress_o := 0, audioOutStopAddress_o := 0\<rparr>))"

definition AutoCircGetFrameStamp_current :: "INTERNAL_AUTOCIRCULATE_STRUCT \<Rightarrow> int" where
  "AutoCircGetFrameStamp_current pAuto =
     (if activeFrame pAuto < startFrame pAuto \<or> activeFrame pAuto > endFrame pAuto
      then startFrame pAuto else activeFrame pAuto)"

definition AutoCircGetFrameStamp :: "features \<Rightarrow> platform \<Rightarrow> NTV2AutoCirc \<Rightarrow> nat \<Rightarrow> int \<Rightarrow> FRAME_STAMP_STRUCT \<Rightarrow>
    (Ntv2Status \<times> FRAME_STAMP_STRUCT) option" where
  "AutoCircGetFrameStamp F P s spec ulFrameNum st =
     (if ILLEGAL_CHANNELSPEC spec
      then Some (NTV2_STATUS_BAD_PARAMETER, st)
      else do {
        pAuto \<leftarrow> ac_get s spec;
        if state pAuto \<noteq> NTV2_AUTOCIRCULATE_RUNNING \<and> state pAuto \<noteq> NTV2_AUTOCIRCULATE_STARTING \<and>
           state pAuto \<noteq> NTV2_AUTOCIRCULATE_PAUSED
        then Some (NTV2_STATUS_SUCCESS,
               zero_FRAME_STAMP_STRUCT\<lparr>currentFrame_o := NTV2_INVALID_FRAME,
                 audioClockCurrentTime_o := AutoGetAudioClock P,
                 currentTime_o := ntv2Time100ns P,
                 currentLineCount_o := ntv2ReadRegister (hw s) kRegLineCount,
                 currentFrameTime_o := sint (VBILastRDTSC pAuto)\<rparr>)
        else do {
          st \<leftarrow> AutoCircGetFrameStamp_requested pAuto ulFrameNum st;
          let lCurrentFrame = AutoCircGetFrameStamp_current pAuto;
          f \<leftarrow> fs_get pAuto lCurrentFrame;
          Some (NTV2_STATUS_SUCCESS,
            st\<lparr>currentFrame_o := u32_of lCurrentFrame,
               currentTime_o := ntv2Time100ns P,
               currentRP188_o := rp188 f,
               currentFrameTime_o := (if recording pAuto then frameTime f else sint (VBILastRDTSC pAuto)),
               currentFieldCount_o := (if IsFieldID0 F (hw s) spec then 0 else 1),
               currentAudioExpectedAddress_o := (if recording pAuto then audioInStartAddress f else audioExpectedAddress f),
               currentAudioStartAddress_o := (if recording pAuto then audioInStartAddress f else audioOutStartAddress f),
               audioClockCurrentTime_o := audioClockTimeStamp f,
               currentLineCount_o := ntv2ReadRegister (hw s) kRegLineCount,
               currentReps_o := u32_of (validCount f),
               currenthUser_o := ucast (hUser f)\<rparr>) } })"

definition CopyFrameStampOldToNew :: "FRAME_STAMP_STRUCT \<Rightarrow> FRAME_STAMP \<Rightarrow> FRAME_STAMP" where
  "CopyFrameStampOldToNew old st =
     st\<lparr>acFrameTime := frameTime_o old,
        acRequestedFrame := frame_o old,
        acAudioClockTimeStamp := audioClockTimeStamp_o old,
        acAudioExpectedAddress := audioExpectedAddress_o old,
        acAudioInStartAddress := audioInStartAddress_o old,
        acAudioInStopAddress := audioInStopAddress_o old,
        acAudioOutStopAddress := audioOutStopAddress_o old,
        acAudioOutStartAddress := audioOutStartAddress_o old,
        acTotalBytesTransferred := bytesRead_o old,
        acStartSample := startSample_o old,
        acCurrentTime := currentTime_o old,
        acCurrentFrame := currentFrame_o old,
        acCurrentFrameTime := currentFrameTime_o old,
        acAudioClockCurrentTime := audioClockCurrentTime_o old,
        acCurrentAudioExpectedAddress := currentAudioExpectedAddress_o old,
        acCurrentAudioStartAddress := currentAudioStartAddress_o old,
        acCurrentFieldCount := currentFieldCount_o old,
        acCurrentLineCount := currentLineCount_o old,
        acCurrentReps := currentReps_o old,
        acCurrentUserCookie := ucast (currenthUser_o old),
        acFrame := frame_o old,
        acStampRP188 := NTV2_RP188_from_RP188_STRUCT (currentRP188_o old)\<rparr>"

text \<open>On entry \<open>acFrameTime\<close> holds the channel, and \<open>acRequestedFrame\<close> the frame.\<close>

definition AutoCircFrameStampImmediate :: "features \<Rightarrow> platform \<Rightarrow> NTV2AutoCirc \<Rightarrow> FRAME_STAMP \<Rightarrow>
    (bool \<times> FRAME_STAMP) option" where
  "AutoCircFrameStampImmediate F P s st =
     (let channel = unat (word_of_int (acFrameTime st) :: u32)
      in if acFrameTime st < 0
         then Some (False, st)
         else if \<not> NTV2_IS_VALID_CHANNEL channel
         then Some (False, st)
         else (let modeValue = ntv2ReadRegisterMS (hw s) (tbl gChannelToControlRegNum channel) kRegMaskMode kRegShiftMode;
                   crosspoint = (if modeValue = NTV2_MODE_DISPLAY
                                 then GetNTV2CrosspointChannelForIndex (of_nat channel)
                                 else GetNTV2CrosspointInputForIndex (of_nat channel))
               in if ILLEGAL_CHANNELSPEC crosspoint
                  then Some (False, st)
                  else do {
                    pAuto \<leftarrow> ac_get s crosspoint;
                    (status, old) \<leftarrow> AutoCircGetFrameStamp F P s crosspoint (s32 (acRequestedFrame st))
                                       (zero_FRAME_STAMP_STRUCT\<lparr>channelSpec_o := crosspoint\<rparr>);
                    if status \<noteq> NTV2_STATUS_SUCCESS
                    then Some (False, st)
                    else do {
                      let st = CopyFrameStampOldToNew old st;
                      let frameNumber = s32 (acRequestedFrame st);
                      let frameNumber = (if frameNumber < startFrame pAuto \<or> frameNumber > endFrame pAuto
                                         then activeFrame pAuto else frameNumber);
                      let frameNumber = (if frameNumber < startFrame pAuto \<or> frameNumber > endFrame pAuto
                                         then startFrame pAuto else frameNumber);
                      f \<leftarrow> fs_get pAuto frameNumber;
                      let (ok, tcs) = CopyFrameStampTCArrayToNTV2TimeCodeArray (internalTCArray f)
                                        (fKernelTimeCodes (acTimeCodes st)) (fByteCount (acTimeCodes st));
                      Some (ok, st\<lparr>acStampRP188 := NTV2_RP188_from_RP188_STRUCT (rp188 f),
                                   acTimeCodes := (acTimeCodes st)\<lparr>fKernelTimeCodes := tcs\<rparr>\<rparr>) } }))"

end
