(* ===== verification/Ntv2AutoTransferOne.thy ===== *)
theory Ntv2AutoTransferOne
  imports Ntv2AutoTransferInv
begin

text \<open>
  A transfer of a channel that is no gang, when its DMA runs without an interrupt: which frame it
  hands over, and what it leaves of the counts of the frames.
\<close>

section \<open>The phases\<close>

text \<open>
  \<open>quiet E st\<close>: the DMA ends with the status \<open>st\<close> and no interrupt happens while it runs.
\<close>

definition quiet :: "dma_env \<Rightarrow> Ntv2Status \<Rightarrow> bool" where
  "quiet E st \<longleftrightarrow> AutoDmaTransfer E = (\<lambda>p s. (st, s))"

lemma xdma_quiet: "quiet E st \<Longrightarrow> xdma E p x = x\<lparr>xStatus := st\<rparr>"
  by (simp add: quiet_def xdma_def)

text \<open>The channel between the start of a transfer to the frame \<open>f\<close> and its completion.\<close>

definition prepared :: "AUTOCIRCULATE_TRANSFER \<Rightarrow> u32 \<Rightarrow> INTERNAL_AUTOCIRCULATE_STRUCT \<Rightarrow>
    INTERNAL_AUTOCIRCULATE_STRUCT \<Rightarrow> bool" where
  "prepared t f a b \<longleftrightarrow>
     same_place a b \<and> transferFrame b = f \<and> same_counts {} a b \<and>
     (if recording a then frameStamp b = frameStamp a
      else repeatCount (stamp b (uint f)) = s32 (acFrameRepeatCount t) \<and> hUser (stamp b (uint f)) = acInUserCookie t)"

lemma prepared_ok: "chan_ok c a \<Longrightarrow> prepared t f a b \<Longrightarrow> uint f < MAX_FRAMEBUFFERS \<Longrightarrow> chan_ok c b"
  by (rule same_place_ok [of c a]) (auto simp: prepared_def)

lemma audio_setup_prepared:
  assumes "chan_ok c b" and "prepared t f a b"
  shows "wp (AutoCircDmaAudioSetup r b) (\<lambda>(ok, d). ok = circulateWithAudio a \<and> prepared t f a d)"
proof -
  have less: "uint (transferFrame b) < MAX_FRAMEBUFFERS" using assms(1) by (simp add: chan_ok_def)
  have "frameStamp d = frameStamp b" if "AutoCircDmaAudioSetup r b = Some (ok, d)" "recording b" for ok d
    using that by (auto simp: AutoCircDmaAudioSetup_def AutoCircDmaAudioSetup_record_def Let_def case_prod_unfold
        split: if_splits bind_splits)
  then have "wp (AutoCircDmaAudioSetup r b) (\<lambda>(ok, d). recording b \<longrightarrow> frameStamp d = frameStamp b)"
    using audio_wp [OF chan_ok_ring [OF assms(1)] less, of r] by (auto simp: wp_iff)
  from wp_conj [OF this audio_wp [OF chan_ok_ring [OF assms(1)] less, of r]] show ?thesis
    using assms(2)
    by (auto simp: prepared_def same_place_def same_counts_def elim!: wp_mono)
qed

abbreviation put_chan :: "nat \<Rightarrow> INTERNAL_AUTOCIRCULATE_STRUCT \<Rightarrow> NTV2AutoCirc \<Rightarrow> NTV2AutoCirc" where
  "put_chan c d s \<equiv> s\<lparr>autoCirculate := (autoCirculate s)[c := d]\<rparr>"

lemma ac_put_chan: "circ_ok s \<Longrightarrow> c < NUM_CIRCULATORS \<Longrightarrow> ac_put c d s = Some (put_chan c d s)"
  by (simp add: ac_put_def arr_set_Some)

text \<open>What the phases do to the locals: \<open>d\<close> is the channel that they leave.\<close>

definition sent :: "nat \<Rightarrow> Ntv2Status \<Rightarrow> (INTERNAL_AUTOCIRCULATE_STRUCT \<Rightarrow> bool) \<Rightarrow> transfer_locals \<Rightarrow> transfer_locals \<Rightarrow> bool" where
  "sent c st Q x y \<longleftrightarrow>
     (\<exists>d. Q d \<and> xCirc y = put_chan c d (xCirc x)) \<and> xStatus y = st \<and> updateValid y = updateValid x \<and>
     transferPending y = transferPending x \<and> acTransferStatus (xTransfer y) = acTransferStatus (xTransfer x)"

lemma flags_prepared:
  assumes "ring_ok b" and "uint f < MAX_FRAMEBUFFERS" and "prepared t f a b" and "\<not> recording a"
  shows "prepared t f a (b\<lparr>frameStamp := (frameStamp b)[unat f := (stamp b (uint f))\<lparr>frameFlags := x\<rparr>]\<rparr>)"
  using assms(3,4) stamp_upd_less [OF assms(1,2)] by (simp add: prepared_def same_place_def same_counts_def)

lemma fields_quiet:
  assumes "quiet E st" and "circ_ok (xCirc x)" and "c < NUM_CIRCULATORS" and "uint f < MAX_FRAMEBUFFERS"
    and "prepared t f a (chan (xCirc x) c)"
  shows "wp (AutoCircTransfer_fields F E c g f au an x) (sent c st (prepared t f a) x)"
proof -
  let ?b = "chan (xCirc x) c"
  note ok = circ_ok_chan [OF assms(2,3)]
  note ring = chan_ok_ring [OF ok]
  have rec: "recording ?b = recording a" using assms(5) by (simp add: prepared_def same_place_def)
  define d where "d = (if recording ?b then ?b
    else ?b\<lparr>frameStamp := (frameStamp ?b)[unat f := (stamp ?b (uint f))\<lparr>frameFlags := acPeerToPeerFlags (xTransfer x)\<rparr>]\<rparr>)"
  have d: "prepared t f a d" "chan_ok c d"
    using assms(5) flags_prepared [OF ring assms(4,5)] ok flags_upd_ok [OF ok] rec by (auto simp: d_def)
  have flags: "(if \<not> recording ?b
       then fs_upd (\<lambda>f. f\<lparr>frameFlags := acPeerToPeerFlags (xTransfer x)\<rparr>) (uint f) ?b else Some ?b) = Some d"
  proof -
    have "wp (if \<not> recording ?b
       then fs_upd (\<lambda>f. f\<lparr>frameFlags := acPeerToPeerFlags (xTransfer x)\<rparr>) (uint f) ?b else Some ?b) (\<lambda>e. e = d)"
      using ring assms(4) by (simp add: d_def)
    then show ?thesis by (auto simp: wp_iff)
  qed
  have s: "circ_ok (put_chan c d (xCirc x))" by (rule chan_put [OF assms(2,3) d(2)])
  have ch: "chan (put_chan c d (xCirc x)) c = d" using assms(2,3) by simp
  note total = transfer_fields_total [OF chan_ok_ring [OF d(2)] assms(4)]
  obtain t1 where t1: "AutoCircTransferFields F (hw (xCirc x)) d f False (xTransfer x) = Some t1"
    using total [of F "hw (xCirc x)" False "xTransfer x"] by (auto simp: wp_iff)
  obtain t2 where t2: "AutoCircTransferFields F (hw (xCirc x)) d f True (xTransfer x) = Some t2"
    using total [of F "hw (xCirc x)" True "xTransfer x"] by (auto simp: wp_iff)
  show ?thesis
    unfolding AutoCircTransfer_fields_def Let_def ac_get_chan [OF assms(2,3)] bind.bind_lunit flags ac_put_chan [OF assms(2,3)]
    using s assms(3,4) ch d chan_ok_ring [OF d(2)] t1 t2
    by (auto simp: xdma_quiet [OF assms(1)] sent_def)
qed

lemma dma_quiet:
  assumes "quiet E st" and "circ_ok (xCirc x)" and "c < NUM_CIRCULATORS" and "uint f < MAX_FRAMEBUFFERS"
    and "prepared t f a (chan (xCirc x) c)"
  shows "wp (AutoCircTransfer_dma F E c f x) (\<lambda>r. \<exists>y. r = Inr y \<and> sent c st (prepared t f a) x y \<and>
    audioTransferDone y = circulateWithAudio a \<and> ancTransferDone y = circulateWithCustomAncData a)"
proof -
  let ?b = "chan (xCirc x) c"
  note ok = circ_ok_chan [OF assms(2,3)]
  have with_au: "circulateWithAudio ?b = circulateWithAudio a" "circulateWithCustomAncData ?b = circulateWithCustomAncData a"
    using assms(5) by (simp_all add: prepared_def same_place_def)
  have "wp (if circulateWithAudio ?b then AutoCircDmaAudioSetup (hw (xCirc x)) ?b else Some (True, ?b))
      (\<lambda>(ok, d). ok \<and> prepared t f a d)"
    using audio_setup_prepared [OF ok assms(5), of "hw (xCirc x)"] assms(5) with_au
    by (auto simp: case_prod_unfold elim: wp_mono)
  then obtain d where audio: "(if circulateWithAudio ?b then AutoCircDmaAudioSetup (hw (xCirc x)) ?b else Some (True, ?b)) = Some (True, d)"
      and d: "prepared t f a d"
    by (auto simp: wp_iff)
  let ?s = "put_chan c d (xCirc x)"
  have dok: "chan_ok c d"
  proof (rule same_place_ok [OF ok])
    show "same_place ?b d" using assms(5) d by (simp add: prepared_def same_place_def)
    show "uint (transferFrame d) < MAX_FRAMEBUFFERS" using d assms(4) by (simp add: prepared_def)
  qed
  have s: "circ_ok (xCirc (x\<lparr>xCirc := ?s\<rparr>))" using chan_put [OF assms(2,3) dok] by simp
  have ch: "prepared t f a (chan (xCirc (x\<lparr>xCirc := ?s\<rparr>)) c)" using d assms(2,3) by simp
  have again: "sent c st Q x y" if "sent c st Q (x\<lparr>xCirc := ?s\<rparr>) y" for Q y
    using that by (auto simp: sent_def)
  have fields: "wp (AutoCircTransfer_fields F E c g f au an (x\<lparr>xCirc := ?s\<rparr>)) (sent c st (prepared t f a) x)" for g au an
    by (rule wp_mono [OF fields_quiet [OF assms(1) s assms(3,4) ch]]) (rule again)
  have plain: "sent c st (prepared t f a) x (x\<lparr>xCirc := ?s, xStatus := st\<rparr>)"
    using d by (auto simp: sent_def)
  have done_flags: "sent c st Q x (y\<lparr>audioTransferDone := p, ancTransferDone := q\<rparr>) = sent c st Q x y" for Q y p q
    by (simp add: sent_def)
  show ?thesis
    unfolding AutoCircTransfer_dma_def Let_def ac_get_chan [OF assms(2,3)] bind.bind_lunit audio prod.case ac_put_chan [OF assms(2,3)]
    using fields plain by (simp add: xdma_quiet [OF assms(1)] with_au done_flags)
qed

text \<open>What the application gets back with the frame.\<close>

definition reported :: "u32 \<Rightarrow> INTERNAL_AUTOCIRCULATE_STRUCT \<Rightarrow> INTERNAL_AUTOCIRCULATE_STRUCT \<Rightarrow>
    AUTOCIRCULATE_TRANSFER_STATUS \<Rightarrow> bool" where
  "reported f a b out \<longleftrightarrow>
     acTransferFrame out = uint f \<and> acState out = state a \<and> acFramesProcessed out = framesProcessed a \<and>
     acFramesDropped out = droppedFrames a \<and> AutoCircGetBufferLevel b = Some (acBufferLevel out) \<and>
     (recording a \<longrightarrow>
        acFrameTime (acFrameStamp out) = frameTime (stamp a (uint f)) \<and>
        acAudioInStartAddress (acFrameStamp out) = audioInStartAddress (stamp a (uint f)) \<and>
        acAudioInStopAddress (acFrameStamp out) = audioInStopAddress (stamp a (uint f)) \<and>
        acStampRP188 (acFrameStamp out) = NTV2_RP188_from_RP188_STRUCT (rp188 (stamp a (uint f))))"

abbreviation no_p2p :: "AUTOCIRCULATE_TRANSFER \<Rightarrow> bool" where
  "no_p2p t \<equiv> acPeerToPeerFlags t AND 0xF0000000 = 0"

lemma no_p2pD:
  assumes "no_p2p t"
  shows "acPeerToPeerFlags t AND AUTOCIRCULATE_P2P_PREPARE = 0" "acPeerToPeerFlags t AND AUTOCIRCULATE_P2P_TARGET = 0"
    "acPeerToPeerFlags t AND AUTOCIRCULATE_P2P_COMPLETE = 0" "acPeerToPeerFlags t AND AUTOCIRCULATE_P2P_TRANSFER = 0"
proof -
  have *: "acPeerToPeerFlags t AND m = 0" if "0xF0000000 AND m = m" for m
  proof -
    have "acPeerToPeerFlags t AND m = (acPeerToPeerFlags t AND 0xF0000000) AND m"
      by (simp only: and.assoc that)
    then show ?thesis by (simp only: assms and_zero_eq bit.conj_zero_left)
  qed
  show "acPeerToPeerFlags t AND AUTOCIRCULATE_P2P_PREPARE = 0" by (rule *) simp
  show "acPeerToPeerFlags t AND AUTOCIRCULATE_P2P_TARGET = 0" by (rule *) simp
  show "acPeerToPeerFlags t AND AUTOCIRCULATE_P2P_COMPLETE = 0" by (rule *) simp
  show "acPeerToPeerFlags t AND AUTOCIRCULATE_P2P_TRANSFER = 0" by (rule *) simp
qed

section \<open>The transfer\<close>

text \<open>
  \<open>transferred t f st c s r\<close>: the result \<open>r\<close> of a transfer to or from the frame \<open>f\<close> of the channel \<open>c\<close>.
  The counts change, and the application learns of the frame, only if the DMA succeeded.
\<close>

definition transferred :: "AUTOCIRCULATE_TRANSFER \<Rightarrow> u32 \<Rightarrow> Ntv2Status \<Rightarrow> nat \<Rightarrow> NTV2AutoCirc \<Rightarrow> transfer_result \<Rightarrow> bool" where
  "transferred t f st c s r \<longleftrightarrow>
     (case r of (st', t', s') \<Rightarrow> st' = st \<and>
       (\<exists>m b. prepared t f (chan s c) m \<and> autoCirculate s' = (autoCirculate s)[c := b] \<and>
          (if st = NTV2_STATUS_SUCCESS
           then completed True False f m b \<and> reported f (chan s c) b (acTransferStatus t')
           else b = m)))"

lemma transfer_one:
  assumes "quiet E st" and "circ_ok s" and "\<not> ILLEGAL_CHANNELSPEC c" and "no_p2p t"
    and "channelCount (chan s c) = 1" and "in_ring (chan s c) (uint f)"
  shows "wp (AutoCircTransfer_run F P E c f t s) (transferred t f st c s)"
proof -
  let ?a = "chan s c"
  have less: "c < NUM_CIRCULATORS" using assms(3) by (rule legal_less)
  note ok = circ_ok_chan [OF assms(2) less]
  note ring = chan_ok_ring [OF ok]
  have f: "uint f < 512" using in_ring_bounds [OF ring assms(6)] by simp
  define R where "R = u32_of (endFrame ?a - startFrame ?a + 1)"
  define x where "x = \<lparr>xStatus = NTV2_STATUS_SUCCESS, updateValid = False, transferPending = False,
                   audioTransferDone = False, ancTransferDone = False, xTransfer = t, xCirc = s\<rparr>"
  obtain b where b: "BeginAutoCircTransfer F (hw s) f t ?a = Some b" "prepared t f ?a b"
    using begin_wp [OF ring f, of F "hw s" t] by (auto simp: wp_iff prepared_def)
  have bok: "chan_ok c b" using prepared_ok [OF ok b(2)] f by simp
  let ?x = "x\<lparr>xCirc := put_chan c b s, updateValid := True\<rparr>"
  have s1: "circ_ok (xCirc ?x)" using chan_put [OF assms(2) less bok] by simp
  have ch: "prepared t f ?a (chan (xCirc ?x) c)" using b(2) assms(2) less by simp
  obtain y where y: "AutoCircTransfer_dma F E c f ?x = Some (Inr y)" "sent c st (prepared t f ?a) ?x y"
      "audioTransferDone y = circulateWithAudio ?a" "ancTransferDone y = circulateWithCustomAncData ?a"
    using dma_quiet [OF assms(1) s1 less _ ch, of F] f by (auto simp: wp_iff)
  obtain d where d: "prepared t f ?a d" "xCirc y = put_chan c d s" and ys: "xStatus y = st" "updateValid y"
      "\<not> transferPending y" "acTransferStatus (xTransfer y) = acTransferStatus t"
    using y(2) by (auto simp: sent_def x_def)
  have dok: "chan_ok c d" using prepared_ok [OF ok d(1)] f by simp
  have yok: "circ_ok (xCirc y)" unfolding d(2) by (rule chan_put [OF assms(2) less dok])
  have ychan: "chan (xCirc y) c = d" using d(2) assms(2) less by simp
  have d_same: "circulateWithAudio d = circulateWithAudio ?a" "circulateWithCustomAncData d = circulateWithCustomAncData ?a"
      "channelCount d = 1" "in_ring d (uint f)"
    using d(1) assms(5,6) by (simp_all add: prepared_def same_place_def in_ring_def)
  have index: "GetNTV2CrosspointForIndex (GetIndexForNTV2Crosspoint c) = c"
    using nth_crosspoint_index [OF assms(3)] by (simp add: nth_crosspoint_def)
  have one: "gang (AutoCircTransfer_begin F t f R) (Suc 0) 0 (GetIndexForNTV2Crosspoint c) s =
      Some (NTV2_STATUS_SUCCESS, put_chan c b s)"
    unfolding gang_one index AutoCircTransfer_begin_def
    using b(1) assms(2) less by (simp add: ac_get_chan ac_put_chan)
  have normal: "AutoCircTransfer_normal F E c f R x = Some (Inr y)"
    using y(1) assms(2) less one
    by (simp add: AutoCircTransfer_normal_def ac_get_chan assms(5) x_def del: gang.simps)
  have skip: "AutoCircTransfer_audio E c y = Some (Inr y)" "AutoCircTransfer_anc E c f y = Some (Inr y)"
    using y(3,4) yok less by (simp_all add: AutoCircTransfer_audio_def AutoCircTransfer_anc_def ac_get_chan ychan d_same)
  have get: "ac_get (xCirc y) c = Some d" using ac_get_chan [OF yok less] ychan by simp
  have put: "ac_put c e (put_chan c d s) = Some (put_chan c e (put_chan c d s))" for e
    using ac_put_chan [OF yok less, of e] d(2) by simp
  have compl: "AutoCircTransfer_complete P f R (Suc 0) 0 (GetIndexForNTV2Crosspoint c) y =
      (case CompleteAutoCircTransfer P f True False (acTransferStatus t) d of None \<Rightarrow> None
       | Some (out, e) \<Rightarrow> Some (y\<lparr>xCirc := put_chan c e (put_chan c d s), xTransfer := (xTransfer y)\<lparr>acTransferStatus := out\<rparr>\<rparr>))"
    unfolding AutoCircTransfer_complete.simps index Let_def get bind.bind_lunit
    using yok less ys put d(2) by (simp add: case_prod_unfold split: option.split bind_split)
  have run: "AutoCircTransfer_run F P E c f t s =
      (if st \<noteq> NTV2_STATUS_SUCCESS then Some (st, xTransfer y, put_chan c d s)
       else (case CompleteAutoCircTransfer P f True False (acTransferStatus t) d of None \<Rightarrow> None
       | Some (out, e) \<Rightarrow> Some (st, (xTransfer y)\<lparr>acTransferStatus := out\<rparr>, put_chan c e (put_chan c d s))))"
    unfolding AutoCircTransfer_run_def Let_def ac_get_chan [OF assms(2) less] bind.bind_lunit R_def [symmetric]
      x_def [symmetric]
    using no_p2pD [OF assms(4)] yok less ys(1)
    by (simp add: normal skip ac_get_chan ychan d_same compl d(2)[symmetric] del: AutoCircTransfer_complete.simps split: option.split)
  show ?thesis
  proof (cases "st = NTV2_STATUS_SUCCESS")
    case False
    then show ?thesis using d unfolding run by (auto simp: transferred_def)
  next
    case True
    have st: "stamp d (uint f) = stamp ?a (uint f)" if "recording ?a"
      using d(1) that by (simp add: prepared_def stamp_def)
    have "wp (CompleteAutoCircTransfer P f True False (acTransferStatus t) d) (\<lambda>(out, e).
        completed True False f d e \<and> reported f ?a e out)"
      by (rule wp_mono [OF complete_wp [OF dok]])
        (use d(1) d_same st in \<open>auto simp: reported_def prepared_def same_place_def\<close>)
    then obtain out e where "CompleteAutoCircTransfer P f True False (acTransferStatus t) d = Some (out, e)"
        and "completed True False f d e \<and> reported f ?a e out"
      by (auto simp: wp_iff)
    then show ?thesis
      using True d(1) unfolding run by (simp add: transferred_def) blast
  qed
qed

text \<open>The channel takes part in transfers.\<close>

definition transfers :: "INTERNAL_AUTOCIRCULATE_STRUCT \<Rightarrow> bool" where
  "transfers a \<longleftrightarrow> (if recording a then state a \<in> {NTV2_AUTOCIRCULATE_RUNNING, NTV2_AUTOCIRCULATE_STARTING}
                    else state a \<noteq> NTV2_AUTOCIRCULATE_DISABLED)"

lemma transferred_put:
  assumes "chan (put_chan c (a\<lparr>nextTransferFrame := x\<rparr>) s) c = a\<lparr>nextTransferFrame := x\<rparr>" and "a = chan s c"
  shows "transferred t f st c (put_chan c (a\<lparr>nextTransferFrame := x\<rparr>) s) r = transferred t f st c s r"
proof -
  have "stamp (a\<lparr>nextTransferFrame := x\<rparr>) = stamp a" by (simp add: stamp_def fun_eq_iff)
  then have "prepared t f (a\<lparr>nextTransferFrame := x\<rparr>) = prepared t f a" "reported f (a\<lparr>nextTransferFrame := x\<rparr>) = reported f a"
    by (simp_all add: fun_eq_iff prepared_def reported_def same_place_def same_counts_def)
  then show ?thesis
    using assms(1) by (simp add: transferred_def assms(2) [symmetric] case_prod_unfold)
qed

lemma transfer_at:
  assumes "quiet E st" and "circ_ok s" and "\<not> ILLEGAL_CHANNELSPEC c" and "c = acCrosspoint t" and "no_p2p t"
    and "acInVideoDMAOffset t = 0" and "channelCount (chan s c) = 1" and "transfers (chan s c)"
    and "AutoCircTransfer_frame (acDesiredFrame t) (chan s c) = Some (f, (chan s c)\<lparr>nextTransferFrame := x\<rparr>)"
    and "in_ring (chan s c) (uint f)"
  shows "wp (AutoCircTransfer F P E t s) (transferred t f st c s)"
proof -
  let ?c = c and ?a = "chan s c"
  let ?b = "?a\<lparr>nextTransferFrame := x\<rparr>"
  have less: "?c < NUM_CIRCULATORS" using assms(3) by (rule legal_less)
  note ok = circ_ok_chan [OF assms(2) less]
  have bok: "chan_ok ?c ?b"
    using ok by (intro same_place_ok [OF ok]) (simp_all add: same_place_def chan_ok_def)
  have s1: "circ_ok (put_chan ?c ?b s)" by (rule chan_put [OF assms(2) less bok])
  have ch: "chan (put_chan ?c ?b s) ?c = ?b" using assms(2) less by simp
  have valid: "f \<noteq> NTV2_INVALID_FRAME"
    using in_ring_bounds [OF chan_ok_ring [OF ok] assms(10)] by auto
  have "wp (AutoCircTransfer_run F P E ?c f t (put_chan ?c ?b s)) (transferred t f st ?c (put_chan ?c ?b s))"
    by (rule transfer_one [OF assms(1) s1 assms(3,5)]; unfold ch) (use assms(7,10) in \<open>simp_all add: in_ring_def\<close>)
  then have "wp (AutoCircTransfer_run F P E ?c f t (put_chan ?c ?b s)) (transferred t f st ?c s)"
    by (rule wp_mono) (simp only: transferred_put [OF ch refl])
  then show ?thesis
    using assms(3,6,8) valid
    by (auto simp: AutoCircTransfer_def AutoCircTransfer_checked_def Let_def assms(4) [symmetric] ac_get_chan [OF assms(2) less] assms(9)
        ac_put_chan [OF assms(2) less] transfers_def split: if_split_asm)
qed

end
