(* ===== verification/Ntv2AutoTransferTheorems.thy ===== *)
theory Ntv2AutoTransferTheorems
  imports Ntv2AutoExample Ntv2AutoStatus Ntv2AutoTransferOne
begin

text \<open>
  The properties of the transfers between an application and the frames of a channel, and of the
  messages about a channel, driver/ntv2autocirc.c.
\<close>

section \<open>An example\<close>

definition example_dma :: "Ntv2Status \<Rightarrow> dma_env" where
  "example_dma st =
     \<lparr>AutoDmaTransfer = (\<lambda>p s. (st, s)), AutoBoardCanDoP2P = False, AutoGetFrameAperturePhysicalAddress = 0,
      AutoGetFrameApertureBaseSize = 0, AutoWriteFrameApertureOffset = (\<lambda>x r. r),
      AutoGetMessageAddress = (\<lambda>c. 0), ntv2UserBufferPrepare = (\<lambda>p n w. False)\<rparr>"

lemma example_quiet: "quiet (example_dma st) st"
  by (simp add: quiet_def example_dma_def)

definition example_transfer :: "nat \<Rightarrow> AUTOCIRCULATE_TRANSFER" where
  "example_transfer c =
     (let b = \<lparr>fUserSpacePtr = 0, fByteCount = 0, fKernelTimeCodes = [], fIOMemoryDesc = 0, fIOMemoryMap = 0\<rparr>;
          tc = \<lparr>fDBB = 0, fLo = 0, fHi = 0\<rparr>
      in \<lparr>acVideoBuffer = b, acAudioBuffer = b, acANCBuffer = b, acANCField2Buffer = b, acOutputTimeCodes = b,
          acTransferStatus =
            \<lparr>acState = NTV2_AUTOCIRCULATE_DISABLED, acTransferFrame = 0, acBufferLevel = 0, acFramesProcessed = 0,
             acFramesDropped = 0,
             acFrameStamp =
               \<lparr>acFrameTime = 0, acRequestedFrame = 0, acAudioClockTimeStamp = 0, acAudioExpectedAddress = 0,
                acAudioInStartAddress = 0, acAudioInStopAddress = 0, acAudioOutStopAddress = 0,
                acAudioOutStartAddress = 0, acTotalBytesTransferred = 0, acStartSample = 0, acTimeCodes = b,
                acCurrentTime = 0, acCurrentFrame = 0, acCurrentFrameTime = 0, acAudioClockCurrentTime = 0,
                acCurrentAudioExpectedAddress = 0, acCurrentAudioStartAddress = 0, acCurrentFieldCount = 0,
                acCurrentLineCount = 0, acCurrentReps = 0, acCurrentUserCookie = 0, acFrame = 0, acStampRP188 = tc\<rparr>,
             acAudioTransferSize = 0, acAudioStartSample = 0, acStatusAncTransferSize = 0,
             acStatusAncField2TransferSize = 0\<rparr>,
          acInUserCookie = 0, acInVideoDMAOffset = 0,
          acInSegmentedDMAInfo =
            \<lparr>acNumSegments = 0, acNumActiveBytesPerRow = 0, acSegmentHostPitch = 0, acSegmentDevicePitch = 0\<rparr>,
          acFrameBufferFormat = 0, acFrameBufferOrientation = 0, acHDMIAuxData = b, acPeerToPeerFlags = 0,
          acFrameRepeatCount = 1, acDesiredFrame = -1, acRP188 = tc, acCrosspoint = c,
          userP2P = zero_P2P_STRUCT, userAuxData = (\<lambda>_. 0)\<rparr>)"

lemma example_transfer_simps [simp]:
  "acCrosspoint (example_transfer c) = c" "acInVideoDMAOffset (example_transfer c) = 0"
  "acPeerToPeerFlags (example_transfer c) = 0" "acFrameRepeatCount (example_transfer c) = 1"
  "acDesiredFrame (example_transfer c) = -1"
  by (simp_all add: example_transfer_def Let_def)

section \<open>Well-formedness\<close>

lemma busy_in_ring: "circ_ok s \<Longrightarrow> circ_ok s \<and> (\<forall>c<NUM_CIRCULATORS. busy (chan s c) \<longrightarrow>
    startFrame (chan s c) \<le> activeFrame (chan s c) \<and> activeFrame (chan s c) \<le> endFrame (chan s c))"
  using busy_position(1) [OF circ_ok_chan] by (simp add: in_ring_def)


lemma transfer_ok_one:
  assumes "ring_ok (chan s (acCrosspoint t))" and "channelCount (chan s (acCrosspoint t)) \<le> 1"
    and "u32_of (acDesiredFrame t) = NTV2_INVALID_FRAME"
  shows "transfer_ok s t"
proof -
  have "j = 0" if "j = 0 \<or> j < nat (channelCount (chan s (acCrosspoint t)))" for j
    using that assms(2) by auto
  moreover have "uint f < 512" if "in_ring (chan s (acCrosspoint t)) (uint f)" for f :: u32
    using in_ring_bounds [OF assms(1) that] by simp
  ultimately show ?thesis
    using assms(3) unfolding transfer_ok_def Let_def by fastforce
qed


section \<open>The queues\<close>

lemma frame_auto:
  assumes "ring_ok a" and "AutoCircFindNextAvailFrame a = Some (find_result a (Some i))" and "in_ring a i"
    and "u32_of d = NTV2_INVALID_FRAME"
  shows "AutoCircTransfer_frame d a = Some (u32_of i, a\<lparr>nextTransferFrame := u32_of i\<rparr>)"
    and "uint (u32_of i) = i"
proof -
  show i: "uint (u32_of i) = i" using in_ring_bounds [OF assms(1,3)] by (simp add: uint_u32_of)
  then have "u32_of i \<noteq> NTV2_INVALID_FRAME" using in_ring_bounds [OF assms(1,3)] by auto
  then show "AutoCircTransfer_frame d a = Some (u32_of i, a\<lparr>nextTransferFrame := u32_of i\<rparr>)"
    using assms(2,4) by (simp add: AutoCircTransfer_frame_def find_result_def)
qed

lemma transferred_success:
  assumes "transferred t f NTV2_STATUS_SUCCESS c s (st, t', s')" and "circ_ok s" and "c < NUM_CIRCULATORS"
    and "in_ring (chan s c) (uint f)"
  shows "st = NTV2_STATUS_SUCCESS" and "reported f (chan s c) (chan s' c) (acTransferStatus t')"
    and "same_place (chan s c) (chan s' c)" and "same_counts {uint f} (chan s c) (chan s' c)"
    and "validCount (stamp (chan s' c) (uint f)) = (if recording (chan s c) then 0 else s32 (acFrameRepeatCount t))"
    and "d \<noteq> c \<Longrightarrow> chan s' d = chan s d"
proof -
  obtain m b where p: "prepared t f (chan s c) m" "autoCirculate s' = (autoCirculate s)[c := b]"
      "completed True False f m b" "reported f (chan s c) b (acTransferStatus t')" and st: "st = NTV2_STATUS_SUCCESS"
    using assms(1) unfolding transferred_def prod.case by (auto simp only: simp_thms if_True)
  have b: "chan s' c = b" using p(2) assms(2,3) circ_ok_length by simp
  have place: "same_place (chan s c) m" "same_counts {} (chan s c) m" and rec: "recording m = recording (chan s c)"
      and f: "in_ring m (uint f)"
    using p(1) assms(4) by (simp_all add: prepared_def same_place_def in_ring_def)
  show "st = NTV2_STATUS_SUCCESS" by (rule st)
  show "reported f (chan s c) (chan s' c) (acTransferStatus t')" using p(4) b by simp
  show "same_place (chan s c) (chan s' c)"
    using place(1) p(3) unfolding b completed_def same_place_def by simp
  show "same_counts {uint f} (chan s c) (chan s' c)"
    using same_counts_trans [OF place(2)] p(3) unfolding b completed_def by force
  show "validCount (stamp (chan s' c) (uint f)) = (if recording (chan s c) then 0 else s32 (acFrameRepeatCount t))"
    using p(1,3) f rec unfolding b completed_def prepared_def Let_def by auto
  show "chan s' d = chan s d" if "d \<noteq> c" using p(2) that by simp
qed

text \<open>C5: the transfer of a running capture hands over the first captured frame from the one behind
  the active frame on, with the time, the audio addresses and the timecode that the capture stored;
  the frame is free afterwards, every other frame keeps its state, and no other channel changes.\<close>

theorem capture_transfer_hands_over_frame:
  assumes "circ_ok s" and "\<not> ILLEGAL_CHANNELSPEC c" and "c = acCrosspoint t"
    and "recording (chan s c)" and "state (chan s c) = NTV2_AUTOCIRCULATE_RUNNING" and "channelCount (chan s c) = 1"
    and "acDesiredFrame t = -1" and "acInVideoDMAOffset t = 0" and "no_p2p t"
    and "AutoDmaTransfer E = (\<lambda>p s. (NTV2_STATUS_SUCCESS, s))"
    and "find (\<lambda>i. 0 < validCount (stamp (chan s c) i))
      ([activeFrame (chan s c) + 1..endFrame (chan s c)] @ [startFrame (chan s c)..activeFrame (chan s c) - 1] @
       [activeFrame (chan s c)]) = Some i"
  shows "wp (AutoCircTransfer F P E t s) (\<lambda>(st, t', s'). st = NTV2_STATUS_SUCCESS \<and>
    (let a = chan s c; b = chan s' c; out = acTransferStatus t' in
      acTransferFrame out = i \<and> acState out = NTV2_AUTOCIRCULATE_RUNNING \<and>
      acFrameTime (acFrameStamp out) = frameTime (stamp a i) \<and>
      acAudioInStartAddress (acFrameStamp out) = audioInStartAddress (stamp a i) \<and>
      acAudioInStopAddress (acFrameStamp out) = audioInStopAddress (stamp a i) \<and>
      acStampRP188 (acFrameStamp out) = NTV2_RP188_from_RP188_STRUCT (rp188 (stamp a i)) \<and>
      validCount (stamp b i) = 0 \<and>
      (\<forall>j. in_ring a j \<longrightarrow> j \<noteq> i \<longrightarrow> validCount (stamp b j) = validCount (stamp a j)) \<and>
      state b = state a \<and> activeFrame b = activeFrame a \<and> nextFrame b = nextFrame a \<and>
      framesProcessed b = framesProcessed a \<and> droppedFrames b = droppedFrames a \<and>
      (\<forall>d. d \<noteq> c \<longrightarrow> chan s' d = chan s d)))"
proof -
  let ?a = "chan s c"
  note ok = circ_ok_chan [OF assms(1) legal_less [OF assms(2)]]
  note ring = chan_ok_ring [OF ok]
  have act: "in_ring ?a (activeFrame ?a)" using busy_position(1) [OF ok] assms(5) by (simp add: busy_def)
  have found: "find (\<lambda>i. 0 < validCount (stamp ?a i)) (frames_after ?a (activeFrame ?a) @ [activeFrame ?a]) = Some i"
    using assms(11) by (simp add: frames_after_def)
  have i: "in_ring ?a i"
    using find_SomeD [OF found] act set_frames_after [OF act] by (auto simp: in_ring_def)
  have auto: "AutoCircFindNextAvailFrame ?a = Some (find_result ?a (Some i))"
    using find_next_record [OF ring assms(4,5) act] found by simp
  have desired: "u32_of (acDesiredFrame t) = NTV2_INVALID_FRAME" using assms(7) by (simp add: u32_of_def)
  note frame = frame_auto [OF ring auto i desired]
  have run: "quiet E NTV2_STATUS_SUCCESS" "transfers ?a" and f: "in_ring ?a (uint (u32_of i))"
    using assms(4,5,10) i frame(2) by (simp_all add: quiet_def transfers_def)
  show ?thesis
  proof (rule wp_mono [OF transfer_at [OF run(1) assms(1,2,3,9,8,6) run(2) frame(1) f]], goal_cases)
    case (1 r)
    obtain st t' s' where r: "r = (st, t', s')" by (cases r)
    note res = transferred_success [OF 1 [unfolded r] assms(1) legal_less [OF assms(2)] f, unfolded frame(2)]
    show ?case
      unfolding r prod.case Let_def
      using res(1) res(2) [unfolded reported_def frame(2)] res(3) [unfolded same_place_def] res(4) [unfolded same_counts_def]
        res(5,6) assms(4,5) in_ring_bounds [OF ring]
      by simp
  qed
qed

theorem capture_transfer_hands_over_frame_witness:
  "\<forall>F P. let a = example_chan NTV2CROSSPOINT_INPUT1 NTV2_AUTOCIRCULATE_RUNNING 5;
            s = example_circ NTV2CROSSPOINT_INPUT1 (a\<lparr>frameStamp := (frameStamp a)[6 := zero_frameStamp\<lparr>validCount := 1\<rparr>]\<rparr>)
     in wp (AutoCircTransfer F P (example_dma NTV2_STATUS_SUCCESS) (example_transfer NTV2CROSSPOINT_INPUT1) s)
          (\<lambda>(st, t', s'). acTransferFrame (acTransferStatus t') = 6 \<and> validCount (stamp (chan s' NTV2CROSSPOINT_INPUT1) 6) = 0)"
proof -
  let ?c = "NTV2CROSSPOINT_INPUT1" and ?b = "example_chan NTV2CROSSPOINT_INPUT1 NTV2_AUTOCIRCULATE_RUNNING 5"
  let ?a = "?b\<lparr>frameStamp := (frameStamp ?b)[6 := zero_frameStamp\<lparr>validCount := 1\<rparr>]\<rparr>"
  have b: "chan_ok ?c ?b"
    by (intro example_chan_ok index_less) simp
  have "chan_ok ?c ?a"
    using b by (intro chan_ok_same_ring [OF b]) (simp_all add: same_ring_def chan_ok_def position_ok_def in_ring_def example_ring)
  then have ok: "circ_ok (example_circ ?c ?a)" by (rule example_circ_ok)
  have eq: "chan (example_circ ?c ?a) ?c = ?a" by (rule example_chan_eq) simp
  have found: "0 < validCount (stamp ?a 6)" by (simp add: stamp_def example_ring)
  show ?thesis
    unfolding Let_def
    by (intro allI, rule wp_mono [OF capture_transfer_hands_over_frame [OF ok, where c = ?c and i = 6]])
      (use found in \<open>simp_all add: ILLEGAL_CHANNELSPEC_def eq example_ring NTV2_IS_INPUT_CROSSPOINT_def example_dma_def
        upto_rec1 Let_def case_prod_unfold\<close>)
qed

text \<open>The abstract queue of a channel that plays: the counts of the filled frames behind the one on air.
  It is well-formed when no filled frame lies behind an empty one.\<close>

definition play_frames :: "INTERNAL_AUTOCIRCULATE_STRUCT \<Rightarrow> int list" where
  "play_frames a = [activeFrame a + 1..endFrame a] @ [startFrame a..activeFrame a - 1]"

definition play_queue :: "INTERNAL_AUTOCIRCULATE_STRUCT \<Rightarrow> int list" where
  "play_queue a = takeWhile (\<lambda>n. n \<noteq> 0) (map (\<lambda>i. validCount (stamp a i)) (play_frames a))"

definition play_queue_ok :: "INTERNAL_AUTOCIRCULATE_STRUCT \<Rightarrow> bool" where
  "play_queue_ok a \<longleftrightarrow> list_all (\<lambda>n. n = 0) (drop (length (play_queue a)) (map (\<lambda>i. validCount (stamp a i)) (play_frames a)))"

lemma fill_first:
  fixes f g :: "'a \<Rightarrow> int"
  defines "n \<equiv> \<lambda>f xs. length (takeWhile (\<lambda>n. n \<noteq> 0) (map (f :: 'a \<Rightarrow> int) xs))"
  assumes "n f xs < length xs" and "distinct xs" and "list_all (\<lambda>n. n = 0) (drop (n f xs) (map f xs))"
    and "\<And>j. j \<in> set xs \<Longrightarrow> j \<noteq> xs ! n f xs \<Longrightarrow> g j = f j" and "g (xs ! n f xs) \<noteq> 0"
  shows "find (\<lambda>i. f i = 0) xs = Some (xs ! n f xs) \<and>
    takeWhile (\<lambda>n. n \<noteq> 0) (map g xs) = takeWhile (\<lambda>n. n \<noteq> 0) (map f xs) @ [g (xs ! n f xs)] \<and>
    list_all (\<lambda>n. n = 0) (drop (n g xs) (map g xs))"
  using assms(2-)
proof (induction xs)
  case (Cons x xs)
  show ?case
  proof (cases "f x = 0")
    case True
    then have n: "n f (x # xs) = 0" by (simp add: n_def)
    have same: "g j = 0" if "j \<in> set xs" for j
    proof -
      have "f j = 0" using Cons(4) that unfolding n by (simp add: list_all_iff)
      moreover have "g j = f j" using Cons(3,5) that unfolding n by auto
      ultimately show ?thesis by simp
    qed
    have "takeWhile (\<lambda>n. n \<noteq> 0) (map g xs) = []"
      using same by (cases xs) auto
    then show ?thesis using True Cons(6) same unfolding n by (simp add: n_def list_all_iff)
  next
    case False
    then have n: "n f (x # xs) = Suc (n f xs)" by (simp add: n_def)
    have "x \<noteq> xs ! n f xs" using Cons(2,3) unfolding n by auto
    then have x: "g x = f x" using Cons(5) [of x] unfolding n by simp
    have "find (\<lambda>i. f i = 0) xs = Some (xs ! n f xs) \<and>
      takeWhile (\<lambda>n. n \<noteq> 0) (map g xs) = takeWhile (\<lambda>n. n \<noteq> 0) (map f xs) @ [g (xs ! n f xs)] \<and>
      list_all (\<lambda>n. n = 0) (drop (n g xs) (map g xs))"
      using Cons(2-) unfolding n by (intro Cons(1)) auto
    then show ?thesis using False x unfolding n by (auto simp: n_def)
  qed
qed simp

lemma play_frames_after: "play_frames a = frames_after a (activeFrame a)"
  by (simp add: play_frames_def frames_after_def)

text \<open>C6: a transfer to a running playback with a free frame refines the queue operation that appends:
  the requested number of repetitions becomes the last entry of the queue, at the first free
  frame, and the queue stays well-formed.\<close>

theorem play_transfer_refines_enqueue:
  assumes "circ_ok s" and "\<not> ILLEGAL_CHANNELSPEC c" and "c = acCrosspoint t"
    and "\<not> recording (chan s c)" and "state (chan s c) = NTV2_AUTOCIRCULATE_RUNNING" and "channelCount (chan s c) = 1"
    and "acDesiredFrame t = -1" and "acInVideoDMAOffset t = 0" and "no_p2p t"
    and "AutoDmaTransfer E = (\<lambda>p s. (NTV2_STATUS_SUCCESS, s))"
    and "play_queue_ok (chan s c)" and "length (play_queue (chan s c)) < length (play_frames (chan s c))"
    and "acFrameRepeatCount t \<noteq> 0"
  shows "wp (AutoCircTransfer F P E t s) (\<lambda>(st, t', s'). st = NTV2_STATUS_SUCCESS \<and>
    play_queue (chan s' c) = play_queue (chan s c) @ [s32 (acFrameRepeatCount t)] \<and> play_queue_ok (chan s' c) \<and>
    acTransferFrame (acTransferStatus t') = play_frames (chan s c) ! length (play_queue (chan s c)) \<and>
    same_place (chan s c) (chan s' c) \<and> (\<forall>d. d \<noteq> c \<longrightarrow> chan s' d = chan s d))"
proof -
  let ?a = "chan s c"
  let ?i = "play_frames ?a ! length (play_queue ?a)"
  note ok = circ_ok_chan [OF assms(1) legal_less [OF assms(2)]]
  note ring = chan_ok_ring [OF ok]
  have act: "in_ring ?a (activeFrame ?a)" using busy_position(1) [OF ok] assms(5) by (simp add: busy_def)
  have frames: "set (play_frames ?a) = {startFrame ?a..endFrame ?a} - {activeFrame ?a}" "distinct (play_frames ?a)"
    using set_frames_after [OF act] distinct_frames_after by (simp_all add: play_frames_after)
  have i: "in_ring ?a ?i" using nth_mem [OF assms(12)] unfolding frames(1) by (simp add: in_ring_def)
  have rep: "s32 (acFrameRepeatCount t) \<noteq> 0" using assms(13) by (simp add: s32_def signed_eq_0_iff)
  note fill = fill_first [of "\<lambda>i. validCount (stamp ?a i)" "play_frames ?a", folded play_queue_def,
      OF assms(12) frames(2) assms(11) [unfolded play_queue_ok_def]]
  have "find (\<lambda>i. validCount (stamp ?a i) = 0) (play_frames ?a) = Some ?i"
    using fill [of "\<lambda>i. if i = ?i then 1 else validCount (stamp ?a i)"] by simp
  then have auto: "AutoCircFindNextAvailFrame ?a = Some (find_result ?a (Some ?i))"
    using find_next_play [OF ring assms(4)] act assms(5) by (simp add: play_frames_after)
  have desired: "u32_of (acDesiredFrame t) = NTV2_INVALID_FRAME" using assms(7) by (simp add: u32_of_def)
  note frame = frame_auto [OF ring auto i desired]
  have run: "quiet E NTV2_STATUS_SUCCESS" "transfers ?a" and f: "in_ring ?a (uint (u32_of ?i))"
    using assms(4,5,10) i frame(2) by (simp_all add: quiet_def transfers_def)
  show ?thesis
  proof (rule wp_mono [OF transfer_at [OF run(1) assms(1,2,3,9,8,6) run(2) frame(1) f]], goal_cases)
    case (1 r)
    obtain st t' s' where r: "r = (st, t', s')" by (cases r)
    note res = transferred_success [OF 1 [unfolded r] assms(1) legal_less [OF assms(2)] f, unfolded frame(2)]
    let ?b = "chan s' c"
    have same: "play_frames ?b = play_frames ?a" using res(3) by (simp add: play_frames_def same_place_def)
    have count: "validCount (stamp ?b ?i) = s32 (acFrameRepeatCount t)" using res(5) assms(4) by simp
    have "validCount (stamp ?b j) = validCount (stamp ?a j)" if "j \<in> set (play_frames ?a)" "j \<noteq> ?i" for j
      using res(4) that in_ring_bounds [OF ring, of j] unfolding frames(1) same_counts_def by (auto simp: in_ring_def)
    note fill = fill [of "\<lambda>i. validCount (stamp ?b i)", OF this, unfolded count, folded play_queue_def [of ?b, unfolded same]]
    then have "play_queue ?b = play_queue ?a @ [s32 (acFrameRepeatCount t)]" "play_queue_ok ?b"
      using rep unfolding play_queue_ok_def same by blast+
    then show ?case
      unfolding r prod.case using res(1,3,6) res(2) [unfolded reported_def frame(2)] by simp
  qed
qed

theorem play_transfer_refines_enqueue_witness:
  "\<forall>F P. let a = example_chan NTV2CROSSPOINT_CHANNEL2 NTV2_AUTOCIRCULATE_RUNNING 5; s = example_circ NTV2CROSSPOINT_CHANNEL2 a
     in wp (AutoCircTransfer F P (example_dma NTV2_STATUS_SUCCESS) (example_transfer NTV2CROSSPOINT_CHANNEL2) s)
          (\<lambda>(st, t', s'). play_queue (chan s' NTV2CROSSPOINT_CHANNEL2) = [1] \<and> acTransferFrame (acTransferStatus t') = 6)"
proof -
  let ?c = "NTV2CROSSPOINT_CHANNEL2" and ?a = "example_chan NTV2CROSSPOINT_CHANNEL2 NTV2_AUTOCIRCULATE_RUNNING 5"
  have ok: "circ_ok (example_circ ?c ?a)" by (intro example_circ_ok example_chan_ok index_less) simp
  have eq: "chan (example_circ ?c ?a) ?c = ?a" by (rule example_chan_eq) simp
  have counts: "validCount (stamp ?a i) = 0" if "0 \<le> i" "i < 512" for i
    using that by (simp add: example_stamp zero_frameStamp_def)
  have frames: "play_frames ?a = [6, 7, 4]" by (simp add: play_frames_def example_ring upto_rec1)
  then have queue: "play_queue ?a = []" "play_queue_ok ?a" by (simp_all add: play_queue_def play_queue_ok_def counts del: One_nat_def)
  show ?thesis
    unfolding Let_def
    by (intro allI, rule wp_mono [OF play_transfer_refines_enqueue [OF ok, where c = ?c]])
      (simp_all add: ILLEGAL_CHANNELSPEC_def eq example_ring NTV2_IS_INPUT_CROSSPOINT_def example_dma_def queue frames
        s32_def case_prod_unfold del: One_nat_def)
qed

section \<open>Errors\<close>

text \<open>C22: a transfer finds no frame when its channel takes no part in transfers, which is no error, and
  when the queue of a playback is full, which is a failure: the application gets no frame, and
  the circulator does not change at all.\<close>

theorem transfer_without_frame:
  assumes "circ_ok s" and "\<not> ILLEGAL_CHANNELSPEC c" and "c = acCrosspoint t" and "acDesiredFrame t = -1"
    and "transfers (chan s c) \<Longrightarrow> \<not> recording (chan s c) \<and> state (chan s c) = NTV2_AUTOCIRCULATE_RUNNING \<and>
      length (play_queue (chan s c)) = length (play_frames (chan s c))"
  shows "AutoCircTransfer F P E t s =
    Some (if transfers (chan s c) then NTV2_STATUS_FAIL else NTV2_STATUS_SUCCESS, no_transfer_frame t, s)"
proof (cases "transfers (chan s c)")
  case False
  then show ?thesis
    using assms(2) unfolding AutoCircTransfer_def Let_def assms(3) [symmetric] ac_get_chan [OF assms(1) legal_less [OF assms(2)]]
    by (auto simp: transfers_def split: if_split_asm)
next
  case True
  let ?a = "chan s c"
  note less = legal_less [OF assms(2)]
  note ok = circ_ok_chan [OF assms(1) less]
  have run: "\<not> recording ?a" "state ?a = NTV2_AUTOCIRCULATE_RUNNING"
      and full: "length (play_queue ?a) = length (play_frames ?a)"
    using assms(5) [OF True] by auto
  have act: "in_ring ?a (activeFrame ?a)" using busy_position(1) [OF ok] run by (simp add: busy_def)
  have "play_queue ?a = map (\<lambda>i. validCount (stamp ?a i)) (play_frames ?a)"
    using full takeWhile_eq_take [of "\<lambda>n. n \<noteq> 0" "map (\<lambda>i. validCount (stamp ?a i)) (play_frames ?a)"]
    by (simp add: play_queue_def)
  then have "find (\<lambda>i. validCount (stamp ?a i) = 0) (play_frames ?a) = None"
    unfolding play_queue_def takeWhile_eq_all_conv find_None_iff by auto
  then have "AutoCircFindNextAvailFrame ?a = Some (False, ?a)"
    using find_next_play [OF chan_ok_ring [OF ok] run(1)] run act by (simp add: play_frames_after find_result_def)
  then have frame: "AutoCircTransfer_frame (acDesiredFrame t) ?a = Some (NTV2_INVALID_FRAME, ?a)"
    using run(1) assms(4) by (simp add: AutoCircTransfer_frame_def u32_of_def)
  have "ac_put c ?a s = Some s"
    using ac_put_chan [OF assms(1) less, of ?a] by simp
  then show ?thesis
    using assms(2) run True
    by (simp add: AutoCircTransfer_def AutoCircTransfer_checked_def Let_def assms(3) [symmetric]
        ac_get_chan [OF assms(1) less] frame)
qed

theorem transfer_without_frame_witness:
  "\<forall>F P. let b = example_chan NTV2CROSSPOINT_CHANNEL2 NTV2_AUTOCIRCULATE_RUNNING 5;
            a = b\<lparr>frameStamp := replicate 512 (zero_frameStamp\<lparr>validCount := 2\<rparr>)\<rparr>;
            s = example_circ NTV2CROSSPOINT_CHANNEL2 a; t = example_transfer NTV2CROSSPOINT_CHANNEL2
     in AutoCircTransfer F P (example_dma NTV2_STATUS_SUCCESS) t s = Some (NTV2_STATUS_FAIL, no_transfer_frame t, s)"
proof -
  let ?c = "NTV2CROSSPOINT_CHANNEL2" and ?b = "example_chan NTV2CROSSPOINT_CHANNEL2 NTV2_AUTOCIRCULATE_RUNNING 5"
  let ?a = "?b\<lparr>frameStamp := replicate 512 (zero_frameStamp\<lparr>validCount := 2\<rparr>)\<rparr>"
  have b: "chan_ok ?c ?b"
    by (intro example_chan_ok index_less) simp
  have "chan_ok ?c ?a"
    using b by (intro chan_ok_same_ring [OF b]) (simp_all add: same_ring_def chan_ok_def position_ok_def in_ring_def example_ring)
  then have ok: "circ_ok (example_circ ?c ?a)" by (rule example_circ_ok)
  have eq: "chan (example_circ ?c ?a) ?c = ?a" by (rule example_chan_eq) simp
  have frames: "play_frames ?a = [6, 7, 4]" by (simp add: play_frames_def example_ring upto_rec1)
  have "validCount (stamp ?a i) = 2" if "0 \<le> i" "i < 512" for i
    using that by (simp add: stamp_def nat_less_iff)
  then have queue: "length (play_queue ?a) = 3" by (simp add: play_queue_def frames del: One_nat_def)
  have "transfers ?a" by (simp add: transfers_def example_ring NTV2_IS_INPUT_CROSSPOINT_def)
  then show ?thesis
    unfolding Let_def
    by (intro allI, subst transfer_without_frame [OF ok, where c = ?c])
      (simp_all add: ILLEGAL_CHANNELSPEC_def eq example_ring NTV2_IS_INPUT_CROSSPOINT_def queue frames del: One_nat_def)
qed

lemma play_frames_nonneg:
  assumes "chan_ok c a" and "transfers a" and "i \<in> set (play_frames a)"
  shows "0 \<le> i"
proof -
  have start: "0 \<le> startFrame a" using assms(1) by (simp add: chan_ok_def ring_ok_def)
  moreover have "INVALID_FRAME \<le> activeFrame a"
    using assms(1,2) start
    by (cases "state a"; simp add: chan_ok_def position_ok_def transfers_def in_ring_def split: if_split_asm; linarith)
  ultimately show ?thesis using assms(3) by (auto simp: play_frames_def)
qed

text \<open>C23: when the DMA fails, the transfer returns its status, and neither the queue of the channel nor
  its position and counters change, so the application can repeat the transfer; no other channel
  changes either.\<close>

theorem failed_dma_keeps_queue:
  assumes "circ_ok s" and "\<not> ILLEGAL_CHANNELSPEC c" and "c = acCrosspoint t" and "transfers (chan s c)"
    and "channelCount (chan s c) = 1" and "in_ring (chan s c) (acDesiredFrame t)"
    and "acInVideoDMAOffset t = 0" and "no_p2p t"
    and "AutoDmaTransfer E = (\<lambda>p s. (st, s))" and "st \<noteq> NTV2_STATUS_SUCCESS"
  shows "wp (AutoCircTransfer F P E t s) (\<lambda>(st', t', s'). st' = st \<and> same_place (chan s c) (chan s' c) \<and>
    (\<forall>i. in_ring (chan s c) i \<longrightarrow> validCount (stamp (chan s' c) i) = validCount (stamp (chan s c) i) \<and>
       videoTransferPending (stamp (chan s' c) i) = videoTransferPending (stamp (chan s c) i)) \<and>
    play_queue (chan s' c) = play_queue (chan s c) \<and>
    (\<forall>d. d \<noteq> c \<longrightarrow> chan s' d = chan s d))"
proof -
  let ?a = "chan s c" and ?f = "u32_of (acDesiredFrame t)"
  note less = legal_less [OF assms(2)]
  note ring = chan_ok_ring [OF circ_ok_chan [OF assms(1) less]]
  have f: "uint ?f = acDesiredFrame t" using in_ring_bounds [OF ring assms(6)] by (simp add: uint_u32_of)
  then have "?f \<noteq> NTV2_INVALID_FRAME" using in_ring_bounds [OF ring assms(6)] by auto
  then have frame: "AutoCircTransfer_frame (acDesiredFrame t) ?a = Some (?f, ?a\<lparr>nextTransferFrame := nextTransferFrame ?a\<rparr>)"
    by (simp add: AutoCircTransfer_frame_def)
  have run: "quiet E st" and i: "in_ring ?a (uint ?f)" using assms(6,9) f by (simp_all add: quiet_def)
  show ?thesis
  proof (rule wp_mono [OF transfer_at [OF run assms(1,2,3,8,7,5,4) frame i]], goal_cases)
    case (1 r)
    obtain st' t' s' where r: "r = (st', t', s')" by (cases r)
    obtain m where m: "prepared t ?f ?a m" "autoCirculate s' = (autoCirculate s)[c := m]" "st' = st"
      using 1 assms(10) unfolding r transferred_def prod.case by auto
    have "chan s' c = m" using m(2) assms(1) less circ_ok_length by simp
    then have place: "same_place ?a (chan s' c)" and counts: "same_counts {} ?a (chan s' c)"
      using m(1) by (simp_all add: prepared_def)
    have same: "play_frames (chan s' c) = play_frames ?a"
      using place by (simp add: play_frames_def same_place_def)
    have "validCount (stamp (chan s' c) i) = validCount (stamp ?a i) \<and>
        videoTransferPending (stamp (chan s' c) i) = videoTransferPending (stamp ?a i)" if "in_ring ?a i" for i
      using counts in_ring_bounds [OF ring that] by (simp add: same_counts_def)
    moreover have "play_queue (chan s' c) = play_queue ?a"
    proof -
      have "map (\<lambda>i. validCount (stamp (chan s' c) i)) (play_frames ?a) = map (\<lambda>i. validCount (stamp ?a i)) (play_frames ?a)"
        using counts play_frames_nonneg [OF circ_ok_chan [OF assms(1) less] assms(4)] by (simp add: same_counts_def)
      then show ?thesis by (simp only: play_queue_def same)
    qed
    ultimately show ?case
      unfolding r prod.case using place m(2,3) by simp
  qed
qed

theorem failed_dma_keeps_queue_witness:
  "\<forall>F P. let a = example_chan NTV2CROSSPOINT_CHANNEL2 NTV2_AUTOCIRCULATE_RUNNING 5; s = example_circ NTV2CROSSPOINT_CHANNEL2 a
     in wp (AutoCircTransfer F P (example_dma NTV2_STATUS_FAIL) ((example_transfer NTV2CROSSPOINT_CHANNEL2)\<lparr>acDesiredFrame := 7\<rparr>) s)
          (\<lambda>(st, t', s'). st = NTV2_STATUS_FAIL \<and> play_queue (chan s' NTV2CROSSPOINT_CHANNEL2) = play_queue a)"
proof -
  let ?c = "NTV2CROSSPOINT_CHANNEL2" and ?a = "example_chan NTV2CROSSPOINT_CHANNEL2 NTV2_AUTOCIRCULATE_RUNNING 5"
  have ok: "circ_ok (example_circ ?c ?a)" by (intro example_circ_ok example_chan_ok index_less) simp
  have eq: "chan (example_circ ?c ?a) ?c = ?a" by (rule example_chan_eq) simp
  have run: "transfers ?a" by (simp add: transfers_def example_ring NTV2_IS_INPUT_CROSSPOINT_def)
  show ?thesis
    unfolding Let_def
    by (intro allI, rule wp_mono [OF failed_dma_keeps_queue [OF ok, where c = ?c and st = NTV2_STATUS_FAIL]])
      (use run in \<open>simp_all add: ILLEGAL_CHANNELSPEC_def eq example_ring in_ring_def example_dma_def case_prod_unfold
        del: One_nat_def\<close>)
qed

section \<open>The stamp of a frame\<close>

text \<open>C24: the request for the stamp of a frame is not checked against the ring, although the code has a
  check: on a running channel every frame number inside the array is answered, also outside the
  ring, and one outside the array reads beyond its end. The frame on air that the answer names
  is always inside the ring.\<close>

theorem frame_stamp_request_unchecked:
  assumes "circ_ok s" and "\<not> ILLEGAL_CHANNELSPEC c" and "state (chan s c) = NTV2_AUTOCIRCULATE_RUNNING"
  shows "(case AutoCircGetFrameStamp F P s c x st of
      None \<Rightarrow> u32_of x \<noteq> NTV2_INVALID_FRAME \<and> (x < 0 \<or> MAX_FRAMEBUFFERS \<le> x)
    | Some (status, st') \<Rightarrow> status = NTV2_STATUS_SUCCESS \<and> (u32_of x = NTV2_INVALID_FRAME \<or> 0 \<le> x \<and> x < MAX_FRAMEBUFFERS) \<and>
        frame_o st' = u32_of x \<and> in_ring (chan s c) (uint (currentFrame_o st')) \<and>
        uint (currentFrame_o st') = activeFrame (chan s c) \<and>
        (u32_of x \<noteq> NTV2_INVALID_FRAME \<longrightarrow> frameTime_o st' = frameTime (stamp (chan s c) x)))"
proof -
  let ?a = "chan s c"
  note ok = circ_ok_chan [OF assms(1) legal_less [OF assms(2)]]
  note ring = chan_ok_ring [OF ok]
  have act: "in_ring ?a (activeFrame ?a)" using busy_position(1) [OF ok] assms(3) by (simp add: busy_def)
  have cur: "AutoCircGetFrameStamp_current ?a = activeFrame ?a"
    using act by (simp add: AutoCircGetFrameStamp_current_def in_ring_def)
  have len: "length (frameStamp ?a) = 512" using ring by (simp add: ring_ok_def)
  have get: "fs_get ?a i = (if 0 \<le> i \<and> i < 512 then Some (stamp ?a i) else None)" for i
    by (simp add: fs_get_def arr_get_def len stamp_def)
  have uact: "uint (u32_of (activeFrame ?a)) = activeFrame ?a"
    using in_ring_bounds [OF ring act] by (simp add: uint_u32_of)
  have never: "\<not> (x < startFrame ?a \<and> x > endFrame ?a)" using ring by (simp add: ring_ok_def)
  show ?thesis
    using assms(2,3) in_ring_bounds [OF ring act] act
    by (simp add: AutoCircGetFrameStamp_def ac_get_chan [OF assms(1) legal_less [OF assms(2)]] cur get
        AutoCircGetFrameStamp_requested_def never Let_def uact split: option.split) linarith
qed

theorem frame_stamp_request_unchecked_witness:
  "\<forall>F P. case AutoCircGetFrameStamp F P (example_circ NTV2CROSSPOINT_CHANNEL2
        (example_chan NTV2CROSSPOINT_CHANNEL2 NTV2_AUTOCIRCULATE_RUNNING 5)) NTV2CROSSPOINT_CHANNEL2 100 zero_FRAME_STAMP_STRUCT of
      None \<Rightarrow> False
    | Some (status, st') \<Rightarrow> status = NTV2_STATUS_SUCCESS \<and> frame_o st' = 100 \<and> uint (currentFrame_o st') = 5"
proof (intro allI)
  fix F P
  let ?c = "NTV2CROSSPOINT_CHANNEL2" and ?a = "example_chan NTV2CROSSPOINT_CHANNEL2 NTV2_AUTOCIRCULATE_RUNNING 5"
  have ok: "circ_ok (example_circ ?c ?a)" by (intro example_circ_ok example_chan_ok index_less) simp
  have eq: "chan (example_circ ?c ?a) ?c = ?a" by (rule example_chan_eq) simp
  show "case AutoCircGetFrameStamp F P (example_circ ?c ?a) ?c 100 zero_FRAME_STAMP_STRUCT of
      None \<Rightarrow> False
    | Some (status, st') \<Rightarrow> status = NTV2_STATUS_SUCCESS \<and> frame_o st' = 100 \<and> uint (currentFrame_o st') = 5"
    using frame_stamp_request_unchecked [OF ok, where c = ?c and F = F and P = P and x = 100 and st = zero_FRAME_STAMP_STRUCT]
    by (simp add: ILLEGAL_CHANNELSPEC_def eq example_ring u32_of_def del: One_nat_def split: option.splits prod.splits)
qed

end
