(* ===== verification/Ntv2AutoTheorems.thy ===== *)
theory Ntv2AutoTheorems
  imports Ntv2AutoExample
begin

text \<open>
  The properties of the circulator. Each is stated over the operations of
  driver/ntv2autocirc.c and applied to a concrete circulator right after.
\<close>

section \<open>Safety of the whole machine\<close>





section \<open>Interrupts\<close>

text \<open>
  The rule for one interrupt that is due: \<open>a\<close> is the channel after the clocks.
\<close>

lemma isr_stepI:
  assumes "circ_ok s" and "\<not> ILLEGAL_CHANNELSPEC c" and "isr_due F (hw s) (chan s c)"
    and "\<And>ev s' a. ring_ok a \<Longrightarrow> same_ring (chan s c) a \<Longrightarrow> state a = state (chan s c) \<Longrightarrow>
      nextFrame a = nextFrame (chan s c) \<Longrightarrow> framesProcessed a = framesProcessed (chan s c) \<Longrightarrow>
      droppedFrames a = droppedFrames (chan s c) \<Longrightarrow> startTime a = startTime (chan s c) \<Longrightarrow>
      (\<And>i. stamp a i = stamp (chan s c) i) \<Longrightarrow> (busy a \<Longrightarrow> in_ring a (activeFrame a) \<and> VBIRDTSC a = t) \<Longrightarrow>
      isr_post (isr_field0 F (hw s) (chan s c)) (VBIRDTSC a) a ev (chan s' c) (hw s') \<Longrightarrow> Q (ev, s')"
  shows "wp (AutoCirculate F P c t s) Q"
proof (rule wp_mono [OF isr_wp [OF assms(1,2)]])
  fix x
  assume "case x of (ev, s') \<Rightarrow> circ_ok s' \<and> (\<forall>d. d \<noteq> c \<longrightarrow> chan s' d = chan s d) \<and>
    (if isr_due F (hw s) (chan s c)
     then (\<exists>a. same_ring (chan s c) a \<and> state a = state (chan s c) \<and> nextFrame a = nextFrame (chan s c) \<and>
             framesProcessed a = framesProcessed (chan s c) \<and> droppedFrames a = droppedFrames (chan s c) \<and>
             startTime a = startTime (chan s c) \<and>
             (\<forall>i. stamp a i = stamp (chan s c) i) \<and> (busy a \<longrightarrow> in_ring a (activeFrame a) \<and> VBIRDTSC a = t) \<and>
             isr_post (isr_field0 F (hw s) (chan s c)) (VBIRDTSC a) a ev (chan s' c) (hw s'))
     else \<not> ev \<and> chan s' c = chan s c)"
  moreover obtain ev s' where x: "x = (ev, s')" by (cases x)
  ultimately obtain a where a: "same_ring (chan s c) a" "state a = state (chan s c)" "nextFrame a = nextFrame (chan s c)"
      "framesProcessed a = framesProcessed (chan s c)" "droppedFrames a = droppedFrames (chan s c)"
      "startTime a = startTime (chan s c)" "\<And>i. stamp a i = stamp (chan s c) i"
      "busy a \<Longrightarrow> in_ring a (activeFrame a) \<and> VBIRDTSC a = t"
      "isr_post (isr_field0 F (hw s) (chan s c)) (VBIRDTSC a) a ev (chan s' c) (hw s')"
    unfolding x prod.case using assms(3) by auto
  have "ring_ok a"
    using chan_ok_ring [OF circ_ok_chan [OF assms(1) legal_less [OF assms(2)]]] same_ring_ok [OF a(1)] by simp
  then show "Q x"
    unfolding x using a by (rule assms(4))
qed



text \<open>C4: an interrupt of a channel that plays takes one repetition off the frame on air. While
  repetitions are left nothing else changes; after the last one the channel moves on to the next
  frame, which must be filled and not in transfer, or counts a drop and repeats the frame.\<close>

theorem play_interrupt_plays_filled_frames:
  assumes "circ_ok s" and "\<not> ILLEGAL_CHANNELSPEC c" and "isr_due F (hw s) (chan s c)"
    and "state (chan s c) = NTV2_AUTOCIRCULATE_RUNNING" and "\<not> recording (chan s c)"
  shows "wp (AutoCirculate F P c t s) (\<lambda>(ev, s'). let a = chan s c; b = chan s' c; n = validCount (stamp a (activeFrame b)) in
    ev \<and> state b = NTV2_AUTOCIRCULATE_RUNNING \<and> in_ring b (activeFrame b) \<and>
    validCount (stamp b (activeFrame b)) = (if n > 0 then n - 1 else n) \<and>
    (if n > 1 \<or> n < 0
     then nextFrame b = nextFrame a \<and> framesProcessed b = framesProcessed a \<and> droppedFrames b = droppedFrames a
     else framesProcessed b = framesProcessed a + 1 \<and> droppedFrames b = droppedFrames a \<and>
            nextFrame b = KAUTO_NEXTFRAME (activeFrame b) b \<and>
            validCount (stamp b (nextFrame b)) \<noteq> 0 \<and> \<not> videoTransferPending (stamp b (nextFrame b))
          \<or> framesProcessed b = framesProcessed a \<and> droppedFrames b = droppedFrames a + 1 \<and> nextFrame b = nextFrame a))"
proof (rule isr_stepI [OF assms(1-3)], goal_cases)
  case (1 ev s' a)
  have run: "state a = NTV2_AUTOCIRCULATE_RUNNING" "\<not> recording a"
    using 1 assms(4,5) by (simp_all add: same_ring_def)
  then have ev: ev and p: "played a (chan s' c)" and act: "in_ring a (activeFrame a)"
    using 1 by (auto simp: isr_post_def busy_def)
  have same: "same_ring a (chan s' c)" using p by (simp add: played_def Let_def)
  have n: "validCount (stamp (chan s c) (activeFrame (chan s' c))) = validCount (stamp a (activeFrame a))"
    using 1(8) p by (simp add: played_def Let_def)
  show ?case
    using p run ev act 1(3-6) unfolding prod.case Let_def n
    by (auto simp: played_def Let_def same_ring_in [OF same] same_ring_next [OF same] split: if_split_asm)
qed

theorem play_interrupt_plays_filled_frames_witness:
  "\<forall>F P t. let s = example_circ NTV2CROSSPOINT_CHANNEL2 (example_chan NTV2CROSSPOINT_CHANNEL2 NTV2_AUTOCIRCULATE_RUNNING 5)
     in wp (AutoCirculate F P NTV2CROSSPOINT_CHANNEL2 t s) (\<lambda>(ev, s'). ev)"
proof -
  let ?c = "NTV2CROSSPOINT_CHANNEL2" and ?a = "example_chan NTV2CROSSPOINT_CHANNEL2 NTV2_AUTOCIRCULATE_RUNNING 5"
  have ok: "circ_ok (example_circ ?c ?a)"
    by (intro example_circ_ok example_chan_ok index_less) simp
  have rec: "\<not> recording ?a" by (simp add: example_ring NTV2_IS_INPUT_CROSSPOINT_def)
  have eq: "chan (example_circ ?c ?a) ?c = ?a" by (rule example_chan_eq) simp
  show ?thesis
    unfolding Let_def
    by (intro allI, rule wp_mono [OF play_interrupt_plays_filled_frames [OF ok]])
      (simp_all add: ILLEGAL_CHANNELSPEC_def eq example_facts rec [unfolded example_ring] Let_def case_prod_unfold del: One_nat_def)
qed

text \<open>C10: a channel whose start time has not come waits: an interrupt changes neither its state nor its
  position nor its counters.\<close>

theorem start_waits_for_time:
  assumes "circ_ok s" and "\<not> ILLEGAL_CHANNELSPEC c" and "isr_due F (hw s) (chan s c)"
    and "state (chan s c) = NTV2_AUTOCIRCULATE_STARTING" and "t < startTime (chan s c)"
  shows "wp (AutoCirculate F P c t s) (\<lambda>(ev, s'). let a = chan s c; b = chan s' c in
    \<not> ev \<and> state b = NTV2_AUTOCIRCULATE_STARTING \<and> nextFrame b = nextFrame a \<and>
    framesProcessed b = framesProcessed a \<and> droppedFrames b = droppedFrames a)"
proof (rule isr_stepI [OF assms(1-3)], goal_cases)
  case (1 ev s' a)
  have "state a = NTV2_AUTOCIRCULATE_STARTING" and "VBIRDTSC a < startTime a"
    using 1 assms(4,5) by (simp_all add: busy_def)
  then show ?case using 1 by (simp add: isr_post_def kept_def)
qed

theorem start_waits_for_time_witness:
  "\<forall>F P. let a = (example_chan NTV2CROSSPOINT_CHANNEL2 NTV2_AUTOCIRCULATE_STARTING 4)\<lparr>startTime := 10\<rparr>;
            s = example_circ NTV2CROSSPOINT_CHANNEL2 a
     in wp (AutoCirculate F P NTV2CROSSPOINT_CHANNEL2 9 s) (\<lambda>(ev, s'). \<not> ev)"
proof -
  let ?c = "NTV2CROSSPOINT_CHANNEL2" and ?b = "example_chan NTV2CROSSPOINT_CHANNEL2 NTV2_AUTOCIRCULATE_STARTING 4"
  let ?a = "?b\<lparr>startTime := 10\<rparr>"
  have b: "chan_ok ?c ?b"
    by (intro example_chan_ok index_less) simp
  have "chan_ok ?c ?a"
    using b by (intro chan_ok_same_ring [OF b]) (simp_all add: same_ring_def chan_ok_def position_ok_def in_ring_def example_ring)
  then have ok: "circ_ok (example_circ ?c ?a)"
    by (rule example_circ_ok)
  have eq: "chan (example_circ ?c ?a) ?c = ?a" by (rule example_chan_eq) simp
  show ?thesis
    unfolding Let_def
    by (intro allI, rule wp_mono [OF start_waits_for_time [OF ok]])
      (simp_all add: ILLEGAL_CHANNELSPEC_def eq example_facts Let_def case_prod_unfold del: One_nat_def)
qed

text \<open>C11: a channel that records starts on its first due interrupt of field 0: it points the hardware at
  the frame after the active one, marks the active frame as not captured, and is running.\<close>

theorem start_record_begins:
  assumes "circ_ok s" and "\<not> ILLEGAL_CHANNELSPEC c" and "isr_due F (hw s) (chan s c)"
    and "state (chan s c) = NTV2_AUTOCIRCULATE_STARTING" and "startTime (chan s c) \<le> t"
    and "recording (chan s c)" and "isr_field0 F (hw s) (chan s c)"
  shows "wp (AutoCirculate F P c t s) (\<lambda>(ev, s'). let b = chan s' c in
    ev \<and> state b = NTV2_AUTOCIRCULATE_RUNNING \<and> validCount (stamp b (activeFrame b)) = 0 \<and>
    nextFrame b = KAUTO_NEXTFRAME (activeFrame b) b \<and> hw s' (activeFrameRegister b) = u32_of (nextFrame b) \<and>
    framesProcessed b = framesProcessed (chan s c) \<and> droppedFrames b = droppedFrames (chan s c))"
proof (rule isr_stepI [OF assms(1-3)], goal_cases)
  case (1 ev s' a)
  have st: "state a = NTV2_AUTOCIRCULATE_STARTING" "\<not> VBIRDTSC a < startTime a" "recording a"
    using 1 assms(4-6) by (simp_all add: busy_def same_ring_def)
  then have ev: ev and p: "started_record True a (chan s' c) (hw s')"
    using 1 assms(7) by (simp_all add: isr_post_def)
  have same: "same_ring a (chan s' c)" using p by (simp add: started_record_def Let_def)
  show ?case
    using p ev 1(5,6) unfolding prod.case Let_def
    by (simp add: started_record_def Let_def same_ring_next [OF same]) (use same in \<open>simp add: same_ring_def\<close>)
qed

theorem start_record_begins_witness:
  "\<forall>F P t. let s = example_circ NTV2CROSSPOINT_INPUT1 (example_chan NTV2CROSSPOINT_INPUT1 NTV2_AUTOCIRCULATE_STARTING 4)
     in wp (AutoCirculate F P NTV2CROSSPOINT_INPUT1 t s) (\<lambda>(ev, s'). state (chan s' NTV2CROSSPOINT_INPUT1) = NTV2_AUTOCIRCULATE_RUNNING)"
proof -
  let ?c = "NTV2CROSSPOINT_INPUT1" and ?a = "example_chan NTV2CROSSPOINT_INPUT1 NTV2_AUTOCIRCULATE_STARTING 4"
  have ok: "circ_ok (example_circ ?c ?a)"
    by (intro example_circ_ok example_chan_ok index_less) simp
  have eq: "chan (example_circ ?c ?a) ?c = ?a" by (rule example_chan_eq) simp
  show ?thesis
    unfolding Let_def
    by (intro allI, rule wp_mono [OF start_record_begins [OF ok]])
      (simp_all add: ILLEGAL_CHANNELSPEC_def NTV2_IS_INPUT_CROSSPOINT_def eq example_facts Let_def case_prod_unfold)
qed

text \<open>C12: stopping ends: \<open>AutoCircStop\<close> on a channel in use leaves it stopping, and the next due
  interrupt of the channel disables it, touches no other channel, and reports no change of frame.\<close>

theorem stop_ends_with_next_interrupt:
  assumes "circ_ok s" and "\<not> ILLEGAL_CHANNELSPEC c" and "0 < channelCount (chan s c)"
    and "state (chan s c) \<noteq> NTV2_AUTOCIRCULATE_DISABLED"
  shows "wp (AutoCircStop c s) (\<lambda>(st, s1). st = NTV2_STATUS_SUCCESS \<and> state (chan s1 c) = NTV2_AUTOCIRCULATE_STOPPING \<and>
    (isr_due F r (chan s1 c) \<longrightarrow>
      wp (AutoCirculate F P c t (s1\<lparr>hw := r\<rparr>)) (\<lambda>(ev, s2). \<not> ev \<and> state (chan s2 c) = NTV2_AUTOCIRCULATE_DISABLED \<and>
        (\<forall>d. d \<noteq> c \<longrightarrow> chan s2 d = chan s1 d))))"
proof -
  let ?i = "unat (GetIndexForNTV2Crosspoint c)" and ?n = "nat (channelCount (chan s c))"
  have c: "nth_crosspoint ?i = c" and n: "0 < ?n" using nth_crosspoint_index [OF assms(2)] assms(3) by simp_all
  have run: "AutoCircStop c s = gang AutoCircStop_channel ?n 0 (of_nat ?i) s"
    using assms(2) gang_index(1) [OF assms(1,2)] by (simp add: AutoCircStop_def legal_get [OF assms(1,2)])
  show ?thesis
    unfolding run
  proof (rule wp_mono [OF stop.run [OF assms(1) TrueI gang_index(2) [OF assms(1,2)] TrueI]], clarify)
    fix s1
    assume ok: "circ_ok s1" and eff: "\<forall>j<?n. chan s1 (nth_crosspoint (?i + j)) = stop_effect (chan s (nth_crosspoint (?i + j)))"
    have st: "state (chan s1 c) = NTV2_AUTOCIRCULATE_STOPPING"
      using eff [rule_format, OF n] assms(4) c by (simp add: stop_effect_def)
    have ok': "circ_ok (s1\<lparr>hw := r\<rparr>)" by (rule circ_ok_cong [OF ok]) simp_all
    have "wp (AutoCirculate F P c t (s1\<lparr>hw := r\<rparr>)) (\<lambda>(ev, s2). \<not> ev \<and> state (chan s2 c) = NTV2_AUTOCIRCULATE_DISABLED)"
      if "isr_due F r (chan s1 c)"
      by (rule isr_stepI [OF ok' assms(2)]) (use that st in \<open>simp_all add: isr_post_def\<close>)
    moreover have "wp (AutoCirculate F P c t (s1\<lparr>hw := r\<rparr>)) (\<lambda>(ev, s2). \<forall>d. d \<noteq> c \<longrightarrow> chan s2 d = chan s1 d)"
      by (rule wp_mono [OF isr_wp [OF ok' assms(2)]]) auto
    ultimately show "NTV2_STATUS_SUCCESS = NTV2_STATUS_SUCCESS \<and> state (chan s1 c) = NTV2_AUTOCIRCULATE_STOPPING \<and>
        (isr_due F r (chan s1 c) \<longrightarrow>
          wp (AutoCirculate F P c t (s1\<lparr>hw := r\<rparr>)) (\<lambda>(ev, s2). \<not> ev \<and> state (chan s2 c) = NTV2_AUTOCIRCULATE_DISABLED \<and>
            (\<forall>d. d \<noteq> c \<longrightarrow> chan s2 d = chan s1 d)))"
      using st by (auto simp: wp_iff)
  qed
qed

theorem stop_ends_with_next_interrupt_witness:
  "let s = example_circ NTV2CROSSPOINT_CHANNEL1 (example_chan NTV2CROSSPOINT_CHANNEL1 NTV2_AUTOCIRCULATE_RUNNING 5)
   in wp (AutoCircStop NTV2CROSSPOINT_CHANNEL1 s) (\<lambda>(st, s1). state (chan s1 NTV2CROSSPOINT_CHANNEL1) = NTV2_AUTOCIRCULATE_STOPPING)"
proof -
  let ?c = "NTV2CROSSPOINT_CHANNEL1" and ?a = "example_chan NTV2CROSSPOINT_CHANNEL1 NTV2_AUTOCIRCULATE_RUNNING 5"
  have ok: "circ_ok (example_circ ?c ?a)"
    by (intro example_circ_ok example_chan_ok index_less) simp
  have eq: "chan (example_circ ?c ?a) ?c = ?a" by (rule example_chan_eq) simp
  show ?thesis
    unfolding Let_def
    by (rule wp_mono [OF stop_ends_with_next_interrupt [OF ok, of ?c example_features "\<lambda>_. 0" "\<lparr>ntv2Time100ns = 0, AutoGetAudioClock = 0\<rparr>" 0]])
      (simp_all add: ILLEGAL_CHANNELSPEC_def eq example_facts case_prod_unfold)
qed

end
