(* ===== verification/Ntv2AutoOps.thy ===== *)
theory Ntv2AutoOps
  imports Ntv2AutoExample
begin

text \<open>
  The properties of the operations that an application runs on a gang of channels,
  driver/ntv2autocirc.c.
\<close>

lemma gang_disjoint:
  assumes "i + n \<le> 16" and "j < n"
  shows "nth_crosspoint (i + j) \<in> gang_specs i n" and "\<not> ILLEGAL_CHANNELSPEC (nth_crosspoint (i + j))"
    and "nth_crosspoint (i + j) < NUM_CIRCULATORS"
proof -
  show "nth_crosspoint (i + j) \<in> gang_specs i n" using assms(2) by (simp add: gang_specs_def)
  show legal: "\<not> ILLEGAL_CHANNELSPEC (nth_crosspoint (i + j))" using assms by (intro nth_crosspoint_legal) simp
  show "nth_crosspoint (i + j) < NUM_CIRCULATORS" by (rule legal_less [OF legal])
qed

text \<open>The channels of the gang that starts at \<open>c\<close>, by their place in it.\<close>

definition gang_chan :: "NTV2AutoCirc \<Rightarrow> nat \<Rightarrow> nat \<Rightarrow> INTERNAL_AUTOCIRCULATE_STRUCT" where
  "gang_chan s c j = chan s (nth_crosspoint (unat (GetIndexForNTV2Crosspoint c) + j))"

definition gang_size :: "NTV2AutoCirc \<Rightarrow> nat \<Rightarrow> nat" where
  "gang_size s c = nat (channelCount (chan s c))"

definition gang_members :: "NTV2AutoCirc \<Rightarrow> nat \<Rightarrow> nat set" where
  "gang_members s c = gang_specs (unat (GetIndexForNTV2Crosspoint c)) (gang_size s c)"

lemma gang_chan_0: "\<not> ILLEGAL_CHANNELSPEC c \<Longrightarrow> gang_chan s c 0 = chan s c"
  using nth_crosspoint_index [of c] by (simp add: gang_chan_def)

text \<open>An operation of a \<open>gang_op\<close> on the gang of \<open>c\<close>.\<close>

lemma gang_run:
  assumes "gang_op body (\<lambda>_. True) (\<lambda>_ _. True) post" and "circ_ok s" and "\<not> ILLEGAL_CHANNELSPEC c"
  shows "wp (gang body (gang_size s c) 0 (GetIndexForNTV2Crosspoint c) s) (\<lambda>(st, s'). st = NTV2_STATUS_SUCCESS \<and>
    circ_ok s' \<and> (\<forall>j<gang_size s c. post j (gang_chan s c j) (gang_chan s' c j)) \<and>
    (\<forall>d. d \<notin> gang_members s c \<longrightarrow> chan s' d = chan s d))"
  using gang_op.run [OF assms(1,2) TrueI gang_index(2) [OF assms(2,3)], of 0]
  by (subst gang_index(1) [OF assms(2,3)]) (simp add: gang_size_def gang_chan_def gang_members_def)



text \<open>C13: the initialisation of a gang of disabled channels, with arguments in range, succeeds: the
  \<open>j\<close>-th channel gets the \<open>j\<close>-th range of frames, has no active frame and no filled frame, and
  its counters are zero. No other channel changes.\<close>

theorem init_sets_up_gang:
  assumes "circ_ok s" and "\<not> ILLEGAL_CHANNELSPEC c" and "init_args_ok F p c s"
    and "lEndFrameNum p - lStartFrameNum p + 1 < MAX_FRAMEBUFFERS"
    and "\<And>j. j < nat (lChannelCount p) \<Longrightarrow> state (gang_chan s c j) = NTV2_AUTOCIRCULATE_DISABLED"
  shows "wp (AutoCircInit F c p s) (\<lambda>(st, s'). st = NTV2_STATUS_SUCCESS \<and> circ_ok s' \<and>
    (\<forall>j<nat (lChannelCount p). let a = gang_chan s' c j; len = lEndFrameNum p - lStartFrameNum p + 1
      in state a = NTV2_AUTOCIRCULATE_INIT \<and> activeFrame a = INVALID_FRAME \<and>
         startFrame a = lStartFrameNum p + int j * len \<and> endFrame a = lEndFrameNum p + int j * len \<and>
         framesProcessed a = 0 \<and> droppedFrames a = 0 \<and>
         (\<forall>x. startFrame a \<le> x \<and> x \<le> endFrame a \<longrightarrow> validCount (stamp a x) = 0)) \<and>
    gang_size s' c = nat (lChannelCount p) \<and>
    (\<forall>d. d \<notin> gang_members s' c \<longrightarrow> chan s' d = chan s d))"
proof -
  have n: "0 < nat (lChannelCount p)" using assms(3) by (simp add: init_args_ok_def)
  have dis: "state (chan s (nth_crosspoint (unat (GetIndexForNTV2Crosspoint c) + j))) = NTV2_AUTOCIRCULATE_DISABLED"
    if "j < nat (lChannelCount p)" for j
    using assms(5) [OF that] by (simp add: gang_chan_def)
  have ne: "lEndFrameNum p - lStartFrameNum p + 1 \<noteq> 512" using assms(4) by simp
  show ?thesis
  proof (rule wp_mono [OF init_result [OF assms(1-3) ne dis]], assumption)
    fix x
    assume x: "case x of (st, s') \<Rightarrow> st = NTV2_STATUS_SUCCESS \<and> circ_ok s' \<and>
      (\<forall>j<nat (lChannelCount p). let a = chan s' (nth_crosspoint (unat (GetIndexForNTV2Crosspoint c) + j))
         in state a = NTV2_AUTOCIRCULATE_INIT \<and> activeFrame a = INVALID_FRAME \<and>
            startFrame a = lStartFrameNum p + int j * (lEndFrameNum p - lStartFrameNum p + 1) \<and>
            endFrame a = lEndFrameNum p + int j * (lEndFrameNum p - lStartFrameNum p + 1) \<and>
            channelCount a = (if j = 0 then lChannelCount p else 0) \<and>
            framesProcessed a = 0 \<and> droppedFrames a = 0 \<and> (\<forall>x. in_ring a x \<longrightarrow> validCount (stamp a x) = 0)) \<and>
      (\<forall>d. d \<notin> gang_specs (unat (GetIndexForNTV2Crosspoint c)) (nat (lChannelCount p)) \<longrightarrow> chan s' d = chan s d)"
    obtain st s' where "x = (st, s')" by (cases x)
    note x = x [unfolded this prod.case] and split = this
    have size: "gang_size s' c = nat (lChannelCount p)"
      using x [THEN conjunct2, THEN conjunct2, THEN conjunct1, rule_format, OF n] nth_crosspoint_index [OF assms(2)]
      by (simp add: gang_size_def Let_def)
    show "case x of (st, s') \<Rightarrow> st = NTV2_STATUS_SUCCESS \<and> circ_ok s' \<and>
      (\<forall>j<nat (lChannelCount p). let a = gang_chan s' c j; len = lEndFrameNum p - lStartFrameNum p + 1
        in state a = NTV2_AUTOCIRCULATE_INIT \<and> activeFrame a = INVALID_FRAME \<and>
           startFrame a = lStartFrameNum p + int j * len \<and> endFrame a = lEndFrameNum p + int j * len \<and>
           framesProcessed a = 0 \<and> droppedFrames a = 0 \<and>
           (\<forall>x. startFrame a \<le> x \<and> x \<le> endFrame a \<longrightarrow> validCount (stamp a x) = 0)) \<and>
      gang_size s' c = nat (lChannelCount p) \<and> (\<forall>d. d \<notin> gang_members s' c \<longrightarrow> chan s' d = chan s d)"
      unfolding split prod.case gang_members_def size using x by (simp add: gang_chan_def Let_def in_ring_def)
  qed
qed


theorem init_sets_up_gang_witness:
  "wp (AutoCircInit example_features NTV2CROSSPOINT_CHANNEL1 (control_init_args (example_message eInitAutoCirc 4 7 1))
         (reset_circ (\<lambda>_. 0) 0))
     (\<lambda>(st, s'). st = NTV2_STATUS_SUCCESS \<and> startFrame (gang_chan s' NTV2CROSSPOINT_CHANNEL1 0) = 4 \<and>
        endFrame (gang_chan s' NTV2CROSSPOINT_CHANNEL1 0) = 7)"
proof -
  let ?p = "control_init_args (example_message eInitAutoCirc 4 7 1)" and ?s = "reset_circ (\<lambda>_. 0) 0"
  have p: "lStartFrameNum ?p = 4" "lEndFrameNum ?p = 7" "lChannelCount ?p = 1"
    by (simp_all add: control_init_args_def example_message_def)
  have dis: "state (gang_chan ?s NTV2CROSSPOINT_CHANNEL1 j) = NTV2_AUTOCIRCULATE_DISABLED" if "j < nat (lChannelCount ?p)" for j
    using that by (simp add: p gang_chan_def index_channel1 reset_state)
  have legal: "\<not> ILLEGAL_CHANNELSPEC NTV2CROSSPOINT_CHANNEL1" and len: "lEndFrameNum ?p - lStartFrameNum ?p + 1 < MAX_FRAMEBUFFERS"
    by (simp_all add: ILLEGAL_CHANNELSPEC_def p)
  show ?thesis
    by (rule wp_mono [OF init_sets_up_gang [OF reset_circ_ok legal example_args len dis]])
      (simp_all add: p Let_def case_prod_unfold)
qed

text \<open>C17: a channel in use is not initialised again: the first channel of the gang being busy, the
  initialisation fails and no channel changes.\<close>

theorem init_refuses_busy_channel:
  assumes "circ_ok s" and "\<not> ILLEGAL_CHANNELSPEC c" and "state (chan s c) \<noteq> NTV2_AUTOCIRCULATE_DISABLED"
    and "0 < lChannelCount p"
  shows "wp (AutoCircInit F c p s) (\<lambda>(st, s'). st \<in> {NTV2_STATUS_BUSY, NTV2_STATUS_BAD_PARAMETER} \<and>
    autoCirculate s' = autoCirculate s \<and> hw s' = hw s)"
proof -
  obtain n where n: "nat (lChannelCount p) = Suc n"
    using assms(4) by (cases "nat (lChannelCount p)") simp_all
  have x: "GetNTV2CrosspointForIndex (GetIndexForNTV2Crosspoint c) = c"
    using nth_crosspoint_index [OF assms(2)] by (simp add: nth_crosspoint_def)
  have get: "ac_get (s\<lparr>bMultiChannel := b\<rparr>) c = Some (chan s c)" for b
    using ac_get_chan [OF assms(1) legal_less [OF assms(2)]] by (simp add: ac_get_def)
  have busy: "gang (AutoCircInit_channel F q R) (nat (lChannelCount p)) 0 (GetIndexForNTV2Crosspoint c) (s\<lparr>bMultiChannel := b\<rparr>) =
      Some (NTV2_STATUS_BUSY, s\<lparr>bMultiChannel := b\<rparr>)" for q R b
    unfolding n using assms(3) by (simp add: x get AutoCircInit_channel_def Let_def)
  show ?thesis
    using assms(2) by (simp add: AutoCircInit_def Let_def busy)
qed

theorem init_refuses_busy_channel_witness:
  "wp (AutoCircInit example_features NTV2CROSSPOINT_CHANNEL1 (control_init_args (example_message eInitAutoCirc 4 7 1))
         (example_circ NTV2CROSSPOINT_CHANNEL1 (example_chan NTV2CROSSPOINT_CHANNEL1 NTV2_AUTOCIRCULATE_RUNNING 5)))
     (\<lambda>(st, s'). st \<noteq> NTV2_STATUS_SUCCESS)"
proof -
  let ?c = "NTV2CROSSPOINT_CHANNEL1" and ?a = "example_chan NTV2CROSSPOINT_CHANNEL1 NTV2_AUTOCIRCULATE_RUNNING 5"
  have ok: "circ_ok (example_circ ?c ?a)"
    by (intro example_circ_ok example_chan_ok index_less) simp
  have eq: "chan (example_circ ?c ?a) ?c = ?a" by (rule example_chan_eq) simp
  have pre: "\<not> ILLEGAL_CHANNELSPEC ?c" "state (chan (example_circ ?c ?a) ?c) \<noteq> NTV2_AUTOCIRCULATE_DISABLED"
      "0 < lChannelCount (control_init_args (example_message eInitAutoCirc 4 7 1))"
    by (simp_all add: ILLEGAL_CHANNELSPEC_def eq example_ring control_init_args_def example_message_def)
  show ?thesis
    by (rule wp_mono [OF init_refuses_busy_channel [OF ok pre]]) auto
qed

text \<open>C14: starting a gang that is initialised puts each of its channels on its start frame and keeps
  the queued frames: the counts of all frames stay, and no other stamp than the start frame's
  changes.\<close>

theorem start_positions_gang:
  assumes "circ_ok s" and "\<not> ILLEGAL_CHANNELSPEC c" and "state (chan s c) = NTV2_AUTOCIRCULATE_INIT"
  shows "wp (AutoCircStart F c t s) (\<lambda>(st, s'). st = NTV2_STATUS_SUCCESS \<and> circ_ok s' \<and>
    (\<forall>j<gang_size s c. let a = gang_chan s c j; b = gang_chan s' c j
      in state b = NTV2_AUTOCIRCULATE_STARTING \<and> startTime b = t \<and>
         activeFrame b = startFrame a \<and> nextFrame b = startFrame a \<and>
         startFrame b = startFrame a \<and> endFrame b = endFrame a \<and>
         (\<forall>x. in_ring a x \<longrightarrow> validCount (stamp b x) = validCount (stamp a x)) \<and>
         (\<forall>x. in_ring a x \<and> x \<noteq> startFrame a \<longrightarrow> stamp b x = stamp a x)) \<and>
    (\<forall>d. d \<notin> gang_members s c \<longrightarrow> chan s' d = chan s d))"
proof -
  have run: "AutoCircStart F c t s = gang (AutoCircStart_channel F t) (gang_size s c) 0 (GetIndexForNTV2Crosspoint c) s"
    using assms by (simp add: AutoCircStart_def legal_get gang_size_def)
  show ?thesis
    unfolding run
    by (rule wp_mono [OF gang_run [OF start.gang_op_axioms assms(1,2)]])
      (simp add: start_post_def same_ring_def Let_def case_prod_unfold)
qed

theorem start_positions_gang_witness:
  "\<forall>F. wp (AutoCircStart F NTV2CROSSPOINT_INPUT1 0
        (example_circ NTV2CROSSPOINT_INPUT1 (example_chan NTV2CROSSPOINT_INPUT1 NTV2_AUTOCIRCULATE_INIT INVALID_FRAME)))
      (\<lambda>(st, s'). st = NTV2_STATUS_SUCCESS)"
proof -
  let ?c = "NTV2CROSSPOINT_INPUT1" and ?a = "example_chan NTV2CROSSPOINT_INPUT1 NTV2_AUTOCIRCULATE_INIT INVALID_FRAME"
  have ok: "circ_ok (example_circ ?c ?a)"
    by (intro example_circ_ok example_chan_ok index_less) simp
  have eq: "chan (example_circ ?c ?a) ?c = ?a" by (rule example_chan_eq) simp
  show ?thesis
    by (intro allI, rule wp_mono [OF start_positions_gang [OF ok]])
      (simp_all add: ILLEGAL_CHANNELSPEC_def eq example_facts case_prod_unfold)
qed

text \<open>A pause followed by a play brings every running channel of the gang back to what it was; the
  drop counter is cleared on request, and nothing else changes.\<close>

theorem pause_play_round_trip:
  assumes "circ_ok s" and "\<not> ILLEGAL_CHANNELSPEC c" and "\<forall>j<gang_size s c. state (gang_chan s c j) = NTV2_AUTOCIRCULATE_RUNNING"
  shows "wp (AutoCircPause c False d s) (\<lambda>(st, s1). st = NTV2_STATUS_SUCCESS \<and>
    (\<forall>j<gang_size s c. gang_chan s1 c j = (gang_chan s c j)\<lparr>state := NTV2_AUTOCIRCULATE_PAUSED\<rparr>) \<and>
    wp (AutoCircPause c True d s1) (\<lambda>(st, s2). st = NTV2_STATUS_SUCCESS \<and>
      (\<forall>j<gang_size s c. gang_chan s2 c j =
         (gang_chan s c j)\<lparr>droppedFrames := (if d then 0 else droppedFrames (gang_chan s c j))\<rparr>) \<and>
      (\<forall>e. e \<notin> gang_members s c \<longrightarrow> chan s2 e = chan s e)))"
proof -
  have run: "AutoCircPause c b d s' = gang (AutoCircPause_channel b d) (gang_size s' c) 0 (GetIndexForNTV2Crosspoint c) s'"
    if "circ_ok s'" for b s'
    using that assms(2) by (simp add: AutoCircPause_def legal_get gang_size_def)
  show ?thesis
    unfolding run [OF assms(1)]
  proof (rule wp_mono [OF gang_run [OF pause.gang_op_axioms assms(1,2)]], clarify, intro conjI)
    fix s1
    assume ok: "circ_ok s1" and eff: "\<forall>j<gang_size s c. gang_chan s1 c j = pause_effect False d (gang_chan s c j)"
      and other: "\<forall>e. e \<notin> gang_members s c \<longrightarrow> chan s1 e = chan s e"
    show pause: "\<forall>j<gang_size s c. gang_chan s1 c j = (gang_chan s c j)\<lparr>state := NTV2_AUTOCIRCULATE_PAUSED\<rparr>"
      using eff assms(3) by (simp add: pause_effect_def)
    have "channelCount (chan s1 c) = channelCount (chan s c)"
    proof (cases "0 < gang_size s c")
      case True
      then show ?thesis using pause [rule_format, of 0] gang_chan_0 [OF assms(2)] by simp
    next
      case False
      then have "c \<notin> gang_members s c" by (simp add: gang_members_def gang_specs_def)
      then show ?thesis using other by simp
    qed
    then have size: "gang_size s1 c = gang_size s c" by (simp add: gang_size_def)
    show "wp (AutoCircPause c True d s1) (\<lambda>(st, s2). st = NTV2_STATUS_SUCCESS \<and>
      (\<forall>j<gang_size s c. gang_chan s2 c j =
         (gang_chan s c j)\<lparr>droppedFrames := (if d then 0 else droppedFrames (gang_chan s c j))\<rparr>) \<and>
      (\<forall>e. e \<notin> gang_members s c \<longrightarrow> chan s2 e = chan s e))"
      unfolding run [OF ok]
      by (rule wp_mono [OF gang_run [OF pause.gang_op_axioms ok assms(2)]])
        (use pause other assms(3) in \<open>simp add: size gang_members_def pause_effect_def case_prod_unfold\<close>)
  qed simp
qed

theorem pause_play_round_trip_witness:
  "wp (AutoCircPause NTV2CROSSPOINT_CHANNEL1 False False
        (example_circ NTV2CROSSPOINT_CHANNEL1 (example_chan NTV2CROSSPOINT_CHANNEL1 NTV2_AUTOCIRCULATE_RUNNING 5)))
      (\<lambda>(st, s1). st = NTV2_STATUS_SUCCESS \<and> wp (AutoCircPause NTV2CROSSPOINT_CHANNEL1 True False s1) (\<lambda>(st, s2). st = NTV2_STATUS_SUCCESS))"
proof -
  let ?c = "NTV2CROSSPOINT_CHANNEL1" and ?a = "example_chan NTV2CROSSPOINT_CHANNEL1 NTV2_AUTOCIRCULATE_RUNNING 5"
  have ok: "circ_ok (example_circ ?c ?a)"
    by (intro example_circ_ok example_chan_ok index_less) simp
  have eq: "chan (example_circ ?c ?a) ?c = ?a" by (rule example_chan_eq) simp
  have legal: "\<not> ILLEGAL_CHANNELSPEC ?c" by (simp add: ILLEGAL_CHANNELSPEC_def)
  have "gang_size (example_circ ?c ?a) ?c = 1" by (simp add: gang_size_def eq example_ring)
  then have run: "\<forall>j<gang_size (example_circ ?c ?a) ?c. state (gang_chan (example_circ ?c ?a) ?c j) = NTV2_AUTOCIRCULATE_RUNNING"
    using gang_chan_0 [OF legal, of "example_circ ?c ?a"] by (simp add: eq example_ring)
  show ?thesis
    by (rule wp_mono [OF pause_play_round_trip [OF ok legal run]]) (auto elim!: wp_mono)
qed

text \<open>An abort disables every channel of the gang at once and leaves the rest of each channel and
  all other channels as they are.\<close>

theorem abort_disables_gang:
  assumes "circ_ok s" and "\<not> ILLEGAL_CHANNELSPEC c"
  shows "wp (AutoCircAbort F c s) (\<lambda>(st, s'). st = NTV2_STATUS_SUCCESS \<and> circ_ok s' \<and>
    (\<forall>j<gang_size s c. gang_chan s' c j = (gang_chan s c j)\<lparr>state := NTV2_AUTOCIRCULATE_DISABLED\<rparr>) \<and>
    (\<forall>d. d \<notin> gang_members s c \<longrightarrow> chan s' d = chan s d))"
proof -
  have run: "AutoCircAbort F c s = gang (AutoCircAbort_channel F c) (gang_size s c) 0 (GetIndexForNTV2Crosspoint c) s"
    using assms by (simp add: AutoCircAbort_def legal_get gang_size_def)
  show ?thesis
    unfolding run
    by (rule wp_mono [OF gang_run [OF abort.gang_op_axioms assms]]) (simp add: abort_effect_def case_prod_unfold)
qed

theorem abort_disables_gang_witness:
  "\<forall>F. wp (AutoCircAbort F NTV2CROSSPOINT_INPUT1
        (example_circ NTV2CROSSPOINT_INPUT1 (example_chan NTV2CROSSPOINT_INPUT1 NTV2_AUTOCIRCULATE_RUNNING 6)))
      (\<lambda>(st, s'). st = NTV2_STATUS_SUCCESS)"
proof -
  have ok: "circ_ok (example_circ NTV2CROSSPOINT_INPUT1 (example_chan NTV2CROSSPOINT_INPUT1 NTV2_AUTOCIRCULATE_RUNNING 6))"
    by (intro example_circ_ok example_chan_ok index_less) simp
  show ?thesis
    by (intro allI, rule wp_mono [OF abort_disables_gang [OF ok]]) (simp_all add: ILLEGAL_CHANNELSPEC_def case_prod_unfold)
qed

lemma flush_record_level:
  assumes "ring_ok a" and "recording a" and "in_ring a c"
  shows "captured_record (flush_effect d c a) c = of_bool (validCount (stamp a c) \<noteq> 0)"
proof -
  define b where "b = (if d then a\<lparr>droppedFrames := 0\<rparr> else a)"
  have same: "same_ring a b" and st: "\<And>j. stamp b j = stamp a j" and rec: "recording b"
    using assms(2) by (auto simp: b_def same_ring_def stamp_def)
  have ring: "ring_ok b" using same_ring_ok [OF same] assms(1) by simp
  have fr: "frames_before b c = frames_before a c"
    using same by (simp add: same_ring_def frames_before_def frames_after_def)
  define A where "A = set (takeWhile (\<lambda>i. validCount (stamp a i) \<noteq> 0) (frames_before a c))"
  have eff: "flush_effect d c a = upd_stamps flush_record A b"
    using rec by (simp add: flush_effect_def flush_frames_def b_def [symmetric] A_def st fr)
  have mem: "set (frames_before a c) = {startFrame a..endFrame a} - {c}"
    using set_frames_after [OF assms(3)] by (simp add: frames_before_def)
  have fr': "frames_before (flush_effect d c a) c = frames_before a c"
    using flush_effect_same [of a d c] by (simp add: same_ring_def frames_before_def frames_after_def)
  have stamp: "validCount (stamp (flush_effect d c a) i) = (if i \<in> A then 0 else validCount (stamp a i))" if "in_ring a i" for i
    using that same_ring_in [OF same] by (simp add: eff stamp_upd_stamps [OF ring] st flush_record_def)
  have "takeWhile (\<lambda>j. validCount (stamp (flush_effect d c a) j) \<noteq> 0) (frames_before a c) = []"
  proof (cases "frames_before a c")
    case (Cons x xs)
    have "x \<in> set (frames_before a c)" unfolding Cons by simp
    then have "in_ring a x" unfolding mem in_ring_def by simp
    then have "validCount (stamp (flush_effect d c a) x) = (if x \<in> A then 0 else validCount (stamp a x))"
      by (rule stamp)
    moreover have "x \<in> A" if "validCount (stamp a x) \<noteq> 0"
      unfolding A_def Cons using that by simp
    ultimately have "validCount (stamp (flush_effect d c a) x) = 0" by (simp split: if_split_asm) blast
    then show ?thesis unfolding Cons by simp
  qed simp
  moreover have "c \<notin> A" using mem by (auto simp: A_def dest: set_takeWhileD)
  ultimately show ?thesis
    using stamp [OF assms(3)] by (simp add: captured_record_def fr')
qed



text \<open>C16: a preroll adds repetitions to the last queued frame, the one before the first empty frame; the
  other frames keep their stamps. When the last queued frame is the one on air, the channel
  starts again.\<close>

theorem preroll_extends_last_queued_frame:
  assumes "circ_ok s" and "\<not> ILLEGAL_CHANNELSPEC c" and "\<not> recording (chan s c)" and "gang_size s c = 1"
    and "state (chan s c) \<in> {NTV2_AUTOCIRCULATE_RUNNING, NTV2_AUTOCIRCULATE_STARTING, NTV2_AUTOCIRCULATE_PAUSED}"
    and "find (\<lambda>i. validCount (stamp (chan s c) i) = 0) (frames_after (chan s c) (activeFrame (chan s c))) = Some i"
  shows "wp (AutoCircPreroll c n s) (\<lambda>(st, s'). let a = chan s c; b = chan s' c; j = KAUTO_PREVFRAME i a
    in st = NTV2_STATUS_SUCCESS \<and> in_ring a j \<and> nextTransferFrame b = u32_of i \<and>
       validCount (stamp b j) = wrap32 (validCount (stamp a j) + n) \<and>
       (\<forall>x. in_ring a x \<and> x \<noteq> j \<longrightarrow> stamp b x = stamp a x) \<and>
       state b = (if j = activeFrame a then NTV2_AUTOCIRCULATE_STARTING else state a) \<and>
       (\<forall>d. d \<noteq> c \<longrightarrow> chan s' d = chan s d))"
proof -
  let ?a = "chan s c" and ?act = "activeFrame (chan s c)"
  note less = legal_less [OF assms(2)]
  have ok: "chan_ok c ?a" by (rule circ_ok_chan [OF assms(1) less])
  note ring = chan_ok_ring [OF ok]
  have act: "in_ring ?a ?act" using busy_position(1) [OF ok] assms(5) by (auto simp: busy_def)
  have mem: "i \<in> set (frames_after ?a ?act)"
    using assms(6) by (auto simp: find_Some_iff)
  then have i: "in_ring ?a i" "i \<noteq> ?act"
    using set_frames_after [OF act] by (auto simp: in_ring_def)
  have st: "state ?a \<noteq> NTV2_AUTOCIRCULATE_DISABLED" "state ?a \<noteq> NTV2_AUTOCIRCULATE_INIT" using assms(5) by auto
  then have find: "AutoCircFindNextAvailFrame ?a = Some (find_result ?a (Some i))"
    using find_next_play [OF ring assms(3)] act assms(6) by simp
  obtain r where body: "AutoCircPreroll_channel n 0 c s = Some (NTV2_STATUS_SUCCESS,
      s\<lparr>hw := r, autoCirculate := (autoCirculate s)[c := preroll_effect n i ?a]\<rparr>)"
    using preroll_channel [OF assms(1-3) find i(1) disjI1 [OF act] i(2)] by blast
  have x: "GetNTV2CrosspointForIndex (GetIndexForNTV2Crosspoint c) = c"
    using nth_crosspoint_index [OF assms(2)] by (simp add: nth_crosspoint_def)
  have size: "nat (channelCount ?a) = Suc 0" using assms(4) by (simp add: gang_size_def)
  have run: "AutoCircPreroll c n s = Some (NTV2_STATUS_SUCCESS,
      s\<lparr>hw := r, autoCirculate := (autoCirculate s)[c := preroll_effect n i ?a]\<rparr>)"
    using act assms(5) unfolding AutoCircPreroll_def
    by (elim insertE emptyE)
      (simp_all add: legal_get [OF assms(1,2)] assms(2) size gang_one x body in_ring_def del: gang.simps)
  define j where "j = KAUTO_PREVFRAME i ?a"
  have j: "in_ring ?a j" unfolding j_def by (rule in_ring_prev [OF ring i(1)])
  define b where "b = (if j = ?act then ?a\<lparr>nextTransferFrame := u32_of i, state := NTV2_AUTOCIRCULATE_STARTING, nextAudioOutputAddress := 0\<rparr>
      else ?a\<lparr>nextTransferFrame := u32_of i\<rparr>)"
  have b: "same_ring ?a b" "stamp b y = stamp ?a y" "nextTransferFrame b = u32_of i"
    "state b = (if j = ?act then NTV2_AUTOCIRCULATE_STARTING else state ?a)" for y
    by (auto simp: b_def same_ring_def stamp_def)
  have eff: "preroll_effect n i ?a = upd_stamps (\<lambda>f. f\<lparr>validCount := wrap32 (validCount f + n)\<rparr>) {j} b"
    by (simp add: preroll_effect_def b_def j_def Let_def)
  have stamps: "stamp (preroll_effect n i ?a) y =
      (if y = j then (stamp ?a y)\<lparr>validCount := wrap32 (validCount (stamp ?a y) + n)\<rparr> else stamp ?a y)" if "in_ring ?a y" for y
    using that ring unfolding eff by (simp add: stamp_upd_stamps same_ring_ok [OF b(1)] same_ring_in [OF b(1)] b(2))
  have nx: "nextTransferFrame (preroll_effect n i ?a) = u32_of i" "state (preroll_effect n i ?a) = state b"
    unfolding eff by (simp_all add: upd_stamps_def b(3))
  show ?thesis
    unfolding run using less circ_ok_length [OF assms(1)] stamps [OF j] stamps j nx b(4)
    by (simp add: Let_def j_def [symmetric])
qed

theorem preroll_extends_last_queued_frame_witness:
  "wp (AutoCircPreroll NTV2CROSSPOINT_CHANNEL1 3
        (example_circ NTV2CROSSPOINT_CHANNEL1 (example_chan NTV2CROSSPOINT_CHANNEL1 NTV2_AUTOCIRCULATE_RUNNING 6)))
      (\<lambda>(st, s'). st = NTV2_STATUS_SUCCESS \<and> state (chan s' NTV2CROSSPOINT_CHANNEL1) = NTV2_AUTOCIRCULATE_STARTING)"
proof -
  let ?c = "NTV2CROSSPOINT_CHANNEL1" and ?a = "example_chan NTV2CROSSPOINT_CHANNEL1 NTV2_AUTOCIRCULATE_RUNNING 6"
  have ok: "circ_ok (example_circ ?c ?a)"
    by (intro example_circ_ok example_chan_ok index_less) simp
  have eq: "chan (example_circ ?c ?a) ?c = ?a" by (rule example_chan_eq) simp
  have "frames_after ?a 6 = [7, 4, 5]"
    by (simp add: frames_after_def example_ring upto_rec1)
  moreover have "validCount (stamp ?a 7) = 0"
    by (subst example_stamp) (simp_all add: zero_frameStamp_def)
  ultimately have find: "find (\<lambda>i. validCount (stamp ?a i) = 0) (frames_after ?a (activeFrame ?a)) = Some 7"
    by (simp add: example_ring)
  have rec: "\<not> recording ?a" by (simp add: example_ring NTV2_IS_INPUT_CROSSPOINT_def)
  have legal: "\<not> ILLEGAL_CHANNELSPEC ?c" by (simp add: ILLEGAL_CHANNELSPEC_def)
  have size: "gang_size (example_circ ?c ?a) ?c = 1" by (simp add: gang_size_def eq example_ring)
  have run: "state ?a \<in> {NTV2_AUTOCIRCULATE_RUNNING, NTV2_AUTOCIRCULATE_STARTING, NTV2_AUTOCIRCULATE_PAUSED}"
    by (simp add: example_ring)
  show ?thesis
    by (rule wp_mono [OF preroll_extends_last_queued_frame [OF ok legal _ size, unfolded eq, OF rec run find]])
      (auto simp: example_ring Let_def KAUTO_PREVFRAME_def)
qed

end
