(* ===== verification/Ntv2AutoQueue.thy ===== *)
theory Ntv2AutoQueue
  imports Ntv2AutoOps
begin

text \<open>
  The properties of the queue of a channel as the transfers and the status message see it, and
  of the choice of the active frame, driver/ntv2autocirc.c.
\<close>

section \<open>The buffer level\<close>

text \<open>C19: the buffer level of a playing channel is the number of frame times that are queued: the
  repetitions of the frame on air, or of the first frame before the start, and those of the
  unbroken run of filled frames behind it, modulo the word size.\<close>

theorem buffer_level_is_play_queue:
  assumes "chan_ok c a" and "\<not> recording a" and "state a = NTV2_AUTOCIRCULATE_INIT \<or> in_ring a (activeFrame a)"
  shows "AutoCircGetBufferLevel a =
    (let x = if state a = NTV2_AUTOCIRCULATE_INIT then startFrame a else activeFrame a;
         run = takeWhile (\<lambda>i. validCount (stamp a i) \<noteq> 0) ([x + 1..endFrame a] @ [startFrame a..x - 1])
     in Some (u32_of (validCount (stamp a x) + (\<Sum>i\<leftarrow>run. validCount (stamp a i)))))"
proof -
  have ring: "ring_ok a" by (rule chan_ok_ring [OF assms(1)])
  then have "in_ring a (if state a = NTV2_AUTOCIRCULATE_INIT then startFrame a else activeFrame a)"
    using assms(3) by (auto simp: in_ring_def ring_ok_def)
  from buffer_level_play [OF ring assms(2) refl this] show ?thesis
    by (simp only: queued_play_def frames_after_def Let_def)
qed

theorem buffer_level_is_play_queue_witness:
  "AutoCircGetBufferLevel (example_chan NTV2CROSSPOINT_CHANNEL1 NTV2_AUTOCIRCULATE_RUNNING 6) = Some 0"
proof -
  let ?c = "NTV2CROSSPOINT_CHANNEL1" and ?a = "example_chan NTV2CROSSPOINT_CHANNEL1 NTV2_AUTOCIRCULATE_RUNNING 6"
  have ok: "chan_ok ?c ?a" by (intro example_chan_ok index_less) simp
  have "stamp ?a i = zero_frameStamp\<lparr>internalTCArray := ones_INTERNAL_TIMECODE_STRUCT\<rparr>" if "0 \<le> i" "i < 512" for i
    using that by (rule example_stamp)
  then have "validCount (stamp ?a i) = 0" if "0 \<le> i" "i < 512" for i
    using that by (simp add: zero_frameStamp_def)
  then show ?thesis
    using buffer_level_is_play_queue [OF ok]
    by (simp add: example_ring NTV2_IS_INPUT_CROSSPOINT_def in_ring_def upto_rec1 Let_def)
qed

text \<open>C20: the buffer level of a running capture is the number of the captured frames that end with the
  active one and follow each other, and never more than the ring has frames.\<close>

theorem buffer_level_counts_captured_frames:
  assumes "chan_ok c a" and "recording a" and "state a = NTV2_AUTOCIRCULATE_RUNNING"
  shows "\<exists>n. AutoCircGetBufferLevel a = Some (of_nat n) \<and> int n \<le> endFrame a - startFrame a + 1 \<and>
    n = of_bool (validCount (stamp a (activeFrame a)) \<noteq> 0) +
      length (takeWhile (\<lambda>i. validCount (stamp a i) \<noteq> 0)
        (rev [startFrame a..activeFrame a - 1] @ rev [activeFrame a + 1..endFrame a]))"
proof -
  have ring: "ring_ok a" by (rule chan_ok_ring [OF assms(1)])
  have act: "in_ring a (activeFrame a)" using busy_position(1) [OF assms(1)] assms(3) by (simp add: busy_def)
  show ?thesis
    using buffer_level_record [OF ring assms(2,3) act] captured_record_le [OF act]
    by (intro exI [of _ "captured_record a (activeFrame a)"])
      (simp add: ring_size_def captured_record_def frames_before_def frames_after_def)
qed

theorem buffer_level_counts_captured_frames_witness:
  "\<exists>n. AutoCircGetBufferLevel (example_chan NTV2CROSSPOINT_INPUT1 NTV2_AUTOCIRCULATE_RUNNING 6) = Some (of_nat n) \<and> n \<le> 4"
proof -
  let ?c = "NTV2CROSSPOINT_INPUT1" and ?a = "example_chan NTV2CROSSPOINT_INPUT1 NTV2_AUTOCIRCULATE_RUNNING 6"
  have ok: "chan_ok ?c ?a" by (intro example_chan_ok index_less) simp
  have rec: "recording ?a" and run: "state ?a = NTV2_AUTOCIRCULATE_RUNNING"
    by (simp_all add: example_ring NTV2_IS_INPUT_CROSSPOINT_def)
  obtain n where "AutoCircGetBufferLevel ?a = Some (of_nat n)" and "int n \<le> endFrame ?a - startFrame ?a + 1"
    using buffer_level_counts_captured_frames [OF ok rec run] by blast
  then show ?thesis by (intro exI [of _ n]) (simp add: example_ring)
qed

section \<open>The frame of the next transfer\<close>

text \<open>C21: the search for a frame to fill or to read visits the ring once, from the frame behind the
  active one, and takes the first empty frame in play and the first captured frame in record;
  it fails exactly when there is none, and changes nothing but the transfer frame.\<close>

theorem next_transfer_frame_is_first:
  assumes "chan_ok c a" and "state a = NTV2_AUTOCIRCULATE_RUNNING"
  shows "AutoCircFindNextAvailFrame a =
    (let rest = [activeFrame a + 1..endFrame a] @ [startFrame a..activeFrame a - 1]
     in case (if recording a then find (\<lambda>i. 0 < validCount (stamp a i)) (rest @ [activeFrame a])
              else find (\<lambda>i. validCount (stamp a i) = 0) rest)
        of None \<Rightarrow> Some (False, a)
         | Some i \<Rightarrow> Some (True, a\<lparr>nextTransferFrame := u32_of i\<rparr>))"
proof -
  have ring: "ring_ok a" by (rule chan_ok_ring [OF assms(1)])
  have act: "in_ring a (activeFrame a)" using busy_position(1) [OF assms(1)] assms(2) by (simp add: busy_def)
  show ?thesis
    using find_next_record [OF ring _ assms(2) act] find_next_play [OF ring] act assms(2)
    by (cases "recording a") (simp_all add: find_result_def frames_after_def Let_def split: option.split)
qed

theorem next_transfer_frame_is_first_witness:
  "\<exists>b. AutoCircFindNextAvailFrame (example_chan NTV2CROSSPOINT_CHANNEL1 NTV2_AUTOCIRCULATE_RUNNING 6) = Some (True, b) \<and>
    nextTransferFrame b = 7"
proof -
  let ?c = "NTV2CROSSPOINT_CHANNEL1" and ?a = "example_chan NTV2CROSSPOINT_CHANNEL1 NTV2_AUTOCIRCULATE_RUNNING 6"
  have ok: "chan_ok ?c ?a" by (intro example_chan_ok index_less) simp
  have "validCount (stamp ?a 7) = 0" by (subst example_stamp) (simp_all add: zero_frameStamp_def)
  then show ?thesis
    using next_transfer_frame_is_first [OF ok]
    by (simp add: example_ring NTV2_IS_INPUT_CROSSPOINT_def upto_rec1 Let_def u32_of_def)
qed

section \<open>The active frame of a gang\<close>

lemma gang_frame_eq:
  assumes "0 \<le> x" and "0 \<le> len" and "x + int j * len < 512"
  shows "gang_frame x (u32_of len) j = x + int j * len"
proof -
  have "u32_of x + of_nat j * u32_of len = u32_of (x + int j * len)"
    by (simp add: u32_of_def)
  moreover have "0 \<le> x + int j * len" using assms by simp
  ultimately show ?thesis using assms(3) by (simp add: gang_frame_def uint_u32_of)
qed

text \<open>C25: choosing the active frame of a gang whose channels are active and lie behind each other moves
  every channel to the same place in its own ring, and changes nothing else of the channels.\<close>

theorem set_active_frame_moves_gang:
  assumes "circ_ok s" and "\<not> ILLEGAL_CHANNELSPEC c" and "in_ring (chan s c) x" and "0 < gang_size s c"
    and "\<And>j. j < gang_size s c \<Longrightarrow>
      state (gang_chan s c j) \<in> {NTV2_AUTOCIRCULATE_RUNNING, NTV2_AUTOCIRCULATE_STARTING, NTV2_AUTOCIRCULATE_PAUSED} \<and>
      startFrame (gang_chan s c j) = startFrame (chan s c) + int j * ring_size (chan s c) \<and>
      endFrame (gang_chan s c j) = endFrame (chan s c) + int j * ring_size (chan s c)"
  shows "wp (AutoCircSetActiveFrame F c x s) (\<lambda>(st, s'). st = NTV2_STATUS_SUCCESS \<and> circ_ok s' \<and>
    (\<forall>j<gang_size s c. gang_chan s' c j =
       (gang_chan s c j)\<lparr>activeFrame := x + int j * (endFrame (chan s c) - startFrame (chan s c) + 1)\<rparr>) \<and>
    (\<forall>d. d \<notin> gang_members s c \<longrightarrow> chan s' d = chan s d))"
proof -
  let ?a = "chan s c" and ?len = "ring_size (chan s c)"
  let ?i = "unat (GetIndexForNTV2Crosspoint c)" and ?n = "nat (channelCount (chan s c))"
  have ok: "chan_ok c ?a" by (rule circ_ok_chan [OF assms(1) legal_less [OF assms(2)]])
  have x: "0 \<le> x" "0 \<le> ?len"
    using in_ring_bounds [OF chan_ok_ring [OF ok] assms(3)] chan_ok_ring [OF ok] by (simp_all add: ring_size_def ring_ok_def)
  have frame: "gang_frame x (u32_of ?len) j = x + int j * ?len" "in_ring (gang_chan s c j) (x + int j * ?len)"
    if "j < gang_size s c" for j
  proof -
    have "ring_ok (gang_chan s c j)"
      using that gang_disjoint(3) [OF gang_index(2) [OF assms(1,2)], of j] circ_ok_chan [OF assms(1)]
      by (auto simp: gang_size_def gang_chan_def dest: chan_ok_ring)
    moreover show r: "in_ring (gang_chan s c j) (x + int j * ?len)"
      using assms(5) [OF that] assms(3) by (simp add: in_ring_def)
    ultimately show "gang_frame x (u32_of ?len) j = x + int j * ?len"
      using in_ring_bounds by (intro gang_frame_eq x) blast+
  qed
  have pre: "active_pre s c x"
    unfolding active_pre_def Let_def
    using assms(5) frame by (simp add: ring_size_def gang_chan_def gang_size_def)
  have st: "state ?a \<in> {NTV2_AUTOCIRCULATE_RUNNING, NTV2_AUTOCIRCULATE_STARTING, NTV2_AUTOCIRCULATE_PAUSED}"
    using assms(5) [OF assms(4)] gang_chan_0 [OF assms(2)] by simp
  then have act: "in_ring ?a (activeFrame ?a)"
    using busy_position(1) [OF ok] by (auto simp: busy_def)
  have run: "AutoCircSetActiveFrame F c x s =
      gang (AutoCircSetActiveFrame_channel F x (u32_of (endFrame ?a - startFrame ?a + 1))) ?n 0 (of_nat ?i) s"
    using st act assms(3)
    by (subst gang_index(1) [OF assms(1,2), symmetric])
      (auto simp: AutoCircSetActiveFrame_def legal_get [OF assms(1,2)] assms(2) Let_def in_ring_def
        active_count [OF assms(1,2)])
  show ?thesis
    unfolding run
    by (rule wp_mono [OF active_run [OF assms(1,2) pre]])
      (auto simp: gang_chan_def gang_size_def gang_members_def frame [unfolded ring_size_def gang_size_def])
qed

theorem set_active_frame_moves_gang_witness:
  "wp (AutoCircSetActiveFrame example_features NTV2CROSSPOINT_CHANNEL1 5
        (example_circ NTV2CROSSPOINT_CHANNEL1 (example_chan NTV2CROSSPOINT_CHANNEL1 NTV2_AUTOCIRCULATE_RUNNING 6)))
      (\<lambda>(st, s'). st = NTV2_STATUS_SUCCESS \<and> activeFrame (chan s' NTV2CROSSPOINT_CHANNEL1) = 5)"
proof -
  let ?c = "NTV2CROSSPOINT_CHANNEL1" and ?a = "example_chan NTV2CROSSPOINT_CHANNEL1 NTV2_AUTOCIRCULATE_RUNNING 6"
  let ?s = "example_circ ?c ?a"
  have ok: "circ_ok ?s" by (intro example_circ_ok example_chan_ok index_less) simp
  have eq: "chan ?s ?c = ?a" by (rule example_chan_eq) simp
  have legal: "\<not> ILLEGAL_CHANNELSPEC ?c" by (simp add: ILLEGAL_CHANNELSPEC_def)
  have size: "gang_size ?s ?c = 1" by (simp add: gang_size_def eq example_ring)
  have x: "in_ring (chan ?s ?c) 5" by (simp add: eq in_ring_def example_ring)
  show ?thesis
    by (rule wp_mono [OF set_active_frame_moves_gang [OF ok legal x]])
      (auto simp: size gang_chan_0 [OF legal] eq example_ring)
qed

end
