(* ===== verification/Ntv2KonaTheorems.thy ===== *)
theory Ntv2KonaTheorems
  imports Ntv2Audio
begin

text \<open>
  The properties of the channel registers of driver/ntv2kona.c: what the getters return after
  the setters, and what the setters leave alone. The fields are instances of \<open>reg_field\<close>.
\<close>

interpretation mode_fld: reg_field kRegMaskMode kRegShiftMode 1
  by unfold_locales (simp_all add: fld_mask_def)

interpretation format_fld: reg_field kRegMaskFrameFormat kRegShiftFrameFormat 4
  by unfold_locales (simp_all add: fld_mask_def mask_eq_exp_minus_1)

interpretation format_hi_fld: reg_field kRegMaskFrameFormatHiBit kRegShiftFrameFormatHiBit 1
  by unfold_locales (simp_all add: fld_mask_def)

interpretation orientation_fld: reg_field kRegMaskFrameOrientation kRegShiftFrameOrientation 1
  by unfold_locales (simp_all add: fld_mask_def)

lemma channel_cases:
  fixes c :: nat
  assumes "c < 8"
  shows "c \<in> {0, 1, 2, 3, 4, 5, 6, 7}"
  using assms by auto

section \<open>The registers of the channels\<close>

lemma control_register_inj:
  "c < 8 \<Longrightarrow> d < 8 \<Longrightarrow> tbl gChannelToControlRegNum c = tbl gChannelToControlRegNum d \<longleftrightarrow> c = d"
  by (drule channel_cases, drule channel_cases) (auto simp: gChannelToControlRegNum_def)

lemma frame_register_inj:
  "c < 8 \<Longrightarrow> d < 8 \<Longrightarrow> tbl gChannelToOutputFrameRegNum c = tbl gChannelToOutputFrameRegNum d \<longleftrightarrow> c = d"
  "c < 8 \<Longrightarrow> d < 8 \<Longrightarrow> tbl gChannelToInputFrameRegNum c = tbl gChannelToInputFrameRegNum d \<longleftrightarrow> c = d"
  "c < 8 \<Longrightarrow> d < 8 \<Longrightarrow> tbl gChannelToOutputFrameRegNum c \<noteq> tbl gChannelToInputFrameRegNum d"
  by (drule channel_cases, drule channel_cases;
      auto simp: gChannelToOutputFrameRegNum_def gChannelToInputFrameRegNum_def)+

lemma audio_register_inj:
  "a < 8 \<Longrightarrow> b < 8 \<Longrightarrow> tbl gAudioControlReg a = tbl gAudioControlReg b \<longleftrightarrow> a = b"
  by (drule channel_cases, drule channel_cases) (auto simp: gAudioControlReg_def)

text \<open>The input and output frame registers of the eight channels are sixteen separate cells: a
  channel reads back the frame that was set for it, and setting it changes no other.\<close>

theorem frame_registers_independent:
  assumes "c < 8" and "d < 8"
  shows "GetOutputFrame (SetOutputFrame r c v) d = (if d = c then v else GetOutputFrame r d) \<and>
    GetInputFrame (SetInputFrame r c v) d = (if d = c then v else GetInputFrame r d) \<and>
    GetInputFrame (SetOutputFrame r c v) d = GetInputFrame r d \<and>
    GetOutputFrame (SetInputFrame r c v) d = GetOutputFrame r d"
  using frame_register_inj(3) [OF assms, THEN not_sym] frame_register_inj(3) [OF assms(2,1)] assms
  by (simp add: GetOutputFrame_def SetOutputFrame_def GetInputFrame_def SetInputFrame_def Let_def
      hwbank.rd_wr frame_register_inj)

theorem frame_registers_independent_witness:
  "GetInputFrame (SetOutputFrame (\<lambda>_. 7) 2 5) 2 = 7"
  using frame_registers_independent [of 2 2 "\<lambda>_. 7" 5]
  by (simp add: GetInputFrame_def reg_simps Let_def)

lemma format_read:
  "GetFrameBufferFormat r c =
     ntv2ReadRegisterMS r (tbl gChannelToControlRegNum c) kRegMaskFrameFormat kRegShiftFrameFormat OR
     push_bit 4 (ntv2ReadRegisterMS r (tbl gChannelToControlRegNum c) kRegMaskFrameFormatHiBit kRegShiftFrameFormatHiBit)"
  by (simp add: GetFrameBufferFormat_def ntv2ReadRegisterMS_eq ntv2ReadRegister_eq Let_def)

lemma take_bit_parts: "take_bit k f OR push_bit k (take_bit n (drop_bit k f)) = take_bit (k + n) (f :: u32)"
  by (rule bit_word_eqI) (auto simp: bit_simps)

lemma format_parts:
  fixes f :: u32
  shows "unat (f AND 0x0F) < 2 ^ 4" and "unat (drop_bit 4 (f AND 0x10)) < 2 ^ 1"
    and "(f AND 0x0F) OR push_bit 4 (drop_bit 4 (f AND 0x10)) = take_bit 5 f"
proof -
  have lo: "f AND 0x0F = take_bit 4 f" by (simp add: take_bit_eq_mask mask_eq_exp_minus_1)
  have hi: "drop_bit 4 (f AND 0x10) = take_bit 1 (drop_bit 4 f)"
    using drop_bit_and_fld_mask [of 4 f 1] by (simp add: fld_mask_def)
  show "unat (f AND 0x0F) < 2 ^ 4" unfolding lo by (rule take_bit_u32_less) simp
  show "unat (drop_bit 4 (f AND 0x10)) < 2 ^ 1" unfolding hi by (rule take_bit_u32_less) simp
  show "(f AND 0x0F) OR push_bit 4 (drop_bit 4 (f AND 0x10)) = take_bit 5 f"
    unfolding lo hi using take_bit_parts [of 4 f 1] by simp
qed

lemmas bit_reads =
  mode_fld.read_write_fits format_hi_fld.read_write_fits orientation_fld.read_write_fits
  mode_fld.write_other_field format_hi_fld.write_other_field orientation_fld.write_other_field

lemmas format_reads = format_fld.read_write_fits format_fld.write_other_field

text \<open>The mode, the pixel format and the orientation of a channel share its control register. Each
  setter with a value in range is read back by its getter and keeps the two other settings and
  all settings of the other channels.\<close>

theorem channel_settings_independent:
  assumes "c < 8" and "d < 8" and "m < 2" and "f < 32"
  shows "GetMode (SetMode r c m) d = (if d = c then m else GetMode r d) \<and>
    GetFrameBufferFormat (SetMode r c m) d = GetFrameBufferFormat r d \<and>
    GetFrameBufferOrientation (SetMode r c m) d = GetFrameBufferOrientation r d \<and>
    GetFrameBufferOrientation (SetFrameBufferOrientation r c m) d = (if d = c then m else GetFrameBufferOrientation r d) \<and>
    GetMode (SetFrameBufferOrientation r c m) d = GetMode r d \<and>
    GetFrameBufferFormat (SetFrameBufferOrientation r c m) d = GetFrameBufferFormat r d \<and>
    GetFrameBufferFormat (SetFrameBufferFormat r c f) d = (if d = c then f else GetFrameBufferFormat r d) \<and>
    GetMode (SetFrameBufferFormat r c f) d = GetMode r d \<and>
    GetFrameBufferOrientation (SetFrameBufferFormat r c f) d = GetFrameBufferOrientation r d"
proof -
  have m: "unat m < 2 ^ 1" and "unat f < 2 ^ 5"
    using assms(3,4) by (simp_all add: word_less_nat_alt)
  then have f: "take_bit 5 f = f"
    by (metis take_bit_nat_eq_self_iff unsigned_take_bit_eq word_unat_eq_iff)
  define lo where "lo = f AND 0x0F"
  define hi where "hi = drop_bit 4 (f AND 0x10)"
  have set: "SetFrameBufferFormat r c f =
      ntv2WriteRegisterMS (ntv2WriteRegisterMS r (tbl gChannelToControlRegNum c) lo kRegMaskFrameFormat kRegShiftFrameFormat)
        (tbl gChannelToControlRegNum c) hi kRegMaskFrameFormatHiBit kRegShiftFrameFormatHiBit" for r c
    by (simp only: SetFrameBufferFormat_def Let_def lo_def hi_def)
  note parts = format_parts [of f, folded lo_def hi_def]
  have other: "ntv2ReadRegisterMS (ntv2WriteRegisterMS r n v k s) n' k' s' = ntv2ReadRegisterMS r n' k' s'"
    if "n' \<noteq> n" for r n v k s n' k' s'
    using that by (simp add: ntv2ReadRegisterMS_eq)
  show ?thesis
    using control_register_inj [OF assms(2,1)] f
    by (cases "d = c")
      (simp_all add: format_read GetMode_def SetMode_def GetFrameBufferOrientation_def SetFrameBufferOrientation_def
        set Let_def other bit_reads [OF m] format_reads [OF parts(1)] bit_reads [OF parts(2)] parts(3)
        del: One_nat_def)
qed

theorem channel_settings_independent_witness:
  "GetFrameBufferFormat (SetFrameBufferFormat (\<lambda>_. 0xFFFFFFFF) 3 0x13) 3 = 0x13"
  using channel_settings_independent [of 3 3 0 19 "\<lambda>_. 0xFFFFFFFF"] by simp

end
