(* ===== verification/Ntv2AudioTheorems.thy ===== *)
theory Ntv2AudioTheorems
  imports Ntv2Audio Ntv2KonaTheorems
begin

text \<open>
  The properties of the audio systems of driver/ntv2audio.c: the run, stop and pause bits of a
  system's control register, the number of channels, the arithmetic of the circular audio
  buffer, and the cadence of the samples of a frame.
\<close>

section \<open>The bits of the control register\<close>

lemma and_single_bit:
  "(x AND BIT_9 = 0) = (\<not> bit (x :: u32) 9)" "(x AND BIT_8 = 0) = (\<not> bit (x :: u32) 8)"
  "(x AND BIT_0 = 0) = (\<not> bit (x :: u32) 0)" "(x AND BIT_11 = 0) = (\<not> bit (x :: u32) 11)"
  "(x AND BIT_20 = 0) = (\<not> bit (x :: u32) 20)" "(x AND BIT_16 = 0) = (\<not> bit (x :: u32) 16)"
  using bit_iff_and_push_bit_not_eq_0 [of x 9] bit_iff_and_push_bit_not_eq_0 [of x 8]
    bit_iff_and_push_bit_not_eq_0 [of x 0] bit_iff_and_push_bit_not_eq_0 [of x 11]
    bit_iff_and_push_bit_not_eq_0 [of x 20] bit_iff_and_push_bit_not_eq_0 [of x 16]
  by simp_all

lemma audio_update_read:
  "AudioUpdateRegister r n v k m = (if m = n then (r n OR v) AND k else r m)"
  by (simp add: AudioUpdateRegister_def reg_simps Let_def)

lemma audio_status_bits:
  "IsAudioPlaying r a \<longleftrightarrow> \<not> bit (r (tbl gAudioControlReg a)) 9"
  "IsAudioPlaybackStopped r a \<longleftrightarrow> bit (r (tbl gAudioControlReg a)) 9"
  "IsAudioPlaybackPaused r a \<longleftrightarrow> bit (r (tbl gAudioControlReg a)) 11"
  "IsAudioCaptureStopped r a \<longleftrightarrow> bit (r (tbl gAudioControlReg a)) 8 \<or> \<not> bit (r (tbl gAudioControlReg a)) 0"
  "IsAudioRecording r a \<longleftrightarrow> \<not> bit (r (tbl gAudioControlReg a)) 8"
  by (simp_all add: IsAudioPlaying_def IsAudioPlaybackStopped_def IsAudioPlaybackPaused_def IsAudioCaptureStopped_def
      IsAudioRecording_def GetAudioControlRegister_def ntv2ReadRegister_eq and_single_bit Let_def)

lemmas audio_ops = StartAudioPlayback_def StopAudioPlayback_def PauseAudioPlayback_def UnPauseAudioPlayback_def
  StartAudioCapture_def StopAudioCapture_def GetAudioControlRegister_def Let_def audio_update_read

text \<open>C34: playback and capture of an audio system are two independent machines in one control register:
  starting, stopping, pausing and resuming playback sets the playback status it names and keeps
  the capture status, starting and stopping capture keeps the playback status, and no operation
  touches another audio system.\<close>

theorem audio_run_controls:
  assumes "a < 8" and "b < 8"
  defines "playback \<equiv> \<lambda>r x. (IsAudioPlaying r x, IsAudioPlaybackStopped r x, IsAudioPlaybackPaused r x)"
    and "capture \<equiv> \<lambda>r x. (IsAudioRecording r x, IsAudioCaptureStopped r x)"
  shows "playback (StartAudioPlayback r a) a = (True, False, False) \<and>
    playback (StopAudioPlayback r a) a = (False, True, IsAudioPlaybackPaused r a) \<and>
    playback (PauseAudioPlayback r a) a = (IsAudioPlaying r a, IsAudioPlaybackStopped r a, True) \<and>
    playback (UnPauseAudioPlayback r a) a = (IsAudioPlaying r a, IsAudioPlaybackStopped r a, False) \<and>
    capture (StartAudioCapture r a) a = (True, False) \<and> capture (StopAudioCapture r a) a = (False, True) \<and>
    (\<forall>op \<in> {StartAudioPlayback, StopAudioPlayback, PauseAudioPlayback, UnPauseAudioPlayback}.
       capture (op r a) a = capture r a) \<and>
    (\<forall>op \<in> {StartAudioCapture, StopAudioCapture}. playback (op r a) a = playback r a) \<and>
    (\<forall>op \<in> {StartAudioPlayback, StopAudioPlayback, PauseAudioPlayback, UnPauseAudioPlayback, StartAudioCapture,
       StopAudioCapture}. b \<noteq> a \<longrightarrow> playback (op r a) b = playback r b \<and> capture (op r a) b = capture r b)"
proof -
  have other: "op r a (tbl gAudioControlReg b) = r (tbl gAudioControlReg b)"
    if "op \<in> {StartAudioPlayback, StopAudioPlayback, PauseAudioPlayback, UnPauseAudioPlayback, StartAudioCapture,
       StopAudioCapture}" and "b \<noteq> a" for op
    using that audio_register_inj [OF assms(2,1)] by (auto simp: audio_ops)
  show ?thesis
    unfolding playback_def capture_def audio_status_bits
    by (simp add: audio_ops audio_status_bits bit_simps u32_of_def other)
qed

theorem audio_run_controls_witness:
  "IsAudioPlaybackPaused (PauseAudioPlayback (\<lambda>_. 0) 2) 2"
  using audio_run_controls [of 2 3 "\<lambda>_. 0"] by simp

section \<open>The number of channels\<close>

text \<open>The three supported numbers of audio channels are read back as set, and a sample
  position aligned for them is the largest multiple of the size of a sample not above it.\<close>

theorem audio_channels_round_trip:
  assumes "n \<in> {6, 8, 16}"
  shows "let r' = SetNumAudioChannels r a n; p = unat (oemAudioSampleAlign r' a x); size = 4 * unat n
    in GetNumAudioChannels r' a = n \<and> size dvd p \<and> p \<le> unat x \<and> unat x < p + size"
proof -
  define r' where "r' = SetNumAudioChannels r a n"
  have n: "GetNumAudioChannels r' a = n"
    using assms unfolding r'_def
    by (auto simp: SetNumAudioChannels_def GetNumAudioChannels_def GetAudioControlRegister_def audio_update_read
        ntv2ReadRegister_eq and_single_bit bit_simps Let_def)
  have size: "unat (n * 4) = 4 * unat n" and pos: "0 < 4 * unat n"
    using assms by auto
  have "unat (x div (n * 4)) * unat (n * 4) \<le> unat x"
    by (simp only: unat_div_distrib div_times_less_eq_dividend)
  also have "\<dots> < 2 ^ LENGTH(32)" by (rule unsigned_less)
  finally have "unat (x div (n * 4) * (n * 4)) = unat (x div (n * 4)) * unat (n * 4)"
    by (simp only: unat_mult_lem)
  then have "unat (oemAudioSampleAlign r' a x) = unat x div (4 * unat n) * (4 * unat n)"
    by (simp only: oemAudioSampleAlign_def n Let_def unat_div_distrib size)
  moreover have "unat x < unat x div (4 * unat n) * (4 * unat n) + 4 * unat n"
    using pos dividend_less_div_times [of "4 * unat n" "unat x"] by simp
  ultimately show ?thesis
    by (simp add: r'_def [symmetric] n Let_def)
qed

theorem audio_channels_round_trip_witness:
  "GetNumAudioChannels (SetNumAudioChannels (\<lambda>_. 0x100000) 1 8) 1 = 8"
  using audio_channels_round_trip [of 8 "\<lambda>_. 0x100000" 1] by (simp add: Let_def)

section \<open>The circular buffer\<close>

text \<open>C35: a transfer from a position inside the circular audio buffer, not longer than the buffer, is
  split into a part up to the end and a part from the start: together they are the whole
  transfer, neither passes its end, and the next position is again inside the buffer.\<close>

theorem audio_transfer_wraps:
  assumes "offset < GetAudioWrapAddress r a" and "n \<le> GetAudioWrapAddress r a"
  shows "let (nextOffset, pre, post) = GetAudioTransferInfo r a offset n; w = unat (GetAudioWrapAddress r a)
    in unat pre + unat post = unat n \<and> unat offset + unat pre \<le> w \<and> (post \<noteq> 0 \<longrightarrow> unat offset + unat pre = w) \<and>
       unat nextOffset = (unat offset + unat n) mod w \<and> nextOffset < GetAudioWrapAddress r a"
proof -
  define w where "w = GetAudioWrapAddress r a"
  have "w \<in> {NTV2_AUDIO_WRAPADDRESS, NTV2_AUDIO_WRAPADDRESS_BIG}"
    by (simp add: w_def GetAudioWrapAddress_def split: prod.split)
  then have w: "unat w \<le> 4177920" by auto
  have lt: "unat offset < unat w" "unat n \<le> unat w"
    using assms by (simp_all add: w_def word_less_nat_alt word_le_nat_alt)
  have sum: "unat (offset + n) = unat offset + unat n"
    using lt w by (intro unat_add_lem [THEN iffD1]) simp
  show ?thesis
  proof (cases "w \<le> offset + n")
    case True
    then have ge: "unat w \<le> unat offset + unat n" by (simp add: word_le_nat_alt sum)
    have "unat (w - offset) = unat w - unat offset" and "unat (offset + n - w) = unat offset + unat n - unat w"
      using lt True by (simp_all add: unat_sub sum word_le_nat_alt)
    moreover have "(unat offset + unat n) mod unat w = unat offset + unat n - unat w"
      using lt ge by (subst le_mod_geq) simp_all
    moreover have "offset + n - w < w"
      using calculation(2) lt by (simp add: word_less_nat_alt)
    ultimately show ?thesis
      using True lt ge by (simp add: GetAudioTransferInfo_def w_def [symmetric] Let_def)
  next
    case False
    then have "unat offset + unat n < unat w" by (simp add: word_le_nat_alt sum)
    then show ?thesis
      using False by (simp add: GetAudioTransferInfo_def w_def [symmetric] Let_def sum)
  qed
qed

theorem audio_transfer_wraps_witness:
  "let (nextOffset, pre, post) = GetAudioTransferInfo (\<lambda>_. 0) 0 0xFE000 0x2000 in unat pre + unat post = 0x2000"
proof -
  have w: "GetAudioWrapAddress (\<lambda>_. 0) 0 = NTV2_AUDIO_WRAPADDRESS"
    by (simp add: GetAudioWrapAddress_def GetAudioBufferSize_def SupportStackedAudio_def reg_simps
        GetAudioControlRegister_def Let_def)
  show ?thesis
    using audio_transfer_wraps [of "0xFE000" "\<lambda>_. 0" 0 "0x2000"] by (simp add: w Let_def case_prod_unfold)
qed

section \<open>The cadence\<close>

text \<open>The frame rates of the enumeration, as fractions, and those that a field-rate channel doubles.\<close>

definition frame_rates :: "(u32 \<times> nat \<times> nat) list" where
  "frame_rates =
     [(NTV2_FRAMERATE_12000, 120, 1), (NTV2_FRAMERATE_11988, 120000, 1001), (NTV2_FRAMERATE_6000, 60, 1),
      (NTV2_FRAMERATE_5994, 60000, 1001), (NTV2_FRAMERATE_5000, 50, 1), (NTV2_FRAMERATE_4800, 48, 1),
      (NTV2_FRAMERATE_4795, 48000, 1001), (NTV2_FRAMERATE_3000, 30, 1), (NTV2_FRAMERATE_2997, 30000, 1001),
      (NTV2_FRAMERATE_2500, 25, 1), (NTV2_FRAMERATE_2400, 24, 1), (NTV2_FRAMERATE_2398, 24000, 1001),
      (NTV2_FRAMERATE_1500, 15, 1), (NTV2_FRAMERATE_1498, 15000, 1001)]"

definition doubled_rates :: "u32 set" where
  "doubled_rates = {NTV2_FRAMERATE_3000, NTV2_FRAMERATE_2997, NTV2_FRAMERATE_2500, NTV2_FRAMERATE_2400, NTV2_FRAMERATE_2398}"

lemma audio_channel:
  assumes "a < 8"
  shows "(if b
          then (if a = NTV2_AUDIOSYSTEM_1 then NTV2_CHANNEL1
                else if a = NTV2_AUDIOSYSTEM_2 then NTV2_CHANNEL2
                else if a = NTV2_AUDIOSYSTEM_3 then NTV2_CHANNEL3
                else if a = NTV2_AUDIOSYSTEM_4 then NTV2_CHANNEL4
                else if a = NTV2_AUDIOSYSTEM_5 then NTV2_CHANNEL5
                else if a = NTV2_AUDIOSYSTEM_6 then NTV2_CHANNEL6
                else if a = NTV2_AUDIOSYSTEM_7 then NTV2_CHANNEL7
                else if a = NTV2_AUDIOSYSTEM_8 then NTV2_CHANNEL8 else NTV2_CHANNEL1)
          else NTV2_CHANNEL1) = (if b then a else 0)"
  using channel_cases [OF assms] by auto

text \<open>C36: for every frame rate, over five frames an audio system takes exactly the samples of five frame
  times: the cadence neither gains nor loses samples. On a dual-link or field-rate channel five
  fields are counted instead. The driver has no samples for four of the frame rates at 96 kHz.\<close>

theorem audio_cadence_exact:
  fixes F r a fieldMode
  defines "c \<equiv> (if IsMultiFormatActive F r then a else 0)" and "audioRate \<equiv> GetAudioRate r a"
  defines "dual \<equiv> GetSmpte372 F r c \<or> fieldMode"
  assumes "a < 8" and "(GetFrameRate F r c, num, den) \<in> set frame_rates"
    and "audioRate \<in> {NTV2_AUDIO_48K, NTV2_AUDIO_96K, NTV2_AUDIO_192K}"
    and "audioRate = NTV2_AUDIO_96K \<Longrightarrow>
      GetFrameRate F r c \<notin> {NTV2_FRAMERATE_12000, NTV2_FRAMERATE_11988, NTV2_FRAMERATE_4800, NTV2_FRAMERATE_4795} \<and>
      (dual \<longrightarrow> GetFrameRate F r c \<notin> {NTV2_FRAMERATE_2400, NTV2_FRAMERATE_2398})"
  shows "(\<Sum>k<5. unat (GetAudioSamplesPerFrame F r a (of_nat k) fieldMode)) * num *
      (if dual \<and> GetFrameRate F r c \<in> doubled_rates then 2 else 1) = 5 * unat (GetAudioSamplesPerSecond r a) * den"
proof -
  obtain rate d where rate: "GetFrameRate F r c = rate" and d: "GetSmpte372 F r c = d" by blast
  have dual: "dual \<longleftrightarrow> d \<or> fieldMode" by (simp add: dual_def d)
  note facts = GetAudioSamplesPerFrame_def GetAudioSamplesPerSecond_def Let_def audio_channel [OF assms(4)]
    c_def [symmetric] rate d
  show ?thesis
    using assms(5-7)
    unfolding audioRate_def rate dual frame_rates_def list.set insert_iff empty_iff prod.inject
    by (elim disjE conjE FalseE, simp_all only: facts)
      (cases "d \<or> fieldMode"; simp add: doubled_rates_def lessThan_nat_numeral lessThan_Suc)+
qed

theorem audio_cadence_exact_witness:
  "\<forall>F. (\<Sum>k<5. unat (GetAudioSamplesPerFrame F ((\<lambda>_. 0)(kRegGlobalControl := 0x4)) 0 (of_nat k) False)) = 8008"
proof
  fix F
  let ?r = "(\<lambda>_. 0)(kRegGlobalControl := 0x4) :: regs"
  have m: "\<not> IsMultiFormatActive F ?r"
    by (simp add: IsMultiFormatActive_def reg_simps Let_def)
  have rate: "GetFrameRate F ?r 0 = NTV2_FRAMERATE_2997"
    by (simp add: GetFrameRate_def m reg_simps gChannelToGlobalControlRegNum_def Let_def)
  have dual: "\<not> GetSmpte372 F ?r 0"
    by (simp add: GetSmpte372_def m reg_simps gChannelToSmpte372RegisterNum_def gChannelToSmpte372Masks_def
        gChannelToSmpte372Shifts_def Let_def)
  have aud: "GetAudioRate ?r 0 = NTV2_AUDIO_48K"
    by (simp add: GetAudioRate_def GetAudioControlRegister_def gAudioControlReg_def gAudioRateHighMask_def
        gAudioRateHighShift_def reg_simps Let_def)
  have mem: "(NTV2_FRAMERATE_2997, 30000, 1001) \<in> set frame_rates" by (simp add: frame_rates_def)
  show "(\<Sum>k<5. unat (GetAudioSamplesPerFrame F ?r 0 (of_nat k) False)) = 8008"
    using audio_cadence_exact [of 0 F ?r 30000 1001 False]
    by (simp add: m rate dual aud mem GetAudioSamplesPerSecond_def Let_def)
qed

end
