(* ===== verification/Ntv2FormatTheorems.thy ===== *)
theory Ntv2FormatTheorems
  imports Ntv2Kona
begin

text \<open>
  The properties of the format maps of driver/ntv2kona.c: a detected format names the standard
  and the rate it was detected from, the maps between the sizes of a raster keep the rate, and
  the sizes are related to each other.
\<close>

section \<open>Detection\<close>

text \<open>The frame rate of a dual-link format counts the frames of both links.\<close>

definition dual_link_rate :: "u32 \<Rightarrow> u32" where
  "dual_link_rate rate =
     (if rate = NTV2_FRAMERATE_3000 then NTV2_FRAMERATE_6000
      else if rate = NTV2_FRAMERATE_2997 then NTV2_FRAMERATE_5994
      else if rate = NTV2_FRAMERATE_2500 then NTV2_FRAMERATE_5000
      else rate)"

lemmas format_classes = IsVideoFormat2Kx1080_def NTV2_IS_2K_1080_VIDEO_FORMAT_def NTV2_IS_4K_4096_VIDEO_FORMAT_def
  NTV2_IS_UHD2_FULL_VIDEO_FORMAT_def NTV2_IS_2K_1080_FRAME_GEOMETRY_def GetNTV2FrameGeometryFromVideoFormat_def

lemma if_neqE:
  assumes "(if b then x else y) \<noteq> u"
  obtains b "x \<noteq> u" | "\<not> b" "y \<noteq> u"
  using assms by (cases b) auto

text \<open>C37: a video format that is detected from a standard and a frame rate names that standard and, but
  for 625 lines, that frame rate, doubled on a dual link; it is a format of the 2K raster only
  when the 2K flag is set.\<close>

theorem detected_format_names_its_source:
  assumes "GetVideoFormatFromState std rate is2K dual \<noteq> NTV2_FORMAT_UNKNOWN"
  defines "f \<equiv> GetVideoFormatFromState std rate is2K dual"
  shows "GetNTV2StandardFromVideoFormat f = std \<and>
    (std \<noteq> NTV2_STANDARD_625 \<longrightarrow> GetNTV2FrameRateFromVideoFormat f =
       (if std = NTV2_STANDARD_1080 \<and> dual \<noteq> 0 then dual_link_rate rate else rate)) \<and>
    (IsVideoFormat2Kx1080 f \<longrightarrow> is2K \<noteq> 0 \<and> NTV2_IS_2K_1080_FRAME_GEOMETRY (GetNTV2FrameGeometryFromVideoFormat f))"
  using assms(1) unfolding f_def
  unfolding GetVideoFormatFromState_def Let_def
  by (elim if_neqE, simp_all only: if_True if_False)
    (simp_all add: GetNTV2StandardFromVideoFormat_def GetNTV2FrameRateFromVideoFormat_def dual_link_rate_def
      format_classes, simp_all add: word_le_nat_alt)

theorem detected_format_names_its_source_witness:
  "GetNTV2FrameRateFromVideoFormat (GetVideoFormatFromState NTV2_STANDARD_1080 NTV2_FRAMERATE_2997 0 1) = NTV2_FRAMERATE_5994"
proof -
  have "GetVideoFormatFromState NTV2_STANDARD_1080 NTV2_FRAMERATE_2997 0 1 \<noteq> NTV2_FORMAT_UNKNOWN"
    by (simp add: GetVideoFormatFromState_def)
  from detected_format_names_its_source [OF this] show ?thesis
    by (simp add: dual_link_rate_def)
qed

section \<open>Sizes\<close>

lemma if_keeps:
  "g v = g k \<Longrightarrow> g w = g f \<Longrightarrow> g (if f = k then v else w) = g f"
  "(\<forall>k\<in>A. g v = g k) \<Longrightarrow> g w = g f \<Longrightarrow> g (if f \<in> A then v else w) = g f"
  by auto

lemma rate_quad: "GetNTV2FrameRateFromVideoFormat (GetQuadSizedVideoFormat f) = GetNTV2FrameRateFromVideoFormat f"
  unfolding GetQuadSizedVideoFormat_def
  by ((rule if_keeps [where g = GetNTV2FrameRateFromVideoFormat], simp add: GetNTV2FrameRateFromVideoFormat_def)+, rule refl)

lemma rate_12g: "GetNTV2FrameRateFromVideoFormat (Get12GVideoFormat f) = GetNTV2FrameRateFromVideoFormat f"
  unfolding Get12GVideoFormat_def
  by ((rule if_keeps [where g = GetNTV2FrameRateFromVideoFormat], simp add: GetNTV2FrameRateFromVideoFormat_def)+, rule refl)

lemma rate_quad_quad: "GetNTV2FrameRateFromVideoFormat (GetQuadQuadSizedVideoFormat f) = GetNTV2FrameRateFromVideoFormat f"
  unfolding GetQuadQuadSizedVideoFormat_def
  by ((rule if_keeps [where g = GetNTV2FrameRateFromVideoFormat], simp add: GetNTV2FrameRateFromVideoFormat_def)+, rule refl)

lemma rate_hd: "GetNTV2FrameRateFromVideoFormat (GetHDSizedVideoFormat f) = GetNTV2FrameRateFromVideoFormat f"
  unfolding GetHDSizedVideoFormat_def
  by ((rule if_keeps [where g = GetNTV2FrameRateFromVideoFormat], simp add: GetNTV2FrameRateFromVideoFormat_def)+, rule refl)

text \<open>The maps between the sizes of a raster, from HD to quad, from quad squares to one 12G link,
  from quad to quad-quad and from quad back to HD, all keep the frame rate.\<close>

theorem resizing_keeps_frame_rate:
  "GetNTV2FrameRateFromVideoFormat (GetQuadSizedVideoFormat f) = GetNTV2FrameRateFromVideoFormat f \<and>
   GetNTV2FrameRateFromVideoFormat (Get12GVideoFormat f) = GetNTV2FrameRateFromVideoFormat f \<and>
   GetNTV2FrameRateFromVideoFormat (GetQuadQuadSizedVideoFormat f) = GetNTV2FrameRateFromVideoFormat f \<and>
   GetNTV2FrameRateFromVideoFormat (GetHDSizedVideoFormat f) = GetNTV2FrameRateFromVideoFormat f"
  by (simp add: rate_quad rate_12g rate_quad_quad rate_hd)
text \<open>Scaling a detected progressive format of 1080 lines up to its quad format and down again gives
  the format back.\<close>

theorem quad_size_round_trip:
  "GetHDSizedVideoFormat (GetQuadSizedVideoFormat (GetVideoFormatFromState NTV2_STANDARD_1080p rate is2K dual)) =
   GetVideoFormatFromState NTV2_STANDARD_1080p rate is2K dual"
proof -
  have keep: "\<lbrakk>b \<Longrightarrow> g (x :: u32) = x; \<not> b \<Longrightarrow> g y = y\<rbrakk> \<Longrightarrow> g (if b then x else y) = (if b then x else y)" for g x y b
    by simp
  show ?thesis
    unfolding GetVideoFormatFromState_def Let_def
    by (intro keep [where g = "\<lambda>f. GetHDSizedVideoFormat (GetQuadSizedVideoFormat f)"];
      simp add: GetHDSizedVideoFormat_def GetQuadSizedVideoFormat_def)
qed

end
