(* ===== verification/Ntv2Mailbox.thy ===== *)
theory Ntv2Mailbox
  imports Ntv2Prelude "HOL-Library.Signed_Division"
begin

text \<open>
  The mailbox of driver/ntv2mailbox.c, two queues of 32-bit words between the driver and the
  processor of the card, and its message in driver/linux/ntv2driver.c.

  What the driver does not own is behind the record \<open>mailbox_env\<close>: the registers of the mailbox,
  whose reads and writes take words from the queues and put words into them, the clock, and the
  memory of the application. Its state has the type \<open>'d\<close>, and every access returns the next state,
  so the processor of the card may work between any two of them. A buffer is an option, None for
  a null pointer; an access outside a buffer makes the whole result None, and so does a loop that
  does not end. The mailbox and the pointer to the offset are never null; an allocation is an
  argument that says whether it succeeds. The host is little-endian.
\<close>

section \<open>Constants\<close>

abbreviation (input) MB_WRDATA :: u32 where "MB_WRDATA \<equiv> 0x00"
abbreviation (input) MB_RDDATA :: u32 where "MB_RDDATA \<equiv> 0x02"
abbreviation (input) MB_STATUS :: u32 where "MB_STATUS \<equiv> 0x04"
abbreviation (input) MB_ERROR :: u32 where "MB_ERROR \<equiv> 0x05"
abbreviation (input) MBS_RX_EMPTY :: u32 where "MBS_RX_EMPTY \<equiv> 0x01"
abbreviation (input) MBS_TX_FULL :: u32 where "MBS_TX_FULL \<equiv> 0x02"

abbreviation (input) STATUS_SUCCESS :: int where "STATUS_SUCCESS \<equiv> 0"
abbreviation (input) STATUS_FAIL :: int where "STATUS_FAIL \<equiv> -1"
abbreviation (input) STATUS_BAD_STATE :: int where "STATUS_BAD_STATE \<equiv> -3"
abbreviation (input) STATUS_BAD_PARAMETER :: int where "STATUS_BAD_PARAMETER \<equiv> -4"
abbreviation (input) STATUS_NO_MEMORY :: int where "STATUS_NO_MEMORY \<equiv> -5"
abbreviation (input) STATUS_TIMEOUT :: int where "STATUS_TIMEOUT \<equiv> -8"

abbreviation (input) NTV2_MAX_MAILBOX :: int where "NTV2_MAX_MAILBOX \<equiv> 4"
abbreviation (input) NTV2_MAIL_BUFFER_MAX :: u32 where "NTV2_MAIL_BUFFER_MAX \<equiv> 4096"
abbreviation (input) NTV2_MAIL_BUFFER_SEND :: u32 where "NTV2_MAIL_BUFFER_SEND \<equiv> 0x01"
abbreviation (input) NTV2_MAIL_BUFFER_RECEIVE :: u32 where "NTV2_MAIL_BUFFER_RECEIVE \<equiv> 0x02"
abbreviation (input) NTV2_MAIL_BUFFER_SUCCESS :: u32 where "NTV2_MAIL_BUFFER_SUCCESS \<equiv> 0x01"
abbreviation (input) NTV2_MAIL_BUFFER_FAIL :: u32 where "NTV2_MAIL_BUFFER_FAIL \<equiv> 0x02"
abbreviation (input) NTV2_MAIL_BUFFER_TIMEOUT :: u32 where "NTV2_MAIL_BUFFER_TIMEOUT \<equiv> 0x08"
abbreviation (input) EINVAL :: int where "EINVAL \<equiv> 22"
abbreviation (input) EPERM :: int where "EPERM \<equiv> 1"

section \<open>State\<close>

record ntv2_mailbox =
  mb_index :: int
  reg_base :: u32
  send_data :: "u8 list option"
  recv_data :: "u8 list option"
  mb_enable :: bool

record NTV2MailBuffer =
  mb_mChannel :: int
  mb_fByteCount :: u32
  mb_mDataSize :: u32
  mb_mFlags :: u32
  mb_mDelay :: u32
  mb_mTimeout :: u32
  mb_mStatus :: u32

record 'd mailbox_env =
  env_read :: "u32 \<Rightarrow> 'd \<Rightarrow> u32 \<times> 'd"
  env_write :: "u32 \<Rightarrow> u32 \<Rightarrow> 'd \<Rightarrow> 'd"
  env_time :: "'d \<Rightarrow> int \<times> 'd"
  env_sleep :: "u32 \<Rightarrow> 'd \<Rightarrow> 'd"
  env_from_user :: "u32 \<Rightarrow> 'd \<Rightarrow> u8 list \<times> int"
  env_to_user :: "u8 list \<Rightarrow> 'd \<Rightarrow> int \<times> 'd"

section \<open>Bytes and words\<close>

text \<open>A \<open>memcpy\<close> of at most four bytes from a buffer into a cleared word, and from a word.\<close>

primrec word_of_bytes :: "u8 list \<Rightarrow> u32" where
  "word_of_bytes [] = 0"
| "word_of_bytes (b # bs) = ucast b OR push_bit 8 (word_of_bytes bs)"

primrec bytes_of_word :: "nat \<Rightarrow> u32 \<Rightarrow> u8 list" where
  "bytes_of_word 0 w = []"
| "bytes_of_word (Suc n) w = ucast w # bytes_of_word n (drop_bit 8 w)"

lemma length_bytes_of_word [simp]: "length (bytes_of_word n w) = n"
  by (induction n arbitrary: w) simp_all

definition buf_read :: "u8 list \<Rightarrow> u32 \<Rightarrow> u32 \<Rightarrow> u8 list option" where
  "buf_read buf off n =
     (if unat off + unat n \<le> length buf then Some (take (unat n) (drop (unat off) buf)) else None)"

definition buf_write :: "u8 list \<Rightarrow> u32 \<Rightarrow> u8 list \<Rightarrow> u8 list option" where
  "buf_write buf off bs =
     (if unat off + length bs \<le> length buf
      then Some (take (unat off) buf @ bs @ drop (unat off + length bs) buf) else None)"

section \<open>Life of a mailbox\<close>

definition ntv2_mailbox_open :: "bool \<Rightarrow> int \<Rightarrow> ntv2_mailbox option" where
  "ntv2_mailbox_open alloc index =
     (if alloc
      then Some \<lparr>mb_index = index, reg_base = 0, send_data = None, recv_data = None, mb_enable = False\<rparr>
      else None)"

definition ntv2_mailbox_configure :: "bool \<Rightarrow> bool \<Rightarrow> u32 \<Rightarrow> ntv2_mailbox \<Rightarrow> int \<times> ntv2_mailbox" where
  "ntv2_mailbox_configure alloc_send alloc_recv base m =
     (let m = m\<lparr>reg_base := base\<rparr>
      in if \<not> alloc_send then (STATUS_NO_MEMORY, m\<lparr>send_data := None\<rparr>)
         else let m = m\<lparr>send_data := Some (replicate (unat NTV2_MAIL_BUFFER_MAX) 0)\<rparr>
              in if \<not> alloc_recv then (STATUS_NO_MEMORY, m\<lparr>recv_data := None\<rparr>)
                 else (STATUS_SUCCESS, m\<lparr>recv_data := Some (replicate (unat NTV2_MAIL_BUFFER_MAX) 0)\<rparr>))"

definition ntv2_mailbox_enable :: "ntv2_mailbox \<Rightarrow> int \<times> ntv2_mailbox" where
  "ntv2_mailbox_enable m = (STATUS_SUCCESS, m\<lparr>mb_enable := True\<rparr>)"

definition ntv2_mailbox_disable :: "ntv2_mailbox \<Rightarrow> int \<times> ntv2_mailbox" where
  "ntv2_mailbox_disable m = (STATUS_SUCCESS, m\<lparr>mb_enable := False\<rparr>)"

text \<open>The result of a close is the list of buffers given back to the system.\<close>

definition ntv2_mailbox_close :: "ntv2_mailbox option \<Rightarrow> u8 list list \<times> ntv2_mailbox option" where
  "ntv2_mailbox_close m =
     (case m of
        None \<Rightarrow> ([], None)
      | Some m \<Rightarrow>
          ((case send_data m of None \<Rightarrow> [] | Some b \<Rightarrow> [b]) @
           (case recv_data m of None \<Rightarrow> [] | Some b \<Rightarrow> [b]), None))"

section \<open>Words\<close>

definition chunk_size :: "u32 \<Rightarrow> u32 \<Rightarrow> u32" where
  "chunk_size sz off = (if sz - off > 4 then 4 else sz - off)"

lemma unat_chunk_size:
  assumes "off < sz"
  shows "unat (chunk_size sz off) = min 4 (unat sz - unat off)"
proof -
  have "unat (sz - off) = unat sz - unat off"
    using assms by (simp add: unat_sub)
  then show ?thesis
    by (auto simp: chunk_size_def word_less_nat_alt)
qed

lemma unat_add_chunk_size:
  assumes "off < sz"
  shows "unat (off + chunk_size sz off) = unat off + unat (chunk_size sz off)"
proof -
  have "unat off + unat (chunk_size sz off) \<le> unat sz"
    using assms by (simp add: unat_chunk_size word_less_nat_alt)
  also have "\<dots> < 2 ^ LENGTH(32)"
    by (rule unsigned_less)
  finally show ?thesis
    by (simp only: unat_add_lem)
qed

lemma add_chunk_size_le: "off < sz \<Longrightarrow> off + chunk_size sz off \<le> sz"
  by (auto simp: word_le_nat_alt word_less_nat_alt unat_add_chunk_size unat_chunk_size min_def)

function mailbox_send_loop ::
  "'d mailbox_env \<Rightarrow> u32 \<Rightarrow> u8 list \<Rightarrow> u32 \<Rightarrow> u32 \<Rightarrow> 'd \<Rightarrow> (u32 \<times> 'd) option" where
  "mailbox_send_loop E base buf sz off d =
     (if off < sz
      then let (value, d) = env_read E (base + MB_STATUS) d
           in if value AND MBS_TX_FULL \<noteq> 0 then Some (off, d)
              else do {
                let ts = chunk_size sz off;
                bs \<leftarrow> buf_read buf off ts;
                let d = env_write E (base + MB_WRDATA) (word_of_bytes bs) d;
                mailbox_send_loop E base buf sz (off + ts) d
              }
      else Some (off, d))"
  by pat_completeness auto

termination mailbox_send_loop
proof (relation "measure (\<lambda>(E, base, buf, sz, off, d). unat sz - unat off)", goal_cases)
  case 1
  then show ?case by simp
next
  case (2 E base buf sz off d)
  then show ?case
    by (simp add: unat_add_chunk_size unat_chunk_size word_less_nat_alt)
qed

definition ntv2_mailbox_send ::
  "'d mailbox_env \<Rightarrow> ntv2_mailbox \<Rightarrow> u8 list option \<Rightarrow> u32 \<Rightarrow> u32 \<Rightarrow> 'd \<Rightarrow> (int \<times> u32 \<times> 'd) option" where
  "ntv2_mailbox_send E m buffer sz offset d =
     (case buffer of
        None \<Rightarrow> Some (STATUS_BAD_PARAMETER, offset, d)
      | Some buf \<Rightarrow>
          if \<not> mb_enable m then Some (STATUS_BAD_STATE, offset, d)
          else do {
            (off, d) \<leftarrow> mailbox_send_loop E (reg_base m) buf sz offset d;
            let (value, d) = env_read E (reg_base m + MB_ERROR) d;
            if value \<noteq> 0 then Some (STATUS_FAIL, offset, d) else Some (STATUS_SUCCESS, off, d)
          })"

function mailbox_recv_loop ::
  "'d mailbox_env \<Rightarrow> u32 \<Rightarrow> u8 list \<Rightarrow> u32 \<Rightarrow> u32 \<Rightarrow> 'd \<Rightarrow> (u8 list \<times> u32 \<times> 'd) option" where
  "mailbox_recv_loop E base buf sz off d =
     (if off < sz
      then let (value, d) = env_read E (base + MB_STATUS) d
           in if value AND MBS_RX_EMPTY \<noteq> 0 then Some (buf, off, d)
              else let (value, d) = env_read E (base + MB_RDDATA) d
                   in do {
                     let ts = chunk_size sz off;
                     buf \<leftarrow> buf_write buf off (bytes_of_word (unat ts) value);
                     mailbox_recv_loop E base buf sz (off + ts) d
                   }
      else Some (buf, off, d))"
  by pat_completeness auto

termination mailbox_recv_loop
proof (relation "measure (\<lambda>(E, base, buf, sz, off, d). unat sz - unat off)", goal_cases)
  case 1
  then show ?case by simp
next
  case (2 E base buf sz off d)
  then show ?case
    by (simp add: unat_add_chunk_size unat_chunk_size word_less_nat_alt)
qed

definition ntv2_mailbox_recv ::
  "'d mailbox_env \<Rightarrow> ntv2_mailbox \<Rightarrow> u8 list option \<Rightarrow> u32 \<Rightarrow> u32 \<Rightarrow> 'd
    \<Rightarrow> (int \<times> u8 list option \<times> u32 \<times> 'd) option" where
  "ntv2_mailbox_recv E m buffer sz offset d =
     (case buffer of
        None \<Rightarrow> Some (STATUS_BAD_PARAMETER, None, offset, d)
      | Some buf \<Rightarrow>
          if \<not> mb_enable m then Some (STATUS_BAD_STATE, Some buf, offset, d)
          else do {
            (buf, off, d) \<leftarrow> mailbox_recv_loop E (reg_base m) buf sz offset d;
            let (value, d) = env_read E (reg_base m + MB_ERROR) d;
            if value \<noteq> 0 then Some (STATUS_FAIL, Some buf, offset, d)
            else Some (STATUS_SUCCESS, Some buf, off, d)
          })"

declare mailbox_send_loop.simps [simp del] mailbox_recv_loop.simps [simp del]

section \<open>Packets\<close>

text \<open>
  The loops of a packet keep \<open>off\<close>, the offset reached; \<open>offset\<close> is the value that the caller's
  offset has when the loop does not store into it.
\<close>

partial_function (option) packet_send_loop ::
  "'d mailbox_env \<Rightarrow> ntv2_mailbox \<Rightarrow> u8 list option \<Rightarrow> u32 \<Rightarrow> u32 \<Rightarrow> u32 \<Rightarrow> int \<Rightarrow> u32 \<Rightarrow> u32 \<Rightarrow> 'd
    \<Rightarrow> (int \<times> u32 \<times> 'd) option" where
  "packet_send_loop E m buffer sz delay timeout start offset off d =
     (if off < sz
      then do {
        (status, off, d) \<leftarrow> ntv2_mailbox_send E m buffer sz off d;
        if status \<noteq> STATUS_SUCCESS then Some (status, off, d)
        else if off \<ge> sz then Some (STATUS_SUCCESS, offset, d)
        else let (now, d) = env_time E d
             in if (now - start) sdiv 10 > uint timeout then Some (STATUS_TIMEOUT, off, d)
                else packet_send_loop E m buffer sz delay timeout start offset off
                       (if delay > 0 then env_sleep E delay d else d)
      }
      else Some (STATUS_SUCCESS, offset, d))"

definition ntv2_packet_send ::
  "'d mailbox_env \<Rightarrow> ntv2_mailbox \<Rightarrow> u8 list option \<Rightarrow> u32 \<Rightarrow> u32 \<Rightarrow> u32 \<Rightarrow> u32 \<Rightarrow> 'd
    \<Rightarrow> (int \<times> u32 \<times> 'd) option" where
  "ntv2_packet_send E m buffer sz offset delay timeout d =
     (let (start, d) = env_time E d
      in if buffer = None then Some (STATUS_BAD_PARAMETER, offset, d)
         else if \<not> mb_enable m then Some (STATUS_BAD_STATE, offset, d)
         else packet_send_loop E m buffer sz delay timeout start offset offset d)"

partial_function (option) packet_recv_loop ::
  "'d mailbox_env \<Rightarrow> ntv2_mailbox \<Rightarrow> u32 \<Rightarrow> u32 \<Rightarrow> u32 \<Rightarrow> int \<Rightarrow> u32 \<Rightarrow> u8 list option \<Rightarrow> u32 \<Rightarrow> 'd
    \<Rightarrow> (int \<times> u8 list option \<times> u32 \<times> 'd) option" where
  "packet_recv_loop E m sz delay timeout start offset buffer off d =
     (if off < sz
      then do {
        (status, buffer, off, d) \<leftarrow> ntv2_mailbox_recv E m buffer sz off d;
        if status \<noteq> STATUS_SUCCESS then Some (status, buffer, off, d)
        else if off \<ge> sz then Some (STATUS_SUCCESS, buffer, off, d)
        else let (now, d) = env_time E d
             in if (now - start) sdiv 10 > uint timeout then Some (STATUS_TIMEOUT, buffer, off, d)
                else packet_recv_loop E m sz delay timeout start offset buffer off
                       (if delay > 0 then env_sleep E delay d else d)
      }
      else Some (STATUS_SUCCESS, buffer, offset, d))"

declare packet_send_loop.simps [code] packet_recv_loop.simps [code]

definition ntv2_packet_recv ::
  "'d mailbox_env \<Rightarrow> ntv2_mailbox \<Rightarrow> u8 list option \<Rightarrow> u32 \<Rightarrow> u32 \<Rightarrow> u32 \<Rightarrow> u32 \<Rightarrow> 'd
    \<Rightarrow> (int \<times> u8 list option \<times> u32 \<times> 'd) option" where
  "ntv2_packet_recv E m buffer sz offset delay timeout d =
     (let (start, d) = env_time E d
      in if buffer = None then Some (STATUS_BAD_PARAMETER, buffer, offset, d)
         else if \<not> mb_enable m then Some (STATUS_BAD_STATE, buffer, offset, d)
         else packet_recv_loop E m sz delay timeout start offset buffer offset d)"

section \<open>The message\<close>

text \<open>
  The two halves of \<open>DoMessageMailBuffer\<close>. A result is the return code, the mailbox with its
  buffers, the message and the state of the environment; \<open>copy_from_user\<close> writes into the send
  buffer as many bytes as the message names.
\<close>

type_synonym 'd mail_result = "(int \<times> ntv2_mailbox \<times> NTV2MailBuffer \<times> 'd) option"

definition mail_status :: "int \<Rightarrow> u32" where
  "mail_status status =
     (if status = STATUS_SUCCESS then NTV2_MAIL_BUFFER_SUCCESS
      else if status = STATUS_TIMEOUT then NTV2_MAIL_BUFFER_TIMEOUT
      else NTV2_MAIL_BUFFER_FAIL)"

text \<open>The boolean of \<open>mail_send\<close> says whether the message goes on to its second half.\<close>

definition mail_send ::
  "'d mailbox_env \<Rightarrow> ntv2_mailbox \<Rightarrow> NTV2MailBuffer \<Rightarrow> 'd \<Rightarrow> (bool \<times> int \<times> ntv2_mailbox \<times> NTV2MailBuffer \<times> 'd) option" where
  "mail_send E m p d =
     (if mb_fByteCount p > NTV2_MAIL_BUFFER_MAX
      then Some (False, - EINVAL, m, p\<lparr>mb_mStatus := NTV2_MAIL_BUFFER_FAIL\<rparr>, d)
      else do {
        let (bytes, ret) = env_from_user E (mb_mDataSize p) d;
        data \<leftarrow> send_data m;
        data \<leftarrow> buf_write data 0 bytes;
        let m = m\<lparr>send_data := Some data\<rparr>;
        if ret < 0 then Some (False, ret, m, p, d)
        else do {
          (status, offset, d) \<leftarrow> ntv2_packet_send E m (send_data m) (mb_mDataSize p) 0 (mb_mDelay p) (mb_mTimeout p) d;
          Some (True, 0, m, p\<lparr>mb_mStatus := mail_status status\<rparr>, d)
        }
      })"

definition mail_recv :: "'d mailbox_env \<Rightarrow> ntv2_mailbox \<Rightarrow> NTV2MailBuffer \<Rightarrow> 'd \<Rightarrow> 'd mail_result" where
  "mail_recv E m p d =
     (if mb_fByteCount p > NTV2_MAIL_BUFFER_MAX
      then Some (- EINVAL, m, p\<lparr>mb_mStatus := NTV2_MAIL_BUFFER_FAIL\<rparr>, d)
      else do {
        (status, buffer, offset, d) \<leftarrow> ntv2_packet_recv E m (recv_data m) (mb_fByteCount p) 0 (mb_mDelay p) (mb_mTimeout p) d;
        let m = m\<lparr>recv_data := buffer\<rparr>;
        let p = p\<lparr>mb_mStatus := mail_status status\<rparr>;
        if status = STATUS_SUCCESS
        then do {
          let p = p\<lparr>mb_mDataSize := offset\<rparr>;
          data \<leftarrow> recv_data m;
          bytes \<leftarrow> buf_read data 0 (mb_mDataSize p);
          let (ret, d) = env_to_user E bytes d;
          if ret < 0 then Some (ret, m, p, d) else Some (0, m, p, d)
        }
        else if status = STATUS_TIMEOUT then Some (0, m, p, d)
        else Some (- EPERM, m, p, d)
      })"

definition DoMessageMailBuffer ::
  "'d mailbox_env \<Rightarrow> ntv2_mailbox option list \<Rightarrow> NTV2MailBuffer \<Rightarrow> 'd
    \<Rightarrow> (int \<times> ntv2_mailbox option list \<times> NTV2MailBuffer \<times> 'd) option" where
  "DoMessageMailBuffer E boxes p d =
     (let chn = mb_mChannel p
      in if chn \<ge> NTV2_MAX_MAILBOX then Some (- EINVAL, boxes, p\<lparr>mb_mStatus := NTV2_MAIL_BUFFER_FAIL\<rparr>, d)
         else do {
           pMail \<leftarrow> arr_get boxes chn;
           case pMail of
             None \<Rightarrow> Some (- EINVAL, boxes, p\<lparr>mb_mStatus := NTV2_MAIL_BUFFER_FAIL\<rparr>, d)
           | Some m \<Rightarrow> do {
               (go_on, ret, m, p, d) \<leftarrow>
                 (if mb_mFlags p AND NTV2_MAIL_BUFFER_SEND \<noteq> 0 then mail_send E m p d
                  else Some (True, 0, m, p, d));
               (ret, m, p, d) \<leftarrow>
                 (if go_on \<and> mb_mFlags p AND NTV2_MAIL_BUFFER_RECEIVE \<noteq> 0 then mail_recv E m p d
                  else Some (ret, m, p, d));
               Some (ret, boxes[nat chn := Some m], p, d)
             }
         })"

end
