(* ===== verification/Ntv2MailboxQueue.thy ===== *)
theory Ntv2MailboxQueue
  imports Ntv2Mailbox "HOL-Library.Sublist"
begin

text \<open>
  What the functions of the mailbox send and take, in terms of the words that pass the queues:
  \<open>sends_to E base sent\<close> says that \<open>sent d\<close> is the history of the words put into the send queue
  of the mailbox at \<open>base\<close>, \<open>takes_from E base taken\<close> that \<open>taken d\<close> is the history of the words
  taken from its receive queue, and \<open>clock_runs E clk\<close> that the clock does not go back and that a
  sleep moves it on. The words of a byte sequence are \<open>words_of\<close>.
\<close>

section \<open>Bytes and words\<close>

lemma bit_word_of_bytes_high: "8 * length bs \<le> i \<Longrightarrow> \<not> bit (word_of_bytes bs) i"
proof (induction bs arbitrary: i)
  case Nil
  then show ?case by simp
next
  case (Cons b bs)
  then have "\<not> bit (word_of_bytes bs) (i - 8)" and "8 \<le> i"
    by auto
  then show ?case
    by (auto simp: bit_simps dest: bit_imp_le_length)
qed

lemma ucast_word_of_bytes: "ucast (word_of_bytes (b # bs)) = b"
  by (rule bit_word_eqI) (auto simp: bit_simps)

lemma drop_bit_word_of_bytes:
  assumes "length bs \<le> 3"
  shows "drop_bit 8 (word_of_bytes (b # bs)) = word_of_bytes bs"
proof (rule bit_word_eqI)
  fix i :: nat
  assume "i < LENGTH(32)"
  have "\<not> bit (word_of_bytes bs) i" if "24 \<le> i"
    using that assms by (intro bit_word_of_bytes_high) simp
  then show "bit (drop_bit 8 (word_of_bytes (b # bs))) i = bit (word_of_bytes bs) i"
    by (auto simp: bit_simps dest: bit_imp_le_length)
qed

lemma bytes_of_word_of_bytes:
  "length bs \<le> 4 \<Longrightarrow> bytes_of_word (length bs) (word_of_bytes bs) = bs"
proof (induction bs)
  case Nil
  then show ?case by simp
next
  case (Cons b bs)
  then have "drop_bit 8 (word_of_bytes (b # bs)) = word_of_bytes bs"
    by (intro drop_bit_word_of_bytes) simp
  with Cons show ?case
    using ucast_word_of_bytes [of b bs] by (simp del: word_of_bytes.simps)
qed

lemma take_bytes_of_word: "n \<le> k \<Longrightarrow> take n (bytes_of_word k w) = bytes_of_word n w"
proof (induction k arbitrary: n w)
  case 0
  then show ?case by simp
next
  case (Suc k)
  then show ?case by (cases n) simp_all
qed

fun words_of :: "u8 list \<Rightarrow> u32 list" where
  "words_of [] = []"
| "words_of (b # bs) = word_of_bytes (take 4 (b # bs)) # words_of (drop 3 bs)"

definition bytes_of :: "u32 list \<Rightarrow> u8 list" where
  "bytes_of ws = concat (map (bytes_of_word 4) ws)"

lemma bytes_of_simps [simp]:
  "bytes_of [] = []" "bytes_of (w # ws) = bytes_of_word 4 w @ bytes_of ws"
  by (simp_all add: bytes_of_def)

lemma length_bytes_of [simp]: "length (bytes_of ws) = 4 * length ws"
  by (induction ws) simp_all

lemma bytes_of_append: "bytes_of (vs @ ws) = bytes_of vs @ bytes_of ws"
  by (simp add: bytes_of_def)

lemma words_of_short: "bs \<noteq> [] \<Longrightarrow> length bs \<le> 4 \<Longrightarrow> words_of bs = [word_of_bytes bs]"
  by (cases bs) auto

lemma words_of_chunk: "length bs = 4 \<Longrightarrow> words_of (bs @ cs) = word_of_bytes bs # words_of cs"
  by (cases bs) auto

lemma words_of_append: "4 dvd length bs \<Longrightarrow> words_of (bs @ cs) = words_of bs @ words_of cs"
proof (induction bs rule: words_of.induct)
  case 1
  then show ?case by simp
next
  case (2 b bs)
  then have len: "3 \<le> length bs"
    by simp presburger
  then have "length (drop 3 bs) = length (b # bs) - 4"
    by simp
  then have "4 dvd length (drop 3 bs)"
    using 2(2) by (metis dvd_diff_nat dvd_refl)
  from 2(1) [OF this] len show ?case
    by simp
qed

lemma length_words_of: "length (words_of bs) = (length bs + 3) div 4"
proof (induction bs rule: words_of.induct)
  case 1
  then show ?case by simp
next
  case (2 b bs)
  then show ?case by (cases "length bs \<le> 3") auto
qed

lemma bytes_of_words_of: "take (length bs) (bytes_of (words_of bs)) = bs"
proof (induction bs rule: words_of.induct)
  case 1
  then show ?case by simp
next
  case (2 b bs)
  define h where "h = take 4 (b # bs)"
  have split: "b # bs = h @ drop 3 bs" and hlen: "length h \<le> 4"
    by (simp_all add: h_def)
  have h: "take (length h) (bytes_of_word 4 (word_of_bytes h)) = h"
    using hlen by (simp add: take_bytes_of_word bytes_of_word_of_bytes)
  show ?case
  proof (cases "length h = 4")
    case True
    then have "bytes_of_word 4 (word_of_bytes h) = h"
      using h by simp
    with True 2 show ?thesis
      unfolding split by (simp add: words_of_chunk)
  next
    case False
    then have "drop 3 bs = []"
      by (auto simp: h_def)
    moreover have "h \<noteq> []"
      by (simp add: h_def)
    ultimately show ?thesis
      unfolding split using h hlen by (simp add: words_of_short)
  qed
qed

section \<open>Segments of a buffer\<close>

definition segment :: "'a list \<Rightarrow> nat \<Rightarrow> nat \<Rightarrow> 'a list" where
  "segment xs a b = take (b - a) (drop a xs)"

lemma segment_same [simp]: "segment xs a a = []"
  by (simp add: segment_def)

lemma segment_append: "a \<le> b \<Longrightarrow> b \<le> c \<Longrightarrow> segment xs a c = segment xs a b @ segment xs b c"
  using take_add [of "b - a" "c - b" "drop a xs"] by (simp add: segment_def)

lemma length_segment: "b \<le> length xs \<Longrightarrow> length (segment xs a b) = b - a"
  by (simp add: segment_def)

text \<open>A loop that reaches \<open>sz\<close> from \<open>a\<close> in chunks of four bytes stands on a chunk before it does.\<close>

definition chunked :: "'a list \<Rightarrow> u32 \<Rightarrow> u32 \<Rightarrow> u32 \<Rightarrow> bool" where
  "chunked buf sz a b \<longleftrightarrow>
     a \<le> b \<and> b \<le> sz \<and> (a = b \<or> unat b \<le> length buf) \<and> (b < sz \<longrightarrow> 4 dvd unat b - unat a)"

lemma chunked_refl: "a \<le> sz \<Longrightarrow> chunked buf sz a a"
  by (simp add: chunked_def)

lemma chunked_next:
  assumes "off < sz" and "unat off + unat (chunk_size sz off) \<le> length buf"
    and "chunked buf sz (off + chunk_size sz off) off'"
  shows "chunked buf sz off off'"
proof -
  define n where "n = off + chunk_size sz off"
  have n: "unat n = unat off + min 4 (unat sz - unat off)"
    using assms(1) by (simp add: n_def unat_add_chunk_size unat_chunk_size)
  have "4 dvd unat off' - unat off" if "off' < sz"
  proof -
    from that assms(3) have "unat n \<le> unat off'" "4 dvd unat off' - unat n" "unat off' < unat sz"
      by (simp_all add: chunked_def n_def word_le_nat_alt word_less_nat_alt)
    with n have "unat off' - unat off = (unat off' - unat n) + 4"
      by simp
    with \<open>4 dvd unat off' - unat n\<close> show ?thesis by simp
  qed
  moreover have "off \<le> off'"
    using assms(3) n by (simp add: chunked_def n_def [symmetric] word_le_nat_alt)
  moreover have "unat off' \<le> length buf"
    using assms(2,3) n by (auto simp: chunked_def n_def [symmetric] unat_chunk_size [OF assms(1)])
  ultimately show ?thesis
    using assms(3) by (auto simp: chunked_def)
qed

lemma chunked_trans:
  assumes "chunked buf sz a b" and "b < sz" and "chunked buf sz b c"
  shows "chunked buf sz a c"
proof -
  have "4 dvd unat c - unat a" if "c < sz"
  proof -
    from that assms have "4 dvd unat b - unat a" "4 dvd unat c - unat b" "unat a \<le> unat b" "unat b \<le> unat c"
      by (simp_all add: chunked_def word_le_nat_alt)
    moreover from this have "unat c - unat a = (unat c - unat b) + (unat b - unat a)"
      by simp
    ultimately show ?thesis by (metis dvd_add)
  qed
  with assms show ?thesis by (auto simp: chunked_def)
qed

lemma words_of_segment:
  assumes "chunked buf sz a b" and "b < sz" and "b \<le> c"
  shows "words_of (segment buf (unat a) (unat c))
    = words_of (segment buf (unat a) (unat b)) @ words_of (segment buf (unat b) (unat c))"
proof -
  have le: "unat a \<le> unat b" "unat b \<le> unat c"
    using assms by (simp_all add: chunked_def word_le_nat_alt)
  have "4 dvd length (segment buf (unat a) (unat b))"
  proof (cases "a = b")
    case True
    then show ?thesis by simp
  next
    case False
    then show ?thesis
      using assms by (simp add: chunked_def length_segment)
  qed
  then show ?thesis
    by (simp only: segment_append [OF le] words_of_append)
qed

section \<open>Sending\<close>

definition sends_to :: "'d mailbox_env \<Rightarrow> u32 \<Rightarrow> ('d \<Rightarrow> u32 list) \<Rightarrow> bool" where
  "sends_to E base sent \<longleftrightarrow>
     (\<forall>r d. sent (snd (env_read E r d)) = sent d) \<and>
     (\<forall>d. sent (snd (env_time E d)) = sent d) \<and>
     (\<forall>n d. sent (env_sleep E n d) = sent d) \<and>
     (\<forall>w d. fst (env_read E (base + MB_STATUS) d) AND MBS_TX_FULL = 0 \<longrightarrow>
        sent (env_write E (base + MB_WRDATA) w (snd (env_read E (base + MB_STATUS) d))) = sent d @ [w])"

lemma buf_read_eq_Some:
  "buf_read buf off n = Some bs \<longleftrightarrow>
     unat off + unat n \<le> length buf \<and> bs = segment buf (unat off) (unat off + unat n)"
  by (auto simp: buf_read_def segment_def)

lemma words_of_chunk_segment:
  assumes "off < sz" and "unat off + unat (chunk_size sz off) \<le> length buf"
    and "chunked buf sz (off + chunk_size sz off) off'"
  shows "words_of (segment buf (unat off) (unat off'))
    = word_of_bytes (segment buf (unat off) (unat off + unat (chunk_size sz off)))
      # words_of (segment buf (unat (off + chunk_size sz off)) (unat off'))"
proof -
  define n where "n = off + chunk_size sz off"
  have n: "unat n = unat off + unat (chunk_size sz off)"
    using assms(1) by (simp add: n_def unat_add_chunk_size)
  have le: "unat off \<le> unat n" "unat n \<le> unat off'" "unat off' \<le> unat sz"
    using assms(3) n by (simp_all add: chunked_def n_def [symmetric] word_le_nat_alt)
  have len: "length (segment buf (unat off) (unat n)) = unat (chunk_size sz off)"
    using assms(2) n by (simp add: length_segment)
  have "words_of (segment buf (unat off) (unat n) @ segment buf (unat n) (unat off'))
    = word_of_bytes (segment buf (unat off) (unat n)) # words_of (segment buf (unat n) (unat off'))"
  proof (cases "unat (chunk_size sz off) = 4")
    case True
    then show ?thesis by (simp add: words_of_chunk len)
  next
    case False
    then have c: "unat (chunk_size sz off) = unat sz - unat off" "0 < unat (chunk_size sz off)"
        "unat (chunk_size sz off) \<le> 4"
      using assms(1) by (simp_all add: unat_chunk_size [OF assms(1)] word_less_nat_alt)
    with n le have "unat off' = unat n" by simp
    moreover have "segment buf (unat off) (unat n) \<noteq> []"
      using len c(2) by fastforce
    ultimately show ?thesis
      using len c(3) by (simp add: words_of_short)
  qed
  then show ?thesis
    by (simp only: segment_append [OF le(1,2)] n n_def [symmetric])
qed

lemma sends_toD:
  assumes "sends_to E base sent"
  shows "env_read E r d = (v, d') \<Longrightarrow> sent d' = sent d"
    and "env_time E d = (now, d') \<Longrightarrow> sent d' = sent d"
    and "sent (env_sleep E n d) = sent d"
    and "env_read E (base + MB_STATUS) d = (v, d') \<Longrightarrow> v AND MBS_TX_FULL = 0 \<Longrightarrow>
      sent (env_write E (base + MB_WRDATA) w d') = sent d @ [w]"
  using assms unfolding sends_to_def by (metis snd_conv, metis snd_conv, metis, metis fst_conv snd_conv)

lemma mailbox_send_loop_sends:
  assumes "sends_to E base sent"
  shows "mailbox_send_loop E base buf sz off d = Some (off', d') \<Longrightarrow> off \<le> sz \<Longrightarrow>
    chunked buf sz off off' \<and> sent d' = sent d @ words_of (segment buf (unat off) (unat off'))"
  using assms
proof (induction E base buf sz off d rule: mailbox_send_loop.induct)
  case (1 E base buf sz off d)
  obtain v d1 where rd: "env_read E (base + MB_STATUS) d = (v, d1)" by fastforce
  have d1: "sent d1 = sent d"
    by (rule sends_toD(1) [OF 1(4) rd])
  show ?case
  proof (cases "off < sz \<and> v AND MBS_TX_FULL = 0")
    case False
    with 1(2,3) rd d1 show ?thesis
      by (auto simp: mailbox_send_loop.simps [of E base buf sz off d] chunked_refl split: if_splits)
  next
    case True
    define bs where "bs = segment buf (unat off) (unat off + unat (chunk_size sz off))"
    define d2 where "d2 = env_write E (base + MB_WRDATA) (word_of_bytes bs) d1"
    have fits: "unat off + unat (chunk_size sz off) \<le> length buf"
      and rest: "mailbox_send_loop E base buf sz (off + chunk_size sz off) d2 = Some (off', d')"
      using 1(2) rd True
      by (auto simp: mailbox_send_loop.simps [of E base buf sz off d] buf_read_eq_Some bs_def d2_def
          Let_def split: Option.bind_splits)
    have "sent d2 = sent d @ [word_of_bytes bs]"
      unfolding d2_def using True by (intro sends_toD(4) [OF 1(4) rd]) simp
    moreover have "off + chunk_size sz off \<le> sz"
      using True by (simp add: add_chunk_size_le)
    then have "chunked buf sz (off + chunk_size sz off) off' \<and>
        sent d' = sent d2 @ words_of (segment buf (unat (off + chunk_size sz off)) (unat off'))"
      using 1(1) [of "(v, d1)" v d1] rd True fits rest 1(4)
      by (auto simp: buf_read_eq_Some bs_def d2_def)
    ultimately show ?thesis
      using True chunked_next [OF _ fits] words_of_chunk_segment [OF _ fits] by (auto simp: bs_def)
  qed
qed

lemma mailbox_send_sends:
  assumes "sends_to E (reg_base m) sent" and "off \<le> sz" and "mb_enable m"
    and "ntv2_mailbox_send E m (Some buf) sz off d = Some (status, off', d')"
  shows "status = STATUS_SUCCESS \<and> chunked buf sz off off'
      \<and> sent d' = sent d @ words_of (segment buf (unat off) (unat off'))
    \<or> status = STATUS_FAIL \<and> off' = off
      \<and> (\<exists>x. chunked buf sz off x \<and> sent d' = sent d @ words_of (segment buf (unat off) (unat x)))"
proof -
  obtain x d1 v where loop: "mailbox_send_loop E (reg_base m) buf sz off d = Some (x, d1)"
    and rd: "env_read E (reg_base m + MB_ERROR) d1 = (v, d')"
    and res: "if v \<noteq> 0 then status = STATUS_FAIL \<and> off' = off else status = STATUS_SUCCESS \<and> off' = x"
    using assms(3,4) by (auto simp: ntv2_mailbox_send_def split: Option.bind_splits prod.splits if_splits)
  have "sent d' = sent d1"
    by (rule sends_toD(1) [OF assms(1) rd])
  with mailbox_send_loop_sends [OF assms(1) loop assms(2)] res show ?thesis
    by (auto split: if_splits)
qed

definition send_result ::
  "('d \<Rightarrow> u32 list) \<Rightarrow> u8 list \<Rightarrow> u32 \<Rightarrow> u32 \<Rightarrow> u32 \<Rightarrow> 'd \<Rightarrow> int \<Rightarrow> u32 \<Rightarrow> 'd \<Rightarrow> bool" where
  "send_result sent buf sz offset off d status o' d' \<longleftrightarrow>
     (\<exists>x. chunked buf sz off x \<and> sent d' = sent d @ words_of (segment buf (unat off) (unat x)) \<and>
        (status = STATUS_SUCCESS \<and> x = sz \<and> o' = offset \<or>
         status = STATUS_TIMEOUT \<and> x = o' \<and> o' < sz \<or>
         status = STATUS_FAIL \<and> off \<le> o' \<and> o' \<le> x))"

lemma send_result_step:
  assumes "chunked buf sz off b" and "b < sz" and "sent d1 = sent d @ words_of (segment buf (unat off) (unat b))"
    and "send_result sent buf sz offset b d1 status o' d'"
  shows "send_result sent buf sz offset off d status o' d'"
proof -
  obtain x where x: "chunked buf sz b x" "sent d' = sent d1 @ words_of (segment buf (unat b) (unat x))"
    "status = STATUS_SUCCESS \<and> x = sz \<and> o' = offset \<or> status = STATUS_TIMEOUT \<and> x = o' \<and> o' < sz
      \<or> status = STATUS_FAIL \<and> b \<le> o' \<and> o' \<le> x"
    using assms(4) by (auto simp: send_result_def)
  then have "sent d' = sent d @ words_of (segment buf (unat off) (unat x))"
    using assms(1-3) words_of_segment [of buf sz off b x] by (simp add: chunked_def)
  moreover have "off \<le> b"
    using assms(1) by (simp add: chunked_def)
  ultimately show ?thesis
    unfolding send_result_def using x(3) chunked_trans [OF assms(1,2) x(1)]
    by (intro exI [of _ x]) (auto elim: order_trans)
qed

lemma packet_send_loop_sends:
  "packet_send_loop E m buffer sz delay timeout start offset off d = Some y \<Longrightarrow>
    sends_to E (reg_base m) sent \<Longrightarrow> mb_enable m \<Longrightarrow> buffer = Some buf \<Longrightarrow> off \<le> sz \<Longrightarrow>
    send_result sent buf sz offset off d (fst y) (fst (snd y)) (snd (snd y))"
proof (induction rule: packet_send_loop.raw_induct [rotated, consumes 1])
  case (1 loop E m buffer sz delay timeout start offset off d y)
  note IH = 1(1) and eq = 1(2) and sends = 1(3) and enabled = 1(4) and buffer = 1(5) and le = 1(6)
  show ?case
  proof (cases "off < sz")
    case False
    with eq le have "y = (STATUS_SUCCESS, offset, d)" and "off = sz"
      by auto
    then show ?thesis
      by (auto simp: send_result_def intro!: exI [of _ sz] chunked_refl)
  next
    case True
    obtain status off1 d1 where snd_eq: "ntv2_mailbox_send E m (Some buf) sz off d = Some (status, off1, d1)"
      using eq True buffer by (cases "ntv2_mailbox_send E m (Some buf) sz off d") auto
    obtain now d2 where time: "env_time E d1 = (now, d2)" by fastforce
    define d3 where "d3 = (if delay > 0 then env_sleep E delay d2 else d2)"
    have same: "sent d2 = sent d1" "sent d3 = sent d2"
      by (simp_all add: sends_toD(2) [OF sends time] sends_toD(3) [OF sends] d3_def)
    note res = mailbox_send_sends [OF sends le enabled snd_eq]
        have y: "y = (if status \<noteq> STATUS_SUCCESS then (status, off1, d1)
        else if off1 \<ge> sz then (STATUS_SUCCESS, offset, d1) else (STATUS_TIMEOUT, off1, d2))"
      if "status \<noteq> STATUS_SUCCESS \<or> off1 \<ge> sz \<or> (now - start) sdiv 10 > uint timeout"
      using eq that True buffer snd_eq time by (auto split: if_splits)
    show ?thesis
    proof (cases "status \<noteq> STATUS_SUCCESS \<or> off1 \<ge> sz \<or> (now - start) sdiv 10 > uint timeout")
      case True
      show ?thesis
        unfolding y [OF True] send_result_def using res same(1) True
        by (auto simp: chunked_def)
    next
      case False
      with eq True buffer snd_eq time
      have "loop E m buffer sz delay timeout start offset off1 d3 = Some y"
        by (simp add: d3_def)
      from IH [OF this sends enabled buffer] False res
      have "send_result sent buf sz offset off1 d3 (fst y) (fst (snd y)) (snd (snd y))"
        by (simp add: chunked_def)
      with res same False show ?thesis
        by (intro send_result_step [of buf sz off off1 sent d3 d]) (simp_all add: not_le)
    qed
  qed
qed

section \<open>Receiving\<close>

definition takes_from :: "'d mailbox_env \<Rightarrow> u32 \<Rightarrow> ('d \<Rightarrow> u32 list) \<Rightarrow> bool" where
  "takes_from E base taken \<longleftrightarrow>
     (\<forall>r d. r \<noteq> base + MB_RDDATA \<longrightarrow> taken (snd (env_read E r d)) = taken d) \<and>
     (\<forall>d. taken (snd (env_time E d)) = taken d) \<and>
     (\<forall>n d. taken (env_sleep E n d) = taken d) \<and>
     (\<forall>d. fst (env_read E (base + MB_STATUS) d) AND MBS_RX_EMPTY = 0 \<longrightarrow>
        (let (w, d') = env_read E (base + MB_RDDATA) (snd (env_read E (base + MB_STATUS) d))
         in taken d' = taken d @ [w]))"

lemma takes_fromD:
  assumes "takes_from E base taken"
  shows "r \<noteq> base + MB_RDDATA \<Longrightarrow> env_read E r d = (v, d') \<Longrightarrow> taken d' = taken d"
    and "env_time E d = (now, d') \<Longrightarrow> taken d' = taken d"
    and "taken (env_sleep E n d) = taken d"
    and "env_read E (base + MB_STATUS) d = (v, d') \<Longrightarrow> v AND MBS_RX_EMPTY = 0 \<Longrightarrow>
      env_read E (base + MB_RDDATA) d' = (w, d'') \<Longrightarrow> taken d'' = taken d @ [w]"
proof -
  note rd = assms [unfolded takes_from_def, THEN conjunct1, rule_format]
    and rest = assms [unfolded takes_from_def, THEN conjunct2]
  show "taken d' = taken d" if "r \<noteq> base + MB_RDDATA" "env_read E r d = (v, d')"
    using rd [OF that(1), of d] that(2) by simp
  show "taken d' = taken d" if "env_time E d = (now, d')"
    using rest [THEN conjunct1, rule_format, of d] that by simp
  show "taken (env_sleep E n d) = taken d"
    using rest by simp
  show "taken d'' = taken d @ [w]"
    if "env_read E (base + MB_STATUS) d = (v, d')" "v AND MBS_RX_EMPTY = 0" "env_read E (base + MB_RDDATA) d' = (w, d'')"
    using rest [THEN conjunct2, THEN conjunct2, rule_format, of d] that by simp
qed

definition received :: "u8 list \<Rightarrow> u8 list \<Rightarrow> nat \<Rightarrow> nat \<Rightarrow> u32 list \<Rightarrow> bool" where
  "received buf buf' a b ws \<longleftrightarrow>
     length buf' = length buf \<and> length ws = (b - a + 3) div 4 \<and>
     segment buf' a b = take (b - a) (bytes_of ws) \<and> take a buf' = take a buf \<and> drop b buf' = drop b buf"

lemma received_none: "received buf buf a a []"
  by (simp add: received_def)

lemma received_chunk:
  assumes "n \<le> 4" and "0 < n" and "unat off + n \<le> length buf"
    and "buf' = take (unat off) buf @ bytes_of_word n w @ drop (unat off + n) buf"
  shows "received buf buf' (unat off) (unat off + n) [w]"
  using assms by (auto simp: received_def segment_def take_bytes_of_word)

lemma received_append:
  assumes r1: "received buf buf1 a b ws1" and r2: "received buf1 buf2 b c ws2"
    and le: "a \<le> b" "b \<le> c" and dvd: "4 dvd b - a"
  shows "received buf buf2 a c (ws1 @ ws2)"
proof -
  from dvd obtain k where k: "b - a = 4 * k" by auto
  have c1: "c - a = 4 * k + (c - b)"
    using k le by simp
  have len1: "length ws1 = k"
    using r1 k by (simp add: received_def)
  have seg1: "segment buf1 a b = bytes_of ws1"
    using r1 k len1 by (simp add: received_def)
  have "take b buf2 = take b buf1" and d2: "drop c buf2 = drop c buf1"
    and seg2: "segment buf2 b c = take (c - b) (bytes_of ws2)"
    and len2: "length ws2 = (c - b + 3) div 4"
    using r2 by (simp_all add: received_def)
  then have "drop a (take b buf2) = drop a (take b buf1)" and "take a (take b buf2) = take a (take b buf1)"
    by simp_all
  then have "segment buf2 a b = segment buf1 a b" and t2: "take a buf2 = take a buf1"
    using le by (simp_all add: segment_def drop_take min_def)
  then have "segment buf2 a c = take (c - a) (bytes_of (ws1 @ ws2))"
    by (simp add: segment_append [OF le] seg1 seg2 c1 len1 bytes_of_append)
  moreover have "drop c buf1 = drop c buf"
  proof -
    have "drop (c - b) (drop b buf1) = drop (c - b) (drop b buf)"
      using r1 by (simp add: received_def)
    with le show ?thesis by simp
  qed
  moreover have "length (ws1 @ ws2) = (c - a + 3) div 4"
    by (simp add: c1 len1 len2)
  ultimately show ?thesis
    using r1 r2 t2 d2 by (simp add: received_def)
qed

lemma received_same: "received buf buf' a a ws \<Longrightarrow> buf' = buf \<and> ws = []"
  by (auto simp: received_def) (metis append_take_drop_id)

lemma chunked_length: "length buf' = length buf \<Longrightarrow> chunked buf' = chunked buf"
  by (simp add: chunked_def fun_eq_iff)

definition took :: "('d \<Rightarrow> u32 list) \<Rightarrow> u8 list \<Rightarrow> u32 \<Rightarrow> u32 \<Rightarrow> 'd \<Rightarrow> u8 list \<Rightarrow> u32 \<Rightarrow> 'd \<Rightarrow> bool" where
  "took taken buf sz off d buf' off' d' \<longleftrightarrow>
     chunked buf sz off off' \<and>
     (\<exists>ws. taken d' = taken d @ ws \<and> received buf buf' (unat off) (unat off') ws)"

lemma took_none: "off \<le> sz \<Longrightarrow> taken d' = taken d \<Longrightarrow> took taken buf sz off d buf off d'"
  by (auto simp: took_def chunked_refl received_none)

lemma took_length: "took taken buf sz off d buf' off' d' \<Longrightarrow> length buf' = length buf"
  by (auto simp: took_def received_def)

lemma took_trans:
  assumes t1: "took taken buf sz a d1 buf2 b d2" and "b < sz" and t2: "took taken buf2 sz b d2 buf3 c d3"
  shows "took taken buf sz a d1 buf3 c d3"
proof -
  obtain ws1 ws2 where ws: "taken d2 = taken d1 @ ws1" "received buf buf2 (unat a) (unat b) ws1"
    "taken d3 = taken d2 @ ws2" "received buf2 buf3 (unat b) (unat c) ws2"
    using t1 t2 by (auto simp: took_def)
  have ch: "chunked buf sz a b" "chunked buf sz b c"
    using t1 t2 by (simp_all add: took_def chunked_length [OF took_length [OF t1]])
  have "received buf buf3 (unat a) (unat c) (ws1 @ ws2)"
    using ch \<open>b < sz\<close> by (intro received_append [OF ws(2,4)]) (simp_all add: chunked_def word_le_nat_alt)
  with ws chunked_trans [OF ch(1) \<open>b < sz\<close> ch(2)] show ?thesis
    by (auto simp: took_def)
qed

lemma took_chunk:
  assumes "off < sz" and "buf_write buf off (bytes_of_word (unat (chunk_size sz off)) w) = Some buf'"
    and "taken d' = taken d @ [w]"
  shows "took taken buf sz off d buf' (off + chunk_size sz off) d'"
proof -
  have fits: "unat off + unat (chunk_size sz off) \<le> length buf"
    and buf': "buf' = take (unat off) buf @ bytes_of_word (unat (chunk_size sz off)) w
      @ drop (unat off + unat (chunk_size sz off)) buf"
    using assms(2) by (auto simp: buf_write_def split: if_splits)
  have "0 < unat (chunk_size sz off)" and "unat (chunk_size sz off) \<le> 4"
    using assms(1) by (simp_all add: unat_chunk_size [OF assms(1)] word_less_nat_alt)
  then have "received buf buf' (unat off) (unat (off + chunk_size sz off)) [w]"
    using fits buf' by (simp only: unat_add_chunk_size [OF assms(1)] received_chunk)
  moreover have "chunked buf sz off (off + chunk_size sz off)"
    by (rule chunked_next [OF assms(1) fits chunked_refl [OF add_chunk_size_le [OF assms(1)]]])
  ultimately show ?thesis
    using assms(3) by (auto simp: took_def)
qed

lemma took_end: "took taken buf sz sz d buf' off' d' \<Longrightarrow> off' = sz \<and> buf' = buf \<and> taken d' = taken d"
  by (auto simp: took_def chunked_def dest: received_same)

lemma mailbox_recv_loop_takes:
  "mailbox_recv_loop E base buf sz off d = Some (buf', off', d') \<Longrightarrow> takes_from E base taken \<Longrightarrow> off \<le> sz \<Longrightarrow>
    took taken buf sz off d buf' off' d'"
proof (induction E base buf sz off d rule: mailbox_recv_loop.induct)
  case (1 E base buf sz off d)
  obtain v d1 where rd: "env_read E (base + MB_STATUS) d = (v, d1)" by fastforce
  have "base + MB_STATUS \<noteq> base + MB_RDDATA"
    by simp
  from takes_fromD(1) [OF 1(3) this rd] have d1: "taken d1 = taken d" .
  show ?case
  proof (cases "off < sz \<and> v AND MBS_RX_EMPTY = 0")
    case False
    with 1(2,4) rd d1 show ?thesis
      by (auto simp: mailbox_recv_loop.simps [of E base buf sz off d] took_none split: if_splits)
  next
    case True
    obtain w d2 where rd2: "env_read E (base + MB_RDDATA) d1 = (w, d2)" by fastforce
    from True have lt: "off < sz" by simp
    obtain buf1 where wr: "buf_write buf off (bytes_of_word (unat (chunk_size sz off)) w) = Some buf1"
      and rest: "mailbox_recv_loop E base buf1 sz (off + chunk_size sz off) d2 = Some (buf', off', d')"
      using 1(2) rd rd2 True
      by (auto simp: mailbox_recv_loop.simps [of E base buf sz off d] Let_def split: Option.bind_splits)
    have "taken d2 = taken d @ [w]"
      using True by (intro takes_fromD(4) [OF 1(3) rd _ rd2]) simp
    note t1 = took_chunk [where taken = taken and d = d and d' = d2, OF lt wr this]
    have t2: "took taken buf1 sz (off + chunk_size sz off) d2 buf' off' d'"
      using 1(1) [of "(v, d1)" v d1 "(w, d2)" w d2] rd rd2 True wr rest 1(3) add_chunk_size_le [OF lt]
      by auto
    show ?thesis
    proof (cases "off + chunk_size sz off = sz")
      case True
      with t1 took_end [of taken buf1 sz d2 buf' off' d'] t2 show ?thesis
        by (simp add: took_def)
    next
      case False
      with add_chunk_size_le [OF lt] show ?thesis
        by (intro took_trans [OF t1 _ t2]) simp
    qed
  qed
qed

lemma mailbox_recv_takes:
  assumes "takes_from E (reg_base m) taken" and "off \<le> sz" and "mb_enable m"
    and "ntv2_mailbox_recv E m (Some buf) sz off d = Some (status, buffer, off', d')"
  shows "\<exists>buf'. buffer = Some buf' \<and>
      (status = STATUS_SUCCESS \<and> took taken buf sz off d buf' off' d'
       \<or> status = STATUS_FAIL \<and> off' = off \<and> (\<exists>x. took taken buf sz off d buf' x d'))"
proof -
  obtain buf' x d1 v where loop: "mailbox_recv_loop E (reg_base m) buf sz off d = Some (buf', x, d1)"
    and rd: "env_read E (reg_base m + MB_ERROR) d1 = (v, d')" and b: "buffer = Some buf'"
    and res: "if v \<noteq> 0 then status = STATUS_FAIL \<and> off' = off else status = STATUS_SUCCESS \<and> off' = x"
    using assms(3,4) by (auto simp: ntv2_mailbox_recv_def split: Option.bind_splits prod.splits if_splits)
  have "reg_base m + MB_ERROR \<noteq> reg_base m + MB_RDDATA"
    by simp
  from takes_fromD(1) [OF assms(1) this rd] have "taken d' = taken d1" .
  with mailbox_recv_loop_takes [OF loop assms(1,2)] res b show ?thesis
    by (auto simp: took_def split: if_splits)
qed

definition recv_result ::
  "('d \<Rightarrow> u32 list) \<Rightarrow> u8 list \<Rightarrow> u32 \<Rightarrow> u32 \<Rightarrow> u32 \<Rightarrow> 'd \<Rightarrow> int \<Rightarrow> u8 list option \<Rightarrow> u32 \<Rightarrow> 'd \<Rightarrow> bool" where
  "recv_result taken buf sz offset off d status buffer o' d' \<longleftrightarrow>
     (\<exists>x buf'. buffer = Some buf' \<and> took taken buf sz off d buf' x d' \<and>
        (status = STATUS_SUCCESS \<and> x = sz \<and> (o' = sz \<or> off = sz \<and> o' = offset) \<or>
         status = STATUS_TIMEOUT \<and> x = o' \<and> o' < sz \<or>
         status = STATUS_FAIL \<and> off \<le> o' \<and> o' \<le> x))"

lemma recv_result_step:
  assumes t: "took taken buf sz off d buf1 b d1" and "b < sz"
    and r: "recv_result taken buf1 sz offset b d1 status buffer o' d'"
  shows "recv_result taken buf sz offset off d status buffer o' d'"
proof -
  obtain x buf' where x: "buffer = Some buf'" "took taken buf1 sz b d1 buf' x d'"
    "status = STATUS_SUCCESS \<and> x = sz \<and> (o' = sz \<or> b = sz \<and> o' = offset) \<or>
     status = STATUS_TIMEOUT \<and> x = o' \<and> o' < sz \<or> status = STATUS_FAIL \<and> b \<le> o' \<and> o' \<le> x"
    using r by (auto simp: recv_result_def)
  have "off \<le> b"
    using t by (simp add: took_def chunked_def)
  with x(3) \<open>b < sz\<close>
  have "status = STATUS_SUCCESS \<and> x = sz \<and> (o' = sz \<or> off = sz \<and> o' = offset) \<or>
     status = STATUS_TIMEOUT \<and> x = o' \<and> o' < sz \<or> status = STATUS_FAIL \<and> off \<le> o' \<and> o' \<le> x"
    by (auto elim: order_trans)
  with x(1) took_trans [OF t \<open>b < sz\<close> x(2)] show ?thesis
    unfolding recv_result_def by blast
qed

lemma packet_recv_loop_takes:
  "packet_recv_loop E m sz delay timeout start offset buffer off d = Some y \<Longrightarrow>
    takes_from E (reg_base m) taken \<Longrightarrow> mb_enable m \<Longrightarrow> buffer = Some buf \<Longrightarrow> off \<le> sz \<Longrightarrow>
    recv_result taken buf sz offset off d (fst y) (fst (snd y)) (fst (snd (snd y))) (snd (snd (snd y)))"
proof (induction arbitrary: buf rule: packet_recv_loop.raw_induct [rotated, consumes 1])
  case (1 loop E m sz delay timeout start offset buffer off d y)
  note IH = 1(1) and eq = 1(2) and takes = 1(3) and enabled = 1(4) and buffer = 1(5) and le = 1(6)
  show ?case
  proof (cases "off < sz")
    case False
    with eq le buffer have "y = (STATUS_SUCCESS, Some buf, offset, d)" and "off = sz"
      by auto
    then show ?thesis
      by (simp add: recv_result_def took_none)
  next
    case True
    obtain status b1 off1 d1 where rcv_eq: "ntv2_mailbox_recv E m (Some buf) sz off d = Some (status, b1, off1, d1)"
      using eq True buffer by (cases "ntv2_mailbox_recv E m (Some buf) sz off d") auto
    obtain now d2 where time: "env_time E d1 = (now, d2)" by fastforce
    define d3 where "d3 = (if delay > 0 then env_sleep E delay d2 else d2)"
    have same: "taken d2 = taken d1" "taken d3 = taken d2"
      by (simp_all add: takes_fromD(2) [OF takes time] takes_fromD(3) [OF takes] d3_def)
    obtain buf1 where b1: "b1 = Some buf1"
      and res: "status = STATUS_SUCCESS \<and> took taken buf sz off d buf1 off1 d1
       \<or> status = STATUS_FAIL \<and> off1 = off \<and> (\<exists>x. took taken buf sz off d buf1 x d1)"
      using mailbox_recv_takes [OF takes le enabled rcv_eq] by blast
    have y: "y = (if status \<noteq> STATUS_SUCCESS then (status, b1, off1, d1)
        else if off1 \<ge> sz then (STATUS_SUCCESS, b1, off1, d1) else (STATUS_TIMEOUT, b1, off1, d2))"
      if "status \<noteq> STATUS_SUCCESS \<or> off1 \<ge> sz \<or> (now - start) sdiv 10 > uint timeout"
      using eq that True buffer rcv_eq time by (auto split: if_splits)
    show ?thesis
    proof (cases "status \<noteq> STATUS_SUCCESS \<or> off1 \<ge> sz \<or> (now - start) sdiv 10 > uint timeout")
      case True
      show ?thesis
        unfolding y [OF True] recv_result_def using res same(1) True b1
        by (auto simp: took_def chunked_def)
    next
      case False
      with eq True buffer rcv_eq time
      have loop: "loop E m sz delay timeout start offset b1 off1 d3 = Some y"
        by (simp add: d3_def)
      have t: "took taken buf sz off d buf1 off1 d3" and "off1 < sz"
        using res same False by (simp_all add: took_def not_le)
      from IH [OF loop takes enabled b1] \<open>off1 < sz\<close>
      show ?thesis
        by (intro recv_result_step [OF t]) simp_all
    qed
  qed
qed

section \<open>Packets\<close>

lemma packet_send_sends:
  assumes "sends_to E (reg_base m) sent" and "mb_enable m" and "off \<le> sz"
    and "ntv2_packet_send E m (Some buf) sz off delay timeout d = Some (status, o', d')"
  shows "send_result sent buf sz off off d status o' d'"
proof -
  obtain start d1 where time: "env_time E d = (start, d1)" by fastforce
  with assms(2,4)
  have "packet_send_loop E m (Some buf) sz delay timeout start off off d1 = Some (status, o', d')"
    by (simp add: ntv2_packet_send_def)
  from packet_send_loop_sends [OF this assms(1,2) refl assms(3)] show ?thesis
    by (simp add: send_result_def sends_toD(2) [OF assms(1) time])
qed

lemma packet_recv_takes:
  assumes "takes_from E (reg_base m) taken" and "mb_enable m" and "off \<le> sz"
    and "ntv2_packet_recv E m (Some buf) sz off delay timeout d = Some (status, b, o', d')"
  shows "recv_result taken buf sz off off d status b o' d'"
proof -
  obtain start d1 where time: "env_time E d = (start, d1)" by fastforce
  with assms(2,4)
  have "packet_recv_loop E m sz delay timeout start off (Some buf) off d1 = Some (status, b, o', d')"
    by (simp add: ntv2_packet_recv_def)
  from packet_recv_loop_takes [OF this assms(1,2) refl assms(3)] show ?thesis
    by (simp add: recv_result_def took_def takes_fromD(2) [OF assms(1) time])
qed

end
