(* ===== verification/Ntv2MailboxClock.thy ===== *)
theory Ntv2MailboxClock
  imports Ntv2Mailbox
begin

text \<open>
  The loops of the mailbox return when the clock runs: it does not go back, and a sleep with
  a delay moves it on.
\<close>

definition clock_runs :: "'d mailbox_env \<Rightarrow> ('d \<Rightarrow> int) \<Rightarrow> bool" where
  "clock_runs E clk \<longleftrightarrow>
     (\<forall>r d. clk d \<le> clk (snd (env_read E r d))) \<and>
     (\<forall>r w d. clk d \<le> clk (env_write E r w d)) \<and>
     (\<forall>d. clk d \<le> fst (env_time E d) \<and> fst (env_time E d) \<le> clk (snd (env_time E d))) \<and>
     (\<forall>n d. 0 < n \<longrightarrow> clk d < clk (env_sleep E n d))"

lemma clock_runsD:
  assumes "clock_runs E clk"
  shows "env_read E r d = (v, d') \<Longrightarrow> clk d \<le> clk d'"
    and "clk d \<le> clk (env_write E r w d)"
    and "env_time E d = (now, d') \<Longrightarrow> clk d \<le> now \<and> now \<le> clk d'"
    and "0 < n \<Longrightarrow> clk d < clk (env_sleep E n d)"
  using assms unfolding clock_runs_def by (metis snd_conv, metis, metis fst_conv snd_conv, metis)

lemma chunk_fits:
  assumes "off < sz" and "unat sz \<le> length buf"
  shows "unat off + unat (chunk_size sz off) \<le> length buf"
  using assms by (auto simp: unat_chunk_size word_less_nat_alt min_def)

lemma mailbox_send_loop_returns:
  "clock_runs E clk \<Longrightarrow> unat sz \<le> length buf \<Longrightarrow> off \<le> sz \<Longrightarrow>
    \<exists>off' d'. mailbox_send_loop E base buf sz off d = Some (off', d') \<and> off' \<le> sz \<and> clk d \<le> clk d'"
proof (induction E base buf sz off d rule: mailbox_send_loop.induct)
  case (1 E base buf sz off d)
  obtain v d1 where rd: "env_read E (base + MB_STATUS) d = (v, d1)" by fastforce
  have d1: "clk d \<le> clk d1"
    by (rule clock_runsD(1) [OF 1(2) rd])
  show ?case
  proof (cases "off < sz \<and> v AND MBS_TX_FULL = 0")
    case False
    with 1(4) rd d1 show ?thesis
      by (auto simp: mailbox_send_loop.simps [of E base buf sz off d])
  next
    case True
    then have lt: "off < sz" by simp
    note fits = chunk_fits [OF lt 1(3)] add_chunk_size_le [OF lt]
    define bs where "bs = take (unat (chunk_size sz off)) (drop (unat off) buf)"
    define d2 where "d2 = env_write E (base + MB_WRDATA) (word_of_bytes bs) d1"
    have rdb: "buf_read buf off (chunk_size sz off) = Some bs"
      using fits by (simp add: buf_read_def bs_def)
    have "clk d1 \<le> clk d2"
      unfolding d2_def by (rule clock_runsD(2) [OF 1(2)])
    moreover obtain off' d' where "mailbox_send_loop E base buf sz (off + chunk_size sz off) d2 = Some (off', d')"
      "off' \<le> sz" "clk d2 \<le> clk d'"
      using 1(1) [of "(v, d1)" v d1 "chunk_size sz off" bs d2] rd True rdb 1(2,3) fits(2)
      by (auto simp: d2_def)
    moreover have "mailbox_send_loop E base buf sz off d = mailbox_send_loop E base buf sz (off + chunk_size sz off) d2"
      using rd True rdb by (simp add: mailbox_send_loop.simps [of E base buf sz off d] d2_def)
    ultimately show ?thesis
      using d1 by auto
  qed
qed

lemma mailbox_recv_loop_returns:
  "clock_runs E clk \<Longrightarrow> unat sz \<le> length buf \<Longrightarrow> off \<le> sz \<Longrightarrow>
    \<exists>buf' off' d'. mailbox_recv_loop E base buf sz off d = Some (buf', off', d') \<and>
      length buf' = length buf \<and> off' \<le> sz \<and> clk d \<le> clk d'"
proof (induction E base buf sz off d rule: mailbox_recv_loop.induct)
  case (1 E base buf sz off d)
  obtain v d1 where rd: "env_read E (base + MB_STATUS) d = (v, d1)" by fastforce
  have d1: "clk d \<le> clk d1"
    by (rule clock_runsD(1) [OF 1(2) rd])
  show ?case
  proof (cases "off < sz \<and> v AND MBS_RX_EMPTY = 0")
    case False
    with 1(4) rd d1 show ?thesis
      by (auto simp: mailbox_recv_loop.simps [of E base buf sz off d])
  next
    case True
    then have lt: "off < sz" by simp
    note fits = chunk_fits [OF lt 1(3)] add_chunk_size_le [OF lt]
    obtain w d2 where rd2: "env_read E (base + MB_RDDATA) d1 = (w, d2)" by fastforce
    obtain buf1 where wr: "buf_write buf off (bytes_of_word (unat (chunk_size sz off)) w) = Some buf1"
      and len: "length buf1 = length buf"
      using fits by (simp add: buf_write_def)
    have "clk d1 \<le> clk d2"
      by (rule clock_runsD(1) [OF 1(2) rd2])
    moreover obtain buf' off' d' where
      "mailbox_recv_loop E base buf1 sz (off + chunk_size sz off) d2 = Some (buf', off', d')"
      "length buf' = length buf1" "off' \<le> sz" "clk d2 \<le> clk d'"
      using 1(1) [of "(v, d1)" v d1 "(w, d2)" w d2 "chunk_size sz off" buf1] rd rd2 True wr len 1(2,3) fits(2)
      by auto
    moreover have "mailbox_recv_loop E base buf sz off d = mailbox_recv_loop E base buf1 sz (off + chunk_size sz off) d2"
      using rd rd2 True wr by (simp add: mailbox_recv_loop.simps [of E base buf sz off d])
    ultimately show ?thesis
      using d1 len by auto
  qed
qed

lemma mailbox_send_returns:
  assumes "clock_runs E clk" and "unat sz \<le> length buf" and "off \<le> sz"
  shows "\<exists>status off' d'. ntv2_mailbox_send E m (Some buf) sz off d = Some (status, off', d') \<and>
    off' \<le> sz \<and> clk d \<le> clk d'"
proof (cases "mb_enable m")
  case True
  obtain off1 d1 where loop: "mailbox_send_loop E (reg_base m) buf sz off d = Some (off1, d1)" "off1 \<le> sz" "clk d \<le> clk d1"
    using mailbox_send_loop_returns [OF assms] by blast
  obtain v d2 where rd: "env_read E (reg_base m + MB_ERROR) d1 = (v, d2)" by fastforce
  from loop(3) clock_runsD(1) [OF assms(1) rd] have "clk d \<le> clk d2"
    by simp
  with True loop rd assms(3) show ?thesis
    by (simp add: ntv2_mailbox_send_def)
next
  case False
  with assms(3) show ?thesis by (simp add: ntv2_mailbox_send_def)
qed

lemma mailbox_recv_returns:
  assumes "clock_runs E clk" and "unat sz \<le> length buf" and "off \<le> sz"
  shows "\<exists>status buf' off' d'. ntv2_mailbox_recv E m (Some buf) sz off d = Some (status, Some buf', off', d') \<and>
    length buf' = length buf \<and> off' \<le> sz \<and> clk d \<le> clk d'"
proof (cases "mb_enable m")
  case True
  obtain buf1 off1 d1 where loop: "mailbox_recv_loop E (reg_base m) buf sz off d = Some (buf1, off1, d1)"
    "length buf1 = length buf" "off1 \<le> sz" "clk d \<le> clk d1"
    using mailbox_recv_loop_returns [OF assms] by blast
  obtain v d2 where rd: "env_read E (reg_base m + MB_ERROR) d1 = (v, d2)" by fastforce
  from loop(4) clock_runsD(1) [OF assms(1) rd] have "clk d \<le> clk d2"
    by simp
  with True loop rd assms(3) show ?thesis
    by (simp add: ntv2_mailbox_recv_def)
next
  case False
  with assms(3) show ?thesis by (simp add: ntv2_mailbox_recv_def)
qed

text \<open>
  The time that a packet may still take: it falls with every round of the loop, since a round
  that goes on has found the clock before the end of the timeout, and has slept.
\<close>

definition time_left :: "('d \<Rightarrow> int) \<Rightarrow> u32 \<Rightarrow> int \<Rightarrow> 'd \<Rightarrow> nat" where
  "time_left clk timeout start d = nat (start + 10 * uint timeout + 10 - clk d)"

lemma not_timed_out:
  assumes "\<not> (now - start) sdiv 10 > uint (timeout :: u32)"
  shows "now < start + 10 * uint timeout + 10"
proof (cases "now - start \<ge> 0")
  case True
  then have "(now - start) sdiv 10 = (now - start) div 10"
    by (simp add: signed_divide_int_def sgn_if)
  with assms show ?thesis by simp
next
  case False
  moreover have "0 \<le> uint timeout" by simp
  ultimately show ?thesis by linarith
qed

lemma time_left_falls:
  assumes "clock_runs E clk" and "clk d \<le> clk d1" and "env_time E d1 = (now, d2)"
    and "\<not> (now - start) sdiv 10 > uint timeout" and "0 < delay"
  shows "time_left clk timeout start (env_sleep E delay d2) < time_left clk timeout start d"
  using assms(2) clock_runsD(3) [OF assms(1,3)] clock_runsD(4) [OF assms(1,5), of d2] not_timed_out [OF assms(4)]
  by (simp add: time_left_def)

lemma packet_send_loop_returns:
  assumes "clock_runs E clk" and "0 < delay" and "unat sz \<le> length buf"
  shows "off \<le> sz \<Longrightarrow> \<exists>y. packet_send_loop E m (Some buf) sz delay timeout start offset off d = Some y"
proof (induction "time_left clk timeout start d" arbitrary: off d rule: less_induct)
  case less
  show ?case
  proof (cases "off < sz")
    case False
    then show ?thesis by (simp add: packet_send_loop.simps [of E m _ _ _ _ _ _ off])
  next
    case True
    obtain status off1 d1 where snd_eq: "ntv2_mailbox_send E m (Some buf) sz off d = Some (status, off1, d1)"
      and off1: "off1 \<le> sz" "clk d \<le> clk d1"
      using mailbox_send_returns [OF assms(1,3) less.prems] by blast
    obtain now d2 where time: "env_time E d1 = (now, d2)" by fastforce
    show ?thesis
    proof (cases "status \<noteq> STATUS_SUCCESS \<or> off1 \<ge> sz \<or> (now - start) sdiv 10 > uint timeout")
      case stop: True
      with True snd_eq time show ?thesis
        by (auto simp: packet_send_loop.simps [of E m _ _ _ _ _ _ off])
    next
      case go: False
      then have "time_left clk timeout start (env_sleep E delay d2) < time_left clk timeout start d"
        by (intro time_left_falls [OF assms(1) off1(2) time _ assms(2)]) simp
      from less.hyps [OF this off1(1)] True go snd_eq time assms(2) show ?thesis
        by (auto simp: packet_send_loop.simps [of E m _ _ _ _ _ _ off])
    qed
  qed
qed

lemma packet_recv_loop_returns:
  assumes "clock_runs E clk" and "0 < delay"
  shows "unat sz \<le> length buf \<Longrightarrow> off \<le> sz \<Longrightarrow> offset \<le> sz \<Longrightarrow>
    \<exists>status buf' o' d'. packet_recv_loop E m sz delay timeout start offset (Some buf) off d = Some (status, Some buf', o', d') \<and>
      length buf' = length buf \<and> o' \<le> sz"
proof (induction "time_left clk timeout start d" arbitrary: buf off d rule: less_induct)
  case less
  show ?case
  proof (cases "off < sz")
    case False
    with less.prems show ?thesis by (subst packet_recv_loop.simps) simp
  next
    case True
    obtain status buf1 off1 d1 where
      rcv_eq: "ntv2_mailbox_recv E m (Some buf) sz off d = Some (status, Some buf1, off1, d1)"
      and off1: "length buf1 = length buf" "off1 \<le> sz" "clk d \<le> clk d1"
      using mailbox_recv_returns [OF assms(1) less.prems(1,2)] by blast
    obtain now d2 where time: "env_time E d1 = (now, d2)" by fastforce
    show ?thesis
    proof (cases "status \<noteq> STATUS_SUCCESS \<or> off1 \<ge> sz \<or> (now - start) sdiv 10 > uint timeout")
      case stop: True
      with True rcv_eq time off1 show ?thesis
        by (auto simp: packet_recv_loop.simps [of E m _ _ _ _ _ _ off])
    next
      case go: False
      then have "time_left clk timeout start (env_sleep E delay d2) < time_left clk timeout start d"
        by (intro time_left_falls [OF assms(1) off1(3) time _ assms(2)]) simp
      from less.hyps [OF this, of buf1 off1] less.prems True go rcv_eq time assms(2) off1 show ?thesis
        by (auto simp: packet_recv_loop.simps [of E m _ _ _ _ _ _ off])
    qed
  qed
qed

lemma packet_send_returns:
  assumes "clock_runs E clk" and "0 < delay" and "unat sz \<le> length buf" and "off \<le> sz"
  shows "\<exists>status o' d'. ntv2_packet_send E m (Some buf) sz off delay timeout d = Some (status, o', d')"
proof -
  obtain start d1 where time: "env_time E d = (start, d1)" by fastforce
  with packet_send_loop_returns [OF assms, of m timeout start off d1] show ?thesis
    by (auto simp: ntv2_packet_send_def)
qed

lemma packet_recv_returns:
  assumes "clock_runs E clk" and "0 < delay" and "unat sz \<le> length buf" and "off \<le> sz"
  shows "\<exists>status buf' o' d'. ntv2_packet_recv E m (Some buf) sz off delay timeout d = Some (status, Some buf', o', d')
    \<and> length buf' = length buf \<and> o' \<le> sz"
proof -
  obtain start d1 where time: "env_time E d = (start, d1)" by fastforce
  with packet_recv_loop_returns [OF assms(1-4) assms(4), of m timeout start d1] assms(4) show ?thesis
    by (auto simp: ntv2_packet_recv_def)
qed

end
