(* ===== verification/Ntv2MailboxTheorems.thy ===== *)
theory Ntv2MailboxTheorems
  imports Ntv2MailboxQueue Ntv2MailboxClock
begin

text \<open>
  Properties of the mailbox: what a packet sends, that a packet that is received is the packet
  that was sent, and which messages of an application access memory outside the buffers.
\<close>

section \<open>A mailbox for the witnesses\<close>

text \<open>
  The state of the example is the words sent, the words to receive, the words taken and the
  clock. Its send queue is never full.
\<close>

type_synonym example_queues = "u32 list \<times> u32 list \<times> u32 list \<times> int"

fun example_read :: "u32 \<Rightarrow> example_queues \<Rightarrow> u32 \<times> example_queues" where
  "example_read r (s, q, t, c) =
     (if r = MB_STATUS then (if q = [] then MBS_RX_EMPTY else 0, s, q, t, c)
      else if r = MB_RDDATA then (case q of [] \<Rightarrow> (0, s, q, t, c) | w # q' \<Rightarrow> (w, s, q', t @ [w], c))
      else (0, s, q, t, c))"

fun example_write :: "u32 \<Rightarrow> u32 \<Rightarrow> example_queues \<Rightarrow> example_queues" where
  "example_write r w (s, q, t, c) = (if r = MB_WRDATA then (s @ [w], q, t, c) else (s, q, t, c))"

definition example_env :: "example_queues mailbox_env" where
  "example_env = \<lparr>env_read = example_read, env_write = example_write,
     env_time = (\<lambda>(s, q, t, c). (c, s, q, t, c)),
     env_sleep = (\<lambda>n (s, q, t, c). (s, q, t, c + 10 * uint n)),
     env_from_user = (\<lambda>n d. (replicate (unat n) 7, 0)),
     env_to_user = (\<lambda>bytes d. (0, d))\<rparr>"

definition example_box :: ntv2_mailbox where
  "example_box = \<lparr>mb_index = 0, reg_base = 0, send_data = None,
     recv_data = None, mb_enable = True\<rparr>"

lemma example_sends: "sends_to example_env 0 fst"
  by (auto simp: sends_to_def example_env_def split: list.splits)

lemma example_takes: "takes_from example_env 0 (\<lambda>(s, q, t, c). t)"
  by (auto simp: takes_from_def example_env_def split: list.splits)

lemma example_clock: "clock_runs example_env (\<lambda>(s, q, t, c). c)"
  by (auto simp: clock_runs_def example_env_def word_less_def split: list.splits)

lemma example_sent:
  "ntv2_packet_send example_env example_box (Some [1, 2, 3, 4, 5]) 5 0 1 1000 ([], [], [], 0)
    = Some (STATUS_SUCCESS, 0, [0x04030201, 5], [], [], 0)"
  by code_simp

lemma example_received:
  "ntv2_packet_recv example_env example_box (Some [0, 0, 0, 0, 0, 9]) 5 0 1 1000 ([], [0x04030201, 5], [], 0)
    = Some (STATUS_SUCCESS, Some [1, 2, 3, 4, 5, 9], 5, [], [], [0x04030201, 5], 0)"
  by code_simp

section \<open>Packets\<close>

text \<open>C31: \<open>ntv2_packet_send\<close> puts the bytes of the packet into the send queue in order, each of them once,
  as little-endian words. It reports success exactly when it has sent all of them, and then leaves the
  offset of the caller where it was, unlike \<open>ntv2_packet_recv\<close>. After a timeout the offset is the
  number of bytes sent; after a failure it can be smaller: the words of the last round are
  not counted, and a caller that resumes at the offset sends them again.
\<close>

theorem packet_sends_bytes_in_order:
  assumes "sends_to E (reg_base m) sent" and "mb_enable m" and "off \<le> sz"
    and "ntv2_packet_send E m (Some buf) sz off delay timeout d = Some (status, o', d')"
  shows "\<exists>x. off \<le> x \<and> x \<le> sz \<and>
    sent d' = sent d @ words_of (segment buf (unat off) (unat x)) \<and>
    (status = STATUS_SUCCESS \<and> x = sz \<and> o' = off \<or>
     status = STATUS_TIMEOUT \<and> x = o' \<and> o' < sz \<or>
     status = STATUS_FAIL \<and> off \<le> o' \<and> o' \<le> x)"
  using packet_send_sends [OF assms] unfolding send_result_def chunked_def by blast

theorem packet_sends_bytes_in_order_witness:
  "\<exists>x. 0 \<le> x \<and> x \<le> (5 :: u32) \<and>
    [0x04030201, 5] = [] @ words_of (segment [1, 2, 3, 4, 5] (unat (0 :: u32)) (unat x)) \<and>
    (STATUS_SUCCESS = STATUS_SUCCESS \<and> x = 5 \<and> 0 = (0 :: u32) \<or>
     STATUS_SUCCESS = STATUS_TIMEOUT \<and> x = 0 \<and> 0 < (5 :: u32) \<or>
     STATUS_SUCCESS = STATUS_FAIL \<and> 0 \<le> (0 :: u32) \<and> 0 \<le> x)"
  using packet_sends_bytes_in_order [OF _ _ _ example_sent, of fst] example_sends
  by (simp add: example_box_def)

text \<open>C32: A packet that \<open>ntv2_packet_recv\<close> receives is the packet that \<open>ntv2_packet_send\<close> sent, when the
  words taken are, in order, words that were sent: the bytes of the packet are equal, the offset is at its
  end, and no other byte of the buffer has changed.
\<close>

theorem packet_round_trip:
  assumes snd: "sends_to E (reg_base m) sent" "mb_enable m" and rcv: "takes_from E' (reg_base m') taken" "mb_enable m'"
    and le: "off \<le> sz"
    and s: "ntv2_packet_send E m (Some buf) sz off delay timeout d = Some (STATUS_SUCCESS, o1, d')"
    and r: "ntv2_packet_recv E' m' (Some buf1) sz off delay' timeout' e = Some (STATUS_SUCCESS, Some buf2, o2, e')"
    and fifo: "sent d' = sent d @ ws" "taken e' = taken e @ ws'" "prefix ws' ws"
    and len: "unat sz \<le> length buf"
  shows "o2 = sz \<and> segment buf2 (unat off) (unat sz) = segment buf (unat off) (unat sz) \<and>
    take (unat off) buf2 = take (unat off) buf1 \<and> drop (unat sz) buf2 = drop (unat sz) buf1"
proof -
  define packet where "packet = segment buf (unat off) (unat sz)"
  have "send_result sent buf sz off off d STATUS_SUCCESS o1 d'"
    by (rule packet_send_sends [OF snd le s])
  then have ws: "ws = words_of packet"
    using fifo(1) by (simp add: send_result_def packet_def)
  have "recv_result taken buf1 sz off off e STATUS_SUCCESS (Some buf2) o2 e'"
    by (rule packet_recv_takes [OF rcv le r])
  then have o2: "o2 = sz" and rec: "received buf1 buf2 (unat off) (unat sz) ws'"
    using fifo(2) by (auto simp: recv_result_def took_def)
  have plen: "length packet = unat sz - unat off"
    using len by (simp add: packet_def length_segment)
  have "length ws' = length ws"
    using rec by (simp add: received_def ws length_words_of plen)
  then have "ws' = ws"
    using fifo(3) by (auto simp: prefix_def)
  then have "segment buf2 (unat off) (unat sz) = take (length packet) (bytes_of (words_of packet))"
    using rec ws by (simp add: received_def plen)
  with rec o2 show ?thesis
    by (simp only: bytes_of_words_of packet_def received_def simp_thms)
qed

theorem packet_round_trip_witness:
  "(5 :: u32) = 5 \<and> segment [1, 2, 3, 4, 5, 9] (unat (0 :: u32)) (unat (5 :: u32))
      = segment [1, 2, 3, 4, 5 :: u8] (unat (0 :: u32)) (unat (5 :: u32)) \<and>
    take (unat (0 :: u32)) [1, 2, 3, 4, 5, 9] = take (unat (0 :: u32)) [0, 0, 0, 0, 0, 9 :: u8] \<and>
    drop (unat (5 :: u32)) [1, 2, 3, 4, 5, 9] = drop (unat (5 :: u32)) [0, 0, 0, 0, 0, 9 :: u8]"
  by (rule packet_round_trip [OF _ _ _ _ _ example_sent example_received,
        where sent = fst and taken = "\<lambda>(s, q, t, c). t" and ws = "[0x04030201, 5]" and ws' = "[0x04030201, 5]"])
    (simp_all add: example_sends example_takes example_box_def)

section \<open>The message\<close>

definition boxes_ok :: "ntv2_mailbox option list \<Rightarrow> bool" where
  "boxes_ok boxes \<longleftrightarrow> length boxes = 4 \<and>
     (\<forall>m. Some m \<in> set boxes \<longrightarrow>
        (\<exists>s r. send_data m = Some s \<and> length s = 4096 \<and> recv_data m = Some r \<and> length r = 4096))"

lemma configured_box_ok:
  "boxes_ok [Some (snd (ntv2_mailbox_configure True True base m)), None, None, None]"
  by (auto simp: boxes_ok_def ntv2_mailbox_configure_def Let_def)

lemma mail_recv_returns:
  assumes "clock_runs E clk" and "0 < mb_mDelay p" and "recv_data m = Some r" and "length r = 4096"
  shows "\<exists>y. mail_recv E m p d = Some y"
proof (cases "mb_fByteCount p > NTV2_MAIL_BUFFER_MAX")
  case True
  then show ?thesis by (simp add: mail_recv_def)
next
  case False
  then have "unat (mb_fByteCount p) \<le> length r"
    using assms(4) by (simp add: word_less_nat_alt not_less)
  from packet_recv_returns [OF assms(1,2) this, of 0 m "mb_mTimeout p" d]
  obtain status buf' o' d' where
    "ntv2_packet_recv E m (Some r) (mb_fByteCount p) 0 (mb_mDelay p) (mb_mTimeout p) d = Some (status, Some buf', o', d')"
    and b: "length buf' = length r" "o' \<le> mb_fByteCount p"
    by auto
  moreover from b False assms(4) have "buf_read buf' 0 o' \<noteq> None"
    by (simp add: buf_read_def word_le_nat_alt word_less_nat_alt)
  ultimately show ?thesis
    using False assms(3) by (auto simp: mail_recv_def Let_def split: prod.splits)
qed

lemma mail_send_undefined_iff:
  assumes "clock_runs E clk" and "0 < mb_mDelay p" and "send_data m = Some s" and "length s = 4096"
    and "\<forall>n d. length (fst (env_from_user E n d)) = unat n"
  shows "mail_send E m p d = None \<longleftrightarrow>
    mb_fByteCount p \<le> NTV2_MAIL_BUFFER_MAX \<and> mb_mDataSize p > NTV2_MAIL_BUFFER_MAX"
proof -
  obtain bytes ret where user: "env_from_user E (mb_mDataSize p) d = (bytes, ret)" by fastforce
  then have blen: "length bytes = unat (mb_mDataSize p)"
    using assms(5) by (metis fst_conv)
  consider "mb_fByteCount p > NTV2_MAIL_BUFFER_MAX"
    | "\<not> mb_fByteCount p > NTV2_MAIL_BUFFER_MAX" "mb_mDataSize p > NTV2_MAIL_BUFFER_MAX"
    | "\<not> mb_fByteCount p > NTV2_MAIL_BUFFER_MAX" "\<not> mb_mDataSize p > NTV2_MAIL_BUFFER_MAX"
    by blast
  then show ?thesis
  proof cases
    case 1
    then have "\<not> mb_fByteCount p \<le> NTV2_MAIL_BUFFER_MAX"
      by simp
    with 1 show ?thesis by (simp add: mail_send_def)
  next
    case 2
    then have "buf_write s 0 bytes = None"
      using assms(4) blen by (simp add: buf_write_def word_less_nat_alt)
    with 2 user assms(3) show ?thesis
      by (simp add: mail_send_def)
  next
    case 3
    then have n: "unat (mb_mDataSize p) \<le> 4096"
      by (simp add: word_less_nat_alt)
    then obtain s' where s': "buf_write s 0 bytes = Some s'" "length s' = 4096"
      using assms(4) blen by (auto simp: buf_write_def)
    have "\<exists>status o' d'. ntv2_packet_send E (m\<lparr>send_data := Some s'\<rparr>) (Some s') (mb_mDataSize p) 0
        (mb_mDelay p) (mb_mTimeout p) d = Some (status, o', d')"
      using n s'(2) by (intro packet_send_returns [OF assms(1,2)]) simp_all
    with 3 user assms(3) s'(1) show ?thesis
      by (auto simp: mail_send_def Let_def)
  qed
qed

lemma mail_send_keeps:
  assumes "mail_send E m p d = Some (go_on, ret, m', p', d')"
  shows "recv_data m' = recv_data m" and "mb_mDelay p' = mb_mDelay p" and "mb_mFlags p' = mb_mFlags p"
  using assms by (auto simp: mail_send_def Let_def split: Option.bind_splits prod.splits if_splits)


text \<open>A message that overruns the send buffer: the application's buffer is empty, the data size 5000.\<close>

definition example_message :: "u32 \<Rightarrow> NTV2MailBuffer" where
  "example_message n = \<lparr>mb_mChannel = 0, mb_fByteCount = 0, mb_mDataSize = n, mb_mFlags = NTV2_MAIL_BUFFER_SEND,
     mb_mDelay = 1, mb_mTimeout = 1000, mb_mStatus = 0\<rparr>"

definition example_boxes :: "ntv2_mailbox option list" where
  "example_boxes = [Some (snd (ntv2_mailbox_configure True True 0 example_box)), None, None, None]"


end
