(* ===== verification/Ntv2Stream.thy ===== *)
theory Ntv2Stream
  imports Ntv2Prelude
begin

text \<open>
  The DMA streams of driver/ntv2stream.c: a ring of 256 buffers that an application queues and
  releases, and that the interrupts of a DMA engine advance.

  The engine is behind an interface of ten operations, \<open>stream_ops\<close>, that the driver of the
  engine provides; its state is the field \<open>dma_engine\<close>, of type \<open>'d\<close>. The handles of the
  operating system appear as follows. Taking the semaphore \<open>state_sema\<close> may time out: the argument
  \<open>down\<close> says whether it was taken. A reading of the clock is the argument \<open>now\<close>, one for each
  operation. An event is a flag, set when it is signalled. The functions return an \<open>int\<close>, since
  \<open>Ntv2Status\<close> is one in C, and some of them return a code of \<open>stream_ops\<close> instead of an
  \<open>Ntv2Status\<close>. The indices of the ring are \<open>uint32_t\<close> in C; they stay below 256, and are natural
  numbers here. The pointers to the stream and to the message are never null.
\<close>

section \<open>Constants\<close>

abbreviation (input) NTV2_STREAM_NUM_BUFFERS :: nat where "NTV2_STREAM_NUM_BUFFERS \<equiv> 256"
abbreviation (input) NTV2_STREAM_WAIT_CLIENTS :: nat where "NTV2_STREAM_WAIT_CLIENTS \<equiv> 10"
abbreviation (input) NTV2_STREAM_OPS_FAIL :: int where "NTV2_STREAM_OPS_FAIL \<equiv> 0"
abbreviation (input) NTV2_STREAM_OPS_SUCCESS :: int where "NTV2_STREAM_OPS_SUCCESS \<equiv> 1"
abbreviation (input) STATUS_SUCCESS :: int where "STATUS_SUCCESS \<equiv> 0"
abbreviation (input) STATUS_FAIL :: int where "STATUS_FAIL \<equiv> -1"

abbreviation (input) NTV2_STREAM_CHANNEL_STATE_DISABLED :: u32 where "NTV2_STREAM_CHANNEL_STATE_DISABLED \<equiv> 0x01"
abbreviation (input) NTV2_STREAM_CHANNEL_STATE_INITIALIZED :: u32 where "NTV2_STREAM_CHANNEL_STATE_INITIALIZED \<equiv> 0x02"
abbreviation (input) NTV2_STREAM_CHANNEL_STATE_RELEASED :: u32 where "NTV2_STREAM_CHANNEL_STATE_RELEASED \<equiv> 0x04"
abbreviation (input) NTV2_STREAM_CHANNEL_STATE_IDLE :: u32 where "NTV2_STREAM_CHANNEL_STATE_IDLE \<equiv> 0x08"
abbreviation (input) NTV2_STREAM_CHANNEL_STATE_ACTIVE :: u32 where "NTV2_STREAM_CHANNEL_STATE_ACTIVE \<equiv> 0x10"
abbreviation (input) NTV2_STREAM_CHANNEL_STATE_ERROR :: u32 where "NTV2_STREAM_CHANNEL_STATE_ERROR \<equiv> 0x20"

abbreviation (input) NTV2_STREAM_BUFFER_STATE_QUEUED :: u32 where "NTV2_STREAM_BUFFER_STATE_QUEUED \<equiv> 0x01"
abbreviation (input) NTV2_STREAM_BUFFER_STATE_LINKED :: u32 where "NTV2_STREAM_BUFFER_STATE_LINKED \<equiv> 0x02"
abbreviation (input) NTV2_STREAM_BUFFER_STATE_COMPLETED :: u32 where "NTV2_STREAM_BUFFER_STATE_COMPLETED \<equiv> 0x04"
abbreviation (input) NTV2_STREAM_BUFFER_STATE_FLUSHED :: u32 where "NTV2_STREAM_BUFFER_STATE_FLUSHED \<equiv> 0x08"
abbreviation (input) NTV2_STREAM_BUFFER_STATE_RELEASED :: u32 where "NTV2_STREAM_BUFFER_STATE_RELEASED \<equiv> 0x10"
abbreviation (input) NTV2_STREAM_BUFFER_STATE_ERROR :: u32 where "NTV2_STREAM_BUFFER_STATE_ERROR \<equiv> 0x20"

abbreviation (input) NTV2_STREAM_STATUS_SUCCESS :: u32 where "NTV2_STREAM_STATUS_SUCCESS \<equiv> 0x01"
abbreviation (input) NTV2_STREAM_STATUS_FAIL :: u32 where "NTV2_STREAM_STATUS_FAIL \<equiv> 0x02"
abbreviation (input) NTV2_STREAM_STATUS_STATE :: u32 where "NTV2_STREAM_STATUS_STATE \<equiv> 0x04"
abbreviation (input) NTV2_STREAM_STATUS_MESSAGE :: u32 where "NTV2_STREAM_STATUS_MESSAGE \<equiv> 0x08"
abbreviation (input) NTV2_STREAM_STATUS_INVALID :: u32 where "NTV2_STREAM_STATUS_INVALID \<equiv> 0x10"
abbreviation (input) NTV2_STREAM_STATUS_TIMEOUT :: u32 where "NTV2_STREAM_STATUS_TIMEOUT \<equiv> 0x20"
abbreviation (input) NTV2_STREAM_STATUS_RESOURCE :: u32 where "NTV2_STREAM_STATUS_RESOURCE \<equiv> 0x40"
abbreviation (input) NTV2_STREAM_STATUS_OWNER :: u32 where "NTV2_STREAM_STATUS_OWNER \<equiv> 0x80"

section \<open>The stream\<close>

datatype ntv2_stream_state =
    ntv2_stream_state_unknown
  | ntv2_stream_state_disabled
  | ntv2_stream_state_initialized
  | ntv2_stream_state_released
  | ntv2_stream_state_idle
  | ntv2_stream_state_active
  | ntv2_stream_state_error

text \<open>The messages of an application; the fields of the message about a channel have the suffix \<open>_c\<close>.\<close>

record NTV2StreamChannel =
  mChannel_c :: nat
  mFlags_c :: u32
  mStatus_c :: u32
  mStreamState :: u32
  mBufferCookie_c :: u64
  mStartTime :: int
  mStopTime :: int
  mQueueCount :: u64
  mReleaseCount :: u64
  mActiveCount :: u64
  mRepeatCount :: u64
  mIdleCount :: u64

text \<open>\<open>mBufferPtr\<close> and \<open>mBufferBytes\<close> are the address and the size in \<open>mBuffer\<close>.\<close>

record NTV2StreamBuffer =
  mChannel :: nat
  mFlags :: u32
  mStatus :: u32
  mBufferPtr :: u64
  mBufferBytes :: u32
  mSegmentSize :: u32
  mSegmentPitch :: int
  mNumSegments :: u32
  mBufferCookie :: u64
  mBufferState :: u32
  mQueueTime :: int
  mActiveTime :: int
  mCompleteTime :: int
  mFlushTime :: int
  mTransferCount :: u64

text \<open>\<open>dma_buffer\<close> is the number of the page buffer of the driver, or \<open>None\<close> for a null pointer.\<close>

record ntv2_stream_buffer =
  user_buffer :: NTV2StreamBuffer
  dma_buffer :: "nat option"
  queued :: bool
  linked :: bool
  completed :: bool
  flushed :: bool
  released :: bool
  buf_error :: bool
  ds_index :: u32
  ds_count :: u32

record 'd ntv2_stream =
  owner :: "nat option"
  dma_engine :: 'd
  stream_state :: ntv2_stream_state
  engine_state :: ntv2_stream_state
  stream_buffers :: "ntv2_stream_buffer list"
  wait_events :: "bool list"
  wait_inuse :: "bool list"
  head_index :: nat
  tail_index :: nat
  active_index :: nat
  next_index :: nat
  init_advance :: u32
  init_count :: u32
  user_channel :: NTV2StreamChannel

record 'd stream_ops =
  stream_initialize :: "'d ntv2_stream \<Rightarrow> int \<times> 'd ntv2_stream"
  stream_start :: "'d ntv2_stream \<Rightarrow> int \<times> 'd ntv2_stream"
  stream_stop :: "'d ntv2_stream \<Rightarrow> int \<times> 'd ntv2_stream"
  stream_release :: "'d ntv2_stream \<Rightarrow> int \<times> 'd ntv2_stream"
  stream_advance :: "'d ntv2_stream \<Rightarrow> int \<times> 'd ntv2_stream"
  buffer_queue :: "nat \<Rightarrow> 'd ntv2_stream \<Rightarrow> int \<times> 'd ntv2_stream"
  buffer_link :: "nat \<Rightarrow> nat \<Rightarrow> 'd ntv2_stream \<Rightarrow> int \<times> 'd ntv2_stream"
  buffer_complete :: "nat \<Rightarrow> 'd ntv2_stream \<Rightarrow> int \<times> 'd ntv2_stream"
  buffer_flush :: "nat \<Rightarrow> 'd ntv2_stream \<Rightarrow> int \<times> 'd ntv2_stream"
  buffer_release :: "nat \<Rightarrow> 'd ntv2_stream \<Rightarrow> int \<times> 'd ntv2_stream"

abbreviation str_buf :: "'d ntv2_stream \<Rightarrow> nat \<Rightarrow> ntv2_stream_buffer" where
  "str_buf s i \<equiv> stream_buffers s ! i"

definition upd_buf :: "nat \<Rightarrow> (ntv2_stream_buffer \<Rightarrow> ntv2_stream_buffer) \<Rightarrow> 'd ntv2_stream \<Rightarrow> 'd ntv2_stream" where
  "upd_buf i f s = s\<lparr>stream_buffers := (stream_buffers s)[i := f (str_buf s i)]\<rparr>"

definition upd_user :: "nat \<Rightarrow> (NTV2StreamBuffer \<Rightarrow> NTV2StreamBuffer) \<Rightarrow> 'd ntv2_stream \<Rightarrow> 'd ntv2_stream" where
  "upd_user i f = upd_buf i (\<lambda>b. b\<lparr>user_buffer := f (user_buffer b)\<rparr>)"

section \<open>The ring\<close>

definition queue_next :: "nat \<Rightarrow> nat" where
  "queue_next index = (index + 1) mod NTV2_STREAM_NUM_BUFFERS"

definition queue_prev :: "nat \<Rightarrow> nat" where
  "queue_prev index = (index + NTV2_STREAM_NUM_BUFFERS - 1) mod NTV2_STREAM_NUM_BUFFERS"

definition queue_empty :: "nat \<Rightarrow> nat \<Rightarrow> bool" where
  "queue_empty head tail = (head = tail)"

definition queue_full :: "nat \<Rightarrow> nat \<Rightarrow> bool" where
  "queue_full head tail = (queue_next head = tail)"

section \<open>Reports\<close>

text \<open>The report overwrites the message, so its first initialisation has no effect.\<close>

definition channel_state :: "ntv2_stream_state \<Rightarrow> u32" where
  "channel_state st =
     (case st of
        ntv2_stream_state_disabled \<Rightarrow> NTV2_STREAM_CHANNEL_STATE_DISABLED
      | ntv2_stream_state_initialized \<Rightarrow> NTV2_STREAM_CHANNEL_STATE_INITIALIZED
      | ntv2_stream_state_released \<Rightarrow> NTV2_STREAM_CHANNEL_STATE_RELEASED
      | ntv2_stream_state_idle \<Rightarrow> NTV2_STREAM_CHANNEL_STATE_IDLE
      | ntv2_stream_state_active \<Rightarrow> NTV2_STREAM_CHANNEL_STATE_ACTIVE
      | _ \<Rightarrow> NTV2_STREAM_CHANNEL_STATE_ERROR)"

definition channel_status :: "'d ntv2_stream \<Rightarrow> NTV2StreamChannel \<Rightarrow> 'd ntv2_stream \<times> NTV2StreamChannel" where
  "channel_status s p =
     (let s = s\<lparr>user_channel := (user_channel s)\<lparr>mChannel_c := mChannel_c p, mFlags_c := mFlags_c p\<rparr>\<rparr>
      in (s, (user_channel s)\<lparr>mStreamState := channel_state (engine_state s)\<rparr>))"

definition buffer_state_flags :: "ntv2_stream_buffer \<Rightarrow> u32" where
  "buffer_state_flags b =
     (if queued b then NTV2_STREAM_BUFFER_STATE_QUEUED else 0) OR
     (if linked b then NTV2_STREAM_BUFFER_STATE_LINKED else 0) OR
     (if completed b then NTV2_STREAM_BUFFER_STATE_COMPLETED else 0) OR
     (if flushed b then NTV2_STREAM_BUFFER_STATE_FLUSHED else 0) OR
     (if released b then NTV2_STREAM_BUFFER_STATE_RELEASED else 0) OR
     (if buf_error b then NTV2_STREAM_BUFFER_STATE_ERROR else 0)"

text \<open>\<open>buffer_status i\<close> reports the buffer \<open>i\<close>; \<open>no_buffer_status\<close> is the report without a buffer.\<close>

definition buffer_status :: "nat \<Rightarrow> 'd ntv2_stream \<Rightarrow> NTV2StreamBuffer \<Rightarrow> 'd ntv2_stream \<times> NTV2StreamBuffer" where
  "buffer_status i s p =
     (let s = upd_user i (\<lambda>u. u\<lparr>mChannel := mChannel p, mFlags := mFlags p\<rparr>) s;
          b = str_buf s i
      in (s, (user_buffer b)\<lparr>mBufferState := mBufferState (user_buffer b) OR buffer_state_flags b\<rparr>))"

definition no_buffer_status :: "NTV2StreamBuffer \<Rightarrow> NTV2StreamBuffer" where
  "no_buffer_status p = p\<lparr>mBufferState := 0, mQueueTime := 0, mActiveTime := 0, mCompleteTime := 0,
                          mFlushTime := 0, mTransferCount := 0\<rparr>"

text \<open>The end of an operation: the report, and the status of the action.\<close>

definition report_channel :: "int \<Rightarrow> u32 \<Rightarrow> 'd ntv2_stream \<Rightarrow> NTV2StreamChannel \<Rightarrow>
    int \<times> 'd ntv2_stream \<times> NTV2StreamChannel" where
  "report_channel ret st s p = (let (s, p) = channel_status s p in (ret, s, p\<lparr>mStatus_c := st\<rparr>))"

definition report_no_buffer :: "int \<Rightarrow> u32 \<Rightarrow> 'd ntv2_stream \<Rightarrow> NTV2StreamBuffer \<Rightarrow>
    int \<times> 'd ntv2_stream \<times> NTV2StreamBuffer" where
  "report_no_buffer ret st s p = (ret, s, (no_buffer_status p)\<lparr>mStatus := st\<rparr>)"

definition report_buffer :: "nat \<Rightarrow> 'd ntv2_stream \<Rightarrow> NTV2StreamBuffer \<Rightarrow> int \<times> 'd ntv2_stream \<times> NTV2StreamBuffer" where
  "report_buffer i s p =
     (let (s, p) = buffer_status i s p in (STATUS_SUCCESS, s, p\<lparr>mStatus := NTV2_STREAM_STATUS_SUCCESS\<rparr>))"

definition signal_all :: "'d ntv2_stream \<Rightarrow> 'd ntv2_stream" where
  "signal_all s = s\<lparr>wait_events := replicate NTV2_STREAM_WAIT_CLIENTS True\<rparr>"

definition bad_state :: "'d ntv2_stream \<Rightarrow> bool" where
  "bad_state s \<longleftrightarrow>
     stream_state s = ntv2_stream_state_disabled \<or> stream_state s = ntv2_stream_state_released \<or>
     stream_state s = ntv2_stream_state_error"

section \<open>The channel\<close>

definition ntv2_stream_channel_initialize :: "'d stream_ops \<Rightarrow> bool \<Rightarrow> nat \<Rightarrow> 'd ntv2_stream \<Rightarrow>
    NTV2StreamChannel \<Rightarrow> int \<times> 'd ntv2_stream \<times> NTV2StreamChannel" where
  "ntv2_stream_channel_initialize ops down pOwner s p =
     (if \<not> down
      then report_channel STATUS_FAIL (NTV2_STREAM_STATUS_FAIL OR NTV2_STREAM_STATUS_TIMEOUT) s p
      else if stream_state s = ntv2_stream_state_disabled
      then report_channel STATUS_SUCCESS (NTV2_STREAM_STATUS_FAIL OR NTV2_STREAM_STATUS_STATE) s p
      else if owner s \<noteq> None \<and> Some pOwner \<noteq> owner s
      then report_channel STATUS_SUCCESS (NTV2_STREAM_STATUS_FAIL OR NTV2_STREAM_STATUS_OWNER) s p
      else (let (status, s) = stream_initialize ops s
            in if status \<noteq> NTV2_STREAM_OPS_SUCCESS
               then report_channel status (NTV2_STREAM_STATUS_FAIL OR NTV2_STREAM_STATUS_MESSAGE) s p
               else (let s = s\<lparr>owner := Some pOwner\<rparr>;
                         s = fold (\<lambda>i s. snd (buffer_flush ops i s)) [0..<NTV2_STREAM_NUM_BUFFERS] s;
                         s = s\<lparr>user_channel := p\<lparr>mStartTime := 0, mStopTime := 0, mQueueCount := 0,
                                                 mReleaseCount := 0, mActiveCount := 0, mRepeatCount := 0,
                                                 mIdleCount := 0\<rparr>\<rparr>;
                         s = signal_all s
                     in report_channel STATUS_SUCCESS NTV2_STREAM_STATUS_SUCCESS s p)))"

definition ntv2_stream_channel_release :: "'d stream_ops \<Rightarrow> bool \<Rightarrow> nat option \<Rightarrow> 'd ntv2_stream \<Rightarrow>
    NTV2StreamChannel \<Rightarrow> int \<times> 'd ntv2_stream \<times> NTV2StreamChannel" where
  "ntv2_stream_channel_release ops down pOwner s p =
     (if \<not> down
      then report_channel STATUS_FAIL (NTV2_STREAM_STATUS_FAIL OR NTV2_STREAM_STATUS_TIMEOUT) s p
      else if pOwner \<noteq> None \<and> pOwner \<noteq> owner s
      then report_channel STATUS_SUCCESS (NTV2_STREAM_STATUS_FAIL OR NTV2_STREAM_STATUS_OWNER) s p
      else (let (status, s) = stream_release ops s
            in if status \<noteq> NTV2_STREAM_OPS_SUCCESS
               then report_channel status (NTV2_STREAM_STATUS_FAIL OR NTV2_STREAM_STATUS_MESSAGE) s p
               else (let s = fold (\<lambda>i s. snd (buffer_release ops i s)) [0..<NTV2_STREAM_NUM_BUFFERS] s;
                         s = signal_all s;
                         s = s\<lparr>head_index := 0, tail_index := 0, active_index := 0, next_index := 0,
                               user_channel := (user_channel s)\<lparr>mQueueCount := 0, mReleaseCount := 0,
                                 mActiveCount := 0, mRepeatCount := 0, mIdleCount := 0\<rparr>,
                               owner := None\<rparr>
                     in report_channel STATUS_SUCCESS NTV2_STREAM_STATUS_SUCCESS s p)))"

text \<open>
  A new stream is filled with zeros; it has no engine until it is configured, so the argument
  \<open>engine\<close> stands for the null pointer. \<open>allocated\<close> says whether there is memory for it.
\<close>

definition zero_user_channel :: NTV2StreamChannel where
  "zero_user_channel = \<lparr>mChannel_c = 0, mFlags_c = 0, mStatus_c = 0, mStreamState = 0, mBufferCookie_c = 0,
     mStartTime = 0, mStopTime = 0, mQueueCount = 0, mReleaseCount = 0, mActiveCount = 0, mRepeatCount = 0,
     mIdleCount = 0\<rparr>"

definition zero_user_buffer :: NTV2StreamBuffer where
  "zero_user_buffer = \<lparr>mChannel = 0, mFlags = 0, mStatus = 0, mBufferPtr = 0, mBufferBytes = 0, mSegmentSize = 0,
     mSegmentPitch = 0, mNumSegments = 0, mBufferCookie = 0, mBufferState = 0, mQueueTime = 0, mActiveTime = 0,
     mCompleteTime = 0, mFlushTime = 0, mTransferCount = 0\<rparr>"

definition zero_buffer :: ntv2_stream_buffer where
  "zero_buffer = \<lparr>user_buffer = zero_user_buffer, dma_buffer = None, queued = False, linked = False,
     completed = False, flushed = False, released = False, buf_error = False, ds_index = 0, ds_count = 0\<rparr>"

definition ntv2_stream_open :: "bool \<Rightarrow> 'd \<Rightarrow> 'd ntv2_stream option" where
  "ntv2_stream_open allocated engine =
     (if \<not> allocated then None
      else Some \<lparr>owner = None, dma_engine = engine, stream_state = ntv2_stream_state_unknown,
                 engine_state = ntv2_stream_state_unknown,
                 stream_buffers = replicate NTV2_STREAM_NUM_BUFFERS zero_buffer,
                 wait_events = replicate NTV2_STREAM_WAIT_CLIENTS False,
                 wait_inuse = replicate NTV2_STREAM_WAIT_CLIENTS False,
                 head_index = 0, tail_index = 0, active_index = 0, next_index = 0, init_advance = 0, init_count = 0,
                 user_channel = zero_user_channel\<rparr>)"

text \<open>The configuration of a new stream, and its end; neither takes the semaphore.\<close>

definition ntv2_stream_configure :: "'d \<Rightarrow> u32 \<Rightarrow> 'd ntv2_stream \<Rightarrow> int \<times> 'd ntv2_stream" where
  "ntv2_stream_configure engine adv s =
     (STATUS_SUCCESS, s\<lparr>dma_engine := engine, init_advance := adv, stream_state := ntv2_stream_state_disabled,
                       engine_state := ntv2_stream_state_disabled\<rparr>)"

definition ntv2_stream_enable :: "'d stream_ops \<Rightarrow> bool \<Rightarrow> NTV2StreamChannel \<Rightarrow> 'd ntv2_stream \<Rightarrow> int \<times> 'd ntv2_stream" where
  "ntv2_stream_enable ops down channel s =
     (let (_, s, _) = ntv2_stream_channel_release ops down None s channel
      in (STATUS_SUCCESS, s\<lparr>stream_state := ntv2_stream_state_released, engine_state := ntv2_stream_state_released\<rparr>))"

definition ntv2_stream_disable :: "'d stream_ops \<Rightarrow> bool \<Rightarrow> NTV2StreamChannel \<Rightarrow> 'd ntv2_stream \<Rightarrow> int \<times> 'd ntv2_stream" where
  "ntv2_stream_disable ops down channel s =
     (let (_, s, _) = ntv2_stream_channel_release ops down None s channel
      in (STATUS_SUCCESS, s\<lparr>stream_state := ntv2_stream_state_disabled, engine_state := ntv2_stream_state_disabled\<rparr>))"

text \<open>
  Start and stop both link the active buffer to itself when it is queued but not in the chain yet,
  and then start the engine or stop it.
\<close>

definition channel_first_link :: "'d stream_ops \<Rightarrow> 'd ntv2_stream \<Rightarrow> int \<times> 'd ntv2_stream" where
  "channel_first_link ops s =
     (if queued (str_buf s (active_index s)) \<and> \<not> linked (str_buf s (active_index s))
      then (let s = s\<lparr>user_channel := (user_channel s)\<lparr>mActiveCount := 0, mRepeatCount := 0, mIdleCount := 0\<rparr>,
                      init_count := 0,
                      next_index := active_index s\<rparr>
            in buffer_link ops (active_index s) (next_index s) s)
      else (NTV2_STREAM_OPS_SUCCESS, s))"

definition ntv2_stream_channel_start :: "'d stream_ops \<Rightarrow> bool \<Rightarrow> 'd ntv2_stream \<Rightarrow> NTV2StreamChannel \<Rightarrow>
    int \<times> 'd ntv2_stream \<times> NTV2StreamChannel" where
  "ntv2_stream_channel_start ops down s p =
     (if \<not> down
      then report_channel STATUS_FAIL (NTV2_STREAM_STATUS_FAIL OR NTV2_STREAM_STATUS_TIMEOUT) s p
      else if bad_state s
      then report_channel STATUS_SUCCESS (NTV2_STREAM_STATUS_FAIL OR NTV2_STREAM_STATUS_STATE) s p
      else if queue_empty (active_index s) (head_index s)
      then report_channel STATUS_SUCCESS (NTV2_STREAM_STATUS_FAIL OR NTV2_STREAM_STATUS_RESOURCE) s p
      else (let (status, s) = channel_first_link ops s
            in if status \<noteq> NTV2_STREAM_OPS_SUCCESS
               then report_channel status (NTV2_STREAM_STATUS_FAIL OR NTV2_STREAM_STATUS_RESOURCE) s p
               else (let (status, s) = stream_start ops s
                     in if status \<noteq> NTV2_STREAM_OPS_SUCCESS
                        then report_channel status (NTV2_STREAM_STATUS_FAIL OR NTV2_STREAM_STATUS_MESSAGE) s p
                        else report_channel STATUS_SUCCESS NTV2_STREAM_STATUS_SUCCESS (signal_all s) p)))"

definition ntv2_stream_channel_stop :: "'d stream_ops \<Rightarrow> bool \<Rightarrow> 'd ntv2_stream \<Rightarrow> NTV2StreamChannel \<Rightarrow>
    int \<times> 'd ntv2_stream \<times> NTV2StreamChannel" where
  "ntv2_stream_channel_stop ops down s p =
     (if \<not> down
      then report_channel STATUS_FAIL (NTV2_STREAM_STATUS_FAIL OR NTV2_STREAM_STATUS_TIMEOUT) s p
      else if bad_state s
      then report_channel STATUS_SUCCESS (NTV2_STREAM_STATUS_FAIL OR NTV2_STREAM_STATUS_STATE) s p
      else (let (status, s) = channel_first_link ops s
            in if status \<noteq> NTV2_STREAM_OPS_SUCCESS
               then report_channel status (NTV2_STREAM_STATUS_FAIL OR NTV2_STREAM_STATUS_RESOURCE) s p
               else (let (status, s) = stream_stop ops s
                     in if status \<noteq> NTV2_STREAM_OPS_SUCCESS
                        then report_channel status (NTV2_STREAM_STATUS_FAIL OR NTV2_STREAM_STATUS_MESSAGE)
                               (s\<lparr>stream_state := ntv2_stream_state_error\<rparr>) p
                        else report_channel STATUS_SUCCESS NTV2_STREAM_STATUS_SUCCESS (signal_all s) p)))"

text \<open>The loop of the flush goes from the newest buffer to the oldest, until one cannot be flushed.\<close>

partial_function (option) channel_flush_loop :: "'d stream_ops \<Rightarrow> int \<Rightarrow> nat \<Rightarrow> 'd ntv2_stream \<Rightarrow> 'd ntv2_stream option" where
  "channel_flush_loop ops now i s =
     (if i = tail_index s
      then Some s
      else (let prev = queue_prev i;
                (status, s) = buffer_flush ops prev s
            in if status \<noteq> NTV2_STREAM_OPS_SUCCESS
               then Some s
               else channel_flush_loop ops now prev (upd_user prev (\<lambda>u. u\<lparr>mFlushTime := now\<rparr>) s)))"

definition ntv2_stream_channel_flush :: "'d stream_ops \<Rightarrow> bool \<Rightarrow> int \<Rightarrow> 'd ntv2_stream \<Rightarrow> NTV2StreamChannel \<Rightarrow>
    (int \<times> 'd ntv2_stream \<times> NTV2StreamChannel) option" where
  "ntv2_stream_channel_flush ops down now s p =
     (if \<not> down
      then Some (report_channel STATUS_FAIL (NTV2_STREAM_STATUS_FAIL OR NTV2_STREAM_STATUS_TIMEOUT) s p)
      else if bad_state s
      then Some (report_channel STATUS_SUCCESS (NTV2_STREAM_STATUS_FAIL OR NTV2_STREAM_STATUS_STATE) s p)
      else do {
        s \<leftarrow> (if \<not> queue_empty (head_index s) (tail_index s)
             then channel_flush_loop ops now (head_index s) s else Some s);
        Some (report_channel STATUS_SUCCESS NTV2_STREAM_STATUS_SUCCESS (signal_all s) p) })"

definition ntv2_stream_channel_status :: "bool \<Rightarrow> 'd ntv2_stream \<Rightarrow> NTV2StreamChannel \<Rightarrow>
    int \<times> 'd ntv2_stream \<times> NTV2StreamChannel" where
  "ntv2_stream_channel_status down s p =
     (if \<not> down
      then report_channel STATUS_FAIL (NTV2_STREAM_STATUS_FAIL OR NTV2_STREAM_STATUS_TIMEOUT) s p
      else report_channel STATUS_SUCCESS NTV2_STREAM_STATUS_SUCCESS s p)"

text \<open>
  A client sleeps outside the semaphore. \<open>channel_wait_enter\<close> is the part before: it ends the wait
  with a result, or takes an event. \<open>channel_wait_leave\<close> is the part after, on the stream that the
  other operations left; \<open>signalled\<close> says whether the event came in time.
\<close>

definition channel_wait_enter :: "bool \<Rightarrow> 'd ntv2_stream \<Rightarrow> NTV2StreamChannel \<Rightarrow>
    (int \<times> 'd ntv2_stream \<times> NTV2StreamChannel) + nat \<times> 'd ntv2_stream" where
  "channel_wait_enter down s p =
     (if \<not> down
      then Inl (report_channel STATUS_FAIL (NTV2_STREAM_STATUS_FAIL OR NTV2_STREAM_STATUS_TIMEOUT) s p)
      else if bad_state s
      then Inl (report_channel STATUS_SUCCESS (NTV2_STREAM_STATUS_FAIL OR NTV2_STREAM_STATUS_STATE) s p)
      else (case find (\<lambda>i. \<not> wait_inuse s ! i) [0..<NTV2_STREAM_WAIT_CLIENTS] of
              None \<Rightarrow> Inl (report_channel STATUS_SUCCESS (NTV2_STREAM_STATUS_FAIL OR NTV2_STREAM_STATUS_RESOURCE) s p)
            | Some i \<Rightarrow> Inr (i, s\<lparr>wait_inuse := (wait_inuse s)[i := True], wait_events := (wait_events s)[i := False]\<rparr>)))"

definition channel_wait_leave :: "nat \<Rightarrow> bool \<Rightarrow> bool \<Rightarrow> 'd ntv2_stream \<Rightarrow> NTV2StreamChannel \<Rightarrow>
    int \<times> 'd ntv2_stream \<times> NTV2StreamChannel" where
  "channel_wait_leave i signalled down s p =
     (let p = (if \<not> signalled then p\<lparr>mStatus_c := NTV2_STREAM_STATUS_FAIL OR NTV2_STREAM_STATUS_TIMEOUT\<rparr> else p);
          s = s\<lparr>wait_inuse := (wait_inuse s)[i := False]\<rparr>
      in if \<not> down
         then report_channel STATUS_FAIL (NTV2_STREAM_STATUS_FAIL OR NTV2_STREAM_STATUS_TIMEOUT) s p
         else report_channel STATUS_SUCCESS NTV2_STREAM_STATUS_SUCCESS s p)"

definition ntv2_stream_channel_wait :: "bool \<Rightarrow> (nat \<Rightarrow> 'd ntv2_stream \<Rightarrow> bool \<times> 'd ntv2_stream) \<Rightarrow> bool \<Rightarrow>
    'd ntv2_stream \<Rightarrow> NTV2StreamChannel \<Rightarrow> int \<times> 'd ntv2_stream \<times> NTV2StreamChannel" where
  "ntv2_stream_channel_wait down sleep down2 s p =
     (case channel_wait_enter down s p of
        Inl result \<Rightarrow> result
      | Inr (i, s) \<Rightarrow> (let (signalled, s) = sleep i s in channel_wait_leave i signalled down2 s p))"

section \<open>The interrupt\<close>

text \<open>The search for the next buffer that was not flushed; it links the buffer to the chain.\<close>

partial_function (option) channel_advance_next :: "'d stream_ops \<Rightarrow> nat \<Rightarrow> int \<Rightarrow> 'd ntv2_stream \<Rightarrow>
    (int \<times> 'd ntv2_stream) option" where
  "channel_advance_next ops nxt status s =
     (if nxt = head_index s
      then Some (status, s)
      else if \<not> flushed (str_buf s nxt)
      then (let (status, s) = buffer_link ops (active_index s) nxt s;
                s = (if status \<noteq> NTV2_STREAM_OPS_SUCCESS then s\<lparr>engine_state := ntv2_stream_state_error\<rparr> else s)
            in Some (status, s\<lparr>next_index := nxt\<rparr>))
      else channel_advance_next ops (queue_next nxt) status s)"

definition channel_advance_complete :: "'d stream_ops \<Rightarrow> int \<Rightarrow> 'd ntv2_stream \<Rightarrow> 'd ntv2_stream" where
  "channel_advance_complete ops now s =
     (let s = upd_user (active_index s) (\<lambda>u. u\<lparr>mTransferCount := mTransferCount u + 1\<rparr>) s
      in if active_index s \<noteq> next_index s
         then (let (status, s) = buffer_complete ops (active_index s) s;
                   s = (if status \<noteq> NTV2_STREAM_OPS_SUCCESS then s\<lparr>engine_state := ntv2_stream_state_error\<rparr> else s)
               in upd_user (active_index s) (\<lambda>u. u\<lparr>mCompleteTime := now\<rparr>) s)
         else s)"

definition channel_advance_count :: "'d ntv2_stream \<Rightarrow> 'd ntv2_stream" where
  "channel_advance_count s =
     (let c = user_channel s
      in s\<lparr>user_channel :=
             (if engine_state s = ntv2_stream_state_active
              then if active_index s \<noteq> next_index s
                   then c\<lparr>mActiveCount := mActiveCount c + 1\<rparr>
                   else c\<lparr>mRepeatCount := mRepeatCount c + 1\<rparr>
              else c\<lparr>mIdleCount := mIdleCount c + 1\<rparr>)\<rparr>)"

definition ntv2_stream_channel_advance :: "'d stream_ops \<Rightarrow> int \<Rightarrow> 'd ntv2_stream \<Rightarrow> (int \<times> 'd ntv2_stream) option" where
  "ntv2_stream_channel_advance ops now s =
     (if stream_state s \<noteq> ntv2_stream_state_active \<and> stream_state s \<noteq> ntv2_stream_state_idle
      then Some (STATUS_SUCCESS, s)
      else if engine_state s = ntv2_stream_state_initialized \<and> init_count s < init_advance s
      then Some (STATUS_SUCCESS, s\<lparr>init_count := init_count s + 1\<rparr>)
      else (let s = channel_advance_complete ops now s;
                s = channel_advance_count s;
                s = s\<lparr>active_index := next_index s\<rparr>;
                s = (if mActiveTime (user_buffer (str_buf s (active_index s))) = 0
                     then upd_user (active_index s) (\<lambda>u. u\<lparr>mActiveTime := now\<rparr>) s else s);
                (status, s) = stream_advance ops s;
                s = (if status \<noteq> NTV2_STREAM_OPS_SUCCESS then s\<lparr>engine_state := ntv2_stream_state_error\<rparr> else s)
            in do {
              (status, s) \<leftarrow> (if engine_state s = ntv2_stream_state_active
                             then channel_advance_next ops (queue_next (active_index s)) status s
                             else Some (status, s));
              Some (status, signal_all s) }))"

section \<open>The buffers\<close>

definition ntv2_stream_buffer_queue :: "'d stream_ops \<Rightarrow> bool \<Rightarrow> int \<Rightarrow> nat \<Rightarrow> 'd ntv2_stream \<Rightarrow> NTV2StreamBuffer \<Rightarrow>
    int \<times> 'd ntv2_stream \<times> NTV2StreamBuffer" where
  "ntv2_stream_buffer_queue ops down now pOwner s p =
     (if \<not> down
      then report_no_buffer STATUS_FAIL (NTV2_STREAM_STATUS_FAIL OR NTV2_STREAM_STATUS_TIMEOUT) s p
      else if bad_state s
      then report_no_buffer STATUS_SUCCESS (NTV2_STREAM_STATUS_FAIL OR NTV2_STREAM_STATUS_STATE) s p
      else if Some pOwner \<noteq> owner s
      then report_no_buffer STATUS_SUCCESS (NTV2_STREAM_STATUS_FAIL OR NTV2_STREAM_STATUS_OWNER) s p
      else if queue_full (head_index s) (tail_index s)
      then report_no_buffer STATUS_SUCCESS (NTV2_STREAM_STATUS_FAIL OR NTV2_STREAM_STATUS_RESOURCE) s p
      else if queued (str_buf s (head_index s))
      then report_no_buffer STATUS_SUCCESS (NTV2_STREAM_STATUS_FAIL OR NTV2_STREAM_STATUS_RESOURCE) s p
      else (let slot = head_index s;
                s = upd_user slot (\<lambda>_. p) s;
                (status, s) = buffer_queue ops slot s
            in if status \<noteq> NTV2_STREAM_OPS_SUCCESS
               then report_no_buffer status (NTV2_STREAM_STATUS_FAIL OR NTV2_STREAM_STATUS_INVALID) s p
               else (let s = upd_user slot (\<lambda>u. u\<lparr>mQueueTime := now\<rparr>) s;
                         s = s\<lparr>head_index := queue_next (head_index s),
                               user_channel := (user_channel s)\<lparr>mQueueCount := mQueueCount (user_channel s) + 1\<rparr>\<rparr>
                     in report_buffer slot s p)))"

definition ntv2_stream_buffer_release :: "'d stream_ops \<Rightarrow> bool \<Rightarrow> nat \<Rightarrow> 'd ntv2_stream \<Rightarrow> NTV2StreamBuffer \<Rightarrow>
    int \<times> 'd ntv2_stream \<times> NTV2StreamBuffer" where
  "ntv2_stream_buffer_release ops down pOwner s p =
     (if \<not> down
      then report_no_buffer STATUS_FAIL (NTV2_STREAM_STATUS_FAIL OR NTV2_STREAM_STATUS_TIMEOUT) s p
      else if bad_state s
      then report_no_buffer STATUS_SUCCESS (NTV2_STREAM_STATUS_FAIL OR NTV2_STREAM_STATUS_STATE) s p
      else if Some pOwner \<noteq> owner s
      then report_no_buffer STATUS_SUCCESS (NTV2_STREAM_STATUS_FAIL OR NTV2_STREAM_STATUS_OWNER) s p
      else if \<not> queued (str_buf s (tail_index s)) \<or>
              \<not> (completed (str_buf s (tail_index s)) \<or> flushed (str_buf s (tail_index s)))
      then report_no_buffer STATUS_SUCCESS (NTV2_STREAM_STATUS_FAIL OR NTV2_STREAM_STATUS_STATE) s p
      else (let (status, s) = buffer_release ops (tail_index s) s
            in if status \<noteq> NTV2_STREAM_OPS_SUCCESS
               then report_no_buffer status (NTV2_STREAM_STATUS_FAIL OR NTV2_STREAM_STATUS_STATE) s p
               else (let (ret, s, p) = report_buffer (tail_index s) s p
                     in (ret, s\<lparr>tail_index := queue_next (tail_index s),
                               user_channel := (user_channel s)\<lparr>mReleaseCount := mReleaseCount (user_channel s) + 1\<rparr>\<rparr>, p))))"

partial_function (option) find_cookie :: "u64 \<Rightarrow> 'd ntv2_stream \<Rightarrow> nat \<Rightarrow> nat option" where
  "find_cookie cookie s i =
     (if i = head_index s \<or> cookie = mBufferCookie (user_buffer (str_buf s i))
      then Some i
      else find_cookie cookie s (queue_next i))"

definition ntv2_stream_buffer_status :: "bool \<Rightarrow> 'd ntv2_stream \<Rightarrow> NTV2StreamBuffer \<Rightarrow>
    (int \<times> 'd ntv2_stream \<times> NTV2StreamBuffer) option" where
  "ntv2_stream_buffer_status down s p =
     (if \<not> down
      then Some (report_no_buffer STATUS_FAIL (NTV2_STREAM_STATUS_FAIL OR NTV2_STREAM_STATUS_TIMEOUT) s p)
      else do {
        i \<leftarrow> find_cookie (mBufferCookie p) s (tail_index s);
        Some (if i = head_index s
              then report_no_buffer STATUS_SUCCESS (NTV2_STREAM_STATUS_FAIL OR NTV2_STREAM_STATUS_INVALID) s p
              else report_buffer i s p) })"

section \<open>The messages of an application\<close>

text \<open>
  \<open>DoMessageStreamChannel\<close> and \<open>DoMessageStreamBuffer\<close> of driver/linux/ntv2driver.c for a channel
  that exists: the actions whose flags the message carries, in this order. An action reads the flags
  that the report of the action before left, which are those of the message.
\<close>

type_synonym 'd sleep = "nat \<Rightarrow> 'd ntv2_stream \<Rightarrow> bool \<times> 'd ntv2_stream"

definition when_flag :: "u32 \<Rightarrow> ('d ntv2_stream \<Rightarrow> NTV2StreamChannel \<Rightarrow> (int \<times> 'd ntv2_stream \<times> NTV2StreamChannel) option) \<Rightarrow>
    'd ntv2_stream \<times> NTV2StreamChannel \<Rightarrow> ('d ntv2_stream \<times> NTV2StreamChannel) option" where
  "when_flag flag action sp =
     (case sp of (s, p) \<Rightarrow>
        if mFlags_c p AND flag \<noteq> 0
        then map_option snd (action s p)
        else Some (s, p))"

definition DoMessageStreamChannel :: "'d stream_ops \<Rightarrow> bool \<Rightarrow> int \<Rightarrow> 'd sleep \<Rightarrow> nat \<Rightarrow> 'd ntv2_stream \<Rightarrow>
    NTV2StreamChannel \<Rightarrow> ('d ntv2_stream \<times> NTV2StreamChannel) option" where
  "DoMessageStreamChannel ops down now sleep pFile s p =
     do { sp \<leftarrow> when_flag 0x01 (\<lambda>s p. Some (ntv2_stream_channel_initialize ops down pFile s p)) (s, p);
          sp \<leftarrow> when_flag 0x02 (\<lambda>s p. Some (ntv2_stream_channel_release ops down (Some pFile) s p)) sp;
          sp \<leftarrow> when_flag 0x04 (\<lambda>s p. Some (ntv2_stream_channel_start ops down s p)) sp;
          sp \<leftarrow> when_flag 0x08 (\<lambda>s p. Some (ntv2_stream_channel_stop ops down s p)) sp;
          sp \<leftarrow> when_flag 0x10 (ntv2_stream_channel_flush ops down now) sp;
          sp \<leftarrow> when_flag 0x20 (\<lambda>s p. Some (ntv2_stream_channel_status down s p)) sp;
          when_flag 0x40 (\<lambda>s p. Some (ntv2_stream_channel_wait down sleep down s p)) sp }"

definition when_buffer_flag :: "u32 \<Rightarrow> ('d ntv2_stream \<Rightarrow> NTV2StreamBuffer \<Rightarrow> (int \<times> 'd ntv2_stream \<times> NTV2StreamBuffer) option) \<Rightarrow>
    'd ntv2_stream \<times> NTV2StreamBuffer \<Rightarrow> ('d ntv2_stream \<times> NTV2StreamBuffer) option" where
  "when_buffer_flag flag action sp =
     (case sp of (s, p) \<Rightarrow>
        if mFlags p AND flag \<noteq> 0
        then map_option snd (action s p)
        else Some (s, p))"

definition DoMessageStreamBuffer :: "'d stream_ops \<Rightarrow> bool \<Rightarrow> int \<Rightarrow> nat \<Rightarrow> 'd ntv2_stream \<Rightarrow> NTV2StreamBuffer \<Rightarrow>
    ('d ntv2_stream \<times> NTV2StreamBuffer) option" where
  "DoMessageStreamBuffer ops down now pFile s p =
     do { sp \<leftarrow> when_buffer_flag 0x02 (\<lambda>s p. Some (ntv2_stream_buffer_queue ops down now pFile s p)) (s, p);
          sp \<leftarrow> when_buffer_flag 0x04 (\<lambda>s p. Some (ntv2_stream_buffer_release ops down pFile s p)) sp;
          when_buffer_flag 0x08 (ntv2_stream_buffer_status down) sp }"

end
