(* ===== verification/Ntv2StreamDma.thy ===== *)
theory Ntv2StreamDma
  imports Ntv2Stream
begin

text \<open>
  The stream operations of the Linux driver for the Xilinx DMA engine: \<open>dmaOps...\<close> and
  \<open>dmaXlnxStream...\<close> of driver/linux/ntv2dma.c, with the registers of the engine from
  driver/linux/registerio.c.

  \<open>stream_engine\<close> holds what these operations use of \<open>DMA_ENGINE\<close> and of the device: the
  descriptors, which the engine reads from host memory, the registers of the engine, and the page
  buffers that the applications locked. A descriptor is at an index of a page, as in C; a page of
  the x86 has 4096 bytes, room for 128 descriptors. A pointer to a page buffer is its number. The
  engine lock makes each of its sections one step. Reads of the status register, whose values
  only appear in messages, and the wait for the engine to stop are left out.
\<close>

section \<open>Constants\<close>

abbreviation (input) DMA_DESCRIPTOR_PAGES_MAX :: nat where "DMA_DESCRIPTOR_PAGES_MAX \<equiv> 4096"
abbreviation (input) dpNumPerPage :: nat where "dpNumPerPage \<equiv> 128"
abbreviation (input) XLNX_DESCRIPTOR_size :: u64 where "XLNX_DESCRIPTOR_size \<equiv> 32"
abbreviation (input) XLNX_CONTROL_DESC_COMPLETION :: u32 where "XLNX_CONTROL_DESC_COMPLETION \<equiv> 0x00000002"
abbreviation (input) XLNX_CONTROL_DESC_MAGIC :: u32 where "XLNX_CONTROL_DESC_MAGIC \<equiv> 0xAD4B0000"
abbreviation (input) XLNX_MAX_ADJACENT_COUNT :: nat where "XLNX_MAX_ADJACENT_COUNT \<equiv> 15"
abbreviation (input) XLNX_REG_TARGET_SIZE :: nat where "XLNX_REG_TARGET_SIZE \<equiv> 0x400"
abbreviation (input) XLNX_REG_CHANNEL_SIZE :: nat where "XLNX_REG_CHANNEL_SIZE \<equiv> 0x40"
abbreviation (input) kRegXlnxTargetChannelH2C :: nat where "kRegXlnxTargetChannelH2C \<equiv> 0"
abbreviation (input) kRegXlnxTargetChannelC2H :: nat where "kRegXlnxTargetChannelC2H \<equiv> 1"
abbreviation (input) kRegXlnxTargetIRQ :: nat where "kRegXlnxTargetIRQ \<equiv> 2"
abbreviation (input) kRegXlnxTargetSgdmaH2C :: nat where "kRegXlnxTargetSgdmaH2C \<equiv> 4"
abbreviation (input) kRegXlnxTargetSgdmaC2H :: nat where "kRegXlnxTargetSgdmaC2H \<equiv> 5"
abbreviation (input) kRegXlnxChannelControl :: nat where "kRegXlnxChannelControl \<equiv> 0x01"
abbreviation (input) kRegXlnxChannelInterruptEnable :: nat where "kRegXlnxChannelInterruptEnable \<equiv> 0x24"
abbreviation (input) kRegXlnxIrqChannelInterruptEnableW1S :: nat where "kRegXlnxIrqChannelInterruptEnableW1S \<equiv> 0x05"
abbreviation (input) kRegXlnxIrqChannelInterruptEnableW1C :: nat where "kRegXlnxIrqChannelInterruptEnableW1C \<equiv> 0x06"
abbreviation (input) kRegXlnxSgdmaDescAddressLow :: nat where "kRegXlnxSgdmaDescAddressLow \<equiv> 0x20"
abbreviation (input) kRegXlnxSgdmaDescAddressHigh :: nat where "kRegXlnxSgdmaDescAddressHigh \<equiv> 0x21"
abbreviation (input) kRegXlnxSgdmaDescAdjacent :: nat where "kRegXlnxSgdmaDescAdjacent \<equiv> 0x22"
abbreviation (input) kRegMaskXlnxRun :: u32 where "kRegMaskXlnxRun \<equiv> 0x00000001"
abbreviation (input) kRegMaskXlnxIntDescError :: u32 where "kRegMaskXlnxIntDescError \<equiv> 0x00f80000"
abbreviation (input) kRegMaskXlnxIntReadError :: u32 where "kRegMaskXlnxIntReadError \<equiv> 0x00003e00"
abbreviation (input) kRegMaskXlnxIntMagicStop :: u32 where "kRegMaskXlnxIntMagicStop \<equiv> 0x00000010"
abbreviation (input) kRegMaskXlnxIntAlignMismatch :: u32 where "kRegMaskXlnxIntAlignMismatch \<equiv> 0x00000008"
abbreviation (input) kRegMaskXlnxIntDescComplete :: u32 where "kRegMaskXlnxIntDescComplete \<equiv> 0x00000004"
abbreviation (input) kRegMaskXlnxIntDescStop :: u32 where "kRegMaskXlnxIntDescStop \<equiv> 0x00000002"
abbreviation (input) EPERM :: int where "EPERM \<equiv> 1"
abbreviation (input) ENOMEM :: int where "ENOMEM \<equiv> 12"
abbreviation (input) EINVAL :: int where "EINVAL \<equiv> 22"

section \<open>The engine\<close>

record xlnx_descriptor =
  ulControl :: u32
  ulTransferCount :: u32
  llSrcAddress :: u64
  llDstAddress :: u64
  llNextAddress :: u64

text \<open>
  \<open>sgList\<close> are the addresses and lengths of the mapped segments. \<open>pageRoot\<close> is the application, whose
  list of page buffers are those of \<open>pageBuffers\<close> with its number and a positive reference count; an
  entry without references was taken out of the list and freed.
\<close>

record page_buffer =
  pageRoot :: nat
  refCount :: int
  pUserAddress :: u64
  userSize :: u32
  pageLock :: bool
  sgMap :: bool
  sgHost :: bool
  page_rdma :: bool
  sgList :: "(u64 \<times> u32) list"

record stream_engine =
  dmaIndex :: nat
  dmaC2H :: bool
  dmaStream :: bool
  maxDescriptors :: u32
  numDescriptorPages :: nat
  pDescriptorVirtual :: "nat \<Rightarrow> nat \<Rightarrow> xlnx_descriptor"
  descriptorPhysical :: "nat \<Rightarrow> u64"
  strDescriptorIndex :: u32
  programErrorCount :: int
  programStartCount :: int
  programStartTime :: int
  numXlnxH2CEngines :: nat
  numXlnxC2HEngines :: nat
  xlnxRegs :: "nat \<Rightarrow> u32"
  pageBuffers :: "page_buffer list"

section \<open>The registers of the engine\<close>

definition WriteXlnxRegister :: "nat \<Rightarrow> u32 \<Rightarrow> stream_engine \<Rightarrow> stream_engine" where
  "WriteXlnxRegister reg value e = e\<lparr>xlnxRegs := (xlnxRegs e)(reg := value)\<rparr>"

definition IsXlnxChannel :: "stream_engine \<Rightarrow> bool \<Rightarrow> nat \<Rightarrow> bool" where
  "IsXlnxChannel e bC2H index = (if bC2H then index < numXlnxC2HEngines e else index < numXlnxH2CEngines e)"

text \<open>The test of \<open>XlnxChannelRegBase\<close> takes its arguments in the wrong order.\<close>

definition XlnxChannelRegBase :: "stream_engine \<Rightarrow> bool \<Rightarrow> nat \<Rightarrow> nat" where
  "XlnxChannelRegBase e bC2H index =
     (let index = (if \<not> IsXlnxChannel e (index \<noteq> 0) (if bC2H then 1 else 0) then 0 else index)
      in (if bC2H then kRegXlnxTargetChannelC2H else kRegXlnxTargetChannelH2C) * XLNX_REG_TARGET_SIZE +
         index * XLNX_REG_CHANNEL_SIZE)"

definition XlnxSgdmaRegBase :: "stream_engine \<Rightarrow> bool \<Rightarrow> nat \<Rightarrow> nat" where
  "XlnxSgdmaRegBase e bC2H index =
     (let index = (if \<not> IsXlnxChannel e bC2H index then 0 else index)
      in (if bC2H then kRegXlnxTargetSgdmaC2H else kRegXlnxTargetSgdmaH2C) * XLNX_REG_TARGET_SIZE +
         index * XLNX_REG_CHANNEL_SIZE)"

definition XlnxIrqRegBase :: nat where
  "XlnxIrqRegBase = kRegXlnxTargetIRQ * XLNX_REG_TARGET_SIZE"

definition XlnxIrqBitMask :: "stream_engine \<Rightarrow> bool \<Rightarrow> nat \<Rightarrow> u32" where
  "XlnxIrqBitMask e bC2H index =
     (if \<not> IsXlnxChannel e bC2H index then 0
      else push_bit (if bC2H then numXlnxH2CEngines e + index else index) 1)"

definition EnableXlnxDmaInterrupt :: "bool \<Rightarrow> nat \<Rightarrow> stream_engine \<Rightarrow> stream_engine" where
  "EnableXlnxDmaInterrupt bC2H index e =
     WriteXlnxRegister (XlnxIrqRegBase + kRegXlnxIrqChannelInterruptEnableW1S) (XlnxIrqBitMask e bC2H index) e"

definition DisableXlnxDmaInterrupt :: "bool \<Rightarrow> nat \<Rightarrow> stream_engine \<Rightarrow> stream_engine" where
  "DisableXlnxDmaInterrupt bC2H index e =
     WriteXlnxRegister (XlnxIrqRegBase + kRegXlnxIrqChannelInterruptEnableW1C) (XlnxIrqBitMask e bC2H index) e"

definition xlnx_interrupts :: u32 where
  "xlnx_interrupts =
     kRegMaskXlnxIntDescError OR kRegMaskXlnxIntReadError OR kRegMaskXlnxIntMagicStop OR
     kRegMaskXlnxIntAlignMismatch OR kRegMaskXlnxIntDescComplete OR kRegMaskXlnxIntDescStop"

definition StartXlnxDma :: "bool \<Rightarrow> nat \<Rightarrow> stream_engine \<Rightarrow> stream_engine" where
  "StartXlnxDma bC2H index e =
     (if \<not> IsXlnxChannel e bC2H index then e
      else (let base = XlnxChannelRegBase e bC2H index;
                e = WriteXlnxRegister (base + kRegXlnxChannelInterruptEnable) xlnx_interrupts e
            in WriteXlnxRegister (base + kRegXlnxChannelControl) (kRegMaskXlnxRun OR xlnx_interrupts) e))"

definition StopXlnxDma :: "bool \<Rightarrow> nat \<Rightarrow> stream_engine \<Rightarrow> stream_engine" where
  "StopXlnxDma bC2H index e =
     (if \<not> IsXlnxChannel e bC2H index then e
      else (let base = XlnxChannelRegBase e bC2H index;
                e = WriteXlnxRegister (base + kRegXlnxChannelInterruptEnable) 0 e
            in WriteXlnxRegister (base + kRegXlnxChannelControl) 0 e))"

text \<open>\<open>WriteXlnxDmaEngineStartLow\<close>, \<open>...StartHigh\<close> and \<open>...StartAdjacent\<close>.\<close>

definition WriteXlnxDmaEngineStart :: "nat \<Rightarrow> bool \<Rightarrow> nat \<Rightarrow> u32 \<Rightarrow> stream_engine \<Rightarrow> stream_engine" where
  "WriteXlnxDmaEngineStart reg bC2H index value e =
     (if \<not> IsXlnxChannel e bC2H index then e
      else WriteXlnxRegister (XlnxSgdmaRegBase e bC2H index + reg) value e)"

section \<open>The descriptors\<close>

definition dmaXlnxDescIndexToPage :: "u32 \<Rightarrow> (nat \<times> nat) option" where
  "dmaXlnxDescIndexToPage index =
     (if unat index \<ge> DMA_DESCRIPTOR_PAGES_MAX * dpNumPerPage then None
      else Some (unat index div dpNumPerPage, unat index mod dpNumPerPage))"

definition desc_address :: "stream_engine \<Rightarrow> nat \<times> nat \<Rightarrow> u64" where
  "desc_address e pos = descriptorPhysical e (fst pos) + of_nat (snd pos) * XLNX_DESCRIPTOR_size"

definition upd_desc :: "nat \<times> nat \<Rightarrow> (xlnx_descriptor \<Rightarrow> xlnx_descriptor) \<Rightarrow> stream_engine \<Rightarrow> stream_engine" where
  "upd_desc pos f e =
     e\<lparr>pDescriptorVirtual := (pDescriptorVirtual e)(fst pos :=
         (pDescriptorVirtual e (fst pos))(snd pos := f (pDescriptorVirtual e (fst pos) (snd pos))))\<rparr>"

definition next_desc :: "stream_engine \<Rightarrow> nat \<times> nat \<Rightarrow> nat \<times> nat" where
  "next_desc e pos =
     (if snd pos + 1 < dpNumPerPage then (fst pos, snd pos + 1)
      else if fst pos + 1 \<ge> numDescriptorPages e then (0, 0)
      else (fst pos + 1, 0))"

text \<open>The engine can fetch up to 16 descriptors at once if they do not span pages.\<close>

definition desc_contig :: "nat \<Rightarrow> nat" where
  "desc_contig dpIndex =
     (let contigCount = dpNumPerPage - dpIndex - 1;
          contigCount = (if contigCount > 0 then contigCount - 1 else contigCount)
      in min contigCount XLNX_MAX_ADJACENT_COUNT)"

text \<open>
  The loop over the segments that are left. \<open>pos\<close> is the position of the next descriptor, \<open>lastp\<close>
  that of the last one that was written. \<open>Inl\<close> is the failure exit.
\<close>

definition addProgramError :: "stream_engine \<Rightarrow> stream_engine" where
  "addProgramError e = e\<lparr>programErrorCount := programErrorCount e + 1\<rparr>"

fun stream_build_loop :: "u32 \<Rightarrow> (u64 \<times> u32) list \<Rightarrow> nat \<times> nat \<Rightarrow> nat \<times> nat \<Rightarrow> u32 \<Rightarrow> u32 \<Rightarrow> stream_engine \<Rightarrow>
    stream_engine + (nat \<times> nat) \<times> u32 \<times> stream_engine" where
  "stream_build_loop bytes [] pos lastp programBytes descriptorCount e = Inr (lastp, descriptorCount, e)"
| "stream_build_loop bytes ((addr, len) # sgs) pos lastp programBytes descriptorCount e =
     (if programBytes \<ge> bytes
      then Inr (lastp, descriptorCount, e)
      else (let descTransferSize = (if programBytes + len > bytes then bytes - programBytes else len);
                e = upd_desc pos (\<lambda>d. d\<lparr>
                      ulControl := XLNX_CONTROL_DESC_MAGIC OR push_bit 8 (of_nat (desc_contig (snd pos))),
                      ulTransferCount := descTransferSize,
                      llSrcAddress := (if dmaC2H e then 0 else addr),
                      llDstAddress := (if dmaC2H e then addr else 0)\<rparr>) e;
                e = upd_desc pos (\<lambda>d. d\<lparr>llNextAddress := desc_address e (next_desc e pos)\<rparr>) e;
                descriptorCount = descriptorCount + 1
            in if descriptorCount > maxDescriptors e
               then Inl (addProgramError e)
               else stream_build_loop bytes sgs (next_desc e pos) pos (programBytes + descTransferSize) descriptorCount e))"

text \<open>The adjacent counts of the descriptors before the last one are cleared, back to the start of the page.\<close>

definition clear_adjacent :: "nat \<times> nat \<Rightarrow> nat \<Rightarrow> stream_engine \<Rightarrow> stream_engine" where
  "clear_adjacent lastp n e =
     fold (\<lambda>i. upd_desc (fst lastp, snd lastp - 1 - i) (\<lambda>d. d\<lparr>ulControl := XLNX_CONTROL_DESC_MAGIC\<rparr>))
       [0 ..< min n (snd lastp)] e"

definition dmaXlnxStreamBuild :: "nat \<Rightarrow> u32 \<Rightarrow> stream_engine \<Rightarrow> int \<times> stream_engine" where
  "dmaXlnxStreamBuild page index e =
     (let pPageBuffer = pageBuffers e ! page
      in if \<not> sgMap pPageBuffer
         then (- EPERM, addProgramError e)
         else (case dmaXlnxDescIndexToPage index of
             None \<Rightarrow> (- EPERM, e)
           | Some pos \<Rightarrow>
               if sgList pPageBuffer = [] \<or> length (sgList pPageBuffer) > numDescriptorPages e * dpNumPerPage
               then (- EPERM, addProgramError e)
               else (case stream_build_loop (userSize pPageBuffer) (sgList pPageBuffer) pos pos 0 0 e of
                   Inl e \<Rightarrow> (- EPERM, e)
                 | Inr (lastp, descriptorCount, e) \<Rightarrow>
                     if descriptorCount = 0
                     then (- EPERM, addProgramError e)
                     else (let e = (if snd lastp \<noteq> 0
                                    then clear_adjacent lastp (min XLNX_MAX_ADJACENT_COUNT (unat descriptorCount - 1)) e
                                    else e);
                               e = upd_desc lastp (\<lambda>d. d\<lparr>
                                     ulControl := XLNX_CONTROL_DESC_COMPLETION OR XLNX_CONTROL_DESC_MAGIC,
                                     llNextAddress := 0\<rparr>) e
                           in (sint descriptorCount, e)))))"

definition dmaXlnxStreamLink :: "u32 \<Rightarrow> u32 \<Rightarrow> stream_engine \<Rightarrow> int \<times> stream_engine" where
  "dmaXlnxStreamLink descIndex nextIndex e =
     (if \<not> dmaStream e then (- EPERM, e)
      else (case dmaXlnxDescIndexToPage descIndex of
          None \<Rightarrow> (- EPERM, e)
        | Some src \<Rightarrow>
            (case dmaXlnxDescIndexToPage nextIndex of
               None \<Rightarrow> (- EPERM, e)
             | Some dst \<Rightarrow> (0, upd_desc src (\<lambda>d. d\<lparr>llNextAddress := desc_address e dst\<rparr>) e))))"

definition dmaXlnxStreamStart :: "int \<Rightarrow> u32 \<Rightarrow> stream_engine \<Rightarrow> int \<times> stream_engine" where
  "dmaXlnxStreamStart now startIndex e =
     (if \<not> dmaStream e then (- EPERM, e)
      else (case dmaXlnxDescIndexToPage startIndex of
          None \<Rightarrow> (- EPERM, e)
        | Some start \<Rightarrow>
            (let startAddress = desc_address e start;
                 e = WriteXlnxDmaEngineStart kRegXlnxSgdmaDescAddressLow (dmaC2H e) (dmaIndex e)
                       (ucast (startAddress AND 0xffffffff)) e;
                 e = WriteXlnxDmaEngineStart kRegXlnxSgdmaDescAddressHigh (dmaC2H e) (dmaIndex e)
                       (ucast (drop_bit 32 startAddress)) e;
                 e = WriteXlnxDmaEngineStart kRegXlnxSgdmaDescAdjacent (dmaC2H e) (dmaIndex e) 0 e;
                 e = e\<lparr>programStartCount := programStartCount e + 1, programStartTime := now\<rparr>;
                 e = EnableXlnxDmaInterrupt (dmaC2H e) (dmaIndex e) e
             in (0, StartXlnxDma (dmaC2H e) (dmaIndex e) e))))"

definition dmaXlnxStreamStop :: "stream_engine \<Rightarrow> int \<times> stream_engine" where
  "dmaXlnxStreamStop e =
     (if \<not> dmaStream e then (- EPERM, e)
      else (0, StopXlnxDma (dmaC2H e) (dmaIndex e) (DisableXlnxDmaInterrupt (dmaC2H e) (dmaIndex e) e)))"

section \<open>The page buffers\<close>

definition upd_page :: "nat \<Rightarrow> (page_buffer \<Rightarrow> page_buffer) \<Rightarrow> stream_engine \<Rightarrow> stream_engine" where
  "upd_page i f e = e\<lparr>pageBuffers := (pageBuffers e)[i := f (pageBuffers e ! i)]\<rparr>"

definition dmaPageRootFind :: "nat \<Rightarrow> u64 \<Rightarrow> u32 \<Rightarrow> stream_engine \<Rightarrow> nat option \<times> stream_engine" where
  "dmaPageRootFind root pAddress bytes e =
     (if pAddress = 0 \<or> bytes = 0 then (None, e)
      else (case find (\<lambda>i. let b = pageBuffers e ! i
                          in pageRoot b = root \<and> \<not> (refCount b \<le> 0 \<or> \<not> pageLock b \<or> pAddress \<noteq> pUserAddress b \<or> bytes > userSize b))
                   [0..<length (pageBuffers e)] of
              None \<Rightarrow> (None, e)
            | Some i \<Rightarrow> (Some i, upd_page i (\<lambda>b. b\<lparr>refCount := refCount b + 1\<rparr>) e)))"

definition dmaPageRootFree :: "nat option \<Rightarrow> stream_engine \<Rightarrow> stream_engine" where
  "dmaPageRootFree page e =
     (case page of None \<Rightarrow> e | Some i \<Rightarrow> upd_page i (\<lambda>b. b\<lparr>refCount := refCount b - 1\<rparr>) e)"

text \<open>
  Locking and unlocking the memory of an application. \<open>locked\<close> is what the kernel makes of a request
  to lock and map pages: an error code, or the new page buffer. A buffer is unlocked when only the
  list refers to it. \<open>dmaPageRootReleaseStep\<close> is one round of the loop of \<open>dmaPageRootRelease\<close>, which
  empties the list and waits for a buffer that is in use.
\<close>

definition dmaPageRootAdd :: "nat \<Rightarrow> u64 \<Rightarrow> u32 \<Rightarrow> int + page_buffer \<Rightarrow> stream_engine \<Rightarrow> int \<times> stream_engine" where
  "dmaPageRootAdd root pAddress bytes locked e =
     (if pAddress = 0 \<or> bytes = 0 then (- EINVAL, e)
      else (case dmaPageRootFind root pAddress bytes e of
          (Some i, e') \<Rightarrow> (0, dmaPageRootFree (Some i) e')
        | (None, e') \<Rightarrow>
            (case locked of
               Inl code \<Rightarrow> (code, e')
             | Inr b \<Rightarrow> (0, e'\<lparr>pageBuffers := pageBuffers e' @ [b\<lparr>pageRoot := root, refCount := 1\<rparr>]\<rparr>))))"

definition dmaPageBufferFree :: "nat \<Rightarrow> stream_engine \<Rightarrow> stream_engine" where
  "dmaPageBufferFree i = upd_page i (\<lambda>b. b\<lparr>refCount := refCount b - 1, pageLock := False, sgMap := False\<rparr>)"

definition dmaPageRootRemove :: "nat \<Rightarrow> u64 \<Rightarrow> u32 \<Rightarrow> stream_engine \<Rightarrow> int \<times> stream_engine" where
  "dmaPageRootRemove root pAddress bytes e =
     (if pAddress = 0 \<or> bytes = 0 then (- EINVAL, e)
      else (case find (\<lambda>i. let b = pageBuffers e ! i
                          in pageRoot b = root \<and> refCount b > 0 \<and>
                             \<not> (refCount b > 1 \<or> pAddress \<noteq> pUserAddress b \<or> bytes \<noteq> userSize b))
                   [0..<length (pageBuffers e)] of
              None \<Rightarrow> (- ENOMEM, e)
            | Some i \<Rightarrow> (0, dmaPageBufferFree i e)))"

definition dmaPageRootReleaseStep :: "nat \<Rightarrow> stream_engine \<Rightarrow> stream_engine" where
  "dmaPageRootReleaseStep root e =
     (case find (\<lambda>i. pageRoot (pageBuffers e ! i) = root \<and> refCount (pageBuffers e ! i) > 0) [0..<length (pageBuffers e)] of
        None \<Rightarrow> e
      | Some i \<Rightarrow> if refCount (pageBuffers e ! i) \<le> 1 then dmaPageBufferFree i e else e)"

text \<open>The synchronisation of the caches of the host, which the flag \<open>sgHost\<close> records.\<close>

definition dmaSgDevice :: "nat option \<Rightarrow> stream_engine \<Rightarrow> stream_engine" where
  "dmaSgDevice page e =
     (case page of None \<Rightarrow> e
      | Some i \<Rightarrow> upd_page i (\<lambda>b. if \<not> page_rdma b \<and> sgMap b \<and> sgHost b then b\<lparr>sgHost := False\<rparr> else b) e)"

definition dmaSgHost :: "nat option \<Rightarrow> stream_engine \<Rightarrow> stream_engine" where
  "dmaSgHost page e =
     (case page of None \<Rightarrow> e
      | Some i \<Rightarrow> upd_page i (\<lambda>b. if \<not> page_rdma b \<and> sgMap b \<and> \<not> sgHost b then b\<lparr>sgHost := True\<rparr> else b) e)"

section \<open>The operations on the stream\<close>

type_synonym dma_stream = "stream_engine ntv2_stream"

definition dmaOpsStreamInitialize :: "dma_stream \<Rightarrow> int \<times> dma_stream" where
  "dmaOpsStreamInitialize s =
     (let (status, e) = dmaXlnxStreamStop (dma_engine s); s = s\<lparr>dma_engine := e\<rparr>
      in if status < 0
         then (NTV2_STREAM_OPS_FAIL, s\<lparr>engine_state := ntv2_stream_state_error\<rparr>)
         else (NTV2_STREAM_OPS_SUCCESS, s\<lparr>dma_engine := e\<lparr>strDescriptorIndex := 0\<rparr>,
                stream_state := ntv2_stream_state_initialized, engine_state := ntv2_stream_state_initialized\<rparr>))"

definition dmaOpsStreamRelease :: "dma_stream \<Rightarrow> int \<times> dma_stream" where
  "dmaOpsStreamRelease s =
     (let (status, e) = dmaXlnxStreamStop (dma_engine s); s = s\<lparr>dma_engine := e\<rparr>
      in if status < 0
         then (NTV2_STREAM_OPS_FAIL, s\<lparr>engine_state := ntv2_stream_state_error\<rparr>)
         else (NTV2_STREAM_OPS_SUCCESS, s\<lparr>stream_state := ntv2_stream_state_released,
                                         engine_state := ntv2_stream_state_released\<rparr>))"

text \<open>Start and stop run the engine when the stream was only initialised, and differ in the new state.\<close>

definition dmaOpsStreamRun :: "ntv2_stream_state \<Rightarrow> int \<Rightarrow> dma_stream \<Rightarrow> int \<times> dma_stream" where
  "dmaOpsStreamRun st now s =
     (if engine_state s = ntv2_stream_state_error
      then (NTV2_STREAM_OPS_FAIL, s)
      else (let (status, e) = (if stream_state s = ntv2_stream_state_initialized
                               then dmaXlnxStreamStart now 0 (dma_engine s) else (0, dma_engine s));
                s = s\<lparr>dma_engine := e\<rparr>
            in if status < 0
               then (NTV2_STREAM_OPS_FAIL, s\<lparr>engine_state := ntv2_stream_state_error\<rparr>)
               else (NTV2_STREAM_OPS_SUCCESS, s\<lparr>stream_state := st\<rparr>)))"

definition dmaOpsStreamStart :: "int \<Rightarrow> dma_stream \<Rightarrow> int \<times> dma_stream" where
  "dmaOpsStreamStart = dmaOpsStreamRun ntv2_stream_state_active"

definition dmaOpsStreamStop :: "int \<Rightarrow> dma_stream \<Rightarrow> int \<times> dma_stream" where
  "dmaOpsStreamStop = dmaOpsStreamRun ntv2_stream_state_idle"

definition dmaOpsStreamAdvance :: "dma_stream \<Rightarrow> int \<times> dma_stream" where
  "dmaOpsStreamAdvance s =
     (if stream_state s = ntv2_stream_state_error
      then (NTV2_STREAM_OPS_FAIL, s\<lparr>dma_engine := snd (dmaXlnxStreamStop (dma_engine s))\<rparr>)
      else if stream_state s \<noteq> ntv2_stream_state_idle \<and> stream_state s \<noteq> ntv2_stream_state_active
      then (NTV2_STREAM_OPS_FAIL, s)
      else (NTV2_STREAM_OPS_SUCCESS,
            s\<lparr>engine_state := (if stream_state s = ntv2_stream_state_active
                               then ntv2_stream_state_active else ntv2_stream_state_idle)\<rparr>))"

definition dmaOpsBufferQueue :: "nat \<Rightarrow> dma_stream \<Rightarrow> int \<times> dma_stream" where
  "dmaOpsBufferQueue index s =
     (if queued (str_buf s index)
      then (NTV2_STREAM_OPS_SUCCESS, s)
      else (let s = upd_buf index (\<lambda>b. b\<lparr>queued := False, linked := False, completed := False, flushed := False,
                      released := False, buf_error := False, dma_buffer := None, ds_index := 0, ds_count := 0\<rparr>) s;
                u = user_buffer (str_buf s index)
            in case owner s of
                 None \<Rightarrow> (NTV2_STREAM_OPS_FAIL, s)
               | Some file \<Rightarrow>
                   if mBufferPtr u = 0 \<or> mBufferBytes u = 0
                   then (NTV2_STREAM_OPS_FAIL, s)
                   else (case dmaPageRootFind file (mBufferPtr u) (mBufferBytes u) (dma_engine s) of
                       (None, e) \<Rightarrow> (NTV2_STREAM_OPS_FAIL, s\<lparr>dma_engine := e\<rparr>)
                     | (Some page, e) \<Rightarrow>
                         if \<not> pageLock (pageBuffers e ! page)
                         then (NTV2_STREAM_OPS_FAIL, s\<lparr>dma_engine := dmaPageRootFree (Some page) e\<rparr>)
                         else if \<not> sgMap (pageBuffers e ! page)
                         then (NTV2_STREAM_OPS_FAIL, s\<lparr>dma_engine := dmaPageRootFree (Some page) e\<rparr>)
                         else (NTV2_STREAM_OPS_SUCCESS,
                               upd_buf index (\<lambda>b. b\<lparr>queued := True, dma_buffer := Some page\<rparr>)
                                 (s\<lparr>dma_engine := dmaSgDevice (Some page) e\<rparr>)))))"

text \<open>
  The descriptors of one buffer: they end with a link to the first, so that the engine repeats the
  buffer. The additions are modulo the number of descriptors.
\<close>

definition link_buffer :: "nat \<Rightarrow> nat \<Rightarrow> dma_stream \<Rightarrow> int \<times> dma_stream" where
  "link_buffer index page s =
     (let index0 = strDescriptorIndex (dma_engine s);
          s = upd_buf index (\<lambda>b. b\<lparr>ds_index := index0\<rparr>) s;
          (status, e) = dmaXlnxStreamBuild page index0 (dma_engine s);
          s = s\<lparr>dma_engine := e\<rparr>
      in if status \<le> 0
         then (NTV2_STREAM_OPS_FAIL, s\<lparr>engine_state := ntv2_stream_state_error\<rparr>)
         else (let count = u32_of status;
                   s = upd_buf index (\<lambda>b. b\<lparr>ds_count := count\<rparr>) s;
                   e = e\<lparr>strDescriptorIndex := (index0 + count) mod maxDescriptors e\<rparr>;
                   (status, e) = dmaXlnxStreamLink ((index0 + count - 1) mod maxDescriptors e) index0 e;
                   s = s\<lparr>dma_engine := e\<rparr>
               in if status < 0
                  then (NTV2_STREAM_OPS_FAIL, s\<lparr>engine_state := ntv2_stream_state_error\<rparr>)
                  else (NTV2_STREAM_OPS_SUCCESS, upd_buf index (\<lambda>b. b\<lparr>linked := True\<rparr>) s)))"

text \<open>The test that a buffer can be linked, and its descriptors if it has none yet.\<close>

definition link_end :: "nat \<Rightarrow> dma_stream \<Rightarrow> int \<times> dma_stream" where
  "link_end index s =
     (let b = str_buf s index
      in if \<not> queued b \<or> flushed b \<or> completed b \<or> released b
         then (NTV2_STREAM_OPS_FAIL, s)
         else (case dma_buffer b of
             None \<Rightarrow> (NTV2_STREAM_OPS_FAIL, s)
           | Some page \<Rightarrow> if \<not> linked b then link_buffer index page s else (NTV2_STREAM_OPS_SUCCESS, s)))"

definition dmaOpsBufferLink :: "nat \<Rightarrow> nat \<Rightarrow> dma_stream \<Rightarrow> int \<times> dma_stream" where
  "dmaOpsBufferLink from_index to_index s =
     (if engine_state s = ntv2_stream_state_error
      then (NTV2_STREAM_OPS_FAIL, s)
      else (let (status, s) = link_end from_index s
            in if status \<noteq> NTV2_STREAM_OPS_SUCCESS
               then (status, s)
               else (let (status, s) = link_end to_index s
                     in if status \<noteq> NTV2_STREAM_OPS_SUCCESS
                        then (status, s)
                        else if from_index = to_index
                        then (NTV2_STREAM_OPS_SUCCESS, s)
                        else (let bf = str_buf s from_index;
                                  (status, e) = dmaXlnxStreamLink
                                     ((ds_index bf + ds_count bf - 1) mod maxDescriptors (dma_engine s))
                                     (ds_index (str_buf s to_index)) (dma_engine s);
                                  s = s\<lparr>dma_engine := e\<rparr>
                              in if status < 0
                                 then (NTV2_STREAM_OPS_FAIL, s\<lparr>engine_state := ntv2_stream_state_error\<rparr>)
                                 else (NTV2_STREAM_OPS_SUCCESS, s)))))"

definition dmaOpsBufferComplete :: "nat \<Rightarrow> dma_stream \<Rightarrow> int \<times> dma_stream" where
  "dmaOpsBufferComplete index s =
     (let b = str_buf s index
      in if \<not> queued b \<or> \<not> linked b \<or> flushed b \<or> released b
         then (NTV2_STREAM_OPS_FAIL, s)
         else (NTV2_STREAM_OPS_SUCCESS, upd_buf index (\<lambda>b. b\<lparr>completed := True\<rparr>) s))"

definition running :: "'d ntv2_stream \<Rightarrow> bool" where
  "running s \<longleftrightarrow> engine_state s = ntv2_stream_state_active \<or> engine_state s = ntv2_stream_state_idle"

definition dmaOpsBufferFlush :: "nat \<Rightarrow> dma_stream \<Rightarrow> int \<times> dma_stream" where
  "dmaOpsBufferFlush index s =
     (let b = str_buf s index
      in if flushed b
         then (NTV2_STREAM_OPS_SUCCESS, s)
         else if \<not> queued b \<or> completed b \<or> released b
         then (NTV2_STREAM_OPS_FAIL, s)
         else if running s \<and> linked b
         then (NTV2_STREAM_OPS_FAIL, s)
         else (NTV2_STREAM_OPS_SUCCESS, upd_buf index (\<lambda>b. b\<lparr>flushed := True\<rparr>) s))"

definition dmaOpsBufferRelease :: "nat \<Rightarrow> dma_stream \<Rightarrow> int \<times> dma_stream" where
  "dmaOpsBufferRelease index s =
     (let b = str_buf s index
      in if released b
         then (NTV2_STREAM_OPS_SUCCESS, s)
         else if running s \<and> linked b \<and> \<not> completed b
         then (NTV2_STREAM_OPS_FAIL, s)
         else (let s = upd_buf index (\<lambda>b. b\<lparr>dma_buffer := None, queued := False, linked := False, completed := False,
                         flushed := False, released := True, buf_error := False\<rparr>) s
               in (NTV2_STREAM_OPS_SUCCESS,
                   s\<lparr>dma_engine := dmaPageRootFree (dma_buffer b) (dmaSgHost (dma_buffer b) (dma_engine s))\<rparr>)))"

text \<open>The operations that the driver configures its streams with; \<open>now\<close> is the clock.\<close>

definition dma_ops :: "int \<Rightarrow> stream_engine stream_ops" where
  "dma_ops now =
     \<lparr>stream_initialize = dmaOpsStreamInitialize, stream_start = dmaOpsStreamStart now,
      stream_stop = dmaOpsStreamStop now, stream_release = dmaOpsStreamRelease,
      stream_advance = dmaOpsStreamAdvance, buffer_queue = dmaOpsBufferQueue, buffer_link = dmaOpsBufferLink,
      buffer_complete = dmaOpsBufferComplete, buffer_flush = dmaOpsBufferFlush, buffer_release = dmaOpsBufferRelease\<rparr>"

end
