(* ===== verification/Ntv2StreamRing.thy ===== *)
theory Ntv2StreamRing
  imports Ntv2Stream
begin

text \<open>
  The queue of a stream. \<open>stream_queue\<close> reads the ring as a list of cookies, oldest first, and
  \<open>stream_ok\<close> is the invariant of the ring. The locale \<open>stream_provider\<close> is the contract between
  driver/ntv2stream.c and the driver of an engine: what each operation of \<open>stream_ops\<close> may change.
  The lemmas inside it show, for every engine that keeps the contract, what each operation on the
  stream does to the queue, and that its loops end.
\<close>

section \<open>Windows of the ring\<close>

definition ring_len :: "nat \<Rightarrow> nat \<Rightarrow> nat" where
  "ring_len t h = (if t \<le> h then h - t else h + 256 - t)"

definition ring_ids :: "nat \<Rightarrow> nat \<Rightarrow> nat list" where
  "ring_ids t h = map (\<lambda>k. (t + k) mod 256) [0..<ring_len t h]"

lemma ring_ids_self [simp]: "ring_ids t t = []"
  by (simp add: ring_ids_def ring_len_def)

lemma queue_next_less [simp]: "queue_next i < 256"
  by (simp add: queue_next_def)

lemma queue_prev_less [simp]: "queue_prev i < 256"
  by (simp add: queue_prev_def)

lemma queue_next_if: "i < 256 \<Longrightarrow> queue_next i = (if i = 255 then 0 else Suc i)"
  by (auto simp: queue_next_def)

lemma queue_prev_if: "i < 256 \<Longrightarrow> queue_prev i = (if i = 0 then 255 else i - 1)"
  by (auto simp: queue_prev_def mod_if)

lemma queue_prev_next [simp]: "i < 256 \<Longrightarrow> queue_prev (queue_next i) = i"
  by (auto simp: queue_next_if queue_prev_if)

lemma queue_next_prev [simp]: "i < 256 \<Longrightarrow> queue_next (queue_prev i) = i"
  by (auto simp: queue_next_if queue_prev_if)

lemma ring_len_next_right:
  "t < 256 \<Longrightarrow> h < 256 \<Longrightarrow> queue_next h \<noteq> t \<Longrightarrow> ring_len t (queue_next h) = Suc (ring_len t h)"
  by (auto simp: ring_len_def queue_next_if split: if_splits)

lemma ring_len_next_left:
  "t < 256 \<Longrightarrow> h < 256 \<Longrightarrow> t \<noteq> h \<Longrightarrow> ring_len t h = Suc (ring_len (queue_next t) h)"
  by (auto simp: ring_len_def queue_next_if split: if_splits)

lemma ring_len_add: "t < 256 \<Longrightarrow> h < 256 \<Longrightarrow> (t + ring_len t h) mod 256 = h"
  by (auto simp: ring_len_def)

lemma ring_len_less: "t < 256 \<Longrightarrow> h < 256 \<Longrightarrow> ring_len t h < 256"
  by (auto simp: ring_len_def)

lemma ring_ids_snoc:
  "t < 256 \<Longrightarrow> h < 256 \<Longrightarrow> queue_next h \<noteq> t \<Longrightarrow> ring_ids t (queue_next h) = ring_ids t h @ [h]"
  by (simp add: ring_ids_def ring_len_next_right ring_len_add)

lemma ring_ids_Cons:
  assumes "t < 256" "h < 256" "t \<noteq> h"
  shows "ring_ids t h = t # ring_ids (queue_next t) h"
proof -
  have "(t + Suc k) mod 256 = (queue_next t + k) mod 256" for k
    by (simp add: queue_next_def mod_simps)
  then show ?thesis
    using assms by (simp add: ring_ids_def ring_len_next_left upt_conv_Cons map_Suc_upt [symmetric]
        del: upt_Suc)
qed

lemma in_ring_ids:
  assumes "t < 256" "h < 256"
  shows "i \<in> set (ring_ids t h) \<longleftrightarrow> i < 256 \<and> ring_len t i < ring_len t h"
proof
  assume "i \<in> set (ring_ids t h)"
  then obtain k where k: "k < ring_len t h" "i = (t + k) mod 256"
    by (auto simp: ring_ids_def)
  then have "ring_len t i = k"
    using assms ring_len_less [OF assms] by (auto simp: ring_len_def mod_if split: if_splits)
  then show "i < 256 \<and> ring_len t i < ring_len t h"
    using k by simp
next
  assume "i < 256 \<and> ring_len t i < ring_len t h"
  then show "i \<in> set (ring_ids t h)"
    using assms by (force simp: ring_ids_def ring_len_add image_iff Bex_def)
qed

lemma head_not_in_ring: "t < 256 \<Longrightarrow> h < 256 \<Longrightarrow> h \<notin> set (ring_ids t h)"
  by (simp add: in_ring_ids)

lemma tail_not_in_rest: "t < 256 \<Longrightarrow> h < 256 \<Longrightarrow> t \<notin> set (ring_ids (queue_next t) h)"
  by (auto simp: in_ring_ids ring_len_def queue_next_if split: if_splits)

section \<open>The queue and its invariant\<close>

definition buf_cookie :: "'d ntv2_stream \<Rightarrow> nat \<Rightarrow> u64" where
  "buf_cookie s i = mBufferCookie (user_buffer (str_buf s i))"

definition stream_queue :: "'d ntv2_stream \<Rightarrow> u64 list" where
  "stream_queue s = map (buf_cookie s) (ring_ids (tail_index s) (head_index s))"

definition stream_ok :: "'d ntv2_stream \<Rightarrow> bool" where
  "stream_ok s \<longleftrightarrow>
     length (stream_buffers s) = 256 \<and> head_index s < 256 \<and> tail_index s < 256 \<and>
     active_index s < 256 \<and> next_index s < 256 \<and>
     (\<forall>i<256. queued (str_buf s i) \<longleftrightarrow> i \<in> set (ring_ids (tail_index s) (head_index s))) \<and>
     (\<forall>i<256. released (str_buf s i) \<longrightarrow> \<not> queued (str_buf s i))"

lemma upd_buf_sel [simp]:
  "head_index (upd_buf i f s) = head_index s" "tail_index (upd_buf i f s) = tail_index s"
  "active_index (upd_buf i f s) = active_index s" "next_index (upd_buf i f s) = next_index s"
  "user_channel (upd_buf i f s) = user_channel s" "stream_state (upd_buf i f s) = stream_state s"
  "engine_state (upd_buf i f s) = engine_state s" "owner (upd_buf i f s) = owner s"
  "dma_engine (upd_buf i f s) = dma_engine s" "init_count (upd_buf i f s) = init_count s"
  "init_advance (upd_buf i f s) = init_advance s"
  "length (stream_buffers (upd_buf i f s)) = length (stream_buffers s)"
  by (simp_all add: upd_buf_def)

lemma str_buf_upd_other [simp]: "i \<noteq> j \<Longrightarrow> str_buf (upd_buf i f s) j = str_buf s j"
  by (simp add: upd_buf_def)

lemma upd_user_sel [simp]:
  "head_index (upd_user i f s) = head_index s" "tail_index (upd_user i f s) = tail_index s"
  "active_index (upd_user i f s) = active_index s" "next_index (upd_user i f s) = next_index s"
  "user_channel (upd_user i f s) = user_channel s" "stream_state (upd_user i f s) = stream_state s"
  "engine_state (upd_user i f s) = engine_state s" "owner (upd_user i f s) = owner s"
  "dma_engine (upd_user i f s) = dma_engine s" "init_count (upd_user i f s) = init_count s"
  "init_advance (upd_user i f s) = init_advance s"
  "length (stream_buffers (upd_user i f s)) = length (stream_buffers s)"
  by (simp_all add: upd_user_def)

text \<open>What a step leaves that does not change the queue.\<close>

definition buf_view :: "ntv2_stream_buffer \<Rightarrow> u64 \<times> bool \<times> bool" where
  "buf_view b = (mBufferCookie (user_buffer b), queued b, released b)"

definition same_queue :: "'d ntv2_stream \<Rightarrow> 'd ntv2_stream \<Rightarrow> bool" where
  "same_queue s s' \<longleftrightarrow>
     head_index s' = head_index s \<and> tail_index s' = tail_index s \<and>
     (active_index s < 256 \<and> next_index s < 256 \<longrightarrow> active_index s' < 256 \<and> next_index s' < 256) \<and>
     map buf_view (stream_buffers s') = map buf_view (stream_buffers s)"

lemma same_queue_refl [simp]: "same_queue s s"
  by (simp add: same_queue_def)

lemma same_queue_trans [trans]: "same_queue s s' \<Longrightarrow> same_queue s' s'' \<Longrightarrow> same_queue s s''"
  by (auto simp: same_queue_def)

lemma same_queue_length: "same_queue s s' \<Longrightarrow> length (stream_buffers s') = length (stream_buffers s)"
  by (metis same_queue_def length_map)

lemma same_queue_view:
  assumes "same_queue s s'" and "i < length (stream_buffers s)"
  shows "buf_view (str_buf s' i) = buf_view (str_buf s i)"
  using assms same_queue_length [OF assms(1)] by (metis same_queue_def nth_map)

lemma same_queue_ok:
  assumes "same_queue s s'" and "stream_ok s"
  shows "stream_ok s'"
proof -
  have "queued (str_buf s' i) = queued (str_buf s i) \<and> released (str_buf s' i) = released (str_buf s i)" if "i < 256" for i
    using same_queue_view [OF assms(1), of i] assms(2) that by (simp add: stream_ok_def buf_view_def)
  then show ?thesis
    using assms same_queue_length [OF assms(1)] by (auto simp: stream_ok_def same_queue_def)
qed

lemma same_queue_queue:
  assumes "same_queue s s'" and "stream_ok s"
  shows "stream_queue s' = stream_queue s"
proof -
  have "buf_cookie s' i = buf_cookie s i" if "i < 256" for i
    using same_queue_view [OF assms(1), of i] assms(2) that by (simp add: stream_ok_def buf_view_def buf_cookie_def)
  then show ?thesis
    using assms by (auto simp: stream_queue_def same_queue_def stream_ok_def in_ring_ids)
qed

lemma map_upd_same:
  assumes "\<And>b. g (f b) = g b"
  shows "map g (xs[i := f (xs ! i)]) = map g xs"
  by (cases "i < length xs") (simp_all add: map_update assms list_update_same_conv list_update_beyond)

lemma same_queue_upd_buf:
  assumes "\<And>b. buf_view (f b) = buf_view b"
  shows "same_queue s (upd_buf i f s)"
  by (simp add: same_queue_def upd_buf_def map_upd_same assms)

text \<open>The changes that the right-hand side of \<open>same_queue\<close> does not see.\<close>

lemma same_queue_right:
  assumes "same_queue s' s''"
    and "active_index s'' = active_index s'" and "next_index s'' = next_index s'"
  shows "same_queue s s'' \<longleftrightarrow> same_queue s s'"
  using assms by (auto simp: same_queue_def)

lemma same_queue_upd_user [simp]:
  assumes "\<And>u. mBufferCookie (f u) = mBufferCookie u"
  shows "same_queue s (upd_user i f s') \<longleftrightarrow> same_queue s s'"
proof -
  have "same_queue s' (upd_user i f s')"
    unfolding upd_user_def by (rule same_queue_upd_buf) (simp add: buf_view_def assms)
  then show ?thesis
    by (rule same_queue_right) (simp_all add: upd_user_def upd_buf_def)
qed

lemma same_queue_frame [simp]:
  "same_queue s (s'\<lparr>owner := a\<rparr>) \<longleftrightarrow> same_queue s s'"
  "same_queue s (s'\<lparr>user_channel := b\<rparr>) \<longleftrightarrow> same_queue s s'"
  "same_queue s (s'\<lparr>wait_events := c\<rparr>) \<longleftrightarrow> same_queue s s'"
  "same_queue s (s'\<lparr>wait_inuse := c\<rparr>) \<longleftrightarrow> same_queue s s'"
  "same_queue s (s'\<lparr>engine_state := d\<rparr>) \<longleftrightarrow> same_queue s s'"
  "same_queue s (s'\<lparr>stream_state := d\<rparr>) \<longleftrightarrow> same_queue s s'"
  "same_queue s (s'\<lparr>init_count := e\<rparr>) \<longleftrightarrow> same_queue s s'"
  by (simp_all add: same_queue_def)

lemma same_queue_report [simp]:
  "same_queue s (fst (snd (report_channel r st s' p))) \<longleftrightarrow> same_queue s s'"
  "same_queue s (signal_all s') \<longleftrightarrow> same_queue s s'"
  "same_queue s (fst (snd (report_buffer i s' u))) \<longleftrightarrow> same_queue s s'"
  "fst (snd (report_no_buffer r st s' u)) = s'"
  by (simp_all add: report_channel_def channel_status_def signal_all_def report_buffer_def buffer_status_def
      report_no_buffer_def Let_def)

lemma same_queue_next: "same_queue s s' \<Longrightarrow> stream_ok s \<Longrightarrow> n < 256 \<Longrightarrow> same_queue s (s'\<lparr>next_index := n\<rparr>)"
  by (simp add: same_queue_def stream_ok_def)

lemma same_queue_active: "same_queue s s' \<Longrightarrow> stream_ok s \<Longrightarrow> n < 256 \<Longrightarrow> same_queue s (s'\<lparr>active_index := n\<rparr>)"
  by (simp add: same_queue_def stream_ok_def)

lemma same_queue_fold:
  assumes "\<And>i s. i \<in> set xs \<Longrightarrow> length (stream_buffers s) = n \<Longrightarrow> same_queue s (g i s)"
    and "length (stream_buffers s) = n"
  shows "same_queue s (fold g xs s)"
  using assms
proof (induction xs arbitrary: s)
  case (Cons i xs)
  have 1: "same_queue s (g i s)"
    using Cons.prems by simp
  have "same_queue (g i s) (fold g xs (g i s))"
    using Cons.prems same_queue_length [OF 1] by (intro Cons.IH) auto
  with 1 show ?case
    by (auto intro: same_queue_trans)
qed simp

text \<open>A step that takes the slot of the head, and one that gives back the slot of the tail.\<close>

lemma head_step:
  assumes "stream_ok s" "length (stream_buffers s') = 256" "tail_index s' = tail_index s"
    and "active_index s' < 256" "next_index s' < 256"
    and views: "\<And>j. j < 256 \<Longrightarrow> j \<noteq> head_index s \<Longrightarrow> buf_view (str_buf s' j) = buf_view (str_buf s j)"
    and released: "\<not> released (str_buf s' (head_index s)) \<or> \<not> queued (str_buf s' (head_index s))"
  shows "head_index s' = head_index s \<Longrightarrow> \<not> queued (str_buf s' (head_index s)) \<Longrightarrow>
           stream_ok s' \<and> stream_queue s' = stream_queue s"
    and "head_index s' = queue_next (head_index s) \<Longrightarrow> queue_next (head_index s) \<noteq> tail_index s \<Longrightarrow>
           queued (str_buf s' (head_index s)) \<Longrightarrow>
           stream_ok s' \<and> stream_queue s' = stream_queue s @ [buf_cookie s' (head_index s)]"
proof -
  let ?h = "head_index s" and ?t = "tail_index s"
  have idx: "?h < 256" "?t < 256"
    using assms(1) by (auto simp: stream_ok_def)
  have flag: "queued (str_buf s' j) = queued (str_buf s j) \<and> released (str_buf s' j) = released (str_buf s j)"
    if "j < 256" "j \<noteq> ?h" for j
    using views [OF that] by (simp add: buf_view_def)
  have ids: "map (buf_cookie s') (ring_ids ?t ?h) = map (buf_cookie s) (ring_ids ?t ?h)"
  proof (intro map_cong refl)
    fix j
    assume "j \<in> set (ring_ids ?t ?h)"
    then have "j < 256" "j \<noteq> ?h"
      using idx by (auto simp: in_ring_ids)
    then show "buf_cookie s' j = buf_cookie s j"
      using views by (simp add: buf_cookie_def buf_view_def)
  qed
  { assume "head_index s' = ?h" "\<not> queued (str_buf s' ?h)"
    then show "stream_ok s' \<and> stream_queue s' = stream_queue s"
      using assms idx flag ids head_not_in_ring [OF idx(2,1)] unfolding stream_ok_def stream_queue_def by metis }
  { assume "head_index s' = queue_next ?h" "queue_next ?h \<noteq> ?t" "queued (str_buf s' ?h)"
    moreover have "set (ring_ids ?t (queue_next ?h)) = insert ?h (set (ring_ids ?t ?h))"
      using calculation(2) idx by (simp add: ring_ids_snoc)
    ultimately show "stream_ok s' \<and> stream_queue s' = stream_queue s @ [buf_cookie s' ?h]"
      using assms idx flag ids ring_ids_snoc [OF idx(2,1)] unfolding stream_ok_def stream_queue_def
      by (smt (verit) insert_iff list.simps(8,9) map_append queue_next_less) }
qed

lemma tail_step:
  assumes "stream_ok s" "length (stream_buffers s') = 256" "head_index s' = head_index s"
    and "tail_index s' = queue_next (tail_index s)"
    and "active_index s' < 256" "next_index s' < 256"
    and views: "\<And>j. j < 256 \<Longrightarrow> j \<noteq> tail_index s \<Longrightarrow> buf_view (str_buf s' j) = buf_view (str_buf s j)"
    and "queued (str_buf s (tail_index s))" "\<not> queued (str_buf s' (tail_index s))"
  shows "stream_ok s' \<and> stream_queue s = buf_cookie s (tail_index s) # stream_queue s'"
proof -
  let ?h = "head_index s" and ?t = "tail_index s"
  have idx: "?h < 256" "?t < 256" "?t \<noteq> ?h"
    using assms(1,8) by (auto simp: stream_ok_def)
  have flag: "queued (str_buf s' j) = queued (str_buf s j) \<and> released (str_buf s' j) = released (str_buf s j)"
    if "j < 256" "j \<noteq> ?t" for j
    using views [OF that] by (simp add: buf_view_def)
  note nt = tail_not_in_rest [OF idx(2,1)]
  have ids: "map (buf_cookie s') (ring_ids (queue_next ?t) ?h) = map (buf_cookie s) (ring_ids (queue_next ?t) ?h)"
  proof (intro map_cong refl)
    fix j
    assume "j \<in> set (ring_ids (queue_next ?t) ?h)"
    then have "j < 256" "j \<noteq> ?t"
      using idx nt by (auto simp: in_ring_ids)
    then show "buf_cookie s' j = buf_cookie s j"
      using views by (simp add: buf_cookie_def buf_view_def)
  qed
  have "set (ring_ids ?t ?h) = insert ?t (set (ring_ids (queue_next ?t) ?h))"
    using idx by (simp add: ring_ids_Cons)
  then have "stream_ok s'"
    using assms idx flag nt unfolding stream_ok_def by (metis insert_iff queue_next_less)
  then show ?thesis
    using ids assms(3,4) idx by (simp add: stream_queue_def ring_ids_Cons)
qed

section \<open>The contract of an engine\<close>

definition ring_kept :: "'d ntv2_stream \<Rightarrow> 'd ntv2_stream \<Rightarrow> bool" where
  "ring_kept s s' \<longleftrightarrow>
     head_index s' = head_index s \<and> tail_index s' = tail_index s \<and> active_index s' = active_index s \<and>
     next_index s' = next_index s \<and> owner s' = owner s \<and> user_channel s' = user_channel s \<and>
     map user_buffer (stream_buffers s') = map user_buffer (stream_buffers s)"

definition others_kept :: "nat set \<Rightarrow> 'd ntv2_stream \<Rightarrow> 'd ntv2_stream \<Rightarrow> bool" where
  "others_kept I s s' \<longleftrightarrow> (\<forall>j<length (stream_buffers s). j \<notin> I \<longrightarrow> str_buf s' j = str_buf s j)"

definition flags_kept :: "nat set \<Rightarrow> 'd ntv2_stream \<Rightarrow> 'd ntv2_stream \<Rightarrow> bool" where
  "flags_kept I s s' \<longleftrightarrow>
     (\<forall>i\<in>I. queued (str_buf s' i) = queued (str_buf s i) \<and> released (str_buf s' i) = released (str_buf s i))"

lemma ring_kept_length: "ring_kept s s' \<Longrightarrow> length (stream_buffers s') = length (stream_buffers s)"
  by (metis ring_kept_def length_map)

lemma ring_kept_user:
  assumes "ring_kept s s'" and "i < length (stream_buffers s)"
  shows "user_buffer (str_buf s' i) = user_buffer (str_buf s i)"
  using assms ring_kept_length [OF assms(1)] by (metis ring_kept_def nth_map)

lemma kept_same_queue:
  assumes "ring_kept s s'" and "others_kept I s s'" and "flags_kept I s s'"
  shows "same_queue s s'"
proof -
  have "map buf_view (stream_buffers s') = map buf_view (stream_buffers s)"
  proof (rule nth_equalityI)
    fix i
    assume "i < length (map buf_view (stream_buffers s'))"
    then have "i < length (stream_buffers s)" "i < length (stream_buffers s')"
      using ring_kept_length [OF assms(1)] by simp_all
    then show "map buf_view (stream_buffers s') ! i = map buf_view (stream_buffers s) ! i"
      using assms ring_kept_user [OF assms(1)]
      by (cases "i \<in> I") (auto simp: others_kept_def flags_kept_def buf_view_def)
  qed (simp add: ring_kept_length [OF assms(1)])
  then show ?thesis
    using assms(1) by (auto simp: same_queue_def ring_kept_def)
qed

text \<open>
  Each law is about one operation \<open>f\<close> and a stream \<open>s\<close>: the status is \<open>fst (f s)\<close> and the new stream
  \<open>snd (f s)\<close>. \<open>halted\<close> says that the engine runs no buffer, so that all can be released.
\<close>

locale stream_provider =
  fixes ops :: "'d stream_ops"
    and halted :: "'d ntv2_stream \<Rightarrow> bool"
  assumes engine_kept:
      "f \<in> {stream_initialize ops, stream_start ops, stream_stop ops, stream_release ops, stream_advance ops}
       \<Longrightarrow> ring_kept s (snd (f s)) \<and> stream_buffers (snd (f s)) = stream_buffers s"
    and release_halts: "fst (stream_release ops s) = NTV2_STREAM_OPS_SUCCESS \<Longrightarrow> halted (snd (stream_release ops s))"
    and advance_follows:
      "stream_state s = ntv2_stream_state_active \<or> stream_state s = ntv2_stream_state_idle
       \<Longrightarrow> fst (stream_advance ops s) = NTV2_STREAM_OPS_SUCCESS \<and>
           engine_state (snd (stream_advance ops s)) = stream_state s"
    and queue_kept: "i < length (stream_buffers s) \<Longrightarrow> ring_kept s (snd (buffer_queue ops i s))"
    and queue_others: "others_kept {i} s (snd (buffer_queue ops i s))"
    and queue_sets: "i < length (stream_buffers s) \<Longrightarrow> \<not> queued (str_buf s i)
       \<Longrightarrow> (queued (str_buf (snd (buffer_queue ops i s)) i) \<longleftrightarrow> fst (buffer_queue ops i s) = NTV2_STREAM_OPS_SUCCESS) \<and>
           \<not> released (str_buf (snd (buffer_queue ops i s)) i)"
    and link_kept: "i < length (stream_buffers s) \<Longrightarrow> j < length (stream_buffers s)
       \<Longrightarrow> ring_kept s (snd (buffer_link ops i j s))"
    and link_others: "others_kept {i, j} s (snd (buffer_link ops i j s))"
    and link_flags: "i < length (stream_buffers s) \<Longrightarrow> j < length (stream_buffers s)
       \<Longrightarrow> flags_kept {i, j} s (snd (buffer_link ops i j s))"
    and complete_kept: "i < length (stream_buffers s)
       \<Longrightarrow> ring_kept s (snd (buffer_complete ops i s)) \<and>
           stream_state (snd (buffer_complete ops i s)) = stream_state s"
    and complete_others: "others_kept {i} s (snd (buffer_complete ops i s))"
    and complete_flags: "i < length (stream_buffers s)
       \<Longrightarrow> flags_kept {i} s (snd (buffer_complete ops i s)) \<and>
           flushed (str_buf (snd (buffer_complete ops i s)) i) = flushed (str_buf s i)"
    and flush_kept: "i < length (stream_buffers s) \<Longrightarrow> ring_kept s (snd (buffer_flush ops i s))"
    and flush_others: "others_kept {i} s (snd (buffer_flush ops i s))"
    and flush_flags: "i < length (stream_buffers s) \<Longrightarrow> flags_kept {i} s (snd (buffer_flush ops i s))"
    and release_kept: "i < length (stream_buffers s) \<Longrightarrow> ring_kept s (snd (buffer_release ops i s))"
    and release_others: "others_kept {i} s (snd (buffer_release ops i s))"
    and release_clears: "i < length (stream_buffers s) \<Longrightarrow> \<not> (released (str_buf s i) \<and> queued (str_buf s i))
       \<Longrightarrow> fst (buffer_release ops i s) = NTV2_STREAM_OPS_SUCCESS
       \<Longrightarrow> \<not> queued (str_buf (snd (buffer_release ops i s)) i)"
    and release_fails: "fst (buffer_release ops i s) \<noteq> NTV2_STREAM_OPS_SUCCESS \<Longrightarrow> snd (buffer_release ops i s) = s"
    and release_halted: "halted s
       \<Longrightarrow> fst (buffer_release ops i s) = NTV2_STREAM_OPS_SUCCESS \<and> halted (snd (buffer_release ops i s))"
begin

lemma engine_same:
  assumes "f \<in> {stream_initialize ops, stream_start ops, stream_stop ops, stream_release ops, stream_advance ops}"
  shows "same_queue s (snd (f s))"
  using engine_kept [OF assms] by (auto intro!: kept_same_queue [where I = "{}"] simp: others_kept_def flags_kept_def)

lemma link_same: "i < length (stream_buffers s) \<Longrightarrow> j < length (stream_buffers s) \<Longrightarrow> same_queue s (snd (buffer_link ops i j s))"
  by (rule kept_same_queue [OF link_kept link_others link_flags])

lemma complete_same: "i < length (stream_buffers s) \<Longrightarrow> same_queue s (snd (buffer_complete ops i s))"
  by (rule kept_same_queue [OF conjunct1 [OF complete_kept] complete_others conjunct1 [OF complete_flags]])

lemma flush_same: "i < length (stream_buffers s) \<Longrightarrow> same_queue s (snd (buffer_flush ops i s))"
  by (rule kept_same_queue [OF flush_kept flush_others flush_flags])

end

end
