(* ===== verification/Ntv2StreamClient.thy ===== *)
theory Ntv2StreamClient
  imports Ntv2StreamRing
begin

text \<open>
  The operations of driver/ntv2stream.c over any engine that keeps the contract: which of them
  change the queue and how, and that their loops end.
\<close>

text \<open>The interrupts that were counted.\<close>

definition counted_transfers :: "'d ntv2_stream \<Rightarrow> u64" where
  "counted_transfers s = mActiveCount (user_channel s) + mRepeatCount (user_channel s) + mIdleCount (user_channel s)"

lemma flushed_upd_user [simp]: "flushed (str_buf (upd_user i f s) j) = flushed (str_buf s j)"
  by (cases "i < length (stream_buffers s)"; cases "i = j") (simp_all add: upd_user_def upd_buf_def list_update_beyond)

lemma same_okD: "same_queue s s' \<Longrightarrow> stream_ok s \<Longrightarrow> stream_ok s' \<and> stream_queue s' = stream_queue s"
  using same_queue_ok same_queue_queue by blast

lemma stream_okD:
  "stream_ok s \<Longrightarrow> length (stream_buffers s) = 256"
  "stream_ok s \<Longrightarrow> head_index s < 256"
  "stream_ok s \<Longrightarrow> tail_index s < 256"
  "stream_ok s \<Longrightarrow> active_index s < 256"
  "stream_ok s \<Longrightarrow> next_index s < 256"
  by (simp_all add: stream_ok_def)

lemma enter_same: "case channel_wait_enter down s p of Inl (ret, s', p') \<Rightarrow> same_queue s s' | Inr (i, s') \<Rightarrow> same_queue s s'"
  by (auto simp: channel_wait_enter_def report_channel_def channel_status_def Let_def split: option.splits)

lemma leave_same: "same_queue s (fst (snd (channel_wait_leave i signalled down s p)))"
  by (simp add: channel_wait_leave_def Let_def)

lemma status_same: "same_queue s (fst (snd (ntv2_stream_channel_status down s p)))"
  by (simp add: ntv2_stream_channel_status_def)

text \<open>The search for a cookie finds the oldest buffer in the queue that has it.\<close>

lemma find_cookie_eq:
  assumes "i < 256" "head_index s < 256"
  shows "find_cookie cookie s i =
           Some (case find (\<lambda>j. buf_cookie s j = cookie) (ring_ids i (head_index s)) of
                   None \<Rightarrow> head_index s | Some j \<Rightarrow> j)"
  using assms(1)
proof (induction "ring_len i (head_index s)" arbitrary: i rule: less_induct)
  case less
  show ?case
  proof (cases "i = head_index s \<or> buf_cookie s i = cookie")
    case True
    then have "find_cookie cookie s i = Some i"
      by (subst find_cookie.simps) (auto simp: buf_cookie_def)
    then show ?thesis
      using True less.prems assms(2) by (cases "i = head_index s") (auto simp: ring_ids_Cons)
  next
    case False
    then have "ring_len (queue_next i) (head_index s) < ring_len i (head_index s)"
      using less.prems assms(2) by (simp add: ring_len_next_left)
    from less.hyps [OF this] show ?thesis
      using False less.prems assms(2) by (subst find_cookie.simps) (auto simp: buf_cookie_def ring_ids_Cons)
  qed
qed

lemma buffer_status_returns:
  assumes "stream_ok s"
  shows "\<exists>ret s' p'. ntv2_stream_buffer_status down s p = Some (ret, s', p') \<and> same_queue s s'"
proof -
  obtain i where "find_cookie (mBufferCookie p) s (tail_index s) = Some i"
    using find_cookie_eq assms stream_okD by blast
  then show ?thesis
    by (cases "report_buffer i s p") (auto simp: ntv2_stream_buffer_status_def report_no_buffer_def
        dest: arg_cong [where f = "\<lambda>r. same_queue s (fst (snd r))"])
qed

context stream_provider
begin

lemma initialize_same:
  assumes "stream_ok s"
  shows "same_queue s (fst (snd (ntv2_stream_channel_initialize ops down own s p)))"
proof -
  let ?s = "snd (stream_initialize ops s)"
  have 1: "same_queue s ?s"
    by (rule engine_same) simp
  have 2: "length (stream_buffers ?s) = 256"
    using same_queue_length [OF 1] stream_okD(1) [OF assms] by simp
  have "same_queue (?s\<lparr>owner := x\<rparr>)
          (fold (\<lambda>i s. snd (buffer_flush ops i s)) [0..<256] (?s\<lparr>owner := x\<rparr>))" for x
    by (rule same_queue_fold [where n = 256]) (simp_all add: flush_same 2)
  then have "same_queue s (fold (\<lambda>i s. snd (buffer_flush ops i s)) [0..<256] (?s\<lparr>owner := x\<rparr>))" for x
    by (rule same_queue_trans [rotated]) (simp add: 1)
  with 1 show ?thesis
    unfolding ntv2_stream_channel_initialize_def Let_def case_prod_unfold
    by (simp del: upt_rec_numeral)
qed

lemma first_link_same:
  assumes "stream_ok s"
  shows "same_queue s (snd (channel_first_link ops s))"
proof -
  let ?s = "s\<lparr>user_channel := (user_channel s)\<lparr>mActiveCount := 0, mRepeatCount := 0, mIdleCount := 0\<rparr>,
              init_count := 0, next_index := active_index s\<rparr>"
  have "same_queue s ?s"
    using assms by (intro same_queue_next) (simp_all add: stream_okD)
  moreover have "same_queue ?s (snd (buffer_link ops (active_index s) (active_index s) ?s))"
    using assms by (intro link_same) (simp_all add: stream_okD)
  ultimately show ?thesis
    by (auto simp: channel_first_link_def Let_def intro: same_queue_trans)
qed

lemma start_same:
  assumes "stream_ok s"
  shows "same_queue s (fst (snd (ntv2_stream_channel_start ops down s p)))"
  using first_link_same [OF assms] same_queue_trans [OF first_link_same [OF assms] engine_same [where f = "stream_start ops"]]
  by (simp add: ntv2_stream_channel_start_def Let_def case_prod_unfold)

lemma stop_same:
  assumes "stream_ok s"
  shows "same_queue s (fst (snd (ntv2_stream_channel_stop ops down s p)))"
  using first_link_same [OF assms] same_queue_trans [OF first_link_same [OF assms] engine_same [where f = "stream_stop ops"]]
  by (simp add: ntv2_stream_channel_stop_def Let_def case_prod_unfold)

lemma flush_loop_returns:
  assumes "stream_ok s" "i < 256"
  shows "\<exists>s'. channel_flush_loop ops now i s = Some s' \<and> same_queue s s'"
  using assms
proof (induction "ring_len (tail_index s) i" arbitrary: i s rule: less_induct)
  case less
  note idx = stream_okD [OF less.prems(1)]
  show ?case
  proof (cases "i = tail_index s")
    case True
    then show ?thesis
      by (subst channel_flush_loop.simps) simp
  next
    case False
    let ?r = "buffer_flush ops (queue_prev i) s"
    let ?s = "upd_user (queue_prev i) (\<lambda>u. u\<lparr>mFlushTime := now\<rparr>) (snd ?r)"
    have 1: "same_queue s (snd ?r)"
      using idx by (intro flush_same) simp
    then have 2: "same_queue s ?s"
      by simp
    have "ring_len (tail_index s) i = Suc (ring_len (tail_index s) (queue_prev i))"
      using ring_len_next_right [of "tail_index s" "queue_prev i"] False idx less.prems(2) by simp
    then obtain s' where "channel_flush_loop ops now (queue_prev i) ?s = Some s'" "same_queue ?s s'"
      using less.hyps [of ?s "queue_prev i"] same_queue_ok [OF 2 less.prems(1)] 2 by (auto simp: same_queue_def)
    then show ?thesis
      using 1 2 False same_queue_trans [OF 2]
      by (subst channel_flush_loop.simps) (auto simp: Let_def case_prod_unfold)
  qed
qed

lemma flush_returns:
  assumes "stream_ok s"
  shows "\<exists>ret s' p'. ntv2_stream_channel_flush ops down now s p = Some (ret, s', p') \<and> same_queue s s'"
proof -
  obtain t where t: "(if \<not> queue_empty (head_index s) (tail_index s)
      then channel_flush_loop ops now (head_index s) s else Some s) = Some t" "same_queue s t"
    using flush_loop_returns [OF assms stream_okD(2) [OF assms], of now]
    by (cases "head_index s = tail_index s") (auto simp: queue_empty_def)
  have "\<exists>r. ntv2_stream_channel_flush ops down now s p = Some r \<and> same_queue s (fst (snd r))"
    unfolding ntv2_stream_channel_flush_def t(1) using t(2) by (simp del: split_paired_Ex)
  then show ?thesis
    by (metis prod.collapse)
qed

text \<open>The release of the channel empties the queue, since the engine was stopped before.\<close>

lemma release_all:
  assumes "halted s" "length (stream_buffers s) = 256" "n \<le> 256"
    and "\<And>i. i < 256 \<Longrightarrow> \<not> (released (str_buf s i) \<and> queued (str_buf s i))"
  shows "let s' = fold (\<lambda>i s. snd (buffer_release ops i s)) [0..<n] s
         in halted s' \<and> length (stream_buffers s') = 256 \<and>
            (\<forall>i<n. \<not> queued (str_buf s' i)) \<and> (\<forall>i. n \<le> i \<and> i < 256 \<longrightarrow> str_buf s' i = str_buf s i)"
  using assms(3)
proof (induction n)
  case (Suc n)
  define t where "t = fold (\<lambda>i s. snd (buffer_release ops i s)) [0..<n] s"
  have t: "halted t" "length (stream_buffers t) = 256" "\<forall>i<n. \<not> queued (str_buf t i)"
      "\<forall>i. n \<le> i \<and> i < 256 \<longrightarrow> str_buf t i = str_buf s i"
    using Suc by (auto simp: t_def [symmetric] Let_def)
  have n: "n < length (stream_buffers t)"
    using Suc.prems t(2) by simp
  let ?u = "snd (buffer_release ops n t)"
  have "\<not> queued (str_buf ?u n)"
    using release_clears [OF n _ conjunct1 [OF release_halted [OF t(1)]]] assms(4) [of n] t(4) Suc.prems by simp
  moreover have "length (stream_buffers ?u) = 256"
    using ring_kept_length [OF release_kept [OF n]] t(2) by simp
  moreover have "halted ?u"
    using release_halted [OF t(1)] by simp
  moreover have "\<forall>j<256. j \<noteq> n \<longrightarrow> str_buf ?u j = str_buf t j"
    using release_others [of n t] t(2) by (simp add: others_kept_def)
  ultimately show ?case
    using t(3,4) Suc.prems by (auto simp: t_def [symmetric] Let_def less_Suc_eq)
qed (use assms in simp)

lemma release_empties:
  assumes "stream_ok s" and r: "ntv2_stream_channel_release ops down own s p = (ret, s', p')"
  shows "if mStatus_c p' = NTV2_STREAM_STATUS_SUCCESS then stream_ok s' \<and> stream_queue s' = [] else same_queue s s'"
proof (cases "\<not> down \<or> own \<noteq> None \<and> own \<noteq> owner s \<or> fst (stream_release ops s) \<noteq> NTV2_STREAM_OPS_SUCCESS")
  case True
  have 1: "same_queue s (snd (stream_release ops s))"
    by (rule engine_same) simp
  have "same_queue s (fst (snd (ntv2_stream_channel_release ops down own s p)))"
    using True 1 by (auto simp: ntv2_stream_channel_release_def Let_def case_prod_unfold)
  moreover have "mStatus_c (snd (snd (ntv2_stream_channel_release ops down own s p))) \<noteq> NTV2_STREAM_STATUS_SUCCESS"
    using True by (auto simp: ntv2_stream_channel_release_def Let_def case_prod_unfold report_channel_def)
  ultimately show ?thesis
    using r by simp
next
  case False
  let ?s = "snd (stream_release ops s)"
  define t where "t = fold (\<lambda>i s. snd (buffer_release ops i s)) [0..<256] ?s"
  have 1: "same_queue s ?s"
    by (rule engine_same) simp
  have ok: "stream_ok ?s"
    by (rule same_queue_ok [OF 1 assms(1)])
  have "halted ?s"
    using False release_halts by simp
  then have t: "length (stream_buffers t) = 256" "\<And>i. i < 256 \<Longrightarrow> \<not> queued (str_buf t i)"
    using release_all [of ?s 256] ok by (auto simp: t_def [symmetric] Let_def stream_ok_def simp del: upt_rec_numeral)
  have "s' = fst (snd (ntv2_stream_channel_release ops down own s p))"
    using r by simp
  also have "\<dots> = fst (snd (report_channel STATUS_SUCCESS NTV2_STREAM_STATUS_SUCCESS
      (signal_all t\<lparr>head_index := 0, tail_index := 0, active_index := 0, next_index := 0,
         user_channel := (user_channel (signal_all t))\<lparr>mQueueCount := 0, mReleaseCount := 0,
           mActiveCount := 0, mRepeatCount := 0, mIdleCount := 0\<rparr>, owner := None\<rparr>) p))"
    unfolding ntv2_stream_channel_release_def Let_def case_prod_unfold t_def using False by (cases own) (auto simp del: upt_rec_numeral)
  finally have s': "head_index s' = 0" "tail_index s' = 0" "active_index s' = 0" "next_index s' = 0"
      "stream_buffers s' = stream_buffers t"
    by (simp_all add: report_channel_def channel_status_def signal_all_def Let_def)
  then have "stream_ok s' \<and> stream_queue s' = []"
    using t by (simp add: stream_ok_def stream_queue_def)
  moreover have "same_queue s s' \<or> mStatus_c p' = NTV2_STREAM_STATUS_SUCCESS"
    using r False by (auto simp: ntv2_stream_channel_release_def Let_def case_prod_unfold report_channel_def
        simp del: upt_rec_numeral)
  ultimately show ?thesis
    by auto
qed

text \<open>Queueing appends a cookie when it succeeds; releasing takes the oldest.\<close>

lemma buffer_queue_step:
  assumes "stream_ok s" and r: "ntv2_stream_buffer_queue ops down now own s p = (ret, s', p')"
  shows "stream_ok s' \<and> stream_queue s' =
           (if mStatus p' = NTV2_STREAM_STATUS_SUCCESS then stream_queue s @ [mBufferCookie p] else stream_queue s)"
proof -
  let ?h = "head_index s"
  let ?s = "upd_user ?h (\<lambda>_. p) s"
  let ?t = "snd (buffer_queue ops ?h ?s)" and ?st = "fst (buffer_queue ops ?h ?s)"
  note idx = stream_okD [OF assms(1)]
  show ?thesis
  proof (cases "\<not> down \<or> bad_state s \<or> Some own \<noteq> owner s \<or> queue_full ?h (tail_index s) \<or> queued (str_buf s ?h)")
    case True
    then have "s' = s \<and> mStatus p' \<noteq> NTV2_STREAM_STATUS_SUCCESS"
      using r by (auto simp: ntv2_stream_buffer_queue_def report_no_buffer_def Let_def split: if_splits)
    then show ?thesis
      using assms(1) by simp
  next
    case False
    have len: "?h < length (stream_buffers ?s)" "length (stream_buffers ?s) = 256"
      using idx by (simp_all add: upd_user_def upd_buf_def)
    have nq: "\<not> queued (str_buf ?s ?h)" and ck: "buf_cookie ?s ?h = mBufferCookie p"
      and oth: "\<And>j. j \<noteq> ?h \<Longrightarrow> str_buf ?s j = str_buf s j"
      using False idx by (auto simp: upd_user_def upd_buf_def buf_cookie_def)
    have fld: "head_index ?s = ?h" "tail_index ?s = tail_index s" "active_index ?s = active_index s" "next_index ?s = next_index s"
      by (simp_all add: upd_user_def upd_buf_def)
    note kept = queue_kept [OF len(1)] and sets = queue_sets [OF len(1) nq]
    have t: "head_index ?t = ?h" "tail_index ?t = tail_index s" "active_index ?t = active_index s"
        "next_index ?t = next_index s" "length (stream_buffers ?t) = 256" "buf_cookie ?t ?h = mBufferCookie p"
      using kept ring_kept_length [OF kept] ring_kept_user [OF kept len(1)] len(2) ck fld
      by (simp_all add: ring_kept_def buf_cookie_def)
    have views: "buf_view (str_buf ?t j) = buf_view (str_buf s j)" if "j < 256" "j \<noteq> ?h" for j
      using queue_others [of ?h ?s] that len(2) oth by (simp add: others_kept_def)
    show ?thesis
    proof (cases "?st = NTV2_STREAM_OPS_SUCCESS")
      case fail: False
      then have "s' = ?t \<and> mStatus p' \<noteq> NTV2_STREAM_STATUS_SUCCESS"
        using r False by (auto simp: ntv2_stream_buffer_queue_def report_no_buffer_def Let_def case_prod_unfold)
      then show ?thesis
        using head_step(1) [OF assms(1) t(5) t(2) _ _ views] t idx sets fail by simp
    next
      case True
      define u where "u = upd_user ?h (\<lambda>u. u\<lparr>mQueueTime := now\<rparr>) ?t"
      define v where "v = u\<lparr>head_index := queue_next (head_index u),
          user_channel := (user_channel u)\<lparr>mQueueCount := mQueueCount (user_channel u) + 1\<rparr>\<rparr>"
      have res: "s' = fst (snd (report_buffer ?h v p)) \<and> mStatus p' = NTV2_STREAM_STATUS_SUCCESS"
        using r False True by (auto simp: ntv2_stream_buffer_queue_def report_buffer_def u_def v_def Let_def case_prod_unfold)
      have v: "head_index v = queue_next ?h" "tail_index v = tail_index s" "active_index v = active_index s"
          "next_index v = next_index s" "length (stream_buffers v) = 256" "buf_cookie v ?h = mBufferCookie p"
          "queued (str_buf v ?h)" "\<not> released (str_buf v ?h)" "\<And>j. j \<noteq> ?h \<Longrightarrow> str_buf v j = str_buf ?t j"
        using t idx sets True by (auto simp: v_def u_def upd_user_def upd_buf_def buf_cookie_def)
      have "stream_ok v \<and> stream_queue v = stream_queue s @ [mBufferCookie p]"
        using head_step(2) [OF assms(1) v(5) v(2) _ _ _ _ v(1)] v(3,4,6-9) views idx False by (simp add: queue_full_def)
      moreover have "same_queue v (fst (snd (report_buffer ?h v p)))"
        by simp
      ultimately show ?thesis
        using res same_okD by metis
    qed
  qed
qed

lemma buffer_release_step:
  assumes "stream_ok s" and r: "ntv2_stream_buffer_release ops down own s p = (ret, s', p')"
  shows "stream_ok s' \<and>
         (if mStatus p' = NTV2_STREAM_STATUS_SUCCESS
          then stream_queue s = mBufferCookie p' # stream_queue s' else stream_queue s' = stream_queue s)"
proof -
  let ?t = "tail_index s"
  let ?s = "snd (buffer_release ops ?t s)"
  note idx = stream_okD [OF assms(1)]
  have len: "?t < length (stream_buffers s)"
    using idx by simp
  show ?thesis
  proof (cases "\<not> down \<or> bad_state s \<or> Some own \<noteq> owner s \<or> \<not> queued (str_buf s ?t) \<or>
      \<not> (completed (str_buf s ?t) \<or> flushed (str_buf s ?t)) \<or> fst (buffer_release ops ?t s) \<noteq> NTV2_STREAM_OPS_SUCCESS")
    case True
    then have "s' = s \<and> mStatus p' \<noteq> NTV2_STREAM_STATUS_SUCCESS"
      using r release_fails [of ?t s]
      by (auto simp: ntv2_stream_buffer_release_def report_no_buffer_def Let_def case_prod_unfold split: if_splits)
    then show ?thesis
      using assms(1) by simp
  next
    case False
    define u where "u = fst (snd (report_buffer ?t ?s p))"
    have kept: "ring_kept s ?s"
      by (rule release_kept [OF len])
    have res: "s' = u\<lparr>tail_index := queue_next (tail_index u),
          user_channel := (user_channel u)\<lparr>mReleaseCount := mReleaseCount (user_channel u) + 1\<rparr>\<rparr>"
        "p' = snd (snd (report_buffer ?t ?s p))"
      using r False kept by (auto simp: ntv2_stream_buffer_release_def u_def ring_kept_def Let_def case_prod_unfold)
    have "\<not> (released (str_buf s ?t) \<and> queued (str_buf s ?t))"
      using assms(1) idx(3) unfolding stream_ok_def by blast
    then have "\<not> queued (str_buf ?s ?t)"
      using release_clears [OF len] False by simp
    then have u: "head_index u = head_index s" "tail_index u = ?t" "active_index u = active_index s"
        "next_index u = next_index s" "length (stream_buffers u) = 256" "\<not> queued (str_buf u ?t)"
        "\<And>j. j \<noteq> ?t \<Longrightarrow> str_buf u j = str_buf ?s j"
      using kept ring_kept_length [OF kept] idx
      by (auto simp: u_def report_buffer_def buffer_status_def upd_user_def upd_buf_def ring_kept_def Let_def)
    have cookie: "mBufferCookie p' = buf_cookie s ?t \<and> mStatus p' = NTV2_STREAM_STATUS_SUCCESS"
      using res(2) ring_kept_user [OF kept len] len ring_kept_length [OF kept]
      by (simp add: report_buffer_def buffer_status_def upd_user_def upd_buf_def buf_cookie_def Let_def)
    have views: "buf_view (str_buf s' j) = buf_view (str_buf s j)" if "j < 256" "j \<noteq> ?t" for j
      using release_others [of ?t s] u(7) that idx by (simp add: others_kept_def res)
    show ?thesis
      using tail_step [OF assms(1), of s'] views u idx False cookie by (simp add: res)
  qed
qed

text \<open>
  An interrupt moves the active buffer to the next one, and the next one to the first buffer behind
  it that was not flushed, if there is one and the stream is active.
\<close>

lemma advance_next_returns:
  assumes "stream_ok s" "nxt < 256"
  shows "\<exists>r. channel_advance_next ops nxt st s = Some r \<and> same_queue s (snd r) \<and>
           active_index (snd r) = active_index s \<and> user_channel (snd r) = user_channel s \<and>
           next_index (snd r) = (case find (\<lambda>i. \<not> flushed (str_buf s i)) (ring_ids nxt (head_index s)) of
                                   None \<Rightarrow> next_index s | Some i \<Rightarrow> i)"
  using assms(2)
proof (induction "ring_len nxt (head_index s)" arbitrary: nxt rule: less_induct)
  case less
  note idx = stream_okD [OF assms(1)]
  consider "nxt = head_index s" | "nxt \<noteq> head_index s" "flushed (str_buf s nxt)"
    | "nxt \<noteq> head_index s" "\<not> flushed (str_buf s nxt)"
    by blast
  then show ?case
  proof cases
    case 1
    then show ?thesis
      by (subst channel_advance_next.simps) simp
  next
    case 2
    then have "ring_len (queue_next nxt) (head_index s) < ring_len nxt (head_index s)"
      using less.prems idx by (simp add: ring_len_next_left)
    from less.hyps [OF this] show ?thesis
      using 2 less.prems idx by (subst channel_advance_next.simps) (simp add: ring_ids_Cons)
  next
    case 3
    let ?t = "snd (buffer_link ops (active_index s) nxt s)"
    have kept: "ring_kept s ?t"
      using idx less.prems by (intro link_kept) simp_all
    have "same_queue s ?t"
      using idx less.prems by (intro link_same) simp_all
    then have "same_queue s (?t\<lparr>next_index := nxt\<rparr>)" "same_queue s (?t\<lparr>engine_state := ntv2_stream_state_error, next_index := nxt\<rparr>)"
      using assms(1) less.prems by (auto intro!: same_queue_next)
    then show ?thesis
      using 3 kept less.prems idx
      by (subst channel_advance_next.simps) (simp add: ring_ids_Cons Let_def case_prod_unfold ring_kept_def)
  qed
qed

lemma advance_complete_step:
  assumes "stream_ok s" and s'_def: "s' = channel_advance_complete ops now s"
  shows "same_queue s s'" "active_index s' = active_index s" "next_index s' = next_index s"
    "user_channel s' = user_channel s" "stream_state s' = stream_state s"
    "\<And>j. j < 256 \<Longrightarrow> flushed (str_buf s' j) = flushed (str_buf s j)"
proof -
  let ?a = "active_index s"
  let ?u = "upd_user ?a (\<lambda>u. u\<lparr>mTransferCount := mTransferCount u + 1\<rparr>) s"
  let ?t = "snd (buffer_complete ops ?a ?u)"
  note idx = stream_okD [OF assms(1)]
  have u: "same_queue s ?u"
    by simp
  have len: "?a < length (stream_buffers ?u)" "length (stream_buffers ?u) = 256"
    using idx same_queue_length [OF u] by simp_all
  have f: "head_index ?u = head_index s" "active_index ?u = ?a" "next_index ?u = next_index s" "user_channel ?u = user_channel s"
      "stream_state ?u = stream_state s" "\<And>j. j < 256 \<Longrightarrow> flushed (str_buf ?u j) = flushed (str_buf s j)"
    using idx by (auto simp: upd_user_def upd_buf_def nth_list_update)
  note kept = complete_kept [OF len(1)] and flags = complete_flags [OF len(1)]
  have t: "same_queue s ?t"
    using same_queue_trans [OF u complete_same [OF len(1)]] .
  have fl: "flushed (str_buf ?t j) = flushed (str_buf s j)" if "j < 256" for j
    using flags complete_others [of ?a ?u] f(6) [OF that] that len(2)
    by (cases "j = ?a") (simp_all add: others_kept_def)
  have *: "s' = (if ?a \<noteq> next_index s
      then upd_user ?a (\<lambda>u. u\<lparr>mCompleteTime := now\<rparr>)
             (if fst (buffer_complete ops ?a ?u) \<noteq> NTV2_STREAM_OPS_SUCCESS
              then ?t\<lparr>engine_state := ntv2_stream_state_error\<rparr> else ?t)
      else ?u)"
    using f kept by (simp add: s'_def channel_advance_complete_def Let_def case_prod_unfold ring_kept_def)
  show "same_queue s s'" "active_index s' = ?a" "next_index s' = next_index s"
      "user_channel s' = user_channel s" "stream_state s' = stream_state s"
    unfolding * using t f kept by (simp_all add: ring_kept_def)
  show "flushed (str_buf s' j) = flushed (str_buf s j)" if "j < 256" for j
    unfolding * using fl [OF that] f(6) [OF that] by simp
qed

lemma advance_step:
  assumes "stream_ok s" "stream_state s = ntv2_stream_state_active \<or> stream_state s = ntv2_stream_state_idle"
    and "\<not> (engine_state s = ntv2_stream_state_initialized \<and> init_count s < init_advance s)"
  shows "\<exists>r. ntv2_stream_channel_advance ops now s = Some r \<and> same_queue s (snd r) \<and>
           active_index (snd r) = next_index s \<and>
           next_index (snd r) =
             (if stream_state s = ntv2_stream_state_active
              then (case find (\<lambda>i. \<not> flushed (str_buf s i)) (ring_ids (queue_next (next_index s)) (head_index s)) of
                      None \<Rightarrow> next_index s | Some i \<Rightarrow> i)
              else next_index s) \<and>
           counted_transfers (snd r) = counted_transfers s + 1"
proof -
  note idx = stream_okD [OF assms(1)]
  define s1 where "s1 = channel_advance_complete ops now s"
  define s2 where "s2 = channel_advance_count s1"
  define s3 where "s3 = s2\<lparr>active_index := next_index s2\<rparr>"
  define s4 where "s4 = (if mActiveTime (user_buffer (str_buf s3 (active_index s3))) = 0
                         then upd_user (active_index s3) (\<lambda>u. u\<lparr>mActiveTime := now\<rparr>) s3 else s3)"
  define s5 where "s5 = snd (stream_advance ops s4)"
  note c = advance_complete_step [OF assms(1) s1_def]
  have l1: "length (stream_buffers s1) = 256"
    using same_queue_length [OF c(1)] idx by simp
  have 2: "same_queue s s2" "next_index s2 = next_index s" "stream_state s2 = stream_state s"
      "stream_buffers s2 = stream_buffers s1" "counted_transfers s2 = counted_transfers s + 1"
    using c by (auto simp: s2_def channel_advance_count_def counted_transfers_def Let_def)
  have 3: "same_queue s s3" "active_index s3 = next_index s" "next_index s3 = next_index s" "stream_state s3 = stream_state s"
      "stream_buffers s3 = stream_buffers s1" "counted_transfers s3 = counted_transfers s + 1"
    using 2 idx by (auto simp: s3_def counted_transfers_def intro!: same_queue_active assms(1))
  have 4: "same_queue s s4" "active_index s4 = next_index s" "next_index s4 = next_index s" "stream_state s4 = stream_state s"
      "counted_transfers s4 = counted_transfers s + 1" "length (stream_buffers s4) = 256"
      "\<And>j. j < 256 \<Longrightarrow> flushed (str_buf s4 j) = flushed (str_buf s j)"
    using 3 c(6) l1 by (auto simp: s4_def counted_transfers_def)
  have kept: "ring_kept s4 s5" "stream_buffers s5 = stream_buffers s4" "same_queue s4 s5"
    using engine_kept [of "stream_advance ops" s4] engine_same [of "stream_advance ops" s4] by (simp_all add: s5_def)
  have adv: "fst (stream_advance ops s4) = NTV2_STREAM_OPS_SUCCESS" "engine_state s5 = stream_state s"
    using advance_follows [of s4] assms(2) 4(4) by (simp_all add: s5_def)
  have 5: "same_queue s s5" "active_index s5 = next_index s" "next_index s5 = next_index s" "counted_transfers s5 = counted_transfers s + 1"
    using kept 4 same_queue_trans [OF 4(1) kept(3)] by (simp_all add: ring_kept_def counted_transfers_def)
  have ok5: "stream_ok s5" and h5: "head_index s5 = head_index s"
    using same_queue_ok [OF 5(1) assms(1)] 5(1) by (auto simp: same_queue_def)
  have c12: "(stream_state s \<noteq> ntv2_stream_state_active \<and> stream_state s \<noteq> ntv2_stream_state_idle) = False"
      "(engine_state s = ntv2_stream_state_initialized \<and> init_count s < init_advance s) = False"
    using assms(2,3) by blast+
  have eq: "ntv2_stream_channel_advance ops now s =
      (if engine_state s5 = ntv2_stream_state_active
       then channel_advance_next ops (queue_next (active_index s5)) (fst (stream_advance ops s4)) s5
       else Some (fst (stream_advance ops s4), s5)) \<bind> (\<lambda>(status, s). Some (status, signal_all s))"
    unfolding ntv2_stream_channel_advance_def Let_def case_prod_unfold c12 if_False s1_def [symmetric] s2_def [symmetric]
      s3_def [symmetric] s4_def [symmetric] s5_def [symmetric] by (simp add: adv(1))
  have fnd: "find (\<lambda>i. \<not> flushed (str_buf s5 i)) (ring_ids (queue_next (next_index s)) (head_index s)) =
             find (\<lambda>i. \<not> flushed (str_buf s i)) (ring_ids (queue_next (next_index s)) (head_index s))"
    using 4(7) kept(2) idx by (intro find_cong) (auto simp: in_ring_ids)
  show ?thesis
  proof (cases "stream_state s = ntv2_stream_state_active")
    case True
    obtain r where "channel_advance_next ops (queue_next (active_index s5)) (fst (stream_advance ops s4)) s5 = Some r"
      and r: "same_queue s5 (snd r)" "active_index (snd r) = active_index s5" "user_channel (snd r) = user_channel s5"
        "next_index (snd r) = (case find (\<lambda>i. \<not> flushed (str_buf s5 i)) (ring_ids (queue_next (active_index s5)) (head_index s5)) of
           None \<Rightarrow> next_index s5 | Some i \<Rightarrow> i)"
      using advance_next_returns [OF ok5 queue_next_less] by blast
    then have "ntv2_stream_channel_advance ops now s = Some (fst r, signal_all (snd r))"
      unfolding eq using True adv(2) by (simp add: case_prod_unfold)
    then show ?thesis
      using r 5 True fnd h5 same_queue_trans [OF 5(1) r(1)]
      by (simp add: signal_all_def counted_transfers_def split: option.split)
  next
    case False
    then show ?thesis
      unfolding eq using adv(2) 5 assms(2) by (auto simp: signal_all_def counted_transfers_def)
  qed
qed

lemma advance_returns:
  assumes "stream_ok s"
  shows "\<exists>r. ntv2_stream_channel_advance ops now s = Some r \<and> same_queue s (snd r)"
proof (cases "(stream_state s = ntv2_stream_state_active \<or> stream_state s = ntv2_stream_state_idle) \<and>
    \<not> (engine_state s = ntv2_stream_state_initialized \<and> init_count s < init_advance s)")
  case True
  then show ?thesis
    using advance_step [OF assms] by blast
next
  case False
  then show ?thesis
    by (auto simp: ntv2_stream_channel_advance_def)
qed

end

end
