(* ===== verification/Ntv2StreamDmaOps.thy ===== *)
theory Ntv2StreamDmaOps
  imports Ntv2StreamDma Ntv2StreamClient
begin

text \<open>
  The operations of the Linux driver keep the contract of \<open>stream_provider\<close>. The engine is halted
  when its state is neither active nor idle.
\<close>

definition halted :: "'d ntv2_stream \<Rightarrow> bool" where
  "halted s \<longleftrightarrow> \<not> running s"

lemma ring_kept_refl [simp]: "ring_kept s s"
  by (simp add: ring_kept_def)

lemma ring_kept_trans: "ring_kept s s' \<Longrightarrow> ring_kept s' s'' \<Longrightarrow> ring_kept s s''"
  by (simp add: ring_kept_def)

lemma ring_kept_frame [simp]:
  "ring_kept s (s'\<lparr>dma_engine := e\<rparr>) \<longleftrightarrow> ring_kept s s'"
  "ring_kept s (s'\<lparr>engine_state := d\<rparr>) \<longleftrightarrow> ring_kept s s'"
  "ring_kept s (s'\<lparr>stream_state := d\<rparr>) \<longleftrightarrow> ring_kept s s'"
  by (simp_all add: ring_kept_def)

lemma ring_kept_upd_buf [simp]:
  assumes "\<And>b. user_buffer (f b) = user_buffer b"
  shows "ring_kept s (upd_buf i f s') \<longleftrightarrow> ring_kept s s'"
  by (simp add: ring_kept_def) (simp add: upd_buf_def map_upd_same assms)

lemma others_kept_refl [simp]: "others_kept I s s"
  by (simp add: others_kept_def)

lemma others_kept_trans:
  "others_kept I s s' \<Longrightarrow> others_kept J s' s'' \<Longrightarrow> length (stream_buffers s') = length (stream_buffers s)
   \<Longrightarrow> others_kept (I \<union> J) s s''"
  by (simp add: others_kept_def)

lemma others_kept_frame [simp]:
  "others_kept I s (s'\<lparr>dma_engine := e\<rparr>) \<longleftrightarrow> others_kept I s s'"
  "others_kept I s (s'\<lparr>engine_state := d\<rparr>) \<longleftrightarrow> others_kept I s s'"
  "others_kept I s (s'\<lparr>stream_state := d\<rparr>) \<longleftrightarrow> others_kept I s s'"
  by (simp_all add: others_kept_def)

lemma others_kept_upd_buf [simp]: "i \<in> I \<Longrightarrow> others_kept I s (upd_buf i f s') \<longleftrightarrow> others_kept I s s'"
  unfolding others_kept_def by (metis str_buf_upd_other)

text \<open>Linking changes the flag and the descriptors of a buffer only.\<close>

definition strip :: "ntv2_stream_buffer \<Rightarrow> ntv2_stream_buffer" where
  "strip b = b\<lparr>linked := False, ds_index := 0, ds_count := 0\<rparr>"

definition chain_kept :: "'d ntv2_stream \<Rightarrow> 'd ntv2_stream \<Rightarrow> bool" where
  "chain_kept s s' \<longleftrightarrow> ring_kept s s' \<and> map strip (stream_buffers s') = map strip (stream_buffers s)"

lemma chain_kept_refl [simp]: "chain_kept s s"
  by (simp add: chain_kept_def)

lemma chain_kept_trans: "chain_kept s s' \<Longrightarrow> chain_kept s' s'' \<Longrightarrow> chain_kept s s''"
  by (auto simp: chain_kept_def intro: ring_kept_trans)

lemma chain_kept_frame [simp]:
  "chain_kept s (s'\<lparr>dma_engine := e\<rparr>) \<longleftrightarrow> chain_kept s s'"
  "chain_kept s (s'\<lparr>engine_state := d\<rparr>) \<longleftrightarrow> chain_kept s s'"
  by (simp_all add: chain_kept_def)

lemma chain_kept_upd_buf [simp]:
  assumes "\<And>b. strip (f b) = strip b"
  shows "chain_kept s (upd_buf i f s') \<longleftrightarrow> chain_kept s s'"
proof -
  have "user_buffer (f b) = user_buffer b" for b
    using arg_cong [OF assms [of b], of user_buffer] by (simp add: strip_def)
  then show ?thesis
    by (simp add: chain_kept_def) (simp add: upd_buf_def map_upd_same assms)
qed

lemma strip_sel [simp]:
  "user_buffer (strip b) = user_buffer b" "dma_buffer (strip b) = dma_buffer b" "queued (strip b) = queued b"
  "completed (strip b) = completed b" "flushed (strip b) = flushed b" "released (strip b) = released b"
  by (simp_all add: strip_def)

lemma chain_kept_strip:
  assumes "chain_kept s s'" and "i < length (stream_buffers s)"
  shows "strip (str_buf s' i) = strip (str_buf s i)"
proof -
  have eq: "map strip (stream_buffers s') ! i = map strip (stream_buffers s) ! i"
    using assms(1) by (simp add: chain_kept_def)
  have "i < length (stream_buffers s')"
    using assms ring_kept_length [of s s'] by (simp add: chain_kept_def)
  then show ?thesis
    using eq assms(2) by simp
qed

lemma chain_kept_flags:
  assumes "chain_kept s s'" and "\<And>i. i \<in> I \<Longrightarrow> i < length (stream_buffers s)"
  shows "flags_kept I s s'"
  unfolding flags_kept_def
proof (intro ballI conjI)
  fix i
  assume "i \<in> I"
  then have eq: "strip (str_buf s' i) = strip (str_buf s i)"
    by (rule chain_kept_strip [OF assms(1) assms(2)])
  show "queued (str_buf s' i) = queued (str_buf s i)"
    using arg_cong [OF eq, of queued] by simp
  show "released (str_buf s' i) = released (str_buf s i)"
    using arg_cong [OF eq, of released] by simp
qed

lemma link_buffer_kept: "chain_kept s (snd (link_buffer i page s)) \<and> others_kept {i} s (snd (link_buffer i page s))"
  by (simp add: link_buffer_def Let_def case_prod_unfold strip_def)

lemma link_end_kept: "chain_kept s (snd (link_end i s)) \<and> others_kept {i} s (snd (link_end i s))"
  using link_buffer_kept [of s i] by (auto simp: link_end_def Let_def split: option.split)

lemma link_ops_kept:
  "chain_kept s (snd (dmaOpsBufferLink i j s)) \<and> others_kept {i, j} s (snd (dmaOpsBufferLink i j s))"
proof -
  let ?a = "snd (link_end i s)" and ?b = "snd (link_end j (snd (link_end i s)))"
  note a = link_end_kept [of s i] and b = link_end_kept [of ?a j]
  have 1: "others_kept {i, j} s ?a"
    using a by (simp add: others_kept_def)
  have len: "length (stream_buffers ?a) = length (stream_buffers s)"
    using a ring_kept_length [of s ?a] by (simp add: chain_kept_def)
  have "others_kept ({i} \<union> {j}) s ?b"
    by (rule others_kept_trans [OF conjunct2 [OF a] conjunct2 [OF b] len])
  then have 2: "chain_kept s ?b" "others_kept {i, j} s ?b"
    using chain_kept_trans [OF conjunct1 [OF a] conjunct1 [OF b]] by (simp_all add: insert_commute)
  show ?thesis
    using 1 2 a by (cases "i = j") (auto simp: dmaOpsBufferLink_def Let_def case_prod_unfold)
qed

lemma engine_ops_kept:
  assumes "f \<in> {dmaOpsStreamInitialize, dmaOpsStreamStart now, dmaOpsStreamStop now, dmaOpsStreamRelease, dmaOpsStreamAdvance}"
  shows "ring_kept s (snd (f s)) \<and> stream_buffers (snd (f s)) = stream_buffers s"
  using assms by (auto simp: dmaOpsStreamInitialize_def dmaOpsStreamStart_def dmaOpsStreamStop_def dmaOpsStreamRun_def
        dmaOpsStreamRelease_def dmaOpsStreamAdvance_def Let_def case_prod_unfold)

lemma queue_ops_kept: "ring_kept s (snd (dmaOpsBufferQueue i s)) \<and> others_kept {i} s (snd (dmaOpsBufferQueue i s))"
  by (simp add: dmaOpsBufferQueue_def Let_def case_prod_unfold split: option.split prod.split)

lemma queue_ops_sets:
  assumes "i < length (stream_buffers s)" "\<not> queued (str_buf s i)"
  shows "(queued (str_buf (snd (dmaOpsBufferQueue i s)) i) \<longleftrightarrow> fst (dmaOpsBufferQueue i s) = NTV2_STREAM_OPS_SUCCESS) \<and>
         \<not> released (str_buf (snd (dmaOpsBufferQueue i s)) i)"
  using assms by (simp add: dmaOpsBufferQueue_def Let_def case_prod_unfold upd_buf_def split: option.split prod.split)

lemma complete_ops_kept:
  "ring_kept s (snd (dmaOpsBufferComplete i s)) \<and> stream_state (snd (dmaOpsBufferComplete i s)) = stream_state s \<and>
   others_kept {i} s (snd (dmaOpsBufferComplete i s))"
  by (simp add: dmaOpsBufferComplete_def Let_def)

lemma flush_ops_kept: "ring_kept s (snd (dmaOpsBufferFlush i s)) \<and> others_kept {i} s (snd (dmaOpsBufferFlush i s))"
  by (simp add: dmaOpsBufferFlush_def Let_def)

lemma release_ops_kept: "ring_kept s (snd (dmaOpsBufferRelease i s)) \<and> others_kept {i} s (snd (dmaOpsBufferRelease i s))"
  by (simp add: dmaOpsBufferRelease_def Let_def)

interpretation dma: stream_provider "dma_ops now" halted for now :: int
proof (unfold_locales, goal_cases)
  case (1 f s) then show ?case using engine_ops_kept [of f now s] by (simp add: dma_ops_def)
next
  case (2 s) then show ?case by (simp add: dma_ops_def dmaOpsStreamRelease_def halted_def running_def Let_def case_prod_unfold split: if_splits)
next
  case (3 s) then show ?case by (auto simp: dma_ops_def dmaOpsStreamAdvance_def)
next
  case (4 i s) then show ?case using queue_ops_kept by (simp add: dma_ops_def)
next
  case (5 i s) then show ?case using queue_ops_kept by (simp add: dma_ops_def)
next
  case (6 i s) then show ?case using queue_ops_sets by (simp add: dma_ops_def)
next
  case (7 i s j) then show ?case using link_ops_kept [of s i j] by (simp add: dma_ops_def chain_kept_def)
next
  case (8 i j s) then show ?case using link_ops_kept by (simp add: dma_ops_def)
next
  case (9 i s j) then show ?case using link_ops_kept [of s i j] by (auto simp: dma_ops_def intro!: chain_kept_flags)
next
  case (10 i s) then show ?case using complete_ops_kept by (simp add: dma_ops_def)
next
  case (11 i s) then show ?case using complete_ops_kept by (simp add: dma_ops_def)
next
  case (12 i s) then show ?case by (simp add: dma_ops_def flags_kept_def dmaOpsBufferComplete_def upd_buf_def Let_def)
next
  case (13 i s) then show ?case using flush_ops_kept by (simp add: dma_ops_def)
next
  case (14 i s) then show ?case using flush_ops_kept by (simp add: dma_ops_def)
next
  case (15 i s) then show ?case by (simp add: dma_ops_def flags_kept_def dmaOpsBufferFlush_def upd_buf_def Let_def)
next
  case (16 i s) then show ?case using release_ops_kept by (simp add: dma_ops_def)
next
  case (17 i s) then show ?case using release_ops_kept by (simp add: dma_ops_def)
next
  case (18 i s) then show ?case by (auto simp: dma_ops_def dmaOpsBufferRelease_def upd_buf_def Let_def split: if_splits)
next
  case (19 i s) then show ?case by (auto simp: dma_ops_def dmaOpsBufferRelease_def Let_def split: if_splits)
next
  case (20 s i) then show ?case by (auto simp: dma_ops_def dmaOpsBufferRelease_def halted_def running_def Let_def)
qed

end
