(* ===== verification/Ntv2StreamPages.thy ===== *)
theory Ntv2StreamPages
  imports Ntv2StreamDmaOps
begin

text \<open>
  Invariants of the engine. \<open>stream_invariant\<close> extends the contract by a predicate that every
  operation of the engine keeps and that does not read the fields of the client; every operation on
  the stream then keeps it. The instance is \<open>pages_held\<close>: the memory of a buffer in the queue is
  locked and mapped, and its page buffer has more references than there are buffers of the stream
  that use it, since the list of the application refers to it too.
\<close>

definition engine_view :: "ntv2_stream_buffer \<Rightarrow> nat option \<times> bool \<times> bool \<times> bool \<times> bool \<times> bool" where
  "engine_view b = (dma_buffer b, queued b, linked b, completed b, flushed b, released b)"

definition same_engine :: "'d ntv2_stream \<Rightarrow> 'd ntv2_stream \<Rightarrow> bool" where
  "same_engine s s' \<longleftrightarrow> dma_engine s' = dma_engine s \<and>
     map engine_view (stream_buffers s') = map engine_view (stream_buffers s)"

lemma same_engine_sym: "same_engine s s' \<Longrightarrow> same_engine s' s"
  by (simp add: same_engine_def)

lemma same_engine_upd_user: "same_engine s (upd_user i f s)"
  unfolding upd_user_def by (simp add: same_engine_def) (simp add: upd_buf_def map_upd_same engine_view_def)

lemma same_engine_simps [simp]:
  "same_engine s (s\<lparr>owner := a\<rparr>)" "same_engine s (s\<lparr>user_channel := b\<rparr>)"
  "same_engine s (s\<lparr>wait_events := c\<rparr>)" "same_engine s (s\<lparr>wait_inuse := c\<rparr>)"
  "same_engine s (s\<lparr>engine_state := d\<rparr>)" "same_engine s (s\<lparr>stream_state := d\<rparr>)"
  "same_engine s (s\<lparr>init_count := e\<rparr>)" "same_engine s (s\<lparr>head_index := n\<rparr>)"
  "same_engine s (s\<lparr>tail_index := n\<rparr>)" "same_engine s (s\<lparr>active_index := n\<rparr>)"
  "same_engine s (s\<lparr>next_index := n\<rparr>)"
  by (simp_all add: same_engine_def)

locale stream_invariant = stream_provider ops halted
  for ops :: "'d stream_ops" and halted :: "'d ntv2_stream \<Rightarrow> bool" +
  fixes inv :: "'d ntv2_stream \<Rightarrow> bool"
  assumes inv_frame: "same_engine s s' \<Longrightarrow> inv s \<Longrightarrow> inv s'"
    and inv_engine:
      "f \<in> {stream_initialize ops, stream_start ops, stream_stop ops, stream_release ops, stream_advance ops}
       \<Longrightarrow> inv s \<Longrightarrow> inv (snd (f s))"
    and inv_queue: "inv s \<Longrightarrow> i < 256 \<Longrightarrow> inv (snd (buffer_queue ops i s))"
    and inv_link: "inv s \<Longrightarrow> inv (snd (buffer_link ops i j s))"
    and inv_complete: "inv s \<Longrightarrow> inv (snd (buffer_complete ops i s))"
    and inv_flush: "inv s \<Longrightarrow> inv (snd (buffer_flush ops i s))"
    and inv_release: "inv s \<Longrightarrow> i < 256 \<Longrightarrow> inv (snd (buffer_release ops i s))"
begin

lemma inv_same: "same_engine s s' \<Longrightarrow> inv s' \<longleftrightarrow> inv s"
  using inv_frame same_engine_sym by blast

lemma inv_simps:
  "inv (s\<lparr>owner := a\<rparr>) = inv s" "inv (s\<lparr>user_channel := b\<rparr>) = inv s"
  "inv (s\<lparr>wait_events := c\<rparr>) = inv s" "inv (s\<lparr>wait_inuse := c\<rparr>) = inv s"
  "inv (s\<lparr>engine_state := d\<rparr>) = inv s" "inv (s\<lparr>stream_state := d\<rparr>) = inv s"
  "inv (s\<lparr>init_count := e\<rparr>) = inv s" "inv (s\<lparr>head_index := n\<rparr>) = inv s"
  "inv (s\<lparr>tail_index := n\<rparr>) = inv s" "inv (s\<lparr>active_index := n\<rparr>) = inv s"
  "inv (s\<lparr>next_index := n\<rparr>) = inv s" "inv (upd_user i f s) = inv s" "inv (signal_all s) = inv s"
  "inv (fst (snd (report_channel r st s p))) = inv s" "inv (fst (snd (report_buffer i s u))) = inv s"
  by (rule inv_same; simp add: same_engine_upd_user signal_all_def report_channel_def channel_status_def
      report_buffer_def buffer_status_def Let_def)+

lemmas inv_rules = inv_engine inv_queue inv_link inv_complete inv_flush inv_release

lemma inv_fold: "(\<And>i s. i \<in> set xs \<Longrightarrow> inv s \<Longrightarrow> inv (g i s)) \<Longrightarrow> inv s \<Longrightarrow> inv (fold g xs s)"
  by (induction xs arbitrary: s) auto

lemma inv_initialize: "inv s \<Longrightarrow> inv (fst (snd (ntv2_stream_channel_initialize ops down own s p)))"
  unfolding ntv2_stream_channel_initialize_def Let_def case_prod_unfold
  by (auto simp: inv_simps inv_rules intro!: inv_fold simp del: upt_rec_numeral)

lemma inv_channel_release: "inv s \<Longrightarrow> inv (fst (snd (ntv2_stream_channel_release ops down own s p)))"
  unfolding ntv2_stream_channel_release_def Let_def case_prod_unfold
  by (auto simp: inv_simps inv_rules intro!: inv_fold simp del: upt_rec_numeral)

lemma inv_first_link: "inv s \<Longrightarrow> inv (snd (channel_first_link ops s))"
  by (simp add: channel_first_link_def Let_def inv_rules inv_simps)

lemma inv_start: "inv s \<Longrightarrow> inv (fst (snd (ntv2_stream_channel_start ops down s p)))"
  by (simp add: ntv2_stream_channel_start_def Let_def case_prod_unfold inv_rules inv_simps inv_first_link)

lemma inv_stop: "inv s \<Longrightarrow> inv (fst (snd (ntv2_stream_channel_stop ops down s p)))"
  by (simp add: ntv2_stream_channel_stop_def Let_def case_prod_unfold inv_rules inv_simps inv_first_link)

lemma inv_buffer_queue: "inv s \<Longrightarrow> head_index s < 256 \<Longrightarrow> inv (fst (snd (ntv2_stream_buffer_queue ops down now own s p)))"
  by (simp add: ntv2_stream_buffer_queue_def Let_def case_prod_unfold inv_rules inv_simps)

lemma inv_buffer_release: "inv s \<Longrightarrow> tail_index s < 256 \<Longrightarrow> inv (fst (snd (ntv2_stream_buffer_release ops down own s p)))"
  by (simp add: ntv2_stream_buffer_release_def Let_def case_prod_unfold inv_rules inv_simps)

lemma inv_flush_loop:
  "channel_flush_loop o' now i s = Some s' \<Longrightarrow> o' = ops \<Longrightarrow> inv s \<Longrightarrow> inv s'"
  by (induction rule: channel_flush_loop.raw_induct [rotated, consumes 1])
     (auto simp: Let_def case_prod_unfold inv_rules inv_simps split: if_splits)

lemma inv_channel_flush:
  assumes "ntv2_stream_channel_flush ops down now s p = Some r" and "inv s"
  shows "inv (fst (snd r))"
  using assms inv_flush_loop [OF _ refl, of now]
  by (auto simp: ntv2_stream_channel_flush_def inv_simps bind_eq_Some_conv split: if_splits)

lemma inv_advance_next:
  "channel_advance_next o' nxt st s = Some r \<Longrightarrow> o' = ops \<Longrightarrow> inv s \<Longrightarrow> inv (snd r)"
  by (induction rule: channel_advance_next.raw_induct [rotated, consumes 1])
     (auto simp: Let_def case_prod_unfold inv_rules inv_simps split: if_splits)

lemma inv_advance:
  assumes "ntv2_stream_channel_advance ops now s = Some r" and "inv s"
  shows "inv (snd r)"
proof -
  have 1: "inv (channel_advance_count (channel_advance_complete ops now s))"
    using assms(2) by (simp add: channel_advance_count_def channel_advance_complete_def Let_def case_prod_unfold
        inv_simps inv_rules)
  show ?thesis
    using assms 1 inv_advance_next [OF _ refl]
    by (auto simp: ntv2_stream_channel_advance_def Let_def case_prod_unfold inv_simps inv_rules bind_eq_Some_conv
        split: if_splits)
qed

lemma inv_status: "inv s \<Longrightarrow> inv (fst (snd (ntv2_stream_channel_status down s p)))"
  by (simp add: ntv2_stream_channel_status_def inv_simps)

lemma inv_leave: "inv s \<Longrightarrow> inv (fst (snd (channel_wait_leave i signalled down s p)))"
  by (simp add: channel_wait_leave_def Let_def inv_simps)

lemma inv_enter: "inv s \<Longrightarrow> case channel_wait_enter down s p of Inl r \<Rightarrow> inv (fst (snd r)) | Inr (i, s') \<Rightarrow> inv s'"
  by (simp add: channel_wait_enter_def inv_simps split: option.split)

end

section \<open>The references of the page buffers\<close>

definition page_users :: "'d ntv2_stream \<Rightarrow> nat \<Rightarrow> nat" where
  "page_users s page = length (filter (\<lambda>b. dma_buffer b = Some page) (stream_buffers s))"

definition page_free :: "page_buffer \<Rightarrow> nat \<Rightarrow> bool" where
  "page_free b users \<longleftrightarrow> refCount b = 0 \<and> users = 0"

definition pages_held :: "dma_stream \<Rightarrow> bool" where
  "pages_held s \<longleftrightarrow>
     length (stream_buffers s) = 256 \<and>
     (\<forall>b \<in> set (stream_buffers s). (queued b \<longleftrightarrow> dma_buffer b \<noteq> None) \<and>
        (\<forall>p \<in> set_option (dma_buffer b). p < length (pageBuffers (dma_engine s)) \<and>
           pageLock (pageBuffers (dma_engine s) ! p) \<and> sgMap (pageBuffers (dma_engine s) ! p))) \<and>
     (\<forall>p < length (pageBuffers (dma_engine s)).
        int (page_users s p) < refCount (pageBuffers (dma_engine s) ! p) \<or>
        page_free (pageBuffers (dma_engine s) ! p) (page_users s p))"

text \<open>What the invariant reads.\<close>

definition page_view :: "ntv2_stream_buffer \<Rightarrow> nat option \<times> bool" where
  "page_view b = (dma_buffer b, queued b)"

definition page_core :: "page_buffer \<Rightarrow> int \<times> bool \<times> bool" where
  "page_core b = (refCount b, pageLock b, sgMap b)"

definition same_pages :: "dma_stream \<Rightarrow> dma_stream \<Rightarrow> bool" where
  "same_pages s s' \<longleftrightarrow>
     map page_core (pageBuffers (dma_engine s')) = map page_core (pageBuffers (dma_engine s)) \<and>
     map page_view (stream_buffers s') = map page_view (stream_buffers s)"

lemma page_users_view: "page_users s p = length (filter (\<lambda>v. fst v = Some p) (map page_view (stream_buffers s)))"
  by (simp add: page_users_def filter_map o_def page_view_def)

lemma pages_held_view:
  "pages_held s \<longleftrightarrow>
     (let cs = map page_core (pageBuffers (dma_engine s))
      in length (map page_view (stream_buffers s)) = 256 \<and>
         (\<forall>v \<in> set (map page_view (stream_buffers s)). (snd v \<longleftrightarrow> fst v \<noteq> None) \<and>
            (\<forall>p \<in> set_option (fst v). p < length cs \<and> fst (snd (cs ! p)) \<and> snd (snd (cs ! p)))) \<and>
         (\<forall>p < length cs. int (page_users s p) < fst (cs ! p) \<or> fst (cs ! p) = 0 \<and> page_users s p = 0))"
  by (simp add: pages_held_def page_view_def page_core_def page_free_def Let_def cong: conj_cong)

lemma same_pages_held: "same_pages s s' \<Longrightarrow> pages_held s \<Longrightarrow> pages_held s'"
  unfolding pages_held_view page_users_view same_pages_def by simp

lemma same_pages_refl [simp]: "same_pages s s"
  by (simp add: same_pages_def)

lemma same_pages_trans: "same_pages s s' \<Longrightarrow> same_pages s' s'' \<Longrightarrow> same_pages s s''"
  by (simp add: same_pages_def)

lemma map_upd_slot:
  assumes "i < length xs \<Longrightarrow> g y = g (xs ! i)"
  shows "map g (xs[i := y]) = map g xs"
  using assms by (cases "i < length xs") (simp_all add: map_update list_update_same_conv list_update_beyond)

lemma same_pages_upd_buf [simp]:
  assumes "page_view (f (str_buf s' i)) = page_view (str_buf s' i)"
  shows "same_pages s (upd_buf i f s') \<longleftrightarrow> same_pages s s'"
  using assms by (simp add: same_pages_def) (simp add: upd_buf_def map_upd_slot)

lemma same_pages_engine [simp]:
  "pageBuffers e = pageBuffers (dma_engine s') \<Longrightarrow> same_pages s (s'\<lparr>dma_engine := e\<rparr>) \<longleftrightarrow> same_pages s s'"
  "same_pages s (s'\<lparr>engine_state := d\<rparr>) \<longleftrightarrow> same_pages s s'"
  "same_pages s (s'\<lparr>stream_state := d\<rparr>) \<longleftrightarrow> same_pages s s'"
  by (simp_all add: same_pages_def)

text \<open>Writing descriptors leaves the rest of the engine alone, and so does writing registers.\<close>

definition engine_fixed :: "stream_engine \<Rightarrow> page_buffer list \<times> bool \<times> u32 \<times> nat \<times> (nat \<Rightarrow> u32) \<times> u32" where
  "engine_fixed e = (pageBuffers e, dmaStream e, maxDescriptors e, numDescriptorPages e, xlnxRegs e, strDescriptorIndex e)"

lemma fixed_upd_desc [simp]: "engine_fixed (upd_desc pos f e) = engine_fixed e"
  by (simp add: upd_desc_def engine_fixed_def)

lemma fixed_error [simp]: "engine_fixed (addProgramError e) = engine_fixed e"
  by (simp add: addProgramError_def engine_fixed_def)

lemma fixed_clear_adjacent [simp]: "engine_fixed (clear_adjacent lastp n e) = engine_fixed e"
proof -
  have "engine_fixed (fold (\<lambda>i. upd_desc (g i) h) xs e) = engine_fixed e" for g h and xs :: "nat list"
    by (induction xs arbitrary: e) simp_all
  then show ?thesis
    by (simp add: clear_adjacent_def)
qed

lemma fixed_build_loop:
  "engine_fixed (case stream_build_loop bytes sgs pos lastp pb dc e of Inl e' \<Rightarrow> e' | Inr (l, n, e') \<Rightarrow> e') = engine_fixed e"
  by (induction bytes sgs pos lastp pb dc e rule: stream_build_loop.induct) (simp_all add: Let_def)

lemma fixed_build_Inl: "stream_build_loop bytes sgs pos lastp pb dc e = Inl e' \<Longrightarrow> engine_fixed e' = engine_fixed e"
  using fixed_build_loop [of bytes sgs pos lastp pb dc e] by simp

lemma fixed_build_Inr: "stream_build_loop bytes sgs pos lastp pb dc e = Inr (l, n, e') \<Longrightarrow> engine_fixed e' = engine_fixed e"
  using fixed_build_loop [of bytes sgs pos lastp pb dc e] by simp

lemma fixed_build [simp]: "engine_fixed (snd (dmaXlnxStreamBuild page index e)) = engine_fixed e"
  by (auto simp: dmaXlnxStreamBuild_def Let_def fixed_build_Inl fixed_build_Inr split: option.split sum.split prod.split)

lemma fixed_link [simp]: "engine_fixed (snd (dmaXlnxStreamLink i j e)) = engine_fixed e"
  by (simp add: dmaXlnxStreamLink_def split: option.split)

lemma pages_build [simp]: "pageBuffers (snd (dmaXlnxStreamBuild page index e)) = pageBuffers e"
  using fixed_build [of page index e] unfolding engine_fixed_def by simp

lemma pages_link [simp]: "pageBuffers (snd (dmaXlnxStreamLink i j e)) = pageBuffers e"
  using fixed_link [of i j e] unfolding engine_fixed_def by simp

lemma pages_start [simp]: "pageBuffers (snd (dmaXlnxStreamStart now i e)) = pageBuffers e"
  by (simp add: dmaXlnxStreamStart_def WriteXlnxDmaEngineStart_def EnableXlnxDmaInterrupt_def StartXlnxDma_def
      WriteXlnxRegister_def Let_def split: option.split)

lemma pages_stop [simp]: "pageBuffers (snd (dmaXlnxStreamStop e)) = pageBuffers e"
  by (simp add: dmaXlnxStreamStop_def DisableXlnxDmaInterrupt_def StopXlnxDma_def WriteXlnxRegister_def Let_def)

lemma same_pages_engine_ops:
  assumes "f \<in> {dmaOpsStreamInitialize, dmaOpsStreamStart now, dmaOpsStreamStop now, dmaOpsStreamRelease, dmaOpsStreamAdvance}"
  shows "same_pages s (snd (f s))"
  using assms by (auto simp: dmaOpsStreamInitialize_def dmaOpsStreamStart_def dmaOpsStreamStop_def dmaOpsStreamRun_def
        dmaOpsStreamRelease_def dmaOpsStreamAdvance_def Let_def case_prod_unfold)

lemma same_pages_link: "same_pages s (snd (link_buffer i page s))"
  by (simp add: link_buffer_def Let_def case_prod_unfold page_view_def)

lemma same_pages_link_end: "same_pages s (snd (link_end i s))"
  using same_pages_link by (auto simp: link_end_def Let_def split: option.split)

lemma same_pages_link_ops: "same_pages s (snd (dmaOpsBufferLink i j s))"
  using same_pages_link_end [of s i] same_pages_trans [OF same_pages_link_end same_pages_link_end, of s j i]
  by (cases "i = j") (auto simp: dmaOpsBufferLink_def Let_def case_prod_unfold)

lemma same_pages_complete: "same_pages s (snd (dmaOpsBufferComplete i s))"
  by (simp add: dmaOpsBufferComplete_def Let_def page_view_def)

lemma same_pages_flush: "same_pages s (snd (dmaOpsBufferFlush i s))"
  by (simp add: dmaOpsBufferFlush_def Let_def page_view_def)

text \<open>A slot takes a page or gives it back: the count of the users and the references change together.\<close>

lemma length_filter_update:
  assumes "i < length xs"
  shows "int (length (filter P (xs[i := y]))) = int (length (filter P xs)) - of_bool (P (xs ! i)) + of_bool (P y)"
proof -
  have "length (filter P xs) = length (filter P (take i xs)) + of_bool (P (xs ! i)) + length (filter P (drop (Suc i) xs))"
    using arg_cong [OF id_take_nth_drop [OF assms], of "\<lambda>ys. length (filter P ys)"] by (simp add: of_bool_def)
  then show ?thesis
    using assms by (simp add: upd_conv_take_nth_drop of_bool_def)
qed

lemma page_users_upd:
  assumes "i < length (stream_buffers s)"
  shows "int (page_users (upd_buf i f s) p) =
    int (page_users s p) - of_bool (dma_buffer (str_buf s i) = Some p) + of_bool (dma_buffer (f (str_buf s i)) = Some p)"
  using assms by (simp add: page_users_def upd_buf_def length_filter_update)

lemma length_upd_page [simp]: "length (pageBuffers (upd_page i f e)) = length (pageBuffers e)"
  by (simp add: upd_page_def)

lemma page_users_frame [simp]: "page_users (s\<lparr>dma_engine := e\<rparr>) p = page_users s p"
  by (simp add: page_users_def)

lemma pages_held_slot:
  assumes held: "pages_held s" and i: "i < length (stream_buffers s)"
    and n: "length (pageBuffers e) = length (pageBuffers (dma_engine s))"
    and mem: "\<And>p. p < length (pageBuffers e) \<Longrightarrow>
        pageLock (pageBuffers e ! p) = pageLock (pageBuffers (dma_engine s) ! p) \<and>
        sgMap (pageBuffers e ! p) = sgMap (pageBuffers (dma_engine s) ! p)"
    and new: "queued (f (str_buf s i)) \<longleftrightarrow> dma_buffer (f (str_buf s i)) \<noteq> None"
      "\<And>p. dma_buffer (f (str_buf s i)) = Some p \<Longrightarrow> p < length (pageBuffers e) \<and> pageLock (pageBuffers e ! p) \<and>
         sgMap (pageBuffers e ! p) \<and> 0 < refCount (pageBuffers (dma_engine s) ! p)"
    and refs: "\<And>p. p < length (pageBuffers e) \<Longrightarrow>
        refCount (pageBuffers e ! p) = refCount (pageBuffers (dma_engine s) ! p) - of_bool (dma_buffer (str_buf s i) = Some p)
          + of_bool (dma_buffer (f (str_buf s i)) = Some p)"
  shows "pages_held (upd_buf i f (s\<lparr>dma_engine := e\<rparr>))"
proof -
  let ?s = "upd_buf i f (s\<lparr>dma_engine := e\<rparr>)"
  have "\<forall>b \<in> set (stream_buffers ?s). (queued b \<longleftrightarrow> dma_buffer b \<noteq> None) \<and>
        (\<forall>p \<in> set_option (dma_buffer b). p < length (pageBuffers e) \<and> pageLock (pageBuffers e ! p) \<and> sgMap (pageBuffers e ! p))"
  proof
    fix b
    assume "b \<in> set (stream_buffers ?s)"
    then consider "b = f (str_buf s i)" | "b \<in> set (stream_buffers s)"
      using set_update_subset_insert [of "stream_buffers s" i "f (str_buf s i)"] by (auto simp: upd_buf_def)
    then show "(queued b \<longleftrightarrow> dma_buffer b \<noteq> None) \<and>
        (\<forall>p \<in> set_option (dma_buffer b). p < length (pageBuffers e) \<and> pageLock (pageBuffers e ! p) \<and> sgMap (pageBuffers e ! p))"
      using held new mem n by cases (auto simp: pages_held_def)
  qed
  moreover have "int (page_users ?s p) < refCount (pageBuffers e ! p) \<or> page_free (pageBuffers e ! p) (page_users ?s p)"
    if "p < length (pageBuffers e)" for p
  proof -
    have old: "int (page_users s p) < refCount (pageBuffers (dma_engine s) ! p) \<or>
        refCount (pageBuffers (dma_engine s) ! p) = 0 \<and> page_users s p = 0"
      using held that n by (simp add: pages_held_def page_free_def)
    have users: "int (page_users ?s p) =
        int (page_users s p) - of_bool (dma_buffer (str_buf s i) = Some p) + of_bool (dma_buffer (f (str_buf s i)) = Some p)"
      using page_users_upd [of i "s\<lparr>dma_engine := e\<rparr>" f p] i by simp
    show ?thesis
      using old users refs [OF that] new(2) [of p] n
      by (cases "dma_buffer (str_buf s i) = Some p"; cases "dma_buffer (f (str_buf s i)) = Some p")
         (auto simp: page_free_def)
  qed
  ultimately show ?thesis
    using held n by (simp add: pages_held_def)
qed

lemma find_page:
  assumes "dmaPageRootFind root addr bytes e = (Some p, e')"
  shows "p < length (pageBuffers e) \<and> e' = upd_page p (\<lambda>b. b\<lparr>refCount := refCount b + 1\<rparr>) e \<and>
         0 < refCount (pageBuffers e ! p)"
  using assms by (auto simp: dmaPageRootFind_def find_Some_iff Let_def split: if_splits option.splits)

lemma find_no_page: "dmaPageRootFind root addr bytes e = (None, e') \<Longrightarrow> e' = e"
  by (auto simp: dmaPageRootFind_def split: if_splits option.splits)

lemma nth_upd_page:
  "pageBuffers (upd_page i f e) ! p =
     (if p = i \<and> i < length (pageBuffers e) then f (pageBuffers e ! i) else pageBuffers e ! p)"
  by (auto simp: upd_page_def list_update_beyond nth_list_update)

lemma pages_held_id: "pages_held (s\<lparr>dma_engine := dma_engine s\<rparr>) = pages_held s"
  by simp

lemma queue_ops_pages:
  assumes "pages_held s" and "i < 256"
  shows "pages_held (snd (dmaOpsBufferQueue i s))"
proof (cases "queued (str_buf s i)")
  case True
  then show ?thesis
    using assms(1) by (simp add: dmaOpsBufferQueue_def)
next
  case False
  let ?f = "\<lambda>b. b\<lparr>queued := False, linked := False, completed := False, flushed := False,
                released := False, buf_error := False, dma_buffer := None, ds_index := 0, ds_count := 0\<rparr>"
  define t where "t = upd_buf i ?f s"
  let ?e = "dma_engine s"
  have i: "i < length (stream_buffers s)" and i': "i < length (stream_buffers t)"
    using assms by (simp_all add: pages_held_def t_def)
  have "dma_buffer (str_buf s i) = None"
    using assms(1) i False nth_mem [OF i] by (simp add: pages_held_def)
  then have "pages_held (upd_buf i ?f (s\<lparr>dma_engine := ?e\<rparr>))"
    using assms(1) i by (intro pages_held_slot) simp_all
  then have t: "pages_held t" "dma_engine t = ?e" "str_buf t i = ?f (str_buf s i)" "owner t = owner s"
    using i by (simp_all add: t_def) (simp add: upd_buf_def)
  have freed: "pages_held (t\<lparr>dma_engine := dmaPageRootFree (Some p) (upd_page p (\<lambda>b. b\<lparr>refCount := refCount b + 1\<rparr>) ?e)\<rparr>)" for p
    by (rule same_pages_held [OF _ t(1)])
       (simp add: same_pages_def dmaPageRootFree_def upd_page_def t(2) map_upd_slot page_core_def)
  have taken: "pages_held (upd_buf i (\<lambda>b. b\<lparr>queued := True, dma_buffer := Some p\<rparr>)
      (t\<lparr>dma_engine := dmaSgDevice (Some p) (upd_page p (\<lambda>b. b\<lparr>refCount := refCount b + 1\<rparr>) ?e)\<rparr>))"
    if "p < length (pageBuffers ?e)" "0 < refCount (pageBuffers ?e ! p)" "pageLock (pageBuffers ?e ! p)" "sgMap (pageBuffers ?e ! p)" for p
    using t i' that by (intro pages_held_slot) (auto simp: dmaSgDevice_def nth_upd_page)
  have "pages_held (t\<lparr>dma_engine := ?e\<rparr>)"
    unfolding t(2) [symmetric] using t(1) by simp
  then show ?thesis
    using False t freed taken
    by (auto simp: dmaOpsBufferQueue_def t_def [symmetric] Let_def split: option.split prod.split
        dest!: find_page find_no_page simp: nth_upd_page)
qed

lemma release_ops_pages:
  assumes "pages_held s" and "i < 256"
  shows "pages_held (snd (dmaOpsBufferRelease i s))"
proof -
  let ?b = "str_buf s i"
  let ?f = "\<lambda>b. b\<lparr>dma_buffer := None, queued := False, linked := False, completed := False,
                flushed := False, released := True, buf_error := False\<rparr>"
  define e where "e = dmaPageRootFree (dma_buffer ?b) (dmaSgHost (dma_buffer ?b) (dma_engine s))"
  have i: "i < length (stream_buffers s)"
    using assms by (simp add: pages_held_def)
  have "pages_held (upd_buf i ?f (s\<lparr>dma_engine := e\<rparr>))"
  proof (cases "dma_buffer ?b")
    case None
    then show ?thesis
      using assms(1) i by (intro pages_held_slot) (auto simp: e_def dmaPageRootFree_def dmaSgHost_def)
  next
    case (Some q)
    then show ?thesis
      using assms(1) i by (intro pages_held_slot) (auto simp: e_def dmaPageRootFree_def dmaSgHost_def nth_upd_page)
  qed
  moreover have "upd_buf i ?f s\<lparr>dma_engine := e\<rparr> = upd_buf i ?f (s\<lparr>dma_engine := e\<rparr>)"
    by (simp add: upd_buf_def)
  ultimately show ?thesis
    using assms(1) by (simp add: dmaOpsBufferRelease_def e_def Let_def)
qed

lemma page_view_engine: "page_view = (\<lambda>v. (fst v, fst (snd v))) \<circ> engine_view"
  by (rule ext) (simp add: page_view_def engine_view_def)

interpretation dma_pages: stream_invariant "dma_ops now" halted pages_held for now :: int
proof (unfold_locales, goal_cases)
  case (1 s s')
  have "same_pages s s'"
    using 1(1) by (simp only: same_pages_def same_engine_def page_view_engine map_map [symmetric])
  then show ?case
    using 1(2) by (rule same_pages_held)
next
  case (2 f s)
  then show ?case
    by (intro same_pages_held [OF same_pages_engine_ops [of f now]]) (simp_all add: dma_ops_def)
next
  case (3 s i) then show ?case by (simp add: dma_ops_def queue_ops_pages)
next
  case (4 s i j) then show ?case using same_pages_held [OF same_pages_link_ops] by (simp add: dma_ops_def)
next
  case (5 s i) then show ?case using same_pages_held [OF same_pages_complete] by (simp add: dma_ops_def)
next
  case (6 s i) then show ?case using same_pages_held [OF same_pages_flush] by (simp add: dma_ops_def)
next
  case (7 s i) then show ?case by (simp add: dma_ops_def release_ops_pages)
qed

section \<open>The page buffers of the applications\<close>

lemma page_users_pos: "b \<in> set (stream_buffers s) \<Longrightarrow> dma_buffer b = Some p \<Longrightarrow> 0 < page_users s p"
  by (auto simp: page_users_def filter_empty_conv)

lemma pages_held_pages:
  assumes held: "pages_held s" and n: "length (pageBuffers (dma_engine s)) \<le> length (pageBuffers e)"
    and old: "\<And>p. p < length (pageBuffers (dma_engine s)) \<Longrightarrow>
        (0 < page_users s p \<longrightarrow> pageLock (pageBuffers e ! p) = pageLock (pageBuffers (dma_engine s) ! p) \<and>
           sgMap (pageBuffers e ! p) = sgMap (pageBuffers (dma_engine s) ! p)) \<and>
        (int (page_users s p) < refCount (pageBuffers e ! p) \<or> page_free (pageBuffers e ! p) (page_users s p))"
    and new: "\<And>p. length (pageBuffers (dma_engine s)) \<le> p \<Longrightarrow> p < length (pageBuffers e) \<Longrightarrow> 0 < refCount (pageBuffers e ! p)"
  shows "pages_held (s\<lparr>dma_engine := e\<rparr>)"
proof -
  have bufs: "(queued b \<longleftrightarrow> dma_buffer b \<noteq> None) \<and> (\<forall>p \<in> set_option (dma_buffer b). p < length (pageBuffers e) \<and>
        pageLock (pageBuffers e ! p) \<and> sgMap (pageBuffers e ! p))" if "b \<in> set (stream_buffers s)" for b
    using held that old n page_users_pos [OF that] by (fastforce simp: pages_held_def)
  have "page_users s p = 0" if "length (pageBuffers (dma_engine s)) \<le> p" for p
    using held that by (fastforce simp: page_users_def pages_held_def filter_empty_conv)
  then have "int (page_users s p) < refCount (pageBuffers e ! p) \<or> page_free (pageBuffers e ! p) (page_users s p)"
    if "p < length (pageBuffers e)" for p
    using old [of p] new [of p] that by (cases "p < length (pageBuffers (dma_engine s))") auto
  then show ?thesis
    using held bufs by (simp add: pages_held_def)
qed

lemma held_count:
  "pages_held s \<Longrightarrow> p < length (pageBuffers (dma_engine s)) \<Longrightarrow>
   int (page_users s p) < refCount (pageBuffers (dma_engine s) ! p) \<or>
   page_free (pageBuffers (dma_engine s) ! p) (page_users s p)"
  by (simp add: pages_held_def)

lemma find_keeps_pages:
  assumes "pages_held s"
  shows "pages_held (s\<lparr>dma_engine := snd (dmaPageRootFind root addr bytes (dma_engine s))\<rparr>)"
proof (cases "dmaPageRootFind root addr bytes (dma_engine s)")
  case (Pair a e)
  then show ?thesis
  proof (cases a)
    case None
    then show ?thesis
      using Pair assms find_no_page by (metis pages_held_id snd_conv)
  next
    case (Some p)
    note f = find_page [OF Pair [unfolded Some]]
    show ?thesis
    proof (rule pages_held_pages [OF assms])
      fix q
      assume "q < length (pageBuffers (dma_engine s))"
      from held_count [OF assms this]
      show "(0 < page_users s q \<longrightarrow> pageLock (pageBuffers (snd (dmaPageRootFind root addr bytes (dma_engine s))) ! q) =
              pageLock (pageBuffers (dma_engine s) ! q) \<and>
            sgMap (pageBuffers (snd (dmaPageRootFind root addr bytes (dma_engine s))) ! q) = sgMap (pageBuffers (dma_engine s) ! q)) \<and>
          (int (page_users s q) < refCount (pageBuffers (snd (dmaPageRootFind root addr bytes (dma_engine s))) ! q) \<or>
           page_free (pageBuffers (snd (dmaPageRootFind root addr bytes (dma_engine s))) ! q) (page_users s q))"
        using f Pair by (auto simp: nth_upd_page page_free_def)
    qed (use f Pair in simp_all)
  qed
qed

text \<open>Someone else gives back a reference of its own, so that those of the list and the stream remain.\<close>

lemma free_keeps_pages:
  assumes "pages_held s" and "int (page_users s p) + 1 < refCount (pageBuffers (dma_engine s) ! p)"
  shows "pages_held (s\<lparr>dma_engine := dmaPageRootFree (Some p) (dma_engine s)\<rparr>)"
  by (rule pages_held_pages [OF assms(1)])
     (use assms held_count [OF assms(1)] in \<open>auto simp: dmaPageRootFree_def nth_upd_page page_free_def\<close>)

lemma buffer_free_keeps_pages:
  assumes "pages_held s" and "refCount (pageBuffers (dma_engine s) ! p) = 1"
  shows "pages_held (s\<lparr>dma_engine := dmaPageBufferFree p (dma_engine s)\<rparr>)"
  by (rule pages_held_pages [OF assms(1)])
     (use assms held_count [OF assms(1)] in \<open>force simp: dmaPageBufferFree_def nth_upd_page page_free_def\<close>)+

lemma remove_keeps_pages:
  assumes "pages_held s"
  shows "pages_held (s\<lparr>dma_engine := snd (dmaPageRootRemove root addr bytes (dma_engine s))\<rparr>)"
  using assms by (auto simp: dmaPageRootRemove_def find_Some_iff Let_def split: option.split intro!: buffer_free_keeps_pages)

lemma root_release_keeps_pages:
  assumes "pages_held s"
  shows "pages_held (s\<lparr>dma_engine := dmaPageRootReleaseStep root (dma_engine s)\<rparr>)"
  using assms by (auto simp: dmaPageRootReleaseStep_def find_Some_iff split: option.split intro!: buffer_free_keeps_pages)

lemma add_keeps_pages:
  assumes "pages_held s"
  shows "pages_held (s\<lparr>dma_engine := snd (dmaPageRootAdd root addr bytes locked (dma_engine s))\<rparr>)"
proof (cases "dmaPageRootFind root addr bytes (dma_engine s)")
  case (Pair a e)
  have id: "pages_held (s\<lparr>dma_engine := dma_engine s\<rparr>)"
    using assms by simp
  have new: "pages_held (s\<lparr>dma_engine := (dma_engine s)\<lparr>pageBuffers := pageBuffers (dma_engine s) @ [b\<lparr>pageRoot := root, refCount := 1\<rparr>]\<rparr>\<rparr>)" for b
    by (rule pages_held_pages [OF assms]) (use held_count [OF assms] in \<open>auto simp: nth_append\<close>)
  have again: "pages_held (s\<lparr>dma_engine := dmaPageRootFree (Some p) (upd_page p (\<lambda>b. b\<lparr>refCount := refCount b + 1\<rparr>) (dma_engine s))\<rparr>)" for p
    by (rule same_pages_held [OF _ assms])
       (simp add: same_pages_def dmaPageRootFree_def upd_page_def map_upd_slot page_core_def)
  show ?thesis
    using Pair id new again
    by (auto simp: dmaPageRootAdd_def split: option.split sum.split dest!: find_page find_no_page)
qed

end
