(* ===== verification/Ntv2StreamRun.thy ===== *)
theory Ntv2StreamRun
  imports Ntv2StreamPages
begin

text \<open>
  The runs of a stream on the Linux driver. \<open>stream_run s q r\<close>: the stream can be in the state \<open>s\<close>
  when, since it was last released, the cookies \<open>q\<close> were queued with success and the cookies \<open>r\<close> were
  given back. The steps are the operations of the applications, with any arguments and in any
  order, the two sections of a wait, the interrupts, the locking and unlocking of memory, and the
  counted_transfers of other users of the page buffers, who give back only references of their own.
\<close>

definition channel_released :: "int \<Rightarrow> bool \<Rightarrow> nat option \<Rightarrow> dma_stream \<Rightarrow> NTV2StreamChannel \<Rightarrow> bool" where
  "channel_released now down own s p \<longleftrightarrow>
     mStatus_c (snd (snd (ntv2_stream_channel_release (dma_ops now) down own s p))) = NTV2_STREAM_STATUS_SUCCESS"

inductive stream_run :: "dma_stream \<Rightarrow> u64 list \<Rightarrow> u64 list \<Rightarrow> bool" where
  run_configure: "ntv2_stream_open True e0 = Some s \<Longrightarrow> list_all (\<lambda>b. 0 \<le> refCount b) (pageBuffers e) \<Longrightarrow>
    stream_run (snd (ntv2_stream_configure e adv s)) [] []"
| run_enable: "stream_run s q r \<Longrightarrow> x = channel_released now down None s p \<Longrightarrow>
    stream_run (snd (ntv2_stream_enable (dma_ops now) down p s)) (if x then [] else q) (if x then [] else r)"
| run_disable: "stream_run s q r \<Longrightarrow> x = channel_released now down None s p \<Longrightarrow>
    stream_run (snd (ntv2_stream_disable (dma_ops now) down p s)) (if x then [] else q) (if x then [] else r)"
| run_initialize: "stream_run s q r \<Longrightarrow>
    stream_run (fst (snd (ntv2_stream_channel_initialize (dma_ops now) down own s p))) q r"
| run_release: "stream_run s q r \<Longrightarrow> x = channel_released now down (Some own) s p \<Longrightarrow>
    stream_run (fst (snd (ntv2_stream_channel_release (dma_ops now) down (Some own) s p))) (if x then [] else q) (if x then [] else r)"
| run_start: "stream_run s q r \<Longrightarrow> stream_run (fst (snd (ntv2_stream_channel_start (dma_ops now) down s p))) q r"
| run_stop: "stream_run s q r \<Longrightarrow> stream_run (fst (snd (ntv2_stream_channel_stop (dma_ops now) down s p))) q r"
| run_flush: "stream_run s q r \<Longrightarrow> ntv2_stream_channel_flush (dma_ops now) down now s p = Some res \<Longrightarrow>
    stream_run (fst (snd res)) q r"
| run_status: "stream_run s q r \<Longrightarrow> stream_run (fst (snd (ntv2_stream_channel_status down s p))) q r"
| run_wait: "stream_run s q r \<Longrightarrow> channel_wait_enter down s p = Inr (i, s') \<Longrightarrow> stream_run s' q r"
| run_no_wait: "stream_run s q r \<Longrightarrow> channel_wait_enter down s p = Inl res \<Longrightarrow> stream_run (fst (snd res)) q r"
| run_wake: "stream_run s q r \<Longrightarrow> stream_run (fst (snd (channel_wait_leave i signalled down s p))) q r"
| run_interrupt: "stream_run s q r \<Longrightarrow> ntv2_stream_channel_advance (dma_ops now) now s = Some res \<Longrightarrow>
    stream_run (snd res) q r"
| run_queue: "stream_run s q r \<Longrightarrow> ntv2_stream_buffer_queue (dma_ops now) down now own s p = (ret, s', p') \<Longrightarrow>
    stream_run s' (if mStatus p' = NTV2_STREAM_STATUS_SUCCESS then q @ [mBufferCookie p] else q) r"
| run_buffer_release: "stream_run s q r \<Longrightarrow> ntv2_stream_buffer_release (dma_ops now) down own s p = (ret, s', p') \<Longrightarrow>
    stream_run s' q (if mStatus p' = NTV2_STREAM_STATUS_SUCCESS then r @ [mBufferCookie p'] else r)"
| run_buffer_status: "stream_run s q r \<Longrightarrow> ntv2_stream_buffer_status down s p = Some res \<Longrightarrow>
    stream_run (fst (snd res)) q r"
| run_lock: "stream_run s q r \<Longrightarrow>
    stream_run (s\<lparr>dma_engine := snd (dmaPageRootAdd root addr bytes locked (dma_engine s))\<rparr>) q r"
| run_unlock: "stream_run s q r \<Longrightarrow>
    stream_run (s\<lparr>dma_engine := snd (dmaPageRootRemove root addr bytes (dma_engine s))\<rparr>) q r"
| run_unlock_all: "stream_run s q r \<Longrightarrow>
    stream_run (s\<lparr>dma_engine := dmaPageRootReleaseStep root (dma_engine s)\<rparr>) q r"
| run_other_find: "stream_run s q r \<Longrightarrow>
    stream_run (s\<lparr>dma_engine := snd (dmaPageRootFind root addr bytes (dma_engine s))\<rparr>) q r"
| run_other_free: "stream_run s q r \<Longrightarrow> int (page_users s k) + 1 < refCount (pageBuffers (dma_engine s) ! k) \<Longrightarrow>
    stream_run (s\<lparr>dma_engine := dmaPageRootFree (Some k) (dma_engine s)\<rparr>) q r"

lemma enable_same: "same_queue (fst (snd (ntv2_stream_channel_release ops down None s p))) (snd (ntv2_stream_enable ops down p s))"
  by (simp add: ntv2_stream_enable_def Let_def case_prod_unfold)

lemma disable_same: "same_queue (fst (snd (ntv2_stream_channel_release ops down None s p))) (snd (ntv2_stream_disable ops down p s))"
  by (simp add: ntv2_stream_disable_def Let_def case_prod_unfold)

lemma buffer_status_pages:
  assumes "ntv2_stream_buffer_status down s p = Some res" and "pages_held s"
  shows "pages_held (fst (snd res))"
  using assms dma_pages.inv_simps
  by (auto simp: ntv2_stream_buffer_status_def bind_eq_Some_conv split: if_splits)

lemma channel_flush_keeps:
  assumes "stream_ok s" and "ntv2_stream_channel_flush (dma_ops now) down clock s p = Some res"
  shows "same_queue s (fst (snd res))"
  using dma.flush_returns [OF assms(1), of now down clock p] assms(2) by auto

lemma advance_keeps:
  assumes "stream_ok s" and "ntv2_stream_channel_advance (dma_ops now) clock s = Some res"
  shows "same_queue s (snd res)"
  using dma.advance_returns [OF assms(1), of now clock] assms(2) by auto

lemma status_keeps:
  assumes "stream_ok s" and "ntv2_stream_buffer_status down s p = Some res"
  shows "same_queue s (fst (snd res))"
  using buffer_status_returns [OF assms(1), of down p] assms(2) by auto

lemma same_queue_engine: "same_queue s (s\<lparr>dma_engine := e\<rparr>)"
  by (simp add: same_queue_def)

text \<open>The invariant of the runs.\<close>

definition run_inv :: "dma_stream \<Rightarrow> u64 list \<Rightarrow> u64 list \<Rightarrow> bool" where
  "run_inv s q r \<longleftrightarrow> stream_ok s \<and> pages_held s \<and> q = r @ stream_queue s"

lemma run_invD: "run_inv s q r \<Longrightarrow> stream_ok s" "run_inv s q r \<Longrightarrow> pages_held s"
  by (simp_all add: run_inv_def)

lemma run_inv_same: "run_inv s q r \<Longrightarrow> same_queue s s' \<Longrightarrow> pages_held s' \<Longrightarrow> run_inv s' q r"
  using same_okD unfolding run_inv_def by metis

lemma run_inv_release:
  assumes "run_inv s q r" and "same_queue (fst (snd (ntv2_stream_channel_release (dma_ops now) down own s p))) s'"
    and "pages_held s'" and "x = channel_released now down own s p"
  shows "run_inv s' (if x then [] else q) (if x then [] else r)"
proof -
  let ?r = "ntv2_stream_channel_release (dma_ops now) down own s p"
  have ok: "stream_ok s"
    using assms(1) by (simp add: run_inv_def)
  obtain ret t p' where r: "?r = (ret, t, p')"
    by (rule prod_cases3)
  have *: "if x then stream_ok (fst (snd ?r)) \<and> stream_queue (fst (snd ?r)) = [] else same_queue s (fst (snd ?r))"
    using dma.release_empties [OF ok r] by (simp add: assms(4) channel_released_def r)
  show ?thesis
  proof (cases x)
    case True
    then show ?thesis
      using * same_okD [OF assms(2)] assms(3) by (simp add: run_inv_def)
  next
    case False
    then show ?thesis
      using * run_inv_same [OF assms(1) same_queue_trans [OF _ assms(2)] assms(3)] by simp
  qed
qed

theorem stream_run_inv: "stream_run s q r \<Longrightarrow> run_inv s q r"
proof (induction rule: stream_run.induct)
  case (run_configure e0 s e adv)
  then show ?case
    by (auto simp: ntv2_stream_open_def ntv2_stream_configure_def run_inv_def stream_ok_def stream_queue_def
        pages_held_def page_users_def zero_buffer_def list_all_iff filter_replicate page_free_def order.order_iff_strict)
next
  case (run_enable s q r x now down p)
  show ?case
    by (rule run_inv_release [OF run_enable.IH enable_same _ run_enable.hyps(2)])
       (simp add: ntv2_stream_enable_def Let_def case_prod_unfold dma_pages.inv_simps dma_pages.inv_channel_release
         run_invD [OF run_enable.IH])
next
  case (run_disable s q r x now down p)
  show ?case
    by (rule run_inv_release [OF run_disable.IH disable_same _ run_disable.hyps(2)])
       (simp add: ntv2_stream_disable_def Let_def case_prod_unfold dma_pages.inv_simps dma_pages.inv_channel_release
         run_invD [OF run_disable.IH])
next
  case (run_initialize s q r now down own p)
  show ?case
    by (rule run_inv_same [OF run_initialize.IH]) (simp_all add: dma.initialize_same dma_pages.inv_initialize run_invD [OF run_initialize.IH])
next
  case (run_release s q r x now down own p)
  show ?case
    by (rule run_inv_release [OF run_release.IH same_queue_refl _ run_release.hyps(2)])
       (simp add: dma_pages.inv_channel_release run_invD [OF run_release.IH])
next
  case (run_start s q r now down p)
  show ?case
    by (rule run_inv_same [OF run_start.IH]) (simp_all add: dma.start_same dma_pages.inv_start run_invD [OF run_start.IH])
next
  case (run_stop s q r now down p)
  show ?case
    by (rule run_inv_same [OF run_stop.IH]) (simp_all add: dma.stop_same dma_pages.inv_stop run_invD [OF run_stop.IH])
next
  case (run_flush s q r now down p res)
  note inv = run_invD [OF run_flush.IH]
  show ?case
    by (rule run_inv_same [OF run_flush.IH])
       (rule channel_flush_keeps [OF inv(1) run_flush.hyps(2)], rule dma_pages.inv_channel_flush [OF run_flush.hyps(2) inv(2)])
next
  case (run_status s q r down p)
  show ?case
    by (rule run_inv_same [OF run_status.IH]) (simp_all add: status_same dma_pages.inv_status run_invD [OF run_status.IH])
next
  case (run_wait s q r down p i s')
  show ?case
    by (rule run_inv_same [OF run_wait.IH])
       (use enter_same [where s = s and down = down and p = p] dma_pages.inv_enter [OF run_invD(2) [OF run_wait.IH],
          where down = down and p = p] run_wait.hyps(2) in simp_all)
next
  case (run_no_wait s q r down p res)
  show ?case
    by (rule run_inv_same [OF run_no_wait.IH])
       (use enter_same [where s = s and down = down and p = p] dma_pages.inv_enter [OF run_invD(2) [OF run_no_wait.IH],
          where down = down and p = p] run_no_wait.hyps(2) in \<open>simp_all add: case_prod_unfold\<close>)
next
  case (run_wake s q r i signalled down p)
  show ?case
    by (rule run_inv_same [OF run_wake.IH]) (simp_all add: leave_same dma_pages.inv_leave run_invD [OF run_wake.IH])
next
  case (run_interrupt s q r now res)
  note inv = run_invD [OF run_interrupt.IH]
  show ?case
    by (rule run_inv_same [OF run_interrupt.IH])
       (rule advance_keeps [OF inv(1) run_interrupt.hyps(2)], rule dma_pages.inv_advance [OF run_interrupt.hyps(2) inv(2)])
next
  case (run_queue s q r now down own p ret s' p')
  note inv = run_invD [OF run_queue.IH]
  have "pages_held s'"
    using dma_pages.inv_buffer_queue [OF inv(2) stream_okD(2) [OF inv(1)], of now down now own p] run_queue.hyps(2) by simp
  then show ?case
    using dma.buffer_queue_step [OF inv(1) run_queue.hyps(2)] run_queue.IH by (simp add: run_inv_def)
next
  case (run_buffer_release s q r now down own p ret s' p')
  note inv = run_invD [OF run_buffer_release.IH]
  have "pages_held s'"
    using dma_pages.inv_buffer_release [OF inv(2) stream_okD(3) [OF inv(1)], of now down own p] run_buffer_release.hyps(2)
    by simp
  then show ?case
    using dma.buffer_release_step [OF inv(1) run_buffer_release.hyps(2)] run_buffer_release.IH
    by (cases "mStatus p' = NTV2_STREAM_STATUS_SUCCESS") (simp_all add: run_inv_def)
next
  case (run_buffer_status s q r down p res)
  note inv = run_invD [OF run_buffer_status.IH]
  show ?case
    by (rule run_inv_same [OF run_buffer_status.IH])
       (rule status_keeps [OF inv(1) run_buffer_status.hyps(2)], rule buffer_status_pages [OF run_buffer_status.hyps(2) inv(2)])
next
  case (run_lock s q r root addr bytes locked)
  show ?case
    by (rule run_inv_same [OF run_lock.IH]) (simp_all add: same_queue_engine add_keeps_pages run_invD [OF run_lock.IH])
next
  case (run_unlock s q r root addr bytes)
  show ?case
    by (rule run_inv_same [OF run_unlock.IH]) (simp_all add: same_queue_engine remove_keeps_pages run_invD [OF run_unlock.IH])
next
  case (run_unlock_all s q r root)
  show ?case
    by (rule run_inv_same [OF run_unlock_all.IH])
       (simp_all add: same_queue_engine root_release_keeps_pages run_invD [OF run_unlock_all.IH])
next
  case (run_other_find s q r root addr bytes)
  show ?case
    by (rule run_inv_same [OF run_other_find.IH]) (simp_all add: same_queue_engine find_keeps_pages run_invD [OF run_other_find.IH])
next
  case (run_other_free s q r k)
  show ?case
    by (rule run_inv_same [OF run_other_free.IH])
       (simp_all add: same_queue_engine free_keeps_pages run_invD [OF run_other_free.IH] run_other_free.hyps)
qed

end
