(* ===== verification/Ntv2StreamExample.thy ===== *)
theory Ntv2StreamExample
  imports Ntv2StreamRun
begin

text \<open>A stream for the witnesses: one page buffer, one engine that writes to the device.\<close>

definition example_page :: page_buffer where
  "example_page = \<lparr>pageRoot = 1, refCount = 1, pUserAddress = 0x10000, userSize = 4096, pageLock = True,
     sgMap = True, sgHost = True, page_rdma = False, sgList = [(0x80000000, 4096)]\<rparr>"

definition example_engine :: stream_engine where
  "example_engine = \<lparr>dmaIndex = 0, dmaC2H = False, dmaStream = True, maxDescriptors = 524288,
     numDescriptorPages = 4096,
     pDescriptorVirtual = (\<lambda>_ _. \<lparr>ulControl = 0, ulTransferCount = 0, llSrcAddress = 0, llDstAddress = 0, llNextAddress = 0\<rparr>),
     descriptorPhysical = (\<lambda>n. 0x40000000 + of_nat n * 4096), strDescriptorIndex = 0, programErrorCount = 0,
     programStartCount = 0, programStartTime = 0, numXlnxH2CEngines = 1, numXlnxC2HEngines = 1,
     xlnxRegs = (\<lambda>_. 0), pageBuffers = [example_page]\<rparr>"

definition example_buffer :: NTV2StreamBuffer where
  "example_buffer = zero_user_buffer\<lparr>mBufferPtr := 0x10000, mBufferBytes := 4096, mBufferCookie := 7\<rparr>"

definition example_configured :: dma_stream where
  "example_configured = snd (ntv2_stream_configure example_engine 0 (the (ntv2_stream_open True example_engine)))"

definition example_initialized :: dma_stream where
  "example_initialized =
     fst (snd (ntv2_stream_channel_initialize (dma_ops 0) True 1
       (snd (ntv2_stream_enable (dma_ops 0) True zero_user_channel example_configured)) zero_user_channel))"

definition released_buffer :: ntv2_stream_buffer where
  "released_buffer = zero_buffer\<lparr>released := True\<rparr>"

text \<open>The loops over all buffers of a stream that has none in the queue.\<close>

lemma replicate_shift: "(replicate n a @ replicate (Suc m) b)[n := a] = replicate (Suc n) a @ replicate m b"
  by (induction n) simp_all

lemma release_zero_buffers:
  assumes "\<not> running s" "stream_buffers s = replicate 256 zero_buffer" "n \<le> 256"
  shows "fold (\<lambda>i s. snd (dmaOpsBufferRelease i s)) [0..<n] s =
           s\<lparr>stream_buffers := replicate n released_buffer @ replicate (256 - n) zero_buffer\<rparr>"
  using assms(3)
proof (induction n)
  case 0
  then show ?case
    using assms(2) by simp
next
  case (Suc n)
  let ?t = "s\<lparr>stream_buffers := replicate n released_buffer @ replicate (256 - n) zero_buffer\<rparr>"
  obtain m where m: "256 - n = Suc m" "256 - Suc n = m"
    using Suc.prems by (metis Suc_diff_Suc Suc_le_lessD)
  have "str_buf ?t n = zero_buffer"
    by (simp add: nth_append m)
  then have "snd (dmaOpsBufferRelease n ?t) =
      ?t\<lparr>stream_buffers := (replicate n released_buffer @ replicate (256 - n) zero_buffer)[n := released_buffer]\<rparr>"
    using assms(1) by (simp add: dmaOpsBufferRelease_def running_def upd_buf_def zero_buffer_def released_buffer_def
        dmaSgHost_def dmaPageRootFree_def Let_def)
  also have "(replicate n released_buffer @ replicate (256 - n) zero_buffer)[n := released_buffer] =
      replicate (Suc n) released_buffer @ replicate (256 - Suc n) zero_buffer"
    unfolding m by (rule replicate_shift)
  finally show ?case
    using Suc by simp
qed

lemma flush_released_buffers:
  assumes "stream_buffers s = replicate 256 released_buffer" "n \<le> 256"
  shows "fold (\<lambda>i s. snd (dmaOpsBufferFlush i s)) [0..<n] s = s"
  using assms(2)
proof (induction n)
  case (Suc n)
  then show ?case
    using assms(1) by (simp add: dmaOpsBufferFlush_def released_buffer_def zero_buffer_def Let_def)
qed simp

definition stopped_engine :: stream_engine where
  "stopped_engine = snd (dmaXlnxStreamStop (snd (dmaXlnxStreamStop example_engine)))"

lemma stop_status [simp]: "dmaStream e \<Longrightarrow> fst (dmaXlnxStreamStop e) = 0"
  by (simp add: dmaXlnxStreamStop_def)

lemma example_streams [simp]: "dmaStream example_engine"
  by (simp add: example_engine_def)

lemma stop_xlnx_keeps [simp]: "dmaStream (snd (dmaXlnxStreamStop e)) = dmaStream e"
  "strDescriptorIndex (snd (dmaXlnxStreamStop e)) = strDescriptorIndex e"
  by (simp_all add: dmaXlnxStreamStop_def DisableXlnxDmaInterrupt_def StopXlnxDma_def WriteXlnxRegister_def Let_def)

lemma configured_sel [simp]:
  "owner example_configured = None" "user_channel example_configured = zero_user_channel"
  "stream_buffers example_configured = replicate 256 zero_buffer" "dma_engine example_configured = example_engine"
  "stream_state example_configured = ntv2_stream_state_disabled"
  "engine_state example_configured = ntv2_stream_state_disabled"
  by (simp_all add: example_configured_def ntv2_stream_configure_def ntv2_stream_open_def)

lemma enabled_example:
  "snd (ntv2_stream_enable (dma_ops 0) True zero_user_channel example_configured) =
     example_configured\<lparr>dma_engine := snd (dmaXlnxStreamStop example_engine),
       stream_buffers := replicate 256 released_buffer, wait_events := replicate 10 True,
       stream_state := ntv2_stream_state_released, engine_state := ntv2_stream_state_released\<rparr>"
proof -
  let ?s = "example_configured\<lparr>dma_engine := snd (dmaXlnxStreamStop example_engine),
       stream_state := ntv2_stream_state_released, engine_state := ntv2_stream_state_released\<rparr>"
  have rel: "dmaOpsStreamRelease example_configured = (NTV2_STREAM_OPS_SUCCESS, ?s)"
    by (simp add: dmaOpsStreamRelease_def example_configured_def ntv2_stream_configure_def ntv2_stream_open_def
        Let_def case_prod_unfold)
  have all: "fold (\<lambda>i s. snd (dmaOpsBufferRelease i s)) [0..<256] ?s = ?s\<lparr>stream_buffers := replicate 256 released_buffer\<rparr>"
    by (subst release_zero_buffers)
       (simp_all add: running_def example_configured_def ntv2_stream_configure_def ntv2_stream_open_def del: upt_rec_numeral)
  show ?thesis
    unfolding ntv2_stream_enable_def ntv2_stream_channel_release_def
    using rel all
    by (simp add: dma_ops_def Let_def case_prod_unfold report_channel_def channel_status_def signal_all_def
        example_configured_def ntv2_stream_configure_def ntv2_stream_open_def zero_user_channel_def del: upt_rec_numeral)
qed

lemma initialized_example:
  "example_initialized =
     example_configured\<lparr>owner := Some 1, dma_engine := stopped_engine,
       stream_buffers := replicate 256 released_buffer, wait_events := replicate 10 True,
       stream_state := ntv2_stream_state_initialized, engine_state := ntv2_stream_state_initialized\<rparr>"
proof -
  let ?s = "example_configured\<lparr>dma_engine := stopped_engine,
       stream_buffers := replicate 256 released_buffer, wait_events := replicate 10 True,
       stream_state := ntv2_stream_state_initialized, engine_state := ntv2_stream_state_initialized\<rparr>"
  let ?e = "example_configured\<lparr>dma_engine := snd (dmaXlnxStreamStop example_engine),
       stream_buffers := replicate 256 released_buffer, wait_events := replicate 10 True,
       stream_state := ntv2_stream_state_released, engine_state := ntv2_stream_state_released\<rparr>"
  have idx: "strDescriptorIndex example_engine = 0"
    by (simp add: example_engine_def)
  then have se: "stopped_engine\<lparr>strDescriptorIndex := 0\<rparr> = stopped_engine"
    by (simp add: stopped_engine_def dmaXlnxStreamStop_def DisableXlnxDmaInterrupt_def StopXlnxDma_def WriteXlnxRegister_def Let_def)
  have init: "dmaOpsStreamInitialize ?e = (NTV2_STREAM_OPS_SUCCESS, ?s)"
    using se by (simp add: dmaOpsStreamInitialize_def stopped_engine_def Let_def case_prod_unfold)
  have all: "fold (\<lambda>i s. snd (dmaOpsBufferFlush i s)) [0..<256] (?s\<lparr>owner := Some 1\<rparr>) = ?s\<lparr>owner := Some 1\<rparr>"
    by (rule flush_released_buffers) simp_all
  show ?thesis
    unfolding example_initialized_def enabled_example ntv2_stream_channel_initialize_def
    using init all
    by (simp add: dma_ops_def Let_def case_prod_unfold report_channel_def channel_status_def signal_all_def
        zero_user_channel_def del: upt_rec_numeral One_nat_def)
qed

text \<open>One buffer in the queue, and the stream started on it.\<close>

definition example_queued :: dma_stream where
  "example_queued = fst (snd (ntv2_stream_buffer_queue (dma_ops 1) True 1 1 example_initialized example_buffer))"

definition example_started :: dma_stream where
  "example_started = fst (snd (ntv2_stream_channel_start (dma_ops 2) True example_queued zero_user_channel))"

lemma initialized_record:
  "example_initialized =
     \<lparr>owner = Some 1, dma_engine = stopped_engine, stream_state = ntv2_stream_state_initialized,
      engine_state = ntv2_stream_state_initialized, stream_buffers = replicate 256 released_buffer,
      wait_events = replicate 10 True, wait_inuse = replicate 10 False, head_index = 0, tail_index = 0,
      active_index = 0, next_index = 0, init_advance = 0, init_count = 0, user_channel = zero_user_channel\<rparr>"
  unfolding initialized_example
  by (simp add: example_configured_def ntv2_stream_configure_def ntv2_stream_open_def)

lemma stopped_record:
  "stopped_engine = example_engine\<lparr>xlnxRegs := xlnxRegs stopped_engine\<rparr>"
  by (simp add: stopped_engine_def dmaXlnxStreamStop_def DisableXlnxDmaInterrupt_def StopXlnxDma_def WriteXlnxRegister_def Let_def)

definition queued_buffer :: ntv2_stream_buffer where
  "queued_buffer = zero_buffer\<lparr>user_buffer := example_buffer\<lparr>mQueueTime := 1\<rparr>, queued := True, dma_buffer := Some 0\<rparr>"

definition queued_engine :: stream_engine where
  "queued_engine = stopped_engine\<lparr>pageBuffers := [example_page\<lparr>refCount := 2, sgHost := False\<rparr>]\<rparr>"

lemma pages_stopped [simp]: "pageBuffers stopped_engine = [example_page]"
  by (subst stopped_record) (simp add: example_engine_def)

lemma find_example: "dmaPageRootFind 1 0x10000 4096 stopped_engine = (Some 0, upd_page 0 (\<lambda>b. b\<lparr>refCount := refCount b + 1\<rparr>) stopped_engine)"
  by (simp add: dmaPageRootFind_def upt_rec example_page_def)

lemma queue_ops_example:
  "dmaOpsBufferQueue 0 (upd_user 0 (\<lambda>_. example_buffer) example_initialized) =
     (NTV2_STREAM_OPS_SUCCESS,
      example_initialized\<lparr>dma_engine := queued_engine, 
        stream_buffers := (replicate 256 released_buffer)[0 := queued_buffer\<lparr>user_buffer := example_buffer\<rparr>]\<rparr>)"
  using find_example
  by (simp add: dmaOpsBufferQueue_def initialized_record upd_user_def upd_buf_def released_buffer_def zero_buffer_def
      example_buffer_def upd_page_def dmaSgDevice_def example_page_def queued_engine_def queued_buffer_def Let_def
      del: One_nat_def)

lemma queue_example:
  "ntv2_stream_buffer_queue (dma_ops 1) True 1 1 example_initialized example_buffer =
     (STATUS_SUCCESS,
      example_initialized\<lparr>dma_engine := queued_engine, stream_buffers := (replicate 256 released_buffer)[0 := queued_buffer],
        head_index := 1, user_channel := zero_user_channel\<lparr>mQueueCount := 1\<rparr>\<rparr>,
      example_buffer\<lparr>mQueueTime := 1, mBufferState := 1, mStatus := NTV2_STREAM_STATUS_SUCCESS\<rparr>)"
proof -
  have init: "bad_state example_initialized = False" "owner example_initialized = Some 1" "head_index example_initialized = 0"
      "tail_index example_initialized = 0" "queued (str_buf example_initialized 0) = False"
      "user_channel example_initialized = zero_user_channel"
    by (simp_all add: initialized_record bad_state_def released_buffer_def zero_buffer_def)
  show ?thesis
    unfolding ntv2_stream_buffer_queue_def Let_def init
    using queue_ops_example
    by (simp add: init dma_ops_def report_buffer_def buffer_status_def buffer_state_flags_def Let_def upd_user_def upd_buf_def
        queued_buffer_def zero_user_channel_def queue_next_def queue_full_def zero_buffer_def example_buffer_def zero_user_buffer_def
        del: One_nat_def)
qed

definition linked_buffer :: ntv2_stream_buffer where
  "linked_buffer = queued_buffer\<lparr>linked := True, ds_count := 1\<rparr>"

lemma stopped_sel [simp]:
  "dmaStream stopped_engine" "maxDescriptors stopped_engine = 524288" "numDescriptorPages stopped_engine = 4096"
  "strDescriptorIndex stopped_engine = 0"
  by (subst stopped_record, simp add: example_engine_def)+

lemma build_example: "fst (dmaXlnxStreamBuild 0 0 queued_engine) = 1"
  by (simp add: dmaXlnxStreamBuild_def queued_engine_def example_page_def dmaXlnxDescIndexToPage_def upd_desc_def Let_def)

lemma link_example:
  assumes s: "stream_buffers s = (replicate 256 released_buffer)[0 := queued_buffer]" "dma_engine s = queued_engine"
    "engine_state s = ntv2_stream_state_initialized"
  shows "\<exists>e. dmaOpsBufferLink 0 0 s = (NTV2_STREAM_OPS_SUCCESS,
      s\<lparr>dma_engine := e, stream_buffers := (replicate 256 released_buffer)[0 := linked_buffer]\<rparr>) \<and>
      pageBuffers e = pageBuffers queued_engine \<and> dmaStream e"
proof -
  define e where "e = snd (dmaXlnxStreamBuild 0 0 queued_engine)"
  have q: "strDescriptorIndex queued_engine = 0" "maxDescriptors queued_engine = 524288" "dmaStream queued_engine"
    by (simp_all add: queued_engine_def)
  have e: "pageBuffers e = pageBuffers queued_engine" "maxDescriptors e = 524288" "dmaStream e" "strDescriptorIndex e = 0"
    using fixed_build [of 0 0 queued_engine] q by (simp_all add: e_def [symmetric] engine_fixed_def)
  have b: "dmaXlnxStreamBuild 0 0 queued_engine = (1, e)"
    using build_example by (simp add: e_def prod_eq_iff)
  have "\<exists>e'. link_end 0 s = (NTV2_STREAM_OPS_SUCCESS,
      s\<lparr>dma_engine := e', stream_buffers := (replicate 256 released_buffer)[0 := linked_buffer]\<rparr>) \<and>
      pageBuffers e' = pageBuffers queued_engine \<and> dmaStream e'"
    using s q e b
    by (simp add: link_end_def link_buffer_def upd_buf_def queued_buffer_def linked_buffer_def zero_buffer_def
        dmaXlnxStreamLink_def dmaXlnxDescIndexToPage_def upd_desc_def u32_of_def Let_def del: One_nat_def)
       (rule exI, rule conjI, rule refl, simp)
  then obtain e' where e': "link_end 0 s = (NTV2_STREAM_OPS_SUCCESS,
      s\<lparr>dma_engine := e', stream_buffers := (replicate 256 released_buffer)[0 := linked_buffer]\<rparr>)"
      "pageBuffers e' = pageBuffers queued_engine" "dmaStream e'"
    by blast
  have "link_end 0 (s\<lparr>dma_engine := e', stream_buffers := (replicate 256 released_buffer)[0 := linked_buffer]\<rparr>) =
      (NTV2_STREAM_OPS_SUCCESS, s\<lparr>dma_engine := e', stream_buffers := (replicate 256 released_buffer)[0 := linked_buffer]\<rparr>)"
    by (simp add: link_end_def linked_buffer_def queued_buffer_def zero_buffer_def)
  then show ?thesis
    using e' s(3) by (intro exI [of _ e']) (simp add: dmaOpsBufferLink_def)
qed

lemma queued_record:
  "example_queued =
     \<lparr>owner = Some 1, dma_engine = queued_engine, stream_state = ntv2_stream_state_initialized,
      engine_state = ntv2_stream_state_initialized, stream_buffers = (replicate 256 released_buffer)[0 := queued_buffer],
      wait_events = replicate 10 True, wait_inuse = replicate 10 False, head_index = 1, tail_index = 0,
      active_index = 0, next_index = 0, init_advance = 0, init_count = 0,
      user_channel = zero_user_channel\<lparr>mQueueCount := 1\<rparr>\<rparr>"
  unfolding example_queued_def queue_example by (simp add: initialized_record)

lemma start_example:
  "\<exists>e. pageBuffers e = pageBuffers queued_engine \<and> dmaStream e \<and>
     example_started = example_queued\<lparr>stream_buffers := (replicate 256 released_buffer)[0 := linked_buffer], dma_engine := e,
       stream_state := ntv2_stream_state_active\<rparr>"
proof -
  let ?s = "example_queued\<lparr>user_channel := (user_channel example_queued)\<lparr>mActiveCount := 0, mRepeatCount := 0, mIdleCount := 0\<rparr>,
                init_count := 0, next_index := active_index example_queued\<rparr>"
  have "?s = example_queued"
    by (simp add: queued_record zero_user_channel_def)
  obtain e where e: "dmaOpsBufferLink 0 0 example_queued = (NTV2_STREAM_OPS_SUCCESS,
      example_queued\<lparr>dma_engine := e, stream_buffers := (replicate 256 released_buffer)[0 := linked_buffer]\<rparr>)"
      "pageBuffers e = pageBuffers queued_engine" "dmaStream e"
    using link_example [of example_queued] by (auto simp: queued_record)
  have st: "fst (dmaXlnxStreamStart 2 0 e) = 0" "pageBuffers (snd (dmaXlnxStreamStart 2 0 e)) = pageBuffers queued_engine"
      "dmaStream (snd (dmaXlnxStreamStart 2 0 e))"
    using e(2,3) by (simp_all add: dmaXlnxStreamStart_def dmaXlnxDescIndexToPage_def WriteXlnxDmaEngineStart_def
        EnableXlnxDmaInterrupt_def StartXlnxDma_def WriteXlnxRegister_def Let_def)
  have "queued (str_buf example_queued 0)" "\<not> linked (str_buf example_queued 0)" "active_index example_queued = 0" "next_index example_queued = 0"
    by (simp_all add: queued_record queued_buffer_def zero_buffer_def)
  then have fl: "channel_first_link (dma_ops 2) example_queued = dmaOpsBufferLink 0 0 example_queued"
    using \<open>?s = example_queued\<close> by (simp add: channel_first_link_def dma_ops_def Let_def)
  show ?thesis
    using st
    by (intro exI [of _ "snd (dmaXlnxStreamStart 2 0 e)"])
       (simp add: example_started_def ntv2_stream_channel_start_def fl e(1),
        simp add: dma_ops_def dmaOpsStreamStart_def dmaOpsStreamRun_def queued_record bad_state_def queue_empty_def
        report_channel_def channel_status_def signal_all_def zero_user_channel_def Let_def case_prod_unfold)
qed

lemma started_sel:
  "owner example_started = Some 1" "stream_state example_started = ntv2_stream_state_active"
  "engine_state example_started = ntv2_stream_state_initialized" "head_index example_started = 1"
  "tail_index example_started = 0" "active_index example_started = 0" "next_index example_started = 0"
  "init_advance example_started = 0" "str_buf example_started 0 = linked_buffer"
proof -
  obtain e where e: "example_started = example_queued\<lparr>stream_buffers := (replicate 256 released_buffer)[0 := linked_buffer],
      dma_engine := e, stream_state := ntv2_stream_state_active\<rparr>"
    using start_example by blast
  show "owner example_started = Some 1" "stream_state example_started = ntv2_stream_state_active"
    "engine_state example_started = ntv2_stream_state_initialized" "head_index example_started = 1"
    "tail_index example_started = 0" "active_index example_started = 0" "next_index example_started = 0"
    "init_advance example_started = 0" "str_buf example_started 0 = linked_buffer"
    by (simp_all add: e queued_record)
qed

end
