(* ===== verification/Ntv2StreamTheorems.thy ===== *)
theory Ntv2StreamTheorems
  imports Ntv2StreamExample
begin

text \<open>
  Properties of the DMA streams on the Linux driver: order, memory, termination, the interrupt, and
  what the operations do while the engine runs.
\<close>

section \<open>Runs for the witnesses\<close>

lemma example_run_initialized: "stream_run example_initialized [] []"
proof -
  have "stream_run example_configured [] []"
    unfolding example_configured_def
    by (rule run_configure) (simp_all add: ntv2_stream_open_def example_engine_def example_page_def)
  from run_enable [OF this refl] have
    "stream_run (snd (ntv2_stream_enable (dma_ops 0) True zero_user_channel example_configured)) [] []"
    by (metis (full_types))
  then show ?thesis
    unfolding example_initialized_def by (rule run_initialize)
qed

lemma example_run_queued: "stream_run example_queued [7] []"
proof -
  have "example_queued = fst (snd (ntv2_stream_buffer_queue (dma_ops 1) True 1 1 example_initialized example_buffer))"
    by (simp only: example_queued_def)
  then show ?thesis
    using run_queue [OF example_run_initialized queue_example]
    unfolding queue_example by (simp add: example_buffer_def zero_user_buffer_def)
qed

lemma example_run_started: "stream_run example_started [7] []"
  unfolding example_started_def by (rule run_start [OF example_run_queued])

section \<open>Order and memory\<close>

text \<open>C8: a stream is a first-in first-out queue. Whatever applications, interrupts and other users of the
  memory do, the cookies queued since the last release of the channel are those given back, in the
  same order, followed by those in the ring.\<close>

theorem stream_returns_buffers_in_order:
  assumes "stream_run s q r"
  shows "q = r @ stream_queue s"
  using stream_run_inv [OF assms] by (simp add: run_inv_def)

theorem stream_returns_buffers_in_order_witness: "[7] = [] @ stream_queue example_started"
  by (rule stream_returns_buffers_in_order [OF example_run_started])

lemma held_queued:
  assumes "pages_held s" and "i < 256" and "queued (str_buf s i)"
  shows "\<exists>p < length (pageBuffers (dma_engine s)). dma_buffer (str_buf s i) = Some p \<and>
           pageLock (pageBuffers (dma_engine s) ! p) \<and> sgMap (pageBuffers (dma_engine s) ! p) \<and>
           1 < refCount (pageBuffers (dma_engine s) ! p)"
proof -
  have i: "i < length (stream_buffers s)"
    using assms by (simp add: pages_held_def)
  then obtain p where p: "dma_buffer (str_buf s i) = Some p" "p < length (pageBuffers (dma_engine s))"
      "pageLock (pageBuffers (dma_engine s) ! p)" "sgMap (pageBuffers (dma_engine s) ! p)"
    using assms nth_mem [OF i] by (fastforce simp: pages_held_def)
  have "0 < page_users s p"
    using page_users_pos [OF nth_mem [OF i] p(1)] .
  then have "1 < refCount (pageBuffers (dma_engine s) ! p)"
    using held_count [OF assms(1) p(2)] by (auto simp: page_free_def)
  then show ?thesis
    using p by blast
qed



section \<open>Termination\<close>

text \<open>C27: the loops of the flush, of the interrupt and of the search for a buffer end in every reachable
  state.\<close>

theorem stream_operations_return:
  assumes "stream_run s q r"
  shows "(\<exists>res. ntv2_stream_channel_flush (dma_ops now) down now s p = Some res) \<and>
         (\<exists>res. ntv2_stream_channel_advance (dma_ops now) now s = Some res) \<and>
         (\<exists>res. ntv2_stream_buffer_status down s u = Some res)"
proof -
  have ok: "stream_ok s"
    by (rule run_invD(1) [OF stream_run_inv [OF assms]])
  show ?thesis
    using dma.flush_returns [OF ok, of now down now p] dma.advance_returns [OF ok, of now now]
      buffer_status_returns [OF ok, of down u] by blast
qed

theorem stream_operations_return_witness:
  "(\<exists>res. ntv2_stream_channel_flush (dma_ops 3) True 3 example_started zero_user_channel = Some res) \<and>
   (\<exists>res. ntv2_stream_channel_advance (dma_ops 3) 3 example_started = Some res) \<and>
   (\<exists>res. ntv2_stream_buffer_status True example_started zero_user_buffer = Some res)"
  by (rule stream_operations_return [OF example_run_started])

section \<open>The interrupt\<close>

text \<open>C26: a counted interrupt makes the next buffer the active one; the new next buffer is the first
  behind it that was not flushed, if there is one and the stream is active. The queue stays, and
  exactly one of the three counts of transfers grows.\<close>

theorem interrupt_moves_active_buffer:
  assumes "stream_run s q r" and "stream_state s = ntv2_stream_state_active \<or> stream_state s = ntv2_stream_state_idle"
    and "engine_state s = ntv2_stream_state_initialized \<longrightarrow> init_advance s \<le> init_count s"
  shows "\<exists>ret s'. ntv2_stream_channel_advance (dma_ops now) now s = Some (ret, s') \<and>
           active_index s' = next_index s \<and>
           next_index s' =
             (if stream_state s = ntv2_stream_state_active
              then (case find (\<lambda>i. \<not> flushed (str_buf s i)) (ring_ids (queue_next (next_index s)) (head_index s)) of
                      None \<Rightarrow> next_index s | Some i \<Rightarrow> i)
              else next_index s) \<and>
           stream_queue s' = stream_queue s \<and> counted_transfers s' = counted_transfers s + 1"
proof -
  have ok: "stream_ok s"
    by (rule run_invD(1) [OF stream_run_inv [OF assms(1)]])
  have "\<not> (engine_state s = ntv2_stream_state_initialized \<and> init_count s < init_advance s)"
    using assms(3) by auto
  from dma.advance_step [OF ok assms(2) this, of now now] show ?thesis
    using same_queue_queue [OF _ ok] by (metis prod.collapse)
qed

theorem interrupt_moves_active_buffer_witness:
  "\<exists>ret s'. ntv2_stream_channel_advance (dma_ops 3) 3 example_started = Some (ret, s') \<and>
     active_index s' = 0 \<and> stream_queue s' = stream_queue example_started \<and> counted_transfers s' = counted_transfers example_started + 1"
  using interrupt_moves_active_buffer [OF example_run_started, of 3] by (auto simp: started_sel)

section \<open>The buffer that the engine runs\<close>

text \<open>What the operations of an application leave of a buffer.\<close>

lemma flush_ops_linked:
  "running s \<Longrightarrow> linked (str_buf s i) \<Longrightarrow> engine_view (str_buf (snd (dmaOpsBufferFlush j s)) i) = engine_view (str_buf s i)"
  by (cases "i = j") (auto simp: dmaOpsBufferFlush_def Let_def)

lemma engine_view_user [simp]: "engine_view (str_buf (upd_user j f s) i) = engine_view (str_buf s i)"
  by (cases "j < length (stream_buffers s)"; cases "i = j")
     (simp_all add: upd_user_def upd_buf_def engine_view_def list_update_beyond)

lemma engine_view_linked: "engine_view b = engine_view b' \<Longrightarrow> linked b = linked b' \<and> completed b = completed b' \<and> queued b = queued b'"
  by (simp add: engine_view_def)

lemma linked_upd_user [simp]: "linked (str_buf (upd_user j f s) i) = linked (str_buf s i)"
  using engine_view_linked [OF engine_view_user] by blast

lemma running_upd_user [simp]: "running (upd_user j f s) = running s"
  by (simp add: running_def)

lemma running_flush: "running (snd (dmaOpsBufferFlush j s)) = running s"
  by (simp add: dmaOpsBufferFlush_def running_def Let_def)

lemma flush_loop_linked:
  "channel_flush_loop o' now j s = Some s' \<Longrightarrow> o' = dma_ops c \<Longrightarrow> running s \<and> linked (str_buf s i) \<Longrightarrow>
   engine_view (str_buf s' i) = engine_view (str_buf s i)"
proof (induction rule: channel_flush_loop.raw_induct [rotated, consumes 1])
  case (1 loop o' now j s s')
  let ?t = "snd (dmaOpsBufferFlush (queue_prev j) s)"
  have t: "engine_view (str_buf ?t i) = engine_view (str_buf s i)" "running ?t"
    using 1 flush_ops_linked [of s i "queue_prev j"] running_flush by auto
  have fl: "buffer_flush (dma_ops c) = dmaOpsBufferFlush"
    by (simp add: dma_ops_def)
  let ?u = "upd_user (queue_prev j) (\<lambda>u. u\<lparr>mFlushTime := now\<rparr>) ?t"
  show ?case
  proof (cases "j = tail_index s \<or> fst (dmaOpsBufferFlush (queue_prev j) s) \<noteq> NTV2_STREAM_OPS_SUCCESS")
    case True
    then show ?thesis
      using 1(2,3) t(1) fl by (auto simp: Let_def case_prod_unfold split: if_splits)
  next
    case False
    then have "loop o' now (queue_prev j) ?u = Some s'"
      using 1(2,3) fl by (simp add: Let_def case_prod_unfold)
    from 1(1) [OF this 1(3)] show ?thesis
      using t 1(4) engine_view_linked [OF t(1)] by simp
  qed
qed

lemma queue_ops_other: "i \<noteq> j \<Longrightarrow> str_buf (snd (dmaOpsBufferQueue j s)) i = str_buf s i"
  by (simp add: dmaOpsBufferQueue_def Let_def case_prod_unfold split: option.split prod.split)

lemma release_ops_linked:
  "running s \<and> linked (str_buf s i) \<and> \<not> completed (str_buf s i) \<Longrightarrow>
   str_buf (snd (dmaOpsBufferRelease j s)) i = str_buf s i"
  by (cases "i = j") (auto simp: dmaOpsBufferRelease_def Let_def)

lemma engine_view_report:
  "engine_view (str_buf (fst (snd (report_buffer j s p))) i) = engine_view (str_buf s i)"
  "engine_view (str_buf (fst (snd (report_channel r st s c))) i) = engine_view (str_buf s i)"
  "str_buf (signal_all s) i = str_buf s i"
  by (simp_all add: report_buffer_def buffer_status_def report_channel_def channel_status_def signal_all_def Let_def)

lemma engine_view_reported:
  "report_channel r st s c = (ret, s', c') \<Longrightarrow> engine_view (str_buf s' i) = engine_view (str_buf s i)"
  using engine_view_report(2) [of r st s c i] by simp



text \<open>Between the start and the first interrupt the engine runs, but its state is still initialized.\<close>

lemma flush_release_one:
  assumes "stream_ok s" "engine_state s = ntv2_stream_state_initialized" "\<not> bad_state s"
    and "head_index s = queue_next (tail_index s)" "\<not> completed (str_buf s (tail_index s))" "owner s = Some own"
  shows "\<exists>r1 s1 p1 r2 s2 p2. ntv2_stream_channel_flush (dma_ops now) True now s p = Some (r1, s1, p1) \<and>
           ntv2_stream_buffer_release (dma_ops now) True own s1 u = (r2, s2, p2) \<and>
           mStatus p2 = NTV2_STREAM_STATUS_SUCCESS \<and> stream_queue s2 = [] \<and> stream_ok s2 \<and>
           stream_state s2 = stream_state s \<and> engine_state s2 = engine_state s \<and> active_index s2 = active_index s \<and>
           head_index s2 = head_index s \<and>
           (dma_engine s2)\<lparr>pageBuffers := pageBuffers (dma_engine s)\<rparr> = dma_engine s"
proof -
  let ?t = "tail_index s" and ?h = "head_index s"
  note idx = stream_okD [OF assms(1)]
  have ne: "?h \<noteq> ?t"
    using assms(4) idx(3) by (auto simp: queue_next_if split: if_splits)
  have ids: "ring_ids ?t ?h = [?t]"
    using ring_ids_Cons [OF idx(3,2)] ne assms(4) by simp
  have tb: "queued (str_buf s ?t)" "\<not> released (str_buf s ?t)"
    using assms(1) ids idx(3) by (auto simp: stream_ok_def)
  have nr: "\<not> running s"
    using assms(2) by (simp add: running_def)
  let ?f = "snd (dmaOpsBufferFlush ?t s)"
  let ?u = "upd_user ?t (\<lambda>u. u\<lparr>mFlushTime := now\<rparr>) ?f"
  have f: "fst (dmaOpsBufferFlush ?t s) = NTV2_STREAM_OPS_SUCCESS" "flushed (str_buf ?f ?t)"
      "queued (str_buf ?f ?t)" "\<not> released (str_buf ?f ?t)" "tail_index ?f = ?t" "head_index ?f = ?h"
      "stream_state ?f = stream_state s" "engine_state ?f = engine_state s" "active_index ?f = active_index s"
      "owner ?f = owner s" "dma_engine ?f = dma_engine s"
    using tb nr assms(5) idx by (auto simp: dmaOpsBufferFlush_def Let_def) (auto simp: upd_buf_def)
  have loop: "channel_flush_loop (dma_ops now) now ?h s = Some ?u"
    using ne f assms(4) idx(3)
    by (subst channel_flush_loop.simps)
       (simp add: dma_ops_def Let_def case_prod_unfold, subst channel_flush_loop.simps, simp)
  obtain s1 where s1: "ntv2_stream_channel_flush (dma_ops now) True now s p =
      Some (0, s1, snd (snd (report_channel STATUS_SUCCESS NTV2_STREAM_STATUS_SUCCESS (signal_all ?u) p)))"
    and s1_def: "s1 = fst (snd (report_channel STATUS_SUCCESS NTV2_STREAM_STATUS_SUCCESS (signal_all ?u) p))"
    using loop ne assms(3) by (simp add: ntv2_stream_channel_flush_def queue_empty_def report_channel_def Let_def case_prod_unfold)
  have s1_sel: "stream_buffers s1 = stream_buffers ?u" "head_index s1 = ?h" "tail_index s1 = ?t" "owner s1 = owner s"
      "stream_state s1 = stream_state s" "engine_state s1 = engine_state s" "active_index s1 = active_index s"
      "dma_engine s1 = dma_engine s"
    using f by (simp_all add: s1_def report_channel_def channel_status_def signal_all_def Let_def)
  have ok1: "stream_ok s1" and q1: "stream_queue s1 = stream_queue s"
    using same_okD [OF channel_flush_keeps [OF assms(1) s1] assms(1)] by simp_all
  have fu: "queued (str_buf ?u ?t)" "flushed (str_buf ?u ?t)" "\<not> released (str_buf ?u ?t)"
    using f engine_view_user [of ?t _ ?f ?t] unfolding engine_view_def by (metis prod.inject)+
  have bs: "\<not> bad_state s1" "\<not> running s1"
    using assms(3) nr s1_sel by (simp_all add: bad_state_def running_def)
  obtain r2 s2 p2 where r2: "ntv2_stream_buffer_release (dma_ops now) True own s1 u = (r2, s2, p2)"
    by (rule prod_cases3)
  have rel: "fst (dmaOpsBufferRelease ?t s1) = NTV2_STREAM_OPS_SUCCESS"
    using bs by (simp add: dmaOpsBufferRelease_def Let_def)
  have res: "mStatus p2 = NTV2_STREAM_STATUS_SUCCESS" "stream_state s2 = stream_state s" "engine_state s2 = engine_state s"
      "active_index s2 = active_index s" "head_index s2 = ?h"
      "(dma_engine s2)\<lparr>pageBuffers := pageBuffers (dma_engine s)\<rparr> = dma_engine s"
    using r2 rel bs fu s1_sel assms(6)
    by (auto simp: ntv2_stream_buffer_release_def dma_ops_def Let_def case_prod_unfold report_buffer_def buffer_status_def
        dmaOpsBufferRelease_def dmaPageRootFree_def dmaSgHost_def upd_page_def split: option.split)
  have "stream_ok s2 \<and> stream_queue s = mBufferCookie p2 # stream_queue s2"
    using dma.buffer_release_step [OF ok1 r2] res(1) q1 by simp
  then have "stream_ok s2" "stream_queue s2 = []"
    using ids by (simp_all add: stream_queue_def)
  then show ?thesis
    using s1 r2 res by blast
qed

text \<open>C29: a stream that was started, but not yet interrupted, lets go of the buffer that the engine runs:
  a flush and a release succeed, and leave the registers and the descriptors of the engine.\<close>

theorem started_buffer_can_be_released:
  assumes "stream_run s q r" and "stream_state s = ntv2_stream_state_active" "engine_state s = ntv2_stream_state_initialized"
    and "head_index s = queue_next (tail_index s)" "\<not> completed (str_buf s (tail_index s))" "owner s = Some own"
  shows "\<exists>r1 s1 p1 r2 s2 p2. ntv2_stream_channel_flush (dma_ops now) True now s p = Some (r1, s1, p1) \<and>
           ntv2_stream_buffer_release (dma_ops now) True own s1 u = (r2, s2, p2) \<and>
           mStatus p2 = NTV2_STREAM_STATUS_SUCCESS \<and> stream_queue s2 = [] \<and>
           stream_state s2 = ntv2_stream_state_active \<and>
           xlnxRegs (dma_engine s2) = xlnxRegs (dma_engine s) \<and>
           pDescriptorVirtual (dma_engine s2) = pDescriptorVirtual (dma_engine s)"
proof -
  have ok: "stream_ok s"
    by (rule run_invD(1) [OF stream_run_inv [OF assms(1)]])
  have "\<not> bad_state s"
    using assms(2) by (simp add: bad_state_def)
  from flush_release_one [OF ok assms(3) this assms(4,5,6), of now p u]
  obtain r1 s1 p1 r2 s2 p2 where fr: "ntv2_stream_channel_flush (dma_ops now) True now s p = Some (r1, s1, p1)"
      "ntv2_stream_buffer_release (dma_ops now) True own s1 u = (r2, s2, p2)" "mStatus p2 = NTV2_STREAM_STATUS_SUCCESS"
      "stream_queue s2 = []" "stream_state s2 = stream_state s"
      and hw: "(dma_engine s2)\<lparr>pageBuffers := pageBuffers (dma_engine s)\<rparr> = dma_engine s"
    by blast
  have "xlnxRegs (dma_engine s2) = xlnxRegs (dma_engine s)" "pDescriptorVirtual (dma_engine s2) = pDescriptorVirtual (dma_engine s)"
    using arg_cong [OF hw, of xlnxRegs] arg_cong [OF hw, of pDescriptorVirtual] by simp_all
  then show ?thesis
    using fr unfolding assms(2) by blast
qed

theorem started_buffer_can_be_released_witness:
  "\<exists>r1 s1 p1 r2 s2 p2. ntv2_stream_channel_flush (dma_ops 3) True 3 example_started zero_user_channel = Some (r1, s1, p1) \<and>
     ntv2_stream_buffer_release (dma_ops 3) True 1 s1 example_buffer = (r2, s2, p2) \<and>
     mStatus p2 = NTV2_STREAM_STATUS_SUCCESS \<and> stream_queue s2 = [] \<and>
     stream_state s2 = ntv2_stream_state_active \<and>
     xlnxRegs (dma_engine s2) = xlnxRegs (dma_engine example_started) \<and>
     pDescriptorVirtual (dma_engine s2) = pDescriptorVirtual (dma_engine example_started)"
  by (rule started_buffer_can_be_released [OF example_run_started])
     (simp_all add: started_sel linked_buffer_def queued_buffer_def zero_buffer_def queue_next_def)

text \<open>C30: an initialised stream whose only buffer was flushed and released starts with success: the
  engine runs, and no buffer of the stream is linked.\<close>

theorem empty_stream_starts:
  assumes "stream_run s q r" and "stream_state s = ntv2_stream_state_initialized" "engine_state s = ntv2_stream_state_initialized"
    and "head_index s = queue_next (tail_index s)" "\<not> completed (str_buf s (tail_index s))" "owner s = Some own"
    and "active_index s = tail_index s" "dmaStream (dma_engine s)"
  shows "\<exists>r1 s1 p1 r2 s2 p2 s3 p3. ntv2_stream_channel_flush (dma_ops now) True now s p = Some (r1, s1, p1) \<and>
           ntv2_stream_buffer_release (dma_ops now) True own s1 u = (r2, s2, p2) \<and> stream_queue s2 = [] \<and>
           ntv2_stream_channel_start (dma_ops now) True s2 p = (STATUS_SUCCESS, s3, p3) \<and>
           mStatus_c p3 = NTV2_STREAM_STATUS_SUCCESS \<and> stream_state s3 = ntv2_stream_state_active \<and>
           stream_buffers s3 = stream_buffers s2 \<and>
           programStartCount (dma_engine s3) = programStartCount (dma_engine s) + 1"
proof -
  have ok: "stream_ok s"
    by (rule run_invD(1) [OF stream_run_inv [OF assms(1)]])
  have "\<not> bad_state s"
    using assms(2) by (simp add: bad_state_def)
  from flush_release_one [OF ok assms(3) this assms(4,5,6), of now p u]
  obtain r1 s1 p1 r2 s2 p2 where fr: "ntv2_stream_channel_flush (dma_ops now) True now s p = Some (r1, s1, p1)"
      "ntv2_stream_buffer_release (dma_ops now) True own s1 u = (r2, s2, p2)"
    and s2: "stream_queue s2 = []" "stream_ok s2" "stream_state s2 = stream_state s" "engine_state s2 = engine_state s"
      "active_index s2 = active_index s" "head_index s2 = head_index s"
      "(dma_engine s2)\<lparr>pageBuffers := pageBuffers (dma_engine s)\<rparr> = dma_engine s"
    by blast
  have hw: "dmaStream (dma_engine s2)" "programStartCount (dma_engine s2) = programStartCount (dma_engine s)"
    using arg_cong [OF s2(7), of dmaStream] arg_cong [OF s2(7), of programStartCount] assms(8) by simp_all
  have ne: "active_index s2 \<noteq> head_index s2"
    using s2(5,6) assms(4,7) stream_okD(3) [OF ok] by (auto simp: queue_next_if split: if_splits)
  have "ring_ids (tail_index s2) (head_index s2) = []"
    using s2(1) by (simp add: stream_queue_def)
  then have nq: "\<not> queued (str_buf s2 (active_index s2))"
    using s2(2) by (simp add: stream_ok_def)
  have st: "fst (dmaXlnxStreamStart now 0 (dma_engine s2)) = 0"
    "programStartCount (snd (dmaXlnxStreamStart now 0 (dma_engine s2))) = programStartCount (dma_engine s) + 1"
    using hw by (simp_all add: dmaXlnxStreamStart_def dmaXlnxDescIndexToPage_def WriteXlnxDmaEngineStart_def
        EnableXlnxDmaInterrupt_def StartXlnxDma_def WriteXlnxRegister_def Let_def)
  have "\<exists>s3 p3. ntv2_stream_channel_start (dma_ops now) True s2 p = (STATUS_SUCCESS, s3, p3) \<and>
           mStatus_c p3 = NTV2_STREAM_STATUS_SUCCESS \<and> stream_state s3 = ntv2_stream_state_active \<and>
           stream_buffers s3 = stream_buffers s2 \<and>
           programStartCount (dma_engine s3) = programStartCount (dma_engine s) + 1"
    using ne nq s2(3,4) assms(2,3) st
    by (simp add: ntv2_stream_channel_start_def channel_first_link_def queue_empty_def bad_state_def dma_ops_def
        dmaOpsStreamStart_def dmaOpsStreamRun_def report_channel_def channel_status_def signal_all_def Let_def case_prod_unfold)
  then show ?thesis
    using fr s2(1) by blast
qed

theorem empty_stream_starts_witness:
  "\<exists>r1 s1 p1 r2 s2 p2 s3 p3. ntv2_stream_channel_flush (dma_ops 3) True 3 example_queued zero_user_channel = Some (r1, s1, p1) \<and>
     ntv2_stream_buffer_release (dma_ops 3) True 1 s1 example_buffer = (r2, s2, p2) \<and> stream_queue s2 = [] \<and>
     ntv2_stream_channel_start (dma_ops 3) True s2 zero_user_channel = (STATUS_SUCCESS, s3, p3) \<and>
     mStatus_c p3 = NTV2_STREAM_STATUS_SUCCESS \<and> stream_state s3 = ntv2_stream_state_active \<and>
     stream_buffers s3 = stream_buffers s2 \<and>
     programStartCount (dma_engine s3) = programStartCount (dma_engine example_queued) + 1"
  by (rule empty_stream_starts [OF example_run_queued])
     (simp_all add: queued_record queued_buffer_def zero_buffer_def queue_next_def queued_engine_def)

section \<open>The end of a wait\<close>

text \<open>A client whose wait timed out gets the same answer as one whose event came, a success: the
  status of the timeout is overwritten.\<close>

theorem wait_timeout_reported_as_success:
  "ntv2_stream_channel_wait down (\<lambda>i t. (False, others i t)) True s p =
     ntv2_stream_channel_wait down (\<lambda>i t. (True, others i t)) True s p \<and>
   mStatus_c (snd (snd (channel_wait_leave i signalled True s p))) = NTV2_STREAM_STATUS_SUCCESS"
  by (simp add: ntv2_stream_channel_wait_def channel_wait_leave_def report_channel_def channel_status_def Let_def
      split: sum.split prod.split)

end
