(* ===== verification/Ntv2TimecodeTheorems.thy ===== *)
theory Ntv2TimecodeTheorems
  imports Ntv2Rp188
begin

text \<open>
  The properties of the timecode and status copies of driver/ntv2rp188.c.
\<close>

section \<open>The timecode array\<close>

lemma rp188_round_trip:
  "RP188_STRUCT_from_NTV2_RP188 (NTV2_RP188_from_RP188_STRUCT x) = x"
  by (simp add: RP188_STRUCT_from_NTV2_RP188_def NTV2_RP188_from_RP188_STRUCT_def)

lemma rp188_invalid:
  "\<not> NTV2_RP188_IS_VALID (NTV2_RP188_from_RP188_STRUCT x) \<Longrightarrow> x = ones_RP188_STRUCT"
  by (cases x) (simp add: NTV2_RP188_IS_VALID_def NTV2_RP188_from_RP188_STRUCT_def ones_RP188_STRUCT_def)

lemma rp188_copy:
  "(if NTV2_RP188_IS_VALID (NTV2_RP188_from_RP188_STRUCT x)
    then RP188_STRUCT_from_NTV2_RP188 (NTV2_RP188_from_RP188_STRUCT x) else ones_RP188_STRUCT) = x"
  using rp188_invalid [of x] by (auto simp: rp188_round_trip)

text \<open>A conditional store into a field.\<close>

lemma cond_update:
  fixes t :: INTERNAL_TIMECODE_STRUCT
  shows
  "(if b then t\<lparr>TCInOut1 := v\<rparr> else t) = t\<lparr>TCInOut1 := if b then v else TCInOut1 t\<rparr>"
  "(if b then t\<lparr>TCInOut2 := v\<rparr> else t) = t\<lparr>TCInOut2 := if b then v else TCInOut2 t\<rparr>"
  "(if b then t\<lparr>TCInOut3 := v\<rparr> else t) = t\<lparr>TCInOut3 := if b then v else TCInOut3 t\<rparr>"
  "(if b then t\<lparr>TCInOut4 := v\<rparr> else t) = t\<lparr>TCInOut4 := if b then v else TCInOut4 t\<rparr>"
  "(if b then t\<lparr>TCInOut5 := v\<rparr> else t) = t\<lparr>TCInOut5 := if b then v else TCInOut5 t\<rparr>"
  "(if b then t\<lparr>TCInOut6 := v\<rparr> else t) = t\<lparr>TCInOut6 := if b then v else TCInOut6 t\<rparr>"
  "(if b then t\<lparr>TCInOut7 := v\<rparr> else t) = t\<lparr>TCInOut7 := if b then v else TCInOut7 t\<rparr>"
  "(if b then t\<lparr>TCInOut8 := v\<rparr> else t) = t\<lparr>TCInOut8 := if b then v else TCInOut8 t\<rparr>"
  "(if b then t\<lparr>TCInOut1_2 := v\<rparr> else t) = t\<lparr>TCInOut1_2 := if b then v else TCInOut1_2 t\<rparr>"
  "(if b then t\<lparr>TCInOut2_2 := v\<rparr> else t) = t\<lparr>TCInOut2_2 := if b then v else TCInOut2_2 t\<rparr>"
  "(if b then t\<lparr>TCInOut3_2 := v\<rparr> else t) = t\<lparr>TCInOut3_2 := if b then v else TCInOut3_2 t\<rparr>"
  "(if b then t\<lparr>TCInOut4_2 := v\<rparr> else t) = t\<lparr>TCInOut4_2 := if b then v else TCInOut4_2 t\<rparr>"
  "(if b then t\<lparr>TCInOut5_2 := v\<rparr> else t) = t\<lparr>TCInOut5_2 := if b then v else TCInOut5_2 t\<rparr>"
  "(if b then t\<lparr>TCInOut6_2 := v\<rparr> else t) = t\<lparr>TCInOut6_2 := if b then v else TCInOut6_2 t\<rparr>"
  "(if b then t\<lparr>TCInOut7_2 := v\<rparr> else t) = t\<lparr>TCInOut7_2 := if b then v else TCInOut7_2 t\<rparr>"
  "(if b then t\<lparr>TCInOut8_2 := v\<rparr> else t) = t\<lparr>TCInOut8_2 := if b then v else TCInOut8_2 t\<rparr>"
  "(if b then t\<lparr>LTCEmbedded1 := v\<rparr> else t) = t\<lparr>LTCEmbedded1 := if b then v else LTCEmbedded1 t\<rparr>"
  "(if b then t\<lparr>LTCEmbedded2 := v\<rparr> else t) = t\<lparr>LTCEmbedded2 := if b then v else LTCEmbedded2 t\<rparr>"
  "(if b then t\<lparr>LTCEmbedded3 := v\<rparr> else t) = t\<lparr>LTCEmbedded3 := if b then v else LTCEmbedded3 t\<rparr>"
  "(if b then t\<lparr>LTCEmbedded4 := v\<rparr> else t) = t\<lparr>LTCEmbedded4 := if b then v else LTCEmbedded4 t\<rparr>"
  "(if b then t\<lparr>LTCEmbedded5 := v\<rparr> else t) = t\<lparr>LTCEmbedded5 := if b then v else LTCEmbedded5 t\<rparr>"
  "(if b then t\<lparr>LTCEmbedded6 := v\<rparr> else t) = t\<lparr>LTCEmbedded6 := if b then v else LTCEmbedded6 t\<rparr>"
  "(if b then t\<lparr>LTCEmbedded7 := v\<rparr> else t) = t\<lparr>LTCEmbedded7 := if b then v else LTCEmbedded7 t\<rparr>"
  "(if b then t\<lparr>LTCEmbedded8 := v\<rparr> else t) = t\<lparr>LTCEmbedded8 := if b then v else LTCEmbedded8 t\<rparr>"
  "(if b then t\<lparr>LTCAnalog1 := v\<rparr> else t) = t\<lparr>LTCAnalog1 := if b then v else LTCAnalog1 t\<rparr>"
  "(if b then t\<lparr>LTCAnalog2 := v\<rparr> else t) = t\<lparr>LTCAnalog2 := if b then v else LTCAnalog2 t\<rparr>"
  by simp_all

text \<open>C38: the timecodes of a frame survive the way out to the application's array and back: all 26
  timecodes of the frame stamp are restored, invalid ones included.\<close>

theorem timecode_array_round_trip:
  assumes "27 \<le> length xs" and "27 \<le> inMaxBytes div 12"
  shows "fst (CopyFrameStampTCArrayToNTV2TimeCodeArray tc xs inMaxBytes) \<and>
    CopyNTV2TimeCodeArrayToFrameStampTCArray old (snd (CopyFrameStampTCArrayToNTV2TimeCodeArray tc xs inMaxBytes)) inMaxBytes = (True, tc)"
proof -
  have ne: "xs \<noteq> []" "inMaxBytes div 12 \<noteq> 0" "\<not> inMaxBytes div 12 < 27"
    using assms by (auto simp: word_le_nat_alt word_less_nat_alt)
  define ys where "ys = snd (CopyFrameStampTCArrayToNTV2TimeCodeArray tc xs inMaxBytes)"
  have ys: "ys \<noteq> []"
    using ne assms(1) by (simp add: ys_def CopyFrameStampTCArrayToNTV2TimeCodeArray_def Let_def)
  have tbls: "tbl ys (unat (1::u32)) = NTV2_RP188_from_RP188_STRUCT (TCInOut1 tc)" "tbl ys (unat (2::u32)) = NTV2_RP188_from_RP188_STRUCT (TCInOut2 tc)"
    "tbl ys (unat (3::u32)) = NTV2_RP188_from_RP188_STRUCT (TCInOut3 tc)" "tbl ys (unat (4::u32)) = NTV2_RP188_from_RP188_STRUCT (TCInOut4 tc)"
    "tbl ys (unat (9::u32)) = NTV2_RP188_from_RP188_STRUCT (TCInOut5 tc)" "tbl ys (unat (10::u32)) = NTV2_RP188_from_RP188_STRUCT (TCInOut6 tc)"
    "tbl ys (unat (11::u32)) = NTV2_RP188_from_RP188_STRUCT (TCInOut7 tc)" "tbl ys (unat (12::u32)) = NTV2_RP188_from_RP188_STRUCT (TCInOut8 tc)"
    "tbl ys (unat (19::u32)) = NTV2_RP188_from_RP188_STRUCT (TCInOut1_2 tc)" "tbl ys (unat (20::u32)) = NTV2_RP188_from_RP188_STRUCT (TCInOut2_2 tc)"
    "tbl ys (unat (21::u32)) = NTV2_RP188_from_RP188_STRUCT (TCInOut3_2 tc)" "tbl ys (unat (22::u32)) = NTV2_RP188_from_RP188_STRUCT (TCInOut4_2 tc)"
    "tbl ys (unat (23::u32)) = NTV2_RP188_from_RP188_STRUCT (TCInOut5_2 tc)" "tbl ys (unat (24::u32)) = NTV2_RP188_from_RP188_STRUCT (TCInOut6_2 tc)"
    "tbl ys (unat (25::u32)) = NTV2_RP188_from_RP188_STRUCT (TCInOut7_2 tc)" "tbl ys (unat (26::u32)) = NTV2_RP188_from_RP188_STRUCT (TCInOut8_2 tc)"
    "tbl ys (unat (5::u32)) = NTV2_RP188_from_RP188_STRUCT (LTCEmbedded1 tc)" "tbl ys (unat (6::u32)) = NTV2_RP188_from_RP188_STRUCT (LTCEmbedded2 tc)"
    "tbl ys (unat (13::u32)) = NTV2_RP188_from_RP188_STRUCT (LTCEmbedded3 tc)" "tbl ys (unat (14::u32)) = NTV2_RP188_from_RP188_STRUCT (LTCEmbedded4 tc)"
    "tbl ys (unat (15::u32)) = NTV2_RP188_from_RP188_STRUCT (LTCEmbedded5 tc)" "tbl ys (unat (16::u32)) = NTV2_RP188_from_RP188_STRUCT (LTCEmbedded6 tc)"
    "tbl ys (unat (17::u32)) = NTV2_RP188_from_RP188_STRUCT (LTCEmbedded7 tc)" "tbl ys (unat (18::u32)) = NTV2_RP188_from_RP188_STRUCT (LTCEmbedded8 tc)"
    "tbl ys (unat (7::u32)) = NTV2_RP188_from_RP188_STRUCT (LTCAnalog1 tc)" "tbl ys (unat (8::u32)) = NTV2_RP188_from_RP188_STRUCT (LTCAnalog2 tc)"
    using ne assms(1) by (simp_all add: ys_def CopyFrameStampTCArrayToNTV2TimeCodeArray_def Let_def)
  have ok: "fst (CopyFrameStampTCArrayToNTV2TimeCodeArray tc xs inMaxBytes)"
    using ne by (simp add: CopyFrameStampTCArrayToNTV2TimeCodeArray_def Let_def)
  have "CopyNTV2TimeCodeArrayToFrameStampTCArray old ys inMaxBytes = (True, tc)"
    using ne ys
    unfolding CopyNTV2TimeCodeArrayToFrameStampTCArray_def ClearFrameStampTCArray_def
    by (simp only: if_False if_True simp_thms ne tbls cond_update,
        simp only: rp188_copy Let_def INTERNAL_TIMECODE_STRUCT.simps ones_INTERNAL_TIMECODE_STRUCT_def cong: let_weak_cong,
        simp)
  then show ?thesis using ok by (simp add: ys_def)
qed

theorem timecode_array_round_trip_witness:
  "snd (CopyNTV2TimeCodeArrayToFrameStampTCArray zero_INTERNAL_TIMECODE_STRUCT
      (snd (CopyFrameStampTCArrayToNTV2TimeCodeArray ones_INTERNAL_TIMECODE_STRUCT
         (replicate 27 (NTV2_RP188_from_RP188_STRUCT zero_RP188_STRUCT)) 324)) 324) = ones_INTERNAL_TIMECODE_STRUCT"
  using timecode_array_round_trip [of "replicate 27 (NTV2_RP188_from_RP188_STRUCT zero_RP188_STRUCT)" 324
      ones_INTERNAL_TIMECODE_STRUCT zero_INTERNAL_TIMECODE_STRUCT]
  by (simp del: replicate.simps)

section \<open>The status of the SDI inputs\<close>

text \<open>
  The unlock count of an input is read first, the two CRC counts after it: the 32-bit store of
  the second one overwrites the unlock count.
\<close>

lemma unlock_tally_lost:
  fixes count crcA crcB :: u32
  shows "mUnlockTally (store_CRCTallyB (store_CRCTallyA (x\<lparr>mUnlockTally := count AND kRegMaskSDIInUnlockCount\<rparr>) crcA)
    (drop_bit kRegShiftSDIInCRCErrorCountB (crcB AND kRegMaskSDIInCRCErrorCountB))) = 0"
proof -
  have "(count AND 0xFFFF) AND 0xFFFF0000 = 0" by (simp add: and.assoc)
  moreover have "drop_bit 16 (drop_bit 16 (crcB AND 0xFFFF0000)) = 0"
    by (intro bit_word_eqI) (simp add: bit_simps)
  ultimately show ?thesis by (simp add: store_CRCTallyA_def store_CRCTallyB_def)
qed

end
