(* ===== verification/Ntv2VideoTheorems.thy ===== *)
theory Ntv2VideoTheorems
  imports Ntv2Video Ntv2KonaTheorems Ntv2Example
begin

text \<open>
  The properties of the look-up tables of driver/ntv2video.c: the bank selects of the eight
  tables, and the linear table.
\<close>

section \<open>The bank selects\<close>

lemma bit_field: "s < 32 \<Longrightarrow> reg_field (2 ^ s) s 1"
  by unfold_locales (simp_all add: fld_mask_def)

lemma bit_fields_disjoint: "s \<noteq> t \<Longrightarrow> 2 ^ s AND 2 ^ t = (0 :: u32)"
  by (intro bit_word_eqI) (auto simp: bit_simps)

lemma bit_field_access:
  assumes "s < 32" and "b < (2 :: u32)"
  shows "ntv2ReadRegisterMS (ntv2WriteRegisterMS r n b (2 ^ s) s) n (2 ^ t) t =
    (if t = s then b else ntv2ReadRegisterMS r n (2 ^ t) t)"
proof -
  have b: "unat b < 2 ^ 1" using assms(2) by (simp add: word_less_nat_alt)
  show ?thesis
    using reg_field.read_write_fits [OF bit_field [OF assms(1)] b]
      reg_field.write_other_field [OF bit_field [OF assms(1)] b bit_fields_disjoint [of t s]]
    by simp
qed

lemma host_bank_get:
  assumes "c < 8"
  shows "GetLUTV2HostAccessBank r c = ntv2ReadRegisterMS r kRegLUTV2Control (2 ^ (8 + c)) (8 + c) + 2 * of_nat c"
  using channel_cases [OF assms] by (auto simp: GetLUTV2HostAccessBank_def)

lemma host_bank_set:
  assumes "c < 8" and "b < (2 :: u32)" and "NTV2DeviceGetNumLUTs F (r kRegBoardID) = 8"
  shows "SetLUTV2HostAccessBank F r (2 * of_nat c + b) = ntv2WriteRegisterMS r kRegLUTV2Control b (2 ^ (8 + c)) (8 + c)"
proof -
  have "unat b < 2" using assms(2) by (simp add: word_less_nat_alt)
  then have "b \<in> {0, 1}" using less_2_cases [of "unat b"] by (simp add: word_unat_eq_iff)
  then show ?thesis
    using channel_cases [OF assms(1)] assms(3)
    by (elim insertE emptyE) (simp_all add: SetLUTV2HostAccessBank_def ntv2ReadRegister_eq)
qed

lemma output_bank_get:
  assumes "c < 8" and "NTV2DeviceGetNumLUTs F (r kRegBoardID) = 8"
  shows "GetLUTV2OutputBank F r c = ntv2ReadRegisterMS r kRegLUTV2Control (2 ^ (16 + c)) (16 + c)"
  using channel_cases [OF assms(1)] assms(2) by (auto simp: GetLUTV2OutputBank_def ntv2ReadRegister_eq)

lemma output_bank_set:
  assumes "c < 8" and "NTV2DeviceGetNumLUTs F (r kRegBoardID) = 8"
  shows "SetLUTV2OutputBank F r c b = ntv2WriteRegisterMS r kRegLUTV2Control b (2 ^ (16 + c)) (16 + c)"
  using channel_cases [OF assms(1)] assms(2) by (auto simp: SetLUTV2OutputBank_def ntv2ReadRegister_eq)

text \<open>On a device with eight tables the host bank and the output bank of a channel are read back as
  set, and setting one of them changes no other bank of any channel.\<close>

theorem lut_banks_independent:
  assumes "c < 8" and "d < 8" and "b < 2" and "NTV2DeviceGetNumLUTs F (r kRegBoardID) = 8"
  shows "(let r' = SetLUTV2HostAccessBank F r (2 * of_nat c + b)
     in GetLUTV2HostAccessBank r' d = (if d = c then 2 * of_nat c + b else GetLUTV2HostAccessBank r d) \<and>
        GetLUTV2OutputBank F r' d = GetLUTV2OutputBank F r d) \<and>
    (let r' = SetLUTV2OutputBank F r c b
     in GetLUTV2OutputBank F r' d = (if d = c then b else GetLUTV2OutputBank F r d) \<and>
        GetLUTV2HostAccessBank r' d = GetLUTV2HostAccessBank r d)"
  using assms
  by (simp add: Let_def host_bank_set host_bank_get output_bank_set output_bank_get bit_field_access)

theorem lut_banks_independent_witness:
  "GetLUTV2HostAccessBank
     (SetLUTV2HostAccessBank (example_features\<lparr>NTV2DeviceGetNumLUTs := \<lambda>_. 8\<rparr>) (\<lambda>_. 0) NTV2_CCHOSTACCESS_CH3BANK1) 2 =
   NTV2_CCHOSTACCESS_CH3BANK1"
  using lut_banks_independent [of 2 2 1 "example_features\<lparr>NTV2DeviceGetNumLUTs := \<lambda>_. 8\<rparr>" "\<lambda>_. 0"]
  by (simp add: Let_def)

lemma and_exp: "x AND 2 ^ s = (if bit x s then 2 ^ s else (0 :: u32))"
  by (intro bit_word_eqI) (auto simp: bit_simps)

lemmas and_bank_masks = and_exp [of _ 8, simplified] and_exp [of _ 9, simplified] and_exp [of _ 10, simplified]
  and_exp [of _ 11, simplified] and_exp [of _ 12, simplified] and_exp [of _ 13, simplified]
  and_exp [of _ 14, simplified] and_exp [of _ 15, simplified]



section \<open>The linear table\<close>

definition linear_entry :: "nat \<Rightarrow> u32" where
  "linear_entry k = push_bit 22 (of_nat (2 * k + 1)) + push_bit 6 (of_nat (2 * k))"

lemma lut_register:
  assumes "m < 512" and "t \<in> {512, 1024, 1536 :: u32}"
  shows "n = t + of_nat m \<longleftrightarrow> unat n = unat t + m"
proof -
  have "unat (of_nat m :: u32) = m" using assms(1) by (simp add: unat_of_nat take_bit_eq_mod)
  then have "unat (t + of_nat m) = unat t + m"
    using assms by (subst unat_add_lem [THEN iffD1]) auto
  then show ?thesis by (metis word_unat_eq_iff)
qed

lemma table_index:
  fixes N m :: nat
  assumes "m < 512"
  shows "N = 512 + m \<or> N = 1024 + m \<or> N = 1536 + m \<longleftrightarrow> 512 \<le> N \<and> N < 2048 \<and> N mod 512 = m"
proof
  assume N: "512 \<le> N \<and> N < 2048 \<and> N mod 512 = m"
  then have "N div 512 < 4" and "512 div 512 \<le> N div 512"
    by (auto simp: less_mult_imp_div_less intro: div_le_mono)
  then have "N div 512 \<in> {1, 2, 3}" by auto
  moreover have "N = 512 * (N div 512) + m" using N mult_div_mod_eq [of 512 N] by simp
  ultimately show "N = 512 + m \<or> N = 1024 + m \<or> N = 1536 + m" by auto
qed (use assms mod_mult_self1 [of m 2 512] mod_mult_self1 [of m 3 512] in \<open>auto simp: add.commute\<close>)

lemma lut_fold:
  fixes r :: regs
  shows "m \<le> 512 \<Longrightarrow>
   fold (\<lambda>k r. r(512 + of_nat k := linear_entry k, 1024 + of_nat k := linear_entry k, 1536 + of_nat k := linear_entry k)) [0 ..< m] r n =
     (if 512 \<le> unat n \<and> unat n < 2048 \<and> unat n mod 512 < m then linear_entry (unat n mod 512) else r n)"
proof (induction m)
  case (Suc m)
  then have m: "m < 512" by simp
  have "n = 512 + of_nat m \<or> n = 1024 + of_nat m \<or> n = 1536 + of_nat m \<longleftrightarrow>
      512 \<le> unat n \<and> unat n < 2048 \<and> unat n mod 512 = m"
    using lut_register [OF m, of 512 n] lut_register [OF m, of 1024 n] lut_register [OF m, of 1536 n] m
    by (simp add: table_index)
  then show ?case using Suc by (auto simp: less_Suc_eq)
qed simp

text \<open>The linear download sets every register of the three tables, and no other: the register \<open>k\<close> of
  a table holds the output values of the inputs \<open>2 k\<close> and \<open>2 k + 1\<close>, which are these numbers
  themselves.\<close>

theorem linear_lut_is_identity:
  "LoadLUTValues r n =
    (if unat (kColorCorrectionLUTOffset_Red div 4) \<le> unat n \<and> unat n < unat (kColorCorrectionLUTOffset_Blue div 4) + 512
     then let k = unat n mod 512 in push_bit 22 (of_nat (2 * k + 1)) + push_bit 6 (of_nat (2 * k))
     else r n)"
proof -
  have "LoadLUTValues r =
      fold (\<lambda>k r. r(512 + of_nat k := linear_entry k, 1024 + of_nat k := linear_entry k, 1536 + of_nat k := linear_entry k)) [0 ..< 512] r"
    by (simp add: LoadLUTValues_def fold_map o_def ntv2WriteRegister_eq linear_entry_def Let_def)
  then show ?thesis
    using lut_fold [of 512 r n] by (simp add: linear_entry_def Let_def)
qed

end
