(* ===== verification/Ntv2Xpt.thy ===== *)
theory Ntv2Xpt
  imports Ntv2Kona
begin

text \<open>
  The signal routing of driver/ntv2xpt.c: the crosspoint select registers and the search for
  the source of an output, which follows the selects back through the back-trace table for at
  most ten hops. The result pointers are never null at the calls modelled.
\<close>

definition gChannelToSDIOutInSelectRegNum :: "u32 list" where
  "gChannelToSDIOutInSelectRegNum =
   [kRegXptSelectGroup3, kRegXptSelectGroup3, kRegXptSelectGroup8, kRegXptSelectGroup8,
    kRegXptSelectGroup8, kRegXptSelectGroup22, kRegXptSelectGroup22, kRegXptSelectGroup30, 0]"

definition gChannelToSDIOutInSelectMask :: "u32 list" where
  "gChannelToSDIOutInSelectMask =
   [kK2RegMaskSDIOut1InputSelect, kK2RegMaskSDIOut2InputSelect, kK2RegMaskSDIOut3InputSelect,
    kK2RegMaskSDIOut4InputSelect, kK2RegMaskSDIOut5InputSelect, kK2RegMaskSDIOut6InputSelect,
    kK2RegMaskSDIOut7InputSelect, kK2RegMaskSDIOut8InputSelect, 0]"

definition gChannelToSDIOutInSelectShift :: "nat list" where
  "gChannelToSDIOutInSelectShift =
   [kK2RegShiftSDIOut1InputSelect, kK2RegShiftSDIOut2InputSelect, kK2RegShiftSDIOut3InputSelect,
    kK2RegShiftSDIOut4InputSelect, kK2RegShiftSDIOut5InputSelect, kK2RegShiftSDIOut6InputSelect,
    kK2RegShiftSDIOut7InputSelect, kK2RegShiftSDIOut8InputSelect, 0]"

definition gChannelToSDIOutDS2InSelectRegNum :: "u32 list" where
  "gChannelToSDIOutDS2InSelectRegNum =
   [kRegXptSelectGroup10, kRegXptSelectGroup10, kRegXptSelectGroup14, kRegXptSelectGroup14,
    kRegXptSelectGroup14, kRegXptSelectGroup22, kRegXptSelectGroup22, kRegXptSelectGroup30, 0]"

definition gChannelToSDIOutDS2InSelectMask :: "u32 list" where
  "gChannelToSDIOutDS2InSelectMask =
   [kK2RegMaskSDIOut1DS2InputSelect, kK2RegMaskSDIOut2DS2InputSelect,
    kK2RegMaskSDIOut3DS2InputSelect, kK2RegMaskSDIOut4DS2InputSelect,
    kK2RegMaskSDIOut5DS2InputSelect, kK2RegMaskSDIOut6DS2InputSelect,
    kK2RegMaskSDIOut7DS2InputSelect, kK2RegMaskSDIOut8DS2InputSelect, 0]"

definition gChannelToSDIOutDS2InSelectShift :: "nat list" where
  "gChannelToSDIOutDS2InSelectShift =
   [kK2RegShiftSDIOut1DS2InputSelect, kK2RegShiftSDIOut2DS2InputSelect,
    kK2RegShiftSDIOut3DS2InputSelect, kK2RegShiftSDIOut4DS2InputSelect,
    kK2RegShiftSDIOut5DS2InputSelect, kK2RegShiftSDIOut6DS2InputSelect,
    kK2RegShiftSDIOut7DS2InputSelect, kK2RegShiftSDIOut8DS2InputSelect, 0]"

definition gChannelToDLInInputSelectRegNum :: "u32 list" where
  "gChannelToDLInInputSelectRegNum =
   [kRegXptSelectGroup11, kRegXptSelectGroup11, kRegXptSelectGroup15, kRegXptSelectGroup15,
    kRegXptSelectGroup25, kRegXptSelectGroup25, kRegXptSelectGroup26, kRegXptSelectGroup26, 0]"

definition gChannelToDLInInputSelectMask :: "u32 list" where
  "gChannelToDLInInputSelectMask =
   [kK2RegMaskDuallinkIn1InputSelect, kK2RegMaskDuallinkIn2InputSelect,
    kK2RegMaskDuallinkIn3InputSelect, kK2RegMaskDuallinkIn4InputSelect,
    kK2RegMaskDuallinkIn5InputSelect, kK2RegMaskDuallinkIn6InputSelect,
    kK2RegMaskDuallinkIn7InputSelect, kK2RegMaskDuallinkIn8InputSelect, 0]"

definition gChannelToDLInInputSelectShift :: "nat list" where
  "gChannelToDLInInputSelectShift =
   [kK2RegShiftDuallinkIn1InputSelect, kK2RegShiftDuallinkIn2InputSelect,
    kK2RegShiftDuallinkIn3InputSelect, kK2RegShiftDuallinkIn4InputSelect,
    kK2RegShiftDuallinkIn5InputSelect, kK2RegShiftDuallinkIn6InputSelect,
    kK2RegShiftDuallinkIn7InputSelect, kK2RegShiftDuallinkIn8InputSelect, 0]"

text \<open>
  An entry of the back-trace table: the register, the mask and the shift of the crosspoint
  select that feeds an output. The table has 264 rows; its two halves are two constants.
\<close>

type_synonym NTV2XptLookupEntry = "u32 \<times> u32 \<times> nat"

definition NTV2XptBackTraceTable_lo :: "NTV2XptLookupEntry list" where
  "NTV2XptBackTraceTable_lo =
   [(0, 0, 0),
    (XPT_SDI_IN_1, 0, 0),
    (XPT_SDI_IN_2, 0, 0),
    (0, 0, 0),
    (kRegXptSelectGroup1, kK2RegMaskXptLUTInputSelect, kK2RegShiftXptLUTInputSelect),
    (kRegXptSelectGroup1, kK2RegMaskColorSpaceConverterInputSelect, kK2RegShiftColorSpaceConverterInputSelect),
    (kRegXptSelectGroup1, kK2RegMaskConversionModInputSelect, kK2RegShiftConversionModInputSelect),
    (kRegXptSelectGroup1, kK2RegMaskCompressionModInputSelect, kK2RegShiftCompressionModInputSelect),
    (XPT_FB_YUV_1, 0, 0),
    (kRegXptSelectGroup2, kK2RegMaskFrameSync1InputSelect, kK2RegShiftFrameSync1InputSelect),
    (kRegXptSelectGroup2, kK2RegMaskFrameSync2InputSelect, kK2RegShiftFrameSync2InputSelect),
    (kRegXptSelectGroup2, kK2RegMaskDuallinkOutInputSelect, kK2RegShiftDuallinkOutInputSelect),
    (0, 0, 0),
    (0, 0, 0),
    (kRegXptSelectGroup1, kK2RegMaskColorSpaceConverterInputSelect, kK2RegShiftColorSpaceConverterInputSelect),
    (XPT_FB_YUV_2, 0, 0),
    (kRegXptSelectGroup5, kK2RegMaskCSC2VidInputSelect, kK2RegShiftCSC2VidInputSelect),
    (kRegXptSelectGroup5, kK2RegMaskCSC2VidInputSelect, kK2RegShiftCSC2VidInputSelect),
    (kRegXptSelectGroup4, kK2RegMaskMixerFGVidInputSelect, kK2RegShiftMixerFGVidInputSelect),
    (kRegXptSelectGroup4, kK2RegMaskMixerFGKeyInputSelect, kK2RegShiftMixerFGKeyInputSelect),
    (kRegXptSelectGroup36, kK2RegMaskMultiLinkOutInputSelect, kK2RegShiftMultiLinkOutInputSelect),
    (kRegXptSelectGroup36, kK2RegMaskMultiLinkOutInputSelect, kK2RegShiftMultiLinkOutInputSelect),
    (XPT_ANALOG_IN, 0, 0),
    (XPT_HDMI_IN, 0, 0),
    (kRegXptSelectGroup36, kK2RegMaskMultiLinkOutInputSelect, kK2RegShiftMultiLinkOutInputSelect),
    (kRegXptSelectGroup36, kK2RegMaskMultiLinkOutInputSelect, kK2RegShiftMultiLinkOutInputSelect),
    (kRegXptSelectGroup37, kK2RegMaskMultiLinkOutInputSelect, kK2RegShiftMultiLinkOutInputSelect),
    (kRegXptSelectGroup37, kK2RegMaskMultiLinkOutInputSelect, kK2RegShiftMultiLinkOutInputSelect),
    (kRegXptSelectGroup7, kK2RegMaskDuallinkOut2InputSelect, kK2RegShiftDuallinkOut2InputSelect),
    (0, 0, 0),
    (XPT_SDI_IN_1_DS2, 0, 0),
    (XPT_SDI_IN_2_DS2, 0, 0),
    (kRegXptSelectGroup9, kK2RegMaskMixer2FGVidInputSelect, kK2RegShiftMixer2FGVidInputSelect),
    (kRegXptSelectGroup9, kK2RegMaskMixer2FGKeyInputSelect, kK2RegShiftMixer2FGKeyInputSelect),
    (0, 0, 0),
    (0, 0, 0),
    (XPT_FB_YUV_3, 0, 0),
    (XPT_FB_YUV_4, 0, 0),
    (kRegXptSelectGroup2, kK2RegMaskDuallinkOutInputSelect, kK2RegShiftDuallinkOutInputSelect),
    (kRegXptSelectGroup7, kK2RegMaskDuallinkOut2InputSelect, kK2RegShiftDuallinkOut2InputSelect),
    (0, 0, 0),
    (0, 0, 0),
    (0, 0, 0),
    (0, 0, 0),
    (kRegXptSelectGroup18, kK2RegMaskCSC5VidInputSelect, kK2RegShiftCSC5VidInputSelect),
    (kRegXptSelectGroup18, kK2RegMaskCSC5VidInputSelect, kK2RegShiftCSC5VidInputSelect),
    (kRegXptSelectGroup37, kK2RegMaskMultiLinkOutInputSelect, kK2RegShiftMultiLinkOutInputSelect),
    (kRegXptSelectGroup37, kK2RegMaskMultiLinkOutInputSelect, kK2RegShiftMultiLinkOutInputSelect),
    (XPT_SDI_IN_3, 0, 0),
    (XPT_SDI_IN_4, 0, 0),
    (XPT_SDI_IN_3_DS2, 0, 0),
    (XPT_SDI_IN_4_DS2, 0, 0),
    (0, 0, 0),
    (0, 0, 0),
    (kRegXptSelectGroup16, kK2RegMaskDuallinkOut3InputSelect, kK2RegShiftDuallinkOut3InputSelect),
    (kRegXptSelectGroup16, kK2RegMaskDuallinkOut3InputSelect, kK2RegShiftDuallinkOut3InputSelect),
    (kRegXptSelectGroup16, kK2RegMaskDuallinkOut4InputSelect, kK2RegShiftDuallinkOut4InputSelect),
    (kRegXptSelectGroup16, kK2RegMaskDuallinkOut4InputSelect, kK2RegShiftDuallinkOut4InputSelect),
    (kRegXptSelectGroup17, kK2RegMaskCSC3VidInputSelect, kK2RegShiftCSC3VidInputSelect),
    (kRegXptSelectGroup17, kK2RegMaskCSC3VidInputSelect, kK2RegShiftCSC3VidInputSelect),
    (kRegXptSelectGroup17, kK2RegMaskCSC4VidInputSelect, kK2RegShiftCSC4VidInputSelect),
    (kRegXptSelectGroup17, kK2RegMaskCSC4VidInputSelect, kK2RegShiftCSC4VidInputSelect),
    (kRegXptSelectGroup16, kK2RegMaskDuallinkOut5InputSelect, kK2RegShiftDuallinkOut5InputSelect),
    (kRegXptSelectGroup16, kK2RegMaskDuallinkOut5InputSelect, kK2RegShiftDuallinkOut5InputSelect),
    (kRegXptSelectGroup12, kK2RegMaskXpt3DLUT1InputSelect, kK2RegShiftXpt3DLUT1InputSelect),
    (XPT_HDMI_IN_Q2, 0, 0),
    (XPT_HDMI_IN_Q3, 0, 0),
    (XPT_HDMI_IN_Q4, 0, 0),
    (kRegXptSelectGroup19, kK2RegMask4KDCQ1InputSelect, kK2RegShift4KDCQ1InputSelect),
    (XPT_SDI_IN_5, 0, 0),
    (XPT_SDI_IN_6, 0, 0),
    (XPT_SDI_IN_5_DS2, 0, 0),
    (XPT_SDI_IN_6_DS2, 0, 0),
    (XPT_SDI_IN_7, 0, 0),
    (XPT_SDI_IN_8, 0, 0),
    (XPT_SDI_IN_7_DS2, 0, 0),
    (XPT_SDI_IN_8_DS2, 0, 0),
    (0, 0, 0),
    (0, 0, 0),
    (0, 0, 0),
    (0, 0, 0),
    (XPT_FB_YUV_5, 0, 0),
    (XPT_FB_YUV_6, 0, 0),
    (XPT_FB_YUV_7, 0, 0),
    (XPT_FB_YUV_8, 0, 0),
    (kRegXptSelectGroup28, kK2RegMaskMixer3FGVidInputSelect, kK2RegShiftMixer3FGVidInputSelect),
    (kRegXptSelectGroup28, kK2RegMaskMixer3FGKeyInputSelect, kK2RegShiftMixer3FGKeyInputSelect),
    (kRegXptSelectGroup29, kK2RegMaskMixer4FGVidInputSelect, kK2RegShiftMixer4FGVidInputSelect),
    (kRegXptSelectGroup29, kK2RegMaskMixer4FGKeyInputSelect, kK2RegShiftMixer4FGKeyInputSelect),
    (kRegXptSelectGroup30, kK2RegMaskCSC6VidInputSelect, kK2RegShiftCSC6VidInputSelect),
    (kRegXptSelectGroup30, kK2RegMaskCSC6VidInputSelect, kK2RegShiftCSC6VidInputSelect),
    (kRegXptSelectGroup23, kK2RegMaskCSC7VidInputSelect, kK2RegShiftCSC7VidInputSelect),
    (kRegXptSelectGroup23, kK2RegMaskCSC7VidInputSelect, kK2RegShiftCSC7VidInputSelect),
    (kRegXptSelectGroup23, kK2RegMaskCSC8VidInputSelect, kK2RegShiftCSC8VidInputSelect),
    (kRegXptSelectGroup23, kK2RegMaskCSC8VidInputSelect, kK2RegShiftCSC8VidInputSelect),
    (0, 0, 0),
    (0, 0, 0),
    (0, 0, 0),
    (kRegXptSelectGroup27, kK2RegMaskDuallinkOut6InputSelect, kK2RegShiftDuallinkOut6InputSelect),
    (kRegXptSelectGroup27, kK2RegMaskDuallinkOut6InputSelect, kK2RegShiftDuallinkOut6InputSelect),
    (kRegXptSelectGroup27, kK2RegMaskDuallinkOut7InputSelect, kK2RegShiftDuallinkOut7InputSelect),
    (kRegXptSelectGroup27, kK2RegMaskDuallinkOut7InputSelect, kK2RegShiftDuallinkOut7InputSelect),
    (kRegXptSelectGroup27, kK2RegMaskDuallinkOut8InputSelect, kK2RegShiftDuallinkOut8InputSelect),
    (kRegXptSelectGroup27, kK2RegMaskDuallinkOut8InputSelect, kK2RegShiftDuallinkOut8InputSelect),
    (kRegXptSelectGroup32, kK2RegMask425Mux1AInputSelect, kK2RegShift425Mux1AInputSelect),
    (kRegXptSelectGroup32, kK2RegMask425Mux1BInputSelect, kK2RegShift425Mux1BInputSelect),
    (kRegXptSelectGroup32, kK2RegMask425Mux2AInputSelect, kK2RegShift425Mux2AInputSelect),
    (kRegXptSelectGroup32, kK2RegMask425Mux2BInputSelect, kK2RegShift425Mux2BInputSelect),
    (kRegXptSelectGroup33, kK2RegMask425Mux3AInputSelect, kK2RegShift425Mux3AInputSelect),
    (kRegXptSelectGroup33, kK2RegMask425Mux3BInputSelect, kK2RegShift425Mux3BInputSelect),
    (kRegXptSelectGroup33, kK2RegMask425Mux4AInputSelect, kK2RegShift425Mux4AInputSelect),
    (kRegXptSelectGroup33, kK2RegMask425Mux4BInputSelect, kK2RegShift425Mux4BInputSelect),
    (XPT_FB_425_YUV_1, 0, 0),
    (XPT_FB_425_YUV_2, 0, 0),
    (XPT_FB_425_YUV_3, 0, 0),
    (XPT_FB_425_YUV_4, 0, 0),
    (XPT_FB_425_YUV_5, 0, 0),
    (XPT_FB_425_YUV_6, 0, 0),
    (XPT_FB_425_YUV_7, 0, 0),
    (XPT_FB_425_YUV_8, 0, 0),
    (0, 0, 0),
    (0, 0, 0),
    (0, 0, 0),
    (0, 0, 0),
    (0, 0, 0),
    (0, 0, 0),
    (0, 0, 0),
    (0, 0, 0),
    (0, 0, 0),
    (0, 0, 0),
    (0, 0, 0),
    (kRegXptSelectGroup11, kK2RegMaskDuallinkIn1InputSelect, kK2RegShiftDuallinkIn1InputSelect)]"

definition NTV2XptBackTraceTable_hi :: "NTV2XptLookupEntry list" where
  "NTV2XptBackTraceTable_hi =
   [(kRegXptSelectGroup1, kK2RegMaskXptLUTInputSelect, kK2RegShiftXptLUTInputSelect),
    (kRegXptSelectGroup1, kK2RegMaskColorSpaceConverterInputSelect, kK2RegShiftColorSpaceConverterInputSelect),
    (0, 0, 0),
    (0, 0, 0),
    (XPT_FB_RGB_1, 0, 0),
    (0, 0, 0),
    (0, 0, 0),
    (0, 0, 0),
    (0, 0, 0),
    (kRegXptSelectGroup5, kK2RegMaskXptLUT2InputSelect, kK2RegShiftXptLUT2InputSelect),
    (0, 0, 0),
    (XPT_FB_RGB_2, 0, 0),
    (kRegXptSelectGroup5, kK2RegMaskCSC2VidInputSelect, kK2RegShiftCSC2VidInputSelect),
    (0, 0, 0),
    (kRegXptSelectGroup4, kK2RegMaskMixerFGVidInputSelect, kK2RegShiftMixerFGVidInputSelect),
    (0, 0, 0),
    (0, 0, 0),
    (0, 0, 0),
    (0, 0, 0),
    (XPT_HDMI_IN, 0, 0),
    (0, 0, 0),
    (0, 0, 0),
    (0, 0, 0),
    (0, 0, 0),
    (0, 0, 0),
    (0, 0, 0),
    (0, 0, 0),
    (0, 0, 0),
    (0, 0, 0),
    (0, 0, 0),
    (0, 0, 0),
    (0, 0, 0),
    (XPT_FB_RGB_3, 0, 0),
    (XPT_FB_RGB_4, 0, 0),
    (0, 0, 0),
    (0, 0, 0),
    (kRegXptSelectGroup11, kK2RegMaskDuallinkIn2InputSelect, kK2RegShiftDuallinkIn2InputSelect),
    (kRegXptSelectGroup12, kK2RegMaskXptLUT3InputSelect, kK2RegShiftXptLUT3InputSelect),
    (kRegXptSelectGroup12, kK2RegMaskXptLUT4InputSelect, kK2RegShiftXptLUT4InputSelect),
    (kRegXptSelectGroup12, kK2RegMaskXptLUT5InputSelect, kK2RegShiftXptLUT5InputSelect),
    (kRegXptSelectGroup18, kK2RegMaskCSC5VidInputSelect, kK2RegShiftCSC5VidInputSelect),
    (0, 0, 0),
    (0, 0, 0),
    (0, 0, 0),
    (0, 0, 0),
    (0, 0, 0),
    (0, 0, 0),
    (0, 0, 0),
    (kRegXptSelectGroup15, kK2RegMaskDuallinkIn3InputSelect, kK2RegShiftDuallinkIn3InputSelect),
    (kRegXptSelectGroup15, kK2RegMaskDuallinkIn4InputSelect, kK2RegShiftDuallinkIn4InputSelect),
    (0, 0, 0),
    (0, 0, 0),
    (0, 0, 0),
    (0, 0, 0),
    (kRegXptSelectGroup17, kK2RegMaskCSC3VidInputSelect, kK2RegShiftCSC3VidInputSelect),
    (0, 0, 0),
    (kRegXptSelectGroup17, kK2RegMaskCSC4VidInputSelect, kK2RegShiftCSC4VidInputSelect),
    (0, 0, 0),
    (0, 0, 0),
    (0, 0, 0),
    (kRegXptSelectGroup12, kK2RegMaskXpt3DLUT1InputSelect, kK2RegShiftXpt3DLUT1InputSelect),
    (XPT_HDMI_IN_Q2, 0, 0),
    (XPT_HDMI_IN_Q3, 0, 0),
    (XPT_HDMI_IN_Q4, 0, 0),
    (kRegXptSelectGroup19, kK2RegMask4KDCQ1InputSelect, kK2RegShift4KDCQ1InputSelect),
    (0, 0, 0),
    (0, 0, 0),
    (0, 0, 0),
    (0, 0, 0),
    (0, 0, 0),
    (0, 0, 0),
    (0, 0, 0),
    (0, 0, 0),
    (kRegXptSelectGroup25, kK2RegMaskDuallinkIn5InputSelect, kK2RegShiftDuallinkIn5InputSelect),
    (kRegXptSelectGroup25, kK2RegMaskDuallinkIn6InputSelect, kK2RegShiftDuallinkIn6InputSelect),
    (kRegXptSelectGroup26, kK2RegMaskDuallinkIn7InputSelect, kK2RegShiftDuallinkIn7InputSelect),
    (kRegXptSelectGroup26, kK2RegMaskDuallinkIn8InputSelect, kK2RegShiftDuallinkIn8InputSelect),
    (XPT_FB_RGB_5, 0, 0),
    (XPT_FB_RGB_6, 0, 0),
    (XPT_FB_RGB_7, 0, 0),
    (XPT_FB_RGB_8, 0, 0),
    (0, 0, 0),
    (0, 0, 0),
    (0, 0, 0),
    (0, 0, 0),
    (kRegXptSelectGroup30, kK2RegMaskCSC6VidInputSelect, kK2RegShiftCSC6VidInputSelect),
    (0, 0, 0),
    (kRegXptSelectGroup23, kK2RegMaskCSC7VidInputSelect, kK2RegShiftCSC7VidInputSelect),
    (0, 0, 0),
    (kRegXptSelectGroup23, kK2RegMaskCSC8VidInputSelect, kK2RegShiftCSC8VidInputSelect),
    (0, 0, 0),
    (kRegXptSelectGroup24, kK2RegMaskXptLUT6InputSelect, kK2RegShiftXptLUT6InputSelect),
    (kRegXptSelectGroup24, kK2RegMaskXptLUT7InputSelect, kK2RegShiftXptLUT7InputSelect),
    (kRegXptSelectGroup24, kK2RegMaskXptLUT8InputSelect, kK2RegShiftXptLUT8InputSelect),
    (0, 0, 0),
    (0, 0, 0),
    (0, 0, 0),
    (0, 0, 0),
    (0, 0, 0),
    (0, 0, 0),
    (kRegXptSelectGroup32, kK2RegMask425Mux1AInputSelect, kK2RegShift425Mux1AInputSelect),
    (kRegXptSelectGroup32, kK2RegMask425Mux1BInputSelect, kK2RegShift425Mux1BInputSelect),
    (kRegXptSelectGroup32, kK2RegMask425Mux2AInputSelect, kK2RegShift425Mux2AInputSelect),
    (kRegXptSelectGroup32, kK2RegMask425Mux2BInputSelect, kK2RegShift425Mux2BInputSelect),
    (kRegXptSelectGroup33, kK2RegMask425Mux3AInputSelect, kK2RegShift425Mux3AInputSelect),
    (kRegXptSelectGroup33, kK2RegMask425Mux3BInputSelect, kK2RegShift425Mux3BInputSelect),
    (kRegXptSelectGroup33, kK2RegMask425Mux4AInputSelect, kK2RegShift425Mux4AInputSelect),
    (kRegXptSelectGroup33, kK2RegMask425Mux4BInputSelect, kK2RegShift425Mux4BInputSelect),
    (XPT_FB_425_RGB_1, 0, 0),
    (XPT_FB_425_RGB_2, 0, 0),
    (XPT_FB_425_RGB_3, 0, 0),
    (XPT_FB_425_RGB_4, 0, 0),
    (XPT_FB_425_RGB_5, 0, 0),
    (XPT_FB_425_RGB_6, 0, 0),
    (XPT_FB_425_RGB_7, 0, 0),
    (XPT_FB_425_RGB_8, 0, 0),
    (0, 0, 0),
    (0, 0, 0),
    (0, 0, 0),
    (0, 0, 0),
    (0, 0, 0),
    (0, 0, 0),
    (0, 0, 0),
    (0, 0, 0),
    (kRegXptSelectGroup11, kK2RegMaskDuallinkIn1DSInputSelect, kK2RegShiftDuallinkIn1DSInputSelect),
    (kRegXptSelectGroup11, kK2RegMaskDuallinkIn2DSInputSelect, kK2RegShiftDuallinkIn2DSInputSelect),
    (kRegXptSelectGroup15, kK2RegMaskDuallinkIn3DSInputSelect, kK2RegShiftDuallinkIn3DSInputSelect),
    (kRegXptSelectGroup15, kK2RegMaskDuallinkIn4DSInputSelect, kK2RegShiftDuallinkIn4DSInputSelect),
    (kRegXptSelectGroup25, kK2RegMaskDuallinkIn5DSInputSelect, kK2RegShiftDuallinkIn5DSInputSelect),
    (kRegXptSelectGroup25, kK2RegMaskDuallinkIn6DSInputSelect, kK2RegShiftDuallinkIn6DSInputSelect),
    (kRegXptSelectGroup26, kK2RegMaskDuallinkIn7DSInputSelect, kK2RegShiftDuallinkIn7DSInputSelect),
    (kRegXptSelectGroup26, kK2RegMaskDuallinkIn8DSInputSelect, kK2RegShiftDuallinkIn8DSInputSelect)]"

definition NTV2XptBackTraceTable :: "NTV2XptLookupEntry list" where
  "NTV2XptBackTraceTable = NTV2XptBackTraceTable_lo @ NTV2XptBackTraceTable_hi"

text \<open>The output is unsigned, so the lower bound check of the code always holds.\<close>

definition GetCrosspointIDInput :: "u32 \<Rightarrow> NTV2XptLookupEntry" where
  "GetCrosspointIDInput outputXpt =
     (if outputXpt \<ge> 0 \<and> outputXpt \<le> 0x107
      then NTV2XptBackTraceTable ! unat outputXpt
      else NTV2XptBackTraceTable ! 0)"

definition IsXptFrameStore :: "u32 \<Rightarrow> bool" where
  "IsXptFrameStore source =
     (let fs = False
      in if source \<in> {NTV2_XptFrameBuffer1YUV, NTV2_XptFrameBuffer1RGB, NTV2_XptFrameBuffer2YUV, NTV2_XptFrameBuffer2RGB, NTV2_XptFrameBuffer3YUV, NTV2_XptFrameBuffer3RGB, NTV2_XptFrameBuffer4YUV, NTV2_XptFrameBuffer4RGB, NTV2_XptFrameBuffer5YUV, NTV2_XptFrameBuffer5RGB, NTV2_XptFrameBuffer6YUV, NTV2_XptFrameBuffer6RGB, NTV2_XptFrameBuffer7YUV, NTV2_XptFrameBuffer7RGB, NTV2_XptFrameBuffer8YUV, NTV2_XptFrameBuffer8RGB, NTV2_XptFrameBuffer1_DS2YUV, NTV2_XptFrameBuffer1_DS2RGB, NTV2_XptFrameBuffer2_DS2YUV, NTV2_XptFrameBuffer2_DS2RGB, NTV2_XptFrameBuffer3_DS2YUV, NTV2_XptFrameBuffer3_DS2RGB, NTV2_XptFrameBuffer4_DS2YUV, NTV2_XptFrameBuffer4_DS2RGB, NTV2_XptFrameBuffer5_DS2YUV, NTV2_XptFrameBuffer5_DS2RGB, NTV2_XptFrameBuffer6_DS2YUV, NTV2_XptFrameBuffer6_DS2RGB, NTV2_XptFrameBuffer7_DS2YUV, NTV2_XptFrameBuffer7_DS2RGB, NTV2_XptFrameBuffer8_DS2YUV, NTV2_XptFrameBuffer8_DS2RGB}
         then True
         else fs)"

definition GetXptSDIOutInputSelect :: "regs \<Rightarrow> nat \<Rightarrow> bool \<times> u32" where
  "GetXptSDIOutInputSelect r channel =
     (let value = ntv2ReadRegisterMS r (tbl gChannelToSDIOutInSelectRegNum channel) (tbl gChannelToSDIOutInSelectMask channel) (tbl gChannelToSDIOutInSelectShift channel)
      in (True, value))"

definition GetXptSDIOutDS2InputSelect :: "regs \<Rightarrow> nat \<Rightarrow> bool \<times> u32" where
  "GetXptSDIOutDS2InputSelect r channel =
     (let value = ntv2ReadRegisterMS r (tbl gChannelToSDIOutDS2InSelectRegNum channel) (tbl gChannelToSDIOutDS2InSelectMask channel) (tbl gChannelToSDIOutDS2InSelectShift channel)
      in (True, value))"

definition GetXptConversionModInputSelect :: "regs \<Rightarrow> bool \<times> u32" where
  "GetXptConversionModInputSelect r =
     (let value = ntv2ReadRegisterMS r kRegXptSelectGroup1 kK2RegMaskConversionModInputSelect kK2RegShiftConversionModInputSelect
      in (True, value))"

definition GetXptDuallinkInInputSelect :: "regs \<Rightarrow> nat \<Rightarrow> bool \<times> u32" where
  "GetXptDuallinkInInputSelect r channel =
     (let value = ntv2ReadRegisterMS r (tbl gChannelToDLInInputSelectRegNum channel) (tbl gChannelToDLInInputSelectMask channel) (tbl gChannelToDLInInputSelectShift channel)
      in (True, value))"

definition GetXptAnalogOutInputSelect :: "regs \<Rightarrow> bool \<times> u32" where
  "GetXptAnalogOutInputSelect r =
     (let value = ntv2ReadRegisterMS r kRegXptSelectGroup3 kK2RegMaskAnalogOutInputSelect kK2RegShiftAnalogOutInputSelect
      in (True, value))"

definition GetXptFrameBuffer1InputSelect :: "regs \<Rightarrow> bool \<times> u32" where
  "GetXptFrameBuffer1InputSelect r =
     (let value = ntv2ReadRegisterMS r kRegXptSelectGroup2 kK2RegMaskFrameBuffer1InputSelect kK2RegShiftFrameBuffer1InputSelect
      in (True, value))"

definition GetXptFrameBuffer2InputSelect :: "regs \<Rightarrow> bool \<times> u32" where
  "GetXptFrameBuffer2InputSelect r =
     (let value = ntv2ReadRegisterMS r kRegXptSelectGroup5 kK2RegMaskFrameBuffer2InputSelect kK2RegShiftFrameBuffer2InputSelect
      in (True, value))"

definition GetXptHDMIOutInputSelect :: "regs \<Rightarrow> nat \<Rightarrow> bool \<times> u32" where
  "GetXptHDMIOutInputSelect r channel =
     (if channel = NTV2_CHANNEL2
      then (let value = ntv2ReadRegisterMS r kRegXptSelectGroup20 kK2RegMaskHDMIOutV2Q2InputSelect kK2RegShiftHDMIOutV2Q2InputSelect
            in (True, value))
      else if channel = NTV2_CHANNEL3
      then (let value = ntv2ReadRegisterMS r kRegXptSelectGroup20 kK2RegMaskHDMIOutV2Q3InputSelect kK2RegShiftHDMIOutV2Q3InputSelect
            in (True, value))
      else if channel = NTV2_CHANNEL4
      then (let value = ntv2ReadRegisterMS r kRegXptSelectGroup20 kK2RegMaskHDMIOutV2Q4InputSelect kK2RegShiftHDMIOutV2Q4InputSelect
            in (True, value))
      else (let value = ntv2ReadRegisterMS r kRegXptSelectGroup6 kK2RegMaskHDMIOutInputSelect kK2RegShiftHDMIOutInputSelect
            in (True, value)))"

definition GetXptHDMIOutQ2InputSelect :: "regs \<Rightarrow> bool \<times> u32" where
  "GetXptHDMIOutQ2InputSelect r =
     (let value = ntv2ReadRegisterMS r kRegXptSelectGroup20 kK2RegMaskHDMIOutV2Q2InputSelect kK2RegShiftHDMIOutV2Q2InputSelect
      in (True, value))"

definition GetXptHDMIOutQ3InputSelect :: "regs \<Rightarrow> bool \<times> u32" where
  "GetXptHDMIOutQ3InputSelect r =
     (let value = ntv2ReadRegisterMS r kRegXptSelectGroup20 kK2RegMaskHDMIOutV2Q3InputSelect kK2RegShiftHDMIOutV2Q3InputSelect
      in (True, value))"

definition GetXptHDMIOutQ4InputSelect :: "regs \<Rightarrow> bool \<times> u32" where
  "GetXptHDMIOutQ4InputSelect r =
     (let value = ntv2ReadRegisterMS r kRegXptSelectGroup20 kK2RegMaskHDMIOutV2Q4InputSelect kK2RegShiftHDMIOutV2Q4InputSelect
      in (True, value))"

definition SetXptSDIOutInputSelect :: "regs \<Rightarrow> nat \<Rightarrow> u32 \<Rightarrow> regs" where
  "SetXptSDIOutInputSelect r channel value =
     ntv2WriteRegisterMS r (tbl gChannelToSDIOutInSelectRegNum channel) value (tbl gChannelToSDIOutInSelectMask channel) (tbl gChannelToSDIOutInSelectShift channel)"

text \<open>
  The labels at which \<open>FindCrosspointSource\<close> stops, and its loop: \<open>n\<close> is
  \<open>kMaxLoopCount - loopCount\<close>, the number of iterations left. The result is
  \<open>sourceFound\<close> with the last value of \<open>currentXpt\<close>.
\<close>

definition FindCrosspointSource_labels :: "u32 list" where
  "FindCrosspointSource_labels =
     [NTV2_XptSDIIn1, NTV2_XptSDIIn2, NTV2_XptSDIIn3, NTV2_XptSDIIn4, NTV2_XptSDIIn5,
      NTV2_XptSDIIn6, NTV2_XptSDIIn7, NTV2_XptSDIIn8, NTV2_XptSDIIn1DS2, NTV2_XptSDIIn2DS2,
      NTV2_XptSDIIn3DS2, NTV2_XptSDIIn4DS2, NTV2_XptSDIIn5DS2, NTV2_XptSDIIn6DS2,
      NTV2_XptSDIIn7DS2, NTV2_XptSDIIn8DS2, NTV2_XptDuallinkIn1, NTV2_XptDuallinkIn2,
      NTV2_XptDuallinkIn3, NTV2_XptDuallinkIn4, NTV2_XptDuallinkIn5, NTV2_XptDuallinkIn6,
      NTV2_XptDuallinkIn7, NTV2_XptDuallinkIn8, NTV2_XptAnalogIn, NTV2_XptHDMIIn1,
      NTV2_XptHDMIIn1Q2, NTV2_XptHDMIIn1Q3, NTV2_XptHDMIIn1Q4, NTV2_XptHDMIIn1RGB,
      NTV2_XptHDMIIn1Q2RGB, NTV2_XptHDMIIn1Q3RGB, NTV2_XptHDMIIn1Q4RGB,
      NTV2_XptFrameBuffer1YUV, NTV2_XptFrameBuffer1RGB, NTV2_XptFrameBuffer2YUV,
      NTV2_XptFrameBuffer2RGB, NTV2_XptFrameBuffer3YUV, NTV2_XptFrameBuffer3RGB,
      NTV2_XptFrameBuffer4YUV, NTV2_XptFrameBuffer4RGB, NTV2_XptFrameBuffer5YUV,
      NTV2_XptFrameBuffer5RGB, NTV2_XptFrameBuffer6YUV, NTV2_XptFrameBuffer6RGB,
      NTV2_XptFrameBuffer7YUV, NTV2_XptFrameBuffer7RGB, NTV2_XptFrameBuffer8YUV,
      NTV2_XptFrameBuffer8RGB, NTV2_XptFrameBuffer1_DS2YUV, NTV2_XptFrameBuffer1_DS2RGB,
      NTV2_XptFrameBuffer2_DS2YUV, NTV2_XptFrameBuffer2_DS2RGB, NTV2_XptFrameBuffer3_DS2YUV,
      NTV2_XptFrameBuffer3_DS2RGB, NTV2_XptFrameBuffer4_DS2YUV, NTV2_XptFrameBuffer4_DS2RGB,
      NTV2_XptFrameBuffer5_DS2YUV, NTV2_XptFrameBuffer5_DS2RGB, NTV2_XptFrameBuffer6_DS2YUV,
      NTV2_XptFrameBuffer6_DS2RGB, NTV2_XptFrameBuffer7_DS2YUV, NTV2_XptFrameBuffer7_DS2RGB,
      NTV2_XptFrameBuffer8_DS2YUV, NTV2_XptFrameBuffer8_DS2RGB, NTV2_XptBlack,
      NTV2_XptConversionModule, NTV2_Xpt4KDownConverterOut, NTV2_Xpt4KDownConverterOutRGB]"

fun FindCrosspointSource_loop :: "regs \<Rightarrow> nat \<Rightarrow> u32 \<Rightarrow> bool \<times> u32" where
  "FindCrosspointSource_loop r 0 currentXpt = (False, currentXpt)"
| "FindCrosspointSource_loop r (Suc n) currentXpt =
     (if currentXpt = NTV2_XptBlack
      then (False, currentXpt)
      else (let (registerNumber, registerMask, registerShift) = GetCrosspointIDInput currentXpt
            in if currentXpt \<in> set FindCrosspointSource_labels
               then (True, currentXpt)
               else FindCrosspointSource_loop r n
                      (ntv2ReadRegisterMS r registerNumber registerMask registerShift)))"

definition kMaxLoopCount :: nat where
  "kMaxLoopCount = 10"

definition FindCrosspointSource :: "features \<Rightarrow> regs \<Rightarrow> u32 \<Rightarrow> u32 \<Rightarrow> bool \<times> u32" where
  "FindCrosspointSource F r source crosspoint =
     (let deviceID = ntv2ReadRegister r kRegBoardID
      in if \<not> NTV2DeviceNeedsRoutingSetup F deviceID
         then (False, source)
         else (let (sourceFound, currentXpt) = FindCrosspointSource_loop r kMaxLoopCount crosspoint
               in if \<not> sourceFound
                  then (False, source)
                  else (True, currentXpt)))"

definition FindSDIOutputSource :: "features \<Rightarrow> regs \<Rightarrow> u32 \<Rightarrow> nat \<Rightarrow> bool \<times> u32" where
  "FindSDIOutputSource F r source channel =
     (let (_, xptSelect) = GetXptSDIOutInputSelect r channel
      in if (((xptSelect = NTV2_XptMultiLinkOut1DS1) \<or> (xptSelect = NTV2_XptMultiLinkOut1DS2)) \<or> (xptSelect = NTV2_XptMultiLinkOut1DS3)) \<or> (xptSelect = NTV2_XptMultiLinkOut1DS4)
         then (let source = xptSelect
               in (True, source))
         else if xptSelect \<noteq> NTV2_XptConversionModule
         then (let (ok, xptSelect) = FindCrosspointSource F r xptSelect xptSelect
               in if \<not> ok
                  then (False, source)
                  else (let source = xptSelect
                        in (True, source)))
         else (let source = xptSelect
               in (True, source)))"

definition FindAnalogOutputSource :: "features \<Rightarrow> regs \<Rightarrow> u32 \<Rightarrow> bool \<times> u32" where
  "FindAnalogOutputSource F r source =
     (let (_, xptSelect) = GetXptAnalogOutInputSelect r
      in if xptSelect \<noteq> NTV2_XptConversionModule
         then (let (ok, xptSelect) = FindCrosspointSource F r xptSelect xptSelect
               in if \<not> ok
                  then (False, source)
                  else (let source = xptSelect
                        in (True, source)))
         else (let source = xptSelect
               in (True, source)))"

definition FindHDMIOutputSource :: "features \<Rightarrow> regs \<Rightarrow> u32 \<Rightarrow> nat \<Rightarrow> bool \<times> u32" where
  "FindHDMIOutputSource F r source channel =
     (let (_, xptSelect) = GetXptHDMIOutInputSelect r channel
      in if xptSelect \<noteq> NTV2_XptConversionModule
         then (let (ok, xptSelect) = FindCrosspointSource F r xptSelect xptSelect
               in if \<not> ok
                  then (False, source)
                  else (let source = xptSelect
                        in (True, source)))
         else (let source = xptSelect
               in (True, source)))"

end
