(* ===== verification/Ntv2XptTheorems.thy ===== *)
theory Ntv2XptTheorems
  imports Ntv2Xpt Ntv2Example
begin

text \<open>
  The properties of the routing queries of driver/ntv2xpt.c: the search for the source that
  feeds an output follows the crosspoint selects and stops at the first source.
\<close>

text \<open>One step back: the crosspoint that the select register of the widget names.\<close>

definition back_step :: "regs \<Rightarrow> u32 \<Rightarrow> u32" where
  "back_step r x = (case GetCrosspointIDInput x of (n, m, s) \<Rightarrow> ntv2ReadRegisterMS r n m s)"

definition back_path :: "regs \<Rightarrow> nat \<Rightarrow> u32 \<Rightarrow> u32" where
  "back_path r k x = (back_step r ^^ k) x"

lemma back_path_simps: "back_path r 0 x = x" "back_path r (Suc k) x = back_path r k (back_step r x)"
  by (simp_all add: back_path_def funpow_Suc_right del: funpow.simps)

lemma black_is_label: "NTV2_XptBlack \<in> set FindCrosspointSource_labels"
  by (simp add: FindCrosspointSource_labels_def)

lemma loop_step:
  "FindCrosspointSource_loop r (Suc n) x =
    (if x \<in> set FindCrosspointSource_labels then (x \<noteq> NTV2_XptBlack, x)
     else FindCrosspointSource_loop r n (back_step r x))"
  using black_is_label by (auto simp: back_step_def Let_def split: prod.split)

lemma loop_finds:
  "FindCrosspointSource_loop r n x = (True, y) \<longleftrightarrow>
    (\<exists>k<n. y = back_path r k x \<and> y \<in> set FindCrosspointSource_labels \<and> y \<noteq> NTV2_XptBlack \<and>
       (\<forall>j<k. back_path r j x \<notin> set FindCrosspointSource_labels))"
proof (induction n arbitrary: x)
  case (Suc n)
  show ?case
    by (cases "x \<in> set FindCrosspointSource_labels")
      (auto simp del: FindCrosspointSource_loop.simps
        simp: loop_step Suc.IH back_path_simps Ex_less_Suc2 All_less_Suc2)
qed simp

text \<open>C39: the search for the source of a crosspoint always returns, also when the routing is a loop; it
  succeeds exactly when at most nine steps back along the crosspoint selects reach a source
  other than black, with no source in between, and then it returns that source. Otherwise it
  leaves the caller's value.\<close>

theorem crosspoint_source_is_first_on_path:
  assumes "NTV2DeviceNeedsRoutingSetup F (r kRegBoardID)"
  shows "case FindCrosspointSource F r source x of
      (True, y) \<Rightarrow> \<exists>k<10. y = back_path r k x \<and> y \<in> set FindCrosspointSource_labels \<and> y \<noteq> NTV2_XptBlack \<and>
         (\<forall>j<k. back_path r j x \<notin> set FindCrosspointSource_labels)
    | (False, y) \<Rightarrow> y = source \<and> \<not> (\<exists>k<10. back_path r k x \<in> set FindCrosspointSource_labels \<and>
         back_path r k x \<noteq> NTV2_XptBlack \<and> (\<forall>j<k. back_path r j x \<notin> set FindCrosspointSource_labels))"
proof -
  obtain ok y where loop: "FindCrosspointSource_loop r 10 x = (ok, y)" by (cases "FindCrosspointSource_loop r 10 x")
  then have res: "FindCrosspointSource F r source x = (if ok then (True, y) else (False, source))"
    using assms by (simp add: FindCrosspointSource_def kMaxLoopCount_def ntv2ReadRegister_eq)
  show ?thesis
  proof (cases ok)
    case True
    then show ?thesis using loop loop_finds [of r 10 x y] res by simp
  next
    case False
    have "\<not> (\<exists>k<10. back_path r k x \<in> set FindCrosspointSource_labels \<and> back_path r k x \<noteq> NTV2_XptBlack \<and>
        (\<forall>j<k. back_path r j x \<notin> set FindCrosspointSource_labels))"
    proof (clarify, goal_cases)
      case (1 k)
      then have "FindCrosspointSource_loop r 10 x = (True, back_path r k x)"
        by (subst loop_finds) blast
      then show False using loop False by simp
    qed
    then show ?thesis using False res by simp
  qed
qed

theorem crosspoint_source_is_first_on_path_witness:
  "fst (FindCrosspointSource (example_features\<lparr>NTV2DeviceNeedsRoutingSetup := \<lambda>_. True\<rparr>)
     ((\<lambda>_. 0)(kRegXptSelectGroup1 := 0x100)) 0 5)"
proof -
  let ?F = "example_features\<lparr>NTV2DeviceNeedsRoutingSetup := \<lambda>_. True\<rparr>"
  let ?r = "(\<lambda>_. 0)(kRegXptSelectGroup1 := 0x100) :: regs"
  have "back_path ?r 1 5 = NTV2_XptSDIIn1"
    by (simp add: back_path_def back_step_def GetCrosspointIDInput_def NTV2XptBackTraceTable_def
        NTV2XptBackTraceTable_lo_def ntv2ReadRegisterMS_eq)
  then have "\<exists>k<10. back_path ?r k 5 \<in> set FindCrosspointSource_labels \<and> back_path ?r k 5 \<noteq> NTV2_XptBlack \<and>
      (\<forall>j<k. back_path ?r j 5 \<notin> set FindCrosspointSource_labels)"
    by (intro exI [of _ 1]) (simp add: back_path_simps(1) FindCrosspointSource_labels_def)
  then show ?thesis
    using crosspoint_source_is_first_on_path [of ?F ?r 5 0] by (auto split: prod.splits bool.splits)
qed

text \<open>Every crosspoint number has a row of the back-trace table. A row reads one whole byte of its
  select register, or nothing when the crosspoint is a source; so a step back gives a number
  below 256, and the step back from a source gives black.\<close>

theorem back_trace_reads_bytes:
  "case GetCrosspointIDInput x of (n, m, s) \<Rightarrow>
    (m = 0 \<or> s \<in> {0, 8, 16, 24} \<and> m = push_bit s 0xFF) \<and> unat (ntv2ReadRegisterMS r n m s) < 256 \<and>
    (m = 0 \<longrightarrow> ntv2ReadRegisterMS r n m s = NTV2_XptBlack)"
proof -
  have lo: "\<forall>(n, m, s) \<in> set NTV2XptBackTraceTable_lo. m = 0 \<or> s \<in> {0, 8, 16, 24} \<and> m = push_bit s 0xFF"
    by (simp add: NTV2XptBackTraceTable_lo_def)
  have hi: "\<forall>(n, m, s) \<in> set NTV2XptBackTraceTable_hi. m = 0 \<or> s \<in> {0, 8, 16, 24} \<and> m = push_bit s 0xFF"
    by (simp add: NTV2XptBackTraceTable_hi_def)
  have "length NTV2XptBackTraceTable = 264"
    by (simp add: NTV2XptBackTraceTable_def NTV2XptBackTraceTable_lo_def NTV2XptBackTraceTable_hi_def)
  then have "GetCrosspointIDInput x \<in> set NTV2XptBackTraceTable"
    by (auto simp: GetCrosspointIDInput_def word_le_nat_alt)
  then have row: "case GetCrosspointIDInput x of (n, m, s) \<Rightarrow> m = 0 \<or> s \<in> {0, 8, 16, 24} \<and> m = push_bit s 0xFF"
    using lo hi by (auto simp: NTV2XptBackTraceTable_def)
  obtain n m s where x: "GetCrosspointIDInput x = (n, m, s)" by (cases "GetCrosspointIDInput x")
  have "unat (ntv2ReadRegisterMS r n m s) < 256"
  proof (cases "m = 0")
    case False
    then have "m = fld_mask 8 s" using row x by (auto simp: fld_mask_def mask_eq_exp_minus_1)
    then show ?thesis
      using take_bit_u32_less [of 8] unfolding ntv2ReadRegisterMS_eq by (simp only: drop_bit_and_fld_mask) simp
  qed (simp add: ntv2ReadRegisterMS_eq)
  then show ?thesis using row x by (auto simp: ntv2ReadRegisterMS_eq)
qed

theorem back_trace_reads_bytes_witness:
  "unat (ntv2ReadRegisterMS (\<lambda>_. 0xFFFFFFFF) kRegXptSelectGroup1
     kK2RegMaskColorSpaceConverterInputSelect kK2RegShiftColorSpaceConverterInputSelect) < 256"
proof -
  have "GetCrosspointIDInput 5 =
      (kRegXptSelectGroup1, kK2RegMaskColorSpaceConverterInputSelect, kK2RegShiftColorSpaceConverterInputSelect)"
    by (simp add: GetCrosspointIDInput_def NTV2XptBackTraceTable_def NTV2XptBackTraceTable_lo_def)
  then show ?thesis
    using back_trace_reads_bytes [where x = 5 and r = "\<lambda>_. 0xFFFFFFFF"] by simp
qed

end
