(* ===== verification/Spec2Isabelle.thy ===== *)
theory Spec2Isabelle
  imports Ntv2AutoTransferTheorems Ntv2AutoTheorems Ntv2AutoQueue Ntv2AudioTheorems Ntv2FormatTheorems
    Ntv2KonaTheorems Ntv2MailboxTheorems Ntv2StreamTheorems Ntv2TimecodeTheorems Ntv2VideoTheorems Ntv2XptTheorems
begin

text \<open>
  Verification library of the core of the NTV2 driver (src/driver/*.c of libajantv2).

  \<^bold>\<open>The program.\<close> The driver runs an AJA video card. Its core is the circulator,
  \<open>ntv2autocirc.c\<close>: each of 18 crosspoints (eight outputs, eight inputs and two more indices) may
  circulate through a range of frame buffers of the card. An application initialises, starts,
  pauses, flushes and stops a channel through messages (\<open>AutoCircControl\<close>); each video interrupt
  of the channel runs the handler \<open>AutoCirculate\<close>, which moves the channel to its next frame,
  stamps the frame with times, timecodes and audio addresses, and writes the registers for the
  frame; the application fills or reads the frames of the ring through transfers. Around the
  circulator lie the drivers of the parts of a card: frame stores and video formats
  (\<open>ntv2kona.c\<close>), video processing (\<open>ntv2video.c\<close>), audio systems (\<open>ntv2audio.c\<close>), ancillary
  data (\<open>ntv2anc.c\<close>, \<open>ntv2aux.c\<close>), timecode (\<open>ntv2rp188.c\<close>) and signal routing (\<open>ntv2xpt.c\<close>).
  All of them read and write the card's registers. Besides the circulator, an application can stream
  buffers of its memory through a DMA engine: \<open>ntv2stream.c\<close> keeps the queue of a stream, and the
  operations of \<open>linux/ntv2dma.c\<close> drive the engine and its descriptors. A mailbox,
  \<open>ntv2mailbox.c\<close>, exchanges packets of bytes with the processor of the card.

  \<^bold>\<open>The theories.\<close>
  \<^item> \<open>Ntv2Prelude\<close>: the machine types of C, the fact collections, generic lemmas on words and lists.
  \<^item> \<open>Ntv2Constants\<close>, \<open>Ntv2Enums\<close>: register numbers, masks, shifts and enumeration values of the
    SDK headers as input abbreviations; the classification macros of \<open>ntv2enums.h\<close>.
  \<^item> \<open>Ntv2RegisterIO\<close>: the register bank, a total map from register numbers to 32-bit words, and
    the four accessors of \<open>ntv2system.c\<close>; a read or write with a mask and a shift is
    \<open>ReadRegisterMS\<close>, \<open>WriteRegisterMS\<close>. The locale \<open>register_bank\<close> states the laws of the bank.
  \<^item> \<open>Ntv2Features\<close>: the capability table of the devices as a parameter \<open>F\<close> (generated code).
  \<^item> \<open>Ntv2Formats\<close>, \<open>Ntv2Kona\<close>, \<open>Ntv2Sdi\<close>: \<open>ntv2kona.c\<close>, the pure maps between formats, standards,
    rates and crosspoints, the registers of a channel, and the SDI outputs and detection.
  \<^item> \<open>Ntv2Video\<close>, \<open>Ntv2Audio\<close>, \<open>Ntv2Anc\<close>, \<open>Ntv2Aux\<close>, \<open>Ntv2Rp188\<close>, \<open>Ntv2Xpt\<close>: the files of the same names.
  \<^item> \<open>Ntv2AutoTypes\<close>: the state of the circulator (\<open>ntv2autocirc.h\<close>): \<open>NTV2AutoCirc\<close> is a record of
    the register bank, the device id and the 18 channels; a channel is the record
    \<open>INTERNAL_AUTOCIRCULATE_STRUCT\<close> with its 512 frame stamps.
  \<^item> \<open>Ntv2AutoSetup\<close>, \<open>Ntv2AutoRing\<close>, \<open>Ntv2AutoInit\<close>, \<open>Ntv2AutoControl\<close>, \<open>Ntv2AutoIsr\<close>: the operations
    of \<open>ntv2autocirc.c\<close>: the set-up of the registers for a frame, the arithmetic of the ring and
    the searches for a frame, the initialisation, the messages, and the interrupt handler.
  \<^item> \<open>Ntv2AutoTransfer\<close>, \<open>Ntv2AutoStatus\<close>: the transfer of a frame (\<open>AutoCircTransfer\<close> and its
    helpers) and the requests for the status and for the stamp of a frame. The DMA and the
    peer-to-peer aperture, which \<open>ntv2autofunc.h\<close> leaves to the device driver, are the record
    \<open>dma_env\<close>, a parameter; a DMA takes the circulator and returns the one that the interrupts
    during the DMA leave.
  \<^item> \<open>Ntv2Stream\<close>: \<open>ntv2stream.c\<close>. A stream is the record \<open>ntv2_stream\<close>, a ring of 256 buffers with
    its indices; the engine is the field \<open>dma_engine\<close> of any type, behind the ten operations of
    the record \<open>stream_ops\<close>, as in C. \<open>Ntv2StreamDma\<close>: the operations of \<open>linux/ntv2dma.c\<close> on the state
    \<open>stream_engine\<close>: descriptors, registers, and the locked page buffers of the applications.
  \<^item> \<open>Ntv2Mailbox\<close>: \<open>ntv2mailbox.c\<close> and its message \<open>DoMessageMailBuffer\<close> of \<open>linux/ntv2driver.c\<close>. The
    queues of the hardware, the clock and the copies from and to the application are the record
    \<open>mailbox_env\<close>, a parameter.

  A C function that changes state returns the changed state. A C function that may access an
  array out of its bounds, or loop for ever, returns an \<open>option\<close>, and None stands for the
  undefined access: the theorems prove where the result is Some. Status codes are the values of
  \<open>Ntv2Status\<close>. Words wrap at their width; signed C integers whose values the code bounds are
  integers, cast by \<open>s32\<close> where the code converts. The time and the audio clock at a step are
  arguments of the step.

  \<^bold>\<open>The lemmas.\<close>
  \<^item> \<open>Ntv2Virtual\<close>: the operations on the hardware leave the virtual registers alone.
  \<^item> \<open>Ntv2AutoInvariant\<close>: the invariant \<open>circ_ok\<close> (a circulating channel has a range within the
    512 stamps and uses only frames of the range; a gang stays within the array), and the
    locale \<open>gang_op\<close>: the contract of an operation on the gang of a channel. \<open>Ntv2AutoGang\<close>,
    \<open>Ntv2AutoFlush\<close> and \<open>Ntv2AutoPreroll\<close> interpret it on the messages and prove the loops of
    flush to end.
  \<^item> \<open>Ntv2AutoInitInv\<close>: when \<open>AutoCircInit\<close> succeeds, and that it establishes the invariant.
  \<^item> \<open>Ntv2AutoIsrInv\<close>, \<open>Ntv2AutoInterrupt\<close>: the interrupt handler, branch by branch.
  \<^item> \<open>Ntv2AutoTransferInv\<close>: a transfer keeps the invariant, for every DMA during which only
    interrupts happen. \<open>Ntv2AutoTransferOne\<close>: the effect of a transfer without interrupts.
  \<^item> \<open>Ntv2AutoMachine\<close>: the state machine of messages, interrupts and transfers, with
    reachability and the invariant by rule induction.
  \<^item> \<open>Ntv2Example\<close>, \<open>Ntv2AutoExample\<close>: the concrete circulators of the witnesses.
  \<^item> \<open>Ntv2AutoTheorems\<close>, \<open>Ntv2AutoOps\<close>, \<open>Ntv2AutoQueue\<close>: the properties of the circulator: no
    undefined access and all frames in the ring in every reachable state; an interrupt never
    records over an unread frame nor plays an empty one; start, stop, abort, pause, flush,
    preroll and init do what the messages promise; the buffer level is the length of the queue.
  \<^item> \<open>Ntv2AutoTransferTheorems\<close>: a transfer of a capture hands over the first captured frame and
    frees it; a transfer to a playback refines the operation of an abstract queue that appends
    (\<open>play_queue\<close>); a transfer without a frame, or with a failed DMA, leaves the queue.
  \<^item> \<open>Ntv2StreamRing\<close>, \<open>Ntv2StreamClient\<close>: the ring as a list of cookies, the invariant \<open>stream_ok\<close>, and
    the locale \<open>stream_provider\<close>, the contract of an engine, with what every operation on a stream
    does under it. \<open>Ntv2StreamDmaOps\<close> interprets it on the Linux operations. \<open>Ntv2StreamPages\<close> extends
    the contract by an invariant of the engine and interprets it on \<open>pages_held\<close>, the references to
    page buffers. \<open>Ntv2StreamRun\<close>: the runs of a stream, with both invariants by rule induction.
  \<^item> \<open>Ntv2StreamExample\<close>, \<open>Ntv2StreamTheorems\<close>: a stream is a first-in first-out queue whose memory stays
    locked, its operations return, an interrupt moves to the next buffer; and three behaviours that
    the code does not mean: a started buffer can be released before the first interrupt, a stream
    without buffers starts, and the timeout of a wait is reported as success.
  \<^item> \<open>Ntv2MailboxQueue\<close>: the words that the packets of a mailbox send and take, for hardware that satisfies
    \<open>sends_to\<close> and \<open>takes_from\<close>. \<open>Ntv2MailboxClock\<close>: its loops return when the clock runs
    (\<open>clock_runs\<close>). \<open>Ntv2MailboxTheorems\<close>: a packet is sent in order and received as sent, and
    the messages that overrun the buffers of a mailbox are exactly those with a negative channel or with
    a data size above 4096.
  \<^item> \<open>Ntv2KonaTheorems\<close>, \<open>Ntv2AudioTheorems\<close>, \<open>Ntv2FormatTheorems\<close>, \<open>Ntv2TimecodeTheorems\<close>,
    \<open>Ntv2VideoTheorems\<close>, \<open>Ntv2XptTheorems\<close>: the properties of the other parts. The fields of a
    register are instances of the locale \<open>reg_field\<close>, the steps around the ring of the locale
    of \<open>Ntv2AutoRing\<close>.

  \<^bold>\<open>Bounds.\<close> The routing search follows at most ten hops, as the C loop does (\<open>kMaxLoopCount\<close>).
  The loops of flush are \<open>partial_function\<close>s and are proved to return when the active frame is
  in the ring. A gang has at most 16 channels, a channel 512 frame stamps. The loops of a stream are
  \<open>partial_function\<close>s too, and are proved to return on every stream that satisfies \<open>stream_ok\<close>; the
  ring of a stream has 256 slots, of which 255 hold buffers. The packets of a mailbox wait in a
  \<open>partial_function\<close> for the hardware until their timeout, and return when the delay is not zero.

  \<^bold>\<open>Not modelled.\<close> The DMA of frames, HDMI, genlock, VPID and raster drivers, the Linux kernel
  glue (special registers, locks, interrupt dispatch, its own older circulator), the C++ SDK, demos and tools, and third-party code. The tests for
  null handles have no counterpart where the caller always passes a structure.
\<close>

end
